(* ===== verification/Bvb_Prelude.thy ===== *)
theory Bvb_Prelude
  imports Main "HOL-Library.Word"
begin

unbundle bit_operations_syntax

section \<open>Shared vocabulary of the development\<close>

text \<open>
  What every component of the bridge uses: the fixed-width C integers, the errno values the
  functions return, the result type of a fallible C function, the treatment of pointer
  arguments that may be NULL, and the generic lemmas on lists, words and sums that carry the
  component proofs.

  A C function \<^verbatim>\<open>int f(T *out, const S *in)\<close> that returns 0 and fills \<^verbatim>\<open>*out\<close>, or
  returns \<^verbatim>\<open>-EXXX\<close>, becomes a HOL function into \<open>errno + T\<close>: \<open>Inr\<close> the filled
  object, \<open>Inl EXXX\<close> the error. A pointer argument is an \<open>option\<close>: \<open>None\<close> is NULL,
  \<open>Some x\<close> a pointer to an object whose contents are \<open>x\<close>. What a failed call leaves in the
  caller's output object is not observed by any caller and not part of the model, except where
  a definition says so.
\<close>

named_theorems wire_simps \<open>reading back what was written into a byte buffer\<close>

type_synonym u8 = "8 word"
type_synonym u16 = "16 word"
type_synonym u32 = "32 word"
type_synonym u64 = "64 word"
type_synonym i32 = "32 word" \<comment> \<open>\<^verbatim>\<open>int32_t\<close>, read with \<open>sint\<close>\<close>
type_synonym bytes = "u8 list"

subsection \<open>Error codes\<close>

datatype errno =
    ENOENT | EIO | EAGAIN | EACCES | EBUSY | EEXIST | ENODEV | EINVAL | ENOSPC | ERANGE
  | EPROTO | EOVERFLOW | EMSGSIZE | ENOTSUP | ETIMEDOUT | ESTALE
  | EPERM | EINTR | ENOTDIR | EPIPE | ENAMETOOLONG | EPROTONOSUPPORT | EADDRINUSE | ECONNRESET | ENOMEM
  | E2BIG | EALREADY | EBADF | EBADMSG | ECANCELED | ENOTCONN | EDEADLK | ENOSYS | ENXIO | ECONNREFUSED

text \<open>The numeric values are those of Linux, which both sides of the bridge run on.\<close>

fun errno_code :: "errno \<Rightarrow> int" where
  "errno_code ENOENT = 2"
| "errno_code EIO = 5"
| "errno_code EAGAIN = 11"
| "errno_code EACCES = 13"
| "errno_code EBUSY = 16"
| "errno_code EEXIST = 17"
| "errno_code ENODEV = 19"
| "errno_code EINVAL = 22"
| "errno_code ENOSPC = 28"
| "errno_code ERANGE = 34"
| "errno_code EPROTO = 71"
| "errno_code EOVERFLOW = 75"
| "errno_code EMSGSIZE = 90"
| "errno_code ENOTSUP = 95"
| "errno_code ETIMEDOUT = 110"
| "errno_code ESTALE = 116"
| "errno_code EPERM = 1"
| "errno_code EINTR = 4"
| "errno_code ENOTDIR = 20"
| "errno_code EPIPE = 32"
| "errno_code ENAMETOOLONG = 36"
| "errno_code EPROTONOSUPPORT = 93"
| "errno_code EADDRINUSE = 98"
| "errno_code ECONNRESET = 104"
| "errno_code ENOMEM = 12"
| "errno_code E2BIG = 7"
| "errno_code EALREADY = 114"
| "errno_code EBADF = 9"
| "errno_code EBADMSG = 74"
| "errno_code ECANCELED = 125"
| "errno_code ENOTCONN = 107"
| "errno_code EDEADLK = 35"
| "errno_code ENOSYS = 38"
| "errno_code ENXIO = 6"
| "errno_code ECONNREFUSED = 111"

text \<open>
  A C \<^verbatim>\<open>int\<close> status that may also carry a peer's failure code is an \<open>int\<close>:
  0 for success, \<open>neg e\<close> for \<^verbatim>\<open>-e\<close>.
\<close>

definition neg :: "errno \<Rightarrow> int" where
  "neg e = - errno_code e"

lemma errno_code_pos: "0 < errno_code e"
  by (cases e) simp_all

lemma neg_less_0 [simp]: "neg e < 0"
  by (simp add: neg_def errno_code_pos)

lemma neg_neq_0 [simp]: "neg e \<noteq> 0" "0 \<noteq> neg e"
  using neg_less_0 [of e] by linarith+

lemma neg_inject [simp]: "neg a = neg b \<longleftrightarrow> a = b"
  by (cases a; cases b) (simp_all add: neg_def)

type_synonym 'a result = "errno + 'a"

subsection \<open>Pointer arguments\<close>

text \<open>
  Every entry point opens with \<^verbatim>\<open>if (p == NULL || q == NULL || ...) return -EINVAL;\<close>.
  The combinators dereference their arguments and return \<open>EINVAL\<close> when one is NULL.
\<close>

definition nonnull1 :: "'a option \<Rightarrow> ('a \<Rightarrow> 'c result) \<Rightarrow> 'c result" where
  "nonnull1 p f = (case p of None \<Rightarrow> Inl EINVAL | Some a \<Rightarrow> f a)"

definition nonnull2 ::
  "'a option \<Rightarrow> 'b option \<Rightarrow> ('a \<Rightarrow> 'b \<Rightarrow> 'c result) \<Rightarrow> 'c result" where
  "nonnull2 p q f = (case p of None \<Rightarrow> Inl EINVAL
     | Some a \<Rightarrow> (case q of None \<Rightarrow> Inl EINVAL | Some b \<Rightarrow> f a b))"

lemma nonnull1_simps [simp]:
  "nonnull1 None f = Inl EINVAL"
  "nonnull1 (Some a) f = f a"
  by (simp_all add: nonnull1_def)

lemma nonnull2_simps [simp]:
  "nonnull2 None q g = Inl EINVAL"
  "nonnull2 p None g = Inl EINVAL"
  "nonnull2 (Some a) (Some b) g = g a b"
  by (simp_all add: nonnull2_def split: option.splits)

subsection \<open>Generic lemmas\<close>

lemma if_Inl_eq_Inr [simp]:
  "((if c then Inl e else x) = Inr y) \<longleftrightarrow> \<not> c \<and> x = Inr y"
  by simp

lemma map_sum_if:
  "map_sum f g (if c then a else b) = (if c then map_sum f g a else map_sum f g b)"
  by simp

lemma take_append_exact: "length xs = n \<Longrightarrow> take n (xs @ ys) = xs"
  by simp

lemma ucast_and_ff16 [simp]: "(ucast ((v :: u16) AND 0xff) :: u8) = ucast v"
proof -
  have "v AND 0xff = take_bit 8 v" by (simp add: take_bit_eq_mask mask_eq_exp_minus_1)
  then show ?thesis by (auto intro!: bit_word_eqI simp: bit_simps)
qed

lemma ucast_and_ff32 [simp]: "(ucast ((v :: u32) AND 0xff) :: u8) = ucast v"
proof -
  have "v AND 0xff = take_bit 8 v" by (simp add: take_bit_eq_mask mask_eq_exp_minus_1)
  then show ?thesis by (auto intro!: bit_word_eqI simp: bit_simps)
qed

lemma take_bit_eq_self_unat: "take_bit n w = w \<longleftrightarrow> unat w < 2 ^ n"
  for w :: "'a::len word"
  by (metis take_bit_nat_eq_self_iff unsigned_take_bit_eq word_unat_eq_iff)

text \<open>A word below \<open>2 ^ n\<close> has no bit at or above \<open>n\<close>.\<close>

lemma bit_small: "unat w < 2 ^ n \<Longrightarrow> bit w i \<Longrightarrow> i < n" for w :: "'a::len word"
  by (metis bit_take_bit_iff take_bit_eq_self_unat)

lemma u8_less: "unat (b :: u8) < 256"
proof -
  have "unat b < 2 ^ LENGTH(8)" by (rule unsigned_less)
  then show ?thesis by simp
qed

lemma u32_less: "unat (w :: u32) < 4294967296"
proof -
  have "unat w < 2 ^ LENGTH(32)" by (rule unsigned_less)
  then show ?thesis by simp
qed

text \<open>Incrementing a counter below its maximum does not wrap.\<close>

lemma unat_Suc32: "x \<noteq> 0xffffffff \<Longrightarrow> unat (x + 1) = unat x + 1" for x :: u32
proof -
  assume "x \<noteq> 0xffffffff"
  then have "unat x \<noteq> 4294967295" by (simp add: word_unat_eq_iff)
  then show ?thesis using u32_less [of x] by (simp add: unat_word_ariths)
qed

lemma unat_word_eq_0_iff: "unat w = 0 \<longleftrightarrow> w = 0"
  by (simp add: unat_eq_zero)

text \<open>Walking once round a ring from any start meets every slot.\<close>

lemma probe_covers: "s < cap \<Longrightarrow> \<exists>j < cap. s = (h + j) mod cap" for cap :: nat
proof -
  assume s: "s < cap"
  let ?j = "(s + cap - h mod cap) mod cap"
  have "(h + ?j) mod cap = (h + (s + cap - h mod cap)) mod cap"
    by (rule mod_add_right_eq)
  also have "\<dots> = (h mod cap + (s + cap - h mod cap)) mod cap"
    by (rule mod_add_left_eq [symmetric])
  also have "h mod cap + (s + cap - h mod cap) = s + cap"
    using s mod_less_divisor [of cap h] by linarith
  finally have "s = (h + ?j) mod cap" using s by simp
  moreover have "?j < cap" using s by simp
  ultimately show ?thesis by blast
qed

lemma all_range_Suc:
  "(\<forall>j. k \<le> j \<longrightarrow> j < k + Suc n \<longrightarrow> P j) \<longleftrightarrow> P k \<and> (\<forall>j. k + 1 \<le> j \<longrightarrow> j < k + 1 + n \<longrightarrow> P j)"
proof (intro iffI conjI allI impI)
  fix j assume a: "P k \<and> (\<forall>j. k + 1 \<le> j \<longrightarrow> j < k + 1 + n \<longrightarrow> P j)" and "k \<le> j" "j < k + Suc n"
  then show "P j" by (cases "j = k") auto
qed auto

text \<open>A counting loop that checks every index.\<close>

lemma list_all_upt: "list_all P [0..<n] \<longleftrightarrow> (\<forall>i < n. P i)"
  by (auto simp: list_all_iff)

lemma list_ex_upt: "list_ex P [0..<n] \<longleftrightarrow> (\<exists>i < n. P i)"
  by (auto simp: list_ex_iff)

end
