(* ===== verification/Bvb_Wire.thy ===== *)
theory Bvb_Wire
  imports Bvb_Prelude
begin

unbundle bit_operations_syntax

section \<open>Little-endian byte buffers\<close>

text \<open>
  The byte-level primitives every encoder and decoder of the bridge is built from
  (\<^verbatim>\<open>bvb_wire_put_*\<close> and \<^verbatim>\<open>bvb_wire_get_*\<close> of src/src/protocol.c; src/src/lifecycle.c,
  src/src/command_batch.c and the other wire modules repeat them as static functions), with
  \<^verbatim>\<open>memset\<close> and \<^verbatim>\<open>memcpy\<close> on a buffer. A buffer is the list of its bytes and an address into
  it a \<open>nat\<close> offset; \<^verbatim>\<open>output + 4\<close> is the offset 4.

  The lemmas in \<open>wire_simps\<close> read back what was written: the value itself at the same
  offset, what was there before at a disjoint one. With the offsets as numerals the simplifier
  decides which applies, so a codec's round trip is one call.
\<close>

subsection \<open>Writing and reading integers\<close>

definition put_u8 :: "bytes \<Rightarrow> nat \<Rightarrow> u8 \<Rightarrow> bytes" where
  "put_u8 output at v = output[at := v]"

definition put_u16 :: "bytes \<Rightarrow> nat \<Rightarrow> u16 \<Rightarrow> bytes" where
  "put_u16 output at v = output
     [at := ucast (v AND 0xff),
      at + 1 := ucast (drop_bit 8 v)]"

definition put_u32 :: "bytes \<Rightarrow> nat \<Rightarrow> u32 \<Rightarrow> bytes" where
  "put_u32 output at v = output
     [at := ucast (v AND 0xff),
      at + 1 := ucast (drop_bit 8 v AND 0xff),
      at + 2 := ucast (drop_bit 16 v AND 0xff),
      at + 3 := ucast (drop_bit 24 v)]"

definition put_i32 :: "bytes \<Rightarrow> nat \<Rightarrow> i32 \<Rightarrow> bytes" where
  "put_i32 output at v = put_u32 output at v"

definition put_u64 :: "bytes \<Rightarrow> nat \<Rightarrow> u64 \<Rightarrow> bytes" where
  "put_u64 output at v =
     put_u32 (put_u32 output at (ucast v)) (at + 4) (ucast (drop_bit 32 v))"

definition get_u8 :: "bytes \<Rightarrow> nat \<Rightarrow> u8" where
  "get_u8 input at = input ! at"

definition get_u16 :: "bytes \<Rightarrow> nat \<Rightarrow> u16" where
  "get_u16 input at = ucast (input ! at) OR push_bit 8 (ucast (input ! (at + 1)))"

definition get_u32 :: "bytes \<Rightarrow> nat \<Rightarrow> u32" where
  "get_u32 input at =
     ucast (input ! at) OR push_bit 8 (ucast (input ! (at + 1))) OR
     push_bit 16 (ucast (input ! (at + 2))) OR push_bit 24 (ucast (input ! (at + 3)))"

definition get_i32 :: "bytes \<Rightarrow> nat \<Rightarrow> i32" where
  "get_i32 input at = get_u32 input at"

definition get_u64 :: "bytes \<Rightarrow> nat \<Rightarrow> u64" where
  "get_u64 input at =
     ucast (get_u32 input at) OR push_bit 32 (ucast (get_u32 input (at + 4)))"

definition memset0 :: "bytes \<Rightarrow> nat \<Rightarrow> nat \<Rightarrow> bytes" where
  "memset0 output at n = take at output @ replicate n 0 @ drop (at + n) output"

definition memcpy :: "bytes \<Rightarrow> nat \<Rightarrow> bytes \<Rightarrow> nat \<Rightarrow> bytes" where
  "memcpy output at src n = take at output @ take n src @ drop (at + n) output"

definition get_bytes :: "bytes \<Rightarrow> nat \<Rightarrow> nat \<Rightarrow> bytes" where
  "get_bytes input at n = take n (drop at input)"

lemmas put_defs = put_u8_def put_u16_def put_u32_def put_i32_def put_u64_def
lemmas get_defs = get_u8_def get_u16_def get_u32_def get_i32_def get_u64_def

subsection \<open>Lengths\<close>

lemma length_put [simp]:
  "length (put_u8 b i v8) = length b"
  "length (put_u16 b i v16) = length b"
  "length (put_u32 b i v32) = length b"
  "length (put_i32 b i v32) = length b"
  "length (put_u64 b i v64) = length b"
  by (simp_all add: put_defs)

lemma length_memset0 [simp]: "at + n \<le> length b \<Longrightarrow> length (memset0 b at n) = length b"
  by (simp add: memset0_def)

lemma length_memcpy [simp]:
  "at + n \<le> length b \<Longrightarrow> n \<le> length src \<Longrightarrow> length (memcpy b at src n) = length b"
  by (simp add: memcpy_def)

lemma length_get_bytes [simp]: "at + n \<le> length b \<Longrightarrow> length (get_bytes b at n) = n"
  by (simp add: get_bytes_def)

lemma memset0_all [wire_simps]: "length b = n \<Longrightarrow> memset0 b 0 n = replicate n 0"
  by (simp add: memset0_def)

lemma get_replicate [wire_simps]:
  "j + 1 \<le> n \<Longrightarrow> get_u8 (replicate n 0) j = 0"
  "j + 2 \<le> n \<Longrightarrow> get_u16 (replicate n 0) j = 0"
  "j + 4 \<le> n \<Longrightarrow> get_u32 (replicate n 0) j = 0"
  "j + 8 \<le> n \<Longrightarrow> get_u64 (replicate n 0) j = 0"
  by (simp_all add: get_defs)

subsection \<open>Byte-level frame: a write changes only its own bytes\<close>

lemma nth_put_u8: "k \<noteq> i \<Longrightarrow> put_u8 b i v ! k = b ! k"
  by (simp add: put_u8_def)

lemma nth_put_u16: "k < i \<or> i + 2 \<le> k \<Longrightarrow> put_u16 b i v ! k = b ! k"
  by (auto simp: put_u16_def)

lemma nth_put_u32: "k < i \<or> i + 4 \<le> k \<Longrightarrow> put_u32 b i v ! k = b ! k"
  by (auto simp: put_u32_def)

lemma nth_put_u64: "k < i \<or> i + 8 \<le> k \<Longrightarrow> put_u64 b i v ! k = b ! k"
  by (auto simp: put_u64_def nth_put_u32)

lemma nth_memset0_in: "at \<le> k \<Longrightarrow> k < at + n \<Longrightarrow> at \<le> length b \<Longrightarrow> memset0 b at n ! k = 0"
  by (auto simp: memset0_def nth_append min_def)

lemma nth_memset0_out:
  "k < at \<or> at + n \<le> k \<Longrightarrow> at + n \<le> length b \<Longrightarrow> memset0 b at n ! k = b ! k"
  by (cases "at = length b") (auto simp: memset0_def nth_append)

lemma nth_memcpy_out:
  "k < at \<or> at + n \<le> k \<Longrightarrow> at + n \<le> length b \<Longrightarrow> n \<le> length src \<Longrightarrow>
   memcpy b at src n ! k = b ! k"
  by (cases "at = length b") (auto simp: memcpy_def nth_append)

lemmas nth_put = nth_put_u8 nth_put_u16 nth_put_u32 nth_put_u64 nth_memset0_in
  nth_memset0_out nth_memcpy_out

subsection \<open>Reading back the same field\<close>

lemma get_put_u8 [wire_simps]: "i < length b \<Longrightarrow> get_u8 (put_u8 b i v) i = v"
  by (simp add: get_u8_def put_u8_def)

text \<open>The bytes of a little-endian integer, put back together.\<close>

lemma u16_of_bytes: "ucast (ucast v :: u8) OR push_bit 8 (ucast (ucast (drop_bit 8 v) :: u8)) = (v :: u16)"
proof (rule bit_word_eqI)
  fix n assume "n < LENGTH(16)"
  then show "bit (ucast (ucast v :: u8) OR push_bit 8 (ucast (ucast (drop_bit 8 v) :: u8)) :: u16) n = bit v n"
    by (cases "n < 8") (auto simp: bit_simps)
qed

lemma u32_of_bytes:
  "ucast (ucast v :: u8) OR push_bit 8 (ucast (ucast (drop_bit 8 v) :: u8)) OR
   push_bit 16 (ucast (ucast (drop_bit 16 v) :: u8)) OR
   push_bit 24 (ucast (ucast (drop_bit 24 v) :: u8)) = (v :: u32)" (is "?l = v")
proof (rule bit_word_eqI)
  fix n assume n: "n < LENGTH(32)"
  consider "n < 8" | "8 \<le> n" "n < 16" | "16 \<le> n" "n < 24" | "24 \<le> n" by linarith
  then show "bit ?l n = bit v n"
    using n by cases (auto simp: bit_simps)
qed

lemma u64_of_u32: "ucast (ucast v :: u32) OR push_bit 32 (ucast (ucast (drop_bit 32 v) :: u32)) = (v :: u64)"
  (is "?l = v")
proof (rule bit_word_eqI)
  fix n assume "n < LENGTH(64)"
  then show "bit ?l n = bit v n"
    by (cases "n < 32") (auto simp: bit_simps)
qed

lemma get_put_u16 [wire_simps]: "i + 2 \<le> length b \<Longrightarrow> get_u16 (put_u16 b i v) i = v"
  by (simp add: get_u16_def put_u16_def u16_of_bytes)

lemma get_put_u32 [wire_simps]: "i + 4 \<le> length b \<Longrightarrow> get_u32 (put_u32 b i v) i = v"
  by (simp add: get_u32_def put_u32_def u32_of_bytes)

text \<open>A signed field is the unsigned one read at another type.\<close>

lemmas i32_field [wire_simps] = put_i32_def get_i32_def

subsection \<open>Reading a disjoint field\<close>

lemma get_u8_put_other [wire_simps]:
  "i + 1 \<le> j \<or> j + 1 \<le> i \<Longrightarrow> get_u8 (put_u8 b i v8) j = get_u8 b j"
  "i + 2 \<le> j \<or> j + 1 \<le> i \<Longrightarrow> get_u8 (put_u16 b i v16) j = get_u8 b j"
  "i + 4 \<le> j \<or> j + 1 \<le> i \<Longrightarrow> get_u8 (put_u32 b i v32) j = get_u8 b j"
  "i + 8 \<le> j \<or> j + 1 \<le> i \<Longrightarrow> get_u8 (put_u64 b i v64) j = get_u8 b j"
  "i + n \<le> j \<or> j + 1 \<le> i \<Longrightarrow> i + n \<le> length b \<Longrightarrow> n \<le> length src \<Longrightarrow>
   get_u8 (memcpy b i src n) j = get_u8 b j"
  "i + n \<le> j \<or> j + 1 \<le> i \<Longrightarrow> i + n \<le> length b \<Longrightarrow>
   get_u8 (memset0 b i n) j = get_u8 b j"
  "i \<le> j \<Longrightarrow> j + 1 \<le> i + n \<Longrightarrow> i \<le> length b \<Longrightarrow> get_u8 (memset0 b i n) j = 0"
  by (auto simp: get_defs put_i32_def nth_put)

lemma get_u16_put_other [wire_simps]:
  "i + 1 \<le> j \<or> j + 2 \<le> i \<Longrightarrow> get_u16 (put_u8 b i v8) j = get_u16 b j"
  "i + 2 \<le> j \<or> j + 2 \<le> i \<Longrightarrow> get_u16 (put_u16 b i v16) j = get_u16 b j"
  "i + 4 \<le> j \<or> j + 2 \<le> i \<Longrightarrow> get_u16 (put_u32 b i v32) j = get_u16 b j"
  "i + 8 \<le> j \<or> j + 2 \<le> i \<Longrightarrow> get_u16 (put_u64 b i v64) j = get_u16 b j"
  "i + n \<le> j \<or> j + 2 \<le> i \<Longrightarrow> i + n \<le> length b \<Longrightarrow> n \<le> length src \<Longrightarrow>
   get_u16 (memcpy b i src n) j = get_u16 b j"
  "i + n \<le> j \<or> j + 2 \<le> i \<Longrightarrow> i + n \<le> length b \<Longrightarrow>
   get_u16 (memset0 b i n) j = get_u16 b j"
  "i \<le> j \<Longrightarrow> j + 2 \<le> i + n \<Longrightarrow> i \<le> length b \<Longrightarrow> get_u16 (memset0 b i n) j = 0"
  by (auto simp: get_defs put_i32_def nth_put)

lemma get_u32_put_other [wire_simps]:
  "i + 1 \<le> j \<or> j + 4 \<le> i \<Longrightarrow> get_u32 (put_u8 b i v8) j = get_u32 b j"
  "i + 2 \<le> j \<or> j + 4 \<le> i \<Longrightarrow> get_u32 (put_u16 b i v16) j = get_u32 b j"
  "i + 4 \<le> j \<or> j + 4 \<le> i \<Longrightarrow> get_u32 (put_u32 b i v32) j = get_u32 b j"
  "i + 8 \<le> j \<or> j + 4 \<le> i \<Longrightarrow> get_u32 (put_u64 b i v64) j = get_u32 b j"
  "i + n \<le> j \<or> j + 4 \<le> i \<Longrightarrow> i + n \<le> length b \<Longrightarrow> n \<le> length src \<Longrightarrow>
   get_u32 (memcpy b i src n) j = get_u32 b j"
  "i + n \<le> j \<or> j + 4 \<le> i \<Longrightarrow> i + n \<le> length b \<Longrightarrow>
   get_u32 (memset0 b i n) j = get_u32 b j"
  "i \<le> j \<Longrightarrow> j + 4 \<le> i + n \<Longrightarrow> i \<le> length b \<Longrightarrow> get_u32 (memset0 b i n) j = 0"
  by (auto simp: get_defs put_i32_def nth_put)

lemma get_u64_put_other [wire_simps]:
  "i + 1 \<le> j \<or> j + 8 \<le> i \<Longrightarrow> get_u64 (put_u8 b i v8) j = get_u64 b j"
  "i + 2 \<le> j \<or> j + 8 \<le> i \<Longrightarrow> get_u64 (put_u16 b i v16) j = get_u64 b j"
  "i + 4 \<le> j \<or> j + 8 \<le> i \<Longrightarrow> get_u64 (put_u32 b i v32) j = get_u64 b j"
  "i + 8 \<le> j \<or> j + 8 \<le> i \<Longrightarrow> get_u64 (put_u64 b i v64) j = get_u64 b j"
  "i + n \<le> j \<or> j + 8 \<le> i \<Longrightarrow> i + n \<le> length b \<Longrightarrow> n \<le> length src \<Longrightarrow>
   get_u64 (memcpy b i src n) j = get_u64 b j"
  "i + n \<le> j \<or> j + 8 \<le> i \<Longrightarrow> i + n \<le> length b \<Longrightarrow>
   get_u64 (memset0 b i n) j = get_u64 b j"
  "i \<le> j \<Longrightarrow> j + 8 \<le> i + n \<Longrightarrow> i \<le> length b \<Longrightarrow> get_u64 (memset0 b i n) j = 0"
  by (auto simp: get_defs put_i32_def nth_put)

lemma get_put_u64 [wire_simps]: "i + 8 \<le> length b \<Longrightarrow> get_u64 (put_u64 b i v) i = v"
  by (simp add: get_u64_def put_u64_def wire_simps u64_of_u32)

lemma get_bytes_memcpy [wire_simps]:
  "i + n \<le> length b \<Longrightarrow> n \<le> length src \<Longrightarrow> get_bytes (memcpy b i src n) i n = take n src"
  by (simp add: get_bytes_def memcpy_def)

lemma get_bytes_cong:
  assumes "length b = length c" and "\<And>k. j \<le> k \<Longrightarrow> k < j + n \<Longrightarrow> b ! k = c ! k"
  shows "get_bytes b j n = get_bytes c j n"
  using assms by (intro nth_equalityI) (auto simp: get_bytes_def)

lemma get_bytes_put_other [wire_simps]:
  "i + 1 \<le> j \<or> j + n \<le> i \<Longrightarrow> get_bytes (put_u8 b i v8) j n = get_bytes b j n"
  "i + 2 \<le> j \<or> j + n \<le> i \<Longrightarrow> get_bytes (put_u16 b i v16) j n = get_bytes b j n"
  "i + 4 \<le> j \<or> j + n \<le> i \<Longrightarrow> get_bytes (put_u32 b i v32) j n = get_bytes b j n"
  "i + 8 \<le> j \<or> j + n \<le> i \<Longrightarrow> get_bytes (put_u64 b i v64) j n = get_bytes b j n"
  "i + m \<le> j \<or> j + n \<le> i \<Longrightarrow> i + m \<le> length b \<Longrightarrow> m \<le> length src \<Longrightarrow>
   get_bytes (memcpy b i src m) j n = get_bytes b j n"
  by (rule get_bytes_cong; auto simp: nth_put)+

subsection \<open>Writes and reads inside a prefix of a buffer\<close>

text \<open>
  An encoder that only writes inside the first part of a buffer leaves the rest alone, and a
  decoder that only reads inside it does not depend on the rest.
\<close>

lemma put_append [wire_simps]:
  "i + 1 \<le> length a \<Longrightarrow> put_u8 (a @ c) i v8 = put_u8 a i v8 @ c"
  "i + 2 \<le> length a \<Longrightarrow> put_u16 (a @ c) i v16 = put_u16 a i v16 @ c"
  "i + 4 \<le> length a \<Longrightarrow> put_u32 (a @ c) i v32 = put_u32 a i v32 @ c"
  "i + n \<le> length a \<Longrightarrow> memset0 (a @ c) i n = memset0 a i n @ c"
  "i + n \<le> length a \<Longrightarrow> memcpy (a @ c) i src n = memcpy a i src n @ c"
  by (simp_all add: put_defs memset0_def memcpy_def list_update_append1)

lemma put_u64_append [wire_simps]:
  "i + 8 \<le> length a \<Longrightarrow> put_u64 (a @ c) i v = put_u64 a i v @ c"
  by (simp add: put_u64_def put_append)

lemma get_append [wire_simps]:
  "i + 1 \<le> length a \<Longrightarrow> get_u8 (a @ c) i = get_u8 a i"
  "i + 2 \<le> length a \<Longrightarrow> get_u16 (a @ c) i = get_u16 a i"
  "i + 4 \<le> length a \<Longrightarrow> get_u32 (a @ c) i = get_u32 a i"
  "i + 8 \<le> length a \<Longrightarrow> get_u64 (a @ c) i = get_u64 a i"
  "i + n \<le> length a \<Longrightarrow> get_bytes (a @ c) i n = get_bytes a i n"
  by (simp_all add: get_defs get_bytes_def nth_append)

subsection \<open>Adjacent fields cover a buffer\<close>

text \<open>
  Encoders that write every byte of the message do not depend on what the buffer held: two
  buffers that agree up to an offset agree up to the end of the field written there.
\<close>

definition same_upto :: "nat \<Rightarrow> bytes \<Rightarrow> bytes \<Rightarrow> bool" where
  "same_upto i a b \<longleftrightarrow> length a = length b \<and> (\<forall>k < i. a ! k = b ! k)"

lemma same_upto_0: "length a = length b \<Longrightarrow> same_upto 0 a b"
  by (simp add: same_upto_def)

lemma same_upto_put_u32:
  assumes "same_upto i a b" and "i + 4 \<le> length a" and "j = i + 4"
  shows "same_upto j (put_u32 a i v) (put_u32 b i v)"
proof -
  have "put_u32 a i v ! k = put_u32 b i v ! k" if "k < i + 4" for k
  proof (cases "k < i")
    case True
    with assms(1) show ?thesis by (simp add: nth_put_u32 same_upto_def)
  next
    case False
    with that have "k = i \<or> k = i + 1 \<or> k = i + 2 \<or> k = i + 3" by arith
    with assms(1,2) show ?thesis by (auto simp: put_u32_def same_upto_def)
  qed
  with assms show ?thesis by (simp add: same_upto_def)
qed

lemma same_upto_put_u64:
  assumes "same_upto i a b" and "i + 8 \<le> length a" and "j = i + 8"
  shows "same_upto j (put_u64 a i v) (put_u64 b i v)"
  unfolding put_u64_def using assms
  by (intro same_upto_put_u32 [where i = "i + 4"] same_upto_put_u32 [where i = i]) simp_all

lemma same_upto_all: "same_upto n a b \<Longrightarrow> length a = n \<Longrightarrow> a = b"
  by (simp add: same_upto_def nth_equalityI)

lemma put_cover16:
  assumes "length b = 16"
  shows "put_u32 (put_u32 (put_u64 b 0 x) 8 y) 12 z =
    put_u32 (put_u32 (put_u64 (replicate 16 0) 0 x) 8 y) 12 z"
  using assms
  by (intro same_upto_all [where n = 16] same_upto_put_u32 same_upto_put_u64 same_upto_0)
    simp_all

lemma put_cover24:
  assumes "length b = 24"
  shows "put_u64 (put_u64 (put_u64 b 0 x) 8 y) 16 z =
    put_u64 (put_u64 (put_u64 (replicate 24 0) 0 x) 8 y) 16 z"
  using assms by (intro same_upto_all [where n = 24] same_upto_put_u64 same_upto_0) simp_all

lemma put_cover40:
  assumes "length b = 40"
  shows "put_u64 (put_u64 (put_u64 (put_u64 (put_u64 b 0 v) 8 w) 16 x) 24 y) 32 z =
    put_u64 (put_u64 (put_u64 (put_u64 (put_u64 (replicate 40 0) 0 v) 8 w) 16 x) 24 y) 32 z"
  using assms by (intro same_upto_all [where n = 40] same_upto_put_u64 same_upto_0) simp_all

lemmas put_cover = put_cover16 [symmetric] put_cover24 [symmetric] put_cover40 [symmetric]

subsection \<open>Arrays of fields\<close>

text \<open>
  The loops \<^verbatim>\<open>for (i = 0; i < n; ++i) put(output + at + i * stride, xs[i])\<close> and their
  reading counterparts, for any field whose reader and writer satisfy the laws of the locale.
\<close>

primrec put_each ::
  "(bytes \<Rightarrow> nat \<Rightarrow> 'a \<Rightarrow> bytes) \<Rightarrow> nat \<Rightarrow> bytes \<Rightarrow> nat \<Rightarrow> 'a list \<Rightarrow> bytes" where
  "put_each put stride output at [] = output"
| "put_each put stride output at (x # xs) = put_each put stride (put output at x) (at + stride) xs"

definition get_each :: "(bytes \<Rightarrow> nat \<Rightarrow> 'a) \<Rightarrow> nat \<Rightarrow> bytes \<Rightarrow> nat \<Rightarrow> nat \<Rightarrow> 'a list" where
  "get_each get stride input at n = map (\<lambda>i. get input (at + i * stride)) [0..<n]"

lemma length_get_each [simp]: "length (get_each get stride b at n) = n"
  by (simp add: get_each_def)

lemma get_each_0 [simp]: "get_each get stride b at 0 = []"
  by (simp add: get_each_def)

lemma get_each_Suc:
  "get_each get stride b at (Suc n) = get b at # get_each get stride b (at + stride) n"
  by (auto simp: get_each_def upt_conv_Cons map_Suc_upt [symmetric] add.assoc simp del: upt_Suc)

locale wire_field =
  fixes width :: nat
    and put :: "bytes \<Rightarrow> nat \<Rightarrow> 'a \<Rightarrow> bytes"
    and get :: "bytes \<Rightarrow> nat \<Rightarrow> 'a"
    and wf :: "'a \<Rightarrow> bool"
  assumes put_length: "wf v \<Longrightarrow> i + width \<le> length b \<Longrightarrow> length (put b i v) = length b"
    and get_put: "wf v \<Longrightarrow> i + width \<le> length b \<Longrightarrow> get (put b i v) i = v"
    and put_frame: "wf v \<Longrightarrow> i + width \<le> length b \<Longrightarrow> k < i \<or> i + width \<le> k \<Longrightarrow>
      put b i v ! k = b ! k"
    and get_local: "(\<And>k. i \<le> k \<Longrightarrow> k < i + width \<Longrightarrow> b ! k = c ! k) \<Longrightarrow> length b = length c \<Longrightarrow>
      i + width \<le> length b \<Longrightarrow> get b i = get c i"
begin

lemma put_each_length:
  "width \<le> stride \<Longrightarrow> list_all wf xs \<Longrightarrow> at + length xs * stride \<le> length b \<Longrightarrow>
   length (put_each put stride b at xs) = length b"
proof (induction xs arbitrary: b at)
  case (Cons x xs)
  then have "length (put b at x) = length b" by (simp add: put_length)
  with Cons show ?case by (simp add: algebra_simps)
qed simp

lemma put_each_frame:
  "width \<le> stride \<Longrightarrow> list_all wf xs \<Longrightarrow> at + length xs * stride \<le> length b \<Longrightarrow>
   k < at \<or> at + length xs * stride \<le> k \<Longrightarrow> put_each put stride b at xs ! k = b ! k"
proof (induction xs arbitrary: b at)
  case (Cons x xs)
  then have len: "length (put b at x) = length b" by (simp add: put_length)
  have "put b at x ! k = b ! k" using Cons.prems by (intro put_frame) auto
  with Cons.IH [of "at + stride" "put b at x"] Cons.prems len show ?case
    by (auto simp: algebra_simps)
qed simp

lemma get_put_each:
  "width \<le> stride \<Longrightarrow> list_all wf xs \<Longrightarrow> at + length xs * stride \<le> length b \<Longrightarrow>
   get_each get stride (put_each put stride b at xs) at (length xs) = xs"
proof (induction xs arbitrary: b at)
  case (Cons x xs)
  let ?c = "put b at x"
  have len: "length ?c = length b" using Cons.prems by (simp add: put_length)
  have fit: "at + stride + length xs * stride \<le> length ?c"
    using Cons.prems len by (simp add: algebra_simps)
  have "get (put_each put stride ?c (at + stride) xs) at = get ?c at"
    using Cons.prems fit len
    by (intro get_local) (auto simp: put_each_frame put_each_length algebra_simps)
  moreover have "get ?c at = x" using Cons.prems by (intro get_put) auto
  ultimately show ?case
    using Cons.IH [of "at + stride" ?c] Cons.prems fit by (simp add: get_each_Suc)
qed simp

end

lemma get_u32_local:
  "(\<And>k. i \<le> k \<Longrightarrow> k < i + 4 \<Longrightarrow> b ! k = c ! k) \<Longrightarrow> get_u32 b i = get_u32 c i"
  by (simp add: get_u32_def)

lemma get_u64_local:
  "(\<And>k. i \<le> k \<Longrightarrow> k < i + 8 \<Longrightarrow> b ! k = c ! k) \<Longrightarrow> get_u64 b i = get_u64 c i"
  by (simp add: get_u64_def get_u32_def)

interpretation u32_field: wire_field 4 put_u32 get_u32 "\<lambda>_. True"
  by unfold_locales (auto simp: get_put_u32 nth_put_u32 intro: get_u32_local)

interpretation u64_field: wire_field 8 put_u64 get_u64 "\<lambda>_. True"
  by unfold_locales (auto simp: get_put_u64 nth_put_u64 intro: get_u64_local)

text \<open>A reader that looks at \<open>w\<close> bytes only.\<close>

definition reads :: "nat \<Rightarrow> (bytes \<Rightarrow> nat \<Rightarrow> 'a) \<Rightarrow> bool" where
  "reads w g \<longleftrightarrow> (\<forall>b c i. length b = length c \<longrightarrow> i + w \<le> length b \<longrightarrow>
     (\<forall>k. i \<le> k \<longrightarrow> k < i + w \<longrightarrow> b ! k = c ! k) \<longrightarrow> g b i = g c i)"

lemma reads_u32: "reads 4 get_u32"
  by (auto simp: reads_def intro!: get_u32_local)

lemma reads_u64: "reads 8 get_u64"
  by (auto simp: reads_def intro!: get_u64_local)

lemma reads_cong:
  assumes "reads w g" "length b = length c" "i + w \<le> length b"
    "\<And>k. i \<le> k \<Longrightarrow> k < i + w \<Longrightarrow> b ! k = c ! k"
  shows "g b i = g c i"
  using assms unfolding reads_def by blast

context wire_field
begin

lemma read_other_array:
  assumes "reads w g" "width \<le> stride" "list_all wf xs" "at + length xs * stride \<le> length b"
    "j + w \<le> length b" "j + w \<le> at \<or> at + length xs * stride \<le> j"
  shows "g (put_each put stride b at xs) j = g b j"
proof (rule reads_cong [OF assms(1)])
  show "length (put_each put stride b at xs) = length b"
    using assms by (intro put_each_length) auto
  then show "j + w \<le> length (put_each put stride b at xs)" using assms(5) by simp
  show "put_each put stride b at xs ! k = b ! k" if "j \<le> k" "k < j + w" for k
    using assms that by (intro put_each_frame) auto
qed

lemma read_each_other_array:
  assumes "reads w g" "width \<le> stride" "list_all wf xs" "at + length xs * stride \<le> length b"
    "w \<le> s" "j + n * s \<le> length b" "j + n * s \<le> at \<or> at + length xs * stride \<le> j"
  shows "get_each g s (put_each put stride b at xs) j n = get_each g s b j n"
proof -
  have "g (put_each put stride b at xs) (j + i * s) = g b (j + i * s)" if "i < n" for i
  proof -
    have "Suc i * s \<le> n * s" using that by (intro mult_le_mono1) simp
    then have le: "j + i * s + w \<le> j + n * s" using assms(5) by simp
    show ?thesis using assms le by (intro read_other_array) auto
  qed
  then show ?thesis by (simp add: get_each_def)
qed

end

lemma put_each_lengths [simp]:
  "at + length xs * 4 \<le> length b \<Longrightarrow> length (put_each put_u32 4 b at xs) = length b"
  "at + length ys * 8 \<le> length b \<Longrightarrow> length (put_each put_u64 8 b at ys) = length b"
  by (simp_all add: u32_field.put_each_length u64_field.put_each_length list_all_iff)

lemma get_put_each_fields [wire_simps]:
  "at + length xs * 4 \<le> length b \<Longrightarrow> n = length xs \<Longrightarrow> get_each get_u32 4 (put_each put_u32 4 b at xs) at n = xs"
  "at + length ys * 8 \<le> length b \<Longrightarrow> n = length ys \<Longrightarrow> get_each get_u64 8 (put_each put_u64 8 b at ys) at n = ys"
  by (simp_all add: u32_field.get_put_each u64_field.get_put_each list_all_iff)

lemma get_beside_array [wire_simps]:
  "at + length xs * 4 \<le> length b \<Longrightarrow> j + 4 \<le> length b \<Longrightarrow> j + 4 \<le> at \<or> at + length xs * 4 \<le> j \<Longrightarrow>
     get_u32 (put_each put_u32 4 b at xs) j = get_u32 b j"
  "at + length xs * 4 \<le> length b \<Longrightarrow> j + 8 \<le> length b \<Longrightarrow> j + 8 \<le> at \<or> at + length xs * 4 \<le> j \<Longrightarrow>
     get_u64 (put_each put_u32 4 b at xs) j = get_u64 b j"
  "at + length ys * 8 \<le> length b \<Longrightarrow> j + 4 \<le> length b \<Longrightarrow> j + 4 \<le> at \<or> at + length ys * 8 \<le> j \<Longrightarrow>
     get_u32 (put_each put_u64 8 b at ys) j = get_u32 b j"
  "at + length ys * 8 \<le> length b \<Longrightarrow> j + 8 \<le> length b \<Longrightarrow> j + 8 \<le> at \<or> at + length ys * 8 \<le> j \<Longrightarrow>
     get_u64 (put_each put_u64 8 b at ys) j = get_u64 b j"
  by (rule u32_field.read_other_array [OF reads_u32] u32_field.read_other_array [OF reads_u64]
      u64_field.read_other_array [OF reads_u32] u64_field.read_other_array [OF reads_u64];
      simp add: list_all_iff)+

lemma get_each_beside_array [wire_simps]:
  "at + length xs * 4 \<le> length b \<Longrightarrow> j + n * 4 \<le> length b \<Longrightarrow> j + n * 4 \<le> at \<or> at + length xs * 4 \<le> j \<Longrightarrow>
     get_each get_u32 4 (put_each put_u32 4 b at xs) j n = get_each get_u32 4 b j n"
  "at + length xs * 4 \<le> length b \<Longrightarrow> j + n * 8 \<le> length b \<Longrightarrow> j + n * 8 \<le> at \<or> at + length xs * 4 \<le> j \<Longrightarrow>
     get_each get_u64 8 (put_each put_u32 4 b at xs) j n = get_each get_u64 8 b j n"
  "at + length ys * 8 \<le> length b \<Longrightarrow> j + n * 4 \<le> length b \<Longrightarrow> j + n * 4 \<le> at \<or> at + length ys * 8 \<le> j \<Longrightarrow>
     get_each get_u32 4 (put_each put_u64 8 b at ys) j n = get_each get_u32 4 b j n"
  "at + length ys * 8 \<le> length b \<Longrightarrow> j + n * 8 \<le> length b \<Longrightarrow> j + n * 8 \<le> at \<or> at + length ys * 8 \<le> j \<Longrightarrow>
     get_each get_u64 8 (put_each put_u64 8 b at ys) j n = get_each get_u64 8 b j n"
  by (rule u32_field.read_each_other_array [OF reads_u32] u32_field.read_each_other_array [OF reads_u64]
      u64_field.read_each_other_array [OF reads_u32] u64_field.read_each_other_array [OF reads_u64];
      simp add: list_all_iff)+

subsection \<open>Arrays written in part\<close>

lemma get_each_append: "get_each g s b at (m + n) = get_each g s b at m @ get_each g s b (at + m * s) n"
proof (induction m arbitrary: at)
  case (Suc m)
  then show ?case by (simp add: get_each_Suc algebra_simps)
qed simp

text \<open>A write outside the array leaves it alone.\<close>

lemma get_each_put_other [wire_simps]:
  "i + 4 \<le> j \<or> j + n * 4 \<le> i \<Longrightarrow> get_each get_u32 4 (put_u32 b i v) j n = get_each get_u32 4 b j n"
  "i + 4 \<le> j \<or> j + n * 8 \<le> i \<Longrightarrow> get_each get_u64 8 (put_u32 b i v) j n = get_each get_u64 8 b j n"
  "i + 8 \<le> j \<or> j + n * 4 \<le> i \<Longrightarrow> get_each get_u32 4 (put_u64 b i w) j n = get_each get_u32 4 b j n"
  "i + 8 \<le> j \<or> j + n * 8 \<le> i \<Longrightarrow> get_each get_u64 8 (put_u64 b i w) j n = get_each get_u64 8 b j n"
  unfolding get_each_def
  by (intro map_cong refl get_u32_put_other get_u64_put_other; auto)+

lemma get_each_replicate [wire_simps]:
  "j + n * 4 \<le> m \<Longrightarrow> get_each get_u32 4 (replicate m 0) j n = replicate n 0"
  "j + n * 8 \<le> m \<Longrightarrow> get_each get_u64 8 (replicate m 0) j n = replicate n 0"
  by (auto simp: get_each_def get_replicate list_eq_iff_nth_eq)

context wire_field
begin

lemma reads_get: "reads width get"
  unfolding reads_def using get_local by blast

text \<open>Reading more entries than were written gives the written ones and then what was there.\<close>

lemma get_put_each_longer:
  assumes "width \<le> stride" "list_all wf xs" "length xs \<le> n" "at + n * stride \<le> length b"
  shows "get_each get stride (put_each put stride b at xs) at n =
    xs @ get_each get stride b (at + length xs * stride) (n - length xs)"
proof -
  have le: "length xs * stride \<le> n * stride" using assms(3) by (rule mult_le_mono1)
  then have fits: "at + length xs * stride \<le> length b" using assms(4) by linarith
  have len: "at + length xs * stride + (n - length xs) * stride \<le> length b"
    using assms(4) le unfolding diff_mult_distrib by linarith
  have "get_each get stride (put_each put stride b at xs) at (length xs + (n - length xs)) =
     xs @ get_each get stride b (at + length xs * stride) (n - length xs)"
    unfolding get_each_append
    using get_put_each [OF assms(1,2) fits]
      read_each_other_array [OF reads_get assms(1,2) fits assms(1) len] by simp
  then show ?thesis using assms(3) by simp
qed

end

lemma get_words_longer:
  "length xs \<le> n \<Longrightarrow> at + n * 4 \<le> length b \<Longrightarrow>
     get_each get_u32 4 (put_each put_u32 4 b at xs) at n =
     xs @ get_each get_u32 4 b (at + length xs * 4) (n - length xs)"
  "length ys \<le> n \<Longrightarrow> at + n * 8 \<le> length b \<Longrightarrow>
     get_each get_u64 8 (put_each put_u64 8 b at ys) at n =
     ys @ get_each get_u64 8 b (at + length ys * 8) (n - length ys)"
  by (simp_all add: u32_field.get_put_each_longer u64_field.get_put_each_longer list_all_iff)

subsection \<open>One entry of an array\<close>

text \<open>Two buffers of the same length with the same bytes in a region: reads inside it agree.\<close>

definition agree :: "nat \<Rightarrow> nat \<Rightarrow> bytes \<Rightarrow> bytes \<Rightarrow> bool" where
  "agree at w b c \<longleftrightarrow> length b = length c \<and> (\<forall>k. at \<le> k \<longrightarrow> k < at + w \<longrightarrow> b ! k = c ! k)"

lemma agree_reads:
  "agree at w b c \<Longrightarrow> n + 4 \<le> w \<Longrightarrow> get_u32 b (at + n) = get_u32 c (at + n)"
  "agree at w b c \<Longrightarrow> n + 8 \<le> w \<Longrightarrow> get_u64 b (at + n) = get_u64 c (at + n)"
  by (auto simp: agree_def intro!: get_u32_local get_u64_local)

lemma agree_reads_0:
  "agree at w b c \<Longrightarrow> 4 \<le> w \<Longrightarrow> get_u32 b at = get_u32 c at"
  "agree at w b c \<Longrightarrow> 8 \<le> w \<Longrightarrow> get_u64 b at = get_u64 c at"
  using agree_reads [of at w b c 0] by simp_all

context wire_field
begin

text \<open>Where an entry was written, the bytes are those of that write.\<close>

lemma put_each_slot:
  "width \<le> stride \<Longrightarrow> list_all wf xs \<Longrightarrow> at + length xs * stride \<le> length b \<Longrightarrow> i < length xs \<Longrightarrow>
     \<exists>c. length c = length b \<and> agree (at + i * stride) width (put_each put stride b at xs) (put c (at + i * stride) (xs ! i))"
proof (induction xs arbitrary: b at i)
  case (Cons x xs)
  let ?c = "put b at x"
  have len: "length ?c = length b" using Cons.prems by (simp add: put_length)
  have fit: "at + stride + length xs * stride \<le> length ?c" using Cons.prems len by (simp add: algebra_simps)
  show ?case
  proof (cases i)
    case 0
    have "put_each put stride ?c (at + stride) xs ! k = ?c ! k" if "k < at + width" for k
      using that Cons.prems fit by (intro put_each_frame) auto
    moreover have "length (put_each put stride ?c (at + stride) xs) = length ?c"
      using Cons.prems fit by (intro put_each_length) auto
    ultimately show ?thesis using 0 by (intro exI [of _ b]) (auto simp: agree_def)
  next
    case (Suc j)
    then show ?thesis
      using Cons.IH [of "at + stride" ?c j] Cons.prems fit len by (auto simp: algebra_simps)
  qed
qed simp

text \<open>Bytes between the entries are left alone.\<close>

lemma put_each_gap:
  "width \<le> stride \<Longrightarrow> list_all wf xs \<Longrightarrow> at + length xs * stride \<le> length b \<Longrightarrow>
     (\<And>i. i < length xs \<Longrightarrow> k < at + i * stride \<or> at + i * stride + width \<le> k) \<Longrightarrow>
     put_each put stride b at xs ! k = b ! k"
proof (induction xs arbitrary: b at)
  case (Cons x xs)
  have len: "length (put b at x) = length b" using Cons.prems by (simp add: put_length)
  have "put b at x ! k = b ! k" using Cons.prems(2,3) Cons.prems(4) [of 0] Cons.prems(1) by (intro put_frame) auto
  moreover have "put_each put stride (put b at x) (at + stride) xs ! k = put b at x ! k"
    using Cons.prems(1-3) Cons.prems(4) [of "Suc i" for i] len
    by (intro Cons.IH) (auto simp: algebra_simps)
  ultimately show ?case by simp
qed simp

lemma read_other:
  assumes "reads w g" "wf v" "i + width \<le> length b" "j + w \<le> length b" "j + w \<le> i \<or> i + width \<le> j"
  shows "g (put b i v) j = g b j"
  using assms by (intro reads_cong [OF assms(1)]) (auto simp: put_length intro!: put_frame)

end

subsection \<open>Checks over the entries of an array\<close>

lemma readsI:
  assumes "\<And>b c i. agree i w b c \<Longrightarrow> i + w \<le> length b \<Longrightarrow> g b i = g c i"
  shows "reads w g"
  unfolding reads_def
proof (intro allI impI)
  fix b c :: bytes and i
  assume "length b = length c" "i + w \<le> length b" "\<forall>k. i \<le> k \<longrightarrow> k < i + w \<longrightarrow> b ! k = c ! k"
  then show "g b i = g c i" by (intro assms) (auto simp: agree_def)
qed

context wire_field
begin

text \<open>A check that every write of a sound entry passes is passed by all entries of an array of them.\<close>

lemma each_check:
  assumes "reads width P" "width \<le> stride" "list_all wf xs" "at + length xs * stride \<le> length b"
    and sound: "\<And>c j v. v \<in> set xs \<Longrightarrow> j + width \<le> length c \<Longrightarrow> P (put c j v) j"
    and "i < length xs"
  shows "P (put_each put stride b at xs) (at + i * stride)"
proof -
  let ?j = "at + i * stride"
  obtain c where c: "length c = length b" "agree ?j width (put_each put stride b at xs) (put c ?j (xs ! i))"
    using put_each_slot [OF assms(2-4,6)] by blast
  have "(i + 1) * stride \<le> length xs * stride" using assms(6) by (intro mult_le_mono1) simp
  then have fit: "?j + width \<le> length b" using assms(2,4) by (simp add: algebra_simps)
  have "P (put_each put stride b at xs) ?j = P (put c ?j (xs ! i)) ?j"
    using c fit put_each_length [OF assms(2-4)] by (intro reads_cong [OF assms(1)]) (auto simp: agree_def)
  then show ?thesis using sound [of "xs ! i" ?j c] assms(6) fit c(1) by simp
qed

end

subsection \<open>Regions of zeros\<close>

definition zeros :: "bytes \<Rightarrow> nat \<Rightarrow> nat \<Rightarrow> bool" where
  "zeros b i j \<longleftrightarrow> (\<forall>k. i \<le> k \<longrightarrow> k < j \<longrightarrow> b ! k = 0)"

lemma zeros_put_other [wire_simps]:
  "a + 4 \<le> i \<or> j \<le> a \<Longrightarrow> zeros (put_u32 b a v) i j = zeros b i j"
  "a + 8 \<le> i \<or> j \<le> a \<Longrightarrow> zeros (put_u64 b a w) i j = zeros b i j"
  "a + n \<le> i \<or> j \<le> a \<Longrightarrow> a + n \<le> length b \<Longrightarrow> n \<le> length src \<Longrightarrow> zeros (memcpy b a src n) i j = zeros b i j"
  by (auto simp: zeros_def nth_put)

lemma zeros_replicate [wire_simps]: "j \<le> n \<Longrightarrow> zeros (replicate n 0) i j"
  by (simp add: zeros_def)

lemma zeros_mono: "zeros b i j \<Longrightarrow> i \<le> i' \<Longrightarrow> j' \<le> j \<Longrightarrow> zeros b i' j'"
  by (auto simp: zeros_def)

lemma zeros_nth: "zeros b i j \<Longrightarrow> i \<le> k \<Longrightarrow> k < j \<Longrightarrow> b ! k = 0"
  by (simp add: zeros_def)

lemma zeros_reads:
  "zeros b i j \<Longrightarrow> i \<le> a \<Longrightarrow> a + 4 \<le> j \<Longrightarrow> get_u32 b a = 0"
  "zeros b i j \<Longrightarrow> i \<le> a \<Longrightarrow> a + 8 \<le> j \<Longrightarrow> get_u64 b a = 0"
  by (simp_all add: zeros_def get_defs)

lemma zeros_each:
  "zeros b i j \<Longrightarrow> i \<le> at \<Longrightarrow> at + n * 4 \<le> j \<Longrightarrow> get_each get_u32 4 b at n = replicate n 0"
  "zeros b i j \<Longrightarrow> i \<le> at \<Longrightarrow> at + n * 8 \<le> j \<Longrightarrow> get_each get_u64 8 b at n = replicate n 0"
  by (auto simp: get_each_def list_eq_iff_nth_eq intro!: zeros_reads)

context wire_field
begin

lemma zeros_put_each:
  assumes "width \<le> stride" "list_all wf xs" "at + length xs * stride \<le> length b" "j \<le> at \<or> at + length xs * stride \<le> i"
  shows "zeros (put_each put stride b at xs) i j = zeros b i j"
proof -
  have "put_each put stride b at xs ! k = b ! k" if "i \<le> k" "k < j" for k
    using assms that by (intro put_each_frame) auto
  then show ?thesis by (simp add: zeros_def)
qed

lemma zeros_put: "wf v \<Longrightarrow> a + width \<le> length b \<Longrightarrow> j \<le> a \<or> a + width \<le> i \<Longrightarrow> zeros (put b a v) i j = zeros b i j"
  using zeros_put_each [of width "[v]" a b j i] by simp

end

subsection \<open>Arrays with unused entries\<close>

text \<open>An array of \<open>m\<close> entries that was cleared with \<open>z\<close> before its first ones were stored.\<close>

definition fill_to :: "nat \<Rightarrow> 'a \<Rightarrow> 'a list \<Rightarrow> 'a list" where
  "fill_to m z xs = xs @ replicate (m - length xs) z"

lemma length_fill_to [simp]: "length xs \<le> m \<Longrightarrow> length (fill_to m z xs) = m"
  by (simp add: fill_to_def)

lemma take_fill_to: "n = length xs \<Longrightarrow> take n (fill_to m z xs) = xs"
  by (simp add: fill_to_def)

lemma fill_to_replicate [simp]: "n \<le> m \<Longrightarrow> fill_to m z (replicate n z) = replicate m z"
  by (simp add: fill_to_def flip: replicate_add)

text \<open>Reading inside a prefix.\<close>

lemma get_each_append_left:
  assumes "\<And>j. j + w \<le> length a \<Longrightarrow> g (a @ c) j = g a j" "w \<le> s" "at + n * s \<le> length a"
  shows "get_each g s (a @ c) at n = get_each g s a at n"
proof -
  have "g (a @ c) (at + i * s) = g a (at + i * s)" if "i < n" for i
  proof (rule assms(1))
    have "(i + 1) * s \<le> n * s" using that by (intro mult_le_mono1) simp
    then show "at + i * s + w \<le> length a" using assms(2,3) by (simp add: algebra_simps)
  qed
  then show ?thesis by (simp add: get_each_def)
qed

lemma get_take [wire_simps]:
  "j + 4 \<le> n \<Longrightarrow> n \<le> length b \<Longrightarrow> get_u32 (take n b) j = get_u32 b j"
  "j + 8 \<le> n \<Longrightarrow> n \<le> length b \<Longrightarrow> get_u64 (take n b) j = get_u64 b j"
  by (simp_all add: get_defs)

end
