(* ===== verification/Wire_Codec.thy ===== *)
theory Wire_Codec
  imports Bvb_Wire
begin

section \<open>The contract of a message codec\<close>

text \<open>
  Each message of the bridge protocol has an encoder, which a sender runs over a caller-supplied
  buffer of the message's size, and a decoder, which the receiver runs over bytes it does not
  trust. The locale states what the two promise each other; every fixed-size message codec of
  the development is an interpretation of it.

  \<open>size\<close> is the length of the message in bytes, \<open>wf x\<close> the condition the encoder checks,
  \<open>acc x\<close> the condition the decoder checks, \<open>enc\<close> and \<open>dec\<close> the C functions (the second
  argument of \<open>dec\<close> is the caller's result object, overwritten on success). Where both sides
  check the same condition the codec is an \<open>agreed_codec\<close>.
\<close>

text \<open>What unfolding a codec leaves to rewrite and to split.\<close>

lemmas codec_unfold [wire_simps] = Let_def map_sum_if nonnull1_def

lemmas codec_splits = if_splits sum.splits option.splits

text \<open>
  The contract, as one predicate: every object of the right shape that passes the check \<open>okay\<close> is
  encoded into \<open>n\<close> bytes that decode to it again, no other is encoded, and whatever bytes arrive,
  the decoder reports an error or hands out an object that passes the check. A null pointer is an
  error on either side.
\<close>

definition codec_contract ::
  "nat \<Rightarrow> ('a \<Rightarrow> bool) \<Rightarrow> ('a \<Rightarrow> bool) \<Rightarrow> (bytes option \<Rightarrow> 'a option \<Rightarrow> bytes result) \<Rightarrow>
   (bytes option \<Rightarrow> 'a option \<Rightarrow> 'a result) \<Rightarrow> bool" where
  "codec_contract n shape okay enc dec \<longleftrightarrow>
     (\<forall>x b d. shape x \<longrightarrow> okay x \<longrightarrow> length b = n \<longrightarrow>
        (\<exists>m. enc (Some b) (Some x) = Inr m \<and> length m = n \<and> dec (Some m) (Some d) = Inr x)) \<and>
     (\<forall>x b. \<not> okay x \<longrightarrow> enc (Some b) (Some x) = Inl EINVAL) \<and>
     (\<forall>m d. length m = n \<longrightarrow> (case dec (Some m) (Some d) of
        Inl e \<Rightarrow> e = EPROTO \<or> e = EINVAL | Inr x \<Rightarrow> shape x \<and> okay x)) \<and>
     (\<forall>p r. enc None r = Inl EINVAL \<and> enc p None = Inl EINVAL) \<and>
     (\<forall>q t. dec None t = Inl EINVAL \<and> dec q None = Inl EINVAL)"

lemma codec_contract_roundtrip:
  "codec_contract n shape okay enc dec \<Longrightarrow> shape x \<Longrightarrow> okay x \<Longrightarrow> length b = n \<Longrightarrow>
     \<exists>m. enc (Some b) (Some x) = Inr m \<and> length m = n \<and> dec (Some m) (Some d) = Inr x"
  by (simp add: codec_contract_def)

locale wire_codec =
  fixes size :: nat
    and wf :: "'a \<Rightarrow> bool"
    and acc :: "'a \<Rightarrow> bool"
    and enc :: "bytes option \<Rightarrow> 'a option \<Rightarrow> bytes result"
    and dec :: "bytes option \<Rightarrow> 'a option \<Rightarrow> 'a result"
  assumes enc_null: "enc None r = Inl EINVAL" "enc p None = Inl EINVAL"
    and dec_null: "dec None t = Inl EINVAL" "dec q None = Inl EINVAL"
    and enc_reject: "\<not> wf x \<Longrightarrow> enc (Some b) (Some x) = Inl EINVAL"
    and enc_dec: "wf x \<Longrightarrow> length b = size \<Longrightarrow>
      \<exists>m. enc (Some b) (Some x) = Inr m \<and> length m = size \<and>
        dec (Some m) (Some d) = (if acc x then Inr x else Inl EPROTO)"
    and dec_acc: "dec (Some m) (Some d) = Inr x \<Longrightarrow> acc x"
    and dec_error: "dec (Some m) (Some d) = Inl e \<Longrightarrow> e = EPROTO \<or> e = EINVAL"
    and enc_frame: "length b = size \<Longrightarrow>
      enc (Some (b @ c)) (Some x) = map_sum id (\<lambda>m. m @ c) (enc (Some b) (Some x))"
    and dec_frame: "length m = size \<Longrightarrow> dec (Some (m @ c)) (Some d) = dec (Some m) (Some d)"
begin

text \<open>Encoding succeeds exactly on the messages the encoder's check admits.\<close>

lemma enc_succeeds_iff:
  assumes "length b = size"
  shows "(\<exists>m. enc (Some b) (Some x) = Inr m) \<longleftrightarrow> wf x"
  using assms enc_reject [of x b] enc_dec [of x b x] by (cases "wf x") auto

lemma enc_length:
  assumes "length b = size" and "enc (Some b) (Some x) = Inr m"
  shows "length m = size"
proof -
  have "wf x" using assms enc_succeeds_iff by blast
  then show ?thesis using enc_dec [of x b x] assms by auto
qed

text \<open>
  What was encoded is what the peer decodes, whatever its result object held before, or the
  peer refuses the message because its own check is stricter.
\<close>

lemma enc_then_dec:
  assumes "length b = size" and "enc (Some b) (Some x) = Inr m"
  shows "dec (Some m) (Some d) = (if acc x then Inr x else Inl EPROTO)"
proof -
  have "wf x" using assms enc_succeeds_iff by blast
  then show ?thesis using enc_dec [of x b d] assms by auto
qed

text \<open>A decoder hands its caller checked messages only.\<close>

lemma dec_total:
  "(\<exists>x. dec (Some m) (Some d) = Inr x \<and> acc x) \<or> dec (Some m) (Some d) \<in> {Inl EPROTO, Inl EINVAL}"
proof (cases "dec (Some m) (Some d)")
  case (Inl e)
  then show ?thesis using dec_error by auto
next
  case (Inr x)
  then show ?thesis using dec_acc by simp
qed

end

text \<open>Codecs whose two sides check the same condition: nothing a sender can send is refused.\<close>

locale agreed_codec = wire_codec size wf wf enc dec
  for size :: nat
    and wf :: "'a \<Rightarrow> bool"
    and enc :: "bytes option \<Rightarrow> 'a option \<Rightarrow> bytes result"
    and dec :: "bytes option \<Rightarrow> 'a option \<Rightarrow> 'a result"
begin

lemma roundtrip:
  assumes "length b = size" and "enc (Some b) (Some x) = Inr m"
  shows "length m = size \<and> dec (Some m) (Some d) = Inr x"
proof -
  have "wf x" using assms enc_succeeds_iff by blast
  then show ?thesis using enc_then_dec [OF assms] enc_length [OF assms] by simp
qed

lemma roundtrip_wf:
  assumes "length b = size" and "wf x"
  shows "\<exists>m. enc (Some b) (Some x) = Inr m \<and> length m = size \<and> dec (Some m) (Some d) = Inr x"
  using enc_dec [OF assms(2,1), of d] assms(2) by simp

lemma contract: "codec_contract size (\<lambda>_. True) wf enc dec"
  unfolding codec_contract_def
  by (intro conjI allI impI enc_null dec_null enc_reject roundtrip_wf)
    (auto split: sum.splits dest: dec_acc dec_error)

text \<open>Two messages with the same bytes are the same message.\<close>

lemma enc_inject:
  assumes "length b = size" "length c = size"
    and "enc (Some b) (Some x) = Inr m" and "enc (Some c) (Some y) = Inr m"
  shows "x = y"
proof -
  have "dec (Some m) (Some x) = Inr x" using roundtrip assms(1,3) by blast
  moreover have "dec (Some m) (Some x) = Inr y" using roundtrip assms(2,4) by blast
  ultimately show ?thesis by simp
qed

text \<open>
  Inside a larger buffer the encoder writes the first \<open>size\<close> bytes only, and the peer reads
  the message back from there.
\<close>

lemma roundtrip_in_place:
  assumes "size \<le> length b" and "wf x"
  shows "\<exists>m. enc (Some b) (Some x) = Inr m \<and> length m = length b \<and>
    drop size m = drop size b \<and> dec (Some m) (Some d) = Inr x"
proof -
  let ?a = "take size b" and ?c = "drop size b"
  have a: "length ?a = size" using assms(1) by simp
  obtain m where m: "enc (Some ?a) (Some x) = Inr m" "length m = size" "dec (Some m) (Some d) = Inr x"
    using roundtrip_wf [OF a assms(2)] by blast
  have "enc (Some b) (Some x) = Inr (m @ ?c)"
    using enc_frame [OF a, of ?c x] m(1) by simp
  moreover have "dec (Some (m @ ?c)) (Some d) = Inr x"
    using dec_frame [OF m(2)] m(3) by simp
  ultimately show ?thesis using m(2) assms(1) by auto
qed

end

text \<open>
  Codecs of objects that hold fixed-length arrays: \<open>shape x\<close> says that the lists of \<open>x\<close> have
  the lengths of the arrays they stand for, which every C object has. A message may carry the used
  part of an array only; \<open>norm x\<close> is \<open>x\<close> with the unused parts zero, which is what the peer gets.
\<close>

locale array_codec =
  fixes size :: nat
    and shape :: "'a \<Rightarrow> bool"
    and wf :: "'a \<Rightarrow> bool"
    and acc :: "'a \<Rightarrow> bool"
    and norm :: "'a \<Rightarrow> 'a"
    and enc :: "bytes option \<Rightarrow> 'a option \<Rightarrow> bytes result"
    and dec :: "bytes option \<Rightarrow> 'a option \<Rightarrow> 'a result"
  assumes enc_null: "enc None r = Inl EINVAL" "enc p None = Inl EINVAL"
    and dec_null: "dec None t = Inl EINVAL" "dec q None = Inl EINVAL"
    and enc_reject: "\<not> wf x \<Longrightarrow> enc (Some b) (Some x) = Inl EINVAL"
    and enc_dec: "shape x \<Longrightarrow> wf x \<Longrightarrow> length b = size \<Longrightarrow>
      \<exists>m. enc (Some b) (Some x) = Inr m \<and> length m = size \<and>
        dec (Some m) (Some d) = (if acc x then Inr (norm x) else Inl EPROTO)"
    and dec_wf: "length m = size \<Longrightarrow> dec (Some m) (Some d) = Inr x \<Longrightarrow> shape x \<and> wf x \<and> acc x \<and> norm x = x"
    and dec_error: "dec (Some m) (Some d) = Inl e \<Longrightarrow> e = EPROTO \<or> e = EINVAL"
begin

lemma array_roundtrip:
  assumes "shape x" and "length b = size" and "enc (Some b) (Some x) = Inr m"
  shows "length m = size \<and> dec (Some m) (Some d) = (if acc x then Inr (norm x) else Inl EPROTO)"
proof -
  have "wf x" using assms(3) enc_reject [of x b] by (cases "wf x") auto
  then show ?thesis using enc_dec [OF assms(1) _ assms(2), of d] assms(3) by auto
qed

text \<open>What a decoder accepts can be sent on, and decodes to the same object again.\<close>

lemma relay:
  assumes "length m = size" and "dec (Some m) (Some d) = Inr x" and "length b = size"
  shows "\<exists>m'. enc (Some b) (Some x) = Inr m' \<and> length m' = size \<and> dec (Some m') (Some d') = Inr x"
  using dec_wf [OF assms(1,2)] enc_dec [of x b d'] assms(3) by auto

end

text \<open>Both sides check the same and the whole of every array is sent.\<close>

locale shaped_codec = array_codec size shape wf wf "\<lambda>x. x" enc dec
  for size :: nat
    and shape :: "'a \<Rightarrow> bool"
    and wf :: "'a \<Rightarrow> bool"
    and enc :: "bytes option \<Rightarrow> 'a option \<Rightarrow> bytes result"
    and dec :: "bytes option \<Rightarrow> 'a option \<Rightarrow> 'a result"
begin

lemma shaped_roundtrip:
  assumes "shape x" and "length b = size" and "enc (Some b) (Some x) = Inr m"
  shows "length m = size \<and> dec (Some m) (Some d) = Inr x"
proof -
  have "wf x" using assms(3) enc_reject [of x b] by (cases "wf x") auto
  then show ?thesis using array_roundtrip [OF assms] by simp
qed

lemma contract: "codec_contract size shape wf enc dec"
proof -
  have "\<exists>m. enc (Some b) (Some x) = Inr m \<and> length m = size \<and> dec (Some m) (Some d) = Inr x"
    if "shape x" "wf x" "length b = size" for x b d
    using enc_dec [OF that, of d] that(2) by simp
  moreover have "case dec (Some m) (Some d) of Inl e \<Rightarrow> e = EPROTO \<or> e = EINVAL | Inr x \<Rightarrow> shape x \<and> wf x"
    if "length m = size" for m d
    using dec_wf [OF that, of d] dec_error [of m d] by (auto split: sum.splits)
  ultimately show ?thesis
    unfolding codec_contract_def using enc_null dec_null enc_reject by blast
qed

end

end
