(* ===== verification/Proto_Base.thy ===== *)
theory Proto_Base
  imports Wire_Codec
begin

unbundle bit_operations_syntax

section \<open>Constants of the protocol\<close>

text \<open>
  The message sizes and limits of src/include/bvb/protocol.h (and the few of lifecycle.h and
  command_batch.h that messages use), under their C names, and \<^verbatim>\<open>wire_id_is_type\<close> of
  src/src/protocol.c, the check every identifier in a message goes through.
\<close>

abbreviation (input) BVB_PROTOCOL_MAX_PAYLOAD :: "'a::numeral" where
  "BVB_PROTOCOL_MAX_PAYLOAD \<equiv> 4096"
abbreviation (input) BVB_ACTIVITY_STATUS_SIZE :: "'a::numeral" where "BVB_ACTIVITY_STATUS_SIZE \<equiv> 56"
abbreviation (input) BVB_COMMAND_BATCH_HEADER_SIZE :: "'a::numeral" where "BVB_COMMAND_BATCH_HEADER_SIZE \<equiv> 32"
abbreviation (input) BVB_COMMAND_BATCH_MAX_BYTES :: "'a::numeral" where "BVB_COMMAND_BATCH_MAX_BYTES \<equiv> 16777216"
abbreviation (input) BVB_COMMAND_STREAM_REGION_BYTES :: "'a::numeral" where "BVB_COMMAND_STREAM_REGION_BYTES \<equiv> 134217728"
abbreviation (input) BVB_DESCRIPTOR_JOURNAL_FLUSH_SIZE :: "'a::numeral" where "BVB_DESCRIPTOR_JOURNAL_FLUSH_SIZE \<equiv> 24"
abbreviation (input) BVB_DESCRIPTOR_JOURNAL_MAX_RECORDS :: "'a::numeral" where "BVB_DESCRIPTOR_JOURNAL_MAX_RECORDS \<equiv> 65536"
abbreviation (input) BVB_DESCRIPTOR_JOURNAL_REGION_BYTES :: "'a::numeral" where "BVB_DESCRIPTOR_JOURNAL_REGION_BYTES \<equiv> 16777216"
abbreviation (input) BVB_EXTERNAL_IMAGE_IMPORT_REQUEST_SIZE :: "'a::numeral" where "BVB_EXTERNAL_IMAGE_IMPORT_REQUEST_SIZE \<equiv> 32"
abbreviation (input) BVB_EXTERNAL_MEMORY_IMPORT_REQUEST_SIZE :: "'a::numeral" where "BVB_EXTERNAL_MEMORY_IMPORT_REQUEST_SIZE \<equiv> 16"
abbreviation (input) BVB_EXTERNAL_SYNC_IMPORT_REQUEST_SIZE :: "'a::numeral" where "BVB_EXTERNAL_SYNC_IMPORT_REQUEST_SIZE \<equiv> 24"
abbreviation (input) BVB_HELLO_REQUEST_SIZE :: "'a::numeral" where "BVB_HELLO_REQUEST_SIZE \<equiv> 8"
abbreviation (input) BVB_HELLO_RESPONSE_SIZE :: "'a::numeral" where "BVB_HELLO_RESPONSE_SIZE \<equiv> 16"
abbreviation (input) BVB_LIFECYCLE_EVENT_RENDERER_FAILED :: "'a::numeral" where "BVB_LIFECYCLE_EVENT_RENDERER_FAILED \<equiv> 12"
abbreviation (input) BVB_OBJECT_BUFFER :: "'a::numeral" where "BVB_OBJECT_BUFFER \<equiv> 19"
abbreviation (input) BVB_OBJECT_DEVICE :: "'a::numeral" where "BVB_OBJECT_DEVICE \<equiv> 3"
abbreviation (input) BVB_OBJECT_DEVICE_MEMORY :: "'a::numeral" where "BVB_OBJECT_DEVICE_MEMORY \<equiv> 9"
abbreviation (input) BVB_OBJECT_FENCE :: "'a::numeral" where "BVB_OBJECT_FENCE \<equiv> 18"
abbreviation (input) BVB_OBJECT_IMAGE :: "'a::numeral" where "BVB_OBJECT_IMAGE \<equiv> 7"
abbreviation (input) BVB_OBJECT_QUERY_POOL :: "'a::numeral" where "BVB_OBJECT_QUERY_POOL \<equiv> 25"
abbreviation (input) BVB_OBJECT_SEMAPHORE :: "'a::numeral" where "BVB_OBJECT_SEMAPHORE \<equiv> 17"
abbreviation (input) BVB_OBJECT_SWAPCHAIN :: "'a::numeral" where "BVB_OBJECT_SWAPCHAIN \<equiv> 6"
abbreviation (input) BVB_PROTOCOL_MAGIC :: "'a::numeral" where "BVB_PROTOCOL_MAGIC \<equiv> 826431042"
abbreviation (input) BVB_SHARED_BATCH_EXECUTE_SIZE :: "'a::numeral" where "BVB_SHARED_BATCH_EXECUTE_SIZE \<equiv> 24"
abbreviation (input) BVB_SHARED_BATCH_MAX_BYTES :: "'a::numeral" where "BVB_SHARED_BATCH_MAX_BYTES \<equiv> 16777216"
abbreviation (input) BVB_SHARED_BATCH_MIN_BYTES :: "'a::numeral" where "BVB_SHARED_BATCH_MIN_BYTES \<equiv> 4096"
abbreviation (input) BVB_SHARED_BATCH_SETUP_SIZE :: "'a::numeral" where "BVB_SHARED_BATCH_SETUP_SIZE \<equiv> 16"
abbreviation (input) BVB_VULKAN_BUFFER_BIND_REQUEST_SIZE :: "'a::numeral" where "BVB_VULKAN_BUFFER_BIND_REQUEST_SIZE \<equiv> 24"
abbreviation (input) BVB_VULKAN_BUFFER_CREATE_REQUEST_SIZE :: "'a::numeral" where "BVB_VULKAN_BUFFER_CREATE_REQUEST_SIZE \<equiv> 24"
abbreviation (input) BVB_VULKAN_BUFFER_DEVICE_ADDRESS_REQUEST_SIZE :: "'a::numeral" where "BVB_VULKAN_BUFFER_DEVICE_ADDRESS_REQUEST_SIZE \<equiv> 8"
abbreviation (input) BVB_VULKAN_BUFFER_DEVICE_ADDRESS_RESPONSE_SIZE :: "'a::numeral" where "BVB_VULKAN_BUFFER_DEVICE_ADDRESS_RESPONSE_SIZE \<equiv> 8"
abbreviation (input) BVB_VULKAN_BUFFER_REQUIREMENTS_2_PNEXT_DEDICATED :: "'a::one" where "BVB_VULKAN_BUFFER_REQUIREMENTS_2_PNEXT_DEDICATED \<equiv> 1"
abbreviation (input) BVB_VULKAN_BUFFER_REQUIREMENTS_2_PNEXT_MASK :: "'a::one" where "BVB_VULKAN_BUFFER_REQUIREMENTS_2_PNEXT_MASK \<equiv> 1"
abbreviation (input) BVB_VULKAN_BUFFER_REQUIREMENTS_2_REQUEST_SIZE :: "'a::numeral" where "BVB_VULKAN_BUFFER_REQUIREMENTS_2_REQUEST_SIZE \<equiv> 16"
abbreviation (input) BVB_VULKAN_BUFFER_REQUIREMENTS_2_RESPONSE_SIZE :: "'a::numeral" where "BVB_VULKAN_BUFFER_REQUIREMENTS_2_RESPONSE_SIZE \<equiv> 32"
abbreviation (input) BVB_VULKAN_BUFFER_REQUIREMENTS_SIZE :: "'a::numeral" where "BVB_VULKAN_BUFFER_REQUIREMENTS_SIZE \<equiv> 24"
abbreviation (input) BVB_VULKAN_COMMAND_BUFFER_ALLOCATE_REQUEST_SIZE :: "'a::numeral" where "BVB_VULKAN_COMMAND_BUFFER_ALLOCATE_REQUEST_SIZE \<equiv> 16"
abbreviation (input) BVB_VULKAN_COMMAND_BUFFER_ALLOCATE_RESPONSE_SIZE :: "'a::numeral" where "BVB_VULKAN_COMMAND_BUFFER_ALLOCATE_RESPONSE_SIZE \<equiv> 16"
abbreviation (input) BVB_VULKAN_COMMAND_BUFFER_BEGIN_REQUEST_SIZE :: "'a::numeral" where "BVB_VULKAN_COMMAND_BUFFER_BEGIN_REQUEST_SIZE \<equiv> 16"
abbreviation (input) BVB_VULKAN_COMMAND_BUFFER_CLEAR_COLOR_IMAGE_REQUEST_SIZE :: "'a::numeral" where "BVB_VULKAN_COMMAND_BUFFER_CLEAR_COLOR_IMAGE_REQUEST_SIZE \<equiv> 16"
abbreviation (input) BVB_VULKAN_COMMAND_BUFFER_FILL_REQUEST_SIZE :: "'a::numeral" where "BVB_VULKAN_COMMAND_BUFFER_FILL_REQUEST_SIZE \<equiv> 40"
abbreviation (input) BVB_VULKAN_COMMAND_BUFFER_FREE_REQUEST_SIZE :: "'a::numeral" where "BVB_VULKAN_COMMAND_BUFFER_FREE_REQUEST_SIZE \<equiv> 16"
abbreviation (input) BVB_VULKAN_COMMAND_BUFFER_ID_SIZE :: "'a::numeral" where "BVB_VULKAN_COMMAND_BUFFER_ID_SIZE \<equiv> 8"
abbreviation (input) BVB_VULKAN_COMMAND_BUFFER_IMAGE_BARRIER_REQUEST_SIZE :: "'a::numeral" where "BVB_VULKAN_COMMAND_BUFFER_IMAGE_BARRIER_REQUEST_SIZE \<equiv> 48"
abbreviation (input) BVB_VULKAN_COMMAND_POOL_CREATE_REQUEST_SIZE :: "'a::numeral" where "BVB_VULKAN_COMMAND_POOL_CREATE_REQUEST_SIZE \<equiv> 16"
abbreviation (input) BVB_VULKAN_COMMAND_POOL_CREATE_RESPONSE_SIZE :: "'a::numeral" where "BVB_VULKAN_COMMAND_POOL_CREATE_RESPONSE_SIZE \<equiv> 16"
abbreviation (input) BVB_VULKAN_COMMAND_POOL_ID_SIZE :: "'a::numeral" where "BVB_VULKAN_COMMAND_POOL_ID_SIZE \<equiv> 8"
abbreviation (input) BVB_VULKAN_COMMAND_POOL_RESET_REQUEST_SIZE :: "'a::numeral" where "BVB_VULKAN_COMMAND_POOL_RESET_REQUEST_SIZE \<equiv> 16"
abbreviation (input) BVB_VULKAN_CORE_FEATURES_SIZE :: "'a::numeral" where "BVB_VULKAN_CORE_FEATURES_SIZE \<equiv> 100"
abbreviation (input) BVB_VULKAN_DEVICE_BUFFER_REQUIREMENTS_REQUEST_SIZE :: "'a::numeral" where "BVB_VULKAN_DEVICE_BUFFER_REQUIREMENTS_REQUEST_SIZE \<equiv> 64"
abbreviation (input) BVB_VULKAN_DEVICE_CREATE_REQUEST_SIZE :: "'a::numeral" where "BVB_VULKAN_DEVICE_CREATE_REQUEST_SIZE \<equiv> 32"
abbreviation (input) BVB_VULKAN_DEVICE_CREATE_RESPONSE_SIZE :: "'a::numeral" where "BVB_VULKAN_DEVICE_CREATE_RESPONSE_SIZE \<equiv> 16"
abbreviation (input) BVB_VULKAN_DEVICE_EXTENSION_QUERY_SIZE :: "'a::numeral" where "BVB_VULKAN_DEVICE_EXTENSION_QUERY_SIZE \<equiv> 16"
abbreviation (input) BVB_VULKAN_DEVICE_ID_SIZE :: "'a::numeral" where "BVB_VULKAN_DEVICE_ID_SIZE \<equiv> 8"
abbreviation (input) BVB_VULKAN_DEVICE_QUEUE_REQUEST_SIZE :: "'a::numeral" where "BVB_VULKAN_DEVICE_QUEUE_REQUEST_SIZE \<equiv> 16"
abbreviation (input) BVB_VULKAN_EXTERNAL_BUFFER_PROPERTIES_SIZE :: "'a::numeral" where "BVB_VULKAN_EXTERNAL_BUFFER_PROPERTIES_SIZE \<equiv> 12"
abbreviation (input) BVB_VULKAN_EXTERNAL_BUFFER_QUERY_SIZE :: "'a::numeral" where "BVB_VULKAN_EXTERNAL_BUFFER_QUERY_SIZE \<equiv> 24"
abbreviation (input) BVB_VULKAN_EXTERNAL_SEMAPHORE_PROPERTIES_SIZE :: "'a::numeral" where "BVB_VULKAN_EXTERNAL_SEMAPHORE_PROPERTIES_SIZE \<equiv> 12"
abbreviation (input) BVB_VULKAN_EXTERNAL_SEMAPHORE_QUERY_SIZE :: "'a::numeral" where "BVB_VULKAN_EXTERNAL_SEMAPHORE_QUERY_SIZE \<equiv> 16"
abbreviation (input) BVB_VULKAN_FENCE_CREATE_REQUEST_SIZE :: "'a::numeral" where "BVB_VULKAN_FENCE_CREATE_REQUEST_SIZE \<equiv> 16"
abbreviation (input) BVB_VULKAN_FENCE_WAIT_REQUEST_SIZE :: "'a::numeral" where "BVB_VULKAN_FENCE_WAIT_REQUEST_SIZE \<equiv> 24"
abbreviation (input) BVB_VULKAN_FORMAT_PROPERTIES_3_SIZE :: "'a::numeral" where "BVB_VULKAN_FORMAT_PROPERTIES_3_SIZE \<equiv> 24"
abbreviation (input) BVB_VULKAN_FORMAT_PROPERTIES_SIZE :: "'a::numeral" where "BVB_VULKAN_FORMAT_PROPERTIES_SIZE \<equiv> 12"
abbreviation (input) BVB_VULKAN_FORMAT_QUERY_SIZE :: "'a::numeral" where "BVB_VULKAN_FORMAT_QUERY_SIZE \<equiv> 16"
abbreviation (input) BVB_VULKAN_GLOBAL_INFO_SIZE :: "'a::numeral" where "BVB_VULKAN_GLOBAL_INFO_SIZE \<equiv> 24"
abbreviation (input) BVB_VULKAN_IMAGE_BIND_REQUEST_SIZE :: "'a::numeral" where "BVB_VULKAN_IMAGE_BIND_REQUEST_SIZE \<equiv> 24"
abbreviation (input) BVB_VULKAN_IMAGE_CREATE_PNEXT_FORMAT_LIST :: "'a::one" where "BVB_VULKAN_IMAGE_CREATE_PNEXT_FORMAT_LIST \<equiv> 1"
abbreviation (input) BVB_VULKAN_IMAGE_CREATE_PNEXT_MASK :: "'a::numeral" where "BVB_VULKAN_IMAGE_CREATE_PNEXT_MASK \<equiv> 3"
abbreviation (input) BVB_VULKAN_IMAGE_CREATE_PNEXT_STENCIL_USAGE :: "'a::numeral" where "BVB_VULKAN_IMAGE_CREATE_PNEXT_STENCIL_USAGE \<equiv> 2"
abbreviation (input) BVB_VULKAN_IMAGE_CREATE_REQUEST_SIZE :: "'a::numeral" where "BVB_VULKAN_IMAGE_CREATE_REQUEST_SIZE \<equiv> 176"
abbreviation (input) BVB_VULKAN_IMAGE_FORMAT_PROPERTIES_SIZE :: "'a::numeral" where "BVB_VULKAN_IMAGE_FORMAT_PROPERTIES_SIZE \<equiv> 40"
abbreviation (input) BVB_VULKAN_IMAGE_FORMAT_QUERY_SIZE :: "'a::numeral" where "BVB_VULKAN_IMAGE_FORMAT_QUERY_SIZE \<equiv> 32"
abbreviation (input) BVB_VULKAN_IMAGE_MAX_QUEUE_FAMILIES :: "'a::numeral" where "BVB_VULKAN_IMAGE_MAX_QUEUE_FAMILIES \<equiv> 8"
abbreviation (input) BVB_VULKAN_IMAGE_MAX_VIEW_FORMATS :: "'a::numeral" where "BVB_VULKAN_IMAGE_MAX_VIEW_FORMATS \<equiv> 16"
abbreviation (input) BVB_VULKAN_IMAGE_REQUIREMENTS_2_PNEXT_DEDICATED :: "'a::one" where "BVB_VULKAN_IMAGE_REQUIREMENTS_2_PNEXT_DEDICATED \<equiv> 1"
abbreviation (input) BVB_VULKAN_IMAGE_REQUIREMENTS_2_PNEXT_MASK :: "'a::one" where "BVB_VULKAN_IMAGE_REQUIREMENTS_2_PNEXT_MASK \<equiv> 1"
abbreviation (input) BVB_VULKAN_IMAGE_REQUIREMENTS_2_REQUEST_SIZE :: "'a::numeral" where "BVB_VULKAN_IMAGE_REQUIREMENTS_2_REQUEST_SIZE \<equiv> 16"
abbreviation (input) BVB_VULKAN_IMAGE_REQUIREMENTS_2_RESPONSE_SIZE :: "'a::numeral" where "BVB_VULKAN_IMAGE_REQUIREMENTS_2_RESPONSE_SIZE \<equiv> 32"
abbreviation (input) BVB_VULKAN_IMAGE_REQUIREMENTS_SIZE :: "'a::numeral" where "BVB_VULKAN_IMAGE_REQUIREMENTS_SIZE \<equiv> 24"
abbreviation (input) BVB_VULKAN_IMAGE_VIEW_CREATE_PNEXT_MASK :: "'a::one" where "BVB_VULKAN_IMAGE_VIEW_CREATE_PNEXT_MASK \<equiv> 1"
abbreviation (input) BVB_VULKAN_IMAGE_VIEW_CREATE_PNEXT_USAGE :: "'a::one" where "BVB_VULKAN_IMAGE_VIEW_CREATE_PNEXT_USAGE \<equiv> 1"
abbreviation (input) BVB_VULKAN_IMAGE_VIEW_CREATE_REQUEST_SIZE :: "'a::numeral" where "BVB_VULKAN_IMAGE_VIEW_CREATE_REQUEST_SIZE \<equiv> 72"
abbreviation (input) BVB_VULKAN_INIT_IMAGE_MAX_BARRIERS :: "'a::numeral" where "BVB_VULKAN_INIT_IMAGE_MAX_BARRIERS \<equiv> 4"
abbreviation (input) BVB_VULKAN_INSTANCE_CREATE_REQUEST_SIZE :: "'a::numeral" where "BVB_VULKAN_INSTANCE_CREATE_REQUEST_SIZE \<equiv> 16"
abbreviation (input) BVB_VULKAN_INSTANCE_CREATE_RESPONSE_SIZE :: "'a::numeral" where "BVB_VULKAN_INSTANCE_CREATE_RESPONSE_SIZE \<equiv> 16"
abbreviation (input) BVB_VULKAN_INSTANCE_ID_SIZE :: "'a::numeral" where "BVB_VULKAN_INSTANCE_ID_SIZE \<equiv> 8"
abbreviation (input) BVB_VULKAN_MAX_MEMORY_ALLOCATION_SIZE :: "'a::numeral" where "BVB_VULKAN_MAX_MEMORY_ALLOCATION_SIZE \<equiv> 268435456"
abbreviation (input) BVB_VULKAN_MEMORY_ALLOCATE_EXTENDED_REQUEST_SIZE :: "'a::numeral" where "BVB_VULKAN_MEMORY_ALLOCATE_EXTENDED_REQUEST_SIZE \<equiv> 40"
abbreviation (input) BVB_VULKAN_MEMORY_ALLOCATE_PNEXT_DEDICATED_IMAGE :: "'a::one" where "BVB_VULKAN_MEMORY_ALLOCATE_PNEXT_DEDICATED_IMAGE \<equiv> 1"
abbreviation (input) BVB_VULKAN_MEMORY_ALLOCATE_PNEXT_FLAGS :: "'a::numeral" where "BVB_VULKAN_MEMORY_ALLOCATE_PNEXT_FLAGS \<equiv> 2"
abbreviation (input) BVB_VULKAN_MEMORY_ALLOCATE_PNEXT_MASK :: "'a::numeral" where "BVB_VULKAN_MEMORY_ALLOCATE_PNEXT_MASK \<equiv> 7"
abbreviation (input) BVB_VULKAN_MEMORY_ALLOCATE_REQUEST_SIZE :: "'a::numeral" where "BVB_VULKAN_MEMORY_ALLOCATE_REQUEST_SIZE \<equiv> 24"
abbreviation (input) BVB_VULKAN_MEMORY_MIRROR_RANGE_SIZE :: "'a::numeral" where "BVB_VULKAN_MEMORY_MIRROR_RANGE_SIZE \<equiv> 40"
abbreviation (input) BVB_VULKAN_MEMORY_MIRROR_SETUP_SIZE :: "'a::numeral" where "BVB_VULKAN_MEMORY_MIRROR_SETUP_SIZE \<equiv> 40"
abbreviation (input) BVB_VULKAN_MEMORY_MIRROR_UNMAP_SIZE :: "'a::numeral" where "BVB_VULKAN_MEMORY_MIRROR_UNMAP_SIZE \<equiv> 24"
abbreviation (input) BVB_VULKAN_MEMORY_VERIFY_FILL_REQUEST_SIZE :: "'a::numeral" where "BVB_VULKAN_MEMORY_VERIFY_FILL_REQUEST_SIZE \<equiv> 32"
abbreviation (input) BVB_VULKAN_MEMORY_VERIFY_FILL_RESPONSE_SIZE :: "'a::numeral" where "BVB_VULKAN_MEMORY_VERIFY_FILL_RESPONSE_SIZE \<equiv> 8"
abbreviation (input) BVB_VULKAN_MEMORY_IO_PREFIX_SIZE :: "'a::numeral" where "BVB_VULKAN_MEMORY_IO_PREFIX_SIZE \<equiv> 24"
abbreviation (input) BVB_VULKAN_MEMORY_IO_MAX_BYTES :: "'a::numeral" where "BVB_VULKAN_MEMORY_IO_MAX_BYTES \<equiv> 4072"
abbreviation (input) BVB_VULKAN_OBJECT_CREATE_RESPONSE_SIZE :: "'a::numeral" where "BVB_VULKAN_OBJECT_CREATE_RESPONSE_SIZE \<equiv> 16"
abbreviation (input) BVB_VULKAN_OBJECT_ID_SIZE :: "'a::numeral" where "BVB_VULKAN_OBJECT_ID_SIZE \<equiv> 8"
abbreviation (input) BVB_VULKAN_PHYSICAL_DEVICE_ID_SIZE :: "'a::numeral" where "BVB_VULKAN_PHYSICAL_DEVICE_ID_SIZE \<equiv> 8"
abbreviation (input) BVB_VULKAN_QUERY_POOL_CREATE_REQUEST_SIZE :: "'a::numeral" where "BVB_VULKAN_QUERY_POOL_CREATE_REQUEST_SIZE \<equiv> 24"
abbreviation (input) BVB_VULKAN_QUERY_POOL_RESET_REQUEST_SIZE :: "'a::numeral" where "BVB_VULKAN_QUERY_POOL_RESET_REQUEST_SIZE \<equiv> 16"
abbreviation (input) BVB_VULKAN_QUERY_POOL_RESULTS_MAX_BYTES :: "'a::numeral" where "BVB_VULKAN_QUERY_POOL_RESULTS_MAX_BYTES \<equiv> 4088"
abbreviation (input) BVB_VULKAN_QUERY_POOL_RESULTS_REQUEST_SIZE :: "'a::numeral" where "BVB_VULKAN_QUERY_POOL_RESULTS_REQUEST_SIZE \<equiv> 40"
abbreviation (input) BVB_VULKAN_QUEUE_ID_SIZE :: "'a::numeral" where "BVB_VULKAN_QUEUE_ID_SIZE \<equiv> 8"
abbreviation (input) BVB_VULKAN_QUEUE_SUBMIT_COMMAND_FENCE_REQUEST_SIZE :: "'a::numeral" where "BVB_VULKAN_QUEUE_SUBMIT_COMMAND_FENCE_REQUEST_SIZE \<equiv> 24"
abbreviation (input) BVB_VULKAN_QUEUE_SUBMIT_COMMAND_REQUEST_SIZE :: "'a::numeral" where "BVB_VULKAN_QUEUE_SUBMIT_COMMAND_REQUEST_SIZE \<equiv> 16"
abbreviation (input) BVB_VULKAN_RESULT_SIZE :: "'a::numeral" where "BVB_VULKAN_RESULT_SIZE \<equiv> 4"
abbreviation (input) BVB_VULKAN_SELFTEST_SIZE :: "'a::numeral" where "BVB_VULKAN_SELFTEST_SIZE \<equiv> 64"
abbreviation (input) BVB_VULKAN_SEMAPHORE_COUNTER_RESPONSE_SIZE :: "'a::numeral" where "BVB_VULKAN_SEMAPHORE_COUNTER_RESPONSE_SIZE \<equiv> 16"
abbreviation (input) BVB_VULKAN_SEMAPHORE_CREATE_REQUEST_SIZE :: "'a::numeral" where "BVB_VULKAN_SEMAPHORE_CREATE_REQUEST_SIZE \<equiv> 24"
abbreviation (input) BVB_VULKAN_SEMAPHORE_SIGNAL_REQUEST_SIZE :: "'a::numeral" where "BVB_VULKAN_SEMAPHORE_SIGNAL_REQUEST_SIZE \<equiv> 24"
abbreviation (input) BVB_VULKAN_SWAPCHAIN_ACQUIRE_REQUEST_SIZE :: "'a::numeral" where "BVB_VULKAN_SWAPCHAIN_ACQUIRE_REQUEST_SIZE \<equiv> 40"
abbreviation (input) BVB_VULKAN_SWAPCHAIN_ACQUIRE_RESPONSE_SIZE :: "'a::numeral" where "BVB_VULKAN_SWAPCHAIN_ACQUIRE_RESPONSE_SIZE \<equiv> 8"
abbreviation (input) BVB_VULKAN_SWAPCHAIN_PREPARE_REQUEST_SIZE :: "'a::numeral" where "BVB_VULKAN_SWAPCHAIN_PREPARE_REQUEST_SIZE \<equiv> 40"
abbreviation (input) BVB_VULKAN_SWAPCHAIN_PRESENT_RESPONSE_SIZE :: "'a::numeral" where "BVB_VULKAN_SWAPCHAIN_PRESENT_RESPONSE_SIZE \<equiv> 8"
abbreviation (input) BVB_WSI_FRAME_RING_MAX_SLOTS :: "'a::numeral" where "BVB_WSI_FRAME_RING_MAX_SLOTS \<equiv> 4"
abbreviation (input) VK_COMPONENT_SWIZZLE_A :: "'a::numeral" where "VK_COMPONENT_SWIZZLE_A \<equiv> 6"
abbreviation (input) VK_FORMAT_UNDEFINED :: "'a::zero" where "VK_FORMAT_UNDEFINED \<equiv> 0"
abbreviation (input) VK_IMAGE_ASPECT_COLOR_BIT :: "'a::one" where "VK_IMAGE_ASPECT_COLOR_BIT \<equiv> 1"
abbreviation (input) VK_IMAGE_ASPECT_DEPTH_BIT :: "'a::numeral" where "VK_IMAGE_ASPECT_DEPTH_BIT \<equiv> 2"
abbreviation (input) VK_IMAGE_ASPECT_METADATA_BIT :: "'a::numeral" where "VK_IMAGE_ASPECT_METADATA_BIT \<equiv> 8"
abbreviation (input) VK_IMAGE_ASPECT_PLANE_0_BIT :: "'a::numeral" where "VK_IMAGE_ASPECT_PLANE_0_BIT \<equiv> 16"
abbreviation (input) VK_IMAGE_ASPECT_PLANE_1_BIT :: "'a::numeral" where "VK_IMAGE_ASPECT_PLANE_1_BIT \<equiv> 32"
abbreviation (input) VK_IMAGE_ASPECT_PLANE_2_BIT :: "'a::numeral" where "VK_IMAGE_ASPECT_PLANE_2_BIT \<equiv> 64"
abbreviation (input) VK_IMAGE_ASPECT_STENCIL_BIT :: "'a::numeral" where "VK_IMAGE_ASPECT_STENCIL_BIT \<equiv> 4"
abbreviation (input) VK_IMAGE_CREATE_2D_ARRAY_COMPATIBLE_BIT :: "'a::numeral" where "VK_IMAGE_CREATE_2D_ARRAY_COMPATIBLE_BIT \<equiv> 32"
abbreviation (input) VK_IMAGE_CREATE_ALIAS_BIT :: "'a::numeral" where "VK_IMAGE_CREATE_ALIAS_BIT \<equiv> 1024"
abbreviation (input) VK_IMAGE_CREATE_BLOCK_TEXEL_VIEW_COMPATIBLE_BIT :: "'a::numeral" where "VK_IMAGE_CREATE_BLOCK_TEXEL_VIEW_COMPATIBLE_BIT \<equiv> 128"
abbreviation (input) VK_IMAGE_CREATE_CUBE_COMPATIBLE_BIT :: "'a::numeral" where "VK_IMAGE_CREATE_CUBE_COMPATIBLE_BIT \<equiv> 16"
abbreviation (input) VK_IMAGE_CREATE_EXTENDED_USAGE_BIT :: "'a::numeral" where "VK_IMAGE_CREATE_EXTENDED_USAGE_BIT \<equiv> 256"
abbreviation (input) VK_IMAGE_CREATE_MUTABLE_FORMAT_BIT :: "'a::numeral" where "VK_IMAGE_CREATE_MUTABLE_FORMAT_BIT \<equiv> 8"
abbreviation (input) VK_IMAGE_LAYOUT_PREINITIALIZED :: "'a::numeral" where "VK_IMAGE_LAYOUT_PREINITIALIZED \<equiv> 8"
abbreviation (input) VK_IMAGE_LAYOUT_UNDEFINED :: "'a::zero" where "VK_IMAGE_LAYOUT_UNDEFINED \<equiv> 0"
abbreviation (input) VK_IMAGE_TILING_LINEAR :: "'a::one" where "VK_IMAGE_TILING_LINEAR \<equiv> 1"
abbreviation (input) VK_IMAGE_TYPE_1D :: "'a::zero" where "VK_IMAGE_TYPE_1D \<equiv> 0"
abbreviation (input) VK_IMAGE_TYPE_2D :: "'a::one" where "VK_IMAGE_TYPE_2D \<equiv> 1"
abbreviation (input) VK_IMAGE_TYPE_3D :: "'a::numeral" where "VK_IMAGE_TYPE_3D \<equiv> 2"
abbreviation (input) VK_IMAGE_USAGE_COLOR_ATTACHMENT_BIT :: "'a::numeral" where "VK_IMAGE_USAGE_COLOR_ATTACHMENT_BIT \<equiv> 16"
abbreviation (input) VK_IMAGE_USAGE_DEPTH_STENCIL_ATTACHMENT_BIT :: "'a::numeral" where "VK_IMAGE_USAGE_DEPTH_STENCIL_ATTACHMENT_BIT \<equiv> 32"
abbreviation (input) VK_IMAGE_USAGE_INPUT_ATTACHMENT_BIT :: "'a::numeral" where "VK_IMAGE_USAGE_INPUT_ATTACHMENT_BIT \<equiv> 128"
abbreviation (input) VK_IMAGE_USAGE_SAMPLED_BIT :: "'a::numeral" where "VK_IMAGE_USAGE_SAMPLED_BIT \<equiv> 4"
abbreviation (input) VK_IMAGE_USAGE_STORAGE_BIT :: "'a::numeral" where "VK_IMAGE_USAGE_STORAGE_BIT \<equiv> 8"
abbreviation (input) VK_IMAGE_USAGE_TRANSFER_DST_BIT :: "'a::numeral" where "VK_IMAGE_USAGE_TRANSFER_DST_BIT \<equiv> 2"
abbreviation (input) VK_IMAGE_USAGE_TRANSFER_SRC_BIT :: "'a::one" where "VK_IMAGE_USAGE_TRANSFER_SRC_BIT \<equiv> 1"
abbreviation (input) VK_IMAGE_USAGE_TRANSIENT_ATTACHMENT_BIT :: "'a::numeral" where "VK_IMAGE_USAGE_TRANSIENT_ATTACHMENT_BIT \<equiv> 64"
abbreviation (input) VK_IMAGE_VIEW_TYPE_CUBE_ARRAY :: "'a::numeral" where "VK_IMAGE_VIEW_TYPE_CUBE_ARRAY \<equiv> 6"
abbreviation (input) VK_MAX_MEMORY_TYPES :: "'a::numeral" where "VK_MAX_MEMORY_TYPES \<equiv> 32"
abbreviation (input) VK_MEMORY_ALLOCATE_DEVICE_ADDRESS_BIT :: "'a::numeral" where "VK_MEMORY_ALLOCATE_DEVICE_ADDRESS_BIT \<equiv> 2"
abbreviation (input) VK_QUERY_TYPE_OCCLUSION :: "'a::zero" where "VK_QUERY_TYPE_OCCLUSION \<equiv> 0"
abbreviation (input) VK_QUERY_TYPE_PIPELINE_STATISTICS :: "'a::one" where "VK_QUERY_TYPE_PIPELINE_STATISTICS \<equiv> 1"
abbreviation (input) VK_QUERY_TYPE_TIMESTAMP :: "'a::numeral" where "VK_QUERY_TYPE_TIMESTAMP \<equiv> 2"
abbreviation (input) VK_QUERY_TYPE_TRANSFORM_FEEDBACK_STREAM_EXT :: "'a::numeral" where "VK_QUERY_TYPE_TRANSFORM_FEEDBACK_STREAM_EXT \<equiv> 1000028004"
abbreviation (input) VK_SAMPLE_COUNT_16_BIT :: "'a::numeral" where "VK_SAMPLE_COUNT_16_BIT \<equiv> 16"
abbreviation (input) VK_SAMPLE_COUNT_1_BIT :: "'a::one" where "VK_SAMPLE_COUNT_1_BIT \<equiv> 1"
abbreviation (input) VK_SAMPLE_COUNT_2_BIT :: "'a::numeral" where "VK_SAMPLE_COUNT_2_BIT \<equiv> 2"
abbreviation (input) VK_SAMPLE_COUNT_32_BIT :: "'a::numeral" where "VK_SAMPLE_COUNT_32_BIT \<equiv> 32"
abbreviation (input) VK_SAMPLE_COUNT_4_BIT :: "'a::numeral" where "VK_SAMPLE_COUNT_4_BIT \<equiv> 4"
abbreviation (input) VK_SAMPLE_COUNT_64_BIT :: "'a::numeral" where "VK_SAMPLE_COUNT_64_BIT \<equiv> 64"
abbreviation (input) VK_SAMPLE_COUNT_8_BIT :: "'a::numeral" where "VK_SAMPLE_COUNT_8_BIT \<equiv> 8"
abbreviation (input) VK_SHARING_MODE_CONCURRENT :: "'a::one" where "VK_SHARING_MODE_CONCURRENT \<equiv> 1"
abbreviation (input) VK_SHARING_MODE_EXCLUSIVE :: "'a::zero" where "VK_SHARING_MODE_EXCLUSIVE \<equiv> 0"

definition wire_id_is_type :: "u64 \<Rightarrow> u8 \<Rightarrow> bool" where
  "wire_id_is_type wire_id type \<longleftrightarrow>
     (ucast (drop_bit 56 wire_id) :: u8) = type \<and> wire_id AND 0x00ffffffffffffff \<noteq> 0"

end
