(* ===== verification/Proto_Header.thy ===== *)
theory Proto_Header
  imports Proto_Base
begin

unbundle bit_operations_syntax

section \<open>The packet header\<close>

text \<open>
  \<^verbatim>\<open>struct bvb_protocol_header\<close> of src/include/bvb/protocol.h with \<^verbatim>\<open>header_is_valid\<close>,
  \<^verbatim>\<open>bvb_protocol_encode_header\<close> and \<^verbatim>\<open>bvb_protocol_decode_header\<close> of src/src/protocol.c: the 24
  bytes in front of every message. Unlike the payload codecs the header codec reports an oversized
  payload with its own error, on both sides.
\<close>

abbreviation (input) BVB_PROTOCOL_MAGIC :: u32 where "BVB_PROTOCOL_MAGIC \<equiv> 0x31425642"
abbreviation (input) BVB_PROTOCOL_VERSION :: u16 where "BVB_PROTOCOL_VERSION \<equiv> 1"
abbreviation (input) BVB_PROTOCOL_HEADER_SIZE :: nat where "BVB_PROTOCOL_HEADER_SIZE \<equiv> 24"
abbreviation (input) BVB_PROTOCOL_REQUEST :: u16 where "BVB_PROTOCOL_REQUEST \<equiv> 1"
abbreviation (input) BVB_PROTOCOL_RESPONSE :: u16 where "BVB_PROTOCOL_RESPONSE \<equiv> 2"
abbreviation (input) BVB_OPCODE_HELLO :: u16 where "BVB_OPCODE_HELLO \<equiv> 1"
abbreviation (input) BVB_OPCODE_LAST :: u16 where "BVB_OPCODE_LAST \<equiv> 125"

record protocol_header =
  ph_version :: u16
  ph_kind :: u16
  ph_opcode :: u16
  ph_request_id :: u32
  ph_payload_length :: u32
  ph_status :: i32

definition header_is_valid :: "protocol_header \<Rightarrow> unit result" where
  "header_is_valid header =
     (if ph_version header \<noteq> BVB_PROTOCOL_VERSION then Inl EPROTO
      else if ph_kind header \<noteq> BVB_PROTOCOL_REQUEST \<and> ph_kind header \<noteq> BVB_PROTOCOL_RESPONSE
      then Inl EPROTO
      else if ph_opcode header < BVB_OPCODE_HELLO \<or> ph_opcode header > BVB_OPCODE_LAST
      then Inl EPROTO
      else if ph_payload_length header > BVB_PROTOCOL_MAX_PAYLOAD then Inl EMSGSIZE
      else if ph_kind header = BVB_PROTOCOL_REQUEST \<and> ph_status header \<noteq> 0 then Inl EPROTO
      else Inr ())"

definition encode_header :: "bytes option \<Rightarrow> protocol_header option \<Rightarrow> bytes result" where
  "encode_header output header = nonnull2 output header (\<lambda>output header.
     case header_is_valid header of
       Inl result \<Rightarrow> Inl result
     | Inr _ \<Rightarrow>
     let output = put_u32 output 0 BVB_PROTOCOL_MAGIC in
     let output = put_u16 output 4 (ph_version header) in
     let output = put_u16 output 6 (ph_kind header) in
     let output = put_u16 output 8 (ph_opcode header) in
     let output = put_u16 output 10 0 in
     let output = put_u32 output 12 (ph_request_id header) in
     let output = put_u32 output 16 (ph_payload_length header) in
     let output = put_i32 output 20 (ph_status header) in
     Inr output)"

definition decode_header :: "bytes option \<Rightarrow> protocol_header option \<Rightarrow> protocol_header result" where
  "decode_header input header = nonnull2 input header (\<lambda>input _.
     if get_u32 input 0 \<noteq> BVB_PROTOCOL_MAGIC \<or> get_u16 input 10 \<noteq> 0 then Inl EPROTO
     else
     let decoded = \<lparr>ph_version = get_u16 input 4, ph_kind = get_u16 input 6,
                    ph_opcode = get_u16 input 8, ph_request_id = get_u32 input 12,
                    ph_payload_length = get_u32 input 16, ph_status = get_i32 input 20\<rparr> in
     case header_is_valid decoded of Inl result \<Rightarrow> Inl result | Inr _ \<Rightarrow> Inr decoded)"

lemma header_collapse [wire_simps]:
  "\<lparr>ph_version = ph_version h, ph_kind = ph_kind h, ph_opcode = ph_opcode h,
    ph_request_id = ph_request_id h, ph_payload_length = ph_payload_length h,
    ph_status = ph_status h\<rparr> = h"
  by simp

lemma encode_header_reject: "header_is_valid h = Inl e \<Longrightarrow> encode_header (Some b) (Some h) = Inl e"
  by (simp add: encode_header_def)

lemma header_roundtrip:
  assumes "header_is_valid h = Inr ()" "length b = BVB_PROTOCOL_HEADER_SIZE"
  shows "\<exists>m. encode_header (Some b) (Some h) = Inr m \<and> length m = BVB_PROTOCOL_HEADER_SIZE \<and>
    decode_header (Some m) (Some d) = Inr h"
  using assms by (simp add: encode_header_def decode_header_def wire_simps)

text \<open>Only the first 24 bytes of a longer buffer matter.\<close>

lemma encode_header_frame:
  "length b = BVB_PROTOCOL_HEADER_SIZE \<Longrightarrow>
     encode_header (Some (b @ c)) (Some h) = map_sum id (\<lambda>m. m @ c) (encode_header (Some b) (Some h))"
  by (auto simp: encode_header_def wire_simps split: codec_splits)

lemma decode_header_frame:
  "length m = BVB_PROTOCOL_HEADER_SIZE \<Longrightarrow> decode_header (Some (m @ c)) (Some d) = decode_header (Some m) (Some d)"
  by (simp add: decode_header_def wire_simps)

lemma decode_header_valid:
  "decode_header (Some m) (Some d) = Inr h \<Longrightarrow>
     header_is_valid h = Inr () \<and> get_u32 m 0 = BVB_PROTOCOL_MAGIC \<and> get_u16 m 10 = 0"
  by (auto simp: decode_header_def Let_def split: if_splits sum.splits)

text \<open>
  A receiver that reads a header knows how many bytes follow: at most the size of its payload
  buffer, so reading the payload cannot overrun it.
\<close>

lemma decode_header_payload_bound:
  "decode_header (Some m) (Some d) = Inr h \<Longrightarrow> unat (ph_payload_length h) \<le> 4096"
  by (auto dest!: decode_header_valid simp: header_is_valid_def word_le_nat_alt not_less split: if_splits)

text \<open>A valid header is determined by the 24 bytes, and the 24 bytes by the header.\<close>

lemma header_bytes_determined:
  assumes "length b = BVB_PROTOCOL_HEADER_SIZE" "length c = BVB_PROTOCOL_HEADER_SIZE"
    "encode_header (Some b) (Some h) = Inr m" "encode_header (Some c) (Some h') = Inr m"
  shows "h = h'"
proof -
  have "header_is_valid h = Inr ()" "header_is_valid h' = Inr ()"
    using assms(3,4) by (auto simp: encode_header_def split: sum.splits)
  then have "decode_header (Some m) (Some h) = Inr h" "decode_header (Some m) (Some h) = Inr h'"
    using header_roundtrip [OF _ assms(1), of h h] header_roundtrip [OF _ assms(2), of h' h] assms(3,4) by auto
  then show ?thesis by simp
qed

subsection \<open>Properties\<close>

text \<open>
  C15: The packet header. A valid header is written into 24 bytes from which the peer reads the same
  header; an invalid one is refused with the reason, so that an oversized payload is told apart
  (EMSGSIZE) from a malformed header (EPROTO). Whatever 24 bytes arrive, a header that is accepted
  is valid and announces at most 4096 bytes of payload, the size of the receiver's buffer, and a
  request never carries a status.
\<close>

theorem header_exchange:
  assumes "length b = BVB_PROTOCOL_HEADER_SIZE"
  shows "(case header_is_valid h of
      Inr _ \<Rightarrow> \<exists>m. encode_header (Some b) (Some h) = Inr m \<and> length m = BVB_PROTOCOL_HEADER_SIZE \<and>
        decode_header (Some m) (Some d) = Inr h
    | Inl e \<Rightarrow> encode_header (Some b) (Some h) = Inl e) \<and>
    (\<forall>m x. decode_header (Some m) (Some d) = Inr x \<longrightarrow>
      header_is_valid x = Inr () \<and> unat (ph_payload_length x) \<le> 4096 \<and>
      (ph_kind x = BVB_PROTOCOL_REQUEST \<longrightarrow> ph_status x = 0))"
proof -
  have "case header_is_valid h of
      Inr _ \<Rightarrow> \<exists>m. encode_header (Some b) (Some h) = Inr m \<and> length m = BVB_PROTOCOL_HEADER_SIZE \<and>
        decode_header (Some m) (Some d) = Inr h
    | Inl e \<Rightarrow> encode_header (Some b) (Some h) = Inl e"
    using header_roundtrip [of h b d] assms by (auto simp: encode_header_reject split: sum.split)
  moreover have "ph_status x = 0" if "header_is_valid x = Inr ()" "ph_kind x = BVB_PROTOCOL_REQUEST" for x
    using that by (auto simp: header_is_valid_def split: if_splits)
  ultimately show ?thesis
    using decode_header_valid [of _ d] decode_header_payload_bound [of _ d] by blast
qed

theorem header_exchange_witness:
  "\<exists>m. encode_header (Some (replicate 24 0)) (Some \<lparr>ph_version = 1, ph_kind = 1, ph_opcode = 1,
       ph_request_id = 7, ph_payload_length = 8, ph_status = 0\<rparr>) = Inr m \<and>
     decode_header (Some m) (Some \<lparr>ph_version = 0, ph_kind = 0, ph_opcode = 0,
       ph_request_id = 0, ph_payload_length = 0, ph_status = 0\<rparr>) =
     Inr \<lparr>ph_version = 1, ph_kind = 1, ph_opcode = 1, ph_request_id = 7, ph_payload_length = 8, ph_status = 0\<rparr>"
proof -
  let ?h = "\<lparr>ph_version = 1, ph_kind = 1, ph_opcode = 1, ph_request_id = 7, ph_payload_length = 8, ph_status = 0\<rparr>"
  have "header_is_valid ?h = Inr ()" by (simp add: header_is_valid_def)
  then show ?thesis
    using header_exchange [of "replicate 24 0" ?h "\<lparr>ph_version = 0, ph_kind = 0, ph_opcode = 0,
       ph_request_id = 0, ph_payload_length = 0, ph_status = 0\<rparr>"] by auto
qed

end
