(* ===== verification/Proto_Session.thy ===== *)
theory Proto_Session
  imports Proto_Base
begin

unbundle bit_operations_syntax

section \<open>Packet header, handshake, external imports and the swapchain\<close>

text \<open>The messages of src/src/protocol.c lines 3327-3828.\<close>



subsection \<open>Hello request\<close>

record hello_request =
  hr_minimum_version :: u16
  hr_maximum_version :: u16
  hr_client_flags :: u32

definition encode_hello_request ::
  "bytes option \<Rightarrow> hello_request option \<Rightarrow> bytes result" where
  "encode_hello_request output request = nonnull2 output request (\<lambda>output request.
     if hr_minimum_version request = 0 \<or>
        hr_minimum_version request > hr_maximum_version request then Inl EINVAL
     else
     let output = put_u16 output 0 (hr_minimum_version request) in
     let output = put_u16 output 2 (hr_maximum_version request) in
     let output = put_u32 output 4 (hr_client_flags request) in
     Inr output)"

definition decode_hello_request ::
  "bytes option \<Rightarrow> hello_request option \<Rightarrow> hello_request result" where
  "decode_hello_request input request = nonnull2 input request (\<lambda>input _.
     let decoded = \<lparr>hr_minimum_version = get_u16 input 0,
                  hr_maximum_version = get_u16 input 2,
                  hr_client_flags = get_u32 input 4\<rparr> in
     if hr_minimum_version decoded = 0 \<or>
        hr_minimum_version decoded > hr_maximum_version decoded then Inl EPROTO
     else
     Inr decoded)"

interpretation hello_request_codec: agreed_codec BVB_HELLO_REQUEST_SIZE
  "\<lambda>request. hr_minimum_version request \<noteq> 0 \<and>
      hr_minimum_version request \<le> hr_maximum_version request"
  encode_hello_request decode_hello_request
  by unfold_locales
    (auto simp: encode_hello_request_def decode_hello_request_def
      wire_simps split: codec_splits)

subsection \<open>External memory import request\<close>

record external_memory_import_request =
  emir_allocation_size :: u64
  emir_memory_type_index :: u32
  emir_buffer_bytes :: u32

definition encode_external_memory_import_request ::
  "bytes option \<Rightarrow> external_memory_import_request option \<Rightarrow> bytes result" where
  "encode_external_memory_import_request output request = nonnull2 output request (\<lambda>output request.
     if emir_allocation_size request = 0 \<or>
        emir_allocation_size request > BVB_SHARED_BATCH_MAX_BYTES \<or>
        emir_memory_type_index request \<ge> 32 \<or>
        emir_buffer_bytes request = 0 \<or>
        ucast (emir_buffer_bytes request) > emir_allocation_size request then Inl EINVAL
     else
     let output = put_u64 output 0 (emir_allocation_size request) in
     let output = put_u32 output 8 (emir_memory_type_index request) in
     let output = put_u32 output 12 (emir_buffer_bytes request) in
     Inr output)"

definition decode_external_memory_import_request ::
  "bytes option \<Rightarrow> external_memory_import_request option \<Rightarrow> external_memory_import_request result" where
  "decode_external_memory_import_request input request = nonnull2 input request (\<lambda>input _.
     let decoded = \<lparr>emir_allocation_size = get_u64 input 0,
                  emir_memory_type_index = get_u32 input 8,
                  emir_buffer_bytes = get_u32 input 12\<rparr> in
     case encode_external_memory_import_request (Some (replicate BVB_EXTERNAL_MEMORY_IMPORT_REQUEST_SIZE 0)) (Some decoded) of Inl _ \<Rightarrow> Inl EPROTO
     | Inr validation \<Rightarrow>
     Inr decoded)"

interpretation external_memory_import_request_codec: agreed_codec BVB_EXTERNAL_MEMORY_IMPORT_REQUEST_SIZE
  "\<lambda>request. emir_allocation_size request \<noteq> 0 \<and>
      emir_allocation_size request \<le> BVB_SHARED_BATCH_MAX_BYTES \<and>
      emir_memory_type_index request < 32 \<and>
      emir_buffer_bytes request \<noteq> 0 \<and>
      ucast (emir_buffer_bytes request) \<le> emir_allocation_size request"
  encode_external_memory_import_request decode_external_memory_import_request
  by unfold_locales
    (auto simp: encode_external_memory_import_request_def decode_external_memory_import_request_def
      wire_simps split: codec_splits)

subsection \<open>External sync import request\<close>

record external_sync_import_request =
  esir_allocation_size :: u64
  esir_memory_type_index :: u32
  esir_buffer_bytes :: u32
  esir_expected_fill_word :: u32

definition encode_external_sync_import_request ::
  "bytes option \<Rightarrow> external_sync_import_request option \<Rightarrow> bytes result" where
  "encode_external_sync_import_request output request = nonnull2 output request (\<lambda>output request.
     if esir_allocation_size request = 0 \<or>
        esir_allocation_size request > BVB_SHARED_BATCH_MAX_BYTES \<or>
        esir_memory_type_index request \<ge> 32 \<or>
        esir_buffer_bytes request = 0 \<or>
        ucast (esir_buffer_bytes request) > esir_allocation_size request \<or>
        (esir_buffer_bytes request mod 4) \<noteq> 0 then Inl EINVAL
     else
     let output = put_u64 output 0 (esir_allocation_size request) in
     let output = put_u32 output 8 (esir_memory_type_index request) in
     let output = put_u32 output 12 (esir_buffer_bytes request) in
     let output = put_u32 output 16 (esir_expected_fill_word request) in
     let output = put_u32 output 20 0 in
     Inr output)"

definition decode_external_sync_import_request ::
  "bytes option \<Rightarrow> external_sync_import_request option \<Rightarrow> external_sync_import_request result" where
  "decode_external_sync_import_request input request = nonnull2 input request (\<lambda>input _.
     if get_u32 input 20 \<noteq> 0 then Inl EINVAL
     else
     let decoded = \<lparr>esir_allocation_size = get_u64 input 0,
                  esir_memory_type_index = get_u32 input 8,
                  esir_buffer_bytes = get_u32 input 12,
                  esir_expected_fill_word = get_u32 input 16\<rparr> in
     case encode_external_sync_import_request (Some (replicate BVB_EXTERNAL_SYNC_IMPORT_REQUEST_SIZE 0)) (Some decoded) of Inl _ \<Rightarrow> Inl EPROTO
     | Inr validation \<Rightarrow>
     Inr decoded)"

interpretation external_sync_import_request_codec: agreed_codec BVB_EXTERNAL_SYNC_IMPORT_REQUEST_SIZE
  "\<lambda>request. esir_allocation_size request \<noteq> 0 \<and>
      esir_allocation_size request \<le> BVB_SHARED_BATCH_MAX_BYTES \<and>
      esir_memory_type_index request < 32 \<and>
      esir_buffer_bytes request \<noteq> 0 \<and>
      ucast (esir_buffer_bytes request) \<le> esir_allocation_size request \<and>
      (esir_buffer_bytes request mod 4) = 0"
  encode_external_sync_import_request decode_external_sync_import_request
  by unfold_locales
    (auto simp: encode_external_sync_import_request_def decode_external_sync_import_request_def
      wire_simps split: codec_splits del: mod_0_imp_dvd)

subsection \<open>External image import request\<close>

record external_image_import_request =
  eiir_allocation_size :: u64
  eiir_memory_type_index :: u32
  eiir_width :: u32
  eiir_height :: u32
  eiir_format :: u32
  eiir_expected_color :: u32

definition encode_external_image_import_request ::
  "bytes option \<Rightarrow> external_image_import_request option \<Rightarrow> bytes result" where
  "encode_external_image_import_request output request = nonnull2 output request (\<lambda>output request.
     if eiir_allocation_size request = 0 \<or>
        eiir_allocation_size request > BVB_SHARED_BATCH_MAX_BYTES \<or>
        eiir_memory_type_index request \<ge> 32 \<or>
        eiir_width request = 0 \<or>
        eiir_height request = 0 \<or>
        eiir_width request > 4096 \<or>
        eiir_height request > 4096 \<or>
        eiir_format request = 0 \<or>
        eiir_width request > ((BVB_SHARED_BATCH_MAX_BYTES div 4) div eiir_height request) then Inl EINVAL
     else
     let output = put_u64 output 0 (eiir_allocation_size request) in
     let output = put_u32 output 8 (eiir_memory_type_index request) in
     let output = put_u32 output 12 (eiir_width request) in
     let output = put_u32 output 16 (eiir_height request) in
     let output = put_u32 output 20 (eiir_format request) in
     let output = put_u32 output 24 (eiir_expected_color request) in
     let output = put_u32 output 28 0 in
     Inr output)"

definition decode_external_image_import_request ::
  "bytes option \<Rightarrow> external_image_import_request option \<Rightarrow> external_image_import_request result" where
  "decode_external_image_import_request input request = nonnull2 input request (\<lambda>input _.
     if get_u32 input 28 \<noteq> 0 then Inl EINVAL
     else
     let decoded = \<lparr>eiir_allocation_size = get_u64 input 0,
                  eiir_memory_type_index = get_u32 input 8,
                  eiir_width = get_u32 input 12,
                  eiir_height = get_u32 input 16,
                  eiir_format = get_u32 input 20,
                  eiir_expected_color = get_u32 input 24\<rparr> in
     case encode_external_image_import_request (Some (replicate BVB_EXTERNAL_IMAGE_IMPORT_REQUEST_SIZE 0)) (Some decoded) of Inl _ \<Rightarrow> Inl EPROTO
     | Inr validation \<Rightarrow>
     Inr decoded)"

interpretation external_image_import_request_codec: agreed_codec BVB_EXTERNAL_IMAGE_IMPORT_REQUEST_SIZE
  "\<lambda>request. eiir_allocation_size request \<noteq> 0 \<and>
      eiir_allocation_size request \<le> BVB_SHARED_BATCH_MAX_BYTES \<and>
      eiir_memory_type_index request < 32 \<and>
      eiir_width request \<noteq> 0 \<and>
      eiir_height request \<noteq> 0 \<and>
      eiir_width request \<le> 4096 \<and>
      eiir_height request \<le> 4096 \<and>
      eiir_format request \<noteq> 0 \<and>
      eiir_width request \<le> ((BVB_SHARED_BATCH_MAX_BYTES div 4) div eiir_height request)"
  encode_external_image_import_request decode_external_image_import_request
  by unfold_locales
    (auto simp: encode_external_image_import_request_def decode_external_image_import_request_def
      wire_simps split: codec_splits)

subsection \<open>Swapchain prepare request\<close>

record vulkan_swapchain_prepare_request =
  spr_device_id :: u64
  spr_width :: u32
  spr_height :: u32
  spr_format :: u32
  spr_image_usage :: u32
  spr_min_image_count :: u32
  spr_flags :: u32
  spr_generation :: u64

definition encode_vulkan_swapchain_prepare_request ::
  "bytes option \<Rightarrow> vulkan_swapchain_prepare_request option \<Rightarrow> bytes result" where
  "encode_vulkan_swapchain_prepare_request output request = nonnull2 output request (\<lambda>output request.
     if \<not> wire_id_is_type (spr_device_id request) BVB_OBJECT_DEVICE \<or>
        spr_width request = 0 \<or>
        spr_height request = 0 \<or>
        spr_format request = 0 \<or>
        spr_image_usage request = 0 \<or>
        spr_min_image_count request < 2 \<or>
        spr_min_image_count request > BVB_WSI_FRAME_RING_MAX_SLOTS \<or>
        spr_flags request \<noteq> 0 \<or>
        spr_generation request = 0 then Inl EINVAL
     else
     let output = memset0 output 0 BVB_VULKAN_SWAPCHAIN_PREPARE_REQUEST_SIZE in
     let output = put_u64 output 0 (spr_device_id request) in
     let output = put_u32 output 8 (spr_width request) in
     let output = put_u32 output 12 (spr_height request) in
     let output = put_u32 output 16 (spr_format request) in
     let output = put_u32 output 20 (spr_image_usage request) in
     let output = put_u32 output 24 (spr_min_image_count request) in
     let output = put_u32 output 28 (spr_flags request) in
     let output = put_u64 output 32 (spr_generation request) in
     Inr output)"

definition decode_vulkan_swapchain_prepare_request ::
  "bytes option \<Rightarrow> vulkan_swapchain_prepare_request option \<Rightarrow> vulkan_swapchain_prepare_request result" where
  "decode_vulkan_swapchain_prepare_request input request = nonnull2 input request (\<lambda>input _.
     let decoded = \<lparr>spr_device_id = get_u64 input 0,
                  spr_width = get_u32 input 8,
                  spr_height = get_u32 input 12,
                  spr_format = get_u32 input 16,
                  spr_image_usage = get_u32 input 20,
                  spr_min_image_count = get_u32 input 24,
                  spr_flags = get_u32 input 28,
                  spr_generation = get_u64 input 32\<rparr> in
     case encode_vulkan_swapchain_prepare_request (Some (replicate BVB_VULKAN_SWAPCHAIN_PREPARE_REQUEST_SIZE 0)) (Some decoded) of Inl _ \<Rightarrow> Inl EPROTO
     | Inr validation \<Rightarrow>
     Inr decoded)"

interpretation swapchain_prepare_request_codec: agreed_codec BVB_VULKAN_SWAPCHAIN_PREPARE_REQUEST_SIZE
  "\<lambda>request. wire_id_is_type (spr_device_id request) BVB_OBJECT_DEVICE \<and>
      spr_width request \<noteq> 0 \<and>
      spr_height request \<noteq> 0 \<and>
      spr_format request \<noteq> 0 \<and>
      spr_image_usage request \<noteq> 0 \<and>
      spr_min_image_count request \<ge> 2 \<and>
      spr_min_image_count request \<le> BVB_WSI_FRAME_RING_MAX_SLOTS \<and>
      spr_flags request = 0 \<and>
      spr_generation request \<noteq> 0"
  encode_vulkan_swapchain_prepare_request decode_vulkan_swapchain_prepare_request
  by unfold_locales
    (auto simp: encode_vulkan_swapchain_prepare_request_def decode_vulkan_swapchain_prepare_request_def
      wire_simps split: codec_splits)




subsection \<open>Swapchain acquire request\<close>

record vulkan_swapchain_acquire_request =
  sar_device_id :: u64
  sar_swapchain_id :: u64
  sar_timeout_ns :: u64
  sar_semaphore_id :: u64
  sar_fence_id :: u64

definition encode_vulkan_swapchain_acquire_request ::
  "bytes option \<Rightarrow> vulkan_swapchain_acquire_request option \<Rightarrow> bytes result" where
  "encode_vulkan_swapchain_acquire_request output request = nonnull2 output request (\<lambda>output request.
     if \<not> wire_id_is_type (sar_device_id request) BVB_OBJECT_DEVICE \<or>
        \<not> wire_id_is_type (sar_swapchain_id request) BVB_OBJECT_SWAPCHAIN \<or>
        (sar_semaphore_id request = 0 \<and>
        sar_fence_id request = 0) \<or>
        (sar_semaphore_id request \<noteq> 0 \<and>
        \<not> wire_id_is_type (sar_semaphore_id request) BVB_OBJECT_SEMAPHORE) \<or>
        (sar_fence_id request \<noteq> 0 \<and>
        \<not> wire_id_is_type (sar_fence_id request) BVB_OBJECT_FENCE) then Inl EINVAL
     else
     let output = memset0 output 0 BVB_VULKAN_SWAPCHAIN_ACQUIRE_REQUEST_SIZE in
     let output = put_u64 output 0 (sar_device_id request) in
     let output = put_u64 output 8 (sar_swapchain_id request) in
     let output = put_u64 output 16 (sar_timeout_ns request) in
     let output = put_u64 output 24 (sar_semaphore_id request) in
     let output = put_u64 output 32 (sar_fence_id request) in
     Inr output)"

definition decode_vulkan_swapchain_acquire_request ::
  "bytes option \<Rightarrow> vulkan_swapchain_acquire_request option \<Rightarrow> vulkan_swapchain_acquire_request result" where
  "decode_vulkan_swapchain_acquire_request input request = nonnull2 input request (\<lambda>input _.
     let decoded = \<lparr>sar_device_id = get_u64 input 0,
                  sar_swapchain_id = get_u64 input 8,
                  sar_timeout_ns = get_u64 input 16,
                  sar_semaphore_id = get_u64 input 24,
                  sar_fence_id = get_u64 input 32\<rparr> in
     case encode_vulkan_swapchain_acquire_request (Some (replicate BVB_VULKAN_SWAPCHAIN_ACQUIRE_REQUEST_SIZE 0)) (Some decoded) of Inl _ \<Rightarrow> Inl EPROTO
     | Inr validation \<Rightarrow>
     Inr decoded)"

interpretation swapchain_acquire_request_codec: agreed_codec BVB_VULKAN_SWAPCHAIN_ACQUIRE_REQUEST_SIZE
  "\<lambda>request. wire_id_is_type (sar_device_id request) BVB_OBJECT_DEVICE \<and>
      wire_id_is_type (sar_swapchain_id request) BVB_OBJECT_SWAPCHAIN \<and>
      (sar_semaphore_id request \<noteq> 0 \<or>
      sar_fence_id request \<noteq> 0) \<and>
      (sar_semaphore_id request = 0 \<or>
      wire_id_is_type (sar_semaphore_id request) BVB_OBJECT_SEMAPHORE) \<and>
      (sar_fence_id request = 0 \<or>
      wire_id_is_type (sar_fence_id request) BVB_OBJECT_FENCE)"
  encode_vulkan_swapchain_acquire_request decode_vulkan_swapchain_acquire_request
  by unfold_locales
    (auto simp: encode_vulkan_swapchain_acquire_request_def decode_vulkan_swapchain_acquire_request_def
      wire_simps split: codec_splits)

subsection \<open>Swapchain acquire response\<close>

record vulkan_swapchain_acquire_response =
  swar_vulkan_result :: i32
  swar_image_index :: u32

definition encode_vulkan_swapchain_acquire_response ::
  "bytes option \<Rightarrow> vulkan_swapchain_acquire_response option \<Rightarrow> bytes result" where
  "encode_vulkan_swapchain_acquire_response output response = nonnull2 output response (\<lambda>output response.
     if (swar_vulkan_result response = 0 \<and>
        swar_image_index response \<ge> BVB_WSI_FRAME_RING_MAX_SLOTS) \<or>
        (swar_vulkan_result response \<noteq> 0 \<and>
        swar_image_index response \<noteq> 0) then Inl EINVAL
     else
     let output = put_i32 output 0 (swar_vulkan_result response) in
     let output = put_u32 output 4 (swar_image_index response) in
     Inr output)"

definition decode_vulkan_swapchain_acquire_response ::
  "bytes option \<Rightarrow> vulkan_swapchain_acquire_response option \<Rightarrow> vulkan_swapchain_acquire_response result" where
  "decode_vulkan_swapchain_acquire_response input response = nonnull2 input response (\<lambda>input _.
     let decoded = \<lparr>swar_vulkan_result = get_i32 input 0,
                  swar_image_index = get_u32 input 4\<rparr> in
     case encode_vulkan_swapchain_acquire_response (Some (replicate BVB_VULKAN_SWAPCHAIN_ACQUIRE_RESPONSE_SIZE 0)) (Some decoded) of Inl _ \<Rightarrow> Inl EPROTO
     | Inr validation \<Rightarrow>
     Inr decoded)"

interpretation swapchain_acquire_response_codec: agreed_codec BVB_VULKAN_SWAPCHAIN_ACQUIRE_RESPONSE_SIZE
  "\<lambda>response. (swar_vulkan_result response \<noteq> 0 \<or>
      swar_image_index response < BVB_WSI_FRAME_RING_MAX_SLOTS) \<and>
      (swar_vulkan_result response = 0 \<or>
      swar_image_index response = 0)"
  encode_vulkan_swapchain_acquire_response decode_vulkan_swapchain_acquire_response
  by unfold_locales
    (auto simp: encode_vulkan_swapchain_acquire_response_def decode_vulkan_swapchain_acquire_response_def
      wire_simps split: codec_splits)



subsection \<open>Swapchain present response\<close>

record vulkan_swapchain_present_response =
  swapr_vulkan_result :: i32
  swapr_sequence :: u32

definition encode_vulkan_swapchain_present_response ::
  "bytes option \<Rightarrow> vulkan_swapchain_present_response option \<Rightarrow> bytes result" where
  "encode_vulkan_swapchain_present_response output response = nonnull2 output response (\<lambda>output response.
     if (swapr_vulkan_result response = 0 \<and>
        swapr_sequence response = 0) \<or>
        (swapr_vulkan_result response \<noteq> 0 \<and>
        swapr_sequence response \<noteq> 0) then Inl EINVAL
     else
     let output = put_i32 output 0 (swapr_vulkan_result response) in
     let output = put_u32 output 4 (swapr_sequence response) in
     Inr output)"

definition decode_vulkan_swapchain_present_response ::
  "bytes option \<Rightarrow> vulkan_swapchain_present_response option \<Rightarrow> vulkan_swapchain_present_response result" where
  "decode_vulkan_swapchain_present_response input response = nonnull2 input response (\<lambda>input _.
     let decoded = \<lparr>swapr_vulkan_result = get_i32 input 0,
                  swapr_sequence = get_u32 input 4\<rparr> in
     case encode_vulkan_swapchain_present_response (Some (replicate BVB_VULKAN_SWAPCHAIN_PRESENT_RESPONSE_SIZE 0)) (Some decoded) of Inl _ \<Rightarrow> Inl EPROTO
     | Inr validation \<Rightarrow>
     Inr decoded)"

interpretation swapchain_present_response_codec: agreed_codec BVB_VULKAN_SWAPCHAIN_PRESENT_RESPONSE_SIZE
  "\<lambda>response. (swapr_vulkan_result response \<noteq> 0 \<or>
      swapr_sequence response \<noteq> 0) \<and>
      (swapr_vulkan_result response = 0 \<or>
      swapr_sequence response = 0)"
  encode_vulkan_swapchain_present_response decode_vulkan_swapchain_present_response
  by unfold_locales
    (auto simp: encode_vulkan_swapchain_present_response_def decode_vulkan_swapchain_present_response_def
      wire_simps split: codec_splits)

subsection \<open>Properties\<close>

text \<open>
  The messages that open a session and run a swapchain (hello, the imports of external memory,
  synchronisation and images, the swapchain requests and their answers): what one side may send
  the other side reads back unchanged, what it may not send is refused before it is written, and
  what a decoder accepts passes the same check, for every message of the group.
\<close>

lemma session_messages:
  "codec_contract BVB_HELLO_REQUEST_SIZE (\<lambda>_. True)
     (\<lambda>request. hr_minimum_version request \<noteq> 0 \<and>
      hr_minimum_version request \<le> hr_maximum_version request)
     encode_hello_request decode_hello_request \<and>
   codec_contract BVB_EXTERNAL_MEMORY_IMPORT_REQUEST_SIZE (\<lambda>_. True)
     (\<lambda>request. emir_allocation_size request \<noteq> 0 \<and>
      emir_allocation_size request \<le> BVB_SHARED_BATCH_MAX_BYTES \<and>
      emir_memory_type_index request < 32 \<and>
      emir_buffer_bytes request \<noteq> 0 \<and>
      ucast (emir_buffer_bytes request) \<le> emir_allocation_size request)
     encode_external_memory_import_request decode_external_memory_import_request \<and>
   codec_contract BVB_EXTERNAL_SYNC_IMPORT_REQUEST_SIZE (\<lambda>_. True)
     (\<lambda>request. esir_allocation_size request \<noteq> 0 \<and>
      esir_allocation_size request \<le> BVB_SHARED_BATCH_MAX_BYTES \<and>
      esir_memory_type_index request < 32 \<and>
      esir_buffer_bytes request \<noteq> 0 \<and>
      ucast (esir_buffer_bytes request) \<le> esir_allocation_size request \<and>
      (esir_buffer_bytes request mod 4) = 0)
     encode_external_sync_import_request decode_external_sync_import_request \<and>
   codec_contract BVB_EXTERNAL_IMAGE_IMPORT_REQUEST_SIZE (\<lambda>_. True)
     (\<lambda>request. eiir_allocation_size request \<noteq> 0 \<and>
      eiir_allocation_size request \<le> BVB_SHARED_BATCH_MAX_BYTES \<and>
      eiir_memory_type_index request < 32 \<and>
      eiir_width request \<noteq> 0 \<and>
      eiir_height request \<noteq> 0 \<and>
      eiir_width request \<le> 4096 \<and>
      eiir_height request \<le> 4096 \<and>
      eiir_format request \<noteq> 0 \<and>
      eiir_width request \<le> ((BVB_SHARED_BATCH_MAX_BYTES div 4) div eiir_height request))
     encode_external_image_import_request decode_external_image_import_request \<and>
   codec_contract BVB_VULKAN_SWAPCHAIN_PREPARE_REQUEST_SIZE (\<lambda>_. True)
     (\<lambda>request. wire_id_is_type (spr_device_id request) BVB_OBJECT_DEVICE \<and>
      spr_width request \<noteq> 0 \<and>
      spr_height request \<noteq> 0 \<and>
      spr_format request \<noteq> 0 \<and>
      spr_image_usage request \<noteq> 0 \<and>
      spr_min_image_count request \<ge> 2 \<and>
      spr_min_image_count request \<le> BVB_WSI_FRAME_RING_MAX_SLOTS \<and>
      spr_flags request = 0 \<and>
      spr_generation request \<noteq> 0)
     encode_vulkan_swapchain_prepare_request decode_vulkan_swapchain_prepare_request \<and>
   codec_contract BVB_VULKAN_SWAPCHAIN_ACQUIRE_REQUEST_SIZE (\<lambda>_. True)
     (\<lambda>request. wire_id_is_type (sar_device_id request) BVB_OBJECT_DEVICE \<and>
      wire_id_is_type (sar_swapchain_id request) BVB_OBJECT_SWAPCHAIN \<and>
      (sar_semaphore_id request \<noteq> 0 \<or>
      sar_fence_id request \<noteq> 0) \<and>
      (sar_semaphore_id request = 0 \<or>
      wire_id_is_type (sar_semaphore_id request) BVB_OBJECT_SEMAPHORE) \<and>
      (sar_fence_id request = 0 \<or>
      wire_id_is_type (sar_fence_id request) BVB_OBJECT_FENCE))
     encode_vulkan_swapchain_acquire_request decode_vulkan_swapchain_acquire_request \<and>
   codec_contract BVB_VULKAN_SWAPCHAIN_ACQUIRE_RESPONSE_SIZE (\<lambda>_. True)
     (\<lambda>response. (swar_vulkan_result response \<noteq> 0 \<or>
      swar_image_index response < BVB_WSI_FRAME_RING_MAX_SLOTS) \<and>
      (swar_vulkan_result response = 0 \<or>
      swar_image_index response = 0))
     encode_vulkan_swapchain_acquire_response decode_vulkan_swapchain_acquire_response \<and>
   codec_contract BVB_VULKAN_SWAPCHAIN_PRESENT_RESPONSE_SIZE (\<lambda>_. True)
     (\<lambda>response. (swapr_vulkan_result response \<noteq> 0 \<or>
      swapr_sequence response \<noteq> 0) \<and>
      (swapr_vulkan_result response = 0 \<or>
      swapr_sequence response = 0))
     encode_vulkan_swapchain_present_response decode_vulkan_swapchain_present_response"
  by (intro conjI hello_request_codec.contract external_memory_import_request_codec.contract
      external_sync_import_request_codec.contract external_image_import_request_codec.contract
      swapchain_prepare_request_codec.contract swapchain_acquire_request_codec.contract
      swapchain_acquire_response_codec.contract swapchain_present_response_codec.contract)

end
