(* ===== verification/Proto_Instance.thy ===== *)
theory Proto_Instance
  imports Proto_Base
begin

unbundle bit_operations_syntax

section \<open>Global information, instances and physical devices\<close>

text \<open>The messages of src/src/protocol.c lines 80-640: the loader information, instance creation, physical-device enumeration and the physical-device queries for formats, image formats, external buffers and external semaphores.\<close>

subsection \<open>Global info\<close>

record vulkan_global_info =
  gi_loader_api_version :: u32
  gi_native_extension_count :: u32
  gi_native_layer_count :: u32
  gi_exposed_extension_count :: u32
  gi_exposed_layer_count :: u32

definition encode_vulkan_global_info ::
  "bytes option \<Rightarrow> vulkan_global_info option \<Rightarrow> bytes result" where
  "encode_vulkan_global_info output info = nonnull2 output info (\<lambda>output info.
     if gi_loader_api_version info = 0 \<or>
        gi_exposed_extension_count info > gi_native_extension_count info \<or>
        gi_exposed_layer_count info > gi_native_layer_count info then Inl EINVAL
     else
     let output = memset0 output 0 BVB_VULKAN_GLOBAL_INFO_SIZE in
     let output = put_u32 output 0 (gi_loader_api_version info) in
     let output = put_u32 output 4 (gi_native_extension_count info) in
     let output = put_u32 output 8 (gi_native_layer_count info) in
     let output = put_u32 output 12 (gi_exposed_extension_count info) in
     let output = put_u32 output 16 (gi_exposed_layer_count info) in
     Inr output)"

definition decode_vulkan_global_info ::
  "bytes option \<Rightarrow> vulkan_global_info option \<Rightarrow> vulkan_global_info result" where
  "decode_vulkan_global_info input info = nonnull2 input info (\<lambda>input _.
     let decoded = \<lparr>gi_loader_api_version = get_u32 input 0,
                  gi_native_extension_count = get_u32 input 4,
                  gi_native_layer_count = get_u32 input 8,
                  gi_exposed_extension_count = get_u32 input 12,
                  gi_exposed_layer_count = get_u32 input 16\<rparr> in
     if gi_loader_api_version decoded = 0 \<or>
        gi_exposed_extension_count decoded > gi_native_extension_count decoded \<or>
        gi_exposed_layer_count decoded > gi_native_layer_count decoded \<or>
        get_u32 input 20 \<noteq> 0 then Inl EPROTO
     else
     Inr decoded)"

interpretation global_info_codec: agreed_codec BVB_VULKAN_GLOBAL_INFO_SIZE
  "\<lambda>info. gi_loader_api_version info \<noteq> 0 \<and>
      gi_exposed_extension_count info \<le> gi_native_extension_count info \<and>
      gi_exposed_layer_count info \<le> gi_native_layer_count info"
  encode_vulkan_global_info decode_vulkan_global_info
  by unfold_locales
    (auto simp: encode_vulkan_global_info_def decode_vulkan_global_info_def
      wire_simps split: codec_splits)

subsection \<open>Instance create request\<close>

record vulkan_instance_create_request =
  icr_api_version :: u32
  icr_flags :: u32
  icr_enabled_layer_count :: u32
  icr_enabled_extension_count :: u32

definition encode_vulkan_instance_create_request ::
  "bytes option \<Rightarrow> vulkan_instance_create_request option \<Rightarrow> bytes result" where
  "encode_vulkan_instance_create_request output request = nonnull2 output request (\<lambda>output request.
     let output = put_u32 output 0 (icr_api_version request) in
     let output = put_u32 output 4 (icr_flags request) in
     let output = put_u32 output 8 (icr_enabled_layer_count request) in
     let output = put_u32 output 12 (icr_enabled_extension_count request) in
     Inr output)"

definition decode_vulkan_instance_create_request ::
  "bytes option \<Rightarrow> vulkan_instance_create_request option \<Rightarrow> vulkan_instance_create_request result" where
  "decode_vulkan_instance_create_request input request = nonnull2 input request (\<lambda>input _.
     let request = \<lparr>icr_api_version = get_u32 input 0,
                  icr_flags = get_u32 input 4,
                  icr_enabled_layer_count = get_u32 input 8,
                  icr_enabled_extension_count = get_u32 input 12\<rparr> in
     Inr request)"

interpretation instance_create_request_codec: agreed_codec BVB_VULKAN_INSTANCE_CREATE_REQUEST_SIZE
  "\<lambda>_. True"
  encode_vulkan_instance_create_request decode_vulkan_instance_create_request
  by unfold_locales
    (auto simp: encode_vulkan_instance_create_request_def decode_vulkan_instance_create_request_def
      wire_simps split: codec_splits)



subsection \<open>Instance create response\<close>

record vulkan_instance_create_response =
  incr_vulkan_result :: i32
  incr_instance_id :: u64

definition encode_vulkan_instance_create_response ::
  "bytes option \<Rightarrow> vulkan_instance_create_response option \<Rightarrow> bytes result" where
  "encode_vulkan_instance_create_response output response = nonnull2 output response (\<lambda>output response.
     if (incr_vulkan_result response = 0 \<and>
        incr_instance_id response = 0) \<or>
        (incr_vulkan_result response \<noteq> 0 \<and>
        incr_instance_id response \<noteq> 0) then Inl EINVAL
     else
     let output = memset0 output 0 BVB_VULKAN_INSTANCE_CREATE_RESPONSE_SIZE in
     let output = put_i32 output 0 (incr_vulkan_result response) in
     let output = put_u64 output 8 (incr_instance_id response) in
     Inr output)"

definition decode_vulkan_instance_create_response ::
  "bytes option \<Rightarrow> vulkan_instance_create_response option \<Rightarrow> vulkan_instance_create_response result" where
  "decode_vulkan_instance_create_response input response = nonnull2 input response (\<lambda>input _.
     if get_u32 input 4 \<noteq> 0 then Inl EPROTO
     else
     let decoded = \<lparr>incr_vulkan_result = get_i32 input 0,
                  incr_instance_id = get_u64 input 8\<rparr> in
     if (incr_vulkan_result decoded = 0 \<and>
        incr_instance_id decoded = 0) \<or>
        (incr_vulkan_result decoded \<noteq> 0 \<and>
        incr_instance_id decoded \<noteq> 0) then Inl EPROTO
     else
     Inr decoded)"

interpretation instance_create_response_codec: agreed_codec BVB_VULKAN_INSTANCE_CREATE_RESPONSE_SIZE
  "\<lambda>response. (incr_vulkan_result response \<noteq> 0 \<or>
      incr_instance_id response \<noteq> 0) \<and>
      (incr_vulkan_result response = 0 \<or>
      incr_instance_id response = 0)"
  encode_vulkan_instance_create_response decode_vulkan_instance_create_response
  by unfold_locales
    (auto simp: encode_vulkan_instance_create_response_def decode_vulkan_instance_create_response_def
      wire_simps split: codec_splits)

subsection \<open>Instance id\<close>

definition encode_vulkan_instance_id ::
  "bytes option \<Rightarrow> u64 \<Rightarrow> bytes result" where
  "encode_vulkan_instance_id output instance_id = nonnull1 output (\<lambda>output.
     if \<not> wire_id_is_type instance_id 1 then Inl EINVAL
     else
     let output = put_u64 output 0 instance_id in
     Inr output)"

definition decode_vulkan_instance_id ::
  "bytes option \<Rightarrow> u64 option \<Rightarrow> u64 result" where
  "decode_vulkan_instance_id input instance_id = nonnull2 input instance_id (\<lambda>input _.
     let decoded = get_u64 input 0 in
     if \<not> wire_id_is_type decoded 1 then Inl EPROTO
     else
     Inr decoded)"

interpretation instance_id_codec: agreed_codec BVB_VULKAN_INSTANCE_ID_SIZE
  "\<lambda>instance_id. wire_id_is_type instance_id 1"
  "\<lambda>p r. nonnull1 r (encode_vulkan_instance_id p)" decode_vulkan_instance_id
  by unfold_locales
    (auto simp: encode_vulkan_instance_id_def decode_vulkan_instance_id_def
      wire_simps split: codec_splits)



subsection \<open>Physical device id\<close>

definition encode_vulkan_physical_device_id ::
  "bytes option \<Rightarrow> u64 \<Rightarrow> bytes result" where
  "encode_vulkan_physical_device_id output physical_device_id = nonnull1 output (\<lambda>output.
     if \<not> wire_id_is_type physical_device_id 2 then Inl EINVAL
     else
     let output = put_u64 output 0 physical_device_id in
     Inr output)"

definition decode_vulkan_physical_device_id ::
  "bytes option \<Rightarrow> u64 option \<Rightarrow> u64 result" where
  "decode_vulkan_physical_device_id input physical_device_id = nonnull2 input physical_device_id (\<lambda>input _.
     let decoded = get_u64 input 0 in
     if \<not> wire_id_is_type decoded 2 then Inl EPROTO
     else
     Inr decoded)"

interpretation physical_device_id_codec: agreed_codec BVB_VULKAN_PHYSICAL_DEVICE_ID_SIZE
  "\<lambda>physical_device_id. wire_id_is_type physical_device_id 2"
  "\<lambda>p r. nonnull1 r (encode_vulkan_physical_device_id p)" decode_vulkan_physical_device_id
  by unfold_locales
    (auto simp: encode_vulkan_physical_device_id_def decode_vulkan_physical_device_id_def
      wire_simps split: codec_splits)

subsection \<open>Format query\<close>

record vulkan_format_query =
  fq_physical_device_id :: u64
  fq_format :: u32

definition encode_vulkan_format_query ::
  "bytes option \<Rightarrow> vulkan_format_query option \<Rightarrow> bytes result" where
  "encode_vulkan_format_query output query = nonnull2 output query (\<lambda>output query.
     if \<not> wire_id_is_type (fq_physical_device_id query) 2 then Inl EINVAL
     else
     let output = memset0 output 0 BVB_VULKAN_FORMAT_QUERY_SIZE in
     let output = put_u64 output 0 (fq_physical_device_id query) in
     let output = put_u32 output 8 (fq_format query) in
     Inr output)"

definition decode_vulkan_format_query ::
  "bytes option \<Rightarrow> vulkan_format_query option \<Rightarrow> vulkan_format_query result" where
  "decode_vulkan_format_query input query = nonnull2 input query (\<lambda>input _.
     let decoded = \<lparr>fq_physical_device_id = get_u64 input 0,
                  fq_format = get_u32 input 8\<rparr> in
     if \<not> wire_id_is_type (fq_physical_device_id decoded) 2 \<or>
        get_u32 input 12 \<noteq> 0 then Inl EPROTO
     else
     Inr decoded)"

interpretation format_query_codec: agreed_codec BVB_VULKAN_FORMAT_QUERY_SIZE
  "\<lambda>query. wire_id_is_type (fq_physical_device_id query) 2"
  encode_vulkan_format_query decode_vulkan_format_query
  by unfold_locales
    (auto simp: encode_vulkan_format_query_def decode_vulkan_format_query_def
      wire_simps split: codec_splits)

subsection \<open>Format properties\<close>

record vulkan_format_properties =
  fp_linear_tiling_features :: u32
  fp_optimal_tiling_features :: u32
  fp_buffer_features :: u32

definition encode_vulkan_format_properties ::
  "bytes option \<Rightarrow> vulkan_format_properties option \<Rightarrow> bytes result" where
  "encode_vulkan_format_properties output properties = nonnull2 output properties (\<lambda>output properties.
     let output = put_u32 output 0 (fp_linear_tiling_features properties) in
     let output = put_u32 output 4 (fp_optimal_tiling_features properties) in
     let output = put_u32 output 8 (fp_buffer_features properties) in
     Inr output)"

definition decode_vulkan_format_properties ::
  "bytes option \<Rightarrow> vulkan_format_properties option \<Rightarrow> vulkan_format_properties result" where
  "decode_vulkan_format_properties input properties = nonnull2 input properties (\<lambda>input _.
     let properties = \<lparr>fp_linear_tiling_features = get_u32 input 0,
                     fp_optimal_tiling_features = get_u32 input 4,
                     fp_buffer_features = get_u32 input 8\<rparr> in
     Inr properties)"

interpretation format_properties_codec: agreed_codec BVB_VULKAN_FORMAT_PROPERTIES_SIZE
  "\<lambda>_. True"
  encode_vulkan_format_properties decode_vulkan_format_properties
  by unfold_locales
    (auto simp: encode_vulkan_format_properties_def decode_vulkan_format_properties_def
      wire_simps split: codec_splits)

subsection \<open>Format properties 3\<close>

record vulkan_format_properties_3 =
  fp3_linear_tiling_features :: u64
  fp3_optimal_tiling_features :: u64
  fp3_buffer_features :: u64

definition encode_vulkan_format_properties_3 ::
  "bytes option \<Rightarrow> vulkan_format_properties_3 option \<Rightarrow> bytes result" where
  "encode_vulkan_format_properties_3 output properties = nonnull2 output properties (\<lambda>output properties.
     let output = put_u64 output 0 (fp3_linear_tiling_features properties) in
     let output = put_u64 output 8 (fp3_optimal_tiling_features properties) in
     let output = put_u64 output 16 (fp3_buffer_features properties) in
     Inr output)"

definition decode_vulkan_format_properties_3 ::
  "bytes option \<Rightarrow> vulkan_format_properties_3 option \<Rightarrow> vulkan_format_properties_3 result" where
  "decode_vulkan_format_properties_3 input properties = nonnull2 input properties (\<lambda>input _.
     let properties = \<lparr>fp3_linear_tiling_features = get_u64 input 0,
                     fp3_optimal_tiling_features = get_u64 input 8,
                     fp3_buffer_features = get_u64 input 16\<rparr> in
     Inr properties)"

interpretation format_properties_3_codec: agreed_codec BVB_VULKAN_FORMAT_PROPERTIES_3_SIZE
  "\<lambda>_. True"
  encode_vulkan_format_properties_3 decode_vulkan_format_properties_3
  by unfold_locales
    (auto simp: encode_vulkan_format_properties_3_def decode_vulkan_format_properties_3_def
      wire_simps split: codec_splits)

subsection \<open>Image format query\<close>

record vulkan_image_format_query =
  ifq_physical_device_id :: u64
  ifq_format :: u32
  ifq_type :: u32
  ifq_tiling :: u32
  ifq_usage :: u32
  ifq_flags :: u32

definition encode_vulkan_image_format_query ::
  "bytes option \<Rightarrow> vulkan_image_format_query option \<Rightarrow> bytes result" where
  "encode_vulkan_image_format_query output query = nonnull2 output query (\<lambda>output query.
     if \<not> wire_id_is_type (ifq_physical_device_id query) 2 then Inl EINVAL
     else
     let output = memset0 output 0 BVB_VULKAN_IMAGE_FORMAT_QUERY_SIZE in
     let output = put_u64 output 0 (ifq_physical_device_id query) in
     let output = put_u32 output 8 (ifq_format query) in
     let output = put_u32 output 12 (ifq_type query) in
     let output = put_u32 output 16 (ifq_tiling query) in
     let output = put_u32 output 20 (ifq_usage query) in
     let output = put_u32 output 24 (ifq_flags query) in
     Inr output)"

definition decode_vulkan_image_format_query ::
  "bytes option \<Rightarrow> vulkan_image_format_query option \<Rightarrow> vulkan_image_format_query result" where
  "decode_vulkan_image_format_query input query = nonnull2 input query (\<lambda>input _.
     let decoded = \<lparr>ifq_physical_device_id = get_u64 input 0,
                  ifq_format = get_u32 input 8,
                  ifq_type = get_u32 input 12,
                  ifq_tiling = get_u32 input 16,
                  ifq_usage = get_u32 input 20,
                  ifq_flags = get_u32 input 24\<rparr> in
     if \<not> wire_id_is_type (ifq_physical_device_id decoded) 2 \<or>
        get_u32 input 28 \<noteq> 0 then Inl EPROTO
     else
     Inr decoded)"

interpretation image_format_query_codec: agreed_codec BVB_VULKAN_IMAGE_FORMAT_QUERY_SIZE
  "\<lambda>query. wire_id_is_type (ifq_physical_device_id query) 2"
  encode_vulkan_image_format_query decode_vulkan_image_format_query
  by unfold_locales
    (auto simp: encode_vulkan_image_format_query_def decode_vulkan_image_format_query_def
      wire_simps split: codec_splits)

subsection \<open>Image format properties\<close>

record vulkan_image_format_properties =
  ifp_vulkan_result :: i32
  ifp_max_extent_width :: u32
  ifp_max_extent_height :: u32
  ifp_max_extent_depth :: u32
  ifp_max_mip_levels :: u32
  ifp_max_array_layers :: u32
  ifp_sample_counts :: u32
  ifp_max_resource_size :: u64

definition encode_vulkan_image_format_properties ::
  "bytes option \<Rightarrow> vulkan_image_format_properties option \<Rightarrow> bytes result" where
  "encode_vulkan_image_format_properties output properties = nonnull2 output properties (\<lambda>output properties.
     let output = memset0 output 0 BVB_VULKAN_IMAGE_FORMAT_PROPERTIES_SIZE in
     let output = put_i32 output 0 (ifp_vulkan_result properties) in
     let output = put_u32 output 8 (ifp_max_extent_width properties) in
     let output = put_u32 output 12 (ifp_max_extent_height properties) in
     let output = put_u32 output 16 (ifp_max_extent_depth properties) in
     let output = put_u32 output 20 (ifp_max_mip_levels properties) in
     let output = put_u32 output 24 (ifp_max_array_layers properties) in
     let output = put_u32 output 28 (ifp_sample_counts properties) in
     let output = put_u64 output 32 (ifp_max_resource_size properties) in
     Inr output)"

definition decode_vulkan_image_format_properties ::
  "bytes option \<Rightarrow> vulkan_image_format_properties option \<Rightarrow> vulkan_image_format_properties result" where
  "decode_vulkan_image_format_properties input properties = nonnull2 input properties (\<lambda>input _.
     if get_u32 input 4 \<noteq> 0 then Inl EPROTO
     else
     let properties = \<lparr>ifp_vulkan_result = get_i32 input 0,
                     ifp_max_extent_width = get_u32 input 8,
                     ifp_max_extent_height = get_u32 input 12,
                     ifp_max_extent_depth = get_u32 input 16,
                     ifp_max_mip_levels = get_u32 input 20,
                     ifp_max_array_layers = get_u32 input 24,
                     ifp_sample_counts = get_u32 input 28,
                     ifp_max_resource_size = get_u64 input 32\<rparr> in
     Inr properties)"

interpretation image_format_properties_codec: agreed_codec BVB_VULKAN_IMAGE_FORMAT_PROPERTIES_SIZE
  "\<lambda>_. True"
  encode_vulkan_image_format_properties decode_vulkan_image_format_properties
  by unfold_locales
    (auto simp: encode_vulkan_image_format_properties_def decode_vulkan_image_format_properties_def
      wire_simps split: codec_splits)

subsection \<open>External buffer query\<close>

record vulkan_external_buffer_query =
  ebq_physical_device_id :: u64
  ebq_flags :: u32
  ebq_usage :: u32
  ebq_handle_type :: u32

definition encode_vulkan_external_buffer_query ::
  "bytes option \<Rightarrow> vulkan_external_buffer_query option \<Rightarrow> bytes result" where
  "encode_vulkan_external_buffer_query output query = nonnull2 output query (\<lambda>output query.
     if \<not> wire_id_is_type (ebq_physical_device_id query) 2 then Inl EINVAL
     else
     let output = memset0 output 0 BVB_VULKAN_EXTERNAL_BUFFER_QUERY_SIZE in
     let output = put_u64 output 0 (ebq_physical_device_id query) in
     let output = put_u32 output 8 (ebq_flags query) in
     let output = put_u32 output 12 (ebq_usage query) in
     let output = put_u32 output 16 (ebq_handle_type query) in
     Inr output)"

definition decode_vulkan_external_buffer_query ::
  "bytes option \<Rightarrow> vulkan_external_buffer_query option \<Rightarrow> vulkan_external_buffer_query result" where
  "decode_vulkan_external_buffer_query input query = nonnull2 input query (\<lambda>input _.
     let decoded = \<lparr>ebq_physical_device_id = get_u64 input 0,
                  ebq_flags = get_u32 input 8,
                  ebq_usage = get_u32 input 12,
                  ebq_handle_type = get_u32 input 16\<rparr> in
     if \<not> wire_id_is_type (ebq_physical_device_id decoded) 2 \<or>
        get_u32 input 20 \<noteq> 0 then Inl EPROTO
     else
     Inr decoded)"

interpretation external_buffer_query_codec: agreed_codec BVB_VULKAN_EXTERNAL_BUFFER_QUERY_SIZE
  "\<lambda>query. wire_id_is_type (ebq_physical_device_id query) 2"
  encode_vulkan_external_buffer_query decode_vulkan_external_buffer_query
  by unfold_locales
    (auto simp: encode_vulkan_external_buffer_query_def decode_vulkan_external_buffer_query_def
      wire_simps split: codec_splits)

subsection \<open>External buffer properties\<close>

record vulkan_external_buffer_properties =
  ebp_external_memory_features :: u32
  ebp_export_from_imported_handle_types :: u32
  ebp_compatible_handle_types :: u32

definition encode_vulkan_external_buffer_properties ::
  "bytes option \<Rightarrow> vulkan_external_buffer_properties option \<Rightarrow> bytes result" where
  "encode_vulkan_external_buffer_properties output properties = nonnull2 output properties (\<lambda>output properties.
     let output = put_u32 output 0 (ebp_external_memory_features properties) in
     let output = put_u32 output 4 (ebp_export_from_imported_handle_types properties) in
     let output = put_u32 output 8 (ebp_compatible_handle_types properties) in
     Inr output)"

definition decode_vulkan_external_buffer_properties ::
  "bytes option \<Rightarrow> vulkan_external_buffer_properties option \<Rightarrow> vulkan_external_buffer_properties result" where
  "decode_vulkan_external_buffer_properties input properties = nonnull2 input properties (\<lambda>input _.
     let properties = \<lparr>ebp_external_memory_features = get_u32 input 0,
                     ebp_export_from_imported_handle_types = get_u32 input 4,
                     ebp_compatible_handle_types = get_u32 input 8\<rparr> in
     Inr properties)"

interpretation external_buffer_properties_codec: agreed_codec BVB_VULKAN_EXTERNAL_BUFFER_PROPERTIES_SIZE
  "\<lambda>_. True"
  encode_vulkan_external_buffer_properties decode_vulkan_external_buffer_properties
  by unfold_locales
    (auto simp: encode_vulkan_external_buffer_properties_def decode_vulkan_external_buffer_properties_def
      wire_simps split: codec_splits)

subsection \<open>External semaphore query\<close>

record vulkan_external_semaphore_query =
  esq_physical_device_id :: u64
  esq_handle_type :: u32

definition encode_vulkan_external_semaphore_query ::
  "bytes option \<Rightarrow> vulkan_external_semaphore_query option \<Rightarrow> bytes result" where
  "encode_vulkan_external_semaphore_query output query = nonnull2 output query (\<lambda>output query.
     if \<not> wire_id_is_type (esq_physical_device_id query) 2 then Inl EINVAL
     else
     let output = memset0 output 0 BVB_VULKAN_EXTERNAL_SEMAPHORE_QUERY_SIZE in
     let output = put_u64 output 0 (esq_physical_device_id query) in
     let output = put_u32 output 8 (esq_handle_type query) in
     Inr output)"

definition decode_vulkan_external_semaphore_query ::
  "bytes option \<Rightarrow> vulkan_external_semaphore_query option \<Rightarrow> vulkan_external_semaphore_query result" where
  "decode_vulkan_external_semaphore_query input query = nonnull2 input query (\<lambda>input _.
     let decoded = \<lparr>esq_physical_device_id = get_u64 input 0,
                  esq_handle_type = get_u32 input 8\<rparr> in
     if \<not> wire_id_is_type (esq_physical_device_id decoded) 2 \<or>
        get_u32 input 12 \<noteq> 0 then Inl EPROTO
     else
     Inr decoded)"

interpretation external_semaphore_query_codec: agreed_codec BVB_VULKAN_EXTERNAL_SEMAPHORE_QUERY_SIZE
  "\<lambda>query. wire_id_is_type (esq_physical_device_id query) 2"
  encode_vulkan_external_semaphore_query decode_vulkan_external_semaphore_query
  by unfold_locales
    (auto simp: encode_vulkan_external_semaphore_query_def decode_vulkan_external_semaphore_query_def
      wire_simps split: codec_splits)

subsection \<open>External semaphore properties\<close>

record vulkan_external_semaphore_properties =
  esp_export_from_imported_handle_types :: u32
  esp_compatible_handle_types :: u32
  esp_external_semaphore_features :: u32

definition encode_vulkan_external_semaphore_properties ::
  "bytes option \<Rightarrow> vulkan_external_semaphore_properties option \<Rightarrow> bytes result" where
  "encode_vulkan_external_semaphore_properties output properties = nonnull2 output properties (\<lambda>output properties.
     let output = put_u32 output 0 (esp_export_from_imported_handle_types properties) in
     let output = put_u32 output 4 (esp_compatible_handle_types properties) in
     let output = put_u32 output 8 (esp_external_semaphore_features properties) in
     Inr output)"

definition decode_vulkan_external_semaphore_properties ::
  "bytes option \<Rightarrow> vulkan_external_semaphore_properties option \<Rightarrow> vulkan_external_semaphore_properties result" where
  "decode_vulkan_external_semaphore_properties input properties = nonnull2 input properties (\<lambda>input _.
     let properties = \<lparr>esp_export_from_imported_handle_types = get_u32 input 0,
                     esp_compatible_handle_types = get_u32 input 4,
                     esp_external_semaphore_features = get_u32 input 8\<rparr> in
     Inr properties)"

interpretation external_semaphore_properties_codec: agreed_codec BVB_VULKAN_EXTERNAL_SEMAPHORE_PROPERTIES_SIZE
  "\<lambda>_. True"
  encode_vulkan_external_semaphore_properties decode_vulkan_external_semaphore_properties
  by unfold_locales
    (auto simp: encode_vulkan_external_semaphore_properties_def decode_vulkan_external_semaphore_properties_def
      wire_simps split: codec_splits)

subsection \<open>Properties\<close>

text \<open>
  The messages about instances and physical devices (the global information, instance creation,
  the format, image-format and external-resource queries and their answers): each encoder and decoder
  keep the codec contract for exactly the condition shown.
\<close>

lemma instance_messages:
  "codec_contract BVB_VULKAN_GLOBAL_INFO_SIZE (\<lambda>_. True)
     (\<lambda>info. gi_loader_api_version info \<noteq> 0 \<and>
      gi_exposed_extension_count info \<le> gi_native_extension_count info \<and>
      gi_exposed_layer_count info \<le> gi_native_layer_count info)
     encode_vulkan_global_info decode_vulkan_global_info \<and>
   codec_contract BVB_VULKAN_INSTANCE_CREATE_REQUEST_SIZE (\<lambda>_. True)
     (\<lambda>_. True)
     encode_vulkan_instance_create_request decode_vulkan_instance_create_request \<and>
   codec_contract BVB_VULKAN_INSTANCE_CREATE_RESPONSE_SIZE (\<lambda>_. True)
     (\<lambda>response. (incr_vulkan_result response \<noteq> 0 \<or>
      incr_instance_id response \<noteq> 0) \<and>
      (incr_vulkan_result response = 0 \<or>
      incr_instance_id response = 0))
     encode_vulkan_instance_create_response decode_vulkan_instance_create_response \<and>
   codec_contract BVB_VULKAN_INSTANCE_ID_SIZE (\<lambda>_. True)
     (\<lambda>instance_id. wire_id_is_type instance_id 1)
     (\<lambda>p r. nonnull1 r (encode_vulkan_instance_id p)) decode_vulkan_instance_id \<and>
   codec_contract BVB_VULKAN_PHYSICAL_DEVICE_ID_SIZE (\<lambda>_. True)
     (\<lambda>physical_device_id. wire_id_is_type physical_device_id 2)
     (\<lambda>p r. nonnull1 r (encode_vulkan_physical_device_id p)) decode_vulkan_physical_device_id \<and>
   codec_contract BVB_VULKAN_FORMAT_QUERY_SIZE (\<lambda>_. True)
     (\<lambda>query. wire_id_is_type (fq_physical_device_id query) 2)
     encode_vulkan_format_query decode_vulkan_format_query \<and>
   codec_contract BVB_VULKAN_FORMAT_PROPERTIES_SIZE (\<lambda>_. True)
     (\<lambda>_. True)
     encode_vulkan_format_properties decode_vulkan_format_properties \<and>
   codec_contract BVB_VULKAN_FORMAT_PROPERTIES_3_SIZE (\<lambda>_. True)
     (\<lambda>_. True)
     encode_vulkan_format_properties_3 decode_vulkan_format_properties_3 \<and>
   codec_contract BVB_VULKAN_IMAGE_FORMAT_QUERY_SIZE (\<lambda>_. True)
     (\<lambda>query. wire_id_is_type (ifq_physical_device_id query) 2)
     encode_vulkan_image_format_query decode_vulkan_image_format_query \<and>
   codec_contract BVB_VULKAN_IMAGE_FORMAT_PROPERTIES_SIZE (\<lambda>_. True)
     (\<lambda>_. True)
     encode_vulkan_image_format_properties decode_vulkan_image_format_properties \<and>
   codec_contract BVB_VULKAN_EXTERNAL_BUFFER_QUERY_SIZE (\<lambda>_. True)
     (\<lambda>query. wire_id_is_type (ebq_physical_device_id query) 2)
     encode_vulkan_external_buffer_query decode_vulkan_external_buffer_query \<and>
   codec_contract BVB_VULKAN_EXTERNAL_BUFFER_PROPERTIES_SIZE (\<lambda>_. True)
     (\<lambda>_. True)
     encode_vulkan_external_buffer_properties decode_vulkan_external_buffer_properties \<and>
   codec_contract BVB_VULKAN_EXTERNAL_SEMAPHORE_QUERY_SIZE (\<lambda>_. True)
     (\<lambda>query. wire_id_is_type (esq_physical_device_id query) 2)
     encode_vulkan_external_semaphore_query decode_vulkan_external_semaphore_query \<and>
   codec_contract BVB_VULKAN_EXTERNAL_SEMAPHORE_PROPERTIES_SIZE (\<lambda>_. True)
     (\<lambda>_. True)
     encode_vulkan_external_semaphore_properties decode_vulkan_external_semaphore_properties"
  by (intro conjI global_info_codec.contract instance_create_request_codec.contract
      instance_create_response_codec.contract instance_id_codec.contract
      physical_device_id_codec.contract format_query_codec.contract format_properties_codec.contract
      format_properties_3_codec.contract image_format_query_codec.contract
      image_format_properties_codec.contract external_buffer_query_codec.contract
      external_buffer_properties_codec.contract external_semaphore_query_codec.contract
      external_semaphore_properties_codec.contract)

end
