(* ===== verification/Proto_Device.thy ===== *)
theory Proto_Device
  imports Proto_Base
begin

unbundle bit_operations_syntax

section \<open>Logical devices and queues\<close>

text \<open>The messages of src/src/protocol.c lines 641-1370: the core feature set, the extension query, device creation and its response, device and queue identifiers.\<close>

subsection \<open>Core features\<close>

record vulkan_core_features =
  cf_shader_draw_parameters :: u32
  cf_buffer_device_address :: u32
  cf_descriptor_indexing :: u32
  cf_descriptor_binding_sampled_image_update_after_bind :: u32
  cf_descriptor_binding_update_unused_while_pending :: u32
  cf_descriptor_binding_partially_bound :: u32
  cf_host_query_reset :: u32
  cf_runtime_descriptor_array :: u32
  cf_sampler_mirror_clamp_to_edge :: u32
  cf_scalar_block_layout :: u32
  cf_timeline_semaphore :: u32
  cf_uniform_buffer_standard_layout :: u32
  cf_vulkan_memory_model :: u32
  cf_compute_full_subgroups :: u32
  cf_dynamic_rendering :: u32
  cf_maintenance4 :: u32
  cf_shader_demote_to_helper_invocation :: u32
  cf_shader_zero_initialize_workgroup_memory :: u32
  cf_subgroup_size_control :: u32
  cf_synchronization2 :: u32
  cf_depth_clip_enable :: u32
  cf_robust_buffer_access2 :: u32
  cf_null_descriptor :: u32
  cf_maintenance5 :: u32
  cf_maintenance6 :: u32

definition encode_vulkan_core_features ::
  "bytes option \<Rightarrow> vulkan_core_features option \<Rightarrow> bytes result" where
  "encode_vulkan_core_features output features = nonnull2 output features (\<lambda>output features.
     if cf_shader_draw_parameters features > 1 \<or>
        cf_buffer_device_address features > 1 \<or>
        cf_descriptor_indexing features > 1 \<or>
        cf_descriptor_binding_sampled_image_update_after_bind features > 1 \<or>
        cf_descriptor_binding_update_unused_while_pending features > 1 \<or>
        cf_descriptor_binding_partially_bound features > 1 \<or>
        cf_host_query_reset features > 1 \<or>
        cf_runtime_descriptor_array features > 1 \<or>
        cf_sampler_mirror_clamp_to_edge features > 1 \<or>
        cf_scalar_block_layout features > 1 \<or>
        cf_timeline_semaphore features > 1 \<or>
        cf_uniform_buffer_standard_layout features > 1 \<or>
        cf_vulkan_memory_model features > 1 \<or>
        cf_compute_full_subgroups features > 1 \<or>
        cf_dynamic_rendering features > 1 \<or>
        cf_maintenance4 features > 1 \<or>
        cf_shader_demote_to_helper_invocation features > 1 \<or>
        cf_shader_zero_initialize_workgroup_memory features > 1 \<or>
        cf_subgroup_size_control features > 1 \<or>
        cf_synchronization2 features > 1 \<or>
        cf_depth_clip_enable features > 1 \<or>
        cf_robust_buffer_access2 features > 1 \<or>
        cf_null_descriptor features > 1 \<or>
        cf_maintenance5 features > 1 \<or>
        cf_maintenance6 features > 1 then Inl EINVAL
     else
     let output = put_u32 output 0 (cf_shader_draw_parameters features) in
     let output = put_u32 output 4 (cf_buffer_device_address features) in
     let output = put_u32 output 8 (cf_descriptor_indexing features) in
     let output = put_u32 output 12 (cf_descriptor_binding_sampled_image_update_after_bind features) in
     let output = put_u32 output 16 (cf_descriptor_binding_update_unused_while_pending features) in
     let output = put_u32 output 20 (cf_descriptor_binding_partially_bound features) in
     let output = put_u32 output 24 (cf_host_query_reset features) in
     let output = put_u32 output 28 (cf_runtime_descriptor_array features) in
     let output = put_u32 output 32 (cf_sampler_mirror_clamp_to_edge features) in
     let output = put_u32 output 36 (cf_scalar_block_layout features) in
     let output = put_u32 output 40 (cf_timeline_semaphore features) in
     let output = put_u32 output 44 (cf_uniform_buffer_standard_layout features) in
     let output = put_u32 output 48 (cf_vulkan_memory_model features) in
     let output = put_u32 output 52 (cf_compute_full_subgroups features) in
     let output = put_u32 output 56 (cf_dynamic_rendering features) in
     let output = put_u32 output 60 (cf_maintenance4 features) in
     let output = put_u32 output 64 (cf_shader_demote_to_helper_invocation features) in
     let output = put_u32 output 68 (cf_shader_zero_initialize_workgroup_memory features) in
     let output = put_u32 output 72 (cf_subgroup_size_control features) in
     let output = put_u32 output 76 (cf_synchronization2 features) in
     let output = put_u32 output 80 (cf_depth_clip_enable features) in
     let output = put_u32 output 84 (cf_robust_buffer_access2 features) in
     let output = put_u32 output 88 (cf_null_descriptor features) in
     let output = put_u32 output 92 (cf_maintenance5 features) in
     let output = put_u32 output 96 (cf_maintenance6 features) in
     Inr output)"

definition decode_vulkan_core_features ::
  "bytes option \<Rightarrow> vulkan_core_features option \<Rightarrow> vulkan_core_features result" where
  "decode_vulkan_core_features input features = nonnull2 input features (\<lambda>input _.
     let shader_draw_parameters = get_u32 input 0 in
     let buffer_device_address = get_u32 input 4 in
     let descriptor_indexing = get_u32 input 8 in
     let descriptor_binding_sampled_image_update_after_bind = get_u32 input 12 in
     let descriptor_binding_update_unused_while_pending = get_u32 input 16 in
     let descriptor_binding_partially_bound = get_u32 input 20 in
     let host_query_reset = get_u32 input 24 in
     let runtime_descriptor_array = get_u32 input 28 in
     let sampler_mirror_clamp_to_edge = get_u32 input 32 in
     let scalar_block_layout = get_u32 input 36 in
     let timeline_semaphore = get_u32 input 40 in
     let uniform_buffer_standard_layout = get_u32 input 44 in
     let vulkan_memory_model = get_u32 input 48 in
     let compute_full_subgroups = get_u32 input 52 in
     let dynamic_rendering = get_u32 input 56 in
     let maintenance4 = get_u32 input 60 in
     let shader_demote_to_helper_invocation = get_u32 input 64 in
     let shader_zero_initialize_workgroup_memory = get_u32 input 68 in
     let subgroup_size_control = get_u32 input 72 in
     let synchronization2 = get_u32 input 76 in
     let depth_clip_enable = get_u32 input 80 in
     let robust_buffer_access2 = get_u32 input 84 in
     let null_descriptor = get_u32 input 88 in
     let maintenance5 = get_u32 input 92 in
     let maintenance6 = get_u32 input 96 in
     if shader_draw_parameters > 1 \<or>
        buffer_device_address > 1 \<or>
        descriptor_indexing > 1 \<or>
        descriptor_binding_sampled_image_update_after_bind > 1 \<or>
        descriptor_binding_update_unused_while_pending > 1 \<or>
        descriptor_binding_partially_bound > 1 \<or>
        host_query_reset > 1 \<or>
        runtime_descriptor_array > 1 \<or>
        sampler_mirror_clamp_to_edge > 1 \<or>
        scalar_block_layout > 1 \<or>
        timeline_semaphore > 1 \<or>
        uniform_buffer_standard_layout > 1 \<or>
        vulkan_memory_model > 1 \<or>
        compute_full_subgroups > 1 \<or>
        dynamic_rendering > 1 \<or>
        maintenance4 > 1 \<or>
        shader_demote_to_helper_invocation > 1 \<or>
        shader_zero_initialize_workgroup_memory > 1 \<or>
        subgroup_size_control > 1 \<or>
        synchronization2 > 1 then Inl EPROTO
     else
     if depth_clip_enable > 1 \<or>
        robust_buffer_access2 > 1 \<or>
        null_descriptor > 1 \<or>
        maintenance5 > 1 \<or>
        maintenance6 > 1 then Inl EPROTO
     else
     let features = \<lparr>cf_shader_draw_parameters = shader_draw_parameters,
                   cf_buffer_device_address = buffer_device_address,
                   cf_descriptor_indexing = descriptor_indexing,
                   cf_descriptor_binding_sampled_image_update_after_bind = descriptor_binding_sampled_image_update_after_bind,
                   cf_descriptor_binding_update_unused_while_pending = descriptor_binding_update_unused_while_pending,
                   cf_descriptor_binding_partially_bound = descriptor_binding_partially_bound,
                   cf_host_query_reset = host_query_reset,
                   cf_runtime_descriptor_array = runtime_descriptor_array,
                   cf_sampler_mirror_clamp_to_edge = sampler_mirror_clamp_to_edge,
                   cf_scalar_block_layout = scalar_block_layout,
                   cf_timeline_semaphore = timeline_semaphore,
                   cf_uniform_buffer_standard_layout = uniform_buffer_standard_layout,
                   cf_vulkan_memory_model = vulkan_memory_model,
                   cf_compute_full_subgroups = compute_full_subgroups,
                   cf_dynamic_rendering = dynamic_rendering,
                   cf_maintenance4 = maintenance4,
                   cf_shader_demote_to_helper_invocation = shader_demote_to_helper_invocation,
                   cf_shader_zero_initialize_workgroup_memory = shader_zero_initialize_workgroup_memory,
                   cf_subgroup_size_control = subgroup_size_control,
                   cf_synchronization2 = synchronization2,
                   cf_depth_clip_enable = depth_clip_enable,
                   cf_robust_buffer_access2 = robust_buffer_access2,
                   cf_null_descriptor = null_descriptor,
                   cf_maintenance5 = maintenance5,
                   cf_maintenance6 = maintenance6\<rparr> in
     Inr features)"

interpretation core_features_codec: agreed_codec BVB_VULKAN_CORE_FEATURES_SIZE
  "\<lambda>features. cf_shader_draw_parameters features \<le> 1 \<and>
      cf_buffer_device_address features \<le> 1 \<and>
      cf_descriptor_indexing features \<le> 1 \<and>
      cf_descriptor_binding_sampled_image_update_after_bind features \<le> 1 \<and>
      cf_descriptor_binding_update_unused_while_pending features \<le> 1 \<and>
      cf_descriptor_binding_partially_bound features \<le> 1 \<and>
      cf_host_query_reset features \<le> 1 \<and>
      cf_runtime_descriptor_array features \<le> 1 \<and>
      cf_sampler_mirror_clamp_to_edge features \<le> 1 \<and>
      cf_scalar_block_layout features \<le> 1 \<and>
      cf_timeline_semaphore features \<le> 1 \<and>
      cf_uniform_buffer_standard_layout features \<le> 1 \<and>
      cf_vulkan_memory_model features \<le> 1 \<and>
      cf_compute_full_subgroups features \<le> 1 \<and>
      cf_dynamic_rendering features \<le> 1 \<and>
      cf_maintenance4 features \<le> 1 \<and>
      cf_shader_demote_to_helper_invocation features \<le> 1 \<and>
      cf_shader_zero_initialize_workgroup_memory features \<le> 1 \<and>
      cf_subgroup_size_control features \<le> 1 \<and>
      cf_synchronization2 features \<le> 1 \<and>
      cf_depth_clip_enable features \<le> 1 \<and>
      cf_robust_buffer_access2 features \<le> 1 \<and>
      cf_null_descriptor features \<le> 1 \<and>
      cf_maintenance5 features \<le> 1 \<and>
      cf_maintenance6 features \<le> 1"
  encode_vulkan_core_features decode_vulkan_core_features
  by unfold_locales
    (auto simp: encode_vulkan_core_features_def decode_vulkan_core_features_def
      wire_simps split: codec_splits)

subsection \<open>Device extension query\<close>

record vulkan_device_extension_query =
  deq_physical_device_id :: u64
  deq_first :: u32
  deq_max_count :: u32

definition encode_vulkan_device_extension_query ::
  "bytes option \<Rightarrow> vulkan_device_extension_query option \<Rightarrow> bytes result" where
  "encode_vulkan_device_extension_query output query = nonnull2 output query (\<lambda>output query.
     if \<not> wire_id_is_type (deq_physical_device_id query) 2 then Inl EINVAL
     else
     let output = memset0 output 0 BVB_VULKAN_DEVICE_EXTENSION_QUERY_SIZE in
     let output = put_u64 output 0 (deq_physical_device_id query) in
     let output = put_u32 output 8 (deq_first query) in
     let output = put_u32 output 12 (deq_max_count query) in
     Inr output)"

definition decode_vulkan_device_extension_query ::
  "bytes option \<Rightarrow> vulkan_device_extension_query option \<Rightarrow> vulkan_device_extension_query result" where
  "decode_vulkan_device_extension_query input query = nonnull2 input query (\<lambda>input _.
     let decoded = \<lparr>deq_physical_device_id = get_u64 input 0,
                  deq_first = get_u32 input 8,
                  deq_max_count = get_u32 input 12\<rparr> in
     if \<not> wire_id_is_type (deq_physical_device_id decoded) 2 then Inl EPROTO
     else
     Inr decoded)"

interpretation device_extension_query_codec: agreed_codec BVB_VULKAN_DEVICE_EXTENSION_QUERY_SIZE
  "\<lambda>query. wire_id_is_type (deq_physical_device_id query) 2"
  encode_vulkan_device_extension_query decode_vulkan_device_extension_query
  by unfold_locales
    (auto simp: encode_vulkan_device_extension_query_def decode_vulkan_device_extension_query_def
      wire_simps split: codec_splits)

subsection \<open>Device create request\<close>

record vulkan_device_create_request =
  dcr_physical_device_id :: u64
  dcr_flags :: u32
  dcr_queue_family_index :: u32
  dcr_queue_count :: u32
  dcr_queue_priority_bits :: u32
  dcr_enabled_layer_count :: u32
  dcr_enabled_extension_count :: u32

definition encode_vulkan_device_create_request ::
  "bytes option \<Rightarrow> vulkan_device_create_request option \<Rightarrow> bytes result" where
  "encode_vulkan_device_create_request output request = nonnull2 output request (\<lambda>output request.
     if \<not> wire_id_is_type (dcr_physical_device_id request) 2 then Inl EINVAL
     else
     let output = memset0 output 0 BVB_VULKAN_DEVICE_CREATE_REQUEST_SIZE in
     let output = put_u64 output 0 (dcr_physical_device_id request) in
     let output = put_u32 output 8 (dcr_flags request) in
     let output = put_u32 output 12 (dcr_queue_family_index request) in
     let output = put_u32 output 16 (dcr_queue_count request) in
     let output = put_u32 output 20 (dcr_queue_priority_bits request) in
     let output = put_u32 output 24 (dcr_enabled_layer_count request) in
     let output = put_u32 output 28 (dcr_enabled_extension_count request) in
     Inr output)"

definition decode_vulkan_device_create_request ::
  "bytes option \<Rightarrow> vulkan_device_create_request option \<Rightarrow> vulkan_device_create_request result" where
  "decode_vulkan_device_create_request input request = nonnull2 input request (\<lambda>input _.
     let decoded = \<lparr>dcr_physical_device_id = get_u64 input 0,
                  dcr_flags = get_u32 input 8,
                  dcr_queue_family_index = get_u32 input 12,
                  dcr_queue_count = get_u32 input 16,
                  dcr_queue_priority_bits = get_u32 input 20,
                  dcr_enabled_layer_count = get_u32 input 24,
                  dcr_enabled_extension_count = get_u32 input 28\<rparr> in
     if \<not> wire_id_is_type (dcr_physical_device_id decoded) 2 then Inl EPROTO
     else
     Inr decoded)"

interpretation device_create_request_codec: agreed_codec BVB_VULKAN_DEVICE_CREATE_REQUEST_SIZE
  "\<lambda>request. wire_id_is_type (dcr_physical_device_id request) 2"
  encode_vulkan_device_create_request decode_vulkan_device_create_request
  by unfold_locales
    (auto simp: encode_vulkan_device_create_request_def decode_vulkan_device_create_request_def
      wire_simps split: codec_splits)









subsection \<open>Device create response\<close>

record vulkan_device_create_response =
  decr_vulkan_result :: i32
  decr_device_id :: u64

definition encode_vulkan_device_create_response ::
  "bytes option \<Rightarrow> vulkan_device_create_response option \<Rightarrow> bytes result" where
  "encode_vulkan_device_create_response output response = nonnull2 output response (\<lambda>output response.
     if (decr_vulkan_result response = 0 \<and>
        \<not> wire_id_is_type (decr_device_id response) 3) \<or>
        (decr_vulkan_result response \<noteq> 0 \<and>
        decr_device_id response \<noteq> 0) then Inl EINVAL
     else
     let output = memset0 output 0 BVB_VULKAN_DEVICE_CREATE_RESPONSE_SIZE in
     let output = put_i32 output 0 (decr_vulkan_result response) in
     let output = put_u64 output 8 (decr_device_id response) in
     Inr output)"

definition decode_vulkan_device_create_response ::
  "bytes option \<Rightarrow> vulkan_device_create_response option \<Rightarrow> vulkan_device_create_response result" where
  "decode_vulkan_device_create_response input response = nonnull2 input response (\<lambda>input _.
     if get_u32 input 4 \<noteq> 0 then Inl EINVAL
     else
     let decoded = \<lparr>decr_vulkan_result = get_i32 input 0,
                  decr_device_id = get_u64 input 8\<rparr> in
     if (decr_vulkan_result decoded = 0 \<and>
        \<not> wire_id_is_type (decr_device_id decoded) 3) \<or>
        (decr_vulkan_result decoded \<noteq> 0 \<and>
        decr_device_id decoded \<noteq> 0) then Inl EPROTO
     else
     Inr decoded)"

interpretation device_create_response_codec: agreed_codec BVB_VULKAN_DEVICE_CREATE_RESPONSE_SIZE
  "\<lambda>response. (decr_vulkan_result response \<noteq> 0 \<or>
      wire_id_is_type (decr_device_id response) 3) \<and>
      (decr_vulkan_result response = 0 \<or>
      decr_device_id response = 0)"
  encode_vulkan_device_create_response decode_vulkan_device_create_response
  by unfold_locales
    (auto simp: encode_vulkan_device_create_response_def decode_vulkan_device_create_response_def
      wire_simps split: codec_splits)

subsection \<open>Device id\<close>

definition encode_vulkan_device_id ::
  "bytes option \<Rightarrow> u64 \<Rightarrow> bytes result" where
  "encode_vulkan_device_id output device_id = nonnull1 output (\<lambda>output.
     if \<not> wire_id_is_type device_id 3 then Inl EINVAL
     else
     let output = put_u64 output 0 device_id in
     Inr output)"

definition decode_vulkan_device_id ::
  "bytes option \<Rightarrow> u64 option \<Rightarrow> u64 result" where
  "decode_vulkan_device_id input device_id = nonnull2 input device_id (\<lambda>input _.
     let decoded = get_u64 input 0 in
     if \<not> wire_id_is_type decoded 3 then Inl EPROTO
     else
     Inr decoded)"

interpretation device_id_codec: agreed_codec BVB_VULKAN_DEVICE_ID_SIZE
  "\<lambda>device_id. wire_id_is_type device_id 3"
  "\<lambda>p r. nonnull1 r (encode_vulkan_device_id p)" decode_vulkan_device_id
  by unfold_locales
    (auto simp: encode_vulkan_device_id_def decode_vulkan_device_id_def
      wire_simps split: codec_splits)

subsection \<open>Device queue request\<close>

record vulkan_device_queue_request =
  dqr_device_id :: u64
  dqr_queue_family_index :: u32
  dqr_queue_index :: u32

definition encode_vulkan_device_queue_request ::
  "bytes option \<Rightarrow> vulkan_device_queue_request option \<Rightarrow> bytes result" where
  "encode_vulkan_device_queue_request output request = nonnull2 output request (\<lambda>output request.
     if \<not> wire_id_is_type (dqr_device_id request) 3 then Inl EINVAL
     else
     let output = memset0 output 0 BVB_VULKAN_DEVICE_QUEUE_REQUEST_SIZE in
     let output = put_u64 output 0 (dqr_device_id request) in
     let output = put_u32 output 8 (dqr_queue_family_index request) in
     let output = put_u32 output 12 (dqr_queue_index request) in
     Inr output)"

definition decode_vulkan_device_queue_request ::
  "bytes option \<Rightarrow> vulkan_device_queue_request option \<Rightarrow> vulkan_device_queue_request result" where
  "decode_vulkan_device_queue_request input request = nonnull2 input request (\<lambda>input _.
     let decoded = \<lparr>dqr_device_id = get_u64 input 0,
                  dqr_queue_family_index = get_u32 input 8,
                  dqr_queue_index = get_u32 input 12\<rparr> in
     if \<not> wire_id_is_type (dqr_device_id decoded) 3 then Inl EPROTO
     else
     Inr decoded)"

interpretation device_queue_request_codec: agreed_codec BVB_VULKAN_DEVICE_QUEUE_REQUEST_SIZE
  "\<lambda>request. wire_id_is_type (dqr_device_id request) 3"
  encode_vulkan_device_queue_request decode_vulkan_device_queue_request
  by unfold_locales
    (auto simp: encode_vulkan_device_queue_request_def decode_vulkan_device_queue_request_def
      wire_simps split: codec_splits)

subsection \<open>Queue id\<close>

definition encode_vulkan_queue_id ::
  "bytes option \<Rightarrow> u64 \<Rightarrow> bytes result" where
  "encode_vulkan_queue_id output queue_id = nonnull1 output (\<lambda>output.
     if \<not> wire_id_is_type queue_id 4 then Inl EINVAL
     else
     let output = put_u64 output 0 queue_id in
     Inr output)"

definition decode_vulkan_queue_id ::
  "bytes option \<Rightarrow> u64 option \<Rightarrow> u64 result" where
  "decode_vulkan_queue_id input queue_id = nonnull2 input queue_id (\<lambda>input _.
     let decoded = get_u64 input 0 in
     if \<not> wire_id_is_type decoded 4 then Inl EPROTO
     else
     Inr decoded)"

interpretation queue_id_codec: agreed_codec BVB_VULKAN_QUEUE_ID_SIZE
  "\<lambda>queue_id. wire_id_is_type queue_id 4"
  "\<lambda>p r. nonnull1 r (encode_vulkan_queue_id p)" decode_vulkan_queue_id
  by unfold_locales
    (auto simp: encode_vulkan_queue_id_def decode_vulkan_queue_id_def
      wire_simps split: codec_splits)

subsection \<open>Properties\<close>

text \<open>
  The messages about devices and queues (the core features with all 55 flags, extension queries,
  device creation, device and queue identifiers) keep the codec contract.
\<close>

lemma device_messages:
  "codec_contract BVB_VULKAN_CORE_FEATURES_SIZE (\<lambda>_. True)
     (\<lambda>features. cf_shader_draw_parameters features \<le> 1 \<and>
      cf_buffer_device_address features \<le> 1 \<and>
      cf_descriptor_indexing features \<le> 1 \<and>
      cf_descriptor_binding_sampled_image_update_after_bind features \<le> 1 \<and>
      cf_descriptor_binding_update_unused_while_pending features \<le> 1 \<and>
      cf_descriptor_binding_partially_bound features \<le> 1 \<and>
      cf_host_query_reset features \<le> 1 \<and>
      cf_runtime_descriptor_array features \<le> 1 \<and>
      cf_sampler_mirror_clamp_to_edge features \<le> 1 \<and>
      cf_scalar_block_layout features \<le> 1 \<and>
      cf_timeline_semaphore features \<le> 1 \<and>
      cf_uniform_buffer_standard_layout features \<le> 1 \<and>
      cf_vulkan_memory_model features \<le> 1 \<and>
      cf_compute_full_subgroups features \<le> 1 \<and>
      cf_dynamic_rendering features \<le> 1 \<and>
      cf_maintenance4 features \<le> 1 \<and>
      cf_shader_demote_to_helper_invocation features \<le> 1 \<and>
      cf_shader_zero_initialize_workgroup_memory features \<le> 1 \<and>
      cf_subgroup_size_control features \<le> 1 \<and>
      cf_synchronization2 features \<le> 1 \<and>
      cf_depth_clip_enable features \<le> 1 \<and>
      cf_robust_buffer_access2 features \<le> 1 \<and>
      cf_null_descriptor features \<le> 1 \<and>
      cf_maintenance5 features \<le> 1 \<and>
      cf_maintenance6 features \<le> 1)
     encode_vulkan_core_features decode_vulkan_core_features \<and>
   codec_contract BVB_VULKAN_DEVICE_EXTENSION_QUERY_SIZE (\<lambda>_. True)
     (\<lambda>query. wire_id_is_type (deq_physical_device_id query) 2)
     encode_vulkan_device_extension_query decode_vulkan_device_extension_query \<and>
   codec_contract BVB_VULKAN_DEVICE_CREATE_REQUEST_SIZE (\<lambda>_. True)
     (\<lambda>request. wire_id_is_type (dcr_physical_device_id request) 2)
     encode_vulkan_device_create_request decode_vulkan_device_create_request \<and>
   codec_contract BVB_VULKAN_DEVICE_CREATE_RESPONSE_SIZE (\<lambda>_. True)
     (\<lambda>response. (decr_vulkan_result response \<noteq> 0 \<or>
      wire_id_is_type (decr_device_id response) 3) \<and>
      (decr_vulkan_result response = 0 \<or>
      decr_device_id response = 0))
     encode_vulkan_device_create_response decode_vulkan_device_create_response \<and>
   codec_contract BVB_VULKAN_DEVICE_ID_SIZE (\<lambda>_. True)
     (\<lambda>device_id. wire_id_is_type device_id 3)
     (\<lambda>p r. nonnull1 r (encode_vulkan_device_id p)) decode_vulkan_device_id \<and>
   codec_contract BVB_VULKAN_DEVICE_QUEUE_REQUEST_SIZE (\<lambda>_. True)
     (\<lambda>request. wire_id_is_type (dqr_device_id request) 3)
     encode_vulkan_device_queue_request decode_vulkan_device_queue_request \<and>
   codec_contract BVB_VULKAN_QUEUE_ID_SIZE (\<lambda>_. True)
     (\<lambda>queue_id. wire_id_is_type queue_id 4)
     (\<lambda>p r. nonnull1 r (encode_vulkan_queue_id p)) decode_vulkan_queue_id"
  by (intro conjI core_features_codec.contract device_extension_query_codec.contract
      device_create_request_codec.contract device_create_response_codec.contract
      device_id_codec.contract device_queue_request_codec.contract queue_id_codec.contract)

end
