(* ===== verification/Proto_Command.thy ===== *)
theory Proto_Command
  imports Proto_Base
begin

unbundle bit_operations_syntax

section \<open>Command pools, command buffers and query pools\<close>

text \<open>The messages of src/src/protocol.c lines 1371-1930.\<close>

subsection \<open>Result\<close>

definition encode_vulkan_result ::
  "bytes option \<Rightarrow> i32 \<Rightarrow> bytes result" where
  "encode_vulkan_result output vulkan_result = nonnull1 output (\<lambda>output.
     let output = put_i32 output 0 vulkan_result in
     Inr output)"

definition decode_vulkan_result ::
  "bytes option \<Rightarrow> i32 option \<Rightarrow> i32 result" where
  "decode_vulkan_result input vulkan_result = nonnull2 input vulkan_result (\<lambda>input _.
     let vulkan_result = get_i32 input 0 in
     Inr vulkan_result)"

interpretation result_codec: agreed_codec BVB_VULKAN_RESULT_SIZE
  "\<lambda>_. True"
  "\<lambda>p r. nonnull1 r (encode_vulkan_result p)" decode_vulkan_result
  by unfold_locales
    (auto simp: encode_vulkan_result_def decode_vulkan_result_def
      wire_simps split: codec_splits)

subsection \<open>Command pool create request\<close>

record vulkan_command_pool_create_request =
  cpcr_device_id :: u64
  cpcr_flags :: u32
  cpcr_queue_family_index :: u32

definition encode_vulkan_command_pool_create_request ::
  "bytes option \<Rightarrow> vulkan_command_pool_create_request option \<Rightarrow> bytes result" where
  "encode_vulkan_command_pool_create_request output request = nonnull2 output request (\<lambda>output request.
     if \<not> wire_id_is_type (cpcr_device_id request) 3 then Inl EINVAL
     else
     let output = put_u64 output 0 (cpcr_device_id request) in
     let output = put_u32 output 8 (cpcr_flags request) in
     let output = put_u32 output 12 (cpcr_queue_family_index request) in
     Inr output)"

definition decode_vulkan_command_pool_create_request ::
  "bytes option \<Rightarrow> vulkan_command_pool_create_request option \<Rightarrow> vulkan_command_pool_create_request result" where
  "decode_vulkan_command_pool_create_request input request = nonnull2 input request (\<lambda>input _.
     let decoded = \<lparr>cpcr_device_id = get_u64 input 0,
                  cpcr_flags = get_u32 input 8,
                  cpcr_queue_family_index = get_u32 input 12\<rparr> in
     if \<not> wire_id_is_type (cpcr_device_id decoded) 3 then Inl EPROTO
     else
     Inr decoded)"

interpretation command_pool_create_request_codec: agreed_codec BVB_VULKAN_COMMAND_POOL_CREATE_REQUEST_SIZE
  "\<lambda>request. wire_id_is_type (cpcr_device_id request) 3"
  encode_vulkan_command_pool_create_request decode_vulkan_command_pool_create_request
  by unfold_locales
    (auto simp: encode_vulkan_command_pool_create_request_def decode_vulkan_command_pool_create_request_def
      wire_simps split: codec_splits)

subsection \<open>Command pool create response\<close>

record vulkan_command_pool_create_response =
  copcr_vulkan_result :: i32
  copcr_command_pool_id :: u64

definition encode_vulkan_command_pool_create_response ::
  "bytes option \<Rightarrow> vulkan_command_pool_create_response option \<Rightarrow> bytes result" where
  "encode_vulkan_command_pool_create_response output response = nonnull2 output response (\<lambda>output response.
     if (copcr_vulkan_result response = 0 \<and>
        \<not> wire_id_is_type (copcr_command_pool_id response) 10) \<or>
        (copcr_vulkan_result response \<noteq> 0 \<and>
        copcr_command_pool_id response \<noteq> 0) then Inl EINVAL
     else
     let output = memset0 output 0 BVB_VULKAN_COMMAND_POOL_CREATE_RESPONSE_SIZE in
     let output = put_i32 output 0 (copcr_vulkan_result response) in
     let output = put_u64 output 8 (copcr_command_pool_id response) in
     Inr output)"

definition decode_vulkan_command_pool_create_response ::
  "bytes option \<Rightarrow> vulkan_command_pool_create_response option \<Rightarrow> vulkan_command_pool_create_response result" where
  "decode_vulkan_command_pool_create_response input response = nonnull2 input response (\<lambda>input _.
     let decoded = \<lparr>copcr_vulkan_result = get_i32 input 0,
                  copcr_command_pool_id = get_u64 input 8\<rparr> in
     if get_u32 input 4 \<noteq> 0 \<or>
        (copcr_vulkan_result decoded = 0 \<and>
        \<not> wire_id_is_type (copcr_command_pool_id decoded) 10) \<or>
        (copcr_vulkan_result decoded \<noteq> 0 \<and>
        copcr_command_pool_id decoded \<noteq> 0) then Inl EPROTO
     else
     Inr decoded)"

interpretation command_pool_create_response_codec: agreed_codec BVB_VULKAN_COMMAND_POOL_CREATE_RESPONSE_SIZE
  "\<lambda>response. (copcr_vulkan_result response \<noteq> 0 \<or>
      wire_id_is_type (copcr_command_pool_id response) 10) \<and>
      (copcr_vulkan_result response = 0 \<or>
      copcr_command_pool_id response = 0)"
  encode_vulkan_command_pool_create_response decode_vulkan_command_pool_create_response
  by unfold_locales
    (auto simp: encode_vulkan_command_pool_create_response_def decode_vulkan_command_pool_create_response_def
      wire_simps split: codec_splits)

subsection \<open>Command pool id\<close>

definition encode_vulkan_command_pool_id ::
  "bytes option \<Rightarrow> u64 \<Rightarrow> bytes result" where
  "encode_vulkan_command_pool_id output command_pool_id = nonnull1 output (\<lambda>output.
     if \<not> wire_id_is_type command_pool_id 10 then Inl EINVAL
     else
     let output = put_u64 output 0 command_pool_id in
     Inr output)"

definition decode_vulkan_command_pool_id ::
  "bytes option \<Rightarrow> u64 option \<Rightarrow> u64 result" where
  "decode_vulkan_command_pool_id input command_pool_id = nonnull2 input command_pool_id (\<lambda>input _.
     let decoded = get_u64 input 0 in
     if \<not> wire_id_is_type decoded 10 then Inl EPROTO
     else
     Inr decoded)"

interpretation command_pool_id_codec: agreed_codec BVB_VULKAN_COMMAND_POOL_ID_SIZE
  "\<lambda>command_pool_id. wire_id_is_type command_pool_id 10"
  "\<lambda>p r. nonnull1 r (encode_vulkan_command_pool_id p)" decode_vulkan_command_pool_id
  by unfold_locales
    (auto simp: encode_vulkan_command_pool_id_def decode_vulkan_command_pool_id_def
      wire_simps split: codec_splits)

subsection \<open>Command pool reset request\<close>

record vulkan_command_pool_reset_request =
  cprr_command_pool_id :: u64
  cprr_flags :: u32

definition encode_vulkan_command_pool_reset_request ::
  "bytes option \<Rightarrow> vulkan_command_pool_reset_request option \<Rightarrow> bytes result" where
  "encode_vulkan_command_pool_reset_request output request = nonnull2 output request (\<lambda>output request.
     if \<not> wire_id_is_type (cprr_command_pool_id request) 10 then Inl EINVAL
     else
     let output = memset0 output 0 BVB_VULKAN_COMMAND_POOL_RESET_REQUEST_SIZE in
     let output = put_u64 output 0 (cprr_command_pool_id request) in
     let output = put_u32 output 8 (cprr_flags request) in
     Inr output)"

definition decode_vulkan_command_pool_reset_request ::
  "bytes option \<Rightarrow> vulkan_command_pool_reset_request option \<Rightarrow> vulkan_command_pool_reset_request result" where
  "decode_vulkan_command_pool_reset_request input request = nonnull2 input request (\<lambda>input _.
     let decoded = \<lparr>cprr_command_pool_id = get_u64 input 0,
                  cprr_flags = get_u32 input 8\<rparr> in
     if \<not> wire_id_is_type (cprr_command_pool_id decoded) 10 \<or>
        get_u32 input 12 \<noteq> 0 then Inl EPROTO
     else
     Inr decoded)"

interpretation command_pool_reset_request_codec: agreed_codec BVB_VULKAN_COMMAND_POOL_RESET_REQUEST_SIZE
  "\<lambda>request. wire_id_is_type (cprr_command_pool_id request) 10"
  encode_vulkan_command_pool_reset_request decode_vulkan_command_pool_reset_request
  by unfold_locales
    (auto simp: encode_vulkan_command_pool_reset_request_def decode_vulkan_command_pool_reset_request_def
      wire_simps split: codec_splits)

subsection \<open>Command buffer allocate request\<close>

record vulkan_command_buffer_allocate_request =
  cbar_command_pool_id :: u64
  cbar_level :: u32
  cbar_count :: u32

definition encode_vulkan_command_buffer_allocate_request ::
  "bytes option \<Rightarrow> vulkan_command_buffer_allocate_request option \<Rightarrow> bytes result" where
  "encode_vulkan_command_buffer_allocate_request output request = nonnull2 output request (\<lambda>output request.
     if \<not> wire_id_is_type (cbar_command_pool_id request) 10 then Inl EINVAL
     else
     let output = put_u64 output 0 (cbar_command_pool_id request) in
     let output = put_u32 output 8 (cbar_level request) in
     let output = put_u32 output 12 (cbar_count request) in
     Inr output)"

definition decode_vulkan_command_buffer_allocate_request ::
  "bytes option \<Rightarrow> vulkan_command_buffer_allocate_request option \<Rightarrow> vulkan_command_buffer_allocate_request result" where
  "decode_vulkan_command_buffer_allocate_request input request = nonnull2 input request (\<lambda>input _.
     let decoded = \<lparr>cbar_command_pool_id = get_u64 input 0,
                  cbar_level = get_u32 input 8,
                  cbar_count = get_u32 input 12\<rparr> in
     if \<not> wire_id_is_type (cbar_command_pool_id decoded) 10 then Inl EPROTO
     else
     Inr decoded)"

interpretation command_buffer_allocate_request_codec: agreed_codec BVB_VULKAN_COMMAND_BUFFER_ALLOCATE_REQUEST_SIZE
  "\<lambda>request. wire_id_is_type (cbar_command_pool_id request) 10"
  encode_vulkan_command_buffer_allocate_request decode_vulkan_command_buffer_allocate_request
  by unfold_locales
    (auto simp: encode_vulkan_command_buffer_allocate_request_def decode_vulkan_command_buffer_allocate_request_def
      wire_simps split: codec_splits)

subsection \<open>Command buffer allocate response\<close>

record vulkan_command_buffer_allocate_response =
  cobar_vulkan_result :: i32
  cobar_command_buffer_id :: u64

definition encode_vulkan_command_buffer_allocate_response ::
  "bytes option \<Rightarrow> vulkan_command_buffer_allocate_response option \<Rightarrow> bytes result" where
  "encode_vulkan_command_buffer_allocate_response output response = nonnull2 output response (\<lambda>output response.
     if (cobar_vulkan_result response = 0 \<and>
        \<not> wire_id_is_type (cobar_command_buffer_id response) 11) \<or>
        (cobar_vulkan_result response \<noteq> 0 \<and>
        cobar_command_buffer_id response \<noteq> 0) then Inl EINVAL
     else
     let output = memset0 output 0 BVB_VULKAN_COMMAND_BUFFER_ALLOCATE_RESPONSE_SIZE in
     let output = put_i32 output 0 (cobar_vulkan_result response) in
     let output = put_u64 output 8 (cobar_command_buffer_id response) in
     Inr output)"

definition decode_vulkan_command_buffer_allocate_response ::
  "bytes option \<Rightarrow> vulkan_command_buffer_allocate_response option \<Rightarrow> vulkan_command_buffer_allocate_response result" where
  "decode_vulkan_command_buffer_allocate_response input response = nonnull2 input response (\<lambda>input _.
     let decoded = \<lparr>cobar_vulkan_result = get_i32 input 0,
                  cobar_command_buffer_id = get_u64 input 8\<rparr> in
     if get_u32 input 4 \<noteq> 0 \<or>
        (cobar_vulkan_result decoded = 0 \<and>
        \<not> wire_id_is_type (cobar_command_buffer_id decoded) 11) \<or>
        (cobar_vulkan_result decoded \<noteq> 0 \<and>
        cobar_command_buffer_id decoded \<noteq> 0) then Inl EPROTO
     else
     Inr decoded)"

interpretation command_buffer_allocate_response_codec: agreed_codec BVB_VULKAN_COMMAND_BUFFER_ALLOCATE_RESPONSE_SIZE
  "\<lambda>response. (cobar_vulkan_result response \<noteq> 0 \<or>
      wire_id_is_type (cobar_command_buffer_id response) 11) \<and>
      (cobar_vulkan_result response = 0 \<or>
      cobar_command_buffer_id response = 0)"
  encode_vulkan_command_buffer_allocate_response decode_vulkan_command_buffer_allocate_response
  by unfold_locales
    (auto simp: encode_vulkan_command_buffer_allocate_response_def decode_vulkan_command_buffer_allocate_response_def
      wire_simps split: codec_splits)

subsection \<open>Command buffer free request\<close>

record vulkan_command_buffer_free_request =
  cbfr_command_pool_id :: u64
  cbfr_command_buffer_id :: u64

definition encode_vulkan_command_buffer_free_request ::
  "bytes option \<Rightarrow> vulkan_command_buffer_free_request option \<Rightarrow> bytes result" where
  "encode_vulkan_command_buffer_free_request output request = nonnull2 output request (\<lambda>output request.
     if \<not> wire_id_is_type (cbfr_command_pool_id request) 10 \<or>
        \<not> wire_id_is_type (cbfr_command_buffer_id request) 11 then Inl EINVAL
     else
     let output = put_u64 output 0 (cbfr_command_pool_id request) in
     let output = put_u64 output 8 (cbfr_command_buffer_id request) in
     Inr output)"

definition decode_vulkan_command_buffer_free_request ::
  "bytes option \<Rightarrow> vulkan_command_buffer_free_request option \<Rightarrow> vulkan_command_buffer_free_request result" where
  "decode_vulkan_command_buffer_free_request input request = nonnull2 input request (\<lambda>input _.
     let decoded = \<lparr>cbfr_command_pool_id = get_u64 input 0,
                  cbfr_command_buffer_id = get_u64 input 8\<rparr> in
     if \<not> wire_id_is_type (cbfr_command_pool_id decoded) 10 \<or>
        \<not> wire_id_is_type (cbfr_command_buffer_id decoded) 11 then Inl EPROTO
     else
     Inr decoded)"

interpretation command_buffer_free_request_codec: agreed_codec BVB_VULKAN_COMMAND_BUFFER_FREE_REQUEST_SIZE
  "\<lambda>request. wire_id_is_type (cbfr_command_pool_id request) 10 \<and>
      wire_id_is_type (cbfr_command_buffer_id request) 11"
  encode_vulkan_command_buffer_free_request decode_vulkan_command_buffer_free_request
  by unfold_locales
    (auto simp: encode_vulkan_command_buffer_free_request_def decode_vulkan_command_buffer_free_request_def
      wire_simps split: codec_splits)

subsection \<open>Command buffer begin request\<close>

record vulkan_command_buffer_begin_request =
  cbbr_command_buffer_id :: u64
  cbbr_flags :: u32

definition encode_vulkan_command_buffer_begin_request ::
  "bytes option \<Rightarrow> vulkan_command_buffer_begin_request option \<Rightarrow> bytes result" where
  "encode_vulkan_command_buffer_begin_request output request = nonnull2 output request (\<lambda>output request.
     if \<not> wire_id_is_type (cbbr_command_buffer_id request) 11 then Inl EINVAL
     else
     let output = memset0 output 0 BVB_VULKAN_COMMAND_BUFFER_BEGIN_REQUEST_SIZE in
     let output = put_u64 output 0 (cbbr_command_buffer_id request) in
     let output = put_u32 output 8 (cbbr_flags request) in
     Inr output)"

definition decode_vulkan_command_buffer_begin_request ::
  "bytes option \<Rightarrow> vulkan_command_buffer_begin_request option \<Rightarrow> vulkan_command_buffer_begin_request result" where
  "decode_vulkan_command_buffer_begin_request input request = nonnull2 input request (\<lambda>input _.
     let decoded = \<lparr>cbbr_command_buffer_id = get_u64 input 0,
                  cbbr_flags = get_u32 input 8\<rparr> in
     if \<not> wire_id_is_type (cbbr_command_buffer_id decoded) 11 \<or>
        get_u32 input 12 \<noteq> 0 then Inl EPROTO
     else
     Inr decoded)"

interpretation command_buffer_begin_request_codec: agreed_codec BVB_VULKAN_COMMAND_BUFFER_BEGIN_REQUEST_SIZE
  "\<lambda>request. wire_id_is_type (cbbr_command_buffer_id request) 11"
  encode_vulkan_command_buffer_begin_request decode_vulkan_command_buffer_begin_request
  by unfold_locales
    (auto simp: encode_vulkan_command_buffer_begin_request_def decode_vulkan_command_buffer_begin_request_def
      wire_simps split: codec_splits)

subsection \<open>Command buffer id\<close>

definition encode_vulkan_command_buffer_id ::
  "bytes option \<Rightarrow> u64 \<Rightarrow> bytes result" where
  "encode_vulkan_command_buffer_id output command_buffer_id = nonnull1 output (\<lambda>output.
     if \<not> wire_id_is_type command_buffer_id 11 then Inl EINVAL
     else
     let output = put_u64 output 0 command_buffer_id in
     Inr output)"

definition decode_vulkan_command_buffer_id ::
  "bytes option \<Rightarrow> u64 option \<Rightarrow> u64 result" where
  "decode_vulkan_command_buffer_id input command_buffer_id = nonnull2 input command_buffer_id (\<lambda>input _.
     let decoded = get_u64 input 0 in
     if \<not> wire_id_is_type decoded 11 then Inl EPROTO
     else
     Inr decoded)"

interpretation command_buffer_id_codec: agreed_codec BVB_VULKAN_COMMAND_BUFFER_ID_SIZE
  "\<lambda>command_buffer_id. wire_id_is_type command_buffer_id 11"
  "\<lambda>p r. nonnull1 r (encode_vulkan_command_buffer_id p)" decode_vulkan_command_buffer_id
  by unfold_locales
    (auto simp: encode_vulkan_command_buffer_id_def decode_vulkan_command_buffer_id_def
      wire_simps split: codec_splits)

subsection \<open>Queue submit command request\<close>

record vulkan_queue_submit_command_request =
  qscr_queue_id :: u64
  qscr_command_buffer_id :: u64

definition encode_vulkan_queue_submit_command_request ::
  "bytes option \<Rightarrow> vulkan_queue_submit_command_request option \<Rightarrow> bytes result" where
  "encode_vulkan_queue_submit_command_request output request = nonnull2 output request (\<lambda>output request.
     if \<not> wire_id_is_type (qscr_queue_id request) 4 \<or>
        \<not> wire_id_is_type (qscr_command_buffer_id request) 11 then Inl EINVAL
     else
     let output = put_u64 output 0 (qscr_queue_id request) in
     let output = put_u64 output 8 (qscr_command_buffer_id request) in
     Inr output)"

definition decode_vulkan_queue_submit_command_request ::
  "bytes option \<Rightarrow> vulkan_queue_submit_command_request option \<Rightarrow> vulkan_queue_submit_command_request result" where
  "decode_vulkan_queue_submit_command_request input request = nonnull2 input request (\<lambda>input _.
     let decoded = \<lparr>qscr_queue_id = get_u64 input 0,
                  qscr_command_buffer_id = get_u64 input 8\<rparr> in
     if \<not> wire_id_is_type (qscr_queue_id decoded) 4 \<or>
        \<not> wire_id_is_type (qscr_command_buffer_id decoded) 11 then Inl EPROTO
     else
     Inr decoded)"

interpretation queue_submit_command_request_codec: agreed_codec BVB_VULKAN_QUEUE_SUBMIT_COMMAND_REQUEST_SIZE
  "\<lambda>request. wire_id_is_type (qscr_queue_id request) 4 \<and>
      wire_id_is_type (qscr_command_buffer_id request) 11"
  encode_vulkan_queue_submit_command_request decode_vulkan_queue_submit_command_request
  by unfold_locales
    (auto simp: encode_vulkan_queue_submit_command_request_def decode_vulkan_queue_submit_command_request_def
      wire_simps split: codec_splits)

subsection \<open>Buffer create request\<close>

record vulkan_buffer_create_request =
  bcr_device_id :: u64
  bcr_size :: u64
  bcr_usage :: u32
  bcr_flags :: u32

definition encode_vulkan_buffer_create_request ::
  "bytes option \<Rightarrow> vulkan_buffer_create_request option \<Rightarrow> bytes result" where
  "encode_vulkan_buffer_create_request output request = nonnull2 output request (\<lambda>output request.
     if bcr_size request = 0 \<or>
        bcr_usage request = 0 \<or>
        \<not> wire_id_is_type (bcr_device_id request) 3 then Inl EINVAL
     else
     let output = put_u64 output 0 (bcr_device_id request) in
     let output = put_u64 output 8 (bcr_size request) in
     let output = put_u32 output 16 (bcr_usage request) in
     let output = put_u32 output 20 (bcr_flags request) in
     Inr output)"

definition decode_vulkan_buffer_create_request ::
  "bytes option \<Rightarrow> vulkan_buffer_create_request option \<Rightarrow> vulkan_buffer_create_request result" where
  "decode_vulkan_buffer_create_request input request = nonnull2 input request (\<lambda>input _.
     let request = \<lparr>bcr_device_id = get_u64 input 0,
                  bcr_size = get_u64 input 8,
                  bcr_usage = get_u32 input 16,
                  bcr_flags = get_u32 input 20\<rparr> in
     if wire_id_is_type (bcr_device_id request) 3 \<and>
        bcr_size request \<noteq> 0 then Inr request
     else Inl EPROTO)"

text \<open>The encoder also refuses an empty usage; the decoder does not check it.\<close>

interpretation buffer_create_request_codec: wire_codec BVB_VULKAN_BUFFER_CREATE_REQUEST_SIZE
  "\<lambda>request. bcr_size request \<noteq> 0 \<and>
      bcr_usage request \<noteq> 0 \<and>
      wire_id_is_type (bcr_device_id request) 3"
  "\<lambda>request. bcr_size request \<noteq> 0 \<and>
      wire_id_is_type (bcr_device_id request) 3"
  encode_vulkan_buffer_create_request decode_vulkan_buffer_create_request
  by unfold_locales
    (auto simp: encode_vulkan_buffer_create_request_def decode_vulkan_buffer_create_request_def
      wire_simps split: codec_splits)

subsection \<open>Object create response\<close>

record vulkan_object_create_response =
  ocr_vulkan_result :: i32
  ocr_object_id :: u64

definition encode_vulkan_object_create_response ::
  "bytes option \<Rightarrow> vulkan_object_create_response option \<Rightarrow> u8 \<Rightarrow> bytes result" where
  "encode_vulkan_object_create_response output response expected_type = nonnull2 output response (\<lambda>output response.
     if (ocr_vulkan_result response = 0 \<and>
        \<not> wire_id_is_type (ocr_object_id response) expected_type) \<or>
        (ocr_vulkan_result response \<noteq> 0 \<and>
        ocr_object_id response \<noteq> 0) then Inl EINVAL
     else
     let output = memset0 output 0 BVB_VULKAN_OBJECT_CREATE_RESPONSE_SIZE in
     let output = put_i32 output 0 (ocr_vulkan_result response) in
     let output = put_u64 output 8 (ocr_object_id response) in
     Inr output)"

definition decode_vulkan_object_create_response ::
  "bytes option \<Rightarrow> vulkan_object_create_response option \<Rightarrow> u8 \<Rightarrow> vulkan_object_create_response result" where
  "decode_vulkan_object_create_response input response expected_type = nonnull2 input response (\<lambda>input _.
     let response = \<lparr>ocr_vulkan_result = get_i32 input 0,
                   ocr_object_id = get_u64 input 8\<rparr> in
     if get_u32 input 4 \<noteq> 0 \<or>
        (ocr_vulkan_result response = 0 \<and>
        \<not> wire_id_is_type (ocr_object_id response) expected_type) \<or>
        (ocr_vulkan_result response \<noteq> 0 \<and>
        ocr_object_id response \<noteq> 0) then Inl EPROTO
     else
     Inr response)"

interpretation object_create_response_codec: agreed_codec BVB_VULKAN_OBJECT_CREATE_RESPONSE_SIZE
  "\<lambda>response. (ocr_vulkan_result response \<noteq> 0 \<or>
      wire_id_is_type (ocr_object_id response) expected_type) \<and>
      (ocr_vulkan_result response = 0 \<or>
      ocr_object_id response = 0)"
  "\<lambda>p r. encode_vulkan_object_create_response p r expected_type" "\<lambda>p r. decode_vulkan_object_create_response p r expected_type"
  for expected_type
  by unfold_locales
    (auto simp: encode_vulkan_object_create_response_def decode_vulkan_object_create_response_def
      wire_simps split: codec_splits)

definition query_type_is_supported :: "u32 \<Rightarrow> bool" where
  "query_type_is_supported query_type \<longleftrightarrow>
     query_type = VK_QUERY_TYPE_OCCLUSION \<or>
     query_type = VK_QUERY_TYPE_PIPELINE_STATISTICS \<or>
     query_type = VK_QUERY_TYPE_TIMESTAMP \<or>
     query_type = VK_QUERY_TYPE_TRANSFORM_FEEDBACK_STREAM_EXT"

subsection \<open>Query pool create request\<close>

record vulkan_query_pool_create_request =
  qpcr_device_id :: u64
  qpcr_flags :: u32
  qpcr_query_type :: u32
  qpcr_query_count :: u32
  qpcr_pipeline_statistics :: u32

definition encode_vulkan_query_pool_create_request ::
  "bytes option \<Rightarrow> vulkan_query_pool_create_request option \<Rightarrow> bytes result" where
  "encode_vulkan_query_pool_create_request output request = nonnull2 output request (\<lambda>output request.
     if \<not> wire_id_is_type (qpcr_device_id request) BVB_OBJECT_DEVICE \<or>
        qpcr_flags request \<noteq> 0 \<or>
        \<not> query_type_is_supported (qpcr_query_type request) \<or>
        qpcr_query_count request = 0 \<or>
        qpcr_query_count request > 1048576 \<or>
        (if qpcr_query_type request = VK_QUERY_TYPE_PIPELINE_STATISTICS then qpcr_pipeline_statistics request = 0 \<or>
        (qpcr_pipeline_statistics request AND NOT 0x7ff) \<noteq> 0 else qpcr_pipeline_statistics request \<noteq> 0) then Inl EINVAL
     else
     let output = memset0 output 0 BVB_VULKAN_QUERY_POOL_CREATE_REQUEST_SIZE in
     let output = put_u64 output 0 (qpcr_device_id request) in
     let output = put_u32 output 8 (qpcr_flags request) in
     let output = put_u32 output 12 (qpcr_query_type request) in
     let output = put_u32 output 16 (qpcr_query_count request) in
     let output = put_u32 output 20 (qpcr_pipeline_statistics request) in
     Inr output)"

definition decode_vulkan_query_pool_create_request ::
  "bytes option \<Rightarrow> vulkan_query_pool_create_request option \<Rightarrow> vulkan_query_pool_create_request result" where
  "decode_vulkan_query_pool_create_request input request = nonnull2 input request (\<lambda>input _.
     let decoded = \<lparr>qpcr_device_id = get_u64 input 0,
                  qpcr_flags = get_u32 input 8,
                  qpcr_query_type = get_u32 input 12,
                  qpcr_query_count = get_u32 input 16,
                  qpcr_pipeline_statistics = get_u32 input 20\<rparr> in
     case encode_vulkan_query_pool_create_request (Some (replicate BVB_VULKAN_QUERY_POOL_CREATE_REQUEST_SIZE 0)) (Some decoded) of Inl _ \<Rightarrow> Inl EPROTO
     | Inr validation \<Rightarrow>
     if validation \<noteq> take BVB_VULKAN_QUERY_POOL_CREATE_REQUEST_SIZE input then Inl EPROTO else
     Inr decoded)"

interpretation query_pool_create_request_codec: agreed_codec BVB_VULKAN_QUERY_POOL_CREATE_REQUEST_SIZE
  "\<lambda>request. wire_id_is_type (qpcr_device_id request) BVB_OBJECT_DEVICE \<and>
      qpcr_flags request = 0 \<and>
      query_type_is_supported (qpcr_query_type request) \<and>
      qpcr_query_count request \<noteq> 0 \<and>
      qpcr_query_count request \<le> 1048576 \<and>
      (if qpcr_query_type request = VK_QUERY_TYPE_PIPELINE_STATISTICS then qpcr_pipeline_statistics request \<noteq> 0 \<and>
      (qpcr_pipeline_statistics request AND NOT 0x7ff) = 0 else qpcr_pipeline_statistics request = 0)"
  encode_vulkan_query_pool_create_request decode_vulkan_query_pool_create_request
  by unfold_locales
    (auto simp: encode_vulkan_query_pool_create_request_def decode_vulkan_query_pool_create_request_def
      wire_simps split: codec_splits)

subsection \<open>Query pool results request\<close>

record vulkan_query_pool_results_request =
  qprr_query_pool_id :: u64
  qprr_data_size :: u64
  qprr_stride :: u64
  qprr_first_query :: u32
  qprr_query_count :: u32
  qprr_flags :: u32

definition encode_vulkan_query_pool_results_request ::
  "bytes option \<Rightarrow> vulkan_query_pool_results_request option \<Rightarrow> bytes result" where
  "encode_vulkan_query_pool_results_request output request = nonnull2 output request (\<lambda>output request.
     if \<not> wire_id_is_type (qprr_query_pool_id request) BVB_OBJECT_QUERY_POOL \<or>
        qprr_data_size request = 0 \<or>
        qprr_data_size request > BVB_VULKAN_QUERY_POOL_RESULTS_MAX_BYTES \<or>
        qprr_stride request = 0 \<or>
        qprr_stride request > qprr_data_size request \<or>
        qprr_query_count request = 0 \<or>
        qprr_query_count request > 256 \<or>
        qprr_first_query request > (0xffffffff - qprr_query_count request) \<or>
        (qprr_flags request AND NOT 0x1f) \<noteq> 0 then Inl EINVAL
     else
     let output = memset0 output 0 BVB_VULKAN_QUERY_POOL_RESULTS_REQUEST_SIZE in
     let output = put_u64 output 0 (qprr_query_pool_id request) in
     let output = put_u64 output 8 (qprr_data_size request) in
     let output = put_u64 output 16 (qprr_stride request) in
     let output = put_u32 output 24 (qprr_first_query request) in
     let output = put_u32 output 28 (qprr_query_count request) in
     let output = put_u32 output 32 (qprr_flags request) in
     Inr output)"

definition decode_vulkan_query_pool_results_request ::
  "bytes option \<Rightarrow> vulkan_query_pool_results_request option \<Rightarrow> vulkan_query_pool_results_request result" where
  "decode_vulkan_query_pool_results_request input request = nonnull2 input request (\<lambda>input _.
     let decoded = \<lparr>qprr_query_pool_id = get_u64 input 0,
                  qprr_data_size = get_u64 input 8,
                  qprr_stride = get_u64 input 16,
                  qprr_first_query = get_u32 input 24,
                  qprr_query_count = get_u32 input 28,
                  qprr_flags = get_u32 input 32\<rparr> in
     case encode_vulkan_query_pool_results_request (Some (replicate BVB_VULKAN_QUERY_POOL_RESULTS_REQUEST_SIZE 0)) (Some decoded) of Inl _ \<Rightarrow> Inl EPROTO
     | Inr validation \<Rightarrow>
     if validation \<noteq> take BVB_VULKAN_QUERY_POOL_RESULTS_REQUEST_SIZE input then Inl EPROTO else
     Inr decoded)"

interpretation query_pool_results_request_codec: agreed_codec BVB_VULKAN_QUERY_POOL_RESULTS_REQUEST_SIZE
  "\<lambda>request. wire_id_is_type (qprr_query_pool_id request) BVB_OBJECT_QUERY_POOL \<and>
      qprr_data_size request \<noteq> 0 \<and>
      qprr_data_size request \<le> BVB_VULKAN_QUERY_POOL_RESULTS_MAX_BYTES \<and>
      qprr_stride request \<noteq> 0 \<and>
      qprr_stride request \<le> qprr_data_size request \<and>
      qprr_query_count request \<noteq> 0 \<and>
      qprr_query_count request \<le> 256 \<and>
      qprr_first_query request \<le> (0xffffffff - qprr_query_count request) \<and>
      (qprr_flags request AND NOT 0x1f) = 0"
  encode_vulkan_query_pool_results_request decode_vulkan_query_pool_results_request
  by unfold_locales
    (auto simp: encode_vulkan_query_pool_results_request_def decode_vulkan_query_pool_results_request_def
      wire_simps split: codec_splits)



subsection \<open>Query pool reset request\<close>

record vulkan_query_pool_reset_request =
  quprr_query_pool_id :: u64
  quprr_first_query :: u32
  quprr_query_count :: u32

definition encode_vulkan_query_pool_reset_request ::
  "bytes option \<Rightarrow> vulkan_query_pool_reset_request option \<Rightarrow> bytes result" where
  "encode_vulkan_query_pool_reset_request output request = nonnull2 output request (\<lambda>output request.
     if \<not> wire_id_is_type (quprr_query_pool_id request) BVB_OBJECT_QUERY_POOL \<or>
        quprr_query_count request = 0 \<or>
        quprr_first_query request > (0xffffffff - quprr_query_count request) then Inl EINVAL
     else
     let output = put_u64 output 0 (quprr_query_pool_id request) in
     let output = put_u32 output 8 (quprr_first_query request) in
     let output = put_u32 output 12 (quprr_query_count request) in
     Inr output)"

definition decode_vulkan_query_pool_reset_request ::
  "bytes option \<Rightarrow> vulkan_query_pool_reset_request option \<Rightarrow> vulkan_query_pool_reset_request result" where
  "decode_vulkan_query_pool_reset_request input request = nonnull2 input request (\<lambda>input _.
     let decoded = \<lparr>quprr_query_pool_id = get_u64 input 0,
                  quprr_first_query = get_u32 input 8,
                  quprr_query_count = get_u32 input 12\<rparr> in
     case encode_vulkan_query_pool_reset_request (Some (replicate BVB_VULKAN_QUERY_POOL_RESET_REQUEST_SIZE 0)) (Some decoded) of Inl _ \<Rightarrow> Inl EPROTO
     | Inr validation \<Rightarrow>
     if validation \<noteq> take BVB_VULKAN_QUERY_POOL_RESET_REQUEST_SIZE input then Inl EPROTO else
     Inr decoded)"

interpretation query_pool_reset_request_codec: agreed_codec BVB_VULKAN_QUERY_POOL_RESET_REQUEST_SIZE
  "\<lambda>request. wire_id_is_type (quprr_query_pool_id request) BVB_OBJECT_QUERY_POOL \<and>
      quprr_query_count request \<noteq> 0 \<and>
      quprr_first_query request \<le> (0xffffffff - quprr_query_count request)"
  encode_vulkan_query_pool_reset_request decode_vulkan_query_pool_reset_request
  by unfold_locales
    (auto simp: encode_vulkan_query_pool_reset_request_def decode_vulkan_query_pool_reset_request_def
      wire_simps split: codec_splits intro: put_cover)

subsection \<open>Object id\<close>

definition encode_vulkan_object_id ::
  "bytes option \<Rightarrow> u64 \<Rightarrow> u8 \<Rightarrow> bytes result" where
  "encode_vulkan_object_id output object_id expected_type = nonnull1 output (\<lambda>output.
     if \<not> wire_id_is_type object_id expected_type then Inl EINVAL
     else
     let output = put_u64 output 0 object_id in
     Inr output)"

definition decode_vulkan_object_id ::
  "bytes option \<Rightarrow> u64 option \<Rightarrow> u8 \<Rightarrow> u64 result" where
  "decode_vulkan_object_id input object_id expected_type = nonnull2 input object_id (\<lambda>input _.
     let object_id = get_u64 input 0 in
     if wire_id_is_type object_id expected_type then Inr object_id
     else Inl EPROTO)"

interpretation object_id_codec: agreed_codec BVB_VULKAN_OBJECT_ID_SIZE
  "\<lambda>object_id. wire_id_is_type object_id expected_type"
  "\<lambda>p r. nonnull1 r (\<lambda>x. encode_vulkan_object_id p x expected_type)" "\<lambda>p r. decode_vulkan_object_id p r expected_type"
  for expected_type
  by unfold_locales
    (auto simp: encode_vulkan_object_id_def decode_vulkan_object_id_def
      wire_simps split: codec_splits)

subsection \<open>Properties\<close>

text \<open>
  The messages about command pools, command buffers, query pools and generic objects keep the
  codec contract; the two generic object messages do so for every expected object type.
\<close>

lemma command_messages:
  "codec_contract BVB_VULKAN_RESULT_SIZE (\<lambda>_. True)
     (\<lambda>_. True)
     (\<lambda>p r. nonnull1 r (encode_vulkan_result p)) decode_vulkan_result \<and>
   codec_contract BVB_VULKAN_COMMAND_POOL_CREATE_REQUEST_SIZE (\<lambda>_. True)
     (\<lambda>request. wire_id_is_type (cpcr_device_id request) 3)
     encode_vulkan_command_pool_create_request decode_vulkan_command_pool_create_request \<and>
   codec_contract BVB_VULKAN_COMMAND_POOL_CREATE_RESPONSE_SIZE (\<lambda>_. True)
     (\<lambda>response. (copcr_vulkan_result response \<noteq> 0 \<or>
      wire_id_is_type (copcr_command_pool_id response) 10) \<and>
      (copcr_vulkan_result response = 0 \<or>
      copcr_command_pool_id response = 0))
     encode_vulkan_command_pool_create_response decode_vulkan_command_pool_create_response \<and>
   codec_contract BVB_VULKAN_COMMAND_POOL_ID_SIZE (\<lambda>_. True)
     (\<lambda>command_pool_id. wire_id_is_type command_pool_id 10)
     (\<lambda>p r. nonnull1 r (encode_vulkan_command_pool_id p)) decode_vulkan_command_pool_id \<and>
   codec_contract BVB_VULKAN_COMMAND_POOL_RESET_REQUEST_SIZE (\<lambda>_. True)
     (\<lambda>request. wire_id_is_type (cprr_command_pool_id request) 10)
     encode_vulkan_command_pool_reset_request decode_vulkan_command_pool_reset_request \<and>
   codec_contract BVB_VULKAN_COMMAND_BUFFER_ALLOCATE_REQUEST_SIZE (\<lambda>_. True)
     (\<lambda>request. wire_id_is_type (cbar_command_pool_id request) 10)
     encode_vulkan_command_buffer_allocate_request decode_vulkan_command_buffer_allocate_request \<and>
   codec_contract BVB_VULKAN_COMMAND_BUFFER_ALLOCATE_RESPONSE_SIZE (\<lambda>_. True)
     (\<lambda>response. (cobar_vulkan_result response \<noteq> 0 \<or>
      wire_id_is_type (cobar_command_buffer_id response) 11) \<and>
      (cobar_vulkan_result response = 0 \<or>
      cobar_command_buffer_id response = 0))
     encode_vulkan_command_buffer_allocate_response decode_vulkan_command_buffer_allocate_response \<and>
   codec_contract BVB_VULKAN_COMMAND_BUFFER_FREE_REQUEST_SIZE (\<lambda>_. True)
     (\<lambda>request. wire_id_is_type (cbfr_command_pool_id request) 10 \<and>
      wire_id_is_type (cbfr_command_buffer_id request) 11)
     encode_vulkan_command_buffer_free_request decode_vulkan_command_buffer_free_request \<and>
   codec_contract BVB_VULKAN_COMMAND_BUFFER_BEGIN_REQUEST_SIZE (\<lambda>_. True)
     (\<lambda>request. wire_id_is_type (cbbr_command_buffer_id request) 11)
     encode_vulkan_command_buffer_begin_request decode_vulkan_command_buffer_begin_request \<and>
   codec_contract BVB_VULKAN_COMMAND_BUFFER_ID_SIZE (\<lambda>_. True)
     (\<lambda>command_buffer_id. wire_id_is_type command_buffer_id 11)
     (\<lambda>p r. nonnull1 r (encode_vulkan_command_buffer_id p)) decode_vulkan_command_buffer_id \<and>
   codec_contract BVB_VULKAN_QUEUE_SUBMIT_COMMAND_REQUEST_SIZE (\<lambda>_. True)
     (\<lambda>request. wire_id_is_type (qscr_queue_id request) 4 \<and>
      wire_id_is_type (qscr_command_buffer_id request) 11)
     encode_vulkan_queue_submit_command_request decode_vulkan_queue_submit_command_request \<and>
   codec_contract BVB_VULKAN_OBJECT_CREATE_RESPONSE_SIZE (\<lambda>_. True)
     (\<lambda>response. (ocr_vulkan_result response \<noteq> 0 \<or>
      wire_id_is_type (ocr_object_id response) expected_type) \<and>
      (ocr_vulkan_result response = 0 \<or>
      ocr_object_id response = 0))
     (\<lambda>p r. encode_vulkan_object_create_response p r expected_type) (\<lambda>p r. decode_vulkan_object_create_response p r expected_type) \<and>
   codec_contract BVB_VULKAN_QUERY_POOL_CREATE_REQUEST_SIZE (\<lambda>_. True)
     (\<lambda>request. wire_id_is_type (qpcr_device_id request) BVB_OBJECT_DEVICE \<and>
      qpcr_flags request = 0 \<and>
      query_type_is_supported (qpcr_query_type request) \<and>
      qpcr_query_count request \<noteq> 0 \<and>
      qpcr_query_count request \<le> 1048576 \<and>
      (if qpcr_query_type request = VK_QUERY_TYPE_PIPELINE_STATISTICS then qpcr_pipeline_statistics request \<noteq> 0 \<and>
      (qpcr_pipeline_statistics request AND NOT 0x7ff) = 0 else qpcr_pipeline_statistics request = 0))
     encode_vulkan_query_pool_create_request decode_vulkan_query_pool_create_request \<and>
   codec_contract BVB_VULKAN_QUERY_POOL_RESULTS_REQUEST_SIZE (\<lambda>_. True)
     (\<lambda>request. wire_id_is_type (qprr_query_pool_id request) BVB_OBJECT_QUERY_POOL \<and>
      qprr_data_size request \<noteq> 0 \<and>
      qprr_data_size request \<le> BVB_VULKAN_QUERY_POOL_RESULTS_MAX_BYTES \<and>
      qprr_stride request \<noteq> 0 \<and>
      qprr_stride request \<le> qprr_data_size request \<and>
      qprr_query_count request \<noteq> 0 \<and>
      qprr_query_count request \<le> 256 \<and>
      qprr_first_query request \<le> (0xffffffff - qprr_query_count request) \<and>
      (qprr_flags request AND NOT 0x1f) = 0)
     encode_vulkan_query_pool_results_request decode_vulkan_query_pool_results_request \<and>
   codec_contract BVB_VULKAN_QUERY_POOL_RESET_REQUEST_SIZE (\<lambda>_. True)
     (\<lambda>request. wire_id_is_type (quprr_query_pool_id request) BVB_OBJECT_QUERY_POOL \<and>
      quprr_query_count request \<noteq> 0 \<and>
      quprr_first_query request \<le> (0xffffffff - quprr_query_count request))
     encode_vulkan_query_pool_reset_request decode_vulkan_query_pool_reset_request \<and>
   codec_contract BVB_VULKAN_OBJECT_ID_SIZE (\<lambda>_. True)
     (\<lambda>object_id. wire_id_is_type object_id expected_type)
     (\<lambda>p r. nonnull1 r (\<lambda>x. encode_vulkan_object_id p x expected_type)) (\<lambda>p r. decode_vulkan_object_id p r expected_type)"
  by (intro conjI result_codec.contract command_pool_create_request_codec.contract
      command_pool_create_response_codec.contract command_pool_id_codec.contract
      command_pool_reset_request_codec.contract command_buffer_allocate_request_codec.contract
      command_buffer_allocate_response_codec.contract command_buffer_free_request_codec.contract
      command_buffer_begin_request_codec.contract command_buffer_id_codec.contract
      queue_submit_command_request_codec.contract object_create_response_codec.contract
      query_pool_create_request_codec.contract query_pool_results_request_codec.contract
      query_pool_reset_request_codec.contract object_id_codec.contract)

end
