(* ===== verification/Proto_Resource.thy ===== *)
theory Proto_Resource
  imports Proto_Base
begin

unbundle bit_operations_syntax

section \<open>Buffers, images and device memory\<close>

text \<open>The messages of src/src/protocol.c lines 1931-2726: requirements queries, allocation, binding, image and image-view creation.\<close>

subsection \<open>Buffer requirements\<close>

record vulkan_buffer_requirements =
  br_size :: u64
  br_alignment :: u64
  br_memory_type_bits :: u32

definition encode_vulkan_buffer_requirements ::
  "bytes option \<Rightarrow> vulkan_buffer_requirements option \<Rightarrow> bytes result" where
  "encode_vulkan_buffer_requirements output requirements = nonnull2 output requirements (\<lambda>output requirements.
     if br_size requirements = 0 \<or>
        br_alignment requirements = 0 \<or>
        br_memory_type_bits requirements = 0 then Inl EINVAL
     else
     let output = memset0 output 0 BVB_VULKAN_BUFFER_REQUIREMENTS_SIZE in
     let output = put_u64 output 0 (br_size requirements) in
     let output = put_u64 output 8 (br_alignment requirements) in
     let output = put_u32 output 16 (br_memory_type_bits requirements) in
     Inr output)"

definition decode_vulkan_buffer_requirements ::
  "bytes option \<Rightarrow> vulkan_buffer_requirements option \<Rightarrow> vulkan_buffer_requirements result" where
  "decode_vulkan_buffer_requirements input requirements = nonnull2 input requirements (\<lambda>input _.
     let requirements = \<lparr>br_size = get_u64 input 0,
                       br_alignment = get_u64 input 8,
                       br_memory_type_bits = get_u32 input 16\<rparr> in
     if br_size requirements \<noteq> 0 \<and>
        br_alignment requirements \<noteq> 0 \<and>
        br_memory_type_bits requirements \<noteq> 0 \<and>
        get_u32 input 20 = 0 then Inr requirements
     else Inl EPROTO)"

interpretation buffer_requirements_codec: agreed_codec BVB_VULKAN_BUFFER_REQUIREMENTS_SIZE
  "\<lambda>requirements. br_size requirements \<noteq> 0 \<and>
      br_alignment requirements \<noteq> 0 \<and>
      br_memory_type_bits requirements \<noteq> 0"
  encode_vulkan_buffer_requirements decode_vulkan_buffer_requirements
  by unfold_locales
    (auto simp: encode_vulkan_buffer_requirements_def decode_vulkan_buffer_requirements_def
      wire_simps split: codec_splits)






definition buffer_requirements_2_pnext_valid :: "u32 \<Rightarrow> bool" where
  "buffer_requirements_2_pnext_valid pnext_flags \<longleftrightarrow>
     (pnext_flags AND NOT BVB_VULKAN_BUFFER_REQUIREMENTS_2_PNEXT_MASK) = 0"

subsection \<open>Buffer requirements 2 request\<close>

record vulkan_buffer_requirements_2_request =
  br2r_buffer_id :: u64
  br2r_pnext_flags :: u32

definition encode_vulkan_buffer_requirements_2_request ::
  "bytes option \<Rightarrow> vulkan_buffer_requirements_2_request option \<Rightarrow> bytes result" where
  "encode_vulkan_buffer_requirements_2_request output request = nonnull2 output request (\<lambda>output request.
     if \<not> wire_id_is_type (br2r_buffer_id request) BVB_OBJECT_BUFFER \<or>
        \<not> buffer_requirements_2_pnext_valid (br2r_pnext_flags request) then Inl EINVAL
     else
     let output = memset0 output 0 BVB_VULKAN_BUFFER_REQUIREMENTS_2_REQUEST_SIZE in
     let output = put_u64 output 0 (br2r_buffer_id request) in
     let output = put_u32 output 8 (br2r_pnext_flags request) in
     Inr output)"

definition decode_vulkan_buffer_requirements_2_request ::
  "bytes option \<Rightarrow> vulkan_buffer_requirements_2_request option \<Rightarrow> vulkan_buffer_requirements_2_request result" where
  "decode_vulkan_buffer_requirements_2_request input request = nonnull2 input request (\<lambda>input _.
     let decoded = \<lparr>br2r_buffer_id = get_u64 input 0,
                  br2r_pnext_flags = get_u32 input 8\<rparr> in
     if \<not> wire_id_is_type (br2r_buffer_id decoded) BVB_OBJECT_BUFFER \<or>
        \<not> buffer_requirements_2_pnext_valid (br2r_pnext_flags decoded) \<or>
        get_u32 input 12 \<noteq> 0 then Inl EPROTO
     else
     Inr decoded)"

interpretation buffer_requirements_2_request_codec: agreed_codec BVB_VULKAN_BUFFER_REQUIREMENTS_2_REQUEST_SIZE
  "\<lambda>request. wire_id_is_type (br2r_buffer_id request) BVB_OBJECT_BUFFER \<and>
      buffer_requirements_2_pnext_valid (br2r_pnext_flags request)"
  encode_vulkan_buffer_requirements_2_request decode_vulkan_buffer_requirements_2_request
  by unfold_locales
    (auto simp: encode_vulkan_buffer_requirements_2_request_def decode_vulkan_buffer_requirements_2_request_def
      wire_simps split: codec_splits)

subsection \<open>Buffer requirements 2 response\<close>

record vulkan_buffer_requirements_2_response =
  bur2r_size :: u64
  bur2r_alignment :: u64
  bur2r_memory_type_bits :: u32
  bur2r_pnext_flags :: u32
  bur2r_prefers_dedicated :: u32
  bur2r_requires_dedicated :: u32

definition encode_vulkan_buffer_requirements_2_response ::
  "bytes option \<Rightarrow> vulkan_buffer_requirements_2_response option \<Rightarrow> bytes result" where
  "encode_vulkan_buffer_requirements_2_response output response = nonnull2 output response (\<lambda>output response.
     if bur2r_size response = 0 \<or>
        bur2r_alignment response = 0 \<or>
        bur2r_memory_type_bits response = 0 \<or>
        \<not> buffer_requirements_2_pnext_valid (bur2r_pnext_flags response) \<or>
        bur2r_prefers_dedicated response > 1 \<or>
        bur2r_requires_dedicated response > 1 \<or>
        ((bur2r_pnext_flags response AND BVB_VULKAN_BUFFER_REQUIREMENTS_2_PNEXT_DEDICATED) = 0 \<and>
        (bur2r_prefers_dedicated response \<noteq> 0 \<or>
        bur2r_requires_dedicated response \<noteq> 0)) then Inl EINVAL
     else
     let output = put_u64 output 0 (bur2r_size response) in
     let output = put_u64 output 8 (bur2r_alignment response) in
     let output = put_u32 output 16 (bur2r_memory_type_bits response) in
     let output = put_u32 output 20 (bur2r_pnext_flags response) in
     let output = put_u32 output 24 (bur2r_prefers_dedicated response) in
     let output = put_u32 output 28 (bur2r_requires_dedicated response) in
     Inr output)"

definition decode_vulkan_buffer_requirements_2_response ::
  "bytes option \<Rightarrow> vulkan_buffer_requirements_2_response option \<Rightarrow> vulkan_buffer_requirements_2_response result" where
  "decode_vulkan_buffer_requirements_2_response input response = nonnull2 input response (\<lambda>input _.
     let decoded = \<lparr>bur2r_size = get_u64 input 0,
                  bur2r_alignment = get_u64 input 8,
                  bur2r_memory_type_bits = get_u32 input 16,
                  bur2r_pnext_flags = get_u32 input 20,
                  bur2r_prefers_dedicated = get_u32 input 24,
                  bur2r_requires_dedicated = get_u32 input 28\<rparr> in
     case encode_vulkan_buffer_requirements_2_response (Some (replicate BVB_VULKAN_BUFFER_REQUIREMENTS_2_RESPONSE_SIZE 0)) (Some decoded) of Inl _ \<Rightarrow> Inl EPROTO
     | Inr canonical \<Rightarrow>
     Inr decoded)"

interpretation buffer_requirements_2_response_codec: agreed_codec BVB_VULKAN_BUFFER_REQUIREMENTS_2_RESPONSE_SIZE
  "\<lambda>response. bur2r_size response \<noteq> 0 \<and>
      bur2r_alignment response \<noteq> 0 \<and>
      bur2r_memory_type_bits response \<noteq> 0 \<and>
      buffer_requirements_2_pnext_valid (bur2r_pnext_flags response) \<and>
      bur2r_prefers_dedicated response \<le> 1 \<and>
      bur2r_requires_dedicated response \<le> 1 \<and>
      ((bur2r_pnext_flags response AND BVB_VULKAN_BUFFER_REQUIREMENTS_2_PNEXT_DEDICATED) \<noteq> 0 \<or>
      (bur2r_prefers_dedicated response = 0 \<and>
      bur2r_requires_dedicated response = 0))"
  encode_vulkan_buffer_requirements_2_response decode_vulkan_buffer_requirements_2_response
  by unfold_locales
    (auto simp: encode_vulkan_buffer_requirements_2_response_def decode_vulkan_buffer_requirements_2_response_def
      wire_simps split: codec_splits)

subsection \<open>Buffer device address request\<close>

record vulkan_buffer_device_address_request =
  bdar_buffer_id :: u64

definition encode_vulkan_buffer_device_address_request ::
  "bytes option \<Rightarrow> vulkan_buffer_device_address_request option \<Rightarrow> bytes result" where
  "encode_vulkan_buffer_device_address_request output request = nonnull2 output request (\<lambda>output request.
     if \<not> wire_id_is_type (bdar_buffer_id request) BVB_OBJECT_BUFFER then Inl EINVAL
     else
     let output = put_u64 output 0 (bdar_buffer_id request) in
     Inr output)"

definition decode_vulkan_buffer_device_address_request ::
  "bytes option \<Rightarrow> vulkan_buffer_device_address_request option \<Rightarrow> vulkan_buffer_device_address_request result" where
  "decode_vulkan_buffer_device_address_request input request = nonnull2 input request (\<lambda>input _.
     let decoded = \<lparr>bdar_buffer_id = get_u64 input 0\<rparr> in
     if \<not> wire_id_is_type (bdar_buffer_id decoded) BVB_OBJECT_BUFFER then Inl EPROTO
     else
     Inr decoded)"

interpretation buffer_device_address_request_codec: agreed_codec BVB_VULKAN_BUFFER_DEVICE_ADDRESS_REQUEST_SIZE
  "\<lambda>request. wire_id_is_type (bdar_buffer_id request) BVB_OBJECT_BUFFER"
  encode_vulkan_buffer_device_address_request decode_vulkan_buffer_device_address_request
  by unfold_locales
    (auto simp: encode_vulkan_buffer_device_address_request_def decode_vulkan_buffer_device_address_request_def
      wire_simps split: codec_splits)

subsection \<open>Buffer device address response\<close>

record vulkan_buffer_device_address_response =
  budar_device_address :: u64

definition encode_vulkan_buffer_device_address_response ::
  "bytes option \<Rightarrow> vulkan_buffer_device_address_response option \<Rightarrow> bytes result" where
  "encode_vulkan_buffer_device_address_response output response = nonnull2 output response (\<lambda>output response.
     if budar_device_address response = 0 then Inl EINVAL
     else
     let output = put_u64 output 0 (budar_device_address response) in
     Inr output)"

definition decode_vulkan_buffer_device_address_response ::
  "bytes option \<Rightarrow> vulkan_buffer_device_address_response option \<Rightarrow> vulkan_buffer_device_address_response result" where
  "decode_vulkan_buffer_device_address_response input response = nonnull2 input response (\<lambda>input _.
     let decoded = \<lparr>budar_device_address = get_u64 input 0\<rparr> in
     if budar_device_address decoded = 0 then Inl EPROTO
     else
     Inr decoded)"

interpretation buffer_device_address_response_codec: agreed_codec BVB_VULKAN_BUFFER_DEVICE_ADDRESS_RESPONSE_SIZE
  "\<lambda>response. budar_device_address response \<noteq> 0"
  encode_vulkan_buffer_device_address_response decode_vulkan_buffer_device_address_response
  by unfold_locales
    (auto simp: encode_vulkan_buffer_device_address_response_def decode_vulkan_buffer_device_address_response_def
      wire_simps split: codec_splits)

subsection \<open>Memory allocate request\<close>

record vulkan_memory_allocate_request =
  mar_device_id :: u64
  mar_allocation_size :: u64
  mar_memory_type_index :: u32

definition encode_vulkan_memory_allocate_request ::
  "bytes option \<Rightarrow> vulkan_memory_allocate_request option \<Rightarrow> bytes result" where
  "encode_vulkan_memory_allocate_request output request = nonnull2 output request (\<lambda>output request.
     if mar_allocation_size request = 0 \<or>
        mar_allocation_size request > BVB_VULKAN_MAX_MEMORY_ALLOCATION_SIZE \<or>
        mar_memory_type_index request \<ge> VK_MAX_MEMORY_TYPES \<or>
        \<not> wire_id_is_type (mar_device_id request) 3 then Inl EINVAL
     else
     let output = memset0 output 0 BVB_VULKAN_MEMORY_ALLOCATE_REQUEST_SIZE in
     let output = put_u64 output 0 (mar_device_id request) in
     let output = put_u64 output 8 (mar_allocation_size request) in
     let output = put_u32 output 16 (mar_memory_type_index request) in
     Inr output)"

definition decode_vulkan_memory_allocate_request ::
  "bytes option \<Rightarrow> vulkan_memory_allocate_request option \<Rightarrow> vulkan_memory_allocate_request result" where
  "decode_vulkan_memory_allocate_request input request = nonnull2 input request (\<lambda>input _.
     let request = \<lparr>mar_device_id = get_u64 input 0,
                  mar_allocation_size = get_u64 input 8,
                  mar_memory_type_index = get_u32 input 16\<rparr> in
     if wire_id_is_type (mar_device_id request) 3 \<and>
        mar_allocation_size request \<noteq> 0 \<and>
        mar_allocation_size request \<le> BVB_VULKAN_MAX_MEMORY_ALLOCATION_SIZE \<and>
        mar_memory_type_index request < VK_MAX_MEMORY_TYPES \<and>
        get_u32 input 20 = 0 then Inr request
     else Inl EPROTO)"

interpretation memory_allocate_request_codec: agreed_codec BVB_VULKAN_MEMORY_ALLOCATE_REQUEST_SIZE
  "\<lambda>request. mar_allocation_size request \<noteq> 0 \<and>
      mar_allocation_size request \<le> BVB_VULKAN_MAX_MEMORY_ALLOCATION_SIZE \<and>
      mar_memory_type_index request < VK_MAX_MEMORY_TYPES \<and>
      wire_id_is_type (mar_device_id request) 3"
  encode_vulkan_memory_allocate_request decode_vulkan_memory_allocate_request
  by unfold_locales
    (auto simp: encode_vulkan_memory_allocate_request_def decode_vulkan_memory_allocate_request_def
      wire_simps split: codec_splits)

subsection \<open>Memory allocate extended request\<close>

record vulkan_memory_allocate_extended_request =
  maer_device_id :: u64
  maer_allocation_size :: u64
  maer_dedicated_image_id :: u64
  maer_memory_type_index :: u32
  maer_pnext_flags :: u32
  maer_allocation_flags :: u32
  maer_device_mask :: u32

lemma maer_collapse [wire_simps]:
  "\<lparr>maer_device_id = maer_device_id x,
    maer_allocation_size = maer_allocation_size x,
    maer_dedicated_image_id = maer_dedicated_image_id x,
    maer_memory_type_index = maer_memory_type_index x,
    maer_pnext_flags = maer_pnext_flags x,
    maer_allocation_flags = maer_allocation_flags x,
    maer_device_mask = maer_device_mask x\<rparr> = x"
  by simp

definition memory_allocate_extended_request_valid :: "vulkan_memory_allocate_extended_request \<Rightarrow> bool" where
  "memory_allocate_extended_request_valid request \<longleftrightarrow>
     wire_id_is_type (maer_device_id request) BVB_OBJECT_DEVICE \<and>
     maer_allocation_size request \<noteq> 0 \<and>
     maer_allocation_size request \<le> BVB_VULKAN_MAX_MEMORY_ALLOCATION_SIZE \<and>
     maer_memory_type_index request < VK_MAX_MEMORY_TYPES \<and>
     (maer_pnext_flags request AND NOT BVB_VULKAN_MEMORY_ALLOCATE_PNEXT_MASK) = 0 \<and>
     ((maer_pnext_flags request AND BVB_VULKAN_MEMORY_ALLOCATE_PNEXT_DEDICATED_IMAGE) \<noteq> 0 \<or>
     maer_dedicated_image_id request = 0) \<and>
     ((maer_pnext_flags request AND BVB_VULKAN_MEMORY_ALLOCATE_PNEXT_DEDICATED_IMAGE) = 0 \<or>
     wire_id_is_type (maer_dedicated_image_id request) BVB_OBJECT_IMAGE) \<and>
     ((maer_pnext_flags request AND BVB_VULKAN_MEMORY_ALLOCATE_PNEXT_FLAGS) \<noteq> 0 \<or>
     (maer_allocation_flags request = 0 \<and>
     maer_device_mask request = 0)) \<and>
     ((maer_pnext_flags request AND BVB_VULKAN_MEMORY_ALLOCATE_PNEXT_FLAGS) = 0 \<or>
     (maer_allocation_flags request = VK_MEMORY_ALLOCATE_DEVICE_ADDRESS_BIT \<and>
     maer_device_mask request = 0))"

definition encode_vulkan_memory_allocate_extended_request ::
  "bytes option \<Rightarrow> vulkan_memory_allocate_extended_request option \<Rightarrow> bytes result" where
  "encode_vulkan_memory_allocate_extended_request output request = nonnull2 output request (\<lambda>output request.
     if \<not> memory_allocate_extended_request_valid request then Inl EINVAL
     else
     let output = put_u64 output 0 (maer_device_id request) in
     let output = put_u64 output 8 (maer_allocation_size request) in
     let output = put_u64 output 16 (maer_dedicated_image_id request) in
     let output = put_u32 output 24 (maer_memory_type_index request) in
     let output = put_u32 output 28 (maer_pnext_flags request) in
     let output = put_u32 output 32 (maer_allocation_flags request) in
     let output = put_u32 output 36 (maer_device_mask request) in
     Inr output)"

definition decode_vulkan_memory_allocate_extended_request ::
  "bytes option \<Rightarrow> vulkan_memory_allocate_extended_request option \<Rightarrow> vulkan_memory_allocate_extended_request result" where
  "decode_vulkan_memory_allocate_extended_request input request = nonnull2 input request (\<lambda>input _.
     let decoded = \<lparr>maer_device_id = get_u64 input 0,
                  maer_allocation_size = get_u64 input 8,
                  maer_dedicated_image_id = get_u64 input 16,
                  maer_memory_type_index = get_u32 input 24,
                  maer_pnext_flags = get_u32 input 28,
                  maer_allocation_flags = get_u32 input 32,
                  maer_device_mask = get_u32 input 36\<rparr> in
     if \<not> memory_allocate_extended_request_valid decoded then Inl EPROTO
     else
     Inr decoded)"

interpretation memory_allocate_extended_request_codec: agreed_codec BVB_VULKAN_MEMORY_ALLOCATE_EXTENDED_REQUEST_SIZE
  "\<lambda>request. memory_allocate_extended_request_valid request"
  encode_vulkan_memory_allocate_extended_request decode_vulkan_memory_allocate_extended_request
  by unfold_locales
    (auto simp: encode_vulkan_memory_allocate_extended_request_def decode_vulkan_memory_allocate_extended_request_def
      wire_simps split: codec_splits)

subsection \<open>Buffer bind request\<close>

record vulkan_buffer_bind_request =
  bbr_buffer_id :: u64
  bbr_memory_id :: u64
  bbr_offset :: u64

definition encode_vulkan_buffer_bind_request ::
  "bytes option \<Rightarrow> vulkan_buffer_bind_request option \<Rightarrow> bytes result" where
  "encode_vulkan_buffer_bind_request output request = nonnull2 output request (\<lambda>output request.
     if \<not> wire_id_is_type (bbr_buffer_id request) 19 \<or>
        \<not> wire_id_is_type (bbr_memory_id request) 9 then Inl EINVAL
     else
     let output = put_u64 output 0 (bbr_buffer_id request) in
     let output = put_u64 output 8 (bbr_memory_id request) in
     let output = put_u64 output 16 (bbr_offset request) in
     Inr output)"

definition decode_vulkan_buffer_bind_request ::
  "bytes option \<Rightarrow> vulkan_buffer_bind_request option \<Rightarrow> vulkan_buffer_bind_request result" where
  "decode_vulkan_buffer_bind_request input request = nonnull2 input request (\<lambda>input _.
     let request = \<lparr>bbr_buffer_id = get_u64 input 0,
                  bbr_memory_id = get_u64 input 8,
                  bbr_offset = get_u64 input 16\<rparr> in
     if wire_id_is_type (bbr_buffer_id request) 19 \<and>
        wire_id_is_type (bbr_memory_id request) 9 then Inr request
     else Inl EPROTO)"

interpretation buffer_bind_request_codec: agreed_codec BVB_VULKAN_BUFFER_BIND_REQUEST_SIZE
  "\<lambda>request. wire_id_is_type (bbr_buffer_id request) 19 \<and>
      wire_id_is_type (bbr_memory_id request) 9"
  encode_vulkan_buffer_bind_request decode_vulkan_buffer_bind_request
  by unfold_locales
    (auto simp: encode_vulkan_buffer_bind_request_def decode_vulkan_buffer_bind_request_def
      wire_simps split: codec_splits)

definition image_usage_valid :: "u32 \<Rightarrow> bool" where
  "image_usage_valid usage \<longleftrightarrow>
     (let supported = (((((((VK_IMAGE_USAGE_TRANSFER_SRC_BIT OR VK_IMAGE_USAGE_TRANSFER_DST_BIT) OR VK_IMAGE_USAGE_SAMPLED_BIT) OR VK_IMAGE_USAGE_STORAGE_BIT) OR VK_IMAGE_USAGE_COLOR_ATTACHMENT_BIT) OR VK_IMAGE_USAGE_DEPTH_STENCIL_ATTACHMENT_BIT) OR VK_IMAGE_USAGE_TRANSIENT_ATTACHMENT_BIT) OR VK_IMAGE_USAGE_INPUT_ATTACHMENT_BIT) in
     usage \<noteq> 0 \<and>
     (usage AND NOT supported) = 0)"




subsection \<open>Image requirements\<close>

record vulkan_image_requirements =
  ir_size :: u64
  ir_alignment :: u64
  ir_memory_type_bits :: u32

definition encode_vulkan_image_requirements ::
  "bytes option \<Rightarrow> vulkan_image_requirements option \<Rightarrow> bytes result" where
  "encode_vulkan_image_requirements output requirements = nonnull2 output requirements (\<lambda>output requirements.
     if ir_size requirements = 0 \<or>
        ir_alignment requirements = 0 \<or>
        ir_memory_type_bits requirements = 0 then Inl EINVAL
     else
     let output = memset0 output 0 BVB_VULKAN_IMAGE_REQUIREMENTS_SIZE in
     let output = put_u64 output 0 (ir_size requirements) in
     let output = put_u64 output 8 (ir_alignment requirements) in
     let output = put_u32 output 16 (ir_memory_type_bits requirements) in
     Inr output)"

definition decode_vulkan_image_requirements ::
  "bytes option \<Rightarrow> vulkan_image_requirements option \<Rightarrow> vulkan_image_requirements result" where
  "decode_vulkan_image_requirements input requirements = nonnull2 input requirements (\<lambda>input _.
     let decoded = \<lparr>ir_size = get_u64 input 0,
                  ir_alignment = get_u64 input 8,
                  ir_memory_type_bits = get_u32 input 16\<rparr> in
     if ir_size decoded = 0 \<or>
        ir_alignment decoded = 0 \<or>
        ir_memory_type_bits decoded = 0 \<or>
        get_u32 input 20 \<noteq> 0 then Inl EPROTO
     else
     Inr decoded)"

interpretation image_requirements_codec: agreed_codec BVB_VULKAN_IMAGE_REQUIREMENTS_SIZE
  "\<lambda>requirements. ir_size requirements \<noteq> 0 \<and>
      ir_alignment requirements \<noteq> 0 \<and>
      ir_memory_type_bits requirements \<noteq> 0"
  encode_vulkan_image_requirements decode_vulkan_image_requirements
  by unfold_locales
    (auto simp: encode_vulkan_image_requirements_def decode_vulkan_image_requirements_def
      wire_simps split: codec_splits)

definition image_requirements_2_pnext_valid :: "u32 \<Rightarrow> bool" where
  "image_requirements_2_pnext_valid pnext_flags \<longleftrightarrow>
     (pnext_flags AND NOT BVB_VULKAN_IMAGE_REQUIREMENTS_2_PNEXT_MASK) = 0"

subsection \<open>Image requirements 2 request\<close>

record vulkan_image_requirements_2_request =
  ir2r_image_id :: u64
  ir2r_pnext_flags :: u32

definition encode_vulkan_image_requirements_2_request ::
  "bytes option \<Rightarrow> vulkan_image_requirements_2_request option \<Rightarrow> bytes result" where
  "encode_vulkan_image_requirements_2_request output request = nonnull2 output request (\<lambda>output request.
     if \<not> wire_id_is_type (ir2r_image_id request) BVB_OBJECT_IMAGE \<or>
        \<not> image_requirements_2_pnext_valid (ir2r_pnext_flags request) then Inl EINVAL
     else
     let output = memset0 output 0 BVB_VULKAN_IMAGE_REQUIREMENTS_2_REQUEST_SIZE in
     let output = put_u64 output 0 (ir2r_image_id request) in
     let output = put_u32 output 8 (ir2r_pnext_flags request) in
     Inr output)"

definition decode_vulkan_image_requirements_2_request ::
  "bytes option \<Rightarrow> vulkan_image_requirements_2_request option \<Rightarrow> vulkan_image_requirements_2_request result" where
  "decode_vulkan_image_requirements_2_request input request = nonnull2 input request (\<lambda>input _.
     let decoded = \<lparr>ir2r_image_id = get_u64 input 0,
                  ir2r_pnext_flags = get_u32 input 8\<rparr> in
     if \<not> wire_id_is_type (ir2r_image_id decoded) BVB_OBJECT_IMAGE \<or>
        \<not> image_requirements_2_pnext_valid (ir2r_pnext_flags decoded) \<or>
        get_u32 input 12 \<noteq> 0 then Inl EPROTO
     else
     Inr decoded)"

interpretation image_requirements_2_request_codec: agreed_codec BVB_VULKAN_IMAGE_REQUIREMENTS_2_REQUEST_SIZE
  "\<lambda>request. wire_id_is_type (ir2r_image_id request) BVB_OBJECT_IMAGE \<and>
      image_requirements_2_pnext_valid (ir2r_pnext_flags request)"
  encode_vulkan_image_requirements_2_request decode_vulkan_image_requirements_2_request
  by unfold_locales
    (auto simp: encode_vulkan_image_requirements_2_request_def decode_vulkan_image_requirements_2_request_def
      wire_simps split: codec_splits)

subsection \<open>Image requirements 2 response\<close>

record vulkan_image_requirements_2_response =
  imr2r_size :: u64
  imr2r_alignment :: u64
  imr2r_memory_type_bits :: u32
  imr2r_pnext_flags :: u32
  imr2r_prefers_dedicated :: u32
  imr2r_requires_dedicated :: u32

definition encode_vulkan_image_requirements_2_response ::
  "bytes option \<Rightarrow> vulkan_image_requirements_2_response option \<Rightarrow> bytes result" where
  "encode_vulkan_image_requirements_2_response output response = nonnull2 output response (\<lambda>output response.
     if imr2r_size response = 0 \<or>
        imr2r_alignment response = 0 \<or>
        imr2r_memory_type_bits response = 0 \<or>
        \<not> image_requirements_2_pnext_valid (imr2r_pnext_flags response) \<or>
        imr2r_prefers_dedicated response > 1 \<or>
        imr2r_requires_dedicated response > 1 \<or>
        ((imr2r_pnext_flags response AND BVB_VULKAN_IMAGE_REQUIREMENTS_2_PNEXT_DEDICATED) = 0 \<and>
        (imr2r_prefers_dedicated response \<noteq> 0 \<or>
        imr2r_requires_dedicated response \<noteq> 0)) then Inl EINVAL
     else
     let output = put_u64 output 0 (imr2r_size response) in
     let output = put_u64 output 8 (imr2r_alignment response) in
     let output = put_u32 output 16 (imr2r_memory_type_bits response) in
     let output = put_u32 output 20 (imr2r_pnext_flags response) in
     let output = put_u32 output 24 (imr2r_prefers_dedicated response) in
     let output = put_u32 output 28 (imr2r_requires_dedicated response) in
     Inr output)"

definition decode_vulkan_image_requirements_2_response ::
  "bytes option \<Rightarrow> vulkan_image_requirements_2_response option \<Rightarrow> vulkan_image_requirements_2_response result" where
  "decode_vulkan_image_requirements_2_response input response = nonnull2 input response (\<lambda>input _.
     let decoded = \<lparr>imr2r_size = get_u64 input 0,
                  imr2r_alignment = get_u64 input 8,
                  imr2r_memory_type_bits = get_u32 input 16,
                  imr2r_pnext_flags = get_u32 input 20,
                  imr2r_prefers_dedicated = get_u32 input 24,
                  imr2r_requires_dedicated = get_u32 input 28\<rparr> in
     case encode_vulkan_image_requirements_2_response (Some (replicate BVB_VULKAN_IMAGE_REQUIREMENTS_2_RESPONSE_SIZE 0)) (Some decoded) of Inl _ \<Rightarrow> Inl EPROTO
     | Inr canonical \<Rightarrow>
     Inr decoded)"

interpretation image_requirements_2_response_codec: agreed_codec BVB_VULKAN_IMAGE_REQUIREMENTS_2_RESPONSE_SIZE
  "\<lambda>response. imr2r_size response \<noteq> 0 \<and>
      imr2r_alignment response \<noteq> 0 \<and>
      imr2r_memory_type_bits response \<noteq> 0 \<and>
      image_requirements_2_pnext_valid (imr2r_pnext_flags response) \<and>
      imr2r_prefers_dedicated response \<le> 1 \<and>
      imr2r_requires_dedicated response \<le> 1 \<and>
      ((imr2r_pnext_flags response AND BVB_VULKAN_IMAGE_REQUIREMENTS_2_PNEXT_DEDICATED) \<noteq> 0 \<or>
      (imr2r_prefers_dedicated response = 0 \<and>
      imr2r_requires_dedicated response = 0))"
  encode_vulkan_image_requirements_2_response decode_vulkan_image_requirements_2_response
  by unfold_locales
    (auto simp: encode_vulkan_image_requirements_2_response_def decode_vulkan_image_requirements_2_response_def
      wire_simps split: codec_splits)

subsection \<open>Image bind request\<close>

record vulkan_image_bind_request =
  ibr_image_id :: u64
  ibr_memory_id :: u64
  ibr_offset :: u64

definition encode_vulkan_image_bind_request ::
  "bytes option \<Rightarrow> vulkan_image_bind_request option \<Rightarrow> bytes result" where
  "encode_vulkan_image_bind_request output request = nonnull2 output request (\<lambda>output request.
     if \<not> wire_id_is_type (ibr_image_id request) BVB_OBJECT_IMAGE \<or>
        \<not> wire_id_is_type (ibr_memory_id request) BVB_OBJECT_DEVICE_MEMORY then Inl EINVAL
     else
     let output = put_u64 output 0 (ibr_image_id request) in
     let output = put_u64 output 8 (ibr_memory_id request) in
     let output = put_u64 output 16 (ibr_offset request) in
     Inr output)"

definition decode_vulkan_image_bind_request ::
  "bytes option \<Rightarrow> vulkan_image_bind_request option \<Rightarrow> vulkan_image_bind_request result" where
  "decode_vulkan_image_bind_request input request = nonnull2 input request (\<lambda>input _.
     let decoded = \<lparr>ibr_image_id = get_u64 input 0,
                  ibr_memory_id = get_u64 input 8,
                  ibr_offset = get_u64 input 16\<rparr> in
     if \<not> wire_id_is_type (ibr_image_id decoded) BVB_OBJECT_IMAGE \<or>
        \<not> wire_id_is_type (ibr_memory_id decoded) BVB_OBJECT_DEVICE_MEMORY then Inl EPROTO
     else
     Inr decoded)"

interpretation image_bind_request_codec: agreed_codec BVB_VULKAN_IMAGE_BIND_REQUEST_SIZE
  "\<lambda>request. wire_id_is_type (ibr_image_id request) BVB_OBJECT_IMAGE \<and>
      wire_id_is_type (ibr_memory_id request) BVB_OBJECT_DEVICE_MEMORY"
  encode_vulkan_image_bind_request decode_vulkan_image_bind_request
  by unfold_locales
    (auto simp: encode_vulkan_image_bind_request_def decode_vulkan_image_bind_request_def
      wire_simps split: codec_splits)

subsection \<open>Image view create request\<close>

record vulkan_image_view_create_request =
  ivcr_device_id :: u64
  ivcr_image_id :: u64
  ivcr_flags :: u32
  ivcr_view_type :: u32
  ivcr_format :: u32
  ivcr_component_r :: u32
  ivcr_component_g :: u32
  ivcr_component_b :: u32
  ivcr_component_a :: u32
  ivcr_aspect_mask :: u32
  ivcr_base_mip_level :: u32
  ivcr_level_count :: u32
  ivcr_base_array_layer :: u32
  ivcr_layer_count :: u32
  ivcr_pnext_flags :: u32
  ivcr_usage :: u32

lemma ivcr_collapse [wire_simps]:
  "\<lparr>ivcr_device_id = ivcr_device_id x,
    ivcr_image_id = ivcr_image_id x,
    ivcr_flags = ivcr_flags x,
    ivcr_view_type = ivcr_view_type x,
    ivcr_format = ivcr_format x,
    ivcr_component_r = ivcr_component_r x,
    ivcr_component_g = ivcr_component_g x,
    ivcr_component_b = ivcr_component_b x,
    ivcr_component_a = ivcr_component_a x,
    ivcr_aspect_mask = ivcr_aspect_mask x,
    ivcr_base_mip_level = ivcr_base_mip_level x,
    ivcr_level_count = ivcr_level_count x,
    ivcr_base_array_layer = ivcr_base_array_layer x,
    ivcr_layer_count = ivcr_layer_count x,
    ivcr_pnext_flags = ivcr_pnext_flags x,
    ivcr_usage = ivcr_usage x\<rparr> = x"
  by simp

definition image_view_create_request_valid :: "vulkan_image_view_create_request \<Rightarrow> bool" where
  "image_view_create_request_valid request \<longleftrightarrow>
     (let aspect_mask = ((((((VK_IMAGE_ASPECT_COLOR_BIT OR VK_IMAGE_ASPECT_DEPTH_BIT) OR VK_IMAGE_ASPECT_STENCIL_BIT) OR VK_IMAGE_ASPECT_METADATA_BIT) OR VK_IMAGE_ASPECT_PLANE_0_BIT) OR VK_IMAGE_ASPECT_PLANE_1_BIT) OR VK_IMAGE_ASPECT_PLANE_2_BIT) in
     wire_id_is_type (ivcr_device_id request) BVB_OBJECT_DEVICE \<and>
     wire_id_is_type (ivcr_image_id request) BVB_OBJECT_IMAGE \<and>
     ivcr_flags request = 0 \<and>
     ivcr_view_type request \<le> VK_IMAGE_VIEW_TYPE_CUBE_ARRAY \<and>
     ivcr_format request \<noteq> VK_FORMAT_UNDEFINED \<and>
     ivcr_component_r request \<le> VK_COMPONENT_SWIZZLE_A \<and>
     ivcr_component_g request \<le> VK_COMPONENT_SWIZZLE_A \<and>
     ivcr_component_b request \<le> VK_COMPONENT_SWIZZLE_A \<and>
     ivcr_component_a request \<le> VK_COMPONENT_SWIZZLE_A \<and>
     ivcr_aspect_mask request \<noteq> 0 \<and>
     (ivcr_aspect_mask request AND NOT aspect_mask) = 0 \<and>
     ivcr_level_count request \<noteq> 0 \<and>
     ivcr_layer_count request \<noteq> 0 \<and>
     (ivcr_pnext_flags request AND NOT BVB_VULKAN_IMAGE_VIEW_CREATE_PNEXT_MASK) = 0 \<and>
     ((ivcr_pnext_flags request AND BVB_VULKAN_IMAGE_VIEW_CREATE_PNEXT_USAGE) \<noteq> 0 \<or>
     ivcr_usage request = 0) \<and>
     ((ivcr_pnext_flags request AND BVB_VULKAN_IMAGE_VIEW_CREATE_PNEXT_USAGE) = 0 \<or>
     image_usage_valid (ivcr_usage request)))"

definition encode_vulkan_image_view_create_request ::
  "bytes option \<Rightarrow> vulkan_image_view_create_request option \<Rightarrow> bytes result" where
  "encode_vulkan_image_view_create_request output request = nonnull2 output request (\<lambda>output request.
     if \<not> image_view_create_request_valid request then Inl EINVAL
     else
     let output = memset0 output 0 BVB_VULKAN_IMAGE_VIEW_CREATE_REQUEST_SIZE in
     let output = put_u64 output 0 (ivcr_device_id request) in
     let output = put_u64 output 8 (ivcr_image_id request) in
     let output = put_u32 output 16 (ivcr_flags request) in
     let output = put_u32 output 20 (ivcr_view_type request) in
     let output = put_u32 output 24 (ivcr_format request) in
     let output = put_u32 output 28 (ivcr_component_r request) in
     let output = put_u32 output 32 (ivcr_component_g request) in
     let output = put_u32 output 36 (ivcr_component_b request) in
     let output = put_u32 output 40 (ivcr_component_a request) in
     let output = put_u32 output 44 (ivcr_aspect_mask request) in
     let output = put_u32 output 48 (ivcr_base_mip_level request) in
     let output = put_u32 output 52 (ivcr_level_count request) in
     let output = put_u32 output 56 (ivcr_base_array_layer request) in
     let output = put_u32 output 60 (ivcr_layer_count request) in
     let output = put_u32 output 64 (ivcr_pnext_flags request) in
     let output = put_u32 output 68 (ivcr_usage request) in
     Inr output)"

definition decode_vulkan_image_view_create_request ::
  "bytes option \<Rightarrow> vulkan_image_view_create_request option \<Rightarrow> vulkan_image_view_create_request result" where
  "decode_vulkan_image_view_create_request input request = nonnull2 input request (\<lambda>input _.
     let decoded = \<lparr>ivcr_device_id = get_u64 input 0,
                  ivcr_image_id = get_u64 input 8,
                  ivcr_flags = get_u32 input 16,
                  ivcr_view_type = get_u32 input 20,
                  ivcr_format = get_u32 input 24,
                  ivcr_component_r = get_u32 input 28,
                  ivcr_component_g = get_u32 input 32,
                  ivcr_component_b = get_u32 input 36,
                  ivcr_component_a = get_u32 input 40,
                  ivcr_aspect_mask = get_u32 input 44,
                  ivcr_base_mip_level = get_u32 input 48,
                  ivcr_level_count = get_u32 input 52,
                  ivcr_base_array_layer = get_u32 input 56,
                  ivcr_layer_count = get_u32 input 60,
                  ivcr_pnext_flags = get_u32 input 64,
                  ivcr_usage = get_u32 input 68\<rparr> in
     if \<not> image_view_create_request_valid decoded then Inl EPROTO
     else
     Inr decoded)"

interpretation image_view_create_request_codec: agreed_codec BVB_VULKAN_IMAGE_VIEW_CREATE_REQUEST_SIZE
  "\<lambda>request. image_view_create_request_valid request"
  encode_vulkan_image_view_create_request decode_vulkan_image_view_create_request
  by unfold_locales
    (auto simp: encode_vulkan_image_view_create_request_def decode_vulkan_image_view_create_request_def
      wire_simps split: codec_splits)

subsection \<open>Properties\<close>

text \<open>
  The messages about buffers, images, image views and device memory (requirements, allocation with
  and without a dedicated resource, binding, device addresses) keep the codec contract.
\<close>

lemma resource_messages:
  "codec_contract BVB_VULKAN_BUFFER_REQUIREMENTS_SIZE (\<lambda>_. True)
     (\<lambda>requirements. br_size requirements \<noteq> 0 \<and>
      br_alignment requirements \<noteq> 0 \<and>
      br_memory_type_bits requirements \<noteq> 0)
     encode_vulkan_buffer_requirements decode_vulkan_buffer_requirements \<and>
   codec_contract BVB_VULKAN_BUFFER_REQUIREMENTS_2_REQUEST_SIZE (\<lambda>_. True)
     (\<lambda>request. wire_id_is_type (br2r_buffer_id request) BVB_OBJECT_BUFFER \<and>
      buffer_requirements_2_pnext_valid (br2r_pnext_flags request))
     encode_vulkan_buffer_requirements_2_request decode_vulkan_buffer_requirements_2_request \<and>
   codec_contract BVB_VULKAN_BUFFER_REQUIREMENTS_2_RESPONSE_SIZE (\<lambda>_. True)
     (\<lambda>response. bur2r_size response \<noteq> 0 \<and>
      bur2r_alignment response \<noteq> 0 \<and>
      bur2r_memory_type_bits response \<noteq> 0 \<and>
      buffer_requirements_2_pnext_valid (bur2r_pnext_flags response) \<and>
      bur2r_prefers_dedicated response \<le> 1 \<and>
      bur2r_requires_dedicated response \<le> 1 \<and>
      ((bur2r_pnext_flags response AND BVB_VULKAN_BUFFER_REQUIREMENTS_2_PNEXT_DEDICATED) \<noteq> 0 \<or>
      (bur2r_prefers_dedicated response = 0 \<and>
      bur2r_requires_dedicated response = 0)))
     encode_vulkan_buffer_requirements_2_response decode_vulkan_buffer_requirements_2_response \<and>
   codec_contract BVB_VULKAN_BUFFER_DEVICE_ADDRESS_REQUEST_SIZE (\<lambda>_. True)
     (\<lambda>request. wire_id_is_type (bdar_buffer_id request) BVB_OBJECT_BUFFER)
     encode_vulkan_buffer_device_address_request decode_vulkan_buffer_device_address_request \<and>
   codec_contract BVB_VULKAN_BUFFER_DEVICE_ADDRESS_RESPONSE_SIZE (\<lambda>_. True)
     (\<lambda>response. budar_device_address response \<noteq> 0)
     encode_vulkan_buffer_device_address_response decode_vulkan_buffer_device_address_response \<and>
   codec_contract BVB_VULKAN_MEMORY_ALLOCATE_REQUEST_SIZE (\<lambda>_. True)
     (\<lambda>request. mar_allocation_size request \<noteq> 0 \<and>
      mar_allocation_size request \<le> BVB_VULKAN_MAX_MEMORY_ALLOCATION_SIZE \<and>
      mar_memory_type_index request < VK_MAX_MEMORY_TYPES \<and>
      wire_id_is_type (mar_device_id request) 3)
     encode_vulkan_memory_allocate_request decode_vulkan_memory_allocate_request \<and>
   codec_contract BVB_VULKAN_MEMORY_ALLOCATE_EXTENDED_REQUEST_SIZE (\<lambda>_. True)
     (\<lambda>request. memory_allocate_extended_request_valid request)
     encode_vulkan_memory_allocate_extended_request decode_vulkan_memory_allocate_extended_request \<and>
   codec_contract BVB_VULKAN_BUFFER_BIND_REQUEST_SIZE (\<lambda>_. True)
     (\<lambda>request. wire_id_is_type (bbr_buffer_id request) 19 \<and>
      wire_id_is_type (bbr_memory_id request) 9)
     encode_vulkan_buffer_bind_request decode_vulkan_buffer_bind_request \<and>
   codec_contract BVB_VULKAN_IMAGE_REQUIREMENTS_SIZE (\<lambda>_. True)
     (\<lambda>requirements. ir_size requirements \<noteq> 0 \<and>
      ir_alignment requirements \<noteq> 0 \<and>
      ir_memory_type_bits requirements \<noteq> 0)
     encode_vulkan_image_requirements decode_vulkan_image_requirements \<and>
   codec_contract BVB_VULKAN_IMAGE_REQUIREMENTS_2_REQUEST_SIZE (\<lambda>_. True)
     (\<lambda>request. wire_id_is_type (ir2r_image_id request) BVB_OBJECT_IMAGE \<and>
      image_requirements_2_pnext_valid (ir2r_pnext_flags request))
     encode_vulkan_image_requirements_2_request decode_vulkan_image_requirements_2_request \<and>
   codec_contract BVB_VULKAN_IMAGE_REQUIREMENTS_2_RESPONSE_SIZE (\<lambda>_. True)
     (\<lambda>response. imr2r_size response \<noteq> 0 \<and>
      imr2r_alignment response \<noteq> 0 \<and>
      imr2r_memory_type_bits response \<noteq> 0 \<and>
      image_requirements_2_pnext_valid (imr2r_pnext_flags response) \<and>
      imr2r_prefers_dedicated response \<le> 1 \<and>
      imr2r_requires_dedicated response \<le> 1 \<and>
      ((imr2r_pnext_flags response AND BVB_VULKAN_IMAGE_REQUIREMENTS_2_PNEXT_DEDICATED) \<noteq> 0 \<or>
      (imr2r_prefers_dedicated response = 0 \<and>
      imr2r_requires_dedicated response = 0)))
     encode_vulkan_image_requirements_2_response decode_vulkan_image_requirements_2_response \<and>
   codec_contract BVB_VULKAN_IMAGE_BIND_REQUEST_SIZE (\<lambda>_. True)
     (\<lambda>request. wire_id_is_type (ibr_image_id request) BVB_OBJECT_IMAGE \<and>
      wire_id_is_type (ibr_memory_id request) BVB_OBJECT_DEVICE_MEMORY)
     encode_vulkan_image_bind_request decode_vulkan_image_bind_request \<and>
   codec_contract BVB_VULKAN_IMAGE_VIEW_CREATE_REQUEST_SIZE (\<lambda>_. True)
     (\<lambda>request. image_view_create_request_valid request)
     encode_vulkan_image_view_create_request decode_vulkan_image_view_create_request"
  by (intro conjI buffer_requirements_codec.contract buffer_requirements_2_request_codec.contract
      buffer_requirements_2_response_codec.contract buffer_device_address_request_codec.contract
      buffer_device_address_response_codec.contract memory_allocate_request_codec.contract
      memory_allocate_extended_request_codec.contract buffer_bind_request_codec.contract
      image_requirements_codec.contract image_requirements_2_request_codec.contract
      image_requirements_2_response_codec.contract image_bind_request_codec.contract
      image_view_create_request_codec.contract)

end
