(* ===== verification/Proto_Submit.thy ===== *)
theory Proto_Submit
  imports Proto_Base
begin

unbundle bit_operations_syntax

section \<open>Recorded commands, fences, semaphores and submission\<close>

text \<open>The messages of src/src/protocol.c lines 2727-3326.\<close>

subsection \<open>Command buffer fill request\<close>

record vulkan_command_buffer_fill_request =
  cobfr_command_buffer_id :: u64
  cobfr_buffer_id :: u64
  cobfr_offset :: u64
  cobfr_size :: u64
  cobfr_data :: u32

definition encode_vulkan_command_buffer_fill_request ::
  "bytes option \<Rightarrow> vulkan_command_buffer_fill_request option \<Rightarrow> bytes result" where
  "encode_vulkan_command_buffer_fill_request output request = nonnull2 output request (\<lambda>output request.
     if cobfr_size request = 0 \<or>
        \<not> wire_id_is_type (cobfr_command_buffer_id request) 11 \<or>
        \<not> wire_id_is_type (cobfr_buffer_id request) 19 then Inl EINVAL
     else
     let output = memset0 output 0 BVB_VULKAN_COMMAND_BUFFER_FILL_REQUEST_SIZE in
     let output = put_u64 output 0 (cobfr_command_buffer_id request) in
     let output = put_u64 output 8 (cobfr_buffer_id request) in
     let output = put_u64 output 16 (cobfr_offset request) in
     let output = put_u64 output 24 (cobfr_size request) in
     let output = put_u32 output 32 (cobfr_data request) in
     Inr output)"

definition decode_vulkan_command_buffer_fill_request ::
  "bytes option \<Rightarrow> vulkan_command_buffer_fill_request option \<Rightarrow> vulkan_command_buffer_fill_request result" where
  "decode_vulkan_command_buffer_fill_request input request = nonnull2 input request (\<lambda>input _.
     let request = \<lparr>cobfr_command_buffer_id = get_u64 input 0,
                  cobfr_buffer_id = get_u64 input 8,
                  cobfr_offset = get_u64 input 16,
                  cobfr_size = get_u64 input 24,
                  cobfr_data = get_u32 input 32\<rparr> in
     if wire_id_is_type (cobfr_command_buffer_id request) 11 \<and>
        wire_id_is_type (cobfr_buffer_id request) 19 \<and>
        cobfr_size request \<noteq> 0 \<and>
        get_u32 input 36 = 0 then Inr request
     else Inl EPROTO)"

interpretation command_buffer_fill_request_codec: agreed_codec BVB_VULKAN_COMMAND_BUFFER_FILL_REQUEST_SIZE
  "\<lambda>request. cobfr_size request \<noteq> 0 \<and>
      wire_id_is_type (cobfr_command_buffer_id request) 11 \<and>
      wire_id_is_type (cobfr_buffer_id request) 19"
  encode_vulkan_command_buffer_fill_request decode_vulkan_command_buffer_fill_request
  by unfold_locales
    (auto simp: encode_vulkan_command_buffer_fill_request_def decode_vulkan_command_buffer_fill_request_def
      wire_simps split: codec_splits)




subsection \<open>Command buffer clear color image request\<close>

record vulkan_command_buffer_clear_color_image_request =
  cbccir_command_buffer_id :: u64
  cbccir_image_id :: u64

definition encode_vulkan_command_buffer_clear_color_image_request ::
  "bytes option \<Rightarrow> vulkan_command_buffer_clear_color_image_request option \<Rightarrow> bytes result" where
  "encode_vulkan_command_buffer_clear_color_image_request output request = nonnull2 output request (\<lambda>output request.
     if \<not> wire_id_is_type (cbccir_command_buffer_id request) 11 \<or>
        \<not> wire_id_is_type (cbccir_image_id request) BVB_OBJECT_IMAGE then Inl EINVAL
     else
     let output = put_u64 output 0 (cbccir_command_buffer_id request) in
     let output = put_u64 output 8 (cbccir_image_id request) in
     Inr output)"

definition decode_vulkan_command_buffer_clear_color_image_request ::
  "bytes option \<Rightarrow> vulkan_command_buffer_clear_color_image_request option \<Rightarrow> vulkan_command_buffer_clear_color_image_request result" where
  "decode_vulkan_command_buffer_clear_color_image_request input request = nonnull2 input request (\<lambda>input _.
     let request = \<lparr>cbccir_command_buffer_id = get_u64 input 0,
                  cbccir_image_id = get_u64 input 8\<rparr> in
     if wire_id_is_type (cbccir_command_buffer_id request) 11 \<and>
        wire_id_is_type (cbccir_image_id request) BVB_OBJECT_IMAGE then Inr request
     else Inl EPROTO)"

interpretation command_buffer_clear_color_image_request_codec: agreed_codec BVB_VULKAN_COMMAND_BUFFER_CLEAR_COLOR_IMAGE_REQUEST_SIZE
  "\<lambda>request. wire_id_is_type (cbccir_command_buffer_id request) 11 \<and>
      wire_id_is_type (cbccir_image_id request) BVB_OBJECT_IMAGE"
  encode_vulkan_command_buffer_clear_color_image_request decode_vulkan_command_buffer_clear_color_image_request
  by unfold_locales
    (auto simp: encode_vulkan_command_buffer_clear_color_image_request_def decode_vulkan_command_buffer_clear_color_image_request_def
      wire_simps split: codec_splits)

subsection \<open>Memory verify fill request\<close>

record vulkan_memory_verify_fill_request =
  mvfr_memory_id :: u64
  mvfr_offset :: u64
  mvfr_size :: u64
  mvfr_expected_word :: u32

definition encode_vulkan_memory_verify_fill_request ::
  "bytes option \<Rightarrow> vulkan_memory_verify_fill_request option \<Rightarrow> bytes result" where
  "encode_vulkan_memory_verify_fill_request output request = nonnull2 output request (\<lambda>output request.
     if mvfr_size request = 0 \<or>
        \<not> wire_id_is_type (mvfr_memory_id request) 9 then Inl EINVAL
     else
     let output = memset0 output 0 BVB_VULKAN_MEMORY_VERIFY_FILL_REQUEST_SIZE in
     let output = put_u64 output 0 (mvfr_memory_id request) in
     let output = put_u64 output 8 (mvfr_offset request) in
     let output = put_u64 output 16 (mvfr_size request) in
     let output = put_u32 output 24 (mvfr_expected_word request) in
     Inr output)"

definition decode_vulkan_memory_verify_fill_request ::
  "bytes option \<Rightarrow> vulkan_memory_verify_fill_request option \<Rightarrow> vulkan_memory_verify_fill_request result" where
  "decode_vulkan_memory_verify_fill_request input request = nonnull2 input request (\<lambda>input _.
     let request = \<lparr>mvfr_memory_id = get_u64 input 0,
                  mvfr_offset = get_u64 input 8,
                  mvfr_size = get_u64 input 16,
                  mvfr_expected_word = get_u32 input 24\<rparr> in
     if wire_id_is_type (mvfr_memory_id request) 9 \<and>
        mvfr_size request \<noteq> 0 \<and>
        get_u32 input 28 = 0 then Inr request
     else Inl EPROTO)"

interpretation memory_verify_fill_request_codec: agreed_codec BVB_VULKAN_MEMORY_VERIFY_FILL_REQUEST_SIZE
  "\<lambda>request. mvfr_size request \<noteq> 0 \<and>
      wire_id_is_type (mvfr_memory_id request) 9"
  encode_vulkan_memory_verify_fill_request decode_vulkan_memory_verify_fill_request
  by unfold_locales
    (auto simp: encode_vulkan_memory_verify_fill_request_def decode_vulkan_memory_verify_fill_request_def
      wire_simps split: codec_splits)

subsection \<open>Memory verify fill response\<close>

record vulkan_memory_verify_fill_response =
  mevfr_vulkan_result :: i32
  mevfr_mismatched_words :: u32

definition encode_vulkan_memory_verify_fill_response ::
  "bytes option \<Rightarrow> vulkan_memory_verify_fill_response option \<Rightarrow> bytes result" where
  "encode_vulkan_memory_verify_fill_response output response = nonnull2 output response (\<lambda>output response.
     let output = put_i32 output 0 (mevfr_vulkan_result response) in
     let output = put_u32 output 4 (mevfr_mismatched_words response) in
     Inr output)"

definition decode_vulkan_memory_verify_fill_response ::
  "bytes option \<Rightarrow> vulkan_memory_verify_fill_response option \<Rightarrow> vulkan_memory_verify_fill_response result" where
  "decode_vulkan_memory_verify_fill_response input response = nonnull2 input response (\<lambda>input _.
     let response = \<lparr>mevfr_vulkan_result = get_i32 input 0,
                   mevfr_mismatched_words = get_u32 input 4\<rparr> in
     Inr response)"

interpretation memory_verify_fill_response_codec: agreed_codec BVB_VULKAN_MEMORY_VERIFY_FILL_RESPONSE_SIZE
  "\<lambda>_. True"
  encode_vulkan_memory_verify_fill_response decode_vulkan_memory_verify_fill_response
  by unfold_locales
    (auto simp: encode_vulkan_memory_verify_fill_response_def decode_vulkan_memory_verify_fill_response_def
      wire_simps split: codec_splits)

subsection \<open>Fence create request\<close>

record vulkan_fence_create_request =
  fcr_device_id :: u64
  fcr_flags :: u32

definition encode_vulkan_fence_create_request ::
  "bytes option \<Rightarrow> vulkan_fence_create_request option \<Rightarrow> bytes result" where
  "encode_vulkan_fence_create_request output request = nonnull2 output request (\<lambda>output request.
     if \<not> wire_id_is_type (fcr_device_id request) 3 then Inl EINVAL
     else
     let output = memset0 output 0 BVB_VULKAN_FENCE_CREATE_REQUEST_SIZE in
     let output = put_u64 output 0 (fcr_device_id request) in
     let output = put_u32 output 8 (fcr_flags request) in
     Inr output)"

definition decode_vulkan_fence_create_request ::
  "bytes option \<Rightarrow> vulkan_fence_create_request option \<Rightarrow> vulkan_fence_create_request result" where
  "decode_vulkan_fence_create_request input request = nonnull2 input request (\<lambda>input _.
     let request = \<lparr>fcr_device_id = get_u64 input 0,
                  fcr_flags = get_u32 input 8\<rparr> in
     if wire_id_is_type (fcr_device_id request) 3 \<and>
        get_u32 input 12 = 0 then Inr request
     else Inl EPROTO)"

interpretation fence_create_request_codec: agreed_codec BVB_VULKAN_FENCE_CREATE_REQUEST_SIZE
  "\<lambda>request. wire_id_is_type (fcr_device_id request) 3"
  encode_vulkan_fence_create_request decode_vulkan_fence_create_request
  by unfold_locales
    (auto simp: encode_vulkan_fence_create_request_def decode_vulkan_fence_create_request_def
      wire_simps split: codec_splits)

subsection \<open>Fence wait request\<close>

record vulkan_fence_wait_request =
  fwr_fence_id :: u64
  fwr_timeout :: u64
  fwr_wait_all :: u32

definition encode_vulkan_fence_wait_request ::
  "bytes option \<Rightarrow> vulkan_fence_wait_request option \<Rightarrow> bytes result" where
  "encode_vulkan_fence_wait_request output request = nonnull2 output request (\<lambda>output request.
     if fwr_wait_all request > 1 \<or>
        \<not> wire_id_is_type (fwr_fence_id request) 18 then Inl EINVAL
     else
     let output = memset0 output 0 BVB_VULKAN_FENCE_WAIT_REQUEST_SIZE in
     let output = put_u64 output 0 (fwr_fence_id request) in
     let output = put_u64 output 8 (fwr_timeout request) in
     let output = put_u32 output 16 (fwr_wait_all request) in
     Inr output)"

definition decode_vulkan_fence_wait_request ::
  "bytes option \<Rightarrow> vulkan_fence_wait_request option \<Rightarrow> vulkan_fence_wait_request result" where
  "decode_vulkan_fence_wait_request input request = nonnull2 input request (\<lambda>input _.
     let request = \<lparr>fwr_fence_id = get_u64 input 0,
                  fwr_timeout = get_u64 input 8,
                  fwr_wait_all = get_u32 input 16\<rparr> in
     if wire_id_is_type (fwr_fence_id request) 18 \<and>
        fwr_wait_all request \<le> 1 \<and>
        get_u32 input 20 = 0 then Inr request
     else Inl EPROTO)"

interpretation fence_wait_request_codec: agreed_codec BVB_VULKAN_FENCE_WAIT_REQUEST_SIZE
  "\<lambda>request. fwr_wait_all request \<le> 1 \<and>
      wire_id_is_type (fwr_fence_id request) 18"
  encode_vulkan_fence_wait_request decode_vulkan_fence_wait_request
  by unfold_locales
    (auto simp: encode_vulkan_fence_wait_request_def decode_vulkan_fence_wait_request_def
      wire_simps split: codec_splits)

subsection \<open>Queue submit command fence request\<close>

record vulkan_queue_submit_command_fence_request =
  qscfr_queue_id :: u64
  qscfr_command_buffer_id :: u64
  qscfr_fence_id :: u64

definition encode_vulkan_queue_submit_command_fence_request ::
  "bytes option \<Rightarrow> vulkan_queue_submit_command_fence_request option \<Rightarrow> bytes result" where
  "encode_vulkan_queue_submit_command_fence_request output request = nonnull2 output request (\<lambda>output request.
     if \<not> wire_id_is_type (qscfr_queue_id request) 4 \<or>
        \<not> wire_id_is_type (qscfr_command_buffer_id request) 11 \<or>
        \<not> wire_id_is_type (qscfr_fence_id request) 18 then Inl EINVAL
     else
     let output = put_u64 output 0 (qscfr_queue_id request) in
     let output = put_u64 output 8 (qscfr_command_buffer_id request) in
     let output = put_u64 output 16 (qscfr_fence_id request) in
     Inr output)"

definition decode_vulkan_queue_submit_command_fence_request ::
  "bytes option \<Rightarrow> vulkan_queue_submit_command_fence_request option \<Rightarrow> vulkan_queue_submit_command_fence_request result" where
  "decode_vulkan_queue_submit_command_fence_request input request = nonnull2 input request (\<lambda>input _.
     let request = \<lparr>qscfr_queue_id = get_u64 input 0,
                  qscfr_command_buffer_id = get_u64 input 8,
                  qscfr_fence_id = get_u64 input 16\<rparr> in
     if wire_id_is_type (qscfr_queue_id request) 4 \<and>
        wire_id_is_type (qscfr_command_buffer_id request) 11 \<and>
        wire_id_is_type (qscfr_fence_id request) 18 then Inr request
     else Inl EPROTO)"

interpretation queue_submit_command_fence_request_codec: agreed_codec BVB_VULKAN_QUEUE_SUBMIT_COMMAND_FENCE_REQUEST_SIZE
  "\<lambda>request. wire_id_is_type (qscfr_queue_id request) 4 \<and>
      wire_id_is_type (qscfr_command_buffer_id request) 11 \<and>
      wire_id_is_type (qscfr_fence_id request) 18"
  encode_vulkan_queue_submit_command_fence_request decode_vulkan_queue_submit_command_fence_request
  by unfold_locales
    (auto simp: encode_vulkan_queue_submit_command_fence_request_def decode_vulkan_queue_submit_command_fence_request_def
      wire_simps split: codec_splits)

subsection \<open>Semaphore create request\<close>

record vulkan_semaphore_create_request =
  scr_device_id :: u64
  scr_initial_value :: u64
  scr_semaphore_type :: u32
  scr_flags :: u32

definition encode_vulkan_semaphore_create_request ::
  "bytes option \<Rightarrow> vulkan_semaphore_create_request option \<Rightarrow> bytes result" where
  "encode_vulkan_semaphore_create_request output request = nonnull2 output request (\<lambda>output request.
     if \<not> wire_id_is_type (scr_device_id request) 3 then Inl EINVAL
     else
     let output = memset0 output 0 BVB_VULKAN_SEMAPHORE_CREATE_REQUEST_SIZE in
     let output = put_u64 output 0 (scr_device_id request) in
     let output = put_u64 output 8 (scr_initial_value request) in
     let output = put_u32 output 16 (scr_semaphore_type request) in
     let output = put_u32 output 20 (scr_flags request) in
     Inr output)"

definition decode_vulkan_semaphore_create_request ::
  "bytes option \<Rightarrow> vulkan_semaphore_create_request option \<Rightarrow> vulkan_semaphore_create_request result" where
  "decode_vulkan_semaphore_create_request input request = nonnull2 input request (\<lambda>input _.
     let request = \<lparr>scr_device_id = get_u64 input 0,
                  scr_initial_value = get_u64 input 8,
                  scr_semaphore_type = get_u32 input 16,
                  scr_flags = get_u32 input 20\<rparr> in
     if wire_id_is_type (scr_device_id request) 3 then Inr request
     else Inl EPROTO)"

interpretation semaphore_create_request_codec: agreed_codec BVB_VULKAN_SEMAPHORE_CREATE_REQUEST_SIZE
  "\<lambda>request. wire_id_is_type (scr_device_id request) 3"
  encode_vulkan_semaphore_create_request decode_vulkan_semaphore_create_request
  by unfold_locales
    (auto simp: encode_vulkan_semaphore_create_request_def decode_vulkan_semaphore_create_request_def
      wire_simps split: codec_splits)

subsection \<open>Semaphore counter response\<close>

record vulkan_semaphore_counter_response =
  secr_vulkan_result :: i32
  secr_value :: u64

definition encode_vulkan_semaphore_counter_response ::
  "bytes option \<Rightarrow> vulkan_semaphore_counter_response option \<Rightarrow> bytes result" where
  "encode_vulkan_semaphore_counter_response output response = nonnull2 output response (\<lambda>output response.
     let output = memset0 output 0 BVB_VULKAN_SEMAPHORE_COUNTER_RESPONSE_SIZE in
     let output = put_i32 output 0 (secr_vulkan_result response) in
     let output = put_u64 output 8 (secr_value response) in
     Inr output)"

definition decode_vulkan_semaphore_counter_response ::
  "bytes option \<Rightarrow> vulkan_semaphore_counter_response option \<Rightarrow> vulkan_semaphore_counter_response result" where
  "decode_vulkan_semaphore_counter_response input response = nonnull2 input response (\<lambda>input _.
     let response = \<lparr>secr_vulkan_result = get_i32 input 0,
                   secr_value = get_u64 input 8\<rparr> in
     if get_u32 input 4 = 0 then Inr response
     else Inl EPROTO)"

interpretation semaphore_counter_response_codec: agreed_codec BVB_VULKAN_SEMAPHORE_COUNTER_RESPONSE_SIZE
  "\<lambda>_. True"
  encode_vulkan_semaphore_counter_response decode_vulkan_semaphore_counter_response
  by unfold_locales
    (auto simp: encode_vulkan_semaphore_counter_response_def decode_vulkan_semaphore_counter_response_def
      wire_simps split: codec_splits)

subsection \<open>Semaphore signal request\<close>

record vulkan_semaphore_signal_request =
  ssr_device_id :: u64
  ssr_semaphore_id :: u64
  ssr_value :: u64

definition encode_vulkan_semaphore_signal_request ::
  "bytes option \<Rightarrow> vulkan_semaphore_signal_request option \<Rightarrow> bytes result" where
  "encode_vulkan_semaphore_signal_request output request = nonnull2 output request (\<lambda>output request.
     if \<not> wire_id_is_type (ssr_device_id request) 3 \<or>
        \<not> wire_id_is_type (ssr_semaphore_id request) 17 then Inl EINVAL
     else
     let output = put_u64 output 0 (ssr_device_id request) in
     let output = put_u64 output 8 (ssr_semaphore_id request) in
     let output = put_u64 output 16 (ssr_value request) in
     Inr output)"

definition decode_vulkan_semaphore_signal_request ::
  "bytes option \<Rightarrow> vulkan_semaphore_signal_request option \<Rightarrow> vulkan_semaphore_signal_request result" where
  "decode_vulkan_semaphore_signal_request input request = nonnull2 input request (\<lambda>input _.
     let request = \<lparr>ssr_device_id = get_u64 input 0,
                  ssr_semaphore_id = get_u64 input 8,
                  ssr_value = get_u64 input 16\<rparr> in
     if wire_id_is_type (ssr_device_id request) 3 \<and>
        wire_id_is_type (ssr_semaphore_id request) 17 then Inr request
     else Inl EPROTO)"

interpretation semaphore_signal_request_codec: agreed_codec BVB_VULKAN_SEMAPHORE_SIGNAL_REQUEST_SIZE
  "\<lambda>request. wire_id_is_type (ssr_device_id request) 3 \<and>
      wire_id_is_type (ssr_semaphore_id request) 17"
  encode_vulkan_semaphore_signal_request decode_vulkan_semaphore_signal_request
  by unfold_locales
    (auto simp: encode_vulkan_semaphore_signal_request_def decode_vulkan_semaphore_signal_request_def
      wire_simps split: codec_splits)









subsection \<open>Properties\<close>

text \<open>
  The messages about fills, clears, fences, semaphores and submissions keep the codec contract.
\<close>

lemma submit_messages:
  "codec_contract BVB_VULKAN_COMMAND_BUFFER_FILL_REQUEST_SIZE (\<lambda>_. True)
     (\<lambda>request. cobfr_size request \<noteq> 0 \<and>
      wire_id_is_type (cobfr_command_buffer_id request) 11 \<and>
      wire_id_is_type (cobfr_buffer_id request) 19)
     encode_vulkan_command_buffer_fill_request decode_vulkan_command_buffer_fill_request \<and>
   codec_contract BVB_VULKAN_COMMAND_BUFFER_CLEAR_COLOR_IMAGE_REQUEST_SIZE (\<lambda>_. True)
     (\<lambda>request. wire_id_is_type (cbccir_command_buffer_id request) 11 \<and>
      wire_id_is_type (cbccir_image_id request) BVB_OBJECT_IMAGE)
     encode_vulkan_command_buffer_clear_color_image_request decode_vulkan_command_buffer_clear_color_image_request \<and>
   codec_contract BVB_VULKAN_MEMORY_VERIFY_FILL_REQUEST_SIZE (\<lambda>_. True)
     (\<lambda>request. mvfr_size request \<noteq> 0 \<and>
      wire_id_is_type (mvfr_memory_id request) 9)
     encode_vulkan_memory_verify_fill_request decode_vulkan_memory_verify_fill_request \<and>
   codec_contract BVB_VULKAN_MEMORY_VERIFY_FILL_RESPONSE_SIZE (\<lambda>_. True)
     (\<lambda>_. True)
     encode_vulkan_memory_verify_fill_response decode_vulkan_memory_verify_fill_response \<and>
   codec_contract BVB_VULKAN_FENCE_CREATE_REQUEST_SIZE (\<lambda>_. True)
     (\<lambda>request. wire_id_is_type (fcr_device_id request) 3)
     encode_vulkan_fence_create_request decode_vulkan_fence_create_request \<and>
   codec_contract BVB_VULKAN_FENCE_WAIT_REQUEST_SIZE (\<lambda>_. True)
     (\<lambda>request. fwr_wait_all request \<le> 1 \<and>
      wire_id_is_type (fwr_fence_id request) 18)
     encode_vulkan_fence_wait_request decode_vulkan_fence_wait_request \<and>
   codec_contract BVB_VULKAN_QUEUE_SUBMIT_COMMAND_FENCE_REQUEST_SIZE (\<lambda>_. True)
     (\<lambda>request. wire_id_is_type (qscfr_queue_id request) 4 \<and>
      wire_id_is_type (qscfr_command_buffer_id request) 11 \<and>
      wire_id_is_type (qscfr_fence_id request) 18)
     encode_vulkan_queue_submit_command_fence_request decode_vulkan_queue_submit_command_fence_request \<and>
   codec_contract BVB_VULKAN_SEMAPHORE_CREATE_REQUEST_SIZE (\<lambda>_. True)
     (\<lambda>request. wire_id_is_type (scr_device_id request) 3)
     encode_vulkan_semaphore_create_request decode_vulkan_semaphore_create_request \<and>
   codec_contract BVB_VULKAN_SEMAPHORE_COUNTER_RESPONSE_SIZE (\<lambda>_. True)
     (\<lambda>_. True)
     encode_vulkan_semaphore_counter_response decode_vulkan_semaphore_counter_response \<and>
   codec_contract BVB_VULKAN_SEMAPHORE_SIGNAL_REQUEST_SIZE (\<lambda>_. True)
     (\<lambda>request. wire_id_is_type (ssr_device_id request) 3 \<and>
      wire_id_is_type (ssr_semaphore_id request) 17)
     encode_vulkan_semaphore_signal_request decode_vulkan_semaphore_signal_request"
  by (intro conjI command_buffer_fill_request_codec.contract
      command_buffer_clear_color_image_request_codec.contract
      memory_verify_fill_request_codec.contract memory_verify_fill_response_codec.contract
      fence_create_request_codec.contract fence_wait_request_codec.contract
      queue_submit_command_fence_request_codec.contract semaphore_create_request_codec.contract
      semaphore_counter_response_codec.contract semaphore_signal_request_codec.contract)

end
