(* ===== verification/Proto_Memory_Io.thy ===== *)
theory Proto_Memory_Io
  imports Proto_Base
begin

unbundle bit_operations_syntax

section \<open>Mapped-memory transfer and mirroring\<close>

text \<open>The messages of src/src/protocol.c lines 3829-4076.\<close>

subsection \<open>Memory read request\<close>

record vulkan_memory_io_request =
  mir_memory_id :: u64
  mir_offset :: u64
  mir_length :: u32

text \<open>The C validators return 0 or \<open>-EINVAL\<close>; here they are true where the C returns 0.\<close>

definition validate_memory_io_request :: "vulkan_memory_io_request \<Rightarrow> bool" where
  "validate_memory_io_request request \<longleftrightarrow>
     wire_id_is_type (mir_memory_id request) 9 \<and> mir_length request \<noteq> 0 \<and>
     mir_length request \<le> BVB_VULKAN_MEMORY_IO_MAX_BYTES \<and>
     mir_offset request \<le> 0xffffffffffffffff - ucast (mir_length request)"

definition encode_vulkan_memory_read_request ::
  "bytes option \<Rightarrow> vulkan_memory_io_request option \<Rightarrow> bytes result" where
  "encode_vulkan_memory_read_request output request = nonnull2 output request (\<lambda>output request.
     if \<not> validate_memory_io_request request then Inl EINVAL
     else
     let output = put_u64 output 0 (mir_memory_id request) in
     let output = put_u64 output 8 (mir_offset request) in
     let output = put_u32 output 16 (mir_length request) in
     let output = put_u32 output 20 0 in
     Inr output)"

definition decode_vulkan_memory_read_request ::
  "bytes option \<Rightarrow> vulkan_memory_io_request option \<Rightarrow> vulkan_memory_io_request result" where
  "decode_vulkan_memory_read_request input request = nonnull2 input request (\<lambda>input _.
     let decoded = \<lparr>mir_memory_id = get_u64 input 0,
                  mir_offset = get_u64 input 8,
                  mir_length = get_u32 input 16\<rparr> in
     if \<not> validate_memory_io_request decoded \<or> get_u32 input 20 \<noteq> 0 then Inl EPROTO
     else
     Inr decoded)"

interpretation memory_read_request_codec: agreed_codec BVB_VULKAN_MEMORY_IO_PREFIX_SIZE
  validate_memory_io_request
  encode_vulkan_memory_read_request decode_vulkan_memory_read_request
  by unfold_locales
    (auto simp: encode_vulkan_memory_read_request_def decode_vulkan_memory_read_request_def
      validate_memory_io_request_def
      wire_simps split: codec_splits)

definition validate_memory_mirror_identity :: "u64 \<Rightarrow> u64 \<Rightarrow> u64 \<Rightarrow> bool" where
  "validate_memory_mirror_identity device_id memory_id generation \<longleftrightarrow>
     wire_id_is_type device_id 3 \<and> wire_id_is_type memory_id 9 \<and> generation \<noteq> 0"

subsection \<open>Memory mirror setup request\<close>

record vulkan_memory_mirror_setup_request =
  mmsr_device_id :: u64
  mmsr_memory_id :: u64
  mmsr_generation :: u64
  mmsr_offset :: u64
  mmsr_length :: u64

definition encode_vulkan_memory_mirror_setup_request ::
  "bytes option \<Rightarrow> vulkan_memory_mirror_setup_request option \<Rightarrow> bytes result" where
  "encode_vulkan_memory_mirror_setup_request output request = nonnull2 output request (\<lambda>output request.
     if \<not> validate_memory_mirror_identity (mmsr_device_id request) (mmsr_memory_id request) (mmsr_generation request) \<or>
        mmsr_length request = 0 \<or>
        mmsr_length request > BVB_VULKAN_MAX_MEMORY_ALLOCATION_SIZE \<or>
        mmsr_offset request > (0xffffffffffffffff - mmsr_length request) then Inl EINVAL
     else
     let output = put_u64 output 0 (mmsr_device_id request) in
     let output = put_u64 output 8 (mmsr_memory_id request) in
     let output = put_u64 output 16 (mmsr_generation request) in
     let output = put_u64 output 24 (mmsr_offset request) in
     let output = put_u64 output 32 (mmsr_length request) in
     Inr output)"

definition decode_vulkan_memory_mirror_setup_request ::
  "bytes option \<Rightarrow> vulkan_memory_mirror_setup_request option \<Rightarrow> vulkan_memory_mirror_setup_request result" where
  "decode_vulkan_memory_mirror_setup_request input request = nonnull2 input request (\<lambda>input _.
     let decoded = \<lparr>mmsr_device_id = get_u64 input 0,
                  mmsr_memory_id = get_u64 input 8,
                  mmsr_generation = get_u64 input 16,
                  mmsr_offset = get_u64 input 24,
                  mmsr_length = get_u64 input 32\<rparr> in
     case encode_vulkan_memory_mirror_setup_request (Some (replicate BVB_VULKAN_MEMORY_MIRROR_SETUP_SIZE 0)) (Some decoded) of Inl _ \<Rightarrow> Inl EPROTO
     | Inr validation \<Rightarrow>
     if validation \<noteq> take BVB_VULKAN_MEMORY_MIRROR_SETUP_SIZE input then Inl EPROTO else
     Inr decoded)"

interpretation memory_mirror_setup_request_codec: agreed_codec BVB_VULKAN_MEMORY_MIRROR_SETUP_SIZE
  "\<lambda>request. validate_memory_mirror_identity (mmsr_device_id request) (mmsr_memory_id request) (mmsr_generation request) \<and>
      mmsr_length request \<noteq> 0 \<and>
      mmsr_length request \<le> BVB_VULKAN_MAX_MEMORY_ALLOCATION_SIZE \<and>
      mmsr_offset request \<le> (0xffffffffffffffff - mmsr_length request)"
  encode_vulkan_memory_mirror_setup_request decode_vulkan_memory_mirror_setup_request
  by unfold_locales
    (auto simp: encode_vulkan_memory_mirror_setup_request_def decode_vulkan_memory_mirror_setup_request_def
      wire_simps split: codec_splits intro: put_cover)

subsection \<open>Memory mirror range request\<close>

record vulkan_memory_mirror_range_request =
  mmrr_device_id :: u64
  mmrr_memory_id :: u64
  mmrr_generation :: u64
  mmrr_offset :: u64
  mmrr_size :: u64

definition encode_vulkan_memory_mirror_range_request ::
  "bytes option \<Rightarrow> vulkan_memory_mirror_range_request option \<Rightarrow> bytes result" where
  "encode_vulkan_memory_mirror_range_request output request = nonnull2 output request (\<lambda>output request.
     if \<not> validate_memory_mirror_identity (mmrr_device_id request) (mmrr_memory_id request) (mmrr_generation request) \<or>
        mmrr_size request = 0 \<or>
        mmrr_size request > BVB_VULKAN_MAX_MEMORY_ALLOCATION_SIZE \<or>
        mmrr_offset request > (0xffffffffffffffff - mmrr_size request) then Inl EINVAL
     else
     let output = put_u64 output 0 (mmrr_device_id request) in
     let output = put_u64 output 8 (mmrr_memory_id request) in
     let output = put_u64 output 16 (mmrr_generation request) in
     let output = put_u64 output 24 (mmrr_offset request) in
     let output = put_u64 output 32 (mmrr_size request) in
     Inr output)"

definition decode_vulkan_memory_mirror_range_request ::
  "bytes option \<Rightarrow> vulkan_memory_mirror_range_request option \<Rightarrow> vulkan_memory_mirror_range_request result" where
  "decode_vulkan_memory_mirror_range_request input request = nonnull2 input request (\<lambda>input _.
     let decoded = \<lparr>mmrr_device_id = get_u64 input 0,
                  mmrr_memory_id = get_u64 input 8,
                  mmrr_generation = get_u64 input 16,
                  mmrr_offset = get_u64 input 24,
                  mmrr_size = get_u64 input 32\<rparr> in
     case encode_vulkan_memory_mirror_range_request (Some (replicate BVB_VULKAN_MEMORY_MIRROR_RANGE_SIZE 0)) (Some decoded) of Inl _ \<Rightarrow> Inl EPROTO
     | Inr validation \<Rightarrow>
     if validation \<noteq> take BVB_VULKAN_MEMORY_MIRROR_RANGE_SIZE input then Inl EPROTO else
     Inr decoded)"

interpretation memory_mirror_range_request_codec: agreed_codec BVB_VULKAN_MEMORY_MIRROR_RANGE_SIZE
  "\<lambda>request. validate_memory_mirror_identity (mmrr_device_id request) (mmrr_memory_id request) (mmrr_generation request) \<and>
      mmrr_size request \<noteq> 0 \<and>
      mmrr_size request \<le> BVB_VULKAN_MAX_MEMORY_ALLOCATION_SIZE \<and>
      mmrr_offset request \<le> (0xffffffffffffffff - mmrr_size request)"
  encode_vulkan_memory_mirror_range_request decode_vulkan_memory_mirror_range_request
  by unfold_locales
    (auto simp: encode_vulkan_memory_mirror_range_request_def decode_vulkan_memory_mirror_range_request_def
      wire_simps split: codec_splits intro: put_cover)

subsection \<open>Memory mirror unmap request\<close>

record vulkan_memory_mirror_unmap_request =
  mmur_device_id :: u64
  mmur_memory_id :: u64
  mmur_generation :: u64

definition encode_vulkan_memory_mirror_unmap_request ::
  "bytes option \<Rightarrow> vulkan_memory_mirror_unmap_request option \<Rightarrow> bytes result" where
  "encode_vulkan_memory_mirror_unmap_request output request = nonnull2 output request (\<lambda>output request.
     if \<not> validate_memory_mirror_identity (mmur_device_id request) (mmur_memory_id request) (mmur_generation request) then Inl EINVAL
     else
     let output = put_u64 output 0 (mmur_device_id request) in
     let output = put_u64 output 8 (mmur_memory_id request) in
     let output = put_u64 output 16 (mmur_generation request) in
     Inr output)"

definition decode_vulkan_memory_mirror_unmap_request ::
  "bytes option \<Rightarrow> vulkan_memory_mirror_unmap_request option \<Rightarrow> vulkan_memory_mirror_unmap_request result" where
  "decode_vulkan_memory_mirror_unmap_request input request = nonnull2 input request (\<lambda>input _.
     let decoded = \<lparr>mmur_device_id = get_u64 input 0,
                  mmur_memory_id = get_u64 input 8,
                  mmur_generation = get_u64 input 16\<rparr> in
     case encode_vulkan_memory_mirror_unmap_request (Some (replicate BVB_VULKAN_MEMORY_MIRROR_UNMAP_SIZE 0)) (Some decoded) of Inl _ \<Rightarrow> Inl EPROTO
     | Inr validation \<Rightarrow>
     if validation \<noteq> take BVB_VULKAN_MEMORY_MIRROR_UNMAP_SIZE input then Inl EPROTO else
     Inr decoded)"

interpretation memory_mirror_unmap_request_codec: agreed_codec BVB_VULKAN_MEMORY_MIRROR_UNMAP_SIZE
  "\<lambda>request. validate_memory_mirror_identity (mmur_device_id request) (mmur_memory_id request) (mmur_generation request)"
  encode_vulkan_memory_mirror_unmap_request decode_vulkan_memory_mirror_unmap_request
  by unfold_locales
    (auto simp: encode_vulkan_memory_mirror_unmap_request_def decode_vulkan_memory_mirror_unmap_request_def
      wire_simps split: codec_splits intro: put_cover)

subsection \<open>Properties\<close>

text \<open>
  The messages about reading mapped memory and about memory mirrors keep the codec contract: the
  ranges they carry do not wrap around 64 bits and stay within the sizes the check names.
\<close>

lemma memory_messages:
  "codec_contract BVB_VULKAN_MEMORY_IO_PREFIX_SIZE (\<lambda>_. True)
     validate_memory_io_request
     encode_vulkan_memory_read_request decode_vulkan_memory_read_request \<and>
   codec_contract BVB_VULKAN_MEMORY_MIRROR_SETUP_SIZE (\<lambda>_. True)
     (\<lambda>request. validate_memory_mirror_identity (mmsr_device_id request) (mmsr_memory_id request) (mmsr_generation request) \<and>
      mmsr_length request \<noteq> 0 \<and>
      mmsr_length request \<le> BVB_VULKAN_MAX_MEMORY_ALLOCATION_SIZE \<and>
      mmsr_offset request \<le> (0xffffffffffffffff - mmsr_length request))
     encode_vulkan_memory_mirror_setup_request decode_vulkan_memory_mirror_setup_request \<and>
   codec_contract BVB_VULKAN_MEMORY_MIRROR_RANGE_SIZE (\<lambda>_. True)
     (\<lambda>request. validate_memory_mirror_identity (mmrr_device_id request) (mmrr_memory_id request) (mmrr_generation request) \<and>
      mmrr_size request \<noteq> 0 \<and>
      mmrr_size request \<le> BVB_VULKAN_MAX_MEMORY_ALLOCATION_SIZE \<and>
      mmrr_offset request \<le> (0xffffffffffffffff - mmrr_size request))
     encode_vulkan_memory_mirror_range_request decode_vulkan_memory_mirror_range_request \<and>
   codec_contract BVB_VULKAN_MEMORY_MIRROR_UNMAP_SIZE (\<lambda>_. True)
     (\<lambda>request. validate_memory_mirror_identity (mmur_device_id request) (mmur_memory_id request) (mmur_generation request))
     encode_vulkan_memory_mirror_unmap_request decode_vulkan_memory_mirror_unmap_request"
  by (intro conjI memory_read_request_codec.contract memory_mirror_setup_request_codec.contract
      memory_mirror_range_request_codec.contract memory_mirror_unmap_request_codec.contract)

end
