(* ===== verification/Proto_Batch.thy ===== *)
theory Proto_Batch
  imports Proto_Base
begin

unbundle bit_operations_syntax

section \<open>Shared batches, descriptor journals and status reports\<close>

text \<open>The messages of src/src/protocol.c lines 4077-4560.\<close>

subsection \<open>Hello response\<close>

record hello_response =
  her_negotiated_version :: u16
  her_service_flags :: u32
  her_pointer_bits :: u32
  her_page_size :: u32

definition encode_hello_response ::
  "bytes option \<Rightarrow> hello_response option \<Rightarrow> bytes result" where
  "encode_hello_response output response = nonnull2 output response (\<lambda>output response.
     if her_negotiated_version response = 0 \<or>
        her_pointer_bits response = 0 \<or>
        her_page_size response = 0 then Inl EINVAL
     else
     let output = put_u16 output 0 (her_negotiated_version response) in
     let output = put_u16 output 2 0 in
     let output = put_u32 output 4 (her_service_flags response) in
     let output = put_u32 output 8 (her_pointer_bits response) in
     let output = put_u32 output 12 (her_page_size response) in
     Inr output)"

definition decode_hello_response ::
  "bytes option \<Rightarrow> hello_response option \<Rightarrow> hello_response result" where
  "decode_hello_response input response = nonnull2 input response (\<lambda>input _.
     let decoded = \<lparr>her_negotiated_version = get_u16 input 0,
                  her_service_flags = get_u32 input 4,
                  her_pointer_bits = get_u32 input 8,
                  her_page_size = get_u32 input 12\<rparr> in
     if get_u16 input 2 \<noteq> 0 \<or>
        her_negotiated_version decoded = 0 \<or>
        her_pointer_bits decoded = 0 \<or>
        her_page_size decoded = 0 then Inl EPROTO
     else
     Inr decoded)"

interpretation hello_response_codec: agreed_codec BVB_HELLO_RESPONSE_SIZE
  "\<lambda>response. her_negotiated_version response \<noteq> 0 \<and>
      her_pointer_bits response \<noteq> 0 \<and>
      her_page_size response \<noteq> 0"
  encode_hello_response decode_hello_response
  by unfold_locales
    (auto simp: encode_hello_response_def decode_hello_response_def
      wire_simps split: codec_splits)

subsection \<open>Shared batch setup\<close>

record shared_batch_setup =
  sbs_region_bytes :: u32
  sbs_generation :: u64

definition encode_shared_batch_setup ::
  "bytes option \<Rightarrow> shared_batch_setup option \<Rightarrow> bytes result" where
  "encode_shared_batch_setup output setup = nonnull2 output setup (\<lambda>output setup.
     if sbs_generation setup = 0 \<or>
        sbs_region_bytes setup < BVB_SHARED_BATCH_MIN_BYTES \<or>
        sbs_region_bytes setup > BVB_SHARED_BATCH_MAX_BYTES then Inl EINVAL
     else
     let output = put_u32 output 0 (sbs_region_bytes setup) in
     let output = put_u32 output 4 0 in
     let output = put_u64 output 8 (sbs_generation setup) in
     Inr output)"

definition decode_shared_batch_setup ::
  "bytes option \<Rightarrow> shared_batch_setup option \<Rightarrow> shared_batch_setup result" where
  "decode_shared_batch_setup input setup = nonnull2 input setup (\<lambda>input _.
     let decoded = \<lparr>sbs_region_bytes = get_u32 input 0,
                  sbs_generation = get_u64 input 8\<rparr> in
     if get_u32 input 4 \<noteq> 0 \<or>
        sbs_generation decoded = 0 \<or>
        sbs_region_bytes decoded < BVB_SHARED_BATCH_MIN_BYTES \<or>
        sbs_region_bytes decoded > BVB_SHARED_BATCH_MAX_BYTES then Inl EPROTO
     else
     Inr decoded)"

interpretation shared_batch_setup_codec: agreed_codec BVB_SHARED_BATCH_SETUP_SIZE
  "\<lambda>setup. sbs_generation setup \<noteq> 0 \<and>
      sbs_region_bytes setup \<ge> BVB_SHARED_BATCH_MIN_BYTES \<and>
      sbs_region_bytes setup \<le> BVB_SHARED_BATCH_MAX_BYTES"
  encode_shared_batch_setup decode_shared_batch_setup
  by unfold_locales
    (auto simp: encode_shared_batch_setup_def decode_shared_batch_setup_def
      wire_simps split: codec_splits)

subsection \<open>Command stream setup\<close>

definition encode_vulkan_command_stream_setup ::
  "bytes option \<Rightarrow> shared_batch_setup option \<Rightarrow> bytes result" where
  "encode_vulkan_command_stream_setup output setup = nonnull2 output setup (\<lambda>output setup.
     if sbs_generation setup = 0 \<or>
        sbs_region_bytes setup \<noteq> BVB_COMMAND_STREAM_REGION_BYTES then Inl EINVAL
     else
     let output = put_u32 output 0 (sbs_region_bytes setup) in
     let output = put_u32 output 4 0 in
     let output = put_u64 output 8 (sbs_generation setup) in
     Inr output)"

definition decode_vulkan_command_stream_setup ::
  "bytes option \<Rightarrow> shared_batch_setup option \<Rightarrow> shared_batch_setup result" where
  "decode_vulkan_command_stream_setup input setup = nonnull2 input setup (\<lambda>input _.
     let decoded = \<lparr>sbs_region_bytes = get_u32 input 0,
                  sbs_generation = get_u64 input 8\<rparr> in
     if get_u32 input 4 \<noteq> 0 \<or>
        sbs_generation decoded = 0 \<or>
        sbs_region_bytes decoded \<noteq> BVB_COMMAND_STREAM_REGION_BYTES then Inl EPROTO
     else
     Inr decoded)"

interpretation command_stream_setup_codec: agreed_codec BVB_SHARED_BATCH_SETUP_SIZE
  "\<lambda>setup. sbs_generation setup \<noteq> 0 \<and>
      sbs_region_bytes setup = BVB_COMMAND_STREAM_REGION_BYTES"
  encode_vulkan_command_stream_setup decode_vulkan_command_stream_setup
  by unfold_locales
    (auto simp: encode_vulkan_command_stream_setup_def decode_vulkan_command_stream_setup_def
      wire_simps split: codec_splits)

subsection \<open>Descriptor journal setup\<close>

definition encode_vulkan_descriptor_journal_setup ::
  "bytes option \<Rightarrow> shared_batch_setup option \<Rightarrow> bytes result" where
  "encode_vulkan_descriptor_journal_setup output setup = nonnull2 output setup (\<lambda>output setup.
     if sbs_generation setup = 0 \<or>
        sbs_region_bytes setup \<noteq> BVB_DESCRIPTOR_JOURNAL_REGION_BYTES then Inl EINVAL
     else
     let output = put_u32 output 0 (sbs_region_bytes setup) in
     let output = put_u32 output 4 0 in
     let output = put_u64 output 8 (sbs_generation setup) in
     Inr output)"

definition decode_vulkan_descriptor_journal_setup ::
  "bytes option \<Rightarrow> shared_batch_setup option \<Rightarrow> shared_batch_setup result" where
  "decode_vulkan_descriptor_journal_setup input setup = nonnull2 input setup (\<lambda>input _.
     let decoded = \<lparr>sbs_region_bytes = get_u32 input 0,
                  sbs_generation = get_u64 input 8\<rparr> in
     if get_u32 input 4 \<noteq> 0 \<or>
        sbs_generation decoded = 0 \<or>
        sbs_region_bytes decoded \<noteq> BVB_DESCRIPTOR_JOURNAL_REGION_BYTES then Inl EPROTO
     else
     Inr decoded)"

interpretation descriptor_journal_setup_codec: agreed_codec BVB_SHARED_BATCH_SETUP_SIZE
  "\<lambda>setup. sbs_generation setup \<noteq> 0 \<and>
      sbs_region_bytes setup = BVB_DESCRIPTOR_JOURNAL_REGION_BYTES"
  encode_vulkan_descriptor_journal_setup decode_vulkan_descriptor_journal_setup
  by unfold_locales
    (auto simp: encode_vulkan_descriptor_journal_setup_def decode_vulkan_descriptor_journal_setup_def
      wire_simps split: codec_splits)

subsection \<open>Descriptor journal flush\<close>

record descriptor_journal_flush =
  djf_generation :: u64
  djf_sequence :: u64
  djf_length :: u32
  djf_record_count :: u32

definition encode_vulkan_descriptor_journal_flush ::
  "bytes option \<Rightarrow> descriptor_journal_flush option \<Rightarrow> bytes result" where
  "encode_vulkan_descriptor_journal_flush output flush = nonnull2 output flush (\<lambda>output flush.
     if djf_generation flush = 0 \<or>
        djf_sequence flush = 0 \<or>
        djf_length flush = 0 \<or>
        djf_length flush > BVB_DESCRIPTOR_JOURNAL_REGION_BYTES \<or>
        djf_record_count flush = 0 \<or>
        djf_record_count flush > BVB_DESCRIPTOR_JOURNAL_MAX_RECORDS then Inl EINVAL
     else
     let output = put_u64 output 0 (djf_generation flush) in
     let output = put_u64 output 8 (djf_sequence flush) in
     let output = put_u32 output 16 (djf_length flush) in
     let output = put_u32 output 20 (djf_record_count flush) in
     Inr output)"

definition decode_vulkan_descriptor_journal_flush ::
  "bytes option \<Rightarrow> descriptor_journal_flush option \<Rightarrow> descriptor_journal_flush result" where
  "decode_vulkan_descriptor_journal_flush input flush = nonnull2 input flush (\<lambda>input _.
     let decoded = \<lparr>djf_generation = get_u64 input 0,
                  djf_sequence = get_u64 input 8,
                  djf_length = get_u32 input 16,
                  djf_record_count = get_u32 input 20\<rparr> in
     if djf_generation decoded = 0 \<or>
        djf_sequence decoded = 0 \<or>
        djf_length decoded = 0 \<or>
        djf_length decoded > BVB_DESCRIPTOR_JOURNAL_REGION_BYTES \<or>
        djf_record_count decoded = 0 \<or>
        djf_record_count decoded > BVB_DESCRIPTOR_JOURNAL_MAX_RECORDS then Inl EPROTO
     else
     Inr decoded)"

interpretation descriptor_journal_flush_codec: agreed_codec BVB_DESCRIPTOR_JOURNAL_FLUSH_SIZE
  "\<lambda>flush. djf_generation flush \<noteq> 0 \<and>
      djf_sequence flush \<noteq> 0 \<and>
      djf_length flush \<noteq> 0 \<and>
      djf_length flush \<le> BVB_DESCRIPTOR_JOURNAL_REGION_BYTES \<and>
      djf_record_count flush \<noteq> 0 \<and>
      djf_record_count flush \<le> BVB_DESCRIPTOR_JOURNAL_MAX_RECORDS"
  encode_vulkan_descriptor_journal_flush decode_vulkan_descriptor_journal_flush
  by unfold_locales
    (auto simp: encode_vulkan_descriptor_journal_flush_def decode_vulkan_descriptor_journal_flush_def
      wire_simps split: codec_splits)

subsection \<open>Shared batch execute\<close>

record shared_batch_execute =
  sbe_generation :: u64
  sbe_offset :: u32
  sbe_length :: u32
  sbe_sequence :: u64

definition encode_shared_batch_execute ::
  "bytes option \<Rightarrow> shared_batch_execute option \<Rightarrow> bytes result" where
  "encode_shared_batch_execute output execute = nonnull2 output execute (\<lambda>output execute.
     if sbe_generation execute = 0 \<or>
        sbe_length execute < BVB_COMMAND_BATCH_HEADER_SIZE \<or>
        sbe_length execute > BVB_COMMAND_BATCH_MAX_BYTES \<or>
        sbe_sequence execute = 0 then Inl EINVAL
     else
     let output = put_u64 output 0 (sbe_generation execute) in
     let output = put_u32 output 8 (sbe_offset execute) in
     let output = put_u32 output 12 (sbe_length execute) in
     let output = put_u64 output 16 (sbe_sequence execute) in
     Inr output)"

definition decode_shared_batch_execute ::
  "bytes option \<Rightarrow> shared_batch_execute option \<Rightarrow> shared_batch_execute result" where
  "decode_shared_batch_execute input execute = nonnull2 input execute (\<lambda>input _.
     let decoded = \<lparr>sbe_generation = get_u64 input 0,
                  sbe_offset = get_u32 input 8,
                  sbe_length = get_u32 input 12,
                  sbe_sequence = get_u64 input 16\<rparr> in
     if sbe_generation decoded = 0 \<or>
        sbe_length decoded < BVB_COMMAND_BATCH_HEADER_SIZE \<or>
        sbe_length decoded > BVB_COMMAND_BATCH_MAX_BYTES \<or>
        sbe_sequence decoded = 0 then Inl EPROTO
     else
     Inr decoded)"

interpretation shared_batch_execute_codec: agreed_codec BVB_SHARED_BATCH_EXECUTE_SIZE
  "\<lambda>execute. sbe_generation execute \<noteq> 0 \<and>
      sbe_length execute \<ge> BVB_COMMAND_BATCH_HEADER_SIZE \<and>
      sbe_length execute \<le> BVB_COMMAND_BATCH_MAX_BYTES \<and>
      sbe_sequence execute \<noteq> 0"
  encode_shared_batch_execute decode_shared_batch_execute
  by unfold_locales
    (auto simp: encode_shared_batch_execute_def decode_shared_batch_execute_def
      wire_simps split: codec_splits)








subsection \<open>Selftest\<close>

record vulkan_selftest_result =
  sr_instance_extension_count :: u32
  sr_device_extension_count :: u32
  sr_instance_extension_flags :: u64
  sr_device_extension_flags :: u64
  sr_queue_family_index :: u32
  sr_queue_flags :: u32
  sr_memory_type_index :: u32
  sr_memory_property_flags :: u32
  sr_buffer_bytes :: u32
  sr_fill_word :: u32
  sr_mismatched_words :: u32
  sr_submit_wait_elapsed_ns :: u64

definition encode_vulkan_selftest ::
  "bytes option \<Rightarrow> vulkan_selftest_result option \<Rightarrow> bytes result" where
  "encode_vulkan_selftest output result = nonnull2 output result (\<lambda>output result.
     if sr_buffer_bytes result = 0 then Inl EINVAL
     else
     let output = memset0 output 0 BVB_VULKAN_SELFTEST_SIZE in
     let output = put_u32 output 0 (sr_instance_extension_count result) in
     let output = put_u32 output 4 (sr_device_extension_count result) in
     let output = put_u64 output 8 (sr_instance_extension_flags result) in
     let output = put_u64 output 16 (sr_device_extension_flags result) in
     let output = put_u32 output 24 (sr_queue_family_index result) in
     let output = put_u32 output 28 (sr_queue_flags result) in
     let output = put_u32 output 32 (sr_memory_type_index result) in
     let output = put_u32 output 36 (sr_memory_property_flags result) in
     let output = put_u32 output 40 (sr_buffer_bytes result) in
     let output = put_u32 output 44 (sr_fill_word result) in
     let output = put_u32 output 48 (sr_mismatched_words result) in
     let output = put_u32 output 52 0 in
     let output = put_u64 output 56 (sr_submit_wait_elapsed_ns result) in
     Inr output)"

definition decode_vulkan_selftest ::
  "bytes option \<Rightarrow> vulkan_selftest_result option \<Rightarrow> vulkan_selftest_result result" where
  "decode_vulkan_selftest input result = nonnull2 input result (\<lambda>input _.
     if get_u32 input 52 \<noteq> 0 then Inl EPROTO
     else
     let decoded = \<lparr>sr_instance_extension_count = get_u32 input 0,
                  sr_device_extension_count = get_u32 input 4,
                  sr_instance_extension_flags = get_u64 input 8,
                  sr_device_extension_flags = get_u64 input 16,
                  sr_queue_family_index = get_u32 input 24,
                  sr_queue_flags = get_u32 input 28,
                  sr_memory_type_index = get_u32 input 32,
                  sr_memory_property_flags = get_u32 input 36,
                  sr_buffer_bytes = get_u32 input 40,
                  sr_fill_word = get_u32 input 44,
                  sr_mismatched_words = get_u32 input 48,
                  sr_submit_wait_elapsed_ns = get_u64 input 56\<rparr> in
     if sr_buffer_bytes decoded = 0 then Inl EPROTO
     else
     Inr decoded)"

interpretation selftest_codec: agreed_codec BVB_VULKAN_SELFTEST_SIZE
  "\<lambda>result. sr_buffer_bytes result \<noteq> 0"
  encode_vulkan_selftest decode_vulkan_selftest
  by unfold_locales
    (auto simp: encode_vulkan_selftest_def decode_vulkan_selftest_def
      wire_simps split: codec_splits)

subsection \<open>Activity status\<close>

record activity_status =
  as_ingress_configured :: u32
  as_authenticated_event_count :: u32
  as_rejected_event_count :: u32
  as_last_sequence :: u32
  as_last_event :: u32
  as_state_flags :: u32
  as_width :: u32
  as_height :: u32
  as_activity_pid :: u32
  as_last_event_monotonic_ns :: u64
  as_last_event_received_ns :: u64

definition encode_activity_status ::
  "bytes option \<Rightarrow> activity_status option \<Rightarrow> bytes result" where
  "encode_activity_status output status = nonnull2 output status (\<lambda>output status.
     if as_ingress_configured status > 1 then Inl EINVAL
     else
     let output = memset0 output 0 BVB_ACTIVITY_STATUS_SIZE in
     let output = put_u32 output 0 (as_ingress_configured status) in
     let output = put_u32 output 4 (as_authenticated_event_count status) in
     let output = put_u32 output 8 (as_rejected_event_count status) in
     let output = put_u32 output 12 (as_last_sequence status) in
     let output = put_u32 output 16 (as_last_event status) in
     let output = put_u32 output 20 (as_state_flags status) in
     let output = put_u32 output 24 (as_width status) in
     let output = put_u32 output 28 (as_height status) in
     let output = put_u32 output 32 (as_activity_pid status) in
     let output = put_u32 output 36 0 in
     let output = put_u64 output 40 (as_last_event_monotonic_ns status) in
     let output = put_u64 output 48 (as_last_event_received_ns status) in
     Inr output)"

definition decode_activity_status ::
  "bytes option \<Rightarrow> activity_status option \<Rightarrow> activity_status result" where
  "decode_activity_status input status = nonnull2 input status (\<lambda>input _.
     let decoded = \<lparr>as_ingress_configured = get_u32 input 0,
                  as_authenticated_event_count = get_u32 input 4,
                  as_rejected_event_count = get_u32 input 8,
                  as_last_sequence = get_u32 input 12,
                  as_last_event = get_u32 input 16,
                  as_state_flags = get_u32 input 20,
                  as_width = get_u32 input 24,
                  as_height = get_u32 input 28,
                  as_activity_pid = get_u32 input 32,
                  as_last_event_monotonic_ns = get_u64 input 40,
                  as_last_event_received_ns = get_u64 input 48\<rparr> in
     if as_ingress_configured decoded > 1 \<or>
        get_u32 input 36 \<noteq> 0 \<or>
        as_last_event decoded > BVB_LIFECYCLE_EVENT_RENDERER_FAILED then Inl EPROTO
     else
     Inr decoded)"

text \<open>
  The decoder's bound on the last event is stricter than the encoder's check: a status whose
  last event is \<^verbatim>\<open>BVB_LIFECYCLE_EVENT_NATIVE_BINDER_STATUS\<close> (13) is sent and refused.
\<close>

interpretation activity_status_codec: wire_codec BVB_ACTIVITY_STATUS_SIZE
  "\<lambda>status. as_ingress_configured status \<le> 1"
  "\<lambda>status. as_ingress_configured status \<le> 1 \<and>
      as_last_event status \<le> BVB_LIFECYCLE_EVENT_RENDERER_FAILED"
  encode_activity_status decode_activity_status
  by unfold_locales
    (auto simp: encode_activity_status_def decode_activity_status_def
      wire_simps split: codec_splits)

subsection \<open>Properties\<close>

text \<open>
  The messages about shared batches, command streams, descriptor journals and the self-test keep
  the codec contract.
\<close>

lemma batch_messages:
  "codec_contract BVB_HELLO_RESPONSE_SIZE (\<lambda>_. True)
     (\<lambda>response. her_negotiated_version response \<noteq> 0 \<and>
      her_pointer_bits response \<noteq> 0 \<and>
      her_page_size response \<noteq> 0)
     encode_hello_response decode_hello_response \<and>
   codec_contract BVB_SHARED_BATCH_SETUP_SIZE (\<lambda>_. True)
     (\<lambda>setup. sbs_generation setup \<noteq> 0 \<and>
      sbs_region_bytes setup \<ge> BVB_SHARED_BATCH_MIN_BYTES \<and>
      sbs_region_bytes setup \<le> BVB_SHARED_BATCH_MAX_BYTES)
     encode_shared_batch_setup decode_shared_batch_setup \<and>
   codec_contract BVB_SHARED_BATCH_SETUP_SIZE (\<lambda>_. True)
     (\<lambda>setup. sbs_generation setup \<noteq> 0 \<and>
      sbs_region_bytes setup = BVB_COMMAND_STREAM_REGION_BYTES)
     encode_vulkan_command_stream_setup decode_vulkan_command_stream_setup \<and>
   codec_contract BVB_SHARED_BATCH_SETUP_SIZE (\<lambda>_. True)
     (\<lambda>setup. sbs_generation setup \<noteq> 0 \<and>
      sbs_region_bytes setup = BVB_DESCRIPTOR_JOURNAL_REGION_BYTES)
     encode_vulkan_descriptor_journal_setup decode_vulkan_descriptor_journal_setup \<and>
   codec_contract BVB_DESCRIPTOR_JOURNAL_FLUSH_SIZE (\<lambda>_. True)
     (\<lambda>flush. djf_generation flush \<noteq> 0 \<and>
      djf_sequence flush \<noteq> 0 \<and>
      djf_length flush \<noteq> 0 \<and>
      djf_length flush \<le> BVB_DESCRIPTOR_JOURNAL_REGION_BYTES \<and>
      djf_record_count flush \<noteq> 0 \<and>
      djf_record_count flush \<le> BVB_DESCRIPTOR_JOURNAL_MAX_RECORDS)
     encode_vulkan_descriptor_journal_flush decode_vulkan_descriptor_journal_flush \<and>
   codec_contract BVB_SHARED_BATCH_EXECUTE_SIZE (\<lambda>_. True)
     (\<lambda>execute. sbe_generation execute \<noteq> 0 \<and>
      sbe_length execute \<ge> BVB_COMMAND_BATCH_HEADER_SIZE \<and>
      sbe_length execute \<le> BVB_COMMAND_BATCH_MAX_BYTES \<and>
      sbe_sequence execute \<noteq> 0)
     encode_shared_batch_execute decode_shared_batch_execute \<and>
   codec_contract BVB_VULKAN_SELFTEST_SIZE (\<lambda>_. True)
     (\<lambda>result. sr_buffer_bytes result \<noteq> 0)
     encode_vulkan_selftest decode_vulkan_selftest"
  by (intro conjI hello_response_codec.contract shared_batch_setup_codec.contract
      command_stream_setup_codec.contract descriptor_journal_setup_codec.contract
      descriptor_journal_flush_codec.contract shared_batch_execute_codec.contract
      selftest_codec.contract)

definition sample_status :: activity_status where
  "sample_status = \<lparr>as_ingress_configured = 1, as_authenticated_event_count = 1, as_rejected_event_count = 0,
     as_last_sequence = 1, as_last_event = 13, as_state_flags = 0, as_width = 0, as_height = 0,
     as_activity_pid = 4711, as_last_event_monotonic_ns = 1, as_last_event_received_ns = 2\<rparr>"

text \<open>
  C27: The two sides of the activity status disagree. Every status the service may send is encoded,
  and the client decodes it unchanged exactly when its last event is at most
  \<^verbatim>\<open>BVB_LIFECYCLE_EVENT_RENDERER_FAILED\<close> (12); a status whose last event is the native-binder status
  (13), which the lifecycle records of the same protocol allow, is sent and then refused with EPROTO.
\<close>

theorem activity_status_disagreement:
  assumes "as_ingress_configured s \<le> 1" "length b = BVB_ACTIVITY_STATUS_SIZE"
  shows "\<exists>m. encode_activity_status (Some b) (Some s) = Inr m \<and> length m = BVB_ACTIVITY_STATUS_SIZE \<and>
    decode_activity_status (Some m) (Some d) = (if as_last_event s \<le> 12 then Inr s else Inl EPROTO)"
  using activity_status_codec.enc_dec [OF assms, of d] assms(1) by simp

theorem activity_status_disagreement_witness:
  "\<exists>m. encode_activity_status (Some (replicate 56 0)) (Some sample_status) = Inr m \<and>
     decode_activity_status (Some m) (Some sample_status) = Inl EPROTO"
proof -
  have "as_ingress_configured sample_status \<le> 1" "\<not> as_last_event sample_status \<le> 12"
    by (simp_all add: sample_status_def)
  then show ?thesis
    using activity_status_disagreement [of sample_status "replicate 56 0" sample_status] by auto
qed

end
