(* ===== verification/Proto_Messages.thy ===== *)
theory Proto_Messages
  imports Proto_Session Proto_Instance Proto_Device Proto_Command Proto_Resource Proto_Submit Proto_Memory_Io Proto_Batch
begin

section \<open>The fixed-size messages together\<close>

text \<open>
  The codec contract of all fixed-size messages of src/src/protocol.c, in four groups. The records,
  encoders and decoders are in the theories imported here, one for each part of the protocol.
\<close>

text \<open>
  C22: every message that opens a session, imports external memory, runs a swapchain, or asks about the
  loader, instances and physical devices keeps the
  codec contract: what passes the check is written into exactly its bytes and read back as it was, what
  does not is refused, and what is read has passed the check.
\<close>

theorem opening_messages:
  "(codec_contract BVB_HELLO_REQUEST_SIZE (\<lambda>_. True)
     (\<lambda>request. hr_minimum_version request \<noteq> 0 \<and>
      hr_minimum_version request \<le> hr_maximum_version request)
     encode_hello_request decode_hello_request \<and>
   codec_contract BVB_EXTERNAL_MEMORY_IMPORT_REQUEST_SIZE (\<lambda>_. True)
     (\<lambda>request. emir_allocation_size request \<noteq> 0 \<and>
      emir_allocation_size request \<le> BVB_SHARED_BATCH_MAX_BYTES \<and>
      emir_memory_type_index request < 32 \<and>
      emir_buffer_bytes request \<noteq> 0 \<and>
      ucast (emir_buffer_bytes request) \<le> emir_allocation_size request)
     encode_external_memory_import_request decode_external_memory_import_request \<and>
   codec_contract BVB_EXTERNAL_SYNC_IMPORT_REQUEST_SIZE (\<lambda>_. True)
     (\<lambda>request. esir_allocation_size request \<noteq> 0 \<and>
      esir_allocation_size request \<le> BVB_SHARED_BATCH_MAX_BYTES \<and>
      esir_memory_type_index request < 32 \<and>
      esir_buffer_bytes request \<noteq> 0 \<and>
      ucast (esir_buffer_bytes request) \<le> esir_allocation_size request \<and>
      (esir_buffer_bytes request mod 4) = 0)
     encode_external_sync_import_request decode_external_sync_import_request \<and>
   codec_contract BVB_EXTERNAL_IMAGE_IMPORT_REQUEST_SIZE (\<lambda>_. True)
     (\<lambda>request. eiir_allocation_size request \<noteq> 0 \<and>
      eiir_allocation_size request \<le> BVB_SHARED_BATCH_MAX_BYTES \<and>
      eiir_memory_type_index request < 32 \<and>
      eiir_width request \<noteq> 0 \<and>
      eiir_height request \<noteq> 0 \<and>
      eiir_width request \<le> 4096 \<and>
      eiir_height request \<le> 4096 \<and>
      eiir_format request \<noteq> 0 \<and>
      eiir_width request \<le> ((BVB_SHARED_BATCH_MAX_BYTES div 4) div eiir_height request))
     encode_external_image_import_request decode_external_image_import_request \<and>
   codec_contract BVB_VULKAN_SWAPCHAIN_PREPARE_REQUEST_SIZE (\<lambda>_. True)
     (\<lambda>request. wire_id_is_type (spr_device_id request) BVB_OBJECT_DEVICE \<and>
      spr_width request \<noteq> 0 \<and>
      spr_height request \<noteq> 0 \<and>
      spr_format request \<noteq> 0 \<and>
      spr_image_usage request \<noteq> 0 \<and>
      spr_min_image_count request \<ge> 2 \<and>
      spr_min_image_count request \<le> BVB_WSI_FRAME_RING_MAX_SLOTS \<and>
      spr_flags request = 0 \<and>
      spr_generation request \<noteq> 0)
     encode_vulkan_swapchain_prepare_request decode_vulkan_swapchain_prepare_request \<and>
   codec_contract BVB_VULKAN_SWAPCHAIN_ACQUIRE_REQUEST_SIZE (\<lambda>_. True)
     (\<lambda>request. wire_id_is_type (sar_device_id request) BVB_OBJECT_DEVICE \<and>
      wire_id_is_type (sar_swapchain_id request) BVB_OBJECT_SWAPCHAIN \<and>
      (sar_semaphore_id request \<noteq> 0 \<or>
      sar_fence_id request \<noteq> 0) \<and>
      (sar_semaphore_id request = 0 \<or>
      wire_id_is_type (sar_semaphore_id request) BVB_OBJECT_SEMAPHORE) \<and>
      (sar_fence_id request = 0 \<or>
      wire_id_is_type (sar_fence_id request) BVB_OBJECT_FENCE))
     encode_vulkan_swapchain_acquire_request decode_vulkan_swapchain_acquire_request \<and>
   codec_contract BVB_VULKAN_SWAPCHAIN_ACQUIRE_RESPONSE_SIZE (\<lambda>_. True)
     (\<lambda>response. (swar_vulkan_result response \<noteq> 0 \<or>
      swar_image_index response < BVB_WSI_FRAME_RING_MAX_SLOTS) \<and>
      (swar_vulkan_result response = 0 \<or>
      swar_image_index response = 0))
     encode_vulkan_swapchain_acquire_response decode_vulkan_swapchain_acquire_response \<and>
   codec_contract BVB_VULKAN_SWAPCHAIN_PRESENT_RESPONSE_SIZE (\<lambda>_. True)
     (\<lambda>response. (swapr_vulkan_result response \<noteq> 0 \<or>
      swapr_sequence response \<noteq> 0) \<and>
      (swapr_vulkan_result response = 0 \<or>
      swapr_sequence response = 0))
     encode_vulkan_swapchain_present_response decode_vulkan_swapchain_present_response) \<and>
   (codec_contract BVB_VULKAN_GLOBAL_INFO_SIZE (\<lambda>_. True)
     (\<lambda>info. gi_loader_api_version info \<noteq> 0 \<and>
      gi_exposed_extension_count info \<le> gi_native_extension_count info \<and>
      gi_exposed_layer_count info \<le> gi_native_layer_count info)
     encode_vulkan_global_info decode_vulkan_global_info \<and>
   codec_contract BVB_VULKAN_INSTANCE_CREATE_REQUEST_SIZE (\<lambda>_. True)
     (\<lambda>_. True)
     encode_vulkan_instance_create_request decode_vulkan_instance_create_request \<and>
   codec_contract BVB_VULKAN_INSTANCE_CREATE_RESPONSE_SIZE (\<lambda>_. True)
     (\<lambda>response. (incr_vulkan_result response \<noteq> 0 \<or>
      incr_instance_id response \<noteq> 0) \<and>
      (incr_vulkan_result response = 0 \<or>
      incr_instance_id response = 0))
     encode_vulkan_instance_create_response decode_vulkan_instance_create_response \<and>
   codec_contract BVB_VULKAN_INSTANCE_ID_SIZE (\<lambda>_. True)
     (\<lambda>instance_id. wire_id_is_type instance_id 1)
     (\<lambda>p r. nonnull1 r (encode_vulkan_instance_id p)) decode_vulkan_instance_id \<and>
   codec_contract BVB_VULKAN_PHYSICAL_DEVICE_ID_SIZE (\<lambda>_. True)
     (\<lambda>physical_device_id. wire_id_is_type physical_device_id 2)
     (\<lambda>p r. nonnull1 r (encode_vulkan_physical_device_id p)) decode_vulkan_physical_device_id \<and>
   codec_contract BVB_VULKAN_FORMAT_QUERY_SIZE (\<lambda>_. True)
     (\<lambda>query. wire_id_is_type (fq_physical_device_id query) 2)
     encode_vulkan_format_query decode_vulkan_format_query \<and>
   codec_contract BVB_VULKAN_FORMAT_PROPERTIES_SIZE (\<lambda>_. True)
     (\<lambda>_. True)
     encode_vulkan_format_properties decode_vulkan_format_properties \<and>
   codec_contract BVB_VULKAN_FORMAT_PROPERTIES_3_SIZE (\<lambda>_. True)
     (\<lambda>_. True)
     encode_vulkan_format_properties_3 decode_vulkan_format_properties_3 \<and>
   codec_contract BVB_VULKAN_IMAGE_FORMAT_QUERY_SIZE (\<lambda>_. True)
     (\<lambda>query. wire_id_is_type (ifq_physical_device_id query) 2)
     encode_vulkan_image_format_query decode_vulkan_image_format_query \<and>
   codec_contract BVB_VULKAN_IMAGE_FORMAT_PROPERTIES_SIZE (\<lambda>_. True)
     (\<lambda>_. True)
     encode_vulkan_image_format_properties decode_vulkan_image_format_properties \<and>
   codec_contract BVB_VULKAN_EXTERNAL_BUFFER_QUERY_SIZE (\<lambda>_. True)
     (\<lambda>query. wire_id_is_type (ebq_physical_device_id query) 2)
     encode_vulkan_external_buffer_query decode_vulkan_external_buffer_query \<and>
   codec_contract BVB_VULKAN_EXTERNAL_BUFFER_PROPERTIES_SIZE (\<lambda>_. True)
     (\<lambda>_. True)
     encode_vulkan_external_buffer_properties decode_vulkan_external_buffer_properties \<and>
   codec_contract BVB_VULKAN_EXTERNAL_SEMAPHORE_QUERY_SIZE (\<lambda>_. True)
     (\<lambda>query. wire_id_is_type (esq_physical_device_id query) 2)
     encode_vulkan_external_semaphore_query decode_vulkan_external_semaphore_query \<and>
   codec_contract BVB_VULKAN_EXTERNAL_SEMAPHORE_PROPERTIES_SIZE (\<lambda>_. True)
     (\<lambda>_. True)
     encode_vulkan_external_semaphore_properties decode_vulkan_external_semaphore_properties)"
  by (rule conjI [OF session_messages instance_messages])

theorem opening_messages_witness:
  "\<exists>m. encode_hello_request (Some (replicate 8 0)) (Some
     \<lparr>hr_minimum_version = 1, hr_maximum_version = 2, hr_client_flags = 3\<rparr>) = Inr m \<and> length m = 8 \<and>
   decode_hello_request (Some m) (Some
     \<lparr>hr_minimum_version = 1, hr_maximum_version = 2, hr_client_flags = 3\<rparr>) =
   Inr \<lparr>hr_minimum_version = 1, hr_maximum_version = 2, hr_client_flags = 3\<rparr>"
  by (rule opening_messages [THEN conjunct1, THEN conjunct1, THEN codec_contract_roundtrip]) code_simp+

text \<open>
  C23: every message about devices, queues, command pools, command buffers, query pools and generic
  objects keeps the codec contract.
\<close>

theorem device_and_command_messages:
  "(codec_contract BVB_VULKAN_CORE_FEATURES_SIZE (\<lambda>_. True)
     (\<lambda>features. cf_shader_draw_parameters features \<le> 1 \<and>
      cf_buffer_device_address features \<le> 1 \<and>
      cf_descriptor_indexing features \<le> 1 \<and>
      cf_descriptor_binding_sampled_image_update_after_bind features \<le> 1 \<and>
      cf_descriptor_binding_update_unused_while_pending features \<le> 1 \<and>
      cf_descriptor_binding_partially_bound features \<le> 1 \<and>
      cf_host_query_reset features \<le> 1 \<and>
      cf_runtime_descriptor_array features \<le> 1 \<and>
      cf_sampler_mirror_clamp_to_edge features \<le> 1 \<and>
      cf_scalar_block_layout features \<le> 1 \<and>
      cf_timeline_semaphore features \<le> 1 \<and>
      cf_uniform_buffer_standard_layout features \<le> 1 \<and>
      cf_vulkan_memory_model features \<le> 1 \<and>
      cf_compute_full_subgroups features \<le> 1 \<and>
      cf_dynamic_rendering features \<le> 1 \<and>
      cf_maintenance4 features \<le> 1 \<and>
      cf_shader_demote_to_helper_invocation features \<le> 1 \<and>
      cf_shader_zero_initialize_workgroup_memory features \<le> 1 \<and>
      cf_subgroup_size_control features \<le> 1 \<and>
      cf_synchronization2 features \<le> 1 \<and>
      cf_depth_clip_enable features \<le> 1 \<and>
      cf_robust_buffer_access2 features \<le> 1 \<and>
      cf_null_descriptor features \<le> 1 \<and>
      cf_maintenance5 features \<le> 1 \<and>
      cf_maintenance6 features \<le> 1)
     encode_vulkan_core_features decode_vulkan_core_features \<and>
   codec_contract BVB_VULKAN_DEVICE_EXTENSION_QUERY_SIZE (\<lambda>_. True)
     (\<lambda>query. wire_id_is_type (deq_physical_device_id query) 2)
     encode_vulkan_device_extension_query decode_vulkan_device_extension_query \<and>
   codec_contract BVB_VULKAN_DEVICE_CREATE_REQUEST_SIZE (\<lambda>_. True)
     (\<lambda>request. wire_id_is_type (dcr_physical_device_id request) 2)
     encode_vulkan_device_create_request decode_vulkan_device_create_request \<and>
   codec_contract BVB_VULKAN_DEVICE_CREATE_RESPONSE_SIZE (\<lambda>_. True)
     (\<lambda>response. (decr_vulkan_result response \<noteq> 0 \<or>
      wire_id_is_type (decr_device_id response) 3) \<and>
      (decr_vulkan_result response = 0 \<or>
      decr_device_id response = 0))
     encode_vulkan_device_create_response decode_vulkan_device_create_response \<and>
   codec_contract BVB_VULKAN_DEVICE_ID_SIZE (\<lambda>_. True)
     (\<lambda>device_id. wire_id_is_type device_id 3)
     (\<lambda>p r. nonnull1 r (encode_vulkan_device_id p)) decode_vulkan_device_id \<and>
   codec_contract BVB_VULKAN_DEVICE_QUEUE_REQUEST_SIZE (\<lambda>_. True)
     (\<lambda>request. wire_id_is_type (dqr_device_id request) 3)
     encode_vulkan_device_queue_request decode_vulkan_device_queue_request \<and>
   codec_contract BVB_VULKAN_QUEUE_ID_SIZE (\<lambda>_. True)
     (\<lambda>queue_id. wire_id_is_type queue_id 4)
     (\<lambda>p r. nonnull1 r (encode_vulkan_queue_id p)) decode_vulkan_queue_id) \<and>
   (codec_contract BVB_VULKAN_RESULT_SIZE (\<lambda>_. True)
     (\<lambda>_. True)
     (\<lambda>p r. nonnull1 r (encode_vulkan_result p)) decode_vulkan_result \<and>
   codec_contract BVB_VULKAN_COMMAND_POOL_CREATE_REQUEST_SIZE (\<lambda>_. True)
     (\<lambda>request. wire_id_is_type (cpcr_device_id request) 3)
     encode_vulkan_command_pool_create_request decode_vulkan_command_pool_create_request \<and>
   codec_contract BVB_VULKAN_COMMAND_POOL_CREATE_RESPONSE_SIZE (\<lambda>_. True)
     (\<lambda>response. (copcr_vulkan_result response \<noteq> 0 \<or>
      wire_id_is_type (copcr_command_pool_id response) 10) \<and>
      (copcr_vulkan_result response = 0 \<or>
      copcr_command_pool_id response = 0))
     encode_vulkan_command_pool_create_response decode_vulkan_command_pool_create_response \<and>
   codec_contract BVB_VULKAN_COMMAND_POOL_ID_SIZE (\<lambda>_. True)
     (\<lambda>command_pool_id. wire_id_is_type command_pool_id 10)
     (\<lambda>p r. nonnull1 r (encode_vulkan_command_pool_id p)) decode_vulkan_command_pool_id \<and>
   codec_contract BVB_VULKAN_COMMAND_POOL_RESET_REQUEST_SIZE (\<lambda>_. True)
     (\<lambda>request. wire_id_is_type (cprr_command_pool_id request) 10)
     encode_vulkan_command_pool_reset_request decode_vulkan_command_pool_reset_request \<and>
   codec_contract BVB_VULKAN_COMMAND_BUFFER_ALLOCATE_REQUEST_SIZE (\<lambda>_. True)
     (\<lambda>request. wire_id_is_type (cbar_command_pool_id request) 10)
     encode_vulkan_command_buffer_allocate_request decode_vulkan_command_buffer_allocate_request \<and>
   codec_contract BVB_VULKAN_COMMAND_BUFFER_ALLOCATE_RESPONSE_SIZE (\<lambda>_. True)
     (\<lambda>response. (cobar_vulkan_result response \<noteq> 0 \<or>
      wire_id_is_type (cobar_command_buffer_id response) 11) \<and>
      (cobar_vulkan_result response = 0 \<or>
      cobar_command_buffer_id response = 0))
     encode_vulkan_command_buffer_allocate_response decode_vulkan_command_buffer_allocate_response \<and>
   codec_contract BVB_VULKAN_COMMAND_BUFFER_FREE_REQUEST_SIZE (\<lambda>_. True)
     (\<lambda>request. wire_id_is_type (cbfr_command_pool_id request) 10 \<and>
      wire_id_is_type (cbfr_command_buffer_id request) 11)
     encode_vulkan_command_buffer_free_request decode_vulkan_command_buffer_free_request \<and>
   codec_contract BVB_VULKAN_COMMAND_BUFFER_BEGIN_REQUEST_SIZE (\<lambda>_. True)
     (\<lambda>request. wire_id_is_type (cbbr_command_buffer_id request) 11)
     encode_vulkan_command_buffer_begin_request decode_vulkan_command_buffer_begin_request \<and>
   codec_contract BVB_VULKAN_COMMAND_BUFFER_ID_SIZE (\<lambda>_. True)
     (\<lambda>command_buffer_id. wire_id_is_type command_buffer_id 11)
     (\<lambda>p r. nonnull1 r (encode_vulkan_command_buffer_id p)) decode_vulkan_command_buffer_id \<and>
   codec_contract BVB_VULKAN_QUEUE_SUBMIT_COMMAND_REQUEST_SIZE (\<lambda>_. True)
     (\<lambda>request. wire_id_is_type (qscr_queue_id request) 4 \<and>
      wire_id_is_type (qscr_command_buffer_id request) 11)
     encode_vulkan_queue_submit_command_request decode_vulkan_queue_submit_command_request \<and>
   codec_contract BVB_VULKAN_OBJECT_CREATE_RESPONSE_SIZE (\<lambda>_. True)
     (\<lambda>response. (ocr_vulkan_result response \<noteq> 0 \<or>
      wire_id_is_type (ocr_object_id response) expected_type) \<and>
      (ocr_vulkan_result response = 0 \<or>
      ocr_object_id response = 0))
     (\<lambda>p r. encode_vulkan_object_create_response p r expected_type) (\<lambda>p r. decode_vulkan_object_create_response p r expected_type) \<and>
   codec_contract BVB_VULKAN_QUERY_POOL_CREATE_REQUEST_SIZE (\<lambda>_. True)
     (\<lambda>request. wire_id_is_type (qpcr_device_id request) BVB_OBJECT_DEVICE \<and>
      qpcr_flags request = 0 \<and>
      query_type_is_supported (qpcr_query_type request) \<and>
      qpcr_query_count request \<noteq> 0 \<and>
      qpcr_query_count request \<le> 1048576 \<and>
      (if qpcr_query_type request = VK_QUERY_TYPE_PIPELINE_STATISTICS then qpcr_pipeline_statistics request \<noteq> 0 \<and>
      (qpcr_pipeline_statistics request AND NOT 0x7ff) = 0 else qpcr_pipeline_statistics request = 0))
     encode_vulkan_query_pool_create_request decode_vulkan_query_pool_create_request \<and>
   codec_contract BVB_VULKAN_QUERY_POOL_RESULTS_REQUEST_SIZE (\<lambda>_. True)
     (\<lambda>request. wire_id_is_type (qprr_query_pool_id request) BVB_OBJECT_QUERY_POOL \<and>
      qprr_data_size request \<noteq> 0 \<and>
      qprr_data_size request \<le> BVB_VULKAN_QUERY_POOL_RESULTS_MAX_BYTES \<and>
      qprr_stride request \<noteq> 0 \<and>
      qprr_stride request \<le> qprr_data_size request \<and>
      qprr_query_count request \<noteq> 0 \<and>
      qprr_query_count request \<le> 256 \<and>
      qprr_first_query request \<le> (0xffffffff - qprr_query_count request) \<and>
      (qprr_flags request AND NOT 0x1f) = 0)
     encode_vulkan_query_pool_results_request decode_vulkan_query_pool_results_request \<and>
   codec_contract BVB_VULKAN_QUERY_POOL_RESET_REQUEST_SIZE (\<lambda>_. True)
     (\<lambda>request. wire_id_is_type (quprr_query_pool_id request) BVB_OBJECT_QUERY_POOL \<and>
      quprr_query_count request \<noteq> 0 \<and>
      quprr_first_query request \<le> (0xffffffff - quprr_query_count request))
     encode_vulkan_query_pool_reset_request decode_vulkan_query_pool_reset_request \<and>
   codec_contract BVB_VULKAN_OBJECT_ID_SIZE (\<lambda>_. True)
     (\<lambda>object_id. wire_id_is_type object_id expected_type)
     (\<lambda>p r. nonnull1 r (\<lambda>x. encode_vulkan_object_id p x expected_type)) (\<lambda>p r. decode_vulkan_object_id p r expected_type))"
  by (rule conjI [OF device_messages command_messages])

theorem device_and_command_messages_witness:
  "\<exists>m. encode_vulkan_device_extension_query (Some (replicate 16 0)) (Some
     \<lparr>deq_physical_device_id = 0x0200000000000001, deq_first = 0, deq_max_count = 4\<rparr>) = Inr m \<and> length m = 16 \<and>
   decode_vulkan_device_extension_query (Some m) (Some
     \<lparr>deq_physical_device_id = 0x0200000000000001, deq_first = 0, deq_max_count = 4\<rparr>) =
   Inr \<lparr>deq_physical_device_id = 0x0200000000000001, deq_first = 0, deq_max_count = 4\<rparr>"
  by (rule device_and_command_messages [THEN conjunct1, THEN conjunct2, THEN conjunct1, THEN codec_contract_roundtrip]) code_simp+



text \<open>
  C25: every message about fills, clears, fences, semaphores, submissions, shared batches, command
  streams, descriptor journals and the self-test keeps the codec contract.
\<close>

theorem work_messages:
  "(codec_contract BVB_VULKAN_COMMAND_BUFFER_FILL_REQUEST_SIZE (\<lambda>_. True)
     (\<lambda>request. cobfr_size request \<noteq> 0 \<and>
      wire_id_is_type (cobfr_command_buffer_id request) 11 \<and>
      wire_id_is_type (cobfr_buffer_id request) 19)
     encode_vulkan_command_buffer_fill_request decode_vulkan_command_buffer_fill_request \<and>
   codec_contract BVB_VULKAN_COMMAND_BUFFER_CLEAR_COLOR_IMAGE_REQUEST_SIZE (\<lambda>_. True)
     (\<lambda>request. wire_id_is_type (cbccir_command_buffer_id request) 11 \<and>
      wire_id_is_type (cbccir_image_id request) BVB_OBJECT_IMAGE)
     encode_vulkan_command_buffer_clear_color_image_request decode_vulkan_command_buffer_clear_color_image_request \<and>
   codec_contract BVB_VULKAN_MEMORY_VERIFY_FILL_REQUEST_SIZE (\<lambda>_. True)
     (\<lambda>request. mvfr_size request \<noteq> 0 \<and>
      wire_id_is_type (mvfr_memory_id request) 9)
     encode_vulkan_memory_verify_fill_request decode_vulkan_memory_verify_fill_request \<and>
   codec_contract BVB_VULKAN_MEMORY_VERIFY_FILL_RESPONSE_SIZE (\<lambda>_. True)
     (\<lambda>_. True)
     encode_vulkan_memory_verify_fill_response decode_vulkan_memory_verify_fill_response \<and>
   codec_contract BVB_VULKAN_FENCE_CREATE_REQUEST_SIZE (\<lambda>_. True)
     (\<lambda>request. wire_id_is_type (fcr_device_id request) 3)
     encode_vulkan_fence_create_request decode_vulkan_fence_create_request \<and>
   codec_contract BVB_VULKAN_FENCE_WAIT_REQUEST_SIZE (\<lambda>_. True)
     (\<lambda>request. fwr_wait_all request \<le> 1 \<and>
      wire_id_is_type (fwr_fence_id request) 18)
     encode_vulkan_fence_wait_request decode_vulkan_fence_wait_request \<and>
   codec_contract BVB_VULKAN_QUEUE_SUBMIT_COMMAND_FENCE_REQUEST_SIZE (\<lambda>_. True)
     (\<lambda>request. wire_id_is_type (qscfr_queue_id request) 4 \<and>
      wire_id_is_type (qscfr_command_buffer_id request) 11 \<and>
      wire_id_is_type (qscfr_fence_id request) 18)
     encode_vulkan_queue_submit_command_fence_request decode_vulkan_queue_submit_command_fence_request \<and>
   codec_contract BVB_VULKAN_SEMAPHORE_CREATE_REQUEST_SIZE (\<lambda>_. True)
     (\<lambda>request. wire_id_is_type (scr_device_id request) 3)
     encode_vulkan_semaphore_create_request decode_vulkan_semaphore_create_request \<and>
   codec_contract BVB_VULKAN_SEMAPHORE_COUNTER_RESPONSE_SIZE (\<lambda>_. True)
     (\<lambda>_. True)
     encode_vulkan_semaphore_counter_response decode_vulkan_semaphore_counter_response \<and>
   codec_contract BVB_VULKAN_SEMAPHORE_SIGNAL_REQUEST_SIZE (\<lambda>_. True)
     (\<lambda>request. wire_id_is_type (ssr_device_id request) 3 \<and>
      wire_id_is_type (ssr_semaphore_id request) 17)
     encode_vulkan_semaphore_signal_request decode_vulkan_semaphore_signal_request) \<and>
   (codec_contract BVB_HELLO_RESPONSE_SIZE (\<lambda>_. True)
     (\<lambda>response. her_negotiated_version response \<noteq> 0 \<and>
      her_pointer_bits response \<noteq> 0 \<and>
      her_page_size response \<noteq> 0)
     encode_hello_response decode_hello_response \<and>
   codec_contract BVB_SHARED_BATCH_SETUP_SIZE (\<lambda>_. True)
     (\<lambda>setup. sbs_generation setup \<noteq> 0 \<and>
      sbs_region_bytes setup \<ge> BVB_SHARED_BATCH_MIN_BYTES \<and>
      sbs_region_bytes setup \<le> BVB_SHARED_BATCH_MAX_BYTES)
     encode_shared_batch_setup decode_shared_batch_setup \<and>
   codec_contract BVB_SHARED_BATCH_SETUP_SIZE (\<lambda>_. True)
     (\<lambda>setup. sbs_generation setup \<noteq> 0 \<and>
      sbs_region_bytes setup = BVB_COMMAND_STREAM_REGION_BYTES)
     encode_vulkan_command_stream_setup decode_vulkan_command_stream_setup \<and>
   codec_contract BVB_SHARED_BATCH_SETUP_SIZE (\<lambda>_. True)
     (\<lambda>setup. sbs_generation setup \<noteq> 0 \<and>
      sbs_region_bytes setup = BVB_DESCRIPTOR_JOURNAL_REGION_BYTES)
     encode_vulkan_descriptor_journal_setup decode_vulkan_descriptor_journal_setup \<and>
   codec_contract BVB_DESCRIPTOR_JOURNAL_FLUSH_SIZE (\<lambda>_. True)
     (\<lambda>flush. djf_generation flush \<noteq> 0 \<and>
      djf_sequence flush \<noteq> 0 \<and>
      djf_length flush \<noteq> 0 \<and>
      djf_length flush \<le> BVB_DESCRIPTOR_JOURNAL_REGION_BYTES \<and>
      djf_record_count flush \<noteq> 0 \<and>
      djf_record_count flush \<le> BVB_DESCRIPTOR_JOURNAL_MAX_RECORDS)
     encode_vulkan_descriptor_journal_flush decode_vulkan_descriptor_journal_flush \<and>
   codec_contract BVB_SHARED_BATCH_EXECUTE_SIZE (\<lambda>_. True)
     (\<lambda>execute. sbe_generation execute \<noteq> 0 \<and>
      sbe_length execute \<ge> BVB_COMMAND_BATCH_HEADER_SIZE \<and>
      sbe_length execute \<le> BVB_COMMAND_BATCH_MAX_BYTES \<and>
      sbe_sequence execute \<noteq> 0)
     encode_shared_batch_execute decode_shared_batch_execute \<and>
   codec_contract BVB_VULKAN_SELFTEST_SIZE (\<lambda>_. True)
     (\<lambda>result. sr_buffer_bytes result \<noteq> 0)
     encode_vulkan_selftest decode_vulkan_selftest)"
  by (rule conjI [OF submit_messages batch_messages])

theorem work_messages_witness:
  "\<exists>m. encode_vulkan_command_buffer_fill_request (Some (replicate 40 0)) (Some
     \<lparr>cobfr_command_buffer_id = 0x0b00000000000001, cobfr_buffer_id = 0x1300000000000002,
     cobfr_offset = 0, cobfr_size = 64, cobfr_data = 0xdeadbeef\<rparr>) = Inr m \<and> length m = 40 \<and>
   decode_vulkan_command_buffer_fill_request (Some m) (Some
     \<lparr>cobfr_command_buffer_id = 0x0b00000000000001, cobfr_buffer_id = 0x1300000000000002,
     cobfr_offset = 0, cobfr_size = 64, cobfr_data = 0xdeadbeef\<rparr>) =
   Inr \<lparr>cobfr_command_buffer_id = 0x0b00000000000001, cobfr_buffer_id = 0x1300000000000002,
     cobfr_offset = 0, cobfr_size = 64, cobfr_data = 0xdeadbeef\<rparr>"
  by (rule work_messages [THEN conjunct1, THEN conjunct1, THEN codec_contract_roundtrip]) code_simp+

end
