(* ===== verification/Proto_Array.thy ===== *)
theory Proto_Array
  imports Proto_Resource Proto_Batch
begin

unbundle bit_operations_syntax

section \<open>Fixed-size messages with arrays\<close>

text \<open>
  The messages of src/src/protocol.c that hold arrays of a fixed length: image creation
  (2317-2489), the initial image barrier (2759-2809), the device buffer requirements query
  (1961-2059), the swapchain answer (3573-3667) and the visible batch messages (4281-4359). An
  array is a list of the array's length.
\<close>

subsection \<open>Image create request\<close>

record vulkan_image_create_request =
  icr_device_id :: u64
  icr_flags :: u32
  icr_image_type :: u32
  icr_format :: u32
  icr_extent_width :: u32
  icr_extent_height :: u32
  icr_extent_depth :: u32
  icr_mip_levels :: u32
  icr_array_layers :: u32
  icr_samples :: u32
  icr_tiling :: u32
  icr_usage :: u32
  icr_sharing_mode :: u32
  icr_queue_family_index_count :: u32
  icr_initial_layout :: u32
  icr_pnext_flags :: u32
  icr_view_format_count :: u32
  icr_stencil_usage :: u32
  icr_queue_family_indices :: "u32 list"
  icr_view_formats :: "u32 list"

text \<open>The first \<open>n\<close> entries are pairwise different and the rest of the array is zero.\<close>

definition distinct_prefix :: "u32 list \<Rightarrow> nat \<Rightarrow> nat \<Rightarrow> bool" where
  "distinct_prefix indices n len \<longleftrightarrow> list_all (\<lambda>index.
     \<not> (index \<ge> n \<and> indices ! index \<noteq> 0) \<and>
     list_all (\<lambda>other. \<not> (index < n \<and> indices ! index = indices ! other)) [0..<index]) [0..<len]"

definition image_create_request_valid :: "vulkan_image_create_request \<Rightarrow> bool" where
  "image_create_request_valid request \<longleftrightarrow>
     (let supported_flags = VK_IMAGE_CREATE_MUTABLE_FORMAT_BIT OR
            VK_IMAGE_CREATE_CUBE_COMPATIBLE_BIT OR VK_IMAGE_CREATE_2D_ARRAY_COMPATIBLE_BIT OR
            VK_IMAGE_CREATE_BLOCK_TEXEL_VIEW_COMPATIBLE_BIT OR VK_IMAGE_CREATE_EXTENDED_USAGE_BIT OR
            VK_IMAGE_CREATE_ALIAS_BIT;
          supported_samples = VK_SAMPLE_COUNT_1_BIT OR VK_SAMPLE_COUNT_2_BIT OR
            VK_SAMPLE_COUNT_4_BIT OR VK_SAMPLE_COUNT_8_BIT OR VK_SAMPLE_COUNT_16_BIT OR
            VK_SAMPLE_COUNT_32_BIT OR VK_SAMPLE_COUNT_64_BIT in
      \<not> (\<not> wire_id_is_type (icr_device_id request) BVB_OBJECT_DEVICE \<or>
         icr_flags request AND NOT supported_flags \<noteq> 0 \<or>
         icr_image_type request > VK_IMAGE_TYPE_3D \<or>
         icr_format request = VK_FORMAT_UNDEFINED \<or>
         icr_extent_width request = 0 \<or> icr_extent_width request > 32768 \<or>
         icr_extent_height request = 0 \<or> icr_extent_height request > 32768 \<or>
         icr_extent_depth request = 0 \<or> icr_extent_depth request > 32768 \<or>
         icr_mip_levels request = 0 \<or> icr_mip_levels request > 32 \<or>
         icr_array_layers request = 0 \<or> icr_array_layers request > 2048 \<or>
         icr_samples request = 0 \<or>
         icr_samples request AND (icr_samples request - 1) \<noteq> 0 \<or>
         icr_samples request AND NOT supported_samples \<noteq> 0 \<or>
         icr_tiling request > VK_IMAGE_TILING_LINEAR \<or>
         \<not> image_usage_valid (icr_usage request) \<or>
         icr_sharing_mode request > VK_SHARING_MODE_CONCURRENT \<or>
         icr_queue_family_index_count request > BVB_VULKAN_IMAGE_MAX_QUEUE_FAMILIES \<or>
         (icr_sharing_mode request = VK_SHARING_MODE_EXCLUSIVE \<and>
          icr_queue_family_index_count request \<noteq> 0) \<or>
         (icr_sharing_mode request = VK_SHARING_MODE_CONCURRENT \<and>
          icr_queue_family_index_count request < 2) \<or>
         (icr_initial_layout request \<noteq> VK_IMAGE_LAYOUT_UNDEFINED \<and>
          icr_initial_layout request \<noteq> VK_IMAGE_LAYOUT_PREINITIALIZED) \<or>
         icr_pnext_flags request AND NOT BVB_VULKAN_IMAGE_CREATE_PNEXT_MASK \<noteq> 0 \<or>
         icr_view_format_count request > BVB_VULKAN_IMAGE_MAX_VIEW_FORMATS \<or>
         (icr_pnext_flags request AND BVB_VULKAN_IMAGE_CREATE_PNEXT_FORMAT_LIST = 0 \<and>
          icr_view_format_count request \<noteq> 0) \<or>
         (icr_pnext_flags request AND BVB_VULKAN_IMAGE_CREATE_PNEXT_STENCIL_USAGE = 0 \<and>
          icr_stencil_usage request \<noteq> 0) \<or>
         (icr_pnext_flags request AND BVB_VULKAN_IMAGE_CREATE_PNEXT_STENCIL_USAGE \<noteq> 0 \<and>
          \<not> image_usage_valid (icr_stencil_usage request)) \<or>
         (icr_image_type request = VK_IMAGE_TYPE_1D \<and>
          (icr_extent_height request \<noteq> 1 \<or> icr_extent_depth request \<noteq> 1)) \<or>
         (icr_image_type request = VK_IMAGE_TYPE_2D \<and> icr_extent_depth request \<noteq> 1) \<or>
         (icr_image_type request = VK_IMAGE_TYPE_3D \<and> icr_array_layers request \<noteq> 1) \<or>
         (icr_flags request AND VK_IMAGE_CREATE_CUBE_COMPATIBLE_BIT \<noteq> 0 \<and>
          (icr_image_type request \<noteq> VK_IMAGE_TYPE_2D \<or>
           icr_extent_width request \<noteq> icr_extent_height request \<or>
           icr_array_layers request < 6)) \<or>
         (icr_flags request AND VK_IMAGE_CREATE_2D_ARRAY_COMPATIBLE_BIT \<noteq> 0 \<and>
          icr_image_type request \<noteq> VK_IMAGE_TYPE_3D)) \<and>
      distinct_prefix (icr_queue_family_indices request)
        (unat (icr_queue_family_index_count request)) BVB_VULKAN_IMAGE_MAX_QUEUE_FAMILIES \<and>
      list_all (\<lambda>index.
        \<not> ((index < unat (icr_view_format_count request) \<and>
            icr_view_formats request ! index = VK_FORMAT_UNDEFINED) \<or>
           (index \<ge> unat (icr_view_format_count request) \<and> icr_view_formats request ! index \<noteq> 0)))
        [0..<BVB_VULKAN_IMAGE_MAX_VIEW_FORMATS])"

definition encode_vulkan_image_create_request ::
  "bytes option \<Rightarrow> vulkan_image_create_request option \<Rightarrow> bytes result" where
  "encode_vulkan_image_create_request output request = nonnull2 output request (\<lambda>output request.
     if \<not> image_create_request_valid request then Inl EINVAL
     else
     let output = memset0 output 0 BVB_VULKAN_IMAGE_CREATE_REQUEST_SIZE in
     let output = put_u64 output 0 (icr_device_id request) in
     let output = put_u32 output 8 (icr_flags request) in
     let output = put_u32 output 12 (icr_image_type request) in
     let output = put_u32 output 16 (icr_format request) in
     let output = put_u32 output 20 (icr_extent_width request) in
     let output = put_u32 output 24 (icr_extent_height request) in
     let output = put_u32 output 28 (icr_extent_depth request) in
     let output = put_u32 output 32 (icr_mip_levels request) in
     let output = put_u32 output 36 (icr_array_layers request) in
     let output = put_u32 output 40 (icr_samples request) in
     let output = put_u32 output 44 (icr_tiling request) in
     let output = put_u32 output 48 (icr_usage request) in
     let output = put_u32 output 52 (icr_sharing_mode request) in
     let output = put_u32 output 56 (icr_queue_family_index_count request) in
     let output = put_u32 output 60 (icr_initial_layout request) in
     let output = put_u32 output 64 (icr_pnext_flags request) in
     let output = put_u32 output 68 (icr_view_format_count request) in
     let output = put_u32 output 72 (icr_stencil_usage request) in
     let output = put_each put_u32 4 output 80 (icr_queue_family_indices request) in
     let output = put_each put_u32 4 output 112 (icr_view_formats request) in
     Inr output)"

definition decode_vulkan_image_create_request ::
  "bytes option \<Rightarrow> vulkan_image_create_request option \<Rightarrow> vulkan_image_create_request result" where
  "decode_vulkan_image_create_request input request = nonnull2 input request (\<lambda>input _.
     let decoded = \<lparr>icr_device_id = get_u64 input 0, icr_flags = get_u32 input 8,
       icr_image_type = get_u32 input 12, icr_format = get_u32 input 16,
       icr_extent_width = get_u32 input 20, icr_extent_height = get_u32 input 24,
       icr_extent_depth = get_u32 input 28, icr_mip_levels = get_u32 input 32,
       icr_array_layers = get_u32 input 36, icr_samples = get_u32 input 40,
       icr_tiling = get_u32 input 44, icr_usage = get_u32 input 48,
       icr_sharing_mode = get_u32 input 52, icr_queue_family_index_count = get_u32 input 56,
       icr_initial_layout = get_u32 input 60, icr_pnext_flags = get_u32 input 64,
       icr_view_format_count = get_u32 input 68, icr_stencil_usage = get_u32 input 72,
       icr_queue_family_indices = get_each get_u32 4 input 80 BVB_VULKAN_IMAGE_MAX_QUEUE_FAMILIES,
       icr_view_formats = get_each get_u32 4 input 112 BVB_VULKAN_IMAGE_MAX_VIEW_FORMATS\<rparr> in
     if get_u32 input 76 \<noteq> 0 then Inl EPROTO
     else if \<not> image_create_request_valid decoded then Inl EPROTO
     else Inr decoded)"

lemma image_create_request_collapse [wire_simps]:
  "\<lparr>icr_device_id = icr_device_id r, icr_flags = icr_flags r,
    icr_image_type = icr_image_type r, icr_format = icr_format r,
    icr_extent_width = icr_extent_width r, icr_extent_height = icr_extent_height r,
    icr_extent_depth = icr_extent_depth r, icr_mip_levels = icr_mip_levels r,
    icr_array_layers = icr_array_layers r, icr_samples = icr_samples r,
    icr_tiling = icr_tiling r, icr_usage = icr_usage r,
    icr_sharing_mode = icr_sharing_mode r,
    icr_queue_family_index_count = icr_queue_family_index_count r,
    icr_initial_layout = icr_initial_layout r, icr_pnext_flags = icr_pnext_flags r,
    icr_view_format_count = icr_view_format_count r, icr_stencil_usage = icr_stencil_usage r,
    icr_queue_family_indices = icr_queue_family_indices r,
    icr_view_formats = icr_view_formats r\<rparr> = r"
  by simp

interpretation image_create_request_codec: shaped_codec BVB_VULKAN_IMAGE_CREATE_REQUEST_SIZE
  "\<lambda>r. length (icr_queue_family_indices r) = BVB_VULKAN_IMAGE_MAX_QUEUE_FAMILIES \<and>
      length (icr_view_formats r) = BVB_VULKAN_IMAGE_MAX_VIEW_FORMATS"
  image_create_request_valid encode_vulkan_image_create_request decode_vulkan_image_create_request
  by unfold_locales
    (auto simp: encode_vulkan_image_create_request_def decode_vulkan_image_create_request_def
      wire_simps split: codec_splits)

text \<open>The two loops of the validator, as what they check.\<close>

lemma distinct_take_iff: "n \<le> length xs \<Longrightarrow> distinct (take n xs) \<longleftrightarrow> (\<forall>i < n. \<forall>j < i. xs ! i \<noteq> xs ! j)"
proof -
  assume n: "n \<le> length xs"
  have "distinct (take n xs) \<longleftrightarrow> (\<forall>i < n. \<forall>j < n. i \<noteq> j \<longrightarrow> xs ! i \<noteq> xs ! j)"
    using n by (auto simp: distinct_conv_nth)
  also have "\<dots> \<longleftrightarrow> (\<forall>i < n. \<forall>j < i. xs ! i \<noteq> xs ! j)"
  proof (intro iffI allI impI)
    fix i j assume lt: "\<forall>i < n. \<forall>j < i. xs ! i \<noteq> xs ! j" and ij: "i < n" "j < n" "i \<noteq> j"
    consider "i < j" | "j < i" using ij(3) by linarith
    then show "xs ! i \<noteq> xs ! j" using lt ij by cases force+
  qed auto
  finally show ?thesis .
qed

lemma distinct_prefix_iff:
  assumes "n \<le> len" "length xs = len"
  shows "distinct_prefix xs n len \<longleftrightarrow> distinct (take n xs) \<and> (\<forall>i < len. n \<le> i \<longrightarrow> xs ! i = 0)"
proof -
  have "distinct_prefix xs n len \<longleftrightarrow>
      (\<forall>i < len. (n \<le> i \<longrightarrow> xs ! i = 0) \<and> (\<forall>j < i. i < n \<longrightarrow> xs ! i \<noteq> xs ! j))"
    by (auto simp: distinct_prefix_def list_all_upt)
  also have "\<dots> \<longleftrightarrow> (\<forall>i < n. \<forall>j < i. xs ! i \<noteq> xs ! j) \<and> (\<forall>i < len. n \<le> i \<longrightarrow> xs ! i = 0)"
    by (intro iffI conjI allI impI) (use assms(1) in auto)
  finally show ?thesis using assms distinct_take_iff [of n xs] by simp
qed

subsection \<open>Image barrier request\<close>

record vulkan_command_buffer_image_barrier_request =
  cbibr_command_buffer_id :: u64
  cbibr_image_count :: u32
  cbibr_image_ids :: "u64 list"

definition init_image_barrier_request_valid ::
  "vulkan_command_buffer_image_barrier_request \<Rightarrow> bool" where
  "init_image_barrier_request_valid request \<longleftrightarrow>
     \<not> (\<not> wire_id_is_type (cbibr_command_buffer_id request) 11 \<or> cbibr_image_count request = 0 \<or>
        cbibr_image_count request > BVB_VULKAN_INIT_IMAGE_MAX_BARRIERS) \<and>
     list_all (\<lambda>index.
       wire_id_is_type (cbibr_image_ids request ! index) BVB_OBJECT_IMAGE \<and>
       list_all (\<lambda>earlier. cbibr_image_ids request ! earlier \<noteq> cbibr_image_ids request ! index)
         [0..<index]) [0..<unat (cbibr_image_count request)]"

definition encode_vulkan_command_buffer_image_barrier_request ::
  "bytes option \<Rightarrow> vulkan_command_buffer_image_barrier_request option \<Rightarrow> bytes result" where
  "encode_vulkan_command_buffer_image_barrier_request output request =
     nonnull2 output request (\<lambda>output request.
     if \<not> init_image_barrier_request_valid request then Inl EINVAL
     else
     let output = memset0 output 0 BVB_VULKAN_COMMAND_BUFFER_IMAGE_BARRIER_REQUEST_SIZE in
     let output = put_u64 output 0 (cbibr_command_buffer_id request) in
     let output = put_u32 output 8 (cbibr_image_count request) in
     let output = put_each put_u64 8 output 16
           (take (unat (cbibr_image_count request)) (cbibr_image_ids request)) in
     Inr output)"

definition decode_vulkan_command_buffer_image_barrier_request ::
  "bytes option \<Rightarrow> vulkan_command_buffer_image_barrier_request option \<Rightarrow>
   vulkan_command_buffer_image_barrier_request result" where
  "decode_vulkan_command_buffer_image_barrier_request input request =
     nonnull2 input request (\<lambda>input _.
     let decoded = \<lparr>cbibr_command_buffer_id = get_u64 input 0, cbibr_image_count = get_u32 input 8,
       cbibr_image_ids = get_each get_u64 8 input 16 BVB_VULKAN_INIT_IMAGE_MAX_BARRIERS\<rparr> in
     if get_u32 input 12 \<noteq> 0 then Inl EPROTO
     else if list_ex (\<lambda>index. index \<ge> unat (cbibr_image_count decoded) \<and>
                              cbibr_image_ids decoded ! index \<noteq> 0)
               [0..<BVB_VULKAN_INIT_IMAGE_MAX_BARRIERS] then Inl EPROTO
     else if \<not> init_image_barrier_request_valid decoded then Inl EPROTO
     else Inr decoded)"

text \<open>The peer receives the used image identifiers and zeros after them.\<close>

definition image_barrier_norm ::
  "vulkan_command_buffer_image_barrier_request \<Rightarrow> vulkan_command_buffer_image_barrier_request" where
  "image_barrier_norm r = r\<lparr>cbibr_image_ids := take (unat (cbibr_image_count r)) (cbibr_image_ids r) @
     replicate (BVB_VULKAN_INIT_IMAGE_MAX_BARRIERS - unat (cbibr_image_count r)) 0\<rparr>"

lemma image_barrier_valid_cong:
  assumes "cbibr_command_buffer_id r' = cbibr_command_buffer_id r"
    "cbibr_image_count r' = cbibr_image_count r"
    "take (unat (cbibr_image_count r)) (cbibr_image_ids r') = take (unat (cbibr_image_count r)) (cbibr_image_ids r)"
  shows "init_image_barrier_request_valid r' = init_image_barrier_request_valid r"
proof -
  have "cbibr_image_ids r' ! i = cbibr_image_ids r ! i" if "i < unat (cbibr_image_count r)" for i
    using assms(3) that by (metis nth_take)
  then show ?thesis
    by (auto simp: init_image_barrier_request_valid_def assms(1,2) list_all_upt)
qed

lemma image_barrier_norm_valid:
  assumes "length (cbibr_image_ids r) = 4" "init_image_barrier_request_valid r"
  shows "init_image_barrier_request_valid (image_barrier_norm r)"
proof -
  have "take (unat (cbibr_image_count r)) (cbibr_image_ids (image_barrier_norm r)) =
      take (unat (cbibr_image_count r)) (cbibr_image_ids r)"
    using assms by (simp add: image_barrier_norm_def)
  then show ?thesis
    using assms(2) image_barrier_valid_cong [of "image_barrier_norm r" r]
    by (simp add: image_barrier_norm_def)
qed

lemma image_barrier_roundtrip:
  assumes "length (cbibr_image_ids r) = 4" "init_image_barrier_request_valid r" "length b = 48"
  shows "\<exists>m. encode_vulkan_command_buffer_image_barrier_request (Some b) (Some r) = Inr m \<and>
    length m = 48 \<and>
    decode_vulkan_command_buffer_image_barrier_request (Some m) (Some d) = Inr (image_barrier_norm r)"
proof -
  let ?n = "unat (cbibr_image_count r)" and ?ids = "cbibr_image_ids r"
  have n: "?n \<le> 4"
    using assms(2) by (auto simp: init_image_barrier_request_valid_def word_le_nat_alt not_less)
  define m where "m = put_each put_u64 8 (put_u32 (put_u64 (memset0 b 0 48) 0
     (cbibr_command_buffer_id r)) 8 (cbibr_image_count r)) 16 (take ?n ?ids)"
  have enc: "encode_vulkan_command_buffer_image_barrier_request (Some b) (Some r) = Inr m"
    using assms(2) by (simp add: encode_vulkan_command_buffer_image_barrier_request_def m_def)
  have ids: "get_each get_u64 8 m 16 4 = take ?n ?ids @ replicate (4 - ?n) 0"
    using n assms by (simp add: m_def get_words_longer wire_simps)
  have rest: "get_u64 m 0 = cbibr_command_buffer_id r" "get_u32 m 8 = cbibr_image_count r"
    "get_u32 m 12 = 0" "length m = 48"
    using n assms by (simp_all add: m_def wire_simps)
  have "\<lparr>cbibr_command_buffer_id = cbibr_command_buffer_id r, cbibr_image_count = cbibr_image_count r,
      cbibr_image_ids = take ?n ?ids @ replicate (4 - ?n) 0\<rparr> = image_barrier_norm r"
    by (simp add: image_barrier_norm_def)
  moreover have "\<not> list_ex (\<lambda>i. ?n \<le> i \<and> (take ?n ?ids @ replicate (4 - ?n) 0) ! i \<noteq> 0) [0..<4]"
    using n assms(1) by (auto simp: list_ex_upt nth_append)
  ultimately show ?thesis
    using enc rest image_barrier_norm_valid [OF assms(1,2)]
    by (auto simp: decode_vulkan_command_buffer_image_barrier_request_def Let_def ids)
qed

lemma image_barrier_decoded:
  assumes "decode_vulkan_command_buffer_image_barrier_request (Some m) (Some d) = Inr r"
  shows "length (cbibr_image_ids r) = 4 \<and> init_image_barrier_request_valid r \<and> image_barrier_norm r = r"
proof -
  have r: "length (cbibr_image_ids r) = 4" "init_image_barrier_request_valid r"
    "\<forall>i < 4. unat (cbibr_image_count r) \<le> i \<longrightarrow> cbibr_image_ids r ! i = 0"
    using assms
    by (auto simp: decode_vulkan_command_buffer_image_barrier_request_def Let_def list_ex_upt split: if_splits)
  have "unat (cbibr_image_count r) \<le> 4"
    using r(2) by (auto simp: init_image_barrier_request_valid_def word_le_nat_alt not_less)
  then have "take (unat (cbibr_image_count r)) (cbibr_image_ids r) @
      replicate (4 - unat (cbibr_image_count r)) 0 = cbibr_image_ids r"
    using r(1,3) by (intro nth_equalityI) (auto simp: nth_append)
  then show ?thesis using r by (simp add: image_barrier_norm_def)
qed

interpretation image_barrier_codec: array_codec BVB_VULKAN_COMMAND_BUFFER_IMAGE_BARRIER_REQUEST_SIZE
  "\<lambda>r. length (cbibr_image_ids r) = BVB_VULKAN_INIT_IMAGE_MAX_BARRIERS"
  init_image_barrier_request_valid init_image_barrier_request_valid image_barrier_norm
  encode_vulkan_command_buffer_image_barrier_request decode_vulkan_command_buffer_image_barrier_request
proof (unfold_locales, goal_cases)
  case (6 x b d) then show ?case using image_barrier_roundtrip [of x b d] by simp
next
  case (7 m d x) then show ?case using image_barrier_decoded [of m d x] by simp
qed (auto simp: encode_vulkan_command_buffer_image_barrier_request_def
    decode_vulkan_command_buffer_image_barrier_request_def Let_def split: if_splits)

subsection \<open>Swapchain prepare response\<close>

record vulkan_swapchain_image_record =
  sir_image_id :: u64
  sir_allocation_size :: u64
  sir_memory_type_index :: u32

record vulkan_swapchain_prepare_response =
  spr_vulkan_result :: i32
  spr_image_count :: u32
  spr_swapchain_id :: u64
  spr_generation :: u64
  spr_control_region_bytes :: u32
  spr_flags :: u32
  spr_images :: "vulkan_swapchain_image_record list"

abbreviation (input) WSI_MAX_SLOTS :: "'a::numeral" where "WSI_MAX_SLOTS \<equiv> 4"
abbreviation (input) SWAPCHAIN_PREPARE_KNOWN_FLAGS :: u32 where "SWAPCHAIN_PREPARE_KNOWN_FLAGS \<equiv> 1"

definition swapchain_response_is_valid :: "vulkan_swapchain_prepare_response \<Rightarrow> bool" where
  "swapchain_response_is_valid response \<longleftrightarrow>
     (if spr_vulkan_result response \<noteq> 0 then
        \<not> (spr_image_count response \<noteq> 0 \<or> spr_swapchain_id response \<noteq> 0 \<or>
           spr_generation response \<noteq> 0 \<or> spr_control_region_bytes response \<noteq> 0 \<or>
           spr_flags response \<noteq> 0) \<and>
        list_all (\<lambda>index. let img = spr_images response ! index in
          \<not> (sir_image_id img \<noteq> 0 \<or> sir_allocation_size img \<noteq> 0 \<or> sir_memory_type_index img \<noteq> 0))
          [0..<WSI_MAX_SLOTS]
      else
        \<not> (spr_image_count response < 2 \<or> spr_image_count response > WSI_MAX_SLOTS \<or>
           \<not> wire_id_is_type (spr_swapchain_id response) BVB_OBJECT_SWAPCHAIN \<or>
           spr_generation response = 0 \<or> spr_control_region_bytes response \<noteq> 4096 \<or>
           spr_flags response AND NOT SWAPCHAIN_PREPARE_KNOWN_FLAGS \<noteq> 0) \<and>
        list_all (\<lambda>index. let img = spr_images response ! index in
          if index < unat (spr_image_count response)
          then wire_id_is_type (sir_image_id img) BVB_OBJECT_IMAGE \<and> sir_allocation_size img \<noteq> 0
          else \<not> (sir_image_id img \<noteq> 0 \<or> sir_allocation_size img \<noteq> 0 \<or>
                  sir_memory_type_index img \<noteq> 0))
          [0..<WSI_MAX_SLOTS])"

definition put_swapchain_image :: "bytes \<Rightarrow> nat \<Rightarrow> vulkan_swapchain_image_record \<Rightarrow> bytes" where
  "put_swapchain_image output offset img =
     (let output = put_u64 output offset (sir_image_id img) in
      let output = put_u64 output (offset + 8) (sir_allocation_size img) in
      put_u32 output (offset + 16) (sir_memory_type_index img))"

definition get_swapchain_image :: "bytes \<Rightarrow> nat \<Rightarrow> vulkan_swapchain_image_record" where
  "get_swapchain_image input offset =
     \<lparr>sir_image_id = get_u64 input offset, sir_allocation_size = get_u64 input (offset + 8),
      sir_memory_type_index = get_u32 input (offset + 16)\<rparr>"

definition encode_vulkan_swapchain_prepare_response ::
  "bytes option \<Rightarrow> vulkan_swapchain_prepare_response option \<Rightarrow> bytes result" where
  "encode_vulkan_swapchain_prepare_response output response = nonnull2 output response (\<lambda>output response.
     if \<not> swapchain_response_is_valid response then Inl EINVAL
     else
     let output = memset0 output 0 128 in
     let output = put_i32 output 0 (spr_vulkan_result response) in
     let output = put_u32 output 4 (spr_image_count response) in
     let output = put_u64 output 8 (spr_swapchain_id response) in
     let output = put_u64 output 16 (spr_generation response) in
     let output = put_u32 output 24 (spr_control_region_bytes response) in
     let output = put_u32 output 28 (spr_flags response) in
     let output = put_each put_swapchain_image 24 output 32
           (take (unat (spr_image_count response)) (spr_images response)) in
     Inr output)"

definition decode_vulkan_swapchain_prepare_response ::
  "bytes option \<Rightarrow> vulkan_swapchain_prepare_response option \<Rightarrow>
   vulkan_swapchain_prepare_response result" where
  "decode_vulkan_swapchain_prepare_response input response = nonnull2 input response (\<lambda>input _.
     let decoded = \<lparr>spr_vulkan_result = get_i32 input 0, spr_image_count = get_u32 input 4,
       spr_swapchain_id = get_u64 input 8, spr_generation = get_u64 input 16,
       spr_control_region_bytes = get_u32 input 24, spr_flags = get_u32 input 28,
       spr_images = get_each get_swapchain_image 24 input 32 WSI_MAX_SLOTS\<rparr> in
     if list_ex (\<lambda>index. get_u32 input (32 + index * 24 + 20) \<noteq> 0) [0..<WSI_MAX_SLOTS] then Inl EPROTO
     else if \<not> swapchain_response_is_valid decoded then Inl EPROTO
     else Inr decoded)"

text \<open>One image record, with the reserved word after it.\<close>

interpretation swapchain_image_field: wire_field 24 put_swapchain_image get_swapchain_image "\<lambda>_. True"
proof (unfold_locales, goal_cases)
  case (4 i b c)
  then show ?case
    by (auto simp: get_swapchain_image_def intro!: get_u64_local get_u32_local)
qed (auto simp: put_swapchain_image_def get_swapchain_image_def Let_def wire_simps nth_put)

lemma put_swapchain_image_reserved:
  "i + 24 \<le> length b \<Longrightarrow> get_u32 (put_swapchain_image b i v) (i + 20) = get_u32 b (i + 20)"
  by (simp add: put_swapchain_image_def Let_def wire_simps)

lemma put_images_reserved:
  "at + length xs * 24 \<le> length b \<Longrightarrow> k < n \<Longrightarrow> at + n * 24 \<le> length b \<Longrightarrow>
   get_u32 (put_each put_swapchain_image 24 b at xs) (at + k * 24 + 20) = get_u32 b (at + k * 24 + 20)"
proof (induction xs arbitrary: b at k n)
  case (Cons x xs)
  let ?c = "put_swapchain_image b at x"
  have len: "length ?c = length b" by (simp add: put_swapchain_image_def Let_def)
  have fit: "at + 24 + length xs * 24 \<le> length ?c" using Cons.prems len by simp
  show ?case
  proof (cases k)
    case 0
    have "get_u32 (put_each put_swapchain_image 24 ?c (at + 24) xs) (at + 20) = get_u32 ?c (at + 20)"
      using fit by (intro swapchain_image_field.read_other_array [OF reads_u32]) (auto simp: list_all_iff)
    then show ?thesis using 0 Cons.prems by (simp add: put_swapchain_image_reserved)
  next
    case (Suc j)
    have "get_u32 (put_each put_swapchain_image 24 ?c (at + 24) xs) (at + 24 + j * 24 + 20) =
        get_u32 ?c (at + 24 + j * 24 + 20)"
      using Cons.IH [of "at + 24" ?c j "n - 1"] Cons.prems fit len Suc by (simp add: algebra_simps)
    also have "\<dots> = get_u32 b (at + 24 + j * 24 + 20)"
      by (intro get_u32_local) (auto simp: put_swapchain_image_def Let_def nth_put)
    finally show ?thesis using Suc by (simp add: algebra_simps)
  qed
qed simp

definition zero_swapchain_image :: vulkan_swapchain_image_record where
  "zero_swapchain_image = \<lparr>sir_image_id = 0, sir_allocation_size = 0, sir_memory_type_index = 0\<rparr>"

lemma swapchain_images_tail:
  assumes "swapchain_response_is_valid r" "length (spr_images r) = 4"
  shows "unat (spr_image_count r) \<le> 4 \<and>
    spr_images r = take (unat (spr_image_count r)) (spr_images r) @
      replicate (4 - unat (spr_image_count r)) zero_swapchain_image"
proof -
  have n: "unat (spr_image_count r) \<le> 4"
    using assms(1)
    by (auto simp: swapchain_response_is_valid_def word_le_nat_alt not_less word_less_nat_alt split: if_splits)
  have "spr_images r ! i = zero_swapchain_image" if "i < 4" "unat (spr_image_count r) \<le> i" for i
    using assms(1) that
    by (auto simp: swapchain_response_is_valid_def list_all_upt Let_def zero_swapchain_image_def
        intro!: vulkan_swapchain_image_record.equality split: if_splits)
  then show ?thesis using n assms(2) by (auto intro!: nth_equalityI simp: nth_append)
qed

lemma swapchain_response_collapse [wire_simps]:
  "\<lparr>spr_vulkan_result = spr_vulkan_result r, spr_image_count = spr_image_count r,
    spr_swapchain_id = spr_swapchain_id r, spr_generation = spr_generation r,
    spr_control_region_bytes = spr_control_region_bytes r, spr_flags = spr_flags r,
    spr_images = spr_images r\<rparr> = r"
  by simp

lemma get_zero_images:
  "at + n * 24 \<le> m \<Longrightarrow> get_each get_swapchain_image 24 (replicate m 0) at n = replicate n zero_swapchain_image"
  by (auto simp: get_each_def get_swapchain_image_def zero_swapchain_image_def get_replicate list_eq_iff_nth_eq)

lemma get_images_beside:
  "i + 4 \<le> j \<Longrightarrow> get_each get_swapchain_image 24 (put_u32 b i v) j n = get_each get_swapchain_image 24 b j n"
  "i + 8 \<le> j \<Longrightarrow> get_each get_swapchain_image 24 (put_u64 b i w) j n = get_each get_swapchain_image 24 b j n"
  by (simp_all add: get_each_def get_swapchain_image_def wire_simps)

lemma swapchain_roundtrip:
  assumes "length (spr_images r) = 4" "swapchain_response_is_valid r" "length b = 128"
  shows "\<exists>m. encode_vulkan_swapchain_prepare_response (Some b) (Some r) = Inr m \<and> length m = 128 \<and>
    decode_vulkan_swapchain_prepare_response (Some m) (Some d) = Inr r"
proof -
  let ?n = "unat (spr_image_count r)" and ?imgs = "spr_images r"
  note tail = swapchain_images_tail [OF assms(2,1)]
  have n: "?n \<le> 4" using tail by blast
  define h where "h = put_u32 (put_u32 (put_u64 (put_u64 (put_u32 (put_i32 (memset0 b 0 128) 0
     (spr_vulkan_result r)) 4 (spr_image_count r)) 8 (spr_swapchain_id r)) 16 (spr_generation r))
     24 (spr_control_region_bytes r)) 28 (spr_flags r)"
  define m where "m = put_each put_swapchain_image 24 h 32 (take ?n ?imgs)"
  have len: "length h = 128" using assms(3) by (simp add: h_def)
  have enc: "encode_vulkan_swapchain_prepare_response (Some b) (Some r) = Inr m"
    using assms(2) by (simp add: encode_vulkan_swapchain_prepare_response_def m_def h_def)
  have lenm: "length m = 128"
    using tail assms(1) len
    by (simp add: m_def swapchain_image_field.put_each_length list_all_iff)
  have beside: "get_u32 m j = get_u32 h j" if "j + 4 \<le> 32" for j
    using tail assms(1) len that unfolding m_def
    by (intro swapchain_image_field.read_other_array [OF reads_u32]) (auto simp: list_all_iff)
  have beside': "get_u64 m j = get_u64 h j" if "j + 8 \<le> 32" for j
    using tail assms(1) len that unfolding m_def
    by (intro swapchain_image_field.read_other_array [OF reads_u64]) (auto simp: list_all_iff)
  have imgs: "get_each get_swapchain_image 24 m 32 4 = ?imgs"
  proof -
    have "get_each get_swapchain_image 24 m 32 4 =
        take ?n ?imgs @ get_each get_swapchain_image 24 h (32 + ?n * 24) (4 - ?n)"
      using swapchain_image_field.get_put_each_longer [of 24 "take ?n ?imgs" 4 32 h] tail assms(1) len
      by (simp add: m_def list_all_iff)
    also have "get_each get_swapchain_image 24 h (32 + ?n * 24) (4 - ?n) = replicate (4 - ?n) zero_swapchain_image"
      using n assms(3)
      by (simp add: h_def i32_field get_images_beside memset0_all) (rule get_zero_images, arith)
    finally show ?thesis using tail by simp
  qed
  have "get_u32 m (32 + k * 24 + 20) = 0" if "k < 4" for k
    using put_images_reserved [of 32 "take ?n ?imgs" h k 4] tail assms(1,3) len that
    by (simp add: m_def) (simp add: h_def wire_simps)
  moreover have "get_i32 m 0 = spr_vulkan_result r" "get_u32 m 4 = spr_image_count r"
    "get_u64 m 8 = spr_swapchain_id r" "get_u64 m 16 = spr_generation r"
    "get_u32 m 24 = spr_control_region_bytes r" "get_u32 m 28 = spr_flags r"
    using assms(3) by (simp_all add: get_i32_def beside beside') (simp_all add: h_def wire_simps)
  ultimately show ?thesis
    using enc lenm assms(2)
    by (auto simp: decode_vulkan_swapchain_prepare_response_def list_ex_upt Let_def imgs
        swapchain_response_collapse)
qed

interpretation swapchain_response_codec: shaped_codec 128
  "\<lambda>r. length (spr_images r) = WSI_MAX_SLOTS" swapchain_response_is_valid
  encode_vulkan_swapchain_prepare_response decode_vulkan_swapchain_prepare_response
proof (unfold_locales, goal_cases)
  case (6 x b d) then show ?case using swapchain_roundtrip [of x b d] by simp
next
  case (7 m d x)
  then show ?case by (auto simp: decode_vulkan_swapchain_prepare_response_def Let_def split: if_splits)
qed (auto simp: encode_vulkan_swapchain_prepare_response_def
    decode_vulkan_swapchain_prepare_response_def Let_def split: if_splits)

subsection \<open>Visible batch messages\<close>

text \<open>The session token in front of a shared batch message.\<close>

abbreviation (input) TOKEN_SIZE :: nat where "TOKEN_SIZE \<equiv> 32"

record visible_batch_setup =
  vbs_token :: bytes
  vbs_shared :: shared_batch_setup

record visible_batch_execute =
  vbe_token :: bytes
  vbe_shared :: shared_batch_execute

definition token_is_nonzero :: "bytes \<Rightarrow> bool" where
  "token_is_nonzero token \<longleftrightarrow> foldl (\<lambda>combined index. combined OR token ! index) 0 [0..<TOKEN_SIZE] \<noteq> 0"

text \<open>An encoder called with the address of a later part of the buffer.\<close>

definition at_offset :: "nat \<Rightarrow> (bytes option \<Rightarrow> 'a option \<Rightarrow> bytes result) \<Rightarrow> bytes \<Rightarrow> 'a \<Rightarrow> bytes result" where
  "at_offset n enc output x = map_sum id (\<lambda>m. take n output @ m) (enc (Some (drop n output)) (Some x))"

definition encode_visible_batch_setup :: "bytes option \<Rightarrow> visible_batch_setup option \<Rightarrow> bytes result" where
  "encode_visible_batch_setup output setup = nonnull2 output setup (\<lambda>output setup.
     if \<not> token_is_nonzero (vbs_token setup) then Inl EINVAL
     else map_sum id (\<lambda>output. memcpy output 0 (vbs_token setup) TOKEN_SIZE)
            (at_offset TOKEN_SIZE encode_shared_batch_setup output (vbs_shared setup)))"

definition decode_visible_batch_setup ::
  "bytes option \<Rightarrow> visible_batch_setup option \<Rightarrow> visible_batch_setup result" where
  "decode_visible_batch_setup input setup = nonnull2 input setup (\<lambda>input setup.
     if \<not> token_is_nonzero input then Inl EPROTO
     else map_sum id (\<lambda>shared. \<lparr>vbs_token = get_bytes input 0 TOKEN_SIZE, vbs_shared = shared\<rparr>)
            (decode_shared_batch_setup (Some (drop TOKEN_SIZE input)) (Some (vbs_shared setup))))"

definition encode_visible_batch_execute :: "bytes option \<Rightarrow> visible_batch_execute option \<Rightarrow> bytes result" where
  "encode_visible_batch_execute output execute = nonnull2 output execute (\<lambda>output execute.
     if \<not> token_is_nonzero (vbe_token execute) then Inl EINVAL
     else map_sum id (\<lambda>output. memcpy output 0 (vbe_token execute) TOKEN_SIZE)
            (at_offset TOKEN_SIZE encode_shared_batch_execute output (vbe_shared execute)))"

definition decode_visible_batch_execute ::
  "bytes option \<Rightarrow> visible_batch_execute option \<Rightarrow> visible_batch_execute result" where
  "decode_visible_batch_execute input execute = nonnull2 input execute (\<lambda>input execute.
     if \<not> token_is_nonzero input then Inl EPROTO
     else map_sum id (\<lambda>shared. \<lparr>vbe_token = get_bytes input 0 TOKEN_SIZE, vbe_shared = shared\<rparr>)
            (decode_shared_batch_execute (Some (drop TOKEN_SIZE input)) (Some (vbe_shared execute))))"

lemma foldl_or_zero: "foldl (\<lambda>c i. c OR f i) a xs = 0 \<longleftrightarrow> a = 0 \<and> (\<forall>i \<in> set xs. f i = (0 :: u8))"
  by (induction xs arbitrary: a) (auto simp: or_eq_0_iff)

text \<open>The fold over the bytes is zero exactly for the all-zero token.\<close>

lemma token_is_nonzero_iff: "token_is_nonzero t \<longleftrightarrow> (\<exists>i < 32. t ! i \<noteq> 0)"
  by (auto simp: token_is_nonzero_def foldl_or_zero)

lemma token_in_message: "length t = 32 \<Longrightarrow> 32 \<le> length m \<Longrightarrow> token_is_nonzero (memcpy m 0 t 32) = token_is_nonzero t"
  by (auto simp: token_is_nonzero_iff memcpy_def nth_append)

lemma token_prefix: "32 \<le> length m \<Longrightarrow> token_is_nonzero (get_bytes m 0 32) = token_is_nonzero m"
  by (auto simp: token_is_nonzero_iff get_bytes_def)

lemma token_before: "length t = 32 \<Longrightarrow> token_is_nonzero (t @ m) = token_is_nonzero t"
  by (auto simp: token_is_nonzero_iff nth_append)

lemma memcpy_front: "length t = 32 \<Longrightarrow> length p = 32 \<Longrightarrow> memcpy (p @ m) 0 t 32 = t @ m"
  by (simp add: memcpy_def)

abbreviation shared_setup_ok :: "shared_batch_setup \<Rightarrow> bool" where
  "shared_setup_ok s \<equiv> sbs_generation s \<noteq> 0 \<and> BVB_SHARED_BATCH_MIN_BYTES \<le> sbs_region_bytes s \<and>
     sbs_region_bytes s \<le> BVB_SHARED_BATCH_MAX_BYTES"

abbreviation shared_execute_ok :: "shared_batch_execute \<Rightarrow> bool" where
  "shared_execute_ok e \<equiv> sbe_generation e \<noteq> 0 \<and> BVB_COMMAND_BATCH_HEADER_SIZE \<le> sbe_length e \<and>
     sbe_length e \<le> BVB_COMMAND_BATCH_MAX_BYTES \<and> sbe_sequence e \<noteq> 0"

interpretation visible_batch_setup_codec: shaped_codec 48
  "\<lambda>s. length (vbs_token s) = TOKEN_SIZE" "\<lambda>s. token_is_nonzero (vbs_token s) \<and> shared_setup_ok (vbs_shared s)"
  encode_visible_batch_setup decode_visible_batch_setup
proof (unfold_locales, goal_cases)
  case (5 x b)
  then show ?case
    using shared_batch_setup_codec.enc_reject [of "vbs_shared x" "drop 32 b"]
    by (auto simp: encode_visible_batch_setup_def at_offset_def)
next
  case (6 x b d)
  then obtain m where "encode_shared_batch_setup (Some (drop 32 b)) (Some (vbs_shared x)) = Inr m"
    "length m = 16" "decode_shared_batch_setup (Some m) (Some (vbs_shared d)) = Inr (vbs_shared x)"
    using shared_batch_setup_codec.roundtrip_wf [of "drop 32 b" "vbs_shared x" "vbs_shared d"] by auto
  then show ?case using 6
    by (simp add: encode_visible_batch_setup_def decode_visible_batch_setup_def at_offset_def
        memcpy_front token_before get_bytes_def)
next
  case (7 m d x)
  then show ?case
    using token_prefix [of m] shared_batch_setup_codec.dec_acc [of "drop 32 m" "vbs_shared d"]
    by (cases "decode_shared_batch_setup (Some (drop 32 m)) (Some (vbs_shared d))")
      (auto simp: decode_visible_batch_setup_def split: if_splits)
next
  case (8 m d e)
  then show ?case
    using shared_batch_setup_codec.dec_error [of "drop 32 m" "vbs_shared d"]
    by (cases "decode_shared_batch_setup (Some (drop 32 m)) (Some (vbs_shared d))")
      (auto simp: decode_visible_batch_setup_def split: if_splits)
qed (simp_all add: encode_visible_batch_setup_def decode_visible_batch_setup_def)

interpretation visible_batch_execute_codec: shaped_codec 56
  "\<lambda>s. length (vbe_token s) = TOKEN_SIZE" "\<lambda>s. token_is_nonzero (vbe_token s) \<and> shared_execute_ok (vbe_shared s)"
  encode_visible_batch_execute decode_visible_batch_execute
proof (unfold_locales, goal_cases)
  case (5 x b)
  then show ?case
    using shared_batch_execute_codec.enc_reject [of "vbe_shared x" "drop 32 b"]
    by (auto simp: encode_visible_batch_execute_def at_offset_def)
next
  case (6 x b d)
  then obtain m where "encode_shared_batch_execute (Some (drop 32 b)) (Some (vbe_shared x)) = Inr m"
    "length m = 24" "decode_shared_batch_execute (Some m) (Some (vbe_shared d)) = Inr (vbe_shared x)"
    using shared_batch_execute_codec.roundtrip_wf [of "drop 32 b" "vbe_shared x" "vbe_shared d"] by auto
  then show ?case using 6
    by (simp add: encode_visible_batch_execute_def decode_visible_batch_execute_def at_offset_def
        memcpy_front token_before get_bytes_def)
next
  case (7 m d x)
  then show ?case
    using token_prefix [of m] shared_batch_execute_codec.dec_acc [of "drop 32 m" "vbe_shared d"]
    by (cases "decode_shared_batch_execute (Some (drop 32 m)) (Some (vbe_shared d))")
      (auto simp: decode_visible_batch_execute_def split: if_splits)
next
  case (8 m d e)
  then show ?case
    using shared_batch_execute_codec.dec_error [of "drop 32 m" "vbe_shared d"]
    by (cases "decode_shared_batch_execute (Some (drop 32 m)) (Some (vbe_shared d))")
      (auto simp: decode_visible_batch_execute_def split: if_splits)
qed (simp_all add: encode_visible_batch_execute_def decode_visible_batch_execute_def)

subsection \<open>Device buffer requirements\<close>

abbreviation (input) DEVICE_BUFFER_MAX_QUEUE_FAMILIES :: "'a::numeral" where
  "DEVICE_BUFFER_MAX_QUEUE_FAMILIES \<equiv> 8"

record vulkan_device_buffer_requirements_request =
  dbrr_device_id :: u64
  dbrr_size :: u64
  dbrr_flags :: u32
  dbrr_usage :: u32
  dbrr_sharing_mode :: u32
  dbrr_queue_family_index_count :: u32
  dbrr_queue_family_indices :: "u32 list"

record vulkan_device_buffer_requirements_response =
  dbrs_memory :: vulkan_buffer_requirements
  dbrs_prefers_dedicated_allocation :: u32
  dbrs_requires_dedicated_allocation :: u32

definition device_buffer_sharing_is_valid :: "u32 \<Rightarrow> u32 \<Rightarrow> bool" where
  "device_buffer_sharing_is_valid sharing_mode queue_family_index_count =
     (if sharing_mode = VK_SHARING_MODE_EXCLUSIVE then queue_family_index_count = 0
      else if sharing_mode = VK_SHARING_MODE_CONCURRENT
      then queue_family_index_count \<ge> 2 \<and> queue_family_index_count \<le> DEVICE_BUFFER_MAX_QUEUE_FAMILIES
      else False)"

definition encode_vulkan_device_buffer_requirements_request ::
  "bytes option \<Rightarrow> vulkan_device_buffer_requirements_request option \<Rightarrow> bytes result" where
  "encode_vulkan_device_buffer_requirements_request output request =
     nonnull2 output request (\<lambda>output request.
     if dbrr_size request = 0 \<or> \<not> wire_id_is_type (dbrr_device_id request) 3 \<or>
        \<not> device_buffer_sharing_is_valid (dbrr_sharing_mode request)
            (dbrr_queue_family_index_count request) then Inl EINVAL
     else
     let output = memset0 output 0 BVB_VULKAN_DEVICE_BUFFER_REQUIREMENTS_REQUEST_SIZE in
     let output = put_u64 output 0 (dbrr_device_id request) in
     let output = put_u64 output 8 (dbrr_size request) in
     let output = put_u32 output 16 (dbrr_flags request) in
     let output = put_u32 output 20 (dbrr_usage request) in
     let output = put_u32 output 24 (dbrr_sharing_mode request) in
     let output = put_u32 output 28 (dbrr_queue_family_index_count request) in
     let output = put_each put_u32 4 output 32
           (take (unat (dbrr_queue_family_index_count request)) (dbrr_queue_family_indices request)) in
     Inr output)"

definition decode_vulkan_device_buffer_requirements_request ::
  "bytes option \<Rightarrow> vulkan_device_buffer_requirements_request option \<Rightarrow>
   vulkan_device_buffer_requirements_request result" where
  "decode_vulkan_device_buffer_requirements_request input request =
     nonnull2 input request (\<lambda>input _.
     let decoded = \<lparr>dbrr_device_id = get_u64 input 0, dbrr_size = get_u64 input 8,
       dbrr_flags = get_u32 input 16, dbrr_usage = get_u32 input 20,
       dbrr_sharing_mode = get_u32 input 24, dbrr_queue_family_index_count = get_u32 input 28,
       dbrr_queue_family_indices = get_each get_u32 4 input 32 DEVICE_BUFFER_MAX_QUEUE_FAMILIES\<rparr> in
     if \<not> wire_id_is_type (dbrr_device_id decoded) 3 \<or> dbrr_size decoded = 0 \<or>
        dbrr_usage decoded = 0 \<or>
        \<not> device_buffer_sharing_is_valid (dbrr_sharing_mode decoded)
            (dbrr_queue_family_index_count decoded) then Inl EPROTO
     else if \<not> distinct_prefix (dbrr_queue_family_indices decoded)
            (unat (dbrr_queue_family_index_count decoded)) DEVICE_BUFFER_MAX_QUEUE_FAMILIES
     then Inl EPROTO
     else Inr decoded)"

definition encode_vulkan_device_buffer_requirements_response ::
  "bytes option \<Rightarrow> vulkan_device_buffer_requirements_response option \<Rightarrow> bytes result" where
  "encode_vulkan_device_buffer_requirements_response output response =
     nonnull2 output response (\<lambda>output response.
     if dbrs_prefers_dedicated_allocation response > 1 \<or> dbrs_requires_dedicated_allocation response > 1
     then Inl EINVAL
     else case encode_vulkan_buffer_requirements (Some output) (Some (dbrs_memory response)) of
       Inl _ \<Rightarrow> Inl EINVAL
     | Inr output \<Rightarrow>
     let output = put_u32 output 24 (dbrs_prefers_dedicated_allocation response) in
     let output = put_u32 output 28 (dbrs_requires_dedicated_allocation response) in
     Inr output)"

definition decode_vulkan_device_buffer_requirements_response ::
  "bytes option \<Rightarrow> vulkan_device_buffer_requirements_response option \<Rightarrow>
   vulkan_device_buffer_requirements_response result" where
  "decode_vulkan_device_buffer_requirements_response input response =
     nonnull2 input response (\<lambda>input response.
     case decode_vulkan_buffer_requirements (Some input) (Some (dbrs_memory response)) of
       Inl _ \<Rightarrow> Inl EPROTO
     | Inr memory \<Rightarrow>
     let decoded = \<lparr>dbrs_memory = memory, dbrs_prefers_dedicated_allocation = get_u32 input 24,
       dbrs_requires_dedicated_allocation = get_u32 input 28\<rparr> in
     if dbrs_prefers_dedicated_allocation decoded > 1 \<or> dbrs_requires_dedicated_allocation decoded > 1
     then Inl EPROTO
     else Inr decoded)"

interpretation device_buffer_response_codec: agreed_codec 32
  "\<lambda>r. br_size (dbrs_memory r) \<noteq> 0 \<and> br_alignment (dbrs_memory r) \<noteq> 0 \<and>
      br_memory_type_bits (dbrs_memory r) \<noteq> 0 \<and>
      dbrs_prefers_dedicated_allocation r \<le> 1 \<and> dbrs_requires_dedicated_allocation r \<le> 1"
  encode_vulkan_device_buffer_requirements_response decode_vulkan_device_buffer_requirements_response
  by unfold_locales
    (auto simp: encode_vulkan_device_buffer_requirements_response_def
      decode_vulkan_device_buffer_requirements_response_def encode_vulkan_buffer_requirements_def
      decode_vulkan_buffer_requirements_def wire_simps split: codec_splits)

text \<open>
  The request: the decoder checks more than the encoder. It refuses a zero usage and repeated
  queue family indices, both of which the encoder lets pass.
\<close>

definition device_buffer_sendable :: "vulkan_device_buffer_requirements_request \<Rightarrow> bool" where
  "device_buffer_sendable r \<longleftrightarrow> dbrr_size r \<noteq> 0 \<and> wire_id_is_type (dbrr_device_id r) 3 \<and>
     device_buffer_sharing_is_valid (dbrr_sharing_mode r) (dbrr_queue_family_index_count r)"

definition device_buffer_accepted :: "vulkan_device_buffer_requirements_request \<Rightarrow> bool" where
  "device_buffer_accepted r \<longleftrightarrow> device_buffer_sendable r \<and> dbrr_usage r \<noteq> 0 \<and>
     distinct (take (unat (dbrr_queue_family_index_count r)) (dbrr_queue_family_indices r))"

definition device_buffer_norm ::
  "vulkan_device_buffer_requirements_request \<Rightarrow> vulkan_device_buffer_requirements_request" where
  "device_buffer_norm r = r\<lparr>dbrr_queue_family_indices :=
     take (unat (dbrr_queue_family_index_count r)) (dbrr_queue_family_indices r) @
     replicate (DEVICE_BUFFER_MAX_QUEUE_FAMILIES - unat (dbrr_queue_family_index_count r)) 0\<rparr>"

lemma sharing_count: "device_buffer_sharing_is_valid mode n \<Longrightarrow> unat n \<le> 8"
  by (auto simp: device_buffer_sharing_is_valid_def word_le_nat_alt split: if_splits)

lemma device_buffer_request_roundtrip:
  assumes "length (dbrr_queue_family_indices r) = 8" "device_buffer_sendable r" "length b = 64"
  shows "\<exists>m. encode_vulkan_device_buffer_requirements_request (Some b) (Some r) = Inr m \<and> length m = 64 \<and>
    decode_vulkan_device_buffer_requirements_request (Some m) (Some d) =
      (if device_buffer_accepted r then Inr (device_buffer_norm r) else Inl EPROTO)"
proof -
  let ?n = "unat (dbrr_queue_family_index_count r)" and ?xs = "dbrr_queue_family_indices r"
  let ?ys = "take ?n ?xs @ replicate (8 - ?n) 0"
  have n: "?n \<le> 8" using assms(2) sharing_count by (auto simp: device_buffer_sendable_def)
  define h where "h = put_u32 (put_u32 (put_u32 (put_u32 (put_u64 (put_u64 (memset0 b 0 64) 0
    (dbrr_device_id r)) 8 (dbrr_size r)) 16 (dbrr_flags r)) 20 (dbrr_usage r)) 24 (dbrr_sharing_mode r)) 28
    (dbrr_queue_family_index_count r)"
  define m where "m = put_each put_u32 4 h 32 (take ?n ?xs)"
  have len: "length h = 64" using assms(3) by (simp add: h_def)
  have enc: "encode_vulkan_device_buffer_requirements_request (Some b) (Some r) = Inr m"
    using assms(2)
    by (simp add: encode_vulkan_device_buffer_requirements_request_def device_buffer_sendable_def m_def h_def)
  have ids: "get_each get_u32 4 m 32 8 = ?ys"
    using n assms len get_words_longer(1) [of "take ?n ?xs" 8 32 h]
    by (simp add: m_def) (simp add: h_def wire_simps)
  have "distinct_prefix ?ys ?n 8 \<longleftrightarrow> distinct (take ?n ?xs)"
    using n assms(1) by (subst distinct_prefix_iff) (auto simp: nth_append)
  moreover have "get_u64 m 0 = dbrr_device_id r" "get_u64 m 8 = dbrr_size r" "get_u32 m 16 = dbrr_flags r"
    "get_u32 m 20 = dbrr_usage r" "get_u32 m 24 = dbrr_sharing_mode r"
    "get_u32 m 28 = dbrr_queue_family_index_count r" "length m = 64"
    using n assms len by (simp_all add: m_def wire_simps) (simp_all add: h_def wire_simps)
  ultimately show ?thesis
    using enc assms(2)
    by (auto simp: decode_vulkan_device_buffer_requirements_request_def Let_def ids
        device_buffer_accepted_def device_buffer_sendable_def device_buffer_norm_def)
qed

lemma device_buffer_request_decoded:
  assumes "decode_vulkan_device_buffer_requirements_request (Some m) (Some d) = Inr r"
  shows "length (dbrr_queue_family_indices r) = 8 \<and> device_buffer_sendable r \<and> device_buffer_accepted r \<and>
    device_buffer_norm r = r"
proof -
  let ?n = "unat (dbrr_queue_family_index_count r)" and ?xs = "dbrr_queue_family_indices r"
  have r: "length ?xs = 8" "device_buffer_sendable r" "dbrr_usage r \<noteq> 0" "distinct_prefix ?xs ?n 8"
    using assms
    by (auto simp: decode_vulkan_device_buffer_requirements_request_def Let_def device_buffer_sendable_def
        split: if_splits)
  have n: "?n \<le> 8" using r(2) sharing_count by (auto simp: device_buffer_sendable_def)
  then have "distinct (take ?n ?xs)" "\<forall>i < 8. ?n \<le> i \<longrightarrow> ?xs ! i = 0"
    using distinct_prefix_iff [OF n r(1)] r(4) by auto
  moreover from this have "take ?n ?xs @ replicate (8 - ?n) 0 = ?xs"
    using n r(1) by (intro nth_equalityI) (auto simp: nth_append)
  ultimately show ?thesis using r by (simp add: device_buffer_accepted_def device_buffer_norm_def)
qed

interpretation device_buffer_request_codec: array_codec BVB_VULKAN_DEVICE_BUFFER_REQUIREMENTS_REQUEST_SIZE
  "\<lambda>r. length (dbrr_queue_family_indices r) = DEVICE_BUFFER_MAX_QUEUE_FAMILIES"
  device_buffer_sendable device_buffer_accepted device_buffer_norm
  encode_vulkan_device_buffer_requirements_request decode_vulkan_device_buffer_requirements_request
proof (unfold_locales, goal_cases)
  case (6 x b d) then show ?case using device_buffer_request_roundtrip [of x b d] by simp
next
  case (7 m d x) then show ?case using device_buffer_request_decoded [of m d x] by simp
qed (auto simp: encode_vulkan_device_buffer_requirements_request_def device_buffer_sendable_def
    decode_vulkan_device_buffer_requirements_request_def Let_def split: if_splits)

subsection \<open>Properties\<close>

definition sample_image_id :: u64 where
  "sample_image_id = push_bit 56 (ucast (BVB_OBJECT_IMAGE :: u8)) OR 1"

text \<open>Two images to be prepared, with something left over in the rest of the array.\<close>

definition sample_barrier :: vulkan_command_buffer_image_barrier_request where
  "sample_barrier = \<lparr>cbibr_command_buffer_id = 0x0b00000000000001, cbibr_image_count = 2,
     cbibr_image_ids = [sample_image_id, sample_image_id + 1, 99, 99]\<rparr>"

text \<open>A request with the same queue family twice.\<close>

definition sample_device_buffer :: vulkan_device_buffer_requirements_request where
  "sample_device_buffer = \<lparr>dbrr_device_id = 0x0300000000000001, dbrr_size = 64, dbrr_flags = 0, dbrr_usage = 1,
     dbrr_sharing_mode = VK_SHARING_MODE_CONCURRENT, dbrr_queue_family_index_count = 2,
     dbrr_queue_family_indices = [5, 5, 0, 0, 0, 0, 0, 0]\<rparr>"

text \<open>
  C21: The messages that carry arrays (image creation with its queue families and view formats, the
  prepared swapchain with its images, the visible-batch messages with their tokens) keep the codec
  contract, the arrays included: every element is read back at its own place.
\<close>

theorem array_messages:
  "codec_contract BVB_VULKAN_IMAGE_CREATE_REQUEST_SIZE
     (\<lambda>r. length (icr_queue_family_indices r) = BVB_VULKAN_IMAGE_MAX_QUEUE_FAMILIES \<and>
       length (icr_view_formats r) = BVB_VULKAN_IMAGE_MAX_VIEW_FORMATS)
     image_create_request_valid encode_vulkan_image_create_request decode_vulkan_image_create_request \<and>
   codec_contract 128 (\<lambda>r. length (spr_images r) = WSI_MAX_SLOTS) swapchain_response_is_valid
     encode_vulkan_swapchain_prepare_response decode_vulkan_swapchain_prepare_response \<and>
   codec_contract 48 (\<lambda>s. length (vbs_token s) = TOKEN_SIZE)
     (\<lambda>s. token_is_nonzero (vbs_token s) \<and> shared_setup_ok (vbs_shared s))
     encode_visible_batch_setup decode_visible_batch_setup \<and>
   codec_contract 56 (\<lambda>s. length (vbe_token s) = TOKEN_SIZE)
     (\<lambda>s. token_is_nonzero (vbe_token s) \<and> shared_execute_ok (vbe_shared s))
     encode_visible_batch_execute decode_visible_batch_execute"
  by (intro conjI image_create_request_codec.contract swapchain_response_codec.contract
      visible_batch_setup_codec.contract visible_batch_execute_codec.contract)

text \<open>
  The initial image barrier carries the used part of its image array only. A valid request is
  read back with the same count and the same identifiers in the used part and zeros after it, and
  a request a decoder has accepted can be sent on and is read back as it is.
\<close>

lemma image_barrier_exchange:
  assumes "length (cbibr_image_ids r) = BVB_VULKAN_INIT_IMAGE_MAX_BARRIERS"
    and "init_image_barrier_request_valid r"
    and "length b = BVB_VULKAN_COMMAND_BUFFER_IMAGE_BARRIER_REQUEST_SIZE"
  shows "\<exists>m. encode_vulkan_command_buffer_image_barrier_request (Some b) (Some r) = Inr m \<and>
    decode_vulkan_command_buffer_image_barrier_request (Some m) (Some d) = Inr (image_barrier_norm r) \<and>
    (\<exists>m'. encode_vulkan_command_buffer_image_barrier_request (Some b) (Some (image_barrier_norm r)) = Inr m' \<and>
      decode_vulkan_command_buffer_image_barrier_request (Some m') (Some d) = Inr (image_barrier_norm r))"
proof -
  obtain m where m: "encode_vulkan_command_buffer_image_barrier_request (Some b) (Some r) = Inr m"
      "length m = BVB_VULKAN_COMMAND_BUFFER_IMAGE_BARRIER_REQUEST_SIZE"
      "decode_vulkan_command_buffer_image_barrier_request (Some m) (Some d) = Inr (image_barrier_norm r)"
    using image_barrier_codec.enc_dec [OF assms, of d] assms(2) by auto
  then show ?thesis using image_barrier_codec.relay [OF m(2,3) assms(3)] by blast
qed

text \<open>
  C26: The device-buffer-requirements request is checked more strictly by the service than by the
  client: whatever the client's encoder writes, the service decodes exactly when the request also
  passes the service's check, and refuses it with EPROTO otherwise.
\<close>

theorem device_buffer_request_exchange:
  assumes "length (dbrr_queue_family_indices r) = DEVICE_BUFFER_MAX_QUEUE_FAMILIES"
    and "device_buffer_sendable r"
    and "length b = BVB_VULKAN_DEVICE_BUFFER_REQUIREMENTS_REQUEST_SIZE"
  shows "\<exists>m. encode_vulkan_device_buffer_requirements_request (Some b) (Some r) = Inr m \<and>
    decode_vulkan_device_buffer_requirements_request (Some m) (Some d) =
      (if device_buffer_accepted r then Inr (device_buffer_norm r) else Inl EPROTO)"
  using device_buffer_request_codec.enc_dec [OF assms, of d] by auto

theorem device_buffer_request_exchange_witness:
  "\<exists>m. encode_vulkan_device_buffer_requirements_request (Some (replicate 64 0)) (Some sample_device_buffer) = Inr m \<and>
     decode_vulkan_device_buffer_requirements_request (Some m) (Some sample_device_buffer) = Inl EPROTO"
proof -
  have "length (dbrr_queue_family_indices sample_device_buffer) = 8" by (simp add: sample_device_buffer_def)
  moreover have "device_buffer_sendable sample_device_buffer" by code_simp
  moreover have "\<not> device_buffer_accepted sample_device_buffer"
    by (simp add: device_buffer_accepted_def) (simp add: sample_device_buffer_def)
  ultimately show ?thesis
    using device_buffer_request_exchange [of sample_device_buffer "replicate 64 0" sample_device_buffer] by simp
qed

end
