(* ===== verification/Proto_Variable.thy ===== *)
theory Proto_Variable
  imports Proto_Memory_Io Proto_Session
begin

unbundle bit_operations_syntax

section \<open>Messages of variable length\<close>

text \<open>
  The messages of src/src/protocol.c whose length depends on their contents. The encoder gets a buffer
  for the longest message and a place for the length, the decoder the bytes that arrived and how many
  there are.
\<close>

definition nonnull3 ::
  "'a option \<Rightarrow> 'b option \<Rightarrow> 'c option \<Rightarrow> ('a \<Rightarrow> 'b \<Rightarrow> 'c \<Rightarrow> 'd result) \<Rightarrow> 'd result" where
  "nonnull3 p q r f = nonnull2 p q (\<lambda>a b. nonnull1 r (f a b))"

lemma nonnull3_simps [simp]:
  "nonnull3 None q r g = Inl EINVAL"
  "nonnull3 p None r g = Inl EINVAL"
  "nonnull3 p q None g = Inl EINVAL"
  "nonnull3 (Some a) (Some b) (Some c) g = g a b c"
  by (simp_all add: nonnull3_def nonnull2_def split: option.splits)

subsection \<open>The contract\<close>

text \<open>
  Every object of the right shape that passes the check \<open>okay\<close> is encoded at the front of a buffer of
  \<open>cap\<close> bytes, the rest of which stays as it was, and the bytes written decode to the object again, with
  the unused entries of its arrays cleared (\<open>norm\<close>). No other object is encoded. A decoder reads no byte
  after the length it was given, and reports an error or hands out an object that passes the check.
\<close>

definition sized_contract ::
  "nat \<Rightarrow> ('a \<Rightarrow> bool) \<Rightarrow> ('a \<Rightarrow> bool) \<Rightarrow> ('a \<Rightarrow> 'a) \<Rightarrow>
   (bytes option \<Rightarrow> 'a option \<Rightarrow> u32 option \<Rightarrow> (bytes \<times> u32) result) \<Rightarrow>
   (bytes option \<Rightarrow> u32 \<Rightarrow> 'a option \<Rightarrow> 'a result) \<Rightarrow> bool" where
  "sized_contract cap shape okay norm enc dec \<longleftrightarrow>
     (\<forall>x b l d. shape x \<longrightarrow> okay x \<longrightarrow> length b = cap \<longrightarrow>
        (\<exists>m n. unat n \<le> cap \<and> length m = unat n \<and> enc (Some b) (Some x) (Some l) = Inr (m @ drop (unat n) b, n) \<and>
           dec (Some m) n (Some d) = Inr (norm x))) \<and>
     (\<forall>x b l. \<not> okay x \<longrightarrow> (\<exists>e. enc (Some b) (Some x) (Some l) = Inl e)) \<and>
     (\<forall>m n d. length m = unat n \<longrightarrow> (case dec (Some m) n (Some d) of
        Inl e \<Rightarrow> e \<in> {EINVAL, EPROTO, EMSGSIZE} | Inr x \<Rightarrow> shape x \<and> okay x)) \<and>
     (\<forall>m c n d. length m = unat n \<longrightarrow> dec (Some (m @ c)) n (Some d) = dec (Some m) n (Some d)) \<and>
     (\<forall>p x l. enc None x l = Inl EINVAL \<and> enc p None l = Inl EINVAL \<and> enc p x None = Inl EINVAL) \<and>
     (\<forall>q n t. dec None n t = Inl EINVAL \<and> dec q n None = Inl EINVAL)"

locale sized_codec =
  fixes cap :: nat
    and shape :: "'a \<Rightarrow> bool"
    and okay :: "'a \<Rightarrow> bool"
    and norm :: "'a \<Rightarrow> 'a"
    and enc :: "bytes option \<Rightarrow> 'a option \<Rightarrow> u32 option \<Rightarrow> (bytes \<times> u32) result"
    and dec :: "bytes option \<Rightarrow> u32 \<Rightarrow> 'a option \<Rightarrow> 'a result"
  assumes enc_null: "enc None r l = Inl EINVAL" "enc p None l = Inl EINVAL" "enc p r None = Inl EINVAL"
    and dec_null: "dec None n t = Inl EINVAL" "dec q n None = Inl EINVAL"
    and enc_reject: "\<not> okay x \<Longrightarrow> \<exists>e. enc (Some b) (Some x) (Some k) = Inl e"
    and enc_dec: "shape x \<Longrightarrow> okay x \<Longrightarrow> length b = cap \<Longrightarrow>
      \<exists>m n. unat n \<le> cap \<and> length m = unat n \<and> enc (Some b) (Some x) (Some k) = Inr (m @ drop (unat n) b, n) \<and>
        dec (Some m) n (Some d) = Inr (norm x)"
    and dec_okay: "length m = unat n \<Longrightarrow> dec (Some m) n (Some d) = Inr x \<Longrightarrow> shape x \<and> okay x"
    and dec_error: "dec (Some m) n (Some d) = Inl e \<Longrightarrow> e \<in> {EINVAL, EPROTO, EMSGSIZE}"
    and dec_local: "length m = unat n \<Longrightarrow> dec (Some (m @ c)) n (Some d) = dec (Some m) n (Some d)"
begin

lemma sized_contract: "sized_contract cap shape okay norm enc dec"
proof -
  have "case dec (Some m) n (Some d) of Inl e \<Rightarrow> e \<in> {EINVAL, EPROTO, EMSGSIZE} | Inr x \<Rightarrow> shape x \<and> okay x"
    if "length m = unat n" for m n d
    using dec_okay [OF that, of d] dec_error [of m n d] by (cases "dec (Some m) n (Some d)") auto
  then show ?thesis
    unfolding sized_contract_def by (intro conjI allI impI enc_null dec_null enc_reject enc_dec dec_local)
qed

text \<open>What a decoder accepts can be sent on.\<close>

lemma sized_relay:
  assumes "length m = unat n" "dec (Some m) n (Some d) = Inr x" "length b = cap"
  shows "\<exists>m' n'. enc (Some b) (Some x) (Some k) = Inr (m' @ drop (unat n') b, n') \<and>
    dec (Some m') n' (Some d) = Inr (norm x)"
  using dec_okay [OF assms(1,2)] enc_dec [of x b k d] assms(3) by blast

end

lemma sized_contract_roundtrip:
  "sized_contract cap shape okay norm enc dec \<Longrightarrow> shape x \<Longrightarrow> okay x \<Longrightarrow> length b = cap \<Longrightarrow>
     \<exists>m n. unat n \<le> cap \<and> length m = unat n \<and> enc (Some b) (Some x) (Some l) = Inr (m @ drop (unat n) b, n) \<and>
       dec (Some m) n (Some d) = Inr (norm x)"
  unfolding sized_contract_def by blast

subsection \<open>Lengths and buffers\<close>

lemma unat_length:
  assumes "unat c \<le> k" "a + k * s < 4294967296"
  shows "unat (word_of_nat a + c * word_of_nat s :: u32) = a + unat c * s"
proof -
  have le: "unat c * s \<le> k * s" using assms(1) by (rule mult_le_mono1)
  then have small: "a + unat c * s < 4294967296" using assms(2) by linarith
  have "s < 4294967296 \<or> unat c * s = 0"
  proof (cases "k = 0")
    case False
    then have "s \<le> k * s" by simp
    then show ?thesis using assms(2) by linarith
  qed (use assms(1) in simp)
  then have "unat (c * word_of_nat s) = unat c * s"
  proof
    assume "s < 4294967296"
    then show ?thesis using small by (simp add: unat_word_ariths unat_of_nat)
  next
    assume "unat c * s = 0"
    then show ?thesis by (auto simp: unat_eq_zero)
  qed
  then show ?thesis using small by (simp add: unat_word_ariths unat_of_nat)
qed

lemma put_each_append:
  assumes "\<And>i v. i + w \<le> length a \<Longrightarrow> put (a @ c) i v = put a i v @ c"
    and "\<And>i v (b :: bytes). length (put b i v) = length b"
    and "at + length xs * s \<le> length a" "w \<le> s"
    and "\<And>i v (b :: bytes). length b = length a \<Longrightarrow> i + w \<le> length b \<Longrightarrow> put (b @ c) i v = put b i v @ c"
  shows "put_each put s (a @ c) at xs = put_each put s a at xs @ c"
  using assms
proof (induction xs arbitrary: a at)
  case (Cons x xs)
  have "put_each put s (put a at x @ c) (at + s) xs = put_each put s (put a at x) (at + s) xs @ c"
    using Cons.prems by (intro Cons.IH) (auto simp: algebra_simps)
  then show ?case using Cons.prems(1,3,4) by simp
qed simp

text \<open>The buffer as the part that is cleared and the rest.\<close>

lemma memset0_front: "memset0 b 0 n = replicate n 0 @ drop n b"
  by (simp add: memset0_def)

lemma put_words_append [wire_simps]:
  "at + length xs * 4 \<le> length a \<Longrightarrow> put_each put_u32 4 (a @ c) at xs = put_each put_u32 4 a at xs @ c"
  "at + length ys * 8 \<le> length a \<Longrightarrow> put_each put_u64 8 (a @ c) at ys = put_each put_u64 8 a at ys @ c"
  by (rule put_each_append [where w = 4] put_each_append [where w = 8]; simp add: put_append put_u64_append)+

lemma get_words_append [wire_simps]:
  "at + n * 4 \<le> length a \<Longrightarrow> get_each get_u32 4 (a @ c) at n = get_each get_u32 4 a at n"
  "at + n * 8 \<le> length a \<Longrightarrow> get_each get_u64 8 (a @ c) at n = get_each get_u64 8 a at n"
  by (rule get_each_append_left [where w = 4] get_each_append_left [where w = 8]; simp add: get_append)+

text \<open>What lies between the end of one entry and the start of the next is left alone.\<close>

context wire_field
begin

lemma read_gaps:
  assumes "reads w g" "list_all wf xs" "at + length xs * stride \<le> length b" "width \<le> off" "off + w \<le> stride"
  shows "get_each g stride (put_each put stride b at xs) (at + off) (length xs) = get_each g stride b (at + off) (length xs)"
proof -
  have "g (put_each put stride b at xs) (at + off + i * stride) = g b (at + off + i * stride)" if i: "i < length xs" for i
  proof (rule reads_cong [OF assms(1)])
    have "(i + 1) * stride \<le> length xs * stride" using i by (intro mult_le_mono1) simp
    then have fit: "at + off + i * stride + w \<le> length b" using assms(3,5) by (simp add: algebra_simps)
    show len: "length (put_each put stride b at xs) = length b" using assms by (intro put_each_length) auto
    show "at + off + i * stride + w \<le> length (put_each put stride b at xs)" using fit len by simp
    fix k assume k: "at + off + i * stride \<le> k" "k < at + off + i * stride + w"
    have "k < at + j * stride \<or> at + j * stride + width \<le> k" for j
    proof (cases "j \<le> i")
      case True
      then have "j * stride \<le> i * stride" by (rule mult_le_mono1)
      then show ?thesis using k(1) assms(4) by linarith
    next
      case False
      then have "(i + 1) * stride \<le> j * stride" by (intro mult_le_mono1) simp
      then show ?thesis using k(2) assms(5) by (simp add: algebra_simps)
    qed
    then show "put_each put stride b at xs ! k = b ! k" using assms by (intro put_each_gap) auto
  qed
  then show ?thesis by (simp add: get_each_def)
qed

end

subsection \<open>Physical devices\<close>

abbreviation (input) MAX_PHYSICAL_DEVICES :: "'a::numeral" where "MAX_PHYSICAL_DEVICES \<equiv> 8"

record vulkan_physical_devices =
  pd_vulkan_result :: i32
  pd_count :: u32
  pd_ids :: "u64 list"

definition encode_vulkan_physical_devices ::
  "bytes option \<Rightarrow> vulkan_physical_devices option \<Rightarrow> u32 option \<Rightarrow> (bytes \<times> u32) result" where
  "encode_vulkan_physical_devices output devices output_length =
     nonnull3 output devices output_length (\<lambda>output devices _.
     if pd_count devices > MAX_PHYSICAL_DEVICES then Inl EINVAL
     else if \<not> list_all (\<lambda>i. wire_id_is_type i 2) (take (unat (pd_count devices)) (pd_ids devices)) then Inl EINVAL
     else
     let len = 8 + pd_count devices * 8 in
     let output = memset0 output 0 (unat len) in
     let output = put_i32 output 0 (pd_vulkan_result devices) in
     let output = put_u32 output 4 (pd_count devices) in
     let output = put_each put_u64 8 output 8 (take (unat (pd_count devices)) (pd_ids devices)) in
     Inr (output, len))"

definition decode_vulkan_physical_devices ::
  "bytes option \<Rightarrow> u32 \<Rightarrow> vulkan_physical_devices option \<Rightarrow> vulkan_physical_devices result" where
  "decode_vulkan_physical_devices input input_length devices = nonnull2 input devices (\<lambda>input _.
     if input_length < 8 then Inl EINVAL
     else
     let count = get_u32 input 4 in
     if count > MAX_PHYSICAL_DEVICES \<or> input_length \<noteq> 8 + count * 8 then Inl EPROTO
     else
     let ids = get_each get_u64 8 input 8 (unat count) in
     if \<not> list_all (\<lambda>i. wire_id_is_type i 2) ids then Inl EPROTO
     else Inr \<lparr>pd_vulkan_result = get_i32 input 0, pd_count = count, pd_ids = fill_to MAX_PHYSICAL_DEVICES 0 ids\<rparr>)"

definition physical_devices_ok :: "vulkan_physical_devices \<Rightarrow> bool" where
  "physical_devices_ok devices \<longleftrightarrow> pd_count devices \<le> MAX_PHYSICAL_DEVICES \<and>
     list_all (\<lambda>i. wire_id_is_type i 2) (take (unat (pd_count devices)) (pd_ids devices))"

lemma physical_devices_length: "c \<le> 8 \<Longrightarrow> unat (8 + c * 8 :: u32) = 8 + unat c * 8"
  using unat_length [of c 8 8 8] by (simp add: word_le_nat_alt)

interpretation physical_devices_codec: sized_codec BVB_PROTOCOL_MAX_PAYLOAD
  "\<lambda>devices. length (pd_ids devices) = MAX_PHYSICAL_DEVICES" physical_devices_ok
  "\<lambda>devices. devices\<lparr>pd_ids := fill_to MAX_PHYSICAL_DEVICES 0 (take (unat (pd_count devices)) (pd_ids devices))\<rparr>"
  encode_vulkan_physical_devices decode_vulkan_physical_devices
proof (unfold_locales, goal_cases)
  case (7 x b k d)
  let ?n = "8 + pd_count x * 8" and ?c = "unat (pd_count x)"
  have n: "unat ?n = 8 + ?c * 8" "?c \<le> 8"
    using 7(2) physical_devices_length by (auto simp: physical_devices_ok_def word_le_nat_alt)
  let ?m = "put_each put_u64 8 (put_u32 (put_u32 (replicate (unat ?n) 0) 0 (pd_vulkan_result x)) 4 (pd_count x)) 8
    (take ?c (pd_ids x))"
  have "encode_vulkan_physical_devices (Some b) (Some x) (Some k) = Inr (?m @ drop (unat ?n) b, ?n)"
    using 7 n by (simp add: encode_vulkan_physical_devices_def physical_devices_ok_def memset0_front wire_simps not_less)
  moreover have "decode_vulkan_physical_devices (Some ?m) ?n (Some d) =
      Inr (x\<lparr>pd_ids := fill_to 8 0 (take ?c (pd_ids x))\<rparr>)"
    using 7 n by (simp add: decode_vulkan_physical_devices_def physical_devices_ok_def wire_simps not_less word_less_nat_alt)
  ultimately show ?case using 7 n by (intro exI [of _ ?m] exI [of _ ?n]) simp
next
  case (8 m n d x)
  then show ?case
    by (auto simp: decode_vulkan_physical_devices_def physical_devices_ok_def Let_def fill_to_def word_le_nat_alt not_less
        split: if_splits)
next
  case (10 m n c d)
  then show ?case
    by (auto simp: decode_vulkan_physical_devices_def wire_simps word_less_nat_alt not_less word_le_nat_alt
        physical_devices_length)
qed (auto simp: encode_vulkan_physical_devices_def decode_vulkan_physical_devices_def physical_devices_ok_def Let_def not_less
    split: if_splits)

subsection \<open>Query results\<close>

abbreviation (input) QUERY_POOL_RESULTS_MAX_BYTES :: "'a::numeral" where "QUERY_POOL_RESULTS_MAX_BYTES \<equiv> 4088"

record vulkan_query_pool_results_response =
  qprr_vulkan_result :: i32
  qprr_data_size :: u32
  qprr_data :: bytes

definition encode_vulkan_query_pool_results_response ::
  "bytes option \<Rightarrow> vulkan_query_pool_results_response option \<Rightarrow> u32 option \<Rightarrow> (bytes \<times> u32) result" where
  "encode_vulkan_query_pool_results_response output response output_length =
     nonnull3 output response output_length (\<lambda>output response _.
     if qprr_data_size response = 0 \<or> qprr_data_size response > QUERY_POOL_RESULTS_MAX_BYTES then Inl EINVAL
     else
     let len = 8 + qprr_data_size response in
     let output = memset0 output 0 (unat len) in
     let output = put_i32 output 0 (qprr_vulkan_result response) in
     let output = put_u32 output 4 (qprr_data_size response) in
     let output = memcpy output 8 (qprr_data response) (unat (qprr_data_size response)) in
     Inr (output, len))"

definition decode_vulkan_query_pool_results_response ::
  "bytes option \<Rightarrow> u32 \<Rightarrow> vulkan_query_pool_results_response option \<Rightarrow> vulkan_query_pool_results_response result" where
  "decode_vulkan_query_pool_results_response input input_length response = nonnull2 input response (\<lambda>input _.
     if input_length < 8 then Inl EINVAL
     else
     let data_size = get_u32 input 4 in
     if data_size = 0 \<or> data_size > QUERY_POOL_RESULTS_MAX_BYTES \<or> input_length \<noteq> 8 + data_size then Inl EPROTO
     else Inr \<lparr>qprr_vulkan_result = get_i32 input 0, qprr_data_size = data_size,
       qprr_data = fill_to QUERY_POOL_RESULTS_MAX_BYTES 0 (get_bytes input 8 (unat data_size))\<rparr>)"

lemma add_length: "unat c \<le> 4088 \<Longrightarrow> a \<le> 100 \<Longrightarrow> unat (word_of_nat a + c :: u32) = a + unat c"
  using unat_length [of c 4088 a 1] by simp

lemma results_length: "c \<le> 4088 \<Longrightarrow> unat (8 + c :: u32) = 8 + unat c"
  using add_length [of c 8] by (simp add: word_le_nat_alt)

interpretation query_pool_results_codec: sized_codec BVB_PROTOCOL_MAX_PAYLOAD
  "\<lambda>response. length (qprr_data response) = QUERY_POOL_RESULTS_MAX_BYTES"
  "\<lambda>response. qprr_data_size response \<noteq> 0 \<and> qprr_data_size response \<le> QUERY_POOL_RESULTS_MAX_BYTES"
  "\<lambda>response. response\<lparr>qprr_data := fill_to QUERY_POOL_RESULTS_MAX_BYTES 0
     (take (unat (qprr_data_size response)) (qprr_data response))\<rparr>"
  encode_vulkan_query_pool_results_response decode_vulkan_query_pool_results_response
proof (unfold_locales, goal_cases)
  case (7 x b k d)
  let ?c = "unat (qprr_data_size x)" and ?n = "8 + qprr_data_size x"
  have n: "unat ?n = 8 + ?c" "?c \<le> 4088" using 7(2) results_length by (auto simp: word_le_nat_alt)
  let ?m = "memcpy (put_u32 (put_u32 (replicate (unat ?n) 0) 0 (qprr_vulkan_result x)) 4 (qprr_data_size x)) 8
    (qprr_data x) ?c"
  have "encode_vulkan_query_pool_results_response (Some b) (Some x) (Some k) = Inr (?m @ drop (unat ?n) b, ?n)"
    using 7 n by (simp add: encode_vulkan_query_pool_results_response_def memset0_front wire_simps not_less)
  moreover have "decode_vulkan_query_pool_results_response (Some ?m) ?n (Some d) =
      Inr (x\<lparr>qprr_data := fill_to 4088 0 (take ?c (qprr_data x))\<rparr>)"
    using 7 n by (simp add: decode_vulkan_query_pool_results_response_def wire_simps not_less word_less_nat_alt)
  ultimately show ?case using 7 n by (intro exI [of _ ?m] exI [of _ ?n]) simp
next
  case (8 m n d x)
  then show ?case
    by (auto simp: decode_vulkan_query_pool_results_response_def Let_def fill_to_def word_le_nat_alt not_less results_length
        split: if_splits)
next
  case (10 m n c d)
  then show ?case
    by (auto simp: decode_vulkan_query_pool_results_response_def wire_simps word_less_nat_alt not_less word_le_nat_alt
        results_length)
qed (auto simp: encode_vulkan_query_pool_results_response_def decode_vulkan_query_pool_results_response_def Let_def not_less
    split: if_splits)

subsection \<open>Mapped memory\<close>

text \<open>
  The data is behind a pointer of its own: for the encoder the bytes it leads to, for the decoder the
  part of the input that the caller may read.
\<close>

definition encode_vulkan_memory_write_request ::
  "bytes option \<Rightarrow> vulkan_memory_io_request option \<Rightarrow> bytes option \<Rightarrow> u32 option \<Rightarrow> (bytes \<times> u32) result" where
  "encode_vulkan_memory_write_request output request data output_length =
     nonnull3 output data output_length (\<lambda>output data _. nonnull1 request (\<lambda>request.
     if \<not> validate_memory_io_request request then Inl EINVAL
     else
     let output = put_u64 output 0 (mir_memory_id request) in
     let output = put_u64 output 8 (mir_offset request) in
     let output = put_u32 output 16 (mir_length request) in
     let output = put_u32 output 20 0 in
     let output = memcpy output 24 data (unat (mir_length request)) in
     Inr (output, 24 + mir_length request)))"

definition decode_vulkan_memory_write_request ::
  "bytes option \<Rightarrow> u32 \<Rightarrow> vulkan_memory_io_request option \<Rightarrow> bytes option \<Rightarrow>
   (vulkan_memory_io_request \<times> bytes) result" where
  "decode_vulkan_memory_write_request input input_length request data = nonnull3 input request data (\<lambda>input _ _.
     if input_length < 24 then Inl EINVAL
     else
     let decoded = \<lparr>mir_memory_id = get_u64 input 0, mir_offset = get_u64 input 8, mir_length = get_u32 input 16\<rparr> in
     if \<not> validate_memory_io_request decoded \<or> get_u32 input 20 \<noteq> 0 \<or> input_length \<noteq> 24 + mir_length decoded
     then Inl EPROTO
     else Inr (decoded, get_bytes input 24 (unat (mir_length decoded))))"

record vulkan_memory_io_response =
  mior_vulkan_result :: i32
  mior_length :: u32

definition encode_vulkan_memory_io_response ::
  "bytes option \<Rightarrow> vulkan_memory_io_response option \<Rightarrow> bytes option \<Rightarrow> u32 option \<Rightarrow> (bytes \<times> u32) result" where
  "encode_vulkan_memory_io_response output response data output_length =
     nonnull3 output response output_length (\<lambda>output response _.
     if mior_length response > BVB_VULKAN_MEMORY_IO_MAX_BYTES \<or> mior_length response \<noteq> 0 \<and> data = None \<or>
        mior_vulkan_result response \<noteq> 0 \<and> mior_length response \<noteq> 0 then Inl EINVAL
     else
     let output = put_i32 output 0 (mior_vulkan_result response) in
     let output = put_u32 output 4 (mior_length response) in
     let output = (if mior_length response \<noteq> 0 then memcpy output 8 (the data) (unat (mior_length response)) else output) in
     Inr (output, 8 + mior_length response))"

definition decode_vulkan_memory_io_response ::
  "bytes option \<Rightarrow> u32 \<Rightarrow> vulkan_memory_io_response option \<Rightarrow> bytes option \<Rightarrow>
   (vulkan_memory_io_response \<times> bytes) result" where
  "decode_vulkan_memory_io_response input input_length response data = nonnull3 input response data (\<lambda>input _ _.
     if input_length < 8 then Inl EINVAL
     else
     let decoded = \<lparr>mior_vulkan_result = get_i32 input 0, mior_length = get_u32 input 4\<rparr> in
     if mior_length decoded > BVB_VULKAN_MEMORY_IO_MAX_BYTES \<or>
        mior_vulkan_result decoded \<noteq> 0 \<and> mior_length decoded \<noteq> 0 \<or> input_length \<noteq> 8 + mior_length decoded
     then Inl EPROTO
     else Inr (decoded, get_bytes input 8 (unat (mior_length decoded))))"

lemma write_length: "c \<le> 4072 \<Longrightarrow> unat (24 + c :: u32) = 24 + unat c"
  using add_length [of c 24] by (simp add: word_le_nat_alt)

lemma write_lengths: "c \<le> 4072 \<Longrightarrow> unat c \<le> 4072" for c :: u32
  by (simp add: word_le_nat_alt)

text \<open>The pair of a request and its data, as one object.\<close>

interpretation memory_write_codec: sized_codec BVB_PROTOCOL_MAX_PAYLOAD
  "\<lambda>(request, data). unat (mir_length request) \<le> length data" "\<lambda>(request, data). validate_memory_io_request request"
  "\<lambda>(request, data). (request, take (unat (mir_length request)) data)"
  "\<lambda>p x. encode_vulkan_memory_write_request p (map_option fst x) (map_option snd x)"
  "\<lambda>q n t. decode_vulkan_memory_write_request q n (map_option fst t) (map_option snd t)"
proof (unfold_locales, goal_cases)
  case (7 x b k d)
  obtain r data where x: "x = (r, data)" by fastforce
  let ?c = "unat (mir_length r)" and ?n = "24 + mir_length r"
  have n: "unat ?n = 24 + ?c" "?c \<le> 4072"
    using 7(2) write_length by (auto simp: x validate_memory_io_request_def word_le_nat_alt)
  define a e where "a = take (unat ?n) b" and "e = drop (unat ?n) b"
  then have b: "b = a @ e" "length a = unat ?n" using 7(3) n by auto
  let ?m = "memcpy (put_u32 (put_u32 (put_u64 (put_u64 a 0 (mir_memory_id r)) 8 (mir_offset r)) 16 (mir_length r)) 20 0) 24 data ?c"
  have "encode_vulkan_memory_write_request (Some b) (Some r) (Some data) (Some k) = Inr (?m @ e, ?n)"
    using 7 n b by (simp add: x encode_vulkan_memory_write_request_def wire_simps not_less)
  moreover have "decode_vulkan_memory_write_request (Some ?m) ?n (Some (fst d)) (Some (snd d)) = Inr (r, take ?c data)"
    using 7 n b by (simp add: x decode_vulkan_memory_write_request_def validate_memory_io_request_def wire_simps not_less word_less_nat_alt)
  ultimately show ?case using 7 n b by (intro exI [of _ ?m] exI [of _ ?n]) (simp add: x)
next
  case (8 m n d x)
  then show ?case
    by (auto simp: decode_vulkan_memory_write_request_def Let_def not_less write_length validate_memory_io_request_def
        split: if_splits)
next
  case (10 m n c d)
  then show ?case
    by (auto simp: decode_vulkan_memory_write_request_def wire_simps word_less_nat_alt not_less
        validate_memory_io_request_def write_length)
qed (auto simp: encode_vulkan_memory_write_request_def decode_vulkan_memory_write_request_def Let_def not_less nonnull3_def
    nonnull2_def nonnull1_def split: if_splits option.splits)

interpretation memory_io_response_codec: sized_codec BVB_PROTOCOL_MAX_PAYLOAD
  "\<lambda>(response, data). unat (mior_length response) \<le> length data"
  "\<lambda>(response, data). mior_length response \<le> BVB_VULKAN_MEMORY_IO_MAX_BYTES \<and>
     (mior_vulkan_result response = 0 \<or> mior_length response = 0)"
  "\<lambda>(response, data). (response, take (unat (mior_length response)) data)"
  "\<lambda>p x. encode_vulkan_memory_io_response p (map_option fst x) (map_option snd x)"
  "\<lambda>q n t. decode_vulkan_memory_io_response q n (map_option fst t) (map_option snd t)"
proof (unfold_locales, goal_cases)
  case (7 x b k d)
  obtain r data where x: "x = (r, data)" by fastforce
  let ?c = "unat (mior_length r)" and ?n = "8 + mior_length r"
  have n: "unat ?n = 8 + ?c" "?c \<le> 4072"
    using 7(2) results_length [of "mior_length r"] by (auto simp: x word_le_nat_alt)
  define a e where "a = take (unat ?n) b" and "e = drop (unat ?n) b"
  then have b: "b = a @ e" "length a = unat ?n" using 7(3) n by auto
  let ?m = "memcpy (put_u32 (put_u32 a 0 (mior_vulkan_result r)) 4 (mior_length r)) 8 data ?c"
  have "memcpy c 8 data 0 = c" for c by (simp add: memcpy_def)
  then have "encode_vulkan_memory_io_response (Some b) (Some r) (Some data) (Some k) = Inr (?m @ e, ?n)"
    using 7 n b by (auto simp: x encode_vulkan_memory_io_response_def wire_simps not_less)
  moreover have "decode_vulkan_memory_io_response (Some ?m) ?n (Some (fst d)) (Some (snd d)) = Inr (r, take ?c data)"
    using 7 n b by (auto simp: x decode_vulkan_memory_io_response_def wire_simps not_less word_less_nat_alt)
  ultimately show ?case using 7 n b by (intro exI [of _ ?m] exI [of _ ?n]) (simp add: x)
next
  case (8 m n d x)
  then show ?case
    by (auto simp: decode_vulkan_memory_io_response_def Let_def not_less results_length word_le_nat_alt
        split: if_splits)
next
  case (10 m n c d)
  then show ?case
    by (auto simp: decode_vulkan_memory_io_response_def wire_simps word_less_nat_alt not_less word_le_nat_alt results_length)
qed (auto simp: encode_vulkan_memory_io_response_def decode_vulkan_memory_io_response_def Let_def not_less nonnull3_def
    nonnull2_def nonnull1_def split: if_splits option.splits)

subsection \<open>Presentation\<close>

abbreviation (input) MAX_PRESENT_WAIT_SEMAPHORES :: "'a::numeral" where "MAX_PRESENT_WAIT_SEMAPHORES \<equiv> 16"
abbreviation (input) SWAPCHAIN_PRESENT_MAX_SIZE :: "'a::numeral" where "SWAPCHAIN_PRESENT_MAX_SIZE \<equiv> 160"

record vulkan_swapchain_present_request =
  spre_queue_id :: u64
  spre_swapchain_id :: u64
  spre_image_index :: u32
  spre_wait_semaphore_count :: u32
  spre_flags :: u32
  spre_wait_semaphore_ids :: "u64 list"

definition encode_vulkan_swapchain_present_request ::
  "bytes option \<Rightarrow> vulkan_swapchain_present_request option \<Rightarrow> u32 option \<Rightarrow> (bytes \<times> u32) result" where
  "encode_vulkan_swapchain_present_request output request output_length =
     nonnull3 output request output_length (\<lambda>output request _.
     if \<not> wire_id_is_type (spre_queue_id request) 4 \<or> \<not> wire_id_is_type (spre_swapchain_id request) BVB_OBJECT_SWAPCHAIN \<or>
        spre_image_index request \<ge> BVB_WSI_FRAME_RING_MAX_SLOTS \<or>
        spre_wait_semaphore_count request > MAX_PRESENT_WAIT_SEMAPHORES \<or> spre_flags request \<noteq> 0 then Inl EINVAL
     else
     let ids = take (unat (spre_wait_semaphore_count request)) (spre_wait_semaphore_ids request) in
     if \<not> list_all (\<lambda>i. wire_id_is_type i BVB_OBJECT_SEMAPHORE) ids then Inl EINVAL
     else
     let len = 32 + spre_wait_semaphore_count request * 8 in
     let output = memset0 output 0 (unat len) in
     let output = put_u64 output 0 (spre_queue_id request) in
     let output = put_u64 output 8 (spre_swapchain_id request) in
     let output = put_u32 output 16 (spre_image_index request) in
     let output = put_u32 output 20 (spre_wait_semaphore_count request) in
     let output = put_u32 output 24 (spre_flags request) in
     let output = put_each put_u64 8 output 32 ids in
     Inr (output, len))"

text \<open>The decoder checks what it read by encoding it again into a buffer of its own.\<close>

definition decode_vulkan_swapchain_present_request ::
  "bytes option \<Rightarrow> u32 \<Rightarrow> vulkan_swapchain_present_request option \<Rightarrow> vulkan_swapchain_present_request result" where
  "decode_vulkan_swapchain_present_request input input_length request = nonnull2 input request (\<lambda>input _.
     if input_length < 32 \<or> get_u32 input 28 \<noteq> 0 then Inl EINVAL
     else
     let count = get_u32 input 20 in
     if count > MAX_PRESENT_WAIT_SEMAPHORES \<or> input_length \<noteq> 32 + count * 8 then Inl EPROTO
     else
     let decoded = \<lparr>spre_queue_id = get_u64 input 0, spre_swapchain_id = get_u64 input 8,
       spre_image_index = get_u32 input 16, spre_wait_semaphore_count = count, spre_flags = get_u32 input 24,
       spre_wait_semaphore_ids = fill_to MAX_PRESENT_WAIT_SEMAPHORES 0 (get_each get_u64 8 input 32 (unat count))\<rparr> in
     case encode_vulkan_swapchain_present_request (Some (replicate SWAPCHAIN_PRESENT_MAX_SIZE 0)) (Some decoded) (Some 0) of
       Inl _ \<Rightarrow> Inl EPROTO
     | Inr (_, validation_length) \<Rightarrow> if validation_length \<noteq> input_length then Inl EPROTO else Inr decoded)"

definition swapchain_present_request_ok :: "vulkan_swapchain_present_request \<Rightarrow> bool" where
  "swapchain_present_request_ok request \<longleftrightarrow>
     wire_id_is_type (spre_queue_id request) 4 \<and> wire_id_is_type (spre_swapchain_id request) BVB_OBJECT_SWAPCHAIN \<and>
     spre_image_index request < BVB_WSI_FRAME_RING_MAX_SLOTS \<and>
     spre_wait_semaphore_count request \<le> MAX_PRESENT_WAIT_SEMAPHORES \<and> spre_flags request = 0 \<and>
     list_all (\<lambda>i. wire_id_is_type i BVB_OBJECT_SEMAPHORE)
       (take (unat (spre_wait_semaphore_count request)) (spre_wait_semaphore_ids request))"

lemma present_length: "c \<le> 16 \<Longrightarrow> unat (32 + c * 8 :: u32) = 32 + unat c * 8"
  using unat_length [of c 16 32 8] by (simp add: word_le_nat_alt)

lemma present_encodes_iff:
  "(\<exists>m n. encode_vulkan_swapchain_present_request (Some b) (Some x) (Some k) = Inr (m, n)) \<longleftrightarrow>
     swapchain_present_request_ok x"
  "encode_vulkan_swapchain_present_request (Some b) (Some x) (Some k) = Inr (m, n) \<Longrightarrow>
     n = 32 + spre_wait_semaphore_count x * 8"
  by (auto simp: encode_vulkan_swapchain_present_request_def swapchain_present_request_ok_def Let_def not_less not_le
      split: if_splits)

text \<open>So the decoder's check is the encoder's.\<close>

lemma decode_present_iff:
  "decode_vulkan_swapchain_present_request (Some m) n (Some d) =
     (if n < 32 \<or> get_u32 m 28 \<noteq> 0 then Inl EINVAL
      else
      let x = \<lparr>spre_queue_id = get_u64 m 0, spre_swapchain_id = get_u64 m 8, spre_image_index = get_u32 m 16,
        spre_wait_semaphore_count = get_u32 m 20, spre_flags = get_u32 m 24,
        spre_wait_semaphore_ids = fill_to 16 0 (get_each get_u64 8 m 32 (unat (get_u32 m 20)))\<rparr> in
      if n = 32 + get_u32 m 20 * 8 \<and> swapchain_present_request_ok x then Inr x else Inl EPROTO)"
  (is "_ = (if _ then _ else let x = ?x in _)")
proof -
  let ?e = "encode_vulkan_swapchain_present_request (Some (replicate 160 0)) (Some ?x) (Some 0)"
  have "?e = Inl EINVAL \<and> \<not> swapchain_present_request_ok ?x \<or>
      (\<exists>m'. ?e = Inr (m', 32 + get_u32 m 20 * 8)) \<and> swapchain_present_request_ok ?x"
    using present_encodes_iff [of "replicate 160 0" ?x 0]
    by (cases ?e) (fastforce simp: encode_vulkan_swapchain_present_request_def Let_def split: if_splits)+
  moreover have "swapchain_present_request_ok ?x \<Longrightarrow> get_u32 m 20 \<le> 16"
    by (simp add: swapchain_present_request_ok_def)
  ultimately show ?thesis
    unfolding decode_vulkan_swapchain_present_request_def Let_def nonnull2_simps by (auto simp: not_less)
qed

interpretation swapchain_present_codec: sized_codec SWAPCHAIN_PRESENT_MAX_SIZE
  "\<lambda>request. length (spre_wait_semaphore_ids request) = MAX_PRESENT_WAIT_SEMAPHORES" swapchain_present_request_ok
  "\<lambda>request. request\<lparr>spre_wait_semaphore_ids := fill_to MAX_PRESENT_WAIT_SEMAPHORES 0
     (take (unat (spre_wait_semaphore_count request)) (spre_wait_semaphore_ids request))\<rparr>"
  encode_vulkan_swapchain_present_request decode_vulkan_swapchain_present_request
proof (unfold_locales, goal_cases)
  case (7 x b k d)
  let ?n = "32 + spre_wait_semaphore_count x * 8" and ?c = "unat (spre_wait_semaphore_count x)"
  let ?ids = "take ?c (spre_wait_semaphore_ids x)"
  have n: "unat ?n = 32 + ?c * 8" "?c \<le> 16"
    using 7(2) present_length by (auto simp: swapchain_present_request_ok_def word_le_nat_alt)
  let ?m = "put_each put_u64 8 (put_u32 (put_u32 (put_u32 (put_u64 (put_u64 (replicate (unat ?n) 0) 0 (spre_queue_id x))
    8 (spre_swapchain_id x)) 16 (spre_image_index x)) 20 (spre_wait_semaphore_count x)) 24 (spre_flags x)) 32 ?ids"
  have "encode_vulkan_swapchain_present_request (Some b) (Some x) (Some k) = Inr (?m @ drop (unat ?n) b, ?n)"
    using 7 n by (simp add: encode_vulkan_swapchain_present_request_def swapchain_present_request_ok_def memset0_front
        wire_simps not_less not_le)
  moreover have "decode_vulkan_swapchain_present_request (Some ?m) ?n (Some d) =
      Inr (x\<lparr>spre_wait_semaphore_ids := fill_to 16 0 ?ids\<rparr>)"
    using 7 n by (simp add: decode_present_iff wire_simps word_less_nat_alt)
      (simp add: swapchain_present_request_ok_def fill_to_def)
  ultimately show ?case using 7 n by (intro exI [of _ ?m] exI [of _ ?n]) simp
next
  case (8 m n d x)
  then show ?case
    by (auto simp: decode_present_iff Let_def swapchain_present_request_ok_def word_le_nat_alt split: if_splits)
next
  case (10 m n c d)
  show ?case
  proof (cases "get_u32 m 20 \<le> 16")
    case True
    then show ?thesis using 10 by (auto simp: decode_present_iff wire_simps word_less_nat_alt not_less present_length)
  next
    case False
    then show ?thesis
      using 10 by (auto simp: decode_present_iff wire_simps word_less_nat_alt not_less swapchain_present_request_ok_def)
  qed
next
  case (9 m n d e)
  then show ?case by (auto simp: decode_present_iff Let_def split: if_splits)
qed (auto simp: encode_vulkan_swapchain_present_request_def decode_vulkan_swapchain_present_request_def
    swapchain_present_request_ok_def Let_def not_less not_le)

subsection \<open>Waiting for semaphores\<close>

abbreviation (input) MAX_SEMAPHORES_PER_WAIT :: "'a::numeral" where "MAX_SEMAPHORES_PER_WAIT \<equiv> 16"
abbreviation (input) SEMAPHORE_WAIT_MAX_SIZE :: "'a::numeral" where "SEMAPHORE_WAIT_MAX_SIZE \<equiv> 280"

record vulkan_semaphore_wait_record =
  swr_semaphore_id :: u64
  swr_value :: u64

record vulkan_semaphore_wait_request =
  sewr_device_id :: u64
  sewr_timeout :: u64
  sewr_flags :: u32
  sewr_semaphore_count :: u32
  sewr_semaphores :: "vulkan_semaphore_wait_record list"

definition put_wait_record :: "bytes \<Rightarrow> nat \<Rightarrow> vulkan_semaphore_wait_record \<Rightarrow> bytes" where
  "put_wait_record output at r = put_u64 (put_u64 output at (swr_semaphore_id r)) (at + 8) (swr_value r)"

definition get_wait_record :: "bytes \<Rightarrow> nat \<Rightarrow> vulkan_semaphore_wait_record" where
  "get_wait_record input at = \<lparr>swr_semaphore_id = get_u64 input at, swr_value = get_u64 input (at + 8)\<rparr>"

definition no_wait_record :: vulkan_semaphore_wait_record where
  "no_wait_record = \<lparr>swr_semaphore_id = 0, swr_value = 0\<rparr>"

definition encode_vulkan_semaphore_wait_request ::
  "bytes option \<Rightarrow> vulkan_semaphore_wait_request option \<Rightarrow> u32 option \<Rightarrow> (bytes \<times> u32) result" where
  "encode_vulkan_semaphore_wait_request output request output_length =
     nonnull3 output request output_length (\<lambda>output request _.
     if \<not> wire_id_is_type (sewr_device_id request) 3 \<or> sewr_semaphore_count request = 0 \<or>
        sewr_semaphore_count request > MAX_SEMAPHORES_PER_WAIT \<or> sewr_flags request AND NOT 1 \<noteq> 0 then Inl EINVAL
     else
     let len = 24 + sewr_semaphore_count request * 16 in
     let output = memset0 output 0 (unat len) in
     let output = put_u64 output 0 (sewr_device_id request) in
     let output = put_u64 output 8 (sewr_timeout request) in
     let output = put_u32 output 16 (sewr_flags request) in
     let output = put_u32 output 20 (sewr_semaphore_count request) in
     let semaphores = take (unat (sewr_semaphore_count request)) (sewr_semaphores request) in
     if \<not> list_all (\<lambda>r. wire_id_is_type (swr_semaphore_id r) 17) semaphores then Inl EINVAL
     else Inr (put_each put_wait_record 16 output 24 semaphores, len))"

definition decode_vulkan_semaphore_wait_request ::
  "bytes option \<Rightarrow> u32 \<Rightarrow> vulkan_semaphore_wait_request option \<Rightarrow> vulkan_semaphore_wait_request result" where
  "decode_vulkan_semaphore_wait_request input input_length request = nonnull2 input request (\<lambda>input _.
     if input_length < 24 then Inl EINVAL
     else
     let count = get_u32 input 20; expected = 24 + count * 16 in
     if count = 0 \<or> count > MAX_SEMAPHORES_PER_WAIT \<or> input_length \<noteq> expected then Inl EPROTO
     else if \<not> wire_id_is_type (get_u64 input 0) 3 \<or> get_u32 input 16 AND NOT 1 \<noteq> 0 then Inl EPROTO
     else
     let semaphores = get_each get_wait_record 16 input 24 (unat count) in
     if \<not> list_all (\<lambda>r. wire_id_is_type (swr_semaphore_id r) 17) semaphores then Inl EPROTO
     else Inr \<lparr>sewr_device_id = get_u64 input 0, sewr_timeout = get_u64 input 8, sewr_flags = get_u32 input 16,
       sewr_semaphore_count = count, sewr_semaphores = fill_to MAX_SEMAPHORES_PER_WAIT no_wait_record semaphores\<rparr>)"

definition semaphore_wait_request_ok :: "vulkan_semaphore_wait_request \<Rightarrow> bool" where
  "semaphore_wait_request_ok request \<longleftrightarrow>
     wire_id_is_type (sewr_device_id request) 3 \<and> sewr_semaphore_count request \<noteq> 0 \<and>
     sewr_semaphore_count request \<le> MAX_SEMAPHORES_PER_WAIT \<and> sewr_flags request AND NOT 1 = 0 \<and>
     list_all (\<lambda>r. wire_id_is_type (swr_semaphore_id r) 17)
       (take (unat (sewr_semaphore_count request)) (sewr_semaphores request))"

interpretation wait_record_field: wire_field 16 put_wait_record get_wait_record "\<lambda>_. True"
proof (unfold_locales, goal_cases)
  case (4 i b c)
  then have "agree i 16 b c" by (auto simp: agree_def)
  then show ?case by (simp add: get_wait_record_def agree_reads agree_reads_0)
qed (auto simp: put_wait_record_def get_wait_record_def wire_simps nth_put)

lemma put_wait_records_append:
  "at + length xs * 16 \<le> length a \<Longrightarrow> put_each put_wait_record 16 (a @ c) at xs = put_each put_wait_record 16 a at xs @ c"
  by (rule put_each_append [where w = 16]; simp add: put_wait_record_def wire_simps)

lemma get_wait_records_append:
  "at + n * 16 \<le> length a \<Longrightarrow> get_each get_wait_record 16 (a @ c) at n = get_each get_wait_record 16 a at n"
  by (rule get_each_append_left [where w = 16]; simp add: get_wait_record_def wire_simps)

lemma before_wait_records:
  "j + 4 \<le> at \<Longrightarrow> at + length xs * 16 \<le> length b \<Longrightarrow> get_u32 (put_each put_wait_record 16 b at xs) j = get_u32 b j"
  "j + 8 \<le> at \<Longrightarrow> at + length xs * 16 \<le> length b \<Longrightarrow> get_u64 (put_each put_wait_record 16 b at xs) j = get_u64 b j"
  by (rule wait_record_field.read_other_array [OF reads_u32] wait_record_field.read_other_array [OF reads_u64];
      simp add: list_all_iff)+

lemma wait_length: "c \<le> 16 \<Longrightarrow> unat (24 + c * 16 :: u32) = 24 + unat c * 16"
  using unat_length [of c 16 24 16] by (simp add: word_le_nat_alt)

interpretation semaphore_wait_codec: sized_codec SEMAPHORE_WAIT_MAX_SIZE
  "\<lambda>request. length (sewr_semaphores request) = MAX_SEMAPHORES_PER_WAIT" semaphore_wait_request_ok
  "\<lambda>request. request\<lparr>sewr_semaphores := fill_to MAX_SEMAPHORES_PER_WAIT no_wait_record
     (take (unat (sewr_semaphore_count request)) (sewr_semaphores request))\<rparr>"
  encode_vulkan_semaphore_wait_request decode_vulkan_semaphore_wait_request
proof (unfold_locales, goal_cases)
  case (7 x b k d)
  let ?n = "24 + sewr_semaphore_count x * 16" and ?c = "unat (sewr_semaphore_count x)"
  let ?xs = "take ?c (sewr_semaphores x)"
  have n: "unat ?n = 24 + ?c * 16" "?c \<le> 16"
    using 7(2) wait_length by (auto simp: semaphore_wait_request_ok_def word_le_nat_alt)
  have len: "length ?xs = ?c" using 7(1) n(2) by simp
  let ?p = "put_u32 (put_u32 (put_u64 (put_u64 (replicate (unat ?n) 0) 0 (sewr_device_id x))
    8 (sewr_timeout x)) 16 (sewr_flags x)) 20 (sewr_semaphore_count x)"
  let ?m = "put_each put_wait_record 16 ?p 24 ?xs"
  have "length ?m = length ?p" using n len by (intro wait_record_field.put_each_length) (auto simp: list_all_iff)
  then have length: "length ?m = unat ?n" by simp
  have "encode_vulkan_semaphore_wait_request (Some b) (Some x) (Some k) = Inr (?m @ drop (unat ?n) b, ?n)"
    using 7 n len by (simp add: encode_vulkan_semaphore_wait_request_def semaphore_wait_request_ok_def memset0_front
        wire_simps not_less put_wait_records_append)
  moreover have "get_each get_wait_record 16 ?m 24 ?c = ?xs"
    using wait_record_field.get_put_each [of 16 ?xs 24 ?p] len n by (simp add: list_all_iff)
  then have "decode_vulkan_semaphore_wait_request (Some ?m) ?n (Some d) =
      Inr (x\<lparr>sewr_semaphores := fill_to 16 no_wait_record ?xs\<rparr>)"
    using 7 n len by (simp add: decode_vulkan_semaphore_wait_request_def semaphore_wait_request_ok_def
        before_wait_records wire_simps word_less_nat_alt not_less)
  ultimately show ?case using 7 n length by (intro exI [of _ ?m] exI [of _ ?n]) simp
next
  case (8 m n d x)
  then show ?case
    by (auto simp: decode_vulkan_semaphore_wait_request_def semaphore_wait_request_ok_def Let_def fill_to_def
        word_le_nat_alt not_less split: if_splits)
next
  case (10 m n c d)
  then show ?case
    by (auto simp: decode_vulkan_semaphore_wait_request_def wire_simps word_less_nat_alt not_less word_le_nat_alt
        wait_length get_wait_records_append)
qed (auto simp: encode_vulkan_semaphore_wait_request_def decode_vulkan_semaphore_wait_request_def
    semaphore_wait_request_ok_def Let_def not_less split: if_splits)

end
