(* ===== verification/Proto_Submission.thy ===== *)
theory Proto_Submission
  imports Proto_Variable
begin

unbundle bit_operations_syntax

section \<open>Submissions\<close>

text \<open>
  The submission of command buffers to a queue (src/src/protocol.c 3099-3325), in its two wire formats:
  with plain command buffers and with streams in the shared region.
\<close>

subsection \<open>Definitions\<close>


abbreviation (input) MAX_COMMAND_BUFFERS_PER_SUBMIT :: "'a::numeral" where "MAX_COMMAND_BUFFERS_PER_SUBMIT \<equiv> 16"
abbreviation (input) COMMAND_STREAM_SLOT_BYTES :: "'a::numeral" where "COMMAND_STREAM_SLOT_BYTES \<equiv> 2097152"

record vulkan_submit_2_semaphore_record =
  s2s_semaphore_id :: u64
  s2s_value :: u64
  s2s_stage_mask :: u64
  s2s_device_index :: u32

record vulkan_submit_2_command_record =
  s2c_command_buffer_id :: u64
  s2c_stream_generation :: u64
  s2c_stream_sequence :: u64
  s2c_stream_offset :: u32
  s2c_stream_length :: u32
  s2c_device_mask :: u32
  s2c_stream_flags :: u32

record vulkan_queue_submit_2_request =
  qs2_queue_id :: u64
  qs2_fence_id :: u64
  qs2_flags :: u32
  qs2_wait_count :: u32
  qs2_command_count :: u32
  qs2_signal_count :: u32
  qs2_waits :: "vulkan_submit_2_semaphore_record list"
  qs2_commands :: "vulkan_submit_2_command_record list"
  qs2_signals :: "vulkan_submit_2_semaphore_record list"

definition put_submit_semaphore :: "bytes \<Rightarrow> nat \<Rightarrow> vulkan_submit_2_semaphore_record \<Rightarrow> bytes" where
  "put_submit_semaphore output offset r =
     (let output = put_u64 output offset (s2s_semaphore_id r) in
      let output = put_u64 output (offset + 8) (s2s_value r) in
      let output = put_u64 output (offset + 16) (s2s_stage_mask r) in
      put_u32 output (offset + 24) (s2s_device_index r))"

definition get_submit_semaphore :: "bytes \<Rightarrow> nat \<Rightarrow> vulkan_submit_2_semaphore_record" where
  "get_submit_semaphore input offset =
     \<lparr>s2s_semaphore_id = get_u64 input offset, s2s_value = get_u64 input (offset + 8),
      s2s_stage_mask = get_u64 input (offset + 16), s2s_device_index = get_u32 input (offset + 24)\<rparr>"

definition put_submit_command :: "bool \<Rightarrow> bytes \<Rightarrow> nat \<Rightarrow> vulkan_submit_2_command_record \<Rightarrow> bytes" where
  "put_submit_command stream_wire output offset r =
     (let output = put_u64 output offset (s2c_command_buffer_id r) in
      if stream_wire then
        let output = put_u64 output (offset + 8) (s2c_stream_generation r) in
        let output = put_u64 output (offset + 16) (s2c_stream_sequence r) in
        let output = put_u32 output (offset + 24) (s2c_stream_offset r) in
        let output = put_u32 output (offset + 28) (s2c_stream_length r) in
        let output = put_u32 output (offset + 32) (s2c_device_mask r) in
        put_u32 output (offset + 36) (s2c_stream_flags r)
      else put_u32 output (offset + 8) (s2c_device_mask r))"

definition get_submit_command :: "bool \<Rightarrow> bytes \<Rightarrow> nat \<Rightarrow> vulkan_submit_2_command_record" where
  "get_submit_command stream_wire input offset =
     (if stream_wire then
        \<lparr>s2c_command_buffer_id = get_u64 input offset, s2c_stream_generation = get_u64 input (offset + 8),
         s2c_stream_sequence = get_u64 input (offset + 16), s2c_stream_offset = get_u32 input (offset + 24),
         s2c_stream_length = get_u32 input (offset + 28), s2c_device_mask = get_u32 input (offset + 32),
         s2c_stream_flags = get_u32 input (offset + 36)\<rparr>
      else
        \<lparr>s2c_command_buffer_id = get_u64 input offset, s2c_stream_generation = 0, s2c_stream_sequence = 0,
         s2c_stream_offset = 0, s2c_stream_length = 0, s2c_device_mask = get_u32 input (offset + 8),
         s2c_stream_flags = 0\<rparr>)"

text \<open>The stream part of a command record: absent, or a slot of the region that holds at least a header.\<close>

definition no_stream :: "vulkan_submit_2_command_record \<Rightarrow> bool" where
  "no_stream r \<longleftrightarrow> s2c_stream_generation r = 0 \<and> s2c_stream_sequence r = 0 \<and> s2c_stream_offset r = 0 \<and>
     s2c_stream_length r = 0"

definition submit_command_ok :: "vulkan_submit_2_command_record \<Rightarrow> bool" where
  "submit_command_ok r \<longleftrightarrow>
     (let shared = s2c_stream_flags r = 1 in
      wire_id_is_type (s2c_command_buffer_id r) 11 \<and> s2c_stream_flags r AND NOT 1 = 0 \<and>
      (if shared then s2c_stream_generation r \<noteq> 0 \<and> s2c_stream_sequence r \<noteq> 0 \<and>
          s2c_stream_offset r mod COMMAND_STREAM_SLOT_BYTES = 0 \<and>
          s2c_stream_offset r < BVB_COMMAND_STREAM_REGION_BYTES \<and>
          s2c_stream_length r \<ge> BVB_COMMAND_BATCH_HEADER_SIZE \<and> s2c_stream_length r \<le> COMMAND_STREAM_SLOT_BYTES
       else no_stream r))"

definition command_record_size :: "bool \<Rightarrow> u32" where
  "command_record_size stream_wire = (if stream_wire then 40 else 16)"

definition submit_2_length :: "bool \<Rightarrow> u32 \<Rightarrow> u32 \<Rightarrow> u32 \<Rightarrow> u32" where
  "submit_2_length stream_wire wait_count command_count signal_count =
     32 + (wait_count + signal_count) * 32 + command_count * command_record_size stream_wire"

definition encode_queue_submit_2 ::
  "bool \<Rightarrow> bytes option \<Rightarrow> vulkan_queue_submit_2_request option \<Rightarrow> u32 option \<Rightarrow> (bytes \<times> u32) result" where
  "encode_queue_submit_2 stream_wire output request output_length =
     nonnull3 output request output_length (\<lambda>output request _.
     if \<not> wire_id_is_type (qs2_queue_id request) 4 \<or>
        qs2_fence_id request \<noteq> 0 \<and> \<not> wire_id_is_type (qs2_fence_id request) 18 \<or>
        qs2_wait_count request > MAX_SEMAPHORES_PER_WAIT \<or>
        qs2_command_count request > MAX_COMMAND_BUFFERS_PER_SUBMIT \<or>
        qs2_signal_count request > MAX_SEMAPHORES_PER_WAIT then Inl EINVAL
     else
     let size = unat (command_record_size stream_wire);
         len = submit_2_length stream_wire (qs2_wait_count request) (qs2_command_count request) (qs2_signal_count request);
         waits = take (unat (qs2_wait_count request)) (qs2_waits request);
         commands = take (unat (qs2_command_count request)) (qs2_commands request);
         signals = take (unat (qs2_signal_count request)) (qs2_signals request) in
     let output = memset0 output 0 (unat len) in
     let output = put_u64 output 0 (qs2_queue_id request) in
     let output = put_u64 output 8 (qs2_fence_id request) in
     let output = put_u32 output 16 (qs2_flags request) in
     let output = put_u32 output 20 (qs2_wait_count request) in
     let output = put_u32 output 24 (qs2_command_count request) in
     let output = put_u32 output 28 (qs2_signal_count request) in
     if \<not> list_all (\<lambda>r. wire_id_is_type (s2s_semaphore_id r) 17) waits then Inl EINVAL
     else
     let output = put_each put_submit_semaphore 32 output 32 waits; offset = 32 + length waits * 32 in
     if \<not> list_all (\<lambda>r. submit_command_ok r \<and> (stream_wire \<or> s2c_stream_flags r = 0 \<and> no_stream r)) commands
     then Inl EINVAL
     else
     let output = put_each (put_submit_command stream_wire) size output offset commands;
         offset = offset + length commands * size in
     if stream_wire \<and> \<not> list_ex (\<lambda>r. s2c_stream_flags r = 1) commands then Inl EINVAL
     else if \<not> list_all (\<lambda>r. wire_id_is_type (s2s_semaphore_id r) 17) signals then Inl EINVAL
     else Inr (put_each put_submit_semaphore 32 output offset signals, len))"

definition no_submit_semaphore :: vulkan_submit_2_semaphore_record where
  "no_submit_semaphore = \<lparr>s2s_semaphore_id = 0, s2s_value = 0, s2s_stage_mask = 0, s2s_device_index = 0\<rparr>"

definition no_submit_command :: vulkan_submit_2_command_record where
  "no_submit_command = \<lparr>s2c_command_buffer_id = 0, s2c_stream_generation = 0, s2c_stream_sequence = 0,
     s2c_stream_offset = 0, s2c_stream_length = 0, s2c_device_mask = 0, s2c_stream_flags = 0\<rparr>"

text \<open>The semaphore records at an offset, with the words that must be zero after each.\<close>

definition submit_semaphores_ok :: "bytes \<Rightarrow> nat \<Rightarrow> nat \<Rightarrow> bool" where
  "submit_semaphores_ok input offset n \<longleftrightarrow>
     list_all (\<lambda>r. wire_id_is_type (s2s_semaphore_id r) 17) (get_each get_submit_semaphore 32 input offset n) \<and>
     list_all (\<lambda>padding. padding = 0) (get_each get_u32 32 input (offset + 28) n)"

definition decode_queue_submit_2 ::
  "bool \<Rightarrow> bytes option \<Rightarrow> u32 \<Rightarrow> vulkan_queue_submit_2_request option \<Rightarrow> vulkan_queue_submit_2_request result" where
  "decode_queue_submit_2 stream_wire input input_length request = nonnull2 input request (\<lambda>input _.
     if input_length < 32 then Inl EINVAL
     else
     let wait_count = get_u32 input 20; command_count = get_u32 input 24; signal_count = get_u32 input 28 in
     if wait_count > MAX_SEMAPHORES_PER_WAIT \<or> command_count > MAX_COMMAND_BUFFERS_PER_SUBMIT \<or>
        signal_count > MAX_SEMAPHORES_PER_WAIT then Inl EPROTO
     else if input_length \<noteq> submit_2_length stream_wire wait_count command_count signal_count then Inl EPROTO
     else if \<not> wire_id_is_type (get_u64 input 0) 4 \<or>
        get_u64 input 8 \<noteq> 0 \<and> \<not> wire_id_is_type (get_u64 input 8) 18 then Inl EPROTO
     else
     let size = unat (command_record_size stream_wire); offset = 32 in
     if \<not> submit_semaphores_ok input offset (unat wait_count) then Inl EPROTO
     else
     let waits = get_each get_submit_semaphore 32 input offset (unat wait_count);
         offset = offset + unat wait_count * 32;
         commands = get_each (get_submit_command stream_wire) size input offset (unat command_count) in
     if \<not> stream_wire \<and> \<not> list_all (\<lambda>padding. padding = 0) (get_each get_u32 size input (offset + 12) (unat command_count))
     then Inl EPROTO
     else if \<not> list_all submit_command_ok commands then Inl EPROTO
     else if stream_wire \<and> \<not> list_ex (\<lambda>r. s2c_stream_flags r = 1) commands then Inl EPROTO
     else
     let offset = offset + unat command_count * size in
     if \<not> submit_semaphores_ok input offset (unat signal_count) then Inl EPROTO
     else Inr \<lparr>qs2_queue_id = get_u64 input 0, qs2_fence_id = get_u64 input 8, qs2_flags = get_u32 input 16,
       qs2_wait_count = wait_count, qs2_command_count = command_count, qs2_signal_count = signal_count,
       qs2_waits = fill_to MAX_SEMAPHORES_PER_WAIT no_submit_semaphore waits,
       qs2_commands = fill_to MAX_COMMAND_BUFFERS_PER_SUBMIT no_submit_command commands,
       qs2_signals = fill_to MAX_SEMAPHORES_PER_WAIT no_submit_semaphore
         (get_each get_submit_semaphore 32 input offset (unat signal_count))\<rparr>)"

definition encode_vulkan_queue_submit_2_request where
  "encode_vulkan_queue_submit_2_request output request output_length =
     encode_queue_submit_2 False output request output_length"

definition encode_vulkan_queue_submit_2_stream_request where
  "encode_vulkan_queue_submit_2_stream_request output request output_length =
     encode_queue_submit_2 True output request output_length"

definition decode_vulkan_queue_submit_2_request where
  "decode_vulkan_queue_submit_2_request input input_length request =
     decode_queue_submit_2 False input input_length request"

definition decode_vulkan_queue_submit_2_stream_request where
  "decode_vulkan_queue_submit_2_stream_request input input_length request =
     decode_queue_submit_2 True input input_length request"


subsection \<open>The records\<close>

interpretation submit_semaphore_field: wire_field 28 put_submit_semaphore get_submit_semaphore "\<lambda>_. True"
proof (unfold_locales, goal_cases)
  case (4 i b c)
  then have "agree i 28 b c" by (auto simp: agree_def)
  then show ?case by (simp add: get_submit_semaphore_def agree_reads agree_reads_0)
qed (auto simp: put_submit_semaphore_def get_submit_semaphore_def Let_def wire_simps nth_put)

abbreviation (input) command_width :: "bool \<Rightarrow> nat" where
  "command_width stream_wire \<equiv> if stream_wire then 40 else 12"

definition fits_wire :: "bool \<Rightarrow> vulkan_submit_2_command_record \<Rightarrow> bool" where
  "fits_wire stream_wire r \<longleftrightarrow> stream_wire \<or> s2c_stream_flags r = 0 \<and> no_stream r"

interpretation submit_command_field: wire_field "command_width stream_wire" "put_submit_command stream_wire"
  "get_submit_command stream_wire" "fits_wire stream_wire"
  for stream_wire
proof (unfold_locales, goal_cases)
  case (4 i b c)
  then have "agree i (command_width stream_wire) b c" by (auto simp: agree_def)
  then show ?case by (simp add: get_submit_command_def agree_reads agree_reads_0)
qed (auto simp: put_submit_command_def get_submit_command_def fits_wire_def no_stream_def Let_def wire_simps nth_put
    split: if_splits)

lemma put_submit_append:
  "at + length xs * 32 \<le> length a \<Longrightarrow>
     put_each put_submit_semaphore 32 (a @ c) at xs = put_each put_submit_semaphore 32 a at xs @ c"
  "at + length ys * unat (command_record_size stream_wire) \<le> length a \<Longrightarrow>
     put_each (put_submit_command stream_wire) (unat (command_record_size stream_wire)) (a @ c) at ys =
     put_each (put_submit_command stream_wire) (unat (command_record_size stream_wire)) a at ys @ c"
  subgoal by (rule put_each_append [where w = 28]; simp add: put_submit_semaphore_def Let_def wire_simps)
  subgoal by (cases stream_wire; rule put_each_append [where w = "command_width stream_wire"];
      simp add: put_submit_command_def command_record_size_def Let_def wire_simps)
  done

lemma get_submit_append:
  "at + n * 32 \<le> length a \<Longrightarrow>
     get_each get_submit_semaphore 32 (a @ c) at n = get_each get_submit_semaphore 32 a at n"
  "at + n * unat (command_record_size stream_wire) \<le> length a \<Longrightarrow>
     get_each (get_submit_command stream_wire) (unat (command_record_size stream_wire)) (a @ c) at n =
     get_each (get_submit_command stream_wire) (unat (command_record_size stream_wire)) a at n"
  subgoal by (rule get_each_append_left [where w = 28]; simp add: get_submit_semaphore_def wire_simps)
  subgoal by (cases stream_wire; rule get_each_append_left [where w = "command_width stream_wire"];
      simp add: get_submit_command_def command_record_size_def wire_simps)
  done

lemma submit_length:
  assumes "w \<le> 16" "c \<le> 16" "s \<le> 16"
  shows "unat (submit_2_length stream_wire w c s) =
    32 + unat w * 32 + unat c * unat (command_record_size stream_wire) + unat s * 32"
proof -
  have u: "unat w \<le> 16" "unat c \<le> 16" "unat s \<le> 16" using assms by (simp_all add: word_le_nat_alt)
  have "unat (w + s) = unat w + unat s" using u by (simp add: unat_word_ariths)
  then have a: "unat (32 + (w + s) * 32 :: u32) = 32 + (unat w + unat s) * 32"
    using unat_length [of "w + s" 32 32 32] u by simp
  have b: "unat (c * command_record_size stream_wire) = unat c * unat (command_record_size stream_wire)"
    using u(2) by (simp add: unat_word_ariths command_record_size_def)
  show ?thesis
    unfolding submit_2_length_def
    using a b u by (simp add: unat_word_ariths command_record_size_def split: if_splits)
qed

subsection \<open>The layout of a submission\<close>

lemma get_each_cong: "(\<And>i. i < n \<Longrightarrow> g b (at + i * s) = g c (at + i * s)) \<Longrightarrow> get_each g s b at n = get_each g s c at n"
  by (simp add: get_each_def)

lemma entry_end: "i < n \<Longrightarrow> off + w \<le> s \<Longrightarrow> at + off + i * s + w \<le> at + n * s" for n :: nat
proof -
  assume "i < n" "off + w \<le> s"
  then have "(i + 1) * s \<le> n * s" by (intro mult_le_mono1) simp
  then show ?thesis using \<open>off + w \<le> s\<close> by (simp add: algebra_simps)
qed

lemma zeros_gaps:
  assumes "zeros b i (length b)" "i \<le> at" "at + n * s \<le> length b" "off + 4 \<le> s"
  shows "get_each get_u32 s b (at + off) n = replicate n 0"
proof -
  have "get_u32 b (at + off + k * s) = 0" if "k < n" for k
    using assms entry_end [OF that assms(4), of at] by (intro zeros_reads(1) [OF assms(1)]) auto
  then show ?thesis by (simp add: get_each_def list_eq_iff_nth_eq)
qed

lemma submit_layout:
  fixes stream_wire :: bool and xs zs :: "vulkan_submit_2_semaphore_record list"
    and ys :: "vulkan_submit_2_command_record list" and b :: bytes
  defines "csize \<equiv> unat (command_record_size stream_wire)"
  defines "o1 \<equiv> 32 + length xs * 32"
  defines "o2 \<equiv> o1 + length ys * csize"
  defines "m \<equiv> put_each put_submit_semaphore 32 (put_each (put_submit_command stream_wire) csize
    (put_each put_submit_semaphore 32 b 32 xs) o1 ys) o2 zs"
  assumes fits: "list_all (fits_wire stream_wire) ys" and len: "length b = o2 + length zs * 32"
    and zero: "zeros b 32 (length b)"
  shows "length m = length b" "reads w g \<Longrightarrow> j + w \<le> 32 \<Longrightarrow> g m j = g b j"
    "get_each get_submit_semaphore 32 m 32 (length xs) = xs" "get_each get_u32 32 m (32 + 28) (length xs) = replicate (length xs) 0"
    "get_each (get_submit_command stream_wire) csize m o1 (length ys) = ys"
    "\<not> stream_wire \<Longrightarrow> get_each get_u32 csize m (o1 + 12) (length ys) = replicate (length ys) 0"
    "get_each get_submit_semaphore 32 m o2 (length zs) = zs" "get_each get_u32 32 m (o2 + 28) (length zs) = replicate (length zs) 0"
proof -
  let ?b1 = "put_each put_submit_semaphore 32 b 32 xs"
  let ?b2 = "put_each (put_submit_command stream_wire) csize ?b1 o1 ys"
  note sem = submit_semaphore_field.read_other_array [of _ _ 32, simplified]
    and sems = submit_semaphore_field.read_each_other_array [of _ _ 32, simplified]
    and cmd = submit_command_field.read_other_array [where stream_wire = stream_wire and stride = csize]
    and cmds = submit_command_field.read_each_other_array [where stream_wire = stream_wire and stride = csize]
  have cw: "command_width stream_wire \<le> csize" by (simp add: csize_def command_record_size_def)
  have any [simp]: "list_all (\<lambda>_. True) vs" for vs :: "'b list" by (simp add: list_all_iff)
  have l1: "length ?b1 = length b"
    using len by (intro submit_semaphore_field.put_each_length) (auto simp: o1_def o2_def)
  have l2: "length ?b2 = length b"
    using len l1 cw fits by (subst submit_command_field.put_each_length [where stream_wire = stream_wire]) (auto simp: o2_def)
  show lm: "length m = length b"
    unfolding m_def using len l2 by (subst submit_semaphore_field.put_each_length) auto
  have m2: "g m j = g ?b2 j" if "reads w g" "j + w \<le> o2" for w j and g :: "bytes \<Rightarrow> nat \<Rightarrow> 'c"
    unfolding m_def using that len l2 by (intro sem [OF that(1)]) auto
  have b21: "g ?b2 j = g ?b1 j" if "reads w g" "j + w \<le> o1 \<or> o2 \<le> j" "j + w \<le> length b" for w j and g :: "bytes \<Rightarrow> nat \<Rightarrow> 'c"
    using that len l1 cw fits by (intro cmd [OF that(1)]) (auto simp: o2_def)
  have b10: "g ?b1 j = g b j" if "reads w g" "j + w \<le> 32 \<or> o1 \<le> j" "j + w \<le> length b" for w j and g :: "bytes \<Rightarrow> nat \<Rightarrow> 'c"
    using that len by (intro sem [OF that(1)]) (auto simp: o1_def o2_def)
  show "g m j = g b j" if "reads w g" "j + w \<le> 32"
    using m2 [OF that(1)] b21 [OF that(1)] b10 [OF that(1)] that(2) len by (simp add: o1_def o2_def)
  have waits_same: "g m (32 + off + i * 32) = g ?b1 (32 + off + i * 32)" if "reads w g" "off + w \<le> 32" "i < length xs"
    for w off i and g :: "bytes \<Rightarrow> nat \<Rightarrow> 'c"
  proof -
    have "32 + off + i * 32 + w \<le> o1" using entry_end [OF that(3,2), of 32] by (simp add: o1_def)
    then show ?thesis using m2 [OF that(1)] b21 [OF that(1)] len by (simp add: o2_def)
  qed
  have "get_each get_submit_semaphore 32 m 32 (length xs) = get_each get_submit_semaphore 32 ?b1 32 (length xs)"
    using waits_same [OF submit_semaphore_field.reads_get, of 0] by (intro get_each_cong) simp
  then show "get_each get_submit_semaphore 32 m 32 (length xs) = xs"
    using submit_semaphore_field.get_put_each [of 32 xs 32 b] len by (simp add: o1_def o2_def)
  have "get_each get_u32 32 m (32 + 28) (length xs) = get_each get_u32 32 ?b1 (32 + 28) (length xs)"
    using waits_same [OF reads_u32, of 28] by (intro get_each_cong) simp
  also have "\<dots> = get_each get_u32 32 b (32 + 28) (length xs)"
    using len by (intro submit_semaphore_field.read_gaps [OF reads_u32]) (auto simp: o1_def o2_def)
  also have "\<dots> = replicate (length xs) 0" using zero len by (intro zeros_gaps) (auto simp: o1_def o2_def)
  finally show "get_each get_u32 32 m (32 + 28) (length xs) = replicate (length xs) 0" .
  have "get_each (get_submit_command stream_wire) csize m o1 (length ys) =
      get_each (get_submit_command stream_wire) csize ?b2 o1 (length ys)"
    using entry_end [of _ "length ys" 0 "command_width stream_wire" csize o1] cw
    by (intro get_each_cong) (simp add: m2 [OF submit_command_field.reads_get] o2_def)
  then show "get_each (get_submit_command stream_wire) csize m o1 (length ys) = ys"
    using submit_command_field.get_put_each [OF cw fits, of o1 ?b1] len l1 by (simp add: o2_def)
  show "get_each get_u32 csize m (o1 + 12) (length ys) = replicate (length ys) 0" if "\<not> stream_wire"
  proof -
    have c: "csize = 16" using that by (simp add: csize_def command_record_size_def)
    have "get_each get_u32 csize m (o1 + 12) (length ys) = get_each get_u32 csize ?b2 (o1 + 12) (length ys)"
      using entry_end [of _ "length ys" 12 4 16 o1] c by (intro get_each_cong m2 [OF reads_u32]) (simp add: o2_def)
    also have "\<dots> = get_each get_u32 csize ?b1 (o1 + 12) (length ys)"
      using len l1 fits that c by (intro submit_command_field.read_gaps [OF reads_u32]) (auto simp: o2_def)
    also have "\<dots> = get_each get_u32 csize b (o1 + 12) (length ys)"
      using entry_end [of _ "length ys" 12 4 16 o1] c len
      by (intro get_each_cong b10 [OF reads_u32]) (auto simp: o2_def intro: le_trans)
    also have "\<dots> = replicate (length ys) 0" using zero len c by (intro zeros_gaps) (auto simp: o1_def o2_def)
    finally show ?thesis .
  qed
  show "get_each get_submit_semaphore 32 m o2 (length zs) = zs"
    unfolding m_def using len l2 by (intro submit_semaphore_field.get_put_each) auto
  have "get_each get_u32 32 m (o2 + 28) (length zs) = get_each get_u32 32 ?b2 (o2 + 28) (length zs)"
    unfolding m_def using len l2 by (intro submit_semaphore_field.read_gaps [OF reads_u32]) auto
  also have "\<dots> = get_each get_u32 32 b (o2 + 28) (length zs)"
    using entry_end [of _ "length zs" 28 4 32 o2] len
    by (intro get_each_cong) (simp add: b21 [OF reads_u32] b10 [OF reads_u32] o2_def)
  also have "\<dots> = replicate (length zs) 0" using zero len by (intro zeros_gaps) (auto simp: o1_def o2_def)
  finally show "get_each get_u32 32 m (o2 + 28) (length zs) = replicate (length zs) 0" .
qed

lemma submit_parts_length:
  assumes "list_all (fits_wire stream_wire) ys"
    and "length b = 32 + length xs * 32 + length ys * unat (command_record_size stream_wire) + length zs * 32"
  shows "length (put_each put_submit_semaphore 32 b 32 xs) = length b"
    "length (put_each (put_submit_command stream_wire) (unat (command_record_size stream_wire))
       (put_each put_submit_semaphore 32 b 32 xs) (32 + length xs * 32) ys) = length b"
proof -
  show l1: "length (put_each put_submit_semaphore 32 b 32 xs) = length b"
    using assms(2) by (intro submit_semaphore_field.put_each_length) (auto simp: list_all_iff)
  show "length (put_each (put_submit_command stream_wire) (unat (command_record_size stream_wire))
       (put_each put_submit_semaphore 32 b 32 xs) (32 + length xs * 32) ys) = length b"
    using assms l1 by (subst submit_command_field.put_each_length [where stream_wire = stream_wire])
      (auto simp: command_record_size_def)
qed

subsection \<open>The contract\<close>

definition submit_2_ok :: "bool \<Rightarrow> vulkan_queue_submit_2_request \<Rightarrow> bool" where
  "submit_2_ok stream_wire request \<longleftrightarrow>
     (let waits = take (unat (qs2_wait_count request)) (qs2_waits request);
          commands = take (unat (qs2_command_count request)) (qs2_commands request);
          signals = take (unat (qs2_signal_count request)) (qs2_signals request) in
      wire_id_is_type (qs2_queue_id request) 4 \<and>
      (qs2_fence_id request = 0 \<or> wire_id_is_type (qs2_fence_id request) 18) \<and>
      qs2_wait_count request \<le> MAX_SEMAPHORES_PER_WAIT \<and> qs2_command_count request \<le> MAX_COMMAND_BUFFERS_PER_SUBMIT \<and>
      qs2_signal_count request \<le> MAX_SEMAPHORES_PER_WAIT \<and>
      list_all (\<lambda>r. wire_id_is_type (s2s_semaphore_id r) 17) (waits @ signals) \<and>
      list_all (\<lambda>r. submit_command_ok r \<and> fits_wire stream_wire r) commands \<and>
      (stream_wire \<longrightarrow> list_ex (\<lambda>r. s2c_stream_flags r = 1) commands))"

definition submit_2_shape :: "vulkan_queue_submit_2_request \<Rightarrow> bool" where
  "submit_2_shape request \<longleftrightarrow> length (qs2_waits request) = MAX_SEMAPHORES_PER_WAIT \<and>
     length (qs2_commands request) = MAX_COMMAND_BUFFERS_PER_SUBMIT \<and> length (qs2_signals request) = MAX_SEMAPHORES_PER_WAIT"

definition submit_2_norm :: "vulkan_queue_submit_2_request \<Rightarrow> vulkan_queue_submit_2_request" where
  "submit_2_norm request = request
     \<lparr>qs2_waits := fill_to MAX_SEMAPHORES_PER_WAIT no_submit_semaphore (take (unat (qs2_wait_count request)) (qs2_waits request)),
      qs2_commands := fill_to MAX_COMMAND_BUFFERS_PER_SUBMIT no_submit_command
        (take (unat (qs2_command_count request)) (qs2_commands request)),
      qs2_signals := fill_to MAX_SEMAPHORES_PER_WAIT no_submit_semaphore
        (take (unat (qs2_signal_count request)) (qs2_signals request))\<rparr>"

lemma get_submit_command_fits: "fits_wire stream_wire (get_submit_command stream_wire b i)"
  by (simp add: fits_wire_def get_submit_command_def no_stream_def)

lemma list_all_get_each: "(\<And>i. P (g b i)) \<Longrightarrow> list_all P (get_each g s b at n)"
  by (simp add: get_each_def list_all_iff)

lemma list_all_conj: "list_all (\<lambda>x. P x \<and> Q x) xs \<longleftrightarrow> list_all P xs \<and> list_all Q xs"
  by (auto simp: list_all_iff)

lemma gaps_append:
  assumes "at + n * s \<le> length a" "off + 4 \<le> s"
  shows "get_each get_u32 s (a @ c) (at + off) n = get_each get_u32 s a (at + off) n"
proof (rule get_each_cong)
  fix i assume "i < n"
  then have "at + off + i * s + 4 \<le> length a" using entry_end [OF _ assms(2), of i n at] assms(1) by simp
  then show "get_u32 (a @ c) (at + off + i * s) = get_u32 a (at + off + i * s)" by (simp add: get_append)
qed

lemma submit_semaphores_append:
  "at + n * 32 \<le> length a \<Longrightarrow> submit_semaphores_ok (a @ c) at n = submit_semaphores_ok a at n"
  unfolding submit_semaphores_ok_def by (subst gaps_append) (simp_all add: get_submit_append)

lemma encode_submit_iff:
  "encode_queue_submit_2 stream_wire (Some b) (Some x) (Some k) = Inl EINVAL \<longleftrightarrow> \<not> submit_2_ok stream_wire x"
  by (auto simp: encode_queue_submit_2_def submit_2_ok_def fits_wire_def Let_def not_less)

lemma decode_submit_early:
  assumes "n < 32 \<or> 16 < get_u32 m 20 \<or> 16 < get_u32 m 24 \<or> 16 < get_u32 m 28 \<or>
    n \<noteq> submit_2_length stream_wire (get_u32 m 20) (get_u32 m 24) (get_u32 m 28)"
  shows "decode_queue_submit_2 stream_wire (Some m) n (Some d) = Inl (if n < 32 then EINVAL else EPROTO)"
proof (cases "n < 32 \<or> 16 < get_u32 m 20 \<or> 16 < get_u32 m 24 \<or> 16 < get_u32 m 28")
  case True
  then show ?thesis by (cases "n < 32") (simp_all add: decode_queue_submit_2_def)
next
  case False
  then show ?thesis using assms by (simp add: decode_queue_submit_2_def Let_def)
qed

interpretation submit_2_codec: sized_codec "if stream_wire then 1696 else 1312" submit_2_shape "submit_2_ok stream_wire"
  submit_2_norm "encode_queue_submit_2 stream_wire" "decode_queue_submit_2 stream_wire"
  for stream_wire
proof (unfold_locales, goal_cases)
  case (6 x b k)
  then show ?case using encode_submit_iff [of stream_wire b x k] by blast
next
  case (7 x b k d)
  let ?size = "unat (command_record_size stream_wire)"
  let ?n = "submit_2_length stream_wire (qs2_wait_count x) (qs2_command_count x) (qs2_signal_count x)"
  define xs ys zs where "xs = take (unat (qs2_wait_count x)) (qs2_waits x)"
    and "ys = take (unat (qs2_command_count x)) (qs2_commands x)" and "zs = take (unat (qs2_signal_count x)) (qs2_signals x)"
  note lists = xs_def [symmetric] ys_def [symmetric] zs_def [symmetric]
  have c: "qs2_wait_count x \<le> 16" "qs2_command_count x \<le> 16" "qs2_signal_count x \<le> 16"
    using 7(2) by (simp_all add: submit_2_ok_def Let_def)
  then have u: "unat (qs2_wait_count x) \<le> 16" "unat (qs2_command_count x) \<le> 16" "unat (qs2_signal_count x) \<le> 16"
    by (simp_all add: word_le_nat_alt)
  have len: "length xs = unat (qs2_wait_count x)" "length ys = unat (qs2_command_count x)"
      "length zs = unat (qs2_signal_count x)"
    using 7(1) u by (simp_all add: submit_2_shape_def xs_def ys_def zs_def)
  have n: "unat ?n = 32 + length xs * 32 + length ys * ?size + length zs * 32"
    using submit_length [OF c] len by simp
  define p where "p = put_u32 (put_u32 (put_u32 (put_u32 (put_u64 (put_u64 (replicate (unat ?n) 0) 0 (qs2_queue_id x))
    8 (qs2_fence_id x)) 16 (qs2_flags x)) 20 (qs2_wait_count x)) 24 (qs2_command_count x)) 28 (qs2_signal_count x)"
  define m where "m = put_each put_submit_semaphore 32 (put_each (put_submit_command stream_wire) ?size
    (put_each put_submit_semaphore 32 p 32 xs) (32 + length xs * 32) ys) (32 + length xs * 32 + length ys * ?size) zs"
  have p: "length p = unat ?n" "zeros p 32 (length p)" by (simp_all add: p_def wire_simps)
  have fits: "list_all (fits_wire stream_wire) ys" using 7(2) by (simp add: submit_2_ok_def Let_def list_all_conj lists)
  note lay = submit_layout [OF fits p(1)[unfolded n] p(2), folded m_def]
  have cap: "unat ?n \<le> (if stream_wire then 1696 else 1312)" using n len u by (simp add: command_record_size_def)
  have n32: "32 \<le> unat ?n" using n by simp
  have front: "put_u32 (put_u32 (put_u32 (put_u32 (put_u64 (put_u64 (memset0 b 0 (unat ?n)) 0 (qs2_queue_id x)) 8 (qs2_fence_id x))
      16 (qs2_flags x)) 20 (qs2_wait_count x)) 24 (qs2_command_count x)) 28 (qs2_signal_count x) = p @ drop (unat ?n) b"
    using n32 by (simp add: memset0_front p_def wire_simps)
  have ok: "list_all (\<lambda>r. wire_id_is_type (s2s_semaphore_id r) 17) xs" "list_all (\<lambda>r. wire_id_is_type (s2s_semaphore_id r) 17) zs"
      "list_all submit_command_ok ys" "stream_wire \<longrightarrow> list_ex (\<lambda>r. s2c_stream_flags r = 1) ys"
      "wire_id_is_type (qs2_queue_id x) 4" "qs2_fence_id x = 0 \<or> wire_id_is_type (qs2_fence_id x) 18"
    using 7(2) by (simp_all add: submit_2_ok_def Let_def list_all_conj lists)
  have parts: "put_each put_submit_semaphore 32 (put_each (put_submit_command stream_wire) ?size
      (put_each put_submit_semaphore 32 (p @ drop (unat ?n) b) 32 xs) (32 + length xs * 32) ys)
      (32 + length xs * 32 + length ys * ?size) zs = m @ drop (unat ?n) b"
    using submit_parts_length [OF fits p(1)[unfolded n]] n p(1) by (simp add: put_submit_append m_def)
  have "encode_queue_submit_2 stream_wire (Some b) (Some x) (Some k) = Inr (m @ drop (unat ?n) b, ?n)"
    using c ok fits front parts
    by (simp add: encode_queue_submit_2_def Let_def not_less list_all_conj lists flip: fits_wire_def)
  moreover have "get_u32 m 20 = qs2_wait_count x" "get_u32 m 24 = qs2_command_count x" "get_u32 m 28 = qs2_signal_count x"
      "get_u32 m 16 = qs2_flags x" "get_u64 m 0 = qs2_queue_id x" "get_u64 m 8 = qs2_fence_id x"
    using lay(2) [OF reads_u32] lay(2) [OF reads_u64] n32 by (simp_all add: p_def wire_simps)
  then have "decode_queue_submit_2 stream_wire (Some m) ?n (Some d) = Inr (submit_2_norm x)"
    using c ok lay(3-8) [unfolded len] n32
    by (cases stream_wire) (simp_all add: decode_queue_submit_2_def submit_semaphores_ok_def submit_2_norm_def Let_def
        word_less_nat_alt word_le_nat_alt lists list_all_iff)
  ultimately show ?case using cap lay(1) p(1) by (intro exI [of _ m] exI [of _ ?n]) simp
next
  case (8 m n d x)
  have fits: "list_all (fits_wire stream_wire) (get_each (get_submit_command stream_wire) s m i j)" for s i j
    by (rule list_all_get_each) (rule get_submit_command_fits)
  show ?case
    using 8(2) fits
    by (auto simp: decode_queue_submit_2_def submit_2_ok_def submit_2_shape_def submit_semaphores_ok_def Let_def fill_to_def
        word_le_nat_alt not_less list_all_conj split: if_splits)
next
  case (10 m n c d)
  show ?case
  proof (cases "get_u32 m 20 \<le> 16 \<and> get_u32 m 24 \<le> 16 \<and> get_u32 m 28 \<le> 16 \<and>
      n = submit_2_length stream_wire (get_u32 m 20) (get_u32 m 24) (get_u32 m 28)")
    case True
    let ?w = "unat (get_u32 m 20)" and ?c = "unat (get_u32 m 24)" and ?s = "unat (get_u32 m 28)"
    let ?size = "unat (command_record_size stream_wire)"
    have n: "length m = 32 + ?w * 32 + ?c * ?size + ?s * 32" using 10 True submit_length by simp
    have "16 \<le> ?size" by (simp add: command_record_size_def)
    then have gap: "get_each get_u32 ?size (m @ c) (32 + ?w * 32 + 12) ?c = get_each get_u32 ?size m (32 + ?w * 32 + 12) ?c"
      using n by (intro gaps_append) auto
    have eqs: "submit_semaphores_ok (m @ c) 32 ?w = submit_semaphores_ok m 32 ?w"
        "submit_semaphores_ok (m @ c) (32 + ?w * 32 + ?c * ?size) ?s = submit_semaphores_ok m (32 + ?w * 32 + ?c * ?size) ?s"
        "get_each get_submit_semaphore 32 (m @ c) 32 ?w = get_each get_submit_semaphore 32 m 32 ?w"
        "get_each (get_submit_command stream_wire) ?size (m @ c) (32 + ?w * 32) ?c =
           get_each (get_submit_command stream_wire) ?size m (32 + ?w * 32) ?c"
        "get_each get_submit_semaphore 32 (m @ c) (32 + ?w * 32 + ?c * ?size) ?s =
           get_each get_submit_semaphore 32 m (32 + ?w * 32 + ?c * ?size) ?s"
      using n by (auto intro!: submit_semaphores_append get_submit_append)
    have "get_u32 (m @ c) 16 = get_u32 m 16" "get_u32 (m @ c) 20 = get_u32 m 20" "get_u32 (m @ c) 24 = get_u32 m 24"
        "get_u32 (m @ c) 28 = get_u32 m 28" "get_u64 (m @ c) 0 = get_u64 m 0" "get_u64 (m @ c) 8 = get_u64 m 8"
      using n by (simp_all add: wire_simps)
    then show ?thesis
      unfolding decode_queue_submit_2_def nonnull2_simps Let_def by (simp only: eqs gap)
  next
    case False
    then have "\<not> n < 32 \<Longrightarrow> get_u32 (m @ c) 20 = get_u32 m 20 \<and> get_u32 (m @ c) 24 = get_u32 m 24 \<and> get_u32 (m @ c) 28 = get_u32 m 28"
      using 10 by (simp add: wire_simps word_less_nat_alt)
    then show ?thesis using decode_submit_early [of _ m] decode_submit_early [of _ "m @ c"] False by (metis not_less)
  qed
qed (auto simp: encode_queue_submit_2_def decode_queue_submit_2_def Let_def split: if_splits)

end
