(* ===== verification/Proto_Names.thy ===== *)
theory Proto_Names
  imports Proto_Variable Proto_Instance Proto_Device
begin

unbundle bit_operations_syntax

section \<open>Messages with names\<close>

text \<open>
  The messages of src/src/protocol.c that carry strings: the creation of instances and devices with the
  names of extensions in slots of 128 bytes (148-228, 873-953), and the capabilities of the devices
  (4361-4458).
\<close>

subsection \<open>Names in slots\<close>

abbreviation (input) ENABLED_EXTENSION_NAME_SIZE :: "'a::numeral" where "ENABLED_EXTENSION_NAME_SIZE \<equiv> 128"
abbreviation (input) MAX_ENABLED_EXTENSIONS :: "'a::numeral" where "MAX_ENABLED_EXTENSIONS \<equiv> 24"

text \<open>\<^verbatim>\<open>memchr(s + at, 0, n)\<close>, as the distance from the start.\<close>

definition memchr0 :: "bytes \<Rightarrow> nat \<Rightarrow> nat \<Rightarrow> nat option" where
  "memchr0 s at n = find (\<lambda>i. s ! (at + i) = 0) [0..<n]"

fun put_names :: "bytes \<Rightarrow> nat \<Rightarrow> bytes list \<Rightarrow> bytes result" where
  "put_names output at [] = Inr output"
| "put_names output at (name # names) =
     (case memchr0 name 0 ENABLED_EXTENSION_NAME_SIZE of
        None \<Rightarrow> Inl EINVAL
      | Some terminator \<Rightarrow>
          if name ! 0 = 0 then Inl EINVAL
          else put_names (memcpy output at name (terminator + 1)) (at + ENABLED_EXTENSION_NAME_SIZE) names)"

text \<open>A slot of the input: a name, its terminator and zeros.\<close>

definition slot_ok :: "bytes \<Rightarrow> nat \<Rightarrow> bool" where
  "slot_ok input at =
     (case memchr0 input at ENABLED_EXTENSION_NAME_SIZE of
        None \<Rightarrow> False
      | Some terminator \<Rightarrow>
          input ! at \<noteq> 0 \<and>
          list_all (\<lambda>k. input ! (at + k) = 0) [terminator + 1..<ENABLED_EXTENSION_NAME_SIZE])"

definition put_slot :: "bytes \<Rightarrow> nat \<Rightarrow> bytes \<Rightarrow> bytes" where
  "put_slot output at name = memcpy output at name ENABLED_EXTENSION_NAME_SIZE"

definition get_slot :: "bytes \<Rightarrow> nat \<Rightarrow> bytes" where
  "get_slot input at = get_bytes input at ENABLED_EXTENSION_NAME_SIZE"

lemma memchr0_Some:
  "memchr0 s at n = Some t \<longleftrightarrow> t < n \<and> s ! (at + t) = 0 \<and> (\<forall>i < t. s ! (at + i) \<noteq> 0)"
  unfolding memchr0_def by (auto simp: find_Some_iff)

lemma memchr0_None: "memchr0 s at n = None \<longleftrightarrow> (\<forall>i < n. s ! (at + i) \<noteq> 0)"
  unfolding memchr0_def by (auto simp: find_None_iff)

text \<open>A string that has a character and ends inside its array; what follows the end does not count.\<close>

definition name_ok :: "bytes \<Rightarrow> bool" where
  "name_ok name \<longleftrightarrow> name ! 0 \<noteq> 0 \<and> memchr0 name 0 ENABLED_EXTENSION_NAME_SIZE \<noteq> None"

definition clean :: "nat \<Rightarrow> bytes \<Rightarrow> bytes" where
  "clean n name = (case memchr0 name 0 n of None \<Rightarrow> name | Some t \<Rightarrow> take (t + 1) name @ replicate (n - (t + 1)) 0)"

lemma length_clean [simp]: "length name = n \<Longrightarrow> length (clean n name) = n"
  by (auto simp: clean_def memchr0_Some split: option.splits)

lemma nth_clean:
  "length name = n \<Longrightarrow> memchr0 name 0 n = Some t \<Longrightarrow> i < n \<Longrightarrow> clean n name ! i = (if i \<le> t then name ! i else 0)"
proof -
  assume a: "length name = n" "memchr0 name 0 n = Some t" "i < n"
  then have "t < n" by (simp add: memchr0_Some)
  then show ?thesis using a by (simp add: clean_def nth_append)
qed

lemma clean_slot_ok: "length name = 128 \<Longrightarrow> name_ok name \<Longrightarrow> slot_ok (clean 128 name) 0"
proof -
  assume a: "length name = 128" "name_ok name"
  then obtain t where t: "memchr0 name 0 128 = Some t" by (auto simp: name_ok_def)
  then have lt: "t < 128" by (simp add: memchr0_Some)
  have "memchr0 (clean 128 name) 0 128 = Some t"
    using t nth_clean [OF a(1) t] by (auto simp: memchr0_Some)
  then show ?thesis using a nth_clean [OF a(1) t] lt by (auto simp: slot_ok_def name_ok_def list_all_iff)
qed

lemma slot_ok_get: "at + 128 \<le> length b \<Longrightarrow> slot_ok b at \<longleftrightarrow> slot_ok (get_slot b at) 0"
proof -
  assume "at + 128 \<le> length b"
  then have nth: "i < 128 \<Longrightarrow> get_slot b at ! i = b ! (at + i)" for i by (simp add: get_slot_def get_bytes_def)
  then have "memchr0 (get_slot b at) 0 128 = memchr0 b at 128"
    unfolding memchr0_def by (intro find_cong) auto
  then show ?thesis using nth [of 0] nth by (auto simp: slot_ok_def list_all_iff split: option.splits)
qed

lemma slot_name_ok: "at + 128 \<le> length b \<Longrightarrow> slot_ok b at \<Longrightarrow> name_ok (get_slot b at)"
  using slot_ok_get [of at b] by (auto simp: slot_ok_def [of "get_slot b at"] name_ok_def split: option.splits)

interpretation slot_field: wire_field 128 put_slot get_slot "\<lambda>v. length v = 128"
  by unfold_locales (auto simp: put_slot_def get_slot_def wire_simps nth_put intro: get_bytes_cong)

text \<open>On cleared memory, copying a name up to its end is copying the whole cleaned slot.\<close>

lemma copy_name:
  assumes "length name = n" "memchr0 name 0 n = Some t" "at + n \<le> length b" "zeros b at (at + n)"
  shows "memcpy b at name (t + 1) = memcpy b at (clean n name) n"
proof (rule nth_equalityI)
  have t: "t < n" using assms(2) by (simp add: memchr0_Some)
  then show "length (memcpy b at name (t + 1)) = length (memcpy b at (clean n name) n)" using assms by simp
  fix k assume "k < length (memcpy b at name (t + 1))"
  then have k: "k < length b" using t assms by simp
  show "memcpy b at name (t + 1) ! k = memcpy b at (clean n name) n ! k"
    using k t assms nth_clean [OF assms(1,2), of "k - at"]
    by (cases "k < at"; cases "k < at + t + 1"; cases "k < at + n")
      (auto simp: memcpy_def nth_append zeros_def)
qed

lemma put_names_clean:
  assumes "list_all (\<lambda>v. length v = 128 \<and> name_ok v) names" "at + length names * 128 \<le> length b"
    and "zeros b at (at + length names * 128)"
  shows "put_names b at names = Inr (put_each put_slot 128 b at (map (clean 128) names))"
  using assms
proof (induction names arbitrary: b at)
  case (Cons name names)
  obtain t where t: "memchr0 name 0 128 = Some t" using Cons.prems(1) by (auto simp: name_ok_def)
  have len: "length name = 128" "name ! 0 \<noteq> 0" using Cons.prems(1) by (auto simp: name_ok_def)
  have c: "memcpy b at name (t + 1) = put_slot b at (clean 128 name)"
    unfolding put_slot_def using Cons.prems len t by (intro copy_name zeros_mono [OF Cons.prems(3)]) auto
  have l: "length (put_slot b at (clean 128 name)) = length b"
    using Cons.prems len by (intro slot_field.put_length) auto
  have "zeros (put_slot b at (clean 128 name)) (at + 128) (at + 128 + length names * 128) =
      zeros b (at + 128) (at + 128 + length names * 128)"
    using Cons.prems len by (intro slot_field.zeros_put) auto
  then have "zeros (put_slot b at (clean 128 name)) (at + 128) (at + 128 + length names * 128)"
    using zeros_mono [OF Cons.prems(3)] by simp
  then show ?case using Cons.IH [of "at + 128" "put_slot b at (clean 128 name)"] Cons.prems l t len c by (simp add: algebra_simps)
qed simp

lemma put_names_fails: "\<not> list_all name_ok names \<Longrightarrow> \<exists>e. put_names b at names = Inl e"
  by (induction names arbitrary: b at) (auto simp: name_ok_def split: option.splits)

lemma put_names_append:
  assumes "list_all (\<lambda>v. length v = 128) names" "at + length names * 128 \<le> length a"
  shows "put_names (a @ c) at names = map_sum id (\<lambda>m. m @ c) (put_names a at names)"
  using assms
proof (induction names arbitrary: a at)
  case (Cons name names)
  show ?case
  proof (cases "memchr0 name 0 128")
    case (Some t)
    then have "t < 128" by (simp add: memchr0_Some)
    then show ?thesis using Cons.prems Some Cons.IH [of "at + 128" "memcpy a at name (t + 1)"]
      by (simp add: put_append algebra_simps)
  qed simp
qed simp

subsection \<open>Extended creation\<close>

text \<open>The two encoders are the same code over a different fixed part, and so are the two decoders.\<close>

definition encode_extended ::
  "u32 \<Rightarrow> (bytes option \<Rightarrow> 'a option \<Rightarrow> bytes result) \<Rightarrow> ('a \<Rightarrow> u32) \<Rightarrow> bytes \<Rightarrow> 'a \<Rightarrow> bytes list \<Rightarrow> (bytes \<times> u32) result" where
  "encode_extended base_size encode_base enabled_extension_count output base names =
     (if enabled_extension_count base = 0 \<or> enabled_extension_count base > MAX_ENABLED_EXTENSIONS then Inl EINVAL
      else
      let len = base_size + enabled_extension_count base * ENABLED_EXTENSION_NAME_SIZE in
      let output = memset0 output 0 (unat len) in
      case encode_base (Some output) (Some base) of
        Inl e \<Rightarrow> Inl e
      | Inr output \<Rightarrow>
          map_sum id (\<lambda>output. (output, len))
            (put_names output (unat base_size) (take (unat (enabled_extension_count base)) names)))"

definition decode_extended ::
  "u32 \<Rightarrow> (bytes option \<Rightarrow> 'a option \<Rightarrow> 'a result) \<Rightarrow> ('a \<Rightarrow> u32) \<Rightarrow> bytes \<Rightarrow> u32 \<Rightarrow> 'a \<Rightarrow> ('a \<times> bytes list) result" where
  "decode_extended base_size decode_base enabled_extension_count input input_length decoded =
     (if input_length < base_size then Inl EINVAL
      else case decode_base (Some input) (Some decoded) of
        Inl e \<Rightarrow> Inl e
      | Inr base \<Rightarrow>
          let count = enabled_extension_count base in
          if count = 0 \<or> count > MAX_ENABLED_EXTENSIONS then Inl EPROTO
          else if input_length \<noteq> base_size + count * ENABLED_EXTENSION_NAME_SIZE then Inl EPROTO
          else if \<not> list_all (\<lambda>index. slot_ok input (unat base_size + index * ENABLED_EXTENSION_NAME_SIZE)) [0..<unat count]
          then Inl EPROTO
          else Inr (base, fill_to MAX_ENABLED_EXTENSIONS (replicate ENABLED_EXTENSION_NAME_SIZE 0)
                 (get_each get_slot ENABLED_EXTENSION_NAME_SIZE input (unat base_size) (unat count))))"

record vulkan_instance_create_extended_request =
  icer_base :: vulkan_instance_create_request
  icer_enabled_extensions :: "bytes list"

definition encode_vulkan_instance_create_extended_request ::
  "bytes option \<Rightarrow> vulkan_instance_create_extended_request option \<Rightarrow> u32 option \<Rightarrow> (bytes \<times> u32) result" where
  "encode_vulkan_instance_create_extended_request output request output_length =
     nonnull3 output request output_length (\<lambda>output request _.
       encode_extended BVB_VULKAN_INSTANCE_CREATE_REQUEST_SIZE encode_vulkan_instance_create_request
         icr_enabled_extension_count output (icer_base request) (icer_enabled_extensions request))"

definition decode_vulkan_instance_create_extended_request ::
  "bytes option \<Rightarrow> u32 \<Rightarrow> vulkan_instance_create_extended_request option \<Rightarrow>
   vulkan_instance_create_extended_request result" where
  "decode_vulkan_instance_create_extended_request input input_length request =
     nonnull2 input request (\<lambda>input request.
       map_sum id (\<lambda>(base, names). \<lparr>icer_base = base, icer_enabled_extensions = names\<rparr>)
         (decode_extended BVB_VULKAN_INSTANCE_CREATE_REQUEST_SIZE decode_vulkan_instance_create_request
            icr_enabled_extension_count input input_length (icer_base request)))"

record vulkan_device_create_extended_request =
  dcer_base :: vulkan_device_create_request
  dcer_enabled_extensions :: "bytes list"

definition encode_vulkan_device_create_extended_request ::
  "bytes option \<Rightarrow> vulkan_device_create_extended_request option \<Rightarrow> u32 option \<Rightarrow> (bytes \<times> u32) result" where
  "encode_vulkan_device_create_extended_request output request output_length =
     nonnull3 output request output_length (\<lambda>output request _.
       encode_extended BVB_VULKAN_DEVICE_CREATE_REQUEST_SIZE encode_vulkan_device_create_request
         dcr_enabled_extension_count output (dcer_base request) (dcer_enabled_extensions request))"

definition decode_vulkan_device_create_extended_request ::
  "bytes option \<Rightarrow> u32 \<Rightarrow> vulkan_device_create_extended_request option \<Rightarrow>
   vulkan_device_create_extended_request result" where
  "decode_vulkan_device_create_extended_request input input_length request =
     nonnull2 input request (\<lambda>input request.
       map_sum id (\<lambda>(base, names). \<lparr>dcer_base = base, dcer_enabled_extensions = names\<rparr>)
         (decode_extended BVB_VULKAN_DEVICE_CREATE_REQUEST_SIZE decode_vulkan_device_create_request
            dcr_enabled_extension_count input input_length (dcer_base request)))"

text \<open>What the encoders check of the extensions, and what the peer gets of them.\<close>

definition extensions_ok :: "u32 \<Rightarrow> bytes list \<Rightarrow> bool" where
  "extensions_ok count names \<longleftrightarrow> count \<noteq> 0 \<and> count \<le> MAX_ENABLED_EXTENSIONS \<and> list_all name_ok (take (unat count) names)"

definition extensions_shape :: "bytes list \<Rightarrow> bool" where
  "extensions_shape names \<longleftrightarrow> length names = MAX_ENABLED_EXTENSIONS \<and>
     list_all (\<lambda>name. length name = ENABLED_EXTENSION_NAME_SIZE) names"

definition clean_extensions :: "u32 \<Rightarrow> bytes list \<Rightarrow> bytes list" where
  "clean_extensions count names = fill_to MAX_ENABLED_EXTENSIONS (replicate ENABLED_EXTENSION_NAME_SIZE 0)
     (map (clean ENABLED_EXTENSION_NAME_SIZE) (take (unat count) names))"

text \<open>Any fixed part with a codec and a count in it can be extended.\<close>

locale extended_codec = base: agreed_codec base_size base_ok encode_base decode_base
  for base_size :: nat and base_ok :: "'a \<Rightarrow> bool"
    and encode_base :: "bytes option \<Rightarrow> 'a option \<Rightarrow> bytes result"
    and decode_base :: "bytes option \<Rightarrow> 'a option \<Rightarrow> 'a result" +
  fixes size :: u32 and count :: "'a \<Rightarrow> u32"
  assumes size: "unat size = base_size" and small: "base_size \<le> 32"
begin

lemma extended_length: "c \<le> 24 \<Longrightarrow> unat (size + c * 128) = base_size + unat c * 128"
proof -
  assume "c \<le> 24"
  moreover have "word_of_nat base_size = size" unfolding size [symmetric] by simp
  ultimately show ?thesis using unat_length [of c 24 base_size 128] small by (simp add: word_le_nat_alt)
qed

lemma encode_extended_rejects:
  assumes "\<not> (base_ok x \<and> extensions_ok (count x) names)"
  shows "\<exists>e. encode_extended size encode_base count b x names = Inl e"
proof (cases "base_ok x")
  case False
  then show ?thesis using base.enc_reject [of x] by (simp add: encode_extended_def Let_def)
next
  case True
  then have bad: "count x = 0 \<or> count x > 24 \<or> \<not> list_all name_ok (take (unat (count x)) names)"
    using assms by (auto simp: extensions_ok_def not_le)
  show ?thesis
  proof (cases "encode_base (Some (memset0 b 0 (unat (size + count x * 128)))) (Some x)")
    case (Inr m)
    then show ?thesis
      using bad put_names_fails [of "take (unat (count x)) names" m base_size] size
      by (auto simp: encode_extended_def Let_def)
  qed (simp add: encode_extended_def Let_def)
qed

lemma encode_extended_roundtrip:
  assumes "extensions_shape names" "base_ok x" "extensions_ok (count x) names" "4096 \<le> length b"
  shows "\<exists>m n. unat n \<le> 4096 \<and> length m = unat n \<and>
    encode_extended size encode_base count b x names = Inr (m @ drop (unat n) b, n) \<and>
    decode_extended size decode_base count m n d = Inr (x, clean_extensions (count x) names)"
proof -
  let ?c = "unat (count x)" and ?n = "size + count x * 128"
  define xs where "xs = take ?c names"
  have c: "count x \<noteq> 0" "count x \<le> 24" "?c \<le> 24" using assms(3) by (auto simp: extensions_ok_def word_le_nat_alt)
  have n: "unat ?n = base_size + ?c * 128" using extended_length [OF c(2)] .
  have xs: "length xs = ?c" "list_all (\<lambda>v. length v = 128 \<and> name_ok v) xs" "list_all (\<lambda>v. length v = 128) xs"
    using assms(1,3) c(3) by (auto simp: xs_def extensions_shape_def extensions_ok_def list_all_iff dest: in_set_takeD)
  obtain h where h: "encode_base (Some (replicate base_size 0)) (Some x) = Inr h" "length h = base_size"
      "\<And>d. decode_base (Some h) (Some d) = Inr x"
    using base.roundtrip_wf [of "replicate base_size 0" x] assms(2) base.roundtrip [of "replicate base_size 0" x] by fastforce
  let ?z = "replicate (?c * 128) (0 :: u8)"
  have split: "memset0 b 0 (unat ?n) = replicate base_size 0 @ ?z @ drop (unat ?n) b"
    by (simp add: memset0_front n replicate_add)
  have enc: "encode_base (Some (memset0 b 0 (unat ?n))) (Some x) = Inr ((h @ ?z) @ drop (unat ?n) b)"
    unfolding split using base.enc_frame [of "replicate base_size 0" "?z @ drop (unat ?n) b" x] h(1) by simp
  define m where "m = put_each put_slot 128 (h @ ?z) base_size (map (clean 128) xs)"
  have zeros: "zeros (h @ ?z) base_size (base_size + length xs * 128)"
    using h(2) xs(1) by (auto simp: zeros_def nth_append)
  have names: "put_names (h @ ?z) base_size xs = Inr m"
    unfolding m_def using put_names_clean [OF xs(2) _ zeros] h(2) xs(1) by simp
  have cleans: "list_all (\<lambda>v. length v = 128) (map (clean 128) xs)" using xs(3) by (auto simp: list_all_iff)
  have len: "length m = unat ?n"
    unfolding m_def using slot_field.put_each_length [OF _ cleans, of 128 base_size "h @ ?z"] h(2) xs(1) n by simp
  have slots: "get_each get_slot 128 m base_size ?c = map (clean 128) xs"
    unfolding m_def using slot_field.get_put_each [OF _ cleans, of 128 base_size "h @ ?z"] h(2) xs(1) by simp
  have "slot_ok m (base_size + i * 128)" if "i < ?c" for i
  proof -
    have "(i + 1) * 128 \<le> ?c * 128" using that by (intro mult_le_mono1) simp
    then have fit: "base_size + i * 128 + 128 \<le> length m" using len n by simp
    have "get_slot m (base_size + i * 128) = clean 128 (xs ! i)"
      using slots that xs(1) by (auto simp: get_each_def list_eq_iff_nth_eq)
    then show ?thesis using slot_ok_get [OF fit] clean_slot_ok xs that by (auto simp: list_all_length)
  qed
  moreover have "decode_base (Some m) (Some d) = Inr x"
  proof -
    have "take base_size m = h"
    proof (rule nth_equalityI)
      show "length (take base_size m) = length h" using len n h(2) by simp
      fix i assume "i < length (take base_size m)"
      then have "i < base_size" by simp
      then show "take base_size m ! i = h ! i"
        unfolding m_def using slot_field.put_each_frame [OF _ cleans, of 128 base_size "h @ ?z" i] h(2) xs(1)
        by (simp add: nth_append)
    qed
    then show ?thesis
      using base.dec_frame [of h "drop base_size m" d] h(2,3) by (metis append_take_drop_id)
  qed
  ultimately have "decode_extended size decode_base count m ?n d = Inr (x, clean_extensions (count x) names)"
    using c n slots size by (simp add: decode_extended_def clean_extensions_def list_all_upt xs_def word_less_nat_alt Let_def not_less)
  moreover have "encode_extended size encode_base count b x names = Inr (m @ drop (unat ?n) b, ?n)"
    using c enc names put_names_append [OF xs(3), of base_size "h @ ?z" "drop (unat ?n) b"] h(2) xs(1) size
    by (simp add: encode_extended_def xs_def Let_def not_less)
  ultimately show ?thesis using len n c(3) small by (intro exI [of _ m] exI [of _ ?n]) simp
qed

lemma decode_extended_sound:
  assumes "length m = unat n" "decode_extended size decode_base count m n d = Inr (x, names)"
  shows "extensions_shape names \<and> base_ok x \<and> extensions_ok (count x) names"
proof -
  have x: "decode_base (Some m) (Some d) = Inr x" and c: "count x \<noteq> 0" "count x \<le> 24"
    and n: "n = size + count x * 128"
    and slots: "list_all (\<lambda>i. slot_ok m (base_size + i * 128)) [0..<unat (count x)]"
    and names: "names = fill_to 24 (replicate 128 0) (get_each get_slot 128 m base_size (unat (count x)))"
    using assms(2) by (auto simp: decode_extended_def Let_def size not_less split: if_splits sum.splits)
  have len: "length m = base_size + unat (count x) * 128" using assms(1) n extended_length [OF c(2)] by simp
  have fit: "base_size + i * 128 + 128 \<le> length m" if "i < unat (count x)" for i
  proof -
    have "(i + 1) * 128 \<le> unat (count x) * 128" using that by (intro mult_le_mono1) simp
    then show ?thesis using len by simp
  qed
  have "length (get_slot m i) = 128" if "i + 128 \<le> length m" for i using that by (simp add: get_slot_def)
  moreover have "unat (count x) \<le> 24" using c(2) by (simp add: word_le_nat_alt)
  ultimately show ?thesis
    using base.dec_acc [OF x] c slots [unfolded list_all_upt] fit slot_name_ok
    by (auto simp: names extensions_shape_def extensions_ok_def fill_to_def get_each_def list_all_iff)
qed

lemma decode_extended_error:
  assumes "decode_extended size decode_base count m n d = Inl e"
  shows "e \<in> {EINVAL, EPROTO, EMSGSIZE}"
  using assms base.dec_error [of m d]
  by (auto simp: decode_extended_def Let_def split: if_splits sum.splits)

lemma decode_extended_local:
  assumes "length m = unat n"
  shows "decode_extended size decode_base count (m @ c) n d = decode_extended size decode_base count m n d"
proof (cases "n < size")
  case False
  then have "base_size \<le> length m" using assms size by (simp add: word_less_nat_alt)
  then have base: "decode_base (Some (m @ c)) (Some d) = decode_base (Some m) (Some d)"
    using base.dec_frame [of "take base_size m" "drop base_size m @ c" d]
      base.dec_frame [of "take base_size m" "drop base_size m" d] append_take_drop_id [of base_size m]
    by (metis append.assoc length_take min.absorb2)
  have "slot_ok (m @ c) at = slot_ok m at" "get_slot (m @ c) at = get_slot m at" if "at + 128 \<le> length m" for at
    using that slot_ok_get [of at m] slot_ok_get [of at "m @ c"] by (simp_all add: get_slot_def wire_simps)
  note slots = this
  have same: "list_all (\<lambda>i. slot_ok (m @ c) (base_size + i * 128)) [0..<unat k] = list_all (\<lambda>i. slot_ok m (base_size + i * 128)) [0..<unat k]"
      "get_each get_slot 128 (m @ c) base_size (unat k) = get_each get_slot 128 m base_size (unat k)"
    if "k \<le> 24" "n = size + k * 128" for k
  proof -
    have "base_size + i * 128 + 128 \<le> length m" if "i < unat k" for i
    proof -
      have "(i + 1) * 128 \<le> unat k * 128" using that by (intro mult_le_mono1) simp
      then show ?thesis using assms extended_length [OF \<open>k \<le> 24\<close>] \<open>n = size + k * 128\<close> by simp
    qed
    then show "list_all (\<lambda>i. slot_ok (m @ c) (base_size + i * 128)) [0..<unat k] = list_all (\<lambda>i. slot_ok m (base_size + i * 128)) [0..<unat k]"
        "get_each get_slot 128 (m @ c) base_size (unat k) = get_each get_slot 128 m base_size (unat k)"
      using slots by (auto simp: get_each_def list_all_upt)
  qed
  show ?thesis
  proof (cases "decode_base (Some m) (Some d)")
    case (Inr x)
    then show ?thesis using same [of "count x"] by (auto simp: decode_extended_def base size Let_def not_less)
  qed (simp add: decode_extended_def base)
qed (simp add: decode_extended_def)

end

interpretation instance_extended: extended_codec BVB_VULKAN_INSTANCE_CREATE_REQUEST_SIZE "\<lambda>_. True"
  encode_vulkan_instance_create_request decode_vulkan_instance_create_request 16 icr_enabled_extension_count
  by unfold_locales simp_all

interpretation device_extended: extended_codec BVB_VULKAN_DEVICE_CREATE_REQUEST_SIZE
  "\<lambda>request. wire_id_is_type (dcr_physical_device_id request) 2"
  encode_vulkan_device_create_request decode_vulkan_device_create_request 32 dcr_enabled_extension_count
  by unfold_locales simp_all

lemma map_sum_Inr: "map_sum id f r = Inr y \<longleftrightarrow> (\<exists>x. r = Inr x \<and> y = f x)"
  by (cases r) auto

lemma map_sum_Inl: "map_sum id f r = Inl e \<longleftrightarrow> r = Inl e"
  by (cases r) auto

interpretation instance_extended_codec: sized_codec BVB_PROTOCOL_MAX_PAYLOAD
  "\<lambda>request. extensions_shape (icer_enabled_extensions request)"
  "\<lambda>request. extensions_ok (icr_enabled_extension_count (icer_base request)) (icer_enabled_extensions request)"
  "\<lambda>request. request\<lparr>icer_enabled_extensions :=
     clean_extensions (icr_enabled_extension_count (icer_base request)) (icer_enabled_extensions request)\<rparr>"
  encode_vulkan_instance_create_extended_request decode_vulkan_instance_create_extended_request
proof (unfold_locales, goal_cases)
  case (6 x b k)
  then show ?case using instance_extended.encode_extended_rejects by (simp add: encode_vulkan_instance_create_extended_request_def)
next
  case (7 x b k d)
  then show ?case
    using instance_extended.encode_extended_roundtrip [of "icer_enabled_extensions x" "icer_base x" b "icer_base d"]
    by (fastforce simp: encode_vulkan_instance_create_extended_request_def decode_vulkan_instance_create_extended_request_def)
next
  case (8 m n d x)
  then show ?case
    using instance_extended.decode_extended_sound [of m n "icer_base d"]
    by (auto simp: decode_vulkan_instance_create_extended_request_def map_sum_Inr)
next
  case (9 m n d e)
  then show ?case
    using instance_extended.decode_extended_error
    by (auto simp: decode_vulkan_instance_create_extended_request_def map_sum_Inl)
next
  case (10 m n c d)
  then show ?case
    using instance_extended.decode_extended_local by (simp add: decode_vulkan_instance_create_extended_request_def)
qed (simp_all add: encode_vulkan_instance_create_extended_request_def decode_vulkan_instance_create_extended_request_def)

interpretation device_extended_codec: sized_codec BVB_PROTOCOL_MAX_PAYLOAD
  "\<lambda>request. extensions_shape (dcer_enabled_extensions request)"
  "\<lambda>request. wire_id_is_type (dcr_physical_device_id (dcer_base request)) 2 \<and>
     extensions_ok (dcr_enabled_extension_count (dcer_base request)) (dcer_enabled_extensions request)"
  "\<lambda>request. request\<lparr>dcer_enabled_extensions :=
     clean_extensions (dcr_enabled_extension_count (dcer_base request)) (dcer_enabled_extensions request)\<rparr>"
  encode_vulkan_device_create_extended_request decode_vulkan_device_create_extended_request
proof (unfold_locales, goal_cases)
  case (6 x b k)
  then show ?case using device_extended.encode_extended_rejects by (simp add: encode_vulkan_device_create_extended_request_def)
next
  case (7 x b k d)
  then show ?case
    using device_extended.encode_extended_roundtrip [of "dcer_enabled_extensions x" "dcer_base x" b "dcer_base d"]
    by (fastforce simp: encode_vulkan_device_create_extended_request_def decode_vulkan_device_create_extended_request_def)
next
  case (8 m n d x)
  then show ?case
    using device_extended.decode_extended_sound [of m n "dcer_base d"]
    by (auto simp: decode_vulkan_device_create_extended_request_def map_sum_Inr)
next
  case (9 m n d e)
  then show ?case
    using device_extended.decode_extended_error
    by (auto simp: decode_vulkan_device_create_extended_request_def map_sum_Inl)
next
  case (10 m n c d)
  then show ?case
    using device_extended.decode_extended_local by (simp add: decode_vulkan_device_create_extended_request_def)
qed (simp_all add: encode_vulkan_device_create_extended_request_def decode_vulkan_device_create_extended_request_def)

end
