(* ===== verification/Proto_Caps.thy ===== *)
theory Proto_Caps
  imports Proto_Names
begin

unbundle bit_operations_syntax

section \<open>Capabilities\<close>

text \<open>
  The report on the devices that the service found (src/src/protocol.c 4361-4458, the structures from
  src/include/bvb/vulkan_caps.h): a fixed part and a record for each device with its name.
\<close>

subsection \<open>Definitions\<close>

abbreviation (input) MAX_DEVICES :: "'a::numeral" where "MAX_DEVICES \<equiv> 8"
abbreviation (input) DEVICE_NAME_SIZE :: "'a::numeral" where "DEVICE_NAME_SIZE \<equiv> 256"
abbreviation (input) CAPS_DEVICE_SIZE :: "'a::numeral" where "CAPS_DEVICE_SIZE \<equiv> 296"

record vulkan_device_caps =
  vdc_api_version :: u32
  vdc_driver_version :: u32
  vdc_vendor_id :: u32
  vdc_device_id :: u32
  vdc_device_type :: u32
  vdc_queue_family_count :: u32
  vdc_memory_heap_count :: u32
  vdc_device_local_bytes :: u64
  vdc_name :: bytes

record vulkan_caps =
  vc_loader_api_version :: u32
  vc_instance_extension_count :: u32
  vc_physical_device_count :: u32
  vc_included_device_count :: u32
  vc_devices :: "vulkan_device_caps list"

text \<open>A device's record; the name is copied with its end, which is at \<open>name_length\<close>.\<close>

definition put_device_caps :: "bytes \<Rightarrow> nat \<Rightarrow> vulkan_device_caps \<Rightarrow> nat \<Rightarrow> bytes" where
  "put_device_caps output at device name_length =
     (let output = put_u32 output at (vdc_api_version device) in
      let output = put_u32 output (at + 4) (vdc_driver_version device) in
      let output = put_u32 output (at + 8) (vdc_vendor_id device) in
      let output = put_u32 output (at + 12) (vdc_device_id device) in
      let output = put_u32 output (at + 16) (vdc_device_type device) in
      let output = put_u32 output (at + 20) (vdc_queue_family_count device) in
      let output = put_u32 output (at + 24) (vdc_memory_heap_count device) in
      let output = put_u32 output (at + 28) 0 in
      let output = put_u64 output (at + 32) (vdc_device_local_bytes device) in
      memcpy output (at + 40) (vdc_name device) (name_length + 1))"

definition get_device_caps :: "bytes \<Rightarrow> nat \<Rightarrow> vulkan_device_caps" where
  "get_device_caps input at =
     \<lparr>vdc_api_version = get_u32 input at, vdc_driver_version = get_u32 input (at + 4),
      vdc_vendor_id = get_u32 input (at + 8), vdc_device_id = get_u32 input (at + 12),
      vdc_device_type = get_u32 input (at + 16), vdc_queue_family_count = get_u32 input (at + 20),
      vdc_memory_heap_count = get_u32 input (at + 24), vdc_device_local_bytes = get_u64 input (at + 32),
      vdc_name = get_bytes input (at + 40) DEVICE_NAME_SIZE\<rparr>"

fun put_devices :: "bytes \<Rightarrow> nat \<Rightarrow> vulkan_device_caps list \<Rightarrow> bytes result" where
  "put_devices output at [] = Inr output"
| "put_devices output at (device # devices) =
     (case memchr0 (vdc_name device) 0 DEVICE_NAME_SIZE of
        None \<Rightarrow> Inl EINVAL
      | Some name_length \<Rightarrow> put_devices (put_device_caps output at device name_length) (at + CAPS_DEVICE_SIZE) devices)"

definition encode_vulkan_caps :: "bytes option \<Rightarrow> vulkan_caps option \<Rightarrow> u32 option \<Rightarrow> (bytes \<times> u32) result" where
  "encode_vulkan_caps output caps output_length = nonnull3 output caps output_length (\<lambda>output caps _.
     if vc_included_device_count caps > MAX_DEVICES \<or> vc_included_device_count caps > vc_physical_device_count caps
     then Inl EINVAL
     else
     let len = 16 + vc_included_device_count caps * CAPS_DEVICE_SIZE in
     if len > BVB_PROTOCOL_MAX_PAYLOAD then Inl EMSGSIZE
     else
     let output = memset0 output 0 (unat len) in
     let output = put_u32 output 0 (vc_loader_api_version caps) in
     let output = put_u32 output 4 (vc_instance_extension_count caps) in
     let output = put_u32 output 8 (vc_physical_device_count caps) in
     let output = put_u32 output 12 (vc_included_device_count caps) in
     map_sum id (\<lambda>output. (output, len))
       (put_devices output 16 (take (unat (vc_included_device_count caps)) (vc_devices caps))))"

definition no_device_caps :: vulkan_device_caps where
  "no_device_caps = \<lparr>vdc_api_version = 0, vdc_driver_version = 0, vdc_vendor_id = 0, vdc_device_id = 0,
     vdc_device_type = 0, vdc_queue_family_count = 0, vdc_memory_heap_count = 0, vdc_device_local_bytes = 0,
     vdc_name = replicate DEVICE_NAME_SIZE 0\<rparr>"

definition device_record_ok :: "bytes \<Rightarrow> nat \<Rightarrow> bool" where
  "device_record_ok input at \<longleftrightarrow> get_u32 input (at + 28) = 0 \<and> memchr0 input (at + 40) DEVICE_NAME_SIZE \<noteq> None"

definition decode_vulkan_caps :: "bytes option \<Rightarrow> u32 \<Rightarrow> vulkan_caps option \<Rightarrow> vulkan_caps result" where
  "decode_vulkan_caps input input_length caps = nonnull2 input caps (\<lambda>input _.
     if input_length < 16 then Inl EINVAL
     else
     let included_device_count = get_u32 input 12 in
     if included_device_count > MAX_DEVICES then Inl EMSGSIZE
     else if input_length \<noteq> 16 + included_device_count * CAPS_DEVICE_SIZE then Inl EPROTO
     else if included_device_count > get_u32 input 8 then Inl EPROTO
     else if \<not> list_all (\<lambda>index. device_record_ok input (16 + index * CAPS_DEVICE_SIZE)) [0..<unat included_device_count]
     then Inl EPROTO
     else Inr \<lparr>vc_loader_api_version = get_u32 input 0, vc_instance_extension_count = get_u32 input 4,
       vc_physical_device_count = get_u32 input 8, vc_included_device_count = included_device_count,
       vc_devices = fill_to MAX_DEVICES no_device_caps
         (get_each get_device_caps CAPS_DEVICE_SIZE input 16 (unat included_device_count))\<rparr>)"

subsection \<open>The records\<close>

definition put_whole_device :: "bytes \<Rightarrow> nat \<Rightarrow> vulkan_device_caps \<Rightarrow> bytes" where
  "put_whole_device output at device = put_device_caps output at device (DEVICE_NAME_SIZE - 1)"

definition device_shape :: "vulkan_device_caps \<Rightarrow> bool" where
  "device_shape device \<longleftrightarrow> length (vdc_name device) = DEVICE_NAME_SIZE"

lemma agree_get_bytes: "agree at w b c \<Longrightarrow> n + k \<le> w \<Longrightarrow> get_bytes b (at + n) k = get_bytes c (at + n) k"
  by (rule get_bytes_cong) (auto simp: agree_def)

interpretation device_field: wire_field CAPS_DEVICE_SIZE put_whole_device get_device_caps device_shape
proof (unfold_locales, goal_cases)
  case (4 i b c)
  then have "agree i 296 b c" by (auto simp: agree_def)
  then show ?case by (simp add: get_device_caps_def agree_reads agree_reads_0 agree_get_bytes)
qed (auto simp: put_whole_device_def put_device_caps_def get_device_caps_def device_shape_def Let_def wire_simps nth_put)

definition clean_device :: "vulkan_device_caps \<Rightarrow> vulkan_device_caps" where
  "clean_device device = device\<lparr>vdc_name := clean DEVICE_NAME_SIZE (vdc_name device)\<rparr>"

definition device_ok :: "vulkan_device_caps \<Rightarrow> bool" where
  "device_ok device \<longleftrightarrow> memchr0 (vdc_name device) 0 DEVICE_NAME_SIZE \<noteq> None"

lemma put_device_clean:
  assumes "device_shape v" "memchr0 (vdc_name v) 0 256 = Some t" "at + 296 \<le> length b" "zeros b at (at + 296)"
  shows "put_device_caps b at v t = put_whole_device b at (clean_device v)"
proof -
  have "zeros b (at + 40) (at + 296)" using assms(4) by (rule zeros_mono) auto
  moreover have "memcpy c (at + 40) (vdc_name v) (Suc t) = memcpy c (at + 40) (clean 256 (vdc_name v)) 256"
    if "length c = length b" "zeros c (at + 40) (at + 296)" for c
  proof -
    have "at + 40 + 256 \<le> length c" "zeros c (at + 40) (at + 40 + 256)"
      using that(1) assms(3) zeros_mono [OF that(2)] by simp_all
    then show ?thesis using copy_name [of "vdc_name v" 256 t] assms(1,2) by (simp add: device_shape_def)
  qed
  ultimately show ?thesis
    using assms
    by (simp add: put_device_caps_def put_whole_device_def clean_device_def device_shape_def Let_def wire_simps)
qed

lemma put_devices_clean:
  assumes "list_all (\<lambda>v. device_shape v \<and> device_ok v) vs" "at + length vs * 296 \<le> length b"
    and "zeros b at (at + length vs * 296)"
  shows "put_devices b at vs = Inr (put_each put_whole_device 296 b at (map clean_device vs))"
  using assms
proof (induction vs arbitrary: b at)
  case (Cons v vs)
  obtain t where t: "memchr0 (vdc_name v) 0 256 = Some t" using Cons.prems(1) by (auto simp: device_ok_def)
  have shape: "device_shape v" "device_shape (clean_device v)"
    using Cons.prems(1) by (auto simp: device_shape_def clean_device_def)
  have c: "put_device_caps b at v t = put_whole_device b at (clean_device v)"
    using Cons.prems shape t by (intro put_device_clean zeros_mono [OF Cons.prems(3)]) auto
  have l: "length (put_whole_device b at (clean_device v)) = length b"
    using Cons.prems shape by (intro device_field.put_length) auto
  have "zeros (put_whole_device b at (clean_device v)) (at + 296) (at + 296 + length vs * 296) =
      zeros b (at + 296) (at + 296 + length vs * 296)"
    using Cons.prems shape by (intro device_field.zeros_put) auto
  then have "zeros (put_whole_device b at (clean_device v)) (at + 296) (at + 296 + length vs * 296)"
    using zeros_mono [OF Cons.prems(3)] by simp
  then show ?case using Cons.IH [of "at + 296" "put_whole_device b at (clean_device v)"] Cons.prems l t c
    by (simp add: algebra_simps)
qed simp

lemma put_devices_fails: "\<not> list_all device_ok vs \<Longrightarrow> \<exists>e. put_devices b at vs = Inl e"
  by (induction vs arbitrary: b at) (auto simp: device_ok_def split: option.splits)

lemma put_devices_append:
  assumes "list_all device_shape vs" "at + length vs * 296 \<le> length a"
  shows "put_devices (a @ c) at vs = map_sum id (\<lambda>m. m @ c) (put_devices a at vs)"
  using assms
proof (induction vs arbitrary: a at)
  case (Cons v vs)
  show ?case
  proof (cases "memchr0 (vdc_name v) 0 256")
    case (Some t)
    then have t: "t < 256" by (simp add: memchr0_Some)
    then have "put_device_caps (a @ c) at v t = put_device_caps a at v t @ c"
        "length (put_device_caps a at v t) = length a"
      using Cons.prems by (simp_all add: put_device_caps_def device_shape_def Let_def wire_simps)
    then show ?thesis using Cons.prems Some Cons.IH [of "at + 296" "put_device_caps a at v t"] by (simp add: algebra_simps)
  qed simp
qed simp

lemma reads_device_record: "reads 296 device_record_ok"
proof (rule readsI)
  fix b c :: bytes and i assume a: "agree i 296 b c"
  then have "memchr0 b (i + 40) 256 = memchr0 c (i + 40) 256"
    unfolding memchr0_def by (intro find_cong) (auto simp: agree_def)
  then show "device_record_ok b i = device_record_ok c i" using agree_reads(1) [OF a] by (simp add: device_record_ok_def)
qed

lemma whole_device_ok:
  assumes "device_shape v" "device_ok v" "j + 296 \<le> length c"
  shows "device_record_ok (put_whole_device c j (clean_device v)) j"
proof -
  let ?b = "put_whole_device c j (clean_device v)"
  obtain t where t: "memchr0 (vdc_name v) 0 256 = Some t" using assms(2) by (auto simp: device_ok_def)
  have shape: "device_shape (clean_device v)" using assms(1) by (simp add: device_shape_def clean_device_def)
  have "get_device_caps ?b j = clean_device v" using device_field.get_put [OF shape assms(3)] .
  then have "vdc_name (get_device_caps ?b j) = clean 256 (vdc_name v)" by (simp add: clean_device_def)
  then have "get_bytes ?b (j + 40) 256 = clean 256 (vdc_name v)" by (simp add: get_device_caps_def)
  moreover have "length ?b = length c" using device_field.put_length [OF shape assms(3)] .
  ultimately have "?b ! (j + 40 + i) = clean 256 (vdc_name v) ! i" if "i < 256" for i
    using that assms(3) by (auto simp: get_bytes_def list_eq_iff_nth_eq)
  then have "?b ! (j + 40 + t) = 0" "t < 256"
    using nth_clean [OF _ t] t assms(1) by (auto simp: device_shape_def memchr0_Some)
  then have "memchr0 ?b (j + 40) 256 \<noteq> None" by (auto simp: memchr0_None)
  moreover have "get_u32 ?b (j + 28) = 0"
    using assms shape by (simp add: put_whole_device_def put_device_caps_def device_shape_def Let_def wire_simps)
  ultimately show ?thesis by (simp add: device_record_ok_def)
qed

subsection \<open>The contract\<close>

definition caps_ok :: "vulkan_caps \<Rightarrow> bool" where
  "caps_ok caps \<longleftrightarrow> vc_included_device_count caps \<le> MAX_DEVICES \<and>
     vc_included_device_count caps \<le> vc_physical_device_count caps \<and>
     list_all device_ok (take (unat (vc_included_device_count caps)) (vc_devices caps))"

definition caps_shape :: "vulkan_caps \<Rightarrow> bool" where
  "caps_shape caps \<longleftrightarrow> length (vc_devices caps) = MAX_DEVICES \<and> list_all device_shape (vc_devices caps)"

definition caps_norm :: "vulkan_caps \<Rightarrow> vulkan_caps" where
  "caps_norm caps = caps\<lparr>vc_devices := fill_to MAX_DEVICES no_device_caps
     (map clean_device (take (unat (vc_included_device_count caps)) (vc_devices caps)))\<rparr>"

lemma caps_length: "c \<le> 8 \<Longrightarrow> unat (16 + c * 296 :: u32) = 16 + unat c * 296"
  using unat_length [of c 8 16 296] by (simp add: word_le_nat_alt)

lemma caps_fits: "c \<le> 8 \<Longrightarrow> \<not> 4096 < (16 + c * 296 :: u32)"
  using caps_length [of c] by (simp add: word_less_nat_alt word_le_nat_alt)

lemma device_at: "i < n \<Longrightarrow> length m = 16 + n * 296 \<Longrightarrow> 16 + i * 296 + 296 \<le> length m" for n :: nat
proof -
  assume a: "i < n" "length m = 16 + n * 296"
  then have "(i + 1) * 296 \<le> n * 296" by (intro mult_le_mono1) simp
  then show ?thesis using a(2) by simp
qed

interpretation caps_codec: sized_codec BVB_PROTOCOL_MAX_PAYLOAD caps_shape caps_ok caps_norm
  encode_vulkan_caps decode_vulkan_caps
proof (unfold_locales, goal_cases)
  case (6 x b k)
  show ?case
  proof (cases "vc_included_device_count x > 8 \<or> vc_included_device_count x > vc_physical_device_count x")
    case True
    then show ?thesis by (simp add: encode_vulkan_caps_def)
  next
    case False
    then have "\<not> list_all device_ok (take (unat (vc_included_device_count x)) (vc_devices x))"
      using 6 by (auto simp: caps_ok_def)
    then show ?thesis
      using False put_devices_fails
      by (auto simp: encode_vulkan_caps_def Let_def map_sum_Inl)
  qed
next
  case (7 x b k d)
  let ?c = "unat (vc_included_device_count x)" and ?n = "16 + vc_included_device_count x * 296"
  define vs where "vs = take ?c (vc_devices x)"
  have c: "vc_included_device_count x \<le> 8" "vc_included_device_count x \<le> vc_physical_device_count x" "?c \<le> 8"
    using 7(2) by (auto simp: caps_ok_def word_le_nat_alt)
  have n: "unat ?n = 16 + ?c * 296" using caps_length [OF c(1)] .
  have vs: "length vs = ?c" "list_all (\<lambda>v. device_shape v \<and> device_ok v) vs" "list_all device_shape vs"
    using 7(1,2) c(3) by (auto simp: vs_def caps_shape_def caps_ok_def list_all_iff dest: in_set_takeD)
  define p where "p = put_u32 (put_u32 (put_u32 (put_u32 (replicate (unat ?n) 0) 0 (vc_loader_api_version x))
    4 (vc_instance_extension_count x)) 8 (vc_physical_device_count x)) 12 (vc_included_device_count x)"
  have p: "length p = unat ?n" "zeros p 16 (16 + length vs * 296)" using n vs(1) by (simp_all add: p_def wire_simps)
  define m where "m = put_each put_whole_device 296 p 16 (map clean_device vs)"
  have cleans: "list_all device_shape (map clean_device vs)" using vs(3) by (auto simp: list_all_iff device_shape_def clean_device_def)
  have len: "length m = unat ?n"
    unfolding m_def using device_field.put_each_length [OF _ cleans, of 296 16 p] p(1) vs(1) n by simp
  have front: "get_u32 m j = get_u32 p j" if "j + 4 \<le> 16" for j
    unfolding m_def using that cleans p(1) n vs(1) by (intro device_field.read_other_array [OF reads_u32]) auto
  have devices: "get_each get_device_caps 296 m 16 ?c = map clean_device vs"
    unfolding m_def using device_field.get_put_each [OF _ cleans, of 296 16 p] p(1) vs(1) n by simp
  have records: "device_record_ok m (16 + i * 296)" if "i < ?c" for i
    unfolding m_def
  proof (rule device_field.each_check [OF reads_device_record _ cleans])
    fix q :: bytes and j u assume "u \<in> set (map clean_device vs)" "j + 296 \<le> length q"
    then show "device_record_ok (put_whole_device q j u) j"
      using whole_device_ok vs(2) by (auto simp: list_all_iff)
  qed (use that p(1) n vs(1) in auto)
  have "put_devices p 16 vs = Inr m" unfolding m_def using put_devices_clean [OF vs(2) _ p(2)] p(1) n vs(1) by simp
  then have "put_devices (p @ drop (unat ?n) b) 16 vs = Inr (m @ drop (unat ?n) b)"
    using put_devices_append [OF vs(3), of 16 p] p(1) n vs(1) by simp
  moreover have "put_u32 (put_u32 (put_u32 (put_u32 (memset0 b 0 (unat ?n)) 0 (vc_loader_api_version x))
      4 (vc_instance_extension_count x)) 8 (vc_physical_device_count x)) 12 (vc_included_device_count x) = p @ drop (unat ?n) b"
    using n by (simp add: memset0_front p_def wire_simps)
  ultimately have "encode_vulkan_caps (Some b) (Some x) (Some k) = Inr (m @ drop (unat ?n) b, ?n)"
    using c caps_fits [OF c(1)] by (simp add: encode_vulkan_caps_def Let_def not_less flip: vs_def)
  moreover have "get_u32 m 0 = vc_loader_api_version x" "get_u32 m 4 = vc_instance_extension_count x"
      "get_u32 m 8 = vc_physical_device_count x" "get_u32 m 12 = vc_included_device_count x"
    using n by (simp_all add: front p_def wire_simps)
  then have "decode_vulkan_caps (Some m) ?n (Some d) = Inr (caps_norm x)"
    using c n devices records
    by (simp add: decode_vulkan_caps_def caps_norm_def list_all_upt not_less word_less_nat_alt Let_def word_le_nat_alt flip: vs_def)
  ultimately show ?case using len n c(3) by (intro exI [of _ m] exI [of _ ?n]) simp
next
  case (8 m n d x)
  let ?c = "unat (get_u32 m 12)"
  have c: "get_u32 m 12 \<le> 8" "n = 16 + get_u32 m 12 * 296" "get_u32 m 12 \<le> get_u32 m 8"
    and records: "list_all (\<lambda>i. device_record_ok m (16 + i * 296)) [0..<?c]"
    and x: "x = \<lparr>vc_loader_api_version = get_u32 m 0, vc_instance_extension_count = get_u32 m 4,
       vc_physical_device_count = get_u32 m 8, vc_included_device_count = get_u32 m 12,
       vc_devices = fill_to 8 no_device_caps (get_each get_device_caps 296 m 16 ?c)\<rparr>"
    using 8(2) by (auto simp: decode_vulkan_caps_def Let_def not_less split: if_splits)
  have len: "length m = 16 + ?c * 296" using 8(1) c(2) caps_length [OF c(1)] by simp
  have name: "length (vdc_name (get_device_caps m at)) = 256"
      "\<And>i. i < 256 \<Longrightarrow> vdc_name (get_device_caps m at) ! i = m ! (at + 40 + i)" if "at + 296 \<le> length m" for at
    using that by (simp_all add: get_device_caps_def get_bytes_def)
  have "device_shape (get_device_caps m (16 + i * 296)) \<and> device_ok (get_device_caps m (16 + i * 296))" if "i < ?c" for i
    using name [OF device_at [OF that len]] records that
    by (auto simp: device_shape_def device_ok_def device_record_ok_def memchr0_None list_all_upt)
  moreover have "?c \<le> 8" using c(1) by (simp add: word_le_nat_alt)
  ultimately show ?case
    using c by (auto simp: x caps_shape_def caps_ok_def fill_to_def get_each_def list_all_iff no_device_caps_def device_shape_def)
next
  case (10 m n c d)
  show ?case
  proof (cases "n < 16 \<or> get_u32 m 12 > 8 \<or> n \<noteq> 16 + get_u32 m 12 * 296")
    case True
    then show ?thesis using 10 by (auto simp: decode_vulkan_caps_def wire_simps word_less_nat_alt)
  next
    case False
    then have len: "length m = 16 + unat (get_u32 m 12) * 296" using 10 caps_length [of "get_u32 m 12"] by (simp add: not_less)
    have "device_record_ok (m @ c) at = device_record_ok m at" "get_device_caps (m @ c) at = get_device_caps m at"
      if "at + 296 \<le> length m" for at
    proof -
      have "memchr0 (m @ c) (at + 40) 256 = memchr0 m (at + 40) 256"
        unfolding memchr0_def using that by (intro find_cong) (auto simp: nth_append)
      then show "device_record_ok (m @ c) at = device_record_ok m at" using that by (simp add: device_record_ok_def wire_simps)
      show "get_device_caps (m @ c) at = get_device_caps m at" using that by (simp add: get_device_caps_def wire_simps)
    qed
    then have "list_all (\<lambda>i. device_record_ok (m @ c) (16 + i * 296)) [0..<unat (get_u32 m 12)] =
          list_all (\<lambda>i. device_record_ok m (16 + i * 296)) [0..<unat (get_u32 m 12)]"
        "get_each get_device_caps 296 (m @ c) 16 (unat (get_u32 m 12)) = get_each get_device_caps 296 m 16 (unat (get_u32 m 12))"
      using device_at [OF _ len] by (auto simp: list_all_upt get_each_def)
    then show ?thesis using len by (simp add: decode_vulkan_caps_def wire_simps)
  qed
qed (auto simp: encode_vulkan_caps_def decode_vulkan_caps_def Let_def split: if_splits)

end
