(* ===== verification/Proto_Packed.thy ===== *)
theory Proto_Packed
  imports Proto_Names Proto_Array
begin

unbundle bit_operations_syntax

section \<open>Packed device creation\<close>

text \<open>
  The creation of a device with several queues, feature structures and extensions
  (src/src/protocol.c 955-1259). Its parts follow each other without gaps: the fixed part, the feature
  sets that are there, the queues, their priorities, and the names of the extensions with their
  terminators.
\<close>

subsection \<open>Definitions\<close>

abbreviation (input) MAX_DEVICE_QUEUE_CREATE_INFOS :: "'a::numeral" where "MAX_DEVICE_QUEUE_CREATE_INFOS \<equiv> 8"
abbreviation (input) MAX_DEVICE_QUEUE_PRIORITIES :: "'a::numeral" where "MAX_DEVICE_QUEUE_PRIORITIES \<equiv> 16"
abbreviation (input) MAX_DEVICE_CREATE_EXTENSIONS :: "'a::numeral" where "MAX_DEVICE_CREATE_EXTENSIONS \<equiv> 64"
abbreviation (input) BASE_FEATURES :: "'a::numeral" where "BASE_FEATURES \<equiv> 55"
abbreviation (input) BASE_FEATURES_SIZE :: "'a::numeral" where "BASE_FEATURES_SIZE \<equiv> 220"
abbreviation (input) PACKED_PREFIX_SIZE :: "'a::numeral" where "PACKED_PREFIX_SIZE \<equiv> 32"

abbreviation (input) FEATURE_VULKAN_11 :: u32 where "FEATURE_VULKAN_11 \<equiv> 1"
abbreviation (input) FEATURE_VULKAN_12 :: u32 where "FEATURE_VULKAN_12 \<equiv> 2"
abbreviation (input) FEATURE_VULKAN_13 :: u32 where "FEATURE_VULKAN_13 \<equiv> 4"
abbreviation (input) FEATURE_DEPTH_CLIP_ENABLE :: u32 where "FEATURE_DEPTH_CLIP_ENABLE \<equiv> 8"
abbreviation (input) FEATURE_ROBUSTNESS_2 :: u32 where "FEATURE_ROBUSTNESS_2 \<equiv> 16"
abbreviation (input) FEATURE_MAINTENANCE_5 :: u32 where "FEATURE_MAINTENANCE_5 \<equiv> 32"
abbreviation (input) FEATURE_MAINTENANCE_6 :: u32 where "FEATURE_MAINTENANCE_6 \<equiv> 64"
abbreviation (input) FEATURE_BASE :: u32 where "FEATURE_BASE \<equiv> 128"
abbreviation (input) FEATURE_STRUCT_MASK :: u32 where "FEATURE_STRUCT_MASK \<equiv> 255"

record vulkan_device_queue_create_info =
  qci_flags :: u32
  qci_queue_family_index :: u32
  qci_queue_count :: u32
  qci_first_priority :: u32

record vulkan_device_create_packed_request =
  dcp_physical_device_id :: u64
  dcp_flags :: u32
  dcp_queue_create_info_count :: u32
  dcp_queue_priority_count :: u32
  dcp_enabled_layer_count :: u32
  dcp_enabled_extension_count :: u32
  dcp_enabled_feature_structs :: u32
  dcp_enabled_features :: vulkan_core_features
  dcp_enabled_base_features :: "u32 list"
  dcp_queue_create_infos :: "vulkan_device_queue_create_info list"
  dcp_queue_priority_bits :: "u32 list"
  dcp_enabled_extensions :: "bytes list"

definition queue_info_ok :: "u32 \<Rightarrow> vulkan_device_queue_create_info \<Rightarrow> bool" where
  "queue_info_ok queue_priority_count info \<longleftrightarrow>
     \<not> (qci_queue_count info = 0 \<or> qci_first_priority info \<ge> queue_priority_count \<or>
        qci_queue_count info > queue_priority_count - qci_first_priority info)"

definition packed_counts_ok :: "vulkan_device_create_packed_request \<Rightarrow> bool" where
  "packed_counts_ok request \<longleftrightarrow>
     \<not> (\<not> wire_id_is_type (dcp_physical_device_id request) 2 \<or> dcp_queue_create_info_count request = 0 \<or>
        dcp_queue_create_info_count request > MAX_DEVICE_QUEUE_CREATE_INFOS \<or> dcp_queue_priority_count request = 0 \<or>
        dcp_queue_priority_count request > MAX_DEVICE_QUEUE_PRIORITIES \<or>
        dcp_enabled_extension_count request > MAX_DEVICE_CREATE_EXTENSIONS)"

text \<open>True where the C returns 0; it returns \<^verbatim>\<open>-EPROTO\<close> otherwise, which its callers turn into their own.\<close>

definition validate_packed_device_create_counts :: "vulkan_device_create_packed_request \<Rightarrow> bool" where
  "validate_packed_device_create_counts request \<longleftrightarrow>
     packed_counts_ok request \<and> dcp_enabled_feature_structs request AND NOT FEATURE_STRUCT_MASK = 0 \<and>
     list_all (queue_info_ok (dcp_queue_priority_count request))
       (take (unat (dcp_queue_create_info_count request)) (dcp_queue_create_infos request))"

definition packed_device_feature_groups_match_mask :: "vulkan_device_create_packed_request \<Rightarrow> bool" where
  "packed_device_feature_groups_match_mask request =
     (let features = dcp_enabled_features request; structs = dcp_enabled_feature_structs request in
      if structs AND FEATURE_VULKAN_11 = 0 \<and> cf_shader_draw_parameters features \<noteq> 0 then False
      else if structs AND FEATURE_VULKAN_12 = 0 \<and>
        (cf_buffer_device_address features \<noteq> 0 \<or> cf_descriptor_indexing features \<noteq> 0 \<or>
         cf_descriptor_binding_sampled_image_update_after_bind features \<noteq> 0 \<or>
         cf_descriptor_binding_update_unused_while_pending features \<noteq> 0 \<or>
         cf_descriptor_binding_partially_bound features \<noteq> 0 \<or> cf_host_query_reset features \<noteq> 0 \<or>
         cf_runtime_descriptor_array features \<noteq> 0 \<or> cf_sampler_mirror_clamp_to_edge features \<noteq> 0 \<or>
         cf_scalar_block_layout features \<noteq> 0 \<or> cf_timeline_semaphore features \<noteq> 0 \<or>
         cf_uniform_buffer_standard_layout features \<noteq> 0 \<or> cf_vulkan_memory_model features \<noteq> 0) then False
      else if structs AND FEATURE_VULKAN_13 = 0 \<and>
        (cf_compute_full_subgroups features \<noteq> 0 \<or> cf_dynamic_rendering features \<noteq> 0 \<or> cf_maintenance4 features \<noteq> 0 \<or>
         cf_shader_demote_to_helper_invocation features \<noteq> 0 \<or>
         cf_shader_zero_initialize_workgroup_memory features \<noteq> 0 \<or> cf_subgroup_size_control features \<noteq> 0 \<or>
         cf_synchronization2 features \<noteq> 0) then False
      else if structs AND FEATURE_DEPTH_CLIP_ENABLE = 0 \<and> cf_depth_clip_enable features \<noteq> 0 then False
      else if structs AND FEATURE_ROBUSTNESS_2 = 0 \<and>
        (cf_robust_buffer_access2 features \<noteq> 0 \<or> cf_null_descriptor features \<noteq> 0) then False
      else if structs AND FEATURE_MAINTENANCE_5 = 0 \<and> cf_maintenance5 features \<noteq> 0 then False
      else if structs AND FEATURE_MAINTENANCE_6 = 0 \<and> cf_maintenance6 features \<noteq> 0 then False
      else list_all (\<lambda>value. \<not> (value > 1 \<or> structs AND FEATURE_BASE = 0 \<and> value \<noteq> 0)) (dcp_enabled_base_features request))"

definition put_queue_info :: "bytes \<Rightarrow> nat \<Rightarrow> vulkan_device_queue_create_info \<Rightarrow> bytes" where
  "put_queue_info output cursor info =
     put_u32 (put_u32 (put_u32 (put_u32 output cursor (qci_flags info)) (cursor + 4) (qci_queue_family_index info))
       (cursor + 8) (qci_queue_count info)) (cursor + 12) (qci_first_priority info)"

definition get_queue_info :: "bytes \<Rightarrow> nat \<Rightarrow> vulkan_device_queue_create_info" where
  "get_queue_info input cursor =
     \<lparr>qci_flags = get_u32 input cursor, qci_queue_family_index = get_u32 input (cursor + 4),
      qci_queue_count = get_u32 input (cursor + 8), qci_first_priority = get_u32 input (cursor + 12)\<rparr>"

definition encode_vulkan_base_features :: "bytes \<Rightarrow> nat \<Rightarrow> u32 list \<Rightarrow> bytes" where
  "encode_vulkan_base_features output cursor values = put_each put_u32 4 output cursor values"

definition decode_vulkan_base_features :: "bytes \<Rightarrow> nat \<Rightarrow> u32 list result" where
  "decode_vulkan_base_features input cursor =
     (let values = get_each get_u32 4 input cursor BASE_FEATURES in
      if \<not> list_all (\<lambda>value. value \<le> 1) values then Inl EPROTO else Inr values)"

text \<open>The first loop over the names: their lengths with the terminator, and the length of the message.\<close>

fun packed_names :: "u32 \<Rightarrow> bytes list \<Rightarrow> (nat list \<times> u32) result" where
  "packed_names len [] = Inr ([], len)"
| "packed_names len (name # names) =
     (case memchr0 name 0 ENABLED_EXTENSION_NAME_SIZE of
        None \<Rightarrow> Inl EINVAL
      | Some terminator \<Rightarrow>
          if name ! 0 = 0 then Inl EINVAL
          else if terminator + 1 > unat (BVB_PROTOCOL_MAX_PAYLOAD - len) then Inl EMSGSIZE
          else map_sum id (\<lambda>(lengths, total). (Suc terminator # lengths, total))
                 (packed_names (len + word_of_nat (terminator + 1)) names))"

fun put_packed_names :: "bytes \<Rightarrow> nat \<Rightarrow> (bytes \<times> nat) list \<Rightarrow> bytes \<times> nat" where
  "put_packed_names output cursor [] = (output, cursor)"
| "put_packed_names output cursor ((name, len) # names) =
     put_packed_names (memcpy output cursor name len) (cursor + len) names"

definition packed_fixed_length :: "vulkan_device_create_packed_request \<Rightarrow> u32" where
  "packed_fixed_length request =
     PACKED_PREFIX_SIZE + (if dcp_enabled_feature_structs request = 0 then 0 else BVB_VULKAN_CORE_FEATURES_SIZE) +
     (if dcp_enabled_feature_structs request AND FEATURE_BASE = 0 then 0 else BASE_FEATURES_SIZE) +
     dcp_queue_create_info_count request * 16 + dcp_queue_priority_count request * 4"

text \<open>The feature sets, each only where the request has it.\<close>

definition write_core_features :: "vulkan_device_create_packed_request \<Rightarrow> bytes \<Rightarrow> nat \<Rightarrow> (bytes \<times> nat) result" where
  "write_core_features request output cursor =
     (if dcp_enabled_feature_structs request \<noteq> 0
      then case at_offset cursor encode_vulkan_core_features output (dcp_enabled_features request) of
          Inl _ \<Rightarrow> Inl EINVAL
        | Inr output \<Rightarrow> Inr (output, cursor + BVB_VULKAN_CORE_FEATURES_SIZE)
      else Inr (output, cursor))"

definition write_base_features :: "vulkan_device_create_packed_request \<Rightarrow> bytes \<Rightarrow> nat \<Rightarrow> bytes \<times> nat" where
  "write_base_features request output cursor =
     (if dcp_enabled_feature_structs request AND FEATURE_BASE \<noteq> 0
      then (encode_vulkan_base_features output cursor (dcp_enabled_base_features request), cursor + BASE_FEATURES_SIZE)
      else (output, cursor))"

definition encode_vulkan_device_create_packed_request ::
  "bytes option \<Rightarrow> vulkan_device_create_packed_request option \<Rightarrow> u32 option \<Rightarrow> (bytes \<times> u32) result" where
  "encode_vulkan_device_create_packed_request output request output_length =
     nonnull3 output request output_length (\<lambda>output request _.
     if \<not> validate_packed_device_create_counts request \<or> \<not> packed_device_feature_groups_match_mask request
     then Inl EINVAL
     else
     let names = take (unat (dcp_enabled_extension_count request)) (dcp_enabled_extensions request) in
     case packed_names (packed_fixed_length request) names of
       Inl e \<Rightarrow> Inl e
     | Inr (extension_lengths, len) \<Rightarrow>
         let output = memset0 output 0 (unat len) in
         let output = put_u64 output 0 (dcp_physical_device_id request) in
         let output = put_u32 output 8 (dcp_flags request) in
         let output = put_u32 output 12 (dcp_queue_create_info_count request) in
         let output = put_u32 output 16 (dcp_queue_priority_count request) in
         let output = put_u32 output 20 (dcp_enabled_layer_count request) in
         let output = put_u32 output 24 (dcp_enabled_extension_count request) in
         let output = put_u32 output 28 (dcp_enabled_feature_structs request) in
         case write_core_features request output PACKED_PREFIX_SIZE of
           Inl e \<Rightarrow> Inl e
         | Inr (output, cursor) \<Rightarrow>
             let (output, cursor) = write_base_features request output cursor in
             let infos = take (unat (dcp_queue_create_info_count request)) (dcp_queue_create_infos request) in
             let output = put_each put_queue_info 16 output cursor infos in
             let cursor = cursor + length infos * 16 in
             let priorities = take (unat (dcp_queue_priority_count request)) (dcp_queue_priority_bits request) in
             let output = put_each put_u32 4 output cursor priorities in
             let cursor = cursor + length priorities * 4 in
             let (output, cursor) = put_packed_names output cursor (zip names extension_lengths) in
             Inr (output, word_of_nat cursor))"

text \<open>The names of the input; a name is as long as its array at most and ends inside the input.\<close>

fun get_packed_names :: "bytes \<Rightarrow> nat \<Rightarrow> nat \<Rightarrow> nat \<Rightarrow> (bytes list \<times> nat) result" where
  "get_packed_names input input_length cursor 0 = Inr ([], cursor)"
| "get_packed_names input input_length cursor (Suc k) =
     (if cursor = input_length then Inl EPROTO
      else
      let available = min (input_length - cursor) ENABLED_EXTENSION_NAME_SIZE in
      case memchr0 input cursor available of
        None \<Rightarrow> Inl EPROTO
      | Some terminator \<Rightarrow>
          if input ! cursor = 0 then Inl EPROTO
          else map_sum id
            (\<lambda>(names, after). (fill_to ENABLED_EXTENSION_NAME_SIZE 0 (get_bytes input cursor (terminator + 1)) # names, after))
            (get_packed_names input input_length (cursor + (terminator + 1)) k))"

definition no_core_features :: vulkan_core_features where
  "no_core_features = \<lparr>cf_shader_draw_parameters = 0, cf_buffer_device_address = 0, cf_descriptor_indexing = 0,
     cf_descriptor_binding_sampled_image_update_after_bind = 0, cf_descriptor_binding_update_unused_while_pending = 0,
     cf_descriptor_binding_partially_bound = 0, cf_host_query_reset = 0, cf_runtime_descriptor_array = 0,
     cf_sampler_mirror_clamp_to_edge = 0, cf_scalar_block_layout = 0, cf_timeline_semaphore = 0,
     cf_uniform_buffer_standard_layout = 0, cf_vulkan_memory_model = 0, cf_compute_full_subgroups = 0,
     cf_dynamic_rendering = 0, cf_maintenance4 = 0, cf_shader_demote_to_helper_invocation = 0,
     cf_shader_zero_initialize_workgroup_memory = 0, cf_subgroup_size_control = 0, cf_synchronization2 = 0,
     cf_depth_clip_enable = 0, cf_robust_buffer_access2 = 0, cf_null_descriptor = 0, cf_maintenance5 = 0,
     cf_maintenance6 = 0\<rparr>"

definition no_queue_info :: vulkan_device_queue_create_info where
  "no_queue_info = \<lparr>qci_flags = 0, qci_queue_family_index = 0, qci_queue_count = 0, qci_first_priority = 0\<rparr>"

definition read_core_features :: "u32 \<Rightarrow> bytes \<Rightarrow> nat \<Rightarrow> nat \<Rightarrow> (vulkan_core_features \<times> nat) result" where
  "read_core_features structs input input_length cursor =
     (if structs = 0 then Inr (no_core_features, cursor)
      else if BVB_VULKAN_CORE_FEATURES_SIZE > input_length - cursor then Inl EPROTO
      else case decode_vulkan_core_features (Some (drop cursor input)) (Some no_core_features) of
          Inl _ \<Rightarrow> Inl EPROTO
        | Inr features \<Rightarrow> Inr (features, cursor + BVB_VULKAN_CORE_FEATURES_SIZE))"

definition read_base_features :: "u32 \<Rightarrow> bytes \<Rightarrow> nat \<Rightarrow> nat \<Rightarrow> (u32 list \<times> nat) result" where
  "read_base_features structs input input_length cursor =
     (if structs AND FEATURE_BASE = 0 then Inr (replicate BASE_FEATURES 0, cursor)
      else if BASE_FEATURES_SIZE > input_length - cursor then Inl EPROTO
      else case decode_vulkan_base_features input cursor of
          Inl _ \<Rightarrow> Inl EPROTO
        | Inr values \<Rightarrow> Inr (values, cursor + BASE_FEATURES_SIZE))"

text \<open>The fixed part, with everything else still zero, and what comes after the feature sets.\<close>

definition packed_head :: "bytes \<Rightarrow> vulkan_device_create_packed_request" where
  "packed_head input = \<lparr>dcp_physical_device_id = get_u64 input 0, dcp_flags = get_u32 input 8,
     dcp_queue_create_info_count = get_u32 input 12, dcp_queue_priority_count = get_u32 input 16,
     dcp_enabled_layer_count = get_u32 input 20, dcp_enabled_extension_count = get_u32 input 24,
     dcp_enabled_feature_structs = get_u32 input 28, dcp_enabled_features = no_core_features,
     dcp_enabled_base_features = replicate BASE_FEATURES 0,
     dcp_queue_create_infos = replicate MAX_DEVICE_QUEUE_CREATE_INFOS no_queue_info,
     dcp_queue_priority_bits = replicate MAX_DEVICE_QUEUE_PRIORITIES 0,
     dcp_enabled_extensions = replicate MAX_DEVICE_CREATE_EXTENSIONS (replicate ENABLED_EXTENSION_NAME_SIZE 0)\<rparr>"

definition packed_tail ::
  "vulkan_device_create_packed_request \<Rightarrow> bytes \<Rightarrow> nat \<Rightarrow> nat \<Rightarrow> vulkan_device_create_packed_request result" where
  "packed_tail decoded input n cursor =
     (let info_count = unat (dcp_queue_create_info_count decoded);
          priority_count = unat (dcp_queue_priority_count decoded) in
      if info_count * 16 + priority_count * 4 > n - cursor then Inl EPROTO
      else
      let decoded = decoded
            \<lparr>dcp_queue_create_infos := fill_to MAX_DEVICE_QUEUE_CREATE_INFOS no_queue_info (get_each get_queue_info 16 input cursor info_count),
             dcp_queue_priority_bits := fill_to MAX_DEVICE_QUEUE_PRIORITIES 0 (get_each get_u32 4 input (cursor + info_count * 16) priority_count)\<rparr> in
      if \<not> validate_packed_device_create_counts decoded then Inl EPROTO
      else case get_packed_names input n (cursor + info_count * 16 + priority_count * 4)
              (unat (dcp_enabled_extension_count decoded)) of
        Inl e \<Rightarrow> Inl e
      | Inr (names, cursor) \<Rightarrow>
          if cursor \<noteq> n then Inl EPROTO
          else Inr (decoded\<lparr>dcp_enabled_extensions := fill_to MAX_DEVICE_CREATE_EXTENSIONS (replicate ENABLED_EXTENSION_NAME_SIZE 0) names\<rparr>))"

definition decode_vulkan_device_create_packed_request ::
  "bytes option \<Rightarrow> u32 \<Rightarrow> vulkan_device_create_packed_request option \<Rightarrow> vulkan_device_create_packed_request result" where
  "decode_vulkan_device_create_packed_request input input_length request = nonnull2 input request (\<lambda>input _.
     if input_length < PACKED_PREFIX_SIZE \<or> input_length > BVB_PROTOCOL_MAX_PAYLOAD then Inl EINVAL
     else
     let decoded = packed_head input; n = unat input_length; structs = dcp_enabled_feature_structs decoded in
     if \<not> packed_counts_ok decoded then Inl EPROTO
     else case read_core_features structs input n PACKED_PREFIX_SIZE of
       Inl e \<Rightarrow> Inl e
     | Inr (features, cursor) \<Rightarrow>
         case read_base_features structs input n cursor of
           Inl e \<Rightarrow> Inl e
         | Inr (vs, cursor) \<Rightarrow>
             let decoded = decoded\<lparr>dcp_enabled_features := features, dcp_enabled_base_features := vs\<rparr> in
             if \<not> packed_device_feature_groups_match_mask decoded then Inl EPROTO
             else packed_tail decoded input n cursor)"

subsection \<open>Writing and reading at the end\<close>

lemma put_shift:
  "put_u32 (a @ b) (length a + i) v = a @ put_u32 b i v"
  "get_u32 (a @ b) (length a + i) = get_u32 b i"
  by (simp_all add: put_u32_def get_u32_def list_update_append nth_append)

lemma put_each_shift:
  assumes "\<And>i v b. put (a @ b) (length a + i) v = a @ put b i v"
  shows "put_each put s (a @ b) (length a + i) xs = a @ put_each put s b i xs"
  by (induction xs arbitrary: b i) (simp_all add: assms add.assoc)

lemma get_each_shift:
  assumes "\<And>i b. g (a @ b) (length a + i) = g b i"
  shows "get_each g s (a @ b) (length a + i) n = get_each g s b i n"
  by (simp add: get_each_def assms add.assoc)

lemma queue_info_shift:
  "put_queue_info (a @ b) (length a + i) v = a @ put_queue_info b i v"
  "get_queue_info (a @ b) (length a + i) = get_queue_info b i"
  by (simp_all add: put_queue_info_def get_queue_info_def put_shift add.assoc)

interpretation queue_info_field: wire_field 16 put_queue_info get_queue_info "\<lambda>_. True"
proof (unfold_locales, goal_cases)
  case (4 i b c)
  then have "agree i 16 b c" by (auto simp: agree_def)
  then show ?case by (simp add: get_queue_info_def agree_reads agree_reads_0)
qed (auto simp: put_queue_info_def get_queue_info_def wire_simps nth_put)

text \<open>An array written after what is there, and read back from there whatever follows.\<close>

definition info_bytes :: "vulkan_device_queue_create_info list \<Rightarrow> bytes" where
  "info_bytes xs = put_each put_queue_info 16 (replicate (length xs * 16) 0) 0 xs"

definition word_bytes :: "u32 list \<Rightarrow> bytes" where
  "word_bytes xs = put_each put_u32 4 (replicate (length xs * 4) 0) 0 xs"

lemma info_bytes:
  "length (info_bytes xs) = length xs * 16"
  "put_each put_queue_info 16 (a @ replicate (length xs * 16) 0 @ c) (length a) xs = a @ info_bytes xs @ c"
  "get_each get_queue_info 16 (a @ info_bytes xs @ c) (length a) (length xs) = xs"
proof -
  show len: "length (info_bytes xs) = length xs * 16"
    using queue_info_field.put_each_length [of 16 xs 0] by (simp add: info_bytes_def list_all_iff)
  have "put_each put_queue_info 16 (replicate (length xs * 16) 0 @ c) 0 xs = info_bytes xs @ c"
    unfolding info_bytes_def by (rule put_each_append [where w = 16]) (simp_all add: put_queue_info_def put_append)
  then show "put_each put_queue_info 16 (a @ replicate (length xs * 16) 0 @ c) (length a) xs = a @ info_bytes xs @ c"
    using put_each_shift [of put_queue_info a 16 _ 0, OF queue_info_shift(1)] by simp
  have "get_each get_queue_info 16 (info_bytes xs @ c) 0 (length xs) = get_each get_queue_info 16 (info_bytes xs) 0 (length xs)"
    by (rule get_each_append_left [where w = 16]; simp add: get_queue_info_def get_append len)
  also have "\<dots> = xs" unfolding info_bytes_def by (rule queue_info_field.get_put_each) (simp_all add: list_all_iff)
  finally show "get_each get_queue_info 16 (a @ info_bytes xs @ c) (length a) (length xs) = xs"
    using get_each_shift [of get_queue_info a 16 _ 0, OF queue_info_shift(2)] by simp
qed

lemma word_bytes:
  "length (word_bytes xs) = length xs * 4"
  "put_each put_u32 4 (a @ replicate (length xs * 4) 0 @ c) (length a) xs = a @ word_bytes xs @ c"
  "get_each get_u32 4 (a @ word_bytes xs @ c) (length a) (length xs) = xs"
proof -
  show len: "length (word_bytes xs) = length xs * 4" by (simp add: word_bytes_def)
  show "put_each put_u32 4 (a @ replicate (length xs * 4) 0 @ c) (length a) xs = a @ word_bytes xs @ c"
    using put_each_shift [of put_u32 a 4 _ 0, OF put_shift(1)] by (simp add: word_bytes_def put_words_append)
  show "get_each get_u32 4 (a @ word_bytes xs @ c) (length a) (length xs) = xs"
    using get_each_shift [of get_u32 a 4 _ 0, OF put_shift(2)]
    by (simp add: get_words_append len) (simp add: word_bytes_def wire_simps)
qed

subsection \<open>The names\<close>

definition name_size :: "bytes \<Rightarrow> nat" where
  "name_size name = (case memchr0 name 0 ENABLED_EXTENSION_NAME_SIZE of None \<Rightarrow> 0 | Some t \<Rightarrow> t + 1)"

definition name_bytes :: "bytes list \<Rightarrow> bytes" where
  "name_bytes names = concat (map (\<lambda>name. take (name_size name) name) names)"

definition names_size :: "bytes list \<Rightarrow> nat" where
  "names_size names = sum_list (map name_size names)"

lemma name_size_ok: "name_ok name \<Longrightarrow> memchr0 name 0 128 = Some (name_size name - 1) \<and> 0 < name_size name \<and> name_size name \<le> 128"
proof -
  assume "name_ok name"
  then obtain t where t: "memchr0 name 0 128 = Some t" by (auto simp: name_ok_def)
  then have "t < 128" by (simp add: memchr0_Some)
  then show ?thesis using t by (simp add: name_size_def)
qed

lemma length_name_bytes:
  "list_all (\<lambda>v. length v = 128 \<and> name_ok v) names \<Longrightarrow> length (name_bytes names) = names_size names"
  by (induction names) (auto simp: name_bytes_def names_size_def dest!: name_size_ok)

lemma names_size_Cons [simp]: "names_size (name # names) = name_size name + names_size names" "names_size [] = 0"
  by (simp_all add: names_size_def)

lemma room: "unat len \<le> 4096 \<Longrightarrow> unat (4096 - len) = 4096 - unat len" for len :: u32
  by (simp add: unat_sub word_le_nat_alt)

lemma unat_grow: "unat len + k \<le> 4096 \<Longrightarrow> unat (len + word_of_nat k) = unat len + k" for len :: u32
  by (simp add: unat_word_ariths unat_of_nat)

lemma packed_names_ok:
  assumes "list_all name_ok names" "unat len + names_size names \<le> 4096"
  shows "packed_names len names = Inr (map name_size names, len + word_of_nat (names_size names))"
  using assms
proof (induction names arbitrary: len)
  case (Cons name names)
  let ?k = "name_size name"
  have k: "memchr0 name 0 128 = Some (?k - 1)" "0 < ?k" "name ! 0 \<noteq> 0" using Cons.prems(1) name_size_ok [of name] by (auto simp: name_ok_def)
  have grow: "unat (len + word_of_nat ?k) = unat len + ?k" using Cons.prems(2) by (intro unat_grow) simp
  have "packed_names (len + word_of_nat ?k) names =
      Inr (map name_size names, len + word_of_nat ?k + word_of_nat (names_size names))"
    using Cons.prems grow by (intro Cons.IH) auto
  then show ?case using k Cons.prems(2) room [of len] by (simp add: add.assoc)
qed simp

lemma packed_names_fail:
  assumes "\<not> list_all name_ok names \<or> unat len + names_size names > 4096" "unat len \<le> 4096"
  shows "\<exists>e. packed_names len names = Inl e"
  using assms
proof (induction names arbitrary: len)
  case (Cons name names)
  show ?case
  proof (cases "name_ok name \<and> unat len + name_size name \<le> 4096")
    case True
    let ?k = "name_size name"
    have k: "memchr0 name 0 128 = Some (?k - 1)" "0 < ?k" "name ! 0 \<noteq> 0" using True name_size_ok [of name] by (auto simp: name_ok_def)
    have "unat (len + word_of_nat ?k) = unat len + ?k" using True by (intro unat_grow) simp
    then obtain e where "packed_names (len + word_of_nat ?k) names = Inl e"
      using Cons.IH [of "len + word_of_nat ?k"] Cons.prems True by auto
    then show ?thesis using k True room [OF Cons.prems(2)] by simp
  next
    case False
    then show ?thesis using room [OF Cons.prems(2)] by (auto simp: name_ok_def name_size_def split: option.splits)
  qed
qed auto

lemma put_packed_names_end:
  assumes "list_all (\<lambda>v. length v = 128 \<and> name_ok v) names"
  shows "put_packed_names (a @ replicate (names_size names) 0 @ c) (length a) (zip names (map name_size names)) =
    (a @ name_bytes names @ c, length a + names_size names)"
  using assms
proof (induction names arbitrary: a)
  case (Cons name names)
  let ?k = "name_size name"
  have k: "?k \<le> length name" using Cons.prems name_size_ok [of name] by auto
  have "memcpy (a @ replicate (names_size (name # names)) 0 @ c) (length a) name ?k =
      (a @ take ?k name) @ replicate (names_size names) 0 @ c"
    by (simp add: memcpy_def replicate_add)
  then show ?case using Cons.IH [of "a @ take ?k name"] Cons.prems k by (simp add: name_bytes_def)
qed (simp add: name_bytes_def)

lemma fill_name: "length name = 128 \<Longrightarrow> name_ok name \<Longrightarrow> fill_to 128 0 (take (name_size name) name) = clean 128 name"
  using name_size_ok [of name] by (auto simp: fill_to_def clean_def)

lemma get_packed_names_end:
  assumes "list_all (\<lambda>v. length v = 128 \<and> name_ok v) names"
  shows "get_packed_names (a @ name_bytes names) (length a + names_size names) (length a) (length names) =
    Inr (map (clean 128) names, length a + names_size names)"
  using assms
proof (induction names arbitrary: a)
  case (Cons name names)
  let ?k = "name_size name" and ?m = "a @ name_bytes (name # names)"
  have k: "memchr0 name 0 128 = Some (?k - 1)" "0 < ?k" "name ! 0 \<noteq> 0" "length name = 128" "?k \<le> 128" "name_ok name"
    using Cons.prems name_size_ok [of name] by (auto simp: name_ok_def)
  have m: "?m = (a @ take ?k name) @ name_bytes names" by (simp add: name_bytes_def)
  have nth: "?m ! (length a + i) = name ! i" if "i < ?k" for i using that k(4,5) by (simp add: m nth_append)
  have "memchr0 ?m (length a) (min (?k + names_size names) 128) = Some (?k - 1)"
    using k(1,2,5) nth [of "?k - 1"] nth unfolding memchr0_Some by simp
  moreover have "?m ! length a \<noteq> 0" using nth [of 0] k(2,3) by simp
  moreover have "get_bytes ?m (length a) ?k = take ?k name" using k(4,5) by (simp add: m get_bytes_def)
  moreover have "get_packed_names ?m (length a + (?k + names_size names)) (length a + ?k) (length names) =
      Inr (map (clean 128) names, length a + (?k + names_size names))"
    using Cons.IH [of "a @ take ?k name"] Cons.prems k(4,5) by (simp add: m add.assoc)
  ultimately show ?case using k fill_name [OF k(4,6)] by simp
qed (simp add: name_bytes_def)

lemma get_packed_names_sound:
  assumes "get_packed_names m (length m) cursor k = Inr (names, after)" "cursor \<le> length m"
  shows "length names = k \<and> list_all (\<lambda>v. length v = 128 \<and> name_ok v) names \<and> after = cursor + names_size names \<and> after \<le> length m"
  using assms
proof (induction k arbitrary: cursor names after)
  case (Suc k)
  then obtain t rest where t: "memchr0 m cursor (min (length m - cursor) 128) = Some t" "m ! cursor \<noteq> 0"
      "get_packed_names m (length m) (cursor + (t + 1)) k = Inr (rest, after)"
      "names = fill_to 128 0 (get_bytes m cursor (t + 1)) # rest"
    by (auto simp: map_sum_Inr split: if_splits option.splits)
  let ?v = "fill_to 128 0 (get_bytes m cursor (t + 1))"
  have lt: "t < length m - cursor" "t < 128" and z: "m ! (cursor + t) = 0" "\<forall>i < t. m ! (cursor + i) \<noteq> 0"
    using t(1) by (auto simp: memchr0_Some)
  have nth: "?v ! i = m ! (cursor + i)" if "i \<le> t" for i using that lt by (simp add: fill_to_def get_bytes_def nth_append)
  have v: "memchr0 ?v 0 128 = Some t" "?v ! 0 \<noteq> 0" "length ?v = 128"
    using nth nth [of 0] z lt t(2) by (auto simp: memchr0_Some)
  have "cursor + (t + 1) \<le> length m" using lt by simp
  from Suc.IH [OF t(3) this] v show ?case by (auto simp: t(4) name_ok_def name_size_def)
qed (auto simp: names_size_def)

lemma get_packed_names_local:
  "cursor \<le> length m \<Longrightarrow> get_packed_names (m @ c) (length m) cursor k = get_packed_names m (length m) cursor k"
proof (induction k arbitrary: cursor)
  case (Suc k)
  show ?case
  proof (cases "cursor = length m")
    case False
    then have lt: "cursor < length m" using Suc.prems by simp
    let ?a = "min (length m - cursor) 128"
    have same: "memchr0 (m @ c) cursor ?a = memchr0 m cursor ?a"
      unfolding memchr0_def using lt by (intro find_cong) (auto simp: nth_append)
    show ?thesis
    proof (cases "memchr0 m cursor ?a")
      case (Some t)
      then have "cursor + (t + 1) \<le> length m" by (auto simp: memchr0_Some)
      then show ?thesis using Suc.IH lt same Some by (simp add: nth_append get_append)
    qed (use same lt in simp)
  qed simp
qed simp

lemma get_packed_names_error: "get_packed_names m n cursor k = Inl e \<Longrightarrow> e = EPROTO"
  by (induction k arbitrary: cursor) (auto simp: map_sum_Inl Let_def split: if_splits option.splits)

subsection \<open>The feature sets\<close>

abbreviation core_features_ok :: "vulkan_core_features \<Rightarrow> bool" where
  "core_features_ok features \<equiv> encode_vulkan_core_features (Some (replicate 100 0)) (Some features) \<noteq> Inl EINVAL"

definition core_bytes :: "u32 \<Rightarrow> vulkan_core_features \<Rightarrow> bytes" where
  "core_bytes structs features =
     (if structs = 0 then [] else projr (encode_vulkan_core_features (Some (replicate 100 0)) (Some features)))"

lemma core_encodes:
  assumes "core_features_ok f"
  obtains m where "encode_vulkan_core_features (Some (replicate 100 0)) (Some f) = Inr m" "length m = 100"
    "\<And>d. decode_vulkan_core_features (Some m) (Some d) = Inr f"
proof -
  obtain m where m: "encode_vulkan_core_features (Some (replicate 100 0)) (Some f) = Inr m"
    using assms by (cases "encode_vulkan_core_features (Some (replicate 100 0)) (Some f)")
      (auto simp: encode_vulkan_core_features_def Let_def split: if_splits)
  then show thesis using that core_features_codec.roundtrip [OF _ m] by simp
qed

lemma mask_cong:
  "dcp_enabled_feature_structs x = dcp_enabled_feature_structs y \<Longrightarrow> dcp_enabled_features x = dcp_enabled_features y \<Longrightarrow>
   dcp_enabled_base_features x = dcp_enabled_base_features y \<Longrightarrow>
   packed_device_feature_groups_match_mask x = packed_device_feature_groups_match_mask y"
  by (simp only: packed_device_feature_groups_match_mask_def)

lemma mask_zero:
  "packed_device_feature_groups_match_mask x \<Longrightarrow> dcp_enabled_feature_structs x = 0 \<Longrightarrow> dcp_enabled_features x = no_core_features"
  by (cases x; cases "dcp_enabled_features x")
    (auto simp: packed_device_feature_groups_match_mask_def no_core_features_def Let_def split: if_splits)

lemma mask_base:
  assumes "packed_device_feature_groups_match_mask x" "length (dcp_enabled_base_features x) = 55"
  shows "dcp_enabled_feature_structs x AND 128 = 0 \<Longrightarrow> dcp_enabled_base_features x = replicate 55 0"
    "list_all (\<lambda>v. v \<le> 1) (dcp_enabled_base_features x)"
  using assms by (auto simp: packed_device_feature_groups_match_mask_def Let_def list_all_iff not_less list_eq_iff_nth_eq
      split: if_splits)

lemma core_stage:
  assumes "dcp_enabled_feature_structs x = 0 \<or> core_features_ok (dcp_enabled_features x)"
    and "dcp_enabled_feature_structs x = 0 \<Longrightarrow> dcp_enabled_features x = no_core_features"
  defines "seg \<equiv> core_bytes (dcp_enabled_feature_structs x) (dcp_enabled_features x)"
  shows "length seg = (if dcp_enabled_feature_structs x = 0 then 0 else 100)"
    "write_core_features x (a @ replicate (length seg) 0 @ c) (length a) = Inr (a @ seg @ c, length a + length seg)"
    "length a + length seg \<le> n \<Longrightarrow>
     read_core_features (dcp_enabled_feature_structs x) (a @ seg @ c) n (length a) =
       Inr (dcp_enabled_features x, length a + length seg)"
proof -
  have "length seg = (if dcp_enabled_feature_structs x = 0 then 0 else 100) \<and>
    write_core_features x (a @ replicate (length seg) 0 @ c) (length a) = Inr (a @ seg @ c, length a + length seg) \<and>
    (length a + length seg \<le> n \<longrightarrow>
     read_core_features (dcp_enabled_feature_structs x) (a @ seg @ c) n (length a) =
       Inr (dcp_enabled_features x, length a + length seg))"
  proof (cases "dcp_enabled_feature_structs x = 0")
    case True
    then show ?thesis using assms(2) by (simp add: seg_def core_bytes_def write_core_features_def read_core_features_def)
  next
    case False
    then obtain m where m: "encode_vulkan_core_features (Some (replicate 100 0)) (Some (dcp_enabled_features x)) = Inr m"
        "length m = 100" "\<And>d. decode_vulkan_core_features (Some m) (Some d) = Inr (dcp_enabled_features x)"
      using core_encodes assms(1) by metis
    have seg: "seg = m" using False m(1) by (simp add: seg_def core_bytes_def)
    have "encode_vulkan_core_features (Some (replicate 100 0 @ c)) (Some (dcp_enabled_features x)) = Inr (m @ c)"
      using core_features_codec.enc_frame [of "replicate 100 0" c] m(1) by simp
    moreover have "decode_vulkan_core_features (Some (m @ c)) (Some no_core_features) = Inr (dcp_enabled_features x)"
      using core_features_codec.dec_frame [of m c] m(2,3) by simp
    ultimately show ?thesis
      using False m(2) by (auto simp: seg write_core_features_def read_core_features_def at_offset_def)
  qed
  then show "length seg = (if dcp_enabled_feature_structs x = 0 then 0 else 100)"
    "write_core_features x (a @ replicate (length seg) 0 @ c) (length a) = Inr (a @ seg @ c, length a + length seg)"
    "length a + length seg \<le> n \<Longrightarrow>
     read_core_features (dcp_enabled_feature_structs x) (a @ seg @ c) n (length a) =
       Inr (dcp_enabled_features x, length a + length seg)"
    by auto
qed

definition base_bytes :: "u32 \<Rightarrow> u32 list \<Rightarrow> bytes" where
  "base_bytes structs values = (if structs AND FEATURE_BASE = 0 then [] else word_bytes values)"

lemma base_stage:
  assumes "length vs = 55" "structs AND FEATURE_BASE = 0 \<Longrightarrow> vs = replicate 55 0" "list_all (\<lambda>v. v \<le> 1) vs"
  shows "length (base_bytes structs vs) = (if structs AND FEATURE_BASE = 0 then 0 else 220)"
    "length a + length (base_bytes structs vs) \<le> n \<Longrightarrow>
     read_base_features structs (a @ base_bytes structs vs @ c) n (length a) =
       Inr (vs, length a + length (base_bytes structs vs))"
    "dcp_enabled_feature_structs x = structs \<Longrightarrow> dcp_enabled_base_features x = vs \<Longrightarrow>
     write_base_features x (a @ replicate (length (base_bytes structs vs)) 0 @ c) (length a) =
       (a @ base_bytes structs vs @ c, length a + length (base_bytes structs vs))"
  using assms word_bytes(1) [of vs] word_bytes(2) [of a vs c] word_bytes(3) [of a vs c]
  by (auto simp: base_bytes_def read_base_features_def decode_vulkan_base_features_def write_base_features_def
      encode_vulkan_base_features_def)

subsection \<open>The contract\<close>

definition packed_ok :: "vulkan_device_create_packed_request \<Rightarrow> bool" where
  "packed_ok x \<longleftrightarrow>
     validate_packed_device_create_counts x \<and> packed_device_feature_groups_match_mask x \<and>
     (dcp_enabled_feature_structs x = 0 \<or> core_features_ok (dcp_enabled_features x)) \<and>
     list_all name_ok (take (unat (dcp_enabled_extension_count x)) (dcp_enabled_extensions x)) \<and>
     unat (packed_fixed_length x) +
       names_size (take (unat (dcp_enabled_extension_count x)) (dcp_enabled_extensions x)) \<le> BVB_PROTOCOL_MAX_PAYLOAD"

definition packed_shape :: "vulkan_device_create_packed_request \<Rightarrow> bool" where
  "packed_shape x \<longleftrightarrow> length (dcp_enabled_base_features x) = BASE_FEATURES \<and>
     length (dcp_queue_create_infos x) = MAX_DEVICE_QUEUE_CREATE_INFOS \<and>
     length (dcp_queue_priority_bits x) = MAX_DEVICE_QUEUE_PRIORITIES \<and>
     length (dcp_enabled_extensions x) = MAX_DEVICE_CREATE_EXTENSIONS \<and>
     list_all (\<lambda>name. length name = ENABLED_EXTENSION_NAME_SIZE) (dcp_enabled_extensions x)"

definition packed_norm :: "vulkan_device_create_packed_request \<Rightarrow> vulkan_device_create_packed_request" where
  "packed_norm x = x
     \<lparr>dcp_queue_create_infos := fill_to MAX_DEVICE_QUEUE_CREATE_INFOS no_queue_info
        (take (unat (dcp_queue_create_info_count x)) (dcp_queue_create_infos x)),
      dcp_queue_priority_bits := fill_to MAX_DEVICE_QUEUE_PRIORITIES 0
        (take (unat (dcp_queue_priority_count x)) (dcp_queue_priority_bits x)),
      dcp_enabled_extensions := fill_to MAX_DEVICE_CREATE_EXTENSIONS (replicate ENABLED_EXTENSION_NAME_SIZE 0)
        (map (clean ENABLED_EXTENSION_NAME_SIZE) (take (unat (dcp_enabled_extension_count x)) (dcp_enabled_extensions x)))\<rparr>"

lemma packed_length:
  assumes "packed_counts_ok x"
  shows "unat (packed_fixed_length x) = 32 + (if dcp_enabled_feature_structs x = 0 then 0 else 100) +
      (if dcp_enabled_feature_structs x AND 128 = 0 then 0 else 220) +
      unat (dcp_queue_create_info_count x) * 16 + unat (dcp_queue_priority_count x) * 4"
    "unat (packed_fixed_length x) \<le> 544"
proof -
  have q: "unat (dcp_queue_create_info_count x) \<le> 8" "unat (dcp_queue_priority_count x) \<le> 16"
    using assms by (auto simp: packed_counts_ok_def not_less word_le_nat_alt)
  define f :: u32 where "f = (if dcp_enabled_feature_structs x = 0 then 0 else 100)"
  define g :: u32 where "g = (if dcp_enabled_feature_structs x AND 128 = 0 then 0 else 220)"
  have fg: "unat f \<le> 100" "unat g \<le> 220" by (simp_all add: f_def g_def)
  have "unat (32 + f + g + dcp_queue_create_info_count x * 16 + dcp_queue_priority_count x * 4) =
      32 + unat f + unat g + unat (dcp_queue_create_info_count x) * 16 + unat (dcp_queue_priority_count x) * 4"
    using q fg by (simp add: unat_word_ariths)
  then show "unat (packed_fixed_length x) = 32 + (if dcp_enabled_feature_structs x = 0 then 0 else 100) +
      (if dcp_enabled_feature_structs x AND 128 = 0 then 0 else 220) +
      unat (dcp_queue_create_info_count x) * 16 + unat (dcp_queue_priority_count x) * 4"
    by (simp add: packed_fixed_length_def f_def g_def)
  then show "unat (packed_fixed_length x) \<le> 544" using q by simp
qed

text \<open>The fixed part.\<close>

definition packed_prefix :: "vulkan_device_create_packed_request \<Rightarrow> bytes \<Rightarrow> bytes" where
  "packed_prefix x b = put_u32 (put_u32 (put_u32 (put_u32 (put_u32 (put_u32 (put_u64 b 0 (dcp_physical_device_id x))
     8 (dcp_flags x)) 12 (dcp_queue_create_info_count x)) 16 (dcp_queue_priority_count x)) 20 (dcp_enabled_layer_count x))
     24 (dcp_enabled_extension_count x)) 28 (dcp_enabled_feature_structs x)"

lemma packed_prefix:
  "length b = 32 \<Longrightarrow> length (packed_prefix x b) = 32" "length b = 32 \<Longrightarrow> packed_prefix x (b @ c) = packed_prefix x b @ c"
  by (simp_all add: packed_prefix_def wire_simps)

lemma packed_prefix_reads:
  assumes "length b = 32"
  shows "get_u64 (packed_prefix x b @ c) 0 = dcp_physical_device_id x" "get_u32 (packed_prefix x b @ c) 8 = dcp_flags x"
    "get_u32 (packed_prefix x b @ c) 12 = dcp_queue_create_info_count x"
    "get_u32 (packed_prefix x b @ c) 16 = dcp_queue_priority_count x"
    "get_u32 (packed_prefix x b @ c) 20 = dcp_enabled_layer_count x"
    "get_u32 (packed_prefix x b @ c) 24 = dcp_enabled_extension_count x"
    "get_u32 (packed_prefix x b @ c) 28 = dcp_enabled_feature_structs x"
  using assms by (simp_all add: get_append packed_prefix(1)) (simp_all add: packed_prefix_def wire_simps)

text \<open>The parts of a message, one after the other.\<close>

lemma packed_layout:
  fixes x :: vulkan_device_create_packed_request
  defines "s \<equiv> dcp_enabled_feature_structs x"
  defines "infos \<equiv> take (unat (dcp_queue_create_info_count x)) (dcp_queue_create_infos x)"
    and "priorities \<equiv> take (unat (dcp_queue_priority_count x)) (dcp_queue_priority_bits x)"
    and "names \<equiv> take (unat (dcp_enabled_extension_count x)) (dcp_enabled_extensions x)"
  defines "P \<equiv> packed_prefix x (replicate 32 0)" and "F \<equiv> core_bytes s (dcp_enabled_features x)"
    and "B \<equiv> base_bytes s (dcp_enabled_base_features x)" and "I \<equiv> info_bytes infos" and "Q \<equiv> word_bytes priorities"
    and "N \<equiv> name_bytes names"
  defines "n \<equiv> packed_fixed_length x + word_of_nat (names_size names)"
  assumes shape: "packed_shape x" and ok: "packed_ok x"
  shows "unat n \<le> 4096" "length (P @ F @ B @ I @ Q @ N) = unat n"
    "encode_vulkan_device_create_packed_request (Some b) (Some x) (Some k) = Inr ((P @ F @ B @ I @ Q @ N) @ drop (unat n) b, n)"
    "decode_vulkan_device_create_packed_request (Some (P @ F @ B @ I @ Q @ N)) n (Some d) = Inr (packed_norm x)"
proof -
  have counts: "packed_counts_ok x" and valid: "validate_packed_device_create_counts x"
    and match: "packed_device_feature_groups_match_mask x"
    and core: "dcp_enabled_feature_structs x = 0 \<or> core_features_ok (dcp_enabled_features x)"
    and fits: "unat (packed_fixed_length x) + names_size names \<le> 4096"
    and nok: "list_all name_ok names"
    using ok by (auto simp: packed_ok_def validate_packed_device_create_counts_def names_def)
  have u: "unat (dcp_queue_create_info_count x) \<le> 8" "unat (dcp_queue_priority_count x) \<le> 16" "unat (dcp_enabled_extension_count x) \<le> 64"
    using counts by (auto simp: packed_counts_ok_def not_less word_le_nat_alt)
  have lists: "length infos = unat (dcp_queue_create_info_count x)" "length priorities = unat (dcp_queue_priority_count x)"
      "length names = unat (dcp_enabled_extension_count x)"
    using shape u by (auto simp: packed_shape_def infos_def priorities_def names_def)
  have names: "list_all (\<lambda>v. length v = 128 \<and> name_ok v) names"
    using shape nok by (auto simp: packed_shape_def names_def list_all_iff dest: in_set_takeD)
  have base55: "length (dcp_enabled_base_features x) = 55" using shape by (simp add: packed_shape_def)
  note F = core_stage [OF core mask_zero [OF match], folded s_def, folded F_def]
  note base = base_stage [OF base55 mask_base [OF match base55]]
  have B: "length B = (if s AND 128 = 0 then 0 else 220)"
      "\<And>a c. write_base_features x (a @ replicate (length B) 0 @ c) (length a) = (a @ B @ c, length a + length B)"
      "\<And>a c n. length a + length B \<le> n \<Longrightarrow>
         read_base_features s (a @ B @ c) n (length a) = Inr (dcp_enabled_base_features x, length a + length B)"
    using base(1) base(2) base(3) [OF _ refl refl] unfolding B_def s_def by simp_all
  have P: "length P = 32" by (simp add: P_def packed_prefix)
  note I = info_bytes [where xs = infos, folded I_def] and Q = word_bytes [where xs = priorities, folded Q_def]
  have N: "length N = names_size names" using length_name_bytes [OF names] by (simp add: N_def)
  have n: "unat n = unat (packed_fixed_length x) + names_size names" unfolding n_def using fits by (rule unat_grow)
  show "unat n \<le> 4096" using n fits by simp
  have parts: "unat n = 32 + length F + length B + length infos * 16 + length priorities * 4 + names_size names"
    using n packed_length(1) [OF counts] F(1) B(1) lists by (simp add: s_def)
  show len: "length (P @ F @ B @ I @ Q @ N) = unat n" using parts P I(1) Q(1) N by simp
  let ?r = "drop (unat n) b"
  have memset: "memset0 b 0 (unat n) = replicate 32 0 @ replicate (length F) 0 @ replicate (length B) 0 @
      replicate (length infos * 16) 0 @ replicate (length priorities * 4) 0 @ replicate (names_size names) 0 @ ?r"
    unfolding memset0_front parts by (simp add: replicate_add)
  have step1: "packed_prefix x (memset0 b 0 (unat n)) = P @ replicate (length F) 0 @ replicate (length B) 0 @
      replicate (length infos * 16) 0 @ replicate (length priorities * 4) 0 @ replicate (names_size names) 0 @ ?r"
    unfolding memset P_def by (simp add: packed_prefix(2))
  note step2 = F(2) [of P, unfolded P]
  note step3 = B(2) [of "P @ F", simplified, unfolded P]
  note step4 = I(2) [of "P @ F @ B", simplified, unfolded P]
  note step5 = Q(2) [of "P @ F @ B @ I", simplified, unfolded P I(1)]
  note step6 = put_packed_names_end [OF names, of "P @ F @ B @ I @ Q", folded N_def, simplified, unfolded P I(1) Q(1)]
  have "packed_names (packed_fixed_length x) names = Inr (map name_size names, n)"
    unfolding n_def using packed_names_ok [OF nok fits] .
  moreover have "word_of_nat (unat n) = n" by simp
  ultimately show "encode_vulkan_device_create_packed_request (Some b) (Some x) (Some k) =
      Inr ((P @ F @ B @ I @ Q @ N) @ drop (unat n) b, n)"
    using valid match step1 step2 step3 step4 step5 step6 parts
    by (simp add: encode_vulkan_device_create_packed_request_def add.assoc
        flip: packed_prefix_def infos_def priorities_def names_def)
  let ?m = "P @ F @ B @ I @ Q @ N"
  have reads: "get_u64 ?m 0 = dcp_physical_device_id x" "get_u32 ?m 8 = dcp_flags x"
      "get_u32 ?m 12 = dcp_queue_create_info_count x" "get_u32 ?m 16 = dcp_queue_priority_count x"
      "get_u32 ?m 20 = dcp_enabled_layer_count x" "get_u32 ?m 24 = dcp_enabled_extension_count x" "get_u32 ?m 28 = s"
    unfolding P_def s_def by (simp_all add: packed_prefix_reads)
  have r1: "read_core_features s ?m (unat n) 32 = Inr (dcp_enabled_features x, 32 + length F)"
    using F(3) [of P "unat n"] P parts by simp
  have r2: "read_base_features s ?m (unat n) (32 + length F) = Inr (dcp_enabled_base_features x, 32 + length F + length B)"
    using B(3) [of "P @ F" "unat n"] P parts by simp
  have r3: "get_each get_queue_info 16 ?m (32 + length F + length B) (length infos) = infos"
    using I(3) [of "P @ F @ B"] P by (simp add: add.assoc)
  have r4: "get_each get_u32 4 ?m (32 + length F + length B + length infos * 16) (length priorities) = priorities"
    using Q(3) [of "P @ F @ B @ I"] P I(1) by (simp add: add.assoc)
  have r5: "get_packed_names ?m (unat n) (32 + length F + length B + length infos * 16 + length priorities * 4) (length names) =
      Inr (map (clean 128) names, unat n)"
    using get_packed_names_end [OF names, of "P @ F @ B @ I @ Q", folded N_def] P I(1) Q(1) parts by (simp add: add.assoc)
  have size: "\<not> n < 32" "\<not> 4096 < n" using n parts fits by (simp_all add: word_less_nat_alt)
  have room: "\<not> length infos * 16 + length priorities * 4 > unat n - (32 + length F + length B)" using parts by simp
  let ?y = "x\<lparr>dcp_queue_create_infos := fill_to 8 no_queue_info infos, dcp_queue_priority_bits := fill_to 16 0 priorities,
    dcp_enabled_extensions := replicate 64 (replicate 128 0)\<rparr>"
  have "take (length infos) (fill_to 8 no_queue_info infos) = infos" by (simp add: fill_to_def)
  then have "validate_packed_device_create_counts ?y"
    using valid lists(1) by (simp add: validate_packed_device_create_counts_def packed_counts_ok_def infos_def)
  moreover have "packed_device_feature_groups_match_mask (x\<lparr>dcp_queue_create_infos := replicate 8 no_queue_info,
      dcp_queue_priority_bits := replicate 16 0, dcp_enabled_extensions := replicate 64 (replicate 128 0)\<rparr>)"
    using match by (subst mask_cong [of _ x]) simp_all
  moreover have "packed_counts_ok (x\<lparr>dcp_enabled_features := no_core_features, dcp_enabled_base_features := replicate 55 0,
      dcp_queue_create_infos := replicate 8 no_queue_info,
      dcp_queue_priority_bits := replicate 16 0, dcp_enabled_extensions := replicate 64 (replicate 128 0)\<rparr>)"
    using counts by (simp add: packed_counts_ok_def)
  ultimately show "decode_vulkan_device_create_packed_request (Some ?m) n (Some d) = Inr (packed_norm x)"
    using size room r1 r2 r3 r4 r5 unfolding lists(1,2,3)
    by (cases x) (simp add: decode_vulkan_device_create_packed_request_def packed_head_def packed_tail_def reads s_def packed_norm_def
        infos_def priorities_def names_def del: append_assoc)
qed

lemma core_rejected:
  assumes "\<not> core_features_ok f"
  shows "encode_vulkan_core_features (Some b) (Some f) = Inl EINVAL"
  using assms core_features_codec.enc_succeeds_iff [of "replicate 100 0" f] by (intro core_features_codec.enc_reject) auto

lemma core_accepted:
  assumes "decode_vulkan_core_features (Some m) (Some d) = Inr f"
  shows "core_features_ok f"
  using core_features_codec.dec_acc [OF assms] core_features_codec.enc_succeeds_iff [of "replicate 100 0" f] by fastforce

lemma encode_packed_rejects:
  assumes "\<not> packed_ok x"
  shows "\<exists>e. encode_vulkan_device_create_packed_request (Some b) (Some x) (Some k) = Inl e"
proof (cases "validate_packed_device_create_counts x \<and> packed_device_feature_groups_match_mask x")
  case False
  then show ?thesis by (auto simp: encode_vulkan_device_create_packed_request_def)
next
  case True
  let ?names = "take (unat (dcp_enabled_extension_count x)) (dcp_enabled_extensions x)"
  have small: "unat (packed_fixed_length x) \<le> 4096"
    using True packed_length(2) [of x] by (simp add: validate_packed_device_create_counts_def)
  show ?thesis
  proof (cases "list_all name_ok ?names \<and> unat (packed_fixed_length x) + names_size ?names \<le> 4096")
    case False
    then obtain e where "packed_names (packed_fixed_length x) ?names = Inl e" using packed_names_fail [of ?names] small by force
    then show ?thesis using True by (simp add: encode_vulkan_device_create_packed_request_def)
  next
    case fits: True
    then have "dcp_enabled_feature_structs x \<noteq> 0 \<and> \<not> core_features_ok (dcp_enabled_features x)"
      using assms True by (auto simp: packed_ok_def)
    then have "write_core_features x q 32 = Inl EINVAL" for q
      by (simp add: write_core_features_def at_offset_def core_rejected)
    then show ?thesis using True fits packed_names_ok by (simp add: encode_vulkan_device_create_packed_request_def Let_def)
  qed
qed

text \<open>What the readers of the feature sets say of the rest of the message.\<close>

lemma read_core_sound:
  assumes "read_core_features structs m n cursor = Inr (f, after)" "cursor \<le> n"
  shows "after = cursor + (if structs = 0 then 0 else 100)" "after \<le> n" "structs = 0 \<or> core_features_ok f"
  using assms core_accepted
  by (auto simp: read_core_features_def split: if_splits sum.splits)

lemma read_base_sound:
  assumes "read_base_features structs m n cursor = Inr (vs, after)" "cursor \<le> n"
  shows "after = cursor + (if structs AND 128 = 0 then 0 else 220)" "after \<le> n" "length vs = 55"
  using assms
  by (auto simp: read_base_features_def decode_vulkan_base_features_def Let_def split: if_splits sum.splits)

lemma read_local:
  assumes "length m = n" "cursor \<le> n"
  shows "read_core_features structs (m @ c) n cursor = read_core_features structs m n cursor"
    "read_base_features structs (m @ c) n cursor = read_base_features structs m n cursor"
proof -
  have "decode_vulkan_core_features (Some (drop cursor m @ c)) (Some no_core_features) =
      decode_vulkan_core_features (Some (drop cursor m)) (Some no_core_features)" if "cursor + 100 \<le> n"
  proof -
    let ?a = "take 100 (drop cursor m)" and ?b = "drop 100 (drop cursor m)"
    have "length ?a = 100" using that assms by simp
    from core_features_codec.dec_frame [OF this, of ?b no_core_features] core_features_codec.dec_frame [OF this, of "?b @ c" no_core_features]
    show ?thesis by (metis append.assoc append_take_drop_id)
  qed
  then show "read_core_features structs (m @ c) n cursor = read_core_features structs m n cursor"
    using assms by (auto simp: read_core_features_def)
  show "read_base_features structs (m @ c) n cursor = read_base_features structs m n cursor"
    using assms by (auto simp: read_base_features_def decode_vulkan_base_features_def get_words_append)
qed

lemma read_errors:
  "read_core_features structs m n cursor = Inl e \<Longrightarrow> e = EPROTO"
  "read_base_features structs m n cursor = Inl e \<Longrightarrow> e = EPROTO"
  by (auto simp: read_core_features_def read_base_features_def split: if_splits sum.splits)

lemma get_infos_append:
  "at + n * 16 \<le> length m \<Longrightarrow> get_each get_queue_info 16 (m @ c) at n = get_each get_queue_info 16 m at n"
  by (rule get_each_append_left [where w = 16]; simp add: get_queue_info_def get_append)

lemma decode_packed_halves:
  "decode_vulkan_device_create_packed_request (Some m) n (Some d) =
     (if n < 32 \<or> n > 4096 then Inl EINVAL
      else if \<not> packed_counts_ok (packed_head m) then Inl EPROTO
      else case read_core_features (get_u32 m 28) m (unat n) 32 of
        Inl e \<Rightarrow> Inl e
      | Inr (features, cursor) \<Rightarrow> case read_base_features (get_u32 m 28) m (unat n) cursor of
          Inl e \<Rightarrow> Inl e
        | Inr (vs, cursor) \<Rightarrow>
            let decoded = (packed_head m)\<lparr>dcp_enabled_features := features, dcp_enabled_base_features := vs\<rparr> in
            if \<not> packed_device_feature_groups_match_mask decoded then Inl EPROTO
            else packed_tail decoded m (unat n) cursor)"
proof -
  have "dcp_enabled_feature_structs (packed_head m) = get_u32 m 28" by (simp add: packed_head_def)
  then show ?thesis unfolding decode_vulkan_device_create_packed_request_def Let_def nonnull2_simps by (simp only:)
qed

lemma packed_tail_sound:
  assumes "packed_tail x m (length m) cursor = Inr y" "cursor \<le> length m"
  shows "\<exists>infos priorities names. y = x\<lparr>dcp_queue_create_infos := fill_to 8 no_queue_info infos,
      dcp_queue_priority_bits := fill_to 16 0 priorities, dcp_enabled_extensions := fill_to 64 (replicate 128 0) names\<rparr> \<and>
    length infos = unat (dcp_queue_create_info_count x) \<and> length priorities = unat (dcp_queue_priority_count x) \<and>
    length names = unat (dcp_enabled_extension_count x) \<and> list_all (\<lambda>v. length v = 128 \<and> name_ok v) names \<and>
    validate_packed_device_create_counts y \<and>
    length m = cursor + length infos * 16 + length priorities * 4 + names_size names"
proof -
  let ?i = "unat (dcp_queue_create_info_count x)" and ?p = "unat (dcp_queue_priority_count x)"
  let ?infos = "get_each get_queue_info 16 m cursor ?i" and ?ps = "get_each get_u32 4 m (cursor + ?i * 16) ?p"
  let ?z = "x\<lparr>dcp_queue_create_infos := fill_to 8 no_queue_info ?infos, dcp_queue_priority_bits := fill_to 16 0 ?ps\<rparr>"
  obtain names where room: "?i * 16 + ?p * 4 \<le> length m - cursor" and valid: "validate_packed_device_create_counts ?z"
    and names: "get_packed_names m (length m) (cursor + ?i * 16 + ?p * 4) (unat (dcp_enabled_extension_count x)) = Inr (names, length m)"
    and y: "y = ?z\<lparr>dcp_enabled_extensions := fill_to 64 (replicate 128 0) names\<rparr>"
    using assms(1) by (auto simp: packed_tail_def Let_def not_less split: if_splits sum.splits)
  have "cursor + ?i * 16 + ?p * 4 \<le> length m" using room assms(2) by linarith
  from get_packed_names_sound [OF names this]
  have n: "length names = unat (dcp_enabled_extension_count x)" "list_all (\<lambda>v. length v = 128 \<and> name_ok v) names"
      "length m = cursor + ?i * 16 + ?p * 4 + names_size names" by auto
  have "validate_packed_device_create_counts y"
    using valid by (simp add: y validate_packed_device_create_counts_def packed_counts_ok_def)
  then show ?thesis using n by (intro exI [of _ ?infos] exI [of _ ?ps] exI [of _ names]) (simp add: y)
qed

lemma packed_tail_local:
  assumes "cursor \<le> length m"
  shows "packed_tail x (m @ c) (length m) cursor = packed_tail x m (length m) cursor"
proof (cases "unat (dcp_queue_create_info_count x) * 16 + unat (dcp_queue_priority_count x) * 4 > length m - cursor")
  case False
  let ?i = "unat (dcp_queue_create_info_count x)" and ?p = "unat (dcp_queue_priority_count x)"
  have fit: "cursor + ?i * 16 + ?p * 4 \<le> length m" using False assms by linarith
  have eqs: "get_each get_queue_info 16 (m @ c) cursor ?i = get_each get_queue_info 16 m cursor ?i"
      "get_each get_u32 4 (m @ c) (cursor + ?i * 16) ?p = get_each get_u32 4 m (cursor + ?i * 16) ?p"
      "\<And>k. get_packed_names (m @ c) (length m) (cursor + ?i * 16 + ?p * 4) k =
         get_packed_names m (length m) (cursor + ?i * 16 + ?p * 4) k"
    using fit by (simp_all add: get_infos_append get_words_append get_packed_names_local)
  show ?thesis unfolding packed_tail_def Let_def eqs ..
qed (simp add: packed_tail_def)

interpretation packed_codec: sized_codec BVB_PROTOCOL_MAX_PAYLOAD packed_shape packed_ok packed_norm
  encode_vulkan_device_create_packed_request decode_vulkan_device_create_packed_request
proof (unfold_locales, goal_cases)
  case (6 x b k)
  then show ?case by (rule encode_packed_rejects)
next
  case (7 x b k d)
  then show ?case using packed_layout [of x] by blast
next
  case (8 m n d y)
  let ?s = "get_u32 m 28"
  obtain f c1 vs c2 where n: "\<not> n < 32" "\<not> 4096 < n" and counts: "packed_counts_ok (packed_head m)"
    and f: "read_core_features ?s m (unat n) 32 = Inr (f, c1)" and vs: "read_base_features ?s m (unat n) c1 = Inr (vs, c2)"
    and match: "packed_device_feature_groups_match_mask ((packed_head m)\<lparr>dcp_enabled_features := f, dcp_enabled_base_features := vs\<rparr>)"
    and tail: "packed_tail ((packed_head m)\<lparr>dcp_enabled_features := f, dcp_enabled_base_features := vs\<rparr>) m (unat n) c2 = Inr y"
    using 8(2) unfolding decode_packed_halves by (auto simp: Let_def split: if_splits sum.splits)
  have n32: "32 \<le> unat n" "unat n \<le> 4096" using n by (simp_all add: word_less_nat_alt)
  note F = read_core_sound [OF f n32(1)]
  note V = read_base_sound [OF vs F(2)]
  obtain infos ps names where y: "y = (packed_head m)\<lparr>dcp_enabled_features := f, dcp_enabled_base_features := vs,
      dcp_queue_create_infos := fill_to 8 no_queue_info infos, dcp_queue_priority_bits := fill_to 16 0 ps,
      dcp_enabled_extensions := fill_to 64 (replicate 128 0) names\<rparr>"
    and lens: "length infos = unat (get_u32 m 12)" "length ps = unat (get_u32 m 16)" "length names = unat (get_u32 m 24)"
    and names: "list_all (\<lambda>v. length v = 128 \<and> name_ok v) names" and valid: "validate_packed_device_create_counts y"
    and total: "unat n = c2 + length infos * 16 + length ps * 4 + names_size names"
    using packed_tail_sound [OF tail [folded 8(1)]] V(2) 8(1) by (auto simp: packed_head_def)
  have u: "unat (get_u32 m 12) \<le> 8" "unat (get_u32 m 16) \<le> 16" "unat (get_u32 m 24) \<le> 64"
    using counts by (auto simp: packed_counts_ok_def packed_head_def not_less word_le_nat_alt)
  have counts_y: "packed_counts_ok y" using valid by (simp add: validate_packed_device_create_counts_def)
  have sel: "dcp_enabled_feature_structs y = ?s" "dcp_enabled_features y = f" "dcp_enabled_base_features y = vs"
      "dcp_queue_create_info_count y = get_u32 m 12" "dcp_queue_priority_count y = get_u32 m 16"
      "dcp_enabled_extension_count y = get_u32 m 24" "dcp_enabled_extensions y = fill_to 64 (replicate 128 0) names"
      "dcp_queue_create_infos y = fill_to 8 no_queue_info infos" "dcp_queue_priority_bits y = fill_to 16 0 ps"
    by (simp_all add: y packed_head_def)
  have taken: "take (unat (get_u32 m 24)) (fill_to 64 (replicate 128 0) names) = names" using lens(3) by (simp add: fill_to_def)
  have "packed_device_feature_groups_match_mask y" using match by (subst mask_cong) (simp_all add: y)
  moreover have "unat (packed_fixed_length y) + names_size names \<le> 4096"
    using packed_length(1) [OF counts_y] total F(1) V(1) lens n32(2) unfolding sel by simp
  moreover have "list_all name_ok names" using names by (simp add: list_all_iff)
  ultimately have "packed_ok y" unfolding packed_ok_def sel taken using valid F(3) by simp
  moreover have "packed_shape y"
    unfolding packed_shape_def sel using V(3) lens u names by (auto simp: fill_to_def list_all_iff)
  ultimately show ?case by simp
next
  case (9 m n d e)
  have "packed_tail x m k c = Inl e \<Longrightarrow> e = EPROTO" for x k c
    using get_packed_names_error by (auto simp: packed_tail_def Let_def split: if_splits sum.splits)
  then show ?case
    using 9 read_errors unfolding decode_packed_halves by (auto simp: Let_def split: if_splits sum.splits)
next
  case (10 m n c d)
  show ?case
  proof (cases "n < 32")
    case False
    then have n: "32 \<le> length m" using 10 by (simp add: word_less_nat_alt)
    have head: "packed_head (m @ c) = packed_head m" "get_u32 (m @ c) 28 = get_u32 m 28"
      using n by (simp_all add: packed_head_def get_append)
    have core: "read_core_features (get_u32 m 28) (m @ c) (unat n) 32 = read_core_features (get_u32 m 28) m (unat n) 32"
      using read_local(1) [OF 10, of 32] n 10 by simp
    show ?thesis
    proof (cases "read_core_features (get_u32 m 28) m (unat n) 32")
      case (Inr fc)
      note read = Inr
      obtain f c1 where fc: "fc = (f, c1)" by fastforce
      have c1: "c1 \<le> unat n" using read_core_sound(2) [OF Inr [unfolded fc]] n 10 by simp
      have base: "read_base_features (get_u32 m 28) (m @ c) (unat n) c1 = read_base_features (get_u32 m 28) m (unat n) c1"
        using read_local(2) [OF 10 c1] .
      show ?thesis
      proof (cases "read_base_features (get_u32 m 28) m (unat n) c1")
        case (Inr vc)
        obtain vs c2 where vc: "vc = (vs, c2)" by fastforce
        have "c2 \<le> length m" using read_base_sound(2) [OF Inr [unfolded vc] c1] 10 by simp
        from packed_tail_local [OF this, unfolded 10] show ?thesis
          by (simp add: decode_packed_halves head core base read fc Inr vc Let_def)
      qed (simp add: decode_packed_halves head core base read fc)
    qed (simp add: decode_packed_halves head core)
  qed (simp add: decode_packed_halves)
qed (simp_all add: encode_vulkan_device_create_packed_request_def decode_vulkan_device_create_packed_request_def)

end
