(* ===== verification/Proto_Sized.thy ===== *)
theory Proto_Sized
  imports Proto_Submission Proto_Caps Proto_Packed
begin

section \<open>The messages of variable length together\<close>

text \<open>The contract of all messages of src/src/protocol.c whose length depends on their contents.\<close>

text \<open>
  C37: every message of variable length (device lists, query results, memory writes and reads,
  presentations, waits for semaphores, submissions in both formats, the extended and the packed
  creation of instances and devices, the capabilities) keeps its contract: what passes the check is
  written at the front of the buffer and nowhere else, and the bytes written are read back as the
  object, with unused array entries and what follows the end of a string cleared; nothing else is
  encoded; a decoder never reads past the length it was given, and what it accepts has passed the check
  and can be sent on.
\<close>

theorem variable_messages:
  "sized_contract BVB_PROTOCOL_MAX_PAYLOAD
     (\<lambda>devices. length (pd_ids devices) = MAX_PHYSICAL_DEVICES) physical_devices_ok
     (\<lambda>devices. devices\<lparr>pd_ids := fill_to MAX_PHYSICAL_DEVICES 0 (take (unat (pd_count devices)) (pd_ids devices))\<rparr>)
     encode_vulkan_physical_devices decode_vulkan_physical_devices \<and>
   sized_contract BVB_PROTOCOL_MAX_PAYLOAD
     (\<lambda>response. length (qprr_data response) = QUERY_POOL_RESULTS_MAX_BYTES)
     (\<lambda>response. qprr_data_size response \<noteq> 0 \<and> qprr_data_size response \<le> QUERY_POOL_RESULTS_MAX_BYTES)
     (\<lambda>response. response\<lparr>qprr_data := fill_to QUERY_POOL_RESULTS_MAX_BYTES 0
        (take (unat (qprr_data_size response)) (qprr_data response))\<rparr>)
     encode_vulkan_query_pool_results_response decode_vulkan_query_pool_results_response \<and>
   sized_contract BVB_PROTOCOL_MAX_PAYLOAD
     (\<lambda>(request, data). unat (mir_length request) \<le> length data) (\<lambda>(request, data). validate_memory_io_request request)
     (\<lambda>(request, data). (request, take (unat (mir_length request)) data))
     (\<lambda>p x. encode_vulkan_memory_write_request p (map_option fst x) (map_option snd x))
     (\<lambda>q n t. decode_vulkan_memory_write_request q n (map_option fst t) (map_option snd t)) \<and>
   sized_contract BVB_PROTOCOL_MAX_PAYLOAD
     (\<lambda>(response, data). unat (mior_length response) \<le> length data)
     (\<lambda>(response, data). mior_length response \<le> BVB_VULKAN_MEMORY_IO_MAX_BYTES \<and>
        (mior_vulkan_result response = 0 \<or> mior_length response = 0))
     (\<lambda>(response, data). (response, take (unat (mior_length response)) data))
     (\<lambda>p x. encode_vulkan_memory_io_response p (map_option fst x) (map_option snd x))
     (\<lambda>q n t. decode_vulkan_memory_io_response q n (map_option fst t) (map_option snd t)) \<and>
   sized_contract SWAPCHAIN_PRESENT_MAX_SIZE
     (\<lambda>request. length (spre_wait_semaphore_ids request) = MAX_PRESENT_WAIT_SEMAPHORES) swapchain_present_request_ok
     (\<lambda>request. request\<lparr>spre_wait_semaphore_ids := fill_to MAX_PRESENT_WAIT_SEMAPHORES 0
        (take (unat (spre_wait_semaphore_count request)) (spre_wait_semaphore_ids request))\<rparr>)
     encode_vulkan_swapchain_present_request decode_vulkan_swapchain_present_request \<and>
   sized_contract SEMAPHORE_WAIT_MAX_SIZE
     (\<lambda>request. length (sewr_semaphores request) = MAX_SEMAPHORES_PER_WAIT) semaphore_wait_request_ok
     (\<lambda>request. request\<lparr>sewr_semaphores := fill_to MAX_SEMAPHORES_PER_WAIT no_wait_record
        (take (unat (sewr_semaphore_count request)) (sewr_semaphores request))\<rparr>)
     encode_vulkan_semaphore_wait_request decode_vulkan_semaphore_wait_request \<and>
   sized_contract 1312 submit_2_shape (submit_2_ok False) submit_2_norm
     encode_vulkan_queue_submit_2_request decode_vulkan_queue_submit_2_request \<and>
   sized_contract 1696 submit_2_shape (submit_2_ok True) submit_2_norm
     encode_vulkan_queue_submit_2_stream_request decode_vulkan_queue_submit_2_stream_request \<and>
   sized_contract BVB_PROTOCOL_MAX_PAYLOAD
     (\<lambda>request. extensions_shape (icer_enabled_extensions request))
     (\<lambda>request. extensions_ok (icr_enabled_extension_count (icer_base request)) (icer_enabled_extensions request))
     (\<lambda>request. request\<lparr>icer_enabled_extensions :=
        clean_extensions (icr_enabled_extension_count (icer_base request)) (icer_enabled_extensions request)\<rparr>)
     encode_vulkan_instance_create_extended_request decode_vulkan_instance_create_extended_request \<and>
   sized_contract BVB_PROTOCOL_MAX_PAYLOAD
     (\<lambda>request. extensions_shape (dcer_enabled_extensions request))
     (\<lambda>request. wire_id_is_type (dcr_physical_device_id (dcer_base request)) 2 \<and>
        extensions_ok (dcr_enabled_extension_count (dcer_base request)) (dcer_enabled_extensions request))
     (\<lambda>request. request\<lparr>dcer_enabled_extensions :=
        clean_extensions (dcr_enabled_extension_count (dcer_base request)) (dcer_enabled_extensions request)\<rparr>)
     encode_vulkan_device_create_extended_request decode_vulkan_device_create_extended_request \<and>
   sized_contract BVB_PROTOCOL_MAX_PAYLOAD packed_shape packed_ok packed_norm
     encode_vulkan_device_create_packed_request decode_vulkan_device_create_packed_request \<and>
   sized_contract BVB_PROTOCOL_MAX_PAYLOAD caps_shape caps_ok caps_norm encode_vulkan_caps decode_vulkan_caps"
proof -
  have plain: "sized_contract 1312 submit_2_shape (submit_2_ok False) submit_2_norm
     encode_vulkan_queue_submit_2_request decode_vulkan_queue_submit_2_request"
    using submit_2_codec.sized_contract [of False]
    by (simp add: encode_vulkan_queue_submit_2_request_def [abs_def] decode_vulkan_queue_submit_2_request_def [abs_def])
  have stream: "sized_contract 1696 submit_2_shape (submit_2_ok True) submit_2_norm
     encode_vulkan_queue_submit_2_stream_request decode_vulkan_queue_submit_2_stream_request"
    using submit_2_codec.sized_contract [of True]
    by (simp add: encode_vulkan_queue_submit_2_stream_request_def [abs_def] decode_vulkan_queue_submit_2_stream_request_def [abs_def])
  show ?thesis
    by (intro conjI physical_devices_codec.sized_contract query_pool_results_codec.sized_contract
        memory_write_codec.sized_contract memory_io_response_codec.sized_contract swapchain_present_codec.sized_contract
        semaphore_wait_codec.sized_contract plain stream instance_extended_codec.sized_contract
        device_extended_codec.sized_contract packed_codec.sized_contract caps_codec.sized_contract)
qed

text \<open>A list of two devices, into a buffer of 4096 bytes.\<close>

theorem variable_messages_witness:
  "\<exists>m n. encode_vulkan_physical_devices (Some (replicate 4096 0xff))
       (Some \<lparr>pd_vulkan_result = 0, pd_count = 2, pd_ids = [0x0200000000000001, 0x0200000000000002, 5, 5, 5, 5, 5, 5]\<rparr>) (Some 0) =
       Inr (m @ drop (unat n) (replicate 4096 0xff), n) \<and>
     decode_vulkan_physical_devices (Some m) n (Some \<lparr>pd_vulkan_result = 0, pd_count = 0, pd_ids = []\<rparr>) =
       Inr \<lparr>pd_vulkan_result = 0, pd_count = 2, pd_ids = [0x0200000000000001, 0x0200000000000002, 0, 0, 0, 0, 0, 0]\<rparr>"
proof -
  let ?x = "\<lparr>pd_vulkan_result = 0, pd_count = 2, pd_ids = [0x0200000000000001, 0x0200000000000002, 5, 5, 5, 5, 5, 5]\<rparr>"
  have "physical_devices_ok ?x" by code_simp
  moreover have "?x\<lparr>pd_ids := fill_to 8 0 (take (unat (pd_count ?x)) (pd_ids ?x))\<rparr> =
      \<lparr>pd_vulkan_result = 0, pd_count = 2, pd_ids = [0x0200000000000001, 0x0200000000000002, 0, 0, 0, 0, 0, 0]\<rparr>"
    by code_simp
  ultimately show ?thesis
    using variable_messages [THEN conjunct1, THEN sized_contract_roundtrip, of ?x "replicate 4096 0xff" 0] by fastforce
qed

end
