(* ===== verification/Wire_Canonical.thy ===== *)
theory Wire_Canonical
  imports Proto_Submission
begin

unbundle bit_operations_syntax

section \<open>Messages with one encoding\<close>

text \<open>
  The decoders of src/src/vulkan_descriptor_wire.c and src/src/vulkan_pipeline_wire.c check what they
  read by encoding it again into a buffer of their own; some compare the result with the bytes they got.
  This theory has the contract of such a pair: besides what \<open>sized_contract\<close> says, a message that is
  accepted is the one encoding of the object it stands for.
\<close>

subsection \<open>Checking by encoding again\<close>

definition recheck ::
  "(bytes option \<Rightarrow> 'a option \<Rightarrow> u32 option \<Rightarrow> (bytes \<times> u32) result) \<Rightarrow> nat \<Rightarrow> 'a \<Rightarrow> bool" where
  "recheck enc cap decoded \<longleftrightarrow>
     (case enc (Some (replicate cap 0)) (Some decoded) (Some 0) of Inl _ \<Rightarrow> False | Inr _ \<Rightarrow> True)"

definition recheck_bytes ::
  "(bytes option \<Rightarrow> 'a option \<Rightarrow> u32 option \<Rightarrow> (bytes \<times> u32) result) \<Rightarrow> nat \<Rightarrow> 'a \<Rightarrow> bytes \<Rightarrow> u32 \<Rightarrow> bool" where
  "recheck_bytes enc cap decoded input input_length \<longleftrightarrow>
     (case enc (Some (replicate cap 0)) (Some decoded) (Some 0) of Inl _ \<Rightarrow> False
      | Inr (validation, validation_length) \<Rightarrow> validation_length = input_length \<and>
          take (unat input_length) validation = take (unat input_length) input)"

lemma recheck_bytes_recheck: "recheck_bytes enc cap x m n \<Longrightarrow> recheck enc cap x"
  by (auto simp: recheck_bytes_def recheck_def split: sum.splits)

subsection \<open>Writing a message over again\<close>

text \<open>Up to an offset the buffer is the message, from there on it is zero.\<close>

definition covers :: "nat \<Rightarrow> bytes \<Rightarrow> bytes \<Rightarrow> bool" where
  "covers i b m \<longleftrightarrow> same_upto i b m \<and> zeros b i (length b)"

lemma covers_start: "n = length m \<Longrightarrow> covers 0 (replicate n 0) m"
  by (simp add: covers_def same_upto_def zeros_def)

lemma covers_end: "covers n b m \<Longrightarrow> n = length m \<Longrightarrow> b = m"
  by (auto simp: covers_def same_upto_def intro: nth_equalityI)

lemma covers_length: "covers i b m \<Longrightarrow> length b = length m"
  by (simp add: covers_def same_upto_def)

text \<open>The bytes of an integer that was read.\<close>

lemma bytes_of_u32:
  fixes a b c d :: u8
  defines "v \<equiv> ucast a OR push_bit 8 (ucast b) OR push_bit 16 (ucast c) OR push_bit 24 (ucast d) :: u32"
  shows "ucast (v AND 0xff) = a" "ucast (drop_bit 8 v AND 0xff) = b" "ucast (drop_bit 16 v AND 0xff) = c"
    "ucast (drop_bit 24 v) = d"
proof -
  have m: "(0xff :: u32) = mask 8" by (simp add: mask_eq_exp_minus_1)
  show "ucast (v AND 0xff) = a" "ucast (drop_bit 8 v AND 0xff) = b" "ucast (drop_bit 16 v AND 0xff) = c"
    "ucast (drop_bit 24 v) = d"
    unfolding v_def m by (rule bit_word_eqI; auto simp: bit_simps dest: bit_imp_le_length)+
qed

lemma halves_of_u64:
  fixes a b :: u32
  defines "v \<equiv> ucast a OR push_bit 32 (ucast b) :: u64"
  shows "ucast v = a" "ucast (drop_bit 32 v) = b"
  unfolding v_def by (rule bit_word_eqI; auto simp: bit_simps dest: bit_imp_le_length)+

lemma covers_put_u32:
  assumes "covers i b m" "i + 4 \<le> length m" "v = get_u32 m i" "j = i + 4"
  shows "covers j (put_u32 b i v) m"
proof -
  have len: "length b = length m" using assms(1) by (rule covers_length)
  have "put_u32 b i v ! k = m ! k" if "k < i + 4" for k
  proof (cases "k < i")
    case True
    then show ?thesis using assms(1) by (simp add: nth_put_u32 covers_def same_upto_def)
  next
    case False
    with that have "k = i \<or> k = i + 1 \<or> k = i + 2 \<or> k = i + 3" by arith
    then show ?thesis
      using assms(2) len unfolding assms(3) put_u32_def get_u32_def bytes_of_u32 by (auto simp: nth_list_update)
  qed
  moreover have "zeros (put_u32 b i v) (i + 4) (length b)"
    using assms(1) by (auto simp: covers_def zeros_def nth_put_u32)
  ultimately show ?thesis using assms(4) len by (simp add: covers_def same_upto_def)
qed

lemma covers_put_u64:
  assumes "covers i b m" "i + 8 \<le> length m" "v = get_u64 m i" "j = i + 8"
  shows "covers j (put_u64 b i v) m"
  unfolding put_u64_def assms(3) get_u64_def halves_of_u64
  by (rule covers_put_u32 covers_put_u32 [OF assms(1)] refl | use assms(2,4) in simp)+

text \<open>A word that is not written, and has to be zero in the message.\<close>

lemma zero_u32: 
  assumes "get_u32 m i = 0" "i \<le> k" "k < i + 4"
  shows "m ! k = 0"
proof -
  have "m ! i = 0" "m ! (i + 1) = 0" "m ! (i + 2) = 0" "m ! (i + 3) = 0"
    using bytes_of_u32 [of "m ! i" "m ! (i + 1)" "m ! (i + 2)" "m ! (i + 3)"]
    unfolding assms(1) [unfolded get_u32_def] by simp_all
  moreover have "k = i \<or> k = i + 1 \<or> k = i + 2 \<or> k = i + 3" using assms(2,3) by arith
  ultimately show ?thesis by auto
qed

lemma covers_skip:
  assumes "covers i b m" "i + 4 \<le> length m" "get_u32 m i = 0" "j = i + 4"
  shows "covers j b m"
proof -
  have "b ! k = m ! k" if "k < i + 4" for k
  proof (cases "k < i")
    case False
    then have "b ! k = 0" using assms(1,2) that by (auto simp: covers_def zeros_def same_upto_def)
    then show ?thesis using zero_u32 [OF assms(3)] False that by simp
  qed (use assms(1) in \<open>simp add: covers_def same_upto_def\<close>)
  then show ?thesis using assms(1,4) by (auto simp: covers_def same_upto_def zeros_def)
qed

lemma covers_put_each:
  assumes "\<And>c k. k < n \<Longrightarrow> covers (at + k * s) c m \<Longrightarrow>
      covers (at + k * s + s) (put c (at + k * s) (get m (at + k * s))) m"
    and "covers at b m" "xs = get_each get s m at n" "j = at + n * s"
  shows "covers j (put_each put s b at xs) m"
  unfolding assms(3,4) using assms(1,2)
proof (induction n arbitrary: at b)
  case (Suc n)
  have "covers (at + s + n * s) (put_each put s (put b at (get m at)) (at + s) (get_each get s m (at + s) n)) m"
  proof (rule Suc.IH)
    fix c k assume "k < n" "covers (at + s + k * s) c m"
    then show "covers (at + s + k * s + s) (put c (at + s + k * s) (get m (at + s + k * s))) m"
      using Suc.prems(1) [of "Suc k" c] by (simp add: algebra_simps)
  next
    show "covers (at + s) (put b at (get m at)) m" using Suc.prems(1) [of 0 b] Suc.prems(2) by simp
  qed
  then show ?case by (simp add: get_each_Suc algebra_simps)
qed simp

lemma covers_memcpy:
  assumes "covers i b m" "i + k \<le> length m" "k \<le> length src" "take k src = take k (drop i m)" "j = i + k"
  shows "covers j (memcpy b i src k) m"
proof -
  have len: "length b = length m" using assms(1) by (rule covers_length)
  have "memcpy b i src k ! l = m ! l" if "l < i + k" for l
  proof (cases "l < i")
    case True
    then show ?thesis using assms(1-3) len by (simp add: nth_memcpy_out covers_def same_upto_def)
  next
    case False
    then have "memcpy b i src k ! l = take k src ! (l - i)"
      using assms(2,3) len that by (auto simp: memcpy_def nth_append)
    then show ?thesis using assms(2,4) False that by simp
  qed
  moreover have "memcpy b i src k ! l = 0" if "i + k \<le> l" "l < length b" for l
    using assms(1-3) len that nth_memcpy_out [of l i k b src] by (simp add: covers_def zeros_def)
  ultimately show ?thesis using assms(2,3,5) len by (simp add: covers_def same_upto_def zeros_def)
qed

lemma same_upto_memcpy:
  assumes "same_upto i a b" "i + k \<le> length a" "j = i + k" "k \<le> length src"
  shows "same_upto j (memcpy a i src k) (memcpy b i src k)"
  using assms by (auto simp: same_upto_def memcpy_def nth_append)

subsection \<open>Entries of an array\<close>

text \<open>
  A record written at a fixed stride. \<open>gap\<close> says of a message that the bytes between the end of the
  record and the next one are what the writer leaves there.
\<close>

locale entry_field = wire_field width put get "\<lambda>_. True"
  for width :: nat and put :: "bytes \<Rightarrow> nat \<Rightarrow> 'a \<Rightarrow> bytes" and get :: "bytes \<Rightarrow> nat \<Rightarrow> 'a" +
  fixes stride :: nat and gap :: "bytes \<Rightarrow> nat \<Rightarrow> bool"
  assumes fits: "width \<le> stride"
    and put_front: "i + width \<le> length a \<Longrightarrow> put (a @ c) i v = put a i v @ c"
    and get_front: "i + width \<le> length a \<Longrightarrow> get (a @ c) i = get a i"
    and put_covers: "covers i b m \<Longrightarrow> i + stride \<le> length m \<Longrightarrow> gap m i \<Longrightarrow>
      covers (i + stride) (put b i (get m i)) m"
begin

lemma any: "list_all (\<lambda>_. True) (xs :: 'b list)"
  by (simp add: list_all_iff)

lemma each_length: "at + length xs * stride \<le> length b \<Longrightarrow> length (put_each put stride b at xs) = length b"
  by (rule put_each_length [OF fits any])

lemma each_put_front:
  "at + length xs * stride \<le> length a \<Longrightarrow> put_each put stride (a @ c) at xs = put_each put stride a at xs @ c"
proof (induction xs arbitrary: a at)
  case (Cons x xs)
  have "put (a @ c) at x = put a at x @ c" using Cons.prems fits by (intro put_front) simp
  moreover have "length (put a at x) = length a" using Cons.prems fits by (intro put_length) auto
  ultimately show ?case using Cons by (simp add: algebra_simps)
qed simp

lemma each_get_front:
  "at + n * stride \<le> length a \<Longrightarrow> get_each get stride (a @ c) at n = get_each get stride a at n"
  by (rule get_each_append_left [where w = width]) (simp_all add: get_front fits)

lemma each_back:
  "at + length xs * stride \<le> length b \<Longrightarrow> n = length xs \<Longrightarrow>
     get_each get stride (put_each put stride b at xs) at n = xs"
  using get_put_each [OF fits any] by simp

lemma each_beside:
  "at + length xs * stride \<le> length b \<Longrightarrow> j + 4 \<le> at \<or> at + length xs * stride \<le> j \<and> j + 4 \<le> length b \<Longrightarrow>
     get_u32 (put_each put stride b at xs) j = get_u32 b j"
  "at + length xs * stride \<le> length b \<Longrightarrow> j + 8 \<le> at \<or> at + length xs * stride \<le> j \<and> j + 8 \<le> length b \<Longrightarrow>
     get_u64 (put_each put stride b at xs) j = get_u64 b j"
  by (rule read_other_array [OF reads_u32 fits any] read_other_array [OF reads_u64 fits any]; auto)+

lemma each_other:
  "reads w g \<Longrightarrow> w \<le> s \<Longrightarrow> at + length xs * stride \<le> length b \<Longrightarrow>
     j + n * s \<le> at \<or> at + length xs * stride \<le> j \<and> j + n * s \<le> length b \<Longrightarrow>
     get_each g s (put_each put stride b at xs) j n = get_each g s b j n"
  by (rule read_each_other_array [OF _ fits any]) auto

lemmas each_simps = each_length each_put_front each_get_front each_back each_beside

lemma each_covers:
  assumes "covers at b m" "at + n * stride \<le> length m" "\<And>k. k < n \<Longrightarrow> gap m (at + k * stride)"
    "xs = get_each get stride m at n" "j = at + n * stride"
  shows "covers j (put_each put stride b at xs) m"
proof (rule covers_put_each [OF _ assms(1,4,5)])
  fix c k assume k: "k < n" "covers (at + k * stride) c m"
  have "at + 0 + k * stride + stride \<le> at + n * stride" using k(1) by (intro entry_end) auto
  then show "covers (at + k * stride + stride) (put c (at + k * stride) (get m (at + k * stride))) m"
    using k assms(2,3) by (intro put_covers) auto
qed

end

interpretation u32_entry: entry_field 4 put_u32 get_u32 4 "\<lambda>_ _. True"
  by unfold_locales (simp_all add: wire_simps covers_put_u32)

interpretation u64_entry: entry_field 8 put_u64 get_u64 8 "\<lambda>_ _. True"
  by unfold_locales (simp_all add: wire_simps covers_put_u64)

text \<open>The two kinds of error of the guards before the object is read.\<close>

definition refusal :: "bool \<Rightarrow> bool \<Rightarrow> errno option" where
  "refusal inval proto = (if inval then Some EINVAL else if proto then Some EPROTO else None)"

lemma refusal_None: "refusal inval proto = None \<longleftrightarrow> \<not> inval \<and> \<not> proto"
  by (simp add: refusal_def)

lemma refusal_Some: "refusal inval proto = Some e \<Longrightarrow> e \<in> {EINVAL, EPROTO}"
  by (auto simp: refusal_def split: if_splits)

lemma refusal_case:
  "(case refusal inval proto of Some e \<Rightarrow> Inl e | None \<Rightarrow> r) =
     (if inval then Inl EINVAL else if proto then Inl EPROTO else r)"
  by (simp add: refusal_def)

lemmas message_simps = refusal_def word_le_nat_alt word_less_nat_alt not_less not_le take_fill_to wire_simps

subsection \<open>The contract\<close>

definition canonical_contract ::
  "nat \<Rightarrow> ('a \<Rightarrow> bool) \<Rightarrow> ('a \<Rightarrow> bool) \<Rightarrow> ('a \<Rightarrow> 'a) \<Rightarrow>
   (bytes option \<Rightarrow> 'a option \<Rightarrow> u32 option \<Rightarrow> (bytes \<times> u32) result) \<Rightarrow>
   (bytes option \<Rightarrow> u32 \<Rightarrow> 'a option \<Rightarrow> 'a result) \<Rightarrow> bool" where
  "canonical_contract cap shape okay norm enc dec \<longleftrightarrow>
     sized_contract cap shape okay norm enc dec \<and>
     (\<forall>m n d x b k. length m = unat n \<longrightarrow> dec (Some m) n (Some d) = Inr x \<longrightarrow> length b = cap \<longrightarrow>
        enc (Some b) (Some x) (Some k) = Inr (m @ drop (unat n) b, n))"

text \<open>
  What the encoder writes into a cleared buffer (\<open>fill\<close>) and how long it is (\<open>len\<close>), the guards of the
  decoder before it has the object (\<open>early\<close>) and the object it reads (\<open>view\<close>). The laws are those of the
  loops and guards of one message; the contract follows from them.
\<close>

locale rechecked =
  fixes strict :: bool
    and cap :: nat
    and shape :: "'a \<Rightarrow> bool"
    and okay :: "'a \<Rightarrow> bool"
    and norm :: "'a \<Rightarrow> 'a"
    and len :: "'a \<Rightarrow> u32"
    and fill :: "bytes \<Rightarrow> 'a \<Rightarrow> bytes"
    and early :: "bytes \<Rightarrow> u32 \<Rightarrow> errno option"
    and view :: "bytes \<Rightarrow> 'a"
    and enc :: "bytes option \<Rightarrow> 'a option \<Rightarrow> u32 option \<Rightarrow> (bytes \<times> u32) result"
    and dec :: "bytes option \<Rightarrow> u32 \<Rightarrow> 'a option \<Rightarrow> 'a result"
  assumes enc_null: "enc None r l = Inl EINVAL" "enc p None l = Inl EINVAL" "enc p r None = Inl EINVAL"
    and dec_null: "dec None n t = Inl EINVAL" "dec q n None = Inl EINVAL"
    and enc_reject: "\<not> okay x \<Longrightarrow> enc (Some b) (Some x) (Some k) = Inl EINVAL"
    and enc_eq: "shape x \<Longrightarrow> okay x \<Longrightarrow> length b = cap \<Longrightarrow>
      enc (Some b) (Some x) (Some k) = Inr (fill (memset0 b 0 (unat (len x))) x, len x)"
    and dec_eq: "dec (Some m) n (Some d) =
      (case early m n of Some e \<Rightarrow> Inl e
       | None \<Rightarrow> if recheck enc cap (view m) \<and> (strict \<longrightarrow> recheck_bytes enc cap (view m) m n)
           then Inr (view m) else Inl EPROTO)"
    and early_error: "early m n = Some e \<Longrightarrow> e \<in> {EINVAL, EPROTO}"
    and early_local: "length m = unat n \<Longrightarrow> early (m @ c) n = early m n"
    and view_local: "length m = unat n \<Longrightarrow> early m n = None \<Longrightarrow> view (m @ c) = view m"
    and view_shape: "early m n = None \<Longrightarrow> shape (view m)"
    and len_bound: "okay x \<Longrightarrow> unat (len x) \<le> cap"
    and fill_front: "shape x \<Longrightarrow> okay x \<Longrightarrow> length a = unat (len x) \<Longrightarrow> fill (a @ c) x = fill a x @ c"
    and fill_length: "shape x \<Longrightarrow> okay x \<Longrightarrow> length a = unat (len x) \<Longrightarrow> length (fill a x) = length a"
    and early_fill: "shape x \<Longrightarrow> okay x \<Longrightarrow> early (fill (replicate (unat (len x)) 0) x) (len x) = None"
    and view_fill: "shape x \<Longrightarrow> okay x \<Longrightarrow> view (fill (replicate (unat (len x)) 0) x) = norm x"
    and okay_norm: "shape x \<Longrightarrow> okay x \<Longrightarrow> okay (norm x)"
    and fill_view: "length m = unat n \<Longrightarrow> early m n = None \<Longrightarrow> okay (view m) \<Longrightarrow>
      len (view m) = n \<and> covers (unat n) (fill (replicate (unat n) 0) (view m)) m"
begin

lemma recheck_iff: "shape x \<Longrightarrow> recheck enc cap x \<longleftrightarrow> okay x"
  by (cases "okay x") (simp_all add: recheck_def enc_eq enc_reject)

lemma enc_okay:
  assumes "shape x" "okay x" "length b = cap"
  shows "enc (Some b) (Some x) (Some k) =
    Inr (fill (replicate (unat (len x)) 0) x @ drop (unat (len x)) b, len x)"
  using fill_front [OF assms(1,2), of "replicate (unat (len x)) 0"] by (simp add: enc_eq assms memset0_front)

text \<open>An accepted message is what its object is encoded to.\<close>

lemma view_encodes:
  assumes "length m = unat n" "early m n = None" "okay (view m)" "length b = cap"
  shows "enc (Some b) (Some (view m)) (Some k) = Inr (m @ drop (unat n) b, n)"
  using fill_view [OF assms(1-3)] enc_okay [OF view_shape [OF assms(2)] assms(3,4)] covers_end [of "unat n"] assms(1)
  by auto

text \<open>So comparing the bytes refuses nothing more.\<close>

lemma dec_okay_iff:
  assumes "unat n \<le> length m"
  shows "dec (Some m) n (Some d) =
    (case early m n of Some e \<Rightarrow> Inl e | None \<Rightarrow> if okay (view m) then Inr (view m) else Inl EPROTO)"
proof -
  let ?m = "take (unat n) m" and ?c = "drop (unat n) m"
  have l: "length ?m = unat n" using assms by simp
  have e: "early m n = early ?m n" using early_local [OF l, of ?c] by simp
  have "recheck_bytes enc cap (view m) m n" if "early m n = None" "okay (view m)"
  proof -
    have v: "view m = view ?m" using view_local [OF l, of ?c] that(1) e by simp
    have "enc (Some (replicate cap 0)) (Some (view m)) (Some 0) = Inr (?m @ drop (unat n) (replicate cap 0), n)"
      using view_encodes [OF l] that e v by simp
    then show ?thesis using l by (simp add: recheck_bytes_def)
  qed
  then show ?thesis using view_shape [of m n] by (auto simp: dec_eq recheck_iff split: option.splits)
qed

sublocale sized: sized_codec cap shape okay norm enc dec
proof (unfold_locales, goal_cases)
  case (7 x b k d)
  let ?m = "fill (replicate (unat (len x)) 0) x"
  have l: "length ?m = unat (len x)" using fill_length [OF 7(1,2), of "replicate (unat (len x)) 0"] by simp
  have "dec (Some ?m) (len x) (Some d) = Inr (norm x)"
    using early_fill [OF 7(1,2)] view_fill [OF 7(1,2)] okay_norm [OF 7(1,2)] l by (simp add: dec_okay_iff)
  then show ?case using enc_okay [OF 7(1-3)] l len_bound [OF 7(2)] by blast
next
  case (8 m n d x)
  then show ?case using view_shape [of m n] by (auto simp: dec_okay_iff split: option.splits if_splits)
next
  case (9 m n d e)
  then show ?case using early_error [of m n] by (auto simp: dec_eq split: option.splits if_splits)
next
  case (10 m n c d)
  then show ?case using early_local [of m n c] view_local [of m n c] by (auto simp: dec_okay_iff split: option.splits)
qed (simp_all add: enc_null dec_null enc_reject)

lemma canonical_contract: "canonical_contract cap shape okay norm enc dec"
  unfolding canonical_contract_def
  using sized.sized_contract view_encodes by (auto simp: dec_okay_iff split: option.splits if_splits)

end

lemma canonical_contract_roundtrip:
  "canonical_contract cap shape okay norm enc dec \<Longrightarrow> shape x \<Longrightarrow> okay x \<Longrightarrow> length b = cap \<Longrightarrow>
     \<exists>m n. enc (Some b) (Some x) (Some l) = Inr (m @ drop (unat n) b, n) \<and> dec (Some m) n (Some d) = Inr (norm x)"
  unfolding canonical_contract_def using sized_contract_roundtrip [of cap shape okay norm enc dec x b l d] by blast

end
