(* ===== verification/Descriptor_Wire.thy ===== *)
theory Descriptor_Wire
  imports Wire_Canonical
begin

unbundle bit_operations_syntax

section \<open>Descriptor messages\<close>

text \<open>
  The messages of src/src/vulkan_descriptor_wire.c that create descriptor set layouts and pools and
  allocate descriptor sets. Its own copy of the identifier check, \<^verbatim>\<open>wire_id_is\<close>, is the one of
  src/src/protocol.c.
\<close>

definition wire_id_is :: "u64 \<Rightarrow> u8 \<Rightarrow> bool" where
  "wire_id_is value type \<longleftrightarrow>
     (ucast (drop_bit 56 value) :: u8) = type \<and> value AND 0x00ffffffffffffff \<noteq> 0"

lemma wire_id_is_same: "wire_id_is = wire_id_is_type"
  by (intro ext) (simp add: wire_id_is_def wire_id_is_type_def)

text \<open>The inner loop over the entries before the one at hand, which must all have another key.\<close>

definition no_earlier :: "'k list \<Rightarrow> nat \<Rightarrow> bool" where
  "no_earlier keys index \<longleftrightarrow> list_all (\<lambda>prior. keys ! prior \<noteq> keys ! index) [0..<index]"

lemma no_earlier_distinct: "list_all (no_earlier keys) [0..<length keys] \<longleftrightarrow> distinct keys"
  unfolding list_all_iff no_earlier_def distinct_conv_nth by (auto; metis atLeastLessThan_iff le0 linorder_neqE_nat)

subsection \<open>Creating a descriptor set layout\<close>

abbreviation (input) MAX_DESCRIPTOR_LAYOUT_BINDINGS :: "'a::numeral" where "MAX_DESCRIPTOR_LAYOUT_BINDINGS \<equiv> 32"

record vulkan_descriptor_layout_binding =
  dlb_binding :: u32
  dlb_descriptor_type :: u32
  dlb_descriptor_count :: u32
  dlb_stage_flags :: u32
  dlb_binding_flags :: u32

record vulkan_descriptor_set_layout_create_request =
  dslc_device_id :: u64
  dslc_flags :: u32
  dslc_binding_count :: u32
  dslc_has_binding_flags :: u32
  dslc_bindings :: "vulkan_descriptor_layout_binding list"

definition put_layout_binding :: "bytes \<Rightarrow> nat \<Rightarrow> vulkan_descriptor_layout_binding \<Rightarrow> bytes" where
  "put_layout_binding output cursor binding =
     (let output = put_u32 output cursor (dlb_binding binding) in
      let output = put_u32 output (cursor + 4) (dlb_descriptor_type binding) in
      let output = put_u32 output (cursor + 8) (dlb_descriptor_count binding) in
      let output = put_u32 output (cursor + 12) (dlb_stage_flags binding) in
      put_u32 output (cursor + 16) (dlb_binding_flags binding))"

definition get_layout_binding :: "bytes \<Rightarrow> nat \<Rightarrow> vulkan_descriptor_layout_binding" where
  "get_layout_binding input cursor =
     \<lparr>dlb_binding = get_u32 input cursor, dlb_descriptor_type = get_u32 input (cursor + 4),
      dlb_descriptor_count = get_u32 input (cursor + 8), dlb_stage_flags = get_u32 input (cursor + 12),
      dlb_binding_flags = get_u32 input (cursor + 16)\<rparr>"

definition no_layout_binding :: vulkan_descriptor_layout_binding where
  "no_layout_binding = \<lparr>dlb_binding = 0, dlb_descriptor_type = 0, dlb_descriptor_count = 0, dlb_stage_flags = 0,
     dlb_binding_flags = 0\<rparr>"

text \<open>The checks of the loop over the bindings.\<close>

definition layout_bindings_ok :: "u32 \<Rightarrow> vulkan_descriptor_layout_binding list \<Rightarrow> bool" where
  "layout_bindings_ok has_binding_flags bindings \<longleftrightarrow>
     list_all (\<lambda>index.
       \<not> (dlb_descriptor_count (bindings ! index) = 0 \<or> dlb_stage_flags (bindings ! index) = 0 \<or>
          has_binding_flags = 0 \<and> dlb_binding_flags (bindings ! index) \<noteq> 0) \<and>
       no_earlier (map dlb_binding bindings) index) [0..<length bindings]"

definition encode_vulkan_descriptor_set_layout_create_request ::
  "bytes option \<Rightarrow> vulkan_descriptor_set_layout_create_request option \<Rightarrow> u32 option \<Rightarrow> (bytes \<times> u32) result" where
  "encode_vulkan_descriptor_set_layout_create_request output request output_length =
     nonnull3 output request output_length (\<lambda>output request _.
     if \<not> wire_id_is (dslc_device_id request) BVB_OBJECT_DEVICE \<or>
        dslc_binding_count request > MAX_DESCRIPTOR_LAYOUT_BINDINGS \<or> dslc_has_binding_flags request > 1 then Inl EINVAL
     else
     let len = 24 + dslc_binding_count request * 20;
         bindings = take (unat (dslc_binding_count request)) (dslc_bindings request) in
     let output = memset0 output 0 (unat len) in
     let output = put_u64 output 0 (dslc_device_id request) in
     let output = put_u32 output 8 (dslc_flags request) in
     let output = put_u32 output 12 (dslc_binding_count request) in
     let output = put_u32 output 16 (dslc_has_binding_flags request) in
     if \<not> layout_bindings_ok (dslc_has_binding_flags request) bindings then Inl EINVAL
     else Inr (put_each put_layout_binding 20 output 24 bindings, len))"

definition view_descriptor_set_layout_create :: "bytes \<Rightarrow> vulkan_descriptor_set_layout_create_request" where
  "view_descriptor_set_layout_create input =
     \<lparr>dslc_device_id = get_u64 input 0, dslc_flags = get_u32 input 8, dslc_binding_count = get_u32 input 12,
      dslc_has_binding_flags = get_u32 input 16,
      dslc_bindings = fill_to MAX_DESCRIPTOR_LAYOUT_BINDINGS no_layout_binding
        (get_each get_layout_binding 20 input 24 (unat (get_u32 input 12)))\<rparr>"

definition decode_vulkan_descriptor_set_layout_create_request ::
  "bytes option \<Rightarrow> u32 \<Rightarrow> vulkan_descriptor_set_layout_create_request option \<Rightarrow>
   vulkan_descriptor_set_layout_create_request result" where
  "decode_vulkan_descriptor_set_layout_create_request input input_length request = nonnull2 input request (\<lambda>input _.
     if input_length < 24 \<or> get_u32 input 20 \<noteq> 0 then Inl EINVAL
     else if get_u32 input 12 > MAX_DESCRIPTOR_LAYOUT_BINDINGS \<or> input_length \<noteq> 24 + get_u32 input 12 * 20 then Inl EPROTO
     else
     let decoded = view_descriptor_set_layout_create input in
     if \<not> recheck encode_vulkan_descriptor_set_layout_create_request BVB_PROTOCOL_MAX_PAYLOAD decoded then Inl EPROTO
     else Inr decoded)"

definition layout_create_ok :: "vulkan_descriptor_set_layout_create_request \<Rightarrow> bool" where
  "layout_create_ok request \<longleftrightarrow>
     wire_id_is (dslc_device_id request) BVB_OBJECT_DEVICE \<and>
     dslc_binding_count request \<le> MAX_DESCRIPTOR_LAYOUT_BINDINGS \<and> dslc_has_binding_flags request \<le> 1 \<and>
     layout_bindings_ok (dslc_has_binding_flags request)
       (take (unat (dslc_binding_count request)) (dslc_bindings request))"

interpretation layout_binding: entry_field 20 put_layout_binding get_layout_binding 20 "\<lambda>_ _. True"
proof (unfold_locales, goal_cases)
  case (4 i b c)
  then have "agree i 20 b c" by (auto simp: agree_def)
  then show ?case by (simp add: get_layout_binding_def agree_reads agree_reads_0)
next
  case (8 i b m)
  then show ?case
    unfolding put_layout_binding_def Let_def get_layout_binding_def
    by (auto intro!: covers_put_u32)
qed (auto simp: put_layout_binding_def get_layout_binding_def Let_def wire_simps nth_put)

lemma layout_length: "c \<le> 32 \<Longrightarrow> unat (24 + c * 20 :: u32) = 24 + unat c * 20"
  using unat_length [of c 32 24 20] by (simp add: word_le_nat_alt)

interpretation layout_create: rechecked False BVB_PROTOCOL_MAX_PAYLOAD
  "\<lambda>request. length (dslc_bindings request) = MAX_DESCRIPTOR_LAYOUT_BINDINGS" layout_create_ok
  "\<lambda>request. request\<lparr>dslc_bindings := fill_to MAX_DESCRIPTOR_LAYOUT_BINDINGS no_layout_binding
     (take (unat (dslc_binding_count request)) (dslc_bindings request))\<rparr>"
  "\<lambda>request. 24 + dslc_binding_count request * 20"
  "\<lambda>output request. put_each put_layout_binding 20
     (put_u32 (put_u32 (put_u32 (put_u64 output 0 (dslc_device_id request)) 8 (dslc_flags request))
        12 (dslc_binding_count request)) 16 (dslc_has_binding_flags request))
     24 (take (unat (dslc_binding_count request)) (dslc_bindings request))"
  "\<lambda>m n. refusal (n < 24 \<or> get_u32 m 20 \<noteq> 0)
     (get_u32 m 12 > MAX_DESCRIPTOR_LAYOUT_BINDINGS \<or> n \<noteq> 24 + get_u32 m 12 * 20)"
  view_descriptor_set_layout_create
  encode_vulkan_descriptor_set_layout_create_request decode_vulkan_descriptor_set_layout_create_request
proof (unfold_locales, goal_cases)
  case (8 m n d)
  then show ?case by (simp add: decode_vulkan_descriptor_set_layout_create_request_def Let_def refusal_case)
next
  case (19 m n)
  let ?c = "unat (get_u32 m 12)"
  have n: "unat n = 24 + ?c * 20" "?c \<le> 32" "get_u32 m 20 = 0" "24 + get_u32 m 12 * 20 = n"
    using 19(2) by (auto simp: refusal_None layout_length not_less word_le_nat_alt)
  show ?case
    by (rule conjI [OF _ layout_binding.each_covers [where n = ?c, OF covers_skip [where i = 20]]], goal_cases,
        simp add: n(4) view_descriptor_set_layout_create_def,
        (rule covers_put_u32)+, rule covers_put_u64, rule covers_start,
        use 19 n in \<open>simp_all add: view_descriptor_set_layout_create_def take_fill_to\<close>)
qed (auto simp: encode_vulkan_descriptor_set_layout_create_request_def
    decode_vulkan_descriptor_set_layout_create_request_def view_descriptor_set_layout_create_def
    layout_create_ok_def layout_length layout_binding.each_simps message_simps split: if_splits)


subsection \<open>Creating a descriptor pool\<close>

abbreviation (input) MAX_DESCRIPTOR_POOL_SIZES :: "'a::numeral" where "MAX_DESCRIPTOR_POOL_SIZES \<equiv> 16"

record vulkan_descriptor_pool_size =
  dps_descriptor_type :: u32
  dps_descriptor_count :: u32

record vulkan_descriptor_pool_create_request =
  dpc_device_id :: u64
  dpc_flags :: u32
  dpc_max_sets :: u32
  dpc_pool_size_count :: u32
  dpc_pool_sizes :: "vulkan_descriptor_pool_size list"

definition put_pool_size :: "bytes \<Rightarrow> nat \<Rightarrow> vulkan_descriptor_pool_size \<Rightarrow> bytes" where
  "put_pool_size output cursor pool_size =
     put_u32 (put_u32 output cursor (dps_descriptor_type pool_size)) (cursor + 4) (dps_descriptor_count pool_size)"

definition get_pool_size :: "bytes \<Rightarrow> nat \<Rightarrow> vulkan_descriptor_pool_size" where
  "get_pool_size input cursor =
     \<lparr>dps_descriptor_type = get_u32 input cursor, dps_descriptor_count = get_u32 input (cursor + 4)\<rparr>"

definition no_pool_size :: vulkan_descriptor_pool_size where
  "no_pool_size = \<lparr>dps_descriptor_type = 0, dps_descriptor_count = 0\<rparr>"

definition pool_sizes_ok :: "vulkan_descriptor_pool_size list \<Rightarrow> bool" where
  "pool_sizes_ok pool_sizes \<longleftrightarrow>
     list_all (\<lambda>index. dps_descriptor_count (pool_sizes ! index) \<noteq> 0 \<and>
       no_earlier (map dps_descriptor_type pool_sizes) index) [0..<length pool_sizes]"

definition encode_vulkan_descriptor_pool_create_request ::
  "bytes option \<Rightarrow> vulkan_descriptor_pool_create_request option \<Rightarrow> u32 option \<Rightarrow> (bytes \<times> u32) result" where
  "encode_vulkan_descriptor_pool_create_request output request output_length =
     nonnull3 output request output_length (\<lambda>output request _.
     if \<not> wire_id_is (dpc_device_id request) BVB_OBJECT_DEVICE \<or> dpc_max_sets request = 0 \<or>
        dpc_pool_size_count request = 0 \<or> dpc_pool_size_count request > MAX_DESCRIPTOR_POOL_SIZES then Inl EINVAL
     else
     let len = 24 + dpc_pool_size_count request * 8;
         pool_sizes = take (unat (dpc_pool_size_count request)) (dpc_pool_sizes request) in
     let output = memset0 output 0 (unat len) in
     let output = put_u64 output 0 (dpc_device_id request) in
     let output = put_u32 output 8 (dpc_flags request) in
     let output = put_u32 output 12 (dpc_max_sets request) in
     let output = put_u32 output 16 (dpc_pool_size_count request) in
     if \<not> pool_sizes_ok pool_sizes then Inl EINVAL
     else Inr (put_each put_pool_size 8 output 24 pool_sizes, len))"

definition view_descriptor_pool_create :: "bytes \<Rightarrow> vulkan_descriptor_pool_create_request" where
  "view_descriptor_pool_create input =
     \<lparr>dpc_device_id = get_u64 input 0, dpc_flags = get_u32 input 8, dpc_max_sets = get_u32 input 12,
      dpc_pool_size_count = get_u32 input 16,
      dpc_pool_sizes = fill_to MAX_DESCRIPTOR_POOL_SIZES no_pool_size
        (get_each get_pool_size 8 input 24 (unat (get_u32 input 16)))\<rparr>"

definition decode_vulkan_descriptor_pool_create_request ::
  "bytes option \<Rightarrow> u32 \<Rightarrow> vulkan_descriptor_pool_create_request option \<Rightarrow>
   vulkan_descriptor_pool_create_request result" where
  "decode_vulkan_descriptor_pool_create_request input input_length request = nonnull2 input request (\<lambda>input _.
     if input_length < 24 \<or> get_u32 input 20 \<noteq> 0 then Inl EINVAL
     else if get_u32 input 16 > MAX_DESCRIPTOR_POOL_SIZES \<or> input_length \<noteq> 24 + get_u32 input 16 * 8 then Inl EPROTO
     else
     let decoded = view_descriptor_pool_create input in
     if \<not> recheck encode_vulkan_descriptor_pool_create_request BVB_PROTOCOL_MAX_PAYLOAD decoded then Inl EPROTO
     else Inr decoded)"

definition pool_create_ok :: "vulkan_descriptor_pool_create_request \<Rightarrow> bool" where
  "pool_create_ok request \<longleftrightarrow>
     wire_id_is (dpc_device_id request) BVB_OBJECT_DEVICE \<and> dpc_max_sets request \<noteq> 0 \<and>
     dpc_pool_size_count request \<noteq> 0 \<and> dpc_pool_size_count request \<le> MAX_DESCRIPTOR_POOL_SIZES \<and>
     pool_sizes_ok (take (unat (dpc_pool_size_count request)) (dpc_pool_sizes request))"

interpretation pool_size: entry_field 8 put_pool_size get_pool_size 8 "\<lambda>_ _. True"
proof (unfold_locales, goal_cases)
  case (4 i b c)
  then have "agree i 8 b c" by (auto simp: agree_def)
  then show ?case by (simp add: get_pool_size_def agree_reads agree_reads_0)
next
  case (8 i b m)
  then show ?case unfolding put_pool_size_def get_pool_size_def by (auto intro!: covers_put_u32)
qed (auto simp: put_pool_size_def get_pool_size_def wire_simps nth_put)

lemma pool_length: "c \<le> 16 \<Longrightarrow> unat (24 + c * 8 :: u32) = 24 + unat c * 8"
  using unat_length [of c 16 24 8] by (simp add: word_le_nat_alt)

interpretation pool_create: rechecked False BVB_PROTOCOL_MAX_PAYLOAD
  "\<lambda>request. length (dpc_pool_sizes request) = MAX_DESCRIPTOR_POOL_SIZES" pool_create_ok
  "\<lambda>request. request\<lparr>dpc_pool_sizes := fill_to MAX_DESCRIPTOR_POOL_SIZES no_pool_size
     (take (unat (dpc_pool_size_count request)) (dpc_pool_sizes request))\<rparr>"
  "\<lambda>request. 24 + dpc_pool_size_count request * 8"
  "\<lambda>output request. put_each put_pool_size 8
     (put_u32 (put_u32 (put_u32 (put_u64 output 0 (dpc_device_id request)) 8 (dpc_flags request))
        12 (dpc_max_sets request)) 16 (dpc_pool_size_count request))
     24 (take (unat (dpc_pool_size_count request)) (dpc_pool_sizes request))"
  "\<lambda>m n. refusal (n < 24 \<or> get_u32 m 20 \<noteq> 0)
     (get_u32 m 16 > MAX_DESCRIPTOR_POOL_SIZES \<or> n \<noteq> 24 + get_u32 m 16 * 8)"
  view_descriptor_pool_create encode_vulkan_descriptor_pool_create_request decode_vulkan_descriptor_pool_create_request
proof (unfold_locales, goal_cases)
  case (8 m n d)
  then show ?case by (simp add: decode_vulkan_descriptor_pool_create_request_def Let_def refusal_case)
next
  case (19 m n)
  let ?c = "unat (get_u32 m 16)"
  have n: "unat n = 24 + ?c * 8" "?c \<le> 16" "get_u32 m 20 = 0" "24 + get_u32 m 16 * 8 = n"
    using 19(2) by (auto simp: refusal_None pool_length not_less word_le_nat_alt)
  show ?case
    by (rule conjI [OF _ pool_size.each_covers [where n = ?c, OF covers_skip [where i = 20]]], goal_cases,
        simp add: n(4) view_descriptor_pool_create_def,
        (rule covers_put_u32)+, rule covers_put_u64, rule covers_start,
        use 19 n in \<open>simp_all add: view_descriptor_pool_create_def take_fill_to\<close>)
qed (auto simp: encode_vulkan_descriptor_pool_create_request_def decode_vulkan_descriptor_pool_create_request_def
    view_descriptor_pool_create_def pool_create_ok_def pool_length pool_size.each_simps message_simps split: if_splits)

subsection \<open>Allocating descriptor sets\<close>

abbreviation (input) MAX_DESCRIPTOR_SETS_PER_ALLOCATE :: "'a::numeral" where "MAX_DESCRIPTOR_SETS_PER_ALLOCATE \<equiv> 16"
abbreviation (input) BVB_OBJECT_DESCRIPTOR_SET_LAYOUT :: "'a::numeral" where "BVB_OBJECT_DESCRIPTOR_SET_LAYOUT \<equiv> 20"
abbreviation (input) BVB_OBJECT_DESCRIPTOR_POOL :: "'a::numeral" where "BVB_OBJECT_DESCRIPTOR_POOL \<equiv> 21"
abbreviation (input) BVB_OBJECT_DESCRIPTOR_SET :: "'a::numeral" where "BVB_OBJECT_DESCRIPTOR_SET \<equiv> 22"

record vulkan_descriptor_set_allocate_request =
  dsa_descriptor_pool_id :: u64
  dsa_descriptor_set_count :: u32
  dsa_set_layout_ids :: "u64 list"

record vulkan_descriptor_set_allocate_response =
  dsar_vulkan_result :: i32
  dsar_descriptor_set_count :: u32
  dsar_descriptor_set_ids :: "u64 list"

definition encode_vulkan_descriptor_set_allocate_request ::
  "bytes option \<Rightarrow> vulkan_descriptor_set_allocate_request option \<Rightarrow> u32 option \<Rightarrow> (bytes \<times> u32) result" where
  "encode_vulkan_descriptor_set_allocate_request output request output_length =
     nonnull3 output request output_length (\<lambda>output request _.
     if \<not> wire_id_is (dsa_descriptor_pool_id request) BVB_OBJECT_DESCRIPTOR_POOL \<or>
        dsa_descriptor_set_count request = 0 \<or>
        dsa_descriptor_set_count request > MAX_DESCRIPTOR_SETS_PER_ALLOCATE then Inl EINVAL
     else
     let len = 16 + dsa_descriptor_set_count request * 8;
         ids = take (unat (dsa_descriptor_set_count request)) (dsa_set_layout_ids request) in
     let output = memset0 output 0 (unat len) in
     let output = put_u64 output 0 (dsa_descriptor_pool_id request) in
     let output = put_u32 output 8 (dsa_descriptor_set_count request) in
     if \<not> list_all (\<lambda>i. wire_id_is i BVB_OBJECT_DESCRIPTOR_SET_LAYOUT) ids then Inl EINVAL
     else Inr (put_each put_u64 8 output 16 ids, len))"

definition view_descriptor_set_allocate :: "bytes \<Rightarrow> vulkan_descriptor_set_allocate_request" where
  "view_descriptor_set_allocate input =
     \<lparr>dsa_descriptor_pool_id = get_u64 input 0, dsa_descriptor_set_count = get_u32 input 8,
      dsa_set_layout_ids = fill_to MAX_DESCRIPTOR_SETS_PER_ALLOCATE 0
        (get_each get_u64 8 input 16 (unat (get_u32 input 8)))\<rparr>"

definition decode_vulkan_descriptor_set_allocate_request ::
  "bytes option \<Rightarrow> u32 \<Rightarrow> vulkan_descriptor_set_allocate_request option \<Rightarrow>
   vulkan_descriptor_set_allocate_request result" where
  "decode_vulkan_descriptor_set_allocate_request input input_length request = nonnull2 input request (\<lambda>input _.
     if input_length < 16 \<or> get_u32 input 12 \<noteq> 0 then Inl EINVAL
     else if get_u32 input 8 = 0 \<or> get_u32 input 8 > MAX_DESCRIPTOR_SETS_PER_ALLOCATE \<or>
        input_length \<noteq> 16 + get_u32 input 8 * 8 then Inl EPROTO
     else
     let decoded = view_descriptor_set_allocate input in
     if \<not> recheck encode_vulkan_descriptor_set_allocate_request BVB_PROTOCOL_MAX_PAYLOAD decoded then Inl EPROTO
     else Inr decoded)"

definition set_allocate_ok :: "vulkan_descriptor_set_allocate_request \<Rightarrow> bool" where
  "set_allocate_ok request \<longleftrightarrow>
     wire_id_is (dsa_descriptor_pool_id request) BVB_OBJECT_DESCRIPTOR_POOL \<and> dsa_descriptor_set_count request \<noteq> 0 \<and>
     dsa_descriptor_set_count request \<le> MAX_DESCRIPTOR_SETS_PER_ALLOCATE \<and>
     list_all (\<lambda>i. wire_id_is i BVB_OBJECT_DESCRIPTOR_SET_LAYOUT)
       (take (unat (dsa_descriptor_set_count request)) (dsa_set_layout_ids request))"

definition set_allocate_norm :: "vulkan_descriptor_set_allocate_request \<Rightarrow> vulkan_descriptor_set_allocate_request" where
  "set_allocate_norm request = request\<lparr>dsa_set_layout_ids := fill_to MAX_DESCRIPTOR_SETS_PER_ALLOCATE 0
     (take (unat (dsa_descriptor_set_count request)) (dsa_set_layout_ids request))\<rparr>"

definition encode_vulkan_descriptor_set_allocate_response ::
  "bytes option \<Rightarrow> vulkan_descriptor_set_allocate_response option \<Rightarrow> u32 option \<Rightarrow> (bytes \<times> u32) result" where
  "encode_vulkan_descriptor_set_allocate_response output response output_length =
     nonnull3 output response output_length (\<lambda>output response _.
     if dsar_descriptor_set_count response > MAX_DESCRIPTOR_SETS_PER_ALLOCATE \<or>
        dsar_vulkan_result response = 0 \<and> dsar_descriptor_set_count response = 0 \<or>
        dsar_vulkan_result response \<noteq> 0 \<and> dsar_descriptor_set_count response \<noteq> 0 then Inl EINVAL
     else
     let len = 8 + dsar_descriptor_set_count response * 8;
         ids = take (unat (dsar_descriptor_set_count response)) (dsar_descriptor_set_ids response) in
     let output = memset0 output 0 (unat len) in
     let output = put_i32 output 0 (dsar_vulkan_result response) in
     let output = put_u32 output 4 (dsar_descriptor_set_count response) in
     if \<not> list_all (\<lambda>i. wire_id_is i BVB_OBJECT_DESCRIPTOR_SET) ids then Inl EINVAL
     else Inr (put_each put_u64 8 output 8 ids, len))"

definition view_descriptor_set_allocate_response :: "bytes \<Rightarrow> vulkan_descriptor_set_allocate_response" where
  "view_descriptor_set_allocate_response input =
     \<lparr>dsar_vulkan_result = get_i32 input 0, dsar_descriptor_set_count = get_u32 input 4,
      dsar_descriptor_set_ids = fill_to MAX_DESCRIPTOR_SETS_PER_ALLOCATE 0
        (get_each get_u64 8 input 8 (unat (get_u32 input 4)))\<rparr>"

definition decode_vulkan_descriptor_set_allocate_response ::
  "bytes option \<Rightarrow> u32 \<Rightarrow> vulkan_descriptor_set_allocate_response option \<Rightarrow>
   vulkan_descriptor_set_allocate_response result" where
  "decode_vulkan_descriptor_set_allocate_response input input_length response = nonnull2 input response (\<lambda>input _.
     if input_length < 8 then Inl EINVAL
     else if get_u32 input 4 > MAX_DESCRIPTOR_SETS_PER_ALLOCATE \<or> input_length \<noteq> 8 + get_u32 input 4 * 8 then Inl EPROTO
     else
     let decoded = view_descriptor_set_allocate_response input in
     if \<not> recheck encode_vulkan_descriptor_set_allocate_response BVB_PROTOCOL_MAX_PAYLOAD decoded then Inl EPROTO
     else Inr decoded)"

definition set_allocate_response_ok :: "vulkan_descriptor_set_allocate_response \<Rightarrow> bool" where
  "set_allocate_response_ok response \<longleftrightarrow>
     dsar_descriptor_set_count response \<le> MAX_DESCRIPTOR_SETS_PER_ALLOCATE \<and>
     (dsar_vulkan_result response = 0 \<longleftrightarrow> dsar_descriptor_set_count response \<noteq> 0) \<and>
     list_all (\<lambda>i. wire_id_is i BVB_OBJECT_DESCRIPTOR_SET)
       (take (unat (dsar_descriptor_set_count response)) (dsar_descriptor_set_ids response))"

lemma allocate_length: "c \<le> 16 \<Longrightarrow> unat (16 + c * 8 :: u32) = 16 + unat c * 8"
  using unat_length [of c 16 16 8] by (simp add: word_le_nat_alt)

lemma allocate_response_length: "c \<le> 16 \<Longrightarrow> unat (8 + c * 8 :: u32) = 8 + unat c * 8"
  using unat_length [of c 16 8 8] by (simp add: word_le_nat_alt)

interpretation set_allocate: rechecked False BVB_PROTOCOL_MAX_PAYLOAD
  "\<lambda>request. length (dsa_set_layout_ids request) = MAX_DESCRIPTOR_SETS_PER_ALLOCATE" set_allocate_ok set_allocate_norm
  "\<lambda>request. 16 + dsa_descriptor_set_count request * 8"
  "\<lambda>output request. put_each put_u64 8
     (put_u32 (put_u64 output 0 (dsa_descriptor_pool_id request)) 8 (dsa_descriptor_set_count request))
     16 (take (unat (dsa_descriptor_set_count request)) (dsa_set_layout_ids request))"
  "\<lambda>m n. refusal (n < 16 \<or> get_u32 m 12 \<noteq> 0)
     (get_u32 m 8 = 0 \<or> get_u32 m 8 > MAX_DESCRIPTOR_SETS_PER_ALLOCATE \<or> n \<noteq> 16 + get_u32 m 8 * 8)"
  view_descriptor_set_allocate encode_vulkan_descriptor_set_allocate_request decode_vulkan_descriptor_set_allocate_request
proof (unfold_locales, goal_cases)
  case (8 m n d)
  then show ?case by (simp add: decode_vulkan_descriptor_set_allocate_request_def Let_def refusal_case)
next
  case (19 m n)
  let ?c = "unat (get_u32 m 8)"
  have n: "unat n = 16 + ?c * 8" "?c \<le> 16" "get_u32 m 12 = 0" "16 + get_u32 m 8 * 8 = n"
    using 19(2) by (auto simp: refusal_None allocate_length not_less word_le_nat_alt)
  show ?case
    by (rule conjI [OF _ u64_entry.each_covers [where n = ?c, OF covers_skip [where i = 12]]], goal_cases,
        simp add: n(4) view_descriptor_set_allocate_def,
        rule covers_put_u32, rule covers_put_u64, rule covers_start,
        use 19 n in \<open>simp_all add: view_descriptor_set_allocate_def take_fill_to\<close>)
qed (auto simp: encode_vulkan_descriptor_set_allocate_request_def decode_vulkan_descriptor_set_allocate_request_def
    set_allocate_norm_def view_descriptor_set_allocate_def set_allocate_ok_def allocate_length message_simps
    split: if_splits)

interpretation set_allocate_response: rechecked False BVB_PROTOCOL_MAX_PAYLOAD
  "\<lambda>response. length (dsar_descriptor_set_ids response) = MAX_DESCRIPTOR_SETS_PER_ALLOCATE" set_allocate_response_ok
  "\<lambda>response. response\<lparr>dsar_descriptor_set_ids := fill_to MAX_DESCRIPTOR_SETS_PER_ALLOCATE 0
     (take (unat (dsar_descriptor_set_count response)) (dsar_descriptor_set_ids response))\<rparr>"
  "\<lambda>response. 8 + dsar_descriptor_set_count response * 8"
  "\<lambda>output response. put_each put_u64 8
     (put_u32 (put_u32 output 0 (dsar_vulkan_result response)) 4 (dsar_descriptor_set_count response))
     8 (take (unat (dsar_descriptor_set_count response)) (dsar_descriptor_set_ids response))"
  "\<lambda>m n. refusal (n < 8) (get_u32 m 4 > MAX_DESCRIPTOR_SETS_PER_ALLOCATE \<or> n \<noteq> 8 + get_u32 m 4 * 8)"
  view_descriptor_set_allocate_response
  encode_vulkan_descriptor_set_allocate_response decode_vulkan_descriptor_set_allocate_response
proof (unfold_locales, goal_cases)
  case (8 m n d)
  then show ?case by (simp add: decode_vulkan_descriptor_set_allocate_response_def Let_def refusal_case)
next
  case (19 m n)
  let ?c = "unat (get_u32 m 4)"
  have n: "unat n = 8 + ?c * 8" "?c \<le> 16" "8 + get_u32 m 4 * 8 = n"
    using 19(2) by (auto simp: refusal_None allocate_response_length not_less word_le_nat_alt)
  show ?case
    by (rule conjI [OF _ u64_entry.each_covers [where n = ?c]], goal_cases,
        simp add: n(3) view_descriptor_set_allocate_response_def,
        (rule covers_put_u32)+, rule covers_start,
        use 19 n in \<open>simp_all add: view_descriptor_set_allocate_response_def take_fill_to i32_field\<close>)
qed (auto simp: encode_vulkan_descriptor_set_allocate_response_def decode_vulkan_descriptor_set_allocate_response_def
    view_descriptor_set_allocate_response_def set_allocate_response_ok_def allocate_response_length message_simps
    split: if_splits)


subsection \<open>Allocation with the descriptor journal\<close>

record vulkan_descriptor_transaction_allocate_request =
  dta_journal_generation :: u64
  dta_journal_sequence :: u64
  dta_journal_length :: u32
  dta_journal_record_count :: u32
  dta_allocation :: vulkan_descriptor_set_allocate_request

abbreviation (input) TRANSACTION_ALLOCATE_MAX_SIZE :: "'a::numeral" where "TRANSACTION_ALLOCATE_MAX_SIZE \<equiv> 176"

definition encode_vulkan_descriptor_transaction_allocate_request ::
  "bytes option \<Rightarrow> vulkan_descriptor_transaction_allocate_request option \<Rightarrow> u32 option \<Rightarrow> (bytes \<times> u32) result" where
  "encode_vulkan_descriptor_transaction_allocate_request output request output_length =
     nonnull3 output request output_length (\<lambda>output request _.
     if dta_journal_generation request = 0 \<or> dta_journal_sequence request = 0 \<or>
        dta_journal_length request > BVB_DESCRIPTOR_JOURNAL_REGION_BYTES \<or>
        dta_journal_record_count request > BVB_DESCRIPTOR_JOURNAL_MAX_RECORDS \<or>
        (dta_journal_length request = 0) \<noteq> (dta_journal_record_count request = 0) then Inl EINVAL
     else
     case encode_vulkan_descriptor_set_allocate_request (Some (replicate BVB_PROTOCOL_MAX_PAYLOAD 0))
         (Some (dta_allocation request)) (Some 0) of
       Inl e \<Rightarrow> Inl e
     | Inr (allocation_wire, allocation_length) \<Rightarrow>
         if allocation_length > TRANSACTION_ALLOCATE_MAX_SIZE - 32 then Inl E2BIG
         else
         let output = put_u64 output 0 (dta_journal_generation request) in
         let output = put_u64 output 8 (dta_journal_sequence request) in
         let output = put_u32 output 16 (dta_journal_length request) in
         let output = put_u32 output 20 (dta_journal_record_count request) in
         let output = put_u32 output 24 allocation_length in
         let output = put_u32 output 28 0 in
         let output = memcpy output 32 allocation_wire (unat allocation_length) in
         Inr (output, 32 + allocation_length))"

definition decode_vulkan_descriptor_transaction_allocate_request ::
  "bytes option \<Rightarrow> u32 \<Rightarrow> vulkan_descriptor_transaction_allocate_request option \<Rightarrow>
   vulkan_descriptor_transaction_allocate_request result" where
  "decode_vulkan_descriptor_transaction_allocate_request input input_length request = nonnull2 input request (\<lambda>input request.
     if input_length < 48 then Inl EINVAL
     else
     let allocation_length = get_u32 input 24 in
     if get_u64 input 0 = 0 \<or> get_u64 input 8 = 0 \<or>
        get_u32 input 16 > BVB_DESCRIPTOR_JOURNAL_REGION_BYTES \<or>
        get_u32 input 20 > BVB_DESCRIPTOR_JOURNAL_MAX_RECORDS \<or>
        (get_u32 input 16 = 0) \<noteq> (get_u32 input 20 = 0) \<or> get_u32 input 28 \<noteq> 0 \<or>
        allocation_length > TRANSACTION_ALLOCATE_MAX_SIZE - 32 \<or> input_length \<noteq> 32 + allocation_length then Inl EPROTO
     else
     case decode_vulkan_descriptor_set_allocate_request (Some (drop 32 input)) allocation_length
         (Some (dta_allocation request)) of
       Inl e \<Rightarrow> Inl e
     | Inr allocation \<Rightarrow>
         let decoded = \<lparr>dta_journal_generation = get_u64 input 0, dta_journal_sequence = get_u64 input 8,
           dta_journal_length = get_u32 input 16, dta_journal_record_count = get_u32 input 20,
           dta_allocation = allocation\<rparr> in
         if \<not> recheck_bytes encode_vulkan_descriptor_transaction_allocate_request TRANSACTION_ALLOCATE_MAX_SIZE
             decoded input input_length then Inl EPROTO
         else Inr decoded)"

definition transaction_allocate_ok :: "vulkan_descriptor_transaction_allocate_request \<Rightarrow> bool" where
  "transaction_allocate_ok request \<longleftrightarrow>
     dta_journal_generation request \<noteq> 0 \<and> dta_journal_sequence request \<noteq> 0 \<and>
     dta_journal_length request \<le> BVB_DESCRIPTOR_JOURNAL_REGION_BYTES \<and>
     dta_journal_record_count request \<le> BVB_DESCRIPTOR_JOURNAL_MAX_RECORDS \<and>
     (dta_journal_length request = 0 \<longleftrightarrow> dta_journal_record_count request = 0) \<and>
     set_allocate_ok (dta_allocation request)"

text \<open>The bytes and the length of the inner message.\<close>

definition allocation_bytes :: "vulkan_descriptor_set_allocate_request \<Rightarrow> bytes" where
  "allocation_bytes request = put_each put_u64 8
     (put_u32 (put_u64 (replicate (16 + unat (dsa_descriptor_set_count request) * 8) 0) 0 (dsa_descriptor_pool_id request))
        8 (dsa_descriptor_set_count request))
     16 (take (unat (dsa_descriptor_set_count request)) (dsa_set_layout_ids request))"

abbreviation (input) allocation_shape :: "vulkan_descriptor_set_allocate_request \<Rightarrow> bool" where
  "allocation_shape request \<equiv> length (dsa_set_layout_ids request) = MAX_DESCRIPTOR_SETS_PER_ALLOCATE"

lemma encode_allocation:
  assumes "allocation_shape x" "set_allocate_ok x"
  shows "length b = 4096 \<Longrightarrow> encode_vulkan_descriptor_set_allocate_request (Some b) (Some x) (Some k) =
      Inr (allocation_bytes x @ drop (16 + unat (dsa_descriptor_set_count x) * 8) b, 16 + dsa_descriptor_set_count x * 8)"
    "length (allocation_bytes x) = 16 + unat (dsa_descriptor_set_count x) * 8"
    "unat (16 + dsa_descriptor_set_count x * 8) = 16 + unat (dsa_descriptor_set_count x) * 8"
    "unat (dsa_descriptor_set_count x) \<le> 16"
    "decode_vulkan_descriptor_set_allocate_request (Some (allocation_bytes x)) (16 + dsa_descriptor_set_count x * 8) (Some d) =
      Inr (set_allocate_norm x)"
proof -
  show c: "unat (dsa_descriptor_set_count x) \<le> 16" using assms(2) by (simp add: set_allocate_ok_def word_le_nat_alt)
  show l: "unat (16 + dsa_descriptor_set_count x * 8) = 16 + unat (dsa_descriptor_set_count x) * 8"
    using assms(2) by (simp add: set_allocate_ok_def allocate_length)
  show e: "length b = 4096 \<Longrightarrow> encode_vulkan_descriptor_set_allocate_request (Some b) (Some x) (Some k) =
      Inr (allocation_bytes x @ drop (16 + unat (dsa_descriptor_set_count x) * 8) b, 16 + dsa_descriptor_set_count x * 8)" for b
    using set_allocate.enc_okay [OF assms] l by (simp add: allocation_bytes_def)
  show m: "length (allocation_bytes x) = 16 + unat (dsa_descriptor_set_count x) * 8"
    using assms(1) c by (simp add: allocation_bytes_def)
  show "decode_vulkan_descriptor_set_allocate_request (Some (allocation_bytes x)) (16 + dsa_descriptor_set_count x * 8) (Some d) =
      Inr (set_allocate_norm x)"
    using set_allocate.sized.enc_dec [OF assms, of "replicate 4096 0" k d] e [of "replicate 4096 0"] l m by auto
qed

lemma allocation_view:
  assumes "length m = unat n" "decode_vulkan_descriptor_set_allocate_request (Some m) n (Some d) = Inr x"
  shows "allocation_bytes x = m" "n = 16 + dsa_descriptor_set_count x * 8" "allocation_shape x" "set_allocate_ok x"
proof -
  show s: "allocation_shape x" "set_allocate_ok x" using set_allocate.sized.dec_okay [OF assms] by auto
  have "encode_vulkan_descriptor_set_allocate_request (Some (replicate 4096 0)) (Some x) (Some 0) =
      Inr (m @ drop (unat n) (replicate 4096 0), n)"
    using set_allocate.view_encodes [of m n "replicate 4096 0" 0] set_allocate.dec_okay_iff [of n m d] assms
    by (auto split: option.splits if_splits)
  then show "allocation_bytes x = m" "n = 16 + dsa_descriptor_set_count x * 8"
    using encode_allocation(1) [OF s, of "replicate 4096 0" 0] encode_allocation(2,3) [OF s] assms(1) by auto
qed


definition no_allocation :: vulkan_descriptor_set_allocate_request where
  "no_allocation = \<lparr>dsa_descriptor_pool_id = 0, dsa_descriptor_set_count = 0, dsa_set_layout_ids = replicate 16 0\<rparr>"

lemma decode_allocation_any:
  "decode_vulkan_descriptor_set_allocate_request p n (Some d) = decode_vulkan_descriptor_set_allocate_request p n (Some d')"
  by (cases p) (simp_all add: decode_vulkan_descriptor_set_allocate_request_def)

definition transaction_early :: "bytes \<Rightarrow> u32 \<Rightarrow> errno option" where
  "transaction_early m n =
     (case refusal (n < 48) (get_u64 m 0 = 0 \<or> get_u64 m 8 = 0 \<or>
         get_u32 m 16 > BVB_DESCRIPTOR_JOURNAL_REGION_BYTES \<or> get_u32 m 20 > BVB_DESCRIPTOR_JOURNAL_MAX_RECORDS \<or>
         (get_u32 m 16 = 0) \<noteq> (get_u32 m 20 = 0) \<or> get_u32 m 28 \<noteq> 0 \<or>
         get_u32 m 24 > TRANSACTION_ALLOCATE_MAX_SIZE - 32 \<or> n \<noteq> 32 + get_u32 m 24) of
       Some e \<Rightarrow> Some e
     | None \<Rightarrow>
         (case decode_vulkan_descriptor_set_allocate_request (Some (drop 32 m)) (get_u32 m 24) (Some no_allocation) of
            Inl e \<Rightarrow> Some e | Inr _ \<Rightarrow> None))"

definition transaction_view :: "bytes \<Rightarrow> vulkan_descriptor_transaction_allocate_request" where
  "transaction_view m = \<lparr>dta_journal_generation = get_u64 m 0, dta_journal_sequence = get_u64 m 8,
     dta_journal_length = get_u32 m 16, dta_journal_record_count = get_u32 m 20,
     dta_allocation = view_descriptor_set_allocate (drop 32 m)\<rparr>"

lemma decode_allocation_view:
  "decode_vulkan_descriptor_set_allocate_request (Some m) n (Some d) = Inr x \<Longrightarrow> x = view_descriptor_set_allocate m"
  by (auto simp: decode_vulkan_descriptor_set_allocate_request_def Let_def split: if_splits)

lemma transaction_early_None:
  assumes "transaction_early m n = None" "unat n \<le> length m"
  defines "k \<equiv> unat (get_u32 m 24)"
  shows "unat n = 32 + k" "k \<le> 144" "n = 32 + get_u32 m 24" "48 \<le> unat n" "get_u32 m 28 = 0"
    "decode_vulkan_descriptor_set_allocate_request (Some (take k (drop 32 m))) (get_u32 m 24) (Some no_allocation) =
       Inr (dta_allocation (transaction_view m))"
    "allocation_bytes (dta_allocation (transaction_view m)) = take k (drop 32 m)"
    "16 + dsa_descriptor_set_count (dta_allocation (transaction_view m)) * 8 = get_u32 m 24"
    "allocation_shape (dta_allocation (transaction_view m))" "set_allocate_ok (dta_allocation (transaction_view m))"
proof -
  have g: "48 \<le> unat n" "k \<le> 144" "n = 32 + get_u32 m 24" "get_u32 m 28 = 0"
    using assms(1) by (auto simp: transaction_early_def refusal_def k_def word_less_nat_alt not_less word_le_nat_alt
        split: option.splits if_splits)
  then show "k \<le> 144" "n = 32 + get_u32 m 24" "48 \<le> unat n" "get_u32 m 28 = 0" by auto
  show n: "unat n = 32 + k" using g(2,3) by (simp add: k_def unat_word_ariths)
  have l: "length (take k (drop 32 m)) = unat (get_u32 m 24)" using assms(2) n by (simp add: k_def)
  have full: "drop 32 m = take k (drop 32 m) @ drop k (drop 32 m)" by (simp only: append_take_drop_id)
  obtain x where x: "decode_vulkan_descriptor_set_allocate_request (Some (drop 32 m)) (get_u32 m 24) (Some no_allocation) = Inr x"
    using assms(1) by (auto simp: transaction_early_def refusal_def split: option.splits if_splits sum.splits)
  have v: "x = dta_allocation (transaction_view m)" using decode_allocation_view [OF x] by (simp add: transaction_view_def)
  show d: "decode_vulkan_descriptor_set_allocate_request (Some (take k (drop 32 m))) (get_u32 m 24) (Some no_allocation) =
       Inr (dta_allocation (transaction_view m))"
    using set_allocate.sized.dec_local [OF l, of "drop k (drop 32 m)" no_allocation] x v unfolding full [symmetric] by simp
  show "allocation_bytes (dta_allocation (transaction_view m)) = take k (drop 32 m)"
    "16 + dsa_descriptor_set_count (dta_allocation (transaction_view m)) * 8 = get_u32 m 24"
    "allocation_shape (dta_allocation (transaction_view m))" "set_allocate_ok (dta_allocation (transaction_view m))"
    using allocation_view [OF l d] by auto
qed

lemma decode_transaction_allocate:
  "decode_vulkan_descriptor_transaction_allocate_request (Some m) n (Some d) =
     (case transaction_early m n of Some e \<Rightarrow> Inl e
      | None \<Rightarrow> if recheck_bytes encode_vulkan_descriptor_transaction_allocate_request 176 (transaction_view m) m n
          then Inr (transaction_view m) else Inl EPROTO)"
  using decode_allocation_any [of "Some (drop 32 m)" "get_u32 m 24" "dta_allocation d" no_allocation]
  by (auto simp: decode_vulkan_descriptor_transaction_allocate_request_def transaction_early_def transaction_view_def
      refusal_def Let_def split: sum.splits dest: decode_allocation_view)

abbreviation (input) transaction_length :: "vulkan_descriptor_transaction_allocate_request \<Rightarrow> u32" where
  "transaction_length request \<equiv> 32 + (16 + dsa_descriptor_set_count (dta_allocation request) * 8)"

definition fill_transaction :: "bytes \<Rightarrow> vulkan_descriptor_transaction_allocate_request \<Rightarrow> bytes" where
  "fill_transaction output request =
     memcpy (put_u32 (put_u32 (put_u32 (put_u32 (put_u64 (put_u64 output 0 (dta_journal_generation request))
         8 (dta_journal_sequence request)) 16 (dta_journal_length request)) 20 (dta_journal_record_count request))
         24 (16 + dsa_descriptor_set_count (dta_allocation request) * 8)) 28 0)
       32 (allocation_bytes (dta_allocation request)) (16 + unat (dsa_descriptor_set_count (dta_allocation request)) * 8)"

lemma transaction_lengths:
  assumes "transaction_allocate_ok x"
  shows "unat (transaction_length x) = 48 + unat (dsa_descriptor_set_count (dta_allocation x)) * 8"
    "unat (dsa_descriptor_set_count (dta_allocation x)) \<le> 16"
    "unat (16 + dsa_descriptor_set_count (dta_allocation x) * 8) = 16 + unat (dsa_descriptor_set_count (dta_allocation x)) * 8"
proof -
  show c: "unat (dsa_descriptor_set_count (dta_allocation x)) \<le> 16"
    using assms by (simp add: transaction_allocate_ok_def set_allocate_ok_def word_le_nat_alt)
  show l: "unat (16 + dsa_descriptor_set_count (dta_allocation x) * 8) =
      16 + unat (dsa_descriptor_set_count (dta_allocation x)) * 8"
    using c by (simp add: allocate_length word_le_nat_alt)
  show "unat (transaction_length x) = 48 + unat (dsa_descriptor_set_count (dta_allocation x)) * 8"
    unfolding unat_word_ariths(1) [of 32] l using c by simp
qed

lemma encode_transaction:
  assumes "allocation_shape (dta_allocation x)" "transaction_allocate_ok x" "length b = 176"
  shows "encode_vulkan_descriptor_transaction_allocate_request (Some b) (Some x) (Some k) =
    Inr (fill_transaction b x, transaction_length x)"
proof -
  have s: "set_allocate_ok (dta_allocation x)" using assms(2) by (simp add: transaction_allocate_ok_def)
  note e = encode_allocation [OF assms(1) s]
  have le: "16 + dsa_descriptor_set_count (dta_allocation x) * 8 \<le> 144"
    using e(3,4) by (simp add: word_le_nat_alt)
  have "memcpy c 32 (allocation_bytes (dta_allocation x) @ t) (16 + unat (dsa_descriptor_set_count (dta_allocation x)) * 8) =
      memcpy c 32 (allocation_bytes (dta_allocation x)) (16 + unat (dsa_descriptor_set_count (dta_allocation x)) * 8)" for c t
    using e(2) by (simp add: memcpy_def)
  then show ?thesis
    using assms(2) e(1) [of "replicate 4096 0" 0] e(3) le
    by (simp add: encode_vulkan_descriptor_transaction_allocate_request_def transaction_allocate_ok_def fill_transaction_def
        Let_def not_less)
qed

text \<open>The encoder writes every byte, so clearing the buffer first makes no difference.\<close>

lemma transaction_memset:
  assumes "allocation_shape (dta_allocation x)" "transaction_allocate_ok x" "length b = 176"
  shows "fill_transaction (memset0 b 0 (unat (transaction_length x))) x = fill_transaction b x"
proof -
  let ?k = "16 + unat (dsa_descriptor_set_count (dta_allocation x)) * 8" and ?n = "unat (transaction_length x)"
  have s: "set_allocate_ok (dta_allocation x)" using assms(2) by (simp add: transaction_allocate_ok_def)
  note l = transaction_lengths [OF assms(2)] encode_allocation(2) [OF assms(1) s]
  have eq: "same_upto (32 + ?k) (fill_transaction (memset0 b 0 ?n) x) (fill_transaction b x)"
    unfolding fill_transaction_def
    by (rule same_upto_memcpy, (rule same_upto_put_u32)+, (rule same_upto_put_u64)+, rule same_upto_0)
      (use assms(3) l in simp_all)
  have rest: "fill_transaction c x ! i = c ! i" if "32 + ?k \<le> i" "length c = 176" for c i
    unfolding fill_transaction_def using that l by (subst nth_memcpy_out) (auto simp: nth_put)
  have "fill_transaction (memset0 b 0 ?n) x ! i = fill_transaction b x ! i" if "i < 176" for i
  proof (cases "i < 32 + ?k")
    case False
    then show ?thesis using rest [of i] assms(3) l by (simp add: nth_memset0_out)
  qed (use eq in \<open>simp add: same_upto_def\<close>)
  then show ?thesis using eq assms(3) l by (intro nth_equalityI) (auto simp: fill_transaction_def)
qed

lemma transaction_local:
  assumes "length m = unat n"
  shows "transaction_early (m @ c) n = transaction_early m n"
proof (cases "n < 48")
  case False
  then have l: "48 \<le> length m" using assms by (simp add: word_less_nat_alt not_less)
  have "decode_vulkan_descriptor_set_allocate_request (Some (drop 32 m @ c)) (get_u32 m 24) (Some no_allocation) =
      decode_vulkan_descriptor_set_allocate_request (Some (drop 32 m)) (get_u32 m 24) (Some no_allocation)"
    if "n = 32 + get_u32 m 24" "get_u32 m 24 \<le> 144"
    using that assms by (intro set_allocate.sized.dec_local) (simp add: unat_word_ariths word_le_nat_alt)
  then show ?thesis using l by (auto simp: transaction_early_def refusal_def wire_simps not_less)
qed (simp add: transaction_early_def refusal_def)

lemma transaction_fill_reads:
  assumes "allocation_shape (dta_allocation x)" "transaction_allocate_ok x"
  defines "m \<equiv> fill_transaction (replicate (unat (transaction_length x)) 0) x"
  shows "length m = unat (transaction_length x)"
    "drop 32 m = allocation_bytes (dta_allocation x)"
    "get_u64 m 0 = dta_journal_generation x" "get_u64 m 8 = dta_journal_sequence x"
    "get_u32 m 16 = dta_journal_length x" "get_u32 m 20 = dta_journal_record_count x"
    "get_u32 m 24 = 16 + dsa_descriptor_set_count (dta_allocation x) * 8" "get_u32 m 28 = 0"
proof -
  have s: "set_allocate_ok (dta_allocation x)" using assms(2) by (simp add: transaction_allocate_ok_def)
  note l = transaction_lengths [OF assms(2)] encode_allocation(2) [OF assms(1) s]
  show "length m = unat (transaction_length x)"
    "drop 32 m = allocation_bytes (dta_allocation x)"
    "get_u64 m 0 = dta_journal_generation x" "get_u64 m 8 = dta_journal_sequence x"
    "get_u32 m 16 = dta_journal_length x" "get_u32 m 20 = dta_journal_record_count x"
    "get_u32 m 24 = 16 + dsa_descriptor_set_count (dta_allocation x) * 8" "get_u32 m 28 = 0"
    using l by (simp_all add: m_def fill_transaction_def wire_simps) (simp add: memcpy_def)
qed

interpretation transaction_allocate: rechecked True TRANSACTION_ALLOCATE_MAX_SIZE
  "\<lambda>request. allocation_shape (dta_allocation request)" transaction_allocate_ok
  "\<lambda>request. request\<lparr>dta_allocation := set_allocate_norm (dta_allocation request)\<rparr>"
  "\<lambda>request. transaction_length request" fill_transaction transaction_early transaction_view
  encode_vulkan_descriptor_transaction_allocate_request decode_vulkan_descriptor_transaction_allocate_request
proof (unfold_locales, goal_cases)
  case (6 x b k)
  then show ?case
    using set_allocate.enc_reject [of "dta_allocation x" "replicate 4096 0" 0]
    by (auto simp: encode_vulkan_descriptor_transaction_allocate_request_def transaction_allocate_ok_def not_le Let_def)
next
  case (7 x b k)
  have "fill_transaction (memset0 b 0 (unat (transaction_length x))) x = fill_transaction b x"
    using transaction_memset [OF 7] .
  then show ?case using encode_transaction [OF 7] by simp
next
  case (8 m n d)
  then show ?case
    using decode_transaction_allocate [of m n d] recheck_bytes_recheck by (auto split: option.splits)
next
  case (9 m n e)
  then show ?case
    using set_allocate.sized.dec_error [of "drop 32 m" "get_u32 m 24" no_allocation]
    by (auto simp: transaction_early_def refusal_def decode_vulkan_descriptor_set_allocate_request_def Let_def
        split: option.splits sum.splits if_splits)
next
  case (10 m n c)
  then show ?case by (rule transaction_local)
next
  case (11 m n c)
  have t: "48 \<le> length m" "decode_vulkan_descriptor_set_allocate_request (Some (drop 32 m)) (get_u32 m 24) (Some no_allocation) =
      Inr (dta_allocation (transaction_view m))"
    using transaction_early_None [OF 11(2)] 11(1) by auto
  moreover have "transaction_early (m @ c) n = None" using transaction_local [OF 11(1), of c] 11(2) by simp
  then have "decode_vulkan_descriptor_set_allocate_request (Some (drop 32 m)) (get_u32 m 24) (Some no_allocation) =
      Inr (dta_allocation (transaction_view (m @ c)))"
    using transaction_early_None(6) [of "m @ c" n] transaction_early_None(1) [OF 11(2)] 11(1) t(1) by (simp add: wire_simps)
  ultimately show ?case by (simp add: transaction_view_def wire_simps)
next
  case (12 m n)
  then have "get_u32 (drop 32 m) 8 \<le> 16"
    by (auto simp: transaction_early_def refusal_def decode_vulkan_descriptor_set_allocate_request_def Let_def
        split: option.splits if_splits sum.splits)
  then show ?case by (simp add: transaction_view_def view_descriptor_set_allocate_def word_le_nat_alt)
next
  case (13 x)
  then show ?case using transaction_lengths(1,2) [OF 13] by linarith
next
  case (14 x a c)
  then show ?case using transaction_lengths [OF 14(2)] by (simp add: fill_transaction_def wire_simps)
next
  case (15 x a)
  then show ?case
    using transaction_lengths [OF 15(2)] encode_allocation(2) [OF 15(1)]
    by (simp add: fill_transaction_def transaction_allocate_ok_def)
next
  case (16 x)
  note r = transaction_fill_reads [OF 16]
  have s: "set_allocate_ok (dta_allocation x)" using 16(2) by (simp add: transaction_allocate_ok_def)
  have "transaction_length x = 32 + (16 + dsa_descriptor_set_count (dta_allocation x) * 8)"
    "16 + dsa_descriptor_set_count (dta_allocation x) * 8 \<le> 144" "48 \<le> unat (transaction_length x)"
    using transaction_lengths [OF 16(2)] by (simp_all add: word_le_nat_alt)
  then show ?case
    using 16(2) encode_allocation(5) [OF 16(1) s, of no_allocation]
    unfolding transaction_early_def r by (auto simp: refusal_def transaction_allocate_ok_def word_less_nat_alt not_less word_le_nat_alt)
next
  case (17 x)
  note r = transaction_fill_reads [OF 17]
  have s: "set_allocate_ok (dta_allocation x)" using 17(2) by (simp add: transaction_allocate_ok_def)
  show ?case
    unfolding transaction_view_def r
    using decode_allocation_view [OF encode_allocation(5) [OF 17(1) s, of no_allocation]] by simp
next
  case (18 x)
  then show ?case
    using set_allocate.okay_norm [OF 18(1)] by (simp add: transaction_allocate_ok_def)
next
  case (19 m n)
  note t = transaction_early_None [OF 19(2) eq_refl [OF 19(1) [symmetric]]]
  have k: "16 + unat (dsa_descriptor_set_count (dta_allocation (transaction_view m))) * 8 = unat (get_u32 m 24)"
    using encode_allocation(2) [OF t(9,10)] t(1,7) 19(1) by simp
  have "covers (unat n) (fill_transaction (replicate (unat n) 0) (transaction_view m)) m"
    unfolding fill_transaction_def k t(7,8)
    by (rule covers_memcpy, (rule covers_put_u32)+, (rule covers_put_u64)+, rule covers_start)
      (use 19(1) t(1,5) in \<open>simp_all add: transaction_view_def\<close>)
  then show ?case using t(3,8) by simp
qed (auto simp: encode_vulkan_descriptor_transaction_allocate_request_def
    decode_vulkan_descriptor_transaction_allocate_request_def)


subsection \<open>Resetting a pool and creating a sampler\<close>

record vulkan_descriptor_pool_reset_request =
  dpr_descriptor_pool_id :: u64
  dpr_flags :: u32

definition encode_vulkan_descriptor_pool_reset_request ::
  "bytes option \<Rightarrow> vulkan_descriptor_pool_reset_request option \<Rightarrow> bytes result" where
  "encode_vulkan_descriptor_pool_reset_request output request = nonnull2 output request (\<lambda>output request.
     if \<not> wire_id_is (dpr_descriptor_pool_id request) BVB_OBJECT_DESCRIPTOR_POOL \<or> dpr_flags request \<noteq> 0 then Inl EINVAL
     else
     let output = memset0 output 0 16 in
     let output = put_u64 output 0 (dpr_descriptor_pool_id request) in
     Inr (put_u32 output 8 (dpr_flags request)))"

definition decode_vulkan_descriptor_pool_reset_request ::
  "bytes option \<Rightarrow> vulkan_descriptor_pool_reset_request option \<Rightarrow> vulkan_descriptor_pool_reset_request result" where
  "decode_vulkan_descriptor_pool_reset_request input request = nonnull2 input request (\<lambda>input _.
     if get_u32 input 12 \<noteq> 0 then Inl EINVAL
     else
     let decoded = \<lparr>dpr_descriptor_pool_id = get_u64 input 0, dpr_flags = get_u32 input 8\<rparr> in
     case encode_vulkan_descriptor_pool_reset_request (Some (replicate 16 0)) (Some decoded) of
       Inl _ \<Rightarrow> Inl EPROTO | Inr _ \<Rightarrow> Inr decoded)"

record vulkan_sampler_create_request =
  scr_device_id :: u64
  scr_flags :: u32
  scr_mag_filter :: u32
  scr_min_filter :: u32
  scr_mipmap_mode :: u32
  scr_address_mode_u :: u32
  scr_address_mode_v :: u32
  scr_address_mode_w :: u32
  scr_mip_lod_bias_bits :: u32
  scr_anisotropy_enable :: u32
  scr_max_anisotropy_bits :: u32
  scr_compare_enable :: u32
  scr_compare_op :: u32
  scr_min_lod_bits :: u32
  scr_max_lod_bits :: u32
  scr_border_color :: u32
  scr_unnormalized_coordinates :: u32

definition encode_vulkan_sampler_create_request ::
  "bytes option \<Rightarrow> vulkan_sampler_create_request option \<Rightarrow> bytes result" where
  "encode_vulkan_sampler_create_request output request = nonnull2 output request (\<lambda>output request.
     if \<not> wire_id_is (scr_device_id request) BVB_OBJECT_DEVICE \<or> scr_anisotropy_enable request > 1 \<or>
        scr_compare_enable request > 1 \<or> scr_unnormalized_coordinates request > 1 then Inl EINVAL
     else
     let output = memset0 output 0 72 in
     let output = put_u64 output 0 (scr_device_id request) in
     let words = [scr_flags request, scr_mag_filter request, scr_min_filter request, scr_mipmap_mode request,
       scr_address_mode_u request, scr_address_mode_v request, scr_address_mode_w request,
       scr_mip_lod_bias_bits request, scr_anisotropy_enable request, scr_max_anisotropy_bits request,
       scr_compare_enable request, scr_compare_op request, scr_min_lod_bits request, scr_max_lod_bits request,
       scr_border_color request, scr_unnormalized_coordinates request] in
     Inr (put_each put_u32 4 output 8 words))"

definition decode_vulkan_sampler_create_request ::
  "bytes option \<Rightarrow> vulkan_sampler_create_request option \<Rightarrow> vulkan_sampler_create_request result" where
  "decode_vulkan_sampler_create_request input request = nonnull2 input request (\<lambda>input _.
     let decoded = \<lparr>scr_device_id = get_u64 input 0, scr_flags = get_u32 input 8, scr_mag_filter = get_u32 input 12,
       scr_min_filter = get_u32 input 16, scr_mipmap_mode = get_u32 input 20, scr_address_mode_u = get_u32 input 24,
       scr_address_mode_v = get_u32 input 28, scr_address_mode_w = get_u32 input 32,
       scr_mip_lod_bias_bits = get_u32 input 36, scr_anisotropy_enable = get_u32 input 40,
       scr_max_anisotropy_bits = get_u32 input 44, scr_compare_enable = get_u32 input 48,
       scr_compare_op = get_u32 input 52, scr_min_lod_bits = get_u32 input 56, scr_max_lod_bits = get_u32 input 60,
       scr_border_color = get_u32 input 64, scr_unnormalized_coordinates = get_u32 input 68\<rparr> in
     case encode_vulkan_sampler_create_request (Some (replicate 72 0)) (Some decoded) of
       Inl _ \<Rightarrow> Inl EPROTO | Inr _ \<Rightarrow> Inr decoded)"

definition sampler_create_ok :: "vulkan_sampler_create_request \<Rightarrow> bool" where
  "sampler_create_ok request \<longleftrightarrow> wire_id_is (scr_device_id request) BVB_OBJECT_DEVICE \<and>
     scr_anisotropy_enable request \<le> 1 \<and> scr_compare_enable request \<le> 1 \<and> scr_unnormalized_coordinates request \<le> 1"

interpretation pool_reset: agreed_codec 16
  "\<lambda>request. wire_id_is (dpr_descriptor_pool_id request) BVB_OBJECT_DESCRIPTOR_POOL \<and> dpr_flags request = 0"
  encode_vulkan_descriptor_pool_reset_request decode_vulkan_descriptor_pool_reset_request
  by unfold_locales
    (auto simp: encode_vulkan_descriptor_pool_reset_request_def decode_vulkan_descriptor_pool_reset_request_def
      wire_simps split: codec_splits)

lemma sampler_encodes:
  "encode_vulkan_sampler_create_request (Some b) (Some x) = Inl e \<Longrightarrow> \<not> sampler_create_ok x"
  "encode_vulkan_sampler_create_request (Some b) (Some x) = Inr m \<Longrightarrow> sampler_create_ok x"
  by (auto simp: encode_vulkan_sampler_create_request_def sampler_create_ok_def Let_def not_less not_le split: if_splits)

interpretation sampler_create: agreed_codec 72 sampler_create_ok
  encode_vulkan_sampler_create_request decode_vulkan_sampler_create_request
proof (unfold_locales, goal_cases)
  case (6 x b d)
  let ?m = "put_each put_u32 4 (put_u64 (replicate 72 0) 0 (scr_device_id x)) 8
    [scr_flags x, scr_mag_filter x, scr_min_filter x, scr_mipmap_mode x, scr_address_mode_u x, scr_address_mode_v x,
     scr_address_mode_w x, scr_mip_lod_bias_bits x, scr_anisotropy_enable x, scr_max_anisotropy_bits x,
     scr_compare_enable x, scr_compare_op x, scr_min_lod_bits x, scr_max_lod_bits x, scr_border_color x,
     scr_unnormalized_coordinates x]"
  have enc: "encode_vulkan_sampler_create_request (Some b) (Some x) = Inr ?m" if "length b = 72" for b
    using 6(1) that unfolding encode_vulkan_sampler_create_request_def sampler_create_ok_def Let_def
    by (simp add: memset0_all not_less not_le del: put_each.simps)
  obtain m' where "encode_vulkan_sampler_create_request (Some (replicate 72 0)) (Some x) = Inr m'"
    using enc [of "replicate 72 0"] by simp
  then have "decode_vulkan_sampler_create_request (Some ?m) (Some d) = Inr x"
    unfolding decode_vulkan_sampler_create_request_def Let_def by (cases x) (simp add: wire_simps)
  then show ?case using enc [OF 6(2)] 6(1) by simp
next
  case (7 m d x)
  then show ?case
    by (auto simp: decode_vulkan_sampler_create_request_def Let_def split: sum.splits dest: sampler_encodes)
next
  case (8 m d e)
  then show ?case by (auto simp: decode_vulkan_sampler_create_request_def Let_def split: sum.splits)
next
  case (9 b c x)
  then show ?case
    by (auto simp: encode_vulkan_sampler_create_request_def Let_def wire_simps simp del: put_each.simps)
next
  case (10 m c d)
  then show ?case by (simp add: decode_vulkan_sampler_create_request_def Let_def wire_simps cong: sum.case_cong)
qed (auto simp: encode_vulkan_sampler_create_request_def decode_vulkan_sampler_create_request_def sampler_create_ok_def
    not_less not_le)

end
