(* ===== verification/Descriptor_Update.thy ===== *)
theory Descriptor_Update
  imports Descriptor_Wire
begin

unbundle bit_operations_syntax

section \<open>Descriptor updates\<close>

text \<open>
  The messages of src/src/vulkan_descriptor_wire.c that fill descriptor sets and bind them: writes of
  samplers, update templates and their use, and the binding of sets to a command buffer.
\<close>

abbreviation (input) BVB_OBJECT_IMAGE_VIEW :: "'a::numeral" where "BVB_OBJECT_IMAGE_VIEW \<equiv> 8"
abbreviation (input) BVB_OBJECT_COMMAND_BUFFER :: "'a::numeral" where "BVB_OBJECT_COMMAND_BUFFER \<equiv> 11"
abbreviation (input) BVB_OBJECT_PIPELINE_LAYOUT :: "'a::numeral" where "BVB_OBJECT_PIPELINE_LAYOUT \<equiv> 15"
abbreviation (input) BVB_OBJECT_SAMPLER :: "'a::numeral" where "BVB_OBJECT_SAMPLER \<equiv> 23"
abbreviation (input) BVB_OBJECT_DESCRIPTOR_UPDATE_TEMPLATE :: "'a::numeral" where
  "BVB_OBJECT_DESCRIPTOR_UPDATE_TEMPLATE \<equiv> 24"
abbreviation (input) MAX_DESCRIPTOR_UPDATE_TEMPLATE_ENTRIES :: "'a::numeral" where
  "MAX_DESCRIPTOR_UPDATE_TEMPLATE_ENTRIES \<equiv> 32"
abbreviation (input) MAX_DESCRIPTOR_UPDATE_TEMPLATE_DATA_SIZE :: "'a::numeral" where
  "MAX_DESCRIPTOR_UPDATE_TEMPLATE_DATA_SIZE \<equiv> 1048576"
abbreviation (input) MAX_DESCRIPTOR_TEMPLATE_VALUES :: "'a::numeral" where "MAX_DESCRIPTOR_TEMPLATE_VALUES \<equiv> 64"
abbreviation (input) MAX_BOUND_DESCRIPTOR_SETS :: "'a::numeral" where "MAX_BOUND_DESCRIPTOR_SETS \<equiv> 8"
abbreviation (input) MAX_DYNAMIC_OFFSETS :: "'a::numeral" where "MAX_DYNAMIC_OFFSETS \<equiv> 32"
abbreviation (input) MAX_DESCRIPTOR_WRITES :: "'a::numeral" where "MAX_DESCRIPTOR_WRITES \<equiv> 32"
abbreviation (input) MAX_DESCRIPTOR_SAMPLERS :: "'a::numeral" where "MAX_DESCRIPTOR_SAMPLERS \<equiv> 128"

subsection \<open>Update templates\<close>

record vulkan_descriptor_update_template_entry =
  dute_dst_binding :: u32
  dute_dst_array_element :: u32
  dute_descriptor_count :: u32
  dute_descriptor_type :: u32
  dute_offset :: u64
  dute_stride :: u64

record vulkan_descriptor_update_template_create_request =
  dutc_device_id :: u64
  dutc_flags :: u32
  dutc_entry_count :: u32
  dutc_template_type :: u32
  dutc_set :: u32
  dutc_descriptor_set_layout_id :: u64
  dutc_pipeline_layout_id :: u64
  dutc_pipeline_bind_point :: u32
  dutc_entries :: "vulkan_descriptor_update_template_entry list"

definition descriptor_template_entry_is_bounded :: "vulkan_descriptor_update_template_entry \<Rightarrow> bool" where
  "descriptor_template_entry_is_bounded entry =
     (if dute_descriptor_count entry = 0 \<or> dute_descriptor_type entry > 10 \<or> dute_stride entry = 0 \<or>
         dute_offset entry \<ge> MAX_DESCRIPTOR_UPDATE_TEMPLATE_DATA_SIZE \<or>
         dute_stride entry > MAX_DESCRIPTOR_UPDATE_TEMPLATE_DATA_SIZE then False
      else
      let remaining = ucast (dute_descriptor_count entry) - 1 :: u64 in
      remaining \<le> (MAX_DESCRIPTOR_UPDATE_TEMPLATE_DATA_SIZE - 1 - dute_offset entry) div dute_stride entry)"

definition put_template_entry :: "bytes \<Rightarrow> nat \<Rightarrow> vulkan_descriptor_update_template_entry \<Rightarrow> bytes" where
  "put_template_entry output cursor entry =
     (let output = put_u32 output cursor (dute_dst_binding entry) in
      let output = put_u32 output (cursor + 4) (dute_dst_array_element entry) in
      let output = put_u32 output (cursor + 8) (dute_descriptor_count entry) in
      let output = put_u32 output (cursor + 12) (dute_descriptor_type entry) in
      let output = put_u64 output (cursor + 16) (dute_offset entry) in
      put_u64 output (cursor + 24) (dute_stride entry))"

definition get_template_entry :: "bytes \<Rightarrow> nat \<Rightarrow> vulkan_descriptor_update_template_entry" where
  "get_template_entry input cursor =
     \<lparr>dute_dst_binding = get_u32 input cursor, dute_dst_array_element = get_u32 input (cursor + 4),
      dute_descriptor_count = get_u32 input (cursor + 8), dute_descriptor_type = get_u32 input (cursor + 12),
      dute_offset = get_u64 input (cursor + 16), dute_stride = get_u64 input (cursor + 24)\<rparr>"

definition no_template_entry :: vulkan_descriptor_update_template_entry where
  "no_template_entry = \<lparr>dute_dst_binding = 0, dute_dst_array_element = 0, dute_descriptor_count = 0,
     dute_descriptor_type = 0, dute_offset = 0, dute_stride = 0\<rparr>"

definition encode_vulkan_descriptor_update_template_create_request ::
  "bytes option \<Rightarrow> vulkan_descriptor_update_template_create_request option \<Rightarrow> u32 option \<Rightarrow> (bytes \<times> u32) result" where
  "encode_vulkan_descriptor_update_template_create_request output request output_length =
     nonnull3 output request output_length (\<lambda>output request _.
     if \<not> wire_id_is (dutc_device_id request) BVB_OBJECT_DEVICE \<or>
        \<not> wire_id_is (dutc_descriptor_set_layout_id request) BVB_OBJECT_DESCRIPTOR_SET_LAYOUT \<or>
        dutc_flags request \<noteq> 0 \<or> dutc_entry_count request = 0 \<or>
        dutc_entry_count request > MAX_DESCRIPTOR_UPDATE_TEMPLATE_ENTRIES \<or> dutc_template_type request \<noteq> 0 \<or>
        dutc_set request \<noteq> 0 \<or> dutc_pipeline_layout_id request \<noteq> 0 \<or> dutc_pipeline_bind_point request \<noteq> 0 then Inl EINVAL
     else
     let len = 48 + dutc_entry_count request * 32;
         entries = take (unat (dutc_entry_count request)) (dutc_entries request) in
     let output = memset0 output 0 (unat len) in
     let output = put_u64 output 0 (dutc_device_id request) in
     let output = put_u32 output 8 (dutc_flags request) in
     let output = put_u32 output 12 (dutc_entry_count request) in
     let output = put_u32 output 16 (dutc_template_type request) in
     let output = put_u32 output 20 (dutc_set request) in
     let output = put_u64 output 24 (dutc_descriptor_set_layout_id request) in
     let output = put_u64 output 32 (dutc_pipeline_layout_id request) in
     let output = put_u32 output 40 (dutc_pipeline_bind_point request) in
     if \<not> list_all descriptor_template_entry_is_bounded entries then Inl EINVAL
     else Inr (put_each put_template_entry 32 output 48 entries, len))"

definition view_descriptor_update_template_create :: "bytes \<Rightarrow> vulkan_descriptor_update_template_create_request" where
  "view_descriptor_update_template_create input =
     \<lparr>dutc_device_id = get_u64 input 0, dutc_flags = get_u32 input 8, dutc_entry_count = get_u32 input 12,
      dutc_template_type = get_u32 input 16, dutc_set = get_u32 input 20,
      dutc_descriptor_set_layout_id = get_u64 input 24, dutc_pipeline_layout_id = get_u64 input 32,
      dutc_pipeline_bind_point = get_u32 input 40,
      dutc_entries = fill_to MAX_DESCRIPTOR_UPDATE_TEMPLATE_ENTRIES no_template_entry
        (get_each get_template_entry 32 input 48 (unat (get_u32 input 12)))\<rparr>"

definition decode_vulkan_descriptor_update_template_create_request ::
  "bytes option \<Rightarrow> u32 \<Rightarrow> vulkan_descriptor_update_template_create_request option \<Rightarrow>
   vulkan_descriptor_update_template_create_request result" where
  "decode_vulkan_descriptor_update_template_create_request input input_length request = nonnull2 input request (\<lambda>input _.
     if input_length < 48 \<or> get_u32 input 44 \<noteq> 0 then Inl EINVAL
     else if get_u32 input 12 = 0 \<or> get_u32 input 12 > MAX_DESCRIPTOR_UPDATE_TEMPLATE_ENTRIES \<or>
        input_length \<noteq> 48 + get_u32 input 12 * 32 then Inl EPROTO
     else
     let decoded = view_descriptor_update_template_create input in
     if \<not> recheck_bytes encode_vulkan_descriptor_update_template_create_request BVB_PROTOCOL_MAX_PAYLOAD decoded
         input input_length then Inl EPROTO
     else Inr decoded)"

definition template_create_ok :: "vulkan_descriptor_update_template_create_request \<Rightarrow> bool" where
  "template_create_ok request \<longleftrightarrow>
     wire_id_is (dutc_device_id request) BVB_OBJECT_DEVICE \<and>
     wire_id_is (dutc_descriptor_set_layout_id request) BVB_OBJECT_DESCRIPTOR_SET_LAYOUT \<and>
     dutc_flags request = 0 \<and> dutc_entry_count request \<noteq> 0 \<and>
     dutc_entry_count request \<le> MAX_DESCRIPTOR_UPDATE_TEMPLATE_ENTRIES \<and> dutc_template_type request = 0 \<and>
     dutc_set request = 0 \<and> dutc_pipeline_layout_id request = 0 \<and> dutc_pipeline_bind_point request = 0 \<and>
     list_all descriptor_template_entry_is_bounded (take (unat (dutc_entry_count request)) (dutc_entries request))"

interpretation template_entry: entry_field 32 put_template_entry get_template_entry 32 "\<lambda>_ _. True"
proof (unfold_locales, goal_cases)
  case (4 i b c)
  then have "agree i 32 b c" by (auto simp: agree_def)
  then show ?case by (simp add: get_template_entry_def agree_reads agree_reads_0)
next
  case (8 i b m)
  then show ?case
    unfolding put_template_entry_def Let_def get_template_entry_def by (auto intro!: covers_put_u32 covers_put_u64)
qed (auto simp: put_template_entry_def get_template_entry_def Let_def wire_simps nth_put)

lemma template_create_length: "c \<le> 32 \<Longrightarrow> unat (48 + c * 32 :: u32) = 48 + unat c * 32"
  using unat_length [of c 32 48 32] by (simp add: word_le_nat_alt)

interpretation template_create: rechecked True BVB_PROTOCOL_MAX_PAYLOAD
  "\<lambda>request. length (dutc_entries request) = MAX_DESCRIPTOR_UPDATE_TEMPLATE_ENTRIES" template_create_ok
  "\<lambda>request. request\<lparr>dutc_entries := fill_to MAX_DESCRIPTOR_UPDATE_TEMPLATE_ENTRIES no_template_entry
     (take (unat (dutc_entry_count request)) (dutc_entries request))\<rparr>"
  "\<lambda>request. 48 + dutc_entry_count request * 32"
  "\<lambda>output request. put_each put_template_entry 32
     (put_u32 (put_u64 (put_u64 (put_u32 (put_u32 (put_u32 (put_u32 (put_u64 output 0 (dutc_device_id request))
        8 (dutc_flags request)) 12 (dutc_entry_count request)) 16 (dutc_template_type request)) 20 (dutc_set request))
        24 (dutc_descriptor_set_layout_id request)) 32 (dutc_pipeline_layout_id request))
        40 (dutc_pipeline_bind_point request))
     48 (take (unat (dutc_entry_count request)) (dutc_entries request))"
  "\<lambda>m n. refusal (n < 48 \<or> get_u32 m 44 \<noteq> 0)
     (get_u32 m 12 = 0 \<or> get_u32 m 12 > MAX_DESCRIPTOR_UPDATE_TEMPLATE_ENTRIES \<or> n \<noteq> 48 + get_u32 m 12 * 32)"
  view_descriptor_update_template_create
  encode_vulkan_descriptor_update_template_create_request decode_vulkan_descriptor_update_template_create_request
proof (unfold_locales, goal_cases)
  case (8 m n d)
  then show ?case
    by (auto simp: decode_vulkan_descriptor_update_template_create_request_def Let_def refusal_case recheck_bytes_recheck)
next
  case (19 m n)
  let ?c = "unat (get_u32 m 12)"
  have n: "unat n = 48 + ?c * 32" "?c \<le> 32" "get_u32 m 44 = 0" "48 + get_u32 m 12 * 32 = n"
    using 19(2) by (auto simp: refusal_None template_create_length not_less word_le_nat_alt)
  show ?case
    by (rule conjI [OF _ template_entry.each_covers [where n = ?c, OF covers_skip [where i = 44]]], goal_cases,
        simp add: n(4) view_descriptor_update_template_create_def,
        rule covers_put_u32, (rule covers_put_u64)+, (rule covers_put_u32)+, rule covers_put_u64, rule covers_start,
        use 19 n in \<open>simp_all add: view_descriptor_update_template_create_def take_fill_to\<close>)
qed (auto simp: encode_vulkan_descriptor_update_template_create_request_def
    decode_vulkan_descriptor_update_template_create_request_def view_descriptor_update_template_create_def
    template_create_ok_def template_create_length template_entry.each_simps message_simps split: if_splits)


text \<open>The descriptors of an entry that passes the check all start inside the data block.\<close>

lemma template_entry_inside:
  assumes "descriptor_template_entry_is_bounded entry" "k < unat (dute_descriptor_count entry)"
  shows "unat (dute_offset entry) + k * unat (dute_stride entry) < MAX_DESCRIPTOR_UPDATE_TEMPLATE_DATA_SIZE"
proof -
  let ?c = "dute_descriptor_count entry" and ?o = "unat (dute_offset entry)" and ?s = "unat (dute_stride entry)"
  have b: "?c \<noteq> 0" "?o < 1048576" "0 < ?s"
    "ucast ?c - 1 \<le> (1048575 - dute_offset entry) div dute_stride entry"
    using assms(1) by (auto simp: descriptor_template_entry_is_bounded_def word_less_nat_alt word_le_nat_alt not_le
        unat_gt_0 Let_def split: if_splits)
  have "unat (ucast ?c - 1 :: u64) = unat ?c - 1"
  proof -
    have u: "unat (ucast ?c :: u64) = unat ?c"
      using unsigned_less [of ?c, where ?'a = nat] by (simp add: unsigned_ucast_eq take_bit_nat_eq_self_iff)
    then have "(ucast ?c :: u64) \<noteq> 0" using b(1) by (metis unat_eq_zero)
    then show ?thesis using u by (simp add: unat_minus_one)
  qed
  moreover have "unat ((1048575 - dute_offset entry) div dute_stride entry) = (1048575 - ?o) div ?s"
    using b(2) by (simp add: unat_div unat_sub word_le_nat_alt)
  ultimately have "unat ?c - 1 \<le> (1048575 - ?o) div ?s" using b(4) by (simp add: word_le_nat_alt)
  then have "k \<le> (1048575 - ?o) div ?s" using assms(2) by simp
  then have "k * ?s \<le> (1048575 - ?o) div ?s * ?s" by (rule mult_le_mono1)
  also have "\<dots> \<le> 1048575 - ?o" by simp
  finally show ?thesis using b(2) by simp
qed

subsection \<open>Updates by template\<close>

record vulkan_descriptor_template_value =
  dtv_descriptor_type :: u32
  dtv_image_layout :: u32
  dtv_object_id :: u64
  dtv_auxiliary_object_id :: u64
  dtv_offset :: u64
  dtv_range :: u64

record vulkan_descriptor_template_update_request =
  dtu_device_id :: u64
  dtu_descriptor_set_id :: u64
  dtu_descriptor_update_template_id :: u64
  dtu_value_count :: u32
  dtu_values :: "vulkan_descriptor_template_value list"

definition descriptor_template_value_is_canonical :: "vulkan_descriptor_template_value \<Rightarrow> bool" where
  "descriptor_template_value_is_canonical value =
     (let type = dtv_descriptor_type value; object_id = dtv_object_id value;
          auxiliary_object_id = dtv_auxiliary_object_id value; image_layout = dtv_image_layout value;
          offset = dtv_offset value; extent = dtv_range value in
      if type > 10 then False
      else if type = 0 then
        (object_id = 0 \<or> wire_id_is object_id BVB_OBJECT_SAMPLER) \<and> auxiliary_object_id = 0 \<and> image_layout = 0 \<and>
        offset = 0 \<and> extent = 0
      else if type = 1 then
        (object_id = 0 \<or> wire_id_is object_id BVB_OBJECT_IMAGE_VIEW) \<and>
        (auxiliary_object_id = 0 \<or> wire_id_is auxiliary_object_id BVB_OBJECT_SAMPLER) \<and> offset = 0 \<and> extent = 0
      else if type = 2 \<or> type = 3 \<or> type = 10 then
        (object_id = 0 \<or> wire_id_is object_id BVB_OBJECT_IMAGE_VIEW) \<and> auxiliary_object_id = 0 \<and> offset = 0 \<and> extent = 0
      else if type = 4 \<or> type = 5 then
        object_id = 0 \<and> auxiliary_object_id = 0 \<and> image_layout = 0 \<and> offset = 0 \<and> extent = 0
      else if type = 6 \<or> type = 7 \<or> type = 8 \<or> type = 9 then
        (object_id = 0 \<or> wire_id_is object_id BVB_OBJECT_BUFFER) \<and> auxiliary_object_id = 0 \<and> image_layout = 0
      else False)"

definition put_template_value :: "bytes \<Rightarrow> nat \<Rightarrow> vulkan_descriptor_template_value \<Rightarrow> bytes" where
  "put_template_value output cursor value =
     (let output = put_u32 output cursor (dtv_descriptor_type value) in
      let output = put_u32 output (cursor + 4) (dtv_image_layout value) in
      let output = put_u64 output (cursor + 8) (dtv_object_id value) in
      let output = put_u64 output (cursor + 16) (dtv_auxiliary_object_id value) in
      let output = put_u64 output (cursor + 24) (dtv_offset value) in
      put_u64 output (cursor + 32) (dtv_range value))"

definition get_template_value :: "bytes \<Rightarrow> nat \<Rightarrow> vulkan_descriptor_template_value" where
  "get_template_value input cursor =
     \<lparr>dtv_descriptor_type = get_u32 input cursor, dtv_image_layout = get_u32 input (cursor + 4),
      dtv_object_id = get_u64 input (cursor + 8), dtv_auxiliary_object_id = get_u64 input (cursor + 16),
      dtv_offset = get_u64 input (cursor + 24), dtv_range = get_u64 input (cursor + 32)\<rparr>"

definition no_template_value :: vulkan_descriptor_template_value where
  "no_template_value = \<lparr>dtv_descriptor_type = 0, dtv_image_layout = 0, dtv_object_id = 0,
     dtv_auxiliary_object_id = 0, dtv_offset = 0, dtv_range = 0\<rparr>"

definition encode_vulkan_descriptor_template_update_request ::
  "bytes option \<Rightarrow> vulkan_descriptor_template_update_request option \<Rightarrow> u32 option \<Rightarrow> (bytes \<times> u32) result" where
  "encode_vulkan_descriptor_template_update_request output request output_length =
     nonnull3 output request output_length (\<lambda>output request _.
     if \<not> wire_id_is (dtu_device_id request) BVB_OBJECT_DEVICE \<or>
        \<not> wire_id_is (dtu_descriptor_set_id request) BVB_OBJECT_DESCRIPTOR_SET \<or>
        \<not> wire_id_is (dtu_descriptor_update_template_id request) BVB_OBJECT_DESCRIPTOR_UPDATE_TEMPLATE \<or>
        dtu_value_count request = 0 \<or> dtu_value_count request > MAX_DESCRIPTOR_TEMPLATE_VALUES then Inl EINVAL
     else
     let len = 32 + dtu_value_count request * 40;
         vals = take (unat (dtu_value_count request)) (dtu_values request) in
     let output = memset0 output 0 (unat len) in
     let output = put_u64 output 0 (dtu_device_id request) in
     let output = put_u64 output 8 (dtu_descriptor_set_id request) in
     let output = put_u64 output 16 (dtu_descriptor_update_template_id request) in
     let output = put_u32 output 24 (dtu_value_count request) in
     if \<not> list_all descriptor_template_value_is_canonical vals then Inl EINVAL
     else Inr (put_each put_template_value 40 output 32 vals, len))"

definition view_descriptor_template_update :: "bytes \<Rightarrow> vulkan_descriptor_template_update_request" where
  "view_descriptor_template_update input =
     \<lparr>dtu_device_id = get_u64 input 0, dtu_descriptor_set_id = get_u64 input 8,
      dtu_descriptor_update_template_id = get_u64 input 16, dtu_value_count = get_u32 input 24,
      dtu_values = fill_to MAX_DESCRIPTOR_TEMPLATE_VALUES no_template_value
        (get_each get_template_value 40 input 32 (unat (get_u32 input 24)))\<rparr>"

definition decode_vulkan_descriptor_template_update_request ::
  "bytes option \<Rightarrow> u32 \<Rightarrow> vulkan_descriptor_template_update_request option \<Rightarrow>
   vulkan_descriptor_template_update_request result" where
  "decode_vulkan_descriptor_template_update_request input input_length request = nonnull2 input request (\<lambda>input _.
     if input_length < 32 \<or> get_u32 input 28 \<noteq> 0 then Inl EINVAL
     else if get_u32 input 24 = 0 \<or> get_u32 input 24 > MAX_DESCRIPTOR_TEMPLATE_VALUES \<or>
        input_length \<noteq> 32 + get_u32 input 24 * 40 then Inl EPROTO
     else
     let decoded = view_descriptor_template_update input in
     if \<not> recheck_bytes encode_vulkan_descriptor_template_update_request BVB_PROTOCOL_MAX_PAYLOAD decoded
         input input_length then Inl EPROTO
     else Inr decoded)"

definition template_update_ok :: "vulkan_descriptor_template_update_request \<Rightarrow> bool" where
  "template_update_ok request \<longleftrightarrow>
     wire_id_is (dtu_device_id request) BVB_OBJECT_DEVICE \<and>
     wire_id_is (dtu_descriptor_set_id request) BVB_OBJECT_DESCRIPTOR_SET \<and>
     wire_id_is (dtu_descriptor_update_template_id request) BVB_OBJECT_DESCRIPTOR_UPDATE_TEMPLATE \<and>
     dtu_value_count request \<noteq> 0 \<and> dtu_value_count request \<le> MAX_DESCRIPTOR_TEMPLATE_VALUES \<and>
     list_all descriptor_template_value_is_canonical (take (unat (dtu_value_count request)) (dtu_values request))"

interpretation template_value: entry_field 40 put_template_value get_template_value 40 "\<lambda>_ _. True"
proof (unfold_locales, goal_cases)
  case (4 i b c)
  then have "agree i 40 b c" by (auto simp: agree_def)
  then show ?case by (simp add: get_template_value_def agree_reads agree_reads_0)
next
  case (8 i b m)
  then show ?case
    unfolding put_template_value_def Let_def get_template_value_def by (auto intro!: covers_put_u32 covers_put_u64)
qed (auto simp: put_template_value_def get_template_value_def Let_def wire_simps nth_put)

lemma template_update_length: "c \<le> 64 \<Longrightarrow> unat (32 + c * 40 :: u32) = 32 + unat c * 40"
  using unat_length [of c 64 32 40] by (simp add: word_le_nat_alt)

interpretation template_update: rechecked True BVB_PROTOCOL_MAX_PAYLOAD
  "\<lambda>request. length (dtu_values request) = MAX_DESCRIPTOR_TEMPLATE_VALUES" template_update_ok
  "\<lambda>request. request\<lparr>dtu_values := fill_to MAX_DESCRIPTOR_TEMPLATE_VALUES no_template_value
     (take (unat (dtu_value_count request)) (dtu_values request))\<rparr>"
  "\<lambda>request. 32 + dtu_value_count request * 40"
  "\<lambda>output request. put_each put_template_value 40
     (put_u32 (put_u64 (put_u64 (put_u64 output 0 (dtu_device_id request)) 8 (dtu_descriptor_set_id request))
        16 (dtu_descriptor_update_template_id request)) 24 (dtu_value_count request))
     32 (take (unat (dtu_value_count request)) (dtu_values request))"
  "\<lambda>m n. refusal (n < 32 \<or> get_u32 m 28 \<noteq> 0)
     (get_u32 m 24 = 0 \<or> get_u32 m 24 > MAX_DESCRIPTOR_TEMPLATE_VALUES \<or> n \<noteq> 32 + get_u32 m 24 * 40)"
  view_descriptor_template_update
  encode_vulkan_descriptor_template_update_request decode_vulkan_descriptor_template_update_request
proof (unfold_locales, goal_cases)
  case (8 m n d)
  then show ?case
    by (auto simp: decode_vulkan_descriptor_template_update_request_def Let_def refusal_case recheck_bytes_recheck)
next
  case (19 m n)
  let ?c = "unat (get_u32 m 24)"
  have n: "unat n = 32 + ?c * 40" "?c \<le> 64" "get_u32 m 28 = 0" "32 + get_u32 m 24 * 40 = n"
    using 19(2) by (auto simp: refusal_None template_update_length not_less word_le_nat_alt)
  show ?case
    by (rule conjI [OF _ template_value.each_covers [where n = ?c, OF covers_skip [where i = 28]]], goal_cases,
        simp add: n(4) view_descriptor_template_update_def,
        rule covers_put_u32, (rule covers_put_u64)+, rule covers_start,
        use 19 n in \<open>simp_all add: view_descriptor_template_update_def take_fill_to\<close>)
qed (auto simp: encode_vulkan_descriptor_template_update_request_def
    decode_vulkan_descriptor_template_update_request_def view_descriptor_template_update_def
    template_update_ok_def template_update_length template_value.each_simps message_simps split: if_splits)

subsection \<open>Binding descriptor sets\<close>

record vulkan_bind_descriptor_sets_request =
  bds_command_buffer_id :: u64
  bds_pipeline_layout_id :: u64
  bds_pipeline_bind_point :: u32
  bds_first_set :: u32
  bds_descriptor_set_count :: u32
  bds_dynamic_offset_count :: u32
  bds_descriptor_set_ids :: "u64 list"
  bds_dynamic_offsets :: "u32 list"

definition bind_sets_length :: "u32 \<Rightarrow> u32 \<Rightarrow> u32" where
  "bind_sets_length sets offsets = 32 + sets * 8 + offsets * 4"

definition encode_vulkan_bind_descriptor_sets_request ::
  "bytes option \<Rightarrow> vulkan_bind_descriptor_sets_request option \<Rightarrow> u32 option \<Rightarrow> (bytes \<times> u32) result" where
  "encode_vulkan_bind_descriptor_sets_request output request output_length =
     nonnull3 output request output_length (\<lambda>output request _.
     if \<not> wire_id_is (bds_command_buffer_id request) BVB_OBJECT_COMMAND_BUFFER \<or>
        \<not> wire_id_is (bds_pipeline_layout_id request) BVB_OBJECT_PIPELINE_LAYOUT \<or>
        bds_pipeline_bind_point request > 1 \<or> bds_descriptor_set_count request = 0 \<or>
        bds_descriptor_set_count request > MAX_BOUND_DESCRIPTOR_SETS \<or>
        bds_dynamic_offset_count request > MAX_DYNAMIC_OFFSETS then Inl EINVAL
     else
     let len = bind_sets_length (bds_descriptor_set_count request) (bds_dynamic_offset_count request);
         ids = take (unat (bds_descriptor_set_count request)) (bds_descriptor_set_ids request);
         offsets = take (unat (bds_dynamic_offset_count request)) (bds_dynamic_offsets request) in
     let output = memset0 output 0 (unat len) in
     let output = put_u64 output 0 (bds_command_buffer_id request) in
     let output = put_u64 output 8 (bds_pipeline_layout_id request) in
     let output = put_u32 output 16 (bds_pipeline_bind_point request) in
     let output = put_u32 output 20 (bds_first_set request) in
     let output = put_u32 output 24 (bds_descriptor_set_count request) in
     let output = put_u32 output 28 (bds_dynamic_offset_count request) in
     if \<not> list_all (\<lambda>i. wire_id_is i BVB_OBJECT_DESCRIPTOR_SET) ids then Inl EINVAL
     else
     let output = put_each put_u64 8 output 32 ids; cursor = 32 + unat (bds_descriptor_set_count request) * 8 in
     Inr (put_each put_u32 4 output cursor offsets, len))"

definition view_bind_descriptor_sets :: "bytes \<Rightarrow> vulkan_bind_descriptor_sets_request" where
  "view_bind_descriptor_sets input =
     (let sets = unat (get_u32 input 24); offsets = unat (get_u32 input 28) in
      \<lparr>bds_command_buffer_id = get_u64 input 0, bds_pipeline_layout_id = get_u64 input 8,
       bds_pipeline_bind_point = get_u32 input 16, bds_first_set = get_u32 input 20,
       bds_descriptor_set_count = get_u32 input 24, bds_dynamic_offset_count = get_u32 input 28,
       bds_descriptor_set_ids = fill_to MAX_BOUND_DESCRIPTOR_SETS 0 (get_each get_u64 8 input 32 sets),
       bds_dynamic_offsets = fill_to MAX_DYNAMIC_OFFSETS 0 (get_each get_u32 4 input (32 + sets * 8) offsets)\<rparr>)"

definition decode_vulkan_bind_descriptor_sets_request ::
  "bytes option \<Rightarrow> u32 \<Rightarrow> vulkan_bind_descriptor_sets_request option \<Rightarrow> vulkan_bind_descriptor_sets_request result" where
  "decode_vulkan_bind_descriptor_sets_request input input_length request = nonnull2 input request (\<lambda>input _.
     if input_length < 32 then Inl EINVAL
     else if get_u32 input 24 = 0 \<or> get_u32 input 24 > MAX_BOUND_DESCRIPTOR_SETS \<or>
        get_u32 input 28 > MAX_DYNAMIC_OFFSETS \<or>
        input_length \<noteq> bind_sets_length (get_u32 input 24) (get_u32 input 28) then Inl EPROTO
     else
     let decoded = view_bind_descriptor_sets input in
     if \<not> recheck_bytes encode_vulkan_bind_descriptor_sets_request BVB_PROTOCOL_MAX_PAYLOAD decoded
         input input_length then Inl EPROTO
     else Inr decoded)"

definition bind_sets_ok :: "vulkan_bind_descriptor_sets_request \<Rightarrow> bool" where
  "bind_sets_ok request \<longleftrightarrow>
     wire_id_is (bds_command_buffer_id request) BVB_OBJECT_COMMAND_BUFFER \<and>
     wire_id_is (bds_pipeline_layout_id request) BVB_OBJECT_PIPELINE_LAYOUT \<and>
     bds_pipeline_bind_point request \<le> 1 \<and> bds_descriptor_set_count request \<noteq> 0 \<and>
     bds_descriptor_set_count request \<le> MAX_BOUND_DESCRIPTOR_SETS \<and>
     bds_dynamic_offset_count request \<le> MAX_DYNAMIC_OFFSETS \<and>
     list_all (\<lambda>i. wire_id_is i BVB_OBJECT_DESCRIPTOR_SET)
       (take (unat (bds_descriptor_set_count request)) (bds_descriptor_set_ids request))"

definition bind_sets_norm :: "vulkan_bind_descriptor_sets_request \<Rightarrow> vulkan_bind_descriptor_sets_request" where
  "bind_sets_norm request = request\<lparr>
     bds_descriptor_set_ids := fill_to MAX_BOUND_DESCRIPTOR_SETS 0
       (take (unat (bds_descriptor_set_count request)) (bds_descriptor_set_ids request)),
     bds_dynamic_offsets := fill_to MAX_DYNAMIC_OFFSETS 0
       (take (unat (bds_dynamic_offset_count request)) (bds_dynamic_offsets request))\<rparr>"

lemma bind_length: "c \<le> 8 \<Longrightarrow> k \<le> 32 \<Longrightarrow> unat (bind_sets_length c k) = 32 + unat c * 8 + unat k * 4"
  using unat_length [of c 8 32 8] unat_length [of k 32 0 4]
  by (simp add: bind_sets_length_def word_le_nat_alt unat_word_ariths(1) [of "32 + c * 8"])

interpretation bind_sets: rechecked True BVB_PROTOCOL_MAX_PAYLOAD
  "\<lambda>request. length (bds_descriptor_set_ids request) = MAX_BOUND_DESCRIPTOR_SETS \<and>
     length (bds_dynamic_offsets request) = MAX_DYNAMIC_OFFSETS" bind_sets_ok bind_sets_norm
  "\<lambda>request. bind_sets_length (bds_descriptor_set_count request) (bds_dynamic_offset_count request)"
  "\<lambda>output request. put_each put_u32 4 (put_each put_u64 8
     (put_u32 (put_u32 (put_u32 (put_u32 (put_u64 (put_u64 output 0 (bds_command_buffer_id request))
        8 (bds_pipeline_layout_id request)) 16 (bds_pipeline_bind_point request)) 20 (bds_first_set request))
        24 (bds_descriptor_set_count request)) 28 (bds_dynamic_offset_count request))
     32 (take (unat (bds_descriptor_set_count request)) (bds_descriptor_set_ids request)))
     (32 + unat (bds_descriptor_set_count request) * 8)
     (take (unat (bds_dynamic_offset_count request)) (bds_dynamic_offsets request))"
  "\<lambda>m n. refusal (n < 32) (get_u32 m 24 = 0 \<or> get_u32 m 24 > MAX_BOUND_DESCRIPTOR_SETS \<or>
     get_u32 m 28 > MAX_DYNAMIC_OFFSETS \<or> n \<noteq> bind_sets_length (get_u32 m 24) (get_u32 m 28))"
  view_bind_descriptor_sets encode_vulkan_bind_descriptor_sets_request decode_vulkan_bind_descriptor_sets_request
proof (unfold_locales, goal_cases)
  case (8 m n d)
  then show ?case
    by (auto simp: decode_vulkan_bind_descriptor_sets_request_def Let_def refusal_case recheck_bytes_recheck)
next
  case (19 m n)
  let ?c = "unat (get_u32 m 24)" and ?k = "unat (get_u32 m 28)"
  have n: "unat n = 32 + ?c * 8 + ?k * 4" "?c \<le> 8" "?k \<le> 32" "bind_sets_length (get_u32 m 24) (get_u32 m 28) = n"
    using 19(2) by (auto simp: refusal_None bind_length not_less word_le_nat_alt)
  show ?case
    by (rule conjI [OF _ u32_entry.each_covers [where n = ?k, OF u64_entry.each_covers [where n = ?c]]], goal_cases,
        simp add: n(4) view_bind_descriptor_sets_def Let_def,
        (rule covers_put_u32)+, (rule covers_put_u64)+, rule covers_start,
        use 19 n in \<open>simp_all add: view_bind_descriptor_sets_def Let_def take_fill_to\<close>)
qed (auto simp: encode_vulkan_bind_descriptor_sets_request_def decode_vulkan_bind_descriptor_sets_request_def
    view_bind_descriptor_sets_def bind_sets_ok_def bind_sets_norm_def bind_length message_simps split: if_splits)


subsection \<open>Writes of samplers\<close>

record vulkan_descriptor_write =
  dw_descriptor_set_id :: u64
  dw_dst_binding :: u32
  dw_dst_array_element :: u32
  dw_descriptor_count :: u32
  dw_descriptor_type :: u32
  dw_first_sampler :: u32

record vulkan_descriptor_update_request =
  du_device_id :: u64
  du_write_count :: u32
  du_sampler_count :: u32
  du_writes :: "vulkan_descriptor_write list"
  du_sampler_ids :: "u64 list"

definition put_descriptor_write :: "bytes \<Rightarrow> nat \<Rightarrow> vulkan_descriptor_write \<Rightarrow> bytes" where
  "put_descriptor_write output cursor write =
     (let output = put_u64 output cursor (dw_descriptor_set_id write) in
      let output = put_u32 output (cursor + 8) (dw_dst_binding write) in
      let output = put_u32 output (cursor + 12) (dw_dst_array_element write) in
      let output = put_u32 output (cursor + 16) (dw_descriptor_count write) in
      let output = put_u32 output (cursor + 20) (dw_descriptor_type write) in
      put_u32 output (cursor + 24) (dw_first_sampler write))"

definition get_descriptor_write :: "bytes \<Rightarrow> nat \<Rightarrow> vulkan_descriptor_write" where
  "get_descriptor_write input cursor =
     \<lparr>dw_descriptor_set_id = get_u64 input cursor, dw_dst_binding = get_u32 input (cursor + 8),
      dw_dst_array_element = get_u32 input (cursor + 12), dw_descriptor_count = get_u32 input (cursor + 16),
      dw_descriptor_type = get_u32 input (cursor + 20), dw_first_sampler = get_u32 input (cursor + 24)\<rparr>"

definition no_descriptor_write :: vulkan_descriptor_write where
  "no_descriptor_write = \<lparr>dw_descriptor_set_id = 0, dw_dst_binding = 0, dw_dst_array_element = 0,
     dw_descriptor_count = 0, dw_descriptor_type = 0, dw_first_sampler = 0\<rparr>"

text \<open>The samplers of a write are a range of the table that follows the writes.\<close>

definition descriptor_write_ok :: "u32 \<Rightarrow> vulkan_descriptor_write \<Rightarrow> bool" where
  "descriptor_write_ok sampler_count write \<longleftrightarrow>
     \<not> (\<not> wire_id_is (dw_descriptor_set_id write) BVB_OBJECT_DESCRIPTOR_SET \<or> dw_descriptor_count write = 0 \<or>
        dw_first_sampler write \<ge> sampler_count \<or> dw_descriptor_count write > sampler_count - dw_first_sampler write)"

lemma descriptor_write_range:
  "descriptor_write_ok sampler_count write \<Longrightarrow>
     unat (dw_first_sampler write) + unat (dw_descriptor_count write) \<le> unat sampler_count"
  by (auto simp: descriptor_write_ok_def word_le_nat_alt not_le unat_sub word_less_nat_alt)

definition update_length :: "u32 \<Rightarrow> u32 \<Rightarrow> u32" where
  "update_length writes samplers = 16 + writes * 32 + samplers * 8"

definition encode_vulkan_descriptor_update_request ::
  "bytes option \<Rightarrow> vulkan_descriptor_update_request option \<Rightarrow> u32 option \<Rightarrow> (bytes \<times> u32) result" where
  "encode_vulkan_descriptor_update_request output request output_length =
     nonnull3 output request output_length (\<lambda>output request _.
     if \<not> wire_id_is (du_device_id request) BVB_OBJECT_DEVICE \<or> du_write_count request = 0 \<or>
        du_write_count request > MAX_DESCRIPTOR_WRITES \<or> du_sampler_count request = 0 \<or>
        du_sampler_count request > MAX_DESCRIPTOR_SAMPLERS then Inl EINVAL
     else
     let len = update_length (du_write_count request) (du_sampler_count request);
         writes = take (unat (du_write_count request)) (du_writes request);
         samplers = take (unat (du_sampler_count request)) (du_sampler_ids request) in
     let output = memset0 output 0 (unat len) in
     let output = put_u64 output 0 (du_device_id request) in
     let output = put_u32 output 8 (du_write_count request) in
     let output = put_u32 output 12 (du_sampler_count request) in
     if \<not> list_all (descriptor_write_ok (du_sampler_count request)) writes then Inl EINVAL
     else
     let output = put_each put_descriptor_write 32 output 16 writes; cursor = 16 + unat (du_write_count request) * 32 in
     if \<not> list_all (\<lambda>i. wire_id_is i BVB_OBJECT_SAMPLER) samplers then Inl EINVAL
     else Inr (put_each put_u64 8 output cursor samplers, len))"

definition view_descriptor_update :: "bytes \<Rightarrow> vulkan_descriptor_update_request" where
  "view_descriptor_update input =
     (let writes = unat (get_u32 input 8); samplers = unat (get_u32 input 12) in
      \<lparr>du_device_id = get_u64 input 0, du_write_count = get_u32 input 8, du_sampler_count = get_u32 input 12,
       du_writes = fill_to MAX_DESCRIPTOR_WRITES no_descriptor_write (get_each get_descriptor_write 32 input 16 writes),
       du_sampler_ids = fill_to MAX_DESCRIPTOR_SAMPLERS 0 (get_each get_u64 8 input (16 + writes * 32) samplers)\<rparr>)"

definition decode_vulkan_descriptor_update_request ::
  "bytes option \<Rightarrow> u32 \<Rightarrow> vulkan_descriptor_update_request option \<Rightarrow> vulkan_descriptor_update_request result" where
  "decode_vulkan_descriptor_update_request input input_length request = nonnull2 input request (\<lambda>input _.
     if input_length < 16 then Inl EINVAL
     else if get_u32 input 8 > MAX_DESCRIPTOR_WRITES \<or> get_u32 input 12 > MAX_DESCRIPTOR_SAMPLERS \<or>
        input_length \<noteq> update_length (get_u32 input 8) (get_u32 input 12) then Inl EPROTO
     else if \<not> list_all (\<lambda>padding. padding = 0) (get_each get_u32 32 input (16 + 28) (unat (get_u32 input 8)))
     then Inl EPROTO
     else
     let decoded = view_descriptor_update input in
     if \<not> recheck encode_vulkan_descriptor_update_request BVB_PROTOCOL_MAX_PAYLOAD decoded then Inl EPROTO
     else Inr decoded)"

definition descriptor_update_ok :: "vulkan_descriptor_update_request \<Rightarrow> bool" where
  "descriptor_update_ok request \<longleftrightarrow>
     wire_id_is (du_device_id request) BVB_OBJECT_DEVICE \<and> du_write_count request \<noteq> 0 \<and>
     du_write_count request \<le> MAX_DESCRIPTOR_WRITES \<and> du_sampler_count request \<noteq> 0 \<and>
     du_sampler_count request \<le> MAX_DESCRIPTOR_SAMPLERS \<and>
     list_all (descriptor_write_ok (du_sampler_count request)) (take (unat (du_write_count request)) (du_writes request)) \<and>
     list_all (\<lambda>i. wire_id_is i BVB_OBJECT_SAMPLER) (take (unat (du_sampler_count request)) (du_sampler_ids request))"

definition descriptor_update_norm :: "vulkan_descriptor_update_request \<Rightarrow> vulkan_descriptor_update_request" where
  "descriptor_update_norm request = request\<lparr>
     du_writes := fill_to MAX_DESCRIPTOR_WRITES no_descriptor_write
       (take (unat (du_write_count request)) (du_writes request)),
     du_sampler_ids := fill_to MAX_DESCRIPTOR_SAMPLERS 0
       (take (unat (du_sampler_count request)) (du_sampler_ids request))\<rparr>"

interpretation descriptor_write: entry_field 28 put_descriptor_write get_descriptor_write 32 "\<lambda>m i. get_u32 m (i + 28) = 0"
proof (unfold_locales, goal_cases)
  case (4 i b c)
  then have "agree i 28 b c" by (auto simp: agree_def)
  then show ?case by (simp add: get_descriptor_write_def agree_reads agree_reads_0)
next
  case (8 i b m)
  show ?case
    unfolding put_descriptor_write_def Let_def get_descriptor_write_def
    by (rule covers_skip [where i = "i + 28"], (rule covers_put_u32)+, rule covers_put_u64, rule 8(1))
      (use 8 in simp_all)
qed (auto simp: put_descriptor_write_def get_descriptor_write_def Let_def wire_simps nth_put)

lemma update_request_length:
  "c \<le> 32 \<Longrightarrow> k \<le> 128 \<Longrightarrow> unat (update_length c k) = 16 + unat c * 32 + unat k * 8"
  using unat_length [of c 32 16 32] unat_length [of k 128 0 8]
  by (simp add: update_length_def word_le_nat_alt unat_word_ariths(1) [of "16 + c * 32"])

lemma list_all_gap: "list_all (\<lambda>padding. padding = 0) (get_each get_u32 s m at n) \<Longrightarrow> k < n \<Longrightarrow> get_u32 m (at + k * s) = 0"
  by (auto simp: list_all_iff get_each_def)

lemma update_pads:
  assumes "length b = 16 + length ws * 32 + length ss * 8" "zeros b 16 (length b)"
  shows "get_each get_u32 32 (put_each put_u64 8 (put_each put_descriptor_write 32 b 16 ws) (16 + length ws * 32) ss)
      (16 + 28) (length ws) = replicate (length ws) 0"
proof -
  let ?c = "put_each put_descriptor_write 32 b 16 ws"
  have l: "length ?c = length b" using assms(1) by (intro descriptor_write.each_length) simp
  have "get_each get_u32 32 (put_each put_u64 8 ?c (16 + length ws * 32) ss) (16 + 28) (length ws) =
      get_each get_u32 32 ?c (16 + 28) (length ws)"
  proof (rule get_each_cong)
    fix i assume "i < length ws"
    then have "16 + 28 + i * 32 + 4 \<le> 16 + length ws * 32" by simp
    then show "get_u32 (put_each put_u64 8 ?c (16 + length ws * 32) ss) (16 + 28 + i * 32) = get_u32 ?c (16 + 28 + i * 32)"
      using assms(1) l by (intro u64_entry.each_beside) auto
  qed
  also have "\<dots> = get_each get_u32 32 b (16 + 28) (length ws)"
    using assms(1) by (intro descriptor_write.read_gaps [OF reads_u32 descriptor_write.any]) auto
  also have "\<dots> = replicate (length ws) 0" using assms by (intro zeros_gaps) auto
  finally show ?thesis .
qed

lemma pads_front:
  "16 + n * 32 \<le> length a \<Longrightarrow> get_each get_u32 32 (a @ c) 44 n = get_each get_u32 32 a 44 n"
proof (rule get_each_cong)
  fix i assume "16 + n * 32 \<le> length a" "i < n"
  then show "get_u32 (a @ c) (44 + i * 32) = get_u32 a (44 + i * 32)" by (intro get_append) simp
qed

interpretation descriptor_update: rechecked False BVB_PROTOCOL_MAX_PAYLOAD
  "\<lambda>request. length (du_writes request) = MAX_DESCRIPTOR_WRITES \<and>
     length (du_sampler_ids request) = MAX_DESCRIPTOR_SAMPLERS" descriptor_update_ok descriptor_update_norm
  "\<lambda>request. update_length (du_write_count request) (du_sampler_count request)"
  "\<lambda>output request. put_each put_u64 8 (put_each put_descriptor_write 32
     (put_u32 (put_u32 (put_u64 output 0 (du_device_id request)) 8 (du_write_count request)) 12 (du_sampler_count request))
     16 (take (unat (du_write_count request)) (du_writes request)))
     (16 + unat (du_write_count request) * 32) (take (unat (du_sampler_count request)) (du_sampler_ids request))"
  "\<lambda>m n. refusal (n < 16) (get_u32 m 8 > MAX_DESCRIPTOR_WRITES \<or> get_u32 m 12 > MAX_DESCRIPTOR_SAMPLERS \<or>
     n \<noteq> update_length (get_u32 m 8) (get_u32 m 12) \<or>
     \<not> list_all (\<lambda>padding. padding = 0) (get_each get_u32 32 m (16 + 28) (unat (get_u32 m 8))))"
  view_descriptor_update encode_vulkan_descriptor_update_request decode_vulkan_descriptor_update_request
proof (unfold_locales, goal_cases)
  case (8 m n d)
  then show ?case by (simp add: decode_vulkan_descriptor_update_request_def Let_def refusal_case)
next
  case (10 m n c)
  show ?case
  proof (cases "n < 16 \<or> get_u32 m 8 > 32 \<or> get_u32 m 12 > 128 \<or> n \<noteq> update_length (get_u32 m 8) (get_u32 m 12)")
    case True
    then show ?thesis
    proof (cases "n < 16")
      case False
      then have "16 \<le> length m" using 10 by (simp add: word_less_nat_alt not_less)
      then have "get_u32 (m @ c) 8 = get_u32 m 8" "get_u32 (m @ c) 12 = get_u32 m 12" by (simp_all add: wire_simps)
      then show ?thesis using True False unfolding refusal_def by presburger
    qed (simp add: refusal_def)
  next
    case False
    then have "16 + unat (get_u32 m 8) * 32 \<le> length m" "16 \<le> length m"
      using 10 by (auto simp: update_request_length word_less_nat_alt not_less word_le_nat_alt)
    then show ?thesis by (simp add: refusal_def wire_simps pads_front)
  qed
next
  case (16 x)
  then have c: "unat (du_write_count x) \<le> 32" "unat (du_sampler_count x) \<le> 128"
    by (auto simp: descriptor_update_ok_def word_le_nat_alt)
  let ?m = "put_each put_u64 8 (put_each put_descriptor_write 32
     (put_u32 (put_u32 (put_u64 (replicate (unat (update_length (du_write_count x) (du_sampler_count x))) 0)
       0 (du_device_id x)) 8 (du_write_count x)) 12 (du_sampler_count x))
     16 (take (unat (du_write_count x)) (du_writes x)))
     (16 + unat (du_write_count x) * 32) (take (unat (du_sampler_count x)) (du_sampler_ids x))"
  have "get_u32 ?m 8 = du_write_count x" "get_u32 ?m 12 = du_sampler_count x"
    using 16 c by (simp_all add: descriptor_update_ok_def update_request_length descriptor_write.each_simps message_simps)
  moreover have "get_each get_u32 32 ?m (16 + 28) (unat (du_write_count x)) = replicate (unat (du_write_count x)) 0"
    using 16 c update_pads [of _ "take (unat (du_write_count x)) (du_writes x)"
        "take (unat (du_sampler_count x)) (du_sampler_ids x)"]
    by (simp add: update_request_length word_le_nat_alt wire_simps)
  ultimately show ?case
    using 16 c by (simp add: refusal_def list_all_iff descriptor_update_ok_def not_less word_le_nat_alt word_less_nat_alt update_request_length)
next
  case (17 x)
  then show ?case
    by (simp add: view_descriptor_update_def descriptor_update_ok_def descriptor_update_norm_def update_request_length
        u64_entry.each_other [OF descriptor_write.reads_get] descriptor_write.each_simps message_simps Let_def)
next
  case (19 m n)
  let ?c = "unat (get_u32 m 8)" and ?k = "unat (get_u32 m 12)"
  have n: "unat n = 16 + ?c * 32 + ?k * 8" "?c \<le> 32" "?k \<le> 128" "update_length (get_u32 m 8) (get_u32 m 12) = n"
    "\<And>k. k < ?c \<Longrightarrow> get_u32 m (44 + k * 32) = 0"
    using 19(2) list_all_gap [of 32 m "16 + 28" ?c]
    by (auto simp: refusal_None update_request_length not_less word_le_nat_alt)
  show ?case
    by (rule conjI [OF _ u64_entry.each_covers [where n = ?k, OF descriptor_write.each_covers [where n = ?c]]], goal_cases,
        simp add: n(4) view_descriptor_update_def Let_def,
        (rule covers_put_u32)+, rule covers_put_u64, rule covers_start,
        use 19 n in \<open>simp_all add: view_descriptor_update_def Let_def take_fill_to\<close>)
qed (auto simp: encode_vulkan_descriptor_update_request_def decode_vulkan_descriptor_update_request_def
    view_descriptor_update_def descriptor_update_ok_def descriptor_update_norm_def update_request_length
    descriptor_write.each_simps message_simps split: if_splits)

end
