(* ===== verification/Pipeline_Wire.thy ===== *)
theory Pipeline_Wire
  imports Descriptor_Update
begin

unbundle bit_operations_syntax

section \<open>Pipeline messages\<close>

text \<open>
  The messages of src/src/vulkan_pipeline_wire.c: the creation of pipeline layouts and of graphics
  pipelines, and the block in shared memory that holds the shaders of the built-in pipeline.
\<close>

abbreviation (input) MAX_PIPELINE_SET_LAYOUTS :: "'a::numeral" where "MAX_PIPELINE_SET_LAYOUTS \<equiv> 8"
abbreviation (input) MAX_PIPELINE_PUSH_CONSTANT_RANGES :: "'a::numeral" where "MAX_PIPELINE_PUSH_CONSTANT_RANGES \<equiv> 4"
abbreviation (input) MAX_GRAPHICS_PIPELINE_DYNAMIC_STATES :: "'a::numeral" where
  "MAX_GRAPHICS_PIPELINE_DYNAMIC_STATES \<equiv> 16"
abbreviation (input) MAX_GRAPHICS_PIPELINE_SHADER_WORDS :: "'a::numeral" where "MAX_GRAPHICS_PIPELINE_SHADER_WORDS \<equiv> 256"
abbreviation (input) SPIRV_MAGIC :: "'a::numeral" where "SPIRV_MAGIC \<equiv> 0x07230203"

subsection \<open>Pipeline layouts\<close>

record vulkan_pipeline_push_constant_range =
  pcr_stage_flags :: u32
  pcr_offset :: u32
  pcr_size :: u32

record vulkan_pipeline_layout_create_request =
  plc_device_id :: u64
  plc_flags :: u32
  plc_set_layout_count :: u32
  plc_push_constant_range_count :: u32
  plc_set_layout_ids :: "u64 list"
  plc_push_constant_ranges :: "vulkan_pipeline_push_constant_range list"

definition put_push_range :: "bytes \<Rightarrow> nat \<Rightarrow> vulkan_pipeline_push_constant_range \<Rightarrow> bytes" where
  "put_push_range output cursor r =
     (let output = put_u32 output cursor (pcr_stage_flags r) in
      let output = put_u32 output (cursor + 4) (pcr_offset r) in
      put_u32 output (cursor + 8) (pcr_size r))"

definition get_push_range :: "bytes \<Rightarrow> nat \<Rightarrow> vulkan_pipeline_push_constant_range" where
  "get_push_range input cursor =
     \<lparr>pcr_stage_flags = get_u32 input cursor, pcr_offset = get_u32 input (cursor + 4), pcr_size = get_u32 input (cursor + 8)\<rparr>"

definition no_push_range :: vulkan_pipeline_push_constant_range where
  "no_push_range = \<lparr>pcr_stage_flags = 0, pcr_offset = 0, pcr_size = 0\<rparr>"

definition push_range_ok :: "vulkan_pipeline_push_constant_range \<Rightarrow> bool" where
  "push_range_ok r \<longleftrightarrow>
     \<not> (pcr_stage_flags r = 0 \<or> pcr_size r = 0 \<or> pcr_offset r AND 3 \<noteq> 0 \<or> pcr_size r AND 3 \<noteq> 0 \<or>
        pcr_offset r > 0xffffffff - pcr_size r)"

text \<open>A range that passes the check ends at an offset that does not wrap.\<close>

lemma push_range_end: "push_range_ok r \<Longrightarrow> unat (pcr_offset r) + unat (pcr_size r) < 2 ^ 32"
proof -
  assume "push_range_ok r"
  then have "unat (pcr_offset r) \<le> unat (0xffffffff - pcr_size r)"
    by (simp add: push_range_ok_def word_le_nat_alt not_less)
  moreover have "unat (0xffffffff - pcr_size r) = 0xffffffff - unat (pcr_size r)"
    using unsigned_less [of "pcr_size r", where ?'a = nat] by (subst unat_sub) (simp_all add: word_le_nat_alt)
  moreover have "unat (pcr_size r) < 2 ^ 32" using unsigned_less [of "pcr_size r", where ?'a = nat] by simp
  ultimately show ?thesis by simp
qed

definition set_layout_id_ok :: "u64 \<Rightarrow> bool" where
  "set_layout_id_ok i \<longleftrightarrow> \<not> (i \<noteq> 0 \<and> \<not> wire_id_is i BVB_OBJECT_DESCRIPTOR_SET_LAYOUT)"

definition pipeline_layout_length :: "u32 \<Rightarrow> u32 \<Rightarrow> u32" where
  "pipeline_layout_length sets ranges = 24 + sets * 8 + ranges * 12"

definition encode_vulkan_pipeline_layout_create_request ::
  "bytes option \<Rightarrow> vulkan_pipeline_layout_create_request option \<Rightarrow> u32 option \<Rightarrow> (bytes \<times> u32) result" where
  "encode_vulkan_pipeline_layout_create_request output request output_length =
     nonnull3 output request output_length (\<lambda>output request _.
     if \<not> wire_id_is (plc_device_id request) BVB_OBJECT_DEVICE \<or>
        plc_set_layout_count request > MAX_PIPELINE_SET_LAYOUTS \<or>
        plc_push_constant_range_count request > MAX_PIPELINE_PUSH_CONSTANT_RANGES then Inl EINVAL
     else
     let len = pipeline_layout_length (plc_set_layout_count request) (plc_push_constant_range_count request);
         ids = take (unat (plc_set_layout_count request)) (plc_set_layout_ids request);
         push_ranges = take (unat (plc_push_constant_range_count request)) (plc_push_constant_ranges request) in
     let output = memset0 output 0 (unat len) in
     let output = put_u64 output 0 (plc_device_id request) in
     let output = put_u32 output 8 (plc_flags request) in
     let output = put_u32 output 12 (plc_set_layout_count request) in
     let output = put_u32 output 16 (plc_push_constant_range_count request) in
     if \<not> list_all set_layout_id_ok ids then Inl EINVAL
     else
     let output = put_each put_u64 8 output 24 ids; cursor = 24 + unat (plc_set_layout_count request) * 8 in
     if \<not> list_all push_range_ok push_ranges then Inl EINVAL
     else Inr (put_each put_push_range 12 output cursor push_ranges, len))"

definition view_pipeline_layout_create :: "bytes \<Rightarrow> vulkan_pipeline_layout_create_request" where
  "view_pipeline_layout_create input =
     (let sets = unat (get_u32 input 12); push_ranges = unat (get_u32 input 16) in
      \<lparr>plc_device_id = get_u64 input 0, plc_flags = get_u32 input 8, plc_set_layout_count = get_u32 input 12,
       plc_push_constant_range_count = get_u32 input 16,
       plc_set_layout_ids = fill_to MAX_PIPELINE_SET_LAYOUTS 0 (get_each get_u64 8 input 24 sets),
       plc_push_constant_ranges = fill_to MAX_PIPELINE_PUSH_CONSTANT_RANGES no_push_range
         (get_each get_push_range 12 input (24 + sets * 8) push_ranges)\<rparr>)"

definition decode_vulkan_pipeline_layout_create_request ::
  "bytes option \<Rightarrow> u32 \<Rightarrow> vulkan_pipeline_layout_create_request option \<Rightarrow> vulkan_pipeline_layout_create_request result" where
  "decode_vulkan_pipeline_layout_create_request input input_length request = nonnull2 input request (\<lambda>input _.
     if input_length < 24 then Inl EINVAL
     else if get_u32 input 20 \<noteq> 0 then Inl EPROTO
     else if get_u32 input 12 > MAX_PIPELINE_SET_LAYOUTS \<or> get_u32 input 16 > MAX_PIPELINE_PUSH_CONSTANT_RANGES \<or>
        input_length \<noteq> pipeline_layout_length (get_u32 input 12) (get_u32 input 16) then Inl EPROTO
     else
     let decoded = view_pipeline_layout_create input in
     if \<not> recheck_bytes encode_vulkan_pipeline_layout_create_request BVB_PROTOCOL_MAX_PAYLOAD decoded
         input input_length then Inl EPROTO
     else Inr decoded)"

definition pipeline_layout_ok :: "vulkan_pipeline_layout_create_request \<Rightarrow> bool" where
  "pipeline_layout_ok request \<longleftrightarrow>
     wire_id_is (plc_device_id request) BVB_OBJECT_DEVICE \<and>
     plc_set_layout_count request \<le> MAX_PIPELINE_SET_LAYOUTS \<and>
     plc_push_constant_range_count request \<le> MAX_PIPELINE_PUSH_CONSTANT_RANGES \<and>
     list_all set_layout_id_ok (take (unat (plc_set_layout_count request)) (plc_set_layout_ids request)) \<and>
     list_all push_range_ok (take (unat (plc_push_constant_range_count request)) (plc_push_constant_ranges request))"

definition pipeline_layout_norm :: "vulkan_pipeline_layout_create_request \<Rightarrow> vulkan_pipeline_layout_create_request" where
  "pipeline_layout_norm request = request\<lparr>
     plc_set_layout_ids := fill_to MAX_PIPELINE_SET_LAYOUTS 0
       (take (unat (plc_set_layout_count request)) (plc_set_layout_ids request)),
     plc_push_constant_ranges := fill_to MAX_PIPELINE_PUSH_CONSTANT_RANGES no_push_range
       (take (unat (plc_push_constant_range_count request)) (plc_push_constant_ranges request))\<rparr>"

interpretation push_range: entry_field 12 put_push_range get_push_range 12 "\<lambda>_ _. True"
proof (unfold_locales, goal_cases)
  case (4 i b c)
  then have "agree i 12 b c" by (auto simp: agree_def)
  then show ?case by (simp add: get_push_range_def agree_reads agree_reads_0)
next
  case (8 i b m)
  then show ?case unfolding put_push_range_def Let_def get_push_range_def by (auto intro!: covers_put_u32)
qed (auto simp: put_push_range_def get_push_range_def Let_def wire_simps nth_put)

lemma layout_create_length:
  "c \<le> 8 \<Longrightarrow> k \<le> 4 \<Longrightarrow> unat (pipeline_layout_length c k) = 24 + unat c * 8 + unat k * 12"
  using unat_length [of c 8 24 8] unat_length [of k 4 0 12]
  by (simp add: pipeline_layout_length_def word_le_nat_alt unat_word_ariths(1) [of "24 + c * 8"])

interpretation pipeline_layout: rechecked True BVB_PROTOCOL_MAX_PAYLOAD
  "\<lambda>request. length (plc_set_layout_ids request) = MAX_PIPELINE_SET_LAYOUTS \<and>
     length (plc_push_constant_ranges request) = MAX_PIPELINE_PUSH_CONSTANT_RANGES" pipeline_layout_ok pipeline_layout_norm
  "\<lambda>request. pipeline_layout_length (plc_set_layout_count request) (plc_push_constant_range_count request)"
  "\<lambda>output request. put_each put_push_range 12 (put_each put_u64 8
     (put_u32 (put_u32 (put_u32 (put_u64 output 0 (plc_device_id request)) 8 (plc_flags request))
        12 (plc_set_layout_count request)) 16 (plc_push_constant_range_count request))
     24 (take (unat (plc_set_layout_count request)) (plc_set_layout_ids request)))
     (24 + unat (plc_set_layout_count request) * 8)
     (take (unat (plc_push_constant_range_count request)) (plc_push_constant_ranges request))"
  "\<lambda>m n. refusal (n < 24) (get_u32 m 20 \<noteq> 0 \<or> get_u32 m 12 > MAX_PIPELINE_SET_LAYOUTS \<or>
     get_u32 m 16 > MAX_PIPELINE_PUSH_CONSTANT_RANGES \<or> n \<noteq> pipeline_layout_length (get_u32 m 12) (get_u32 m 16))"
  view_pipeline_layout_create encode_vulkan_pipeline_layout_create_request decode_vulkan_pipeline_layout_create_request
proof (unfold_locales, goal_cases)
  case (8 m n d)
  then show ?case
    by (auto simp: decode_vulkan_pipeline_layout_create_request_def Let_def refusal_case recheck_bytes_recheck)
next
  case (17 x)
  then show ?case
    by (simp add: view_pipeline_layout_create_def pipeline_layout_ok_def pipeline_layout_norm_def layout_create_length
        push_range.each_other [OF u64_field.reads_get] push_range.each_simps message_simps Let_def)
next
  case (19 m n)
  let ?c = "unat (get_u32 m 12)" and ?k = "unat (get_u32 m 16)"
  have n: "unat n = 24 + ?c * 8 + ?k * 12" "?c \<le> 8" "?k \<le> 4" "get_u32 m 20 = 0"
    "pipeline_layout_length (get_u32 m 12) (get_u32 m 16) = n"
    using 19(2) by (auto simp: refusal_None layout_create_length not_less word_le_nat_alt)
  show ?case
    by (rule conjI [OF _ push_range.each_covers [where n = ?k, OF u64_entry.each_covers [where n = ?c,
          OF covers_skip [where i = 20]]]], goal_cases,
        simp add: n(5) view_pipeline_layout_create_def Let_def,
        (rule covers_put_u32)+, rule covers_put_u64, rule covers_start,
        use 19 n in \<open>simp_all add: view_pipeline_layout_create_def Let_def take_fill_to\<close>)
qed (auto simp: encode_vulkan_pipeline_layout_create_request_def decode_vulkan_pipeline_layout_create_request_def
    view_pipeline_layout_create_def pipeline_layout_ok_def pipeline_layout_norm_def layout_create_length
    push_range.each_simps message_simps split: if_splits)

subsection \<open>Graphics pipelines\<close>

record vulkan_graphics_pipeline_create_request =
  gpc_device_id :: u64
  gpc_pipeline_layout_id :: u64
  gpc_flags_2 :: u64
  gpc_library_flags :: u32
  gpc_shader_stage :: u32
  gpc_dynamic_state_count :: u32
  gpc_shader_word_count :: u32
  gpc_dynamic_states :: "u32 list"
  gpc_shader_words :: "u32 list"

definition graphics_length :: "u32 \<Rightarrow> u32 \<Rightarrow> u32" where
  "graphics_length states shader_words = 48 + (states + shader_words) * 4"

definition encode_vulkan_graphics_pipeline_create_request ::
  "bytes option \<Rightarrow> vulkan_graphics_pipeline_create_request option \<Rightarrow> u32 option \<Rightarrow> (bytes \<times> u32) result" where
  "encode_vulkan_graphics_pipeline_create_request output request output_length =
     nonnull3 output request output_length (\<lambda>output request _.
     if \<not> wire_id_is (gpc_device_id request) BVB_OBJECT_DEVICE \<or>
        \<not> wire_id_is (gpc_pipeline_layout_id request) BVB_OBJECT_PIPELINE_LAYOUT \<or>
        gpc_dynamic_state_count request = 0 \<or>
        gpc_dynamic_state_count request > MAX_GRAPHICS_PIPELINE_DYNAMIC_STATES \<or>
        gpc_shader_word_count request = 0 \<or>
        gpc_shader_word_count request > MAX_GRAPHICS_PIPELINE_SHADER_WORDS \<or>
        gpc_shader_words request ! 0 \<noteq> SPIRV_MAGIC then Inl EINVAL
     else
     let len = graphics_length (gpc_dynamic_state_count request) (gpc_shader_word_count request);
         states = take (unat (gpc_dynamic_state_count request)) (gpc_dynamic_states request);
         shader_words = take (unat (gpc_shader_word_count request)) (gpc_shader_words request) in
     let output = memset0 output 0 (unat len) in
     let output = put_u64 output 0 (gpc_device_id request) in
     let output = put_u64 output 8 (gpc_pipeline_layout_id request) in
     let output = put_u64 output 16 (gpc_flags_2 request) in
     let output = put_u32 output 24 (gpc_library_flags request) in
     let output = put_u32 output 28 (gpc_shader_stage request) in
     let output = put_u32 output 32 (gpc_dynamic_state_count request) in
     let output = put_u32 output 36 (gpc_shader_word_count request) in
     let output = put_each put_u32 4 output 48 states; cursor = 48 + unat (gpc_dynamic_state_count request) * 4 in
     Inr (put_each put_u32 4 output cursor shader_words, len))"

definition view_graphics_pipeline_create :: "bytes \<Rightarrow> vulkan_graphics_pipeline_create_request" where
  "view_graphics_pipeline_create input =
     (let states = unat (get_u32 input 32); shader_words = unat (get_u32 input 36) in
      \<lparr>gpc_device_id = get_u64 input 0, gpc_pipeline_layout_id = get_u64 input 8, gpc_flags_2 = get_u64 input 16,
       gpc_library_flags = get_u32 input 24, gpc_shader_stage = get_u32 input 28,
       gpc_dynamic_state_count = get_u32 input 32, gpc_shader_word_count = get_u32 input 36,
       gpc_dynamic_states = fill_to MAX_GRAPHICS_PIPELINE_DYNAMIC_STATES 0 (get_each get_u32 4 input 48 states),
       gpc_shader_words = fill_to MAX_GRAPHICS_PIPELINE_SHADER_WORDS 0
         (get_each get_u32 4 input (48 + states * 4) shader_words)\<rparr>)"

definition decode_vulkan_graphics_pipeline_create_request ::
  "bytes option \<Rightarrow> u32 \<Rightarrow> vulkan_graphics_pipeline_create_request option \<Rightarrow> vulkan_graphics_pipeline_create_request result" where
  "decode_vulkan_graphics_pipeline_create_request input input_length request = nonnull2 input request (\<lambda>input _.
     if input_length < 48 then Inl EINVAL
     else if get_u32 input 40 \<noteq> 0 \<or> get_u32 input 44 \<noteq> 0 then Inl EPROTO
     else if get_u32 input 32 = 0 \<or> get_u32 input 32 > MAX_GRAPHICS_PIPELINE_DYNAMIC_STATES \<or>
        get_u32 input 36 = 0 \<or> get_u32 input 36 > MAX_GRAPHICS_PIPELINE_SHADER_WORDS \<or>
        input_length \<noteq> graphics_length (get_u32 input 32) (get_u32 input 36) then Inl EPROTO
     else
     let decoded = view_graphics_pipeline_create input in
     if \<not> recheck_bytes encode_vulkan_graphics_pipeline_create_request BVB_PROTOCOL_MAX_PAYLOAD decoded
         input input_length then Inl EPROTO
     else Inr decoded)"

definition graphics_pipeline_ok :: "vulkan_graphics_pipeline_create_request \<Rightarrow> bool" where
  "graphics_pipeline_ok request \<longleftrightarrow>
     wire_id_is (gpc_device_id request) BVB_OBJECT_DEVICE \<and>
     wire_id_is (gpc_pipeline_layout_id request) BVB_OBJECT_PIPELINE_LAYOUT \<and>
     gpc_dynamic_state_count request \<noteq> 0 \<and> gpc_dynamic_state_count request \<le> MAX_GRAPHICS_PIPELINE_DYNAMIC_STATES \<and>
     gpc_shader_word_count request \<noteq> 0 \<and> gpc_shader_word_count request \<le> MAX_GRAPHICS_PIPELINE_SHADER_WORDS \<and>
     gpc_shader_words request ! 0 = SPIRV_MAGIC"

definition graphics_pipeline_norm :: "vulkan_graphics_pipeline_create_request \<Rightarrow> vulkan_graphics_pipeline_create_request" where
  "graphics_pipeline_norm request = request\<lparr>
     gpc_dynamic_states := fill_to MAX_GRAPHICS_PIPELINE_DYNAMIC_STATES 0
       (take (unat (gpc_dynamic_state_count request)) (gpc_dynamic_states request)),
     gpc_shader_words := fill_to MAX_GRAPHICS_PIPELINE_SHADER_WORDS 0
       (take (unat (gpc_shader_word_count request)) (gpc_shader_words request))\<rparr>"

lemma graphics_pipeline_length:
  assumes "c \<le> 16" "k \<le> 256"
  shows "unat (graphics_length c k) = 48 + unat c * 4 + unat k * 4"
proof -
  have u: "unat c \<le> 16" "unat k \<le> 256" using assms by (simp_all add: word_le_nat_alt)
  then have s: "unat (c + k) = unat c + unat k" by (simp add: unat_word_ariths)
  show ?thesis
    using unat_length [of "c + k" 272 48 4] u unfolding s by (simp add: graphics_length_def)
qed

interpretation graphics_pipeline: rechecked True BVB_PROTOCOL_MAX_PAYLOAD
  "\<lambda>request. length (gpc_dynamic_states request) = MAX_GRAPHICS_PIPELINE_DYNAMIC_STATES \<and>
     length (gpc_shader_words request) = MAX_GRAPHICS_PIPELINE_SHADER_WORDS" graphics_pipeline_ok graphics_pipeline_norm
  "\<lambda>request. graphics_length (gpc_dynamic_state_count request) (gpc_shader_word_count request)"
  "\<lambda>output request. put_each put_u32 4 (put_each put_u32 4
     (put_u32 (put_u32 (put_u32 (put_u32 (put_u64 (put_u64 (put_u64 output 0 (gpc_device_id request))
        8 (gpc_pipeline_layout_id request)) 16 (gpc_flags_2 request)) 24 (gpc_library_flags request))
        28 (gpc_shader_stage request)) 32 (gpc_dynamic_state_count request)) 36 (gpc_shader_word_count request))
     48 (take (unat (gpc_dynamic_state_count request)) (gpc_dynamic_states request)))
     (48 + unat (gpc_dynamic_state_count request) * 4)
     (take (unat (gpc_shader_word_count request)) (gpc_shader_words request))"
  "\<lambda>m n. refusal (n < 48) (get_u32 m 40 \<noteq> 0 \<or> get_u32 m 44 \<noteq> 0 \<or> get_u32 m 32 = 0 \<or>
     get_u32 m 32 > MAX_GRAPHICS_PIPELINE_DYNAMIC_STATES \<or> get_u32 m 36 = 0 \<or>
     get_u32 m 36 > MAX_GRAPHICS_PIPELINE_SHADER_WORDS \<or> n \<noteq> graphics_length (get_u32 m 32) (get_u32 m 36))"
  view_graphics_pipeline_create
  encode_vulkan_graphics_pipeline_create_request decode_vulkan_graphics_pipeline_create_request
proof (unfold_locales, goal_cases)
  case (8 m n d)
  then show ?case
    by (auto simp: decode_vulkan_graphics_pipeline_create_request_def Let_def refusal_case recheck_bytes_recheck)
next
  case (18 x)
  then show ?case
    by (cases "gpc_shader_words x"; cases "unat (gpc_shader_word_count x)")
      (auto simp: graphics_pipeline_ok_def graphics_pipeline_norm_def fill_to_def unat_eq_zero)
next
  case (19 m n)
  let ?c = "unat (get_u32 m 32)" and ?k = "unat (get_u32 m 36)"
  have n: "unat n = 48 + ?c * 4 + ?k * 4" "?c \<le> 16" "?k \<le> 256" "get_u32 m 40 = 0" "get_u32 m 44 = 0"
    "graphics_length (get_u32 m 32) (get_u32 m 36) = n"
    using 19(2) by (auto simp: refusal_None graphics_pipeline_length not_less word_le_nat_alt)
  show ?case
    by (rule conjI [OF _ u32_entry.each_covers [where n = ?k, OF u32_entry.each_covers [where n = ?c,
          OF covers_skip [where i = 44, OF covers_skip [where i = 40]]]]], goal_cases,
        simp add: n(6) view_graphics_pipeline_create_def Let_def,
        (rule covers_put_u32)+, (rule covers_put_u64)+, rule covers_start,
        use 19 n in \<open>simp_all add: view_graphics_pipeline_create_def Let_def take_fill_to\<close>)
qed (auto simp: encode_vulkan_graphics_pipeline_create_request_def decode_vulkan_graphics_pipeline_create_request_def
    view_graphics_pipeline_create_def graphics_pipeline_ok_def graphics_pipeline_norm_def graphics_pipeline_length
    message_simps split: if_splits)


subsection \<open>Pipelines whose description is in shared memory\<close>

record vulkan_builtin_graphics_pipeline_create_request =
  bgp_device_id :: u64
  bgp_pipeline_layout_id :: u64
  bgp_blob_bytes :: u32
  bgp_schema :: u32

abbreviation (input) BUILTIN_BLOB_SIZE :: "'a::numeral" where "BUILTIN_BLOB_SIZE \<equiv> 17132"
abbreviation (input) GENERAL_BLOB_HEADER_SIZE :: "'a::numeral" where "GENERAL_BLOB_HEADER_SIZE \<equiv> 88"
abbreviation (input) GENERAL_BLOB_MAX_SIZE :: "'a::numeral" where "GENERAL_BLOB_MAX_SIZE \<equiv> 262144"

definition builtin_pipeline_ok :: "vulkan_builtin_graphics_pipeline_create_request \<Rightarrow> bool" where
  "builtin_pipeline_ok request \<longleftrightarrow>
     \<not> (\<not> wire_id_is (bgp_device_id request) BVB_OBJECT_DEVICE \<or>
        \<not> wire_id_is (bgp_pipeline_layout_id request) BVB_OBJECT_PIPELINE_LAYOUT \<or>
        \<not> (bgp_schema request = 1 \<and> bgp_blob_bytes request = BUILTIN_BLOB_SIZE \<or>
           bgp_schema request = 3 \<and> bgp_blob_bytes request \<ge> GENERAL_BLOB_HEADER_SIZE \<and>
           bgp_blob_bytes request \<le> GENERAL_BLOB_MAX_SIZE \<and> bgp_blob_bytes request AND 7 = 0))"

definition encode_vulkan_builtin_graphics_pipeline_create_request ::
  "bytes option \<Rightarrow> vulkan_builtin_graphics_pipeline_create_request option \<Rightarrow> bytes result" where
  "encode_vulkan_builtin_graphics_pipeline_create_request output request = nonnull2 output request (\<lambda>output request.
     if \<not> builtin_pipeline_ok request then Inl EINVAL
     else
     let output = memset0 output 0 32 in
     let output = put_u64 output 0 (bgp_device_id request) in
     let output = put_u64 output 8 (bgp_pipeline_layout_id request) in
     let output = put_u32 output 16 (bgp_blob_bytes request) in
     Inr (put_u32 output 20 (bgp_schema request)))"

definition decode_vulkan_builtin_graphics_pipeline_create_request ::
  "bytes option \<Rightarrow> vulkan_builtin_graphics_pipeline_create_request option \<Rightarrow>
   vulkan_builtin_graphics_pipeline_create_request result" where
  "decode_vulkan_builtin_graphics_pipeline_create_request input request =
     (case input of None \<Rightarrow> Inl EPROTO | Some input \<Rightarrow>
      case request of None \<Rightarrow> Inl EPROTO | Some _ \<Rightarrow>
      if get_u32 input 24 \<noteq> 0 \<or> get_u32 input 28 \<noteq> 0 then Inl EPROTO
      else
      let decoded = \<lparr>bgp_device_id = get_u64 input 0, bgp_pipeline_layout_id = get_u64 input 8,
        bgp_blob_bytes = get_u32 input 16, bgp_schema = get_u32 input 20\<rparr> in
      case encode_vulkan_builtin_graphics_pipeline_create_request (Some (replicate 32 0)) (Some decoded) of
        Inl _ \<Rightarrow> Inl EPROTO
      | Inr validation \<Rightarrow> if take 32 validation \<noteq> take 32 input then Inl EPROTO else Inr decoded)"

text \<open>
  The request has one encoding: a message of 32 bytes is accepted exactly when it is the encoding of an
  object that passes the check, and then that object is handed out.
\<close>

lemma builtin_decode_iff:
  assumes "length m = 32"
  shows "decode_vulkan_builtin_graphics_pipeline_create_request (Some m) (Some d) = Inr x \<longleftrightarrow>
    encode_vulkan_builtin_graphics_pipeline_create_request (Some (replicate 32 0)) (Some x) = Inr m"
proof
  assume "decode_vulkan_builtin_graphics_pipeline_create_request (Some m) (Some d) = Inr x"
  then obtain v where v: "encode_vulkan_builtin_graphics_pipeline_create_request (Some (replicate 32 0)) (Some x) = Inr v"
      "take 32 v = take 32 m"
    by (auto simp: decode_vulkan_builtin_graphics_pipeline_create_request_def Let_def split: if_splits sum.splits)
  have "length v = 32"
    using v(1) by (auto simp: encode_vulkan_builtin_graphics_pipeline_create_request_def split: if_splits)
  then show "encode_vulkan_builtin_graphics_pipeline_create_request (Some (replicate 32 0)) (Some x) = Inr m"
    using v assms by simp
next
  assume e: "encode_vulkan_builtin_graphics_pipeline_create_request (Some (replicate 32 0)) (Some x) = Inr m"
  then have m: "m = put_u32 (put_u32 (put_u64 (put_u64 (replicate 32 0) 0 (bgp_device_id x)) 8 (bgp_pipeline_layout_id x))
      16 (bgp_blob_bytes x)) 20 (bgp_schema x)"
    by (auto simp: encode_vulkan_builtin_graphics_pipeline_create_request_def memset0_def split: if_splits)
  have "get_u32 m 24 = 0" "get_u32 m 28 = 0" "get_u64 m 0 = bgp_device_id x" "get_u64 m 8 = bgp_pipeline_layout_id x"
    "get_u32 m 16 = bgp_blob_bytes x" "get_u32 m 20 = bgp_schema x"
    by (simp_all add: m wire_simps)
  then show "decode_vulkan_builtin_graphics_pipeline_create_request (Some m) (Some d) = Inr x"
    using e by (cases x) (simp add: decode_vulkan_builtin_graphics_pipeline_create_request_def Let_def)
qed

subsection \<open>The block with the built-in shaders\<close>

abbreviation (input) BLOB_MAGIC :: "'a::numeral" where "BLOB_MAGIC \<equiv> 0x31475042"
abbreviation (input) VERTEX_CODE_SIZE :: "'a::numeral" where "VERTEX_CODE_SIZE \<equiv> 1252"
abbreviation (input) FRAGMENT_CODE_SIZE :: "'a::numeral" where "FRAGMENT_CODE_SIZE \<equiv> 15656"
abbreviation (input) SPEC_DATA_SIZE :: "'a::numeral" where "SPEC_DATA_SIZE \<equiv> 32"

text \<open>The arrays are passed as pointers, so only the words the encoder reads are known to be there.\<close>

definition encode_vulkan_builtin_graphics_pipeline_blob ::
  "bytes option \<Rightarrow> u32 list option \<Rightarrow> u32 list option \<Rightarrow> bytes option \<Rightarrow> bytes option \<Rightarrow> bytes result" where
  "encode_vulkan_builtin_graphics_pipeline_blob output vertex_words fragment_words specialization_entries
     specialization_data =
     (case (output, vertex_words, fragment_words, specialization_entries, specialization_data) of
       (Some output, Some vertex_words, Some fragment_words, Some specialization_entries, Some specialization_data) \<Rightarrow>
         if vertex_words ! 0 \<noteq> SPIRV_MAGIC \<or> fragment_words ! 0 \<noteq> SPIRV_MAGIC then Inl EINVAL
         else
         let vertex_offset = 64 in
         let fragment_offset = vertex_offset + VERTEX_CODE_SIZE in
         let specialization_offset = fragment_offset + FRAGMENT_CODE_SIZE in
         let data_offset = specialization_offset + 8 * 16 in
         let output = memset0 output 0 BUILTIN_BLOB_SIZE in
         let output = put_u32 output 0 BLOB_MAGIC in
         let output = put_u32 output 4 1 in
         let output = put_u32 output 8 BUILTIN_BLOB_SIZE in
         let output = put_u32 output 12 (word_of_nat vertex_offset) in
         let output = put_u32 output 16 VERTEX_CODE_SIZE in
         let output = put_u32 output 20 (word_of_nat fragment_offset) in
         let output = put_u32 output 24 FRAGMENT_CODE_SIZE in
         let output = put_u32 output 28 (word_of_nat specialization_offset) in
         let output = put_u32 output 32 8 in
         let output = put_u32 output 36 (word_of_nat data_offset) in
         let output = put_u32 output 40 SPEC_DATA_SIZE in
         let output = put_each put_u32 4 output vertex_offset (take (VERTEX_CODE_SIZE div 4) vertex_words) in
         let output = put_each put_u32 4 output fragment_offset (take (FRAGMENT_CODE_SIZE div 4) fragment_words) in
         let output = memcpy output specialization_offset specialization_entries (8 * 16) in
         Inr (memcpy output data_offset specialization_data SPEC_DATA_SIZE)
     | _ \<Rightarrow> Inl EINVAL)"

text \<open>The result of the decoder points into the input: here, the offsets of the four parts.\<close>

record vulkan_builtin_graphics_pipeline_blob_view =
  bbv_vertex_words :: nat
  bbv_fragment_words :: nat
  bbv_specialization_entries :: nat
  bbv_specialization_data :: nat

definition specialization_entry_ok :: "bytes \<Rightarrow> nat \<Rightarrow> bool" where
  "specialization_entry_ok input entry \<longleftrightarrow>
     (let offset = get_u32 input (entry + 4); size = get_u64 input (entry + 8) in
      \<not> (size = 0 \<or> size > 0xffffffff \<or> offset > SPEC_DATA_SIZE \<or> size > ucast (SPEC_DATA_SIZE - offset :: u32)))"

definition decode_vulkan_builtin_graphics_pipeline_blob ::
  "bytes option \<Rightarrow> u32 \<Rightarrow> vulkan_builtin_graphics_pipeline_blob_view option \<Rightarrow>
   vulkan_builtin_graphics_pipeline_blob_view result" where
  "decode_vulkan_builtin_graphics_pipeline_blob input input_length view =
     (case input of None \<Rightarrow> Inl EPROTO | Some input \<Rightarrow>
      case view of None \<Rightarrow> Inl EPROTO | Some _ \<Rightarrow>
      if input_length \<noteq> BUILTIN_BLOB_SIZE \<or> get_u32 input 0 \<noteq> BLOB_MAGIC \<or> get_u32 input 4 \<noteq> 1 \<or>
         get_u32 input 8 \<noteq> input_length \<or> get_u32 input 12 \<noteq> 64 \<or> get_u32 input 16 \<noteq> VERTEX_CODE_SIZE \<or>
         get_u32 input 20 \<noteq> 64 + VERTEX_CODE_SIZE \<or> get_u32 input 24 \<noteq> FRAGMENT_CODE_SIZE \<or>
         get_u32 input 28 \<noteq> 64 + VERTEX_CODE_SIZE + FRAGMENT_CODE_SIZE \<or> get_u32 input 32 \<noteq> 8 \<or>
         get_u32 input 36 \<noteq> BUILTIN_BLOB_SIZE - SPEC_DATA_SIZE \<or> get_u32 input 40 \<noteq> SPEC_DATA_SIZE \<or>
         get_u32 input 44 \<noteq> 0 \<or> get_u64 input 48 \<noteq> 0 \<or> get_u64 input 56 \<noteq> 0 then Inl EPROTO
      else
      let vertex_offset = unat (get_u32 input 12); fragment_offset = unat (get_u32 input 20);
          specialization_offset = unat (get_u32 input 28); data_offset = unat (get_u32 input 36) in
      if get_u32 input vertex_offset \<noteq> SPIRV_MAGIC \<or> get_u32 input fragment_offset \<noteq> SPIRV_MAGIC then Inl EPROTO
      else if \<not> list_all (\<lambda>index. specialization_entry_ok input (specialization_offset + index * 16)) [0..<8] then Inl EPROTO
      else Inr \<lparr>bbv_vertex_words = vertex_offset, bbv_fragment_words = fragment_offset,
        bbv_specialization_entries = specialization_offset, bbv_specialization_data = data_offset\<rparr>)"

text \<open>An entry that passes the check names bytes of the data part.\<close>

lemma specialization_entry_inside:
  assumes "specialization_entry_ok m e"
  shows "unat (get_u32 m (e + 4)) + unat (get_u64 m (e + 8)) \<le> SPEC_DATA_SIZE" "get_u64 m (e + 8) \<noteq> 0"
proof -
  let ?o = "get_u32 m (e + 4)" and ?s = "get_u64 m (e + 8)"
  have o: "unat ?o \<le> 32" "?s \<le> ucast (32 - ?o)" "?s \<noteq> 0"
    using assms by (auto simp: specialization_entry_ok_def Let_def word_le_nat_alt not_less)
  have "unat (32 - ?o) = 32 - unat ?o" using o(1) by (subst unat_sub) (simp_all add: word_le_nat_alt)
  moreover have "unat (ucast (32 - ?o) :: u64) = unat (32 - ?o)"
    using unsigned_less [of "32 - ?o", where ?'a = nat] by (simp add: unsigned_ucast_eq take_bit_nat_eq_self_iff)
  ultimately show "unat ?o + unat ?s \<le> 32" "?s \<noteq> 0" using o by (simp_all add: word_le_nat_alt)
qed


lemma get_within_bytes:
  "j + 4 \<le> n \<Longrightarrow> at + n \<le> length b \<Longrightarrow> get_u32 (get_bytes b at n) j = get_u32 b (at + j)"
  "j + 8 \<le> n \<Longrightarrow> at + n \<le> length b \<Longrightarrow> get_u64 (get_bytes b at n) j = get_u64 b (at + j)"
  by (simp_all add: get_bytes_def get_defs add_ac)

lemma specialization_entry_copied:
  assumes "get_bytes m at n = take n s" "at + n \<le> length m" "n \<le> length s" "e + 16 \<le> n"
  shows "specialization_entry_ok m (at + e) \<longleftrightarrow> specialization_entry_ok s e"
proof -
  have "get_u32 m (at + (e + 4)) = get_u32 s (e + 4)" "get_u64 m (at + (e + 8)) = get_u64 s (e + 8)"
    using get_within_bytes(1) [of "e + 4" n at m] get_within_bytes(2) [of "e + 8" n at m] assms
    by (simp_all add: wire_simps)
  then show ?thesis by (simp add: specialization_entry_ok_def add.assoc)
qed

lemma encode_blob:
  assumes "length b = 17132" "313 \<le> length v" "3914 \<le> length f" "128 \<le> length s" "32 \<le> length d"
    and "v ! 0 = SPIRV_MAGIC" "f ! 0 = SPIRV_MAGIC"
  shows "\<exists>m. encode_vulkan_builtin_graphics_pipeline_blob (Some b) (Some v) (Some f) (Some s) (Some d) = Inr m \<and>
    length m = 17132 \<and> get_each get_u32 4 m 64 313 = take 313 v \<and> get_each get_u32 4 m 1316 3914 = take 3914 f \<and>
    get_bytes m 16972 128 = take 128 s \<and> get_bytes m 17100 32 = take 32 d \<and>
    get_u32 m 0 = BLOB_MAGIC \<and> get_u32 m 4 = 1 \<and> get_u32 m 8 = 17132 \<and> get_u32 m 12 = 64 \<and> get_u32 m 16 = 1252 \<and>
    get_u32 m 20 = 1316 \<and> get_u32 m 24 = 15656 \<and> get_u32 m 28 = 16972 \<and> get_u32 m 32 = 8 \<and> get_u32 m 36 = 17100 \<and>
    get_u32 m 40 = 32 \<and> get_u32 m 44 = 0 \<and> get_u64 m 48 = 0 \<and> get_u64 m 56 = 0"
proof -
  define h where "h = put_u32 (put_u32 (put_u32 (put_u32 (put_u32 (put_u32 (put_u32 (put_u32 (put_u32 (put_u32 (put_u32
    (replicate 17132 0) 0 BLOB_MAGIC) 4 1) 8 17132) 12 64) 16 1252) 20 1316) 24 15656) 28 16972) 32 8) 36 17100) 40 32"
  define m where "m = memcpy (memcpy (put_each put_u32 4 (put_each put_u32 4 h 64 (take 313 v)) 1316 (take 3914 f))
    16972 s 128) 17100 d 32"
  have e: "encode_vulkan_builtin_graphics_pipeline_blob (Some b) (Some v) (Some f) (Some s) (Some d) = Inr m"
    using assms by (simp add: encode_vulkan_builtin_graphics_pipeline_blob_def m_def h_def memset0_all Let_def)
  have h: "length h = 17132" by (simp add: h_def)
  note lens = h assms(2-5)
  have arrays: "get_each g w (memcpy c i t n) j k = get_each g w c j k"
    if "reads w g" "j + k * w \<le> i" "i + n \<le> length c" "n \<le> length t" for g :: "bytes \<Rightarrow> nat \<Rightarrow> u32" and w c i t n j k
  proof (rule get_each_cong)
    fix l assume "l < k"
    then have "j + 0 + l * w + w \<le> j + k * w" by (intro entry_end) simp_all
    then show "g (memcpy c i t n) (j + l * w) = g c (j + l * w)"
      using that by (intro reads_cong [OF that(1)]) (auto simp: nth_memcpy_out)
  qed
  have "length m = 17132" using lens by (simp add: m_def)
  moreover have "get_each get_u32 4 m 64 313 = take 313 v" "get_each get_u32 4 m 1316 3914 = take 3914 f"
    using lens by (simp_all add: m_def arrays reads_u32 wire_simps)
  moreover have "get_bytes m 16972 128 = take 128 s" "get_bytes m 17100 32 = take 32 d"
    using lens by (simp_all add: m_def wire_simps)
  moreover have "get_u32 m j = get_u32 h j" if "j + 4 \<le> 64" for j
    using lens that by (simp add: m_def wire_simps)
  moreover have "get_u64 m j = get_u64 h j" if "j + 8 \<le> 64" for j
    using lens that by (simp add: m_def wire_simps)
  ultimately show ?thesis using e by (simp add: h_def wire_simps)
qed

text \<open>
  What the encoder wrote is found again at the offsets the decoder hands out. The encoder copies the
  specialization entries unseen; the decoder refuses the block when one of them reaches outside the data.
\<close>

lemma blob_exchange:
  assumes "length b = 17132" "313 \<le> length v" "3914 \<le> length f" "128 \<le> length s" "32 \<le> length d"
    and "v ! 0 = SPIRV_MAGIC" "f ! 0 = SPIRV_MAGIC"
  shows "\<exists>m. encode_vulkan_builtin_graphics_pipeline_blob (Some b) (Some v) (Some f) (Some s) (Some d) = Inr m \<and>
    length m = 17132 \<and>
    decode_vulkan_builtin_graphics_pipeline_blob (Some m) 17132 (Some w) =
      (if list_all (\<lambda>i. specialization_entry_ok s (i * 16)) [0..<8]
       then Inr \<lparr>bbv_vertex_words = 64, bbv_fragment_words = 1316, bbv_specialization_entries = 16972,
         bbv_specialization_data = 17100\<rparr>
       else Inl EPROTO) \<and>
    get_each get_u32 4 m 64 313 = take 313 v \<and> get_each get_u32 4 m 1316 3914 = take 3914 f \<and>
    get_bytes m 16972 128 = take 128 s \<and> get_bytes m 17100 32 = take 32 d"
proof -
  obtain m where m: "encode_vulkan_builtin_graphics_pipeline_blob (Some b) (Some v) (Some f) (Some s) (Some d) = Inr m"
    "length m = 17132" "get_each get_u32 4 m 64 313 = take 313 v" "get_each get_u32 4 m 1316 3914 = take 3914 f"
    "get_bytes m 16972 128 = take 128 s" "get_bytes m 17100 32 = take 32 d"
    and head: "get_u32 m 0 = BLOB_MAGIC" "get_u32 m 4 = 1" "get_u32 m 8 = 17132" "get_u32 m 12 = 64" "get_u32 m 16 = 1252"
    "get_u32 m 20 = 1316" "get_u32 m 24 = 15656" "get_u32 m 28 = 16972" "get_u32 m 32 = 8" "get_u32 m 36 = 17100"
    "get_u32 m 40 = 32" "get_u32 m 44 = 0" "get_u64 m 48 = 0" "get_u64 m 56 = 0"
    using encode_blob [OF assms] by blast
  have first: "get_u32 m at = x ! 0" if "get_each get_u32 4 m at k = take k x" "0 < k" "k \<le> length x" for at k x
    using arg_cong [OF that(1), of "\<lambda>y. y ! 0"] that(2,3) by (simp add: get_each_def)
  have "get_u32 m 64 = SPIRV_MAGIC" "get_u32 m 1316 = SPIRV_MAGIC"
    using first [OF m(3)] first [OF m(4)] assms by simp_all
  moreover have "list_all (\<lambda>i. specialization_entry_ok m (16972 + i * 16)) [0..<8] \<longleftrightarrow>
      list_all (\<lambda>i. specialization_entry_ok s (i * 16)) [0..<8]"
    using specialization_entry_copied [OF m(5)] m(2) assms(4) by (intro list_all_cong) auto
  ultimately have "decode_vulkan_builtin_graphics_pipeline_blob (Some m) 17132 (Some w) =
      (if list_all (\<lambda>i. specialization_entry_ok s (i * 16)) [0..<8]
       then Inr \<lparr>bbv_vertex_words = 64, bbv_fragment_words = 1316, bbv_specialization_entries = 16972,
         bbv_specialization_data = 17100\<rparr>
       else Inl EPROTO)"
    by (simp add: decode_vulkan_builtin_graphics_pipeline_blob_def head)
  then show ?thesis using m by blast
qed

subsection \<open>All messages of the two files\<close>



end
