(* ===== verification/Service_Journal.thy ===== *)
theory Service_Journal
  imports Pipeline_Wire Proto_Packed Proto_Batch
begin

unbundle bit_operations_syntax

section \<open>The descriptor journal\<close>

text \<open>
  Descriptor updates are frequent, so the client writes them one after the other into a shared region,
  the journal, and tells the service from time to time to replay what has been written. This theory has
  the client's side (src/src/global_dispatch.c 348-357 and 915-1004) and the service's
  (src/src/bridge_service.c 2199-2323). The update itself, which goes to the Vulkan driver, is a
  parameter: a function that takes the driver's state and an update and returns a status and the new state.
\<close>

subsection \<open>The service\<close>

abbreviation (input) JOURNAL_RECORD_HEADER_SIZE :: "'a::numeral" where "JOURNAL_RECORD_HEADER_SIZE \<equiv> 8"

definition descriptor_journal_record_length :: "u32 \<Rightarrow> u32" where
  "descriptor_journal_record_length payload_length =
     (if payload_length > 0xffffffff - JOURNAL_RECORD_HEADER_SIZE - 7 then 0
      else (JOURNAL_RECORD_HEADER_SIZE + payload_length + 7) AND NOT 7)"

definition no_template_update :: vulkan_descriptor_template_update_request where
  "no_template_update = \<lparr>dtu_device_id = 0, dtu_descriptor_set_id = 0, dtu_descriptor_update_template_id = 0,
     dtu_value_count = 0, dtu_values = replicate 64 no_template_value\<rparr>"

text \<open>The loop over the records, with \<open>n\<close> left; the result is the offset after the last one.\<close>

fun validate_journal_records :: "bytes \<Rightarrow> u32 \<Rightarrow> nat \<Rightarrow> u32 \<Rightarrow> u32 result" where
  "validate_journal_records snapshot len 0 offset = Inr offset"
| "validate_journal_records snapshot len (Suc n) offset =
     (if offset > len \<or> JOURNAL_RECORD_HEADER_SIZE > len - offset then Inl EPROTO
      else
      let payload_length = get_u32 snapshot (unat offset);
          reserved = get_u32 snapshot (unat offset + 4);
          record_length = descriptor_journal_record_length payload_length in
      if reserved \<noteq> 0 \<or> payload_length = 0 \<or> payload_length > BVB_PROTOCOL_MAX_PAYLOAD \<or>
         record_length = 0 \<or> record_length > len - offset then Inl EPROTO
      else
      case decode_vulkan_descriptor_template_update_request (Some (drop (unat offset + 8) snapshot)) payload_length
          (Some no_template_update) of
        Inl e \<Rightarrow> Inl e
      | Inr _ \<Rightarrow>
          let payload_end = offset + JOURNAL_RECORD_HEADER_SIZE + payload_length in
          if \<not> list_all (\<lambda>padding. snapshot ! padding = 0) [unat payload_end..<unat (offset + record_length)] then Inl EPROTO
          else validate_journal_records snapshot len n (offset + record_length))"

definition validate_descriptor_journal_snapshot :: "bytes option \<Rightarrow> u32 \<Rightarrow> u32 \<Rightarrow> unit result" where
  "validate_descriptor_journal_snapshot snapshot len record_count =
     (case snapshot of None \<Rightarrow> Inl EINVAL | Some snapshot \<Rightarrow>
      if len = 0 \<or> record_count = 0 \<or> record_count > BVB_DESCRIPTOR_JOURNAL_MAX_RECORDS then Inl EINVAL
      else
      case validate_journal_records snapshot len (unat record_count) 0 of
        Inl e \<Rightarrow> Inl e
      | Inr offset \<Rightarrow> if offset = len then Inr () else Inl EPROTO)"

type_synonym 'c updater = "'c \<Rightarrow> vulkan_descriptor_template_update_request \<Rightarrow> int \<times> 'c"

fun replay_journal_records :: "'c updater \<Rightarrow> bytes \<Rightarrow> nat \<Rightarrow> u32 \<Rightarrow> 'c \<Rightarrow> int \<times> u32 \<times> 'c" where
  "replay_journal_records update snapshot 0 offset context = (0, offset, context)"
| "replay_journal_records update snapshot (Suc n) offset context =
     (let payload_length = get_u32 snapshot (unat offset) in
      case decode_vulkan_descriptor_template_update_request (Some (drop (unat offset + 8) snapshot)) payload_length
          (Some no_template_update) of
        Inl e \<Rightarrow> (neg e, offset, context)
      | Inr decoded \<Rightarrow>
          (case update context decoded of (result, context) \<Rightarrow>
           if result \<noteq> 0 then (result, offset, context)
           else replay_journal_records update snapshot n (offset + descriptor_journal_record_length payload_length) context))"

definition replay_descriptor_journal_snapshot ::
  "'c updater \<Rightarrow> 'c \<Rightarrow> bytes \<Rightarrow> u32 \<Rightarrow> u32 \<Rightarrow> int \<times> 'c" where
  "replay_descriptor_journal_snapshot update context snapshot len record_count =
     (case replay_journal_records update snapshot (unat record_count) 0 context of (result, offset, context) \<Rightarrow>
      if result \<noteq> 0 then (result, context)
      else (if offset = len then 0 else neg EPROTO, context))"

text \<open>The region as the service knows it; its memory is what the client has mapped as well.\<close>

record shared_batch_region =
  sr_mapped :: bool
  sr_length :: nat
  sr_generation :: u64
  sr_last_sequence :: u64
  sr_command_stream :: bool
  sr_descriptor_journal :: bool

text \<open>
  Replaying what a message announces, up to and including the replay: shared by the flush and by the
  allocation with a journal. \<open>memory\<close> is the region's content when the snapshot is taken,
  \<open>allocated\<close> whether \<^verbatim>\<open>malloc\<close> found room for it.
\<close>

definition journal_admits :: "shared_batch_region \<Rightarrow> u64 \<Rightarrow> u64 \<Rightarrow> u32 \<Rightarrow> unit result" where
  "journal_admits region generation sequence len =
     (if generation \<noteq> sr_generation region then Inl ESTALE
      else if sr_last_sequence region = 0xffffffffffffffff \<or> sequence \<noteq> sr_last_sequence region + 1 then Inl ESTALE
      else if unat len > sr_length region then Inl ERANGE
      else Inr ())"

definition replay_journal ::
  "'c updater \<Rightarrow> bool \<Rightarrow> bytes \<Rightarrow> 'c \<Rightarrow> u32 \<Rightarrow> u32 \<Rightarrow> int \<times> 'c" where
  "replay_journal update allocated memory context len record_count =
     (if \<not> allocated then (neg ENOMEM, context)
      else
      let snapshot = take (unat len) memory in
      case validate_descriptor_journal_snapshot (Some snapshot) len record_count of
        Inl e \<Rightarrow> (neg e, context)
      | Inr _ \<Rightarrow> replay_descriptor_journal_snapshot update context snapshot len record_count)"

definition answer_vulkan_descriptor_journal_flush ::
  "'c updater \<Rightarrow> bool \<Rightarrow> bytes \<Rightarrow> bool \<Rightarrow> 'c option \<Rightarrow> shared_batch_region option \<Rightarrow> bytes \<Rightarrow> u32 \<Rightarrow>
   int \<times> 'c option \<times> shared_batch_region option" where
  "answer_vulkan_descriptor_journal_flush update allocated memory negotiated context region payload payload_length =
     (case (context, region) of
       (Some ctx, Some reg) \<Rightarrow>
         if \<not> negotiated \<or> \<not> sr_mapped reg \<or> \<not> sr_descriptor_journal reg \<or> sr_command_stream reg \<or>
            payload_length \<noteq> BVB_DESCRIPTOR_JOURNAL_FLUSH_SIZE then (neg EPROTO, context, region)
         else
         (case decode_vulkan_descriptor_journal_flush (Some payload)
             (Some \<lparr>djf_generation = 0, djf_sequence = 0, djf_length = 0, djf_record_count = 0\<rparr>) of
           Inl e \<Rightarrow> (neg e, context, region)
         | Inr flush \<Rightarrow>
             (case journal_admits reg (djf_generation flush) (djf_sequence flush) (djf_length flush) of
               Inl e \<Rightarrow> (neg e, context, region)
             | Inr _ \<Rightarrow>
                 (case replay_journal update allocated memory ctx (djf_length flush) (djf_record_count flush) of
                   (result, ctx) \<Rightarrow>
                     if result = 0 then (0, Some ctx, Some (reg\<lparr>sr_last_sequence := djf_sequence flush\<rparr>))
                     else (result, Some ctx, region))))
     | _ \<Rightarrow> (neg EPROTO, context, region))"

subsection \<open>The client\<close>

text \<open>
  The part of the client's state that the journal uses. \<open>exchange\<close> sends a request and receives the
  answer: from the memory of the journal, the payload and the state of the other side to the result of
  the transport, the status and the payload length of the answer, and the other side's new state.
\<close>

record journal_client =
  jc_enabled :: bool
  jc_socket :: bool
  jc_mapping :: "bytes option"
  jc_generation :: u64
  jc_next_sequence :: u64
  jc_length :: u32
  jc_record_count :: u32
  jc_flushing :: bool
  jc_poisoned :: bool

type_synonym 'w exchange = "bytes \<Rightarrow> bytes \<Rightarrow> 'w \<Rightarrow> int \<times> int \<times> u32 \<times> 'w"

definition poison_descriptor_journal_connection_locked :: "journal_client \<Rightarrow> journal_client" where
  "poison_descriptor_journal_connection_locked client = client\<lparr>jc_poisoned := True, jc_socket := False\<rparr>"

definition flush_descriptor_journal_locked :: "'w exchange \<Rightarrow> journal_client \<Rightarrow> 'w \<Rightarrow> int \<times> journal_client \<times> 'w" where
  "flush_descriptor_journal_locked exchange client w =
     (if \<not> jc_enabled client \<or> jc_length client = 0 then (0, client, w)
      else if \<not> jc_socket client \<or> jc_mapping client = None \<or> jc_next_sequence client = 0
      then (neg EPIPE, poison_descriptor_journal_connection_locked client, w)
      else
      let flush = \<lparr>djf_generation = jc_generation client, djf_sequence = jc_next_sequence client,
            djf_length = jc_length client, djf_record_count = jc_record_count client\<rparr> in
      case encode_vulkan_descriptor_journal_flush (Some (replicate BVB_PROTOCOL_MAX_PAYLOAD 0)) (Some flush) of
        Inl e \<Rightarrow> (neg e, poison_descriptor_journal_connection_locked client, w)
      | Inr payload \<Rightarrow>
          (case exchange (the (jc_mapping client)) payload w of (result, status, payload_length, w) \<Rightarrow>
           let result = if result = 0 \<and> (status \<noteq> 0 \<or> payload_length \<noteq> 0)
                 then if status \<noteq> 0 then status else neg EPROTO else result in
           if result \<noteq> 0 then (result, poison_descriptor_journal_connection_locked client, w)
           else
           let client = client\<lparr>jc_length := 0, jc_record_count := 0, jc_next_sequence := jc_next_sequence client + 1\<rparr> in
           if jc_next_sequence client = 0 then (neg EOVERFLOW, poison_descriptor_journal_connection_locked client, w)
           else (0, client, w)))"

text \<open>Every other request first sends what is in the journal, so that it finds the updates done.\<close>

definition flush_descriptor_journal_before_exchange_locked ::
  "'w exchange \<Rightarrow> u16 \<Rightarrow> journal_client \<Rightarrow> 'w \<Rightarrow> int \<times> journal_client \<times> 'w" where
  "flush_descriptor_journal_before_exchange_locked exchange opcode client w =
     (if jc_flushing client \<or> opcode = 121 \<or> opcode = 122 \<or> opcode = 123 \<or> opcode = 124 then (0, client, w)
      else flush_descriptor_journal_locked exchange client w)"

definition append_descriptor_journal_locked ::
  "'w exchange \<Rightarrow> bytes option \<Rightarrow> u32 \<Rightarrow> journal_client \<Rightarrow> 'w \<Rightarrow> int \<times> journal_client \<times> 'w" where
  "append_descriptor_journal_locked exchange payload payload_length client w =
     (if \<not> jc_enabled client \<or> payload = None \<or> payload_length = 0 \<or> payload_length > BVB_PROTOCOL_MAX_PAYLOAD \<or>
         jc_mapping client = None then (neg EINVAL, client, w)
      else
      let unaligned = JOURNAL_RECORD_HEADER_SIZE + payload_length; record_length = (unaligned + 7) AND NOT 7 in
      if record_length > BVB_DESCRIPTOR_JOURNAL_REGION_BYTES then (neg E2BIG, client, w)
      else
      case (if jc_record_count client = BVB_DESCRIPTOR_JOURNAL_MAX_RECORDS \<or>
               record_length > BVB_DESCRIPTOR_JOURNAL_REGION_BYTES - jc_length client
            then flush_descriptor_journal_locked exchange client w else (0, client, w)) of
        (result, client, w) \<Rightarrow>
      if result \<noteq> 0 then (result, client, w)
      else
      let at = unat (jc_length client); mapping = the (jc_mapping client) in
      let mapping = put_u32 mapping at payload_length in
      let mapping = put_u32 mapping (at + 4) 0 in
      let mapping = memcpy mapping (at + 8) (the payload) (unat payload_length) in
      let mapping = memset0 mapping (at + unat unaligned) (unat (record_length - unaligned)) in
      (0, client\<lparr>jc_mapping := Some mapping, jc_length := jc_length client + record_length,
         jc_record_count := jc_record_count client + 1\<rparr>, w))"

subsection \<open>What a journal is\<close>

text \<open>The bytes of one record, and what \<open>n\<close> updates in turn do to the driver's state.\<close>

definition padded :: "nat \<Rightarrow> nat" where
  "padded n = (n + 15) div 8 * 8"

definition journal_record :: "bytes \<Rightarrow> bytes" where
  "journal_record payload =
     put_u32 (replicate 8 0) 0 (word_of_nat (length payload)) @ payload @ replicate (padded (length payload) - 8 - length payload) 0"

definition update_payload :: "bytes \<Rightarrow> vulkan_descriptor_template_update_request \<Rightarrow> bool" where
  "update_payload payload update \<longleftrightarrow> payload \<noteq> [] \<and> length payload \<le> BVB_PROTOCOL_MAX_PAYLOAD \<and>
     decode_vulkan_descriptor_template_update_request (Some payload) (word_of_nat (length payload))
       (Some no_template_update) = Inr update"

fun apply_updates :: "'c updater \<Rightarrow> vulkan_descriptor_template_update_request list \<Rightarrow> 'c \<Rightarrow> int \<times> 'c" where
  "apply_updates update [] ctx = (0, ctx)"
| "apply_updates update (u # us) ctx =
     (case update ctx u of (result, ctx) \<Rightarrow>
      if result \<noteq> 0 then (result, ctx) else apply_updates update us ctx)"

lemma length_journal_record: "length (journal_record p) = padded (length p)"
  by (simp add: journal_record_def padded_def)

lemma padded_bounds: "n + 8 \<le> padded n" "padded n \<le> n + 15"
  by (simp_all add: padded_def)


lemma record_length:
  assumes "unat n \<le> 4096"
  shows "unat (descriptor_journal_record_length n) = padded (unat n)"
proof -
  have u: "unat (8 + n + 7) = unat n + 15" using assms by (simp add: unat_word_ariths)
  have seven: "(x + 7) AND NOT 7 = (x + 7) AND NOT (mask 3)" for x :: u32 by (simp add: mask_eq_exp_minus_1)
  have "(8 + n + 7) AND NOT 7 = push_bit 3 (drop_bit 3 (8 + n + 7))"
    unfolding seven by (rule bit_word_eqI) (auto simp: bit_simps)
  also have "unat \<dots> = (unat n + 15) div 8 * 8"
  proof -
    have d: "unat ((8 + n + 7) div 8) = (unat n + 15) div 8" unfolding unat_div u by simp
    have "push_bit 3 (drop_bit 3 (8 + n + 7)) = (8 + n + 7) div 8 * 8"
      by (simp add: push_bit_eq_mult drop_bit_eq_div)
    moreover have "unat ((8 + n + 7) div 8 * 8) = (unat n + 15) div 8 * 8"
      unfolding unat_word_ariths(2) [of "(8 + n + 7) div 8"] d using assms by simp
    ultimately show ?thesis by simp
  qed
  moreover have "\<not> n > 0xffffffff - 8 - 7" using assms by (simp add: word_less_nat_alt not_less)
  ultimately show ?thesis by (simp add: descriptor_journal_record_length_def padded_def)
qed


lemma journal_record_reads:
  "get_u32 (journal_record p @ c) 0 = word_of_nat (length p)" "get_u32 (journal_record p @ c) 4 = 0"
  "drop 8 (journal_record p @ c) = p @ replicate (padded (length p) - 8 - length p) 0 @ c"
  by (simp_all add: journal_record_def wire_simps)

lemma journal_recordI:
  assumes "length m = padded k" "get_u32 m 0 = word_of_nat k" "get_u32 m 4 = 0"
    and "\<And>i. 8 + k \<le> i \<Longrightarrow> i < padded k \<Longrightarrow> m ! i = 0"
  shows "journal_record (take k (drop 8 m)) = m"
proof -
  have l: "k + 8 \<le> length m" using assms(1) padded_bounds [of k] by simp
  have h: "take 8 m = put_u32 (replicate 8 0) 0 (word_of_nat k)"
  proof -
    have "covers 8 (put_u32 (replicate 8 0) 0 (word_of_nat k)) (take 8 m)"
      by (rule covers_skip [where i = 4], rule covers_put_u32, rule covers_start)
        (use l assms in \<open>simp_all add: wire_simps\<close>)
    from covers_end [OF this] l show ?thesis by simp
  qed
  have z: "drop (8 + k) m = replicate (padded k - 8 - k) 0"
    using assms(1,4) by (intro nth_equalityI) auto
  have "m = take 8 m @ take k (drop 8 m) @ drop (8 + k) m"
    by (metis append_take_drop_id drop_drop add.commute)
  then show ?thesis unfolding journal_record_def using h z l assms(1) by simp
qed

lemma unat_small: "n \<le> 16777216 \<Longrightarrow> unat (word_of_nat n :: u32) = n"
  by (simp add: unat_of_nat)

lemma unat_advance: "unat off + k \<le> 16777216 \<Longrightarrow> unat (off + word_of_nat k :: u32) = unat off + k"
  by (simp add: unat_word_ariths unat_of_nat)

text \<open>One record, at an offset of a snapshot of exactly \<open>len\<close> bytes.\<close>

definition journal_record_at :: "bytes \<Rightarrow> nat \<Rightarrow> bytes \<Rightarrow> vulkan_descriptor_template_update_request \<Rightarrow> bool" where
  "journal_record_at s off p u \<longleftrightarrow> update_payload p u \<and> off + padded (length p) \<le> length s \<and>
     take (padded (length p)) (drop off s) = journal_record p"

lemma journal_record_at_reads:
  assumes "journal_record_at s (unat off) p u" "length s \<le> 16777216"
  shows "get_u32 s (unat off) = word_of_nat (length p)" "get_u32 s (unat off + 4) = 0"
    "drop (unat off + 8) s = p @ drop (unat off + 8 + length p) s" "length p \<noteq> 0" "length p \<le> 4096"
    "unat (descriptor_journal_record_length (word_of_nat (length p))) = padded (length p)"
    "decode_vulkan_descriptor_template_update_request (Some (drop (unat off + 8) s)) (word_of_nat (length p))
       (Some no_template_update) = Inr u"
    "\<And>i. unat off + 8 + length p \<le> i \<Longrightarrow> i < unat off + padded (length p) \<Longrightarrow> s ! i = 0"
proof -
  have p: "update_payload p u" and l: "unat off + padded (length p) \<le> length s"
    and t: "take (padded (length p)) (drop (unat off) s) = journal_record p"
    using assms(1) by (auto simp: journal_record_at_def)
  show n: "length p \<noteq> 0" "length p \<le> 4096" using p by (auto simp: update_payload_def)
  have d: "drop (unat off) s = journal_record p @ drop (padded (length p)) (drop (unat off) s)"
    using t by (metis append_take_drop_id)
  have g: "get_u32 s (unat off + j) = get_u32 (drop (unat off) s) j" if "j + 4 \<le> length (drop (unat off) s)" for j
    using that by (simp add: get_defs add_ac)
  have r: "8 \<le> length (drop (unat off) s)" using l padded_bounds(1) [of "length p"] by simp
  show "get_u32 s (unat off) = word_of_nat (length p)" "get_u32 s (unat off + 4) = 0"
    using g [of 0] g [of 4] r journal_record_reads(1,2) [of p "drop (padded (length p)) (drop (unat off) s)"]
    unfolding d [symmetric] by simp_all
  have "drop 8 (drop (unat off) s) = p @ replicate (padded (length p) - 8 - length p) 0 @ drop (padded (length p)) (drop (unat off) s)"
    using journal_record_reads(3) [of p "drop (padded (length p)) (drop (unat off) s)"] unfolding d [symmetric] .
  then have body: "drop (unat off + 8) s = p @ replicate (padded (length p) - 8 - length p) 0 @
      drop (padded (length p)) (drop (unat off) s)" by (simp add: add.commute)
  then have "drop (length p) (drop (unat off + 8) s) = replicate (padded (length p) - 8 - length p) 0 @
      drop (padded (length p)) (drop (unat off) s)" by simp
  then show "drop (unat off + 8) s = p @ drop (unat off + 8 + length p) s"
    unfolding drop_drop using body by (simp add: add.commute)
  show "unat (descriptor_journal_record_length (word_of_nat (length p))) = padded (length p)"
    using record_length [of "word_of_nat (length p)"] n(2) by (simp add: unat_of_nat)
  show "decode_vulkan_descriptor_template_update_request (Some (drop (unat off + 8) s)) (word_of_nat (length p))
       (Some no_template_update) = Inr u"
    using template_update.sized.dec_local [of p "word_of_nat (length p)"] p n(2)
    unfolding body by (simp add: update_payload_def unat_of_nat)
  show "s ! i = 0" if "unat off + 8 + length p \<le> i" "i < unat off + padded (length p)" for i
  proof -
    have "s ! i = drop (unat off + 8) s ! (i - (unat off + 8))" using that l by simp
    also have "\<dots> = 0" unfolding body using that by (auto simp: nth_append)
    finally show ?thesis .
  qed
qed


lemma journal_record_at_validates:
  assumes "journal_record_at s (unat off) p u" "length s = unat len" "unat len \<le> 16777216"
  shows "validate_journal_records s len (Suc n) off = validate_journal_records s len n (off + word_of_nat (padded (length p)))"
proof -
  note r = journal_record_at_reads [OF assms(1)]
  have l: "unat off + padded (length p) \<le> unat len" using assms(1,2) by (simp add: journal_record_at_def)
  have rl: "descriptor_journal_record_length (word_of_nat (length p)) = word_of_nat (padded (length p))"
    using r(5,6) assms l by (intro word_unat_eq_iff [THEN iffD2]) (simp add: unat_small)
  have room: "unat (len - off) = unat len - unat off" using l by (simp add: unat_sub word_le_nat_alt)
  have ends: "unat (off + 8 + word_of_nat (length p)) = unat off + 8 + length p"
    "unat (off + word_of_nat (padded (length p))) = unat off + padded (length p)"
    using unat_advance [of off "8 + length p"] unat_advance [of off "padded (length p)"] l assms(3)
      padded_bounds(1) [of "length p"] by (simp_all add: add.assoc)
  have "list_all (\<lambda>i. s ! i = 0) [unat (off + 8 + word_of_nat (length p))..<unat (off + word_of_nat (padded (length p)))]"
    unfolding ends using r(8) assms(2,3) by (simp add: list_all_iff)
  moreover have "\<not> off > len" "\<not> 8 > len - off" "\<not> word_of_nat (padded (length p)) > len - off"
    "(word_of_nat (padded (length p)) :: u32) \<noteq> 0" "(word_of_nat (length p) :: u32) \<noteq> 0"
    "\<not> (word_of_nat (length p) :: u32) > 4096"
    using l r(4,5) padded_bounds [of "length p"] assms(2,3)
    by (auto simp: word_less_nat_alt not_less room unat_small simp flip: unat_eq_zero)
  ultimately show ?thesis using r(1,2,7) assms(2,3) by (simp add: Let_def rl)
qed

lemma validates_record_at:
  assumes "validate_journal_records s len (Suc n) off = Inr r" "length s = unat len" "unat len \<le> 16777216"
  obtains p u where "journal_record_at s (unat off) p u"
proof -
  let ?k = "get_u32 s (unat off)"
  have g: "off \<le> len" "8 \<le> len - off" "get_u32 s (unat off + 4) = 0" "?k \<noteq> 0" "?k \<le> 4096"
      "descriptor_journal_record_length ?k \<le> len - off"
    using assms(1) by (auto simp: Let_def not_less split: if_splits sum.splits)
  obtain u where u: "decode_vulkan_descriptor_template_update_request (Some (drop (unat off + 8) s)) ?k
      (Some no_template_update) = Inr u"
    using assms(1) by (auto simp: Let_def split: if_splits sum.splits)
  have z: "list_all (\<lambda>i. s ! i = 0) [unat (off + 8 + ?k)..<unat (off + descriptor_journal_record_length ?k)]"
    using assms(1) by (auto simp: Let_def split: if_splits sum.splits)
  have k: "unat ?k \<le> 4096" "unat ?k \<noteq> 0" using g(4,5) by (simp_all add: word_le_nat_alt unat_eq_zero)
  note rl = record_length [OF k(1)]
  have rw: "descriptor_journal_record_length ?k = word_of_nat (padded (unat ?k))" unfolding rl [symmetric] by simp
  have "unat (len - off) = unat len - unat off" using g(1) by (simp add: unat_sub)
  then have l: "unat off + padded (unat ?k) \<le> unat len" "unat off \<le> unat len"
    using g(1,6) rl by (simp_all add: word_le_nat_alt)
  have ends: "unat (off + 8 + ?k) = unat off + 8 + unat ?k"
      "unat (off + descriptor_journal_record_length ?k) = unat off + padded (unat ?k)"
    using unat_advance [of off "8 + unat ?k"] unat_advance [of off "padded (unat ?k)"] l assms(3)
      padded_bounds(1) [of "unat ?k"] by (simp_all add: add.assoc rw)
  let ?m = "take (padded (unat ?k)) (drop (unat off) s)" and ?p = "take (unat ?k) (drop (unat off + 8) s)"
  have pm: "?p = take (unat ?k) (drop 8 ?m)"
    using padded_bounds(1) [of "unat ?k"] by (simp add: drop_take add.commute)
  have lp: "length ?p = unat ?k" using l padded_bounds(1) [of "unat ?k"] assms(2) by simp
  have gm: "get_u32 ?m j = get_u32 s (unat off + j)" if "j + 4 \<le> 8" for j
    using that l assms(2) padded_bounds(1) [of "unat ?k"] by (simp add: get_defs add_ac)
  have "journal_record ?p = ?m"
    unfolding pm
  proof (rule journal_recordI)
    show "length ?m = padded (unat ?k)" using l assms(2) by simp
    show "get_u32 ?m 0 = word_of_nat (unat ?k)" "get_u32 ?m 4 = 0" using gm [of 0] gm [of 4] g(3) by simp_all
    show "?m ! i = 0" if "8 + unat ?k \<le> i" "i < padded (unat ?k)" for i
      using z that l assms(2) unfolding ends list_all_iff by simp
  qed
  moreover have "update_payload ?p u"
    using template_update.sized.dec_local [of ?p ?k "drop (unat ?k) (drop (unat off + 8) s)" no_template_update] u lp k
    by (auto simp: update_payload_def append_take_drop_id simp del: drop_drop)
  ultimately show ?thesis using that [of ?p u] l lp assms(2) by (simp add: journal_record_at_def)
qed


definition journal :: "bytes list \<Rightarrow> bytes" where
  "journal ps = concat (map journal_record ps)"

lemma journal_simps [simp]:
  "journal [] = []" "journal (p # ps) = journal_record p @ journal ps" "journal (ps @ qs) = journal ps @ journal qs"
  by (simp_all add: journal_def)

lemma take_append_iff:
  assumes "length x = a"
  shows "take (a + b) xs = x @ y \<longleftrightarrow> take a xs = x \<and> take b (drop a xs) = y"
proof (cases "a \<le> length xs")
  case True
  then show ?thesis using assms by (simp add: take_add)
next
  case False
  then have "take (a + b) xs \<noteq> x @ y" using assms by (metis length_append length_take min.cobounded1 not_le trans_less_add1 trans_le_add1 min_less_iff_disj nat_le_linear)
  moreover have "take a xs \<noteq> x" using False assms by auto
  ultimately show ?thesis by simp
qed

text \<open>The validator accepts a snapshot exactly when it is a journal, and finds its end.\<close>

lemma validate_journal_records_iff:
  assumes "length s = unat len" "unat len \<le> 16777216"
  shows "unat off \<le> unat len \<Longrightarrow> validate_journal_records s len n off = Inr r \<longleftrightarrow>
    (\<exists>ps us. length ps = n \<and> list_all2 update_payload ps us \<and> unat r = unat off + length (journal ps) \<and> unat r \<le> unat len \<and>
      take (length (journal ps)) (drop (unat off) s) = journal ps)"
proof (induction n arbitrary: off)
  case 0
  then show ?case by (auto simp: word_unat_eq_iff)
next
  case (Suc n)
  let ?tail = "\<lambda>off ps us. length ps = n \<and> list_all2 update_payload ps us \<and> unat r = unat off + length (journal ps) \<and>
    unat r \<le> unat len \<and> take (length (journal ps)) (drop (unat off) s) = journal ps"
  show ?case
  proof
    assume v: "validate_journal_records s len (Suc n) off = Inr r"
    obtain p u where a: "journal_record_at s (unat off) p u" using validates_record_at [OF v assms] .
    then have l: "unat off + padded (length p) \<le> unat len"
      and t: "take (padded (length p)) (drop (unat off) s) = journal_record p" and p: "update_payload p u"
      using assms(1) by (auto simp: journal_record_at_def)
    let ?o = "off + word_of_nat (padded (length p)) :: u32"
    have o: "unat ?o = unat off + padded (length p)" using l assms(2) by (intro unat_advance) simp
    obtain ps us where "?tail ?o ps us"
      using v Suc.IH [of ?o] journal_record_at_validates [OF a assms] o l by auto
    moreover have "take (padded (length p) + length (journal ps)) (drop (unat off) s) = journal_record p @ journal ps"
      using calculation t o by (subst take_append_iff) (auto simp: length_journal_record add.commute)
    ultimately show "\<exists>ps us. length ps = Suc n \<and> list_all2 update_payload ps us \<and> unat r = unat off + length (journal ps) \<and>
        unat r \<le> unat len \<and> take (length (journal ps)) (drop (unat off) s) = journal ps"
      using p t o by (intro exI [of _ "p # ps"] exI [of _ "u # us"])
        (simp add: length_journal_record)
  next
    assume "\<exists>ps us. length ps = Suc n \<and> list_all2 update_payload ps us \<and> unat r = unat off + length (journal ps) \<and>
        unat r \<le> unat len \<and> take (length (journal ps)) (drop (unat off) s) = journal ps"
    then obtain p ps u us where q: "length ps = n" "update_payload p u" "list_all2 update_payload ps us"
        "unat r = unat off + (padded (length p) + length (journal ps))" "unat r \<le> unat len"
        "take (padded (length p) + length (journal ps)) (drop (unat off) s) = journal_record p @ journal ps"
      by (auto simp: length_Suc_conv list_all2_Cons1 length_journal_record)
    have t: "take (padded (length p)) (drop (unat off) s) = journal_record p"
        "take (length (journal ps)) (drop (padded (length p)) (drop (unat off) s)) = journal ps"
      using q(6) by (simp_all add: length_journal_record take_append_iff)
    let ?o = "off + word_of_nat (padded (length p)) :: u32"
    have o: "unat ?o = unat off + padded (length p)" using q(4,5) assms(2) by (intro unat_advance) simp
    have a: "journal_record_at s (unat off) p u" using q(2,4,5) t(1) assms(1) by (simp add: journal_record_at_def)
    have "?tail ?o ps us" using q t(2) o by (simp add: add.commute)
    then have "validate_journal_records s len n ?o = Inr r" using Suc.IH [of ?o] o q(4,5) by auto
    then show "validate_journal_records s len (Suc n) off = Inr r" using journal_record_at_validates [OF a assms] by simp
  qed
qed

lemma validate_snapshot_iff:
  assumes "length s = unat len" "unat len \<le> 16777216"
  shows "validate_descriptor_journal_snapshot (Some s) len cnt = Inr () \<longleftrightarrow>
    cnt \<noteq> 0 \<and> cnt \<le> 65536 \<and> (\<exists>ps us. length ps = unat cnt \<and> list_all2 update_payload ps us \<and> s = journal ps)"
proof -
  have "len \<noteq> 0" if "length ps = unat cnt" "cnt \<noteq> 0" "s = journal ps" for ps
  proof -
    have "ps \<noteq> []" using that(1,2) by (auto simp: unat_eq_zero)
    then have "0 < length s" using that(3) padded_bounds(1) [of "length (hd ps)"] by (cases ps) (auto simp: length_journal_record)
    then show ?thesis using assms(1) by auto
  qed
  moreover have "validate_journal_records s len (unat cnt) 0 = Inr len \<longleftrightarrow>
      (\<exists>ps us. length ps = unat cnt \<and> list_all2 update_payload ps us \<and> s = journal ps)"
  proof -
    have "unat len = length (journal ps) \<and> take (length (journal ps)) s = journal ps \<longleftrightarrow> s = journal ps" for ps
      using assms(1) by (metis order_refl take_all)
    then show ?thesis using validate_journal_records_iff [OF assms, of 0 "unat cnt" len] by simp
  qed
  ultimately show ?thesis
    by (auto simp: validate_descriptor_journal_snapshot_def not_less split: sum.splits if_splits)
qed

text \<open>Replaying a journal runs its updates in order, up to the first that fails.\<close>

lemma replay_journal_records_run:
  assumes "length s \<le> 16777216" "list_all2 update_payload ps us"
    and "unat off + length (journal ps) \<le> length s" "take (length (journal ps)) (drop (unat off) s) = journal ps"
  shows "case apply_updates update us ctx of (result, ctx') \<Rightarrow>
    \<exists>off'. replay_journal_records update s (length ps) off ctx = (result, off', ctx') \<and>
      (result = 0 \<longrightarrow> unat off' = unat off + length (journal ps))"
  using assms(2-4)
proof (induction arbitrary: off ctx rule: list_all2_induct)
  case (Cons p ps u us)
  have q: "unat off + (padded (length p) + length (journal ps)) \<le> length s"
      "take (padded (length p) + length (journal ps)) (drop (unat off) s) = journal_record p @ journal ps"
    using Cons.prems by (auto simp: length_journal_record)
  have t: "take (padded (length p)) (drop (unat off) s) = journal_record p"
      "take (length (journal ps)) (drop (padded (length p)) (drop (unat off) s)) = journal ps"
    using q(2) by (simp_all add: length_journal_record take_append_iff)
  have a: "journal_record_at s (unat off) p u" using Cons.hyps(1) q(1) t(1) by (simp add: journal_record_at_def)
  note r = journal_record_at_reads [OF a assms(1)]
  have rl: "descriptor_journal_record_length (word_of_nat (length p)) = word_of_nat (padded (length p))"
    unfolding r(6) [symmetric] by simp
  let ?o = "off + word_of_nat (padded (length p)) :: u32"
  have o: "unat ?o = unat off + padded (length p)" using q(1) assms(1) by (intro unat_advance) simp
  obtain result ctx' where u: "update ctx u = (result, ctx')" by fastforce
  show ?case
  proof (cases "result = 0")
    case True
    then show ?thesis
      using Cons.IH [of ?o ctx'] u r(1,7) q(1) t(2) o
      by (auto simp: rl length_journal_record add.commute split: prod.splits)
  qed (use u r(1,7) in simp)
qed simp

lemma replay_snapshot_runs:
  assumes "length s = unat len" "unat len \<le> 16777216" "list_all2 update_payload ps us" "s = journal ps" "length ps = unat cnt"
  shows "replay_descriptor_journal_snapshot update ctx s len cnt = apply_updates update us ctx"
proof -
  obtain result ctx' where r: "apply_updates update us ctx = (result, ctx')" by fastforce
  show ?thesis
    using replay_journal_records_run [of s ps us 0 update ctx] assms r
    by (auto simp: replay_descriptor_journal_snapshot_def word_unat_eq_iff)
qed


subsection \<open>From the client to the driver\<close>

text \<open>The client's requests and the service's answers, when every packet arrives.\<close>

definition service_exchange :: "'c updater \<Rightarrow> bool \<Rightarrow> ('c option \<times> shared_batch_region option) exchange" where
  "service_exchange update allocated memory payload w =
     (case answer_vulkan_descriptor_journal_flush update allocated memory True (fst w) (snd w) payload 24 of
       (status, w) \<Rightarrow> (0, status, 0, w))"

datatype journal_op = Append_Update bytes | Send_Request u16

text \<open>A run of the client: the payloads that were accepted for the journal, and the two sides at the end.\<close>

fun journal_run ::
  "'w exchange \<Rightarrow> journal_op list \<Rightarrow> bytes list \<Rightarrow> journal_client \<Rightarrow> 'w \<Rightarrow> bytes list \<times> journal_client \<times> 'w" where
  "journal_run exchange [] ps client w = (ps, client, w)"
| "journal_run exchange (Append_Update p # ops) ps client w =
     (case append_descriptor_journal_locked exchange (Some p) (word_of_nat (length p)) client w of (r, client, w) \<Rightarrow>
      journal_run exchange ops (if r = 0 then ps @ [p] else ps) client w)"
| "journal_run exchange (Send_Request opcode # ops) ps client w =
     (case flush_descriptor_journal_before_exchange_locked exchange opcode client w of (r, client, w) \<Rightarrow>
      journal_run exchange ops ps client w)"

text \<open>
  The two sides agree: what has been accepted is what the driver has been given, in order, followed by
  what is in the journal. After a failure the connection is closed, and the driver has been given the
  first part of what was accepted, up to the update that failed.
\<close>

definition sides_ready :: "journal_client \<Rightarrow> shared_batch_region \<Rightarrow> bool" where
  "sides_ready client region \<longleftrightarrow>
     jc_enabled client \<and> jc_socket client \<and> \<not> jc_flushing client \<and> \<not> jc_poisoned client \<and>
     jc_generation client \<noteq> 0 \<and> jc_generation client = sr_generation region \<and>
     jc_next_sequence client = sr_last_sequence region + 1 \<and> jc_next_sequence client \<noteq> 0 \<and>
     sr_mapped region \<and> sr_descriptor_journal region \<and> \<not> sr_command_stream region \<and> sr_length region = 16777216"

definition pending_records :: "journal_client \<Rightarrow> bytes list \<Rightarrow> bool" where
  "pending_records client ps \<longleftrightarrow> (\<exists>m. jc_mapping client = Some m \<and> length m = 16777216 \<and>
     length (journal ps) \<le> 16777216 \<and> take (length (journal ps)) m = journal ps \<and>
     unat (jc_length client) = length (journal ps) \<and> unat (jc_record_count client) = length ps \<and> length ps \<le> 65536)"

definition driver_state ::
  "'c updater \<Rightarrow> 'c \<Rightarrow> bytes list \<Rightarrow> int \<Rightarrow> 'c \<Rightarrow> bool" where
  "driver_state update ctx0 ps result ctx \<longleftrightarrow>
     (\<exists>us. list_all2 update_payload ps us \<and> apply_updates update us ctx0 = (result, ctx))"

definition journal_inv ::
  "'c updater \<Rightarrow> 'c \<Rightarrow> bytes list \<Rightarrow> journal_client \<Rightarrow> 'c option \<times> shared_batch_region option \<Rightarrow> bool" where
  "journal_inv update ctx0 ps client w \<longleftrightarrow>
     (\<exists>ctx region. w = (Some ctx, Some region) \<and>
       (if jc_poisoned client then \<not> jc_socket client \<and>
          (\<exists>qs rs result. ps = qs @ rs \<and> driver_state update ctx0 qs result ctx)
        else sides_ready client region \<and>
          (\<exists>qs rs. ps = qs @ rs \<and> driver_state update ctx0 qs 0 ctx \<and> pending_records client rs \<and>
             (\<exists>us. list_all2 update_payload rs us))))"

lemma apply_updates_append:
  "apply_updates update (us @ vs) ctx =
     (case apply_updates update us ctx of (result, ctx) \<Rightarrow> if result \<noteq> 0 then (result, ctx) else apply_updates update vs ctx)"
  by (induction us arbitrary: ctx) (auto split: prod.splits)

lemma driver_state_append:
  assumes "driver_state update ctx0 qs 0 ctx" "list_all2 update_payload rs us" "apply_updates update us ctx = (result, ctx')"
  shows "driver_state update ctx0 (qs @ rs) result ctx'"
proof -
  obtain us0 where "list_all2 update_payload qs us0" "apply_updates update us0 ctx0 = (0, ctx)"
    using assms(1) by (auto simp: driver_state_def)
  then show ?thesis
    using assms(2,3) unfolding driver_state_def
    by (intro exI [of _ "us0 @ us"]) (simp add: apply_updates_append list_all2_appendI)
qed

text \<open>The service replays what the client has pending.\<close>

lemma flush_served:
  assumes "sides_ready client region" "pending_records client rs" "list_all2 update_payload rs us" "rs \<noteq> []"
  defines "flush \<equiv> \<lparr>djf_generation = jc_generation client, djf_sequence = jc_next_sequence client,
    djf_length = jc_length client, djf_record_count = jc_record_count client\<rparr>"
  shows "\<exists>payload. encode_vulkan_descriptor_journal_flush (Some (replicate 4096 0)) (Some flush) = Inr payload \<and>
    service_exchange update allocated (the (jc_mapping client)) payload (Some ctx, Some region) =
      (if \<not> allocated then (0, neg ENOMEM, 0, Some ctx, Some region)
       else case apply_updates update us ctx of (result, ctx') \<Rightarrow>
         (0, result, 0, Some ctx', Some (if result = 0 then region\<lparr>sr_last_sequence := jc_next_sequence client\<rparr> else region)))"
proof -
  obtain m where m: "jc_mapping client = Some m" "length m = 16777216" "length (journal rs) \<le> 16777216"
      "take (length (journal rs)) m = journal rs" "unat (jc_length client) = length (journal rs)"
      "unat (jc_record_count client) = length rs" "length rs \<le> 65536"
    using assms(2) by (auto simp: pending_records_def)
  have pos: "0 < length (journal rs)"
    using assms(4) padded_bounds(1) [of "length (hd rs)"] by (cases rs) (auto simp: length_journal_record)
  have ok: "jc_length client \<noteq> 0" "jc_length client \<le> 16777216" "jc_record_count client \<noteq> 0" "jc_record_count client \<le> 65536"
    using m pos assms(4) by (auto simp: word_le_nat_alt simp flip: unat_eq_zero)
  have seq: "sr_last_sequence region \<noteq> 0xffffffffffffffff" "jc_next_sequence client = sr_last_sequence region + 1"
    using assms(1) by (auto simp: sides_ready_def)
  obtain payload where p: "encode_vulkan_descriptor_journal_flush (Some (replicate 4096 0)) (Some flush) = Inr payload"
      "decode_vulkan_descriptor_journal_flush (Some payload)
         (Some \<lparr>djf_generation = 0, djf_sequence = 0, djf_length = 0, djf_record_count = 0\<rparr>) = Inr flush"
    using descriptor_journal_flush_codec.roundtrip_in_place [of "replicate 4096 0" flush
        "\<lparr>djf_generation = 0, djf_sequence = 0, djf_length = 0, djf_record_count = 0\<rparr>"] ok assms(1)
    by (auto simp: flush_def sides_ready_def)
  have admit: "journal_admits region (djf_generation flush) (djf_sequence flush) (djf_length flush) = Inr ()"
    using assms(1) seq m(3,5) by (simp add: journal_admits_def flush_def sides_ready_def)
  have snap: "take (unat (jc_length client)) m = journal rs" "length (journal rs) = unat (jc_length client)"
    using m by simp_all
  have valid: "validate_descriptor_journal_snapshot (Some (journal rs)) (jc_length client) (jc_record_count client) = Inr ()"
    using validate_snapshot_iff [OF snap(2), of "jc_record_count client"] ok(3,4) m(3,6) snap(2) assms(3) by auto
  have "replay_journal update True m ctx (jc_length client) (jc_record_count client) = apply_updates update us ctx"
    using replay_snapshot_runs [OF snap(2) _ assms(3) refl, of "jc_record_count client"] m(3,6) snap
    by (simp add: replay_journal_def valid)
  then show ?thesis
    using p admit assms(1) m(1)
    by (auto simp: service_exchange_def answer_vulkan_descriptor_journal_flush_def sides_ready_def flush_def
        replay_journal_def [of update False] split: prod.splits)
qed

lemma copy_shift:
  "memcpy (a @ b) (length a + i) src n = a @ memcpy b i src n"
  "memset0 (a @ b) (length a + i) n = a @ memset0 b i n"
  by (simp_all add: memcpy_def memset0_def add.assoc)

text \<open>The four writes of an append leave a record after what was there.\<close>

lemma record_written:
  fixes x :: bytes
  assumes "padded (length p) \<le> length x"
  shows "memset0 (memcpy (put_u32 (put_u32 x 0 (word_of_nat (length p))) 4 0) 8 p (length p)) (8 + length p)
      (padded (length p) - 8 - length p) = journal_record p @ drop (padded (length p)) x"
proof -
  have l: "8 + length p \<le> length x" using assms padded_bounds(1) [of "length p"] by simp
  obtain h t where x: "x = h @ t" and h: "length h = 8"
    using that [of "take 8 x" "drop 8 x"] l by simp
  have "put_u32 (put_u32 x 0 v) 4 0 = put_u32 (put_u32 h 0 v) 4 0 @ t" for v
    unfolding x using h by (simp add: put_defs list_update_append1)
  moreover have "put_u32 (put_u32 h 0 v) 4 0 = put_u32 (replicate 8 0) 0 v" for v
    using h by (auto simp: put_defs numeral_eq_Suc length_Suc_conv)
  ultimately have w: "put_u32 (put_u32 x 0 v) 4 0 = put_u32 (replicate 8 0) 0 v @ t" for v by simp
  have d: "drop (padded (length p)) x = drop (padded (length p) - 8) t"
    using h padded_bounds(1) [of "length p"] by (simp add: x)
  show ?thesis
    unfolding w d using padded_bounds(1) [of "length p"] l h
    by (simp add: memcpy_def memset0_def journal_record_def x)
qed

lemma append_stores:
  assumes "length a = at" "padded (length p) \<le> length x"
  shows "memset0 (memcpy (put_u32 (put_u32 (a @ x) at (word_of_nat (length p))) (at + 4) 0) (at + 8) p (length p))
      (at + (8 + length p)) (padded (length p) - 8 - length p) = a @ journal_record p @ drop (padded (length p)) x"
  using record_written [OF assms(2)] put_shift(1) [of a _ 0] assms(1)
  by (auto simp: put_shift copy_shift)

text \<open>What a flush, an append and a request keep.\<close>

lemma pending_nothing:
  assumes "pending_records client rs"
  shows "pending_records (client\<lparr>jc_length := 0, jc_record_count := 0, jc_next_sequence := n\<rparr>) []"
    and "jc_length client = 0 \<longleftrightarrow> rs = []"
proof -
  have "0 < length (journal rs)" if "rs \<noteq> []"
    using that padded_bounds(1) [of "length (hd rs)"] by (cases rs) (auto simp: length_journal_record)
  moreover have "unat (jc_length client) = length (journal rs)" using assms by (auto simp: pending_records_def)
  ultimately show "jc_length client = 0 \<longleftrightarrow> rs = []" by (auto simp flip: unat_eq_zero)
qed (use assms in \<open>auto simp: pending_records_def\<close>)

lemma poison_simps [simp]:
  "jc_poisoned (poison_descriptor_journal_connection_locked client)"
  "\<not> jc_socket (poison_descriptor_journal_connection_locked client)"
  by (simp_all add: poison_descriptor_journal_connection_locked_def)

lemma journal_invI_poisoned:
  assumes "jc_poisoned client" "\<not> jc_socket client" "driver_state update ctx0 qs result ctx"
  shows "journal_inv update ctx0 (qs @ rs) client (Some ctx, Some region)"
  using assms unfolding journal_inv_def by auto

lemma journal_invI_ready:
  assumes "sides_ready client region" "driver_state update ctx0 qs 0 ctx" "pending_records client rs" "list_all2 update_payload rs us"
  shows "journal_inv update ctx0 (qs @ rs) client (Some ctx, Some region)"
  using assms unfolding journal_inv_def by (auto simp: sides_ready_def)

lemma flush_keeps:
  assumes inv: "journal_inv update ctx0 ps client w"
    and f: "flush_descriptor_journal_locked (service_exchange update allocated) client w = (r, client', w')"
  shows "journal_inv update ctx0 ps client' w' \<and> (jc_poisoned client \<longrightarrow> jc_poisoned client') \<and>
    (\<not> jc_poisoned client \<longrightarrow> (jc_poisoned client' \<longleftrightarrow> r \<noteq> 0)) \<and> (r = 0 \<longrightarrow> jc_enabled client \<longrightarrow> jc_length client' = 0)"
proof (cases "jc_poisoned client")
  case True
  then obtain ctx region qs rs result where i: "w = (Some ctx, Some region)" "\<not> jc_socket client" "ps = qs @ rs"
      "driver_state update ctx0 qs result ctx"
    using inv by (auto simp: journal_inv_def)
  then have "(r, client', w') = (0, client, w) \<and> (jc_enabled client \<longrightarrow> jc_length client = 0) \<or>
      (r, client', w') = (neg EPIPE, poison_descriptor_journal_connection_locked client, w)"
    using f by (auto simp: flush_descriptor_journal_locked_def split: if_splits)
  then show ?thesis
    using True inv journal_invI_poisoned [OF _ _ i(4), of _ rs region] i(1,3) by auto
next
  case False
  then obtain ctx region qs rs us where i: "w = (Some ctx, Some region)" "sides_ready client region" "ps = qs @ rs"
      "driver_state update ctx0 qs 0 ctx" "pending_records client rs" "list_all2 update_payload rs us"
    using inv by (auto simp: journal_inv_def)
  show ?thesis
  proof (cases "rs = []")
    case True
    then have "jc_length client = 0" using pending_nothing(2) [OF i(5)] by simp
    then show ?thesis using f inv False by (auto simp: flush_descriptor_journal_locked_def)
  next
    case nonempty: False
    let ?next = "client\<lparr>jc_length := 0, jc_record_count := 0, jc_next_sequence := jc_next_sequence client + 1\<rparr>"
    obtain result ctx' where u: "apply_updates update us ctx = (result, ctx')" by fastforce
    have all: "driver_state update ctx0 (qs @ rs) result ctx'" by (rule driver_state_append [OF i(4,6) u])
    note served = flush_served [OF i(2,5,6) nonempty, of update allocated ctx]
    have ready: "jc_enabled client" "jc_socket client" "jc_mapping client \<noteq> None" "jc_next_sequence client \<noteq> 0"
      "jc_length client \<noteq> 0"
      using i(2,5) nonempty pending_nothing(2) [OF i(5)] by (auto simp: sides_ready_def pending_records_def)
    consider (lost) "r \<noteq> 0" "client' = poison_descriptor_journal_connection_locked client" "w' = w"
      | (failed) "r \<noteq> 0" "client' = poison_descriptor_journal_connection_locked client" "w' = (Some ctx', Some region)"
      | (wrapped) "r \<noteq> 0" "client' = poison_descriptor_journal_connection_locked ?next" "result = 0"
          "w' = (Some ctx', Some (region\<lparr>sr_last_sequence := jc_next_sequence client\<rparr>))"
      | (all_done) "r = 0" "client' = ?next" "result = 0" "jc_next_sequence client + 1 \<noteq> 0"
          "w' = (Some ctx', Some (region\<lparr>sr_last_sequence := jc_next_sequence client\<rparr>))"
      using f served ready u i(1)
      by (auto simp: flush_descriptor_journal_locked_def Let_def split: if_splits)
    then show ?thesis
    proof cases
      case lost
      then show ?thesis using journal_invI_poisoned [OF _ _ i(4), of _ rs] i(1,3) False by simp
    next
      case failed
      then show ?thesis using journal_invI_poisoned [OF _ _ all, of _ "[]"] i(3) False by simp
    next
      case wrapped
      then show ?thesis using journal_invI_poisoned [OF _ _ all, of _ "[]"] i(3) False by simp
    next
      case all_done
      have "sides_ready ?next (region\<lparr>sr_last_sequence := jc_next_sequence client\<rparr>)"
        using i(2) all_done(4) by (auto simp: sides_ready_def)
      from journal_invI_ready [OF this _ pending_nothing(1) [OF i(5)], of update ctx0 "qs @ rs" ctx' "[]"] all all_done i(3)
      show ?thesis by (simp add: False)
    qed
  qed
qed

lemma flush_before_keeps:
  assumes "journal_inv update ctx0 ps client w"
    and "flush_descriptor_journal_before_exchange_locked (service_exchange update allocated) opcode client w = (r, client', w')"
  shows "journal_inv update ctx0 ps client' w'"
  using assms flush_keeps [OF assms(1)]
  by (auto simp: flush_descriptor_journal_before_exchange_locked_def split: if_splits)

text \<open>The writes of an append, once there is room.\<close>

definition journal_store :: "journal_client \<Rightarrow> bytes \<Rightarrow> journal_client" where
  "journal_store client p =
     (let at = unat (jc_length client); n = word_of_nat (length p) :: u32; record_length = descriptor_journal_record_length n in
      client\<lparr>jc_mapping := Some (memset0 (memcpy (put_u32 (put_u32 (the (jc_mapping client)) at n) (at + 4) 0) (at + 8) p
            (unat n)) (at + unat (8 + n)) (unat (record_length - (8 + n)))),
          jc_length := jc_length client + record_length, jc_record_count := jc_record_count client + 1\<rparr>)"

lemma store_pending:
  assumes "pending_records client rs" "update_payload p u" "length (journal rs) + padded (length p) \<le> 16777216" "length rs < 65536"
  shows "pending_records (journal_store client p) (rs @ [p])"
proof -
  obtain m where m: "jc_mapping client = Some m" "length m = 16777216" "take (length (journal rs)) m = journal rs"
      "unat (jc_length client) = length (journal rs)" "unat (jc_record_count client) = length rs"
    using assms(1) by (auto simp: pending_records_def)
  have n: "length p \<le> 4096" using assms(2) by (simp add: update_payload_def)
  have u: "unat (word_of_nat (length p) :: u32) = length p" using n by (simp add: unat_of_nat)
  have rl: "unat (descriptor_journal_record_length (word_of_nat (length p))) = padded (length p)"
    using record_length [of "word_of_nat (length p)"] n u by simp
  have u8: "unat (8 + word_of_nat (length p) :: u32) = 8 + length p" using n u by (simp add: unat_word_ariths)
  have gap: "unat (descriptor_journal_record_length (word_of_nat (length p)) - (8 + word_of_nat (length p))) =
      padded (length p) - 8 - length p"
    using rl u8 padded_bounds(1) [of "length p"] by (simp add: unat_sub word_le_nat_alt)
  have len: "unat (jc_length client + descriptor_journal_record_length (word_of_nat (length p))) =
      length (journal rs) + padded (length p)"
    using assms(3) m(4) rl by (simp add: unat_word_ariths)
  have cnt: "unat (jc_record_count client + 1) = Suc (length rs)"
    using assms(4) m(5) by (simp add: unat_word_ariths)
  let ?a = "journal rs" and ?x = "drop (length (journal rs)) m"
  have "m = ?a @ ?x" using m(3) by (metis append_take_drop_id)
  then have "jc_mapping (journal_store client p) = Some (?a @ journal_record p @ drop (padded (length p)) ?x)"
    using append_stores [of ?a "length (journal rs)" p ?x] assms(3) m(1,2,4)
    by (simp add: journal_store_def Let_def u u8 gap)
  then show ?thesis
    using m(2) assms(3,4) len cnt
    by (auto simp: pending_records_def journal_store_def Let_def length_journal_record)
qed

lemma store_simps [simp]:
  "jc_poisoned (journal_store client p) = jc_poisoned client" "jc_socket (journal_store client p) = jc_socket client"
  "sides_ready (journal_store client p) region = sides_ready client region"
  by (simp_all add: journal_store_def Let_def sides_ready_def)

lemma store_keeps:
  assumes "journal_inv update ctx0 ps client w" "update_payload p u"
    and "\<And>rs. \<not> jc_poisoned client \<Longrightarrow> pending_records client rs \<Longrightarrow>
      length (journal rs) + padded (length p) \<le> 16777216 \<and> length rs < 65536"
  shows "journal_inv update ctx0 (ps @ [p]) (journal_store client p) w"
proof (cases "jc_poisoned client")
  case True
  then obtain ctx region qs rs result where i: "w = (Some ctx, Some region)" "\<not> jc_socket client" "ps = qs @ rs"
      "driver_state update ctx0 qs result ctx"
    using assms(1) by (auto simp: journal_inv_def)
  then show ?thesis using journal_invI_poisoned [OF _ _ i(4), of "journal_store client p" "rs @ [p]" region] True by simp
next
  case False
  then obtain ctx region qs rs us where i: "w = (Some ctx, Some region)" "sides_ready client region" "ps = qs @ rs"
      "driver_state update ctx0 qs 0 ctx" "pending_records client rs" "list_all2 update_payload rs us"
    using assms(1) by (auto simp: journal_inv_def)
  have "pending_records (journal_store client p) (rs @ [p])"
    using store_pending [OF i(5) assms(2)] assms(3) [OF False i(5)] by simp
  moreover have "list_all2 update_payload (rs @ [p]) (us @ [u])" using i(6) assms(2) by (simp add: list_all2_appendI)
  ultimately show ?thesis
    using journal_invI_ready [of "journal_store client p" region update ctx0 qs ctx "rs @ [p]" "us @ [u]"] i by simp
qed

lemma append_keeps:
  assumes inv: "journal_inv update ctx0 ps client w" and p: "update_payload p u"
    and a: "append_descriptor_journal_locked (service_exchange update allocated) (Some p) (word_of_nat (length p)) client w =
      (r, client', w')"
  shows "journal_inv update ctx0 (if r = 0 then ps @ [p] else ps) client' w'"
proof -
  let ?n = "word_of_nat (length p) :: u32"
  have n: "?n \<noteq> 0" "unat ?n \<le> 4096" "?n \<le> 4096" using p
    by (auto simp: update_payload_def unat_of_nat word_le_nat_alt simp flip: unat_eq_zero)
  have un: "unat ?n = length p" using p by (simp add: update_payload_def unat_of_nat)
  have rl: "(8 + ?n + 7) AND NOT 7 = descriptor_journal_record_length ?n"
    using n(3) by (auto simp: descriptor_journal_record_length_def word_less_nat_alt word_le_nat_alt)
  note len = record_length [OF n(2), unfolded un]
  let ?full = "jc_record_count client = 65536 \<or> descriptor_journal_record_length ?n > 16777216 - jc_length client"
  obtain r1 client1 w1 where f: "(if ?full then flush_descriptor_journal_locked (service_exchange update allocated) client w
      else (0, client, w)) = (r1, client1, w1)" by (metis prod_cases3)
  have keep: "journal_inv update ctx0 ps client1 w1"
    using f inv flush_keeps [OF inv] by (auto split: if_splits)
  consider (refused) "r \<noteq> 0" "client' = client" "w' = w" | (failed) "r \<noteq> 0" "client' = client1" "w' = w1"
    | (stored) "r = 0" "r1 = 0" "client' = journal_store client1 p" "w' = w1" "jc_enabled client"
    using a n(1,3) f un unfolding append_descriptor_journal_locked_def rl Let_def
    by (auto simp: journal_store_def Let_def split: if_splits)
  then show ?thesis
  proof cases
    case stored
    have "length (journal rs) + padded (length p) \<le> 16777216 \<and> length rs < 65536"
      if ok: "\<not> jc_poisoned client1" "pending_records client1 rs" for rs
    proof -
      obtain l: "unat (jc_length client1) = length (journal rs)" "unat (jc_record_count client1) = length rs"
          "length (journal rs) \<le> 16777216" "length rs \<le> 65536"
        using ok(2) by (auto simp: pending_records_def)
      show ?thesis
      proof (cases ?full)
        case True
        then have "jc_length client1 = 0" using flush_keeps [OF inv, of allocated r1 client1 w1] f stored by simp
        then have "rs = []" using pending_nothing(2) [OF ok(2)] by simp
        then show ?thesis using padded_bounds(2) [of "length p"] n(2) un by simp
      next
        case False
        then have "client1 = client" using f by simp
        moreover have "unat (16777216 - jc_length client) = 16777216 - unat (jc_length client)"
          using l(1,3) calculation by (simp add: unat_sub word_le_nat_alt)
        moreover have "length rs \<noteq> 65536" using False l(2) calculation(1) by (auto simp: word_unat_eq_iff)
        ultimately show ?thesis using False l len by (auto simp: word_less_nat_alt not_less)
      qed
    qed
    then show ?thesis using store_keeps [OF keep p] stored by simp
  qed (use inv keep in simp_all)
qed

text \<open>With room in the region an append succeeds, and with a driver that takes the updates a flush does.\<close>

lemma append_succeeds:
  assumes "sides_ready client region" "pending_records client rs" "update_payload p u"
    and "length (journal rs) + padded (length p) \<le> 16777216" "length rs < 65536"
  shows "append_descriptor_journal_locked exchange (Some p) (word_of_nat (length p)) client w = (0, journal_store client p, w)"
proof -
  let ?n = "word_of_nat (length p) :: u32"
  have n: "?n \<noteq> 0" "unat ?n \<le> 4096" "?n \<le> 4096" using assms(3)
    by (auto simp: update_payload_def unat_of_nat word_le_nat_alt simp flip: unat_eq_zero)
  have un: "unat ?n = length p" using assms(3) by (simp add: update_payload_def unat_of_nat)
  have rl: "(8 + ?n + 7) AND NOT 7 = descriptor_journal_record_length ?n"
    using n(3) by (auto simp: descriptor_journal_record_length_def word_less_nat_alt word_le_nat_alt)
  note len = record_length [OF n(2), unfolded un]
  obtain m where m: "jc_mapping client = Some m" "unat (jc_length client) = length (journal rs)"
      "unat (jc_record_count client) = length rs"
    using assms(2) by (auto simp: pending_records_def)
  have "unat (16777216 - jc_length client) = 16777216 - length (journal rs)"
    using m(2) assms(4) by (simp add: unat_sub word_le_nat_alt)
  then have room: "\<not> 16777216 - jc_length client < descriptor_journal_record_length ?n"
    "\<not> 16777216 < descriptor_journal_record_length ?n"
    using len assms(4) by (simp_all add: word_less_nat_alt not_less)
  have "jc_record_count client \<noteq> 65536" using m(3) assms(5) by auto
  then show ?thesis
    using room n(1,3) m(1) assms(1) unfolding append_descriptor_journal_locked_def rl Let_def
    by (simp add: journal_store_def Let_def sides_ready_def)
qed

lemma flush_succeeds:
  assumes "sides_ready client region" "pending_records client rs" "list_all2 update_payload rs us" "rs \<noteq> []"
    and "apply_updates update us ctx = (0, ctx')" "jc_next_sequence client + 1 \<noteq> 0"
  shows "flush_descriptor_journal_locked (service_exchange update True) client (Some ctx, Some region) =
    (0, client\<lparr>jc_length := 0, jc_record_count := 0, jc_next_sequence := jc_next_sequence client + 1\<rparr>,
     (Some ctx', Some (region\<lparr>sr_last_sequence := jc_next_sequence client\<rparr>)))"
  using flush_served [OF assms(1-4), of update True ctx] assms(1,2,4,5,6) pending_nothing(2) [OF assms(2)]
  by (auto simp: flush_descriptor_journal_locked_def sides_ready_def pending_records_def Let_def)

lemma run_keeps:
  assumes "journal_inv update ctx0 ps client w"
    and "\<And>p. Append_Update p \<in> set ops \<Longrightarrow> \<exists>u. update_payload p u"
    and "journal_run (service_exchange update allocated) ops ps client w = (ps', client', w')"
  shows "journal_inv update ctx0 ps' client' w'"
  using assms
proof (induction "service_exchange update allocated" ops ps client w rule: journal_run.induct)
  case (2 p ops ps client w)
  obtain r client1 w1 where a: "append_descriptor_journal_locked (service_exchange update allocated) (Some p)
      (word_of_nat (length p)) client w = (r, client1, w1)" by (metis prod_cases3)
  obtain u where "update_payload p u" using 2(3) by auto
  from append_keeps [OF 2(2) this a] show ?case
    using 2(1) [OF a [symmetric] refl] 2(3,4) a by auto
next
  case (3 opcode ops ps client w)
  obtain r client1 w1 where f: "flush_descriptor_journal_before_exchange_locked (service_exchange update allocated) opcode
      client w = (r, client1, w1)" by (metis prod_cases3)
  from flush_before_keeps [OF 3(2) f] show ?case
    using 3(1) [OF f [symmetric] refl] 3(3,4) f by auto
qed simp

lemma request_finds_updates:
  assumes inv: "journal_inv update ctx0 ps client w"
    and f: "flush_descriptor_journal_before_exchange_locked (service_exchange update allocated) opcode client w = (r, client', w')"
    and ok: "\<not> jc_poisoned client'" "opcode \<notin> {121, 122, 123, 124}"
  shows "\<exists>ctx. r = 0 \<and> fst w' = Some ctx \<and> driver_state update ctx0 ps 0 ctx"
proof -
  have np: "\<not> jc_poisoned client"
    using f ok(1) flush_keeps [OF inv, of allocated r client' w']
    by (auto simp: flush_descriptor_journal_before_exchange_locked_def split: if_splits)
  then have "\<not> jc_flushing client" "jc_enabled client" using inv by (auto simp: journal_inv_def sides_ready_def)
  then have k: "journal_inv update ctx0 ps client' w'" "r = 0" "jc_length client' = 0"
    using f ok np flush_keeps [OF inv, of allocated r client' w']
    by (auto simp: flush_descriptor_journal_before_exchange_locked_def split: if_splits)
  from k(1) ok(1) obtain ctx region qs rs where "w' = (Some ctx, Some region)" "ps = qs @ rs"
      "driver_state update ctx0 qs 0 ctx" "pending_records client' rs"
    by (auto simp: journal_inv_def)
  moreover from this(4) k(3) have "rs = []" using pending_nothing(2) by blast
  ultimately show ?thesis using k(2) by simp
qed

text \<open>Every update that passes the check of its message is a payload that can be appended.\<close>

lemma update_payload_exists:
  assumes "length (dtu_values x) = MAX_DESCRIPTOR_TEMPLATE_VALUES" "template_update_ok x"
  shows "\<exists>p u. update_payload p u"
proof -
  obtain m n where m: "unat n \<le> 4096" "length m = unat n"
      "\<exists>u. decode_vulkan_descriptor_template_update_request (Some m) n (Some no_template_update) = Inr u"
    using template_update.sized.enc_dec [OF assms, of "replicate 4096 0" 0 no_template_update] by auto
  moreover from this(2,3) have "m \<noteq> []"
    by (auto simp: decode_vulkan_descriptor_template_update_request_def unat_eq_zero split: if_splits)
  ultimately show ?thesis unfolding update_payload_def using m by (intro exI [of _ m]) (auto simp: m(2))
qed

lemma some_update_payload: "\<exists>p u. update_payload p u"
  by (rule update_payload_exists [of "\<lparr>dtu_device_id = 0x0300000000000001, dtu_descriptor_set_id = 0x1600000000000001,
      dtu_descriptor_update_template_id = 0x1800000000000001, dtu_value_count = 1, dtu_values = replicate 64 no_template_value\<rparr>"])
    (simp, code_simp)

subsection \<open>The updates reach the driver in order\<close>



end
