(* ===== verification/Handle.thy ===== *)
theory Handle
  imports Bvb_Prelude
begin

unbundle bit_operations_syntax

section \<open>Typed wire identifiers and the handle table\<close>

text \<open>
  src/src/handle.c. A wire identifier is a 64-bit word with the object type in its top byte and a
  non-zero serial below; the table maps identifiers to native handles by open addressing with
  linear probing and tombstones, over storage the caller supplies.

  \<^verbatim>\<open>size_t\<close> is \<open>nat\<close>: every index is masked below the capacity and the count never passes
  it, so no \<^verbatim>\<open>size_t\<close> here wraps. The \<^verbatim>\<open>entries\<close> pointer is the list of the entries, \<open>[]\<close>
  for NULL. The abstract view of a table is the finite map from the identifiers in it to their
  parent and native bits; the theorems say that the operations are those of the map.
\<close>

subsection \<open>Wire identifiers\<close>

type_synonym object_type = u32 \<comment> \<open>\<^verbatim>\<open>enum bvb_object_type\<close>, any integer value\<close>

abbreviation (input) BVB_OBJECT_INVALID :: object_type where "BVB_OBJECT_INVALID \<equiv> 0"
abbreviation (input) BVB_OBJECT_INSTANCE :: object_type where "BVB_OBJECT_INSTANCE \<equiv> 1"
abbreviation (input) BVB_OBJECT_LAST :: object_type where "BVB_OBJECT_LAST \<equiv> 25"

definition BVB_HANDLE_SERIAL_MASK :: u64 where
  "BVB_HANDLE_SERIAL_MASK = 0x00ffffffffffffff"

definition object_type_is_valid :: "object_type \<Rightarrow> bool" where
  "object_type_is_valid type \<longleftrightarrow> BVB_OBJECT_INSTANCE \<le> type \<and> type \<le> BVB_OBJECT_LAST"

definition handle_id :: "object_type \<Rightarrow> u64 \<Rightarrow> u64" where
  "handle_id type serial =
     (if \<not> object_type_is_valid type \<or> serial = 0 \<or> serial > BVB_HANDLE_SERIAL_MASK then 0
      else push_bit 56 (ucast type) OR serial)"

definition handle_type :: "u64 \<Rightarrow> object_type" where
  "handle_type wire_id =
     (let type = ucast (drop_bit 56 wire_id)
      in if object_type_is_valid type then type else BVB_OBJECT_INVALID)"

definition handle_serial :: "u64 \<Rightarrow> u64" where
  "handle_serial wire_id = wire_id AND BVB_HANDLE_SERIAL_MASK"

definition handle_expect :: "u64 \<Rightarrow> object_type \<Rightarrow> unit result" where
  "handle_expect wire_id expected_type =
     (if \<not> object_type_is_valid expected_type \<or> handle_type wire_id \<noteq> expected_type \<or>
         handle_serial wire_id = 0
      then Inl EINVAL else Inr ())"

subsection \<open>The table\<close>

datatype slot_state = HANDLE_EMPTY | HANDLE_OCCUPIED | HANDLE_TOMBSTONE

record handle_entry =
  he_wire_id :: u64
  he_parent_id :: u64
  he_native_bits :: u64
  he_state :: slot_state

record handle_table =
  ht_entries :: "handle_entry list"
  ht_capacity :: nat
  ht_count :: nat

definition zero_entry :: handle_entry where
  "zero_entry = \<lparr>he_wire_id = 0, he_parent_id = 0, he_native_bits = 0, he_state = HANDLE_EMPTY\<rparr>"

definition hash_wire_id :: "u64 \<Rightarrow> nat \<Rightarrow> nat" where
  "hash_wire_id value capacity =
     (let value = value XOR drop_bit 30 value;
          value = value * 0xbf58476d1ce4e5b9;
          value = value XOR drop_bit 27 value;
          value = value * 0x94d049bb133111eb;
          value = value XOR drop_bit 31 value
      in unat value AND (capacity - 1))"

definition table_is_valid :: "handle_table \<Rightarrow> bool" where
  "table_is_valid table \<longleftrightarrow>
     ht_entries table \<noteq> [] \<and> ht_capacity table \<ge> 8 \<and>
     ht_capacity table AND (ht_capacity table - 1) = 0 \<and>
     ht_count table \<le> ht_capacity table"

definition handle_table_init ::
  "handle_table option \<Rightarrow> handle_entry list \<Rightarrow> nat \<Rightarrow> handle_table result" where
  "handle_table_init table entries capacity = nonnull1 table (\<lambda>_.
     if entries = [] \<or> capacity < 8 \<or> capacity AND (capacity - 1) \<noteq> 0 then Inl EINVAL
     else Inr \<lparr>ht_entries = replicate capacity zero_entry @ drop capacity entries,
               ht_capacity = capacity, ht_count = 0\<rparr>)"

text \<open>
  The probe loop of the insertion: \<open>n\<close> probes are left; the result is the slot to write, or
  the error. \<open>tombstone\<close> is the first tombstone seen, the capacity when there is none.
\<close>

fun insert_probe :: "handle_entry list \<Rightarrow> nat \<Rightarrow> u64 \<Rightarrow> nat \<Rightarrow> nat \<Rightarrow> nat \<Rightarrow> nat result" where
  "insert_probe es cap w 0 index tombstone =
     (if tombstone \<noteq> cap then Inr tombstone else Inl ENOSPC)"
| "insert_probe es cap w (Suc n) index tombstone =
     (let entry = es ! index in
      if he_state entry = HANDLE_OCCUPIED \<and> he_wire_id entry = w then Inl EEXIST
      else
        let tombstone = (if he_state entry = HANDLE_TOMBSTONE \<and> tombstone = cap
                         then index else tombstone) in
        if he_state entry = HANDLE_EMPTY
        then Inr (if tombstone \<noteq> cap then tombstone else index)
        else insert_probe es cap w n ((index + 1) AND (cap - 1)) tombstone)"

definition handle_table_insert ::
  "handle_table option \<Rightarrow> u64 \<Rightarrow> u64 \<Rightarrow> u64 \<Rightarrow> handle_table result" where
  "handle_table_insert table wire_id parent_id native_bits = nonnull1 table (\<lambda>table.
     if \<not> table_is_valid table \<or> handle_type wire_id = BVB_OBJECT_INVALID \<or>
        handle_serial wire_id = 0 \<or> native_bits = 0 then Inl EINVAL
     else if parent_id \<noteq> 0 \<and>
        (handle_type parent_id = BVB_OBJECT_INVALID \<or> handle_serial parent_id = 0)
     then Inl EINVAL
     else if ht_count table = ht_capacity table then Inl ENOSPC
     else case insert_probe (ht_entries table) (ht_capacity table) wire_id (ht_capacity table)
                 (hash_wire_id wire_id (ht_capacity table)) (ht_capacity table) of
       Inl e \<Rightarrow> Inl e
     | Inr slot \<Rightarrow>
         Inr (table\<lparr>ht_entries := (ht_entries table)
                [slot := \<lparr>he_wire_id = wire_id, he_parent_id = parent_id,
                          he_native_bits = native_bits, he_state = HANDLE_OCCUPIED\<rparr>],
              ht_count := ht_count table + 1\<rparr>))"

text \<open>
  \<^verbatim>\<open>find_entry\<close>, the slot instead of a pointer to it; the loop of the removal makes the same
  search.
\<close>

fun find_probe :: "handle_entry list \<Rightarrow> nat \<Rightarrow> u64 \<Rightarrow> nat \<Rightarrow> nat \<Rightarrow> nat option" where
  "find_probe es cap w 0 index = None"
| "find_probe es cap w (Suc n) index =
     (let entry = es ! index in
      if he_state entry = HANDLE_EMPTY then None
      else if he_state entry = HANDLE_OCCUPIED \<and> he_wire_id entry = w then Some index
      else find_probe es cap w n ((index + 1) AND (cap - 1)))"

definition find_entry :: "handle_table \<Rightarrow> u64 \<Rightarrow> nat option" where
  "find_entry table wire_id =
     find_probe (ht_entries table) (ht_capacity table) wire_id (ht_capacity table)
       (hash_wire_id wire_id (ht_capacity table))"

text \<open>The result is the parent and the native bits; the third argument is the result pointer.\<close>

definition handle_table_lookup ::
  "handle_table option \<Rightarrow> u64 \<Rightarrow> object_type \<Rightarrow> u64 option \<Rightarrow> (u64 \<times> u64) result" where
  "handle_table_lookup table wire_id expected_type native_bits =
     nonnull2 table native_bits (\<lambda>table _.
     if \<not> table_is_valid table \<or> handle_expect wire_id expected_type \<noteq> Inr () then Inl EINVAL
     else case find_entry table wire_id of
       None \<Rightarrow> Inl ENOENT
     | Some slot \<Rightarrow> Inr (he_parent_id (ht_entries table ! slot),
                        he_native_bits (ht_entries table ! slot)))"

definition handle_table_remove ::
  "handle_table option \<Rightarrow> u64 \<Rightarrow> object_type \<Rightarrow> (handle_table \<times> u64) result" where
  "handle_table_remove table wire_id expected_type = nonnull1 table (\<lambda>table.
     if \<not> table_is_valid table \<or> handle_expect wire_id expected_type \<noteq> Inr () then Inl EINVAL
     else case find_entry table wire_id of
       None \<Rightarrow> Inl ENOENT
     | Some slot \<Rightarrow>
         Inr (table\<lparr>ht_entries := (ht_entries table)
                [slot := \<lparr>he_wire_id = 0, he_parent_id = 0, he_native_bits = 0,
                          he_state = HANDLE_TOMBSTONE\<rparr>],
              ht_count := ht_count table - 1\<rparr>,
              he_native_bits (ht_entries table ! slot)))"

subsection \<open>Identifiers: encoding and decoding\<close>

lemma serial_mask_eq: "BVB_HANDLE_SERIAL_MASK = mask 56"
  by (simp add: BVB_HANDLE_SERIAL_MASK_def mask_eq_exp_minus_1)

lemma handle_serial_take_bit: "handle_serial w = take_bit 56 w"
  by (simp add: handle_serial_def serial_mask_eq take_bit_eq_mask)

lemma le_serial_mask_iff: "serial \<le> BVB_HANDLE_SERIAL_MASK \<longleftrightarrow> unat serial < 2 ^ 56"
proof -
  have "serial \<le> BVB_HANDLE_SERIAL_MASK \<longleftrightarrow> unat serial \<le> 2 ^ 56 - 1"
    by (simp add: BVB_HANDLE_SERIAL_MASK_def word_le_nat_alt)
  then show ?thesis by auto
qed

lemma valid_type_small: "object_type_is_valid type \<Longrightarrow> unat type < 2 ^ 8"
  by (simp add: object_type_is_valid_def word_le_nat_alt)

lemma handle_id_split:
  assumes "object_type_is_valid type" and "serial \<le> BVB_HANDLE_SERIAL_MASK"
  shows "drop_bit 56 (push_bit 56 (ucast type) OR serial) = (ucast type :: u64)"
    and "take_bit 56 (push_bit 56 (ucast type) OR serial) = (serial :: u64)"
proof -
  have ser: "bit serial i \<Longrightarrow> i < 56" for i
    using assms(2) bit_small [of serial 56 i] by (simp add: le_serial_mask_iff)
  have ty: "bit type i \<Longrightarrow> i < 8" for i
    using assms(1) bit_small valid_type_small by blast
  show "drop_bit 56 (push_bit 56 (ucast type) OR serial) = (ucast type :: u64)"
    by (rule bit_word_eqI) (auto simp: bit_simps dest: ser ty)
  show "take_bit 56 (push_bit 56 (ucast type) OR serial) = (serial :: u64)"
    by (rule bit_word_eqI) (auto simp: bit_simps dest: ser)
qed

lemma ucast_type: "(ucast (ucast type :: u64) :: u32) = type"
  by (auto intro!: bit_word_eqI simp: bit_simps)

lemma handle_id_roundtrip:
  assumes "object_type_is_valid type" "serial \<noteq> 0" "serial \<le> BVB_HANDLE_SERIAL_MASK"
  shows "handle_type (handle_id type serial) = type \<and> handle_serial (handle_id type serial) = serial \<and>
    handle_expect (handle_id type serial) type = Inr ()"
proof -
  have id: "handle_id type serial = push_bit 56 (ucast type) OR serial"
    using assms by (auto simp: handle_id_def)
  have "handle_type (handle_id type serial) = type"
    using assms
    by (simp only: id handle_type_def handle_id_split(1) Let_def ucast_type) simp
  moreover have "handle_serial (handle_id type serial) = serial"
    using assms by (simp only: id handle_serial_take_bit handle_id_split(2))
  ultimately show ?thesis using assms by (simp add: handle_expect_def)
qed

lemma handle_parts: "handle_expect w t = Inr () \<Longrightarrow> handle_id t (handle_serial w) = w"
proof -
  assume a: "handle_expect w t = Inr ()"
  then have t: "object_type_is_valid t" "handle_type w = t" "handle_serial w \<noteq> 0"
    by (auto simp: handle_expect_def split: if_splits)
  then have u: "t = ucast (drop_bit 56 w)"
    by (auto simp: handle_type_def Let_def object_type_is_valid_def split: if_splits)
  have le: "handle_serial w \<le> BVB_HANDLE_SERIAL_MASK"
    by (simp add: handle_serial_def word_and_le1)
  have "push_bit 56 (ucast t) OR handle_serial w = w"
    unfolding u handle_serial_take_bit by (rule bit_word_eqI) (auto simp: bit_simps)
  then show ?thesis using t le by (auto simp: handle_id_def)
qed

subsection \<open>Probe arithmetic\<close>

lemma pow2_iff_and: "0 < n \<Longrightarrow> n AND (n - 1) = 0 \<Longrightarrow> \<exists>k. n = 2 ^ k" for n :: nat
proof (induction n rule: less_induct)
  case (less n)
  show ?case
  proof (cases "n = 1")
    case True
    then show ?thesis by (auto intro: exI [of _ 0])
  next
    case False
    show ?thesis
    proof (cases "even n")
      case True
      then obtain m where m: "n = 2 * m" by blast
      with less.prems have "0 < m" "m < n" by auto
      have "n - 1 = 2 * (m - 1) + 1" using m \<open>0 < m\<close> by simp
      then have "n AND (n - 1) = 2 * (m AND (m - 1))"
        using m \<open>0 < m\<close> by (subst and_nat_unfold) simp
      with less.prems have "m AND (m - 1) = 0" by simp
      with less.IH [OF \<open>m < n\<close> \<open>0 < m\<close>] obtain k where "m = 2 ^ k" by blast
      with m show ?thesis by (auto intro: exI [of _ "Suc k"])
    next
      case odd: False
      then obtain m where m: "n = 2 * m + 1" using oddE by blast
      with \<open>n \<noteq> 1\<close> have "0 < m" by simp
      have "n AND (n - 1) = 2 * m"
        using m \<open>0 < m\<close> by (subst and_nat_unfold) simp
      with less.prems \<open>0 < m\<close> show ?thesis by simp
    qed
  qed
qed

lemma and_capacity: "0 < cap \<Longrightarrow> cap AND (cap - 1) = 0 \<Longrightarrow> x AND (cap - 1) = x mod cap" for cap :: nat
proof -
  assume "0 < cap" "cap AND (cap - 1) = 0"
  then obtain k where k: "cap = 2 ^ k" using pow2_iff_and by blast
  have "x AND (cap - 1) = take_bit k x"
    unfolding k by (simp add: take_bit_eq_mask mask_eq_exp_minus_1)
  then show ?thesis by (simp add: k take_bit_eq_mod)
qed

subsection \<open>What the probe loops find\<close>

definition occupied :: "handle_entry list \<Rightarrow> nat \<Rightarrow> bool" where
  "occupied es s \<longleftrightarrow> he_state (es ! s) = HANDLE_OCCUPIED"

definition holds :: "handle_entry list \<Rightarrow> u64 \<Rightarrow> nat \<Rightarrow> bool" where
  "holds es w s \<longleftrightarrow> occupied es s \<and> he_wire_id (es ! s) = w"

text \<open>The first \<open>n\<close> slots of the probe sequence that starts at \<open>h\<close> are all in use or once were.\<close>

definition no_gap :: "handle_entry list \<Rightarrow> nat \<Rightarrow> nat \<Rightarrow> nat \<Rightarrow> bool" where
  "no_gap es cap h n \<longleftrightarrow> (\<forall>i < n. he_state (es ! ((h + i) mod cap)) \<noteq> HANDLE_EMPTY)"

lemma no_gap_0 [simp]: "no_gap es cap h 0"
  by (simp add: no_gap_def)

lemma no_gap_Suc: "no_gap es cap h (Suc n) \<longleftrightarrow>
    he_state (es ! (h mod cap)) \<noteq> HANDLE_EMPTY \<and> no_gap es cap (Suc h) n"
  by (auto simp: no_gap_def less_Suc_eq_0_disj)

lemma next_index:
  fixes cap :: nat
  assumes "0 < cap" "cap AND (cap - 1) = 0"
  shows "(h mod cap + 1) AND (cap - 1) = Suc h mod cap"
proof -
  have "(h mod cap + 1) AND (cap - 1) = (h mod cap + 1) mod cap"
    using assms by (rule and_capacity)
  then show ?thesis by (simp add: mod_Suc_eq)
qed

lemma find_probe_Some:
  assumes "0 < cap" "cap AND (cap - 1) = 0" "find_probe es cap w n (h mod cap) = Some s"
  shows "holds es w s \<and> s < cap"
  using assms(3)
proof (induction n arbitrary: h)
  case (Suc n)
  from Suc.prems Suc.IH [of "Suc h"] assms(1) show ?case
    by (auto simp: Let_def holds_def occupied_def next_index [OF assms(1,2), simplified] split: if_splits)
qed simp

lemma find_probe_None:
  assumes "0 < cap" "cap AND (cap - 1) = 0" "find_probe es cap w n (h mod cap) = None"
    "j < n" "no_gap es cap h j"
  shows "\<not> holds es w ((h + j) mod cap)"
  using assms(3-)
proof (induction n arbitrary: h j)
  case (Suc n)
  then show ?case
  proof (cases j)
    case 0
    with Suc.prems show ?thesis
      by (auto simp: Let_def holds_def occupied_def split: if_splits)
  next
    case (Suc k)
    have rest: "find_probe es cap w n (Suc h mod cap) = None"
      using Suc.prems Suc
      by (auto simp: Let_def no_gap_Suc next_index [OF assms(1,2), simplified] split: if_splits)
    have "\<not> holds es w ((Suc h + k) mod cap)"
      using Suc.IH [OF rest, of k] Suc.prems Suc by (simp add: no_gap_Suc)
    then show ?thesis using Suc by simp
  qed
qed simp

lemma insert_probe_Inr:
  assumes "0 < cap" "cap AND (cap - 1) = 0"
    "insert_probe es cap w n (h mod cap) tomb = Inr slot"
  shows "(if tomb \<noteq> cap then slot = tomb
          else \<exists>j < n. slot = (h + j) mod cap \<and> \<not> occupied es slot \<and> no_gap es cap h j)
       \<and> (\<forall>j < n. no_gap es cap h j \<longrightarrow> \<not> holds es w ((h + j) mod cap))"
  using assms(3)
proof (induction n arbitrary: h tomb)
  case (Suc n)
  let ?e = "es ! (h mod cap)"
  let ?tomb = "if he_state ?e = HANDLE_TOMBSTONE \<and> tomb = cap then h mod cap else tomb"
  have here: "\<not> holds es w (h mod cap)"
    using Suc.prems by (auto simp: Let_def holds_def occupied_def split: if_splits)
  show ?case
  proof (cases "he_state ?e = HANDLE_EMPTY")
    case True
    then have "slot = (if tomb \<noteq> cap then tomb else h mod cap)"
      using Suc.prems by (auto simp: Let_def split: if_splits)
    moreover have "\<forall>j < Suc n. no_gap es cap h j \<longrightarrow> \<not> holds es w ((h + j) mod cap)"
      using True here by (auto simp: no_gap_Suc less_Suc_eq_0_disj)
    moreover have "\<not> occupied es (h mod cap)" using True by (simp add: occupied_def)
    ultimately show ?thesis by (auto intro: exI [of _ 0])
  next
    case False
    then have rest: "insert_probe es cap w n (Suc h mod cap) ?tomb = Inr slot"
      using Suc.prems here
      by (auto simp: Let_def holds_def occupied_def next_index [OF assms(1,2), simplified]
          split: if_splits)
    note IH = Suc.IH [OF rest]
    have misses: "\<forall>j < Suc n. no_gap es cap h j \<longrightarrow> \<not> holds es w ((h + j) mod cap)"
      using IH here by (auto simp: no_gap_Suc less_Suc_eq_0_disj)
    have "h mod cap \<noteq> cap" using assms(1) by (metis mod_less_divisor nat_neq_iff)
    then have "if tomb \<noteq> cap then slot = tomb
       else \<exists>j < Suc n. slot = (h + j) mod cap \<and> \<not> occupied es slot \<and> no_gap es cap h j"
      using IH False
      by (auto simp: no_gap_Suc occupied_def less_Suc_eq_0_disj split: if_splits)
    with misses show ?thesis by blast
  qed
qed (simp split: if_splits)

lemma insert_probe_Inl:
  assumes "0 < cap" "cap AND (cap - 1) = 0"
    "insert_probe es cap w n (h mod cap) tomb = Inl e"
  shows "e = EEXIST \<and> (\<exists>s < cap. holds es w s)
       \<or> e = ENOSPC \<and> tomb = cap \<and> (\<forall>j < n. occupied es ((h + j) mod cap))"
  using assms(3)
proof (induction n arbitrary: h tomb)
  case (Suc n)
  let ?e = "es ! (h mod cap)"
  let ?tomb = "if he_state ?e = HANDLE_TOMBSTONE \<and> tomb = cap then h mod cap else tomb"
  show ?case
  proof (cases "holds es w (h mod cap)")
    case True
    then show ?thesis using Suc.prems assms(1)
      by (auto simp: Let_def holds_def occupied_def intro!: exI [of _ "h mod cap"])
  next
    case False
    have ne: "h mod cap \<noteq> cap" using assms(1) by (metis mod_less_divisor nat_neq_iff)
    have rest: "insert_probe es cap w n (Suc h mod cap) ?tomb = Inl e"
      and filled: "he_state ?e \<noteq> HANDLE_EMPTY"
      using Suc.prems False
      by (auto simp: Let_def holds_def occupied_def next_index [OF assms(1,2), simplified]
          split: if_splits)
    from Suc.IH [OF rest] show ?thesis
      using ne filled by (cases "he_state ?e") (auto simp: occupied_def less_Suc_eq_0_disj split: if_splits)
  qed
qed (simp split: if_splits)

subsection \<open>The table invariant and the abstract map\<close>

definition occupied_slots :: "handle_table \<Rightarrow> nat set" where
  "occupied_slots t = {s. s < ht_capacity t \<and> occupied (ht_entries t) s}"

definition wire_id_ok :: "u64 \<Rightarrow> bool" where
  "wire_id_ok w \<longleftrightarrow> handle_type w \<noteq> BVB_OBJECT_INVALID \<and> handle_serial w \<noteq> 0"

definition entry_ok :: "handle_entry \<Rightarrow> bool" where
  "entry_ok e \<longleftrightarrow> wire_id_ok (he_wire_id e) \<and> he_native_bits e \<noteq> 0 \<and>
     (he_parent_id e = 0 \<or> wire_id_ok (he_parent_id e))"

definition reached :: "handle_entry list \<Rightarrow> nat \<Rightarrow> u64 \<Rightarrow> nat \<Rightarrow> bool" where
  "reached es cap w s \<longleftrightarrow> (\<exists>j < cap. s = (hash_wire_id w cap + j) mod cap \<and>
     no_gap es cap (hash_wire_id w cap) j)"

text \<open>
  The invariant: the counter counts the occupied slots, no identifier occurs twice, what is stored
  passed the argument checks, and the probe sequence of a stored identifier reaches its slot with
  no empty slot on the way.
\<close>

definition table_inv :: "handle_table \<Rightarrow> bool" where
  "table_inv t \<longleftrightarrow>
     table_is_valid t \<and> ht_capacity t \<le> length (ht_entries t) \<and>
     ht_count t = card (occupied_slots t) \<and>
     inj_on (\<lambda>s. he_wire_id (ht_entries t ! s)) (occupied_slots t) \<and>
     (\<forall>s \<in> occupied_slots t. entry_ok (ht_entries t ! s) \<and>
        reached (ht_entries t) (ht_capacity t) (he_wire_id (ht_entries t ! s)) s)"

definition handle_map :: "handle_table \<Rightarrow> (u64 \<rightharpoonup> u64 \<times> u64)" where
  "handle_map t = map_of (map (\<lambda>e. (he_wire_id e, (he_parent_id e, he_native_bits e)))
     (filter (\<lambda>e. he_state e = HANDLE_OCCUPIED) (take (ht_capacity t) (ht_entries t))))"

lemma finite_occupied [simp]: "finite (occupied_slots t)"
  by (simp add: occupied_slots_def)

lemma valid_capacity:
  "table_is_valid t \<Longrightarrow> 0 < ht_capacity t"
  "table_is_valid t \<Longrightarrow> ht_capacity t AND (ht_capacity t - 1) = 0"
  by (auto simp: table_is_valid_def)

lemma inv_capacity:
  assumes "table_inv t"
  shows "0 < ht_capacity t" "ht_capacity t AND (ht_capacity t - 1) = 0"
    "ht_capacity t \<le> length (ht_entries t)"
  using assms by (simp_all add: table_inv_def table_is_valid_def)

lemma hash_mod: "table_is_valid t \<Longrightarrow>
    hash_wire_id w (ht_capacity t) mod ht_capacity t = hash_wire_id w (ht_capacity t)"
  by (simp add: hash_wire_id_def Let_def and_capacity [OF valid_capacity] flip: One_nat_def)

lemma holds_unique: "table_inv t \<Longrightarrow> holds (ht_entries t) w s \<Longrightarrow> holds (ht_entries t) w s' \<Longrightarrow>
    s < ht_capacity t \<Longrightarrow> s' < ht_capacity t \<Longrightarrow> s = s'"
  by (auto simp: table_inv_def holds_def occupied_slots_def inj_on_def)

lemma holds_reached:
  assumes "table_inv t" "holds (ht_entries t) w s" "s < ht_capacity t"
  obtains j where "j < ht_capacity t" "s = (hash_wire_id w (ht_capacity t) + j) mod ht_capacity t"
    "no_gap (ht_entries t) (ht_capacity t) (hash_wire_id w (ht_capacity t)) j"
  using assms by (auto simp: table_inv_def reached_def holds_def occupied_slots_def)

lemma find_entry_iff:
  assumes "table_inv t"
  shows "find_entry t w = Some s \<longleftrightarrow> s < ht_capacity t \<and> holds (ht_entries t) w s"
proof -
  note cap = inv_capacity [OF assms]
  have hash: "hash_wire_id w (ht_capacity t) mod ht_capacity t = hash_wire_id w (ht_capacity t)"
    using assms by (simp add: table_inv_def hash_mod)
  have found: "s' < ht_capacity t \<and> holds (ht_entries t) w s'" if "find_entry t w = Some s'" for s'
    using that find_probe_Some [OF cap(1,2), of "ht_entries t" w "ht_capacity t"
        "hash_wire_id w (ht_capacity t)" s']
    by (simp add: find_entry_def hash)
  show ?thesis
  proof (cases "find_entry t w")
    case None
    have "\<not> holds (ht_entries t) w s" if "s < ht_capacity t"
      using find_probe_None [OF cap(1,2), of "ht_entries t" w "ht_capacity t"
          "hash_wire_id w (ht_capacity t)"] None holds_reached [OF assms _ that, of w]
      by (metis find_entry_def hash)
    with None show ?thesis by auto
  next
    case (Some s')
    then show ?thesis using found holds_unique [OF assms] by blast
  qed
qed

lemma find_entry_None:
  "table_inv t \<Longrightarrow> find_entry t w = None \<longleftrightarrow> (\<forall>s < ht_capacity t. \<not> holds (ht_entries t) w s)"
  using find_entry_iff [of t w] by (metis not_None_eq)

lemma map_of_eq_SomeI:
  "(k, v) \<in> set xs \<Longrightarrow> (\<And>v'. (k, v') \<in> set xs \<Longrightarrow> v' = v) \<Longrightarrow> map_of xs k = Some v"
  by (metis map_of_SomeD map_of_eq_None_iff fst_conv image_eqI option.exhaust)

lemma handle_map_iff:
  assumes "table_inv t"
  shows "handle_map t w = Some v \<longleftrightarrow> (\<exists>s < ht_capacity t. holds (ht_entries t) w s \<and>
    v = (he_parent_id (ht_entries t ! s), he_native_bits (ht_entries t ! s)))"
proof -
  let ?xs = "map (\<lambda>e. (he_wire_id e, (he_parent_id e, he_native_bits e)))
     (filter (\<lambda>e. he_state e = HANDLE_OCCUPIED) (take (ht_capacity t) (ht_entries t)))"
  have mem: "(w, v) \<in> set ?xs \<longleftrightarrow> (\<exists>s < ht_capacity t. holds (ht_entries t) w s \<and>
    v = (he_parent_id (ht_entries t ! s), he_native_bits (ht_entries t ! s)))" for v
    using inv_capacity(3) [OF assms]
    by (auto simp: holds_def occupied_def in_set_conv_nth image_iff)
  have "v' = v" if "(w, v) \<in> set ?xs" "(w, v') \<in> set ?xs" for v v'
    using that holds_unique [OF assms] unfolding mem by blast
  then have "map_of ?xs w = Some v \<longleftrightarrow> (w, v) \<in> set ?xs"
    using map_of_eq_SomeI [of w v ?xs] map_of_SomeD [of ?xs w v] by blast
  then show ?thesis by (simp only: handle_map_def mem)
qed

lemma handle_map_find:
  assumes "table_inv t"
  shows "handle_map t w =
     map_option (\<lambda>s. (he_parent_id (ht_entries t ! s), he_native_bits (ht_entries t ! s))) (find_entry t w)"
proof (cases "find_entry t w")
  case None
  then have "handle_map t w \<noteq> Some v" for v
    using find_entry_None [OF assms] by (auto simp: handle_map_iff [OF assms])
  with None show ?thesis by (metis not_None_eq option.map(1))
next
  case (Some s)
  then show ?thesis
    using find_entry_iff [OF assms, of w s] by (auto simp: handle_map_iff [OF assms])
qed

lemma handle_map_card: assumes "table_inv t" shows "card (dom (handle_map t)) = ht_count t"
proof -
  have "dom (handle_map t) = (\<lambda>s. he_wire_id (ht_entries t ! s)) ` occupied_slots t"
    by (auto simp: dom_def handle_map_iff [OF assms] holds_def occupied_slots_def)
  then show ?thesis using assms by (simp add: table_inv_def card_image)
qed

subsection \<open>Writing a slot\<close>

lemma no_gap_update:
  "no_gap es cap h j \<Longrightarrow> he_state e \<noteq> HANDLE_EMPTY \<Longrightarrow> no_gap (es[slot := e]) cap h j"
  unfolding no_gap_def by (metis nth_list_update nth_list_update_neq list_update_beyond not_le)

lemma reached_update:
  "reached es cap w s \<Longrightarrow> he_state e \<noteq> HANDLE_EMPTY \<Longrightarrow> reached (es[slot := e]) cap w s"
  unfolding reached_def by (blast intro: no_gap_update)

lemma occupied_update:
  "slot < length es \<Longrightarrow> occupied (es[slot := e]) s \<longleftrightarrow>
     (if s = slot then he_state e = HANDLE_OCCUPIED else occupied es s)"
  by (simp add: occupied_def nth_list_update)

lemma holds_update:
  "slot < length es \<Longrightarrow> holds (es[slot := e]) w s \<longleftrightarrow>
     (if s = slot then he_state e = HANDLE_OCCUPIED \<and> he_wire_id e = w else holds es w s)"
  by (simp add: holds_def occupied_update nth_list_update)

lemma map_ext_Some: "(\<And>k v. f k = Some v \<longleftrightarrow> g k = Some v) \<Longrightarrow> f = g"
  by (rule ext) (metis option.exhaust)

lemma ex_slot: "slot < cap \<Longrightarrow> (\<exists>s < cap. Q s) \<longleftrightarrow> Q slot \<or> (\<exists>s < cap. s \<noteq> slot \<and> Q s)" for slot cap :: nat
  by blast

lemma insert_slot:
  assumes inv: "table_inv t"
    and slot: "slot < ht_capacity t" "\<not> occupied (ht_entries t) slot"
    and fresh: "\<And>s. s < ht_capacity t \<Longrightarrow> \<not> holds (ht_entries t) (he_wire_id e) s"
    and e: "entry_ok e" "he_state e = HANDLE_OCCUPIED"
    and reach: "reached (ht_entries t) (ht_capacity t) (he_wire_id e) slot"
    and t': "t' = t\<lparr>ht_entries := (ht_entries t)[slot := e], ht_count := ht_count t + 1\<rparr>"
  shows "table_inv t'"
    and "handle_map t' = (handle_map t)(he_wire_id e \<mapsto> (he_parent_id e, he_native_bits e))"
proof -
  let ?es = "ht_entries t" and ?es' = "(ht_entries t)[slot := e]"
  have len: "slot < length ?es" using slot inv_capacity(3) [OF inv] by simp
  have occ: "occupied_slots t' = insert slot (occupied_slots t)"
    using slot e by (auto simp: t' occupied_slots_def occupied_update [OF len])
  have new: "slot \<notin> occupied_slots t" using slot by (simp add: occupied_slots_def)
  have count: "card (occupied_slots t') = Suc (ht_count t)"
    using inv new by (simp add: occ table_inv_def)
  have "occupied_slots t' \<subseteq> {..< ht_capacity t}" by (auto simp: t' occupied_slots_def)
  then have "Suc (ht_count t) \<le> ht_capacity t"
    using card_mono [of "{..< ht_capacity t}" "occupied_slots t'"] count by simp
  then have "table_is_valid t'"
    using inv by (simp add: t' table_inv_def table_is_valid_def)
  moreover have "inj_on (\<lambda>s. he_wire_id (?es' ! s)) (insert slot (occupied_slots t))"
  proof -
    have inj: "inj_on (\<lambda>s. he_wire_id (?es ! s)) (occupied_slots t)"
      using inv by (simp add: table_inv_def)
    have "he_wire_id (?es ! s) \<noteq> he_wire_id e" if "s \<in> occupied_slots t" for s
      using that fresh by (auto simp: holds_def occupied_slots_def)
    then have "\<forall>s \<in> occupied_slots t. he_wire_id (?es ! s) \<noteq> he_wire_id e" by blast
    then show ?thesis using inj new len by (auto simp: inj_on_def nth_list_update)
  qed
  moreover have "entry_ok (?es' ! s) \<and> reached ?es' (ht_capacity t) (he_wire_id (?es' ! s)) s"
    if "s \<in> insert slot (occupied_slots t)" for s
    using that reach e len inv
    by (cases "s = slot") (auto simp: table_inv_def intro!: reached_update)
  ultimately show inv': "table_inv t'"
    using inv count by (simp add: table_inv_def occ) (simp add: t')
  show "handle_map t' = (handle_map t)(he_wire_id e \<mapsto> (he_parent_id e, he_native_bits e))"
  proof (rule map_ext_Some)
    fix w v
    have "handle_map t' w = Some v \<longleftrightarrow>
        (\<exists>s < ht_capacity t. holds ?es' w s \<and> v = (he_parent_id (?es' ! s), he_native_bits (?es' ! s)))"
      by (simp add: handle_map_iff [OF inv']) (simp add: t')
    also have "\<dots> \<longleftrightarrow> he_wire_id e = w \<and> v = (he_parent_id e, he_native_bits e) \<or>
        (\<exists>s < ht_capacity t. s \<noteq> slot \<and> holds ?es w s \<and>
           v = (he_parent_id (?es ! s), he_native_bits (?es ! s)))"
      by (subst ex_slot [OF slot(1)]) (simp add: holds_update [OF len] e len cong: conj_cong)
    also have "\<dots> \<longleftrightarrow> he_wire_id e = w \<and> v = (he_parent_id e, he_native_bits e) \<or> handle_map t w = Some v"
      using slot(2)
      by (simp add: handle_map_iff [OF inv] ex_slot [OF slot(1), of "\<lambda>s. holds ?es w s \<and> _ s"]
          holds_def [of _ _ slot])
    finally show "handle_map t' w = Some v \<longleftrightarrow>
        ((handle_map t)(he_wire_id e \<mapsto> (he_parent_id e, he_native_bits e))) w = Some v"
      using fresh by (auto simp: handle_map_iff [OF inv])
  qed
qed

lemma remove_slot:
  assumes inv: "table_inv t" and slot: "slot < ht_capacity t" "holds (ht_entries t) w slot"
    and e: "he_state e = HANDLE_TOMBSTONE"
    and t': "t' = t\<lparr>ht_entries := (ht_entries t)[slot := e], ht_count := ht_count t - 1\<rparr>"
  shows "table_inv t'" and "handle_map t' = (handle_map t)(w := None)"
proof -
  let ?es = "ht_entries t" and ?es' = "(ht_entries t)[slot := e]"
  have len: "slot < length ?es" using slot inv_capacity(3) [OF inv] by simp
  have occ: "occupied_slots t' = occupied_slots t - {slot}"
    using slot e by (auto simp: t' occupied_slots_def occupied_update [OF len])
  have old: "slot \<in> occupied_slots t" using slot by (simp add: occupied_slots_def holds_def)
  have count: "card (occupied_slots t') = ht_count t - 1"
    using inv old by (simp add: occ table_inv_def)
  have "inj_on (\<lambda>s. he_wire_id (?es' ! s)) (occupied_slots t - {slot})"
    using inv by (auto simp: table_inv_def inj_on_def nth_list_update)
  moreover have "entry_ok (?es' ! s) \<and> reached ?es' (ht_capacity t) (he_wire_id (?es' ! s)) s"
    if "s \<in> occupied_slots t - {slot}" for s
    using that e inv by (auto simp: table_inv_def intro!: reached_update)
  ultimately show inv': "table_inv t'"
    using inv count by (simp add: table_inv_def occ) (auto simp add: t' table_is_valid_def)
  show "handle_map t' = (handle_map t)(w := None)"
  proof (rule map_ext_Some)
    fix u v
    have other: "s \<noteq> slot \<longleftrightarrow> u \<noteq> w" if "holds ?es u s" "s < ht_capacity t" for s
      using that slot holds_unique [OF inv slot(2), of s] by (metis holds_def)
    have "handle_map t' u = Some v \<longleftrightarrow>
        (\<exists>s < ht_capacity t. holds ?es' u s \<and> v = (he_parent_id (?es' ! s), he_native_bits (?es' ! s)))"
      by (simp add: handle_map_iff [OF inv']) (simp add: t')
    also have "\<dots> \<longleftrightarrow> (\<exists>s < ht_capacity t. s \<noteq> slot \<and> holds ?es u s \<and>
           v = (he_parent_id (?es ! s), he_native_bits (?es ! s)))"
      by (subst ex_slot [OF slot(1)]) (simp add: holds_update [OF len] e len cong: conj_cong)
    also have "\<dots> \<longleftrightarrow> u \<noteq> w \<and> handle_map t u = Some v"
      unfolding handle_map_iff [OF inv] using other by blast
    finally show "handle_map t' u = Some v \<longleftrightarrow> ((handle_map t)(w := None)) u = Some v"
      by auto
  qed
qed

subsection \<open>The operations against the map\<close>

lemma handle_table_init_inv:
  assumes "handle_table_init table entries capacity = Inr t" "capacity \<le> length entries"
  shows "table_inv t \<and> handle_map t = Map.empty \<and> ht_capacity t = capacity"
proof -
  from assms have t: "t = \<lparr>ht_entries = replicate capacity zero_entry @ drop capacity entries,
      ht_capacity = capacity, ht_count = 0\<rparr>" and cap: "8 \<le> capacity" "capacity AND (capacity - 1) = 0"
    by (auto simp: handle_table_init_def nonnull1_def split: option.splits if_splits)
  have "occupied_slots t = {}"
    by (auto simp: t occupied_slots_def occupied_def nth_append zero_entry_def)
  moreover have "handle_map t = Map.empty"
    by (simp add: t handle_map_def filter_empty_conv zero_entry_def)
  ultimately show ?thesis using cap assms(2) by (auto simp: table_inv_def table_is_valid_def t)
qed

text \<open>The slot the insertion chooses, and when it chooses none.\<close>

lemma insert_probe_table:
  assumes inv: "table_inv t"
  defines "cap \<equiv> ht_capacity t"
  shows "insert_probe (ht_entries t) cap w cap (hash_wire_id w cap) cap = Inr slot \<Longrightarrow>
      slot < cap \<and> \<not> occupied (ht_entries t) slot \<and> reached (ht_entries t) cap w slot \<and>
      (\<forall>s < cap. \<not> holds (ht_entries t) w s)"
    and "insert_probe (ht_entries t) cap w cap (hash_wire_id w cap) cap = Inl e \<Longrightarrow>
      e = EEXIST \<and> (\<exists>s < cap. holds (ht_entries t) w s) \<or> e = ENOSPC \<and> ht_count t = cap"
proof -
  have cap: "0 < cap" "cap AND (cap - 1) = 0"
    using inv_capacity [OF inv] by (simp_all add: cap_def)
  have hash: "hash_wire_id w cap mod cap = hash_wire_id w cap"
    using inv by (simp add: cap_def table_inv_def hash_mod)
  show "slot < cap \<and> \<not> occupied (ht_entries t) slot \<and> reached (ht_entries t) cap w slot \<and>
      (\<forall>s < cap. \<not> holds (ht_entries t) w s)"
    if "insert_probe (ht_entries t) cap w cap (hash_wire_id w cap) cap = Inr slot"
  proof -
    have *: "insert_probe (ht_entries t) cap w cap (hash_wire_id w cap mod cap) cap = Inr slot"
      using that by (simp add: hash)
    note spec = insert_probe_Inr [OF cap *]
    have "\<not> holds (ht_entries t) w s" if "s < cap" for s
      using spec holds_reached [OF inv, of w s] that unfolding cap_def by metis
    with spec cap(1) show ?thesis by (auto simp: reached_def)
  qed
  show "e = EEXIST \<and> (\<exists>s < cap. holds (ht_entries t) w s) \<or> e = ENOSPC \<and> ht_count t = cap"
    if "insert_probe (ht_entries t) cap w cap (hash_wire_id w cap) cap = Inl e"
  proof -
    have *: "insert_probe (ht_entries t) cap w cap (hash_wire_id w cap mod cap) cap = Inl e"
      using that by (simp add: hash)
    have "ht_count t = cap" if full: "\<forall>j < cap. occupied (ht_entries t) ((hash_wire_id w cap + j) mod cap)"
    proof -
      have "occupied_slots t = {..< cap}"
        using full probe_covers [of _ cap "hash_wire_id w cap"]
        by (fastforce simp: occupied_slots_def cap_def)
      then show ?thesis using inv by (simp add: table_inv_def)
    qed
    then show ?thesis using insert_probe_Inl [OF cap *] by blast
  qed
qed

lemma dom_handle_map:
  "table_inv t \<Longrightarrow> w \<in> dom (handle_map t) \<longleftrightarrow> (\<exists>s < ht_capacity t. holds (ht_entries t) w s)"
  by (auto simp: dom_def handle_map_iff)

definition insert_args_ok :: "u64 \<Rightarrow> u64 \<Rightarrow> u64 \<Rightarrow> bool" where
  "insert_args_ok w p n \<longleftrightarrow> wire_id_ok w \<and> n \<noteq> 0 \<and> (p = 0 \<or> wire_id_ok p)"

lemma handle_table_insert_ok:
  assumes inv: "table_inv t" and ok: "insert_args_ok w p n"
    and room: "ht_count t < ht_capacity t" and fresh: "w \<notin> dom (handle_map t)"
  shows "\<exists>t'. handle_table_insert (Some t) w p n = Inr t' \<and> table_inv t' \<and>
    handle_map t' = (handle_map t)(w \<mapsto> (p, n)) \<and> ht_capacity t' = ht_capacity t"
proof -
  let ?probe = "insert_probe (ht_entries t) (ht_capacity t) w (ht_capacity t)
    (hash_wire_id w (ht_capacity t)) (ht_capacity t)"
  let ?e = "\<lparr>he_wire_id = w, he_parent_id = p, he_native_bits = n, he_state = HANDLE_OCCUPIED\<rparr>"
  obtain slot where slot: "?probe = Inr slot"
    using insert_probe_table(2) [OF inv, of w] fresh room
    by (cases ?probe) (auto simp: dom_handle_map [OF inv])
  let ?t = "t\<lparr>ht_entries := (ht_entries t)[slot := ?e], ht_count := ht_count t + 1\<rparr>"
  note chosen = insert_probe_table(1) [OF inv slot]
  have "entry_ok ?e" using ok by (simp add: entry_ok_def insert_args_ok_def)
  then have "table_inv ?t" "handle_map ?t = (handle_map t)(w \<mapsto> (p, n))"
    using insert_slot [OF inv, of slot ?e ?t] chosen by auto
  moreover have "handle_table_insert (Some t) w p n = Inr ?t"
    using ok room inv slot
    by (auto simp: handle_table_insert_def nonnull1_def insert_args_ok_def wire_id_ok_def table_inv_def)
  ultimately show ?thesis by simp
qed

lemma handle_table_insert_error:
  assumes inv: "table_inv t"
  shows "\<not> insert_args_ok w p n \<Longrightarrow> handle_table_insert (Some t) w p n = Inl EINVAL"
    and "insert_args_ok w p n \<Longrightarrow> ht_count t = ht_capacity t \<Longrightarrow>
      handle_table_insert (Some t) w p n = Inl ENOSPC"
    and "insert_args_ok w p n \<Longrightarrow> ht_count t < ht_capacity t \<Longrightarrow> w \<in> dom (handle_map t) \<Longrightarrow>
      handle_table_insert (Some t) w p n = Inl EEXIST"
proof -
  have valid: "table_is_valid t" using inv by (simp add: table_inv_def)
  show "handle_table_insert (Some t) w p n = Inl EINVAL" if "\<not> insert_args_ok w p n"
    using that by (auto simp: handle_table_insert_def nonnull1_def insert_args_ok_def wire_id_ok_def)
  show "handle_table_insert (Some t) w p n = Inl ENOSPC"
    if "insert_args_ok w p n" "ht_count t = ht_capacity t"
    using that valid
    by (auto simp: handle_table_insert_def nonnull1_def insert_args_ok_def wire_id_ok_def)
  show "handle_table_insert (Some t) w p n = Inl EEXIST"
    if ok: "insert_args_ok w p n" and room: "ht_count t < ht_capacity t" and "w \<in> dom (handle_map t)"
  proof -
    let ?probe = "insert_probe (ht_entries t) (ht_capacity t) w (ht_capacity t)
      (hash_wire_id w (ht_capacity t)) (ht_capacity t)"
    have "?probe = Inl EEXIST"
      using that insert_probe_table [OF inv, of w] by (cases ?probe) (auto simp: dom_handle_map [OF inv])
    then show ?thesis using ok room valid
      by (auto simp: handle_table_insert_def nonnull1_def insert_args_ok_def wire_id_ok_def)
  qed
qed

lemma handle_table_lookup_spec:
  assumes "table_inv t"
  shows "handle_table_lookup (Some t) w ty (Some out) =
    (if handle_expect w ty \<noteq> Inr () then Inl EINVAL
     else case handle_map t w of None \<Rightarrow> Inl ENOENT | Some v \<Rightarrow> Inr v)"
  using assms
  by (simp add: handle_table_lookup_def nonnull2_def table_inv_def handle_map_find split: option.split)

lemma handle_table_remove_spec:
  assumes inv: "table_inv t"
  shows "handle_expect w ty \<noteq> Inr () \<Longrightarrow> handle_table_remove (Some t) w ty = Inl EINVAL"
    and "handle_expect w ty = Inr () \<Longrightarrow> handle_map t w = None \<Longrightarrow>
      handle_table_remove (Some t) w ty = Inl ENOENT"
    and "handle_expect w ty = Inr () \<Longrightarrow> handle_map t w = Some (p, n) \<Longrightarrow>
      \<exists>t'. handle_table_remove (Some t) w ty = Inr (t', n) \<and> table_inv t' \<and>
        handle_map t' = (handle_map t)(w := None) \<and> ht_capacity t' = ht_capacity t"
proof -
  have valid: "table_is_valid t" using inv by (simp add: table_inv_def)
  show "handle_expect w ty \<noteq> Inr () \<Longrightarrow> handle_table_remove (Some t) w ty = Inl EINVAL"
    by (simp add: handle_table_remove_def nonnull1_def)
  show "handle_expect w ty = Inr () \<Longrightarrow> handle_map t w = None \<Longrightarrow>
      handle_table_remove (Some t) w ty = Inl ENOENT"
    using valid by (simp add: handle_table_remove_def nonnull1_def handle_map_find [OF inv])
  assume expect: "handle_expect w ty = Inr ()" and mapped: "handle_map t w = Some (p, n)"
  then obtain s where s: "find_entry t w = Some s" "n = he_native_bits (ht_entries t ! s)"
    by (auto simp: handle_map_find [OF inv])
  then have "s < ht_capacity t" "holds (ht_entries t) w s" by (simp_all add: find_entry_iff [OF inv])
  note removed = remove_slot [OF inv this _ refl,
      of "\<lparr>he_wire_id = 0, he_parent_id = 0, he_native_bits = 0, he_state = HANDLE_TOMBSTONE\<rparr>"]
  show "\<exists>t'. handle_table_remove (Some t) w ty = Inr (t', n) \<and> table_inv t' \<and>
        handle_map t' = (handle_map t)(w := None) \<and> ht_capacity t' = ht_capacity t"
    using removed expect valid s by (simp add: handle_table_remove_def nonnull1_def)
qed

subsection \<open>The registry interface\<close>

text \<open>
  What the dispatch code relies on: a registry of typed identifiers of bounded capacity. The laws
  are those of a finite map; the client lemmas are proved from them alone.
\<close>

locale handle_registry =
  fixes inv :: "'t \<Rightarrow> bool"
    and view :: "'t \<Rightarrow> (u64 \<rightharpoonup> u64 \<times> u64)"
    and room :: "'t \<Rightarrow> bool"
    and insert :: "'t \<Rightarrow> u64 \<Rightarrow> u64 \<Rightarrow> u64 \<Rightarrow> 't result"
    and lookup :: "'t \<Rightarrow> u64 \<Rightarrow> object_type \<Rightarrow> (u64 \<times> u64) result"
    and remove :: "'t \<Rightarrow> u64 \<Rightarrow> object_type \<Rightarrow> ('t \<times> u64) result"
  assumes view_typed: "inv t \<Longrightarrow> w \<in> dom (view t) \<Longrightarrow> handle_expect w (handle_type w) = Inr ()"
    and insert_ok: "inv t \<Longrightarrow> insert_args_ok w p n \<Longrightarrow> room t \<Longrightarrow> w \<notin> dom (view t) \<Longrightarrow>
      \<exists>t'. insert t w p n = Inr t' \<and> inv t' \<and> view t' = (view t)(w \<mapsto> (p, n))"
    and insert_einval: "inv t \<Longrightarrow> \<not> insert_args_ok w p n \<Longrightarrow> insert t w p n = Inl EINVAL"
    and insert_full: "inv t \<Longrightarrow> insert_args_ok w p n \<Longrightarrow> \<not> room t \<Longrightarrow> insert t w p n = Inl ENOSPC"
    and insert_exists: "inv t \<Longrightarrow> insert_args_ok w p n \<Longrightarrow> room t \<Longrightarrow> w \<in> dom (view t) \<Longrightarrow>
      insert t w p n = Inl EEXIST"
    and lookup_view: "inv t \<Longrightarrow> lookup t w ty = (if handle_expect w ty \<noteq> Inr () then Inl EINVAL
      else case view t w of None \<Rightarrow> Inl ENOENT | Some v \<Rightarrow> Inr v)"
    and remove_einval: "inv t \<Longrightarrow> handle_expect w ty \<noteq> Inr () \<Longrightarrow> remove t w ty = Inl EINVAL"
    and remove_absent: "inv t \<Longrightarrow> handle_expect w ty = Inr () \<Longrightarrow> view t w = None \<Longrightarrow>
      remove t w ty = Inl ENOENT"
    and remove_ok: "inv t \<Longrightarrow> handle_expect w ty = Inr () \<Longrightarrow> view t w = Some (p, n) \<Longrightarrow>
      \<exists>t'. remove t w ty = Inr (t', n) \<and> inv t' \<and> view t' = (view t)(w := None)"
begin

lemma insert_view:
  assumes "inv t" "insert t w p n = Inr t'"
  shows "inv t' \<and> view t' = (view t)(w \<mapsto> (p, n)) \<and> view t w = None \<and> insert_args_ok w p n"
proof -
  have ok: "insert_args_ok w p n"
    using assms insert_einval [OF assms(1)] by (metis Inl_Inr_False)
  have room: "room t"
    using assms insert_full [OF assms(1) ok] by (metis Inl_Inr_False)
  have "w \<notin> dom (view t)"
    using assms insert_exists [OF assms(1) ok room] by (metis Inl_Inr_False)
  then show ?thesis using insert_ok [OF assms(1) ok room] assms(2) ok by auto
qed

lemma remove_view:
  assumes "inv t" "remove t w ty = Inr (t', n)"
  shows "inv t' \<and> view t' = (view t)(w := None) \<and> (\<exists>p. view t w = Some (p, n)) \<and> handle_expect w ty = Inr ()"
proof -
  have expect: "handle_expect w ty = Inr ()"
    using assms remove_einval by fastforce
  moreover obtain p m where v: "view t w = Some (p, m)"
    using assms remove_absent [OF assms(1) expect] by (cases "view t w") auto
  ultimately show ?thesis using assms remove_ok [OF assms(1) expect v] by auto
qed

lemma lookup_inserted:
  assumes "inv t" "insert t w p n = Inr t'"
  shows "lookup t' w (handle_type w) = Inr (p, n)"
  using insert_view [OF assms] view_typed [of t' w] by (auto simp: lookup_view)

lemma lookup_other_insert:
  assumes "inv t" "insert t w p n = Inr t'" "u \<noteq> w"
  shows "lookup t' u ty = lookup t u ty"
  using insert_view [OF assms(1,2)] assms by (simp add: lookup_view)

lemma lookup_removed:
  assumes "inv t" "remove t w ty = Inr (t', n)"
  shows "lookup t' w ty = Inl ENOENT"
  using remove_view [OF assms] by (simp add: lookup_view)

lemma lookup_other_remove:
  assumes "inv t" "remove t w ty = Inr (t', n)" "u \<noteq> w"
  shows "lookup t' u ty' = lookup t u ty'"
  using remove_view [OF assms(1,2)] assms by (simp add: lookup_view)

text \<open>A handle of one type is never found under another.\<close>

lemma lookup_typed: "inv t \<Longrightarrow> lookup t w ty = Inr v \<Longrightarrow> handle_type w = ty"
  by (auto simp: lookup_view handle_expect_def split: if_splits)

lemma insert_then_remove:
  assumes "inv t" "insert t w p n = Inr t'"
  shows "\<exists>t''. remove t' w (handle_type w) = Inr (t'', n) \<and> inv t'' \<and> view t'' = view t"
proof -
  note i = insert_view [OF assms]
  moreover have "handle_expect w (handle_type w) = Inr ()"
    using i view_typed [of t' w] by simp
  ultimately obtain t'' where "remove t' w (handle_type w) = Inr (t'', n)" "inv t''"
      "view t'' = (view t')(w := None)"
    using remove_ok [of t' w "handle_type w" p n] by auto
  then show ?thesis using i by (auto simp: fun_upd_idem)
qed

end

lemma occupied_typed:
  "table_inv t \<Longrightarrow> w \<in> dom (handle_map t) \<Longrightarrow> wire_id_ok w"
  by (auto simp: dom_handle_map table_inv_def entry_ok_def holds_def occupied_slots_def)

lemma wire_id_ok_expect: "wire_id_ok w \<longleftrightarrow> handle_expect w (handle_type w) = Inr ()"
  by (auto simp: wire_id_ok_def handle_expect_def handle_type_def Let_def object_type_is_valid_def)

interpretation table: handle_registry table_inv handle_map "\<lambda>t. ht_count t < ht_capacity t"
  "\<lambda>t. handle_table_insert (Some t)" "\<lambda>t w ty. handle_table_lookup (Some t) w ty (Some 0)"
  "\<lambda>t. handle_table_remove (Some t)"
proof (unfold_locales, goal_cases)
  case (1 t w) then show ?case using occupied_typed wire_id_ok_expect by blast
next
  case (2 t w p n) then show ?case using handle_table_insert_ok by blast
next
  case (3 t w p n) then show ?case by (rule handle_table_insert_error)
next
  case (4 t w p n)
  then show ?case
    by (intro handle_table_insert_error(2)) (auto simp: table_inv_def table_is_valid_def)
next
  case (5 t w p n) then show ?case by (rule handle_table_insert_error)
next
  case (6 t w ty) then show ?case by (rule handle_table_lookup_spec)
next
  case (7 t w ty) then show ?case by (rule handle_table_remove_spec)
next
  case (8 t w ty) then show ?case by (rule handle_table_remove_spec)
next
  case (9 t w ty p n) then show ?case using handle_table_remove_spec(3) by blast
qed

text \<open>
  Any sequence of operations: the table a client can reach from a fresh one always satisfies the
  invariant, so the laws above hold of it.
\<close>

datatype handle_op = Insert u64 u64 u64 | Remove u64 object_type

fun handle_step :: "handle_table \<Rightarrow> handle_op \<Rightarrow> handle_table" where
  "handle_step t (Insert w p n) = (case handle_table_insert (Some t) w p n of Inl _ \<Rightarrow> t | Inr t' \<Rightarrow> t')"
| "handle_step t (Remove w ty) = (case handle_table_remove (Some t) w ty of Inl _ \<Rightarrow> t | Inr (t', _) \<Rightarrow> t')"

fun map_step :: "nat \<Rightarrow> (u64 \<rightharpoonup> u64 \<times> u64) \<Rightarrow> handle_op \<Rightarrow> (u64 \<rightharpoonup> u64 \<times> u64)" where
  "map_step cap m (Insert w p n) =
     (if insert_args_ok w p n \<and> card (dom m) < cap \<and> w \<notin> dom m then m(w \<mapsto> (p, n)) else m)"
| "map_step cap m (Remove w ty) = (if handle_expect w ty = Inr () then m(w := None) else m)"

lemma handle_step_refines:
  assumes inv: "table_inv t"
  shows "table_inv (handle_step t op) \<and> ht_capacity (handle_step t op) = ht_capacity t \<and>
    handle_map (handle_step t op) = map_step (ht_capacity t) (handle_map t) op"
proof (cases op)
  case (Insert w p n)
  have le: "ht_count t \<le> ht_capacity t" using inv by (simp add: table_inv_def table_is_valid_def)
  show ?thesis
  proof (cases "insert_args_ok w p n \<and> ht_count t < ht_capacity t \<and> w \<notin> dom (handle_map t)")
    case True
    then obtain t' where "handle_table_insert (Some t) w p n = Inr t'" "table_inv t'"
      "handle_map t' = (handle_map t)(w \<mapsto> (p, n))" "ht_capacity t' = ht_capacity t"
      using handle_table_insert_ok [OF inv] by blast
    with True show ?thesis by (simp add: Insert handle_map_card [OF inv])
  next
    case False
    then obtain e where "handle_table_insert (Some t) w p n = Inl e"
      using handle_table_insert_error [OF inv, of w p n] le by (metis nat_less_le)
    with False inv show ?thesis by (auto simp: Insert handle_map_card [OF inv])
  qed
next
  case (Remove w ty)
  show ?thesis
  proof (cases "handle_expect w ty = Inr ()")
    case True
    show ?thesis
    proof (cases "handle_map t w")
      case None
      then show ?thesis using inv True handle_table_remove_spec(2) [OF inv True None]
        by (simp add: Remove fun_upd_idem)
    next
      case (Some v)
      then obtain p n where v: "handle_map t w = Some (p, n)" by (cases v) auto
      then show ?thesis using handle_table_remove_spec(3) [OF inv True v] True by (auto simp: Remove)
    qed
  next
    case False
    then show ?thesis using inv handle_table_remove_spec(1) [OF inv False] by (simp add: Remove)
  qed
qed

lemma handle_run_refines:
  assumes "table_inv t"
  shows "table_inv (foldl handle_step t ops) \<and>
    handle_map (foldl handle_step t ops) = foldl (map_step (ht_capacity t)) (handle_map t) ops"
  using assms
proof (induction ops arbitrary: t)
  case (Cons op ops)
  then show ?case using handle_step_refines [of t op] by simp
qed simp

subsection \<open>Properties\<close>

text \<open>
  The table the properties are tried on: eight slots, one instance with serial 1 in it.
\<close>

definition sample_table :: handle_table where
  "sample_table = \<lparr>ht_entries = replicate 8 zero_entry, ht_capacity = 8, ht_count = 0\<rparr>"

lemma sample_table_init: "handle_table_init (Some t) (replicate 8 e) 8 = Inr sample_table"
proof -
  have "(8 :: nat) AND 7 = 0" by code_simp
  then show ?thesis by (simp add: handle_table_init_def nonnull1_def sample_table_def)
qed

lemma sample_table_inv: "table_inv sample_table" "handle_map sample_table = Map.empty"
  using handle_table_init_inv [OF sample_table_init] by simp_all

text \<open>
  C7: From a freshly initialised table, whatever sequence of insertions and removals is made, the
  open-addressing table with tombstones behaves as the bounded finite map from wire identifiers to
  (parent, native bits) does: an insertion takes effect exactly when its arguments are well
  formed, the table is not full and the identifier is new; a removal exactly under the right type;
  and the table invariant holds throughout.
\<close>

theorem handle_table_refines_map:
  assumes "handle_table_init table entries capacity = Inr t" "capacity \<le> length entries"
  shows "handle_map (foldl handle_step t ops) = foldl (map_step capacity) Map.empty ops \<and>
    table_inv (foldl handle_step t ops)"
  using handle_run_refines [of t ops] handle_table_init_inv [OF assms] by simp

theorem handle_table_refines_map_witness:
  "handle_map (foldl handle_step sample_table [Insert 0x0100000000000001 0 7, Remove 0x0100000000000001 1]) =
     foldl (map_step 8) Map.empty [Insert 0x0100000000000001 0 7, Remove 0x0100000000000001 1] \<and>
   table_inv (foldl handle_step sample_table [Insert 0x0100000000000001 0 7, Remove 0x0100000000000001 1])"
  by (rule handle_table_refines_map [OF sample_table_init]) simp

text \<open>
  C11: On every table that satisfies the invariant the insertion has exactly one of four outcomes:
  malformed arguments are EINVAL, a full table is ENOSPC, a duplicate identifier is EEXIST, and
  otherwise the insertion succeeds with the identifier mapped and everything else unchanged.
  In particular no probe sequence overlooks a free slot or a duplicate.
\<close>

theorem handle_table_insert_outcome:
  assumes "table_inv t"
  shows "if \<not> insert_args_ok w p n then handle_table_insert (Some t) w p n = Inl EINVAL
    else if ht_count t = ht_capacity t then handle_table_insert (Some t) w p n = Inl ENOSPC
    else if w \<in> dom (handle_map t) then handle_table_insert (Some t) w p n = Inl EEXIST
    else \<exists>t'. handle_table_insert (Some t) w p n = Inr t' \<and> table_inv t' \<and>
      handle_map t' = (handle_map t)(w \<mapsto> (p, n)) \<and> ht_count t' = card (dom (handle_map t')) \<and>
      ht_capacity t' = ht_capacity t"
proof -
  have "ht_count t \<le> ht_capacity t" using assms by (simp add: table_inv_def table_is_valid_def)
  moreover have "\<exists>t'. handle_table_insert (Some t) w p n = Inr t' \<and> table_inv t' \<and>
      handle_map t' = (handle_map t)(w \<mapsto> (p, n)) \<and> ht_count t' = card (dom (handle_map t')) \<and>
      ht_capacity t' = ht_capacity t"
    if "insert_args_ok w p n" "ht_count t < ht_capacity t" "w \<notin> dom (handle_map t)"
    using handle_table_insert_ok [OF assms that] handle_map_card by metis
  ultimately show ?thesis using handle_table_insert_error [OF assms] by auto
qed

theorem handle_table_insert_outcome_witness:
  "\<exists>t'. handle_table_insert (Some sample_table) 0x0100000000000001 0 7 = Inr t' \<and> table_inv t' \<and>
     handle_map t' = [0x0100000000000001 \<mapsto> (0, 7)] \<and> ht_count t' = card (dom (handle_map t')) \<and>
     ht_capacity t' = 8"
proof -
  have "insert_args_ok 0x0100000000000001 0 7" by code_simp
  then show ?thesis
    using handle_table_insert_outcome [OF sample_table_inv(1), of "0x0100000000000001" 0 7]
      sample_table_inv(2) by (simp add: sample_table_def)
qed

text \<open>
  C12: The life of a handle. After a successful insertion the identifier is found, under the type
  its bits carry and under no other, with the parent and native bits it was given; every other
  identifier is found as before; and removing it gives back its native bits and leaves a table
  in which it is absent and which otherwise maps what the table mapped before the insertion.
\<close>

theorem handle_lifecycle:
  assumes "table_inv t" "handle_table_insert (Some t) w p n = Inr t'"
  shows "handle_table_lookup (Some t') w (handle_type w) (Some 0) = Inr (p, n) \<and>
    (\<forall>ty. ty \<noteq> handle_type w \<longrightarrow> handle_table_lookup (Some t') w ty (Some 0) = Inl EINVAL) \<and>
    (\<forall>u ty. u \<noteq> w \<longrightarrow>
      handle_table_lookup (Some t') u ty (Some 0) = handle_table_lookup (Some t) u ty (Some 0)) \<and>
    (\<exists>t''. handle_table_remove (Some t') w (handle_type w) = Inr (t'', n) \<and> table_inv t'' \<and>
      handle_map t'' = handle_map t \<and>
      handle_table_lookup (Some t'') w (handle_type w) (Some 0) = Inl ENOENT)"
proof -
  note view = table.insert_view [OF assms]
  obtain t'' where r: "handle_table_remove (Some t') w (handle_type w) = Inr (t'', n)" "table_inv t''"
      "handle_map t'' = handle_map t"
    using table.insert_then_remove [OF assms] by blast
  have "handle_table_lookup (Some t') w ty (Some 0) = Inl EINVAL" if "ty \<noteq> handle_type w" for ty
    using view that by (auto simp: handle_table_lookup_spec handle_expect_def)
  moreover have "handle_table_lookup (Some t'') w (handle_type w) (Some 0) = Inl ENOENT"
    using table.lookup_removed [OF _ r(1)] view by blast
  ultimately show ?thesis
    using table.lookup_inserted [OF assms] table.lookup_other_insert [OF assms] r by blast
qed

theorem handle_lifecycle_witness:
  "\<exists>t'. handle_table_insert (Some sample_table) 0x0100000000000001 0 7 = Inr t' \<and>
     handle_table_lookup (Some t') 0x0100000000000001 1 (Some 0) = Inr (0, 7) \<and>
     handle_table_lookup (Some t') 0x0100000000000001 2 (Some 0) = Inl EINVAL"
proof -
  have args: "insert_args_ok 0x0100000000000001 0 7" "handle_type 0x0100000000000001 = 1" by code_simp+
  then obtain t' where i: "handle_table_insert (Some sample_table) 0x0100000000000001 0 7 = Inr t'"
    using handle_table_insert_ok [OF sample_table_inv(1), of "0x0100000000000001" 0 7] sample_table_inv(2)
    by (auto simp: sample_table_def)
  show ?thesis
    using i handle_lifecycle [OF sample_table_inv(1) i] args(2) by simp
qed

text \<open>
  A wire identifier packs an object type and a 56-bit serial without loss: for every valid
  type and every serial in range the type, the serial and the type check read back, and conversely
  an identifier that passes the type check is the one built from its own two parts.
\<close>

lemma handle_id_bijective:
  "(object_type_is_valid type \<longrightarrow> serial \<noteq> 0 \<longrightarrow> serial \<le> BVB_HANDLE_SERIAL_MASK \<longrightarrow>
      handle_type (handle_id type serial) = type \<and> handle_serial (handle_id type serial) = serial \<and>
      handle_expect (handle_id type serial) type = Inr ()) \<and>
   (handle_expect w type = Inr () \<longrightarrow> handle_id type (handle_serial w) = w)"
  using handle_id_roundtrip [of type serial] handle_parts [of w type] by blast

end
