(* ===== verification/Lifecycle.thy ===== *)
theory Lifecycle
  imports Proto_Base
begin

unbundle bit_operations_syntax

section \<open>Activity lifecycle records\<close>

text \<open>
  src/src/lifecycle.c and src/include/bvb/lifecycle.h: the fixed-size records by which the Android
  Activity reports its life to the bridge service, their acknowledgements, and the parser of the
  hexadecimal session token. The static byte functions of the file are those of the prelude.
\<close>

subsection \<open>Definitions\<close>

abbreviation (input) BVB_LIFECYCLE_MAGIC :: u32 where "BVB_LIFECYCLE_MAGIC \<equiv> 0x314c5642"
abbreviation (input) BVB_LIFECYCLE_VERSION :: u16 where "BVB_LIFECYCLE_VERSION \<equiv> 1"
abbreviation (input) BVB_LIFECYCLE_TOKEN_SIZE :: nat where "BVB_LIFECYCLE_TOKEN_SIZE \<equiv> 32"
abbreviation (input) BVB_LIFECYCLE_TOKEN_HEX_SIZE :: nat where "BVB_LIFECYCLE_TOKEN_HEX_SIZE \<equiv> 64"
abbreviation (input) BVB_LIFECYCLE_RECORD_SIZE :: nat where "BVB_LIFECYCLE_RECORD_SIZE \<equiv> 64"
abbreviation (input) BVB_LIFECYCLE_ACK_SIZE :: nat where "BVB_LIFECYCLE_ACK_SIZE \<equiv> 16"
abbreviation (input) EVENT_CREATED :: u16 where "EVENT_CREATED \<equiv> 1"
abbreviation (input) EVENT_WINDOW_CREATED :: u16 where "EVENT_WINDOW_CREATED \<equiv> 7"
abbreviation (input) EVENT_RENDERER_READY :: u16 where "EVENT_RENDERER_READY \<equiv> 11"
abbreviation (input) EVENT_RENDERER_FAILED :: u16 where "EVENT_RENDERER_FAILED \<equiv> 12"
abbreviation (input) EVENT_NATIVE_BINDER_STATUS :: u16 where "EVENT_NATIVE_BINDER_STATUS \<equiv> 13"

record lifecycle_record =
  lr_event :: u16
  lr_sequence :: u32
  lr_width :: u32
  lr_height :: u32
  lr_activity_pid :: u32
  lr_monotonic_ns :: u64
  lr_token :: bytes

record lifecycle_ack =
  la_sequence :: u32
  la_status :: i32

definition hex_nibble :: "char \<Rightarrow> int" where
  "hex_nibble c = (let value = of_char c :: int in
     if 48 \<le> value \<and> value \<le> 57 then value - 48
     else if 97 \<le> value \<and> value \<le> 102 then value - 97 + 10
     else if 65 \<le> value \<and> value \<le> 70 then value - 65 + 10
     else - 1)"

definition record_is_valid :: "lifecycle_record \<Rightarrow> bool" where
  "record_is_valid record \<longleftrightarrow>
     \<not> (lr_event record < EVENT_CREATED \<or> lr_event record > EVENT_NATIVE_BINDER_STATUS \<or>
        lr_sequence record = 0 \<or> lr_activity_pid record = 0 \<or> lr_monotonic_ns record = 0) \<and>
     \<not> ((lr_event record = EVENT_WINDOW_CREATED \<or> lr_event record = EVENT_RENDERER_READY \<or>
         lr_event record = EVENT_RENDERER_FAILED) \<and>
        (lr_width record = 0 \<or> lr_height record = 0))"

text \<open>
  The loop over the token's bytes, with \<open>n\<close> of them left. The result is the status and the
  caller's buffer, which a malformed digit clears.
\<close>

fun token_loop :: "string \<Rightarrow> nat \<Rightarrow> nat \<Rightarrow> bytes \<Rightarrow> unit result \<times> bytes" where
  "token_loop input 0 index output = (Inr (), output)"
| "token_loop input (Suc n) index output =
     (let high = hex_nibble (input ! (index * 2)); low = hex_nibble (input ! (index * 2 + 1)) in
      if high < 0 \<or> low < 0 then (Inl EINVAL, memset0 output 0 BVB_LIFECYCLE_TOKEN_SIZE)
      else token_loop input n (index + 1)
             (output[index := push_bit 4 (word_of_int high) OR word_of_int low]))"

definition lifecycle_token_from_hex ::
  "string option \<Rightarrow> bytes option \<Rightarrow> unit result \<times> bytes option" where
  "lifecycle_token_from_hex input output = (case (input, output) of
     (Some input, Some out) \<Rightarrow>
       if length input \<noteq> BVB_LIFECYCLE_TOKEN_HEX_SIZE then (Inl EINVAL, output)
       else map_prod id Some (token_loop input BVB_LIFECYCLE_TOKEN_SIZE 0 out)
   | _ \<Rightarrow> (Inl EINVAL, output))"

definition lifecycle_encode_record :: "bytes option \<Rightarrow> lifecycle_record option \<Rightarrow> bytes result" where
  "lifecycle_encode_record output record = nonnull2 output record (\<lambda>output record.
     if \<not> record_is_valid record then Inl EINVAL
     else
     let output = put_u32 output 0 BVB_LIFECYCLE_MAGIC in
     let output = put_u16 output 4 BVB_LIFECYCLE_VERSION in
     let output = put_u16 output 6 (lr_event record) in
     let output = put_u32 output 8 (lr_sequence record) in
     let output = put_u32 output 12 (lr_width record) in
     let output = put_u32 output 16 (lr_height record) in
     let output = put_u32 output 20 (lr_activity_pid record) in
     let output = put_u64 output 24 (lr_monotonic_ns record) in
     let output = memcpy output 32 (lr_token record) BVB_LIFECYCLE_TOKEN_SIZE in
     Inr output)"

definition lifecycle_decode_record ::
  "bytes option \<Rightarrow> lifecycle_record option \<Rightarrow> lifecycle_record result" where
  "lifecycle_decode_record input record = nonnull2 input record (\<lambda>input _.
     if get_u32 input 0 \<noteq> BVB_LIFECYCLE_MAGIC \<or> get_u16 input 4 \<noteq> BVB_LIFECYCLE_VERSION
     then Inl EPROTO
     else
     let decoded = \<lparr>lr_event = get_u16 input 6, lr_sequence = get_u32 input 8,
                    lr_width = get_u32 input 12, lr_height = get_u32 input 16,
                    lr_activity_pid = get_u32 input 20, lr_monotonic_ns = get_u64 input 24,
                    lr_token = get_bytes input 32 BVB_LIFECYCLE_TOKEN_SIZE\<rparr> in
     if \<not> record_is_valid decoded then Inl EPROTO else Inr decoded)"

definition lifecycle_encode_ack :: "bytes option \<Rightarrow> lifecycle_ack option \<Rightarrow> bytes result" where
  "lifecycle_encode_ack output ack = nonnull2 output ack (\<lambda>output ack.
     if la_sequence ack = 0 \<or> sint (la_status ack) > 0 then Inl EINVAL
     else
     let output = put_u32 output 0 BVB_LIFECYCLE_MAGIC in
     let output = put_u16 output 4 BVB_LIFECYCLE_VERSION in
     let output = put_u16 output 6 0 in
     let output = put_u32 output 8 (la_sequence ack) in
     let output = put_u32 output 12 (la_status ack) in
     Inr output)"

definition lifecycle_decode_ack :: "bytes option \<Rightarrow> lifecycle_ack option \<Rightarrow> lifecycle_ack result" where
  "lifecycle_decode_ack input ack = nonnull2 input ack (\<lambda>input _.
     if get_u32 input 0 \<noteq> BVB_LIFECYCLE_MAGIC \<or> get_u16 input 4 \<noteq> BVB_LIFECYCLE_VERSION \<or>
        get_u16 input 6 \<noteq> 0 then Inl EPROTO
     else
     let decoded = \<lparr>la_sequence = get_u32 input 8, la_status = get_u32 input 12\<rparr> in
     if la_sequence decoded = 0 \<or> sint (la_status decoded) > 0 then Inl EPROTO
     else Inr decoded)"

subsection \<open>The codecs\<close>

lemma lifecycle_record_collapse [wire_simps]:
  "\<lparr>lr_event = lr_event r, lr_sequence = lr_sequence r, lr_width = lr_width r,
    lr_height = lr_height r, lr_activity_pid = lr_activity_pid r,
    lr_monotonic_ns = lr_monotonic_ns r, lr_token = lr_token r\<rparr> = r"
  by simp

interpretation lifecycle_record_codec: shaped_codec BVB_LIFECYCLE_RECORD_SIZE
  "\<lambda>r. length (lr_token r) = BVB_LIFECYCLE_TOKEN_SIZE" record_is_valid
  lifecycle_encode_record lifecycle_decode_record
  by unfold_locales
    (auto simp: lifecycle_encode_record_def lifecycle_decode_record_def wire_simps
      split: codec_splits)

interpretation lifecycle_ack_codec: agreed_codec BVB_LIFECYCLE_ACK_SIZE
  "\<lambda>ack. la_sequence ack \<noteq> 0 \<and> sint (la_status ack) \<le> 0"
  lifecycle_encode_ack lifecycle_decode_ack
  by unfold_locales
    (auto simp: lifecycle_encode_ack_def lifecycle_decode_ack_def wire_simps split: codec_splits)

subsection \<open>The token parser\<close>

definition hex_digit :: "char \<Rightarrow> bool" where
  "hex_digit c \<longleftrightarrow> c \<in> set ''0123456789abcdefABCDEF''"

lemma hex_nibble_digit: "0 \<le> hex_nibble c \<longleftrightarrow> hex_digit c"
proof -
  have "list_all (\<lambda>c. 0 \<le> hex_nibble c \<longleftrightarrow> hex_digit c) Enum.enum" by code_simp
  then show ?thesis using enum_UNIV [where 'a = char] by (simp add: list_all_iff)
qed

definition token_byte :: "string \<Rightarrow> nat \<Rightarrow> u8" where
  "token_byte s k = push_bit 4 (word_of_int (hex_nibble (s ! (k * 2)))) OR
     word_of_int (hex_nibble (s ! (k * 2 + 1)))"

definition token_digits :: "string \<Rightarrow> nat \<Rightarrow> bool" where
  "token_digits s k \<longleftrightarrow> hex_digit (s ! (k * 2)) \<and> hex_digit (s ! (k * 2 + 1))"

lemma token_loop_eq:
  "i + n = length out \<Longrightarrow> length out = 32 \<Longrightarrow> token_loop s n i out =
     (if \<forall>k \<in> {i..<i + n}. token_digits s k then (Inr (), take i out @ map (token_byte s) [i..<i + n])
      else (Inl EINVAL, replicate 32 0))"
proof (induction n arbitrary: i out)
  case (Suc n)
  let ?out = "out[i := token_byte s i]"
  have upt: "[i..<i + Suc n] = i # [Suc i..<Suc i + n]" by (simp add: upt_conv_Cons)
  have ball: "(\<forall>k \<in> {i..<i + Suc n}. token_digits s k) \<longleftrightarrow>
      token_digits s i \<and> (\<forall>k \<in> {Suc i..<Suc i + n}. token_digits s k)"
    by (auto simp: le_Suc_eq Suc_le_eq order_le_less)
  have "take (Suc i) ?out = take i out @ [token_byte s i]"
    using Suc.prems by (simp add: take_Suc_conv_app_nth)
  with Suc.IH [of "Suc i" ?out] Suc.prems show ?case
    unfolding upt ball
    by (simp add: Let_def not_less hex_nibble_digit [symmetric] token_digits_def token_byte_def
        memset0_all flip: not_le)
qed simp

lemma token_from_hex_eq:
  assumes "length s = 64" "length out = 32"
  shows "lifecycle_token_from_hex (Some s) (Some out) =
    (if list_all hex_digit s then (Inr (), Some (map (token_byte s) [0..<32]))
     else (Inl EINVAL, Some (replicate 32 0)))"
proof -
  have "k < 64 \<longleftrightarrow> (\<exists>j < 32. k = j * 2 \<or> k = j * 2 + 1)" for k :: nat
    by presburger
  then have "list_all hex_digit s \<longleftrightarrow> (\<forall>k \<in> {0..<32}. token_digits s k)"
    using assms by (fastforce simp: list_all_length token_digits_def)
  then show ?thesis
    using assms token_loop_eq [of 0 32 out s] by (simp add: lifecycle_token_from_hex_def)
qed

definition hex_char :: "nat \<Rightarrow> char" where
  "hex_char n = ''0123456789abcdef'' ! n"

definition token_to_hex :: "bytes \<Rightarrow> string" where
  "token_to_hex bs = concat (map (\<lambda>b. [hex_char (unat b div 16), hex_char (unat b mod 16)]) bs)"

lemma hex_nibble_char: "n < 16 \<Longrightarrow> hex_nibble (hex_char n) = int n"
proof -
  have "list_all (\<lambda>n. hex_nibble (hex_char n) = int n) [0..<16]" by code_simp
  then show "n < 16 \<Longrightarrow> hex_nibble (hex_char n) = int n" by (simp add: list_all_iff)
qed

lemma token_to_hex_nth:
  "k < length bs \<Longrightarrow> token_to_hex bs ! (k * 2) = hex_char (unat (bs ! k) div 16) \<and>
     token_to_hex bs ! (k * 2 + 1) = hex_char (unat (bs ! k) mod 16)"
proof (induction bs arbitrary: k)
  case (Cons b bs)
  then show ?case by (cases k) (simp_all add: token_to_hex_def)
qed simp

lemma length_token_to_hex: "length (token_to_hex bs) = 2 * length bs"
  by (induction bs) (simp_all add: token_to_hex_def)

lemma nibbles_of_byte:
  "push_bit 4 (of_nat (unat b div 16)) OR of_nat (unat b mod 16) = (b :: u8)"
proof -
  have "push_bit 4 (drop_bit 4 b) OR take_bit 4 b = b"
    by (rule bit_word_eqI) (auto simp: bit_simps)
  moreover have "of_nat (unat b div 16) = drop_bit 4 b"
    using u8_less [of b]
    by (simp add: word_unat_eq_iff drop_bit_eq_div unat_div unsigned_of_nat take_bit_nat_eq_self)
  moreover have "of_nat (unat b mod 16) = take_bit 4 b"
    using u8_less [of b]
    by (simp add: word_unat_eq_iff take_bit_eq_mod unat_mod unsigned_of_nat take_bit_nat_eq_self)
  ultimately show ?thesis by simp
qed

lemma token_roundtrip:
  assumes "length token = 32" "length out = 32"
  shows "lifecycle_token_from_hex (Some (token_to_hex token)) (Some out) = (Inr (), Some token)"
proof -
  have nibble: "unat (b :: u8) div 16 < 16" for b using u8_less [of b] by simp
  have "list_all hex_digit (token_to_hex token)"
    by (auto simp: token_to_hex_def list_all_iff hex_nibble_char nibble hex_nibble_digit [symmetric])
  moreover have "map (token_byte (token_to_hex token)) [0..<32] = token"
    using assms(1)
    by (intro nth_equalityI)
      (auto simp: token_byte_def token_to_hex_nth [simplified] hex_nibble_char nibble nibbles_of_byte)
  ultimately show ?thesis
    using assms by (simp add: token_from_hex_eq length_token_to_hex)
qed

subsection \<open>Properties\<close>

definition sample_record :: lifecycle_record where
  "sample_record = \<lparr>lr_event = EVENT_NATIVE_BINDER_STATUS, lr_sequence = 1, lr_width = 0, lr_height = 0,
     lr_activity_pid = 4711, lr_monotonic_ns = 1000, lr_token = replicate 32 0xab\<rparr>"

text \<open>
  C20: A lifecycle record the sender's check admits is encoded into 64 bytes from which the receiver
  decodes the same record, token included, whatever its result object held; a record the check
  refuses is not encoded; and whatever 64 bytes arrive, a record the decoder hands out has passed
  the same check and could have been sent.
\<close>

theorem lifecycle_record_exchange:
  assumes "length (lr_token r) = BVB_LIFECYCLE_TOKEN_SIZE" "length b = BVB_LIFECYCLE_RECORD_SIZE"
  shows "(if record_is_valid r
      then \<exists>m. lifecycle_encode_record (Some b) (Some r) = Inr m \<and> length m = BVB_LIFECYCLE_RECORD_SIZE \<and>
        lifecycle_decode_record (Some m) (Some d) = Inr r
      else lifecycle_encode_record (Some b) (Some r) = Inl EINVAL) \<and>
    (\<forall>m x. length m = BVB_LIFECYCLE_RECORD_SIZE \<longrightarrow> lifecycle_decode_record (Some m) (Some d) = Inr x \<longrightarrow>
      record_is_valid x \<and> (\<exists>m'. lifecycle_encode_record (Some b) (Some x) = Inr m'))"
  using lifecycle_record_codec.contract lifecycle_record_codec.relay [of _ d _ b d] assms
  by (simp add: codec_contract_def split: sum.splits) blast

theorem lifecycle_record_exchange_witness:
  "\<exists>m. lifecycle_encode_record (Some (replicate 64 0)) (Some sample_record) = Inr m \<and> length m = 64 \<and>
     lifecycle_decode_record (Some m) (Some sample_record) = Inr sample_record"
proof -
  have "length (lr_token sample_record) = 32" "record_is_valid sample_record" by code_simp+
  then show ?thesis
    using lifecycle_record_exchange [of sample_record "replicate 64 0" sample_record] by simp
qed

text \<open>
  The token parser accepts exactly the strings of 64 hexadecimal digits. A string of another
  length is refused and the caller's buffer left alone; a malformed digit anywhere is refused and
  the buffer cleared, so that no part of a token stays behind; and every 32-byte token is recovered
  from its hexadecimal spelling.
\<close>

lemma token_parser:
  assumes "length out = BVB_LIFECYCLE_TOKEN_SIZE"
  shows "(length s \<noteq> BVB_LIFECYCLE_TOKEN_HEX_SIZE \<longrightarrow>
      lifecycle_token_from_hex (Some s) (Some out) = (Inl EINVAL, Some out)) \<and>
    (length s = BVB_LIFECYCLE_TOKEN_HEX_SIZE \<longrightarrow> \<not> list_all hex_digit s \<longrightarrow>
      lifecycle_token_from_hex (Some s) (Some out) = (Inl EINVAL, Some (replicate 32 0))) \<and>
    (length s = BVB_LIFECYCLE_TOKEN_HEX_SIZE \<longrightarrow> list_all hex_digit s \<longrightarrow>
      fst (lifecycle_token_from_hex (Some s) (Some out)) = Inr ()) \<and>
    (length token = BVB_LIFECYCLE_TOKEN_SIZE \<longrightarrow>
      lifecycle_token_from_hex (Some (token_to_hex token)) (Some out) = (Inr (), Some token))"
  using token_from_hex_eq [of s out] token_roundtrip [of token out] assms
  by (simp add: lifecycle_token_from_hex_def)

end
