(* ===== verification/Futex.thy ===== *)
theory Futex
  imports Bvb_Prelude
begin

section \<open>Waiting on shared words\<close>

text \<open>
  src/src/frame_sync.c, src/src/wsi_frame_ring.c and src/src/descriptor_transaction_ring.c wait
  on words of a shared mapping with the same static functions: a monotonic clock, a wake and a
  timed wait on a futex, and a loop that re-reads the mapping after every wake-up.

  The kernel is outside the sources: what \<^verbatim>\<open>clock_gettime\<close> and the \<^verbatim>\<open>futex\<close> system call return
  is a parameter. A clock reading is the \<^verbatim>\<open>int64_t\<close> nanoseconds, negative when the call failed; a
  system call returns \<open>None\<close> for success and \<open>Some e\<close> for the errno \<open>e\<close>. A waiting loop runs
  against a sequence of views, the view \<open>i\<close> being what its iteration \<open>i\<close> reads from the mapping, the
  clock and the kernel, so the peer may change the mapping in any way between two iterations.
\<close>

type_synonym syscall = "int option"

abbreviation (input) EINTR_code :: int where "EINTR_code \<equiv> 4"
abbreviation (input) INT64_MAX :: int where "INT64_MAX \<equiv> 0x7fffffffffffffff"

definition aligned_u32 :: "nat \<Rightarrow> bool" where
  "aligned_u32 address \<longleftrightarrow> address mod 4 = 0"

definition futex_wake :: "syscall \<Rightarrow> int" where
  "futex_wake result = (case result of None \<Rightarrow> 0 | Some e \<Rightarrow> - e)"

definition futex_wait_until :: "int \<Rightarrow> syscall \<Rightarrow> int \<Rightarrow> int" where
  "futex_wait_until now_ns result deadline_ns =
     (if now_ns < 0 then neg EIO
      else if now_ns \<ge> deadline_ns then neg ETIMEDOUT
      else case result of None \<Rightarrow> 0
           | Some e \<Rightarrow> if e = errno_code EAGAIN \<or> e = EINTR_code then 0 else - e)"

definition deadline_from_timeout :: "int \<Rightarrow> u32 \<Rightarrow> int + int" where
  "deadline_from_timeout now_ns timeout_ms =
     (if timeout_ms = 0 then Inl (neg EINVAL)
      else if now_ns < 0 then Inl (neg EIO)
      else
        let timeout_ns = uint timeout_ms * 1000000 in
        if timeout_ns > INT64_MAX - now_ns then Inl (neg EOVERFLOW)
        else Inr (now_ns + timeout_ns))"

text \<open>
  \<^verbatim>\<open>for (;;) body\<close>: the body returns from the function with \<open>Some r\<close> or goes round again.
\<close>

partial_function (option) poll_loop :: "(nat \<Rightarrow> 'v) \<Rightarrow> (nat \<Rightarrow> 'v \<Rightarrow> 'r option) \<Rightarrow> nat \<Rightarrow> 'r option" where
  "poll_loop view body i =
     (case body i (view i) of Some r \<Rightarrow> Some r | None \<Rightarrow> poll_loop view body (i + 1))"

subsection \<open>When a waiting loop returns, and what\<close>

lemma uint_gt_0_iff: "0 < uint t \<longleftrightarrow> t \<noteq> 0"
  using uint_nonnegative [of t] uint_0_iff [of t] by (metis order_le_less less_irrefl)

lemma deadline_fits:
  "deadline_from_timeout now t = Inr d \<Longrightarrow> 0 \<le> now \<and> now < d \<and> d \<le> INT64_MAX"
  using uint_gt_0_iff [of t]
  by (auto simp: deadline_from_timeout_def Let_def split: if_splits)

lemma futex_wait_until_expired:
  "now < 0 \<or> deadline \<le> now \<Longrightarrow> futex_wait_until now r deadline \<noteq> 0"
  by (auto simp: futex_wait_until_def)

lemma poll_loop_skip:
  "(\<And>j. i \<le> j \<Longrightarrow> j < k \<Longrightarrow> body j (view j) = None) \<Longrightarrow> i \<le> k \<Longrightarrow>
   poll_loop view body i = poll_loop view body k"
proof (induction "k - i" arbitrary: i)
  case (Suc n)
  then have "body i (view i) = None" "poll_loop view body (i + 1) = poll_loop view body k" by auto
  then show ?case by (simp add: poll_loop.simps [of view body i])
qed simp

text \<open>The result is that of the first iteration that returns.\<close>

lemma poll_loop_first:
  assumes "i \<le> k" "body k (view k) = Some r" "\<And>j. i \<le> j \<Longrightarrow> j < k \<Longrightarrow> body j (view j) = None"
  shows "poll_loop view body i = Some r"
  using poll_loop_skip [of i k body view] assms by (simp add: poll_loop.simps [of view body k])

lemma poll_loop_returns:
  assumes "i \<le> k" "body k (view k) \<noteq> None"
  obtains r j where "i \<le> j" "j \<le> k" "poll_loop view body i = Some r" "body j (view j) = Some r"
proof -
  let ?P = "\<lambda>j. i \<le> j \<and> body j (view j) \<noteq> None"
  have P: "?P (LEAST j. ?P j)" using assms by (intro LeastI [of ?P k]) simp
  then obtain r where r: "body (LEAST j. ?P j) (view (LEAST j. ?P j)) = Some r" by auto
  have "body j (view j) = None" if "i \<le> j" "j < (LEAST j. ?P j)" for j
    using not_less_Least [OF that(2)] that(1) by auto
  then have "poll_loop view body i = Some r" using P r by (intro poll_loop_first) auto
  moreover have "(LEAST j. ?P j) \<le> k" using assms by (intro Least_le) simp
  ultimately show thesis using that P r by blast
qed

lemma poll_loop_result:
  fixes view :: "nat \<Rightarrow> 'v" and r :: 'r
  assumes "poll_loop view body i = Some r"
  shows "\<exists>j \<ge> i. body j (view j) = Some r"
proof (rule poll_loop.raw_induct [OF _ assms])
  fix loop and view' :: "nat \<Rightarrow> 'v" and body' and i' :: nat and r' :: 'r
  assume IH: "\<And>view body i r. loop view body i = Some r \<Longrightarrow> \<exists>j \<ge> i. body j (view j) = Some r"
    and step: "(case body' i' (view' i') of None \<Rightarrow> loop view' body' (i' + 1) | Some r \<Rightarrow> Some r) = Some r'"
  then show "\<exists>j \<ge> i'. body' j (view' j) = Some r'"
  proof (cases "body' i' (view' i')")
    case None
    with step have "loop view' body' (i' + 1) = Some r'" by simp
    from IH [OF this] show ?thesis by (auto intro: Suc_leD)
  next
    case (Some r)
    with step show ?thesis by auto
  qed
qed

end
