(* ===== verification/Frame_Sync.thy ===== *)
theory Frame_Sync
  imports Futex
begin

section \<open>Frame synchronisation: one frame in flight\<close>

text \<open>
  src/src/frame_sync.c and src/include/bvb/frame_sync.h: a control page shared by the process that
  renders frames and the one that shows them. The producer publishes frame \<open>N\<close> only after the
  consumer has released frame \<open>N - 1\<close>, the consumer releases only the frame that was published.

  The control page is a record; the address of the mapping is a separate argument, 0 for NULL. An
  operation returns the C status and the page; the result of the \<^verbatim>\<open>futex\<close> system call is an argument.
  The operations are then split into their atomic loads and stores, and the ownership protocol is
  shown for every interleaving of the two processes.
\<close>

subsection \<open>The control page\<close>

abbreviation (input) BVB_FRAME_SYNC_MAGIC :: u32 where "BVB_FRAME_SYNC_MAGIC \<equiv> 0x31465342"
abbreviation (input) BVB_FRAME_SYNC_VERSION :: u16 where "BVB_FRAME_SYNC_VERSION \<equiv> 1"
abbreviation (input) BVB_FRAME_SYNC_CONTROL_BYTES :: u16 where "BVB_FRAME_SYNC_CONTROL_BYTES \<equiv> 64"
abbreviation (input) BVB_FRAME_SYNC_REGION_BYTES :: nat where "BVB_FRAME_SYNC_REGION_BYTES \<equiv> 4096"
abbreviation (input) BVB_FRAME_SYNC_MAX_FRAMES :: u32 where "BVB_FRAME_SYNC_MAX_FRAMES \<equiv> 1048576"
abbreviation (input) UINT32_MAX :: u32 where "UINT32_MAX \<equiv> 0xffffffff"

record frame_sync_control =
  fs_magic :: u32
  fs_version :: u16
  fs_control_bytes :: u16
  fs_frame_count :: u32
  fs_producer_sequence :: u32
  fs_consumer_sequence :: u32
  fs_producer_status :: i32
  fs_consumer_status :: i32
  fs_reserved :: "u32 list"

definition frame_sync_initialize :: "nat \<Rightarrow> nat \<Rightarrow> u32 \<Rightarrow> frame_sync_control result" where
  "frame_sync_initialize address len frame_count =
     (if address = 0 \<or> \<not> aligned_u32 address \<or> len < BVB_FRAME_SYNC_REGION_BYTES \<or>
         frame_count = 0 \<or> frame_count > BVB_FRAME_SYNC_MAX_FRAMES then Inl EINVAL
      else Inr \<lparr>fs_magic = BVB_FRAME_SYNC_MAGIC, fs_version = BVB_FRAME_SYNC_VERSION,
                fs_control_bytes = BVB_FRAME_SYNC_CONTROL_BYTES, fs_frame_count = frame_count,
                fs_producer_sequence = 0, fs_consumer_sequence = 0,
                fs_producer_status = 0, fs_consumer_status = 0, fs_reserved = replicate 9 0\<rparr>)"

definition frame_sync_validate :: "nat \<Rightarrow> frame_sync_control \<Rightarrow> int" where
  "frame_sync_validate address control =
     (if address = 0 \<or> \<not> aligned_u32 address \<or> fs_magic control \<noteq> BVB_FRAME_SYNC_MAGIC \<or>
         fs_version control \<noteq> BVB_FRAME_SYNC_VERSION \<or>
         fs_control_bytes control \<noteq> BVB_FRAME_SYNC_CONTROL_BYTES \<or>
         fs_frame_count control = 0 \<or> fs_frame_count control > BVB_FRAME_SYNC_MAX_FRAMES
      then neg EINVAL else 0)"

text \<open>The two status words, as \<^verbatim>\<open>int32_t\<close>.\<close>

definition status_failure :: "i32 \<Rightarrow> i32 \<Rightarrow> int" where
  "status_failure producer consumer =
     (if sint producer < 0 then sint producer
      else if sint consumer < 0 then sint consumer else 0)"

definition frame_sync_peer_failure :: "frame_sync_control \<Rightarrow> int" where
  "frame_sync_peer_failure control =
     status_failure (fs_producer_status control) (fs_consumer_status control)"

subsection \<open>Publishing\<close>

definition frame_sync_publish_producer ::
  "nat \<Rightarrow> syscall \<Rightarrow> frame_sync_control \<Rightarrow> u32 \<Rightarrow> int \<times> frame_sync_control" where
  "frame_sync_publish_producer address wake control sequence =
     (let status = frame_sync_validate address control in
      if status \<noteq> 0 then (status, control) else
      let status = frame_sync_peer_failure control in
      if status \<noteq> 0 then (status, control) else
      let current = fs_producer_sequence control; consumed = fs_consumer_sequence control in
      if sequence = 0 \<or> sequence > fs_frame_count control \<or> current = UINT32_MAX \<or>
         sequence \<noteq> current + 1 then (neg ERANGE, control)
      else if consumed \<noteq> current then (neg EBUSY, control)
      else (futex_wake wake, control\<lparr>fs_producer_sequence := sequence\<rparr>))"

definition frame_sync_publish_consumer ::
  "nat \<Rightarrow> syscall \<Rightarrow> frame_sync_control \<Rightarrow> u32 \<Rightarrow> int \<times> frame_sync_control" where
  "frame_sync_publish_consumer address wake control sequence =
     (let status = frame_sync_validate address control in
      if status \<noteq> 0 then (status, control) else
      let status = frame_sync_peer_failure control in
      if status \<noteq> 0 then (status, control) else
      let produced = fs_producer_sequence control; current = fs_consumer_sequence control in
      if sequence = 0 \<or> sequence > fs_frame_count control \<or> current = UINT32_MAX \<or>
         sequence \<noteq> current + 1 then (neg ERANGE, control)
      else if produced \<noteq> sequence then (neg EBUSY, control)
      else (futex_wake wake, control\<lparr>fs_consumer_sequence := sequence\<rparr>))"

datatype fs_side = Producer | Consumer

fun fs_set_status :: "fs_side \<Rightarrow> i32 \<Rightarrow> frame_sync_control \<Rightarrow> frame_sync_control" where
  "fs_set_status Producer status control = control\<lparr>fs_producer_status := status\<rparr>"
| "fs_set_status Consumer status control = control\<lparr>fs_consumer_status := status\<rparr>"

text \<open>
  \<^verbatim>\<open>publish_failure\<close>: \<open>status\<close> is a C \<^verbatim>\<open>int\<close>; \<open>wake\<close> and \<open>wake'\<close> are the results of waking the
  waiters of the producer's and of the consumer's word.
\<close>

definition fs_publish_failure ::
  "nat \<Rightarrow> syscall \<Rightarrow> syscall \<Rightarrow> fs_side \<Rightarrow> frame_sync_control \<Rightarrow> i32 \<Rightarrow> int \<times> frame_sync_control" where
  "fs_publish_failure address wake wake' side control status =
     (let result = frame_sync_validate address control in
      if result \<noteq> 0 then (result, control)
      else if sint status \<ge> 0 then (neg EINVAL, control)
      else
        let control = fs_set_status side status control;
            result = futex_wake wake; consumer_wake = futex_wake wake' in
        (if result \<noteq> 0 then result else consumer_wake, control))"

definition frame_sync_fail_producer ::
  "nat \<Rightarrow> syscall \<Rightarrow> syscall \<Rightarrow> frame_sync_control \<Rightarrow> i32 \<Rightarrow> int \<times> frame_sync_control" where
  "frame_sync_fail_producer address wake wake' = fs_publish_failure address wake wake' Producer"

definition frame_sync_fail_consumer ::
  "nat \<Rightarrow> syscall \<Rightarrow> syscall \<Rightarrow> frame_sync_control \<Rightarrow> i32 \<Rightarrow> int \<times> frame_sync_control" where
  "frame_sync_fail_consumer address wake wake' = fs_publish_failure address wake wake' Consumer"

subsection \<open>Waiting\<close>

text \<open>What one iteration of the waiting loop reads: the status words, the word waited for, the
  clock, and the result of the \<^verbatim>\<open>futex\<close> call it makes when it has to wait.\<close>

record wait_view =
  wv_producer_status :: i32
  wv_consumer_status :: i32
  wv_word :: u32
  wv_now_ns :: int
  wv_futex :: syscall

definition wait_body :: "u32 \<Rightarrow> int \<Rightarrow> nat \<Rightarrow> wait_view \<Rightarrow> (int + u32) option" where
  "wait_body after_sequence deadline_ns _ v =
     (let failure = status_failure (wv_producer_status v) (wv_consumer_status v) in
      if failure \<noteq> 0 then Some (Inl failure)
      else if wv_word v > after_sequence then Some (Inr (wv_word v))
      else if wv_word v < after_sequence then Some (Inl (neg EPROTO))
      else
        let status = futex_wait_until (wv_now_ns v) (wv_futex v) deadline_ns in
        if status \<noteq> 0 then Some (Inl status) else None)"

definition wait_sequence ::
  "int \<Rightarrow> (nat \<Rightarrow> wait_view) \<Rightarrow> frame_sync_control \<Rightarrow> u32 \<Rightarrow> u32 \<Rightarrow> u32 option \<Rightarrow> (int + u32) option" where
  "wait_sequence started_ns view control after_sequence timeout_ms sequence =
     (if sequence = None \<or> timeout_ms = 0 \<or> after_sequence > fs_frame_count control
      then Some (Inl (neg EINVAL))
      else if started_ns < 0 then Some (Inl (neg EIO))
      else
        let timeout_ns = uint timeout_ms * 1000000 in
        if timeout_ns > INT64_MAX - started_ns then Some (Inl (neg EOVERFLOW))
        else poll_loop view (wait_body after_sequence (started_ns + timeout_ns)) 0)"

text \<open>
  \<^verbatim>\<open>bvb_frame_sync_wait_producer\<close> and \<^verbatim>\<open>bvb_frame_sync_wait_consumer\<close> differ in the word their
  views show.
\<close>

definition frame_sync_wait ::
  "nat \<Rightarrow> int \<Rightarrow> (nat \<Rightarrow> wait_view) \<Rightarrow> frame_sync_control \<Rightarrow> u32 \<Rightarrow> u32 \<Rightarrow> u32 option \<Rightarrow>
   (int + u32) option" where
  "frame_sync_wait address started_ns view control after_sequence timeout_ms sequence =
     (let status = frame_sync_validate address control in
      if status \<noteq> 0 then Some (Inl status)
      else wait_sequence started_ns view control after_sequence timeout_ms sequence)"

subsection \<open>The operations one at a time\<close>

lemma status_failure_nonpos: "status_failure p c \<le> 0"
  by (simp add: status_failure_def)

lemma status_failure_0: "status_failure p c = 0 \<longleftrightarrow> 0 \<le> sint p \<and> 0 \<le> sint c"
  by (auto simp: status_failure_def)

text \<open>The state of the protocol: the consumer is at the frame published last or one behind.\<close>

definition fs_inv :: "frame_sync_control \<Rightarrow> bool" where
  "fs_inv c \<longleftrightarrow>
     unat (fs_consumer_sequence c) \<le> unat (fs_producer_sequence c) \<and>
     unat (fs_producer_sequence c) \<le> unat (fs_consumer_sequence c) + 1 \<and>
     fs_producer_sequence c \<le> fs_frame_count c"

lemma frame_sync_initialize_ok:
  "frame_sync_initialize a n k = Inr c \<Longrightarrow>
     frame_sync_validate a c = 0 \<and> fs_inv c \<and> frame_sync_peer_failure c = 0"
  by (auto simp: frame_sync_initialize_def frame_sync_validate_def fs_inv_def
      frame_sync_peer_failure_def status_failure_def split: if_splits)

lemma fs_publish_producer_cases:
  "frame_sync_publish_producer a w c s =
     (if frame_sync_validate a c \<noteq> 0 then (neg EINVAL, c)
      else if frame_sync_peer_failure c \<noteq> 0 then (frame_sync_peer_failure c, c)
      else if s = 0 \<or> s > fs_frame_count c \<or> fs_producer_sequence c = UINT32_MAX \<or>
              s \<noteq> fs_producer_sequence c + 1 then (neg ERANGE, c)
      else if fs_consumer_sequence c \<noteq> fs_producer_sequence c then (neg EBUSY, c)
      else (futex_wake w, c\<lparr>fs_producer_sequence := s\<rparr>))"
  by (simp add: frame_sync_publish_producer_def frame_sync_validate_def Let_def)

lemma fs_publish_consumer_cases:
  "frame_sync_publish_consumer a w c s =
     (if frame_sync_validate a c \<noteq> 0 then (neg EINVAL, c)
      else if frame_sync_peer_failure c \<noteq> 0 then (frame_sync_peer_failure c, c)
      else if s = 0 \<or> s > fs_frame_count c \<or> fs_consumer_sequence c = UINT32_MAX \<or>
              s \<noteq> fs_consumer_sequence c + 1 then (neg ERANGE, c)
      else if fs_producer_sequence c \<noteq> s then (neg EBUSY, c)
      else (futex_wake w, c\<lparr>fs_consumer_sequence := s\<rparr>))"
  by (simp add: frame_sync_publish_consumer_def frame_sync_validate_def Let_def)

text \<open>The wait returns once the clock passes its deadline, whatever the peer and the kernel do.\<close>

lemma frame_sync_wait_returns:
  assumes "\<And>d. \<exists>i. wv_now_ns (view i) \<ge> d"
  shows "\<exists>r. frame_sync_wait a started view c after timeout_ms out = Some r"
proof -
  have "\<exists>r. poll_loop view (wait_body after d) 0 = Some r" for d
  proof -
    obtain i where "wv_now_ns (view i) \<ge> d" using assms by blast
    then have "wait_body after d i (view i) \<noteq> None"
      using futex_wait_until_expired [of "wv_now_ns (view i)" d] by (auto simp: wait_body_def Let_def)
    then show ?thesis using poll_loop_returns [of 0 i "wait_body after d" view] by auto
  qed
  then show ?thesis by (simp add: frame_sync_wait_def wait_sequence_def Let_def)
qed

lemma frame_sync_wait_result:
  assumes "frame_sync_wait a started view c after timeout_ms out = Some (Inr s)"
  shows "s > after \<and> (\<exists>i. s = wv_word (view i) \<and>
     status_failure (wv_producer_status (view i)) (wv_consumer_status (view i)) = 0)"
  using assms
  by (auto simp: frame_sync_wait_def wait_sequence_def Let_def wait_body_def
      dest!: poll_loop_result split: if_splits)

subsection \<open>Every interleaving of the two processes\<close>

text \<open>
  The two publishing operations as sequences of atomic accesses, in the order of the code: the
  status words, the two sequence words, then the store. A local state holds what has been loaded
  so far. \<open>begin\<close> takes any requested sequence number, so the steps cover every caller.
\<close>

datatype fs_local =
    Idle
  | Checked u32              \<comment> \<open>the requested sequence; the status words were zero\<close>
  | Loaded1 u32 u32          \<comment> \<open>and the first sequence word loaded\<close>
  | Loaded2 u32 u32 u32      \<comment> \<open>and the second\<close>

type_synonym fs_config = "frame_sync_control \<times> fs_local \<times> fs_local"

inductive fs_step :: "fs_config \<Rightarrow> fs_config \<Rightarrow> bool" where
  P_check: "frame_sync_peer_failure c = 0 \<Longrightarrow> fs_step (c, Idle, q) (c, Checked s, q)"
| P_own: "fs_step (c, Checked s, q) (c, Loaded1 s (fs_producer_sequence c), q)"
| P_peer: "fs_step (c, Loaded1 s cur, q) (c, Loaded2 s cur (fs_consumer_sequence c), q)"
| P_refuse: "s = 0 \<or> s > fs_frame_count c \<or> cur = UINT32_MAX \<or> s \<noteq> cur + 1 \<or> consumed \<noteq> cur \<Longrightarrow>
    fs_step (c, Loaded2 s cur consumed, q) (c, Idle, q)"
| P_store: "s \<noteq> 0 \<Longrightarrow> s \<le> fs_frame_count c \<Longrightarrow> cur \<noteq> UINT32_MAX \<Longrightarrow> s = cur + 1 \<Longrightarrow> consumed = cur \<Longrightarrow>
    fs_step (c, Loaded2 s cur consumed, q) (c\<lparr>fs_producer_sequence := s\<rparr>, Idle, q)"
| C_check: "frame_sync_peer_failure c = 0 \<Longrightarrow> fs_step (c, p, Idle) (c, p, Checked s)"
| C_peer: "fs_step (c, p, Checked s) (c, p, Loaded1 s (fs_producer_sequence c))"
| C_own: "fs_step (c, p, Loaded1 s produced) (c, p, Loaded2 s produced (fs_consumer_sequence c))"
| C_refuse: "s = 0 \<or> s > fs_frame_count c \<or> cur = UINT32_MAX \<or> s \<noteq> cur + 1 \<or> produced \<noteq> s \<Longrightarrow>
    fs_step (c, p, Loaded2 s produced cur) (c, p, Idle)"
| C_store: "s \<noteq> 0 \<Longrightarrow> s \<le> fs_frame_count c \<Longrightarrow> cur \<noteq> UINT32_MAX \<Longrightarrow> s = cur + 1 \<Longrightarrow> produced = s \<Longrightarrow>
    fs_step (c, p, Loaded2 s produced cur) (c\<lparr>fs_consumer_sequence := s\<rparr>, p, Idle)"
| fail: "sint status < 0 \<Longrightarrow> fs_step (c, p, q) (fs_set_status side status c, p, q)"

inductive_cases fs_stepE: "fs_step (c, p, q) (c', p', q')"

text \<open>A run of one operation with no interference is the C function.\<close>

lemma publish_producer_run:
  assumes "frame_sync_validate a c = 0" "frame_sync_peer_failure c = 0"
  shows "fs_step\<^sup>*\<^sup>* (c, Idle, q) (snd (frame_sync_publish_producer a w c s), Idle, q)"
proof -
  have "fs_step\<^sup>*\<^sup>* (c, Idle, q) (c, Loaded2 s (fs_producer_sequence c) (fs_consumer_sequence c), q)"
    using assms by (meson P_check P_own P_peer r_into_rtranclp rtranclp.rtrancl_into_rtrancl)
  moreover have "fs_step (c, Loaded2 s (fs_producer_sequence c) (fs_consumer_sequence c), q)
     (snd (frame_sync_publish_producer a w c s), Idle, q)"
    using assms by (auto simp: fs_publish_producer_cases intro: P_refuse P_store)
  ultimately show ?thesis by simp
qed

lemma publish_consumer_run:
  assumes "frame_sync_validate a c = 0" "frame_sync_peer_failure c = 0"
  shows "fs_step\<^sup>*\<^sup>* (c, p, Idle) (snd (frame_sync_publish_consumer a w c s), p, Idle)"
proof -
  have "fs_step\<^sup>*\<^sup>* (c, p, Idle) (c, p, Loaded2 s (fs_producer_sequence c) (fs_consumer_sequence c))"
    using assms by (meson C_check C_peer C_own r_into_rtranclp rtranclp.rtrancl_into_rtrancl)
  moreover have "fs_step (c, p, Loaded2 s (fs_producer_sequence c) (fs_consumer_sequence c))
     (snd (frame_sync_publish_consumer a w c s), p, Idle)"
    using assms by (auto simp: fs_publish_consumer_cases intro: C_refuse C_store)
  ultimately show ?thesis by simp
qed

text \<open>
  What each process may rely on: its own word is what it loaded, and the peer's has not moved
  back since.
\<close>

fun producer_local :: "frame_sync_control \<Rightarrow> fs_local \<Rightarrow> bool" where
  "producer_local c (Loaded1 s cur) \<longleftrightarrow> cur = fs_producer_sequence c"
| "producer_local c (Loaded2 s cur consumed) \<longleftrightarrow>
     cur = fs_producer_sequence c \<and> consumed \<le> fs_consumer_sequence c"
| "producer_local c _ \<longleftrightarrow> True"

fun consumer_local :: "frame_sync_control \<Rightarrow> fs_local \<Rightarrow> bool" where
  "consumer_local c (Loaded1 s produced) \<longleftrightarrow> produced \<le> fs_producer_sequence c"
| "consumer_local c (Loaded2 s produced cur) \<longleftrightarrow>
     produced \<le> fs_producer_sequence c \<and> cur = fs_consumer_sequence c"
| "consumer_local c _ \<longleftrightarrow> True"

definition fs_config_inv :: "fs_config \<Rightarrow> bool" where
  "fs_config_inv x \<longleftrightarrow> (case x of (c, p, q) \<Rightarrow> fs_inv c \<and> producer_local c p \<and> consumer_local c q)"

lemma local_frame [simp]:
  "producer_local (fs_set_status side st c) p = producer_local c p"
  "consumer_local (fs_set_status side st c) q = consumer_local c q"
  "fs_inv (fs_set_status side st c) = fs_inv c"
  by (cases side; cases p; cases q; simp add: fs_inv_def)+

lemma consumer_local_mono:
  "consumer_local c q \<Longrightarrow> fs_producer_sequence c \<le> s \<Longrightarrow> consumer_local (c\<lparr>fs_producer_sequence := s\<rparr>) q"
  by (cases q) auto

lemma producer_local_mono:
  "producer_local c p \<Longrightarrow> fs_consumer_sequence c \<le> s \<Longrightarrow> producer_local (c\<lparr>fs_consumer_sequence := s\<rparr>) p"
  by (cases p) auto

lemma fs_step_inv:
  assumes "fs_step x y" "fs_config_inv x"
  shows "fs_config_inv y"
  using assms
proof (induction rule: fs_step.induct)
  case (P_store s c cur consumed q)
  then show ?case
    using unat_Suc32 [of cur] consumer_local_mono [of c q s]
    by (auto simp: fs_config_inv_def fs_inv_def word_le_nat_alt)
next
  case (C_store s c cur produced p)
  then show ?case
    using unat_Suc32 [of cur] producer_local_mono [of c p s]
    by (auto simp: fs_config_inv_def fs_inv_def word_le_nat_alt)
qed (auto simp: fs_config_inv_def)

lemma fs_reachable_inv: "fs_step\<^sup>*\<^sup>* x y \<Longrightarrow> fs_config_inv x \<Longrightarrow> fs_config_inv y"
  by (induction rule: rtranclp_induct) (auto intro: fs_step_inv)

lemma fs_reachable_from_init:
  assumes "frame_sync_initialize a n k = Inr c0" "fs_step\<^sup>*\<^sup>* (c0, Idle, Idle) (c, p, q)"
  shows "fs_inv c"
  using fs_reachable_inv [OF assms(2)] frame_sync_initialize_ok [OF assms(1)]
  by (simp add: fs_config_inv_def)

text \<open>Neither process can be about to store while the frame belongs to the other.\<close>

definition about_to_publish :: "frame_sync_control \<Rightarrow> fs_local \<Rightarrow> bool" where
  "about_to_publish c p \<longleftrightarrow> (\<exists>s cur. p = Loaded2 s cur cur \<and> s = cur + 1 \<and> cur \<noteq> UINT32_MAX \<and> s \<le> fs_frame_count c)"

definition about_to_release :: "fs_local \<Rightarrow> bool" where
  "about_to_release q \<longleftrightarrow> (\<exists>s cur. q = Loaded2 s s cur \<and> s = cur + 1 \<and> cur \<noteq> UINT32_MAX)"

lemma fs_exclusive:
  assumes "fs_config_inv (c, p, q)"
  shows "\<not> (about_to_publish c p \<and> about_to_release q)"
  using assms unat_Suc32 [of "fs_consumer_sequence c"]
  by (auto simp: fs_config_inv_def fs_inv_def about_to_publish_def about_to_release_def word_le_nat_alt)

subsection \<open>A whole session\<close>

text \<open>Frames \<open>k + 1\<close> up to \<open>k + n\<close>, each published and then released; the statuses of the calls.\<close>

fun frame_session :: "nat \<Rightarrow> frame_sync_control \<Rightarrow> nat \<Rightarrow> nat \<Rightarrow> int list \<times> frame_sync_control" where
  "frame_session a c k 0 = ([], c)"
| "frame_session a c k (Suc n) =
     (case frame_sync_publish_producer a None c (of_nat (k + 1)) of (s, c') \<Rightarrow>
      case frame_sync_publish_consumer a None c' (of_nat (k + 1)) of (s', c'') \<Rightarrow>
      case frame_session a c'' (k + 1) n of (rest, final) \<Rightarrow> (s # s' # rest, final))"

lemma frame_session_run:
  assumes "frame_sync_validate a c = 0" "frame_sync_peer_failure c = 0"
    "fs_producer_sequence c = of_nat k" "fs_consumer_sequence c = of_nat k" "k + n \<le> unat (fs_frame_count c)"
  shows "frame_session a c k n = (replicate (2 * n) 0,
    c\<lparr>fs_producer_sequence := of_nat (k + n), fs_consumer_sequence := of_nat (k + n)\<rparr>)"
  using assms
proof (induction n arbitrary: c k)
  case (Suc n)
  let ?s = "of_nat (k + 1) :: u32"
  let ?c = "c\<lparr>fs_producer_sequence := ?s, fs_consumer_sequence := ?s\<rparr>"
  have small: "k + 1 < 2 ^ 32" using Suc.prems(5) u32_less [of "fs_frame_count c"] by simp
  then have unat: "unat ?s = k + 1" by (simp add: unsigned_of_nat take_bit_nat_eq_self del: of_nat_Suc of_nat_add)
  then have "?s \<noteq> 0" "?s \<le> fs_frame_count c" using Suc.prems(5) by (auto simp: word_le_nat_alt)
  moreover have "of_nat k \<noteq> UINT32_MAX"
    using unat small unat_Suc32 [of "of_nat k :: u32"] by auto
  moreover have "?s = of_nat k + 1" by simp
  ultimately have "frame_sync_publish_producer a None c ?s = (0, c\<lparr>fs_producer_sequence := ?s\<rparr>)"
    "frame_sync_publish_consumer a None (c\<lparr>fs_producer_sequence := ?s\<rparr>) ?s = (0, ?c)"
    using Suc.prems
    by (auto simp: fs_publish_producer_cases fs_publish_consumer_cases frame_sync_validate_def
        frame_sync_peer_failure_def futex_wake_def)
  moreover have "frame_session a ?c (k + 1) n = (replicate (2 * n) 0,
      ?c\<lparr>fs_producer_sequence := of_nat (k + 1 + n), fs_consumer_sequence := of_nat (k + 1 + n)\<rparr>)"
    using Suc.prems
    by (intro Suc.IH) (auto simp: frame_sync_validate_def frame_sync_peer_failure_def)
  ultimately show ?case by (simp add: ac_simps)
qed simp

subsection \<open>Properties\<close>


definition sample_control :: frame_sync_control where
  "sample_control = \<lparr>fs_magic = BVB_FRAME_SYNC_MAGIC, fs_version = BVB_FRAME_SYNC_VERSION,
     fs_control_bytes = BVB_FRAME_SYNC_CONTROL_BYTES, fs_frame_count = 3,
     fs_producer_sequence = 0, fs_consumer_sequence = 0,
     fs_producer_status = 0, fs_consumer_status = 0, fs_reserved = replicate 9 0\<rparr>"

lemma sample_control_init:
  "frame_sync_initialize 4096 4096 3 = Inr sample_control"
  by (simp add: frame_sync_initialize_def aligned_u32_def sample_control_def)


text \<open>
  C16: A session makes progress: when the two sides take turns on a fresh control block, publishing
  and releasing the frames in order, every call succeeds, for any number of frames up to the
  agreed one, and the block ends with both sequences at the last frame.
\<close>

theorem frame_session_completes:
  assumes "frame_sync_initialize a len k = Inr c" "n \<le> unat k"
  shows "frame_session a c 0 n =
    (replicate (2 * n) 0, c\<lparr>fs_producer_sequence := of_nat n, fs_consumer_sequence := of_nat n\<rparr>)"
proof -
  have "fs_producer_sequence c = of_nat 0" "fs_consumer_sequence c = of_nat 0" "fs_frame_count c = k"
    using assms(1) by (auto simp: frame_sync_initialize_def split: if_splits)
  then show ?thesis
    using frame_session_run [of a c 0 n] frame_sync_initialize_ok [OF assms(1)] assms(2) by simp
qed

theorem frame_session_completes_witness:
  "frame_session 4096 sample_control 0 3 =
     (replicate 6 0, sample_control\<lparr>fs_producer_sequence := 3, fs_consumer_sequence := 3\<rparr>)"
  using frame_session_completes [OF sample_control_init, of 3] by simp

text \<open>
  C17: A published failure is final for both sides: after either side fails with a negative status,
  both publishing operations return that side's status and leave the block alone, and a wait that
  looks at the block returns it too instead of sleeping.
\<close>

theorem frame_sync_failure_sticks:
  assumes "frame_sync_validate a c = 0" "frame_sync_peer_failure c = 0" "sint status < 0"
    and "fs_publish_failure a w w' side c status = (r, c')"
  shows "frame_sync_publish_producer a u c' s = (sint status, c') \<and>
    frame_sync_publish_consumer a u c' s = (sint status, c') \<and>
    (wv_producer_status (view 0) = fs_producer_status c' \<longrightarrow> wv_consumer_status (view 0) = fs_consumer_status c' \<longrightarrow>
      poll_loop view (wait_body after deadline) 0 = Some (Inl (sint status)))"
proof -
  have c': "c' = fs_set_status side status c"
    using assms by (auto simp: fs_publish_failure_def Let_def)
  have zero: "sint (fs_producer_status c) \<ge> 0" "sint (fs_consumer_status c) \<ge> 0"
    using assms(2) by (auto simp: frame_sync_peer_failure_def status_failure_0)
  have "frame_sync_peer_failure c' = sint status" "frame_sync_validate a c' = 0"
    using zero assms(1,3)
    by (cases side; auto simp: c' frame_sync_peer_failure_def status_failure_def frame_sync_validate_def)+
  then show ?thesis
    using assms(3)
    by (simp add: fs_publish_producer_cases fs_publish_consumer_cases poll_loop.simps wait_body_def
        frame_sync_peer_failure_def Let_def)
qed

theorem frame_sync_failure_sticks_witness:
  "frame_sync_publish_consumer 4096 None (sample_control\<lparr>fs_producer_status := - 5\<rparr>) 1 =
     (- 5, sample_control\<lparr>fs_producer_status := - 5\<rparr>)"
proof -
  have "sint (- 5 :: i32) = - 5" by code_simp
  moreover from this have "fs_publish_failure 4096 None None Producer sample_control (- 5) =
      (0, sample_control\<lparr>fs_producer_status := - 5\<rparr>)"
    using frame_sync_initialize_ok [OF sample_control_init]
    by (simp add: fs_publish_failure_def futex_wake_def)
  ultimately show ?thesis
    using frame_sync_failure_sticks [of 4096 sample_control "- 5" None None Producer 0] 
      frame_sync_initialize_ok [OF sample_control_init] by simp
qed

text \<open>
  C18: A wait always returns once the clock reaches its deadline, whatever the peer stores and the
  kernel answers; and when it returns a sequence, that sequence was in the control block, is newer
  than the one the caller had, and was read while neither side had failed.
\<close>

theorem frame_sync_wait_total:
  assumes "\<And>d. \<exists>i. wv_now_ns (view i) \<ge> d"
  shows "\<exists>r. frame_sync_wait a started view c after timeout_ms out = Some r \<and>
    (\<forall>s. r = Inr s \<longrightarrow> s > after \<and> (\<exists>i. s = wv_word (view i) \<and>
       status_failure (wv_producer_status (view i)) (wv_consumer_status (view i)) = 0))"
proof -
  obtain r where "frame_sync_wait a started view c after timeout_ms out = Some r"
    using frame_sync_wait_returns [OF assms] by blast
  then show ?thesis using frame_sync_wait_result by blast
qed

theorem frame_sync_wait_total_witness:
  "\<exists>r. frame_sync_wait 4096 0 (\<lambda>i. \<lparr>wv_producer_status = 0, wv_consumer_status = 0, wv_word = 0,
     wv_now_ns = int i, wv_futex = None\<rparr>) sample_control 0 1 (Some 0) = Some r"
proof -
  let ?view = "\<lambda>i. \<lparr>wv_producer_status = 0, wv_consumer_status = 0, wv_word = 0, wv_now_ns = int i,
    wv_futex = None\<rparr>"
  have "\<exists>i. d \<le> wv_now_ns (?view i)" for d by (intro exI [of _ "nat d"]) simp
  then show ?thesis using frame_sync_wait_total [of ?view 4096 0 sample_control 0 1 "Some 0"] by blast
qed

end
