(* ===== verification/Wsi_Frame_Ring.thy ===== *)
theory Wsi_Frame_Ring
  imports Futex
begin

section \<open>The swapchain image ring\<close>

text \<open>
  src/src/wsi_frame_ring.c and src/include/bvb/wsi_frame_ring.h: the control page through which the
  game process and the Android Activity hand two to four swapchain images to each other. A slot is
  available, acquired by the game, or presented to the Activity; presented slots carry the sequence
  number of their frame and are released in that order.

  The page is a record, its address a separate argument (0 for NULL), and the arrays of four words
  are lists of length four. The operations return the C status, the page and the values stored
  through the result pointers. A compare-and-exchange that fails changes nothing.
\<close>

subsection \<open>The control page\<close>

abbreviation (input) BVB_WSI_FRAME_RING_MAGIC :: u32 where "BVB_WSI_FRAME_RING_MAGIC \<equiv> 0x31525742"
abbreviation (input) BVB_WSI_FRAME_RING_VERSION :: u16 where "BVB_WSI_FRAME_RING_VERSION \<equiv> 1"
abbreviation (input) BVB_WSI_FRAME_RING_CONTROL_BYTES :: u16 where
  "BVB_WSI_FRAME_RING_CONTROL_BYTES \<equiv> 128"
abbreviation (input) BVB_WSI_FRAME_RING_REGION_BYTES :: nat where
  "BVB_WSI_FRAME_RING_REGION_BYTES \<equiv> 4096"
abbreviation (input) BVB_WSI_FRAME_RING_MAX_SLOTS :: "'a::numeral" where
  "BVB_WSI_FRAME_RING_MAX_SLOTS \<equiv> 4"
abbreviation (input) BVB_WSI_SLOT_AVAILABLE :: u32 where "BVB_WSI_SLOT_AVAILABLE \<equiv> 0"
abbreviation (input) BVB_WSI_SLOT_ACQUIRED :: u32 where "BVB_WSI_SLOT_ACQUIRED \<equiv> 1"
abbreviation (input) BVB_WSI_SLOT_PRESENTED :: u32 where "BVB_WSI_SLOT_PRESENTED \<equiv> 2"

record wsi_frame_ring =
  wr_magic :: u32
  wr_version :: u16
  wr_control_bytes :: u16
  wr_slot_count :: u32
  wr_flags :: u32
  wr_generation :: u64
  wr_next_acquire :: u32
  wr_producer_sequence :: u32
  wr_consumer_sequence :: u32
  wr_producer_status :: i32
  wr_consumer_status :: i32
  wr_slot_state :: "u32 list"
  wr_slot_sequence :: "u32 list"
  wr_reserved :: "u32 list"

definition wsi_frame_ring_initialize :: "nat \<Rightarrow> nat \<Rightarrow> u32 \<Rightarrow> u64 \<Rightarrow> wsi_frame_ring result" where
  "wsi_frame_ring_initialize address len slot_count generation =
     (if address = 0 \<or> \<not> aligned_u32 address \<or> len < BVB_WSI_FRAME_RING_REGION_BYTES \<or>
         slot_count < 2 \<or> slot_count > BVB_WSI_FRAME_RING_MAX_SLOTS \<or> generation = 0 then Inl EINVAL
      else Inr \<lparr>wr_magic = BVB_WSI_FRAME_RING_MAGIC, wr_version = BVB_WSI_FRAME_RING_VERSION,
                wr_control_bytes = BVB_WSI_FRAME_RING_CONTROL_BYTES, wr_slot_count = slot_count,
                wr_flags = 0, wr_generation = generation, wr_next_acquire = 0,
                wr_producer_sequence = 0, wr_consumer_sequence = 0,
                wr_producer_status = 0, wr_consumer_status = 0,
                wr_slot_state = replicate 4 0, wr_slot_sequence = replicate 4 0,
                wr_reserved = replicate 13 0\<rparr>)"

definition wsi_frame_ring_validate :: "nat \<Rightarrow> wsi_frame_ring \<Rightarrow> u64 \<Rightarrow> int" where
  "wsi_frame_ring_validate address ring generation =
     (if address = 0 \<or> \<not> aligned_u32 address \<or> wr_magic ring \<noteq> BVB_WSI_FRAME_RING_MAGIC \<or>
         wr_version ring \<noteq> BVB_WSI_FRAME_RING_VERSION \<or>
         wr_control_bytes ring \<noteq> BVB_WSI_FRAME_RING_CONTROL_BYTES \<or>
         wr_slot_count ring < 2 \<or> wr_slot_count ring > BVB_WSI_FRAME_RING_MAX_SLOTS \<or>
         wr_flags ring \<noteq> 0 \<or> wr_generation ring = 0 \<or>
         (generation \<noteq> 0 \<and> wr_generation ring \<noteq> generation) then neg EINVAL
      else if list_ex (\<lambda>slot. wr_slot_state ring ! slot > BVB_WSI_SLOT_PRESENTED)
                [0..<unat (wr_slot_count ring)] then neg EPROTO
      else 0)"

definition wsi_peer_failure :: "wsi_frame_ring \<Rightarrow> int" where
  "wsi_peer_failure ring =
     (if sint (wr_producer_status ring) < 0 then sint (wr_producer_status ring)
      else if sint (wr_consumer_status ring) < 0 then sint (wr_consumer_status ring) else 0)"

subsection \<open>The producer\<close>

text \<open>The slot the scan of the acquisition takes, with \<open>n\<close> offsets left.\<close>

fun acquire_scan :: "wsi_frame_ring \<Rightarrow> u32 \<Rightarrow> nat \<Rightarrow> u32 \<Rightarrow> u32 option" where
  "acquire_scan ring start 0 offset = None"
| "acquire_scan ring start (Suc n) offset =
     (let candidate = (start + offset) mod wr_slot_count ring in
      if wr_slot_state ring ! unat candidate = BVB_WSI_SLOT_AVAILABLE then Some candidate
      else acquire_scan ring start n (offset + 1))"

definition take_slot :: "wsi_frame_ring \<Rightarrow> u32 \<Rightarrow> wsi_frame_ring" where
  "take_slot ring candidate = ring
     \<lparr>wr_slot_state := (wr_slot_state ring)[unat candidate := BVB_WSI_SLOT_ACQUIRED],
      wr_next_acquire := (candidate + 1) mod wr_slot_count ring\<rparr>"

text \<open>What one iteration of a waiting loop sees: the page, the clock, the \<^verbatim>\<open>futex\<close> call.\<close>

record ring_view =
  rv_ring :: wsi_frame_ring
  rv_now_ns :: int
  rv_futex :: syscall

definition acquire_body ::
  "u32 \<Rightarrow> int \<Rightarrow> nat \<Rightarrow> ring_view \<Rightarrow> (int \<times> wsi_frame_ring \<times> u32 option) option" where
  "acquire_body timeout_ms deadline_ns _ v =
     (let ring = rv_ring v; status = wsi_peer_failure ring in
      if status \<noteq> 0 then Some (status, ring, None)
      else case acquire_scan ring (wr_next_acquire ring mod wr_slot_count ring)
                  (unat (wr_slot_count ring)) 0 of
        Some candidate \<Rightarrow> Some (0, take_slot ring candidate, Some candidate)
      | None \<Rightarrow>
          if timeout_ms = 0 then Some (neg EAGAIN, ring, None)
          else
            let status = futex_wait_until (rv_now_ns v) (rv_futex v) deadline_ns in
            if status \<noteq> 0 then Some (status, ring, None) else None)"

definition wsi_frame_ring_acquire ::
  "nat \<Rightarrow> int \<Rightarrow> (nat \<Rightarrow> ring_view) \<Rightarrow> wsi_frame_ring \<Rightarrow> u32 \<Rightarrow> u32 option \<Rightarrow>
   (int \<times> wsi_frame_ring \<times> u32 option) option" where
  "wsi_frame_ring_acquire address started_ns view ring timeout_ms slot =
     (let status = wsi_frame_ring_validate address ring 0 in
      if status \<noteq> 0 \<or> slot = None
      then Some (if status \<noteq> 0 then status else neg EINVAL, ring, None)
      else if timeout_ms \<noteq> 0 then
        case deadline_from_timeout started_ns timeout_ms of
          Inl status \<Rightarrow> Some (status, ring, None)
        | Inr deadline_ns \<Rightarrow> poll_loop view (acquire_body timeout_ms deadline_ns) 0
      else poll_loop view (acquire_body timeout_ms 0) 0)"

definition wsi_frame_ring_present ::
  "nat \<Rightarrow> syscall \<Rightarrow> wsi_frame_ring \<Rightarrow> u32 \<Rightarrow> u32 option \<Rightarrow> int \<times> wsi_frame_ring \<times> u32 option" where
  "wsi_frame_ring_present address wake ring slot sequence =
     (let status = wsi_frame_ring_validate address ring 0 in
      if status \<noteq> 0 \<or> sequence = None \<or> slot \<ge> wr_slot_count ring
      then (if status \<noteq> 0 then status else neg EINVAL, ring, sequence) else
      let status = wsi_peer_failure ring in
      if status \<noteq> 0 then (status, ring, sequence) else
      let current = wr_producer_sequence ring in
      if current = 0xffffffff then (neg EOVERFLOW, ring, sequence) else
      let expected = wr_slot_state ring ! unat slot in
      if expected \<noteq> BVB_WSI_SLOT_ACQUIRED
      then (if expected = BVB_WSI_SLOT_PRESENTED then neg EBUSY else neg EPROTO, ring, sequence) else
      let ring = ring\<lparr>wr_slot_state := (wr_slot_state ring)[unat slot := BVB_WSI_SLOT_PRESENTED]\<rparr>;
          next = current + 1;
          ring = ring\<lparr>wr_slot_sequence := (wr_slot_sequence ring)[unat slot := next]\<rparr>;
          ring = ring\<lparr>wr_producer_sequence := next\<rparr>;
          status = futex_wake wake in
      if status \<noteq> 0 then (status, ring, sequence) else (0, ring, Some next))"

subsection \<open>The consumer\<close>

definition find_presented :: "wsi_frame_ring \<Rightarrow> u32 \<Rightarrow> u32 option" where
  "find_presented ring expected_sequence =
     map_option of_nat (find (\<lambda>candidate.
       wr_slot_state ring ! candidate = BVB_WSI_SLOT_PRESENTED \<and>
       wr_slot_sequence ring ! candidate = expected_sequence) [0..<unat (wr_slot_count ring)])"

text \<open>
  An iteration of \<^verbatim>\<open>bvb_wsi_frame_ring_wait_present\<close> scans the page twice; \<open>pv_again\<close> is the page
  from the load of the producer's sequence on.
\<close>

record present_view =
  pv_ring :: wsi_frame_ring
  pv_again :: wsi_frame_ring
  pv_now_ns :: int
  pv_futex :: syscall

definition wait_present_body :: "u32 \<Rightarrow> int \<Rightarrow> nat \<Rightarrow> present_view \<Rightarrow> (int + u32 \<times> u32) option" where
  "wait_present_body expected_sequence deadline_ns _ v =
     (let status = wsi_peer_failure (pv_ring v) in
      if status \<noteq> 0 then Some (Inl status)
      else case find_presented (pv_ring v) expected_sequence of
        Some slot \<Rightarrow> Some (Inr (slot, expected_sequence))
      | None \<Rightarrow>
          if wr_producer_sequence (pv_again v) \<ge> expected_sequence then
            (case find_presented (pv_again v) expected_sequence of
               Some slot \<Rightarrow> Some (Inr (slot, expected_sequence))
             | None \<Rightarrow> Some (Inl (neg EPROTO)))
          else
            let status = futex_wait_until (pv_now_ns v) (pv_futex v) deadline_ns in
            if status \<noteq> 0 then Some (Inl status) else None)"

definition wsi_frame_ring_wait_present ::
  "nat \<Rightarrow> int \<Rightarrow> (nat \<Rightarrow> present_view) \<Rightarrow> wsi_frame_ring \<Rightarrow> u32 \<Rightarrow> u32 \<Rightarrow>
   u32 option \<Rightarrow> u32 option \<Rightarrow> (int + u32 \<times> u32) option" where
  "wsi_frame_ring_wait_present address started_ns view ring after_sequence timeout_ms slot sequence =
     (let status = wsi_frame_ring_validate address ring 0 in
      if status \<noteq> 0 \<or> slot = None \<or> sequence = None \<or> after_sequence = 0xffffffff \<or> timeout_ms = 0
      then Some (Inl (if status \<noteq> 0 then status else neg EINVAL))
      else case deadline_from_timeout started_ns timeout_ms of
        Inl status \<Rightarrow> Some (Inl status)
      | Inr deadline_ns \<Rightarrow> poll_loop view (wait_present_body (after_sequence + 1) deadline_ns) 0)"

definition wsi_frame_ring_release ::
  "nat \<Rightarrow> syscall \<Rightarrow> wsi_frame_ring \<Rightarrow> u32 \<Rightarrow> u32 \<Rightarrow> int \<times> wsi_frame_ring" where
  "wsi_frame_ring_release address wake ring slot sequence =
     (let status = wsi_frame_ring_validate address ring 0 in
      if status \<noteq> 0 \<or> slot \<ge> wr_slot_count ring \<or> sequence = 0
      then (if status \<noteq> 0 then status else neg EINVAL, ring) else
      let status = wsi_peer_failure ring in
      if status \<noteq> 0 then (status, ring) else
      if wr_slot_sequence ring ! unat slot \<noteq> sequence \<or> wr_consumer_sequence ring + 1 \<noteq> sequence
      then (neg ESTALE, ring) else
      let ring = ring\<lparr>wr_slot_sequence := (wr_slot_sequence ring)[unat slot := 0]\<rparr> in
      if wr_slot_state ring ! unat slot \<noteq> BVB_WSI_SLOT_PRESENTED then (neg EPROTO, ring) else
      let ring = ring\<lparr>wr_slot_state := (wr_slot_state ring)[unat slot := BVB_WSI_SLOT_AVAILABLE]\<rparr>;
          ring = ring\<lparr>wr_consumer_sequence := sequence\<rparr> in
      (futex_wake wake, ring))"

subsection \<open>Failure\<close>

datatype wsi_side = Game | Activity

fun wsi_set_status :: "wsi_side \<Rightarrow> i32 \<Rightarrow> wsi_frame_ring \<Rightarrow> wsi_frame_ring" where
  "wsi_set_status Game status ring = ring\<lparr>wr_producer_status := status\<rparr>"
| "wsi_set_status Activity status ring = ring\<lparr>wr_consumer_status := status\<rparr>"

definition wsi_publish_failure ::
  "nat \<Rightarrow> syscall \<Rightarrow> syscall \<Rightarrow> wsi_side \<Rightarrow> wsi_frame_ring \<Rightarrow> i32 \<Rightarrow> int \<times> wsi_frame_ring" where
  "wsi_publish_failure address wake wake' side ring status =
     (let result = wsi_frame_ring_validate address ring 0 in
      if result \<noteq> 0 then (result, ring)
      else if sint status \<ge> 0 then (neg EINVAL, ring)
      else
        let ring = wsi_set_status side status ring;
            result = futex_wake wake; consumer_wake = futex_wake wake' in
        (if result \<noteq> 0 then result else consumer_wake, ring))"

definition wsi_frame_ring_fail_producer ::
  "nat \<Rightarrow> syscall \<Rightarrow> syscall \<Rightarrow> wsi_frame_ring \<Rightarrow> i32 \<Rightarrow> int \<times> wsi_frame_ring" where
  "wsi_frame_ring_fail_producer address wake wake' = wsi_publish_failure address wake wake' Game"

definition wsi_frame_ring_fail_consumer ::
  "nat \<Rightarrow> syscall \<Rightarrow> syscall \<Rightarrow> wsi_frame_ring \<Rightarrow> i32 \<Rightarrow> int \<times> wsi_frame_ring" where
  "wsi_frame_ring_fail_consumer address wake wake' = wsi_publish_failure address wake wake' Activity"

subsection \<open>The steps of the two processes\<close>

text \<open>
  The operations as sequences of atomic accesses to the page, in the order of the code. A process
  remembers where it is in an operation; the scans that take no slot change nothing and have no
  step of their own.
\<close>

datatype producer_at =
    P_Idle
  | P_Took u32            \<comment> \<open>acquire: the slot is taken\<close>
  | P_Loaded u32 u32      \<comment> \<open>present: the slot, the sequence loaded\<close>
  | P_Marked u32 u32      \<comment> \<open>present: the slot, the next sequence; the slot is marked presented\<close>
  | P_Stamped u32         \<comment> \<open>present: the next sequence; the slot carries it\<close>

datatype consumer_at =
    C_Idle
  | C_Found u32 u32       \<comment> \<open>release: slot and sequence agree, the order is being checked\<close>
  | C_Ready u32 u32       \<comment> \<open>release: slot and sequence agree, it is the next to release\<close>
  | C_Cleared u32 u32     \<comment> \<open>release: the sequence of the slot is cleared\<close>
  | C_Freed u32           \<comment> \<open>release: the slot is available again\<close>

type_synonym wsi_config = "wsi_frame_ring \<times> producer_at \<times> consumer_at"

abbreviation st :: "wsi_frame_ring \<Rightarrow> u32 \<Rightarrow> u32" where
  "st ring slot \<equiv> wr_slot_state ring ! unat slot"

abbreviation sq :: "wsi_frame_ring \<Rightarrow> u32 \<Rightarrow> u32" where
  "sq ring slot \<equiv> wr_slot_sequence ring ! unat slot"

inductive wsi_step :: "wsi_config \<Rightarrow> wsi_config \<Rightarrow> bool" where
  take: "i < wr_slot_count r \<Longrightarrow> st r i = BVB_WSI_SLOT_AVAILABLE \<Longrightarrow>
    wsi_step (r, P_Idle, q)
      (r\<lparr>wr_slot_state := (wr_slot_state r)[unat i := BVB_WSI_SLOT_ACQUIRED]\<rparr>, P_Took i, q)"
| advance: "wsi_step (r, P_Took i, q) (r\<lparr>wr_next_acquire := (i + 1) mod wr_slot_count r\<rparr>, P_Idle, q)"
| load: "i < wr_slot_count r \<Longrightarrow> wr_producer_sequence r \<noteq> 0xffffffff \<Longrightarrow>
    wsi_step (r, P_Idle, q) (r, P_Loaded i (wr_producer_sequence r), q)"
| refuse: "st r i \<noteq> BVB_WSI_SLOT_ACQUIRED \<Longrightarrow> wsi_step (r, P_Loaded i cur, q) (r, P_Idle, q)"
| mark: "st r i = BVB_WSI_SLOT_ACQUIRED \<Longrightarrow>
    wsi_step (r, P_Loaded i cur, q)
      (r\<lparr>wr_slot_state := (wr_slot_state r)[unat i := BVB_WSI_SLOT_PRESENTED]\<rparr>, P_Marked i (cur + 1), q)"
| stamp: "wsi_step (r, P_Marked i n, q)
    (r\<lparr>wr_slot_sequence := (wr_slot_sequence r)[unat i := n]\<rparr>, P_Stamped n, q)"
| publish: "wsi_step (r, P_Stamped n, q) (r\<lparr>wr_producer_sequence := n\<rparr>, P_Idle, q)"
| found: "i < wr_slot_count r \<Longrightarrow> n \<noteq> 0 \<Longrightarrow> sq r i = n \<Longrightarrow>
    wsi_step (r, p, C_Idle) (r, p, C_Found i n)"
| stale: "wr_consumer_sequence r + 1 \<noteq> n \<Longrightarrow> wsi_step (r, p, C_Found i n) (r, p, C_Idle)"
| ready: "wr_consumer_sequence r + 1 = n \<Longrightarrow> wsi_step (r, p, C_Found i n) (r, p, C_Ready i n)"
| clear: "wsi_step (r, p, C_Ready i n)
    (r\<lparr>wr_slot_sequence := (wr_slot_sequence r)[unat i := 0]\<rparr>, p, C_Cleared i n)"
| lost: "st r i \<noteq> BVB_WSI_SLOT_PRESENTED \<Longrightarrow> wsi_step (r, p, C_Cleared i n) (r, p, C_Idle)"
| free: "st r i = BVB_WSI_SLOT_PRESENTED \<Longrightarrow>
    wsi_step (r, p, C_Cleared i n)
      (r\<lparr>wr_slot_state := (wr_slot_state r)[unat i := BVB_WSI_SLOT_AVAILABLE]\<rparr>, p, C_Freed n)"
| consume: "wsi_step (r, p, C_Freed n) (r\<lparr>wr_consumer_sequence := n\<rparr>, p, C_Idle)"
| fail: "sint status < 0 \<Longrightarrow> wsi_step (r, p, q) (wsi_set_status side status r, p, q)"

text \<open>Frames handed over and frames taken back, the half-done operations counted.\<close>

fun produced :: "wsi_frame_ring \<Rightarrow> producer_at \<Rightarrow> nat" where
  "produced r (P_Stamped n) = unat n"
| "produced r _ = unat (wr_producer_sequence r)"

fun consumed :: "wsi_frame_ring \<Rightarrow> consumer_at \<Rightarrow> nat" where
  "consumed r (C_Cleared i n) = unat n"
| "consumed r (C_Freed n) = unat n"
| "consumed r _ = unat (wr_consumer_sequence r)"

fun producer_ok :: "wsi_frame_ring \<Rightarrow> producer_at \<Rightarrow> bool" where
  "producer_ok r P_Idle \<longleftrightarrow> True"
| "producer_ok r (P_Took i) \<longleftrightarrow> True"
| "producer_ok r (P_Loaded i cur) \<longleftrightarrow> i < wr_slot_count r \<and> cur = wr_producer_sequence r \<and> cur \<noteq> 0xffffffff"
| "producer_ok r (P_Marked i n) \<longleftrightarrow> i < wr_slot_count r \<and> st r i = BVB_WSI_SLOT_PRESENTED \<and> sq r i = 0 \<and>
     unat n = unat (wr_producer_sequence r) + 1"
| "producer_ok r (P_Stamped n) \<longleftrightarrow> unat n = unat (wr_producer_sequence r) + 1"

fun consumer_ok :: "wsi_frame_ring \<Rightarrow> consumer_at \<Rightarrow> bool" where
  "consumer_ok r C_Idle \<longleftrightarrow> True"
| "consumer_ok r (C_Found i n) \<longleftrightarrow> i < wr_slot_count r \<and> n \<noteq> 0 \<and> sq r i = n"
| "consumer_ok r (C_Ready i n) \<longleftrightarrow> i < wr_slot_count r \<and> n \<noteq> 0 \<and> sq r i = n \<and>
     unat n = unat (wr_consumer_sequence r) + 1"
| "consumer_ok r (C_Cleared i n) \<longleftrightarrow> i < wr_slot_count r \<and> st r i = BVB_WSI_SLOT_PRESENTED \<and> sq r i = 0 \<and>
     unat n = unat (wr_consumer_sequence r) + 1"
| "consumer_ok r (C_Freed n) \<longleftrightarrow> unat n = unat (wr_consumer_sequence r) + 1"

fun apart :: "producer_at \<Rightarrow> consumer_at \<Rightarrow> bool" where
  "apart (P_Marked i _) (C_Cleared j _) \<longleftrightarrow> i \<noteq> j"
| "apart _ _ \<longleftrightarrow> True"

text \<open>
  The stamped slots are exactly the frames handed over and not taken back, one slot for each, and
  all of them are marked presented.
\<close>

definition stamps_ok :: "wsi_frame_ring \<Rightarrow> nat \<Rightarrow> nat \<Rightarrow> bool" where
  "stamps_ok r c p \<longleftrightarrow>
     (\<forall>i < wr_slot_count r. sq r i \<noteq> 0 \<longrightarrow>
        st r i = BVB_WSI_SLOT_PRESENTED \<and> c < unat (sq r i) \<and> unat (sq r i) \<le> p) \<and>
     (\<forall>i < wr_slot_count r. \<forall>j < wr_slot_count r. sq r i = sq r j \<longrightarrow> sq r i \<noteq> 0 \<longrightarrow> i = j) \<and>
     (\<forall>m. c < m \<longrightarrow> m \<le> p \<longrightarrow> (\<exists>i < wr_slot_count r. unat (sq r i) = m))"

definition ring_shape :: "wsi_frame_ring \<Rightarrow> bool" where
  "ring_shape r \<longleftrightarrow> length (wr_slot_state r) = 4 \<and> length (wr_slot_sequence r) = 4 \<and>
     2 \<le> wr_slot_count r \<and> wr_slot_count r \<le> 4"

definition wsi_inv :: "wsi_config \<Rightarrow> bool" where
  "wsi_inv x \<longleftrightarrow> (case x of (r, p, q) \<Rightarrow> ring_shape r \<and> producer_ok r p \<and> consumer_ok r q \<and> apart p q \<and>
     consumed r q \<le> produced r p \<and> stamps_ok r (consumed r q) (produced r p))"

subsection \<open>The invariant is kept by every step\<close>

lemma ring_index: "ring_shape r \<Longrightarrow> i < wr_slot_count r \<Longrightarrow> unat i < 4"
  by (simp add: ring_shape_def word_less_nat_alt word_le_nat_alt)

lemma slot_update:
  "unat i < length xs \<Longrightarrow> xs[unat i := v] ! unat j = (if j = i then v else xs ! unat j)" for i j :: u32
  by (auto simp: nth_list_update word_unat_eq_iff)

lemma shape_length: "ring_shape r \<Longrightarrow> length (wr_slot_state r) = 4"
    "ring_shape r \<Longrightarrow> length (wr_slot_sequence r) = 4"
  by (simp_all add: ring_shape_def)

lemma state_update:
  "ring_shape r \<Longrightarrow> i < wr_slot_count r \<Longrightarrow>
     (wr_slot_state r)[unat i := v] ! unat j = (if j = i then v else st r j)"
  using ring_index [of r i] by (simp add: slot_update shape_length)

lemma sequence_update:
  "ring_shape r \<Longrightarrow> i < wr_slot_count r \<Longrightarrow>
     (wr_slot_sequence r)[unat i := v] ! unat j = (if j = i then v else sq r j)"
  using ring_index [of r i] by (simp add: slot_update shape_length)

lemma stamped:
  assumes "stamps_ok r c p" "i < wr_slot_count r" "sq r i \<noteq> 0"
  shows "st r i = BVB_WSI_SLOT_PRESENTED" "c < unat (sq r i)" "unat (sq r i) \<le> p"
  using assms by (simp_all add: stamps_ok_def)

lemma stamp_unique:
  "stamps_ok r c p \<Longrightarrow> i < wr_slot_count r \<Longrightarrow> j < wr_slot_count r \<Longrightarrow> sq r i = sq r j \<Longrightarrow>
   sq r i \<noteq> 0 \<Longrightarrow> i = j"
  by (simp add: stamps_ok_def)

lemma stamp_exists:
  "stamps_ok r c p \<Longrightarrow> c < m \<Longrightarrow> m \<le> p \<Longrightarrow> \<exists>i < wr_slot_count r. unat (sq r i) = m"
  by (simp add: stamps_ok_def)

lemma stamps_okI:
  assumes "\<And>i. i < wr_slot_count r \<Longrightarrow> sq r i \<noteq> 0 \<Longrightarrow>
        st r i = BVB_WSI_SLOT_PRESENTED \<and> c < unat (sq r i) \<and> unat (sq r i) \<le> p"
    and "\<And>i j. i < wr_slot_count r \<Longrightarrow> j < wr_slot_count r \<Longrightarrow> sq r i = sq r j \<Longrightarrow> sq r i \<noteq> 0 \<Longrightarrow> i = j"
    and "\<And>m. c < m \<Longrightarrow> m \<le> p \<Longrightarrow> \<exists>i < wr_slot_count r. unat (sq r i) = m"
  shows "stamps_ok r c p"
  using assms unfolding stamps_ok_def by blast

lemma stamp_free: "stamps_ok r c p \<Longrightarrow> i < wr_slot_count r \<Longrightarrow> st r i \<noteq> BVB_WSI_SLOT_PRESENTED \<Longrightarrow> sq r i = 0"
  using stamped(1) by blast

lemma stamps_state_update:
  assumes "ring_shape r" "i < wr_slot_count r" "stamps_ok r c p" "sq r i = 0"
  shows "stamps_ok (r\<lparr>wr_slot_state := (wr_slot_state r)[unat i := v]\<rparr>) c p"
proof (rule stamps_okI, goal_cases)
  case (1 j)
  then show ?case using stamped [OF assms(3), of j] assms by (auto simp: state_update)
next
  case (2 j k)
  then show ?case using stamp_unique [OF assms(3), of j k] by simp
next
  case (3 m)
  then show ?case using stamp_exists [OF assms(3), of m] by simp
qed

lemma stamp_next:
  assumes "ring_shape r" "i < wr_slot_count r" "stamps_ok r c p"
    and "sq r i = 0" "st r i = BVB_WSI_SLOT_PRESENTED" "unat n = p + 1" "c \<le> p"
  shows "stamps_ok (r\<lparr>wr_slot_sequence := (wr_slot_sequence r)[unat i := n]\<rparr>) c (unat n)"
proof -
  note upd = sequence_update [OF assms(1,2), of n]
  have new: "sq r j \<noteq> n" if "j < wr_slot_count r" for j
    using stamped(3) [OF assms(3) that] assms(6) by (cases "sq r j = 0") auto
  show ?thesis
  proof (rule stamps_okI, goal_cases)
    case (1 j)
    then show ?case using stamped [OF assms(3), of j] assms by (auto simp: upd split: if_splits)
  next
    case (2 j k)
    then show ?case using stamp_unique [OF assms(3), of j k] new [of j] new [of k]
      by (auto simp: upd split: if_splits)
  next
    case (3 m)
    show ?case
    proof (cases "m = unat n")
      case True
      then show ?thesis using assms(2) upd [of i] by (auto intro!: exI [of _ i])
    next
      case False
      then have "m \<le> p" using 3 assms(6) by simp
      then obtain j where j: "j < wr_slot_count r" "unat (sq r j) = m"
        using stamp_exists [OF assms(3) 3(1)] by blast
      then have "j \<noteq> i" using assms(4) 3(1) by auto
      then show ?thesis using j upd [of j] by (auto intro!: exI [of _ j])
    qed
  qed
qed

lemma unstamp_first:
  assumes "ring_shape r" "i < wr_slot_count r" "stamps_ok r c p" "sq r i = n" "unat n = c + 1"
  shows "stamps_ok (r\<lparr>wr_slot_sequence := (wr_slot_sequence r)[unat i := 0]\<rparr>) (unat n) p"
proof -
  note upd = sequence_update [OF assms(1,2), of 0]
  have later: "unat n < unat (sq r j)" if "j < wr_slot_count r" "j \<noteq> i" "sq r j \<noteq> 0" for j
  proof -
    have "sq r j \<noteq> n" using stamp_unique [OF assms(3) that(1) assms(2)] that assms(4) by auto
    then show ?thesis
      using stamped(2) [OF assms(3) that(1,3)] assms(5) by (metis Suc_eq_plus1 Suc_lessI word_unat_eq_iff)
  qed
  show ?thesis
  proof (rule stamps_okI, goal_cases)
    case (1 j)
    then show ?case using stamped [OF assms(3), of j] later [of j] by (auto simp: upd split: if_splits)
  next
    case (2 j k)
    then show ?case using stamp_unique [OF assms(3), of j k] by (auto simp: upd split: if_splits)
  next
    case (3 m)
    then have "c < m" using assms(5) by simp
    then obtain j where j: "j < wr_slot_count r" "unat (sq r j) = m"
      using stamp_exists [OF assms(3) _ 3(2)] by blast
    then have "j \<noteq> i" using assms(4) 3(1) by auto
    then show ?case using j upd [of j] by (auto intro!: exI [of _ j])
  qed
qed

lemma wsi_set_status_frame [simp]:
  "wr_slot_state (wsi_set_status s v r) = wr_slot_state r"
  "wr_slot_sequence (wsi_set_status s v r) = wr_slot_sequence r"
  "wr_slot_count (wsi_set_status s v r) = wr_slot_count r"
  "wr_producer_sequence (wsi_set_status s v r) = wr_producer_sequence r"
  "wr_consumer_sequence (wsi_set_status s v r) = wr_consumer_sequence r"
  by (cases s; simp)+

lemma status_frame [simp]:
  "producer_ok (wsi_set_status s v r) p = producer_ok r p"
  "consumer_ok (wsi_set_status s v r) q = consumer_ok r q"
  "produced (wsi_set_status s v r) p = produced r p"
  "consumed (wsi_set_status s v r) q = consumed r q"
  "ring_shape (wsi_set_status s v r) = ring_shape r"
  "stamps_ok (wsi_set_status s v r) c d = stamps_ok r c d"
  by (cases p; cases q; simp add: ring_shape_def stamps_ok_def)+

lemma wsi_step_inv: "wsi_step x y \<Longrightarrow> wsi_inv x \<Longrightarrow> wsi_inv y"
proof (induction rule: wsi_step.induct)
  case (take i r q)
  then have shape: "ring_shape r" and free: "sq r i = 0"
    by (auto simp: wsi_inv_def dest!: stamp_free)
  show ?case using take free stamps_state_update [OF shape take(1) _ free]
    by (cases q) (auto simp: wsi_inv_def ring_shape_def state_update [OF shape take(1)])
next
  case (mark r i cur q)
  then have shape: "ring_shape r" and i: "i < wr_slot_count r" and free: "sq r i = 0"
    by (auto simp: wsi_inv_def dest!: stamp_free)
  show ?case using mark free stamps_state_update [OF shape i _ free] unat_Suc32 [of cur]
    by (cases q) (auto simp: wsi_inv_def ring_shape_def state_update [OF shape i])
next
  case (stamp r i n q)
  then have shape: "ring_shape r" and i: "i < wr_slot_count r"
    by (auto simp: wsi_inv_def)
  show ?case using stamp stamp_next [OF shape i, of "consumed r q" "unat (wr_producer_sequence r)" n]
    by (cases q) (auto simp: wsi_inv_def ring_shape_def sequence_update [OF shape i])
next
  case (clear r p i n)
  then have shape: "ring_shape r" and i: "i < wr_slot_count r"
    by (auto simp: wsi_inv_def)
  have "st r i = BVB_WSI_SLOT_PRESENTED" "unat n \<le> produced r p"
    using clear i stamped [of r "unat (wr_consumer_sequence r)" "produced r p" i]
    by (auto simp: wsi_inv_def)
  then show ?case using clear unstamp_first [OF shape i, of "unat (wr_consumer_sequence r)" "produced r p" n]
    by (cases p) (auto simp: wsi_inv_def ring_shape_def sequence_update [OF shape i])
next
  case (free r i p n)
  then have shape: "ring_shape r" and i: "i < wr_slot_count r" and un: "sq r i = 0"
    by (auto simp: wsi_inv_def)
  show ?case using free stamps_state_update [OF shape i _ un]
    by (cases p) (auto simp: wsi_inv_def ring_shape_def state_update [OF shape i])
next
  case (ready r n p i)
  then have "wr_consumer_sequence r \<noteq> 0xffffffff" by (auto simp: wsi_inv_def)
  then show ?case using ready unat_Suc32 [of "wr_consumer_sequence r"] by (auto simp: wsi_inv_def)
next
  case (publish r n q)
  then show ?case by (cases q) (auto simp: wsi_inv_def ring_shape_def stamps_ok_def)
next
  case (consume r p n)
  then show ?case by (cases p) (auto simp: wsi_inv_def ring_shape_def stamps_ok_def)
next
  case (advance r i q)
  then show ?case by (cases q) (auto simp: wsi_inv_def ring_shape_def stamps_ok_def)
next
  case (lost r i p n)
  then show ?case by (auto simp: wsi_inv_def)
qed (auto simp: wsi_inv_def)

lemma wsi_reachable_inv: "wsi_step\<^sup>*\<^sup>* x y \<Longrightarrow> wsi_inv x \<Longrightarrow> wsi_inv y"
  by (induction rule: rtranclp_induct) (auto intro: wsi_step_inv)

abbreviation ring_ok :: "wsi_frame_ring \<Rightarrow> bool" where
  "ring_ok r \<equiv> wsi_inv (r, P_Idle, C_Idle)"

lemma wsi_initialize_ok:
  assumes "wsi_frame_ring_initialize a n k g = Inr r"
  shows "ring_ok r \<and> wsi_frame_ring_validate a r g = 0 \<and> wsi_peer_failure r = 0"
proof -
  have r: "r = \<lparr>wr_magic = BVB_WSI_FRAME_RING_MAGIC, wr_version = BVB_WSI_FRAME_RING_VERSION,
                wr_control_bytes = BVB_WSI_FRAME_RING_CONTROL_BYTES, wr_slot_count = k,
                wr_flags = 0, wr_generation = g, wr_next_acquire = 0,
                wr_producer_sequence = 0, wr_consumer_sequence = 0,
                wr_producer_status = 0, wr_consumer_status = 0,
                wr_slot_state = replicate 4 0, wr_slot_sequence = replicate 4 0,
                wr_reserved = replicate 13 0\<rparr>"
    and k: "2 \<le> k" "k \<le> 4" and args: "a \<noteq> 0" "aligned_u32 a" "g \<noteq> 0"
    using assms by (auto simp: wsi_frame_ring_initialize_def split: if_splits)
  have small: "unat i < 4" if "i < k" for i
    using that k by (simp add: word_less_nat_alt word_le_nat_alt)
  have "stamps_ok r 0 0"
    by (rule stamps_okI) (auto simp: r small)
  then have "ring_ok r" using k by (simp add: wsi_inv_def ring_shape_def r)
  moreover have "i < 4" if "i < unat k" for i
    using that k by (simp add: word_le_nat_alt)
  ultimately show ?thesis using args k
    by (auto simp: r wsi_frame_ring_validate_def wsi_peer_failure_def list_ex_iff)
qed

subsection \<open>Scanning for a frame\<close>

lemma unat_of_slot: "j < 4 \<Longrightarrow> unat (of_nat j :: u32) = j"
  by (simp add: unsigned_of_nat take_bit_nat_eq_self)

lemma find_presented_Some:
  assumes "ring_shape r" "find_presented r n = Some i"
  shows "i < wr_slot_count r \<and> st r i = BVB_WSI_SLOT_PRESENTED \<and> sq r i = n"
proof -
  obtain j where j: "j < unat (wr_slot_count r)" "wr_slot_state r ! j = BVB_WSI_SLOT_PRESENTED"
      "wr_slot_sequence r ! j = n" "i = of_nat j"
    using assms(2) by (auto simp: find_presented_def find_Some_iff)
  then have "j < 4" using assms(1) by (simp add: ring_shape_def word_le_nat_alt)
  then show ?thesis using j by (simp add: word_less_nat_alt unat_of_slot)
qed

lemma find_presented_iff:
  assumes "ring_shape r" "stamps_ok r c p" "n \<noteq> 0"
  shows "find_presented r n = Some i \<longleftrightarrow> i < wr_slot_count r \<and> sq r i = n"
proof
  assume "find_presented r n = Some i"
  then show "i < wr_slot_count r \<and> sq r i = n" using find_presented_Some [OF assms(1)] by blast
next
  assume i: "i < wr_slot_count r \<and> sq r i = n"
  then have "st r i = BVB_WSI_SLOT_PRESENTED" using stamped(1) [OF assms(2)] assms(3) by auto
  with i have "find_presented r n \<noteq> None"
    by (auto simp: find_presented_def find_None_iff word_less_nat_alt)
  then obtain j where j: "find_presented r n = Some j" by auto
  then have "j = i" using find_presented_Some [OF assms(1) j] i stamp_unique [OF assms(2)] assms(3) by auto
  with j show "find_presented r n = Some i" by simp
qed

text \<open>A frame that was handed over is found.\<close>

lemma find_presented_handed_over:
  assumes "ring_shape r" "stamps_ok r c p" "c < unat n" "unat n \<le> p"
  shows "\<exists>i. find_presented r n = Some i \<and> i < wr_slot_count r \<and> sq r i = n"
proof -
  obtain i where i: "i < wr_slot_count r" "sq r i = n"
    using stamp_exists [OF assms(2-4)] by (auto simp: word_unat_eq_iff [symmetric])
  moreover have "n \<noteq> 0" using assms(3) by auto
  ultimately show ?thesis using find_presented_iff [OF assms(1,2)] by blast
qed

lemma wait_present_no_protocol_error:
  assumes inv: "wsi_inv (pv_again v, p, C_Idle)"
    and "unat n = unat (wr_consumer_sequence (pv_again v)) + 1"
    and "wsi_peer_failure (pv_ring v) = 0" and "\<And>e. pv_futex v = Some e \<Longrightarrow> e \<noteq> errno_code EPROTO"
  shows "wait_present_body n deadline k v \<noteq> Some (Inl (neg EPROTO))"
proof (cases "n \<le> wr_producer_sequence (pv_again v)")
  case True
  have "unat (wr_producer_sequence (pv_again v)) \<le> produced (pv_again v) p"
    using inv by (cases p) (auto simp: wsi_inv_def)
  then have "unat n \<le> produced (pv_again v) p" using True by (simp add: word_le_nat_alt)
  then obtain i where "find_presented (pv_again v) n = Some i"
    using find_presented_handed_over [of "pv_again v" _ _ n] inv assms(2) by (auto simp: wsi_inv_def)
  then show ?thesis using assms(3) True by (auto simp: wait_present_body_def Let_def split: option.splits)
next
  case False
  have "futex_wait_until (pv_now_ns v) (pv_futex v) deadline \<noteq> neg EPROTO"
    using assms(4) by (auto simp: futex_wait_until_def neg_def split: option.splits)
  then show ?thesis using False assms(3)
    by (auto simp: wait_present_body_def Let_def split: option.splits)
qed

subsection \<open>The operations as runs of steps\<close>

lemma present_cases:
  "wsi_frame_ring_present a w r i out =
    (if wsi_frame_ring_validate a r 0 \<noteq> 0 then (wsi_frame_ring_validate a r 0, r, out)
     else if out = None \<or> wr_slot_count r \<le> i then (neg EINVAL, r, out)
     else if wsi_peer_failure r \<noteq> 0 then (wsi_peer_failure r, r, out)
     else if wr_producer_sequence r = 0xffffffff then (neg EOVERFLOW, r, out)
     else if st r i = BVB_WSI_SLOT_PRESENTED then (neg EBUSY, r, out)
     else if st r i \<noteq> BVB_WSI_SLOT_ACQUIRED then (neg EPROTO, r, out)
     else (futex_wake w,
           r\<lparr>wr_slot_state := (wr_slot_state r)[unat i := BVB_WSI_SLOT_PRESENTED],
             wr_slot_sequence := (wr_slot_sequence r)[unat i := wr_producer_sequence r + 1],
             wr_producer_sequence := wr_producer_sequence r + 1\<rparr>,
           if futex_wake w = 0 then Some (wr_producer_sequence r + 1) else out))"
  by (simp add: wsi_frame_ring_present_def Let_def)

lemma release_cases:
  "wsi_frame_ring_release a w r i n =
    (if wsi_frame_ring_validate a r 0 \<noteq> 0 then (wsi_frame_ring_validate a r 0, r)
     else if wr_slot_count r \<le> i \<or> n = 0 then (neg EINVAL, r)
     else if wsi_peer_failure r \<noteq> 0 then (wsi_peer_failure r, r)
     else if sq r i \<noteq> n \<or> wr_consumer_sequence r + 1 \<noteq> n then (neg ESTALE, r)
     else if st r i \<noteq> BVB_WSI_SLOT_PRESENTED
       then (neg EPROTO, r\<lparr>wr_slot_sequence := (wr_slot_sequence r)[unat i := 0]\<rparr>)
     else (futex_wake w,
           r\<lparr>wr_slot_sequence := (wr_slot_sequence r)[unat i := 0],
             wr_slot_state := (wr_slot_state r)[unat i := BVB_WSI_SLOT_AVAILABLE],
             wr_consumer_sequence := n\<rparr>))"
  by (simp add: wsi_frame_ring_release_def Let_def)

text \<open>The page after the two calls: changed on one path only.\<close>

definition can_present :: "nat \<Rightarrow> wsi_frame_ring \<Rightarrow> u32 \<Rightarrow> u32 option \<Rightarrow> bool" where
  "can_present a r i out \<longleftrightarrow> wsi_frame_ring_validate a r 0 = 0 \<and> out \<noteq> None \<and> i < wr_slot_count r \<and>
     wsi_peer_failure r = 0 \<and> wr_producer_sequence r \<noteq> 0xffffffff \<and> st r i = BVB_WSI_SLOT_ACQUIRED"

definition presented :: "wsi_frame_ring \<Rightarrow> u32 \<Rightarrow> wsi_frame_ring" where
  "presented r i = r\<lparr>wr_slot_state := (wr_slot_state r)[unat i := BVB_WSI_SLOT_PRESENTED],
     wr_slot_sequence := (wr_slot_sequence r)[unat i := wr_producer_sequence r + 1],
     wr_producer_sequence := wr_producer_sequence r + 1\<rparr>"

definition can_release :: "nat \<Rightarrow> wsi_frame_ring \<Rightarrow> u32 \<Rightarrow> u32 \<Rightarrow> bool" where
  "can_release a r i n \<longleftrightarrow> wsi_frame_ring_validate a r 0 = 0 \<and> i < wr_slot_count r \<and> n \<noteq> 0 \<and>
     wsi_peer_failure r = 0 \<and> sq r i = n \<and> wr_consumer_sequence r + 1 = n"

definition released :: "wsi_frame_ring \<Rightarrow> u32 \<Rightarrow> u32 \<Rightarrow> wsi_frame_ring" where
  "released r i n = r\<lparr>wr_slot_sequence := (wr_slot_sequence r)[unat i := 0],
     wr_slot_state := (wr_slot_state r)[unat i := BVB_WSI_SLOT_AVAILABLE],
     wr_consumer_sequence := n\<rparr>"

lemma validate_status: "wsi_frame_ring_validate a r g \<noteq> 0 \<Longrightarrow> wsi_frame_ring_validate a r g < 0"
  by (auto simp: wsi_frame_ring_validate_def)

lemma peer_failure_status: "wsi_peer_failure r \<noteq> 0 \<Longrightarrow> wsi_peer_failure r < 0"
  by (simp add: wsi_peer_failure_def split: if_splits)

lemma present_ok:
  "can_present a r i out \<Longrightarrow> wsi_frame_ring_present a w r i out =
     (futex_wake w, presented r i, if futex_wake w = 0 then Some (wr_producer_sequence r + 1) else out)"
  by (auto simp: present_cases can_present_def presented_def)

lemma present_refused:
  assumes "\<not> can_present a r i out"
  shows "\<exists>e < 0. wsi_frame_ring_present a w r i out = (e, r, out)"
proof -
  consider "wsi_frame_ring_validate a r 0 \<noteq> 0" | "wsi_peer_failure r \<noteq> 0" "wsi_frame_ring_validate a r 0 = 0"
    | "wsi_frame_ring_validate a r 0 = 0" "wsi_peer_failure r = 0" by blast
  then show ?thesis
    using assms validate_status [of a r 0] peer_failure_status [of r]
    by cases (auto simp: present_cases can_present_def not_le)
qed

lemma release_ok:
  "can_release a r i n \<Longrightarrow> st r i = BVB_WSI_SLOT_PRESENTED \<Longrightarrow>
     wsi_frame_ring_release a w r i n = (futex_wake w, released r i n)"
  by (auto simp: release_cases can_release_def released_def)

lemma release_refused:
  assumes "\<not> can_release a r i n"
  shows "\<exists>e < 0. wsi_frame_ring_release a w r i n = (e, r)"
proof -
  consider "wsi_frame_ring_validate a r 0 \<noteq> 0" | "wsi_peer_failure r \<noteq> 0" "wsi_frame_ring_validate a r 0 = 0"
    | "wsi_frame_ring_validate a r 0 = 0" "wsi_peer_failure r = 0" by blast
  then show ?thesis
    using assms validate_status [of a r 0] peer_failure_status [of r]
    by cases (auto simp: release_cases can_release_def not_le)
qed

lemma rtranclp_4: "R a b \<Longrightarrow> R b c \<Longrightarrow> R c d \<Longrightarrow> R d e \<Longrightarrow> R\<^sup>*\<^sup>* a e"
  by (meson converse_rtranclp_into_rtranclp r_into_rtranclp)

lemma present_run:
  "can_present a r i out \<Longrightarrow> wsi_step\<^sup>*\<^sup>* (r, P_Idle, q) (presented r i, P_Idle, q)"
  using load [of i r q] mark [of r i "wr_producer_sequence r" q]
    stamp [of "r\<lparr>wr_slot_state := (wr_slot_state r)[unat i := BVB_WSI_SLOT_PRESENTED]\<rparr>" i
      "wr_producer_sequence r + 1" q]
    publish [of "r\<lparr>wr_slot_state := (wr_slot_state r)[unat i := BVB_WSI_SLOT_PRESENTED],
      wr_slot_sequence := (wr_slot_sequence r)[unat i := wr_producer_sequence r + 1]\<rparr>"
      "wr_producer_sequence r + 1" q]
  by (simp add: can_present_def presented_def rtranclp_4)

lemma release_run:
  assumes "can_release a r i n" "st r i = BVB_WSI_SLOT_PRESENTED"
  shows "wsi_step\<^sup>*\<^sup>* (r, p, C_Idle) (released r i n, p, C_Idle)"
proof -
  let ?r1 = "r\<lparr>wr_slot_sequence := (wr_slot_sequence r)[unat i := 0]\<rparr>"
  let ?r2 = "?r1\<lparr>wr_slot_state := (wr_slot_state r)[unat i := BVB_WSI_SLOT_AVAILABLE]\<rparr>"
  have "wsi_step (r, p, C_Idle) (r, p, C_Found i n)" "wsi_step (r, p, C_Found i n) (r, p, C_Ready i n)"
    using assms found [of i r n p] ready [of r n p i] by (simp_all add: can_release_def)
  moreover have "wsi_step (r, p, C_Ready i n) (?r1, p, C_Cleared i n)" by (rule clear)
  moreover have "wsi_step (?r1, p, C_Cleared i n) (?r2, p, C_Freed n)"
    using free [of ?r1 i p n] assms(2) by simp
  moreover have "wsi_step (?r2, p, C_Freed n) (released r i n, p, C_Idle)"
    using consume [of ?r2 p n] by (simp add: released_def)
  ultimately show ?thesis using rtranclp_4 [of wsi_step] by (meson converse_rtranclp_into_rtranclp)
qed

lemma take_slot_run:
  assumes "i < wr_slot_count r" "st r i = BVB_WSI_SLOT_AVAILABLE"
  shows "wsi_step\<^sup>*\<^sup>* (r, P_Idle, q) (take_slot r i, P_Idle, q)"
  using take [OF assms, of q]
    advance [of "r\<lparr>wr_slot_state := (wr_slot_state r)[unat i := BVB_WSI_SLOT_ACQUIRED]\<rparr>" i q]
  by (simp add: take_slot_def)

subsection \<open>Acquiring\<close>

lemma acquire_scan_Some:
  "wr_slot_count r \<noteq> 0 \<Longrightarrow> acquire_scan r start n off = Some i \<Longrightarrow>
     i < wr_slot_count r \<and> st r i = BVB_WSI_SLOT_AVAILABLE"
proof (induction n arbitrary: off)
  case (Suc n)
  then show ?case
    by (auto simp: Let_def word_less_nat_alt unat_mod unat_gt_0 split: if_splits)
qed simp

lemma acquire_scan_None:
  "acquire_scan r start n off = None \<Longrightarrow> k < n \<Longrightarrow>
     st r ((start + off + of_nat k) mod wr_slot_count r) \<noteq> BVB_WSI_SLOT_AVAILABLE"
proof (induction n arbitrary: off k)
  case (Suc n)
  have here: "st r ((start + off) mod wr_slot_count r) \<noteq> BVB_WSI_SLOT_AVAILABLE"
    and rest: "acquire_scan r start n (off + 1) = None"
    using Suc.prems(1) by (auto simp: Let_def split: if_splits)
  show ?case
  proof (cases k)
    case 0
    then show ?thesis using here by simp
  next
    case (Suc m)
    then show ?thesis using Suc.IH [OF rest, of m] Suc.prems(2) by (simp add: add.assoc)
  qed
qed simp

lemma ring_mod:
  assumes "ring_shape r" "s < wr_slot_count r" "k < 4"
  shows "unat ((s + of_nat k) mod wr_slot_count r) = (unat s + k) mod unat (wr_slot_count r)"
proof -
  have "unat s < 4" using ring_index [OF assms(1,2)] .
  then have "unat (s + of_nat k) = unat s + k"
    using assms(3) by (simp add: unat_word_ariths unat_of_slot)
  then show ?thesis by (simp add: unat_mod)
qed

lemma acquire_scan_full:
  assumes "ring_shape r" "start < wr_slot_count r"
  shows "acquire_scan r start (unat (wr_slot_count r)) 0 = None \<longleftrightarrow>
    (\<forall>i < wr_slot_count r. st r i \<noteq> BVB_WSI_SLOT_AVAILABLE)"
proof
  let ?n = "unat (wr_slot_count r)"
  assume none: "acquire_scan r start ?n 0 = None"
  show "\<forall>i < wr_slot_count r. st r i \<noteq> BVB_WSI_SLOT_AVAILABLE"
  proof (intro allI impI)
    fix i assume i: "i < wr_slot_count r"
    then obtain k where k: "k < ?n" "unat i = (unat start + k) mod ?n"
      using probe_covers [of "unat i" ?n "unat start"] by (auto simp: word_less_nat_alt)
    moreover have "k < 4" using k(1) assms(1) by (simp add: ring_shape_def word_le_nat_alt)
    ultimately have "i = (start + of_nat k) mod wr_slot_count r"
      using ring_mod [OF assms] by (simp add: word_unat_eq_iff)
    then show "st r i \<noteq> BVB_WSI_SLOT_AVAILABLE"
      using acquire_scan_None [OF none k(1)] by simp
  qed
next
  assume busy: "\<forall>i < wr_slot_count r. st r i \<noteq> BVB_WSI_SLOT_AVAILABLE"
  have "wr_slot_count r \<noteq> 0" using assms(2) by auto
  then show "acquire_scan r start (unat (wr_slot_count r)) 0 = None"
    using acquire_scan_Some [of r start] busy by (metis not_None_eq)
qed

lemma mod_slot_count: "ring_shape r \<Longrightarrow> x mod wr_slot_count r < wr_slot_count r"
  by (auto simp: ring_shape_def word_less_nat_alt word_le_nat_alt unat_mod)

subsection \<open>First in, first out\<close>

text \<open>The frames handed over and not yet taken back, oldest first, by slot.\<close>

definition pending :: "wsi_frame_ring \<Rightarrow> u32 list" where
  "pending r = map (\<lambda>m. the (find_presented r (of_nat m)))
     [Suc (unat (wr_consumer_sequence r))..<Suc (unat (wr_producer_sequence r))]"

text \<open>A poll for an image, a presentation and a release whose wake-up call succeeds.\<close>

definition wsi_acquire :: "nat \<Rightarrow> wsi_frame_ring \<Rightarrow> wsi_frame_ring \<times> u32 option" where
  "wsi_acquire a r =
     (case wsi_frame_ring_acquire a 0 (\<lambda>_. \<lparr>rv_ring = r, rv_now_ns = 0, rv_futex = None\<rparr>) r 0 (Some 0) of
        Some (_, r', slot) \<Rightarrow> (r', slot) | None \<Rightarrow> (r, None))"

definition wsi_present :: "nat \<Rightarrow> wsi_frame_ring \<Rightarrow> u32 \<Rightarrow> wsi_frame_ring option" where
  "wsi_present a r i = (case wsi_frame_ring_present a None r i (Some 0) of
     (status, r', _) \<Rightarrow> if status = 0 then Some r' else None)"

definition wsi_release :: "nat \<Rightarrow> wsi_frame_ring \<Rightarrow> u32 \<Rightarrow> u32 \<Rightarrow> wsi_frame_ring option" where
  "wsi_release a r i n = (case wsi_frame_ring_release a None r i n of
     (status, r') \<Rightarrow> if status = 0 then Some r' else None)"

lemma pending_index:
  assumes "ring_ok r" "unat (wr_consumer_sequence r) < m" "m \<le> unat (wr_producer_sequence r)"
  shows "\<exists>i. find_presented r (of_nat m) = Some i \<and> i < wr_slot_count r \<and> sq r i = of_nat m"
    and "unat (of_nat m :: u32) = m" "(of_nat m :: u32) \<noteq> 0"
proof -
  show m: "unat (of_nat m :: u32) = m"
    using assms(3) u32_less [of "wr_producer_sequence r"]
    by (simp add: unsigned_of_nat take_bit_nat_eq_self)
  then show "(of_nat m :: u32) \<noteq> 0" using assms(2) by auto
  show "\<exists>i. find_presented r (of_nat m) = Some i \<and> i < wr_slot_count r \<and> sq r i = of_nat m"
    using assms m by (intro find_presented_handed_over) (auto simp: wsi_inv_def)
qed

text \<open>When two pages carry the same stamp for a frame, they show it in the same slot.\<close>

lemma find_presented_cong:
  assumes "ring_ok r" "ring_ok r'" "wr_slot_count r' = wr_slot_count r" "n \<noteq> 0"
    and "\<And>j. sq r' j = n \<longleftrightarrow> sq r j = n"
  shows "find_presented r' n = find_presented r n"
proof -
  have "find_presented r' n = Some j \<longleftrightarrow> find_presented r n = Some j" for j
    using assms find_presented_iff [of r _ _ n j] find_presented_iff [of r' _ _ n j]
    by (auto simp: wsi_inv_def)
  then show ?thesis by (metis option.exhaust)
qed

lemma pending_present:
  assumes ok: "ring_ok r" and can: "can_present a r i out"
  shows "ring_ok (presented r i) \<and> pending (presented r i) = pending r @ [i] \<and> i \<notin> set (pending r)"
proof -
  let ?r = "presented r i"
  have ok': "ring_ok ?r" using wsi_reachable_inv [OF present_run [OF can] ok] .
  have shape: "ring_shape r" and i: "i < wr_slot_count r" and st: "st r i = BVB_WSI_SLOT_ACQUIRED"
    and stamps: "stamps_ok r (unat (wr_consumer_sequence r)) (unat (wr_producer_sequence r))"
    and le: "unat (wr_consumer_sequence r) \<le> unat (wr_producer_sequence r)"
    and P: "unat (wr_producer_sequence r + 1) = Suc (unat (wr_producer_sequence r))"
    using ok can unat_Suc32 [of "wr_producer_sequence r"] by (auto simp: wsi_inv_def can_present_def)
  have free: "sq r i = 0" using stamp_free [OF stamps i] st by simp
  have cnt: "wr_slot_count ?r = wr_slot_count r" by (simp add: presented_def)
  have upd: "sq ?r j = (if j = i then wr_producer_sequence r + 1 else sq r j)" for j
    using sequence_update [OF shape i] by (simp add: presented_def)
  have old: "find_presented ?r (of_nat m) = find_presented r (of_nat m)"
    if "m \<in> set [Suc (unat (wr_consumer_sequence r))..<Suc (unat (wr_producer_sequence r))]" for m
  proof (rule find_presented_cong [OF ok ok'])
    have m: "unat (of_nat m :: u32) = m" "(of_nat m :: u32) \<noteq> 0"
      using pending_index [OF ok, of m] that by auto
    show "(of_nat m :: u32) \<noteq> 0" by (fact m(2))
    show "sq ?r j = of_nat m \<longleftrightarrow> sq r j = of_nat m" for j
      using m that P free by (auto simp: upd)
  qed (simp add: presented_def)
  have "(0 :: u32) \<noteq> wr_producer_sequence r + 1" using P by (metis nat.simps(3) unat_0)
  then have new: "find_presented ?r (wr_producer_sequence r + 1) = Some i"
    using ok' i cnt find_presented_iff [of ?r _ _ "wr_producer_sequence r + 1" i]
    by (auto simp: wsi_inv_def upd)
  have "sq r j \<noteq> 0" if j: "j \<in> set (pending r)" for j
  proof -
    obtain m where m: "j = the (find_presented r (of_nat m))"
      "unat (wr_consumer_sequence r) < m" "m \<le> unat (wr_producer_sequence r)"
      using j by (auto simp: pending_def simp del: upt_Suc)
    then show ?thesis using pending_index [OF ok m(2,3)] by auto
  qed
  then have "i \<notin> set (pending r)" using free by auto
  moreover have "pending ?r = pending r @ [i]"
    using old new le P by (simp add: pending_def presented_def add.commute [of 1])
  ultimately show ?thesis using ok' by simp
qed

lemma pending_release:
  assumes ok: "ring_ok r" and can: "can_release a r i n"
  shows "st r i = BVB_WSI_SLOT_PRESENTED" "ring_ok (released r i n)" "pending r = i # pending (released r i n)"
proof -
  let ?r = "released r i n"
  have "wr_consumer_sequence r \<noteq> 0xffffffff" using can by (auto simp: can_release_def)
  then have C: "unat n = Suc (unat (wr_consumer_sequence r))"
    using can unat_Suc32 [of "wr_consumer_sequence r"] by (auto simp: can_release_def)
  have shape: "ring_shape r" and i: "i < wr_slot_count r" and n: "n \<noteq> 0" "sq r i = n"
    and stamps: "stamps_ok r (unat (wr_consumer_sequence r)) (unat (wr_producer_sequence r))"
    using ok can by (auto simp: wsi_inv_def can_release_def)
  show st: "st r i = BVB_WSI_SLOT_PRESENTED" using stamped(1) [OF stamps i] n by simp
  show ok': "ring_ok ?r" using wsi_reachable_inv [OF release_run [OF can st] ok] .
  have P: "unat n \<le> unat (wr_producer_sequence r)" using stamped(3) [OF stamps i] n by simp
  have upd: "sq ?r j = (if j = i then 0 else sq r j)" for j
    using sequence_update [OF shape i] by (simp add: released_def)
  have old: "find_presented ?r (of_nat m) = find_presented r (of_nat m)"
    if "m \<in> set [Suc (unat n)..<Suc (unat (wr_producer_sequence r))]" for m
  proof (rule find_presented_cong [OF ok ok'])
    have m: "unat (of_nat m :: u32) = m" "(of_nat m :: u32) \<noteq> 0"
      using pending_index [OF ok, of m] that C by auto
    show "(of_nat m :: u32) \<noteq> 0" by (fact m(2))
    show "sq ?r j = of_nat m \<longleftrightarrow> sq r j = of_nat m" for j
      using m that n by (auto simp: upd)
  qed (simp add: released_def)
  have first: "find_presented r n = Some i" using find_presented_iff [OF shape stamps n(1)] i n by simp
  have "[Suc (unat (wr_consumer_sequence r))..<Suc (unat (wr_producer_sequence r))] =
      unat n # [Suc (unat n)..<Suc (unat (wr_producer_sequence r))]"
    using C P by (simp add: upt_conv_Cons del: upt_Suc)
  then show "pending r = i # pending ?r"
    using old first by (simp add: pending_def released_def del: upt_Suc)
qed

lemma wsi_acquire_eq:
  assumes "ring_shape r"
  shows "wsi_acquire a r =
    (if wsi_frame_ring_validate a r 0 \<noteq> 0 \<or> wsi_peer_failure r \<noteq> 0 then (r, None)
     else case acquire_scan r (wr_next_acquire r mod wr_slot_count r) (unat (wr_slot_count r)) 0 of
       None \<Rightarrow> (r, None) | Some i \<Rightarrow> (take_slot r i, Some i))"
  by (simp add: wsi_acquire_def wsi_frame_ring_acquire_def poll_loop.simps acquire_body_def Let_def
      split: option.split)

lemma wsi_acquire_taken:
  assumes "ring_ok r" "wsi_acquire a r = (r', Some i)"
  shows "i < wr_slot_count r \<and> st r i = BVB_WSI_SLOT_AVAILABLE \<and> r' = take_slot r i"
proof -
  have shape: "ring_shape r" using assms(1) by (simp add: wsi_inv_def)
  have "wr_slot_count r \<noteq> 0" using mod_slot_count [OF shape, of 0] by auto
  then show ?thesis
    using assms(2) acquire_scan_Some [of r]
    by (auto simp: wsi_acquire_eq [OF shape] split: if_splits option.splits)
qed

lemma wsi_acquire_idle:
  "ring_ok r \<Longrightarrow> wsi_acquire a r = (r', None) \<Longrightarrow> r' = r"
  by (auto simp: wsi_inv_def wsi_acquire_eq split: if_splits option.splits)

text \<open>The poll comes back empty-handed only when no image is available.\<close>

lemma wsi_acquire_none:
  assumes "ring_ok r" "wsi_frame_ring_validate a r 0 = 0" "wsi_peer_failure r = 0"
  shows "snd (wsi_acquire a r) = None \<longleftrightarrow> (\<forall>i < wr_slot_count r. st r i \<noteq> BVB_WSI_SLOT_AVAILABLE)"
proof -
  have shape: "ring_shape r" using assms(1) by (simp add: wsi_inv_def)
  show ?thesis
    using assms(2,3) acquire_scan_full [OF shape mod_slot_count [OF shape], of "wr_next_acquire r"]
    by (auto simp: wsi_acquire_eq [OF shape] split: option.splits)
qed

lemma pending_take:
  assumes ok: "ring_ok r" and i: "i < wr_slot_count r" "st r i = BVB_WSI_SLOT_AVAILABLE"
  shows "ring_ok (take_slot r i) \<and> pending (take_slot r i) = pending r"
proof -
  have ok': "ring_ok (take_slot r i)" using wsi_reachable_inv [OF take_slot_run [OF i] ok] .
  have "find_presented (take_slot r i) (of_nat m) = find_presented r (of_nat m)"
    if "m \<in> set [Suc (unat (wr_consumer_sequence r))..<Suc (unat (wr_producer_sequence r))]" for m
    using that pending_index(3) [OF ok, of m]
    by (intro find_presented_cong [OF ok ok']) (auto simp: take_slot_def)
  then show ?thesis using ok' by (simp add: pending_def take_slot_def)
qed

text \<open>
  The interface a pair of processes relies on: a queue of images. What is presented comes out in
  the order it went in, each image once.
\<close>

datatype ring_op = Acquire | Present u32 | Release u32 u32

fun run_ops ::
  "('s \<Rightarrow> 's \<times> u32 option) \<Rightarrow> ('s \<Rightarrow> u32 \<Rightarrow> 's option) \<Rightarrow> ('s \<Rightarrow> u32 \<Rightarrow> u32 \<Rightarrow> 's option) \<Rightarrow> 's \<Rightarrow> ring_op list \<Rightarrow>
   's \<times> u32 list \<times> u32 list" where
  "run_ops acq prs rls s [] = (s, [], [])"
| "run_ops acq prs rls s (Acquire # ops) = run_ops acq prs rls (fst (acq s)) ops"
| "run_ops acq prs rls s (Present i # ops) = (case prs s i of
     None \<Rightarrow> run_ops acq prs rls s ops
   | Some s' \<Rightarrow> (case run_ops acq prs rls s' ops of (t, ins, outs) \<Rightarrow> (t, i # ins, outs)))"
| "run_ops acq prs rls s (Release i n # ops) = (case rls s i n of
     None \<Rightarrow> run_ops acq prs rls s ops
   | Some s' \<Rightarrow> (case run_ops acq prs rls s' ops of (t, ins, outs) \<Rightarrow> (t, ins, i # outs)))"

locale frame_queue =
  fixes ok :: "'s \<Rightarrow> bool"
    and queue :: "'s \<Rightarrow> u32 list"
    and acq :: "'s \<Rightarrow> 's \<times> u32 option"
    and prs :: "'s \<Rightarrow> u32 \<Rightarrow> 's option"
    and rls :: "'s \<Rightarrow> u32 \<Rightarrow> u32 \<Rightarrow> 's option"
  assumes acq_queue: "ok s \<Longrightarrow> ok (fst (acq s)) \<and> queue (fst (acq s)) = queue s"
    and prs_queue: "ok s \<Longrightarrow> prs s i = Some s' \<Longrightarrow> ok s' \<and> queue s' = queue s @ [i] \<and> i \<notin> set (queue s)"
    and rls_queue: "ok s \<Longrightarrow> rls s i n = Some s' \<Longrightarrow> ok s' \<and> queue s = i # queue s'"
begin

lemma fifo:
  assumes "ok s" "run_ops acq prs rls s ops = (t, ins, outs)"
  shows "ok t \<and> queue s @ ins = outs @ queue t"
  using assms
proof (induction ops arbitrary: s t ins outs)
  case (Cons op ops)
  show ?case
  proof (cases op)
    case Acquire
    then show ?thesis using Cons.prems Cons.IH [of "fst (acq s)" t ins outs] acq_queue [of s] by simp
  next
    case (Present i)
    show ?thesis
    proof (cases "prs s i")
      case None
      then show ?thesis using Cons Present by simp
    next
      case (Some s')
      then obtain ins' where "run_ops acq prs rls s' ops = (t, ins', outs)" "ins = i # ins'"
        using Cons.prems Present by (auto split: prod.splits)
      then show ?thesis using Cons.IH [of s' t ins' outs] prs_queue [OF Cons.prems(1) Some] by simp
    qed
  next
    case (Release i n)
    show ?thesis
    proof (cases "rls s i n")
      case None
      then show ?thesis using Cons Release by simp
    next
      case (Some s')
      then obtain outs' where "run_ops acq prs rls s' ops = (t, ins, outs')" "outs = i # outs'"
        using Cons.prems Release by (auto split: prod.splits)
      then show ?thesis using Cons.IH [of s' t ins outs'] rls_queue [OF Cons.prems(1) Some] by simp
    qed
  qed
qed simp

text \<open>An image is never in the queue twice.\<close>

lemma queue_distinct:
  assumes "ok s" "distinct (queue s)" "run_ops acq prs rls s ops = (t, ins, outs)"
  shows "distinct (queue t)"
  using assms
proof (induction ops arbitrary: s t ins outs)
  case (Cons op ops)
  show ?case
  proof (cases op)
    case Acquire
    then show ?thesis using Cons.prems Cons.IH [of "fst (acq s)" t ins outs] acq_queue [of s] by simp
  next
    case (Present i)
    show ?thesis
    proof (cases "prs s i")
      case None
      then show ?thesis using Cons Present by simp
    next
      case (Some s')
      then obtain ins' where "run_ops acq prs rls s' ops = (t, ins', outs)"
        using Cons.prems Present by (auto split: prod.splits)
      then show ?thesis
        using Cons.IH [of s' t ins' outs] Cons.prems(2) prs_queue [OF Cons.prems(1) Some] by simp
    qed
  next
    case (Release i n)
    show ?thesis
    proof (cases "rls s i n")
      case None
      then show ?thesis using Cons Release by simp
    next
      case (Some s')
      then obtain outs' where "run_ops acq prs rls s' ops = (t, ins, outs')"
        using Cons.prems Release by (auto split: prod.splits)
      then show ?thesis
        using Cons.IH [of s' t ins outs'] Cons.prems(2) rls_queue [OF Cons.prems(1) Some] by simp
    qed
  qed
qed simp

end

lemma wsi_present_Some:
  "wsi_present a r i = Some r' \<Longrightarrow> can_present a r i (Some 0) \<and> r' = presented r i"
  using present_refused [of a r i "Some 0" None] present_ok [of a r i "Some 0" None]
  by (cases "can_present a r i (Some 0)") (auto simp: wsi_present_def futex_wake_def split: if_splits)

lemma wsi_release_Some:
  assumes "ring_ok r" "wsi_release a r i n = Some r'"
  shows "can_release a r i n \<and> r' = released r i n"
proof (cases "can_release a r i n")
  case True
  then show ?thesis
    using assms(2) release_ok [OF True pending_release(1) [OF assms(1) True], of None]
    by (auto simp: wsi_release_def futex_wake_def)
next
  case False
  then show ?thesis
    using assms(2) release_refused [OF False, of None] by (auto simp: wsi_release_def split: if_splits)
qed

interpretation wsi: frame_queue ring_ok pending "wsi_acquire a" "wsi_present a" "wsi_release a" for a
proof (unfold_locales, goal_cases)
  case (1 r)
  show ?case
  proof (cases "wsi_acquire a r")
    case (Pair r' out)
    then show ?thesis
      using 1 wsi_acquire_idle [of r a r'] wsi_acquire_taken [of r a r'] pending_take [of r]
      by (cases out) auto
  qed
next
  case (2 r i r')
  then show ?case using wsi_present_Some [OF 2(2)] pending_present [OF 2(1)] by blast
next
  case (3 r i n r')
  then show ?case using wsi_release_Some [OF 3] pending_release [OF 3(1)] by auto
qed

lemma wsi_run_from_init:
  assumes "wsi_frame_ring_initialize a len k g = Inr r"
    and "run_ops (wsi_acquire b) (wsi_present b) (wsi_release b) r ops = (r', ins, outs)"
  shows "ring_ok r' \<and> ins = outs @ pending r' \<and> distinct (pending r')"
proof -
  have ok: "ring_ok r" and "pending r = []"
    using wsi_initialize_ok [OF assms(1)] assms(1)
    by (auto simp: pending_def wsi_frame_ring_initialize_def split: if_splits)
  then show ?thesis
    using wsi.fifo [OF ok assms(2)] wsi.queue_distinct [OF ok _ assms(2)] by simp
qed

subsection \<open>What two processes can rely on\<close>

text \<open>No more frames are in flight than there are slots.\<close>

lemma in_flight_bound:
  assumes "wsi_inv (r, p, q)"
  shows "produced r p \<le> consumed r q + unat (wr_slot_count r)"
proof -
  let ?stamp = "\<lambda>j. unat (wr_slot_sequence r ! j)"
  have "{consumed r q<..produced r p} \<subseteq> ?stamp ` {..<unat (wr_slot_count r)}"
    using assms by (fastforce simp: wsi_inv_def stamps_ok_def word_less_nat_alt)
  then have "card {consumed r q<..produced r p} \<le> card {..<unat (wr_slot_count r)}"
    by (rule surj_card_le [rotated]) simp
  then show ?thesis by simp
qed

lemma sequences_between:
  assumes "wsi_inv (r, p, q)"
  shows "unat (wr_producer_sequence r) \<le> produced r p" "unat (wr_consumer_sequence r) \<le> consumed r q"
    "produced r p \<le> unat (wr_producer_sequence r) + 1" "consumed r q \<le> unat (wr_consumer_sequence r) + 1"
  using assms by (cases p; cases q; simp add: wsi_inv_def)+

text \<open>Every slot of an initialised ring is free.\<close>

definition sample_ring :: wsi_frame_ring where
  "sample_ring = \<lparr>wr_magic = BVB_WSI_FRAME_RING_MAGIC, wr_version = BVB_WSI_FRAME_RING_VERSION,
     wr_control_bytes = BVB_WSI_FRAME_RING_CONTROL_BYTES, wr_slot_count = 3,
     wr_flags = 0, wr_generation = 9, wr_next_acquire = 0,
     wr_producer_sequence = 0, wr_consumer_sequence = 0,
     wr_producer_status = 0, wr_consumer_status = 0,
     wr_slot_state = replicate 4 0, wr_slot_sequence = replicate 4 0, wr_reserved = replicate 13 0\<rparr>"

lemma sample_ring_init:
  "wsi_frame_ring_initialize 4096 BVB_WSI_FRAME_RING_REGION_BYTES 3 9 = Inr sample_ring"
  by (simp add: wsi_frame_ring_initialize_def aligned_u32_def sample_ring_def)

lemma sample_ring_ok:
  "ring_ok sample_ring" "wsi_frame_ring_validate 4096 sample_ring 0 = 0" "wsi_peer_failure sample_ring = 0"
proof -
  show "wsi_frame_ring_validate 4096 sample_ring 0 = 0"
    using wsi_initialize_ok [OF sample_ring_init]
    by (simp add: wsi_frame_ring_validate_def sample_ring_def split: if_splits)
qed (use wsi_initialize_ok [OF sample_ring_init] in simp_all)

subsection \<open>Properties\<close>

text \<open>
  C2: The ring is a queue: from initialisation, over any sequence of acquisitions, presentations
  and releases with any arguments, the images successfully presented are, in order, those
  successfully released followed by those still pending, and no image is pending twice.
\<close>

theorem wsi_ring_fifo:
  assumes "wsi_frame_ring_initialize a len k g = Inr r"
    and "run_ops (wsi_acquire b) (wsi_present b) (wsi_release b) r ops = (r', ins, outs)"
  shows "ins = outs @ pending r' \<and> distinct (pending r') \<and> ring_ok r'"
  using wsi_run_from_init [OF assms] by blast

theorem wsi_ring_fifo_witness:
  "(case run_ops (wsi_acquire 4096) (wsi_present 4096) (wsi_release 4096) sample_ring
      [Acquire, Acquire, Present 1, Present 0, Release 1 1] of
     (r', ins, outs) \<Rightarrow> ins = outs @ pending r' \<and> distinct (pending r') \<and> ring_ok r')"
proof (cases "run_ops (wsi_acquire 4096) (wsi_present 4096) (wsi_release 4096) sample_ring
      [Acquire, Acquire, Present 1, Present 0, Release 1 1]")
  case (fields r' ins outs)
  then show ?thesis using wsi_ring_fifo [OF sample_ring_init fields] by simp
qed

text \<open>
  C1: The two processes run their operations in any interleaving of the individual accesses to the
  shared page, with failures at any moment. From initialisation, the consumer never passes the
  producer, no more frames are in flight than there are slots, every frame handed over and not
  taken back sits in exactly one slot, which is marked presented, and a release that has passed
  its order check never finds the slot in another state.
\<close>

theorem wsi_interleaving:
  assumes "wsi_frame_ring_initialize a len k g = Inr r0" "wsi_step\<^sup>*\<^sup>* (r0, P_Idle, C_Idle) (r, p, q)"
  shows "consumed r q \<le> produced r p \<and> produced r p \<le> consumed r q + unat (wr_slot_count r) \<and>
    (\<forall>m. consumed r q < m \<and> m \<le> produced r p \<longrightarrow>
      (\<exists>!i. i < wr_slot_count r \<and> unat (sq r i) = m \<and> st r i = BVB_WSI_SLOT_PRESENTED)) \<and>
    (\<forall>i n. q = C_Cleared i n \<longrightarrow> st r i = BVB_WSI_SLOT_PRESENTED)"
proof -
  have inv: "wsi_inv (r, p, q)"
    using wsi_reachable_inv [OF assms(2)] wsi_initialize_ok [OF assms(1)] by blast
  then have stamps: "stamps_ok r (consumed r q) (produced r p)" by (simp add: wsi_inv_def)
  have "\<exists>!i. i < wr_slot_count r \<and> unat (sq r i) = m \<and> st r i = BVB_WSI_SLOT_PRESENTED"
    if m: "consumed r q < m" "m \<le> produced r p" for m
  proof -
    have pos: "sq r i \<noteq> 0" if "unat (sq r i) = m" for i using that m(1) by auto
    obtain i where i: "i < wr_slot_count r" "unat (sq r i) = m" using stamps m by (auto simp: stamps_ok_def)
    have "st r i = BVB_WSI_SLOT_PRESENTED" using stamps i pos by (auto simp: stamps_ok_def)
    moreover have "j = i" if "j < wr_slot_count r" "unat (sq r j) = m" for j
      using stamps i pos that by (auto simp: stamps_ok_def word_unat_eq_iff [symmetric])
    ultimately show ?thesis using i by blast
  qed
  then show ?thesis using inv in_flight_bound [OF inv] by (auto simp: wsi_inv_def)
qed

theorem wsi_interleaving_witness:
  "\<exists>r. wsi_step\<^sup>*\<^sup>* (sample_ring, P_Idle, C_Idle) (r, P_Took 0, C_Idle) \<and>
     consumed r C_Idle \<le> produced r (P_Took 0) \<and> produced r (P_Took 0) \<le> consumed r C_Idle + unat (wr_slot_count r)"
proof -
  let ?r = "sample_ring\<lparr>wr_slot_state := (wr_slot_state sample_ring)[unat (0 :: u32) := BVB_WSI_SLOT_ACQUIRED]\<rparr>"
  have "wsi_step (sample_ring, P_Idle, C_Idle) (?r, P_Took 0, C_Idle)"
    by (rule wsi_step.take) (simp_all add: sample_ring_def)
  then have run: "wsi_step\<^sup>*\<^sup>* (sample_ring, P_Idle, C_Idle) (?r, P_Took 0, C_Idle)" by simp
  show ?thesis using run wsi_interleaving [OF sample_ring_init run] by blast
qed



text \<open>
  A poll for an image on a healthy ring comes back with a slot exactly when some slot is
  available: starting from any position, the wrapped scan visits every slot. The slot it returns
  was available and is the producer's afterwards, and nothing pending is disturbed.
\<close>

lemma wsi_acquire_complete:
  assumes "ring_ok r" "wsi_frame_ring_validate a r 0 = 0" "wsi_peer_failure r = 0"
  shows "(snd (wsi_acquire a r) = None \<longleftrightarrow> (\<forall>i < wr_slot_count r. st r i \<noteq> BVB_WSI_SLOT_AVAILABLE)) \<and>
    (\<forall>r' i. wsi_acquire a r = (r', Some i) \<longrightarrow> i < wr_slot_count r \<and> st r i = BVB_WSI_SLOT_AVAILABLE \<and>
      st r' i = BVB_WSI_SLOT_ACQUIRED \<and> ring_ok r' \<and> pending r' = pending r)"
proof -
  have "st r' i = BVB_WSI_SLOT_ACQUIRED" if "wsi_acquire a r = (r', Some i)" for r' i
    using wsi_acquire_taken [OF assms(1) that] ring_index [of r i] assms(1)
    by (simp add: take_slot_def wsi_inv_def ring_shape_def)
  then show ?thesis
    using wsi_acquire_none [OF assms] wsi_acquire_taken [OF assms(1)] pending_take [OF assms(1)] by blast
qed

end
