(* ===== verification/Descriptor_Ring.thy ===== *)
theory Descriptor_Ring
  imports Futex "HOL-Library.Multiset"
begin

section \<open>The descriptor transaction ring\<close>

text \<open>
  src/src/descriptor_transaction_ring.c and src/include/bvb/descriptor_transaction_ring.h: a shared
  mapping with sixteen fixed request/response slots, by which the client asks the service to allocate
  descriptor sets, and sixty-four banks of descriptor sets the service has allocated in advance
  (leases), which the client takes without a round trip.

  The mapping is one record; its address (0 for NULL) and the length the caller passes are separate
  arguments. A buffer argument is the list of its bytes, \<open>None\<close> for NULL. The reserved words, which
  are cleared with the rest of the mapping and never read, are left out.
\<close>

subsection \<open>The mapping\<close>

abbreviation (input) RING_MAGIC :: u32 where "RING_MAGIC \<equiv> 0x31524442"
abbreviation (input) RING_VERSION :: u16 where "RING_VERSION \<equiv> 4"
abbreviation (input) RING_CONTROL_BYTES :: u16 where "RING_CONTROL_BYTES \<equiv> 128"
abbreviation (input) RING_REGION_BYTES :: nat where "RING_REGION_BYTES \<equiv> 131072"
abbreviation (input) RING_SLOT_COUNT :: "'a::numeral" where "RING_SLOT_COUNT \<equiv> 16"
abbreviation (input) RING_REQUEST_BYTES :: "'a::numeral" where "RING_REQUEST_BYTES \<equiv> 176"
abbreviation (input) RING_RESPONSE_BYTES :: "'a::numeral" where "RING_RESPONSE_BYTES \<equiv> 136"
abbreviation (input) SLOT_AVAILABLE :: u32 where "SLOT_AVAILABLE \<equiv> 0"
abbreviation (input) SLOT_REQUESTED :: u32 where "SLOT_REQUESTED \<equiv> 1"
abbreviation (input) SLOT_COMPLETED :: u32 where "SLOT_COMPLETED \<equiv> 2"
abbreviation (input) WAIT_IDLE :: u32 where "WAIT_IDLE \<equiv> 0"
abbreviation (input) WAIT_SPINNING :: u32 where "WAIT_SPINNING \<equiv> 1"
abbreviation (input) WAIT_SLEEPING :: u32 where "WAIT_SLEEPING \<equiv> 2"
abbreviation (input) LEASE_BANK_COUNT :: "'a::numeral" where "LEASE_BANK_COUNT \<equiv> 64"
abbreviation (input) LEASE_BANK_CAPACITY :: "'a::numeral" where "LEASE_BANK_CAPACITY \<equiv> 64"
abbreviation (input) LEASE_MAX_CLAIM :: u32 where "LEASE_MAX_CLAIM \<equiv> 16"
abbreviation (input) LEASE_BANK_READY :: u32 where "LEASE_BANK_READY \<equiv> 1"

record transaction_slot =
  ts_state :: u32
  ts_sequence :: u32
  ts_status :: i32
  ts_request_length :: u32
  ts_response_length :: u32
  ts_flags :: u32
  ts_request :: bytes
  ts_response :: bytes

record lease_record =
  le_layout_id :: u64
  le_descriptor_set_id :: u64

record lease_bank =
  lb_pool_id :: u64
  lb_epoch :: u64
  lb_count :: u32
  lb_cursor :: u32
  lb_ready :: u32
  lb_reserved :: u32
  lb_records :: "lease_record list"

record transaction_ring =
  tr_magic :: u32
  tr_version :: u16
  tr_control_bytes :: u16
  tr_slot_count :: u32
  tr_flags :: u32
  tr_generation :: u64
  tr_request_sequence :: u32
  tr_completion_sequence :: u32
  tr_client_status :: i32
  tr_service_status :: i32
  tr_next_slot :: u32
  tr_request_wait_state :: u32
  tr_completion_wait_state :: u32
  tr_slots :: "transaction_slot list"
  tr_banks :: "lease_bank list"

definition zero_slot :: transaction_slot where
  "zero_slot = \<lparr>ts_state = 0, ts_sequence = 0, ts_status = 0, ts_request_length = 0,
     ts_response_length = 0, ts_flags = 0,
     ts_request = replicate RING_REQUEST_BYTES 0, ts_response = replicate RING_RESPONSE_BYTES 0\<rparr>"

definition zero_bank :: lease_bank where
  "zero_bank = \<lparr>lb_pool_id = 0, lb_epoch = 0, lb_count = 0, lb_cursor = 0, lb_ready = 0, lb_reserved = 0,
     lb_records = replicate LEASE_BANK_CAPACITY \<lparr>le_layout_id = 0, le_descriptor_set_id = 0\<rparr>\<rparr>"

definition ring_peer_status :: "transaction_ring \<Rightarrow> int" where
  "ring_peer_status ring =
     (if sint (tr_client_status ring) < 0 then sint (tr_client_status ring)
      else if sint (tr_service_status ring) < 0 then sint (tr_service_status ring) else 0)"

definition validate_header :: "nat \<Rightarrow> transaction_ring \<Rightarrow> nat \<Rightarrow> u64 \<Rightarrow> int" where
  "validate_header address ring len generation =
     (if address = 0 \<or> address mod 8 \<noteq> 0 \<or> len \<noteq> RING_REGION_BYTES \<or>
         tr_magic ring \<noteq> RING_MAGIC \<or> tr_version ring \<noteq> RING_VERSION \<or>
         tr_control_bytes ring \<noteq> RING_CONTROL_BYTES \<or> tr_slot_count ring = 0 \<or>
         tr_slot_count ring > RING_SLOT_COUNT \<or> tr_flags ring \<noteq> 0 \<or> tr_generation ring = 0 \<or>
         tr_request_wait_state ring > WAIT_SLEEPING \<or> tr_completion_wait_state ring > WAIT_SLEEPING \<or>
         (generation \<noteq> 0 \<and> tr_generation ring \<noteq> generation)
      then neg EINVAL else 0)"

definition ring_initialize :: "nat \<Rightarrow> nat \<Rightarrow> u32 \<Rightarrow> u64 \<Rightarrow> transaction_ring result" where
  "ring_initialize address len slot_count generation =
     (if address = 0 \<or> address mod 8 \<noteq> 0 \<or> len \<noteq> RING_REGION_BYTES \<or> slot_count = 0 \<or>
         slot_count > RING_SLOT_COUNT \<or> generation = 0 then Inl EINVAL
      else Inr \<lparr>tr_magic = RING_MAGIC, tr_version = RING_VERSION, tr_control_bytes = RING_CONTROL_BYTES,
                tr_slot_count = slot_count, tr_flags = 0, tr_generation = generation,
                tr_request_sequence = 0, tr_completion_sequence = 0, tr_client_status = 0,
                tr_service_status = 0, tr_next_slot = 0, tr_request_wait_state = 0,
                tr_completion_wait_state = 0, tr_slots = replicate RING_SLOT_COUNT zero_slot,
                tr_banks = replicate LEASE_BANK_COUNT zero_bank\<rparr>)"

definition slot_malformed :: "transaction_slot \<Rightarrow> bool" where
  "slot_malformed slot \<longleftrightarrow>
     ts_state slot > SLOT_COMPLETED \<or> ts_flags slot \<noteq> 0 \<or>
     ts_request_length slot > RING_REQUEST_BYTES \<or> ts_response_length slot > RING_RESPONSE_BYTES"

definition bank_malformed :: "lease_bank \<Rightarrow> bool" where
  "bank_malformed bank \<longleftrightarrow>
     lb_ready bank > LEASE_BANK_READY \<or> lb_count bank > LEASE_BANK_CAPACITY \<or>
     lb_cursor bank > lb_count bank \<or> lb_reserved bank \<noteq> 0 \<or>
     (lb_ready bank = LEASE_BANK_READY \<and>
      (lb_pool_id bank = 0 \<or> lb_epoch bank = 0 \<or> lb_count bank = 0))"

definition ring_validate :: "nat \<Rightarrow> transaction_ring \<Rightarrow> nat \<Rightarrow> u64 \<Rightarrow> int" where
  "ring_validate address ring len generation =
     (let result = validate_header address ring len generation in
      if result \<noteq> 0 \<or> tr_next_slot ring \<ge> tr_slot_count ring
      then (if result \<noteq> 0 then result else neg EINVAL)
      else if list_ex slot_malformed (map ((!) (tr_slots ring)) [0..<unat (tr_slot_count ring)])
      then neg EPROTO
      else if list_ex bank_malformed (map ((!) (tr_banks ring)) [0..<LEASE_BANK_COUNT])
      then neg EPROTO
      else 0)"

subsection \<open>Waiting for a sequence word\<close>

text \<open>
  What one look at the mapping reads. A wait first looks once, then spins with a clock reading
  every 64 rounds, then sleeps on the \<^verbatim>\<open>futex\<close>; the looks are numbered through.
\<close>

record seq_view =
  sv_client_status :: i32
  sv_service_status :: i32
  sv_word :: u32
  sv_now_ns :: int
  sv_futex :: syscall

definition view_status :: "seq_view \<Rightarrow> int" where
  "view_status v =
     (if sint (sv_client_status v) < 0 then sint (sv_client_status v)
      else if sint (sv_service_status v) < 0 then sint (sv_service_status v) else 0)"

text \<open>\<open>Inl\<close> returns from the wait, \<open>Inr i\<close> leaves the spinning with look \<open>i\<close> next.\<close>

definition spin_body :: "u32 \<Rightarrow> int \<Rightarrow> nat \<Rightarrow> seq_view \<Rightarrow> (int + nat) option" where
  "spin_body expected spin_deadline_ns i v =
     (let result = view_status v in
      if result \<noteq> 0 \<or> sv_word v \<ge> expected then Some (Inl result)
      else if i mod 64 = 0 then
        (if sv_now_ns v < 0 then Some (Inl (neg EIO))
         else if sv_now_ns v \<ge> spin_deadline_ns then Some (Inr (i + 1)) else None)
      else None)"

definition sleep_body :: "u32 \<Rightarrow> int \<Rightarrow> nat \<Rightarrow> seq_view \<Rightarrow> int option" where
  "sleep_body expected deadline_ns i v =
     (let result = view_status v in
      if result \<noteq> 0 then Some result
      else if sv_word v \<ge> expected then Some 0
      else
        let result = futex_wait_until (sv_now_ns v) (sv_futex v) deadline_ns in
        if result \<noteq> 0 then Some result else None)"

text \<open>
  The second result lists the values the wait stores into its wait state word, in order; the word
  is written by the waiting side only, and the peer reads it to decide whether a wake-up is due.
\<close>

definition wait_for_sequence ::
  "(nat \<Rightarrow> seq_view) \<Rightarrow> int \<Rightarrow> u32 \<Rightarrow> int \<Rightarrow> (int \<times> u32 list) option" where
  "wait_for_sequence view started_ns expected deadline_ns =
     (let result = view_status (view 0) in
      if result \<noteq> 0 then Some (result, [])
      else if sv_word (view 0) \<ge> expected then Some (0, [])
      else if started_ns < 0 then Some (neg EIO, [])
      else
        let spin = started_ns + 250000;
            spin_deadline_ns = (if spin < started_ns \<or> spin > deadline_ns then deadline_ns else spin) in
        case poll_loop view (spin_body expected spin_deadline_ns) 1 of
          None \<Rightarrow> None
        | Some (Inl result) \<Rightarrow> Some (result, [WAIT_SPINNING, WAIT_IDLE])
        | Some (Inr i) \<Rightarrow>
            map_option (\<lambda>result. (result, [WAIT_SPINNING, WAIT_SLEEPING, WAIT_IDLE]))
              (poll_loop view (sleep_body expected deadline_ns) i))"

definition stored :: "u32 \<Rightarrow> u32 list \<Rightarrow> u32" where
  "stored old stores = (if stores = [] then old else last stores)"

definition wake_if_sleeping :: "syscall \<Rightarrow> u32 \<Rightarrow> int" where
  "wake_if_sleeping wake wait_state = (if wait_state = WAIT_SLEEPING then futex_wake wake else 0)"

subsection \<open>The client's call\<close>

text \<open>
  The call up to the wait: \<open>Inl\<close> an early return, \<open>Inr\<close> the mapping with the request in its slot
  and the status of the wake-up.
\<close>

definition ring_call_submit ::
  "nat \<Rightarrow> syscall \<Rightarrow> transaction_ring \<Rightarrow> nat \<Rightarrow> u64 \<Rightarrow> u32 \<Rightarrow> bytes option \<Rightarrow> u32 \<Rightarrow> bytes option \<Rightarrow>
   u32 option \<Rightarrow> u32 \<Rightarrow> int + (transaction_ring \<times> int)" where
  "ring_call_submit address wake ring len generation sequence request request_length response
     response_length timeout_ms =
     (let result = validate_header address ring len generation in
      if result \<noteq> 0 \<or> sequence = 0 \<or> request = None \<or> request_length = 0 \<or>
         request_length > RING_REQUEST_BYTES \<or> response = None \<or> response_length = None \<or> timeout_ms = 0
      then Inl (if result \<noteq> 0 then result else neg EINVAL) else
      let result = ring_peer_status ring in
      if result \<noteq> 0 then Inl result else
      let index = unat ((sequence - 1) mod tr_slot_count ring) in
      if ts_state (tr_slots ring ! index) \<noteq> SLOT_AVAILABLE then Inl (neg EBUSY) else
      let slot = zero_slot
            \<lparr>ts_request := take (unat request_length) (the request) @
                           drop (unat request_length) (ts_request zero_slot),
             ts_request_length := request_length,
             ts_sequence := sequence,
             ts_state := SLOT_REQUESTED\<rparr>;
          ring = ring\<lparr>tr_slots := (tr_slots ring)[index := slot], tr_request_sequence := sequence\<rparr> in
      Inr (ring, wake_if_sleeping wake (tr_request_wait_state ring)))"

text \<open>
  The call after the wait, for the slot found before it: the status, the mapping, and the response
  when there is one.
\<close>

definition ring_call_finish ::
  "transaction_ring \<Rightarrow> u32 \<Rightarrow> u32 \<Rightarrow> u32 \<Rightarrow> int \<times> transaction_ring \<times> bytes option" where
  "ring_call_finish ring index sequence response_capacity =
     (let slot = tr_slots ring ! unat index in
      if ts_sequence slot \<noteq> sequence \<or> ts_state slot \<noteq> SLOT_COMPLETED \<or>
         ts_response_length slot > response_capacity then (neg EPROTO, ring, None)
      else if sint (ts_status slot) \<noteq> 0 then (sint (ts_status slot), ring, None)
      else (0, ring\<lparr>tr_slots := (tr_slots ring)[unat index := zero_slot\<lparr>ts_state := SLOT_AVAILABLE\<rparr>],
                    tr_next_slot := (index + 1) mod tr_slot_count ring\<rparr>,
            Some (take (unat (ts_response_length slot)) (ts_response slot))))"

text \<open>
  The whole call. \<open>view\<close> is what the wait sees of the mapping and \<open>later\<close> what the service makes of
  the submitted mapping until the wait is over.
\<close>

definition ring_call ::
  "nat \<Rightarrow> syscall \<Rightarrow> int \<Rightarrow> int \<Rightarrow> (nat \<Rightarrow> seq_view) \<Rightarrow> (transaction_ring \<Rightarrow> transaction_ring) \<Rightarrow>
   transaction_ring \<Rightarrow> nat \<Rightarrow> u64 \<Rightarrow> u32 \<Rightarrow> bytes option \<Rightarrow> u32 \<Rightarrow> bytes option \<Rightarrow> u32 \<Rightarrow> u32 option \<Rightarrow> u32 \<Rightarrow>
   (int \<times> transaction_ring \<times> bytes option) option" where
  "ring_call address wake now_ns started_ns view later ring len generation sequence request
     request_length response response_capacity response_length timeout_ms =
     (case ring_call_submit address wake ring len generation sequence request request_length response
             response_length timeout_ms of
        Inl result \<Rightarrow> Some (result, ring, None)
      | Inr (submitted, woken) \<Rightarrow>
          if woken \<noteq> 0 then Some (woken, submitted, None)
          else case deadline_from_timeout now_ns timeout_ms of
            Inl result \<Rightarrow> Some (result, submitted, None)
          | Inr deadline_ns \<Rightarrow>
              (case wait_for_sequence view started_ns sequence deadline_ns of
                 None \<Rightarrow> None
               | Some (result, stores) \<Rightarrow>
                   let index = (sequence - 1) mod tr_slot_count ring;
                       ring = later submitted;
                       ring = ring\<lparr>tr_completion_wait_state :=
                                     stored (tr_completion_wait_state ring) stores\<rparr> in
                   if result \<noteq> 0 then Some (result, ring, None)
                   else Some (ring_call_finish ring index sequence response_capacity)))"

subsection \<open>The service's side\<close>

text \<open>After the wait, the mapping being \<open>ring\<close>: the request, its slot and its sequence.\<close>

definition take_request :: "transaction_ring \<Rightarrow> u32 \<Rightarrow> u32 \<Rightarrow> int + (bytes \<times> u32 \<times> u32)" where
  "take_request ring expected request_capacity =
     (let index = (expected - 1) mod tr_slot_count ring; slot = tr_slots ring ! unat index in
      if ts_sequence slot \<noteq> expected \<or> ts_state slot \<noteq> SLOT_REQUESTED \<or> ts_request_length slot = 0 \<or>
         ts_request_length slot > request_capacity then Inl (neg EPROTO)
      else Inr (take (unat (ts_request_length slot)) (ts_request slot), index, expected))"

definition ring_wait_request ::
  "nat \<Rightarrow> int \<Rightarrow> int \<Rightarrow> (nat \<Rightarrow> seq_view) \<Rightarrow> (transaction_ring \<Rightarrow> transaction_ring) \<Rightarrow>
   transaction_ring \<Rightarrow> nat \<Rightarrow> u64 \<Rightarrow> u32 \<Rightarrow> bytes option \<Rightarrow> u32 \<Rightarrow> bool \<Rightarrow> u32 \<Rightarrow>
   ((int + (bytes \<times> u32 \<times> u32)) \<times> transaction_ring) option" where
  "ring_wait_request address now_ns started_ns view later ring len generation after_sequence request
     request_capacity out_pointers timeout_ms =
     (let result = validate_header address ring len generation in
      if result \<noteq> 0 \<or> after_sequence = 0xffffffff \<or> request = None \<or> \<not> out_pointers \<or> timeout_ms = 0
      then Some (Inl (if result \<noteq> 0 then result else neg EINVAL), ring)
      else
        let expected = after_sequence + 1 in
        case deadline_from_timeout now_ns timeout_ms of
          Inl result \<Rightarrow> Some (Inl result, ring)
        | Inr deadline_ns \<Rightarrow>
            (case wait_for_sequence view started_ns expected deadline_ns of
               None \<Rightarrow> None
             | Some (result, stores) \<Rightarrow>
                 let ring = later ring;
                     ring = ring\<lparr>tr_request_wait_state := stored (tr_request_wait_state ring) stores\<rparr> in
                 if result \<noteq> 0 then Some (Inl result, ring)
                 else Some (take_request ring expected request_capacity, ring)))"

definition ring_complete ::
  "nat \<Rightarrow> syscall \<Rightarrow> transaction_ring \<Rightarrow> nat \<Rightarrow> u64 \<Rightarrow> u32 \<Rightarrow> u32 \<Rightarrow> i32 \<Rightarrow> bytes option \<Rightarrow> u32 \<Rightarrow>
   int \<times> transaction_ring" where
  "ring_complete address wake ring len generation slot_index sequence status response response_length =
     (let result = validate_header address ring len generation in
      if result \<noteq> 0 \<or> slot_index \<ge> tr_slot_count ring \<or> sequence = 0 \<or> sint status > 0 \<or>
         response_length > RING_RESPONSE_BYTES \<or> (response_length \<noteq> 0 \<and> response = None) \<or>
         (status \<noteq> 0 \<and> response_length \<noteq> 0)
      then (if result \<noteq> 0 then result else neg EINVAL, ring) else
      let slot = tr_slots ring ! unat slot_index in
      if ts_sequence slot \<noteq> sequence \<or> ts_state slot \<noteq> SLOT_REQUESTED then (neg ESTALE, ring) else
      let slot = slot\<lparr>ts_status := status, ts_response_length := response_length\<rparr>;
          slot = (if response_length \<noteq> 0
                  then slot\<lparr>ts_response := take (unat response_length) (the response) @
                                          drop (unat response_length) (ts_response slot)\<rparr>
                  else slot);
          slot = slot\<lparr>ts_state := SLOT_COMPLETED\<rparr>;
          ring = ring\<lparr>tr_slots := (tr_slots ring)[unat slot_index := slot],
                      tr_completion_sequence := sequence\<rparr> in
      (wake_if_sleeping wake (tr_completion_wait_state ring), ring))"

datatype ring_side = Client | Service

fun ring_set_status :: "ring_side \<Rightarrow> i32 \<Rightarrow> transaction_ring \<Rightarrow> transaction_ring" where
  "ring_set_status Client status ring = ring\<lparr>tr_client_status := status\<rparr>"
| "ring_set_status Service status ring = ring\<lparr>tr_service_status := status\<rparr>"

text \<open>\<^verbatim>\<open>fail_peer\<close>, with \<^verbatim>\<open>fail_client\<close> and \<^verbatim>\<open>fail_service\<close> as its two sides.\<close>

definition fail_peer ::
  "nat \<Rightarrow> syscall \<Rightarrow> syscall \<Rightarrow> ring_side \<Rightarrow> transaction_ring \<Rightarrow> i32 \<Rightarrow> int \<times> transaction_ring" where
  "fail_peer address wake wake' side ring status =
     (let result = validate_header address ring RING_REGION_BYTES 0 in
      if result \<noteq> 0 then (result, ring)
      else if sint status \<ge> 0 then (neg EINVAL, ring)
      else
        let ring = ring_set_status side status ring;
            result = futex_wake wake; completion_result = futex_wake wake' in
        (if result \<noteq> 0 then result else completion_result, ring))"

subsection \<open>Lease banks\<close>

definition lease_bank_disable :: "nat \<Rightarrow> transaction_ring \<Rightarrow> nat \<Rightarrow> u32 \<Rightarrow> int \<times> transaction_ring" where
  "lease_bank_disable address ring len bank_index =
     (let result = validate_header address ring len 0 in
      if result \<noteq> 0 \<or> bank_index \<ge> LEASE_BANK_COUNT
      then (if result \<noteq> 0 then result else neg EINVAL, ring)
      else (0, ring\<lparr>tr_banks := (tr_banks ring)[unat bank_index := zero_bank]\<rparr>))"

definition lease_bank_publish ::
  "nat \<Rightarrow> transaction_ring \<Rightarrow> nat \<Rightarrow> u32 \<Rightarrow> u64 \<Rightarrow> u64 \<Rightarrow> lease_record list option \<Rightarrow> u32 \<Rightarrow>
   int \<times> transaction_ring" where
  "lease_bank_publish address ring len bank_index pool_id epoch records cnt =
     (let result = validate_header address ring len 0 in
      if result \<noteq> 0 \<or> bank_index \<ge> LEASE_BANK_COUNT \<or> pool_id = 0 \<or> epoch = 0 \<or> records = None \<or>
         cnt = 0 \<or> cnt > LEASE_BANK_CAPACITY
      then (if result \<noteq> 0 then result else neg EINVAL, ring)
      else if list_ex (\<lambda>index. le_layout_id (the records ! index) = 0 \<or>
                               le_descriptor_set_id (the records ! index) = 0) [0..<unat cnt]
      then (neg EINVAL, ring)
      else
        let bank = zero_bank\<lparr>lb_pool_id := pool_id, lb_epoch := epoch, lb_count := cnt,
              lb_records := take (unat cnt) (the records) @ drop (unat cnt) (lb_records zero_bank),
              lb_ready := LEASE_BANK_READY\<rparr> in
        (0, ring\<lparr>tr_banks := (tr_banks ring)[unat bank_index := bank]\<rparr>))"

text \<open>The bank \<open>bank\<close> can serve the claim: the next leases in it have the wanted layouts.\<close>

definition bank_serves :: "lease_bank \<Rightarrow> u64 \<Rightarrow> u64 list \<Rightarrow> u32 \<Rightarrow> bool" where
  "bank_serves bank pool_id layout_ids cnt \<longleftrightarrow>
     \<not> (lb_ready bank \<noteq> LEASE_BANK_READY \<or> lb_pool_id bank \<noteq> pool_id) \<and>
     \<not> (lb_cursor bank > lb_count bank \<or> cnt > lb_count bank - lb_cursor bank) \<and>
     list_all (\<lambda>index. let record = lb_records bank ! (unat (lb_cursor bank) + index) in
       \<not> (le_layout_id record \<noteq> layout_ids ! index \<or> le_descriptor_set_id record = 0)) [0..<unat cnt]"

definition bank_take :: "lease_bank \<Rightarrow> u32 \<Rightarrow> u64 list" where
  "bank_take bank cnt =
     map (\<lambda>index. le_descriptor_set_id (lb_records bank ! (unat (lb_cursor bank) + index))) [0..<unat cnt]"

text \<open>The loop over the banks, with \<open>n\<close> left: status, banks, descriptor sets, epoch.\<close>

fun claim_loop ::
  "lease_bank list \<Rightarrow> u64 \<Rightarrow> u64 list \<Rightarrow> u32 \<Rightarrow> nat \<Rightarrow> nat \<Rightarrow>
   int \<times> lease_bank list \<times> u64 list \<times> u64" where
  "claim_loop banks pool_id layout_ids cnt 0 bank_index = (neg ENOENT, banks, [], 0)"
| "claim_loop banks pool_id layout_ids cnt (Suc n) bank_index =
     (let bank = banks ! bank_index in
      if \<not> bank_serves bank pool_id layout_ids cnt
      then claim_loop banks pool_id layout_ids cnt n (bank_index + 1)
      else (0, banks[bank_index := bank\<lparr>lb_cursor := lb_cursor bank + cnt\<rparr>],
            bank_take bank cnt, lb_epoch bank))"

definition lease_claim ::
  "nat \<Rightarrow> transaction_ring \<Rightarrow> nat \<Rightarrow> u64 \<Rightarrow> u64 list option \<Rightarrow> u32 \<Rightarrow> u64 list option \<Rightarrow>
   int \<times> transaction_ring \<times> u64 list \<times> u64" where
  "lease_claim address ring len pool_id layout_ids cnt descriptor_set_ids =
     (let result = validate_header address ring len 0 in
      if result \<noteq> 0 \<or> pool_id = 0 \<or> layout_ids = None \<or> cnt = 0 \<or> cnt > LEASE_MAX_CLAIM \<or>
         descriptor_set_ids = None
      then (if result \<noteq> 0 then result else neg EINVAL, ring, [], 0)
      else case claim_loop (tr_banks ring) pool_id (the layout_ids) cnt LEASE_BANK_COUNT 0 of
        (result, banks, ids, epoch) \<Rightarrow> (result, ring\<lparr>tr_banks := banks\<rparr>, ids, epoch))"

definition lease_bank_cursor ::
  "nat \<Rightarrow> transaction_ring \<Rightarrow> nat \<Rightarrow> u32 \<Rightarrow> u32 option \<Rightarrow> u32 option \<Rightarrow> int + (u32 \<times> u32)" where
  "lease_bank_cursor address ring len bank_index cursor cnt =
     (let result = validate_header address ring len 0 in
      if result \<noteq> 0 \<or> bank_index \<ge> LEASE_BANK_COUNT \<or> cursor = None \<or> cnt = None
      then Inl (if result \<noteq> 0 then result else neg EINVAL) else
      let bank = tr_banks ring ! unat bank_index in
      if lb_ready bank \<noteq> LEASE_BANK_READY then Inl (neg ENOENT)
      else if lb_cursor bank \<le> lb_count bank then Inr (lb_cursor bank, lb_count bank)
      else Inl (neg EPROTO))"

subsection \<open>A wait returns\<close>

lemma sleep_returns:
  assumes "\<And>d n. \<exists>i \<ge> n. d \<le> sv_now_ns (view i)"
  shows "\<exists>r. poll_loop view (sleep_body e d) i = Some r"
proof -
  obtain k where k: "k \<ge> i" "d \<le> sv_now_ns (view k)" using assms by blast
  then have "sleep_body e d k (view k) \<noteq> None"
    using futex_wait_until_expired [of "sv_now_ns (view k)" d] by (auto simp: sleep_body_def Let_def)
  then show ?thesis using poll_loop_returns [of i k "sleep_body e d" view] k(1) by auto
qed

lemma spin_returns:
  assumes "\<And>d n. \<exists>i \<ge> n. d \<le> sv_now_ns (view i)" "mono (\<lambda>i. sv_now_ns (view i))"
  shows "\<exists>r. poll_loop view (spin_body e d) i = Some r"
proof -
  obtain k where k: "k \<ge> i" "d \<le> sv_now_ns (view k)" using assms(1) by blast
  let ?k = "64 * k"
  have "sv_now_ns (view k) \<le> sv_now_ns (view ?k)" by (rule monoD [OF assms(2)]) simp
  then have "spin_body e d ?k (view ?k) \<noteq> None" using k(2) by (auto simp: spin_body_def Let_def)
  then show ?thesis using poll_loop_returns [of i ?k "spin_body e d" view] k(1) by auto
qed

lemma wait_for_sequence_returns:
  assumes "\<And>d n. \<exists>i \<ge> n. d \<le> sv_now_ns (view i)" "mono (\<lambda>i. sv_now_ns (view i))"
  shows "\<exists>r. wait_for_sequence view s e d = Some r"
proof -
  obtain r where "poll_loop view (spin_body e (if s + 250000 < s \<or> s + 250000 > d then d else s + 250000)) 1 = Some r"
    using spin_returns [OF assms] by blast
  then show ?thesis
    using sleep_returns [OF assms(1)]
    by (cases r) (auto simp: wait_for_sequence_def Let_def)
qed

text \<open>A wait that succeeds has seen the sequence, and always leaves its wait state idle.\<close>

lemma wait_for_sequence_result:
  assumes "wait_for_sequence view s e d = Some (0, stores)"
  shows "\<exists>i. e \<le> sv_word (view i) \<and> view_status (view i) = 0"
  using assms
  by (auto simp: wait_for_sequence_def Let_def spin_body_def sleep_body_def
      dest!: poll_loop_result split: if_splits option.splits sum.splits)

lemma wait_leaves_idle:
  "wait_for_sequence view s e d = Some (r, stores) \<Longrightarrow> stored WAIT_IDLE stores = WAIT_IDLE"
  by (auto simp: wait_for_sequence_def Let_def stored_def split: if_splits option.splits sum.splits)

subsection \<open>One transaction from end to end\<close>

definition ring_wf :: "transaction_ring \<Rightarrow> bool" where
  "ring_wf r \<longleftrightarrow> length (tr_slots r) = RING_SLOT_COUNT \<and> length (tr_banks r) = LEASE_BANK_COUNT \<and>
     tr_slot_count r \<noteq> 0 \<and> tr_slot_count r \<le> RING_SLOT_COUNT"

lemma ring_initialize_wf:
  assumes "ring_initialize a n k g = Inr r"
  shows "ring_wf r \<and> validate_header a r n g = 0 \<and> ring_validate a r n g = 0"
proof -
  have r: "r = \<lparr>tr_magic = RING_MAGIC, tr_version = RING_VERSION, tr_control_bytes = RING_CONTROL_BYTES,
                tr_slot_count = k, tr_flags = 0, tr_generation = g,
                tr_request_sequence = 0, tr_completion_sequence = 0, tr_client_status = 0,
                tr_service_status = 0, tr_next_slot = 0, tr_request_wait_state = 0,
                tr_completion_wait_state = 0, tr_slots = replicate RING_SLOT_COUNT zero_slot,
                tr_banks = replicate LEASE_BANK_COUNT zero_bank\<rparr>"
    and args: "a \<noteq> 0" "a mod 8 = 0" "n = RING_REGION_BYTES" "k \<noteq> 0" "k \<le> 16" "g \<noteq> 0"
    using assms by (auto simp: ring_initialize_def split: if_splits)
  have wf: "ring_wf r" using args by (simp add: r ring_wf_def)
  have header: "validate_header a r n g = 0" using args by (simp add: r validate_header_def)
  have "tr_slots r ! i = zero_slot" if "i < unat k" for i
    using that args(5) by (simp add: r word_le_nat_alt)
  moreover have "\<not> slot_malformed zero_slot" "\<not> bank_malformed zero_bank"
    by (simp_all add: slot_malformed_def bank_malformed_def zero_slot_def zero_bank_def)
  ultimately have "ring_validate a r n g = 0"
    using header args by (auto simp: ring_validate_def list_ex_iff) (auto simp: r)
  then show ?thesis using wf header by simp
qed

lemma slot_index:
  assumes "ring_wf r"
  shows "unat (x mod tr_slot_count r) < 16" "x mod tr_slot_count r < tr_slot_count r"
proof -
  have "0 < unat (tr_slot_count r)" "unat (tr_slot_count r) \<le> 16"
    using assms by (auto simp: ring_wf_def word_le_nat_alt unat_gt_0)
  then show "unat (x mod tr_slot_count r) < 16" "x mod tr_slot_count r < tr_slot_count r"
    using mod_less_divisor [of "unat (tr_slot_count r)" "unat x"]
    by (simp_all add: unat_mod word_less_nat_alt del: mod_less_divisor)
qed

text \<open>The slot a submitted request is in.\<close>

definition requested_slot :: "u32 \<Rightarrow> bytes \<Rightarrow> u32 \<Rightarrow> transaction_slot" where
  "requested_slot sequence request n = zero_slot
     \<lparr>ts_request := take (unat n) request @ drop (unat n) (ts_request zero_slot),
      ts_request_length := n, ts_sequence := sequence, ts_state := SLOT_REQUESTED\<rparr>"

lemma submit_ok:
  assumes "ring_call_submit a w r len g s (Some req) n out outl t = Inr (r1, woken)"
  shows "r1 = r\<lparr>tr_slots := (tr_slots r)[unat ((s - 1) mod tr_slot_count r) := requested_slot s req n],
             tr_request_sequence := s\<rparr>"
    and "s \<noteq> 0" "n \<noteq> 0" "n \<le> RING_REQUEST_BYTES" "validate_header a r len g = 0"
    and "ts_state (tr_slots r ! unat ((s - 1) mod tr_slot_count r)) = SLOT_AVAILABLE"
  using assms
  by (auto simp: ring_call_submit_def Let_def requested_slot_def not_less split: if_splits)

lemma take_request_submitted:
  assumes "ring_wf r" and sub: "ring_call_submit a w r len g s (Some req) n out outl t = Inr (r1, woken)"
    and "unat n \<le> length req" "n \<le> cap"
  shows "take_request r1 s cap = Inr (take (unat n) req, (s - 1) mod tr_slot_count r, s)"
proof -
  note ok = submit_ok [OF sub]
  have "take (unat n) (ts_request (requested_slot s req n)) = take (unat n) req"
    using assms(3) by (simp add: requested_slot_def)
  then show ?thesis
    using assms slot_index [OF assms(1), of "s - 1"] ok(3)
    by (simp add: take_request_def Let_def ok(1) ring_wf_def not_less)
      (simp add: requested_slot_def)
qed

lemma complete_submitted:
  assumes wf: "ring_wf r" and sub: "ring_call_submit a w r len g s (Some req) n out outl t = Inr (r1, woken)"
    and "unat m \<le> length resp" "m \<le> RING_RESPONSE_BYTES"
  defines "k \<equiv> (s - 1) mod tr_slot_count r"
  shows "\<exists>r2. ring_complete a w' r1 len g k s 0 (Some resp) m =
      (wake_if_sleeping w' (tr_completion_wait_state r), r2) \<and>
    tr_slots r2 = (tr_slots r)[unat k := requested_slot s req n
      \<lparr>ts_status := 0, ts_response_length := m,
       ts_response := take (unat m) resp @ drop (unat m) (ts_response zero_slot),
       ts_state := SLOT_COMPLETED\<rparr>] \<and>
    tr_completion_sequence r2 = s \<and> tr_slot_count r2 = tr_slot_count r"
proof -
  note ok = submit_ok [OF sub]
  have "validate_header a r1 len g = 0" using ok(5) by (simp add: ok(1) validate_header_def)
  moreover have "take 0 resp @ drop 0 (ts_response zero_slot) = ts_response zero_slot" by simp
  ultimately show ?thesis
    using assms(3,4) slot_index [OF wf, of "s - 1"] wf ok(2)
    by (simp add: ring_complete_def Let_def ok(1) k_def ring_wf_def not_le not_less)
      (auto simp: requested_slot_def zero_slot_def)
qed

lemma finish_completed:
  assumes "ring_wf r" and k: "k < 16"
    and slots: "tr_slots r2 = (tr_slots r)[k := requested_slot s req n
      \<lparr>ts_status := 0, ts_response_length := m,
       ts_response := take (unat m) resp @ drop (unat m) (ts_response zero_slot),
       ts_state := SLOT_COMPLETED\<rparr>]"
    and "unat m \<le> length resp" "m \<le> cap" "unat i = k"
  shows "\<exists>r3. ring_call_finish r2 i s cap = (0, r3, Some (take (unat m) resp)) \<and>
    tr_slots r3 = (tr_slots r)[k := zero_slot] \<and> tr_next_slot r3 = (i + 1) mod tr_slot_count r2"
  using assms
  by (simp add: ring_call_finish_def Let_def ring_wf_def not_less)
    (simp add: requested_slot_def zero_slot_def)

text \<open>
  The client's call against a service that answers it: the client gets the service's response, and
  the slot is free again.
\<close>

lemma ring_transaction:
  assumes wf: "ring_wf r"
    and sub: "ring_call_submit a w r len g s (Some req) n out outl t = Inr (r1, 0)"
    and time: "deadline_from_timeout now t = Inr d"
    and waited: "wait_for_sequence view started s d = Some (0, stores)"
    and resp: "unat m \<le> length resp" "m \<le> RING_RESPONSE_BYTES" "m \<le> cap"
  shows "\<exists>r3. ring_call a w now started view
      (\<lambda>r1. snd (ring_complete a w' r1 len g ((s - 1) mod tr_slot_count r) s 0 (Some resp) m))
      r len g s (Some req) n out cap outl t = Some (0, r3, Some (take (unat m) resp)) \<and>
    tr_slots r3 = (tr_slots r)[unat ((s - 1) mod tr_slot_count r) := zero_slot]"
proof -
  let ?k = "(s - 1) mod tr_slot_count r"
  obtain r2 where r2: "ring_complete a w' r1 len g ?k s 0 (Some resp) m =
      (wake_if_sleeping w' (tr_completion_wait_state r), r2)"
    and slots: "tr_slots r2 = (tr_slots r)[unat ?k := requested_slot s req n
      \<lparr>ts_status := 0, ts_response_length := m,
       ts_response := take (unat m) resp @ drop (unat m) (ts_response zero_slot),
       ts_state := SLOT_COMPLETED\<rparr>]"
    using complete_submitted [OF wf sub resp(1,2)] by blast
  let ?r2 = "r2\<lparr>tr_completion_wait_state := stored (tr_completion_wait_state r2) stores\<rparr>"
  have slots': "tr_slots ?r2 = (tr_slots r)[unat ?k := requested_slot s req n
      \<lparr>ts_status := 0, ts_response_length := m,
       ts_response := take (unat m) resp @ drop (unat m) (ts_response zero_slot),
       ts_state := SLOT_COMPLETED\<rparr>]"
    using slots by simp
  obtain r3 where "ring_call_finish ?r2 ?k s cap = (0, r3, Some (take (unat m) resp))"
      "tr_slots r3 = (tr_slots r)[unat ?k := zero_slot]"
    using finish_completed [OF wf slot_index(1) [OF wf] slots' resp(1,3) refl] by auto
  then show ?thesis by (simp add: ring_call_def sub time waited r2 Let_def)
qed

subsection \<open>A lease is handed out once\<close>

definition bank_ok :: "lease_bank \<Rightarrow> bool" where
  "bank_ok b \<longleftrightarrow> \<not> bank_malformed b \<and> length (lb_records b) = LEASE_BANK_CAPACITY"

text \<open>What is left in a bank.\<close>

definition leases :: "lease_bank \<Rightarrow> lease_record list" where
  "leases b = (if lb_ready b = LEASE_BANK_READY
     then drop (unat (lb_cursor b)) (take (unat (lb_count b)) (lb_records b)) else [])"

lemma bank_claim:
  assumes "bank_ok b" "bank_serves b pool layouts cnt"
  shows "\<exists>given. length given = unat cnt \<and> leases b = given @ leases (b\<lparr>lb_cursor := lb_cursor b + cnt\<rparr>) \<and>
    bank_take b cnt = map le_descriptor_set_id given \<and>
    (\<forall>i < unat cnt. le_layout_id (given ! i) = layouts ! i \<and> le_descriptor_set_id (given ! i) \<noteq> 0) \<and>
    bank_ok (b\<lparr>lb_cursor := lb_cursor b + cnt\<rparr>)"
proof -
  let ?cur = "unat (lb_cursor b)" and ?c = "unat cnt" and ?n = "unat (lb_count b)"
  have ready: "lb_ready b = LEASE_BANK_READY" and le: "lb_cursor b \<le> lb_count b"
    and fits: "cnt \<le> lb_count b - lb_cursor b"
    using assms(2) by (auto simp: bank_serves_def not_less)
  have n: "?n \<le> 64" "length (lb_records b) = 64"
    using assms(1) by (auto simp: bank_ok_def bank_malformed_def not_less word_le_nat_alt)
  have sum: "?cur + ?c \<le> ?n"
    using fits le by (simp add: word_le_nat_alt unat_sub)
  then have cursor: "unat (lb_cursor b + cnt) = ?cur + ?c"
    using n by (simp add: unat_word_ariths)
  define given where "given = take ?c (drop ?cur (lb_records b))"
  have nth: "given ! i = lb_records b ! (?cur + i)" if "i < ?c" for i
    using that sum n by (simp add: given_def)
  have "leases b = given @ leases (b\<lparr>lb_cursor := lb_cursor b + cnt\<rparr>)"
  proof -
    let ?l = "drop ?cur (take ?n (lb_records b))"
    have "take ?c ?l = given"
      using sum by (simp add: given_def drop_take)
    moreover have "drop ?c ?l = drop (?cur + ?c) (take ?n (lb_records b))"
      by (simp add: add.commute)
    ultimately show ?thesis
      using append_take_drop_id [of ?c ?l] by (simp add: leases_def ready cursor)
  qed
  moreover have "length given = ?c" using sum n by (simp add: given_def)
  moreover have "bank_take b cnt = map le_descriptor_set_id given"
    using \<open>length given = ?c\<close> nth by (intro nth_equalityI) (auto simp: bank_take_def)
  moreover have "bank_ok (b\<lparr>lb_cursor := lb_cursor b + cnt\<rparr>)"
    using assms(1) sum cursor by (auto simp: bank_ok_def bank_malformed_def not_less word_le_nat_alt)
  moreover have "\<forall>i < ?c. le_layout_id (given ! i) = layouts ! i \<and> le_descriptor_set_id (given ! i) \<noteq> 0"
    using assms(2) nth by (auto simp: bank_serves_def list_all_iff Let_def)
  ultimately show ?thesis by blast
qed

lemma claim_loop_cases:
  assumes "claim_loop banks pool layouts cnt n k = (st, banks', ids, epoch)" "k + n \<le> length banks"
  shows "st = neg ENOENT \<and> banks' = banks \<and> (\<forall>j. k \<le> j \<longrightarrow> j < k + n \<longrightarrow> \<not> bank_serves (banks ! j) pool layouts cnt)
    \<or> st = 0 \<and> (\<exists>j < length banks. bank_serves (banks ! j) pool layouts cnt \<and>
        banks' = banks[j := (banks ! j)\<lparr>lb_cursor := lb_cursor (banks ! j) + cnt\<rparr>] \<and>
        ids = bank_take (banks ! j) cnt \<and> epoch = lb_epoch (banks ! j))"
  using assms
proof (induction n arbitrary: k)
  case (Suc n)
  show ?case
  proof (cases "bank_serves (banks ! k) pool layouts cnt")
    case True
    then show ?thesis using Suc.prems by (auto simp: Let_def intro!: exI [of _ k])
  next
    case False
    then have "claim_loop banks pool layouts cnt n (k + 1) = (st, banks', ids, epoch)"
      using Suc.prems(1) by (simp add: Let_def)
    from Suc.IH [OF this] Suc.prems(2) False show ?thesis
      unfolding all_range_Suc by (auto simp: Suc_le_eq)
  qed
qed simp

definition all_leases :: "transaction_ring \<Rightarrow> lease_record multiset" where
  "all_leases r = (\<Sum>b \<leftarrow> tr_banks r. mset (leases b))"

lemma sum_list_update_mset:
  fixes f :: "'b \<Rightarrow> 'a multiset"
  assumes "j < length xs" "f (xs ! j) = m + f y"
  shows "(\<Sum>x \<leftarrow> xs. f x) = m + (\<Sum>x \<leftarrow> xs[j := y]. f x)"
  using assms
proof (induction xs arbitrary: j)
  case (Cons x xs)
  then show ?case by (cases j) (auto simp: ac_simps)
qed simp

lemma lease_claim_spec:
  assumes wf: "ring_wf r" and ok: "\<forall>b \<in> set (tr_banks r). bank_ok b"
    and claim: "lease_claim a r len pool (Some layouts) cnt (Some out) = (0, r', ids, epoch)"
  shows "\<exists>given. length given = unat cnt \<and> ids = map le_descriptor_set_id given \<and>
    (\<forall>i < unat cnt. le_layout_id (given ! i) = layouts ! i \<and> ids ! i \<noteq> 0) \<and>
    all_leases r = mset given + all_leases r' \<and> (\<forall>b \<in> set (tr_banks r'). bank_ok b) \<and> ring_wf r'"
proof -
  obtain st banks' ids' epoch' where
    loop: "claim_loop (tr_banks r) pool layouts cnt LEASE_BANK_COUNT 0 = (st, banks', ids', epoch')"
    by (rule prod_cases4)
  then have st: "st = 0" and r': "r' = r\<lparr>tr_banks := banks'\<rparr>" and ids': "ids' = ids"
    using claim by (auto simp: lease_claim_def Let_def simp del: claim_loop.simps split: if_splits)
  have "0 + LEASE_BANK_COUNT \<le> length (tr_banks r)" using wf by (simp add: ring_wf_def)
  from claim_loop_cases [OF loop this] st obtain j where j: "j < length (tr_banks r)"
      "bank_serves (tr_banks r ! j) pool layouts cnt"
    and banks': "banks' = (tr_banks r)[j := (tr_banks r ! j)\<lparr>lb_cursor := lb_cursor (tr_banks r ! j) + cnt\<rparr>]"
    and ids: "ids = bank_take (tr_banks r ! j) cnt"
    using ids' by auto
  let ?b = "tr_banks r ! j"
  have "bank_ok ?b" using ok j(1) by simp
  from bank_claim [OF this j(2)] obtain given where given: "length given = unat cnt"
      "leases ?b = given @ leases (?b\<lparr>lb_cursor := lb_cursor ?b + cnt\<rparr>)"
      "bank_take ?b cnt = map le_descriptor_set_id given"
      "\<forall>i < unat cnt. le_layout_id (given ! i) = layouts ! i \<and> le_descriptor_set_id (given ! i) \<noteq> 0"
      "bank_ok (?b\<lparr>lb_cursor := lb_cursor ?b + cnt\<rparr>)"
    by blast
  have "all_leases r = mset given + all_leases r'"
    unfolding all_leases_def r' banks'
    using sum_list_update_mset [OF j(1), of "\<lambda>b. mset (leases b)" "mset given"] given(2) by simp
  moreover have "\<forall>b \<in> set (tr_banks r'). bank_ok b"
    using ok given(5) set_update_subset_insert [of "tr_banks r" j] by (auto simp: r' banks')
  moreover have "ring_wf r'" using wf by (simp add: r' banks' ring_wf_def)
  ultimately show ?thesis using given ids by auto
qed

text \<open>A run of claims: the pool, the layouts, and how many are claimed, for each.\<close>

fun claim_run ::
  "nat \<Rightarrow> nat \<Rightarrow> transaction_ring \<Rightarrow> (u64 \<times> u64 list \<times> u32) list \<Rightarrow> transaction_ring \<times> u64 list" where
  "claim_run a len r [] = (r, [])"
| "claim_run a len r ((pool, layouts, cnt) # claims) =
     (case lease_claim a r len pool (Some layouts) cnt (Some []) of
        (status, r', ids, _) \<Rightarrow>
          if status = 0 then map_prod id (\<lambda>rest. ids @ rest) (claim_run a len r' claims)
          else claim_run a len r claims)"

lemma claim_run_leases:
  assumes "ring_wf r" "\<forall>b \<in> set (tr_banks r). bank_ok b" "claim_run a len r claims = (r', ids)"
  shows "image_mset le_descriptor_set_id (all_leases r) =
    mset ids + image_mset le_descriptor_set_id (all_leases r')"
  using assms
proof (induction claims arbitrary: r ids)
  case (Cons c claims)
  obtain pool layouts cnt where c: "c = (pool, layouts, cnt)" by (rule prod_cases3)
  obtain status r1 ids1 ep where claim:
    "lease_claim a r len pool (Some layouts) cnt (Some []) = (status, r1, ids1, ep)"
    by (rule prod_cases4)
  show ?case
  proof (cases "status = 0")
    case True
    then obtain ids2 where rest: "claim_run a len r1 claims = (r', ids2)" "ids = ids1 @ ids2"
      using Cons.prems(3) c claim by (cases "claim_run a len r1 claims") auto
    from lease_claim_spec [OF Cons.prems(1,2)] claim True obtain given where
      "ids1 = map le_descriptor_set_id given" "all_leases r = mset given + all_leases r1"
      "\<forall>b \<in> set (tr_banks r1). bank_ok b" "ring_wf r1"
      by blast
    then show ?thesis using Cons.IH [OF _ _ rest(1)] rest(2) by (simp add: add.assoc)
  next
    case False
    then show ?thesis using Cons c claim by simp
  qed
qed simp

text \<open>When no descriptor set is leased twice, none is handed out twice.\<close>

lemma claim_run_distinct:
  assumes "ring_wf r" "\<forall>b \<in> set (tr_banks r). bank_ok b" "claim_run a len r claims = (r', ids)"
    and "\<And>x. count (image_mset le_descriptor_set_id (all_leases r)) x \<le> 1"
  shows "distinct ids"
proof -
  have "count (mset ids) x \<le> 1" for x
    using claim_run_leases [OF assms(1-3)] assms(4) [of x] by (simp add: le_trans [OF le_add1])
  moreover have "0 < count (mset ids) x" if "x \<in> set ids" for x using that by simp
  ultimately have "count (mset ids) x = (if x \<in> set ids then 1 else 0)" for x
    by (metis count_eq_zero_iff le_antisym less_one not_less set_mset_mset)
  then show ?thesis by (simp add: distinct_count_atmost_1)
qed

lemma publish_args:
  assumes "lease_bank_publish a r len k pool ep (Some recs) n = (0, r')"
  shows "validate_header a r len 0 = 0 \<and> \<not> LEASE_BANK_COUNT \<le> k \<and> pool \<noteq> 0 \<and> ep \<noteq> 0 \<and> n \<noteq> 0 \<and>
    \<not> LEASE_BANK_CAPACITY < n"
proof (rule ccontr)
  assume "\<not> ?thesis"
  then have "fst (lease_bank_publish a r len k pool ep (Some recs) n) \<noteq> 0"
    by (auto simp: lease_bank_publish_def Let_def)
  with assms show False by simp
qed

lemma leases_published:
  assumes pub: "lease_bank_publish a r len k pool ep (Some recs) n = (0, r')" and wf: "ring_wf r"
    and n: "unat n \<le> length recs"
  shows "leases (tr_banks r' ! unat k) = take (unat n) recs \<and> bank_ok (tr_banks r' ! unat k) \<and>
    (\<forall>j. j \<noteq> unat k \<longrightarrow> tr_banks r' ! j = tr_banks r ! j)"
proof -
  let ?b = "zero_bank\<lparr>lb_pool_id := pool, lb_epoch := ep, lb_count := n,
      lb_records := take (unat n) recs @ drop (unat n) (lb_records zero_bank), lb_ready := LEASE_BANK_READY\<rparr>"
  note args = publish_args [OF pub]
  have r': "r' = r\<lparr>tr_banks := (tr_banks r)[unat k := ?b]\<rparr>"
    using pub args by (simp add: lease_bank_publish_def split: if_splits)
  have "unat k < length (tr_banks r)" "unat n \<le> 64"
    using args wf by (simp_all add: ring_wf_def word_le_nat_alt word_less_nat_alt)
  then show ?thesis
    using n args by (simp add: r' leases_def bank_ok_def bank_malformed_def zero_bank_def)
qed

subsection \<open>A bank just published\<close>

lemma claim_loop_none:
  "\<forall>j. k \<le> j \<longrightarrow> j < k + n \<longrightarrow> \<not> bank_serves (banks ! j) pool layouts cnt \<Longrightarrow>
   claim_loop banks pool layouts cnt n k = (neg ENOENT, banks, [], 0)"
  by (induction n arbitrary: k) (auto simp: Let_def)

lemma claim_loop_first:
  "0 < n \<Longrightarrow> bank_serves (banks ! k) pool layouts cnt \<Longrightarrow> claim_loop banks pool layouts cnt n k =
     (0, banks[k := (banks ! k)\<lparr>lb_cursor := lb_cursor (banks ! k) + cnt\<rparr>], bank_take (banks ! k) cnt,
      lb_epoch (banks ! k))"
  by (cases n) (simp_all add: Let_def)

lemma published_bank:
  assumes pub: "lease_bank_publish a r len k pool ep (Some recs) n = (0, r')" and wf: "ring_wf r"
    and n: "unat n \<le> length recs"
  defines "b \<equiv> tr_banks r' ! unat k"
  shows "lb_ready b = LEASE_BANK_READY \<and> lb_pool_id b = pool \<and> lb_epoch b = ep \<and> lb_count b = n \<and> lb_cursor b = 0"
    and "cnt \<le> n \<Longrightarrow> bank_serves b pool (map le_layout_id recs) cnt"
    and "cnt \<le> n \<Longrightarrow> bank_take b cnt = map le_descriptor_set_id (take (unat cnt) recs)"
proof -
  let ?b = "zero_bank\<lparr>lb_pool_id := pool, lb_epoch := ep, lb_count := n,
      lb_records := take (unat n) recs @ drop (unat n) (lb_records zero_bank), lb_ready := LEASE_BANK_READY\<rparr>"
  note args = publish_args [OF pub]
  have r': "r' = r\<lparr>tr_banks := (tr_banks r)[unat k := ?b]\<rparr>"
    and ids: "\<And>i. i < unat n \<Longrightarrow> le_descriptor_set_id (recs ! i) \<noteq> 0"
    using pub args by (auto simp: lease_bank_publish_def list_ex_iff split: if_splits)
  have "unat k < length (tr_banks r)" using args wf by (simp add: ring_wf_def word_le_nat_alt)
  then have b: "b = ?b" by (simp add: b_def r')
  have nth: "lb_records b ! i = recs ! i" if "i < unat n" for i using that n by (simp add: b nth_append)
  show head: "lb_ready b = LEASE_BANK_READY \<and> lb_pool_id b = pool \<and> lb_epoch b = ep \<and> lb_count b = n \<and> lb_cursor b = 0"
    by (simp add: b zero_bank_def)
  assume "cnt \<le> n"
  then have le: "unat cnt \<le> unat n" by (simp add: word_le_nat_alt)
  show "bank_serves b pool (map le_layout_id recs) cnt"
    using head \<open>cnt \<le> n\<close> le n nth ids by (auto simp: bank_serves_def list_all_iff Let_def)
  show "bank_take b cnt = map le_descriptor_set_id (take (unat cnt) recs)"
    using head le n nth by (intro nth_equalityI) (auto simp: bank_take_def)
qed

subsection \<open>Properties\<close>

definition sample_transaction_ring :: transaction_ring where
  "sample_transaction_ring = \<lparr>tr_magic = RING_MAGIC, tr_version = RING_VERSION,
     tr_control_bytes = RING_CONTROL_BYTES, tr_slot_count = 4, tr_flags = 0, tr_generation = 9,
     tr_request_sequence = 0, tr_completion_sequence = 0, tr_client_status = 0,
     tr_service_status = 0, tr_next_slot = 0, tr_request_wait_state = 0,
     tr_completion_wait_state = 0, tr_slots = replicate RING_SLOT_COUNT zero_slot,
     tr_banks = replicate LEASE_BANK_COUNT zero_bank\<rparr>"

lemma sample_transaction_ring_init:
  "ring_initialize 4096 RING_REGION_BYTES 4 9 = Inr sample_transaction_ring"
  by (simp add: ring_initialize_def sample_transaction_ring_def)

lemma sample_transaction_ring_wf:
  "ring_wf sample_transaction_ring" "validate_header 4096 sample_transaction_ring RING_REGION_BYTES g = 0 \<longleftrightarrow> g = 0 \<or> g = 9"
  using ring_initialize_wf [OF sample_transaction_ring_init]
  by (auto simp: validate_header_def sample_transaction_ring_def)

text \<open>
  C9: A transaction from end to end. When the client's submission succeeds, the service that looks
  for that sequence finds the slot and reads exactly the bytes the client sent; when the service
  then completes the request and the client's wait succeeds, the client's call returns exactly the
  response bytes, and the slot is free again while every other slot is as before.
\<close>

theorem ring_transaction_end_to_end:
  assumes wf: "ring_wf r"
    and sub: "ring_call_submit a w r len g s (Some req) n out outl t = Inr (r1, 0)"
    and req: "unat n \<le> length req" "n \<le> request_cap"
    and time: "deadline_from_timeout now t = Inr d"
    and waited: "wait_for_sequence view started s d = Some (0, stores)"
    and resp: "unat m \<le> length resp" "m \<le> RING_RESPONSE_BYTES" "m \<le> cap"
  shows "take_request r1 s request_cap = Inr (take (unat n) req, (s - 1) mod tr_slot_count r, s) \<and>
    (\<exists>r3. ring_call a w now started view
        (\<lambda>r1. snd (ring_complete a w' r1 len g ((s - 1) mod tr_slot_count r) s 0 (Some resp) m))
        r len g s (Some req) n out cap outl t = Some (0, r3, Some (take (unat m) resp)) \<and>
      tr_slots r3 = (tr_slots r)[unat ((s - 1) mod tr_slot_count r) := zero_slot])"
  using take_request_submitted [OF wf sub req] ring_transaction [OF wf sub time waited resp] by blast

theorem ring_transaction_end_to_end_witness:
  "\<exists>r3. ring_call 4096 None 0 0
     (\<lambda>_. \<lparr>sv_client_status = 0, sv_service_status = 0, sv_word = 1, sv_now_ns = 0, sv_futex = None\<rparr>)
     (\<lambda>r1. snd (ring_complete 4096 None r1 RING_REGION_BYTES 9 ((1 - 1) mod tr_slot_count sample_transaction_ring)
        1 0 (Some [5, 6, 7]) 2))
     sample_transaction_ring RING_REGION_BYTES 9 1 (Some [1, 2]) 2 (Some []) 8 (Some 0) 10 =
       Some (0, r3, Some [5, 6])"
proof -
  let ?view = "\<lambda>_ :: nat. \<lparr>sv_client_status = 0, sv_service_status = 0, sv_word = 1, sv_now_ns = 0, sv_futex = None\<rparr>"
  have slots: "tr_slots sample_transaction_ring ! 0 = zero_slot"
    by (simp add: sample_transaction_ring_def)
  obtain r1 where sub: "ring_call_submit 4096 None sample_transaction_ring RING_REGION_BYTES 9 1 (Some [1, 2]) 2
      (Some []) (Some 0) 10 = Inr (r1, 0)"
    using sample_transaction_ring_wf(2) [of 9] slots
    by (simp add: ring_call_submit_def ring_peer_status_def)
      (simp add: sample_transaction_ring_def zero_slot_def wake_if_sleeping_def)
  have time: "deadline_from_timeout 0 10 = Inr 10000000" by code_simp
  have waited: "wait_for_sequence ?view 0 1 10000000 = Some (0, [])"
    by (simp add: wait_for_sequence_def view_status_def)
  show ?thesis
    using ring_transaction_end_to_end [OF sample_transaction_ring_wf(1) sub _ _ time waited, of 2 2 "[5, 6, 7]" 8 None]
    by auto
qed

text \<open>
  C10: A descriptor-set lease is handed out at most once: over any sequence of claims, for any pools
  and layouts, no descriptor set is returned twice, provided the banks were published without
  duplicates. Together with what is left in the banks, the claims account for every lease.
\<close>

theorem leases_handed_out_once:
  assumes "ring_wf r" "\<forall>b \<in> set (tr_banks r). bank_ok b" "claim_run a len r claims = (r', ids)"
    and "\<And>x. count (image_mset le_descriptor_set_id (all_leases r)) x \<le> 1"
  shows "distinct ids \<and> image_mset le_descriptor_set_id (all_leases r) =
    mset ids + image_mset le_descriptor_set_id (all_leases r')"
  using claim_run_distinct [OF assms] claim_run_leases [OF assms(1-3)] by blast

definition sample_bank :: lease_bank where
  "sample_bank = zero_bank\<lparr>lb_pool_id := 3, lb_epoch := 1, lb_count := 2,
     lb_records := [\<lparr>le_layout_id = 8, le_descriptor_set_id = 21\<rparr>, \<lparr>le_layout_id = 8, le_descriptor_set_id = 22\<rparr>] @
       drop 2 (lb_records zero_bank), lb_ready := LEASE_BANK_READY\<rparr>"

definition sample_leased_ring :: transaction_ring where
  "sample_leased_ring = sample_transaction_ring\<lparr>tr_banks := sample_bank # replicate 63 zero_bank\<rparr>"

lemma sum_list_empty_msets: "sum_list (replicate n {#}) = {#}"
  by (induction n) simp_all

lemma sample_leased_ring_facts:
  "ring_wf sample_leased_ring" "\<forall>b \<in> set (tr_banks sample_leased_ring). bank_ok b"
  "all_leases sample_leased_ring =
     {# \<lparr>le_layout_id = 8, le_descriptor_set_id = 21\<rparr>, \<lparr>le_layout_id = 8, le_descriptor_set_id = 22\<rparr> #}"
proof -
  show "ring_wf sample_leased_ring"
    using sample_transaction_ring_wf(1) by (simp add: ring_wf_def sample_leased_ring_def)
  have ok: "bank_ok zero_bank" "bank_ok sample_bank" by code_simp+
  then show "\<forall>b \<in> set (tr_banks sample_leased_ring). bank_ok b" by (simp add: sample_leased_ring_def)
  have none: "leases zero_bank = []" by (simp add: leases_def zero_bank_def)
  have two: "leases sample_bank =
      [\<lparr>le_layout_id = 8, le_descriptor_set_id = 21\<rparr>, \<lparr>le_layout_id = 8, le_descriptor_set_id = 22\<rparr>]"
    by (simp add: leases_def sample_bank_def zero_bank_def)
  show "all_leases sample_leased_ring =
     {# \<lparr>le_layout_id = 8, le_descriptor_set_id = 21\<rparr>, \<lparr>le_layout_id = 8, le_descriptor_set_id = 22\<rparr> #}"
    by (simp add: all_leases_def sample_leased_ring_def none two sum_list_empty_msets)
qed

theorem leases_handed_out_once_witness:
  "distinct (snd (claim_run 4096 RING_REGION_BYTES sample_leased_ring [(3, [8], 1), (3, [8], 1), (3, [8], 1)]))"
proof -
  obtain r' ids where run: "claim_run 4096 RING_REGION_BYTES sample_leased_ring
      [(3, [8], 1), (3, [8], 1), (3, [8], 1)] = (r', ids)"
    by (rule prod.exhaust)
  have "count (image_mset le_descriptor_set_id (all_leases sample_leased_ring)) x \<le> 1" for x
    by (simp add: sample_leased_ring_facts(3))
  then show ?thesis
    using leases_handed_out_once [OF sample_leased_ring_facts(1,2) run] run by simp
qed

text \<open>
  C14: A wait on a sequence word returns once the clock reaches its deadline, in the spinning phase
  or in the sleeping phase, whatever the peer stores and the kernel answers; when it reports
  success it has seen the sequence with neither side failed, and it always leaves its wait state
  word idle, so that no later store pays for a wake-up nobody needs.
\<close>

theorem ring_wait_total:
  assumes "\<And>d n. \<exists>i \<ge> n. d \<le> sv_now_ns (view i)" "mono (\<lambda>i. sv_now_ns (view i))"
  shows "\<exists>status stores. wait_for_sequence view started expected deadline = Some (status, stores) \<and>
    stored WAIT_IDLE stores = WAIT_IDLE \<and>
    (status = 0 \<longrightarrow> (\<exists>i. expected \<le> sv_word (view i) \<and> view_status (view i) = 0))"
proof -
  obtain status stores where "wait_for_sequence view started expected deadline = Some (status, stores)"
    using wait_for_sequence_returns [OF assms] by fastforce
  then show ?thesis using wait_leaves_idle wait_for_sequence_result by blast
qed

theorem ring_wait_total_witness:
  "\<exists>status stores. wait_for_sequence (\<lambda>i. \<lparr>sv_client_status = 0, sv_service_status = 0, sv_word = 0,
     sv_now_ns = int i, sv_futex = None\<rparr>) 0 1 5 = Some (status, stores) \<and> stored WAIT_IDLE stores = WAIT_IDLE"
proof -
  let ?view = "\<lambda>i. \<lparr>sv_client_status = 0, sv_service_status = 0, sv_word = 0, sv_now_ns = int i, sv_futex = None\<rparr>"
  have "\<exists>i \<ge> n. d \<le> sv_now_ns (?view i)" for d n by (intro exI [of _ "max n (nat d)"]) auto
  moreover have "mono (\<lambda>i. sv_now_ns (?view i))" by (simp add: mono_def)
  ultimately show ?thesis using ring_wait_total [of ?view 0 1 5] by blast
qed



end
