(* ===== verification/Transport.thy ===== *)
theory Transport
  imports Proto_Header "HOL-Library.Multiset"
begin

section \<open>Packets over a socket\<close>

text \<open>
  src/src/transport.c: packets of a header and a payload over a stream socket, with file descriptors
  attached, and the set-up of the sockets.

  A stream socket is what POSIX says it is: bytes arrive in the order they were sent, a read returns
  at least one and at most as many as it was asked for, zero at the end of the stream, or an error,
  of which \<^verbatim>\<open>EINTR\<close> is retried. \<open>stream\<close> is everything the peer sends before it closes; the events
  are what the consecutive calls do, and a function whose events run out is still blocked in a call,
  which is \<open>None\<close>.
\<close>

abbreviation (input) BVB_TRANSPORT_EOF :: int where "BVB_TRANSPORT_EOF \<equiv> 1"
abbreviation (input) BVB_TRANSPORT_MAX_FDS :: nat where "BVB_TRANSPORT_MAX_FDS \<equiv> 8"

record protocol_packet =
  pk_header :: protocol_header
  pk_payload :: bytes

datatype recv_event =
    Deliver nat     \<comment> \<open>up to so many bytes, at least one\<close>
  | Recv_Error int  \<comment> \<open>fails with this error number\<close>

datatype send_event =
    Accept nat      \<comment> \<open>takes up to so many bytes\<close>
  | Send_Error int

definition received_bytes :: "nat \<Rightarrow> nat \<Rightarrow> bytes \<Rightarrow> nat" where
  "received_bytes k wanted stream = min wanted (max 1 (min k (length stream)))"

subsection \<open>Receiving\<close>

text \<open>
  \<^verbatim>\<open>receive_exact\<close> with so many bytes still wanted and \<open>got\<close> already in the buffer: the status, what is
  in the buffer, and what is left of the stream and of the events.
\<close>

fun receive_exact ::
  "recv_event list \<Rightarrow> bytes \<Rightarrow> nat \<Rightarrow> bool \<Rightarrow> bytes \<Rightarrow> (int \<times> bytes \<times> bytes \<times> recv_event list) option" where
  "receive_exact events stream 0 clean_eof_allowed got = Some (0, got, stream, events)"
| "receive_exact [] stream (Suc n) clean_eof_allowed got = None"
| "receive_exact (Deliver k # events) stream (Suc n) clean_eof_allowed got =
     (if stream = []
      then Some (if clean_eof_allowed \<and> got = [] then BVB_TRANSPORT_EOF else neg EPROTO, got, stream, events)
      else
        let received = received_bytes k (Suc n) stream in
        receive_exact events (drop received stream) (Suc n - received) clean_eof_allowed
          (got @ take received stream))"
| "receive_exact (Recv_Error e # events) stream (Suc n) clean_eof_allowed got =
     (if e = errno_code EINTR then receive_exact events stream (Suc n) clean_eof_allowed got
      else Some (- e, got, stream, events))"

text \<open>A control message: whether it carries descriptors, the length of its data, the descriptors.\<close>

record control_message =
  cm_rights :: bool
  cm_bytes :: nat
  cm_descriptors :: "int list"

definition cm_fds :: "control_message \<Rightarrow> int list" where
  "cm_fds header = take (cm_bytes header div 4) (cm_descriptors header)"

definition close_fds :: "int list \<Rightarrow> int list" where
  "close_fds descriptors = filter (\<lambda>fd. fd \<ge> 0) descriptors"

text \<open>
  The loop over the control messages: the descriptors received, whether something was wrong, and the
  descriptors closed.
\<close>

fun control_loop ::
  "nat \<Rightarrow> control_message list \<Rightarrow> int list \<Rightarrow> bool \<Rightarrow> int list \<Rightarrow> int list \<times> bool \<times> int list" where
  "control_loop fd_capacity [] received_fds invalid closed = (received_fds, invalid, closed)"
| "control_loop fd_capacity (header # headers) received_fds invalid closed =
     (if \<not> cm_rights header then control_loop fd_capacity headers received_fds True closed
      else
        let descriptor_count = cm_bytes header div 4 in
        if cm_bytes header mod 4 \<noteq> 0 \<or> descriptor_count > fd_capacity - length received_fds
        then control_loop fd_capacity headers received_fds True (closed @ close_fds (cm_fds header))
        else control_loop fd_capacity headers (received_fds @ cm_fds header) invalid closed)"

datatype message_event =
    Message nat "control_message list" bool  \<comment> \<open>bytes, control messages, truncated\<close>
  | Message_Error int

text \<open>The first call that is not interrupted.\<close>

definition recvmsg_loop :: "message_event list \<Rightarrow> message_event option" where
  "recvmsg_loop calls =
     (case dropWhile (\<lambda>c. c = Message_Error (errno_code EINTR)) calls of [] \<Rightarrow> None | c # _ \<Rightarrow> Some c)"

text \<open>
  \<open>pointers\<close> says that no pointer argument is null. What a call leaves: the status, the caller's packet, the descriptors handed over, those closed, the
  rest of the stream and of the events.
\<close>

record receipt =
  rc_status :: int
  rc_packet :: protocol_packet
  rc_fds :: "int list"
  rc_closed :: "int list"
  rc_stream :: bytes
  rc_events :: "recv_event list"

definition fill :: "bytes \<Rightarrow> bytes \<Rightarrow> bytes" where
  "fill got buffer = got @ drop (length got) buffer"

definition transport_receive_fds ::
  "message_event list \<Rightarrow> recv_event list \<Rightarrow> bytes \<Rightarrow> int \<Rightarrow> bool \<Rightarrow> protocol_packet \<Rightarrow> nat \<Rightarrow> receipt option" where
  "transport_receive_fds calls events stream socket_fd pointers packet fd_capacity =
     (let stop = (\<lambda>status packet fds stream events.
            \<lparr>rc_status = status, rc_packet = packet, rc_fds = [], rc_closed = fds,
             rc_stream = stream, rc_events = events\<rparr>) in
      if socket_fd < 0 \<or> \<not> pointers \<or> fd_capacity = 0 \<or> fd_capacity > BVB_TRANSPORT_MAX_FDS
      then Some (stop (neg EINVAL) packet [] stream events)
      else case recvmsg_loop calls of
        None \<Rightarrow> None
      | Some (Message_Error e) \<Rightarrow> Some (stop (- e) packet [] stream events)
      | Some (Message k headers truncated) \<Rightarrow>
          if stream = [] then Some (stop BVB_TRANSPORT_EOF packet [] stream events)
          else
            let header_bytes = received_bytes k BVB_PROTOCOL_HEADER_SIZE stream;
                wire_header = take header_bytes stream;
                stream = drop header_bytes stream in
            (case control_loop fd_capacity headers [] truncated [] of (received_fds, invalid, closed) \<Rightarrow>
             if invalid \<or> header_bytes > BVB_PROTOCOL_HEADER_SIZE
             then Some (stop (neg EPROTO) packet (closed @ close_fds received_fds) stream events)
             else case receive_exact events stream (BVB_PROTOCOL_HEADER_SIZE - header_bytes) False [] of
               None \<Rightarrow> None
             | Some (result, got, stream, events) \<Rightarrow>
                 if result \<noteq> 0
                 then Some (stop result packet (closed @ close_fds received_fds) stream events)
                 else case decode_header (Some (wire_header @ got)) (Some (pk_header packet)) of
                   Inl e \<Rightarrow> Some (stop (neg e) packet (closed @ close_fds received_fds) stream events)
                 | Inr header \<Rightarrow>
                     (case receive_exact events stream (unat (ph_payload_length header)) False [] of
                        None \<Rightarrow> None
                      | Some (result, got, stream, events) \<Rightarrow>
                          let packet = \<lparr>pk_header = header, pk_payload = fill got (pk_payload packet)\<rparr> in
                          if result \<noteq> 0
                          then Some (stop result packet (closed @ close_fds received_fds) stream events)
                          else Some \<lparr>rc_status = 0, rc_packet = packet, rc_fds = received_fds,
                                     rc_closed = closed, rc_stream = stream, rc_events = events\<rparr>)))"

definition transport_receive_fd ::
  "message_event list \<Rightarrow> recv_event list \<Rightarrow> bytes \<Rightarrow> int \<Rightarrow> bool \<Rightarrow> protocol_packet \<Rightarrow> receipt option" where
  "transport_receive_fd calls events stream socket_fd pointers packet =
     transport_receive_fds calls events stream socket_fd pointers packet 1"

text \<open>A packet that must not carry a descriptor.\<close>

definition transport_receive ::
  "message_event list \<Rightarrow> recv_event list \<Rightarrow> bytes \<Rightarrow> int \<Rightarrow> bool \<Rightarrow> protocol_packet \<Rightarrow> receipt option" where
  "transport_receive calls events stream socket_fd pointers packet =
     map_option (\<lambda>r.
       if rc_status r \<noteq> 0 then r
       else case rc_fds r of
         descriptor # _ \<Rightarrow>
           if descriptor \<ge> 0
           then r\<lparr>rc_status := neg EPROTO, rc_fds := [], rc_closed := rc_closed r @ [descriptor]\<rparr>
           else r
       | [] \<Rightarrow> r)
     (transport_receive_fd calls events stream socket_fd pointers packet)"

subsection \<open>Sending\<close>

text \<open>The status, the bytes the kernel has taken, and the events left.\<close>

fun send_exact :: "send_event list \<Rightarrow> bytes \<Rightarrow> bytes \<Rightarrow> (int \<times> bytes \<times> send_event list) option" where
  "send_exact events [] sent = Some (0, sent, events)"
| "send_exact [] (x # xs) sent = None"
| "send_exact (Accept k # events) (x # xs) sent =
     (if k = 0 then Some (neg EPIPE, sent, events)
      else let n = min k (length (x # xs)) in
        send_exact events (drop n (x # xs)) (sent @ take n (x # xs)))"
| "send_exact (Send_Error e # events) (x # xs) sent =
     (if e = errno_code EINTR then send_exact events (x # xs) sent else Some (- e, sent, events))"

text \<open>\<open>wire\<close> is what the buffer on the stack held before.\<close>

definition wire_packet :: "bytes \<Rightarrow> protocol_packet \<Rightarrow> bytes result" where
  "wire_packet wire packet =
     (case encode_header (Some wire) (Some (pk_header packet)) of
        Inl e \<Rightarrow> Inl e
      | Inr wire \<Rightarrow>
          let n = unat (ph_payload_length (pk_header packet)) in
          Inr (take (BVB_PROTOCOL_HEADER_SIZE + n)
            (if n > 0 then memcpy wire BVB_PROTOCOL_HEADER_SIZE (pk_payload packet) n else wire)))"

definition transport_send ::
  "send_event list \<Rightarrow> bytes \<Rightarrow> int \<Rightarrow> protocol_packet option \<Rightarrow> (int \<times> bytes \<times> send_event list) option" where
  "transport_send events wire socket_fd packet =
     (case packet of None \<Rightarrow> Some (neg EINVAL, [], events)
      | Some packet \<Rightarrow>
          if socket_fd < 0 then Some (neg EINVAL, [], events)
          else case wire_packet wire packet of
            Inl e \<Rightarrow> Some (neg e, [], events)
          | Inr wire \<Rightarrow> send_exact events wire [])"

text \<open>The fourth result is what descriptors went out; they travel with the first byte.\<close>

definition transport_send_fds ::
  "(int \<Rightarrow> bool) \<Rightarrow> send_event list \<Rightarrow> bytes \<Rightarrow> int \<Rightarrow> protocol_packet option \<Rightarrow> int list option \<Rightarrow>
   (int \<times> bytes \<times> send_event list \<times> int list) option" where
  "transport_send_fds is_open events wire socket_fd packet passed_fds =
     (case (packet, passed_fds) of
        (Some packet, Some fds) \<Rightarrow>
          if socket_fd < 0 \<or> length fds = 0 \<or> length fds > BVB_TRANSPORT_MAX_FDS
          then Some (neg EINVAL, [], events, [])
          else if list_ex (\<lambda>fd. fd < 0 \<or> \<not> is_open fd) fds then Some (neg EINVAL, [], events, [])
          else (case wire_packet wire packet of
            Inl e \<Rightarrow> Some (neg e, [], events, [])
          | Inr wire \<Rightarrow>
              (case dropWhile (\<lambda>e. e = Send_Error (errno_code EINTR)) events of
                 [] \<Rightarrow> None
               | Send_Error e # events \<Rightarrow> Some (- e, [], events, [])
               | Accept k # events \<Rightarrow>
                   if k = 0 then Some (neg EPIPE, [], events, [])
                   else
                     let sent = min k (length wire) in
                     if sent < length wire
                     then map_option (\<lambda>(status, bytes, events). (status, bytes, events, fds))
                            (send_exact events (drop sent wire) (take sent wire))
                     else Some (0, wire, events, fds)))
      | _ \<Rightarrow> Some (neg EINVAL, [], events, []))"

definition transport_send_fd ::
  "(int \<Rightarrow> bool) \<Rightarrow> send_event list \<Rightarrow> bytes \<Rightarrow> int \<Rightarrow> protocol_packet option \<Rightarrow> int \<Rightarrow>
   (int \<times> bytes \<times> send_event list \<times> int list) option" where
  "transport_send_fd is_open events wire socket_fd packet passed_fd =
     transport_send_fds is_open events wire socket_fd packet (Some [passed_fd])"

subsection \<open>Reads and writes\<close>

lemma received_bytes_bounds:
  "stream \<noteq> [] \<Longrightarrow> 0 < n \<Longrightarrow> 0 < received_bytes k n stream \<and> received_bytes k n stream \<le> n \<and>
     received_bytes k n stream \<le> length stream"
  by (cases stream) (auto simp: received_bytes_def min_def max_def)

text \<open>
  A read that succeeds has taken exactly the bytes it wanted from the front of the stream. Error
  numbers are positive.
\<close>

definition recv_errnos_ok :: "recv_event list \<Rightarrow> bool" where
  "recv_errnos_ok events \<longleftrightarrow> (\<forall>e. Recv_Error e \<in> set events \<longrightarrow> 0 < e)"

definition send_errnos_ok :: "send_event list \<Rightarrow> bool" where
  "send_errnos_ok events \<longleftrightarrow> (\<forall>e. Send_Error e \<in> set events \<longrightarrow> 0 < e)"

lemma errnos_ok_Cons [simp]:
  "recv_errnos_ok (Deliver k # events) \<longleftrightarrow> recv_errnos_ok events"
  "recv_errnos_ok (Recv_Error e # events) \<longleftrightarrow> 0 < e \<and> recv_errnos_ok events"
  "send_errnos_ok (Accept k # sends) \<longleftrightarrow> send_errnos_ok sends"
  "send_errnos_ok (Send_Error e # sends) \<longleftrightarrow> 0 < e \<and> send_errnos_ok sends"
  by (auto simp: recv_errnos_ok_def send_errnos_ok_def)

lemma receive_exact_sound:
  "receive_exact events stream n eof got = Some (0, got', stream', events') \<Longrightarrow> recv_errnos_ok events \<Longrightarrow>
     recv_errnos_ok events' \<and> n \<le> length stream \<and> got' = got @ take n stream \<and> stream' = drop n stream"
proof (induction events stream n eof got rule: receive_exact.induct)
  case (3 k events stream n eof got)
  show ?case
  proof (cases "stream = []")
    case False
    let ?r = "received_bytes k (Suc n) stream"
    have r: "?r \<le> Suc n" "?r \<le> length stream" using received_bytes_bounds [OF False, of "Suc n" k] by auto
    have "recv_errnos_ok events' \<and> Suc n - ?r \<le> length (drop ?r stream) \<and> got' = (got @ take ?r stream) @ take (Suc n - ?r) (drop ?r stream) \<and>
      stream' = drop (Suc n - ?r) (drop ?r stream)"
      using 3 False by (simp add: Let_def)
    then show ?thesis using r take_add [of ?r "Suc n - ?r" stream] by (auto simp: le_diff_conv)
  qed (use 3 in \<open>auto split: if_splits\<close>)
qed (auto split: if_splits)

lemma receive_exact_error:
  "receive_exact events stream n eof got = Some (r, got', stream', events') \<Longrightarrow> r \<noteq> 0 \<Longrightarrow>
     \<exists>k \<le> length stream. k < n \<and> got' = got @ take k stream \<and> stream' = drop k stream"
proof (induction events stream n eof got rule: receive_exact.induct)
  case (3 k events stream n eof got)
  show ?case
  proof (cases "stream = []")
    case False
    let ?r = "received_bytes k (Suc n) stream"
    have r: "0 < ?r" "?r \<le> Suc n" "?r \<le> length stream" using received_bytes_bounds [OF False, of "Suc n" k] by auto
    obtain j where j: "j \<le> length (drop ?r stream)" "j < Suc n - ?r"
        "got' = (got @ take ?r stream) @ take j (drop ?r stream)" "stream' = drop j (drop ?r stream)"
      using 3 False by (auto simp: Let_def)
    then show ?thesis using r take_add [of ?r j stream]
      by (intro exI [of _ "?r + j"]) (auto simp: add.commute)
  qed (use 3 in auto)
qed (auto split: if_splits)

text \<open>Calls that are interrupted at worst, and go through at least \<open>n\<close> times.\<close>

definition patient :: "nat \<Rightarrow> recv_event list \<Rightarrow> bool" where
  "patient n events \<longleftrightarrow> (\<forall>e \<in> set events. \<forall>c. e = Recv_Error c \<longrightarrow> c = errno_code EINTR) \<and>
     n \<le> length (filter (\<lambda>e. \<exists>k. e = Deliver k) events)"

lemma patient_Cons [simp]:
  "patient n (Recv_Error e # events) \<longleftrightarrow> e = errno_code EINTR \<and> patient n events"
  "patient (Suc n) (Deliver k # events) \<longleftrightarrow> patient n events"
  "patient n [] \<longleftrightarrow> n = 0"
  by (auto simp: patient_def)

lemma patient_le: "patient n events \<Longrightarrow> m \<le> n \<Longrightarrow> patient m events"
  by (auto simp: patient_def)

lemma receive_exact_complete:
  "n \<le> length stream \<Longrightarrow> patient (n + spare) events \<Longrightarrow>
     \<exists>events'. receive_exact events stream n eof got = Some (0, got @ take n stream, drop n stream, events') \<and>
       patient spare events'"
proof (induction events stream n eof got rule: receive_exact.induct)
  case (3 k events stream n eof got)
  then have ne: "stream \<noteq> []" by auto
  let ?r = "received_bytes k (Suc n) stream"
  have r: "0 < ?r" "?r \<le> Suc n" using received_bytes_bounds [OF ne, of "Suc n" k] by auto
  have "patient (Suc n - ?r + spare) events"
    using 3(3) r by (auto intro: patient_le)
  moreover have "Suc n - ?r \<le> length (drop ?r stream)" using 3(2) by simp
  ultimately obtain events' where
    "receive_exact events (drop ?r stream) (Suc n - ?r) eof (got @ take ?r stream) =
       Some (0, (got @ take ?r stream) @ take (Suc n - ?r) (drop ?r stream), drop (Suc n - ?r) (drop ?r stream), events')"
    "patient spare events'"
    using 3(1) [OF ne refl] by blast
  then show ?case using ne r take_add [of ?r "Suc n - ?r" stream] by (simp add: Let_def)
qed auto

lemma send_exact_sound:
  "send_exact events xs sent = Some (0, sent', events') \<Longrightarrow> send_errnos_ok events \<Longrightarrow> sent' = sent @ xs"
proof (induction events xs sent rule: send_exact.induct)
  case (3 k events x xs sent)
  then show ?case by (cases "k = 0") (simp_all add: Let_def)
qed (auto split: if_splits)

text \<open>Whatever a failed write has sent is the beginning of what it was given.\<close>

lemma send_exact_prefix:
  "send_exact events xs sent = Some (r, sent', events') \<Longrightarrow> \<exists>n. sent' = sent @ take n xs"
proof (induction events xs sent rule: send_exact.induct)
  case (3 k events x xs sent)
  show ?case
  proof (cases "k = 0")
    case True
    then show ?thesis using 3(2) by (intro exI [of _ 0]) simp
  next
    case False
    let ?n = "min k (length (x # xs))"
    obtain m where "sent' = (sent @ take ?n (x # xs)) @ take m (drop ?n (x # xs))"
      using 3(1) [OF False refl] 3(2) False by (auto simp: Let_def)
    then show ?thesis by (intro exI [of _ "?n + m"]) (simp only: take_add append_assoc)
  qed
qed (auto split: if_splits intro: exI [of _ 0])

subsection \<open>A packet on the wire\<close>

definition packet_ok :: "protocol_packet \<Rightarrow> bool" where
  "packet_ok p \<longleftrightarrow> header_is_valid (pk_header p) = Inr () \<and> length (pk_payload p) = BVB_PROTOCOL_MAX_PAYLOAD"

abbreviation payload_of :: "protocol_packet \<Rightarrow> bytes" where
  "payload_of p \<equiv> take (unat (ph_payload_length (pk_header p))) (pk_payload p)"

lemma valid_payload_bound: "header_is_valid h = Inr () \<Longrightarrow> unat (ph_payload_length h) \<le> 4096"
  by (auto simp: header_is_valid_def word_le_nat_alt not_less split: if_splits)

text \<open>The bytes of a packet: 24 for the header, then the payload.\<close>

lemma wire_packet_bytes:
  assumes ok: "packet_ok p" and wire: "length wire = BVB_PROTOCOL_HEADER_SIZE + BVB_PROTOCOL_MAX_PAYLOAD"
  shows "\<exists>m. wire_packet wire p = Inr (m @ payload_of p) \<and> length m = BVB_PROTOCOL_HEADER_SIZE \<and>
    (\<forall>d. decode_header (Some m) (Some d) = Inr (pk_header p))"
proof -
  let ?a = "take 24 wire" and ?c = "drop 24 wire" and ?n = "unat (ph_payload_length (pk_header p))"
  have a: "length ?a = BVB_PROTOCOL_HEADER_SIZE" using wire by simp
  have valid: "header_is_valid (pk_header p) = Inr ()" and n: "?n \<le> 4096"
    using ok valid_payload_bound by (auto simp: packet_ok_def)
  obtain m where m: "encode_header (Some ?a) (Some (pk_header p)) = Inr m" "length m = BVB_PROTOCOL_HEADER_SIZE"
    using header_roundtrip [OF valid a] by blast
  have dec: "decode_header (Some m) (Some d) = Inr (pk_header p)" for d
    using header_roundtrip [OF valid a, of d] m(1) by auto
  have "encode_header (Some wire) (Some (pk_header p)) = Inr (m @ ?c)"
    using encode_header_frame [OF a, of ?c] m(1) by simp
  then show ?thesis
    using m(2) dec n wire ok
    by (intro exI [of _ m]) (simp add: wire_packet_def Let_def memcpy_def packet_ok_def)
qed

text \<open>Receiving such bytes, with whatever the kernel makes of them, gives the packet back.\<close>

lemma receive_fds_ok:
  assumes "socket_fd \<ge> 0" "0 < cap" "cap \<le> BVB_TRANSPORT_MAX_FDS"
    and call: "recvmsg_loop calls = Some (Message k headers truncated)"
    and fds: "control_loop cap headers [] truncated [] = (fds, False, closed)"
    and m: "length m = BVB_PROTOCOL_HEADER_SIZE" "\<And>d. decode_header (Some m) (Some d) = Inr (pk_header p)"
    and p: "packet_ok p" and q: "length (pk_payload q) = BVB_PROTOCOL_MAX_PAYLOAD"
    and patient: "patient (BVB_PROTOCOL_HEADER_SIZE + length (payload_of p)) events"
  shows "\<exists>events'. transport_receive_fds calls events (m @ payload_of p @ rest) socket_fd True q cap =
    Some \<lparr>rc_status = 0, rc_packet = \<lparr>pk_header = pk_header p, pk_payload = fill (payload_of p) (pk_payload q)\<rparr>,
      rc_fds = fds, rc_closed = closed, rc_stream = rest, rc_events = events'\<rparr>"
proof -
  define stream where "stream = m @ payload_of p @ rest"
  define h where "h = received_bytes k BVB_PROTOCOL_HEADER_SIZE stream"
  define g where "g = take (24 - h) (drop h stream)"
  let ?n = "unat (ph_payload_length (pk_header p))"
  have ne: "stream \<noteq> []" using m(1) by (auto simp: stream_def)
  have h: "0 < h" "h \<le> 24" using received_bytes_bounds [OF ne, of 24 k] by (auto simp: h_def)
  have n: "length (payload_of p) = ?n"
    using p valid_payload_bound [of "pk_header p"] by (simp add: packet_ok_def)
  have len: "24 - h \<le> length (drop h stream)" using m(1) by (simp add: le_diff_conv stream_def)
  have header: "take h stream @ g = m"
    using take_add [of h "24 - h" stream] h m(1) by (simp add: g_def stream_def)
  have tail: "drop (24 - h) (drop h stream) = payload_of p @ rest" using h m(1) by (simp add: stream_def)
  have "patient (24 - h + ?n) events" using patient n h by (auto elim!: patient_le)
  from receive_exact_complete [OF len this, of False "[]"] obtain events1 where
    r1: "receive_exact events (drop h stream) (24 - h) False [] = Some (0, g, payload_of p @ rest, events1)"
      "patient ?n events1"
    unfolding tail g_def by auto
  obtain events2 where r2: "receive_exact events1 (payload_of p @ rest) ?n False [] =
      Some (0, payload_of p, rest, events2)"
    using receive_exact_complete [of ?n "payload_of p @ rest" 0 events1 False "[]"] r1(2) n by auto
  show ?thesis
    unfolding stream_def [symmetric]
    using assms(1-3) ne h call fds
    by (simp add: transport_receive_fds_def Let_def h_def [symmetric] r1(1) header m(2) r2)
qed

subsection \<open>Streams of packets\<close>

text \<open>
  What the receiver gets from a packet: the header and the used part of the payload; the rest of its
  buffer is what it held before.
\<close>

definition same_packet :: "protocol_packet \<Rightarrow> protocol_packet \<Rightarrow> bool" where
  "same_packet p q \<longleftrightarrow> pk_header p = pk_header q \<and> payload_of p = payload_of q"

lemma fill_length: "length got \<le> length buffer \<Longrightarrow> length (fill got buffer) = length buffer"
  by (simp add: fill_def)

lemma same_packet_filled:
  assumes "packet_ok p" "length b = BVB_PROTOCOL_MAX_PAYLOAD"
  shows "same_packet \<lparr>pk_header = pk_header p, pk_payload = fill (payload_of p) b\<rparr> p"
    "packet_ok \<lparr>pk_header = pk_header p, pk_payload = fill (payload_of p) b\<rparr>"
proof -
  have n: "unat (ph_payload_length (pk_header p)) \<le> 4096" "length (pk_payload p) = 4096"
    using assms(1) valid_payload_bound by (auto simp: packet_ok_def)
  then show "same_packet \<lparr>pk_header = pk_header p, pk_payload = fill (payload_of p) b\<rparr> p"
    by (simp add: same_packet_def fill_def)
  show "packet_ok \<lparr>pk_header = pk_header p, pk_payload = fill (payload_of p) b\<rparr>"
    using assms n by (simp add: packet_ok_def fill_length)
qed

text \<open>
  Several packets sent one after the other, and several received, each into the buffer of the last;
  the first result says that every call succeeded.
\<close>

fun send_all :: "bytes \<Rightarrow> (protocol_packet \<times> send_event list) list \<Rightarrow> bool \<times> bytes" where
  "send_all wire [] = (True, [])"
| "send_all wire ((p, events) # rest) =
     (case transport_send events wire 3 (Some p) of
        Some (status, sent, _) \<Rightarrow>
          if status = 0 then map_prod id (\<lambda>more. sent @ more) (send_all wire rest) else (False, sent)
      | None \<Rightarrow> (False, []))"

fun receive_all ::
  "bytes \<Rightarrow> protocol_packet \<Rightarrow> (message_event list \<times> recv_event list) list \<Rightarrow> bool \<times> protocol_packet list \<times> bytes" where
  "receive_all stream q [] = (True, [], stream)"
| "receive_all stream q ((calls, events) # rest) =
     (case transport_receive calls events stream 3 True q of
        None \<Rightarrow> (False, [], stream)
      | Some r \<Rightarrow>
          if rc_status r \<noteq> 0 then (False, [], rc_stream r)
          else map_prod id (map_prod (\<lambda>ps. rc_packet r # ps) id)
                 (receive_all (rc_stream r) (rc_packet r) rest))"

lemma send_all_bytes:
  assumes "\<forall>(p, events) \<in> set ps. packet_ok p \<and> send_errnos_ok events"
    and "length wire = BVB_PROTOCOL_HEADER_SIZE + BVB_PROTOCOL_MAX_PAYLOAD" "send_all wire ps = (True, stream)"
  shows "\<exists>ms. length ms = length ps \<and> stream = concat (map2 (\<lambda>m (p, _). m @ payload_of p) ms ps) \<and>
    (\<forall>(m, p, _) \<in> set (zip ms ps). length m = BVB_PROTOCOL_HEADER_SIZE \<and>
       (\<forall>d. decode_header (Some m) (Some d) = Inr (pk_header p)))"
  using assms
proof (induction ps arbitrary: stream)
  case (Cons x ps)
  obtain p events where x: "x = (p, events)" by (rule prod.exhaust)
  obtain m where m: "wire_packet wire p = Inr (m @ payload_of p)" "length m = BVB_PROTOCOL_HEADER_SIZE"
      "\<forall>d. decode_header (Some m) (Some d) = Inr (pk_header p)"
    using wire_packet_bytes [of p wire] Cons.prems x by auto
  obtain sent ev where sent: "send_exact events (m @ payload_of p) [] = Some (0, sent, ev)"
    using Cons.prems(3) x m(1)
    by (cases "send_exact events (m @ payload_of p) []") (auto simp: transport_send_def split: if_splits prod.splits)
  then have sent': "sent = m @ payload_of p" using send_exact_sound [OF sent] Cons.prems(1) x by simp
  obtain more where more: "send_all wire ps = (True, more)" "stream = m @ payload_of p @ more"
    using Cons.prems(3) x m(1) sent sent' by (cases "send_all wire ps") (simp add: transport_send_def)
  obtain ms where "length ms = length ps" "more = concat (map2 (\<lambda>m (p, _). m @ payload_of p) ms ps)"
      "\<forall>(m, p, _) \<in> set (zip ms ps). length m = BVB_PROTOCOL_HEADER_SIZE \<and>
         (\<forall>d. decode_header (Some m) (Some d) = Inr (pk_header p))"
    using Cons.IH [OF _ Cons.prems(2) more(1)] Cons.prems(1) by auto
  then show ?case using m(2,3) more(2) x by (intro exI [of _ "m # ms"]) simp
qed simp

text \<open>A quiet receiver: one uninterrupted message without control data, then patient reads.\<close>

definition quiet :: "message_event list \<times> recv_event list \<Rightarrow> bool" where
  "quiet c \<longleftrightarrow> (\<exists>k. recvmsg_loop (fst c) = Some (Message k [] False)) \<and>
     patient (BVB_PROTOCOL_HEADER_SIZE + BVB_PROTOCOL_MAX_PAYLOAD) (snd c)"

lemma receive_ok:
  assumes "quiet (calls, events)" "packet_ok p" "length (pk_payload q) = BVB_PROTOCOL_MAX_PAYLOAD"
    and "length m = BVB_PROTOCOL_HEADER_SIZE" "\<And>d. decode_header (Some m) (Some d) = Inr (pk_header p)"
  shows "\<exists>r. transport_receive calls events (m @ payload_of p @ rest) 3 True q = Some r \<and> rc_status r = 0 \<and>
    rc_packet r = \<lparr>pk_header = pk_header p, pk_payload = fill (payload_of p) (pk_payload q)\<rparr> \<and>
    rc_stream r = rest \<and> rc_closed r = []"
proof -
  obtain k where k: "recvmsg_loop calls = Some (Message k [] False)"
    and patient: "patient (BVB_PROTOCOL_HEADER_SIZE + BVB_PROTOCOL_MAX_PAYLOAD) events"
    using assms(1) by (auto simp: quiet_def)
  have "patient (BVB_PROTOCOL_HEADER_SIZE + length (payload_of p)) events"
    using patient_le [OF patient] assms(2) by (simp add: packet_ok_def)
  then obtain events' where "transport_receive_fds calls events (m @ payload_of p @ rest) 3 True q 1 =
    Some \<lparr>rc_status = 0, rc_packet = \<lparr>pk_header = pk_header p, pk_payload = fill (payload_of p) (pk_payload q)\<rparr>,
      rc_fds = [], rc_closed = [], rc_stream = rest, rc_events = events'\<rparr>"
    using receive_fds_ok [of 3 1 calls k "[]" False "[]" "[]" m p q events rest] k assms(2-5) by auto
  then show ?thesis by (simp add: transport_receive_def transport_receive_fd_def)
qed

lemma receive_all_packets:
  assumes "length ms = length ps" "length cs = length ps" "\<forall>p \<in> set ps. packet_ok p" "\<forall>c \<in> set cs. quiet c"
    and "length (pk_payload q) = BVB_PROTOCOL_MAX_PAYLOAD"
    and "\<forall>(m, p) \<in> set (zip ms ps). length m = BVB_PROTOCOL_HEADER_SIZE \<and>
       (\<forall>d. decode_header (Some m) (Some d) = Inr (pk_header p))"
  shows "\<exists>qs. receive_all (concat (map2 (\<lambda>m p. m @ payload_of p) ms ps) @ rest) q cs = (True, qs, rest) \<and>
    list_all2 same_packet qs ps"
  using assms
proof (induction ps arbitrary: ms cs q)
  case (Cons p ps)
  obtain m ms' calls events cs' where ms: "ms = m # ms'" and cs: "cs = (calls, events) # cs'"
    using Cons.prems(1,2) by (metis length_Suc_conv length_Cons prod.exhaust)
  let ?q = "\<lparr>pk_header = pk_header p, pk_payload = fill (payload_of p) (pk_payload q)\<rparr>"
  let ?rest = "concat (map2 (\<lambda>m p. m @ payload_of p) ms' ps) @ rest"
  have p: "packet_ok p" using Cons.prems(3) by simp
  have len: "length (pk_payload ?q) = BVB_PROTOCOL_MAX_PAYLOAD"
    using same_packet_filled(2) [OF p Cons.prems(5)] by (simp add: packet_ok_def)
  obtain r where r: "transport_receive calls events (m @ payload_of p @ ?rest) 3 True q = Some r" "rc_status r = 0"
      "rc_packet r = ?q" "rc_stream r = ?rest"
    using receive_ok [OF _ p Cons.prems(5), of calls events m ?rest] Cons.prems(4,6) ms cs by auto
  obtain qs where qs: "receive_all ?rest ?q cs' = (True, qs, rest)" "list_all2 same_packet qs ps"
    using Cons.IH [of ms' cs' ?q] Cons.prems ms cs len by auto
  show ?case
    using r qs same_packet_filled(1) [OF p Cons.prems(5)] by (simp add: ms cs)
qed simp

subsection \<open>Descriptors and buffers\<close>

definition delivered :: "control_message list \<Rightarrow> int list" where
  "delivered headers = concat (map cm_fds (filter cm_rights headers))"

lemma close_fds_append [simp]:
  "close_fds (xs @ ys) = close_fds xs @ close_fds ys" "close_fds [] = []"
  "filter (\<lambda>fd. fd \<ge> 0) (close_fds xs) = close_fds xs" "close_fds (close_fds xs) = close_fds xs"
  by (simp_all add: close_fds_def)

text \<open>Every descriptor that came in is among those received or those closed.\<close>

lemma control_loop_conserves:
  "control_loop cap headers fds invalid closed = (fds', invalid', closed') \<Longrightarrow>
     mset (close_fds fds') + mset closed' = mset (close_fds fds) + mset closed + mset (close_fds (delivered headers))"
  by (induction cap headers fds invalid closed rule: control_loop.induct)
    (auto simp: delivered_def Let_def ac_simps split: if_splits)

lemma control_loop_capacity:
  "control_loop cap headers fds invalid closed = (fds', invalid', closed') \<Longrightarrow> length fds \<le> cap \<Longrightarrow> length fds' \<le> cap"
proof (induction cap headers fds invalid closed rule: control_loop.induct)
  case (2 cap header headers fds invalid closed)
  have "length (cm_fds header) \<le> cm_bytes header div 4" by (simp add: cm_fds_def)
  then show ?case using 2 by (auto simp: Let_def split: if_splits)
qed simp

text \<open>When nothing was wrong, nothing was closed.\<close>

lemma control_loop_invalid:
  "control_loop cap headers fds invalid closed = (fds', False, closed') \<Longrightarrow> \<not> invalid \<and> closed' = closed"
  by (induction cap headers fds invalid closed rule: control_loop.induct) (auto simp: Let_def split: if_splits)

lemma receive_exact_length:
  "receive_exact events stream n eof got = Some (r, got', stream', events') \<Longrightarrow> length got' \<le> length got + n"
proof (induction events stream n eof got rule: receive_exact.induct)
  case (3 k events stream n eof got)
  show ?case
  proof (cases "stream = []")
    case False
    then show ?thesis
      using 3 received_bytes_bounds [OF False, of "Suc n" k] by (fastforce simp: Let_def)
  qed (use 3 in auto)
qed (auto split: if_splits)

text \<open>The descriptors the kernel installs for a call.\<close>

definition arrived :: "message_event list \<Rightarrow> bytes \<Rightarrow> int list" where
  "arrived calls stream = (case recvmsg_loop calls of
     Some (Message _ headers _) \<Rightarrow> if stream = [] then [] else delivered headers | _ \<Rightarrow> [])"

lemma receive_fds_conserves:
  assumes "transport_receive_fds calls events stream socket_fd True q cap = Some r"
    and "socket_fd \<ge> 0" "0 < cap" "cap \<le> BVB_TRANSPORT_MAX_FDS"
  shows "mset (close_fds (rc_fds r)) + mset (rc_closed r) = mset (close_fds (arrived calls stream)) \<and>
    length (rc_fds r) \<le> cap \<and> (rc_status r \<noteq> 0 \<longrightarrow> rc_fds r = []) \<and> (rc_status r = 0 \<longrightarrow> rc_closed r = [])"
proof (cases "recvmsg_loop calls")
  case None
  then show ?thesis using assms by (simp add: transport_receive_fds_def Let_def)
next
  case (Some c)
  show ?thesis
  proof (cases "\<exists>k headers truncated. c = Message k headers truncated \<and> stream \<noteq> []")
    case True
    then obtain k headers truncated where c: "c = Message k headers truncated" "stream \<noteq> []" by blast
    obtain fds invalid closed where loop: "control_loop cap headers [] truncated [] = (fds, invalid, closed)"
      by (rule prod_cases3)
    note conserve = control_loop_conserves [OF loop]
    have cap: "length fds \<le> cap" using control_loop_capacity [OF loop] by simp
    have arrived: "arrived calls stream = delivered headers" using Some c by (simp add: arrived_def)
    show ?thesis
      using assms Some c loop conserve cap control_loop_invalid [of cap headers "[]" truncated "[]" fds closed]
      by (auto simp: transport_receive_fds_def Let_def arrived ac_simps split: if_splits option.splits sum.splits)
  next
    case False
    then show ?thesis
      using assms Some
      by (cases c) (auto simp: transport_receive_fds_def Let_def arrived_def split: if_splits)
  qed
qed

lemma receive_fds_buffer:
  assumes "transport_receive_fds calls events stream socket_fd ptr q cap = Some r"
    and q: "length (pk_payload q) = BVB_PROTOCOL_MAX_PAYLOAD"
  shows "length (pk_payload (rc_packet r)) = BVB_PROTOCOL_MAX_PAYLOAD"
proof -
  have "length (fill got (pk_payload q)) = BVB_PROTOCOL_MAX_PAYLOAD"
    if "decode_header (Some w) (Some (pk_header q)) = Inr h"
      "receive_exact ev st (unat (ph_payload_length h)) False [] = Some (res, got, st', ev')" for w h ev st res got st' ev'
    using decode_header_payload_bound [OF that(1)] receive_exact_length [OF that(2)] q by (simp add: fill_length)
  then show ?thesis
    using assms
    by (auto simp: transport_receive_fds_def Let_def split: if_splits option.splits sum.splits prod.splits message_event.splits)
qed

subsection \<open>What the transport guarantees\<close>

text \<open>A sender that is interrupted at worst, and whose calls take something at least \<open>n\<close> times.\<close>

definition writable :: "nat \<Rightarrow> send_event list \<Rightarrow> bool" where
  "writable n events \<longleftrightarrow> list_all (\<lambda>e. case e of Accept k \<Rightarrow> 0 < k | Send_Error c \<Rightarrow> c = errno_code EINTR) events \<and>
     n \<le> length (filter (\<lambda>e. case e of Accept _ \<Rightarrow> True | _ \<Rightarrow> False) events)"

lemma writable_Cons [simp]:
  "writable n (Send_Error e # events) \<longleftrightarrow> e = errno_code EINTR \<and> writable n events"
  "writable (Suc n) (Accept k # events) \<longleftrightarrow> 0 < k \<and> writable n events"
  "writable n [] \<longleftrightarrow> n = 0"
  by (auto simp: writable_def)

lemma writable_le: "writable n events \<Longrightarrow> m \<le> n \<Longrightarrow> writable m events"
  by (auto simp: writable_def)

lemma send_exact_complete:
  "writable (length xs) events \<Longrightarrow> \<exists>events'. send_exact events xs sent = Some (0, sent @ xs, events')"
proof (induction events xs sent rule: send_exact.induct)
  case (3 k events x xs sent)
  let ?n = "min k (length (x # xs))"
  have k: "0 < k" "writable (length xs) events" using 3(2) by auto
  then have "writable (length (drop ?n (x # xs))) events" by (auto elim!: writable_le)
  then obtain events' where "send_exact events (drop ?n (x # xs)) (sent @ take ?n (x # xs)) =
      Some (0, (sent @ take ?n (x # xs)) @ drop ?n (x # xs), events')"
    using 3(1) k(1) by (fastforce simp: Let_def)
  then show ?case using k(1) by (simp only: send_exact.simps Let_def append_assoc append_take_drop_id) simp
qed auto

lemma wire_packet_length: "wire_packet wire p = Inr bs \<Longrightarrow> packet_ok p \<Longrightarrow>
    length bs \<le> BVB_PROTOCOL_HEADER_SIZE + BVB_PROTOCOL_MAX_PAYLOAD"
  using valid_payload_bound [of "pk_header p"]
  by (auto simp: wire_packet_def Let_def packet_ok_def min_def split: sum.splits if_splits)

lemma writable_errnos: "writable n events \<Longrightarrow> send_errnos_ok events"
  by (auto simp: writable_def send_errnos_ok_def list_all_iff split: send_event.splits)

lemma send_all_succeeds:
  assumes "\<forall>(p, events) \<in> set ps. packet_ok p \<and> writable (BVB_PROTOCOL_HEADER_SIZE + BVB_PROTOCOL_MAX_PAYLOAD) events"
    and "length wire = BVB_PROTOCOL_HEADER_SIZE + BVB_PROTOCOL_MAX_PAYLOAD"
  shows "\<exists>stream. send_all wire ps = (True, stream)"
  using assms
proof (induction ps)
  case (Cons x ps)
  obtain p events where x: "x = (p, events)" by (rule prod.exhaust)
  then have p: "packet_ok p" and w: "writable (BVB_PROTOCOL_HEADER_SIZE + BVB_PROTOCOL_MAX_PAYLOAD) events"
    using Cons.prems(1) by auto
  obtain bs where bs: "wire_packet wire p = Inr bs" using wire_packet_bytes [OF p Cons.prems(2)] by blast
  obtain events' where "send_exact events bs [] = Some (0, bs, events')"
    using send_exact_complete [OF writable_le [OF w wire_packet_length [OF bs p]], of "[]"] by auto
  then show ?case using Cons bs x by (auto simp: transport_send_def)
qed simp

lemma receive_exact_consumes:
  "receive_exact events stream n eof got = Some (r, got', stream', events') \<Longrightarrow> length stream \<le> length stream' + n"
proof (induction events stream n eof got rule: receive_exact.induct)
  case (3 k events stream n eof got)
  show ?case
  proof (cases "stream = []")
    case False
    then show ?thesis
      using 3 received_bytes_bounds [OF False, of "Suc n" k] by (fastforce simp: Let_def)
  qed (use 3 in auto)
qed (auto split: if_splits)

lemma receive_fds_consumes:
  assumes "transport_receive_fds calls events stream socket_fd ptr q cap = Some r"
  shows "length stream \<le> length (rc_stream r) + (BVB_PROTOCOL_HEADER_SIZE + BVB_PROTOCOL_MAX_PAYLOAD)"
proof -
  have whole: "length stream \<le> length s2 + 4120"
    if "receive_exact e0 (drop h stream) (24 - h) False [] = Some (r1, g1, s1, e1)" "h \<le> 24"
      "decode_header (Some w) (Some d) = Inr hd"
      "receive_exact e1 s1 (unat (ph_payload_length hd)) False [] = Some (r2, g2, s2, e2)"
    for e0 h r1 g1 s1 e1 w d hd r2 g2 s2 e2
    using receive_exact_consumes [OF that(1)] receive_exact_consumes [OF that(4)]
      decode_header_payload_bound [OF that(3)] that(2) by simp
  have header: "length stream \<le> length s1 + 4120"
    if "receive_exact e0 (drop h stream) (24 - h) False [] = Some (r1, g1, s1, e1)" "h \<le> 24" for e0 h r1 g1 s1 e1
    using receive_exact_consumes [OF that(1)] that(2) by simp
  have first: "received_bytes k 24 stream \<le> 24" for k by (simp add: received_bytes_def)
  have stopped: "length stream \<le> length stream - received_bytes k 24 stream + 4120" for k
    using first [of k] by simp
  show ?thesis
    using assms first stopped whole header
    by (auto simp: transport_receive_fds_def Let_def
        split: if_splits option.splits sum.splits prod.splits message_event.splits)
qed

text \<open>
  C28: packets sent one after the other over a stream socket are received as they were sent and in
  that order, however the kernel splits the writes and the reads and whichever of them it interrupts:
  every call succeeds, each received packet has the header and the payload of the one sent, and what
  follows the last packet is left in the stream.
\<close>

theorem packet_stream:
  assumes "\<forall>p \<in> set ps. packet_ok p" "length writes = length ps" "length rds = length ps"
    and "\<forall>w \<in> set writes. writable (BVB_PROTOCOL_HEADER_SIZE + BVB_PROTOCOL_MAX_PAYLOAD) w"
    and "\<forall>c \<in> set rds. quiet c"
    and "length wire = BVB_PROTOCOL_HEADER_SIZE + BVB_PROTOCOL_MAX_PAYLOAD"
    and "length (pk_payload q) = BVB_PROTOCOL_MAX_PAYLOAD"
  shows "\<exists>stream qs. send_all wire (zip ps writes) = (True, stream) \<and>
    receive_all (stream @ rest) q rds = (True, qs, rest) \<and> list_all2 same_packet qs ps"
proof -
  have ok: "\<forall>(p, events) \<in> set (zip ps writes). packet_ok p \<and>
      writable (BVB_PROTOCOL_HEADER_SIZE + BVB_PROTOCOL_MAX_PAYLOAD) events"
    using assms(1,4) by (auto dest: set_zip_leftD set_zip_rightD)
  then obtain stream where stream: "send_all wire (zip ps writes) = (True, stream)"
    using send_all_succeeds assms(6) by blast
  have ok': "\<forall>(p, events) \<in> set (zip ps writes). packet_ok p \<and> send_errnos_ok events"
    using ok writable_errnos by fastforce
  obtain ms where ms: "length ms = length ps"
      "stream = concat (map2 (\<lambda>m (p, _). m @ payload_of p) ms (zip ps writes))"
      "\<forall>(m, p, _) \<in> set (zip ms (zip ps writes)). length m = BVB_PROTOCOL_HEADER_SIZE \<and>
         (\<forall>d. decode_header (Some m) (Some d) = Inr (pk_header p))"
    using send_all_bytes [OF ok' assms(6) stream] assms(2) by auto
  have fst: "zip ms ps = map (\<lambda>(m, p, _). (m, p)) (zip ms (zip ps writes))"
    using ms(1) assms(2) by (intro nth_equalityI) auto
  have "stream = concat (map2 (\<lambda>m p. m @ payload_of p) ms ps)"
    unfolding ms(2) fst map_map by (intro arg_cong [where f = concat] map_cong) auto
  moreover have "\<forall>(m, p) \<in> set (zip ms ps). length m = BVB_PROTOCOL_HEADER_SIZE \<and>
      (\<forall>d. decode_header (Some m) (Some d) = Inr (pk_header p))"
    using ms(3) by (auto simp: fst)
  ultimately obtain qs where
      "receive_all (stream @ rest) q rds = (True, qs, rest)" "list_all2 same_packet qs ps"
    using receive_all_packets [OF ms(1) assms(3) assms(1) assms(5) assms(7)] by blast
  then show ?thesis using stream by blast
qed

lemma replicate_events:
  "n \<le> m \<Longrightarrow> 0 < k \<Longrightarrow> writable n (replicate m (Accept k))" "n \<le> m \<Longrightarrow> patient n (replicate m (Deliver k))"
  by (simp_all add: writable_def patient_def list_all_iff)

theorem packet_stream_witness:
  "\<exists>stream qs. send_all (replicate 4120 0)
      (zip [\<lparr>pk_header = \<lparr>ph_version = 1, ph_kind = 1, ph_opcode = 1, ph_request_id = 7, ph_payload_length = 3, ph_status = 0\<rparr>,
             pk_payload = replicate 4096 65\<rparr>] [Send_Error 4 # replicate 4120 (Accept 2)]) = (True, stream) \<and>
    receive_all (stream @ [9]) \<lparr>pk_header = \<lparr>ph_version = 0, ph_kind = 0, ph_opcode = 0, ph_request_id = 0, ph_payload_length = 0, ph_status = 0\<rparr>,
       pk_payload = replicate 4096 0\<rparr> [([Message_Error 4, Message 5 [] False], replicate 4120 (Deliver 1))] = (True, qs, [9]) \<and>
    list_all2 same_packet qs [\<lparr>pk_header = \<lparr>ph_version = 1, ph_kind = 1, ph_opcode = 1, ph_request_id = 7, ph_payload_length = 3, ph_status = 0\<rparr>,
             pk_payload = replicate 4096 65\<rparr>]"
  by (rule packet_stream)
    (simp_all add: packet_ok_def header_is_valid_def quiet_def recvmsg_loop_def replicate_events
     )

text \<open>
  C29: no descriptor that arrives with a packet is lost. Whatever the call returns, each descriptor
  the kernel installed is either handed to the caller or closed, exactly once; a call that fails
  hands none over, and one that succeeds hands over at most as many as the caller has room for.
\<close>

theorem received_descriptors_conserved:
  assumes "transport_receive_fds calls events stream socket_fd True packet fd_capacity = Some r"
    and "socket_fd \<ge> 0" "0 < fd_capacity" "fd_capacity \<le> BVB_TRANSPORT_MAX_FDS"
  shows "mset (close_fds (rc_fds r)) + mset (rc_closed r) = mset (close_fds (arrived calls stream)) \<and>
    length (rc_fds r) \<le> fd_capacity \<and> (rc_status r \<noteq> 0 \<longrightarrow> rc_fds r = []) \<and> (rc_status r = 0 \<longrightarrow> rc_closed r = [])"
  using receive_fds_conserves [OF assms] .

theorem received_descriptors_conserved_witness:
  "\<exists>r. transport_receive_fds [Message 24 [\<lparr>cm_rights = True, cm_bytes = 12, cm_descriptors = [5, 6, 7]\<rparr>] False] []
      (replicate 24 0) 3 True
      \<lparr>pk_header = \<lparr>ph_version = 0, ph_kind = 0, ph_opcode = 0, ph_request_id = 0, ph_payload_length = 0, ph_status = 0\<rparr>, pk_payload = []\<rparr> 2 = Some r \<and>
    mset (close_fds (rc_fds r)) + mset (rc_closed r) = {#5, 6, 7#}"
  using received_descriptors_conserved [of "[Message 24 [\<lparr>cm_rights = True, cm_bytes = 12, cm_descriptors = [5, 6, 7]\<rparr>] False]"
      "[]" "replicate 24 0" 3 "\<lparr>pk_header = \<lparr>ph_version = 0, ph_kind = 0, ph_opcode = 0, ph_request_id = 0, ph_payload_length = 0, ph_status = 0\<rparr>, pk_payload = []\<rparr>" 2]
  by (simp add: transport_receive_fds_def recvmsg_loop_def arrived_def delivered_def cm_fds_def close_fds_def
      Let_def received_bytes_def)

text \<open>
  C30: whatever a peer sends, a receive call writes at most the 4096 bytes of the payload buffer and
  takes at most the 24 bytes of a header and 4096 bytes of payload from the stream.
\<close>

theorem receive_bounded:
  assumes "transport_receive_fds calls events stream socket_fd pointers packet fd_capacity = Some r"
    and "length (pk_payload packet) = BVB_PROTOCOL_MAX_PAYLOAD"
  shows "length (pk_payload (rc_packet r)) = BVB_PROTOCOL_MAX_PAYLOAD \<and>
    length stream \<le> length (rc_stream r) + (BVB_PROTOCOL_HEADER_SIZE + BVB_PROTOCOL_MAX_PAYLOAD)"
  using receive_fds_buffer [OF assms] receive_fds_consumes [OF assms(1)] by blast

theorem receive_bounded_witness:
  "\<exists>r. transport_receive_fds [Message 24 [] False] [Recv_Error 4, Deliver 2] (replicate 5 0) 3 True
      \<lparr>pk_header = \<lparr>ph_version = 0, ph_kind = 0, ph_opcode = 0, ph_request_id = 0, ph_payload_length = 0, ph_status = 0\<rparr>, pk_payload = replicate 4096 0\<rparr> 1 = Some r \<and>
    length (pk_payload (rc_packet r)) = 4096"
proof -
  let ?q = "\<lparr>pk_header = \<lparr>ph_version = 0, ph_kind = 0, ph_opcode = 0, ph_request_id = 0, ph_payload_length = 0, ph_status = 0\<rparr>, pk_payload = replicate 4096 0\<rparr>"
  have read: "receive_exact [Recv_Error 4, Deliver 2] [] 19 False [] = Some (neg EPROTO, [], [], [])"
    using receive_exact.simps(4) [of 4 "[Deliver 2]" "[]" 18 False "[]"]
      receive_exact.simps(3) [of 2 "[]" "[]" 18 False "[]"] by simp
  have "\<exists>r. transport_receive_fds [Message 24 [] False] [Recv_Error 4, Deliver 2] (replicate 5 0) 3 True ?q 1 = Some r"
    by (simp add: transport_receive_fds_def recvmsg_loop_def Let_def received_bytes_def read)
  then show ?thesis using receive_bounded [of _ _ _ _ _ ?q] by fastforce
qed

end
