(* ===== verification/Transport_Setup.thy ===== *)
theory Transport_Setup
  imports Bvb_Wire
begin

section \<open>Setting up the sockets\<close>

text \<open>
  The first half of src/src/transport.c: sockets in the file system, in the abstract name space and
  on the loopback interface, and the check of who is at the other end.

  What the kernel answers to each call is a parameter, \<open>system\<close>: an error number or what the call
  returns. A function makes each call at most once, on a given path, so a field, or a function of the
  path, says all of it. The result of a function is the status it returns and the calls it made that
  changed something, in order. A path is its bytes without the final NUL.
\<close>

abbreviation (input) PATH_MAX :: nat where "PATH_MAX \<equiv> 4096"
abbreviation (input) SUN_PATH_SIZE :: nat where "SUN_PATH_SIZE \<equiv> 108"
abbreviation (input) SUN_PATH_OFFSET :: nat where "SUN_PATH_OFFSET \<equiv> 2"
abbreviation (input) SLASH :: u8 where "SLASH \<equiv> 47"

text \<open>Modes, written in octal in the source.\<close>

abbreviation (input) MODE_0700 :: u32 where "MODE_0700 \<equiv> 7 * 8 * 8"
abbreviation (input) MODE_0600 :: u32 where "MODE_0600 \<equiv> 6 * 8 * 8"
abbreviation (input) MODE_0077 :: u32 where "MODE_0077 \<equiv> 7 * 8 + 7"

datatype file_kind = Directory | Socket_File | Other_File

record file_status =
  st_kind :: file_kind
  st_uid :: u32
  st_mode :: u32   \<comment> \<open>the permission bits, \<^verbatim>\<open>st_mode & 0777\<close>\<close>

record ucred =
  uc_length_ok :: bool
  uc_uid :: u32
  uc_pid :: int

record bound_name =
  bn_length_ok :: bool
  bn_inet :: bool
  bn_loopback :: bool
  bn_port :: u16

record system =
  sys_mkdir :: "bytes \<Rightarrow> int"              \<comment> \<open>0 or an error number\<close>
  sys_lstat :: "bytes \<Rightarrow> int + file_status"
  sys_socket :: "int + int"
  sys_bind :: int
  sys_chmod :: int
  sys_listen :: int
  sys_connect :: int
  sys_getsockname :: "int + bound_name"
  sys_peercred :: "int + ucred"
  sys_mask :: u32                           \<comment> \<open>the file mode creation mask of the process\<close>

datatype address =
    Unix_Address bytes nat  \<comment> \<open>\<^verbatim>\<open>sun_path\<close> and the length of the address\<close>
  | Loopback_Address u16

datatype os_call =
    Made_Directory bytes u32
  | Opened int
  | Masked u32
  | Bound int address
  | Changed_Mode bytes u32
  | Listening int nat
  | Connected int address
  | Closed int
  | Unlinked bytes

subsection \<open>Paths\<close>

fun strrchr :: "bytes \<Rightarrow> u8 \<Rightarrow> nat option" where
  "strrchr [] c = None"
| "strrchr (x # xs) c = (case strrchr xs c of Some i \<Rightarrow> Some (Suc i) | None \<Rightarrow> if x = c then Some 0 else None)"

definition runtime_directory :: "bytes option \<Rightarrow> bytes result" where
  "runtime_directory socket_path =
     (case socket_path of None \<Rightarrow> Inl EINVAL
      | Some socket_path \<Rightarrow>
          if socket_path = [] \<or> hd socket_path \<noteq> SLASH then Inl EINVAL
          else if length socket_path \<ge> PATH_MAX \<or> length socket_path \<ge> SUN_PATH_SIZE then Inl ENAMETOOLONG
          else case strrchr socket_path SLASH of
            None \<Rightarrow> Inl EINVAL
          | Some separator \<Rightarrow>
              if separator = 0 \<or> separator + 1 = length socket_path then Inl EINVAL
              else Inr (take separator socket_path))"

definition validate_runtime_directory :: "system \<Rightarrow> bytes \<Rightarrow> u32 \<Rightarrow> int" where
  "validate_runtime_directory sys path expected_uid =
     (case sys_lstat sys path of Inl e \<Rightarrow> - e
      | Inr status \<Rightarrow>
          if st_kind status \<noteq> Directory then neg ENOTDIR
          else if st_uid status \<noteq> expected_uid \<or> st_mode status \<noteq> MODE_0700 then neg EPERM
          else 0)"

definition path_address :: "bytes \<Rightarrow> address" where
  "path_address socket_path =
     Unix_Address (memcpy (replicate SUN_PATH_SIZE 0) 0 (socket_path @ [0]) (length socket_path + 1))
       (SUN_PATH_OFFSET + length socket_path + 1)"

subsection \<open>Who is at the other end\<close>

definition transport_peer_credentials :: "system \<Rightarrow> int \<Rightarrow> bool \<Rightarrow> int + u32 \<times> int" where
  "transport_peer_credentials sys socket_fd pointers =
     (if socket_fd < 0 \<or> \<not> pointers then Inl (neg EINVAL)
      else case sys_peercred sys of
        Inl e \<Rightarrow> Inl (- e)
      | Inr credentials \<Rightarrow>
          if \<not> uc_length_ok credentials \<or> uc_pid credentials \<le> 0 then Inl (neg EACCES)
          else Inr (uc_uid credentials, uc_pid credentials))"

text \<open>The status, and what is stored into \<^verbatim>\<open>*peer_pid\<close>, if anything.\<close>

definition transport_authenticate :: "system \<Rightarrow> int \<Rightarrow> u32 \<Rightarrow> bool \<Rightarrow> int \<times> int option" where
  "transport_authenticate sys socket_fd expected_uid pointer =
     (if socket_fd < 0 \<or> \<not> pointer then (neg EINVAL, None)
      else case transport_peer_credentials sys socket_fd True of
        Inl result \<Rightarrow> (result, None)
      | Inr (peer_uid, peer_pid) \<Rightarrow>
          (if peer_uid \<noteq> expected_uid then neg EACCES else 0, Some peer_pid))"

subsection \<open>Sockets in the file system\<close>

definition transport_listen :: "system \<Rightarrow> bytes option \<Rightarrow> u32 \<Rightarrow> int \<times> os_call list" where
  "transport_listen sys socket_path expected_uid =
     (case runtime_directory socket_path of
        Inl e \<Rightarrow> (neg e, [])
      | Inr directory \<Rightarrow>
          let path = the socket_path in
          if sys_mkdir sys directory \<noteq> 0 \<and> sys_mkdir sys directory \<noteq> errno_code EEXIST
          then (- sys_mkdir sys directory, [])
          else
            let made = (if sys_mkdir sys directory = 0 then [Made_Directory directory MODE_0700] else []);
                result = validate_runtime_directory sys directory expected_uid in
            if result \<noteq> 0 then (result, made)
            else (case sys_lstat sys path of
              Inr existing \<Rightarrow> (neg EADDRINUSE, made)
            | Inl e \<Rightarrow>
                if e \<noteq> errno_code ENOENT then (- e, made)
                else (case sys_socket sys of
                  Inl e \<Rightarrow> (- e, made)
                | Inr socket_fd \<Rightarrow>
                    let opened = made @ [Opened socket_fd, Masked MODE_0077];
                        bound = opened @ [Bound socket_fd (path_address path), Masked (sys_mask sys)] in
                    if sys_bind sys \<noteq> 0
                    then (- sys_bind sys, opened @ [Masked (sys_mask sys), Closed socket_fd])
                    else if sys_chmod sys \<noteq> 0
                    then (- sys_chmod sys, bound @ [Closed socket_fd, Unlinked path])
                    else if sys_listen sys \<noteq> 0
                    then (- sys_listen sys, bound @ [Changed_Mode path MODE_0600, Closed socket_fd, Unlinked path])
                    else (socket_fd, bound @ [Changed_Mode path MODE_0600, Listening socket_fd 4]))))"

definition transport_connect :: "system \<Rightarrow> bytes option \<Rightarrow> u32 \<Rightarrow> int \<times> os_call list" where
  "transport_connect sys socket_path expected_uid =
     (case runtime_directory socket_path of
        Inl e \<Rightarrow> (neg e, [])
      | Inr directory \<Rightarrow>
          let path = the socket_path;
              result = validate_runtime_directory sys directory expected_uid in
          if result \<noteq> 0 then (result, [])
          else (case sys_lstat sys path of
            Inl e \<Rightarrow> (- e, [])
          | Inr status \<Rightarrow>
              if st_kind status \<noteq> Socket_File \<or> st_uid status \<noteq> expected_uid \<or> st_mode status \<noteq> MODE_0600
              then (neg EPERM, [])
              else (case sys_socket sys of
                Inl e \<Rightarrow> (- e, [])
              | Inr socket_fd \<Rightarrow>
                  if sys_connect sys \<noteq> 0 then (- sys_connect sys, [Opened socket_fd, Closed socket_fd])
                  else
                    let connected = [Opened socket_fd, Connected socket_fd (path_address path)];
                        result = fst (transport_authenticate sys socket_fd expected_uid True) in
                    if result \<noteq> 0 then (result, connected @ [Closed socket_fd])
                    else (socket_fd, connected))))"

subsection \<open>Abstract and loopback sockets\<close>

definition abstract_address :: "bytes option \<Rightarrow> address result" where
  "abstract_address name =
     (case name of None \<Rightarrow> Inl EINVAL
      | Some name \<Rightarrow>
          if length name = 0 \<or> length name > SUN_PATH_SIZE - 1 then Inl EINVAL
          else Inr (Unix_Address (memcpy (replicate SUN_PATH_SIZE 0) 1 name (length name))
                      (SUN_PATH_OFFSET + 1 + length name)))"

definition bind_and_listen :: "system \<Rightarrow> int \<Rightarrow> address \<Rightarrow> int \<times> os_call list" where
  "bind_and_listen sys socket_fd address =
     (if sys_bind sys \<noteq> 0 then (- sys_bind sys, [Opened socket_fd, Closed socket_fd])
      else if sys_listen sys \<noteq> 0
      then (- sys_listen sys, [Opened socket_fd, Bound socket_fd address, Closed socket_fd])
      else (socket_fd, [Opened socket_fd, Bound socket_fd address, Listening socket_fd 4]))"

definition transport_listen_abstract :: "system \<Rightarrow> bytes option \<Rightarrow> int \<times> os_call list" where
  "transport_listen_abstract sys name =
     (case abstract_address name of
        Inl e \<Rightarrow> (neg e, [])
      | Inr address \<Rightarrow>
          (case sys_socket sys of
             Inl e \<Rightarrow> (- e, [])
           | Inr socket_fd \<Rightarrow> bind_and_listen sys socket_fd address))"

definition open_and_connect :: "system \<Rightarrow> address \<Rightarrow> int \<times> os_call list" where
  "open_and_connect sys address =
     (case sys_socket sys of
        Inl e \<Rightarrow> (- e, [])
      | Inr socket_fd \<Rightarrow>
          if sys_connect sys \<noteq> 0 then (- sys_connect sys, [Opened socket_fd, Closed socket_fd])
          else (socket_fd, [Opened socket_fd, Connected socket_fd address]))"

definition transport_connect_abstract :: "system \<Rightarrow> bytes option \<Rightarrow> int \<times> os_call list" where
  "transport_connect_abstract sys name =
     (case abstract_address name of
        Inl e \<Rightarrow> (neg e, [])
      | Inr address \<Rightarrow> open_and_connect sys address)"

text \<open>The second result is what \<^verbatim>\<open>*bound_port\<close> holds; \<open>None\<close> when the pointer is null.\<close>

definition transport_listen_loopback ::
  "system \<Rightarrow> u16 \<Rightarrow> bool \<Rightarrow> int \<times> u16 option \<times> os_call list" where
  "transport_listen_loopback sys requested_port pointer =
     (if \<not> pointer then (neg EINVAL, None, [])
      else case sys_socket sys of
        Inl e \<Rightarrow> (- e, Some 0, [])
      | Inr socket_fd \<Rightarrow>
          (case bind_and_listen sys socket_fd (Loopback_Address requested_port) of (status, calls) \<Rightarrow>
           if sys_bind sys \<noteq> 0 \<or> sys_listen sys \<noteq> 0 then (status, Some 0, calls)
           else case sys_getsockname sys of
             Inl e \<Rightarrow> (- e, Some 0, calls @ [Closed socket_fd])
           | Inr bound \<Rightarrow>
               if \<not> bn_length_ok bound \<or> \<not> bn_inet bound \<or> \<not> bn_loopback bound \<or> bn_port bound = 0
               then (neg EIO, Some 0, calls @ [Closed socket_fd])
               else (socket_fd, Some (bn_port bound), calls)))"

definition transport_connect_loopback :: "system \<Rightarrow> u16 \<Rightarrow> int \<times> os_call list" where
  "transport_connect_loopback sys port =
     (if port = 0 then (neg EINVAL, []) else open_and_connect sys (Loopback_Address port))"

subsection \<open>What a sequence of calls leaves\<close>

fun open_sockets :: "os_call list \<Rightarrow> int list \<Rightarrow> int list" where
  "open_sockets [] fds = fds"
| "open_sockets (Opened fd # calls) fds = open_sockets calls (fd # fds)"
| "open_sockets (Closed fd # calls) fds = open_sockets calls (remove1 fd fds)"
| "open_sockets (_ # calls) fds = open_sockets calls fds"

fun final_mask :: "os_call list \<Rightarrow> u32 \<Rightarrow> u32" where
  "final_mask [] m = m"
| "final_mask (Masked new # calls) m = final_mask calls new"
| "final_mask (_ # calls) m = final_mask calls m"

text \<open>The addresses in the file system that are bound and not unlinked.\<close>

fun bound_paths :: "os_call list \<Rightarrow> address list \<Rightarrow> address list" where
  "bound_paths [] paths = paths"
| "bound_paths (Bound fd (Unix_Address sun_path n) # calls) paths =
     bound_paths calls (if sun_path ! 0 = 0 then paths else Unix_Address sun_path n # paths)"
| "bound_paths (Unlinked path # calls) paths = bound_paths calls (remove1 (path_address path) paths)"
| "bound_paths (_ # calls) paths = bound_paths calls paths"

text \<open>
  After a success exactly the returned socket is open; after a failure none is, and no file is left
  behind. The creation mask of the process is what it was.
\<close>

definition tidy :: "system \<Rightarrow> int \<times> os_call list \<Rightarrow> bool" where
  "tidy sys r \<longleftrightarrow>
     (if fst r \<ge> 0 then open_sockets (snd r) [] = [fst r]
      else open_sockets (snd r) [] = [] \<and> bound_paths (snd r) [] = []) \<and>
     final_mask (snd r) (sys_mask sys) = sys_mask sys"

text \<open>What the manual pages promise: error numbers are positive, descriptors are not negative.\<close>

definition errors_positive :: "system \<Rightarrow> bool" where
  "errors_positive sys \<longleftrightarrow>
     (\<forall>path. 0 \<le> sys_mkdir sys path) \<and> (\<forall>path e. sys_lstat sys path = Inl e \<longrightarrow> 0 < e) \<and>
     (\<forall>e. sys_socket sys = Inl e \<longrightarrow> 0 < e) \<and> (\<forall>fd. sys_socket sys = Inr fd \<longrightarrow> 0 \<le> fd) \<and>
     0 \<le> sys_bind sys \<and> 0 \<le> sys_chmod sys \<and> 0 \<le> sys_listen sys \<and> 0 \<le> sys_connect sys \<and>
     (\<forall>e. sys_getsockname sys = Inl e \<longrightarrow> 0 < e) \<and> (\<forall>e. sys_peercred sys = Inl e \<longrightarrow> 0 < e)"

lemma neg_not_nonneg [simp]: "\<not> 0 \<le> neg e"
  by (simp add: not_le)

lemma path_address_not_abstract:
  assumes "runtime_directory (Some path) = Inr directory"
  shows "\<exists>sun_path. path_address path = Unix_Address sun_path (length path + 3) \<and> sun_path ! 0 = SLASH"
proof -
  obtain rest where path: "path = SLASH # rest"
    using assms by (cases path) (auto simp: runtime_directory_def split: if_splits)
  show ?thesis unfolding path_address_def path memcpy_def
    by (rule exI [of _ "SLASH # rest @ [0] @ replicate (106 - length rest) 0"]) (simp add: nth_Cons_0)
qed

lemma runtime_directory_path: "runtime_directory p = Inr d \<Longrightarrow> \<exists>path. p = Some path"
  by (cases p) (simp_all add: runtime_directory_def)

lemma validate_nonpos: "errors_positive sys \<Longrightarrow> validate_runtime_directory sys directory uid \<le> 0"
  by (auto simp: validate_runtime_directory_def errors_positive_def intro: less_imp_le split: sum.splits)

lemma authenticate_nonpos: "errors_positive sys \<Longrightarrow> fst (transport_authenticate sys fd uid True) \<le> 0"
  by (auto simp: transport_authenticate_def transport_peer_credentials_def errors_positive_def
      intro: less_imp_le split: sum.splits)

lemma open_sockets_append [simp]: "open_sockets (xs @ ys) fds = open_sockets ys (open_sockets xs fds)"
  by (induction xs fds rule: open_sockets.induct) simp_all

lemma bound_paths_append [simp]: "bound_paths (xs @ ys) paths = bound_paths ys (bound_paths xs paths)"
  by (induction xs paths rule: bound_paths.induct) simp_all

lemma final_mask_append [simp]: "final_mask (xs @ ys) m = final_mask ys (final_mask xs m)"
  by (induction xs m rule: final_mask.induct) simp_all

text \<open>A failure with a positive error number and nothing open.\<close>

lemma tidy_stop:
  "status < 0 \<Longrightarrow> open_sockets calls [] = [] \<Longrightarrow> bound_paths calls [] = [] \<Longrightarrow>
     final_mask calls (sys_mask sys) = sys_mask sys \<Longrightarrow> tidy sys (status, calls)"
  by (simp add: tidy_def)

lemma listen_tidy:
  assumes ok: "errors_positive sys"
  shows "tidy sys (transport_listen sys path uid)"
proof (cases "runtime_directory path")
  case (Inr directory)
  obtain p where p: "path = Some p" using runtime_directory_path [OF Inr] by blast
  obtain sun_path where sun: "path_address p = Unix_Address sun_path (length p + 3)" "sun_path ! 0 = SLASH"
    using path_address_not_abstract Inr p by blast
  define made where "made = (if sys_mkdir sys directory = 0 then [Made_Directory directory MODE_0700] else [])"
  have made: "open_sockets made fds = fds" "bound_paths made ps = ps" "final_mask made m = m" for fds ps m
    by (simp_all add: made_def)
  have mkdir: "0 \<le> sys_mkdir sys directory"
    using ok by (simp add: errors_positive_def)
  have rest: "0 \<le> sys_bind sys" "0 \<le> sys_chmod sys" "0 \<le> sys_listen sys"
    using ok by (simp_all add: errors_positive_def not_le)
  have lstat: "sys_lstat sys p = Inl e \<Longrightarrow> \<not> e \<le> 0" and sock: "sys_socket sys = Inl e \<Longrightarrow> \<not> e \<le> 0"
      "sys_socket sys = Inr fd \<Longrightarrow> 0 \<le> fd" for e fd
    using ok by (simp_all add: errors_positive_def not_le)
  show ?thesis
    unfolding transport_listen_def p Inr [unfolded p] sum.case Let_def option.sel made_def [symmetric]
    using mkdir rest validate_nonpos [OF ok, of directory uid]
    by (cases "sys_lstat sys p"; cases "sys_socket sys") (simp_all add: tidy_def made sun lstat sock)
qed (simp add: transport_listen_def tidy_def)

lemma connect_tidy:
  assumes ok: "errors_positive sys"
  shows "tidy sys (transport_connect sys path uid)"
proof (cases "runtime_directory path")
  case (Inr directory)
  have lstat: "sys_lstat sys p = Inl e \<Longrightarrow> \<not> e \<le> 0" and sock: "sys_socket sys = Inl e \<Longrightarrow> \<not> e \<le> 0"
      "sys_socket sys = Inr fd \<Longrightarrow> 0 \<le> fd" and conn: "0 \<le> sys_connect sys" for p e fd
    using ok by (simp_all add: errors_positive_def not_le)
  show ?thesis
    unfolding transport_connect_def Inr sum.case Let_def
    using conn validate_nonpos [OF ok, of directory uid] authenticate_nonpos [OF ok, of "projr (sys_socket sys)" uid]
    by (cases "sys_lstat sys (the path)"; cases "sys_socket sys") (simp_all add: tidy_def lstat sock)
qed (simp add: transport_connect_def tidy_def)

lemma abstract_address_no_file:
  "abstract_address name = Inr a \<Longrightarrow> \<exists>sun_path n. a = Unix_Address sun_path n \<and> sun_path ! 0 = 0"
  by (auto simp: abstract_address_def memcpy_def nth_append split: option.splits if_splits)

lemma bind_and_listen_tidy:
  assumes "errors_positive sys" "0 \<le> fd" "(\<exists>port. a = Loopback_Address port) \<or> (\<exists>s n. a = Unix_Address s n \<and> s ! 0 = 0)"
  shows "tidy sys (bind_and_listen sys fd a)"
  using assms by (auto simp: bind_and_listen_def tidy_def errors_positive_def)

lemma open_and_connect_tidy: "errors_positive sys \<Longrightarrow> tidy sys (open_and_connect sys a)"
  by (auto simp: open_and_connect_def tidy_def errors_positive_def split: sum.split)

lemma listen_abstract_tidy: "errors_positive sys \<Longrightarrow> tidy sys (transport_listen_abstract sys name)"
  using abstract_address_no_file [of name]
  by (auto simp: transport_listen_abstract_def intro!: tidy_stop bind_and_listen_tidy split: sum.split)
    (auto simp: errors_positive_def)

lemma connect_abstract_tidy: "errors_positive sys \<Longrightarrow> tidy sys (transport_connect_abstract sys name)"
  by (auto simp: transport_connect_abstract_def intro!: tidy_stop open_and_connect_tidy split: sum.split)

lemma listen_loopback_tidy:
  assumes "errors_positive sys"
  shows "case transport_listen_loopback sys port pointer of (status, _, calls) \<Rightarrow> tidy sys (status, calls)"
  using assms
  by (auto simp: transport_listen_loopback_def tidy_def bind_and_listen_def errors_positive_def split: sum.split)

lemma connect_loopback_tidy: "errors_positive sys \<Longrightarrow> tidy sys (transport_connect_loopback sys port)"
  by (auto simp: transport_connect_loopback_def intro!: tidy_stop open_and_connect_tidy)

subsection \<open>What setting up a socket guarantees\<close>

text \<open>The pieces of a private path, as the checks of \<^verbatim>\<open>connect\<close> establish them.\<close>

lemma validate_runtime_directory_ok:
  "errors_positive sys \<Longrightarrow> validate_runtime_directory sys directory uid = 0 \<longleftrightarrow>
     sys_lstat sys directory = Inr \<lparr>st_kind = Directory, st_uid = uid, st_mode = MODE_0700\<rparr>"
  by (cases "sys_lstat sys directory"; cases "projr (sys_lstat sys directory)")
    (auto simp: validate_runtime_directory_def errors_positive_def)

lemma authenticate_ok:
  "errors_positive sys \<Longrightarrow> fst (transport_authenticate sys fd uid True) = 0 \<Longrightarrow>
     \<exists>credentials. sys_peercred sys = Inr credentials \<and> uc_uid credentials = uid \<and> 0 < uc_pid credentials"
  by (auto simp: transport_authenticate_def transport_peer_credentials_def errors_positive_def
      split: sum.splits if_splits)

text \<open>
  C31: whatever the system calls answer, each of the six ways to set up a socket is tidy: when it
  succeeds exactly the returned socket is open, when it fails none is and no socket file it bound is
  left in the file system, and the creation mask of the process is as before.
\<close>

theorem socket_setup_tidy:
  assumes "errors_positive sys"
  shows "tidy sys (transport_listen sys path uid) \<and> tidy sys (transport_connect sys path uid) \<and>
    tidy sys (transport_listen_abstract sys name) \<and> tidy sys (transport_connect_abstract sys name) \<and>
    (case transport_listen_loopback sys port pointer of (status, _, calls) \<Rightarrow> tidy sys (status, calls)) \<and>
    tidy sys (transport_connect_loopback sys port)"
  by (intro conjI listen_tidy connect_tidy listen_abstract_tidy connect_abstract_tidy listen_loopback_tidy
      connect_loopback_tidy assms)

text \<open>The path \<^verbatim>\<open>/a/b\<close>, bound by a process whose \<^verbatim>\<open>chmod\<close> then fails.\<close>

theorem socket_setup_tidy_witness:
  "case transport_listen \<lparr>sys_mkdir = (\<lambda>_. 0), sys_lstat = (\<lambda>p. if p = [47, 97]
        then Inr \<lparr>st_kind = Directory, st_uid = 7, st_mode = MODE_0700\<rparr> else Inl 2),
      sys_socket = Inr 5, sys_bind = 0, sys_chmod = 30, sys_listen = 0, sys_connect = 0,
      sys_getsockname = Inl 9, sys_peercred = Inl 9, sys_mask = 18\<rparr> (Some [47, 97, 47, 98]) 7 of
    (status, calls) \<Rightarrow> status = -30 \<and> Opened 5 \<in> set calls \<and> open_sockets calls [] = [] \<and> bound_paths calls [] = []"
  using socket_setup_tidy [of "\<lparr>sys_mkdir = (\<lambda>_. 0), sys_lstat = (\<lambda>p. if p = [47, 97]
        then Inr \<lparr>st_kind = Directory, st_uid = 7, st_mode = MODE_0700\<rparr> else Inl 2),
      sys_socket = Inr 5, sys_bind = 0, sys_chmod = 30, sys_listen = 0, sys_connect = 0,
      sys_getsockname = Inl 9, sys_peercred = Inl 9, sys_mask = 18\<rparr>" "Some [47, 97, 47, 98]" 7]
  by (simp add: transport_listen_def runtime_directory_def validate_runtime_directory_def errors_positive_def
      tidy_def Let_def)

text \<open>
  C32: a client that gets a connection to a socket path is talking to a process of the expected user
  through a private path: the directory is a directory of that user with mode 0700, the path is a
  socket of that user with mode 0600, and the kernel names that user as the peer.
\<close>

theorem connect_authenticated:
  assumes "errors_positive sys" "transport_connect sys (Some path) uid = (socket_fd, calls)" "0 \<le> socket_fd"
  shows "\<exists>directory credentials. runtime_directory (Some path) = Inr directory \<and>
    sys_lstat sys directory = Inr \<lparr>st_kind = Directory, st_uid = uid, st_mode = MODE_0700\<rparr> \<and>
    sys_lstat sys path = Inr \<lparr>st_kind = Socket_File, st_uid = uid, st_mode = MODE_0600\<rparr> \<and>
    sys_peercred sys = Inr credentials \<and> uc_uid credentials = uid \<and>
    calls = [Opened socket_fd, Connected socket_fd (path_address path)]"
proof (cases "runtime_directory (Some path)")
  case (Inr directory)
  note valid = validate_nonpos [OF assms(1), of directory uid]
    and auth = authenticate_nonpos [OF assms(1)]
  have pos: "sys_lstat sys path = Inl e \<Longrightarrow> \<not> e \<le> 0" "sys_socket sys = Inl e \<Longrightarrow> \<not> e \<le> 0"
      "0 \<le> sys_connect sys" for e
    using assms(1) by (simp_all add: errors_positive_def not_le)
  have "validate_runtime_directory sys directory uid = 0 \<and>
      sys_lstat sys path = Inr \<lparr>st_kind = Socket_File, st_uid = uid, st_mode = MODE_0600\<rparr> \<and>
      fst (transport_authenticate sys socket_fd uid True) = 0 \<and>
      calls = [Opened socket_fd, Connected socket_fd (path_address path)]"
    using assms(2,3) Inr valid pos auth [of "projr (sys_socket sys)" uid]
    by (cases "sys_lstat sys path"; cases "sys_socket sys"; cases "projr (sys_lstat sys path)")
      (auto simp: transport_connect_def Let_def not_le split: if_splits)
  then show ?thesis
    using Inr validate_runtime_directory_ok [OF assms(1)] authenticate_ok [OF assms(1)] by blast
qed (use assms in \<open>auto simp: transport_connect_def\<close>)

theorem connect_authenticated_witness:
  "\<exists>calls. transport_connect \<lparr>sys_mkdir = (\<lambda>_. 0), sys_lstat = (\<lambda>p. Inr (if p = [47, 97]
        then \<lparr>st_kind = Directory, st_uid = 7, st_mode = MODE_0700\<rparr> else \<lparr>st_kind = Socket_File, st_uid = 7, st_mode = MODE_0600\<rparr>)),
      sys_socket = Inr 5, sys_bind = 0, sys_chmod = 0, sys_listen = 0, sys_connect = 0,
      sys_getsockname = Inl 9, sys_peercred = Inr \<lparr>uc_length_ok = True, uc_uid = 7, uc_pid = 99\<rparr>, sys_mask = 18\<rparr>
      (Some [47, 97, 47, 98]) 7 = (5, calls) \<and> calls = [Opened 5, Connected 5 (path_address [47, 97, 47, 98])]"
proof -
  let ?sys = "\<lparr>sys_mkdir = (\<lambda>_. 0), sys_lstat = (\<lambda>p. Inr (if p = [47, 97]
        then \<lparr>st_kind = Directory, st_uid = 7, st_mode = MODE_0700\<rparr> else \<lparr>st_kind = Socket_File, st_uid = 7, st_mode = MODE_0600\<rparr>)),
      sys_socket = Inr 5, sys_bind = 0, sys_chmod = 0, sys_listen = 0, sys_connect = 0,
      sys_getsockname = Inl 9, sys_peercred = Inr \<lparr>uc_length_ok = True, uc_uid = 7, uc_pid = 99\<rparr>, sys_mask = 18\<rparr>"
  have "errors_positive ?sys" by (simp add: errors_positive_def)
  moreover have "\<exists>calls. transport_connect ?sys (Some [47, 97, 47, 98]) 7 = (5, calls)"
    by (simp add: transport_connect_def runtime_directory_def validate_runtime_directory_def Let_def
        transport_authenticate_def transport_peer_credentials_def)
  ultimately show ?thesis using connect_authenticated [of ?sys "[47, 97, 47, 98]" 7 5] by fastforce
qed

end
