(* ===== verification/Command_Check.thy ===== *)
theory Command_Check
  imports Proto_Base Handle
begin

unbundle bit_operations_syntax

section \<open>Command records and their validation\<close>

text \<open>
  The receiving side of src/src/command_batch.c: the opcodes and payload sizes, the readers of the
  structures inside a payload, \<^verbatim>\<open>expected_payload_size\<close>, \<^verbatim>\<open>payload_length_is_valid\<close> and
  \<^verbatim>\<open>validate_payload\<close>, one definition per case of its switch.

  A pointer to a payload is the list of the bytes from there to the end of the object it points into,
  so a validator is given more than the payload when it looks at a record inside a batch; that it does
  not look beyond the payload is a theorem. A null pointer is the empty list. A \<^verbatim>\<open>float\<close> is its bit
  pattern.
\<close>

subsection \<open>Opcodes and sizes\<close>

abbreviation (input) BVB_COMMAND_BEGIN_RENDERING :: u16 where "BVB_COMMAND_BEGIN_RENDERING \<equiv> 1"
abbreviation (input) BVB_COMMAND_BIND_GRAPHICS_PIPELINE :: u16 where "BVB_COMMAND_BIND_GRAPHICS_PIPELINE \<equiv> 2"
abbreviation (input) BVB_COMMAND_SET_VIEWPORT :: u16 where "BVB_COMMAND_SET_VIEWPORT \<equiv> 3"
abbreviation (input) BVB_COMMAND_SET_SCISSOR :: u16 where "BVB_COMMAND_SET_SCISSOR \<equiv> 4"
abbreviation (input) BVB_COMMAND_DRAW :: u16 where "BVB_COMMAND_DRAW \<equiv> 5"
abbreviation (input) BVB_COMMAND_END_RENDERING :: u16 where "BVB_COMMAND_END_RENDERING \<equiv> 6"
abbreviation (input) BVB_COMMAND_FILL_BUFFER :: u16 where "BVB_COMMAND_FILL_BUFFER \<equiv> 7"
abbreviation (input) BVB_COMMAND_BUFFER_HOST_READ_BARRIER :: u16 where "BVB_COMMAND_BUFFER_HOST_READ_BARRIER \<equiv> 8"
abbreviation (input) BVB_COMMAND_PUSH_ROTATION :: u16 where "BVB_COMMAND_PUSH_ROTATION \<equiv> 9"
abbreviation (input) BVB_COMMAND_VULKAN_IMAGE_BARRIER_2 :: u16 where "BVB_COMMAND_VULKAN_IMAGE_BARRIER_2 \<equiv> 10"
abbreviation (input) BVB_COMMAND_VULKAN_CLEAR_COLOR_IMAGE_GENERAL :: u16 where "BVB_COMMAND_VULKAN_CLEAR_COLOR_IMAGE_GENERAL \<equiv> 11"
abbreviation (input) BVB_COMMAND_VULKAN_BIND_DESCRIPTOR_SETS :: u16 where "BVB_COMMAND_VULKAN_BIND_DESCRIPTOR_SETS \<equiv> 12"
abbreviation (input) BVB_COMMAND_VULKAN_PUSH_CONSTANTS :: u16 where "BVB_COMMAND_VULKAN_PUSH_CONSTANTS \<equiv> 13"
abbreviation (input) BVB_COMMAND_VULKAN_COPY_BUFFER_2 :: u16 where "BVB_COMMAND_VULKAN_COPY_BUFFER_2 \<equiv> 14"
abbreviation (input) BVB_COMMAND_VULKAN_COPY_BUFFER_TO_IMAGE_2 :: u16 where "BVB_COMMAND_VULKAN_COPY_BUFFER_TO_IMAGE_2 \<equiv> 15"
abbreviation (input) BVB_COMMAND_VULKAN_COPY_IMAGE_TO_BUFFER_2 :: u16 where "BVB_COMMAND_VULKAN_COPY_IMAGE_TO_BUFFER_2 \<equiv> 16"
abbreviation (input) BVB_COMMAND_VULKAN_COPY_IMAGE_2 :: u16 where "BVB_COMMAND_VULKAN_COPY_IMAGE_2 \<equiv> 17"
abbreviation (input) BVB_COMMAND_VULKAN_BLIT_IMAGE_2 :: u16 where "BVB_COMMAND_VULKAN_BLIT_IMAGE_2 \<equiv> 18"
abbreviation (input) BVB_COMMAND_VULKAN_RESOLVE_IMAGE_2 :: u16 where "BVB_COMMAND_VULKAN_RESOLVE_IMAGE_2 \<equiv> 19"
abbreviation (input) BVB_COMMAND_VULKAN_BEGIN :: u16 where "BVB_COMMAND_VULKAN_BEGIN \<equiv> 20"
abbreviation (input) BVB_COMMAND_VULKAN_CLEAR_COLOR_IMAGE :: u16 where "BVB_COMMAND_VULKAN_CLEAR_COLOR_IMAGE \<equiv> 21"
abbreviation (input) BVB_COMMAND_VULKAN_INIT_IMAGE_BARRIER :: u16 where "BVB_COMMAND_VULKAN_INIT_IMAGE_BARRIER \<equiv> 22"
abbreviation (input) BVB_COMMAND_VULKAN_END :: u16 where "BVB_COMMAND_VULKAN_END \<equiv> 23"
abbreviation (input) BVB_COMMAND_VULKAN_BIND_VERTEX_BUFFERS :: u16 where "BVB_COMMAND_VULKAN_BIND_VERTEX_BUFFERS \<equiv> 24"
abbreviation (input) BVB_COMMAND_VULKAN_BIND_VERTEX_BUFFERS_2 :: u16 where "BVB_COMMAND_VULKAN_BIND_VERTEX_BUFFERS_2 \<equiv> 25"
abbreviation (input) BVB_COMMAND_VULKAN_BIND_INDEX_BUFFER :: u16 where "BVB_COMMAND_VULKAN_BIND_INDEX_BUFFER \<equiv> 26"
abbreviation (input) BVB_COMMAND_VULKAN_BIND_INDEX_BUFFER_2 :: u16 where "BVB_COMMAND_VULKAN_BIND_INDEX_BUFFER_2 \<equiv> 27"
abbreviation (input) BVB_COMMAND_VULKAN_DRAW_INDEXED :: u16 where "BVB_COMMAND_VULKAN_DRAW_INDEXED \<equiv> 28"
abbreviation (input) BVB_COMMAND_VULKAN_DRAW_INDIRECT :: u16 where "BVB_COMMAND_VULKAN_DRAW_INDIRECT \<equiv> 29"
abbreviation (input) BVB_COMMAND_VULKAN_DRAW_INDEXED_INDIRECT :: u16 where "BVB_COMMAND_VULKAN_DRAW_INDEXED_INDIRECT \<equiv> 30"
abbreviation (input) BVB_COMMAND_VULKAN_DRAW_INDIRECT_COUNT :: u16 where "BVB_COMMAND_VULKAN_DRAW_INDIRECT_COUNT \<equiv> 31"
abbreviation (input) BVB_COMMAND_VULKAN_DRAW_INDEXED_INDIRECT_COUNT :: u16 where "BVB_COMMAND_VULKAN_DRAW_INDEXED_INDIRECT_COUNT \<equiv> 32"
abbreviation (input) BVB_COMMAND_VULKAN_DYNAMIC_STATE :: u16 where "BVB_COMMAND_VULKAN_DYNAMIC_STATE \<equiv> 33"
abbreviation (input) BVB_COMMAND_VULKAN_CLEAR_DEPTH_STENCIL_IMAGE :: u16 where "BVB_COMMAND_VULKAN_CLEAR_DEPTH_STENCIL_IMAGE \<equiv> 34"
abbreviation (input) BVB_COMMAND_VULKAN_CLEAR_ATTACHMENTS :: u16 where "BVB_COMMAND_VULKAN_CLEAR_ATTACHMENTS \<equiv> 35"
abbreviation (input) BVB_COMMAND_VULKAN_UPDATE_BUFFER :: u16 where "BVB_COMMAND_VULKAN_UPDATE_BUFFER \<equiv> 36"
abbreviation (input) BVB_COMMAND_VULKAN_QUERY :: u16 where "BVB_COMMAND_VULKAN_QUERY \<equiv> 37"

abbreviation (input) BVB_COMMAND_RECORD_HEADER_SIZE :: "'a::numeral" where "BVB_COMMAND_RECORD_HEADER_SIZE \<equiv> 8"
abbreviation (input) BVB_COMMAND_VULKAN_MAX_INIT_IMAGE_BARRIERS :: "'a::numeral" where "BVB_COMMAND_VULKAN_MAX_INIT_IMAGE_BARRIERS \<equiv> 4"
abbreviation (input) BVB_COMMAND_VULKAN_MAX_MEMORY_BARRIERS :: "'a::numeral" where "BVB_COMMAND_VULKAN_MAX_MEMORY_BARRIERS \<equiv> 64"
abbreviation (input) BVB_COMMAND_VULKAN_MAX_BUFFER_BARRIERS :: "'a::numeral" where "BVB_COMMAND_VULKAN_MAX_BUFFER_BARRIERS \<equiv> 256"
abbreviation (input) BVB_COMMAND_VULKAN_MAX_IMAGE_BARRIERS :: "'a::numeral" where "BVB_COMMAND_VULKAN_MAX_IMAGE_BARRIERS \<equiv> 2048"
abbreviation (input) BVB_COMMAND_VULKAN_MAX_CLEAR_RANGES :: "'a::numeral" where "BVB_COMMAND_VULKAN_MAX_CLEAR_RANGES \<equiv> 4"
abbreviation (input) BVB_COMMAND_VULKAN_MAX_BOUND_DESCRIPTOR_SETS :: "'a::numeral" where "BVB_COMMAND_VULKAN_MAX_BOUND_DESCRIPTOR_SETS \<equiv> 8"
abbreviation (input) BVB_COMMAND_VULKAN_MAX_DYNAMIC_OFFSETS :: "'a::numeral" where "BVB_COMMAND_VULKAN_MAX_DYNAMIC_OFFSETS \<equiv> 32"
abbreviation (input) BVB_COMMAND_VULKAN_MAX_PUSH_CONSTANT_BYTES :: "'a::numeral" where "BVB_COMMAND_VULKAN_MAX_PUSH_CONSTANT_BYTES \<equiv> 256"
abbreviation (input) BVB_COMMAND_VULKAN_MAX_TRANSFER_REGIONS :: "'a::numeral" where "BVB_COMMAND_VULKAN_MAX_TRANSFER_REGIONS \<equiv> 16"
abbreviation (input) BVB_COMMAND_VULKAN_MAX_COLOR_ATTACHMENTS :: "'a::numeral" where "BVB_COMMAND_VULKAN_MAX_COLOR_ATTACHMENTS \<equiv> 8"
abbreviation (input) BVB_COMMAND_VULKAN_MAX_VERTEX_BINDINGS :: "'a::numeral" where "BVB_COMMAND_VULKAN_MAX_VERTEX_BINDINGS \<equiv> 16"
abbreviation (input) BVB_COMMAND_VULKAN_MAX_DYNAMIC_STATE_VALUES :: "'a::numeral" where "BVB_COMMAND_VULKAN_MAX_DYNAMIC_STATE_VALUES \<equiv> 8"
abbreviation (input) BVB_COMMAND_VULKAN_MAX_CLEAR_ATTACHMENTS :: "'a::numeral" where "BVB_COMMAND_VULKAN_MAX_CLEAR_ATTACHMENTS \<equiv> 8"
abbreviation (input) BVB_COMMAND_VULKAN_MAX_CLEAR_RECTS :: "'a::numeral" where "BVB_COMMAND_VULKAN_MAX_CLEAR_RECTS \<equiv> 8"
abbreviation (input) BVB_COMMAND_VULKAN_MAX_UPDATE_BUFFER_BYTES :: "'a::numeral" where "BVB_COMMAND_VULKAN_MAX_UPDATE_BUFFER_BYTES \<equiv> 65536"

abbreviation (input) BVB_RENDERING_ATTACHMENT_SIZE :: "'a::numeral" where "BVB_RENDERING_ATTACHMENT_SIZE \<equiv> 56"
abbreviation (input) BVB_BEGIN_RENDERING_HEADER_SIZE :: "'a::numeral" where "BVB_BEGIN_RENDERING_HEADER_SIZE \<equiv> 40"
abbreviation (input) BVB_BEGIN_RENDERING_SIZE :: "'a::numeral" where "BVB_BEGIN_RENDERING_SIZE \<equiv> 600"
abbreviation (input) BVB_BIND_GRAPHICS_PIPELINE_SIZE :: "'a::numeral" where "BVB_BIND_GRAPHICS_PIPELINE_SIZE \<equiv> 16"
abbreviation (input) BVB_PUSH_ROTATION_SIZE :: "'a::numeral" where "BVB_PUSH_ROTATION_SIZE \<equiv> 16"
abbreviation (input) BVB_SET_VIEWPORT_SIZE :: "'a::numeral" where "BVB_SET_VIEWPORT_SIZE \<equiv> 24"
abbreviation (input) BVB_SET_SCISSOR_SIZE :: "'a::numeral" where "BVB_SET_SCISSOR_SIZE \<equiv> 16"
abbreviation (input) BVB_DRAW_SIZE :: "'a::numeral" where "BVB_DRAW_SIZE \<equiv> 16"
abbreviation (input) BVB_FILL_BUFFER_SIZE :: "'a::numeral" where "BVB_FILL_BUFFER_SIZE \<equiv> 32"
abbreviation (input) BVB_BUFFER_HOST_READ_BARRIER_SIZE :: "'a::numeral" where "BVB_BUFFER_HOST_READ_BARRIER_SIZE \<equiv> 24"
abbreviation (input) BVB_VULKAN_BEGIN_SIZE :: "'a::numeral" where "BVB_VULKAN_BEGIN_SIZE \<equiv> 8"
abbreviation (input) BVB_VULKAN_CLEAR_COLOR_IMAGE_SIZE :: "'a::numeral" where "BVB_VULKAN_CLEAR_COLOR_IMAGE_SIZE \<equiv> 16"
abbreviation (input) BVB_VULKAN_INIT_IMAGE_BARRIER_SIZE :: "'a::numeral" where "BVB_VULKAN_INIT_IMAGE_BARRIER_SIZE \<equiv> 40"
abbreviation (input) BVB_VULKAN_IMAGE_RANGE_SIZE :: "'a::numeral" where "BVB_VULKAN_IMAGE_RANGE_SIZE \<equiv> 24"
abbreviation (input) BVB_VULKAN_MEMORY_BARRIER_2_RECORD_SIZE :: "'a::numeral" where "BVB_VULKAN_MEMORY_BARRIER_2_RECORD_SIZE \<equiv> 32"
abbreviation (input) BVB_VULKAN_BUFFER_BARRIER_2_RECORD_SIZE :: "'a::numeral" where "BVB_VULKAN_BUFFER_BARRIER_2_RECORD_SIZE \<equiv> 64"
abbreviation (input) BVB_VULKAN_IMAGE_BARRIER_2_RECORD_SIZE :: "'a::numeral" where "BVB_VULKAN_IMAGE_BARRIER_2_RECORD_SIZE \<equiv> 80"
abbreviation (input) BVB_VULKAN_IMAGE_BARRIER_2_HEADER_SIZE :: "'a::numeral" where "BVB_VULKAN_IMAGE_BARRIER_2_HEADER_SIZE \<equiv> 16"
abbreviation (input) BVB_VULKAN_IMAGE_BARRIER_2_MAX_SIZE :: "'a::numeral" where "BVB_VULKAN_IMAGE_BARRIER_2_MAX_SIZE \<equiv> 182288"
abbreviation (input) BVB_VULKAN_CLEAR_COLOR_IMAGE_GENERAL_SIZE :: "'a::numeral" where "BVB_VULKAN_CLEAR_COLOR_IMAGE_GENERAL_SIZE \<equiv> 128"
abbreviation (input) BVB_VULKAN_BIND_DESCRIPTOR_SETS_SIZE :: "'a::numeral" where "BVB_VULKAN_BIND_DESCRIPTOR_SETS_SIZE \<equiv> 216"
abbreviation (input) BVB_VULKAN_PUSH_CONSTANTS_SIZE :: "'a::numeral" where "BVB_VULKAN_PUSH_CONSTANTS_SIZE \<equiv> 280"
abbreviation (input) BVB_VULKAN_TRANSFER_HEADER_SIZE :: "'a::numeral" where "BVB_VULKAN_TRANSFER_HEADER_SIZE \<equiv> 32"
abbreviation (input) BVB_VULKAN_TRANSFER_REGION_SIZE :: "'a::numeral" where "BVB_VULKAN_TRANSFER_REGION_SIZE \<equiv> 128"
abbreviation (input) BVB_VULKAN_TRANSFER_MAX_SIZE :: "'a::numeral" where "BVB_VULKAN_TRANSFER_MAX_SIZE \<equiv> 2080"
abbreviation (input) BVB_VULKAN_BIND_VERTEX_BUFFERS_SIZE :: "'a::numeral" where "BVB_VULKAN_BIND_VERTEX_BUFFERS_SIZE \<equiv> 528"
abbreviation (input) BVB_VULKAN_BIND_INDEX_BUFFER_SIZE :: "'a::numeral" where "BVB_VULKAN_BIND_INDEX_BUFFER_SIZE \<equiv> 32"
abbreviation (input) BVB_VULKAN_DRAW_INDEXED_SIZE :: "'a::numeral" where "BVB_VULKAN_DRAW_INDEXED_SIZE \<equiv> 24"
abbreviation (input) BVB_VULKAN_DRAW_INDIRECT_SIZE :: "'a::numeral" where "BVB_VULKAN_DRAW_INDIRECT_SIZE \<equiv> 32"
abbreviation (input) BVB_VULKAN_DRAW_INDIRECT_COUNT_SIZE :: "'a::numeral" where "BVB_VULKAN_DRAW_INDIRECT_COUNT_SIZE \<equiv> 48"
abbreviation (input) BVB_VULKAN_DYNAMIC_STATE_SIZE :: "'a::numeral" where "BVB_VULKAN_DYNAMIC_STATE_SIZE \<equiv> 40"
abbreviation (input) BVB_VULKAN_CLEAR_DEPTH_STENCIL_IMAGE_SIZE :: "'a::numeral" where "BVB_VULKAN_CLEAR_DEPTH_STENCIL_IMAGE_SIZE \<equiv> 120"
abbreviation (input) BVB_VULKAN_CLEAR_ATTACHMENT_SIZE :: "'a::numeral" where "BVB_VULKAN_CLEAR_ATTACHMENT_SIZE \<equiv> 24"
abbreviation (input) BVB_VULKAN_CLEAR_RECT_SIZE :: "'a::numeral" where "BVB_VULKAN_CLEAR_RECT_SIZE \<equiv> 24"
abbreviation (input) BVB_VULKAN_CLEAR_ATTACHMENTS_SIZE :: "'a::numeral" where "BVB_VULKAN_CLEAR_ATTACHMENTS_SIZE \<equiv> 392"
abbreviation (input) BVB_VULKAN_UPDATE_BUFFER_HEADER_SIZE :: "'a::numeral" where "BVB_VULKAN_UPDATE_BUFFER_HEADER_SIZE \<equiv> 24"
abbreviation (input) BVB_VULKAN_UPDATE_BUFFER_MAX_SIZE :: "'a::numeral" where "BVB_VULKAN_UPDATE_BUFFER_MAX_SIZE \<equiv> 65560"
abbreviation (input) BVB_VULKAN_QUERY_SIZE :: "'a::numeral" where "BVB_VULKAN_QUERY_SIZE \<equiv> 40"

abbreviation (input) BVB_OBJECT_COMMAND_BUFFER :: object_type where "BVB_OBJECT_COMMAND_BUFFER \<equiv> 11"
abbreviation (input) BVB_OBJECT_IMAGE_VIEW :: object_type where "BVB_OBJECT_IMAGE_VIEW \<equiv> 8"
abbreviation (input) BVB_OBJECT_PIPELINE_LAYOUT :: object_type where "BVB_OBJECT_PIPELINE_LAYOUT \<equiv> 15"
abbreviation (input) BVB_OBJECT_PIPELINE :: object_type where "BVB_OBJECT_PIPELINE \<equiv> 16"
abbreviation (input) BVB_OBJECT_DESCRIPTOR_SET :: object_type where "BVB_OBJECT_DESCRIPTOR_SET \<equiv> 22"

subsection \<open>Floating-point numbers\<close>

text \<open>
  IEEE 754 single precision: a sign, eight bits of exponent and twenty-three of fraction. Numbers
  other than NaN are ordered as their sign and magnitude are, with both zeros equal; a comparison
  with a NaN is false.
\<close>

abbreviation (input) FLOAT_ZERO :: u32 where "FLOAT_ZERO \<equiv> 0"
abbreviation (input) FLOAT_ONE :: u32 where "FLOAT_ONE \<equiv> 0x3f800000"       \<comment> \<open>\<^verbatim>\<open>1.0F\<close>\<close>
abbreviation (input) FLOAT_TURN :: u32 where "FLOAT_TURN \<equiv> 0x40c90fdc"     \<comment> \<open>\<^verbatim>\<open>6.283186F\<close>\<close>

definition float_word_is_finite :: "u32 \<Rightarrow> bool" where
  "float_word_is_finite w \<longleftrightarrow> w AND 0x7f800000 \<noteq> 0x7f800000"

definition float_is_nan :: "u32 \<Rightarrow> bool" where
  "float_is_nan w \<longleftrightarrow> \<not> float_word_is_finite w \<and> w AND 0x007fffff \<noteq> 0"

definition float_rank :: "u32 \<Rightarrow> int" where
  "float_rank w = (let magnitude = int (unat (w AND 0x7fffffff)) in if bit w 31 then - magnitude else magnitude)"

definition float_less :: "u32 \<Rightarrow> u32 \<Rightarrow> bool" where
  "float_less a b \<longleftrightarrow> \<not> float_is_nan a \<and> \<not> float_is_nan b \<and> float_rank a < float_rank b"

definition float_le :: "u32 \<Rightarrow> u32 \<Rightarrow> bool" where
  "float_le a b \<longleftrightarrow> \<not> float_is_nan a \<and> \<not> float_is_nan b \<and> float_rank a \<le> float_rank b"

definition float_eq :: "u32 \<Rightarrow> u32 \<Rightarrow> bool" where
  "float_eq a b \<longleftrightarrow> \<not> float_is_nan a \<and> \<not> float_is_nan b \<and> float_rank a = float_rank b"

definition float_bits_are_finite :: "bytes \<Rightarrow> nat \<Rightarrow> bool" where
  "float_bits_are_finite input at \<longleftrightarrow> get_u32 input at AND 0x7f800000 \<noteq> 0x7f800000"

text \<open>A float is moved in and out of a buffer as its bit pattern.\<close>

definition put_float :: "bytes \<Rightarrow> nat \<Rightarrow> u32 \<Rightarrow> bytes" where
  "put_float output at bits = put_u32 output at bits"

definition get_float :: "bytes \<Rightarrow> nat \<Rightarrow> u32" where
  "get_float input at = get_u32 input at"

subsection \<open>Structures inside a payload\<close>

record rendering_attachment =
  ra_image_view_id :: u64
  ra_resolve_image_view_id :: u64
  ra_image_layout :: u32
  ra_resolve_mode :: u32
  ra_resolve_image_layout :: u32
  ra_load_op :: u32
  ra_store_op :: u32
  ra_feedback_loop_enable :: u32
  ra_clear_words :: "u32 list"

definition rendering_attachment_is_valid :: "rendering_attachment \<Rightarrow> bool \<Rightarrow> bool" where
  "rendering_attachment_is_valid attachment required \<longleftrightarrow>
     (if ra_feedback_loop_enable attachment > 1 then False
      else if ra_image_view_id attachment = 0
      then \<not> required \<and> ra_resolve_image_view_id attachment = 0 \<and> ra_resolve_mode attachment = 0
      else if handle_expect (ra_image_view_id attachment) BVB_OBJECT_IMAGE_VIEW \<noteq> Inr () \<or>
              ra_image_layout attachment = 0 then False
      else if ra_resolve_mode attachment = 0 then ra_resolve_image_view_id attachment = 0
      else handle_expect (ra_resolve_image_view_id attachment) BVB_OBJECT_IMAGE_VIEW = Inr () \<and>
           ra_resolve_image_layout attachment \<noteq> 0)"

definition decode_rendering_attachment :: "bytes \<Rightarrow> nat \<Rightarrow> rendering_attachment" where
  "decode_rendering_attachment input at =
     \<lparr>ra_image_view_id = get_u64 input at, ra_resolve_image_view_id = get_u64 input (at + 8),
      ra_image_layout = get_u32 input (at + 16), ra_resolve_mode = get_u32 input (at + 20),
      ra_resolve_image_layout = get_u32 input (at + 24), ra_load_op = get_u32 input (at + 28),
      ra_store_op = get_u32 input (at + 32), ra_feedback_loop_enable = get_u32 input (at + 36),
      ra_clear_words = get_each get_u32 4 input (at + 40) 4\<rparr>"

definition validate_image_range_wire :: "bytes \<Rightarrow> nat \<Rightarrow> unit result" where
  "validate_image_range_wire input at =
     (if get_u32 input at = 0 \<or> get_u32 input (at + 8) = 0 \<or> get_u32 input (at + 16) = 0 \<or>
         get_u32 input (at + 20) \<noteq> 0
      then Inl EPROTO else Inr ())"

definition image_range_wire_is_zero :: "bytes \<Rightarrow> nat \<Rightarrow> bool" where
  "image_range_wire_is_zero input at \<longleftrightarrow>
     list_all (\<lambda>word. get_u32 input (at + word * 4) = 0) [0..<BVB_VULKAN_IMAGE_RANGE_SIZE div 4]"

definition transfer_opcode_is_valid :: "u16 \<Rightarrow> bool" where
  "transfer_opcode_is_valid opcode \<longleftrightarrow>
     opcode \<ge> BVB_COMMAND_VULKAN_COPY_BUFFER_2 \<and> opcode \<le> BVB_COMMAND_VULKAN_RESOLVE_IMAGE_2"

definition bytes_are_zero :: "bytes \<Rightarrow> nat \<Rightarrow> nat \<Rightarrow> bool" where
  "bytes_are_zero bs at n \<longleftrightarrow> list_all (\<lambda>index. bs ! (at + index) = 0) [0..<n]"

subsection \<open>Payload lengths\<close>

definition transfer_payload_size :: "u32 \<Rightarrow> u32" where
  "transfer_payload_size region_count = BVB_VULKAN_TRANSFER_HEADER_SIZE + region_count * BVB_VULKAN_TRANSFER_REGION_SIZE"

definition barrier_payload_size :: "u32 \<Rightarrow> u32 \<Rightarrow> u32 \<Rightarrow> u32" where
  "barrier_payload_size memory_count buffer_count image_count =
     BVB_VULKAN_IMAGE_BARRIER_2_HEADER_SIZE +
     memory_count * BVB_VULKAN_MEMORY_BARRIER_2_RECORD_SIZE +
     buffer_count * BVB_VULKAN_BUFFER_BARRIER_2_RECORD_SIZE +
     image_count * BVB_VULKAN_IMAGE_BARRIER_2_RECORD_SIZE"

definition expected_payload_size :: "u16 \<Rightarrow> u32 result" where
  "expected_payload_size opcode =
     (if opcode = BVB_COMMAND_BEGIN_RENDERING then Inr BVB_BEGIN_RENDERING_SIZE
      else if opcode = BVB_COMMAND_BIND_GRAPHICS_PIPELINE then Inr BVB_BIND_GRAPHICS_PIPELINE_SIZE
      else if opcode = BVB_COMMAND_SET_VIEWPORT then Inr BVB_SET_VIEWPORT_SIZE
      else if opcode = BVB_COMMAND_SET_SCISSOR then Inr BVB_SET_SCISSOR_SIZE
      else if opcode = BVB_COMMAND_DRAW then Inr BVB_DRAW_SIZE
      else if opcode = BVB_COMMAND_END_RENDERING then Inr 0
      else if opcode = BVB_COMMAND_FILL_BUFFER then Inr BVB_FILL_BUFFER_SIZE
      else if opcode = BVB_COMMAND_BUFFER_HOST_READ_BARRIER then Inr BVB_BUFFER_HOST_READ_BARRIER_SIZE
      else if opcode = BVB_COMMAND_PUSH_ROTATION then Inr BVB_PUSH_ROTATION_SIZE
      else if opcode = BVB_COMMAND_VULKAN_IMAGE_BARRIER_2 then Inr BVB_VULKAN_IMAGE_BARRIER_2_MAX_SIZE
      else if opcode = BVB_COMMAND_VULKAN_CLEAR_COLOR_IMAGE_GENERAL then Inr BVB_VULKAN_CLEAR_COLOR_IMAGE_GENERAL_SIZE
      else if opcode = BVB_COMMAND_VULKAN_BIND_DESCRIPTOR_SETS then Inr BVB_VULKAN_BIND_DESCRIPTOR_SETS_SIZE
      else if opcode = BVB_COMMAND_VULKAN_PUSH_CONSTANTS then Inr BVB_VULKAN_PUSH_CONSTANTS_SIZE
      else if opcode = BVB_COMMAND_VULKAN_COPY_BUFFER_2 \<or> opcode = BVB_COMMAND_VULKAN_COPY_BUFFER_TO_IMAGE_2 \<or>
              opcode = BVB_COMMAND_VULKAN_COPY_IMAGE_TO_BUFFER_2 \<or> opcode = BVB_COMMAND_VULKAN_COPY_IMAGE_2 \<or>
              opcode = BVB_COMMAND_VULKAN_BLIT_IMAGE_2 \<or> opcode = BVB_COMMAND_VULKAN_RESOLVE_IMAGE_2
      then Inr BVB_VULKAN_TRANSFER_MAX_SIZE
      else if opcode = BVB_COMMAND_VULKAN_BIND_VERTEX_BUFFERS \<or> opcode = BVB_COMMAND_VULKAN_BIND_VERTEX_BUFFERS_2
      then Inr BVB_VULKAN_BIND_VERTEX_BUFFERS_SIZE
      else if opcode = BVB_COMMAND_VULKAN_BIND_INDEX_BUFFER \<or> opcode = BVB_COMMAND_VULKAN_BIND_INDEX_BUFFER_2
      then Inr BVB_VULKAN_BIND_INDEX_BUFFER_SIZE
      else if opcode = BVB_COMMAND_VULKAN_DRAW_INDEXED then Inr BVB_VULKAN_DRAW_INDEXED_SIZE
      else if opcode = BVB_COMMAND_VULKAN_DRAW_INDIRECT \<or> opcode = BVB_COMMAND_VULKAN_DRAW_INDEXED_INDIRECT
      then Inr BVB_VULKAN_DRAW_INDIRECT_SIZE
      else if opcode = BVB_COMMAND_VULKAN_DRAW_INDIRECT_COUNT \<or> opcode = BVB_COMMAND_VULKAN_DRAW_INDEXED_INDIRECT_COUNT
      then Inr BVB_VULKAN_DRAW_INDIRECT_COUNT_SIZE
      else if opcode = BVB_COMMAND_VULKAN_DYNAMIC_STATE then Inr BVB_VULKAN_DYNAMIC_STATE_SIZE
      else if opcode = BVB_COMMAND_VULKAN_CLEAR_DEPTH_STENCIL_IMAGE then Inr BVB_VULKAN_CLEAR_DEPTH_STENCIL_IMAGE_SIZE
      else if opcode = BVB_COMMAND_VULKAN_CLEAR_ATTACHMENTS then Inr BVB_VULKAN_CLEAR_ATTACHMENTS_SIZE
      else if opcode = BVB_COMMAND_VULKAN_UPDATE_BUFFER then Inr BVB_VULKAN_UPDATE_BUFFER_MAX_SIZE
      else if opcode = BVB_COMMAND_VULKAN_QUERY then Inr BVB_VULKAN_QUERY_SIZE
      else if opcode = BVB_COMMAND_VULKAN_BEGIN then Inr BVB_VULKAN_BEGIN_SIZE
      else if opcode = BVB_COMMAND_VULKAN_CLEAR_COLOR_IMAGE then Inr BVB_VULKAN_CLEAR_COLOR_IMAGE_SIZE
      else if opcode = BVB_COMMAND_VULKAN_INIT_IMAGE_BARRIER then Inr BVB_VULKAN_INIT_IMAGE_BARRIER_SIZE
      else if opcode = BVB_COMMAND_VULKAN_END then Inr 0
      else Inl EPROTO)"

definition payload_length_is_valid :: "u16 \<Rightarrow> bytes \<Rightarrow> u32 \<Rightarrow> bool" where
  "payload_length_is_valid opcode payload payload_length =
     (case expected_payload_size opcode of
        Inl _ \<Rightarrow> False
      | Inr expected \<Rightarrow>
          if opcode = BVB_COMMAND_VULKAN_IMAGE_BARRIER_2
          then
            if payload = [] \<or> payload_length < BVB_VULKAN_IMAGE_BARRIER_2_HEADER_SIZE then False
            else
              let memory_count = get_u32 payload 4;
                  buffer_count = get_u32 payload 8;
                  image_count = get_u32 payload 12 in
              memory_count \<le> BVB_COMMAND_VULKAN_MAX_MEMORY_BARRIERS \<and>
              buffer_count \<le> BVB_COMMAND_VULKAN_MAX_BUFFER_BARRIERS \<and>
              image_count \<le> BVB_COMMAND_VULKAN_MAX_IMAGE_BARRIERS \<and>
              payload_length = barrier_payload_size memory_count buffer_count image_count
          else if opcode = BVB_COMMAND_VULKAN_UPDATE_BUFFER
          then
            if payload = [] \<or> payload_length < BVB_VULKAN_UPDATE_BUFFER_HEADER_SIZE then False
            else
              let data_size = get_u32 payload 16 in
              data_size \<noteq> 0 \<and> data_size \<le> BVB_COMMAND_VULKAN_MAX_UPDATE_BUFFER_BYTES \<and> data_size AND 3 = 0 \<and>
              payload_length = BVB_VULKAN_UPDATE_BUFFER_HEADER_SIZE + data_size
          else if \<not> transfer_opcode_is_valid opcode then payload_length = expected
          else if payload = [] \<or> payload_length < BVB_VULKAN_TRANSFER_HEADER_SIZE then False
          else
            let count = get_u32 payload 28 in
            count \<noteq> 0 \<and> count \<le> BVB_COMMAND_VULKAN_MAX_TRANSFER_REGIONS \<and>
            payload_length = transfer_payload_size count)"

subsection \<open>The cases of \<^verbatim>\<open>validate_payload\<close>\<close>

definition begin_rendering_ok :: "bytes \<Rightarrow> bool" where
  "begin_rendering_ok payload \<longleftrightarrow>
     (let color_count = get_u32 payload 28;
          has_depth = get_u32 payload 32;
          has_stencil = get_u32 payload 36;
          depth = BVB_BEGIN_RENDERING_HEADER_SIZE +
            BVB_COMMAND_VULKAN_MAX_COLOR_ATTACHMENTS * BVB_RENDERING_ATTACHMENT_SIZE;
          stencil = depth + BVB_RENDERING_ATTACHMENT_SIZE in
      \<not> (get_u32 payload 12 = 0 \<or> get_u32 payload 16 = 0 \<or> get_u32 payload 20 = 0 \<or>
         color_count > BVB_COMMAND_VULKAN_MAX_COLOR_ATTACHMENTS \<or> has_depth > 1 \<or> has_stencil > 1 \<or>
         (color_count = 0 \<and> has_depth = 0 \<and> has_stencil = 0)) \<and>
      list_all (\<lambda>index.
        let wire = BVB_BEGIN_RENDERING_HEADER_SIZE + index * BVB_RENDERING_ATTACHMENT_SIZE in
        if index \<ge> unat color_count then bytes_are_zero payload wire BVB_RENDERING_ATTACHMENT_SIZE
        else rendering_attachment_is_valid (decode_rendering_attachment payload wire) False)
        [0..<BVB_COMMAND_VULKAN_MAX_COLOR_ATTACHMENTS] \<and>
      (if has_depth \<noteq> 0 then rendering_attachment_is_valid (decode_rendering_attachment payload depth) True
       else bytes_are_zero payload depth BVB_RENDERING_ATTACHMENT_SIZE) \<and>
      (if has_stencil \<noteq> 0 then rendering_attachment_is_valid (decode_rendering_attachment payload stencil) True
       else bytes_are_zero payload stencil BVB_RENDERING_ATTACHMENT_SIZE))"

definition bind_graphics_pipeline_ok :: "bytes \<Rightarrow> bool" where
  "bind_graphics_pipeline_ok payload \<longleftrightarrow>
     \<not> (handle_expect (get_u64 payload 0) BVB_OBJECT_PIPELINE \<noteq> Inr () \<or>
        get_u32 payload 8 \<noteq> 0 \<or> get_u32 payload 12 \<noteq> 0)"

definition set_viewport_ok :: "bytes \<Rightarrow> bool" where
  "set_viewport_ok payload \<longleftrightarrow>
     list_all (\<lambda>index. float_bits_are_finite payload (index * 4)) [0..<6] \<and>
     \<not> (float_eq (get_float payload 8) FLOAT_ZERO \<or> float_eq (get_float payload 12) FLOAT_ZERO \<or>
        float_less (get_float payload 16) FLOAT_ZERO \<or> float_less FLOAT_ONE (get_float payload 16) \<or>
        float_less (get_float payload 20) FLOAT_ZERO \<or> float_less FLOAT_ONE (get_float payload 20) \<or>
        float_less (get_float payload 20) (get_float payload 16))"

definition set_scissor_ok :: "bytes \<Rightarrow> bool" where
  "set_scissor_ok payload \<longleftrightarrow> \<not> (get_u32 payload 8 = 0 \<or> get_u32 payload 12 = 0)"

definition draw_ok :: "bytes \<Rightarrow> bool" where
  "draw_ok payload \<longleftrightarrow> \<not> (get_u32 payload 0 = 0 \<or> get_u32 payload 4 = 0)"

definition fill_buffer_ok :: "bytes \<Rightarrow> bool" where
  "fill_buffer_ok payload \<longleftrightarrow>
     \<not> (handle_expect (get_u64 payload 0) BVB_OBJECT_BUFFER \<noteq> Inr () \<or> get_u64 payload 16 = 0 \<or>
        get_u64 payload 8 AND 3 \<noteq> 0 \<or> get_u64 payload 16 AND 3 \<noteq> 0 \<or> get_u32 payload 28 \<noteq> 0)"

definition buffer_host_read_barrier_ok :: "bytes \<Rightarrow> bool" where
  "buffer_host_read_barrier_ok payload \<longleftrightarrow>
     \<not> (handle_expect (get_u64 payload 0) BVB_OBJECT_BUFFER \<noteq> Inr () \<or> get_u64 payload 16 = 0)"

definition push_rotation_ok :: "bytes \<Rightarrow> bool" where
  "push_rotation_ok payload \<longleftrightarrow>
     \<not> (handle_expect (get_u64 payload 0) BVB_OBJECT_PIPELINE_LAYOUT \<noteq> Inr () \<or>
        \<not> float_bits_are_finite payload 8 \<or> \<not> float_bits_are_finite payload 12 \<or>
        float_less (get_float payload 8) FLOAT_ZERO \<or> float_le FLOAT_TURN (get_float payload 8) \<or>
        float_le (get_float payload 12) FLOAT_ZERO)"

definition image_barrier_2_ok :: "bytes \<Rightarrow> bool" where
  "image_barrier_2_ok payload \<longleftrightarrow>
     (let memory_count = get_u32 payload 4;
          buffer_count = get_u32 payload 8;
          image_count = get_u32 payload 12;
          base = BVB_VULKAN_IMAGE_BARRIER_2_HEADER_SIZE +
            unat memory_count * BVB_VULKAN_MEMORY_BARRIER_2_RECORD_SIZE;
          image_base = base + unat buffer_count * BVB_VULKAN_BUFFER_BARRIER_2_RECORD_SIZE in
      \<not> (get_u32 payload 0 AND NOT 0x6f \<noteq> 0 \<or>
         memory_count > BVB_COMMAND_VULKAN_MAX_MEMORY_BARRIERS \<or>
         buffer_count > BVB_COMMAND_VULKAN_MAX_BUFFER_BARRIERS \<or>
         image_count > BVB_COMMAND_VULKAN_MAX_IMAGE_BARRIERS) \<and>
      list_all (\<lambda>index.
        let barrier = base + index * BVB_VULKAN_BUFFER_BARRIER_2_RECORD_SIZE in
        \<not> (handle_expect (get_u64 payload (barrier + 40)) BVB_OBJECT_BUFFER \<noteq> Inr () \<or>
           get_u64 payload (barrier + 56) = 0)) [0..<unat buffer_count] \<and>
      list_all (\<lambda>index.
        let barrier = image_base + index * BVB_VULKAN_IMAGE_BARRIER_2_RECORD_SIZE in
        \<not> (handle_expect (get_u64 payload (barrier + 48)) BVB_OBJECT_IMAGE \<noteq> Inr () \<or>
           validate_image_range_wire payload (barrier + 56) \<noteq> Inr ())) [0..<unat image_count])"

definition clear_color_image_general_ok :: "bytes \<Rightarrow> bool" where
  "clear_color_image_general_ok payload \<longleftrightarrow>
     (let count = get_u32 payload 12 in
      \<not> (handle_expect (get_u64 payload 0) BVB_OBJECT_IMAGE \<noteq> Inr () \<or> get_u32 payload 8 = 0 \<or>
         count = 0 \<or> count > BVB_COMMAND_VULKAN_MAX_CLEAR_RANGES) \<and>
      list_all (\<lambda>index.
        let range = 32 + index * BVB_VULKAN_IMAGE_RANGE_SIZE in
        if index < unat count then validate_image_range_wire payload range = Inr ()
        else image_range_wire_is_zero payload range) [0..<BVB_COMMAND_VULKAN_MAX_CLEAR_RANGES])"

definition bind_descriptor_sets_ok :: "bytes \<Rightarrow> bool" where
  "bind_descriptor_sets_ok payload \<longleftrightarrow>
     (let set_count = get_u32 payload 16;
          dynamic_count = get_u32 payload 20;
          offsets = 24 + BVB_COMMAND_VULKAN_MAX_BOUND_DESCRIPTOR_SETS * 8 in
      \<not> (handle_expect (get_u64 payload 0) BVB_OBJECT_PIPELINE_LAYOUT \<noteq> Inr () \<or>
         get_u32 payload 8 > 1 \<or> set_count = 0 \<or>
         set_count > BVB_COMMAND_VULKAN_MAX_BOUND_DESCRIPTOR_SETS \<or>
         dynamic_count > BVB_COMMAND_VULKAN_MAX_DYNAMIC_OFFSETS) \<and>
      list_all (\<lambda>index.
        let set_id = get_u64 payload (24 + index * 8) in
        if index < unat set_count then handle_expect set_id BVB_OBJECT_DESCRIPTOR_SET = Inr ()
        else set_id = 0) [0..<BVB_COMMAND_VULKAN_MAX_BOUND_DESCRIPTOR_SETS] \<and>
      list_all (\<lambda>index. get_u32 payload (offsets + index * 4) = 0)
        [unat dynamic_count..<BVB_COMMAND_VULKAN_MAX_DYNAMIC_OFFSETS])"

definition push_constants_ok :: "bytes \<Rightarrow> bool" where
  "push_constants_ok payload \<longleftrightarrow>
     (let n = get_u32 payload 16 in
      \<not> (handle_expect (get_u64 payload 0) BVB_OBJECT_PIPELINE_LAYOUT \<noteq> Inr () \<or>
         get_u32 payload 8 = 0 \<or> n = 0 \<or> n > BVB_COMMAND_VULKAN_MAX_PUSH_CONSTANT_BYTES \<or>
         get_u32 payload 12 AND 3 \<noteq> 0 \<or> n AND 3 \<noteq> 0 \<or>
         get_u32 payload 12 > BVB_COMMAND_VULKAN_MAX_PUSH_CONSTANT_BYTES - n \<or>
         get_u32 payload 20 \<noteq> 0) \<and>
      list_all (\<lambda>index. payload ! (24 + index) = 0) [unat n..<BVB_COMMAND_VULKAN_MAX_PUSH_CONSTANT_BYTES])"

definition source_is_buffer :: "u16 \<Rightarrow> bool" where
  "source_is_buffer opcode \<longleftrightarrow>
     opcode = BVB_COMMAND_VULKAN_COPY_BUFFER_2 \<or> opcode = BVB_COMMAND_VULKAN_COPY_BUFFER_TO_IMAGE_2"

definition destination_is_buffer :: "u16 \<Rightarrow> bool" where
  "destination_is_buffer opcode \<longleftrightarrow>
     opcode = BVB_COMMAND_VULKAN_COPY_BUFFER_2 \<or> opcode = BVB_COMMAND_VULKAN_COPY_IMAGE_TO_BUFFER_2"

definition transfer_ok :: "u16 \<Rightarrow> bytes \<Rightarrow> bool" where
  "transfer_ok opcode payload \<longleftrightarrow>
     (let count = get_u32 payload 28;
          source_buffer = source_is_buffer opcode;
          destination_buffer = destination_is_buffer opcode in
      \<not> (handle_expect (get_u64 payload 0) (if source_buffer then BVB_OBJECT_BUFFER else BVB_OBJECT_IMAGE) \<noteq> Inr () \<or>
         handle_expect (get_u64 payload 8) (if destination_buffer then BVB_OBJECT_BUFFER else BVB_OBJECT_IMAGE) \<noteq> Inr () \<or>
         (\<not> source_buffer \<and> get_u32 payload 16 = 0) \<or>
         (\<not> destination_buffer \<and> get_u32 payload 20 = 0) \<or>
         (opcode = BVB_COMMAND_VULKAN_BLIT_IMAGE_2 \<and> get_u32 payload 24 > 1) \<or>
         (opcode \<noteq> BVB_COMMAND_VULKAN_BLIT_IMAGE_2 \<and> get_u32 payload 24 \<noteq> 0) \<or>
         count = 0 \<or> count > BVB_COMMAND_VULKAN_MAX_TRANSFER_REGIONS) \<and>
      list_all (\<lambda>index.
        let wire = BVB_VULKAN_TRANSFER_HEADER_SIZE + index * BVB_VULKAN_TRANSFER_REGION_SIZE in
        \<not> ((opcode = BVB_COMMAND_VULKAN_COPY_BUFFER_2 \<and> get_u64 payload (wire + 16) = 0) \<or>
           (opcode \<noteq> BVB_COMMAND_VULKAN_COPY_BUFFER_2 \<and>
            (get_u32 payload (wire + 112) = 0 \<or> get_u32 payload (wire + 116) = 0 \<or>
             get_u32 payload (wire + 120) = 0)) \<or>
           (\<not> source_buffer \<and> (get_u32 payload (wire + 32) = 0 \<or> get_u32 payload (wire + 44) = 0)) \<or>
           (\<not> destination_buffer \<and> (get_u32 payload (wire + 48) = 0 \<or> get_u32 payload (wire + 60) = 0)) \<or>
           get_u32 payload (wire + 124) \<noteq> 0)) [0..<unat count])"

definition bind_vertex_buffers_ok :: "u16 \<Rightarrow> bytes \<Rightarrow> bool" where
  "bind_vertex_buffers_ok opcode payload \<longleftrightarrow>
     (let count = get_u32 payload 4;
          has_sizes = get_u32 payload 8;
          has_strides = get_u32 payload 12;
          ids = 16;
          offsets = ids + BVB_COMMAND_VULKAN_MAX_VERTEX_BINDINGS * 8;
          sizes = offsets + BVB_COMMAND_VULKAN_MAX_VERTEX_BINDINGS * 8;
          strides = sizes + BVB_COMMAND_VULKAN_MAX_VERTEX_BINDINGS * 8 in
      \<not> (count = 0 \<or> count > BVB_COMMAND_VULKAN_MAX_VERTEX_BINDINGS \<or> has_sizes > 1 \<or> has_strides > 1 \<or>
         (opcode = BVB_COMMAND_VULKAN_BIND_VERTEX_BUFFERS \<and> (has_sizes \<noteq> 0 \<or> has_strides \<noteq> 0))) \<and>
      list_all (\<lambda>index.
        let id = get_u64 payload (ids + index * 8);
            offset = get_u64 payload (offsets + index * 8);
            size' = get_u64 payload (sizes + index * 8);
            stride = get_u64 payload (strides + index * 8) in
        if index \<ge> unat count then \<not> (id \<noteq> 0 \<or> offset \<noteq> 0 \<or> size' \<noteq> 0 \<or> stride \<noteq> 0)
        else \<not> ((id \<noteq> 0 \<and> handle_expect id BVB_OBJECT_BUFFER \<noteq> Inr ()) \<or>
                (has_sizes = 0 \<and> size' \<noteq> 0) \<or> (has_strides = 0 \<and> stride \<noteq> 0)))
        [0..<BVB_COMMAND_VULKAN_MAX_VERTEX_BINDINGS])"

definition bind_index_buffer_ok :: "u16 \<Rightarrow> bytes \<Rightarrow> bool" where
  "bind_index_buffer_ok opcode payload \<longleftrightarrow>
     (let id = get_u64 payload 0;
          size' = get_u64 payload 16 in
      \<not> ((id \<noteq> 0 \<and> handle_expect id BVB_OBJECT_BUFFER \<noteq> Inr ()) \<or> (id \<noteq> 0 \<and> size' = 0) \<or>
         (opcode = BVB_COMMAND_VULKAN_BIND_INDEX_BUFFER \<and> size' \<noteq> 0xffffffffffffffff) \<or>
         get_u32 payload 28 \<noteq> 0))"

definition draw_indexed_ok :: "bytes \<Rightarrow> bool" where
  "draw_indexed_ok payload \<longleftrightarrow> get_u32 payload 20 = 0"

definition draw_indirect_ok :: "u16 \<Rightarrow> bytes \<Rightarrow> bool" where
  "draw_indirect_ok opcode payload \<longleftrightarrow>
     (let count = get_u32 payload 16;
          stride = get_u32 payload 20;
          minimum = (if opcode = BVB_COMMAND_VULKAN_DRAW_INDEXED_INDIRECT then 20 else 16) in
      \<not> (handle_expect (get_u64 payload 0) BVB_OBJECT_BUFFER \<noteq> Inr () \<or> stride AND 3 \<noteq> 0 \<or>
         (count > 1 \<and> stride < minimum) \<or> get_u64 payload 24 \<noteq> 0))"

definition draw_indirect_count_ok :: "u16 \<Rightarrow> bytes \<Rightarrow> bool" where
  "draw_indirect_count_ok opcode payload \<longleftrightarrow>
     (let count = get_u32 payload 32;
          stride = get_u32 payload 36;
          minimum = (if opcode = BVB_COMMAND_VULKAN_DRAW_INDEXED_INDIRECT_COUNT then 20 else 16) in
      \<not> (handle_expect (get_u64 payload 0) BVB_OBJECT_BUFFER \<noteq> Inr () \<or>
         handle_expect (get_u64 payload 16) BVB_OBJECT_BUFFER \<noteq> Inr () \<or> stride AND 3 \<noteq> 0 \<or>
         (count > 1 \<and> stride < minimum) \<or> get_u64 payload 40 \<noteq> 0))"

text \<open>The kinds of dynamic state, in the order of the enumeration, and how many values each has.\<close>

definition dynamic_state_value_count :: "u32 \<Rightarrow> u32 option" where
  "dynamic_state_value_count kind =
     (if kind \<in> {1, 2, 3, 4, 5, 6, 7, 8, 10, 11, 12, 18} then Some 1
      else if kind \<in> {14, 15, 16, 17} then Some 2
      else if kind = 13 then Some 3
      else if kind = 19 then Some 4
      else if kind = 9 then Some 5
      else None)"

definition dynamic_state_ok :: "bytes \<Rightarrow> bool" where
  "dynamic_state_ok payload \<longleftrightarrow>
     (let kind = get_u32 payload 0;
          count = get_u32 payload 4;
          value_at = (\<lambda>index. get_u32 payload (8 + index * 4)) in
      dynamic_state_value_count kind = Some count \<and>
      list_all (\<lambda>index. \<not> (index \<ge> unat count \<and> value_at index \<noteq> 0))
        [0..<BVB_COMMAND_VULKAN_MAX_DYNAMIC_STATE_VALUES] \<and>
      \<not> ((kind = 1 \<and> value_at 0 AND NOT 3 \<noteq> 0) \<or> (kind = 2 \<and> value_at 0 > 1) \<or>
         (kind = 3 \<and> value_at 0 > 14) \<or> (kind = 6 \<and> value_at 0 > 7)) \<and>
      \<not> (kind \<in> {4, 5, 7, 8, 10, 11, 12} \<and> value_at 0 > 1) \<and>
      \<not> (kind = 9 \<and> (value_at 0 AND NOT 3 \<noteq> 0 \<or> value_at 0 = 0 \<or> value_at 1 > 7 \<or> value_at 2 > 7 \<or>
                      value_at 3 > 7 \<or> value_at 4 > 7)) \<and>
      \<not> (kind \<in> {15, 16, 17} \<and> (value_at 0 AND NOT 3 \<noteq> 0 \<or> value_at 0 = 0)) \<and>
      (kind \<in> {13, 14, 18, 19} \<longrightarrow>
         list_all (\<lambda>index. float_word_is_finite (value_at index)) [0..<unat count]) \<and>
      \<not> (kind = 14 \<and>
         (float_less (get_float payload 8) FLOAT_ZERO \<or> float_less FLOAT_ONE (get_float payload 8) \<or>
          float_less (get_float payload 12) FLOAT_ZERO \<or> float_less FLOAT_ONE (get_float payload 12) \<or>
          float_less (get_float payload 12) (get_float payload 8))) \<and>
      \<not> (kind = 18 \<and> float_le (get_float payload 8) FLOAT_ZERO))"

definition clear_depth_stencil_image_ok :: "bytes \<Rightarrow> bool" where
  "clear_depth_stencil_image_ok payload \<longleftrightarrow>
     (let layout = get_u32 payload 8;
          count = get_u32 payload 12 in
      \<not> (handle_expect (get_u64 payload 0) BVB_OBJECT_IMAGE \<noteq> Inr () \<or> (layout \<noteq> 1 \<and> layout \<noteq> 7) \<or>
         count = 0 \<or> count > BVB_COMMAND_VULKAN_MAX_CLEAR_RANGES \<or>
         \<not> float_word_is_finite (get_u32 payload 16)) \<and>
      list_all (\<lambda>index.
        let range = 24 + index * BVB_VULKAN_IMAGE_RANGE_SIZE in
        if index < unat count
        then \<not> (validate_image_range_wire payload range \<noteq> Inr () \<or> get_u32 payload range AND NOT 6 \<noteq> 0)
        else image_range_wire_is_zero payload range) [0..<BVB_COMMAND_VULKAN_MAX_CLEAR_RANGES])"

definition clear_attachments_ok :: "bytes \<Rightarrow> bool" where
  "clear_attachments_ok payload \<longleftrightarrow>
     (let attachment_count = get_u32 payload 0;
          rect_count = get_u32 payload 4;
          rect_base = 8 + BVB_COMMAND_VULKAN_MAX_CLEAR_ATTACHMENTS * BVB_VULKAN_CLEAR_ATTACHMENT_SIZE in
      \<not> (attachment_count = 0 \<or> attachment_count > BVB_COMMAND_VULKAN_MAX_CLEAR_ATTACHMENTS \<or>
         rect_count = 0 \<or> rect_count > BVB_COMMAND_VULKAN_MAX_CLEAR_RECTS) \<and>
      list_all (\<lambda>index.
        let attachment = 8 + index * BVB_VULKAN_CLEAR_ATTACHMENT_SIZE in
        if index < unat attachment_count
        then \<not> (get_u32 payload attachment = 0 \<or> get_u32 payload attachment AND NOT 7 \<noteq> 0)
        else bytes_are_zero payload attachment BVB_VULKAN_CLEAR_ATTACHMENT_SIZE)
        [0..<BVB_COMMAND_VULKAN_MAX_CLEAR_ATTACHMENTS] \<and>
      list_all (\<lambda>index.
        let rect = rect_base + index * BVB_VULKAN_CLEAR_RECT_SIZE in
        if index < unat rect_count
        then \<not> (get_u32 payload (rect + 8) = 0 \<or> get_u32 payload (rect + 12) = 0 \<or>
                get_u32 payload (rect + 20) = 0)
        else bytes_are_zero payload rect BVB_VULKAN_CLEAR_RECT_SIZE)
        [0..<BVB_COMMAND_VULKAN_MAX_CLEAR_RECTS])"

definition update_buffer_ok :: "bytes \<Rightarrow> bool" where
  "update_buffer_ok payload \<longleftrightarrow>
     \<not> (handle_expect (get_u64 payload 0) BVB_OBJECT_BUFFER \<noteq> Inr () \<or> get_u64 payload 8 AND 3 \<noteq> 0 \<or>
        get_u32 payload 16 = 0 \<or> get_u32 payload 16 > BVB_COMMAND_VULKAN_MAX_UPDATE_BUFFER_BYTES \<or>
        get_u32 payload 16 AND 3 \<noteq> 0 \<or> get_u32 payload 20 \<noteq> 0)"

text \<open>
  The kinds of query command: 1 reset, 2 begin, 3 end, 4 and 5 write a timestamp, 6 and 7 begin and
  end of an indexed query.
\<close>

definition query_ok :: "bytes \<Rightarrow> bool" where
  "query_ok payload \<longleftrightarrow>
     (let stage = get_u64 payload 8;
          count = get_u32 payload 20;
          flags = get_u32 payload 24;
          index = get_u32 payload 28;
          kind = get_u32 payload 32 in
      \<not> (handle_expect (get_u64 payload 0) BVB_OBJECT_QUERY_POOL \<noteq> Inr () \<or> count = 0 \<or>
         get_u32 payload 36 \<noteq> 0) \<and>
      (if kind = 1 then stage = 0 \<and> flags = 0 \<and> index = 0
       else if kind = 2 then stage = 0 \<and> count = 1 \<and> flags AND NOT 1 = 0 \<and> index = 0
       else if kind = 3 then stage = 0 \<and> count = 1 \<and> flags = 0 \<and> index = 0
       else if kind = 4 \<or> kind = 5 then stage \<noteq> 0 \<and> count = 1 \<and> flags = 0 \<and> index = 0
       else if kind = 6 then stage = 0 \<and> count = 1 \<and> flags AND NOT 1 = 0
       else if kind = 7 then stage = 0 \<and> count = 1 \<and> flags = 0
       else False))"

definition vulkan_begin_ok :: "bytes \<Rightarrow> bool" where
  "vulkan_begin_ok payload \<longleftrightarrow> \<not> (get_u32 payload 0 AND NOT 1 \<noteq> 0 \<or> get_u32 payload 4 \<noteq> 0)"

definition clear_color_image_ok :: "bytes \<Rightarrow> bool" where
  "clear_color_image_ok payload \<longleftrightarrow>
     \<not> (handle_expect (get_u64 payload 0) BVB_OBJECT_IMAGE \<noteq> Inr () \<or> get_u64 payload 8 \<noteq> 0)"

definition init_image_barrier_ok :: "bytes \<Rightarrow> bool" where
  "init_image_barrier_ok payload \<longleftrightarrow>
     (let count = get_u32 payload 0 in
      \<not> (count = 0 \<or> count > BVB_COMMAND_VULKAN_MAX_INIT_IMAGE_BARRIERS \<or> get_u32 payload 4 \<noteq> 0) \<and>
      list_all (\<lambda>index.
        let image_id = get_u64 payload (8 + index * 8) in
        if index \<ge> unat count then image_id = 0
        else handle_expect image_id BVB_OBJECT_IMAGE = Inr () \<and>
             list_all (\<lambda>earlier. image_id \<noteq> get_u64 payload (8 + earlier * 8)) [0..<index])
        [0..<BVB_COMMAND_VULKAN_MAX_INIT_IMAGE_BARRIERS])"

definition payload_ok :: "u16 \<Rightarrow> bytes \<Rightarrow> bool" where
  "payload_ok opcode payload \<longleftrightarrow>
     (if opcode = BVB_COMMAND_BEGIN_RENDERING then begin_rendering_ok payload
      else if opcode = BVB_COMMAND_BIND_GRAPHICS_PIPELINE then bind_graphics_pipeline_ok payload
      else if opcode = BVB_COMMAND_SET_VIEWPORT then set_viewport_ok payload
      else if opcode = BVB_COMMAND_SET_SCISSOR then set_scissor_ok payload
      else if opcode = BVB_COMMAND_DRAW then draw_ok payload
      else if opcode = BVB_COMMAND_END_RENDERING then True
      else if opcode = BVB_COMMAND_FILL_BUFFER then fill_buffer_ok payload
      else if opcode = BVB_COMMAND_BUFFER_HOST_READ_BARRIER then buffer_host_read_barrier_ok payload
      else if opcode = BVB_COMMAND_PUSH_ROTATION then push_rotation_ok payload
      else if opcode = BVB_COMMAND_VULKAN_IMAGE_BARRIER_2 then image_barrier_2_ok payload
      else if opcode = BVB_COMMAND_VULKAN_CLEAR_COLOR_IMAGE_GENERAL then clear_color_image_general_ok payload
      else if opcode = BVB_COMMAND_VULKAN_BIND_DESCRIPTOR_SETS then bind_descriptor_sets_ok payload
      else if opcode = BVB_COMMAND_VULKAN_PUSH_CONSTANTS then push_constants_ok payload
      else if opcode = BVB_COMMAND_VULKAN_COPY_BUFFER_2 \<or> opcode = BVB_COMMAND_VULKAN_COPY_BUFFER_TO_IMAGE_2 \<or>
              opcode = BVB_COMMAND_VULKAN_COPY_IMAGE_TO_BUFFER_2 \<or> opcode = BVB_COMMAND_VULKAN_COPY_IMAGE_2 \<or>
              opcode = BVB_COMMAND_VULKAN_BLIT_IMAGE_2 \<or> opcode = BVB_COMMAND_VULKAN_RESOLVE_IMAGE_2
      then transfer_ok opcode payload
      else if opcode = BVB_COMMAND_VULKAN_BIND_VERTEX_BUFFERS \<or> opcode = BVB_COMMAND_VULKAN_BIND_VERTEX_BUFFERS_2
      then bind_vertex_buffers_ok opcode payload
      else if opcode = BVB_COMMAND_VULKAN_BIND_INDEX_BUFFER \<or> opcode = BVB_COMMAND_VULKAN_BIND_INDEX_BUFFER_2
      then bind_index_buffer_ok opcode payload
      else if opcode = BVB_COMMAND_VULKAN_DRAW_INDEXED then draw_indexed_ok payload
      else if opcode = BVB_COMMAND_VULKAN_DRAW_INDIRECT \<or> opcode = BVB_COMMAND_VULKAN_DRAW_INDEXED_INDIRECT
      then draw_indirect_ok opcode payload
      else if opcode = BVB_COMMAND_VULKAN_DRAW_INDIRECT_COUNT \<or> opcode = BVB_COMMAND_VULKAN_DRAW_INDEXED_INDIRECT_COUNT
      then draw_indirect_count_ok opcode payload
      else if opcode = BVB_COMMAND_VULKAN_DYNAMIC_STATE then dynamic_state_ok payload
      else if opcode = BVB_COMMAND_VULKAN_CLEAR_DEPTH_STENCIL_IMAGE then clear_depth_stencil_image_ok payload
      else if opcode = BVB_COMMAND_VULKAN_CLEAR_ATTACHMENTS then clear_attachments_ok payload
      else if opcode = BVB_COMMAND_VULKAN_UPDATE_BUFFER then update_buffer_ok payload
      else if opcode = BVB_COMMAND_VULKAN_QUERY then query_ok payload
      else if opcode = BVB_COMMAND_VULKAN_BEGIN then vulkan_begin_ok payload
      else if opcode = BVB_COMMAND_VULKAN_CLEAR_COLOR_IMAGE then clear_color_image_ok payload
      else if opcode = BVB_COMMAND_VULKAN_INIT_IMAGE_BARRIER then init_image_barrier_ok payload
      else if opcode = BVB_COMMAND_VULKAN_END then True
      else False)"

definition validate_payload :: "u16 \<Rightarrow> bytes \<Rightarrow> unit result" where
  "validate_payload opcode payload = (if payload_ok opcode payload then Inr () else Inl EPROTO)"

subsection \<open>Validation looks at the payload only\<close>

text \<open>
  Whatever follows the payload in memory, the outcome of a validator is the same: every read is
  inside the bytes the length check has established. For the commands of variable size the length
  depends on counts in the payload itself.
\<close>

lemma list_all_range: "list_all P [m..<n] \<longleftrightarrow> (\<forall>i. m \<le> i \<longrightarrow> i < n \<longrightarrow> P i)"
  by (auto simp: list_all_iff)

lemma get_each_prefix:
  "at + n * 4 \<le> length p \<Longrightarrow> get_each get_u32 4 (p @ r) at n = get_each get_u32 4 p at n"
  by (auto simp: get_each_def intro!: get_append)

lemma prefix_reads [wire_simps]:
  "at + 56 \<le> length p \<Longrightarrow> decode_rendering_attachment (p @ r) at = decode_rendering_attachment p at"
  "at + 24 \<le> length p \<Longrightarrow> validate_image_range_wire (p @ r) at = validate_image_range_wire p at"
  "at + 24 \<le> length p \<Longrightarrow> image_range_wire_is_zero (p @ r) at = image_range_wire_is_zero p at"
  "at + n \<le> length p \<Longrightarrow> bytes_are_zero (p @ r) at n = bytes_are_zero p at n"
  "at + 4 \<le> length p \<Longrightarrow> get_float (p @ r) at = get_float p at"
  "at + 4 \<le> length p \<Longrightarrow> float_bits_are_finite (p @ r) at = float_bits_are_finite p at"
  by (simp_all add: decode_rendering_attachment_def validate_image_range_wire_def image_range_wire_is_zero_def
      bytes_are_zero_def get_float_def float_bits_are_finite_def list_all_upt get_append get_each_prefix nth_append)

lemma begin_rendering_prefix: "length p = BVB_BEGIN_RENDERING_SIZE \<Longrightarrow> begin_rendering_ok (p @ r) = begin_rendering_ok p"
  by (simp add: begin_rendering_ok_def Let_def list_all_upt wire_simps)

lemma clear_color_image_general_prefix:
  "length p = BVB_VULKAN_CLEAR_COLOR_IMAGE_GENERAL_SIZE \<Longrightarrow> clear_color_image_general_ok (p @ r) = clear_color_image_general_ok p"
  by (simp add: clear_color_image_general_ok_def Let_def list_all_upt wire_simps)

lemma bind_descriptor_sets_prefix:
  "length p = BVB_VULKAN_BIND_DESCRIPTOR_SETS_SIZE \<Longrightarrow> bind_descriptor_sets_ok (p @ r) = bind_descriptor_sets_ok p"
  by (simp add: bind_descriptor_sets_ok_def Let_def list_all_upt list_all_range wire_simps)

lemma push_constants_prefix:
  "length p = BVB_VULKAN_PUSH_CONSTANTS_SIZE \<Longrightarrow> push_constants_ok (p @ r) = push_constants_ok p"
  by (simp add: push_constants_ok_def Let_def list_all_range wire_simps nth_append)

lemma bind_vertex_buffers_prefix:
  "length p = BVB_VULKAN_BIND_VERTEX_BUFFERS_SIZE \<Longrightarrow> bind_vertex_buffers_ok opcode (p @ r) = bind_vertex_buffers_ok opcode p"
  by (simp add: bind_vertex_buffers_ok_def Let_def list_all_upt wire_simps)

lemma dynamic_state_value_count_le: "dynamic_state_value_count kind = Some n \<Longrightarrow> unat n \<le> 5"
  by (auto simp: dynamic_state_value_count_def split: if_splits)

lemma dynamic_state_prefix:
  assumes p: "length p = BVB_VULKAN_DYNAMIC_STATE_SIZE"
  shows "dynamic_state_ok (p @ r) = dynamic_state_ok p"
proof (cases "dynamic_state_value_count (get_u32 p 0) = Some (get_u32 p 4)")
  case True
  then show ?thesis using p dynamic_state_value_count_le [OF True]
    by (simp add: dynamic_state_ok_def Let_def list_all_upt wire_simps)
qed (use p in \<open>simp add: dynamic_state_ok_def Let_def wire_simps\<close>)

lemma clear_depth_stencil_image_prefix:
  "length p = BVB_VULKAN_CLEAR_DEPTH_STENCIL_IMAGE_SIZE \<Longrightarrow> clear_depth_stencil_image_ok (p @ r) = clear_depth_stencil_image_ok p"
  by (simp add: clear_depth_stencil_image_ok_def Let_def list_all_upt wire_simps)

lemma clear_attachments_prefix:
  "length p = BVB_VULKAN_CLEAR_ATTACHMENTS_SIZE \<Longrightarrow> clear_attachments_ok (p @ r) = clear_attachments_ok p"
  by (simp add: clear_attachments_ok_def Let_def list_all_upt wire_simps)

lemma init_image_barrier_prefix:
  "length p = BVB_VULKAN_INIT_IMAGE_BARRIER_SIZE \<Longrightarrow> init_image_barrier_ok (p @ r) = init_image_barrier_ok p"
  by (simp add: init_image_barrier_ok_def Let_def list_all_upt wire_simps)

lemma image_barrier_2_prefix:
  assumes "length p = 16 + unat (get_u32 p 4) * 32 + unat (get_u32 p 8) * 64 + unat (get_u32 p 12) * 80"
  shows "image_barrier_2_ok (p @ r) = image_barrier_2_ok p"
  using assms by (simp add: image_barrier_2_ok_def Let_def list_all_upt wire_simps)

lemma transfer_prefix:
  assumes "length p = 32 + unat (get_u32 p 28) * 128"
  shows "transfer_ok opcode (p @ r) = transfer_ok opcode p"
  using assms by (simp add: transfer_ok_def Let_def list_all_upt wire_simps)

lemma fixed_prefix:
  "length p = BVB_BIND_GRAPHICS_PIPELINE_SIZE \<Longrightarrow> bind_graphics_pipeline_ok (p @ r) = bind_graphics_pipeline_ok p"
  "length p = BVB_SET_VIEWPORT_SIZE \<Longrightarrow> set_viewport_ok (p @ r) = set_viewport_ok p"
  "length p = BVB_SET_SCISSOR_SIZE \<Longrightarrow> set_scissor_ok (p @ r) = set_scissor_ok p"
  "length p = BVB_DRAW_SIZE \<Longrightarrow> draw_ok (p @ r) = draw_ok p"
  "length p = BVB_FILL_BUFFER_SIZE \<Longrightarrow> fill_buffer_ok (p @ r) = fill_buffer_ok p"
  "length p = BVB_BUFFER_HOST_READ_BARRIER_SIZE \<Longrightarrow> buffer_host_read_barrier_ok (p @ r) = buffer_host_read_barrier_ok p"
  "length p = BVB_PUSH_ROTATION_SIZE \<Longrightarrow> push_rotation_ok (p @ r) = push_rotation_ok p"
  "length p = BVB_VULKAN_BIND_INDEX_BUFFER_SIZE \<Longrightarrow> bind_index_buffer_ok opcode (p @ r) = bind_index_buffer_ok opcode p"
  "length p = BVB_VULKAN_DRAW_INDEXED_SIZE \<Longrightarrow> draw_indexed_ok (p @ r) = draw_indexed_ok p"
  "length p = BVB_VULKAN_DRAW_INDIRECT_SIZE \<Longrightarrow> draw_indirect_ok opcode (p @ r) = draw_indirect_ok opcode p"
  "length p = BVB_VULKAN_DRAW_INDIRECT_COUNT_SIZE \<Longrightarrow> draw_indirect_count_ok opcode (p @ r) = draw_indirect_count_ok opcode p"
  "BVB_VULKAN_UPDATE_BUFFER_HEADER_SIZE \<le> length p \<Longrightarrow> update_buffer_ok (p @ r) = update_buffer_ok p"
  "length p = BVB_VULKAN_QUERY_SIZE \<Longrightarrow> query_ok (p @ r) = query_ok p"
  "length p = BVB_VULKAN_BEGIN_SIZE \<Longrightarrow> vulkan_begin_ok (p @ r) = vulkan_begin_ok p"
  "length p = BVB_VULKAN_CLEAR_COLOR_IMAGE_SIZE \<Longrightarrow> clear_color_image_ok (p @ r) = clear_color_image_ok p"
  by (simp_all add: bind_graphics_pipeline_ok_def set_viewport_ok_def set_scissor_ok_def draw_ok_def fill_buffer_ok_def
      buffer_host_read_barrier_ok_def push_rotation_ok_def bind_index_buffer_ok_def draw_indexed_ok_def
      draw_indirect_ok_def draw_indirect_count_ok_def update_buffer_ok_def query_ok_def vulkan_begin_ok_def
      clear_color_image_ok_def Let_def list_all_upt wire_simps)

lemmas command_prefix = begin_rendering_prefix clear_color_image_general_prefix bind_descriptor_sets_prefix
  push_constants_prefix bind_vertex_buffers_prefix dynamic_state_prefix clear_depth_stencil_image_prefix
  clear_attachments_prefix init_image_barrier_prefix image_barrier_2_prefix transfer_prefix fixed_prefix

text \<open>The sizes of the variable commands, without wrap-around.\<close>

lemma unat_transfer_payload_size:
  "count \<le> 16 \<Longrightarrow> unat (transfer_payload_size count) = 32 + unat count * 128"
  by (simp add: transfer_payload_size_def unat_word_ariths word_le_nat_alt)

lemma unat_barrier_payload_size:
  "m \<le> 64 \<Longrightarrow> b \<le> 256 \<Longrightarrow> i \<le> 2048 \<Longrightarrow>
     unat (barrier_payload_size m b i) = 16 + unat m * 32 + unat b * 64 + unat i * 80"
  by (simp add: barrier_payload_size_def unat_word_ariths word_le_nat_alt)

lemma payload_length_prefix:
  assumes "length p = unat n"
  shows "payload_length_is_valid opcode (p @ r) n \<longleftrightarrow> payload_length_is_valid opcode p n"
proof (cases "p = []")
  case True
  then have "n = 0" using assms by (simp add: unat_eq_zero)
  then show ?thesis using True by (simp add: payload_length_is_valid_def split: sum.split)
next
  case False
  then show ?thesis
    using assms by (auto simp: payload_length_is_valid_def Let_def get_append word_less_nat_alt not_less split: sum.splits)
qed

lemma transfer_opcodes: "transfer_opcode_is_valid opcode \<Longrightarrow> opcode \<in> {14, 15, 16, 17, 18, 19}"
proof -
  assume a: "transfer_opcode_is_valid opcode"
  then have "unat opcode \<in> {14..19}" by (simp add: transfer_opcode_is_valid_def word_le_nat_alt)
  then have "unat opcode \<in> {14, 15, 16, 17, 18, 19}" by auto
  then show ?thesis by (simp add: word_unat_eq_iff)
qed

lemma barrier_length_valid:
  "payload_length_is_valid BVB_COMMAND_VULKAN_IMAGE_BARRIER_2 p n \<Longrightarrow>
     unat n = 16 + unat (get_u32 p 4) * 32 + unat (get_u32 p 8) * 64 + unat (get_u32 p 12) * 80"
  by (auto simp: payload_length_is_valid_def expected_payload_size_def Let_def unat_barrier_payload_size split: if_splits)

lemma transfer_length_valid:
  "payload_length_is_valid opcode p n \<Longrightarrow> transfer_opcode_is_valid opcode \<Longrightarrow>
     unat n = 32 + unat (get_u32 p 28) * 128"
  by (frule transfer_opcodes)
    (auto simp: payload_length_is_valid_def expected_payload_size_def Let_def unat_transfer_payload_size split: if_splits)

lemma fixed_length_valid:
  "payload_length_is_valid opcode p n \<Longrightarrow> \<not> transfer_opcode_is_valid opcode \<Longrightarrow>
     opcode \<noteq> BVB_COMMAND_VULKAN_IMAGE_BARRIER_2 \<Longrightarrow> opcode \<noteq> BVB_COMMAND_VULKAN_UPDATE_BUFFER \<Longrightarrow>
     expected_payload_size opcode = Inr n"
  by (simp add: payload_length_is_valid_def split: sum.splits)

lemma known_opcodes:
  "expected_payload_size opcode = Inr n \<Longrightarrow> opcode \<in> {1, 2, 3, 4, 5, 6, 7, 8, 9, 10, 11, 12, 13, 14, 15, 16, 17, 18, 19,
     20, 21, 22, 23, 24, 25, 26, 27, 28, 29, 30, 31, 32, 33, 34, 35, 36, 37}"
  unfolding expected_payload_size_def by (simp split: if_split_asm) blast+

text \<open>No payload is longer than the largest barrier.\<close>

lemma payload_length_bound: "payload_length_is_valid opcode p n \<Longrightarrow> unat n \<le> BVB_VULKAN_IMAGE_BARRIER_2_MAX_SIZE"
proof -
  assume valid: "payload_length_is_valid opcode p n"
  consider (transfer) "transfer_opcode_is_valid opcode" | (barrier) "opcode = BVB_COMMAND_VULKAN_IMAGE_BARRIER_2"
    | (update) "opcode = BVB_COMMAND_VULKAN_UPDATE_BUFFER"
    | (fixed) "\<not> transfer_opcode_is_valid opcode" "opcode \<noteq> BVB_COMMAND_VULKAN_IMAGE_BARRIER_2"
        "opcode \<noteq> BVB_COMMAND_VULKAN_UPDATE_BUFFER" by blast
  then show ?thesis
  proof cases
    case transfer
    then have "get_u32 p 28 \<le> 16" using valid transfer_opcodes [OF transfer]
      by (auto simp: payload_length_is_valid_def expected_payload_size_def Let_def split: if_splits)
    then show ?thesis using transfer_length_valid [OF valid transfer] by (simp add: word_le_nat_alt)
  next
    case barrier
    then have "get_u32 p 4 \<le> 64" "get_u32 p 8 \<le> 256" "get_u32 p 12 \<le> 2048" using valid
      by (auto simp: payload_length_is_valid_def expected_payload_size_def Let_def split: if_splits)
    then show ?thesis using barrier_length_valid valid barrier by (simp add: word_le_nat_alt)
  next
    case update
    then show ?thesis using valid
      by (auto simp: payload_length_is_valid_def expected_payload_size_def Let_def word_le_nat_alt unat_word_ariths
          split: if_splits)
  next
    case fixed
    show ?thesis using fixed_length_valid [OF valid fixed]
      unfolding expected_payload_size_def by (auto split: if_split_asm)
  qed
qed

lemma payload_ok_prefix:
  assumes valid: "payload_length_is_valid opcode p n" and n: "length p = unat n"
  shows "payload_ok opcode (p @ r) \<longleftrightarrow> payload_ok opcode p"
proof -
  consider (transfer) "transfer_opcode_is_valid opcode" | (barrier) "opcode = BVB_COMMAND_VULKAN_IMAGE_BARRIER_2"
    | (update) "opcode = BVB_COMMAND_VULKAN_UPDATE_BUFFER"
    | (fixed) "\<not> transfer_opcode_is_valid opcode" "opcode \<noteq> BVB_COMMAND_VULKAN_IMAGE_BARRIER_2"
        "opcode \<noteq> BVB_COMMAND_VULKAN_UPDATE_BUFFER" by blast
  then show ?thesis
  proof cases
    case transfer
    have "transfer_ok opcode (p @ r) = transfer_ok opcode p"
      by (rule transfer_prefix) (use transfer_length_valid [OF valid transfer] n in simp)
    then show ?thesis using transfer_opcodes [OF transfer] by (auto simp: payload_ok_def)
  next
    case barrier
    have "image_barrier_2_ok (p @ r) = image_barrier_2_ok p"
      by (rule image_barrier_2_prefix) (use barrier_length_valid valid n barrier in simp)
    then show ?thesis using barrier by (simp add: payload_ok_def)
  next
    case update
    have "24 \<le> length p" using valid update n
      by (auto simp: payload_length_is_valid_def expected_payload_size_def word_less_nat_alt not_less split: if_splits)
    then show ?thesis using update by (simp add: payload_ok_def command_prefix)
  next
    case fixed
    have "expected_payload_size opcode = Inr n" using fixed_length_valid valid fixed by blast
    moreover from this have "opcode \<in> {1, 2, 3, 4, 5, 6, 7, 8, 9, 10, 11, 12, 13, 14, 15, 16, 17, 18, 19, 20, 21, 22, 23,
        24, 25, 26, 27, 28, 29, 30, 31, 32, 33, 34, 35, 36, 37}" by (rule known_opcodes)
    ultimately show ?thesis using n fixed
      by (elim insertE emptyE)
        (simp_all add: payload_ok_def expected_payload_size_def command_prefix transfer_opcode_is_valid_def)
  qed
qed

lemma validate_payload_prefix:
  "payload_length_is_valid opcode p n \<Longrightarrow> length p = unat n \<Longrightarrow> validate_payload opcode (p @ r) = validate_payload opcode p"
  by (simp add: validate_payload_def payload_ok_prefix)

end
