(* ===== verification/Command_Batch.thy ===== *)
theory Command_Batch
  imports Command_Check
begin

unbundle bit_operations_syntax

section \<open>Batches of command records\<close>

text \<open>
  The container of src/src/command_batch.c: a builder that appends records to a buffer and writes the
  header last, the validation of a received batch, and the iterator over its records. Lengths are
  \<^verbatim>\<open>size_t\<close> and modelled as \<open>nat\<close>; the length of a record is computed in 32 bits, as in the code.
\<close>

abbreviation (input) BVB_COMMAND_BATCH_MAGIC :: u32 where "BVB_COMMAND_BATCH_MAGIC \<equiv> 0x43425642"
abbreviation (input) BVB_COMMAND_BATCH_VERSION :: u16 where "BVB_COMMAND_BATCH_VERSION \<equiv> 1"
abbreviation (input) BVB_COMMAND_BATCH_HEADER_SIZE :: nat where "BVB_COMMAND_BATCH_HEADER_SIZE \<equiv> 32"
abbreviation (input) BVB_COMMAND_BATCH_MAX_BYTES :: nat where "BVB_COMMAND_BATCH_MAX_BYTES \<equiv> 16777216"
abbreviation (input) BVB_COMMAND_BATCH_MAX_COMMANDS :: u32 where "BVB_COMMAND_BATCH_MAX_COMMANDS \<equiv> 1048576"

record command_batch_builder =
  cb_bytes :: bytes
  cb_capacity :: nat
  cb_length :: nat
  cb_command_buffer_id :: u64
  cb_sequence :: u64
  cb_command_count :: u32
  cb_finished :: bool

record command_batch_info =
  bi_command_buffer_id :: u64
  bi_sequence :: u64
  bi_command_count :: u32
  bi_byte_length :: u32

record command_record =
  cr_opcode :: u16
  cr_payload :: bytes
  cr_payload_length :: u32

record command_batch_iterator =
  it_bytes :: bytes
  it_length :: nat
  it_offset :: nat
  it_remaining :: u32

subsection \<open>Building\<close>

definition batch_begin ::
  "bool \<Rightarrow> bytes \<Rightarrow> nat \<Rightarrow> u64 \<Rightarrow> u64 \<Rightarrow> command_batch_builder result" where
  "batch_begin builder bs capacity command_buffer_id sequence =
     (if \<not> builder \<or> bs = [] \<or> capacity < BVB_COMMAND_BATCH_HEADER_SIZE \<or>
         capacity > BVB_COMMAND_BATCH_MAX_BYTES \<or> sequence = 0 \<or>
         handle_expect command_buffer_id BVB_OBJECT_COMMAND_BUFFER \<noteq> Inr ()
      then Inl EINVAL
      else Inr \<lparr>cb_bytes = memset0 bs 0 BVB_COMMAND_BATCH_HEADER_SIZE, cb_capacity = capacity,
                cb_length = BVB_COMMAND_BATCH_HEADER_SIZE, cb_command_buffer_id = command_buffer_id,
                cb_sequence = sequence, cb_command_count = 0, cb_finished = False\<rparr>)"

definition append_record ::
  "command_batch_builder option \<Rightarrow> u16 \<Rightarrow> bytes \<Rightarrow> u32 \<Rightarrow> command_batch_builder result" where
  "append_record builder opcode payload payload_length =
     (case builder of None \<Rightarrow> Inl EINVAL
      | Some builder \<Rightarrow>
          if cb_bytes builder = [] \<or> cb_finished builder \<or>
             cb_length builder < BVB_COMMAND_BATCH_HEADER_SIZE \<or> cb_length builder > cb_capacity builder \<or>
             cb_command_count builder \<ge> BVB_COMMAND_BATCH_MAX_COMMANDS
          then Inl EINVAL
          else
            let record_length = unat (BVB_COMMAND_RECORD_HEADER_SIZE + payload_length) in
            if record_length > BVB_COMMAND_BATCH_MAX_BYTES \<or> record_length > cb_capacity builder \<or>
               cb_length builder > cb_capacity builder - record_length \<or>
               cb_length builder > BVB_COMMAND_BATCH_MAX_BYTES - record_length
            then Inl ENOSPC
            else
              let at = cb_length builder;
                  bs = put_u16 (cb_bytes builder) at opcode;
                  bs = put_u16 bs (at + 2) 0;
                  bs = put_u32 bs (at + 4) payload_length;
                  bs = (if payload_length \<noteq> 0
                        then memcpy bs (at + BVB_COMMAND_RECORD_HEADER_SIZE) payload (unat payload_length) else bs) in
              Inr (builder\<lparr>cb_bytes := bs, cb_length := at + record_length,
                           cb_command_count := cb_command_count builder + 1\<rparr>))"

text \<open>The public entry point for a record that comes from another batch.\<close>

definition batch_append_record ::
  "command_batch_builder option \<Rightarrow> command_record option \<Rightarrow> command_batch_builder result" where
  "batch_append_record builder record =
     (case (builder, record) of
        (Some builder, Some record) \<Rightarrow>
          if \<not> payload_length_is_valid (cr_opcode record) (cr_payload record) (cr_payload_length record) \<or>
             validate_payload (cr_opcode record) (cr_payload record) \<noteq> Inr ()
          then Inl EINVAL
          else append_record (Some builder) (cr_opcode record) (cr_payload record) (cr_payload_length record)
      | _ \<Rightarrow> Inl EINVAL)"

definition batch_finish ::
  "command_batch_builder option \<Rightarrow> bool \<Rightarrow> (command_batch_builder \<times> nat) result" where
  "batch_finish builder output_length =
     (case builder of None \<Rightarrow> Inl EINVAL
      | Some builder \<Rightarrow>
          if cb_bytes builder = [] \<or> \<not> output_length \<or> cb_finished builder \<or>
             cb_command_count builder = 0 \<or> cb_length builder > 0xffffffff
          then Inl EINVAL
          else
            let header = put_u32 (cb_bytes builder) 0 BVB_COMMAND_BATCH_MAGIC;
                header = put_u16 header 4 BVB_COMMAND_BATCH_VERSION;
                header = put_u16 header 6 0;
                header = put_u32 header 8 (word_of_nat (cb_length builder));
                header = put_u32 header 12 (cb_command_count builder);
                header = put_u64 header 16 (cb_command_buffer_id builder);
                header = put_u64 header 24 (cb_sequence builder) in
            Inr (builder\<lparr>cb_bytes := header, cb_finished := True\<rparr>, cb_length builder))"

subsection \<open>Validating\<close>

fun validate_records :: "bytes \<Rightarrow> nat \<Rightarrow> nat \<Rightarrow> nat \<Rightarrow> nat result" where
  "validate_records bs len 0 offset = Inr offset"
| "validate_records bs len (Suc n) offset =
     (if offset > len \<or> len - offset < BVB_COMMAND_RECORD_HEADER_SIZE then Inl EPROTO
      else
        let opcode = get_u16 bs offset;
            flags = get_u16 bs (offset + 2);
            payload_length = get_u32 bs (offset + 4) in
        if flags \<noteq> 0 \<or> (case expected_payload_size opcode of Inl _ \<Rightarrow> True | Inr _ \<Rightarrow> False) \<or>
           unat payload_length > len - offset - BVB_COMMAND_RECORD_HEADER_SIZE
        then Inl EPROTO
        else
          let payload = drop (offset + BVB_COMMAND_RECORD_HEADER_SIZE) bs in
          if \<not> payload_length_is_valid opcode payload payload_length \<or> validate_payload opcode payload \<noteq> Inr ()
          then Inl EPROTO
          else validate_records bs len n (offset + unat (BVB_COMMAND_RECORD_HEADER_SIZE + payload_length)))"

definition batch_validate :: "bytes option \<Rightarrow> nat \<Rightarrow> bool \<Rightarrow> command_batch_info result" where
  "batch_validate bs len info =
     (case bs of None \<Rightarrow> Inl EINVAL
      | Some bs \<Rightarrow>
          if \<not> info \<or> len < BVB_COMMAND_BATCH_HEADER_SIZE \<or> len > BVB_COMMAND_BATCH_MAX_BYTES then Inl EINVAL
          else
            let byte_length = get_u32 bs 8;
                command_count = get_u32 bs 12;
                command_buffer_id = get_u64 bs 16;
                sequence = get_u64 bs 24 in
            if get_u32 bs 0 \<noteq> BVB_COMMAND_BATCH_MAGIC \<or> get_u16 bs 4 \<noteq> BVB_COMMAND_BATCH_VERSION \<or>
               get_u16 bs 6 \<noteq> 0 \<or> unat byte_length \<noteq> len \<or> command_count = 0 \<or>
               command_count > BVB_COMMAND_BATCH_MAX_COMMANDS \<or>
               handle_expect command_buffer_id BVB_OBJECT_COMMAND_BUFFER \<noteq> Inr () \<or> sequence = 0
            then Inl EPROTO
            else case validate_records bs len (unat command_count) BVB_COMMAND_BATCH_HEADER_SIZE of
              Inl e \<Rightarrow> Inl e
            | Inr offset \<Rightarrow>
                if offset \<noteq> len then Inl EPROTO
                else Inr \<lparr>bi_command_buffer_id = command_buffer_id, bi_sequence = sequence,
                          bi_command_count = command_count, bi_byte_length = byte_length\<rparr>)"

subsection \<open>Iterating\<close>

definition batch_iterator_init :: "bool \<Rightarrow> bytes option \<Rightarrow> nat \<Rightarrow> command_batch_iterator result" where
  "batch_iterator_init iterator bs len =
     (if \<not> iterator then Inl EINVAL
      else case batch_validate bs len True of
        Inl result \<Rightarrow> Inl result
      | Inr info \<Rightarrow> Inr \<lparr>it_bytes = the bs, it_length = len,
          it_offset = BVB_COMMAND_BATCH_HEADER_SIZE, it_remaining = bi_command_count info\<rparr>)"

text \<open>\<open>Inr None\<close> is the return value 1: no record is left.\<close>

definition batch_next ::
  "command_batch_iterator option \<Rightarrow> bool \<Rightarrow> (command_record \<times> command_batch_iterator) option result" where
  "batch_next iterator record =
     (case iterator of None \<Rightarrow> Inl EINVAL
      | Some iterator \<Rightarrow>
          if \<not> record \<or> it_bytes iterator = [] \<or> it_offset iterator > it_length iterator then Inl EINVAL
          else if it_remaining iterator = 0 then Inr None
          else
            let header = it_offset iterator;
                payload_length = get_u32 (it_bytes iterator) (header + 4) in
            Inr (Some
              (\<lparr>cr_opcode = get_u16 (it_bytes iterator) header,
                cr_payload = drop (header + BVB_COMMAND_RECORD_HEADER_SIZE) (it_bytes iterator),
                cr_payload_length = payload_length\<rparr>,
               iterator\<lparr>it_offset := it_offset iterator + unat (BVB_COMMAND_RECORD_HEADER_SIZE + payload_length),
                        it_remaining := it_remaining iterator - 1\<rparr>)))"

text \<open>A private copy of a batch, when the allocation succeeds.\<close>

definition batch_snapshot :: "bool \<Rightarrow> bytes \<Rightarrow> nat \<Rightarrow> bool \<Rightarrow> bytes result" where
  "batch_snapshot allocated source len snapshot =
     (if source = [] \<or> len = 0 \<or> len > BVB_COMMAND_BATCH_MAX_BYTES \<or> \<not> snapshot then Inl EINVAL
      else if \<not> allocated then Inl ENOMEM
      else Inr (take len source))"

subsection \<open>The bytes of a record\<close>

declare add_2_eq_Suc' [simp del]

text \<open>What a record and a batch are on the wire, as lists of bytes.\<close>

definition record_header :: "u16 \<Rightarrow> u32 \<Rightarrow> bytes" where
  "record_header opcode n = put_u32 (put_u16 (put_u16 (replicate 8 0) 0 opcode) 2 0) 4 n"

fun record_bytes :: "u16 \<times> bytes \<Rightarrow> bytes" where
  "record_bytes (opcode, payload) = record_header opcode (word_of_nat (length payload)) @ payload"

fun record_ok :: "u16 \<times> bytes \<Rightarrow> bool" where
  "record_ok (opcode, payload) \<longleftrightarrow>
     length payload < 2 ^ 32 \<and> payload_length_is_valid opcode payload (word_of_nat (length payload)) \<and>
     payload_ok opcode payload"

abbreviation records_bytes :: "(u16 \<times> bytes) list \<Rightarrow> bytes" where
  "records_bytes rs \<equiv> concat (map record_bytes rs)"

lemma length_record_header [simp]: "length (record_header opcode n) = 8"
  by (simp add: record_header_def)

lemma get_record_header:
  "get_u16 (record_header opcode n) 0 = opcode" "get_u16 (record_header opcode n) 2 = 0"
  "get_u32 (record_header opcode n) 4 = n"
  by (simp_all add: record_header_def wire_simps)

lemma put_append_right:
  "put_u16 (a @ c) (length a + i) v = a @ put_u16 c i v"
  "put_u32 (a @ c) (length a + i) w = a @ put_u32 c i w"
  by (simp_all add: put_u16_def put_u32_def list_update_append)

lemma get_append_right:
  "get_u16 (a @ c) (length a + i) = get_u16 c i"
  "get_u32 (a @ c) (length a + i) = get_u32 c i"
  by (simp_all add: get_u16_def get_u32_def nth_append)

lemma length_8_cases:
  assumes "length h = 8"
  obtains a b c d e f g i where "h = [a, b, c, d, e, f, g, i]"
  using assms by (auto simp: numeral_eq_Suc length_Suc_conv)

lemma write_record_header:
  assumes "length h = 8"
  shows "put_u32 (put_u16 (put_u16 h 0 opcode) 2 0) 4 n = record_header opcode n"
  using assms by (elim length_8_cases) (simp add: record_header_def put_u16_def put_u32_def numeral_eq_Suc)

text \<open>The eight bytes of a header are determined by what is read from them.\<close>

lemma no_high_bit: "\<not> bit x (8 + n)" "8 \<le> k \<Longrightarrow> \<not> bit x k" for x :: u8
  using bit_imp_le_length [of x "8 + n"] bit_imp_le_length [of x k] by auto

lemma u16_bytes: "input ! at = ucast (get_u16 input at)" "input ! (at + 1) = ucast (drop_bit 8 (get_u16 input at))"
  by (auto intro!: bit_word_eqI simp: get_u16_def bit_simps no_high_bit)

lemma u32_bytes:
  "input ! at = ucast (get_u32 input at)" "input ! (at + 1) = ucast (drop_bit 8 (get_u32 input at))"
  "input ! (at + 2) = ucast (drop_bit 16 (get_u32 input at))" "input ! (at + 3) = ucast (drop_bit 24 (get_u32 input at))"
  by (auto intro!: bit_word_eqI simp: get_u32_def bit_simps no_high_bit)

lemma u16_determined: "get_u16 g at = get_u16 h at \<Longrightarrow> g ! at = h ! at \<and> g ! (at + 1) = h ! (at + 1)"
  using u16_bytes [of g at] u16_bytes [of h at] by simp

lemma u32_determined: "get_u32 g at = get_u32 h at \<Longrightarrow>
    g ! at = h ! at \<and> g ! (at + 1) = h ! (at + 1) \<and> g ! (at + 2) = h ! (at + 2) \<and> g ! (at + 3) = h ! (at + 3)"
  using u32_bytes [of g at] u32_bytes [of h at] by simp

lemma reads_determine_header:
  assumes len: "length g = 8" "length h = 8"
    and eq: "get_u16 g 0 = get_u16 h 0" "get_u16 g 2 = get_u16 h 2" "get_u32 g 4 = get_u32 h 4"
  shows "g = h"
proof (rule nth_equalityI)
  fix k assume "k < length g"
  then consider "k = 0" | "k = 1" | "k = 2" | "k = 3" | "k = 4" | "k = 5" | "k = 6" | "k = 7"
    using len(1) by fastforce
  then show "g ! k = h ! k"
    using u16_determined [OF eq(1)] u16_determined [OF eq(2)] u32_determined [OF eq(3)] by cases simp_all
qed (simp add: len)

lemma header_of_reads:
  "length h = 8 \<Longrightarrow> get_u16 h 2 = 0 \<Longrightarrow> record_header (get_u16 h 0) (get_u32 h 4) = h"
  by (rule reads_determine_header) (simp_all add: get_record_header)

subsection \<open>Appending\<close>

text \<open>The builder's buffer has the size it was told; the bytes built so far are in front.\<close>

definition builder_ok :: "command_batch_builder \<Rightarrow> bool" where
  "builder_ok b \<longleftrightarrow> length (cb_bytes b) = cb_capacity b \<and> cb_capacity b \<le> BVB_COMMAND_BATCH_MAX_BYTES \<and>
     BVB_COMMAND_BATCH_HEADER_SIZE \<le> cb_length b \<and> cb_length b \<le> cb_capacity b \<and>
     cb_command_count b \<le> BVB_COMMAND_BATCH_MAX_COMMANDS"

text \<open>The records that have been appended.\<close>

definition holds_records :: "command_batch_builder \<Rightarrow> (u16 \<times> bytes) list \<Rightarrow> bool" where
  "holds_records b rs \<longleftrightarrow> builder_ok b \<and> unat (cb_command_count b) = length rs \<and>
     drop BVB_COMMAND_BATCH_HEADER_SIZE (take (cb_length b) (cb_bytes b)) = records_bytes rs"

lemma batch_begin_ok:
  assumes "batch_begin builder bs capacity cbid sequence = Inr b" "length bs = capacity"
  shows "holds_records b [] \<and> \<not> cb_finished b \<and> cb_command_buffer_id b = cbid \<and> cb_sequence b = sequence \<and>
    sequence \<noteq> 0 \<and> handle_expect cbid BVB_OBJECT_COMMAND_BUFFER = Inr ()"
  using assms by (auto simp: batch_begin_def holds_records_def builder_ok_def)

lemma append_record_fits:
  assumes "append_record (Some b) opcode payload n = Inr b'" "builder_ok b" "length payload = unat n" "unat n < 2 ^ 32 - 8"
  shows "cb_length b + 8 + unat n \<le> cb_capacity b \<and> \<not> cb_finished b \<and>
    cb_command_count b < BVB_COMMAND_BATCH_MAX_COMMANDS \<and> cb_length b' = cb_length b + 8 + unat n"
proof -
  have "unat (8 + n) = 8 + unat n" using assms(4) by (simp add: unat_word_ariths)
  then show ?thesis
    using assms by (auto simp: append_record_def Let_def builder_ok_def not_less not_le)
qed

lemma append_record_bytes:
  assumes "append_record (Some b) opcode payload n = Inr b'" "builder_ok b" "length payload = unat n" "unat n < 2 ^ 32 - 8"
  shows "cb_bytes b' = take (cb_length b) (cb_bytes b) @ record_header opcode n @ payload @
    drop (cb_length b + 8 + unat n) (cb_bytes b)"
proof -
  note fits = append_record_fits [OF assms]
  define a h t where "a = take (cb_length b) (cb_bytes b)" and "h = take 8 (drop (cb_length b) (cb_bytes b))"
    and "t = drop (cb_length b + 8) (cb_bytes b)"
  have split: "cb_bytes b = a @ h @ t"
    by (simp add: a_def h_def t_def flip: drop_drop add.commute [of 8])
  have len: "length a = cb_length b" "length h = 8"
    using fits assms(2) by (auto simp: a_def h_def builder_ok_def)
  have put1: "put_u16 (a @ h @ t) (length a) opcode = a @ put_u16 h 0 opcode @ t"
    using put_append_right(1) [of a "h @ t" 0] len(2) by (simp add: put_append)
  have put2: "put_u16 (a @ h' @ t) (length a + 2) 0 = a @ put_u16 h' 2 0 @ t" if "length h' = 8" for h'
    using that by (simp add: put_append_right put_append)
  have put3: "put_u32 (a @ h' @ t) (length a + 4) n = a @ put_u32 h' 4 n @ t" if "length h' = 8" for h'
    using that by (simp add: put_append_right put_append)
  have "put_u32 (put_u16 (put_u16 (a @ h @ t) (cb_length b) opcode) (cb_length b + 2) 0) (cb_length b + 4) n =
      a @ record_header opcode n @ t"
    unfolding len(1) [symmetric] put1 using len(2) by (simp add: put2 put3 write_record_header)
  moreover have "memcpy (a @ record_header opcode n @ t) (cb_length b + 8) payload (unat n) =
      a @ record_header opcode n @ payload @ drop (unat n) t"
    using len assms(3) by (simp add: memcpy_def)
  ultimately have "cb_bytes b' = a @ record_header opcode n @ payload @ drop (unat n) t"
    using assms(1,3) len split by (auto simp: append_record_def Let_def)
  then show ?thesis by (simp add: a_def t_def add.commute add.left_commute)
qed

lemma record_ok_length: "record_ok (opcode, p) \<Longrightarrow> length p \<le> BVB_VULKAN_IMAGE_BARRIER_2_MAX_SIZE"
  using payload_length_bound [of opcode p "word_of_nat (length p)"] by (auto simp: unat_of_nat)

lemma append_record_holds:
  assumes "append_record (Some b) opcode payload n = Inr b'" "holds_records b rs"
    and n: "length payload = unat n" "unat n < 2 ^ 32 - 8"
  shows "holds_records b' (rs @ [(opcode, payload)]) \<and> \<not> cb_finished b' \<and>
    cb_command_buffer_id b' = cb_command_buffer_id b \<and> cb_sequence b' = cb_sequence b"
proof -
  have ok: "builder_ok b" using assms(2) by (simp add: holds_records_def)
  note fits = append_record_fits [OF assms(1) ok n] and bs = append_record_bytes [OF assms(1) ok n]
  have keeps: "cb_capacity b' = cb_capacity b" "cb_command_count b' = cb_command_count b + 1"
      "\<not> cb_finished b'" "cb_command_buffer_id b' = cb_command_buffer_id b" "cb_sequence b' = cb_sequence b"
    using assms(1) by (auto simp: append_record_def Let_def split: if_splits)
  have count: "unat (cb_command_count b + 1) = unat (cb_command_count b) + 1"
    using fits by (intro unat_Suc32) auto
  have len: "length (take (cb_length b) (cb_bytes b)) = cb_length b" using ok by (simp add: builder_ok_def)
  have "take (cb_length b') (cb_bytes b') = take (cb_length b) (cb_bytes b) @ record_header opcode n @ payload"
    using fits len n(1) by (simp add: bs)
  then have "drop 32 (take (cb_length b') (cb_bytes b')) = records_bytes (rs @ [(opcode, payload)])"
    using assms(2) len ok n(1) by (simp add: holds_records_def builder_ok_def)
  moreover have "builder_ok b'"
    using ok fits keeps(1,2) count n(1) len
    by (simp add: builder_ok_def bs word_le_nat_alt word_less_nat_alt)
  ultimately show ?thesis
    using keeps count assms(2) by (simp add: holds_records_def)
qed

subsection \<open>Validation is parsing\<close>

lemma head_reads:
  "get_u16 (a @ record_header opcode n @ r) (length a) = opcode"
  "get_u16 (a @ record_header opcode n @ r) (length a + 2) = 0"
  "get_u32 (a @ record_header opcode n @ r) (length a + 4) = n"
  using get_append_right(1) [of a _ 0] by (simp_all add: get_append_right get_append get_record_header)

lemma record_step: "unat n \<le> BVB_VULKAN_IMAGE_BARRIER_2_MAX_SIZE \<Longrightarrow> unat (8 + n) = 8 + unat n" for n :: u32
  by (simp add: unat_word_ariths)

lemma validate_records_complete:
  "list_all record_ok rs \<Longrightarrow> length a + length (records_bytes rs) \<le> len \<Longrightarrow>
     validate_records (a @ records_bytes rs @ rest) len (length rs) (length a) = Inr (length a + length (records_bytes rs))"
proof (induction rs arbitrary: a)
  case (Cons r rs)
  obtain opcode p where r: "r = (opcode, p)" by (rule prod.exhaust)
  let ?n = "word_of_nat (length p) :: u32" and ?a = "a @ record_bytes r" and ?rest = "records_bytes rs @ rest"
  have ok: "record_ok (opcode, p)" using Cons.prems(1) r by simp
  then have n: "unat ?n = length p" and le: "length p \<le> BVB_VULKAN_IMAGE_BARRIER_2_MAX_SIZE"
    using record_ok_length [OF ok] by (simp_all add: unat_of_nat)
  have valid: "payload_length_is_valid opcode (p @ ?rest) ?n" "validate_payload opcode (p @ ?rest) = Inr ()"
    using ok payload_length_prefix [of p ?n opcode ?rest] validate_payload_prefix [of opcode p ?n ?rest] n
    by (simp_all add: validate_payload_def)
  have "validate_records (?a @ records_bytes rs @ rest) len (length rs) (length ?a) =
      Inr (length ?a + length (records_bytes rs))"
    using Cons.prems by (intro Cons.IH) simp_all
  moreover have "\<exists>m. expected_payload_size opcode = Inr m"
    using ok by (auto simp: payload_length_is_valid_def split: sum.splits)
  ultimately show ?case
    using Cons.prems(2) n le valid record_step [of ?n]
    by (auto simp: r head_reads Let_def)
qed simp

lemma validate_records_sound:
  "validate_records bs len k off = Inr off' \<Longrightarrow> off \<le> len \<Longrightarrow> len \<le> length bs \<Longrightarrow>
     \<exists>rs. length rs = k \<and> list_all record_ok rs \<and> off' = off + length (records_bytes rs) \<and> off' \<le> len \<and>
       take (length (records_bytes rs)) (drop off bs) = records_bytes rs"
proof (induction k arbitrary: off)
  case (Suc k)
  define h n where "h = take 8 (drop off bs)" and "n = get_u32 bs (off + 4)"
  define p where "p = take (unat n) (drop (off + 8) bs)"
  have room: "off + 8 + unat n \<le> len" and flags: "get_u16 bs (off + 2) = 0"
    and valid: "payload_length_is_valid (get_u16 bs off) (drop (off + 8) bs) n"
      "payload_ok (get_u16 bs off) (drop (off + 8) bs)"
    and rest: "validate_records bs len k (off + unat (8 + n)) = Inr off'"
    using Suc.prems(1) by (auto simp: Let_def n_def validate_payload_def split: if_splits)
  have step: "unat (8 + n) = 8 + unat n" using payload_length_bound [OF valid(1)] by (rule record_step)
  have lens: "length h = 8" "length p = unat n" using room Suc.prems(3) by (simp_all add: h_def p_def)
  have split: "drop off bs = h @ drop (off + 8) bs" "drop (off + 8) bs = p @ drop (off + 8 + unat n) bs"
    using append_take_drop_id [of 8 "drop off bs"] append_take_drop_id [of "unat n" "drop (off + 8) bs"]
    by (simp_all add: h_def p_def add.commute add.left_commute)
  have reads: "get_u16 h 0 = get_u16 bs off" "get_u16 h 2 = 0" "get_u32 h 4 = n"
    using room Suc.prems(3) flags
    by (simp_all add: h_def n_def get_u16_def get_u32_def add.commute)
  have header: "record_header (get_u16 bs off) n = h" using header_of_reads [OF lens(1)] reads by simp
  have ok: "record_ok (get_u16 bs off, p)"
    using valid payload_length_prefix [OF lens(2)] payload_ok_prefix [of "get_u16 bs off" p n] lens(2) split(2)
    by (simp add: u32_less)
  obtain rs where rs: "length rs = k" "list_all record_ok rs" "off' = off + (8 + unat n) + length (records_bytes rs)"
      "off' \<le> len" "take (length (records_bytes rs)) (drop (off + (8 + unat n)) bs) = records_bytes rs"
    using Suc.IH [OF rest] room Suc.prems(3) step by auto
  have bytes: "record_bytes (get_u16 bs off, p) = h @ p" using lens header by simp
  show ?case
  proof (intro exI [of _ "(get_u16 bs off, p) # rs"] conjI)
    show "take (length (records_bytes ((get_u16 bs off, p) # rs))) (drop off bs) = records_bytes ((get_u16 bs off, p) # rs)"
      using rs(5) lens bytes split by (simp del: record_bytes.simps add: add.assoc)
  qed (use rs ok bytes lens in \<open>simp_all del: record_bytes.simps\<close>)
qed simp

subsection \<open>The header of a batch\<close>

definition batch_header :: "command_batch_info \<Rightarrow> bytes" where
  "batch_header info =
     put_u64 (put_u64 (put_u32 (put_u32 (put_u16 (put_u16 (put_u32 (replicate 32 0) 0 BVB_COMMAND_BATCH_MAGIC)
       4 BVB_COMMAND_BATCH_VERSION) 6 0) 8 (bi_byte_length info)) 12 (bi_command_count info))
       16 (bi_command_buffer_id info)) 24 (bi_sequence info)"

lemma length_batch_header [simp]: "length (batch_header info) = 32"
  by (simp add: batch_header_def)

lemma get_batch_header:
  "get_u32 (batch_header info) 0 = BVB_COMMAND_BATCH_MAGIC" "get_u16 (batch_header info) 4 = BVB_COMMAND_BATCH_VERSION"
  "get_u16 (batch_header info) 6 = 0" "get_u32 (batch_header info) 8 = bi_byte_length info"
  "get_u32 (batch_header info) 12 = bi_command_count info"
  "get_u64 (batch_header info) 16 = bi_command_buffer_id info" "get_u64 (batch_header info) 24 = bi_sequence info"
  by (simp_all add: batch_header_def wire_simps)

lemma u64_halves: "get_u32 input at = ucast (get_u64 input at)" "get_u32 input (at + 4) = ucast (drop_bit 32 (get_u64 input at))"
proof -
  have high: "\<not> bit x (32 + k)" for x :: u32 and k using bit_imp_le_length [of x "32 + k"] by auto
  show "get_u32 input at = ucast (get_u64 input at)" "get_u32 input (at + 4) = ucast (drop_bit 32 (get_u64 input at))"
    unfolding get_u64_def by (auto intro!: bit_word_eqI simp: bit_simps high)
qed

lemma u64_determined: "get_u64 g at = get_u64 h at \<Longrightarrow> get_u32 g at = get_u32 h at \<and> get_u32 g (at + 4) = get_u32 h (at + 4)"
  using u64_halves [of g at] u64_halves [of h at] by simp

lemma same_words:
  assumes "length g = n" "length h = n" "n mod 4 = 0" "\<And>k. k < n div 4 \<Longrightarrow> get_u32 g (4 * k) = get_u32 h (4 * k)"
  shows "g = h"
proof (rule nth_equalityI)
  fix i assume i: "i < length g"
  define k where "k = i div 4"
  have "k < n div 4" using i assms(1,3) by (simp add: k_def less_mult_imp_div_less div_mult_self_is_m) presburger
  from u32_determined [OF assms(4) [OF this]] have
    "g ! (4 * k) = h ! (4 * k)" "g ! (4 * k + 1) = h ! (4 * k + 1)" "g ! (4 * k + 2) = h ! (4 * k + 2)"
    "g ! (4 * k + 3) = h ! (4 * k + 3)" by blast+
  moreover have "i = 4 * k \<or> i = 4 * k + 1 \<or> i = 4 * k + 2 \<or> i = 4 * k + 3" unfolding k_def by presburger
  ultimately show "g ! i = h ! i" by auto
qed (simp add: assms)

lemma u16_pair:
  assumes "get_u16 g at = get_u16 h at" "get_u16 g (at + 2) = get_u16 h (at + 2)"
  shows "get_u32 g at = get_u32 h at"
  using u16_determined [OF assms(1)] u16_determined [OF assms(2)] by (simp add: get_u32_def add.commute)

lemma batch_header_of_reads:
  assumes "length h = 32" "get_u32 h 0 = BVB_COMMAND_BATCH_MAGIC" "get_u16 h 4 = BVB_COMMAND_BATCH_VERSION" "get_u16 h 6 = 0"
  shows "batch_header \<lparr>bi_command_buffer_id = get_u64 h 16, bi_sequence = get_u64 h 24,
      bi_command_count = get_u32 h 12, bi_byte_length = get_u32 h 8\<rparr> = h" (is "batch_header ?i = h")
proof (rule same_words)
  fix k :: nat assume "k < 32 div 4"
  then consider "k = 0" | "k = 1" | "k = 2" | "k = 3" | "k = 4" | "k = 5" | "k = 6" | "k = 7" by fastforce
  then show "get_u32 (batch_header ?i) (4 * k) = get_u32 h (4 * k)"
    using u64_determined [of "batch_header ?i" 16 h] u64_determined [of "batch_header ?i" 24 h]
      u16_pair [of "batch_header ?i" 4 h] assms
    by cases (simp_all add: get_batch_header)
qed (simp_all add: assms)

subsection \<open>What a validated batch is\<close>

definition batch_info_ok :: "command_batch_info \<Rightarrow> (u16 \<times> bytes) list \<Rightarrow> bool" where
  "batch_info_ok info rs \<longleftrightarrow> rs \<noteq> [] \<and> list_all record_ok rs \<and>
     unat (bi_command_count info) = length rs \<and> bi_command_count info \<le> BVB_COMMAND_BATCH_MAX_COMMANDS \<and>
     unat (bi_byte_length info) = 32 + length (records_bytes rs) \<and>
     32 + length (records_bytes rs) \<le> BVB_COMMAND_BATCH_MAX_BYTES \<and>
     handle_expect (bi_command_buffer_id info) BVB_OBJECT_COMMAND_BUFFER = Inr () \<and> bi_sequence info \<noteq> 0"

lemma header_reads:
  "get_u32 (batch_header info @ r) 0 = BVB_COMMAND_BATCH_MAGIC" "get_u16 (batch_header info @ r) 4 = BVB_COMMAND_BATCH_VERSION"
  "get_u16 (batch_header info @ r) 6 = 0" "get_u32 (batch_header info @ r) 8 = bi_byte_length info"
  "get_u32 (batch_header info @ r) 12 = bi_command_count info"
  "get_u64 (batch_header info @ r) 16 = bi_command_buffer_id info" "get_u64 (batch_header info @ r) 24 = bi_sequence info"
  by (simp_all add: get_append get_batch_header)

lemma validate_complete:
  assumes "batch_info_ok info rs"
  shows "batch_validate (Some (batch_header info @ records_bytes rs @ rest)) (32 + length (records_bytes rs)) True = Inr info"
proof -
  have "validate_records (batch_header info @ records_bytes rs @ rest) (32 + length (records_bytes rs)) (length rs) 32 =
      Inr (32 + length (records_bytes rs))"
    using validate_records_complete [of rs "batch_header info"] assms by (simp add: batch_info_ok_def)
  then show ?thesis
    using assms by (auto simp: batch_validate_def Let_def header_reads batch_info_ok_def unat_eq_zero)
qed

lemma validate_sound:
  assumes "batch_validate (Some (bs @ rest)) (length bs) True = Inr info"
  shows "\<exists>rs. batch_info_ok info rs \<and> bs = batch_header info @ records_bytes rs"
proof -
  let ?all = "bs @ rest"
  have len: "32 \<le> length bs" "length bs \<le> BVB_COMMAND_BATCH_MAX_BYTES"
    and reads: "get_u32 ?all 0 = BVB_COMMAND_BATCH_MAGIC" "get_u16 ?all 4 = BVB_COMMAND_BATCH_VERSION" "get_u16 ?all 6 = 0"
    and fields: "info = \<lparr>bi_command_buffer_id = get_u64 ?all 16, bi_sequence = get_u64 ?all 24,
        bi_command_count = get_u32 ?all 12, bi_byte_length = get_u32 ?all 8\<rparr>"
    and ok: "unat (get_u32 ?all 8) = length bs" "get_u32 ?all 12 \<noteq> 0" "get_u32 ?all 12 \<le> BVB_COMMAND_BATCH_MAX_COMMANDS"
      "handle_expect (get_u64 ?all 16) BVB_OBJECT_COMMAND_BUFFER = Inr ()" "get_u64 ?all 24 \<noteq> 0"
    and records: "validate_records ?all (length bs) (unat (get_u32 ?all 12)) 32 = Inr (length bs)"
    using assms by (auto simp: batch_validate_def Let_def not_less split: if_splits sum.splits)
  obtain rs where rs: "length rs = unat (get_u32 ?all 12)" "list_all record_ok rs"
      "length bs = 32 + length (records_bytes rs)" "take (length (records_bytes rs)) (drop 32 ?all) = records_bytes rs"
    using validate_records_sound [OF records] len by auto
  have bs: "?all = (take 32 bs) @ drop 32 ?all" "length (take 32 bs) = 32" using len by simp_all
  have h: "get_u32 (take 32 bs) i = get_u32 ?all i" "get_u16 (take 32 bs) i = get_u16 ?all i" if "i + 4 \<le> 32" for i
    by (subst bs(1), subst get_append; use that bs(2) in simp)+
  have h64: "get_u64 (take 32 bs) i = get_u64 ?all i" if "i + 8 \<le> 32" for i
    by (subst bs(1), subst get_append; use that bs(2) in simp)
  have "batch_header info = take 32 bs"
    using batch_header_of_reads [OF bs(2)] reads fields by (simp add: h h64)
  moreover have "drop 32 bs = records_bytes rs" using rs(3,4) len by simp
  ultimately have "bs = batch_header info @ records_bytes rs" by (metis append_take_drop_id)
  moreover have "batch_info_ok info rs"
    using ok rs len fields by (auto simp: batch_info_ok_def unat_eq_zero)
  ultimately show ?thesis by blast
qed

subsection \<open>Building, finishing and reading\<close>

text \<open>What a record stands for: its opcode and the bytes of its payload, which must be there.\<close>

definition record_of :: "command_record \<Rightarrow> u16 \<times> bytes" where
  "record_of r = (cr_opcode r, take (unat (cr_payload_length r)) (cr_payload r))"

definition readable :: "command_record \<Rightarrow> bool" where
  "readable r \<longleftrightarrow> unat (cr_payload_length r) \<le> length (cr_payload r)"

fun append_all :: "command_batch_builder \<Rightarrow> command_record list \<Rightarrow> command_batch_builder result" where
  "append_all b [] = Inr b"
| "append_all b (r # rs) = (case batch_append_record (Some b) (Some r) of Inl e \<Rightarrow> Inl e | Inr b' \<Rightarrow> append_all b' rs)"

lemma append_record_payload:
  "append_record b opcode (p @ r) n = append_record b opcode p n" if "length p = unat n"
  using that by (auto simp: append_record_def Let_def memcpy_def split: option.split)

lemma batch_append_record_ok:
  assumes "batch_append_record (Some b) (Some r) = Inr b'" "readable r"
  shows "record_ok (record_of r) \<and> append_record (Some b) (cr_opcode r) (snd (record_of r)) (cr_payload_length r) = Inr b'"
proof -
  let ?p = "take (unat (cr_payload_length r)) (cr_payload r)" and ?n = "cr_payload_length r"
  have p: "cr_payload r = ?p @ drop (unat ?n) (cr_payload r)" "length ?p = unat ?n"
    using assms(2) by (simp_all add: readable_def)
  have valid: "payload_length_is_valid (cr_opcode r) (cr_payload r) ?n" "payload_ok (cr_opcode r) (cr_payload r)"
    and app: "append_record (Some b) (cr_opcode r) (cr_payload r) ?n = Inr b'"
    using assms(1) by (auto simp: batch_append_record_def validate_payload_def split: if_splits)
  have len: "payload_length_is_valid (cr_opcode r) ?p ?n" using valid(1) payload_length_prefix [OF p(2)] p(1) by metis
  have ok: "payload_ok (cr_opcode r) ?p" using valid(2) payload_ok_prefix [OF len p(2)] p(1) by metis
  have "append_record (Some b) (cr_opcode r) ?p ?n = Inr b'" using app append_record_payload [OF p(2)] p(1) by metis
  then show ?thesis using len ok p(2) u32_less [of ?n] by (simp add: record_of_def)
qed

lemma append_all_holds:
  "append_all b rs = Inr b' \<Longrightarrow> holds_records b qs \<Longrightarrow> \<not> cb_finished b \<Longrightarrow> list_all readable rs \<Longrightarrow>
     holds_records b' (qs @ map record_of rs) \<and> list_all (record_ok \<circ> record_of) rs \<and> \<not> cb_finished b' \<and>
     cb_command_buffer_id b' = cb_command_buffer_id b \<and> cb_sequence b' = cb_sequence b"
proof (induction rs arbitrary: b qs)
  case (Cons r rs)
  obtain b1 where b1: "batch_append_record (Some b) (Some r) = Inr b1" "append_all b1 rs = Inr b'"
    using Cons.prems(1) by (auto split: sum.splits)
  have readable: "readable r" "list_all readable rs" using Cons.prems(4) by simp_all
  note ok = batch_append_record_ok [OF b1(1) readable(1)]
  have len: "length (snd (record_of r)) = unat (cr_payload_length r)"
    using readable(1) by (simp add: record_of_def readable_def)
  then have "unat (cr_payload_length r) < 2 ^ 32 - 8"
    using record_ok_length [of "cr_opcode r" "snd (record_of r)"] ok by (simp add: record_of_def)
  then have holds: "holds_records b1 (qs @ [record_of r]) \<and> \<not> cb_finished b1 \<and>
      cb_command_buffer_id b1 = cb_command_buffer_id b \<and> cb_sequence b1 = cb_sequence b"
    using append_record_holds [OF conjunct2 [OF ok] Cons.prems(2) len] by (simp add: record_of_def)
  then show ?case using Cons.IH [OF b1(2) _ _ readable(2), of "qs @ [record_of r]"] ok by simp
qed simp

lemma batch_finish_ok:
  assumes "holds_records b rs" "\<not> cb_finished b" "rs \<noteq> []" "list_all record_ok rs"
    and id: "handle_expect (cb_command_buffer_id b) BVB_OBJECT_COMMAND_BUFFER = Inr ()" "cb_sequence b \<noteq> 0"
  shows "\<exists>b' info. batch_finish (Some b) True = Inr (b', cb_length b) \<and> batch_info_ok info rs \<and>
    take (cb_length b) (cb_bytes b') = batch_header info @ records_bytes rs \<and> cb_length b = 32 + length (records_bytes rs) \<and>
    info = \<lparr>bi_command_buffer_id = cb_command_buffer_id b, bi_sequence = cb_sequence b,
            bi_command_count = cb_command_count b, bi_byte_length = word_of_nat (cb_length b)\<rparr>"
proof -
  define a where "a = take 32 (cb_bytes b)"
  define info where "info = \<lparr>bi_command_buffer_id = cb_command_buffer_id b, bi_sequence = cb_sequence b,
      bi_command_count = cb_command_count b, bi_byte_length = word_of_nat (cb_length b)\<rparr>"
  have ok: "length (cb_bytes b) = cb_capacity b" "cb_capacity b \<le> BVB_COMMAND_BATCH_MAX_BYTES" "32 \<le> cb_length b"
      "cb_length b \<le> cb_capacity b" "cb_command_count b \<le> BVB_COMMAND_BATCH_MAX_COMMANDS"
    and count: "unat (cb_command_count b) = length rs"
    and recs: "drop 32 (take (cb_length b) (cb_bytes b)) = records_bytes rs"
    using assms(1) by (auto simp: holds_records_def builder_ok_def)
  have a: "length a = 32" "cb_bytes b = a @ drop 32 (cb_bytes b)" using ok by (simp_all add: a_def)
  have len: "cb_length b = 32 + length (records_bytes rs)" using arg_cong [OF recs, of length] ok by simp
  define h where "h = put_u64 (put_u64 (put_u32 (put_u32 (put_u16 (put_u16 (put_u32 a 0 BVB_COMMAND_BATCH_MAGIC)
       4 BVB_COMMAND_BATCH_VERSION) 6 0) 8 (bi_byte_length info)) 12 (bi_command_count info))
       16 (bi_command_buffer_id info)) 24 (bi_sequence info)"
  have h: "length h = 32" "h = batch_header info"
  proof -
    show "length h = 32" using a(1) by (simp add: h_def)
    then show "h = batch_header info"
      using batch_header_of_reads [of h] a(1) by (simp add: h_def wire_simps info_def)
  qed
  have nonzero: "cb_command_count b \<noteq> 0" using count assms(3) by (auto simp: unat_eq_zero)
  have empty: "cb_bytes b \<noteq> []" using ok by auto
  have fits: "\<not> cb_length b > 0xffffffff" using ok by simp
  have puts: "put_u64 (put_u64 (put_u32 (put_u32 (put_u16 (put_u16 (put_u32 (cb_bytes b) 0 BVB_COMMAND_BATCH_MAGIC)
       4 BVB_COMMAND_BATCH_VERSION) 6 0) 8 (bi_byte_length info)) 12 (bi_command_count info))
       16 (bi_command_buffer_id info)) 24 (bi_sequence info) = h @ drop 32 (cb_bytes b)"
    by (subst a(2)) (simp add: h_def wire_simps a(1))
  have "batch_finish (Some b) True = Inr (b\<lparr>cb_bytes := h @ drop 32 (cb_bytes b), cb_finished := True\<rparr>, cb_length b)"
    using nonzero empty fits assms(2) puts by (simp add: batch_finish_def Let_def info_def)
  moreover have "take (cb_length b) (h @ drop 32 (cb_bytes b)) = batch_header info @ records_bytes rs"
    using h recs by (simp add: len drop_take)
  moreover have "unat (word_of_nat (cb_length b) :: u32) = cb_length b" using ok by (simp add: unat_of_nat)
  then have "batch_info_ok info rs"
    using count ok len assms id by (simp add: batch_info_ok_def info_def)
  ultimately show ?thesis using len info_def by auto
qed

text \<open>Reading records until none is left; the second result says that the end was reached.\<close>

fun drain :: "nat \<Rightarrow> command_batch_iterator \<Rightarrow> command_record list \<times> bool" where
  "drain 0 it = ([], False)"
| "drain (Suc fuel) it = (case batch_next (Some it) True of
     Inl _ \<Rightarrow> ([], False) | Inr None \<Rightarrow> ([], True)
   | Inr (Some (r, it')) \<Rightarrow> map_prod (\<lambda>rs. r # rs) id (drain fuel it'))"

lemma drain_records:
  "it_bytes it = a @ records_bytes rs @ rest \<Longrightarrow> it_offset it = length a \<Longrightarrow> unat (it_remaining it) = length rs \<Longrightarrow>
     it_length it = length a + length (records_bytes rs) \<Longrightarrow> a \<noteq> [] \<Longrightarrow> list_all record_ok rs \<Longrightarrow>
     \<exists>qs. drain (Suc (length rs)) it = (qs, True) \<and> map record_of qs = rs"
proof (induction rs arbitrary: a it)
  case Nil
  then have "it_remaining it = 0" by (simp add: unat_eq_zero)
  then show ?case using Nil by (simp add: batch_next_def)
next
  case (Cons x rs)
  obtain opcode p where x: "x = (opcode, p)" by (rule prod.exhaust)
  let ?n = "word_of_nat (length p) :: u32"
  have ok: "record_ok (opcode, p)" using Cons.prems(6) x by simp
  have n: "unat ?n = length p" "unat (8 + ?n) = 8 + length p"
    using record_ok_length [OF ok] record_step [of ?n] by (simp_all add: unat_of_nat)
  define it' where "it' = it\<lparr>it_offset := length a + (8 + length p), it_remaining := it_remaining it - 1\<rparr>"
  have left: "it_remaining it \<noteq> 0" using Cons.prems(3) by auto
  have "batch_next (Some it) True = Inr (Some
      (\<lparr>cr_opcode = opcode, cr_payload = p @ records_bytes rs @ rest, cr_payload_length = ?n\<rparr>, it'))"
    using Cons.prems left n
    by (simp add: batch_next_def Let_def x head_reads it'_def)
  moreover obtain qs where "drain (Suc (length rs)) it' = (qs, True)" "map record_of qs = rs"
    using Cons.IH [of it' "a @ record_bytes x"] Cons.prems left n x
    by (auto simp: it'_def unat_minus_one)
  ultimately show ?case using n x by (auto simp: record_of_def)
qed

subsection \<open>What a batch guarantees\<close>

text \<open>
  C33: a batch that was begun, filled and finished is accepted on the other side, whatever follows it
  in memory, with the command buffer, the sequence number and the number of commands it was begun
  with and has; and iterating over it gives exactly the appended records, in order, and then the end.
\<close>

theorem batch_roundtrip:
  assumes "batch_begin True bs (length bs) command_buffer_id sequence = Inr b" "append_all b rs = Inr b'"
    and "rs \<noteq> []" "list_all readable rs"
  shows "\<exists>b'' n it qs. batch_finish (Some b') True = Inr (b'', n) \<and>
    batch_validate (Some (take n (cb_bytes b'') @ rest)) n True =
      Inr \<lparr>bi_command_buffer_id = command_buffer_id, bi_sequence = sequence,
           bi_command_count = word_of_nat (length rs), bi_byte_length = word_of_nat n\<rparr> \<and>
    batch_iterator_init True (Some (take n (cb_bytes b'') @ rest)) n = Inr it \<and>
    drain (Suc (length rs)) it = (qs, True) \<and> map record_of qs = map record_of rs"
proof -
  let ?rs = "map record_of rs"
  have "holds_records b [] \<and> \<not> cb_finished b" and id: "cb_command_buffer_id b = command_buffer_id" "cb_sequence b = sequence"
      "sequence \<noteq> 0" "handle_expect command_buffer_id BVB_OBJECT_COMMAND_BUFFER = Inr ()"
    using batch_begin_ok [OF assms(1)] by auto
  then have b': "holds_records b' ?rs" "\<not> cb_finished b'" "list_all record_ok ?rs"
      "cb_command_buffer_id b' = command_buffer_id" "cb_sequence b' = sequence"
    using append_all_holds [OF assms(2) _ _ assms(4), of "[]"] by (auto simp: list.pred_map)
  obtain b'' info where fin: "batch_finish (Some b') True = Inr (b'', cb_length b')" "batch_info_ok info ?rs"
      "take (cb_length b') (cb_bytes b'') = batch_header info @ records_bytes ?rs"
      "cb_length b' = 32 + length (records_bytes ?rs)"
      "info = \<lparr>bi_command_buffer_id = command_buffer_id, bi_sequence = sequence,
            bi_command_count = cb_command_count b', bi_byte_length = word_of_nat (cb_length b')\<rparr>"
    using batch_finish_ok [OF b'(1,2) _ b'(3)] id b'(4,5) assms(3) by auto
  have count: "unat (cb_command_count b') = length rs" "cb_command_count b' = word_of_nat (length rs)"
    using b'(1) by (auto simp: holds_records_def) (metis of_nat_unat ucast_id)
  have valid: "batch_validate (Some (take (cb_length b') (cb_bytes b'') @ rest)) (cb_length b') True = Inr info"
    using validate_complete [OF fin(2), of rest] fin(3,4) by simp
  define it where "it = \<lparr>it_bytes = batch_header info @ records_bytes ?rs @ rest, it_length = cb_length b',
      it_offset = 32, it_remaining = cb_command_count b'\<rparr>"
  have "batch_iterator_init True (Some (take (cb_length b') (cb_bytes b'') @ rest)) (cb_length b') = Inr it"
    using valid fin(3,5) by (simp add: batch_iterator_init_def it_def)
  moreover obtain qs where "drain (Suc (length rs)) it = (qs, True)" "map record_of qs = ?rs"
    using drain_records [of it "batch_header info" ?rs rest] fin(4) count(1) b'(3)
    by (auto simp: it_def simp flip: length_greater_0_conv)
  ultimately show ?thesis using fin(1,5) valid count(2) by auto
qed

text \<open>A draw and the end of a rendering pass, in a buffer of 100 bytes.\<close>

theorem batch_roundtrip_witness:
  "\<exists>b b' b'' n. batch_begin True (replicate 100 7) 100 (push_bit 56 11 OR 5) 9 = Inr b \<and>
    append_all b [\<lparr>cr_opcode = 5, cr_payload = [3, 0, 0, 0, 1, 0, 0, 0, 0, 0, 0, 0, 0, 0, 0, 0], cr_payload_length = 16\<rparr>,
                  \<lparr>cr_opcode = 6, cr_payload = [], cr_payload_length = 0\<rparr>] = Inr b' \<and>
    batch_finish (Some b') True = Inr (b'', n) \<and>
    batch_validate (Some (take n (cb_bytes b'') @ [1, 2])) n True =
      Inr \<lparr>bi_command_buffer_id = push_bit 56 11 OR 5, bi_sequence = 9, bi_command_count = 2, bi_byte_length = word_of_nat n\<rparr>"
proof -
  let ?id = "push_bit 56 11 OR 5 :: u64" and
    ?rs = "[\<lparr>cr_opcode = 5, cr_payload = [3, 0, 0, 0, 1, 0, 0, 0, 0, 0, 0, 0, 0, 0, 0, 0], cr_payload_length = 16\<rparr>,
            \<lparr>cr_opcode = 6, cr_payload = [], cr_payload_length = 0\<rparr>]"
  obtain b where b: "batch_begin True (replicate 100 7) 100 ?id 9 = Inr b" "cb_length b = 32" "cb_capacity b = 100"
      "cb_command_count b = 0" "\<not> cb_finished b" "cb_bytes b \<noteq> []"
    by (simp add: batch_begin_def handle_expect_def handle_type_def handle_serial_def object_type_is_valid_def
        BVB_HANDLE_SERIAL_MASK_def memset0_def)
  then obtain b' where b': "append_all b ?rs = Inr b'"
    by (simp add: batch_append_record_def append_record_def Let_def payload_length_is_valid_def expected_payload_size_def
        transfer_opcode_is_valid_def validate_payload_def payload_ok_def draw_ok_def get_u32_def memcpy_def word_le_nat_alt)
  have "length (replicate 100 (7 :: u8)) = 100" by simp
  then show ?thesis
    using batch_roundtrip [of "replicate 100 7" ?id 9 b ?rs b' "[1, 2]"] b b' by (auto simp: readable_def)
qed

text \<open>
  C34: validation is parsing. Given the first bytes of some memory, the check accepts them exactly
  when they are a batch: the header with the returned description followed by the encodings of at
  least one record, each valid for its opcode and as long as its opcode and counts say, with nothing
  before, between or after them. What lies in memory behind those bytes plays no part.
\<close>

theorem validate_accepts_exactly_batches:
  "batch_validate (Some (bs @ rest)) (length bs) True = Inr info \<longleftrightarrow>
     (\<exists>rs. batch_info_ok info rs \<and> bs = batch_header info @ records_bytes rs)"
proof
  assume "\<exists>rs. batch_info_ok info rs \<and> bs = batch_header info @ records_bytes rs"
  then show "batch_validate (Some (bs @ rest)) (length bs) True = Inr info"
    using validate_complete by auto
qed (rule validate_sound)

end
