(* ===== verification/Command_Generations.thy ===== *)
theory Command_Generations
  imports Command_Check
begin

section \<open>Sequence numbers of command streams\<close>

text \<open>
  The generation table of src/src/command_batch.c: for each command buffer the last sequence number
  that was executed, so that a batch is neither executed twice nor out of order. A set of updates is
  applied to a shadow copy and takes effect as a whole or not at all; when the table is full, the
  entries of command buffers that no longer live are reclaimed once.

  \<open>is_live\<close> is the callback the caller supplies, or \<open>None\<close> when the pointer is null; \<open>allocated\<close> says
  whether \<^verbatim>\<open>malloc\<close> returned memory for the shadow.
\<close>

record stream_generation =
  sg_command_buffer_id :: u64
  sg_last_sequence :: u64

record generation_update =
  gu_command_buffer_id :: u64
  gu_sequence :: u64

fun check_scan :: "stream_generation list \<Rightarrow> u64 \<Rightarrow> u64 \<Rightarrow> nat \<Rightarrow> nat option \<Rightarrow> nat result" where
  "check_scan [] command_buffer_id sequence index vacant =
     (case vacant of None \<Rightarrow> Inl ENOSPC | Some i \<Rightarrow> Inr i)"
| "check_scan (g # gs) command_buffer_id sequence index vacant =
     (if sg_command_buffer_id g = command_buffer_id
      then if sequence \<le> sg_last_sequence g then Inl ESTALE else Inr index
      else check_scan gs command_buffer_id sequence (index + 1)
             (if vacant = None \<and> sg_command_buffer_id g = 0 then Some index else vacant))"

definition generation_check ::
  "stream_generation list option \<Rightarrow> u64 \<Rightarrow> u64 \<Rightarrow> bool \<Rightarrow> nat result" where
  "generation_check generations command_buffer_id sequence generation_index =
     (case generations of None \<Rightarrow> Inl EINVAL
      | Some generations \<Rightarrow>
          if length generations = 0 \<or> \<not> generation_index \<or> sequence = 0 \<or>
             handle_expect command_buffer_id BVB_OBJECT_COMMAND_BUFFER \<noteq> Inr ()
          then Inl EINVAL
          else check_scan generations command_buffer_id sequence 0 None)"

definition generation_commit ::
  "stream_generation list option \<Rightarrow> nat \<Rightarrow> u64 \<Rightarrow> u64 \<Rightarrow> stream_generation list result" where
  "generation_commit generations generation_index command_buffer_id sequence =
     (case generations of None \<Rightarrow> Inl EINVAL
      | Some generations \<Rightarrow>
          if generation_index \<ge> length generations \<or> sequence = 0 \<or>
             handle_expect command_buffer_id BVB_OBJECT_COMMAND_BUFFER \<noteq> Inr () \<or>
             (sg_command_buffer_id (generations ! generation_index) \<noteq> 0 \<and>
              sg_command_buffer_id (generations ! generation_index) \<noteq> command_buffer_id) \<or>
             sequence \<le> sg_last_sequence (generations ! generation_index)
          then Inl EINVAL
          else Inr (generations[generation_index :=
            \<lparr>sg_command_buffer_id = command_buffer_id, sg_last_sequence = sequence\<rparr>]))"

definition dead_entry :: "(u64 \<Rightarrow> bool) \<Rightarrow> stream_generation \<Rightarrow> bool" where
  "dead_entry is_live g \<longleftrightarrow> sg_command_buffer_id g \<noteq> 0 \<and> \<not> is_live (sg_command_buffer_id g)"

definition reclaim :: "(u64 \<Rightarrow> bool) \<Rightarrow> stream_generation list \<Rightarrow> stream_generation list" where
  "reclaim is_live shadow =
     map (\<lambda>g. if dead_entry is_live g then \<lparr>sg_command_buffer_id = 0, sg_last_sequence = 0\<rparr> else g) shadow"

fun apply_loop ::
  "(u64 \<Rightarrow> bool) option \<Rightarrow> stream_generation list \<Rightarrow> generation_update list \<Rightarrow> bool \<Rightarrow> nat \<Rightarrow>
   (stream_generation list \<times> nat) result" where
  "apply_loop is_live shadow [] attempted reclaimed = Inr (shadow, reclaimed)"
| "apply_loop is_live shadow (u # us) attempted reclaimed =
     (let check = (\<lambda>shadow. generation_check (Some shadow) (gu_command_buffer_id u) (gu_sequence u) True);
          retry = check shadow = Inl ENOSPC \<and> is_live \<noteq> None \<and> \<not> attempted;
          shadow' = (if retry then reclaim (the is_live) shadow else shadow);
          reclaimed' = (if retry then reclaimed + length (filter (dead_entry (the is_live)) shadow) else reclaimed) in
      case check shadow' of
        Inl e \<Rightarrow> Inl e
      | Inr generation_index \<Rightarrow>
          (case generation_commit (Some shadow') generation_index (gu_command_buffer_id u) (gu_sequence u) of
             Inl e \<Rightarrow> Inl e
           | Inr shadow'' \<Rightarrow> apply_loop is_live shadow'' us (attempted \<or> retry) reclaimed'))"

text \<open>The status, the table afterwards, and what \<^verbatim>\<open>*reclaimed_count\<close> holds.\<close>

definition generations_apply ::
  "bool \<Rightarrow> stream_generation list option \<Rightarrow> generation_update list option \<Rightarrow> nat \<Rightarrow> (u64 \<Rightarrow> bool) option \<Rightarrow>
   unit result \<times> stream_generation list option \<times> nat" where
  "generations_apply allocated generations updates update_count is_live =
     (case generations of None \<Rightarrow> (Inl EINVAL, None, 0)
      | Some gens \<Rightarrow>
          if length gens = 0 \<or> (update_count \<noteq> 0 \<and> updates = None) \<or> length gens > 0xffffffffffffffff div 16
          then (Inl EINVAL, generations, 0)
          else if update_count = 0 then (Inr (), generations, 0)
          else if \<not> allocated then (Inl ENOMEM, generations, 0)
          else case apply_loop is_live gens (take update_count (the updates)) False 0 of
            Inl e \<Rightarrow> (Inl e, generations, 0)
          | Inr (shadow, reclaimed) \<Rightarrow> (Inr (), Some shadow, reclaimed))"

subsection \<open>The last sequence number of a command buffer\<close>

text \<open>No command buffer has two entries, and an unused entry is zero.\<close>

definition generations_ok :: "stream_generation list \<Rightarrow> bool" where
  "generations_ok gens \<longleftrightarrow>
     (\<forall>i < length gens. \<forall>j < i. sg_command_buffer_id (gens ! i) \<noteq> 0 \<longrightarrow>
        sg_command_buffer_id (gens ! i) \<noteq> sg_command_buffer_id (gens ! j)) \<and>
     (\<forall>g \<in> set gens. sg_command_buffer_id g = 0 \<longrightarrow> sg_last_sequence g = 0)"

definition last_sequence :: "stream_generation list \<Rightarrow> u64 \<Rightarrow> u64" where
  "last_sequence gens cb = (case find (\<lambda>g. sg_command_buffer_id g = cb) gens of None \<Rightarrow> 0 | Some g \<Rightarrow> sg_last_sequence g)"

lemma check_scan_cases:
  assumes "check_scan gs cb sequence k vacant = Inr i"
  shows "(\<exists>j < length gs. i = k + j \<and> sg_command_buffer_id (gs ! j) = cb \<and> sg_last_sequence (gs ! j) < sequence \<and>
            last_sequence gs cb = sg_last_sequence (gs ! j)) \<or>
    ((\<forall>g \<in> set gs. sg_command_buffer_id g \<noteq> cb) \<and>
     (vacant = Some i \<or> (\<exists>j < length gs. i = k + j \<and> sg_command_buffer_id (gs ! j) = 0)))"
  using assms
proof (induction gs cb sequence k vacant rule: check_scan.induct)
  case (2 g gs cb sequence k vacant)
  show ?case
  proof (cases "sg_command_buffer_id g = cb")
    case True
    then have "sg_last_sequence g < sequence \<and> i = k" using 2(2) by (auto split: if_splits)
    then show ?thesis using True by (intro disjI1 exI [of _ 0]) (simp add: last_sequence_def)
  next
    case False
    have "(\<exists>j < length gs. i = k + 1 + j \<and> sg_command_buffer_id (gs ! j) = cb \<and> sg_last_sequence (gs ! j) < sequence \<and>
            last_sequence gs cb = sg_last_sequence (gs ! j)) \<or>
      ((\<forall>g \<in> set gs. sg_command_buffer_id g \<noteq> cb) \<and>
       ((if vacant = None \<and> sg_command_buffer_id g = 0 then Some k else vacant) = Some i \<or>
        (\<exists>j < length gs. i = k + 1 + j \<and> sg_command_buffer_id (gs ! j) = 0)))"
      using 2(1) [OF False] 2(2) False by simp
    then consider (found) j where "j < length gs" "i = k + 1 + j" "sg_command_buffer_id (gs ! j) = cb"
        "sg_last_sequence (gs ! j) < sequence" "last_sequence gs cb = sg_last_sequence (gs ! j)"
      | (this) "\<forall>g \<in> set gs. sg_command_buffer_id g \<noteq> cb" "vacant = None" "sg_command_buffer_id g = 0" "i = k"
      | (earlier) "\<forall>g \<in> set gs. sg_command_buffer_id g \<noteq> cb" "vacant = Some i"
      | (later) j where "\<forall>g \<in> set gs. sg_command_buffer_id g \<noteq> cb" "j < length gs" "i = k + 1 + j"
          "sg_command_buffer_id (gs ! j) = 0"
      by (auto split: if_splits)
    then show ?thesis
    proof cases
      case found
      then show ?thesis using False by (intro disjI1 exI [of _ "Suc j"]) (simp add: last_sequence_def)
    next
      case this
      then show ?thesis using False by (intro disjI2 conjI disjI2 exI [of _ 0]) auto
    next
      case later
      then show ?thesis using False by (intro disjI2 conjI disjI2 exI [of _ "Suc j"]) auto
    qed (use False in auto)
  qed
qed (auto split: option.splits)

lemma generations_unique:
  assumes "generations_ok gens" "i < length gens" "j < length gens" "sg_command_buffer_id (gens ! i) = c"
    "sg_command_buffer_id (gens ! j) = c" "c \<noteq> 0"
  shows "i = j"
  using assms by (metis generations_ok_def linorder_neqE_nat)

lemma last_sequence_at:
  assumes "generations_ok gens" "j < length gens" "sg_command_buffer_id (gens ! j) = c" "c \<noteq> 0"
  shows "last_sequence gens c = sg_last_sequence (gens ! j)"
proof (cases "find (\<lambda>g. sg_command_buffer_id g = c) gens")
  case None
  then show ?thesis using assms by (auto simp: find_None_iff)
next
  case (Some g)
  then obtain i where "i < length gens" "sg_command_buffer_id (gens ! i) = c" "g = gens ! i"
    by (auto simp: find_Some_iff)
  then show ?thesis using generations_unique [OF assms(1) _ assms(2) _ assms(3,4)] Some by (auto simp: last_sequence_def)
qed

lemma last_sequence_absent: "\<forall>g \<in> set gens. sg_command_buffer_id g \<noteq> c \<Longrightarrow> last_sequence gens c = 0"
  using find_None_iff [of "\<lambda>g. sg_command_buffer_id g = c" gens] by (simp add: last_sequence_def)

lemma last_sequence_cases:
  "(\<exists>j < length gens. sg_command_buffer_id (gens ! j) = c) \<or> (\<forall>g \<in> set gens. sg_command_buffer_id g \<noteq> c)"
  by (auto simp: in_set_conv_nth)

lemma last_sequence_update:
  assumes ok: "generations_ok gens" and i: "i < length gens" and c: "c \<noteq> 0"
    and slot: "sg_command_buffer_id (gens ! i) = c \<or>
      (sg_command_buffer_id (gens ! i) = 0 \<and> (\<forall>g \<in> set gens. sg_command_buffer_id g \<noteq> c))"
    and gens'_def: "gens' = gens[i := \<lparr>sg_command_buffer_id = c, sg_last_sequence = s\<rparr>]"
  shows "generations_ok gens' \<and> last_sequence gens' c = s \<and> (\<forall>d. d \<noteq> 0 \<longrightarrow> d \<noteq> c \<longrightarrow> last_sequence gens' d = last_sequence gens d)"
proof (intro conjI allI impI)
  have other: "sg_command_buffer_id (gens ! j) \<noteq> c" if "j < length gens" "j \<noteq> i" for j
    using slot that generations_unique [OF ok i that(1), of c] c by auto
  show ok': "generations_ok gens'"
    unfolding generations_ok_def
  proof (intro conjI allI impI ballI)
    fix k j assume kj: "k < length gens'" "j < k" "sg_command_buffer_id (gens' ! k) \<noteq> 0"
    then consider "k = i" | "j = i" | "k \<noteq> i" "j \<noteq> i" by blast
    then show "sg_command_buffer_id (gens' ! k) \<noteq> sg_command_buffer_id (gens' ! j)"
      by cases (use kj ok other [of k] other [of j] i in \<open>auto simp: gens'_def generations_ok_def\<close>)
  next
    fix g assume g: "g \<in> set gens'" "sg_command_buffer_id g = 0"
    then have "g = \<lparr>sg_command_buffer_id = c, sg_last_sequence = s\<rparr> \<or> g \<in> set gens"
      using set_update_subset_insert [of gens i] unfolding gens'_def by blast
    then show "sg_last_sequence g = 0" using ok c g(2) by (auto simp: generations_ok_def)
  qed
  show "last_sequence gens' c = s"
    using last_sequence_at [OF ok', of i c] i c by (simp add: gens'_def)
  fix d :: u64 assume d: "d \<noteq> 0" "d \<noteq> c"
  from last_sequence_cases [of gens d] show "last_sequence gens' d = last_sequence gens d"
  proof
    assume "\<exists>j < length gens. sg_command_buffer_id (gens ! j) = d"
    then obtain j where j: "j < length gens" "sg_command_buffer_id (gens ! j) = d" by blast
    then have "j \<noteq> i" using slot d by auto
    then show ?thesis
      using last_sequence_at [OF ok j(1,2) d(1)] last_sequence_at [OF ok', of j d] j d by (simp add: gens'_def)
  next
    assume a: "\<forall>g \<in> set gens. sg_command_buffer_id g \<noteq> d"
    then have "\<forall>g \<in> set gens'. sg_command_buffer_id g \<noteq> d"
      using d set_update_subset_insert [of gens i] by (fastforce simp: gens'_def)
    then show ?thesis using a by (simp add: last_sequence_absent)
  qed
qed

lemma check_commit:
  assumes ok: "generations_ok gens" and check: "generation_check (Some gens) cb sequence True = Inr i"
    and commit: "generation_commit (Some gens) i cb sequence = Inr gens'"
  shows "generations_ok gens' \<and> last_sequence gens cb < sequence \<and> last_sequence gens' cb = sequence \<and>
    (\<forall>d. d \<noteq> 0 \<longrightarrow> d \<noteq> cb \<longrightarrow> last_sequence gens' d = last_sequence gens d)"
proof -
  have seq: "sequence \<noteq> 0" and expect: "handle_expect cb BVB_OBJECT_COMMAND_BUFFER = Inr ()"
    and scan: "check_scan gens cb sequence 0 None = Inr i"
    using check by (auto simp: generation_check_def split: if_splits)
  have cb: "cb \<noteq> 0" using expect by (auto simp: handle_expect_def handle_serial_def split: if_splits)
  have i: "i < length gens" and gens': "gens' = gens[i := \<lparr>sg_command_buffer_id = cb, sg_last_sequence = sequence\<rparr>]"
    using commit by (auto simp: generation_commit_def split: if_splits)
  from check_scan_cases [OF scan] consider
      (found) "sg_command_buffer_id (gens ! i) = cb" "last_sequence gens cb < sequence"
    | (vacant) "\<forall>g \<in> set gens. sg_command_buffer_id g \<noteq> cb" "sg_command_buffer_id (gens ! i) = 0" by auto
  then show ?thesis
  proof cases
    case found
    then show ?thesis using last_sequence_update [OF ok i cb _ gens'] by simp
  next
    case vacant
    then show ?thesis
      using last_sequence_update [OF ok i cb _ gens'] last_sequence_absent [OF vacant(1)] seq
      by (simp add: word_neq_0_conv)
  qed
qed

lemma reclaim_ok:
  assumes ok: "generations_ok gens"
  shows "generations_ok (reclaim is_live gens) \<and>
    (\<forall>d. d \<noteq> 0 \<longrightarrow> is_live d \<longrightarrow> last_sequence (reclaim is_live gens) d = last_sequence gens d)"
proof (intro conjI allI impI)
  have entry: "reclaim is_live gens ! j = (if dead_entry is_live (gens ! j)
      then \<lparr>sg_command_buffer_id = 0, sg_last_sequence = 0\<rparr> else gens ! j)" if "j < length gens" for j
    using that by (simp add: reclaim_def)
  show ok': "generations_ok (reclaim is_live gens)"
    unfolding generations_ok_def
  proof (intro conjI allI impI ballI)
    fix i j assume "i < length (reclaim is_live gens)" "j < i" "sg_command_buffer_id (reclaim is_live gens ! i) \<noteq> 0"
    moreover from this have "i < length gens" by (simp add: reclaim_def)
    ultimately show "sg_command_buffer_id (reclaim is_live gens ! i) \<noteq> sg_command_buffer_id (reclaim is_live gens ! j)"
      using ok by (auto simp: entry generations_ok_def split: if_splits)
  qed (use ok in \<open>auto simp: reclaim_def generations_ok_def split: if_splits\<close>)
  fix d :: u64 assume d: "d \<noteq> 0" "is_live d"
  from last_sequence_cases [of gens d] show "last_sequence (reclaim is_live gens) d = last_sequence gens d"
  proof
    assume "\<exists>j < length gens. sg_command_buffer_id (gens ! j) = d"
    then obtain j where j: "j < length gens" "sg_command_buffer_id (gens ! j) = d" by blast
    then have "reclaim is_live gens ! j = gens ! j" using d by (simp add: entry dead_entry_def)
    then show ?thesis
      using last_sequence_at [OF ok j d(1)] last_sequence_at [OF ok', of j d] j d by (simp add: reclaim_def)
  next
    assume a: "\<forall>g \<in> set gens. sg_command_buffer_id g \<noteq> d"
    then have "\<forall>g \<in> set (reclaim is_live gens). sg_command_buffer_id g \<noteq> d" using d by (auto simp: reclaim_def)
    then show ?thesis using a by (simp add: last_sequence_absent)
  qed
qed

subsection \<open>Sequences that were accepted\<close>

text \<open>The sequence numbers of the updates for one command buffer.\<close>

abbreviation sequences_of :: "u64 \<Rightarrow> generation_update list \<Rightarrow> u64 list" where
  "sequences_of cb us \<equiv> map gu_sequence (filter (\<lambda>u. gu_command_buffer_id u = cb) us)"

definition lives :: "(u64 \<Rightarrow> bool) option \<Rightarrow> u64 \<Rightarrow> bool" where
  "lives is_live cb \<longleftrightarrow> (case is_live of None \<Rightarrow> True | Some f \<Rightarrow> f cb)"

lemma apply_loop_sequences:
  "apply_loop is_live shadow us attempted reclaimed = Inr (shadow', reclaimed') \<Longrightarrow> generations_ok shadow \<Longrightarrow>
     cb \<noteq> 0 \<Longrightarrow> lives is_live cb \<Longrightarrow>
     generations_ok shadow' \<and> sorted_wrt (<) (last_sequence shadow cb # sequences_of cb us) \<and>
     last_sequence shadow' cb = last (last_sequence shadow cb # sequences_of cb us)"
proof (induction us arbitrary: shadow attempted reclaimed)
  case (Cons u us)
  let ?retry = "generation_check (Some shadow) (gu_command_buffer_id u) (gu_sequence u) True = Inl ENOSPC \<and>
      is_live \<noteq> None \<and> \<not> attempted"
  define s1 where "s1 = (if ?retry then reclaim (the is_live) shadow else shadow)"
  have s1: "generations_ok s1" "last_sequence s1 cb = last_sequence shadow cb"
    using Cons.prems(2-4) reclaim_ok [OF Cons.prems(2), of "the is_live"] by (auto simp: s1_def lives_def)
  obtain i s2 where check: "generation_check (Some s1) (gu_command_buffer_id u) (gu_sequence u) True = Inr i"
    and commit: "generation_commit (Some s1) i (gu_command_buffer_id u) (gu_sequence u) = Inr s2"
    and rest: "\<exists>a r. apply_loop is_live s2 us a r = Inr (shadow', reclaimed')"
    using Cons.prems(1)
    unfolding apply_loop.simps Let_def s1_def [symmetric] by (auto split: sum.splits)
  note step = check_commit [OF s1(1) check commit]
  have IH: "generations_ok shadow' \<and> sorted_wrt (<) (last_sequence s2 cb # sequences_of cb us) \<and>
      last_sequence shadow' cb = last (last_sequence s2 cb # sequences_of cb us)"
    using rest Cons.IH [of s2] Cons.prems(3,4) step by blast
  show ?case
  proof (cases "gu_command_buffer_id u = cb")
    case True
    then have "last_sequence s2 cb = gu_sequence u" "last_sequence shadow cb < gu_sequence u" using step s1(2) by auto
    then show ?thesis using IH True by (auto dest: order.strict_trans)
  next
    case False
    then have "last_sequence s2 cb = last_sequence shadow cb" using step s1(2) Cons.prems(3) by auto
    then show ?thesis using IH False by simp
  qed
qed simp

subsection \<open>Replay protection\<close>

text \<open>
  A history of calls: whether the allocation succeeds, the liveness callback, and the updates; the
  first result is what was accepted, the updates of the calls that succeeded.
\<close>

fun run_updates ::
  "stream_generation list \<Rightarrow> (bool \<times> (u64 \<Rightarrow> bool) option \<times> generation_update list) list \<Rightarrow>
   generation_update list \<times> stream_generation list" where
  "run_updates gens [] = ([], gens)"
| "run_updates gens ((allocated, is_live, us) # calls) =
     (case generations_apply allocated (Some gens) (Some us) (length us) is_live of
        (Inr _, Some gens', _) \<Rightarrow> map_prod (\<lambda>accepted. us @ accepted) id (run_updates gens' calls)
      | (_, gens', _) \<Rightarrow> run_updates (the gens') calls)"

lemma generations_apply_cases:
  assumes "generations_apply allocated (Some gens) (Some us) (length us) is_live = (r, gens', k)"
  shows "(\<exists>e. r = Inl e \<and> gens' = Some gens) \<or>
    (\<exists>shadow reclaimed. r = Inr () \<and> gens' = Some shadow \<and> apply_loop is_live gens us False 0 = Inr (shadow, reclaimed))"
  using assms by (auto simp: generations_apply_def split: if_splits sum.splits prod.splits)

lemma sorted_last: "sorted_wrt (<) xs \<Longrightarrow> x \<in> set xs \<Longrightarrow> x \<le> last xs" for x :: "'a::linorder"
  by (induction xs rule: rev_induct) (auto simp: sorted_wrt_append intro: less_imp_le)

lemma run_updates_increase:
  assumes "generations_ok gens" "cb \<noteq> 0" "\<forall>(a, is_live, us) \<in> set calls. lives is_live cb"
  shows "sorted_wrt (<) (last_sequence gens cb # sequences_of cb (fst (run_updates gens calls))) \<and>
    last_sequence (snd (run_updates gens calls)) cb = last (last_sequence gens cb # sequences_of cb (fst (run_updates gens calls)))"
  using assms
proof (induction calls arbitrary: gens)
  case (Cons call calls)
  obtain a is_live us where call: "call = (a, is_live, us)" by (rule prod_cases3)
  obtain r gens' k where r: "generations_apply a (Some gens) (Some us) (length us) is_live = (r, gens', k)" by (rule prod_cases3)
  from generations_apply_cases [OF r] show ?case
  proof
    assume "\<exists>e. r = Inl e \<and> gens' = Some gens"
    then show ?thesis using Cons call r by auto
  next
    assume "\<exists>shadow reclaimed. r = Inr () \<and> gens' = Some shadow \<and> apply_loop is_live gens us False 0 = Inr (shadow, reclaimed)"
    then obtain shadow reclaimed where s: "r = Inr ()" "gens' = Some shadow"
        "apply_loop is_live gens us False 0 = Inr (shadow, reclaimed)" by blast
    have "lives is_live cb" using Cons.prems(3) call by simp
    note step = apply_loop_sequences [OF s(3) Cons.prems(1,2) this]
    let ?xs = "sequences_of cb us" and ?ys = "sequences_of cb (fst (run_updates shadow calls))"
    have IH: "sorted_wrt (<) (last_sequence shadow cb # ?ys)"
        "last_sequence (snd (run_updates shadow calls)) cb = last (last_sequence shadow cb # ?ys)"
      using Cons.IH [of shadow] Cons.prems(2,3) step by auto
    have "sorted_wrt (<) ((last_sequence gens cb # ?xs) @ ?ys)"
      unfolding sorted_wrt_append
    proof (intro conjI ballI)
      fix x y assume xy: "x \<in> set (last_sequence gens cb # ?xs)" "y \<in> set ?ys"
      have "x \<le> last (last_sequence gens cb # ?xs)"
        using sorted_last step xy(1) by blast
      then show "x < y" using step IH(1) xy(2) by auto
    qed (use step IH(1) in auto)
    then show ?thesis using IH(2) step s(1,2) r call by (auto simp: last_append)
  qed
qed simp

text \<open>
  C35: no batch is executed twice or out of order. Over any history of update calls, failed ones
  included, the sequence numbers accepted for a command buffer that stays alive are strictly
  increasing and all above the one recorded at the start, whatever happens to other command buffers
  and however often entries are reclaimed; and the table records the last of them.
\<close>

theorem accepted_sequences_increase:
  assumes "generations_ok gens" "cb \<noteq> 0" "\<forall>(allocated, is_live, us) \<in> set calls. lives is_live cb"
  shows "sorted_wrt (<) (last_sequence gens cb # sequences_of cb (fst (run_updates gens calls))) \<and>
    last_sequence (snd (run_updates gens calls)) cb = last (last_sequence gens cb # sequences_of cb (fst (run_updates gens calls)))"
  using run_updates_increase [OF assms] .

text \<open>A table of one entry: the second call replays a sequence number and is refused.\<close>

theorem accepted_sequences_increase_witness:
  "sequences_of (push_bit 56 11 OR 1) (fst (run_updates [\<lparr>sg_command_buffer_id = 0, sg_last_sequence = 0\<rparr>]
      [(True, None, [\<lparr>gu_command_buffer_id = push_bit 56 11 OR 1, gu_sequence = 4\<rparr>]),
       (True, None, [\<lparr>gu_command_buffer_id = push_bit 56 11 OR 1, gu_sequence = 4\<rparr>]),
       (True, None, [\<lparr>gu_command_buffer_id = push_bit 56 11 OR 1, gu_sequence = 6\<rparr>])])) = [4, 6] \<and>
   sorted_wrt (<) [0 :: u64, 4, 6]"
proof -
  let ?gens = "[\<lparr>sg_command_buffer_id = 0, sg_last_sequence = 0\<rparr>]" and ?cb = "push_bit 56 11 OR 1 :: u64"
  let ?calls = "[(True, None, [\<lparr>gu_command_buffer_id = ?cb, gu_sequence = 4\<rparr>]),
       (True, None, [\<lparr>gu_command_buffer_id = ?cb, gu_sequence = 4\<rparr>]),
       (True, None, [\<lparr>gu_command_buffer_id = ?cb, gu_sequence = 6\<rparr>])]"
  have ok: "generations_ok ?gens" and lives: "\<forall>(allocated, is_live, us) \<in> set ?calls. lives is_live ?cb" and cb: "?cb \<noteq> 0"
    and last: "last_sequence ?gens ?cb = 0"
    by (simp_all add: generations_ok_def lives_def last_sequence_def)
  have run: "sequences_of ?cb (fst (run_updates ?gens ?calls)) = [4, 6]"
    by (simp add: generations_apply_def generation_check_def generation_commit_def handle_expect_def handle_type_def
        handle_serial_def object_type_is_valid_def BVB_HANDLE_SERIAL_MASK_def Let_def)
  show ?thesis using accepted_sequences_increase [OF ok cb lives] unfolding run last by blast
qed

end
