(* ===== verification/Command_Fields.thy ===== *)
theory Command_Fields
  imports Command_Check
begin

unbundle bit_operations_syntax

section \<open>The structures inside command payloads\<close>

text \<open>
  The writers and readers of src/src/command_batch.c for the structures that payloads are made of, and
  the loops over arrays of them. Each is an instance of the field interface, so that what holds for
  an array of any field holds for these.
\<close>

subsection \<open>Rendering attachments and image ranges\<close>

definition encode_rendering_attachment :: "bytes \<Rightarrow> nat \<Rightarrow> rendering_attachment \<Rightarrow> bytes" where
  "encode_rendering_attachment output at attachment =
     (let output = put_u64 output at (ra_image_view_id attachment) in
      let output = put_u64 output (at + 8) (ra_resolve_image_view_id attachment) in
      let output = put_u32 output (at + 16) (ra_image_layout attachment) in
      let output = put_u32 output (at + 20) (ra_resolve_mode attachment) in
      let output = put_u32 output (at + 24) (ra_resolve_image_layout attachment) in
      let output = put_u32 output (at + 28) (ra_load_op attachment) in
      let output = put_u32 output (at + 32) (ra_store_op attachment) in
      let output = put_u32 output (at + 36) (ra_feedback_loop_enable attachment) in
      put_each put_u32 4 output (at + 40) (ra_clear_words attachment))"

record image_subresource_range =
  isr_aspect_mask :: u32
  isr_base_mip_level :: u32
  isr_level_count :: u32
  isr_base_array_layer :: u32
  isr_layer_count :: u32

definition image_range_is_valid :: "image_subresource_range \<Rightarrow> bool" where
  "image_range_is_valid rng \<longleftrightarrow>
     isr_aspect_mask rng \<noteq> 0 \<and> isr_level_count rng \<noteq> 0 \<and> isr_layer_count rng \<noteq> 0"

definition encode_image_range :: "bytes \<Rightarrow> nat \<Rightarrow> image_subresource_range \<Rightarrow> bytes" where
  "encode_image_range output at rng =
     (let output = put_u32 output at (isr_aspect_mask rng) in
      let output = put_u32 output (at + 4) (isr_base_mip_level rng) in
      let output = put_u32 output (at + 8) (isr_level_count rng) in
      let output = put_u32 output (at + 12) (isr_base_array_layer rng) in
      let output = put_u32 output (at + 16) (isr_layer_count rng) in
      put_u32 output (at + 20) 0)"

definition decode_image_range :: "bytes \<Rightarrow> nat \<Rightarrow> image_subresource_range" where
  "decode_image_range input at =
     \<lparr>isr_aspect_mask = get_u32 input at, isr_base_mip_level = get_u32 input (at + 4),
      isr_level_count = get_u32 input (at + 8), isr_base_array_layer = get_u32 input (at + 12),
      isr_layer_count = get_u32 input (at + 16)\<rparr>"

subsection \<open>Barriers\<close>

record memory_barrier_2 =
  mb2_source_stage_mask :: u64
  mb2_source_access_mask :: u64
  mb2_destination_stage_mask :: u64
  mb2_destination_access_mask :: u64

definition put_memory_barrier :: "bytes \<Rightarrow> nat \<Rightarrow> memory_barrier_2 \<Rightarrow> bytes" where
  "put_memory_barrier output at barrier =
     (let output = put_u64 output at (mb2_source_stage_mask barrier) in
      let output = put_u64 output (at + 8) (mb2_source_access_mask barrier) in
      let output = put_u64 output (at + 16) (mb2_destination_stage_mask barrier) in
      put_u64 output (at + 24) (mb2_destination_access_mask barrier))"

definition get_memory_barrier :: "bytes \<Rightarrow> nat \<Rightarrow> memory_barrier_2" where
  "get_memory_barrier input at =
     \<lparr>mb2_source_stage_mask = get_u64 input at, mb2_source_access_mask = get_u64 input (at + 8),
      mb2_destination_stage_mask = get_u64 input (at + 16), mb2_destination_access_mask = get_u64 input (at + 24)\<rparr>"

record buffer_barrier_2 =
  bb2_source_stage_mask :: u64
  bb2_source_access_mask :: u64
  bb2_destination_stage_mask :: u64
  bb2_destination_access_mask :: u64
  bb2_source_queue_family_index :: u32
  bb2_destination_queue_family_index :: u32
  bb2_buffer_id :: u64
  bb2_offset :: u64
  bb2_size :: u64

definition put_buffer_barrier :: "bytes \<Rightarrow> nat \<Rightarrow> buffer_barrier_2 \<Rightarrow> bytes" where
  "put_buffer_barrier output at barrier =
     (let output = put_u64 output at (bb2_source_stage_mask barrier) in
      let output = put_u64 output (at + 8) (bb2_source_access_mask barrier) in
      let output = put_u64 output (at + 16) (bb2_destination_stage_mask barrier) in
      let output = put_u64 output (at + 24) (bb2_destination_access_mask barrier) in
      let output = put_u32 output (at + 32) (bb2_source_queue_family_index barrier) in
      let output = put_u32 output (at + 36) (bb2_destination_queue_family_index barrier) in
      let output = put_u64 output (at + 40) (bb2_buffer_id barrier) in
      let output = put_u64 output (at + 48) (bb2_offset barrier) in
      put_u64 output (at + 56) (bb2_size barrier))"

definition get_buffer_barrier :: "bytes \<Rightarrow> nat \<Rightarrow> buffer_barrier_2" where
  "get_buffer_barrier input at =
     \<lparr>bb2_source_stage_mask = get_u64 input at, bb2_source_access_mask = get_u64 input (at + 8),
      bb2_destination_stage_mask = get_u64 input (at + 16), bb2_destination_access_mask = get_u64 input (at + 24),
      bb2_source_queue_family_index = get_u32 input (at + 32),
      bb2_destination_queue_family_index = get_u32 input (at + 36),
      bb2_buffer_id = get_u64 input (at + 40), bb2_offset = get_u64 input (at + 48),
      bb2_size = get_u64 input (at + 56)\<rparr>"

record image_barrier_2 =
  ib2_source_stage_mask :: u64
  ib2_source_access_mask :: u64
  ib2_destination_stage_mask :: u64
  ib2_destination_access_mask :: u64
  ib2_old_layout :: u32
  ib2_new_layout :: u32
  ib2_source_queue_family_index :: u32
  ib2_destination_queue_family_index :: u32
  ib2_image_id :: u64
  ib2_range :: image_subresource_range

definition put_image_barrier :: "bytes \<Rightarrow> nat \<Rightarrow> image_barrier_2 \<Rightarrow> bytes" where
  "put_image_barrier output at barrier =
     (let output = put_u64 output at (ib2_source_stage_mask barrier) in
      let output = put_u64 output (at + 8) (ib2_source_access_mask barrier) in
      let output = put_u64 output (at + 16) (ib2_destination_stage_mask barrier) in
      let output = put_u64 output (at + 24) (ib2_destination_access_mask barrier) in
      let output = put_u32 output (at + 32) (ib2_old_layout barrier) in
      let output = put_u32 output (at + 36) (ib2_new_layout barrier) in
      let output = put_u32 output (at + 40) (ib2_source_queue_family_index barrier) in
      let output = put_u32 output (at + 44) (ib2_destination_queue_family_index barrier) in
      let output = put_u64 output (at + 48) (ib2_image_id barrier) in
      encode_image_range output (at + 56) (ib2_range barrier))"

definition get_image_barrier :: "bytes \<Rightarrow> nat \<Rightarrow> image_barrier_2" where
  "get_image_barrier input at =
     \<lparr>ib2_source_stage_mask = get_u64 input at, ib2_source_access_mask = get_u64 input (at + 8),
      ib2_destination_stage_mask = get_u64 input (at + 16), ib2_destination_access_mask = get_u64 input (at + 24),
      ib2_old_layout = get_u32 input (at + 32), ib2_new_layout = get_u32 input (at + 36),
      ib2_source_queue_family_index = get_u32 input (at + 40),
      ib2_destination_queue_family_index = get_u32 input (at + 44),
      ib2_image_id = get_u64 input (at + 48), ib2_range = decode_image_range input (at + 56)\<rparr>"

subsection \<open>Transfer regions\<close>

record image_subresource_layers =
  isl_aspect_mask :: u32
  isl_mip_level :: u32
  isl_base_array_layer :: u32
  isl_layer_count :: u32

definition transfer_layers_are_valid :: "image_subresource_layers \<Rightarrow> bool" where
  "transfer_layers_are_valid layers \<longleftrightarrow> isl_aspect_mask layers \<noteq> 0 \<and> isl_layer_count layers \<noteq> 0"

definition encode_transfer_layers :: "bytes \<Rightarrow> nat \<Rightarrow> image_subresource_layers \<Rightarrow> bytes" where
  "encode_transfer_layers output at layers =
     (let output = put_u32 output at (isl_aspect_mask layers) in
      let output = put_u32 output (at + 4) (isl_mip_level layers) in
      let output = put_u32 output (at + 8) (isl_base_array_layer layers) in
      put_u32 output (at + 12) (isl_layer_count layers))"

definition decode_transfer_layers :: "bytes \<Rightarrow> nat \<Rightarrow> image_subresource_layers" where
  "decode_transfer_layers input at =
     \<lparr>isl_aspect_mask = get_u32 input at, isl_mip_level = get_u32 input (at + 4),
      isl_base_array_layer = get_u32 input (at + 8), isl_layer_count = get_u32 input (at + 12)\<rparr>"

record offset_3d =
  off_x :: i32
  off_y :: i32
  off_z :: i32

record extent_3d =
  ext_width :: u32
  ext_height :: u32
  ext_depth :: u32

text \<open>The two corners of a blit, in place of the arrays of two offsets.\<close>

record transfer_region =
  tr_source_buffer_offset :: u64
  tr_destination_buffer_offset :: u64
  tr_size :: u64
  tr_buffer_row_length :: u32
  tr_buffer_image_height :: u32
  tr_source_layers :: image_subresource_layers
  tr_destination_layers :: image_subresource_layers
  tr_source_offset_0 :: offset_3d
  tr_source_offset_1 :: offset_3d
  tr_destination_offset_0 :: offset_3d
  tr_destination_offset_1 :: offset_3d
  tr_extent :: extent_3d

definition put_offset :: "bytes \<Rightarrow> nat \<Rightarrow> offset_3d \<Rightarrow> bytes" where
  "put_offset output at p = put_u32 (put_u32 (put_u32 output at (off_x p)) (at + 4) (off_y p)) (at + 8) (off_z p)"

definition get_offset :: "bytes \<Rightarrow> nat \<Rightarrow> offset_3d" where
  "get_offset input at = \<lparr>off_x = get_u32 input at, off_y = get_u32 input (at + 4), off_z = get_u32 input (at + 8)\<rparr>"

definition put_transfer_region :: "bytes \<Rightarrow> nat \<Rightarrow> transfer_region \<Rightarrow> bytes" where
  "put_transfer_region wire at region =
     (let wire = put_u64 wire at (tr_source_buffer_offset region) in
      let wire = put_u64 wire (at + 8) (tr_destination_buffer_offset region) in
      let wire = put_u64 wire (at + 16) (tr_size region) in
      let wire = put_u32 wire (at + 24) (tr_buffer_row_length region) in
      let wire = put_u32 wire (at + 28) (tr_buffer_image_height region) in
      let wire = encode_transfer_layers wire (at + 32) (tr_source_layers region) in
      let wire = encode_transfer_layers wire (at + 48) (tr_destination_layers region) in
      let wire = put_offset wire (at + 64) (tr_source_offset_0 region) in
      let wire = put_offset wire (at + 88) (tr_destination_offset_0 region) in
      let wire = put_offset wire (at + 76) (tr_source_offset_1 region) in
      let wire = put_offset wire (at + 100) (tr_destination_offset_1 region) in
      let wire = put_u32 wire (at + 112) (ext_width (tr_extent region)) in
      let wire = put_u32 wire (at + 116) (ext_height (tr_extent region)) in
      put_u32 wire (at + 120) (ext_depth (tr_extent region)))"

definition get_transfer_region :: "bytes \<Rightarrow> nat \<Rightarrow> transfer_region" where
  "get_transfer_region wire at =
     \<lparr>tr_source_buffer_offset = get_u64 wire at, tr_destination_buffer_offset = get_u64 wire (at + 8),
      tr_size = get_u64 wire (at + 16), tr_buffer_row_length = get_u32 wire (at + 24),
      tr_buffer_image_height = get_u32 wire (at + 28),
      tr_source_layers = decode_transfer_layers wire (at + 32),
      tr_destination_layers = decode_transfer_layers wire (at + 48),
      tr_source_offset_0 = get_offset wire (at + 64), tr_source_offset_1 = get_offset wire (at + 76),
      tr_destination_offset_0 = get_offset wire (at + 88), tr_destination_offset_1 = get_offset wire (at + 100),
      tr_extent = \<lparr>ext_width = get_u32 wire (at + 112), ext_height = get_u32 wire (at + 116),
        ext_depth = get_u32 wire (at + 120)\<rparr>\<rparr>"

subsection \<open>Attachments and rectangles to clear\<close>

record clear_attachment =
  ca_aspect_mask :: u32
  ca_color_attachment :: u32
  ca_clear_words :: "u32 list"

definition put_clear_attachment :: "bytes \<Rightarrow> nat \<Rightarrow> clear_attachment \<Rightarrow> bytes" where
  "put_clear_attachment output at attachment =
     (let output = put_u32 output at (ca_aspect_mask attachment) in
      let output = put_u32 output (at + 4) (ca_color_attachment attachment) in
      put_each put_u32 4 output (at + 8) (ca_clear_words attachment))"

definition get_clear_attachment :: "bytes \<Rightarrow> nat \<Rightarrow> clear_attachment" where
  "get_clear_attachment input at =
     \<lparr>ca_aspect_mask = get_u32 input at, ca_color_attachment = get_u32 input (at + 4),
      ca_clear_words = get_each get_u32 4 input (at + 8) 4\<rparr>"

record clear_rect =
  cre_offset_x :: i32
  cre_offset_y :: i32
  cre_width :: u32
  cre_height :: u32
  cre_base_array_layer :: u32
  cre_layer_count :: u32

definition put_clear_rect :: "bytes \<Rightarrow> nat \<Rightarrow> clear_rect \<Rightarrow> bytes" where
  "put_clear_rect output at rect =
     (let output = put_u32 output at (cre_offset_x rect) in
      let output = put_u32 output (at + 4) (cre_offset_y rect) in
      let output = put_u32 output (at + 8) (cre_width rect) in
      let output = put_u32 output (at + 12) (cre_height rect) in
      let output = put_u32 output (at + 16) (cre_base_array_layer rect) in
      put_u32 output (at + 20) (cre_layer_count rect))"

definition get_clear_rect :: "bytes \<Rightarrow> nat \<Rightarrow> clear_rect" where
  "get_clear_rect input at =
     \<lparr>cre_offset_x = get_u32 input at, cre_offset_y = get_u32 input (at + 4), cre_width = get_u32 input (at + 8),
      cre_height = get_u32 input (at + 12), cre_base_array_layer = get_u32 input (at + 16),
      cre_layer_count = get_u32 input (at + 20)\<rparr>"

subsection \<open>The field interface\<close>

lemmas field_defs = encode_rendering_attachment_def encode_image_range_def put_memory_barrier_def put_buffer_barrier_def
  put_image_barrier_def encode_transfer_layers_def put_offset_def put_transfer_region_def put_clear_attachment_def
  put_clear_rect_def decode_rendering_attachment_def decode_image_range_def get_memory_barrier_def
  get_buffer_barrier_def get_image_barrier_def decode_transfer_layers_def get_offset_def get_transfer_region_def
  get_clear_attachment_def get_clear_rect_def

lemma put_words_frame:
  "k < at \<or> at + length xs * 4 \<le> k \<Longrightarrow> at + length xs * 4 \<le> length b \<Longrightarrow> put_each put_u32 4 b at xs ! k = b ! k"
  by (rule u32_field.put_each_frame) (auto simp: list_all_iff)

lemma get_words_local:
  "(\<And>k. at \<le> k \<Longrightarrow> k < at + n * 4 \<Longrightarrow> b ! k = c ! k) \<Longrightarrow> get_each get_u32 4 b at n = get_each get_u32 4 c at n"
  unfolding get_each_def by (intro map_cong refl get_u32_local) auto

lemmas get_local_rules = get_u32_local get_u64_local get_words_local

interpretation attachment_field: wire_field 56 encode_rendering_attachment decode_rendering_attachment
  "\<lambda>a. length (ra_clear_words a) = 4"
  by unfold_locales
    (auto simp: field_defs Let_def wire_simps nth_put_u32 nth_put_u64 put_words_frame intro!: get_local_rules)

interpretation range_field: wire_field 24 encode_image_range decode_image_range "\<lambda>_. True"
  by unfold_locales (auto simp: field_defs Let_def wire_simps nth_put_u32 intro!: get_local_rules)

interpretation memory_barrier_field: wire_field 32 put_memory_barrier get_memory_barrier "\<lambda>_. True"
  by unfold_locales (auto simp: field_defs Let_def wire_simps nth_put_u64 intro!: get_local_rules)

interpretation buffer_barrier_field: wire_field 64 put_buffer_barrier get_buffer_barrier "\<lambda>_. True"
  by unfold_locales (auto simp: field_defs Let_def wire_simps nth_put_u32 nth_put_u64 intro!: get_local_rules)

interpretation image_barrier_field: wire_field 80 put_image_barrier get_image_barrier "\<lambda>_. True"
  by unfold_locales (auto simp: field_defs Let_def wire_simps nth_put_u32 nth_put_u64 intro!: get_local_rules)

interpretation region_field: wire_field 124 put_transfer_region get_transfer_region "\<lambda>_. True"
  by unfold_locales (auto simp: field_defs Let_def wire_simps nth_put_u32 nth_put_u64 intro!: get_local_rules)

interpretation clear_attachment_field: wire_field 24 put_clear_attachment get_clear_attachment
  "\<lambda>a. length (ca_clear_words a) = 4"
  by unfold_locales
    (auto simp: field_defs Let_def wire_simps nth_put_u32 put_words_frame intro!: get_local_rules)

interpretation clear_rect_field: wire_field 24 put_clear_rect get_clear_rect "\<lambda>_. True"
  by unfold_locales (auto simp: field_defs Let_def wire_simps nth_put_u32 intro!: get_local_rules)

end
