(* ===== verification/Command_Codec.thy ===== *)
theory Command_Codec
  imports Command_Batch Command_Fields
begin

unbundle bit_operations_syntax

section \<open>Commands without arrays\<close>

text \<open>
  The \<^verbatim>\<open>bvb_command_batch_append_*\<close> and \<^verbatim>\<open>bvb_command_decode_*\<close> functions of src/src/command_batch.c for the
  commands whose payload is a sequence of scalars, and the contract every command keeps:
  \<open>command_contract\<close>, with the locale \<open>command_codec\<close> as the interface of a command's two functions.

  An append function checks its argument, writes a payload on the stack and appends it as a record;
  \<open>*_payload\<close> is the part before \<^verbatim>\<open>append_record\<close>. Where the code does not clear the array first, it
  writes every byte of it.
\<close>

subsection \<open>The contract of a command\<close>

definition append_command ::
  "command_batch_builder option \<Rightarrow> u16 \<Rightarrow> ('c \<Rightarrow> bytes result) \<Rightarrow> 'c option \<Rightarrow> command_batch_builder result" where
  "append_command builder opcode payload command =
     (case command of None \<Rightarrow> Inl EINVAL
      | Some command \<Rightarrow>
          (case payload command of
             Inl e \<Rightarrow> Inl e
           | Inr bs \<Rightarrow> append_record builder opcode bs (word_of_nat (length bs))))"

abbreviation record_at :: "u16 \<Rightarrow> bytes \<Rightarrow> bytes \<Rightarrow> command_record" where
  "record_at opcode p rest \<equiv> \<lparr>cr_opcode = opcode, cr_payload = p @ rest, cr_payload_length = word_of_nat (length p)\<rparr>"

text \<open>
  Appending a command of the right shape to a batch adds one record, valid on the other side, from
  which the decoder reads the command back, up to \<open>norm\<close>: array entries beyond the count are zero.
  Every valid record of the opcode decodes, to a command of the right shape. Null pointers are refused.
\<close>

definition command_contract ::
  "u16 \<Rightarrow> ('c \<Rightarrow> bool) \<Rightarrow> ('c \<Rightarrow> 'c) \<Rightarrow>
   (command_batch_builder option \<Rightarrow> 'c option \<Rightarrow> command_batch_builder result) \<Rightarrow>
   (command_record option \<Rightarrow> 'c option \<Rightarrow> 'c result) \<Rightarrow> bool" where
  "command_contract opcode shape norm app decode \<longleftrightarrow>
     (\<forall>b b' rs c rest d. shape c \<longrightarrow> holds_records b rs \<longrightarrow> app (Some b) (Some c) = Inr b' \<longrightarrow>
        (\<exists>p. record_ok (opcode, p) \<and> holds_records b' (rs @ [(opcode, p)]) \<and>
             decode (Some (record_at opcode p rest)) (Some d) = Inr (norm c))) \<and>
     (\<forall>p rest d. record_ok (opcode, p) \<longrightarrow>
        (\<exists>c. shape c \<and> decode (Some (record_at opcode p rest)) (Some d) = Inr c)) \<and>
     (\<forall>b r d. app b None = Inl EINVAL \<and> decode None d = Inl EINVAL \<and> decode r None = Inl EINVAL)"

locale command_codec =
  fixes opcode :: u16
    and shape :: "'c \<Rightarrow> bool"
    and norm :: "'c \<Rightarrow> 'c"
    and payload :: "'c \<Rightarrow> bytes result"
    and decode :: "command_record option \<Rightarrow> 'c option \<Rightarrow> 'c result"
  assumes valid: "shape c \<Longrightarrow> payload c = Inr p \<Longrightarrow> record_ok (opcode, p)"
    and decoded: "shape c \<Longrightarrow> payload c = Inr p \<Longrightarrow> decode (Some (record_at opcode p rest)) (Some d) = Inr (norm c)"
    and total: "record_ok (opcode, p) \<Longrightarrow> \<exists>c. shape c \<and> decode (Some (record_at opcode p rest)) (Some d) = Inr c"
    and null: "decode None d' = Inl EINVAL" "decode r None = Inl EINVAL"
begin

lemma appended:
  assumes c: "shape c" and b: "holds_records b rs" "append_command (Some b) opcode payload (Some c) = Inr b'"
  shows "\<exists>p. record_ok (opcode, p) \<and> holds_records b' (rs @ [(opcode, p)]) \<and>
      decode (Some (record_at opcode p rest)) (Some d) = Inr (norm c)"
proof -
  obtain p where p: "payload c = Inr p" "append_record (Some b) opcode p (word_of_nat (length p)) = Inr b'"
    using b(2) by (auto simp: append_command_def split: sum.splits)
  have ok: "record_ok (opcode, p)" using valid [OF c p(1)] .
  then have "unat (word_of_nat (length p) :: u32) = length p" using record_ok_length [OF ok] by (simp add: unat_of_nat)
  then have "holds_records b' (rs @ [(opcode, p)])"
    using append_record_holds [OF p(2) b(1)] record_ok_length [OF ok] by simp
  then show ?thesis using ok decoded [OF c p(1)] by blast
qed

lemma contract: "command_contract opcode shape norm (\<lambda>b. append_command b opcode payload) decode"
  unfolding command_contract_def
  using appended total null by (intro conjI allI impI) (auto simp: append_command_def)

end

text \<open>What a decoder knows of a valid record, with what follows it in memory.\<close>

lemma record_ok_reads:
  assumes "record_ok (opcode, p)"
  shows "payload_ok opcode (p @ rest) \<and> validate_payload opcode (p @ rest) = Inr () \<and>
    payload_length_is_valid opcode (p @ rest) (word_of_nat (length p)) \<and> length p = unat (word_of_nat (length p) :: u32)"
proof -
  have n: "length p = unat (word_of_nat (length p) :: u32)"
    and valid: "payload_length_is_valid opcode p (word_of_nat (length p))" "payload_ok opcode p"
    using assms by (auto simp: unat_of_nat)
  then show ?thesis
    using n payload_ok_prefix [OF valid(1) n] payload_length_prefix [OF n] by (simp add: validate_payload_def)
qed

lemma command_codecI:
  assumes "\<And>c p. shape c \<Longrightarrow> payload c = Inr p \<Longrightarrow> record_ok (opcode, p)"
    and "\<And>c p rest d. shape c \<Longrightarrow> payload c = Inr p \<Longrightarrow> decode (Some (record_at opcode p rest)) (Some d) = Inr (norm c)"
    and "\<And>p rest d. payload_ok opcode (p @ rest) \<Longrightarrow> validate_payload opcode (p @ rest) = Inr () \<Longrightarrow>
      payload_length_is_valid opcode (p @ rest) (word_of_nat (length p)) \<Longrightarrow> length p = unat (word_of_nat (length p) :: u32) \<Longrightarrow>
      \<exists>c. shape c \<and> decode (Some (record_at opcode p rest)) (Some d) = Inr c"
    and "\<And>d. decode None d = Inl EINVAL" "\<And>r. decode r None = Inl EINVAL"
  shows "command_codec opcode shape norm payload decode"
  by unfold_locales (blast intro: assms dest: record_ok_reads)+

text \<open>A command without a payload.\<close>

definition append_end_rendering :: "command_batch_builder option \<Rightarrow> command_batch_builder result" where
  "append_end_rendering builder = append_record builder BVB_COMMAND_END_RENDERING [] 0"

definition append_vulkan_end :: "command_batch_builder option \<Rightarrow> command_batch_builder result" where
  "append_vulkan_end builder = append_record builder BVB_COMMAND_VULKAN_END [] 0"

subsection \<open>The commands\<close>

subsubsection \<open>bind graphics pipeline\<close>

record bind_graphics_pipeline_command =
  bgp_pipeline_id :: u64

definition bind_graphics_pipeline_payload :: "bind_graphics_pipeline_command \<Rightarrow> bytes result" where
  "bind_graphics_pipeline_payload command =
     (if handle_expect (bgp_pipeline_id command) BVB_OBJECT_PIPELINE \<noteq> Inr ()
      then Inl EINVAL
      else let payload = replicate BVB_BIND_GRAPHICS_PIPELINE_SIZE 0 in
      let payload = put_u64 payload 0 (bgp_pipeline_id command) in
      let payload = put_u32 payload 8 0 in
      let payload = put_u32 payload 12 0 in
      Inr payload)"

definition append_bind_graphics_pipeline ::
  "command_batch_builder option \<Rightarrow> bind_graphics_pipeline_command option \<Rightarrow> command_batch_builder result" where
  "append_bind_graphics_pipeline builder command = append_command builder BVB_COMMAND_BIND_GRAPHICS_PIPELINE bind_graphics_pipeline_payload command"

definition decode_bind_graphics_pipeline ::
  "command_record option \<Rightarrow> bind_graphics_pipeline_command option \<Rightarrow> bind_graphics_pipeline_command result" where
  "decode_bind_graphics_pipeline record command = nonnull2 record command (\<lambda>record _.
     if cr_opcode record \<noteq> BVB_COMMAND_BIND_GRAPHICS_PIPELINE \<or> cr_payload_length record \<noteq> BVB_BIND_GRAPHICS_PIPELINE_SIZE then Inl EINVAL
     else Inr \<lparr>bgp_pipeline_id = get_u64 (cr_payload record) 0\<rparr>)"

subsubsection \<open>push rotation\<close>

record push_rotation_command =
  pro_pipeline_layout_id :: u64
  pro_angle_radians :: u32
  pro_aspect_ratio :: u32

definition push_rotation_payload :: "push_rotation_command \<Rightarrow> bytes result" where
  "push_rotation_payload command =
     (if handle_expect (pro_pipeline_layout_id command) BVB_OBJECT_PIPELINE_LAYOUT \<noteq> Inr () \<or>
        float_less (pro_angle_radians command) FLOAT_ZERO \<or> float_le FLOAT_TURN (pro_angle_radians command) \<or>
        float_le (pro_aspect_ratio command) FLOAT_ZERO
      then Inl EINVAL
      else let payload = replicate BVB_PUSH_ROTATION_SIZE 0 in
      let payload = put_u64 payload 0 (pro_pipeline_layout_id command) in
      let payload = put_float payload 8 (pro_angle_radians command) in
      let payload = put_float payload 12 (pro_aspect_ratio command) in
      if \<not> float_bits_are_finite payload 8 \<or> \<not> float_bits_are_finite payload 12
      then Inl EINVAL else Inr payload)"

definition append_push_rotation ::
  "command_batch_builder option \<Rightarrow> push_rotation_command option \<Rightarrow> command_batch_builder result" where
  "append_push_rotation builder command = append_command builder BVB_COMMAND_PUSH_ROTATION push_rotation_payload command"

definition decode_push_rotation ::
  "command_record option \<Rightarrow> push_rotation_command option \<Rightarrow> push_rotation_command result" where
  "decode_push_rotation record command = nonnull2 record command (\<lambda>record _.
     if cr_opcode record \<noteq> BVB_COMMAND_PUSH_ROTATION \<or> cr_payload_length record \<noteq> BVB_PUSH_ROTATION_SIZE then Inl EINVAL
     else Inr \<lparr>pro_pipeline_layout_id = get_u64 (cr_payload record) 0, pro_angle_radians = get_float (cr_payload record) 8,
        pro_aspect_ratio = get_float (cr_payload record) 12\<rparr>)"

subsubsection \<open>set viewport\<close>

record set_viewport_command =
  svp_x :: u32
  svp_y :: u32
  svp_width :: u32
  svp_height :: u32
  svp_minimum_depth :: u32
  svp_maximum_depth :: u32

definition set_viewport_payload :: "set_viewport_command \<Rightarrow> bytes result" where
  "set_viewport_payload command =
     (let payload = replicate BVB_SET_VIEWPORT_SIZE 0 in
      let payload = put_float payload 0 (svp_x command) in
      let payload = put_float payload 4 (svp_y command) in
      let payload = put_float payload 8 (svp_width command) in
      let payload = put_float payload 12 (svp_height command) in
      let payload = put_float payload 16 (svp_minimum_depth command) in
      let payload = put_float payload 20 (svp_maximum_depth command) in
      if \<not> list_all (\<lambda>index. float_bits_are_finite payload (index * 4)) [0..<6] \<or>
        float_eq (svp_width command) FLOAT_ZERO \<or> float_eq (svp_height command) FLOAT_ZERO \<or>
        float_less (svp_minimum_depth command) FLOAT_ZERO \<or> float_less FLOAT_ONE (svp_minimum_depth command) \<or>
        float_less (svp_maximum_depth command) FLOAT_ZERO \<or> float_less FLOAT_ONE (svp_maximum_depth command) \<or>
        float_less (svp_maximum_depth command) (svp_minimum_depth command)
      then Inl EINVAL else Inr payload)"

definition append_set_viewport ::
  "command_batch_builder option \<Rightarrow> set_viewport_command option \<Rightarrow> command_batch_builder result" where
  "append_set_viewport builder command = append_command builder BVB_COMMAND_SET_VIEWPORT set_viewport_payload command"

definition decode_set_viewport ::
  "command_record option \<Rightarrow> set_viewport_command option \<Rightarrow> set_viewport_command result" where
  "decode_set_viewport record command = nonnull2 record command (\<lambda>record _.
     if cr_opcode record \<noteq> BVB_COMMAND_SET_VIEWPORT \<or> cr_payload_length record \<noteq> BVB_SET_VIEWPORT_SIZE then Inl EINVAL
     else Inr \<lparr>svp_x = get_float (cr_payload record) 0, svp_y = get_float (cr_payload record) 4,
        svp_width = get_float (cr_payload record) 8, svp_height = get_float (cr_payload record) 12,
        svp_minimum_depth = get_float (cr_payload record) 16, svp_maximum_depth = get_float (cr_payload record) 20\<rparr>)"

subsubsection \<open>set scissor\<close>

record set_scissor_command =
  ssc_x :: i32
  ssc_y :: i32
  ssc_width :: u32
  ssc_height :: u32

definition set_scissor_payload :: "set_scissor_command \<Rightarrow> bytes result" where
  "set_scissor_payload command =
     (if ssc_width command = 0 \<or> ssc_height command = 0
      then Inl EINVAL
      else let payload = replicate BVB_SET_SCISSOR_SIZE 0 in
      let payload = put_i32 payload 0 (ssc_x command) in
      let payload = put_i32 payload 4 (ssc_y command) in
      let payload = put_u32 payload 8 (ssc_width command) in
      let payload = put_u32 payload 12 (ssc_height command) in
      Inr payload)"

definition append_set_scissor ::
  "command_batch_builder option \<Rightarrow> set_scissor_command option \<Rightarrow> command_batch_builder result" where
  "append_set_scissor builder command = append_command builder BVB_COMMAND_SET_SCISSOR set_scissor_payload command"

definition decode_set_scissor ::
  "command_record option \<Rightarrow> set_scissor_command option \<Rightarrow> set_scissor_command result" where
  "decode_set_scissor record command = nonnull2 record command (\<lambda>record _.
     if cr_opcode record \<noteq> BVB_COMMAND_SET_SCISSOR \<or> cr_payload_length record \<noteq> BVB_SET_SCISSOR_SIZE then Inl EINVAL
     else Inr \<lparr>ssc_x = get_i32 (cr_payload record) 0, ssc_y = get_i32 (cr_payload record) 4,
        ssc_width = get_u32 (cr_payload record) 8, ssc_height = get_u32 (cr_payload record) 12\<rparr>)"

subsubsection \<open>draw\<close>

record draw_command =
  drw_vertex_count :: u32
  drw_instance_count :: u32
  drw_first_vertex :: u32
  drw_first_instance :: u32

definition draw_payload :: "draw_command \<Rightarrow> bytes result" where
  "draw_payload command =
     (if drw_vertex_count command = 0 \<or> drw_instance_count command = 0
      then Inl EINVAL
      else let payload = replicate BVB_DRAW_SIZE 0 in
      let payload = put_u32 payload 0 (drw_vertex_count command) in
      let payload = put_u32 payload 4 (drw_instance_count command) in
      let payload = put_u32 payload 8 (drw_first_vertex command) in
      let payload = put_u32 payload 12 (drw_first_instance command) in
      Inr payload)"

definition append_draw ::
  "command_batch_builder option \<Rightarrow> draw_command option \<Rightarrow> command_batch_builder result" where
  "append_draw builder command = append_command builder BVB_COMMAND_DRAW draw_payload command"

definition decode_draw ::
  "command_record option \<Rightarrow> draw_command option \<Rightarrow> draw_command result" where
  "decode_draw record command = nonnull2 record command (\<lambda>record _.
     if cr_opcode record \<noteq> BVB_COMMAND_DRAW \<or> cr_payload_length record \<noteq> BVB_DRAW_SIZE then Inl EINVAL
     else Inr \<lparr>drw_vertex_count = get_u32 (cr_payload record) 0, drw_instance_count = get_u32 (cr_payload record) 4,
        drw_first_vertex = get_u32 (cr_payload record) 8, drw_first_instance = get_u32 (cr_payload record) 12\<rparr>)"

subsubsection \<open>fill buffer\<close>

record fill_buffer_command =
  fbu_buffer_id :: u64
  fbu_offset :: u64
  fbu_size :: u64
  fbu_data :: u32

definition fill_buffer_payload :: "fill_buffer_command \<Rightarrow> bytes result" where
  "fill_buffer_payload command =
     (if fbu_size command = 0 \<or> fbu_offset command AND 3 \<noteq> 0 \<or> fbu_size command AND 3 \<noteq> 0 \<or>
        handle_expect (fbu_buffer_id command) BVB_OBJECT_BUFFER \<noteq> Inr ()
      then Inl EINVAL
      else let payload = replicate BVB_FILL_BUFFER_SIZE 0 in
      let payload = put_u64 payload 0 (fbu_buffer_id command) in
      let payload = put_u64 payload 8 (fbu_offset command) in
      let payload = put_u64 payload 16 (fbu_size command) in
      let payload = put_u32 payload 24 (fbu_data command) in
      let payload = put_u32 payload 28 0 in
      Inr payload)"

definition append_fill_buffer ::
  "command_batch_builder option \<Rightarrow> fill_buffer_command option \<Rightarrow> command_batch_builder result" where
  "append_fill_buffer builder command = append_command builder BVB_COMMAND_FILL_BUFFER fill_buffer_payload command"

definition decode_fill_buffer ::
  "command_record option \<Rightarrow> fill_buffer_command option \<Rightarrow> fill_buffer_command result" where
  "decode_fill_buffer record command = nonnull2 record command (\<lambda>record _.
     if cr_opcode record \<noteq> BVB_COMMAND_FILL_BUFFER \<or> cr_payload_length record \<noteq> BVB_FILL_BUFFER_SIZE then Inl EINVAL
     else Inr \<lparr>fbu_buffer_id = get_u64 (cr_payload record) 0, fbu_offset = get_u64 (cr_payload record) 8,
        fbu_size = get_u64 (cr_payload record) 16, fbu_data = get_u32 (cr_payload record) 24\<rparr>)"

subsubsection \<open>buffer host read barrier\<close>

record buffer_host_read_barrier_command =
  bhr_buffer_id :: u64
  bhr_offset :: u64
  bhr_size :: u64

definition buffer_host_read_barrier_payload :: "buffer_host_read_barrier_command \<Rightarrow> bytes result" where
  "buffer_host_read_barrier_payload command =
     (if bhr_size command = 0 \<or> handle_expect (bhr_buffer_id command) BVB_OBJECT_BUFFER \<noteq> Inr ()
      then Inl EINVAL
      else let payload = replicate BVB_BUFFER_HOST_READ_BARRIER_SIZE 0 in
      let payload = put_u64 payload 0 (bhr_buffer_id command) in
      let payload = put_u64 payload 8 (bhr_offset command) in
      let payload = put_u64 payload 16 (bhr_size command) in
      Inr payload)"

definition append_buffer_host_read_barrier ::
  "command_batch_builder option \<Rightarrow> buffer_host_read_barrier_command option \<Rightarrow> command_batch_builder result" where
  "append_buffer_host_read_barrier builder command = append_command builder BVB_COMMAND_BUFFER_HOST_READ_BARRIER buffer_host_read_barrier_payload command"

definition decode_buffer_host_read_barrier ::
  "command_record option \<Rightarrow> buffer_host_read_barrier_command option \<Rightarrow> buffer_host_read_barrier_command result" where
  "decode_buffer_host_read_barrier record command = nonnull2 record command (\<lambda>record _.
     if cr_opcode record \<noteq> BVB_COMMAND_BUFFER_HOST_READ_BARRIER \<or> cr_payload_length record \<noteq> BVB_BUFFER_HOST_READ_BARRIER_SIZE then Inl EINVAL
     else Inr \<lparr>bhr_buffer_id = get_u64 (cr_payload record) 0, bhr_offset = get_u64 (cr_payload record) 8,
        bhr_size = get_u64 (cr_payload record) 16\<rparr>)"

subsubsection \<open>vulkan begin\<close>

record vulkan_begin_command =
  vbe_flags :: u32

definition vulkan_begin_payload :: "vulkan_begin_command \<Rightarrow> bytes result" where
  "vulkan_begin_payload command =
     (if vbe_flags command AND NOT 1 \<noteq> 0
      then Inl EINVAL
      else let payload = replicate BVB_VULKAN_BEGIN_SIZE 0 in
      let payload = put_u32 payload 0 (vbe_flags command) in
      let payload = put_u32 payload 4 0 in
      Inr payload)"

definition append_vulkan_begin ::
  "command_batch_builder option \<Rightarrow> vulkan_begin_command option \<Rightarrow> command_batch_builder result" where
  "append_vulkan_begin builder command = append_command builder BVB_COMMAND_VULKAN_BEGIN vulkan_begin_payload command"

definition decode_vulkan_begin ::
  "command_record option \<Rightarrow> vulkan_begin_command option \<Rightarrow> vulkan_begin_command result" where
  "decode_vulkan_begin record command = nonnull2 record command (\<lambda>record _.
     if cr_opcode record \<noteq> BVB_COMMAND_VULKAN_BEGIN \<or> cr_payload_length record \<noteq> BVB_VULKAN_BEGIN_SIZE then Inl EINVAL
     else Inr \<lparr>vbe_flags = get_u32 (cr_payload record) 0\<rparr>)"

subsubsection \<open>clear color image\<close>

record clear_color_image_command =
  cci_image_id :: u64

definition clear_color_image_payload :: "clear_color_image_command \<Rightarrow> bytes result" where
  "clear_color_image_payload command =
     (if handle_expect (cci_image_id command) BVB_OBJECT_IMAGE \<noteq> Inr ()
      then Inl EINVAL
      else let payload = replicate BVB_VULKAN_CLEAR_COLOR_IMAGE_SIZE 0 in
      let payload = put_u64 payload 0 (cci_image_id command) in
      let payload = put_u64 payload 8 0 in
      Inr payload)"

definition append_clear_color_image ::
  "command_batch_builder option \<Rightarrow> clear_color_image_command option \<Rightarrow> command_batch_builder result" where
  "append_clear_color_image builder command = append_command builder BVB_COMMAND_VULKAN_CLEAR_COLOR_IMAGE clear_color_image_payload command"

definition decode_clear_color_image ::
  "command_record option \<Rightarrow> clear_color_image_command option \<Rightarrow> clear_color_image_command result" where
  "decode_clear_color_image record command = nonnull2 record command (\<lambda>record _.
     if cr_opcode record \<noteq> BVB_COMMAND_VULKAN_CLEAR_COLOR_IMAGE \<or> cr_payload_length record \<noteq> BVB_VULKAN_CLEAR_COLOR_IMAGE_SIZE then Inl EINVAL
     else Inr \<lparr>cci_image_id = get_u64 (cr_payload record) 0\<rparr>)"

subsubsection \<open>bind index buffer\<close>

record bind_index_buffer_command =
  bib_buffer_id :: u64
  bib_offset :: u64
  bib_size :: u64
  bib_index_type :: u32

definition bind_index_buffer_payload :: "u16 \<Rightarrow> bind_index_buffer_command \<Rightarrow> bytes result" where
  "bind_index_buffer_payload opcode command =
     (if (opcode \<noteq> BVB_COMMAND_VULKAN_BIND_INDEX_BUFFER \<and> opcode \<noteq> BVB_COMMAND_VULKAN_BIND_INDEX_BUFFER_2) \<or>
        (bib_buffer_id command \<noteq> 0 \<and> handle_expect (bib_buffer_id command) BVB_OBJECT_BUFFER \<noteq> Inr ()) \<or>
        (opcode = BVB_COMMAND_VULKAN_BIND_INDEX_BUFFER \<and> bib_size command \<noteq> 0xffffffffffffffff) \<or>
        (bib_buffer_id command \<noteq> 0 \<and> bib_size command = 0)
      then Inl EINVAL
      else let payload = replicate BVB_VULKAN_BIND_INDEX_BUFFER_SIZE 0 in
      let payload = put_u64 payload 0 (bib_buffer_id command) in
      let payload = put_u64 payload 8 (bib_offset command) in
      let payload = put_u64 payload 16 (bib_size command) in
      let payload = put_u32 payload 24 (bib_index_type command) in
      Inr payload)"

definition append_bind_index_buffer ::
  "command_batch_builder option \<Rightarrow> u16 \<Rightarrow> bind_index_buffer_command option \<Rightarrow> command_batch_builder result" where
  "append_bind_index_buffer builder opcode command = append_command builder opcode (bind_index_buffer_payload opcode) command"

definition decode_bind_index_buffer ::
  "command_record option \<Rightarrow> bind_index_buffer_command option \<Rightarrow> bind_index_buffer_command result" where
  "decode_bind_index_buffer record command = nonnull2 record command (\<lambda>record _.
     if (cr_opcode record \<noteq> BVB_COMMAND_VULKAN_BIND_INDEX_BUFFER \<and> cr_opcode record \<noteq> BVB_COMMAND_VULKAN_BIND_INDEX_BUFFER_2) \<or> cr_payload_length record \<noteq> BVB_VULKAN_BIND_INDEX_BUFFER_SIZE then Inl EINVAL
     else Inr \<lparr>bib_buffer_id = get_u64 (cr_payload record) 0, bib_offset = get_u64 (cr_payload record) 8,
        bib_size = get_u64 (cr_payload record) 16, bib_index_type = get_u32 (cr_payload record) 24\<rparr>)"

subsubsection \<open>draw indexed\<close>

record draw_indexed_command =
  din_index_count :: u32
  din_instance_count :: u32
  din_first_index :: u32
  din_vertex_offset :: i32
  din_first_instance :: u32

definition draw_indexed_payload :: "draw_indexed_command \<Rightarrow> bytes result" where
  "draw_indexed_payload command =
     (let payload = replicate BVB_VULKAN_DRAW_INDEXED_SIZE 0 in
      let payload = put_u32 payload 0 (din_index_count command) in
      let payload = put_u32 payload 4 (din_instance_count command) in
      let payload = put_u32 payload 8 (din_first_index command) in
      let payload = put_u32 payload 12 (din_vertex_offset command) in
      let payload = put_u32 payload 16 (din_first_instance command) in
      Inr payload)"

definition append_draw_indexed ::
  "command_batch_builder option \<Rightarrow> draw_indexed_command option \<Rightarrow> command_batch_builder result" where
  "append_draw_indexed builder command = append_command builder BVB_COMMAND_VULKAN_DRAW_INDEXED draw_indexed_payload command"

definition decode_draw_indexed ::
  "command_record option \<Rightarrow> draw_indexed_command option \<Rightarrow> draw_indexed_command result" where
  "decode_draw_indexed record command = nonnull2 record command (\<lambda>record _.
     if cr_opcode record \<noteq> BVB_COMMAND_VULKAN_DRAW_INDEXED \<or> cr_payload_length record \<noteq> BVB_VULKAN_DRAW_INDEXED_SIZE then Inl EINVAL
     else Inr \<lparr>din_index_count = get_u32 (cr_payload record) 0, din_instance_count = get_u32 (cr_payload record) 4,
        din_first_index = get_u32 (cr_payload record) 8, din_vertex_offset = get_u32 (cr_payload record) 12,
        din_first_instance = get_u32 (cr_payload record) 16\<rparr>)"

subsubsection \<open>draw indirect\<close>

record draw_indirect_command =
  dri_buffer_id :: u64
  dri_offset :: u64
  dri_draw_count :: u32
  dri_stride :: u32

definition draw_indirect_payload :: "u16 \<Rightarrow> draw_indirect_command \<Rightarrow> bytes result" where
  "draw_indirect_payload opcode command =
     (let indexed = opcode = BVB_COMMAND_VULKAN_DRAW_INDEXED_INDIRECT in
      if (\<not> indexed \<and> opcode \<noteq> BVB_COMMAND_VULKAN_DRAW_INDIRECT) \<or>
        handle_expect (dri_buffer_id command) BVB_OBJECT_BUFFER \<noteq> Inr () \<or> dri_stride command AND 3 \<noteq> 0 \<or>
        (dri_draw_count command > 1 \<and> dri_stride command < (if indexed then 20 else 16))
      then Inl EINVAL
      else let payload = replicate BVB_VULKAN_DRAW_INDIRECT_SIZE 0 in
      let payload = put_u64 payload 0 (dri_buffer_id command) in
      let payload = put_u64 payload 8 (dri_offset command) in
      let payload = put_u32 payload 16 (dri_draw_count command) in
      let payload = put_u32 payload 20 (dri_stride command) in
      Inr payload)"

definition append_draw_indirect ::
  "command_batch_builder option \<Rightarrow> u16 \<Rightarrow> draw_indirect_command option \<Rightarrow> command_batch_builder result" where
  "append_draw_indirect builder opcode command = append_command builder opcode (draw_indirect_payload opcode) command"

definition decode_draw_indirect ::
  "command_record option \<Rightarrow> draw_indirect_command option \<Rightarrow> draw_indirect_command result" where
  "decode_draw_indirect record command = nonnull2 record command (\<lambda>record _.
     if (cr_opcode record \<noteq> BVB_COMMAND_VULKAN_DRAW_INDIRECT \<and> cr_opcode record \<noteq> BVB_COMMAND_VULKAN_DRAW_INDEXED_INDIRECT) \<or> cr_payload_length record \<noteq> BVB_VULKAN_DRAW_INDIRECT_SIZE then Inl EINVAL
     else Inr \<lparr>dri_buffer_id = get_u64 (cr_payload record) 0, dri_offset = get_u64 (cr_payload record) 8,
        dri_draw_count = get_u32 (cr_payload record) 16, dri_stride = get_u32 (cr_payload record) 20\<rparr>)"

subsubsection \<open>draw indirect count\<close>

record draw_indirect_count_command =
  dic_buffer_id :: u64
  dic_offset :: u64
  dic_count_buffer_id :: u64
  dic_count_buffer_offset :: u64
  dic_maximum_draw_count :: u32
  dic_stride :: u32

definition draw_indirect_count_payload :: "u16 \<Rightarrow> draw_indirect_count_command \<Rightarrow> bytes result" where
  "draw_indirect_count_payload opcode command =
     (let indexed = opcode = BVB_COMMAND_VULKAN_DRAW_INDEXED_INDIRECT_COUNT in
      if (\<not> indexed \<and> opcode \<noteq> BVB_COMMAND_VULKAN_DRAW_INDIRECT_COUNT) \<or>
        handle_expect (dic_buffer_id command) BVB_OBJECT_BUFFER \<noteq> Inr () \<or>
        handle_expect (dic_count_buffer_id command) BVB_OBJECT_BUFFER \<noteq> Inr () \<or> dic_stride command AND 3 \<noteq> 0 \<or>
        (dic_maximum_draw_count command > 1 \<and> dic_stride command < (if indexed then 20 else 16))
      then Inl EINVAL
      else let payload = replicate BVB_VULKAN_DRAW_INDIRECT_COUNT_SIZE 0 in
      let payload = put_u64 payload 0 (dic_buffer_id command) in
      let payload = put_u64 payload 8 (dic_offset command) in
      let payload = put_u64 payload 16 (dic_count_buffer_id command) in
      let payload = put_u64 payload 24 (dic_count_buffer_offset command) in
      let payload = put_u32 payload 32 (dic_maximum_draw_count command) in
      let payload = put_u32 payload 36 (dic_stride command) in
      Inr payload)"

definition append_draw_indirect_count ::
  "command_batch_builder option \<Rightarrow> u16 \<Rightarrow> draw_indirect_count_command option \<Rightarrow> command_batch_builder result" where
  "append_draw_indirect_count builder opcode command = append_command builder opcode (draw_indirect_count_payload opcode) command"

definition decode_draw_indirect_count ::
  "command_record option \<Rightarrow> draw_indirect_count_command option \<Rightarrow> draw_indirect_count_command result" where
  "decode_draw_indirect_count record command = nonnull2 record command (\<lambda>record _.
     if (cr_opcode record \<noteq> BVB_COMMAND_VULKAN_DRAW_INDIRECT_COUNT \<and> cr_opcode record \<noteq> BVB_COMMAND_VULKAN_DRAW_INDEXED_INDIRECT_COUNT) \<or> cr_payload_length record \<noteq> BVB_VULKAN_DRAW_INDIRECT_COUNT_SIZE then Inl EINVAL
     else Inr \<lparr>dic_buffer_id = get_u64 (cr_payload record) 0, dic_offset = get_u64 (cr_payload record) 8,
        dic_count_buffer_id = get_u64 (cr_payload record) 16, dic_count_buffer_offset = get_u64 (cr_payload record) 24,
        dic_maximum_draw_count = get_u32 (cr_payload record) 32, dic_stride = get_u32 (cr_payload record) 36\<rparr>)"

subsubsection \<open>query\<close>

record query_command =
  qry_query_pool_id :: u64
  qry_stage_mask :: u64
  qry_first_query :: u32
  qry_query_count :: u32
  qry_flags :: u32
  qry_index :: u32
  qry_kind :: u32

definition query_payload :: "query_command \<Rightarrow> bytes result" where
  "query_payload command =
     (if handle_expect (qry_query_pool_id command) BVB_OBJECT_QUERY_POOL \<noteq> Inr () \<or> qry_query_count command = 0 \<or>
        (if qry_kind command = 1
         then qry_stage_mask command \<noteq> 0 \<or> qry_flags command \<noteq> 0 \<or> qry_index command \<noteq> 0
         else if qry_kind command = 2
         then qry_stage_mask command \<noteq> 0 \<or> qry_query_count command \<noteq> 1 \<or> qry_flags command AND NOT 1 \<noteq> 0 \<or>
              qry_index command \<noteq> 0
         else if qry_kind command = 3
         then qry_stage_mask command \<noteq> 0 \<or> qry_query_count command \<noteq> 1 \<or> qry_flags command \<noteq> 0 \<or>
              qry_index command \<noteq> 0
         else if qry_kind command = 4 \<or> qry_kind command = 5
         then qry_stage_mask command = 0 \<or> qry_query_count command \<noteq> 1 \<or> qry_flags command \<noteq> 0 \<or>
              qry_index command \<noteq> 0
         else if qry_kind command = 6
         then qry_stage_mask command \<noteq> 0 \<or> qry_query_count command \<noteq> 1 \<or> qry_flags command AND NOT 1 \<noteq> 0
         else if qry_kind command = 7
         then qry_stage_mask command \<noteq> 0 \<or> qry_query_count command \<noteq> 1 \<or> qry_flags command \<noteq> 0
         else True)
      then Inl EINVAL
      else let payload = replicate BVB_VULKAN_QUERY_SIZE 0 in
      let payload = put_u64 payload 0 (qry_query_pool_id command) in
      let payload = put_u64 payload 8 (qry_stage_mask command) in
      let payload = put_u32 payload 16 (qry_first_query command) in
      let payload = put_u32 payload 20 (qry_query_count command) in
      let payload = put_u32 payload 24 (qry_flags command) in
      let payload = put_u32 payload 28 (qry_index command) in
      let payload = put_u32 payload 32 (qry_kind command) in
      Inr payload)"

definition append_query ::
  "command_batch_builder option \<Rightarrow> query_command option \<Rightarrow> command_batch_builder result" where
  "append_query builder command = append_command builder BVB_COMMAND_VULKAN_QUERY query_payload command"

definition decode_query ::
  "command_record option \<Rightarrow> query_command option \<Rightarrow> query_command result" where
  "decode_query record command = nonnull2 record command (\<lambda>record _.
     if cr_opcode record \<noteq> BVB_COMMAND_VULKAN_QUERY \<or> cr_payload_length record \<noteq> BVB_VULKAN_QUERY_SIZE then Inl EINVAL
     else case validate_payload (cr_opcode record) (cr_payload record) of Inl e \<Rightarrow> Inl e | Inr _ \<Rightarrow>
       Inr \<lparr>qry_query_pool_id = get_u64 (cr_payload record) 0, qry_stage_mask = get_u64 (cr_payload record) 8,
        qry_first_query = get_u32 (cr_payload record) 16, qry_query_count = get_u32 (cr_payload record) 20,
        qry_flags = get_u32 (cr_payload record) 24, qry_index = get_u32 (cr_payload record) 28,
        qry_kind = get_u32 (cr_payload record) 32\<rparr>)"

subsection \<open>Each keeps the contract\<close>

lemma scalar_reads [wire_simps]:
  "put_float b i v = put_u32 b i v" "get_float b i = get_u32 b i"
  "float_bits_are_finite b i \<longleftrightarrow> float_word_is_finite (get_u32 b i)"
  by (simp_all add: put_float_def get_float_def float_bits_are_finite_def float_word_is_finite_def)

lemmas flat_command_simps = Let_def payload_length_is_valid_def expected_payload_size_def transfer_opcode_is_valid_def
  payload_ok_def validate_payload_def bind_graphics_pipeline_ok_def push_rotation_ok_def set_viewport_ok_def
  set_scissor_ok_def draw_ok_def fill_buffer_ok_def buffer_host_read_barrier_ok_def vulkan_begin_ok_def
  clear_color_image_ok_def bind_index_buffer_ok_def draw_indexed_ok_def draw_indirect_ok_def draw_indirect_count_ok_def
  query_ok_def list_all_upt wire_simps

interpretation bind_graphics_pipeline_command: command_codec
    BVB_COMMAND_BIND_GRAPHICS_PIPELINE "\<lambda>_. True" "\<lambda>c. c" bind_graphics_pipeline_payload decode_bind_graphics_pipeline
  by (rule command_codecI)
    (auto simp: bind_graphics_pipeline_payload_def decode_bind_graphics_pipeline_def flat_command_simps split: if_splits)

interpretation push_rotation_command: command_codec
    BVB_COMMAND_PUSH_ROTATION "\<lambda>_. True" "\<lambda>c. c" push_rotation_payload decode_push_rotation
  by (rule command_codecI)
    (auto simp: push_rotation_payload_def decode_push_rotation_def flat_command_simps split: if_splits)

interpretation set_viewport_command: command_codec
    BVB_COMMAND_SET_VIEWPORT "\<lambda>_. True" "\<lambda>c. c" set_viewport_payload decode_set_viewport
  by (rule command_codecI)
    (auto simp: set_viewport_payload_def decode_set_viewport_def flat_command_simps split: if_splits)

interpretation set_scissor_command: command_codec
    BVB_COMMAND_SET_SCISSOR "\<lambda>_. True" "\<lambda>c. c" set_scissor_payload decode_set_scissor
  by (rule command_codecI)
    (auto simp: set_scissor_payload_def decode_set_scissor_def flat_command_simps split: if_splits)

interpretation draw_command: command_codec
    BVB_COMMAND_DRAW "\<lambda>_. True" "\<lambda>c. c" draw_payload decode_draw
  by (rule command_codecI)
    (auto simp: draw_payload_def decode_draw_def flat_command_simps split: if_splits)

interpretation fill_buffer_command: command_codec
    BVB_COMMAND_FILL_BUFFER "\<lambda>_. True" "\<lambda>c. c" fill_buffer_payload decode_fill_buffer
  by (rule command_codecI)
    (auto simp: fill_buffer_payload_def decode_fill_buffer_def flat_command_simps split: if_splits)

interpretation buffer_host_read_barrier_command: command_codec
    BVB_COMMAND_BUFFER_HOST_READ_BARRIER "\<lambda>_. True" "\<lambda>c. c" buffer_host_read_barrier_payload decode_buffer_host_read_barrier
  by (rule command_codecI)
    (auto simp: buffer_host_read_barrier_payload_def decode_buffer_host_read_barrier_def flat_command_simps split: if_splits)

interpretation vulkan_begin_command: command_codec
    BVB_COMMAND_VULKAN_BEGIN "\<lambda>_. True" "\<lambda>c. c" vulkan_begin_payload decode_vulkan_begin
  by (rule command_codecI)
    (auto simp: vulkan_begin_payload_def decode_vulkan_begin_def flat_command_simps split: if_splits)

interpretation clear_color_image_command: command_codec
    BVB_COMMAND_VULKAN_CLEAR_COLOR_IMAGE "\<lambda>_. True" "\<lambda>c. c" clear_color_image_payload decode_clear_color_image
  by (rule command_codecI)
    (auto simp: clear_color_image_payload_def decode_clear_color_image_def flat_command_simps split: if_splits)

interpretation bind_index_buffer_command: command_codec
    BVB_COMMAND_VULKAN_BIND_INDEX_BUFFER "\<lambda>_. True" "\<lambda>c. c" "bind_index_buffer_payload BVB_COMMAND_VULKAN_BIND_INDEX_BUFFER" decode_bind_index_buffer
  by (rule command_codecI)
    (auto simp: bind_index_buffer_payload_def decode_bind_index_buffer_def flat_command_simps split: if_splits)

interpretation bind_index_buffer_2_command: command_codec
    BVB_COMMAND_VULKAN_BIND_INDEX_BUFFER_2 "\<lambda>_. True" "\<lambda>c. c" "bind_index_buffer_payload BVB_COMMAND_VULKAN_BIND_INDEX_BUFFER_2" decode_bind_index_buffer
  by (rule command_codecI)
    (auto simp: bind_index_buffer_payload_def decode_bind_index_buffer_def flat_command_simps split: if_splits)

interpretation draw_indexed_command: command_codec
    BVB_COMMAND_VULKAN_DRAW_INDEXED "\<lambda>_. True" "\<lambda>c. c" draw_indexed_payload decode_draw_indexed
  by (rule command_codecI)
    (auto simp: draw_indexed_payload_def decode_draw_indexed_def flat_command_simps split: if_splits)

interpretation draw_indirect_command: command_codec
    BVB_COMMAND_VULKAN_DRAW_INDIRECT "\<lambda>_. True" "\<lambda>c. c" "draw_indirect_payload BVB_COMMAND_VULKAN_DRAW_INDIRECT" decode_draw_indirect
  by (rule command_codecI)
    (auto simp: draw_indirect_payload_def decode_draw_indirect_def flat_command_simps split: if_splits)

interpretation draw_indirect_2_command: command_codec
    BVB_COMMAND_VULKAN_DRAW_INDEXED_INDIRECT "\<lambda>_. True" "\<lambda>c. c" "draw_indirect_payload BVB_COMMAND_VULKAN_DRAW_INDEXED_INDIRECT" decode_draw_indirect
  by (rule command_codecI)
    (auto simp: draw_indirect_payload_def decode_draw_indirect_def flat_command_simps split: if_splits)

interpretation draw_indirect_count_command: command_codec
    BVB_COMMAND_VULKAN_DRAW_INDIRECT_COUNT "\<lambda>_. True" "\<lambda>c. c" "draw_indirect_count_payload BVB_COMMAND_VULKAN_DRAW_INDIRECT_COUNT" decode_draw_indirect_count
  by (rule command_codecI)
    (auto simp: draw_indirect_count_payload_def decode_draw_indirect_count_def flat_command_simps split: if_splits)

interpretation draw_indirect_count_2_command: command_codec
    BVB_COMMAND_VULKAN_DRAW_INDEXED_INDIRECT_COUNT "\<lambda>_. True" "\<lambda>c. c" "draw_indirect_count_payload BVB_COMMAND_VULKAN_DRAW_INDEXED_INDIRECT_COUNT" decode_draw_indirect_count
  by (rule command_codecI)
    (auto simp: draw_indirect_count_payload_def decode_draw_indirect_count_def flat_command_simps split: if_splits)

interpretation query_command: command_codec
    BVB_COMMAND_VULKAN_QUERY "\<lambda>_. True" "\<lambda>c. c" query_payload decode_query
  by (rule command_codecI)
    (auto simp: query_payload_def decode_query_def flat_command_simps split: if_splits)

end
