(* ===== verification/Command_Arrays.thy ===== *)
theory Command_Arrays
  imports Command_Codec
begin

unbundle bit_operations_syntax

section \<open>Commands with arrays\<close>

text \<open>
  The append and decode functions of src/src/command_batch.c for the commands that carry arrays. A
  loop that checks and stores entries is the check of all of them followed by the stores: an entry
  that fails its check ends the function with \<^verbatim>\<open>EINVAL\<close>, and the payload is a local variable. A decoder
  clears the command first, so that entries beyond the count are zero; the entries up to the count lie
  inside the array because the record was validated before it is decoded.
\<close>

subsection \<open>begin rendering\<close>

record begin_rendering_command =
  ber_flags :: u32
  ber_render_offset_x :: i32
  ber_render_offset_y :: i32
  ber_width :: u32
  ber_height :: u32
  ber_layer_count :: u32
  ber_view_mask :: u32
  ber_color_attachment_count :: u32
  ber_has_depth_attachment :: u32
  ber_has_stencil_attachment :: u32
  ber_color_attachments :: "rendering_attachment list"
  ber_depth_attachment :: rendering_attachment
  ber_stencil_attachment :: rendering_attachment

definition zero_attachment :: rendering_attachment where
  "zero_attachment = \<lparr>ra_image_view_id = 0, ra_resolve_image_view_id = 0, ra_image_layout = 0, ra_resolve_mode = 0,
     ra_resolve_image_layout = 0, ra_load_op = 0, ra_store_op = 0, ra_feedback_loop_enable = 0,
     ra_clear_words = replicate 4 0\<rparr>"

definition begin_rendering_payload :: "begin_rendering_command \<Rightarrow> bytes result" where
  "begin_rendering_payload command =
     (if ber_width command = 0 \<or> ber_height command = 0 \<or> ber_layer_count command = 0 \<or>
         ber_color_attachment_count command > BVB_COMMAND_VULKAN_MAX_COLOR_ATTACHMENTS \<or>
         ber_has_depth_attachment command > 1 \<or> ber_has_stencil_attachment command > 1 \<or>
         (ber_color_attachment_count command = 0 \<and> ber_has_depth_attachment command = 0 \<and>
          ber_has_stencil_attachment command = 0)
      then Inl EINVAL
      else
        let attachments = take (unat (ber_color_attachment_count command)) (ber_color_attachments command);
            payload = replicate BVB_BEGIN_RENDERING_SIZE 0;
            payload = put_u32 payload 0 (ber_flags command);
            payload = put_u32 payload 4 (ber_render_offset_x command);
            payload = put_u32 payload 8 (ber_render_offset_y command);
            payload = put_u32 payload 12 (ber_width command);
            payload = put_u32 payload 16 (ber_height command);
            payload = put_u32 payload 20 (ber_layer_count command);
            payload = put_u32 payload 24 (ber_view_mask command);
            payload = put_u32 payload 28 (ber_color_attachment_count command);
            payload = put_u32 payload 32 (ber_has_depth_attachment command);
            payload = put_u32 payload 36 (ber_has_stencil_attachment command) in
        if \<not> list_all (\<lambda>attachment. rendering_attachment_is_valid attachment False) attachments then Inl EINVAL
        else
          let payload = put_each encode_rendering_attachment BVB_RENDERING_ATTACHMENT_SIZE payload
                BVB_BEGIN_RENDERING_HEADER_SIZE attachments in
          if ber_has_depth_attachment command \<noteq> 0 \<and>
             \<not> rendering_attachment_is_valid (ber_depth_attachment command) True then Inl EINVAL
          else if ber_has_stencil_attachment command \<noteq> 0 \<and>
             \<not> rendering_attachment_is_valid (ber_stencil_attachment command) True then Inl EINVAL
          else
            let payload = (if ber_has_depth_attachment command \<noteq> 0
                  then encode_rendering_attachment payload
                    (BVB_BEGIN_RENDERING_HEADER_SIZE +
                     BVB_COMMAND_VULKAN_MAX_COLOR_ATTACHMENTS * BVB_RENDERING_ATTACHMENT_SIZE)
                    (ber_depth_attachment command)
                  else payload);
                payload = (if ber_has_stencil_attachment command \<noteq> 0
                  then encode_rendering_attachment payload
                    (BVB_BEGIN_RENDERING_HEADER_SIZE +
                     (BVB_COMMAND_VULKAN_MAX_COLOR_ATTACHMENTS + 1) * BVB_RENDERING_ATTACHMENT_SIZE)
                    (ber_stencil_attachment command)
                  else payload) in
            Inr payload)"

definition append_begin_rendering ::
  "command_batch_builder option \<Rightarrow> begin_rendering_command option \<Rightarrow> command_batch_builder result" where
  "append_begin_rendering builder command =
     append_command builder BVB_COMMAND_BEGIN_RENDERING begin_rendering_payload command"

definition decode_begin_rendering ::
  "command_record option \<Rightarrow> begin_rendering_command option \<Rightarrow> begin_rendering_command result" where
  "decode_begin_rendering record command = nonnull2 record command (\<lambda>record _.
     if cr_opcode record \<noteq> BVB_COMMAND_BEGIN_RENDERING \<or> cr_payload_length record \<noteq> BVB_BEGIN_RENDERING_SIZE then Inl EINVAL
     else
       let payload = cr_payload record in
       Inr \<lparr>ber_flags = get_u32 payload 0, ber_render_offset_x = get_u32 payload 4,
            ber_render_offset_y = get_u32 payload 8, ber_width = get_u32 payload 12, ber_height = get_u32 payload 16,
            ber_layer_count = get_u32 payload 20, ber_view_mask = get_u32 payload 24,
            ber_color_attachment_count = get_u32 payload 28, ber_has_depth_attachment = get_u32 payload 32,
            ber_has_stencil_attachment = get_u32 payload 36,
            ber_color_attachments = fill_to BVB_COMMAND_VULKAN_MAX_COLOR_ATTACHMENTS zero_attachment
              (get_each decode_rendering_attachment BVB_RENDERING_ATTACHMENT_SIZE payload
                 BVB_BEGIN_RENDERING_HEADER_SIZE (unat (get_u32 payload 28))),
            ber_depth_attachment =
              (if get_u32 payload 32 \<noteq> 0
               then decode_rendering_attachment payload
                 (BVB_BEGIN_RENDERING_HEADER_SIZE +
                  BVB_COMMAND_VULKAN_MAX_COLOR_ATTACHMENTS * BVB_RENDERING_ATTACHMENT_SIZE)
               else zero_attachment),
            ber_stencil_attachment =
              (if get_u32 payload 36 \<noteq> 0
               then decode_rendering_attachment payload
                 (BVB_BEGIN_RENDERING_HEADER_SIZE +
                  (BVB_COMMAND_VULKAN_MAX_COLOR_ATTACHMENTS + 1) * BVB_RENDERING_ATTACHMENT_SIZE)
               else zero_attachment)\<rparr>)"

subsection \<open>initial image barrier\<close>

record init_image_barrier_command =
  iib_image_count :: u32
  iib_image_ids :: "u64 list"

definition init_image_barrier_payload :: "init_image_barrier_command \<Rightarrow> bytes result" where
  "init_image_barrier_payload command =
     (let count = iib_image_count command; ids = iib_image_ids command in
      if count = 0 \<or> count > BVB_COMMAND_VULKAN_MAX_INIT_IMAGE_BARRIERS then Inl EINVAL
      else if \<not> list_all (\<lambda>index. handle_expect (ids ! index) BVB_OBJECT_IMAGE = Inr () \<and>
                list_all (\<lambda>earlier. ids ! earlier \<noteq> ids ! index) [0..<index]) [0..<unat count] then Inl EINVAL
      else
        let payload = replicate BVB_VULKAN_INIT_IMAGE_BARRIER_SIZE 0;
            payload = put_u32 payload 0 count in
        Inr (put_each put_u64 8 payload 8 (take (unat count) ids)))"

definition append_init_image_barrier ::
  "command_batch_builder option \<Rightarrow> init_image_barrier_command option \<Rightarrow> command_batch_builder result" where
  "append_init_image_barrier builder command =
     append_command builder BVB_COMMAND_VULKAN_INIT_IMAGE_BARRIER init_image_barrier_payload command"

definition decode_init_image_barrier ::
  "command_record option \<Rightarrow> init_image_barrier_command option \<Rightarrow> init_image_barrier_command result" where
  "decode_init_image_barrier record command = nonnull2 record command (\<lambda>record _.
     if cr_opcode record \<noteq> BVB_COMMAND_VULKAN_INIT_IMAGE_BARRIER \<or>
        cr_payload_length record \<noteq> BVB_VULKAN_INIT_IMAGE_BARRIER_SIZE then Inl EINVAL
     else
       let payload = cr_payload record in
       Inr \<lparr>iib_image_count = get_u32 payload 0,
            iib_image_ids = fill_to BVB_COMMAND_VULKAN_MAX_INIT_IMAGE_BARRIERS 0
              (get_each get_u64 8 payload 8 (unat (get_u32 payload 0)))\<rparr>)"

subsection \<open>barriers\<close>

record image_barrier_2_command =
  ibc_dependency_flags :: u32
  ibc_memory_count :: u32
  ibc_buffer_count :: u32
  ibc_image_count :: u32
  ibc_memory :: "memory_barrier_2 list"
  ibc_buffers :: "buffer_barrier_2 list"
  ibc_images :: "image_barrier_2 list"

definition zero_range :: image_subresource_range where
  "zero_range = \<lparr>isr_aspect_mask = 0, isr_base_mip_level = 0, isr_level_count = 0, isr_base_array_layer = 0,
     isr_layer_count = 0\<rparr>"

definition zero_memory_barrier :: memory_barrier_2 where
  "zero_memory_barrier = \<lparr>mb2_source_stage_mask = 0, mb2_source_access_mask = 0, mb2_destination_stage_mask = 0,
     mb2_destination_access_mask = 0\<rparr>"

definition zero_buffer_barrier :: buffer_barrier_2 where
  "zero_buffer_barrier = \<lparr>bb2_source_stage_mask = 0, bb2_source_access_mask = 0, bb2_destination_stage_mask = 0,
     bb2_destination_access_mask = 0, bb2_source_queue_family_index = 0, bb2_destination_queue_family_index = 0,
     bb2_buffer_id = 0, bb2_offset = 0, bb2_size = 0\<rparr>"

definition zero_image_barrier :: image_barrier_2 where
  "zero_image_barrier = \<lparr>ib2_source_stage_mask = 0, ib2_source_access_mask = 0, ib2_destination_stage_mask = 0,
     ib2_destination_access_mask = 0, ib2_old_layout = 0, ib2_new_layout = 0, ib2_source_queue_family_index = 0,
     ib2_destination_queue_family_index = 0, ib2_image_id = 0, ib2_range = zero_range\<rparr>"

definition image_barrier_2_payload :: "image_barrier_2_command \<Rightarrow> bytes result" where
  "image_barrier_2_payload command =
     (if ibc_dependency_flags command AND NOT 0x6f \<noteq> 0 \<or>
         ibc_memory_count command > BVB_COMMAND_VULKAN_MAX_MEMORY_BARRIERS \<or>
         ibc_buffer_count command > BVB_COMMAND_VULKAN_MAX_BUFFER_BARRIERS \<or>
         ibc_image_count command > BVB_COMMAND_VULKAN_MAX_IMAGE_BARRIERS
      then Inl EINVAL
      else
        let payload = replicate BVB_VULKAN_IMAGE_BARRIER_2_MAX_SIZE 0;
            payload = put_u32 payload 0 (ibc_dependency_flags command);
            payload = put_u32 payload 4 (ibc_memory_count command);
            payload = put_u32 payload 8 (ibc_buffer_count command);
            payload = put_u32 payload 12 (ibc_image_count command);
            base = BVB_VULKAN_IMAGE_BARRIER_2_HEADER_SIZE;
            payload = put_each put_memory_barrier BVB_VULKAN_MEMORY_BARRIER_2_RECORD_SIZE payload base
              (take (unat (ibc_memory_count command)) (ibc_memory command));
            base = base + unat (ibc_memory_count command) * BVB_VULKAN_MEMORY_BARRIER_2_RECORD_SIZE;
            buffers = take (unat (ibc_buffer_count command)) (ibc_buffers command) in
        if \<not> list_all (\<lambda>barrier. handle_expect (bb2_buffer_id barrier) BVB_OBJECT_BUFFER = Inr () \<and>
                 bb2_size barrier \<noteq> 0) buffers
        then Inl EINVAL
        else
          let payload = put_each put_buffer_barrier BVB_VULKAN_BUFFER_BARRIER_2_RECORD_SIZE payload base buffers;
              base = base + unat (ibc_buffer_count command) * BVB_VULKAN_BUFFER_BARRIER_2_RECORD_SIZE;
              images = take (unat (ibc_image_count command)) (ibc_images command) in
          if \<not> list_all (\<lambda>barrier. handle_expect (ib2_image_id barrier) BVB_OBJECT_IMAGE = Inr () \<and>
                   image_range_is_valid (ib2_range barrier)) images
          then Inl EINVAL
          else
            let payload = put_each put_image_barrier BVB_VULKAN_IMAGE_BARRIER_2_RECORD_SIZE payload base images in
            Inr (take (unat (barrier_payload_size (ibc_memory_count command) (ibc_buffer_count command)
                         (ibc_image_count command))) payload))"

definition append_image_barrier_2 ::
  "command_batch_builder option \<Rightarrow> image_barrier_2_command option \<Rightarrow> command_batch_builder result" where
  "append_image_barrier_2 builder command =
     append_command builder BVB_COMMAND_VULKAN_IMAGE_BARRIER_2 image_barrier_2_payload command"

definition decode_image_barrier_2 ::
  "command_record option \<Rightarrow> image_barrier_2_command option \<Rightarrow> image_barrier_2_command result" where
  "decode_image_barrier_2 record command = nonnull2 record command (\<lambda>record _.
     if cr_opcode record \<noteq> BVB_COMMAND_VULKAN_IMAGE_BARRIER_2 \<or>
        \<not> payload_length_is_valid (cr_opcode record) (cr_payload record) (cr_payload_length record) then Inl EINVAL
     else
       let payload = cr_payload record;
           memory_count = get_u32 payload 4;
           buffer_count = get_u32 payload 8;
           image_count = get_u32 payload 12;
           memory_base = BVB_VULKAN_IMAGE_BARRIER_2_HEADER_SIZE;
           buffer_base = memory_base + unat memory_count * BVB_VULKAN_MEMORY_BARRIER_2_RECORD_SIZE;
           image_base = buffer_base + unat buffer_count * BVB_VULKAN_BUFFER_BARRIER_2_RECORD_SIZE in
       Inr \<lparr>ibc_dependency_flags = get_u32 payload 0, ibc_memory_count = memory_count,
            ibc_buffer_count = buffer_count, ibc_image_count = image_count,
            ibc_memory = fill_to BVB_COMMAND_VULKAN_MAX_MEMORY_BARRIERS zero_memory_barrier
              (get_each get_memory_barrier BVB_VULKAN_MEMORY_BARRIER_2_RECORD_SIZE payload memory_base (unat memory_count)),
            ibc_buffers = fill_to BVB_COMMAND_VULKAN_MAX_BUFFER_BARRIERS zero_buffer_barrier
              (get_each get_buffer_barrier BVB_VULKAN_BUFFER_BARRIER_2_RECORD_SIZE payload buffer_base (unat buffer_count)),
            ibc_images = fill_to BVB_COMMAND_VULKAN_MAX_IMAGE_BARRIERS zero_image_barrier
              (get_each get_image_barrier BVB_VULKAN_IMAGE_BARRIER_2_RECORD_SIZE payload image_base (unat image_count))\<rparr>)"

subsection \<open>clearing images\<close>

record clear_color_image_general_command =
  ccg_image_id :: u64
  ccg_image_layout :: u32
  ccg_range_count :: u32
  ccg_color_words :: "u32 list"
  ccg_ranges :: "image_subresource_range list"

definition clear_color_image_general_payload :: "clear_color_image_general_command \<Rightarrow> bytes result" where
  "clear_color_image_general_payload command =
     (if ccg_image_layout command = 0 \<or> ccg_range_count command = 0 \<or>
         ccg_range_count command > BVB_COMMAND_VULKAN_MAX_CLEAR_RANGES \<or>
         handle_expect (ccg_image_id command) BVB_OBJECT_IMAGE \<noteq> Inr ()
      then Inl EINVAL
      else
        let ranges = take (unat (ccg_range_count command)) (ccg_ranges command);
            payload = replicate BVB_VULKAN_CLEAR_COLOR_IMAGE_GENERAL_SIZE 0;
            payload = put_u64 payload 0 (ccg_image_id command);
            payload = put_u32 payload 8 (ccg_image_layout command);
            payload = put_u32 payload 12 (ccg_range_count command);
            payload = put_each put_u32 4 payload 16 (ccg_color_words command) in
        if \<not> list_all image_range_is_valid ranges then Inl EINVAL
        else Inr (put_each encode_image_range BVB_VULKAN_IMAGE_RANGE_SIZE payload 32 ranges))"

definition append_clear_color_image_general ::
  "command_batch_builder option \<Rightarrow> clear_color_image_general_command option \<Rightarrow> command_batch_builder result" where
  "append_clear_color_image_general builder command =
     append_command builder BVB_COMMAND_VULKAN_CLEAR_COLOR_IMAGE_GENERAL clear_color_image_general_payload command"

definition decode_clear_color_image_general ::
  "command_record option \<Rightarrow> clear_color_image_general_command option \<Rightarrow> clear_color_image_general_command result" where
  "decode_clear_color_image_general record command = nonnull2 record command (\<lambda>record _.
     if cr_opcode record \<noteq> BVB_COMMAND_VULKAN_CLEAR_COLOR_IMAGE_GENERAL \<or>
        cr_payload_length record \<noteq> BVB_VULKAN_CLEAR_COLOR_IMAGE_GENERAL_SIZE then Inl EINVAL
     else
       let payload = cr_payload record in
       Inr \<lparr>ccg_image_id = get_u64 payload 0, ccg_image_layout = get_u32 payload 8, ccg_range_count = get_u32 payload 12,
            ccg_color_words = get_each get_u32 4 payload 16 4,
            ccg_ranges = fill_to BVB_COMMAND_VULKAN_MAX_CLEAR_RANGES zero_range
              (get_each decode_image_range BVB_VULKAN_IMAGE_RANGE_SIZE payload 32 (unat (get_u32 payload 12)))\<rparr>)"

record clear_depth_stencil_image_command =
  cds_image_id :: u64
  cds_image_layout :: u32
  cds_range_count :: u32
  cds_depth_word :: u32
  cds_stencil :: u32
  cds_ranges :: "image_subresource_range list"

definition clear_depth_stencil_image_payload :: "clear_depth_stencil_image_command \<Rightarrow> bytes result" where
  "clear_depth_stencil_image_payload command =
     (if handle_expect (cds_image_id command) BVB_OBJECT_IMAGE \<noteq> Inr () \<or>
         (cds_image_layout command \<noteq> 1 \<and> cds_image_layout command \<noteq> 7) \<or> cds_range_count command = 0 \<or>
         cds_range_count command > BVB_COMMAND_VULKAN_MAX_CLEAR_RANGES \<or>
         \<not> float_word_is_finite (cds_depth_word command)
      then Inl EINVAL
      else
        let ranges = take (unat (cds_range_count command)) (cds_ranges command);
            payload = replicate BVB_VULKAN_CLEAR_DEPTH_STENCIL_IMAGE_SIZE 0;
            payload = put_u64 payload 0 (cds_image_id command);
            payload = put_u32 payload 8 (cds_image_layout command);
            payload = put_u32 payload 12 (cds_range_count command);
            payload = put_u32 payload 16 (cds_depth_word command);
            payload = put_u32 payload 20 (cds_stencil command) in
        if \<not> list_all (\<lambda>rng. image_range_is_valid rng \<and> isr_aspect_mask rng AND NOT 6 = 0) ranges then Inl EINVAL
        else Inr (put_each encode_image_range BVB_VULKAN_IMAGE_RANGE_SIZE payload 24 ranges))"

definition append_clear_depth_stencil_image ::
  "command_batch_builder option \<Rightarrow> clear_depth_stencil_image_command option \<Rightarrow> command_batch_builder result" where
  "append_clear_depth_stencil_image builder command =
     append_command builder BVB_COMMAND_VULKAN_CLEAR_DEPTH_STENCIL_IMAGE clear_depth_stencil_image_payload command"

definition decode_clear_depth_stencil_image ::
  "command_record option \<Rightarrow> clear_depth_stencil_image_command option \<Rightarrow> clear_depth_stencil_image_command result" where
  "decode_clear_depth_stencil_image record command = nonnull2 record command (\<lambda>record _.
     if cr_opcode record \<noteq> BVB_COMMAND_VULKAN_CLEAR_DEPTH_STENCIL_IMAGE \<or>
        cr_payload_length record \<noteq> BVB_VULKAN_CLEAR_DEPTH_STENCIL_IMAGE_SIZE then Inl EINVAL
     else
       let payload = cr_payload record in
       if get_u32 payload 12 > BVB_COMMAND_VULKAN_MAX_CLEAR_RANGES then Inl EPROTO
       else
         Inr \<lparr>cds_image_id = get_u64 payload 0, cds_image_layout = get_u32 payload 8, cds_range_count = get_u32 payload 12,
              cds_depth_word = get_u32 payload 16, cds_stencil = get_u32 payload 20,
              cds_ranges = fill_to BVB_COMMAND_VULKAN_MAX_CLEAR_RANGES zero_range
                (get_each decode_image_range BVB_VULKAN_IMAGE_RANGE_SIZE payload 24 (unat (get_u32 payload 12)))\<rparr>)"

record clear_attachments_command =
  cat_attachment_count :: u32
  cat_rect_count :: u32
  cat_attachments :: "clear_attachment list"
  cat_rects :: "clear_rect list"

definition zero_clear_attachment :: clear_attachment where
  "zero_clear_attachment = \<lparr>ca_aspect_mask = 0, ca_color_attachment = 0, ca_clear_words = replicate 4 0\<rparr>"

definition zero_clear_rect :: clear_rect where
  "zero_clear_rect = \<lparr>cre_offset_x = 0, cre_offset_y = 0, cre_width = 0, cre_height = 0, cre_base_array_layer = 0,
     cre_layer_count = 0\<rparr>"

definition clear_attachments_payload :: "clear_attachments_command \<Rightarrow> bytes result" where
  "clear_attachments_payload command =
     (if cat_attachment_count command = 0 \<or>
         cat_attachment_count command > BVB_COMMAND_VULKAN_MAX_CLEAR_ATTACHMENTS \<or>
         cat_rect_count command = 0 \<or> cat_rect_count command > BVB_COMMAND_VULKAN_MAX_CLEAR_RECTS
      then Inl EINVAL
      else
        let attachments = take (unat (cat_attachment_count command)) (cat_attachments command);
            rects = take (unat (cat_rect_count command)) (cat_rects command);
            payload = replicate BVB_VULKAN_CLEAR_ATTACHMENTS_SIZE 0;
            payload = put_u32 payload 0 (cat_attachment_count command);
            payload = put_u32 payload 4 (cat_rect_count command);
            rect_base = 8 + BVB_COMMAND_VULKAN_MAX_CLEAR_ATTACHMENTS * BVB_VULKAN_CLEAR_ATTACHMENT_SIZE in
        if \<not> list_all (\<lambda>attachment. ca_aspect_mask attachment \<noteq> 0 \<and> ca_aspect_mask attachment AND NOT 7 = 0) attachments
        then Inl EINVAL
        else
          let payload = put_each put_clear_attachment BVB_VULKAN_CLEAR_ATTACHMENT_SIZE payload 8 attachments in
          if \<not> list_all (\<lambda>rect. cre_width rect \<noteq> 0 \<and> cre_height rect \<noteq> 0 \<and> cre_layer_count rect \<noteq> 0) rects
          then Inl EINVAL
          else Inr (put_each put_clear_rect BVB_VULKAN_CLEAR_RECT_SIZE payload rect_base rects))"

definition append_clear_attachments ::
  "command_batch_builder option \<Rightarrow> clear_attachments_command option \<Rightarrow> command_batch_builder result" where
  "append_clear_attachments builder command =
     append_command builder BVB_COMMAND_VULKAN_CLEAR_ATTACHMENTS clear_attachments_payload command"

definition decode_clear_attachments ::
  "command_record option \<Rightarrow> clear_attachments_command option \<Rightarrow> clear_attachments_command result" where
  "decode_clear_attachments record command = nonnull2 record command (\<lambda>record _.
     if cr_opcode record \<noteq> BVB_COMMAND_VULKAN_CLEAR_ATTACHMENTS \<or>
        cr_payload_length record \<noteq> BVB_VULKAN_CLEAR_ATTACHMENTS_SIZE then Inl EINVAL
     else
       let payload = cr_payload record;
           rect_base = 8 + BVB_COMMAND_VULKAN_MAX_CLEAR_ATTACHMENTS * BVB_VULKAN_CLEAR_ATTACHMENT_SIZE in
       if get_u32 payload 0 > BVB_COMMAND_VULKAN_MAX_CLEAR_ATTACHMENTS \<or>
          get_u32 payload 4 > BVB_COMMAND_VULKAN_MAX_CLEAR_RECTS then Inl EPROTO
       else
         Inr \<lparr>cat_attachment_count = get_u32 payload 0, cat_rect_count = get_u32 payload 4,
              cat_attachments = fill_to BVB_COMMAND_VULKAN_MAX_CLEAR_ATTACHMENTS zero_clear_attachment
                (get_each get_clear_attachment BVB_VULKAN_CLEAR_ATTACHMENT_SIZE payload 8 (unat (get_u32 payload 0))),
              cat_rects = fill_to BVB_COMMAND_VULKAN_MAX_CLEAR_RECTS zero_clear_rect
                (get_each get_clear_rect BVB_VULKAN_CLEAR_RECT_SIZE payload rect_base (unat (get_u32 payload 4)))\<rparr>)"

subsection \<open>descriptor sets and push constants\<close>

record bind_descriptor_sets_command =
  bds_pipeline_layout_id :: u64
  bds_pipeline_bind_point :: u32
  bds_first_set :: u32
  bds_descriptor_set_count :: u32
  bds_dynamic_offset_count :: u32
  bds_descriptor_set_ids :: "u64 list"
  bds_dynamic_offsets :: "u32 list"

definition bind_descriptor_sets_payload :: "bind_descriptor_sets_command \<Rightarrow> bytes result" where
  "bind_descriptor_sets_payload command =
     (if handle_expect (bds_pipeline_layout_id command) BVB_OBJECT_PIPELINE_LAYOUT \<noteq> Inr () \<or>
         bds_pipeline_bind_point command > 1 \<or> bds_descriptor_set_count command = 0 \<or>
         bds_descriptor_set_count command > BVB_COMMAND_VULKAN_MAX_BOUND_DESCRIPTOR_SETS \<or>
         bds_dynamic_offset_count command > BVB_COMMAND_VULKAN_MAX_DYNAMIC_OFFSETS
      then Inl EINVAL
      else
        let ids = take (unat (bds_descriptor_set_count command)) (bds_descriptor_set_ids command);
            payload = replicate BVB_VULKAN_BIND_DESCRIPTOR_SETS_SIZE 0;
            payload = put_u64 payload 0 (bds_pipeline_layout_id command);
            payload = put_u32 payload 8 (bds_pipeline_bind_point command);
            payload = put_u32 payload 12 (bds_first_set command);
            payload = put_u32 payload 16 (bds_descriptor_set_count command);
            payload = put_u32 payload 20 (bds_dynamic_offset_count command) in
        if \<not> list_all (\<lambda>i. handle_expect i BVB_OBJECT_DESCRIPTOR_SET = Inr ()) ids then Inl EINVAL
        else
          let payload = put_each put_u64 8 payload 24 ids;
              cursor = 24 + BVB_COMMAND_VULKAN_MAX_BOUND_DESCRIPTOR_SETS * 8 in
          Inr (put_each put_u32 4 payload cursor
            (take (unat (bds_dynamic_offset_count command)) (bds_dynamic_offsets command))))"

definition append_bind_descriptor_sets ::
  "command_batch_builder option \<Rightarrow> bind_descriptor_sets_command option \<Rightarrow> command_batch_builder result" where
  "append_bind_descriptor_sets builder command =
     append_command builder BVB_COMMAND_VULKAN_BIND_DESCRIPTOR_SETS bind_descriptor_sets_payload command"

definition decode_bind_descriptor_sets ::
  "command_record option \<Rightarrow> bind_descriptor_sets_command option \<Rightarrow> bind_descriptor_sets_command result" where
  "decode_bind_descriptor_sets record command = nonnull2 record command (\<lambda>record _.
     if cr_opcode record \<noteq> BVB_COMMAND_VULKAN_BIND_DESCRIPTOR_SETS \<or>
        cr_payload_length record \<noteq> BVB_VULKAN_BIND_DESCRIPTOR_SETS_SIZE then Inl EINVAL
     else
       let payload = cr_payload record;
           offsets = 24 + BVB_COMMAND_VULKAN_MAX_BOUND_DESCRIPTOR_SETS * 8 in
       Inr \<lparr>bds_pipeline_layout_id = get_u64 payload 0, bds_pipeline_bind_point = get_u32 payload 8,
            bds_first_set = get_u32 payload 12, bds_descriptor_set_count = get_u32 payload 16,
            bds_dynamic_offset_count = get_u32 payload 20,
            bds_descriptor_set_ids = fill_to BVB_COMMAND_VULKAN_MAX_BOUND_DESCRIPTOR_SETS 0
              (get_each get_u64 8 payload 24 (unat (get_u32 payload 16))),
            bds_dynamic_offsets = fill_to BVB_COMMAND_VULKAN_MAX_DYNAMIC_OFFSETS 0
              (get_each get_u32 4 payload offsets (unat (get_u32 payload 20)))\<rparr>)"

record push_constants_command =
  puc_pipeline_layout_id :: u64
  puc_stage_flags :: u32
  puc_offset :: u32
  puc_size :: u32
  puc_data :: bytes

definition push_constants_payload :: "push_constants_command \<Rightarrow> bytes result" where
  "push_constants_payload command =
     (if puc_stage_flags command = 0 \<or> puc_size command = 0 \<or>
         puc_size command > BVB_COMMAND_VULKAN_MAX_PUSH_CONSTANT_BYTES \<or>
         puc_offset command AND 3 \<noteq> 0 \<or> puc_size command AND 3 \<noteq> 0 \<or>
         puc_offset command > BVB_COMMAND_VULKAN_MAX_PUSH_CONSTANT_BYTES - puc_size command \<or>
         handle_expect (puc_pipeline_layout_id command) BVB_OBJECT_PIPELINE_LAYOUT \<noteq> Inr ()
      then Inl EINVAL
      else
        let payload = replicate BVB_VULKAN_PUSH_CONSTANTS_SIZE 0;
            payload = put_u64 payload 0 (puc_pipeline_layout_id command);
            payload = put_u32 payload 8 (puc_stage_flags command);
            payload = put_u32 payload 12 (puc_offset command);
            payload = put_u32 payload 16 (puc_size command) in
        Inr (memcpy payload 24 (puc_data command) (unat (puc_size command))))"

definition append_push_constants ::
  "command_batch_builder option \<Rightarrow> push_constants_command option \<Rightarrow> command_batch_builder result" where
  "append_push_constants builder command =
     append_command builder BVB_COMMAND_VULKAN_PUSH_CONSTANTS push_constants_payload command"

definition decode_push_constants ::
  "command_record option \<Rightarrow> push_constants_command option \<Rightarrow> push_constants_command result" where
  "decode_push_constants record command = nonnull2 record command (\<lambda>record _.
     if cr_opcode record \<noteq> BVB_COMMAND_VULKAN_PUSH_CONSTANTS \<or>
        cr_payload_length record \<noteq> BVB_VULKAN_PUSH_CONSTANTS_SIZE then Inl EINVAL
     else
       let payload = cr_payload record in
       Inr \<lparr>puc_pipeline_layout_id = get_u64 payload 0, puc_stage_flags = get_u32 payload 8,
            puc_offset = get_u32 payload 12, puc_size = get_u32 payload 16,
            puc_data = fill_to BVB_COMMAND_VULKAN_MAX_PUSH_CONSTANT_BYTES 0
              (get_bytes payload 24 (unat (get_u32 payload 16)))\<rparr>)"

subsection \<open>transfers\<close>

record transfer_command =
  tfc_source_id :: u64
  tfc_destination_id :: u64
  tfc_source_layout :: u32
  tfc_destination_layout :: u32
  tfc_filter :: u32
  tfc_region_count :: u32
  tfc_regions :: "transfer_region list"

definition zero_layers :: image_subresource_layers where
  "zero_layers = \<lparr>isl_aspect_mask = 0, isl_mip_level = 0, isl_base_array_layer = 0, isl_layer_count = 0\<rparr>"

definition zero_offset :: offset_3d where
  "zero_offset = \<lparr>off_x = 0, off_y = 0, off_z = 0\<rparr>"

definition zero_region :: transfer_region where
  "zero_region = \<lparr>tr_source_buffer_offset = 0, tr_destination_buffer_offset = 0, tr_size = 0, tr_buffer_row_length = 0,
     tr_buffer_image_height = 0, tr_source_layers = zero_layers, tr_destination_layers = zero_layers,
     tr_source_offset_0 = zero_offset, tr_source_offset_1 = zero_offset, tr_destination_offset_0 = zero_offset,
     tr_destination_offset_1 = zero_offset, tr_extent = \<lparr>ext_width = 0, ext_height = 0, ext_depth = 0\<rparr>\<rparr>"

text \<open>What the loop refuses a region for; \<open>source_is_buffer\<close> and \<open>destination_is_buffer\<close> are the two constants of the function.\<close>

definition transfer_region_is_valid :: "u16 \<Rightarrow> transfer_region \<Rightarrow> bool" where
  "transfer_region_is_valid opcode region \<longleftrightarrow>
     (let buffer_copy = opcode = BVB_COMMAND_VULKAN_COPY_BUFFER_2 in
      \<not> ((buffer_copy \<and> tr_size region = 0) \<or>
         (\<not> buffer_copy \<and> (ext_width (tr_extent region) = 0 \<or> ext_height (tr_extent region) = 0 \<or>
                           ext_depth (tr_extent region) = 0)) \<or>
         (\<not> source_is_buffer opcode \<and> \<not> transfer_layers_are_valid (tr_source_layers region)) \<or>
         (\<not> destination_is_buffer opcode \<and> \<not> transfer_layers_are_valid (tr_destination_layers region))))"

definition transfer_payload :: "u16 \<Rightarrow> transfer_command \<Rightarrow> bytes result" where
  "transfer_payload opcode command =
     (if \<not> transfer_opcode_is_valid opcode \<or> tfc_region_count command = 0 \<or>
         tfc_region_count command > BVB_COMMAND_VULKAN_MAX_TRANSFER_REGIONS then Inl EINVAL
      else if handle_expect (tfc_source_id command)
                (if source_is_buffer opcode then BVB_OBJECT_BUFFER else BVB_OBJECT_IMAGE) \<noteq> Inr () \<or>
              handle_expect (tfc_destination_id command)
                (if destination_is_buffer opcode then BVB_OBJECT_BUFFER else BVB_OBJECT_IMAGE) \<noteq> Inr () \<or>
              (\<not> source_is_buffer opcode \<and> tfc_source_layout command = 0) \<or>
              (\<not> destination_is_buffer opcode \<and> tfc_destination_layout command = 0) \<or>
              (opcode = BVB_COMMAND_VULKAN_BLIT_IMAGE_2 \<and> tfc_filter command > 1)
      then Inl EINVAL
      else
        let regions = take (unat (tfc_region_count command)) (tfc_regions command);
            payload = replicate BVB_VULKAN_TRANSFER_MAX_SIZE 0;
            payload = put_u64 payload 0 (tfc_source_id command);
            payload = put_u64 payload 8 (tfc_destination_id command);
            payload = put_u32 payload 16 (tfc_source_layout command);
            payload = put_u32 payload 20 (tfc_destination_layout command);
            payload = put_u32 payload 24 (tfc_filter command);
            payload = put_u32 payload 28 (tfc_region_count command) in
        if \<not> list_all (transfer_region_is_valid opcode) regions then Inl EINVAL
        else
          let payload = put_each put_transfer_region BVB_VULKAN_TRANSFER_REGION_SIZE payload
                BVB_VULKAN_TRANSFER_HEADER_SIZE regions in
          Inr (take (unat (transfer_payload_size (tfc_region_count command))) payload))"

definition append_transfer ::
  "command_batch_builder option \<Rightarrow> u16 \<Rightarrow> transfer_command option \<Rightarrow> command_batch_builder result" where
  "append_transfer builder opcode command = append_command builder opcode (transfer_payload opcode) command"

definition decode_transfer :: "command_record option \<Rightarrow> transfer_command option \<Rightarrow> transfer_command result" where
  "decode_transfer record command = nonnull2 record command (\<lambda>record _.
     if \<not> transfer_opcode_is_valid (cr_opcode record) \<or>
        \<not> payload_length_is_valid (cr_opcode record) (cr_payload record) (cr_payload_length record) then Inl EINVAL
     else
       let payload = cr_payload record in
       Inr \<lparr>tfc_source_id = get_u64 payload 0, tfc_destination_id = get_u64 payload 8,
            tfc_source_layout = get_u32 payload 16, tfc_destination_layout = get_u32 payload 20,
            tfc_filter = get_u32 payload 24, tfc_region_count = get_u32 payload 28,
            tfc_regions = fill_to BVB_COMMAND_VULKAN_MAX_TRANSFER_REGIONS zero_region
              (get_each get_transfer_region BVB_VULKAN_TRANSFER_REGION_SIZE payload BVB_VULKAN_TRANSFER_HEADER_SIZE
                 (unat (get_u32 payload 28)))\<rparr>)"

subsection \<open>vertex buffers, dynamic state, buffer updates\<close>

record bind_vertex_buffers_command =
  bvb_first_binding :: u32
  bvb_binding_count :: u32
  bvb_has_sizes :: u32
  bvb_has_strides :: u32
  bvb_buffer_ids :: "u64 list"
  bvb_offsets :: "u64 list"
  bvb_sizes :: "u64 list"
  bvb_strides :: "u64 list"

text \<open>The four arrays lie one after the other; a round of the loop stores one entry of each.\<close>

definition bind_vertex_buffers_payload :: "u16 \<Rightarrow> bind_vertex_buffers_command \<Rightarrow> bytes result" where
  "bind_vertex_buffers_payload opcode command =
     (if (opcode \<noteq> BVB_COMMAND_VULKAN_BIND_VERTEX_BUFFERS \<and> opcode \<noteq> BVB_COMMAND_VULKAN_BIND_VERTEX_BUFFERS_2) \<or>
         bvb_binding_count command = 0 \<or> bvb_binding_count command > BVB_COMMAND_VULKAN_MAX_VERTEX_BINDINGS \<or>
         bvb_has_sizes command > 1 \<or> bvb_has_strides command > 1 \<or>
         (opcode = BVB_COMMAND_VULKAN_BIND_VERTEX_BUFFERS \<and>
          (bvb_has_sizes command \<noteq> 0 \<or> bvb_has_strides command \<noteq> 0))
      then Inl EINVAL
      else
        let count = unat (bvb_binding_count command);
            payload = replicate BVB_VULKAN_BIND_VERTEX_BUFFERS_SIZE 0;
            payload = put_u32 payload 0 (bvb_first_binding command);
            payload = put_u32 payload 4 (bvb_binding_count command);
            payload = put_u32 payload 8 (bvb_has_sizes command);
            payload = put_u32 payload 12 (bvb_has_strides command);
            ids = 16;
            offsets = ids + BVB_COMMAND_VULKAN_MAX_VERTEX_BINDINGS * 8;
            sizes = offsets + BVB_COMMAND_VULKAN_MAX_VERTEX_BINDINGS * 8;
            strides = sizes + BVB_COMMAND_VULKAN_MAX_VERTEX_BINDINGS * 8 in
        if \<not> list_all (\<lambda>i. i = 0 \<or> handle_expect i BVB_OBJECT_BUFFER = Inr ()) (take count (bvb_buffer_ids command))
        then Inl EINVAL
        else
          let payload = put_each put_u64 8 payload ids (take count (bvb_buffer_ids command));
              payload = put_each put_u64 8 payload offsets (take count (bvb_offsets command));
              payload = (if bvb_has_sizes command \<noteq> 0
                then put_each put_u64 8 payload sizes (take count (bvb_sizes command)) else payload);
              payload = (if bvb_has_strides command \<noteq> 0
                then put_each put_u64 8 payload strides (take count (bvb_strides command)) else payload) in
          Inr payload)"

definition append_bind_vertex_buffers ::
  "command_batch_builder option \<Rightarrow> u16 \<Rightarrow> bind_vertex_buffers_command option \<Rightarrow> command_batch_builder result" where
  "append_bind_vertex_buffers builder opcode command =
     append_command builder opcode (bind_vertex_buffers_payload opcode) command"

definition decode_bind_vertex_buffers ::
  "command_record option \<Rightarrow> bind_vertex_buffers_command option \<Rightarrow> bind_vertex_buffers_command result" where
  "decode_bind_vertex_buffers record command = nonnull2 record command (\<lambda>record _.
     if (cr_opcode record \<noteq> BVB_COMMAND_VULKAN_BIND_VERTEX_BUFFERS \<and>
         cr_opcode record \<noteq> BVB_COMMAND_VULKAN_BIND_VERTEX_BUFFERS_2) \<or>
        cr_payload_length record \<noteq> BVB_VULKAN_BIND_VERTEX_BUFFERS_SIZE then Inl EINVAL
     else
       let payload = cr_payload record;
           ids = 16;
           offsets = ids + BVB_COMMAND_VULKAN_MAX_VERTEX_BINDINGS * 8;
           sizes = offsets + BVB_COMMAND_VULKAN_MAX_VERTEX_BINDINGS * 8;
           strides = sizes + BVB_COMMAND_VULKAN_MAX_VERTEX_BINDINGS * 8;
           entries = (\<lambda>at. fill_to BVB_COMMAND_VULKAN_MAX_VERTEX_BINDINGS 0
             (get_each get_u64 8 payload at (unat (get_u32 payload 4)))) in
       Inr \<lparr>bvb_first_binding = get_u32 payload 0, bvb_binding_count = get_u32 payload 4,
            bvb_has_sizes = get_u32 payload 8, bvb_has_strides = get_u32 payload 12,
            bvb_buffer_ids = entries ids, bvb_offsets = entries offsets,
            bvb_sizes = entries sizes, bvb_strides = entries strides\<rparr>)"

record dynamic_state_command =
  dys_kind :: u32
  dys_value_count :: u32
  dys_values :: "u32 list"

definition dynamic_state_payload :: "dynamic_state_command \<Rightarrow> bytes result" where
  "dynamic_state_payload command =
     (if dys_value_count command > BVB_COMMAND_VULKAN_MAX_DYNAMIC_STATE_VALUES then Inl EINVAL
      else
        let payload = replicate BVB_VULKAN_DYNAMIC_STATE_SIZE 0;
            payload = put_u32 payload 0 (dys_kind command);
            payload = put_u32 payload 4 (dys_value_count command);
            payload = put_each put_u32 4 payload 8 (take (unat (dys_value_count command)) (dys_values command)) in
        if validate_payload BVB_COMMAND_VULKAN_DYNAMIC_STATE payload \<noteq> Inr () then Inl EINVAL
        else Inr payload)"

definition append_dynamic_state ::
  "command_batch_builder option \<Rightarrow> dynamic_state_command option \<Rightarrow> command_batch_builder result" where
  "append_dynamic_state builder command =
     append_command builder BVB_COMMAND_VULKAN_DYNAMIC_STATE dynamic_state_payload command"

definition decode_dynamic_state ::
  "command_record option \<Rightarrow> dynamic_state_command option \<Rightarrow> dynamic_state_command result" where
  "decode_dynamic_state record command = nonnull2 record command (\<lambda>record _.
     if cr_opcode record \<noteq> BVB_COMMAND_VULKAN_DYNAMIC_STATE \<or>
        cr_payload_length record \<noteq> BVB_VULKAN_DYNAMIC_STATE_SIZE then Inl EINVAL
     else
       let payload = cr_payload record in
       if get_u32 payload 4 > BVB_COMMAND_VULKAN_MAX_DYNAMIC_STATE_VALUES then Inl EPROTO
       else
         Inr \<lparr>dys_kind = get_u32 payload 0, dys_value_count = get_u32 payload 4,
              dys_values = fill_to BVB_COMMAND_VULKAN_MAX_DYNAMIC_STATE_VALUES 0
                (get_each get_u32 4 payload 8 (unat (get_u32 payload 4)))\<rparr>)"

record update_buffer_command =
  upb_buffer_id :: u64
  upb_offset :: u64
  upb_data_size :: u32
  upb_data :: bytes

definition update_buffer_payload :: "update_buffer_command \<Rightarrow> bytes result" where
  "update_buffer_payload command =
     (if handle_expect (upb_buffer_id command) BVB_OBJECT_BUFFER \<noteq> Inr () \<or> upb_data_size command = 0 \<or>
         upb_data_size command > BVB_COMMAND_VULKAN_MAX_UPDATE_BUFFER_BYTES \<or>
         upb_offset command AND 3 \<noteq> 0 \<or> upb_data_size command AND 3 \<noteq> 0
      then Inl EINVAL
      else
        let payload = replicate BVB_VULKAN_UPDATE_BUFFER_MAX_SIZE 0;
            payload = put_u64 payload 0 (upb_buffer_id command);
            payload = put_u64 payload 8 (upb_offset command);
            payload = put_u32 payload 16 (upb_data_size command);
            payload = put_u32 payload 20 0;
            payload = memcpy payload BVB_VULKAN_UPDATE_BUFFER_HEADER_SIZE (upb_data command)
              (unat (upb_data_size command)) in
        Inr (take (unat (BVB_VULKAN_UPDATE_BUFFER_HEADER_SIZE + upb_data_size command)) payload))"

definition append_update_buffer ::
  "command_batch_builder option \<Rightarrow> update_buffer_command option \<Rightarrow> command_batch_builder result" where
  "append_update_buffer builder command =
     append_command builder BVB_COMMAND_VULKAN_UPDATE_BUFFER update_buffer_payload command"

definition decode_update_buffer ::
  "command_record option \<Rightarrow> update_buffer_command option \<Rightarrow> update_buffer_command result" where
  "decode_update_buffer record command = nonnull2 record command (\<lambda>record _.
     if cr_opcode record \<noteq> BVB_COMMAND_VULKAN_UPDATE_BUFFER \<or>
        \<not> payload_length_is_valid (cr_opcode record) (cr_payload record) (cr_payload_length record) then Inl EINVAL
     else
       let payload = cr_payload record in
       Inr \<lparr>upb_buffer_id = get_u64 payload 0, upb_offset = get_u64 payload 8, upb_data_size = get_u32 payload 16,
            upb_data = fill_to BVB_COMMAND_VULKAN_MAX_UPDATE_BUFFER_BYTES 0
              (get_bytes payload BVB_VULKAN_UPDATE_BUFFER_HEADER_SIZE (unat (get_u32 payload 16)))\<rparr>)"

end
