(* ===== verification/Command_Contracts.thy ===== *)
theory Command_Contracts
  imports Command_Arrays
begin

unbundle bit_operations_syntax

section \<open>The contract of the commands with arrays\<close>

text \<open>
  That the append and decode functions of the commands with arrays keep the contract: each is an
  interpretation of \<open>command_codec\<close>. The shape of a command is that its arrays have the length they are
  declared with; what the receiver gets has zero entries beyond the counts.
\<close>

subsection \<open>Reading a payload\<close>

lemma get_each_nth: "i < n \<Longrightarrow> get_each g s b at n ! i = g b (at + i * s)"
  by (simp add: get_each_def)

lemma array_entry:
  "i < length xs \<Longrightarrow> at + length xs * 4 \<le> length b \<Longrightarrow> get_u32 (put_each put_u32 4 b at xs) (at + i * 4) = xs ! i"
  "i < length ys \<Longrightarrow> at + length ys * 8 \<le> length b \<Longrightarrow> get_u64 (put_each put_u64 8 b at ys) (at + i * 8) = ys ! i"
proof -
  assume "i < length xs" "at + length xs * 4 \<le> length b"
  then show "get_u32 (put_each put_u32 4 b at xs) (at + i * 4) = xs ! i"
    using arg_cong [where f = "\<lambda>l. l ! i", OF get_put_each_fields(1) [OF _ refl, of at xs b]] by (simp add: get_each_def)
next
  assume "i < length ys" "at + length ys * 8 \<le> length b"
  then show "get_u64 (put_each put_u64 8 b at ys) (at + i * 8) = ys ! i"
    using arg_cong [where f = "\<lambda>l. l ! i", OF get_put_each_fields(2) [OF _ refl, of at ys b]] by (simp add: get_each_def)
qed

lemma zero_checks:
  "zeros b i j \<Longrightarrow> i \<le> at \<Longrightarrow> at + n \<le> j \<Longrightarrow> bytes_are_zero b at n"
  "zeros b i j \<Longrightarrow> i \<le> at \<Longrightarrow> at + 24 \<le> j \<Longrightarrow> image_range_wire_is_zero b at"
  by (auto simp: bytes_are_zero_def image_range_wire_is_zero_def list_all_iff intro!: zeros_nth zeros_reads)

text \<open>A decoder is given the payload and what follows it.\<close>

lemma field_left:
  "at + 24 \<le> length a \<Longrightarrow> decode_image_range (a @ c) at = decode_image_range a at"
  "at + 32 \<le> length a \<Longrightarrow> get_memory_barrier (a @ c) at = get_memory_barrier a at"
  "at + 64 \<le> length a \<Longrightarrow> get_buffer_barrier (a @ c) at = get_buffer_barrier a at"
  "at + 80 \<le> length a \<Longrightarrow> get_image_barrier (a @ c) at = get_image_barrier a at"
  "at + 128 \<le> length a \<Longrightarrow> get_transfer_region (a @ c) at = get_transfer_region a at"
  "at + 24 \<le> length a \<Longrightarrow> get_clear_attachment (a @ c) at = get_clear_attachment a at"
  "at + 24 \<le> length a \<Longrightarrow> get_clear_rect (a @ c) at = get_clear_rect a at"
  by (simp_all add: field_defs get_append get_each_prefix)

lemma array_left [wire_simps]:
  "at + n * 8 \<le> length a \<Longrightarrow> get_each get_u64 8 (a @ c) at n = get_each get_u64 8 a at n"
  "at + n * 4 \<le> length a \<Longrightarrow> get_each get_u32 4 (a @ c) at n = get_each get_u32 4 a at n"
  "at + n * 56 \<le> length a \<Longrightarrow> get_each decode_rendering_attachment 56 (a @ c) at n = get_each decode_rendering_attachment 56 a at n"
  "at + n * 24 \<le> length a \<Longrightarrow> get_each decode_image_range 24 (a @ c) at n = get_each decode_image_range 24 a at n"
  "at + n * 32 \<le> length a \<Longrightarrow> get_each get_memory_barrier 32 (a @ c) at n = get_each get_memory_barrier 32 a at n"
  "at + n * 64 \<le> length a \<Longrightarrow> get_each get_buffer_barrier 64 (a @ c) at n = get_each get_buffer_barrier 64 a at n"
  "at + n * 80 \<le> length a \<Longrightarrow> get_each get_image_barrier 80 (a @ c) at n = get_each get_image_barrier 80 a at n"
  "at + n * 128 \<le> length a \<Longrightarrow> get_each get_transfer_region 128 (a @ c) at n = get_each get_transfer_region 128 a at n"
  "at + n * 24 \<le> length a \<Longrightarrow> get_each get_clear_attachment 24 (a @ c) at n = get_each get_clear_attachment 24 a at n"
  "at + n * 24 \<le> length a \<Longrightarrow> get_each get_clear_rect 24 (a @ c) at n = get_each get_clear_rect 24 a at n"
  by (rule get_each_append_left [OF _ order_refl]; simp add: get_append prefix_reads field_left)+

text \<open>What makes a decoder succeed on a valid record.\<close>

lemmas decode_total_simps = payload_ok_def payload_length_is_valid_def expected_payload_size_def transfer_opcode_is_valid_def
  Let_def not_less word_le_nat_alt

text \<open>Fields next to an array of structures.\<close>

lemma reads_each_u32: "w = n * 4 \<Longrightarrow> reads w (\<lambda>b at. get_each get_u32 4 b at n)"
  by (rule readsI) (auto simp: get_each_def agree_reads)

lemmas beside_rules =
  attachment_field.read_other_array range_field.read_other_array memory_barrier_field.read_other_array
  buffer_barrier_field.read_other_array image_barrier_field.read_other_array region_field.read_other_array
  clear_attachment_field.read_other_array clear_rect_field.read_other_array

lemmas beside_structures =
  beside_rules [OF reads_u32] beside_rules [OF reads_u64]

subsection \<open>initial image barrier\<close>

lemma init_image_barrier_payload_facts:
  assumes "length (iib_image_ids c) = 4" "init_image_barrier_payload c = Inr p"
  shows "length p = 40 \<and> unat (iib_image_count c) \<le> 4 \<and> init_image_barrier_ok p \<and> get_u32 p 0 = iib_image_count c \<and>
    get_each get_u64 8 p 8 (unat (iib_image_count c)) = take (unat (iib_image_count c)) (iib_image_ids c)"
proof -
  let ?n = "unat (iib_image_count c)"
  define xs where "xs = take ?n (iib_image_ids c)"
  define b where "b = put_u32 (replicate 40 0 :: bytes) 0 (iib_image_count c)"
  have n: "iib_image_count c \<noteq> 0" "iib_image_count c \<le> 4" and p: "p = put_each put_u64 8 b 8 xs"
    and ids: "\<And>i. i < ?n \<Longrightarrow> handle_expect (iib_image_ids c ! i) BVB_OBJECT_IMAGE = Inr ()"
      "\<And>i j. i < ?n \<Longrightarrow> j < i \<Longrightarrow> iib_image_ids c ! j \<noteq> iib_image_ids c ! i"
    using assms by (auto simp: init_image_barrier_payload_def Let_def xs_def b_def list_all_iff split: if_splits)
  have len: "length xs = ?n" "?n \<le> 4" "length b = 40" using n assms(1) by (simp_all add: xs_def b_def word_le_nat_alt)
  have entry: "get_u64 p (8 + i * 8) = iib_image_ids c ! i" if "i < ?n" for i
    using that len array_entry(2) [of i xs 8 b] by (simp add: p xs_def)
  have zero: "get_u64 p (8 + i * 8) = 0" if "?n \<le> i" "i < 4" for i
    using that len by (simp add: p get_beside_array) (simp add: b_def wire_simps)
  have head: "get_u32 p 0 = iib_image_count c" "get_u32 p 4 = 0"
    using len by (simp_all add: p wire_simps) (simp_all add: b_def wire_simps)
  have "init_image_barrier_ok p"
    unfolding init_image_barrier_ok_def Let_def head
    using n ids entry zero by (auto simp: list_all_iff dest!: ids(2) [rotated])
  moreover have "get_each get_u64 8 p 8 ?n = xs" using len by (simp add: p wire_simps)
  ultimately show ?thesis using head len by (simp add: p xs_def)
qed

interpretation init_image_barrier_command: command_codec BVB_COMMAND_VULKAN_INIT_IMAGE_BARRIER
    "\<lambda>c. length (iib_image_ids c) = 4"
    "\<lambda>c. c\<lparr>iib_image_ids := fill_to 4 0 (take (unat (iib_image_count c)) (iib_image_ids c))\<rparr>"
    init_image_barrier_payload decode_init_image_barrier
proof (rule command_codecI)
  fix c p rest d
  assume c: "length (iib_image_ids c) = 4" "init_image_barrier_payload c = Inr p"
  note facts = init_image_barrier_payload_facts [OF c]
  show "record_ok (BVB_COMMAND_VULKAN_INIT_IMAGE_BARRIER, p)" using facts by (simp add: flat_command_simps)
  show "decode_init_image_barrier (Some (record_at BVB_COMMAND_VULKAN_INIT_IMAGE_BARRIER p rest)) (Some d) =
      Inr (c\<lparr>iib_image_ids := fill_to 4 0 (take (unat (iib_image_count c)) (iib_image_ids c))\<rparr>)"
    using facts by (auto simp: decode_init_image_barrier_def Let_def wire_simps)
qed (auto simp: decode_total_simps decode_init_image_barrier_def init_image_barrier_ok_def)

subsection \<open>clearing images\<close>

lemma reads_range_checks:
  "reads 24 (\<lambda>b at. validate_image_range_wire b at = Inr ())"
  "reads 24 (\<lambda>b at. P (get_u32 b at))"
  by (rule readsI, simp add: validate_image_range_wire_def agree_reads agree_reads_0)+

lemma range_entry:
  assumes "list_all image_range_is_valid xs" "at + length xs * 24 \<le> length b" "i < length xs"
  shows "validate_image_range_wire (put_each encode_image_range 24 b at xs) (at + i * 24) = Inr ()"
  using assms
  by (intro range_field.each_check [OF reads_range_checks(1)])
    (auto simp: list_all_iff image_range_is_valid_def encode_image_range_def validate_image_range_wire_def Let_def wire_simps)

lemma range_entry_aspect:
  assumes "\<And>x. x \<in> set xs \<Longrightarrow> P (isr_aspect_mask x)" "at + length xs * 24 \<le> length b" "i < length xs"
  shows "P (get_u32 (put_each encode_image_range 24 b at xs) (at + i * 24))"
  using assms
  by (intro range_field.each_check [OF reads_range_checks(2) [of P]])
    (auto simp: list_all_iff encode_image_range_def Let_def wire_simps)

text \<open>What is written next to an array of ranges.\<close>

lemma beside_ranges:
  assumes "at + length xs * 24 \<le> length b"
  shows "length (put_each encode_image_range 24 b at xs) = length b"
    and "j + 4 \<le> at \<Longrightarrow> get_u32 (put_each encode_image_range 24 b at xs) j = get_u32 b j"
    and "j + 8 \<le> at \<Longrightarrow> get_u64 (put_each encode_image_range 24 b at xs) j = get_u64 b j"
    and "j + 16 \<le> at \<Longrightarrow> get_each get_u32 4 (put_each encode_image_range 24 b at xs) j 4 = get_each get_u32 4 b j 4"
    and "get_each decode_image_range 24 (put_each encode_image_range 24 b at xs) at (length xs) = xs"
    and "zeros b (at + length xs * 24) j \<Longrightarrow> zeros (put_each encode_image_range 24 b at xs) (at + length xs * 24) j"
  using assms
  by (simp_all add: range_field.put_each_length range_field.read_other_array [OF reads_u32]
      range_field.read_other_array [OF reads_u64] range_field.read_each_other_array [OF reads_u32]
      range_field.get_put_each range_field.zeros_put_each list_all_iff)

lemma clear_color_image_general_payload_facts:
  assumes "length (ccg_color_words c) = 4" "length (ccg_ranges c) = 4" "clear_color_image_general_payload c = Inr p"
  shows "length p = 128 \<and> unat (ccg_range_count c) \<le> 4 \<and> clear_color_image_general_ok p \<and>
    get_u64 p 0 = ccg_image_id c \<and> get_u32 p 8 = ccg_image_layout c \<and> get_u32 p 12 = ccg_range_count c \<and>
    get_each get_u32 4 p 16 4 = ccg_color_words c \<and>
    get_each decode_image_range 24 p 32 (unat (ccg_range_count c)) = take (unat (ccg_range_count c)) (ccg_ranges c)"
proof -
  let ?n = "unat (ccg_range_count c)"
  define xs where "xs = take ?n (ccg_ranges c)"
  define b where "b = put_each put_u32 4 (put_u32 (put_u32 (put_u64 (replicate 128 0 :: bytes) 0 (ccg_image_id c)) 8
    (ccg_image_layout c)) 12 (ccg_range_count c)) 16 (ccg_color_words c)"
  have n: "ccg_range_count c \<noteq> 0" "ccg_range_count c \<le> 4" "ccg_image_layout c \<noteq> 0"
      "handle_expect (ccg_image_id c) BVB_OBJECT_IMAGE = Inr ()"
    and p: "p = put_each encode_image_range 24 b 32 xs" and valid: "list_all image_range_is_valid xs"
    using assms(3) by (auto simp: clear_color_image_general_payload_def Let_def xs_def b_def split: if_splits)
  have len: "length xs = ?n" "?n \<le> 4" "length b = 128"
    using n assms(1,2) by (simp_all add: xs_def b_def word_le_nat_alt)
  then have fit: "32 + length xs * 24 \<le> length b" by simp
  have "zeros b (32 + ?n * 24) 128"
    unfolding b_def using assms(1) by (subst u32_field.zeros_put_each) (auto simp: wire_simps list_all_iff)
  then have zero: "zeros p (32 + ?n * 24) 128" using beside_ranges(6) [OF fit] len by (simp add: p)
  have head: "get_u64 p 0 = ccg_image_id c" "get_u32 p 8 = ccg_image_layout c" "get_u32 p 12 = ccg_range_count c"
      "get_each get_u32 4 p 16 4 = ccg_color_words c"
    using assms(1) by (simp_all add: p beside_ranges [OF fit]) (simp_all add: b_def wire_simps)
  have "clear_color_image_general_ok p"
    unfolding clear_color_image_general_ok_def Let_def head
    using n range_entry [OF valid fit, folded p] len
    by (auto simp: list_all_iff intro!: zero_checks(2) [OF zero])
  then show ?thesis using head len beside_ranges(1,5) [OF fit] by (simp add: p xs_def)
qed

interpretation clear_color_image_general_command: command_codec BVB_COMMAND_VULKAN_CLEAR_COLOR_IMAGE_GENERAL
    "\<lambda>c. length (ccg_color_words c) = 4 \<and> length (ccg_ranges c) = 4"
    "\<lambda>c. c\<lparr>ccg_ranges := fill_to 4 zero_range (take (unat (ccg_range_count c)) (ccg_ranges c))\<rparr>"
    clear_color_image_general_payload decode_clear_color_image_general
proof (rule command_codecI)
  fix c p rest d
  assume c: "length (ccg_color_words c) = 4 \<and> length (ccg_ranges c) = 4" "clear_color_image_general_payload c = Inr p"
  note facts = clear_color_image_general_payload_facts [OF conjunct1 [OF c(1)] conjunct2 [OF c(1)] c(2)]
  show "record_ok (BVB_COMMAND_VULKAN_CLEAR_COLOR_IMAGE_GENERAL, p)" using facts by (simp add: flat_command_simps)
  show "decode_clear_color_image_general (Some (record_at BVB_COMMAND_VULKAN_CLEAR_COLOR_IMAGE_GENERAL p rest)) (Some d) =
      Inr (c\<lparr>ccg_ranges := fill_to 4 zero_range (take (unat (ccg_range_count c)) (ccg_ranges c))\<rparr>)"
    using facts by (auto simp: decode_clear_color_image_general_def Let_def wire_simps)
qed (auto simp: decode_total_simps decode_clear_color_image_general_def clear_color_image_general_ok_def)

lemma clear_depth_stencil_image_payload_facts:
  assumes "length (cds_ranges c) = 4" "clear_depth_stencil_image_payload c = Inr p"
  shows "length p = 120 \<and> cds_range_count c \<le> 4 \<and> unat (cds_range_count c) \<le> 4 \<and> clear_depth_stencil_image_ok p \<and>
    get_u64 p 0 = cds_image_id c \<and> get_u32 p 8 = cds_image_layout c \<and> get_u32 p 12 = cds_range_count c \<and>
    get_u32 p 16 = cds_depth_word c \<and> get_u32 p 20 = cds_stencil c \<and>
    get_each decode_image_range 24 p 24 (unat (cds_range_count c)) = take (unat (cds_range_count c)) (cds_ranges c)"
proof -
  let ?n = "unat (cds_range_count c)"
  define xs where "xs = take ?n (cds_ranges c)"
  define b where "b = put_u32 (put_u32 (put_u32 (put_u32 (put_u64 (replicate 120 0 :: bytes) 0 (cds_image_id c)) 8
    (cds_image_layout c)) 12 (cds_range_count c)) 16 (cds_depth_word c)) 20 (cds_stencil c)"
  have n: "cds_range_count c \<noteq> 0" "cds_range_count c \<le> 4" "cds_image_layout c = 1 \<or> cds_image_layout c = 7"
      "handle_expect (cds_image_id c) BVB_OBJECT_IMAGE = Inr ()" "float_word_is_finite (cds_depth_word c)"
    and p: "p = put_each encode_image_range 24 b 24 xs" and valid: "list_all image_range_is_valid xs"
    and aspect: "\<And>x. x \<in> set xs \<Longrightarrow> isr_aspect_mask x AND NOT 6 = 0"
    using assms(2)
    by (auto simp: clear_depth_stencil_image_payload_def Let_def xs_def b_def list_all_iff split: if_splits)
  have len: "length xs = ?n" "?n \<le> 4" "length b = 120"
    using n assms(1) by (simp_all add: xs_def b_def word_le_nat_alt)
  then have fit: "24 + length xs * 24 \<le> length b" by simp
  have "zeros b (24 + ?n * 24) 120" by (simp add: b_def wire_simps)
  then have zero: "zeros p (24 + ?n * 24) 120" using beside_ranges(6) [OF fit] len by (simp add: p)
  have head: "get_u64 p 0 = cds_image_id c" "get_u32 p 8 = cds_image_layout c" "get_u32 p 12 = cds_range_count c"
      "get_u32 p 16 = cds_depth_word c" "get_u32 p 20 = cds_stencil c"
    by (simp_all add: p beside_ranges [OF fit]) (simp_all add: b_def wire_simps)
  have "clear_depth_stencil_image_ok p"
    unfolding clear_depth_stencil_image_ok_def Let_def head
    using n range_entry [OF valid fit, folded p] len
      range_entry_aspect [where P = "\<lambda>m. m AND NOT 6 = 0", OF aspect fit, folded p]
    by (auto simp: list_all_iff intro!: zero_checks(2) [OF zero])
  then show ?thesis using head len n(2) beside_ranges(1,5) [OF fit] by (simp add: p xs_def)
qed

interpretation clear_depth_stencil_image_command: command_codec BVB_COMMAND_VULKAN_CLEAR_DEPTH_STENCIL_IMAGE
    "\<lambda>c. length (cds_ranges c) = 4"
    "\<lambda>c. c\<lparr>cds_ranges := fill_to 4 zero_range (take (unat (cds_range_count c)) (cds_ranges c))\<rparr>"
    clear_depth_stencil_image_payload decode_clear_depth_stencil_image
proof (rule command_codecI)
  fix c p rest d
  assume c: "length (cds_ranges c) = 4" "clear_depth_stencil_image_payload c = Inr p"
  note facts = clear_depth_stencil_image_payload_facts [OF c]
  show "record_ok (BVB_COMMAND_VULKAN_CLEAR_DEPTH_STENCIL_IMAGE, p)" using facts by (simp add: flat_command_simps)
  show "decode_clear_depth_stencil_image (Some (record_at BVB_COMMAND_VULKAN_CLEAR_DEPTH_STENCIL_IMAGE p rest)) (Some d) =
      Inr (c\<lparr>cds_ranges := fill_to 4 zero_range (take (unat (cds_range_count c)) (cds_ranges c))\<rparr>)"
    using facts by (auto simp: decode_clear_depth_stencil_image_def Let_def wire_simps)
qed (auto simp: decode_total_simps decode_clear_depth_stencil_image_def clear_depth_stencil_image_ok_def)

lemma reads_words: "reads 24 (\<lambda>b at. P (get_u32 b (at + 8)) (get_u32 b (at + 12)) (get_u32 b (at + 20)))"
  by (rule readsI) (simp add: agree_reads)

lemma clear_attachment_entry:
  assumes "\<And>x. x \<in> set xs \<Longrightarrow> length (ca_clear_words x) = 4 \<and> P (ca_aspect_mask x)"
    and "at + length xs * 24 \<le> length b" "i < length xs"
  shows "P (get_u32 (put_each put_clear_attachment 24 b at xs) (at + i * 24))"
  using assms
  by (intro clear_attachment_field.each_check [OF reads_range_checks(2) [of P]])
    (auto simp: list_all_iff put_clear_attachment_def Let_def wire_simps)

lemma clear_rect_entry:
  assumes "\<And>x. x \<in> set xs \<Longrightarrow> P (cre_width x) (cre_height x) (cre_layer_count x)"
    and "at + length xs * 24 \<le> length b" "i < length xs"
  shows "P (get_u32 (put_each put_clear_rect 24 b at xs) (at + i * 24 + 8))
    (get_u32 (put_each put_clear_rect 24 b at xs) (at + i * 24 + 12)) (get_u32 (put_each put_clear_rect 24 b at xs) (at + i * 24 + 20))"
  using assms
  by (intro clear_rect_field.each_check [OF reads_words [of P]])
    (auto simp: list_all_iff put_clear_rect_def Let_def wire_simps)

lemma clear_attachments_payload_facts:
  assumes "length (cat_attachments c) = 8" "\<forall>x \<in> set (cat_attachments c). length (ca_clear_words x) = 4"
    and "length (cat_rects c) = 8" "clear_attachments_payload c = Inr p"
  shows "length p = 392 \<and> cat_attachment_count c \<le> 8 \<and> cat_rect_count c \<le> 8 \<and>
    unat (cat_attachment_count c) \<le> 8 \<and> unat (cat_rect_count c) \<le> 8 \<and> clear_attachments_ok p \<and>
    get_u32 p 0 = cat_attachment_count c \<and> get_u32 p 4 = cat_rect_count c \<and>
    get_each get_clear_attachment 24 p 8 (unat (cat_attachment_count c)) = take (unat (cat_attachment_count c)) (cat_attachments c) \<and>
    get_each get_clear_rect 24 p 200 (unat (cat_rect_count c)) = take (unat (cat_rect_count c)) (cat_rects c)"
proof -
  let ?n = "unat (cat_attachment_count c)" and ?m = "unat (cat_rect_count c)"
  define xs where "xs = take ?n (cat_attachments c)"
  define ys where "ys = take ?m (cat_rects c)"
  define b where "b = put_u32 (put_u32 (replicate 392 0 :: bytes) 0 (cat_attachment_count c)) 4 (cat_rect_count c)"
  define a where "a = put_each put_clear_attachment 24 b 8 xs"
  have n: "cat_attachment_count c \<noteq> 0" "cat_attachment_count c \<le> 8" "cat_rect_count c \<noteq> 0" "cat_rect_count c \<le> 8"
    and p: "p = put_each put_clear_rect 24 a 200 ys"
    and xs: "\<And>x. x \<in> set xs \<Longrightarrow> ca_aspect_mask x \<noteq> 0 \<and> ca_aspect_mask x AND NOT 7 = 0"
    and ys: "\<And>x. x \<in> set ys \<Longrightarrow> cre_width x \<noteq> 0 \<and> cre_height x \<noteq> 0 \<and> cre_layer_count x \<noteq> 0"
    using assms(4)
    by (auto simp: clear_attachments_payload_def Let_def xs_def ys_def a_def b_def list_all_iff split: if_splits)
  have words: "list_all (\<lambda>x. length (ca_clear_words x) = 4) xs"
    using assms(2) by (auto simp: xs_def list_all_iff dest: in_set_takeD)
  have len: "length xs = ?n" "?n \<le> 8" "length ys = ?m" "?m \<le> 8" "length b = 392"
    using n assms(1,3) by (simp_all add: xs_def ys_def b_def word_le_nat_alt)
  then have fit: "8 + length xs * 24 \<le> length b" by simp
  have a_len: "length a = 392" using fit words len by (simp add: a_def clear_attachment_field.put_each_length)
  then have fit': "200 + length ys * 24 \<le> length a" using len by simp
  have zero: "zeros p (8 + ?n * 24) 200" "zeros p (200 + ?m * 24) 392"
    using fit fit' words len
    by (simp_all add: p a_def clear_rect_field.zeros_put_each clear_attachment_field.zeros_put_each list_all_iff)
      (simp_all add: b_def wire_simps)
  have low: "get_u32 p j = get_u32 a j" if "j + 4 \<le> 200" for j
    using that fit' a_len by (simp add: p clear_rect_field.read_other_array [OF reads_u32] list_all_iff)
  have head: "get_u32 p 0 = cat_attachment_count c" "get_u32 p 4 = cat_rect_count c"
    using fit words len
    by (simp_all add: low a_def clear_attachment_field.read_other_array [OF reads_u32]) (simp_all add: b_def wire_simps)
  have first: "get_u32 p (8 + i * 24) \<noteq> 0 \<and> get_u32 p (8 + i * 24) AND NOT 7 = 0" if "i < ?n" for i
    using clear_attachment_entry [where P = "\<lambda>m. m \<noteq> 0 \<and> m AND NOT 7 = 0", OF _ fit, of i] xs words len that
    by (simp add: low a_def list_all_iff)
  have second: "get_u32 p (200 + i * 24 + 8) \<noteq> 0 \<and> get_u32 p (200 + i * 24 + 12) \<noteq> 0 \<and> get_u32 p (200 + i * 24 + 20) \<noteq> 0"
    if "i < ?m" for i
    using clear_rect_entry [where P = "\<lambda>u v w. u \<noteq> 0 \<and> v \<noteq> 0 \<and> w \<noteq> 0", OF ys fit', of i] len that by (simp add: p)
  have unused: "?n \<le> i \<Longrightarrow> i < 8 \<Longrightarrow> bytes_are_zero p (8 + i * 24) 24"
      "?m \<le> i \<Longrightarrow> i < 8 \<Longrightarrow> bytes_are_zero p (200 + i * 24) 24" for i
    using zero_checks(1) [OF zero(1)] zero_checks(1) [OF zero(2)] by auto
  have "clear_attachments_ok p"
    unfolding clear_attachments_ok_def Let_def head
    using n len first second unused by (auto simp: list_all_iff ac_simps not_less)
  moreover have "get_each get_clear_attachment 24 p 8 ?n = xs"
    using clear_rect_field.read_each_other_array [OF clear_attachment_field.reads_get, of 24 ys 200 a 24 8 ?n]
      clear_attachment_field.get_put_each [OF _ words fit] fit' len a_len by (simp add: p a_def list_all_iff)
  moreover have "get_each get_clear_rect 24 p 200 ?m = ys"
    using clear_rect_field.get_put_each [OF _ _ fit'] len by (simp add: p list_all_iff)
  moreover have "length p = 392" using fit' a_len by (simp add: p clear_rect_field.put_each_length list_all_iff)
  ultimately show ?thesis using head len n by (simp add: xs_def ys_def)
qed

definition clear_attachments_shape :: "clear_attachments_command \<Rightarrow> bool" where
  "clear_attachments_shape = (\<lambda>c. length (cat_attachments c) = 8 \<and>
     (\<forall>x \<in> set (cat_attachments c). length (ca_clear_words x) = 4) \<and> length (cat_rects c) = 8)"

interpretation clear_attachments_command: command_codec BVB_COMMAND_VULKAN_CLEAR_ATTACHMENTS clear_attachments_shape
    "\<lambda>c. c\<lparr>cat_attachments := fill_to 8 zero_clear_attachment (take (unat (cat_attachment_count c)) (cat_attachments c)),
           cat_rects := fill_to 8 zero_clear_rect (take (unat (cat_rect_count c)) (cat_rects c))\<rparr>"
    clear_attachments_payload decode_clear_attachments
  unfolding clear_attachments_shape_def
proof (rule command_codecI)
  fix c p rest d
  assume c: "length (cat_attachments c) = 8 \<and> (\<forall>x \<in> set (cat_attachments c). length (ca_clear_words x) = 4) \<and>
      length (cat_rects c) = 8" "clear_attachments_payload c = Inr p"
  have facts: "length p = 392" "cat_attachment_count c \<le> 8" "cat_rect_count c \<le> 8"
      "unat (cat_attachment_count c) \<le> 8" "unat (cat_rect_count c) \<le> 8" "clear_attachments_ok p"
      "get_u32 p 0 = cat_attachment_count c" "get_u32 p 4 = cat_rect_count c"
      "get_each get_clear_attachment 24 p 8 (unat (cat_attachment_count c)) = take (unat (cat_attachment_count c)) (cat_attachments c)"
      "get_each get_clear_rect 24 p 200 (unat (cat_rect_count c)) = take (unat (cat_rect_count c)) (cat_rects c)"
    using clear_attachments_payload_facts [OF _ _ _ c(2)] c(1) by blast+
  show "record_ok (BVB_COMMAND_VULKAN_CLEAR_ATTACHMENTS, p)" using facts by (simp add: flat_command_simps)
  show "decode_clear_attachments (Some (record_at BVB_COMMAND_VULKAN_CLEAR_ATTACHMENTS p rest)) (Some d) =
      Inr (c\<lparr>cat_attachments := fill_to 8 zero_clear_attachment (take (unat (cat_attachment_count c)) (cat_attachments c)),
           cat_rects := fill_to 8 zero_clear_rect (take (unat (cat_rect_count c)) (cat_rects c))\<rparr>)"
    using facts by (auto simp: decode_clear_attachments_def Let_def wire_simps)
qed (auto simp: decode_total_simps decode_clear_attachments_def clear_attachments_ok_def fill_to_def get_each_def get_clear_attachment_def zero_clear_attachment_def)

subsection \<open>descriptor sets and push constants\<close>

lemma bind_descriptor_sets_payload_facts:
  assumes "length (bds_descriptor_set_ids c) = 8" "length (bds_dynamic_offsets c) = 32"
    and "bind_descriptor_sets_payload c = Inr p"
  shows "length p = 216 \<and> unat (bds_descriptor_set_count c) \<le> 8 \<and> unat (bds_dynamic_offset_count c) \<le> 32 \<and>
    bind_descriptor_sets_ok p \<and> get_u64 p 0 = bds_pipeline_layout_id c \<and> get_u32 p 8 = bds_pipeline_bind_point c \<and>
    get_u32 p 12 = bds_first_set c \<and> get_u32 p 16 = bds_descriptor_set_count c \<and> get_u32 p 20 = bds_dynamic_offset_count c \<and>
    get_each get_u64 8 p 24 (unat (bds_descriptor_set_count c)) = take (unat (bds_descriptor_set_count c)) (bds_descriptor_set_ids c) \<and>
    get_each get_u32 4 p 88 (unat (bds_dynamic_offset_count c)) = take (unat (bds_dynamic_offset_count c)) (bds_dynamic_offsets c)"
proof -
  let ?n = "unat (bds_descriptor_set_count c)" and ?m = "unat (bds_dynamic_offset_count c)"
  define xs where "xs = take ?n (bds_descriptor_set_ids c)"
  define ys where "ys = take ?m (bds_dynamic_offsets c)"
  define b where "b = put_u32 (put_u32 (put_u32 (put_u32 (put_u64 (replicate 216 0 :: bytes) 0 (bds_pipeline_layout_id c)) 8
    (bds_pipeline_bind_point c)) 12 (bds_first_set c)) 16 (bds_descriptor_set_count c)) 20 (bds_dynamic_offset_count c)"
  have n: "handle_expect (bds_pipeline_layout_id c) BVB_OBJECT_PIPELINE_LAYOUT = Inr ()" "bds_pipeline_bind_point c \<le> 1"
      "bds_descriptor_set_count c \<noteq> 0" "bds_descriptor_set_count c \<le> 8" "bds_dynamic_offset_count c \<le> 32"
    and p: "p = put_each put_u32 4 (put_each put_u64 8 b 24 xs) 88 ys"
    and xs: "\<And>x. x \<in> set xs \<Longrightarrow> handle_expect x BVB_OBJECT_DESCRIPTOR_SET = Inr ()"
    using assms(3)
    by (auto simp: bind_descriptor_sets_payload_def Let_def xs_def ys_def b_def list_all_iff split: if_splits)
  have len: "length xs = ?n" "?n \<le> 8" "length ys = ?m" "?m \<le> 32" "length b = 216"
    using n assms(1,2) by (simp_all add: xs_def ys_def b_def word_le_nat_alt)
  have zero: "zeros p (24 + ?n * 8) 88" "zeros p (88 + ?m * 4) 216"
    using len by (simp_all add: p u32_field.zeros_put_each u64_field.zeros_put_each list_all_iff)
      (simp_all add: b_def wire_simps)
  have head: "get_u64 p 0 = bds_pipeline_layout_id c" "get_u32 p 8 = bds_pipeline_bind_point c"
      "get_u32 p 12 = bds_first_set c" "get_u32 p 16 = bds_descriptor_set_count c" "get_u32 p 20 = bds_dynamic_offset_count c"
    using len by (simp_all add: p wire_simps) (simp_all add: b_def wire_simps)
  have entry: "handle_expect (get_u64 p (24 + i * 8)) BVB_OBJECT_DESCRIPTOR_SET = Inr ()" if "i < ?n" for i
    using that len xs array_entry(2) [of i xs 24 b] by (simp add: p get_beside_array)
  have "bind_descriptor_sets_ok p"
    unfolding bind_descriptor_sets_ok_def Let_def head
    using n len entry by (auto simp: list_all_iff intro!: zeros_reads(2) [OF zero(1)] zeros_reads(1) [OF zero(2)])
  moreover have "get_each get_u64 8 p 24 ?n = xs" "get_each get_u32 4 p 88 ?m = ys" "length p = 216"
    using len by (simp_all add: p wire_simps)
  ultimately show ?thesis using head len by (simp add: xs_def ys_def)
qed

interpretation bind_descriptor_sets_command: command_codec BVB_COMMAND_VULKAN_BIND_DESCRIPTOR_SETS
    "\<lambda>c. length (bds_descriptor_set_ids c) = 8 \<and> length (bds_dynamic_offsets c) = 32"
    "\<lambda>c. c\<lparr>bds_descriptor_set_ids := fill_to 8 0 (take (unat (bds_descriptor_set_count c)) (bds_descriptor_set_ids c)),
           bds_dynamic_offsets := fill_to 32 0 (take (unat (bds_dynamic_offset_count c)) (bds_dynamic_offsets c))\<rparr>"
    bind_descriptor_sets_payload decode_bind_descriptor_sets
proof (rule command_codecI)
  fix c p rest d
  assume c: "length (bds_descriptor_set_ids c) = 8 \<and> length (bds_dynamic_offsets c) = 32" "bind_descriptor_sets_payload c = Inr p"
  note facts = bind_descriptor_sets_payload_facts [OF conjunct1 [OF c(1)] conjunct2 [OF c(1)] c(2)]
  show "record_ok (BVB_COMMAND_VULKAN_BIND_DESCRIPTOR_SETS, p)" using facts by (simp add: flat_command_simps)
  show "decode_bind_descriptor_sets (Some (record_at BVB_COMMAND_VULKAN_BIND_DESCRIPTOR_SETS p rest)) (Some d) =
      Inr (c\<lparr>bds_descriptor_set_ids := fill_to 8 0 (take (unat (bds_descriptor_set_count c)) (bds_descriptor_set_ids c)),
           bds_dynamic_offsets := fill_to 32 0 (take (unat (bds_dynamic_offset_count c)) (bds_dynamic_offsets c))\<rparr>)"
    using facts by (auto simp: decode_bind_descriptor_sets_def Let_def wire_simps)
qed (auto simp: decode_total_simps decode_bind_descriptor_sets_def bind_descriptor_sets_ok_def)

lemma push_constants_payload_facts:
  assumes "length (puc_data c) = 256" "push_constants_payload c = Inr p"
  shows "length p = 280 \<and> unat (puc_size c) \<le> 256 \<and> push_constants_ok p \<and>
    get_u64 p 0 = puc_pipeline_layout_id c \<and> get_u32 p 8 = puc_stage_flags c \<and> get_u32 p 12 = puc_offset c \<and>
    get_u32 p 16 = puc_size c \<and> get_bytes p 24 (unat (puc_size c)) = take (unat (puc_size c)) (puc_data c)"
proof -
  let ?n = "unat (puc_size c)"
  define b where "b = put_u32 (put_u32 (put_u32 (put_u64 (replicate 280 0 :: bytes) 0 (puc_pipeline_layout_id c)) 8
    (puc_stage_flags c)) 12 (puc_offset c)) 16 (puc_size c)"
  have n: "puc_stage_flags c \<noteq> 0" "puc_size c \<noteq> 0" "puc_size c \<le> 256" "puc_offset c AND 3 = 0" "puc_size c AND 3 = 0"
      "puc_offset c \<le> 256 - puc_size c" "handle_expect (puc_pipeline_layout_id c) BVB_OBJECT_PIPELINE_LAYOUT = Inr ()"
    and p: "p = memcpy b 24 (puc_data c) ?n"
    using assms(2) by (auto simp: push_constants_payload_def Let_def b_def split: if_splits)
  have len: "?n \<le> 256" "length b = 280" using n by (simp_all add: b_def word_le_nat_alt)
  have zero: "zeros p (24 + ?n) 280" using len assms(1) by (simp add: p wire_simps) (simp add: b_def wire_simps)
  have head: "get_u64 p 0 = puc_pipeline_layout_id c" "get_u32 p 8 = puc_stage_flags c" "get_u32 p 12 = puc_offset c"
      "get_u32 p 16 = puc_size c" "get_u32 p 20 = 0"
    using len assms(1) by (simp_all add: p wire_simps) (simp_all add: b_def wire_simps)
  have "push_constants_ok p"
    unfolding push_constants_ok_def Let_def head
    using n len by (auto simp: list_all_iff intro!: zeros_nth [OF zero])
  then show ?thesis using head len assms(1) by (simp add: p wire_simps)
qed

interpretation push_constants_command: command_codec BVB_COMMAND_VULKAN_PUSH_CONSTANTS
    "\<lambda>c. length (puc_data c) = 256"
    "\<lambda>c. c\<lparr>puc_data := fill_to 256 0 (take (unat (puc_size c)) (puc_data c))\<rparr>"
    push_constants_payload decode_push_constants
proof (rule command_codecI)
  fix c p rest d
  assume c: "length (puc_data c) = 256" "push_constants_payload c = Inr p"
  note facts = push_constants_payload_facts [OF c]
  show "record_ok (BVB_COMMAND_VULKAN_PUSH_CONSTANTS, p)" using facts by (simp add: flat_command_simps)
  show "decode_push_constants (Some (record_at BVB_COMMAND_VULKAN_PUSH_CONSTANTS p rest)) (Some d) =
      Inr (c\<lparr>puc_data := fill_to 256 0 (take (unat (puc_size c)) (puc_data c))\<rparr>)"
    using facts by (auto simp: decode_push_constants_def Let_def wire_simps)
qed (auto simp: decode_total_simps decode_push_constants_def push_constants_ok_def get_bytes_def fill_to_def)

subsection \<open>dynamic state and buffer updates\<close>

interpretation dynamic_state_command: command_codec BVB_COMMAND_VULKAN_DYNAMIC_STATE
    "\<lambda>c. length (dys_values c) = 8"
    "\<lambda>c. c\<lparr>dys_values := fill_to 8 0 (take (unat (dys_value_count c)) (dys_values c))\<rparr>"
    dynamic_state_payload decode_dynamic_state
proof (rule command_codecI)
  fix c p rest d
  assume c: "length (dys_values c) = 8" "dynamic_state_payload c = Inr p"
  let ?n = "unat (dys_value_count c)"
  define xs where "xs = take ?n (dys_values c)"
  define b where "b = put_u32 (put_u32 (replicate 40 0 :: bytes) 0 (dys_kind c)) 4 (dys_value_count c)"
  have n: "dys_value_count c \<le> 8" and p: "p = put_each put_u32 4 b 8 xs"
    and ok: "validate_payload BVB_COMMAND_VULKAN_DYNAMIC_STATE p = Inr ()"
    using c(2) by (auto simp: dynamic_state_payload_def Let_def xs_def b_def split: if_splits)
  have len: "length xs = ?n" "?n \<le> 8" "length b = 40" using n c(1) by (simp_all add: xs_def b_def word_le_nat_alt)
  then have p_len: "length p = 40" by (simp add: p)
  have head: "get_u32 p 0 = dys_kind c" "get_u32 p 4 = dys_value_count c"
    using len by (simp_all add: p wire_simps) (simp_all add: b_def wire_simps)
  have "get_each get_u32 4 p 8 ?n = xs" using len by (simp add: p wire_simps)
  then show "decode_dynamic_state (Some (record_at BVB_COMMAND_VULKAN_DYNAMIC_STATE p rest)) (Some d) =
      Inr (c\<lparr>dys_values := fill_to 8 0 (take (unat (dys_value_count c)) (dys_values c))\<rparr>)"
    using head p_len len n by (auto simp: decode_dynamic_state_def Let_def wire_simps xs_def)
  show "record_ok (BVB_COMMAND_VULKAN_DYNAMIC_STATE, p)"
    using ok p_len
    by (simp add: validate_payload_def payload_length_is_valid_def expected_payload_size_def transfer_opcode_is_valid_def split: if_splits)
next
  fix p rest d
  assume ok: "payload_ok BVB_COMMAND_VULKAN_DYNAMIC_STATE (p @ rest)"
    and "payload_length_is_valid BVB_COMMAND_VULKAN_DYNAMIC_STATE (p @ rest) (word_of_nat (length p))"
  then have "word_of_nat (length p) = (40 :: u32)"
    by (simp add: payload_length_is_valid_def expected_payload_size_def transfer_opcode_is_valid_def)
  moreover have "dynamic_state_value_count (get_u32 (p @ rest) 0) = Some (get_u32 (p @ rest) 4)"
    using ok by (simp add: payload_ok_def dynamic_state_ok_def Let_def)
  then have "get_u32 (p @ rest) 4 \<le> 8" by (auto simp: dynamic_state_value_count_def split: if_splits)
  ultimately show "\<exists>c. length (dys_values c) = 8 \<and>
      decode_dynamic_state (Some (record_at BVB_COMMAND_VULKAN_DYNAMIC_STATE p rest)) (Some d) = Inr c"
    by (simp add: decode_dynamic_state_def Let_def not_less word_le_nat_alt)
qed (simp_all add: decode_dynamic_state_def)

lemma update_buffer_payload_facts:
  assumes "length (upb_data c) = 65536" "update_buffer_payload c = Inr p"
  shows "length p = 24 + unat (upb_data_size c) \<and> unat (upb_data_size c) \<le> 65536 \<and> update_buffer_ok p \<and>
    upb_data_size c \<noteq> 0 \<and> upb_data_size c \<le> 65536 \<and> upb_data_size c AND 3 = 0 \<and>
    get_u64 p 0 = upb_buffer_id c \<and> get_u64 p 8 = upb_offset c \<and> get_u32 p 16 = upb_data_size c \<and>
    get_bytes p 24 (unat (upb_data_size c)) = take (unat (upb_data_size c)) (upb_data c)"
proof -
  let ?n = "unat (upb_data_size c)"
  define b where "b = put_u32 (put_u32 (put_u64 (put_u64 (replicate 65560 0 :: bytes) 0 (upb_buffer_id c)) 8
    (upb_offset c)) 16 (upb_data_size c)) 20 0"
  have n: "handle_expect (upb_buffer_id c) BVB_OBJECT_BUFFER = Inr ()" "upb_data_size c \<noteq> 0" "upb_data_size c \<le> 65536"
      "upb_offset c AND 3 = 0" "upb_data_size c AND 3 = 0"
    and q: "p = take (unat (24 + upb_data_size c)) (memcpy b 24 (upb_data c) ?n)"
    using assms(2) by (auto simp: update_buffer_payload_def Let_def b_def split: if_splits)
  have len: "?n \<le> 65536" "length b = 65560" using n by (simp_all add: b_def word_le_nat_alt)
  then have p: "p = take (24 + ?n) (memcpy b 24 (upb_data c) ?n)" using q by (simp add: unat_word_ariths)
  have head: "get_u64 p 0 = upb_buffer_id c" "get_u64 p 8 = upb_offset c" "get_u32 p 16 = upb_data_size c"
      "get_u32 p 20 = 0"
    using len assms(1) by (simp_all add: p wire_simps) (simp_all add: b_def wire_simps)
  have "update_buffer_ok p" unfolding update_buffer_ok_def head using n by simp
  moreover have "get_bytes p 24 ?n = take ?n (upb_data c)" "length p = 24 + ?n"
    using len assms(1) by (simp_all add: p get_bytes_def memcpy_def)
  ultimately show ?thesis using head len n by simp
qed

interpretation update_buffer_command: command_codec BVB_COMMAND_VULKAN_UPDATE_BUFFER
    "\<lambda>c. length (upb_data c) = 65536"
    "\<lambda>c. c\<lparr>upb_data := fill_to 65536 0 (take (unat (upb_data_size c)) (upb_data c))\<rparr>"
    update_buffer_payload decode_update_buffer
proof (rule command_codecI)
  fix c p rest d
  assume c: "length (upb_data c) = 65536" "update_buffer_payload c = Inr p"
  have facts: "length p = 24 + unat (upb_data_size c)" "unat (upb_data_size c) \<le> 65536" "update_buffer_ok p"
      "upb_data_size c \<noteq> 0" "upb_data_size c \<le> 65536" "upb_data_size c AND 3 = 0"
      "get_u64 p 0 = upb_buffer_id c" "get_u64 p 8 = upb_offset c" "get_u32 p 16 = upb_data_size c"
      "get_bytes p 24 (unat (upb_data_size c)) = take (unat (upb_data_size c)) (upb_data c)"
    using update_buffer_payload_facts [OF c] by blast+
  have "p \<noteq> []" "(24 :: u32) + upb_data_size c \<ge> 24" using facts(1,2) by (auto simp: word_le_nat_alt unat_word_ariths)
  then have valid: "payload_length_is_valid BVB_COMMAND_VULKAN_UPDATE_BUFFER p (word_of_nat (length p))"
    using facts(1,4-6,9) by (simp add: payload_length_is_valid_def expected_payload_size_def)
  show "record_ok (BVB_COMMAND_VULKAN_UPDATE_BUFFER, p)" using facts(1-3) valid by (simp add: payload_ok_def)
  have "payload_length_is_valid BVB_COMMAND_VULKAN_UPDATE_BUFFER (p @ rest) (word_of_nat (length p))"
    using valid facts(1,2) by (subst payload_length_prefix) (simp_all add: unat_word_ariths)
  then show "decode_update_buffer (Some (record_at BVB_COMMAND_VULKAN_UPDATE_BUFFER p rest)) (Some d) =
      Inr (c\<lparr>upb_data := fill_to 65536 0 (take (unat (upb_data_size c)) (upb_data c))\<rparr>)"
    using facts by (auto simp: decode_update_buffer_def Let_def wire_simps)
next
  fix p rest d
  assume valid: "payload_length_is_valid BVB_COMMAND_VULKAN_UPDATE_BUFFER (p @ rest) (word_of_nat (length p))"
    and len: "length p = unat (word_of_nat (length p) :: u32)"
  have "word_of_nat (length p) = 24 + get_u32 (p @ rest) 16" and le: "get_u32 (p @ rest) 16 \<le> 65536"
    using valid by (auto simp: payload_length_is_valid_def expected_payload_size_def Let_def split: if_splits)
  then have "length p = 24 + unat (get_u32 (p @ rest) 16)" using len by (simp add: unat_word_ariths word_le_nat_alt)
  then show "\<exists>c. length (upb_data c) = 65536 \<and>
      decode_update_buffer (Some (record_at BVB_COMMAND_VULKAN_UPDATE_BUFFER p rest)) (Some d) = Inr c"
    using valid le by (simp add: decode_update_buffer_def Let_def get_bytes_def fill_to_def word_le_nat_alt)
qed (simp_all add: decode_update_buffer_def)

subsection \<open>vertex buffers\<close>

lemma bind_vertex_buffers_payload_facts:
  assumes "length (bvb_buffer_ids c) = 16" "length (bvb_offsets c) = 16" "length (bvb_sizes c) = 16" "length (bvb_strides c) = 16"
    and "bind_vertex_buffers_payload opcode c = Inr p"
  defines "n \<equiv> unat (bvb_binding_count c)"
  defines "xs \<equiv> take n (bvb_buffer_ids c)" and "ys \<equiv> take n (bvb_offsets c)"
    and "zs \<equiv> if bvb_has_sizes c \<noteq> 0 then take n (bvb_sizes c) else replicate n 0"
    and "ws \<equiv> if bvb_has_strides c \<noteq> 0 then take n (bvb_strides c) else replicate n 0"
  shows "length p = 528 \<and> n \<le> 16 \<and> bind_vertex_buffers_ok opcode p \<and> get_u32 p 0 = bvb_first_binding c \<and>
    get_u32 p 4 = bvb_binding_count c \<and> get_u32 p 8 = bvb_has_sizes c \<and> get_u32 p 12 = bvb_has_strides c \<and>
    get_each get_u64 8 p 16 16 = fill_to 16 0 xs \<and> get_each get_u64 8 p 144 16 = fill_to 16 0 ys \<and>
    get_each get_u64 8 p 272 16 = fill_to 16 0 zs \<and> get_each get_u64 8 p 400 16 = fill_to 16 0 ws"
proof -
  define b where "b = put_u32 (put_u32 (put_u32 (put_u32 (replicate 528 0 :: bytes) 0 (bvb_first_binding c)) 4
    (bvb_binding_count c)) 8 (bvb_has_sizes c)) 12 (bvb_has_strides c)"
  define a where "a = put_each put_u64 8 (put_each put_u64 8 b 16 xs) 144 ys"
  have k: "bvb_binding_count c \<noteq> 0" "bvb_binding_count c \<le> 16" "bvb_has_sizes c \<le> 1" "bvb_has_strides c \<le> 1"
      "opcode = BVB_COMMAND_VULKAN_BIND_VERTEX_BUFFERS \<longrightarrow> bvb_has_sizes c = 0 \<and> bvb_has_strides c = 0"
    and ids: "\<And>x. x \<in> set xs \<Longrightarrow> x = 0 \<or> handle_expect x BVB_OBJECT_BUFFER = Inr ()"
    and p: "p = (let a = if bvb_has_sizes c \<noteq> 0 then put_each put_u64 8 a 272 zs else a in
      if bvb_has_strides c \<noteq> 0 then put_each put_u64 8 a 400 ws else a)"
    using assms(5)
    by (auto simp: bind_vertex_buffers_payload_def Let_def xs_def ys_def zs_def ws_def n_def a_def b_def list_all_iff
        split: if_splits)
  have len: "length xs = n" "length ys = n" "length zs = n" "length ws = n" "n \<le> 16" "length b = 528" "length a = 528"
    using k(2) assms(1-4) by (auto simp: xs_def ys_def zs_def ws_def a_def b_def n_def word_le_nat_alt)
  have p_len: "length p = 528" using len by (simp add: p Let_def)
  have head: "get_u32 p 0 = bvb_first_binding c" "get_u32 p 4 = bvb_binding_count c" "get_u32 p 8 = bvb_has_sizes c"
      "get_u32 p 12 = bvb_has_strides c"
    using len by (simp_all add: p a_def Let_def get_beside_array) (simp_all add: b_def wire_simps)
  have arrays: "get_each get_u64 8 p 16 16 = fill_to 16 0 xs" "get_each get_u64 8 p 144 16 = fill_to 16 0 ys"
      "get_each get_u64 8 p 272 16 = fill_to 16 0 zs" "get_each get_u64 8 p 400 16 = fill_to 16 0 ws"
    using len
    by (simp_all add: p Let_def a_def get_each_beside_array get_words_longer fill_to_def)
      (simp_all add: b_def get_each_put_other get_each_replicate zs_def ws_def flip: replicate_add)
  have entry: "get_u64 p (at + i * 8) = get_each get_u64 8 p at 16 ! i" if "i < 16" for at i
    using that by (simp add: get_each_def)
  have "bind_vertex_buffers_ok opcode p"
    unfolding bind_vertex_buffers_ok_def Let_def head
    using k len ids
    by (auto simp: list_all_iff entry arrays fill_to_def nth_append zs_def ws_def n_def [symmetric])
  then show ?thesis using head len arrays p_len by simp
qed

lemma get_each_take: "n \<le> m \<Longrightarrow> get_each g s b at n = take n (get_each g s b at m)"
  by (simp add: get_each_def take_map)

definition norm_vertex_buffers :: "bind_vertex_buffers_command \<Rightarrow> bind_vertex_buffers_command" where
  "norm_vertex_buffers c =
     (let n = unat (bvb_binding_count c) in
      c\<lparr>bvb_buffer_ids := fill_to 16 0 (take n (bvb_buffer_ids c)), bvb_offsets := fill_to 16 0 (take n (bvb_offsets c)),
        bvb_sizes := if bvb_has_sizes c \<noteq> 0 then fill_to 16 0 (take n (bvb_sizes c)) else replicate 16 0,
        bvb_strides := if bvb_has_strides c \<noteq> 0 then fill_to 16 0 (take n (bvb_strides c)) else replicate 16 0\<rparr>)"

abbreviation vertex_buffers_shape :: "bind_vertex_buffers_command \<Rightarrow> bool" where
  "vertex_buffers_shape c \<equiv> length (bvb_buffer_ids c) = 16 \<and> length (bvb_offsets c) = 16 \<and> length (bvb_sizes c) = 16 \<and>
     length (bvb_strides c) = 16"

lemma bind_vertex_buffers_laws:
  assumes "opcode = BVB_COMMAND_VULKAN_BIND_VERTEX_BUFFERS \<or> opcode = BVB_COMMAND_VULKAN_BIND_VERTEX_BUFFERS_2"
    and "vertex_buffers_shape c" "bind_vertex_buffers_payload opcode c = Inr p"
  shows "record_ok (opcode, p)"
    and "decode_bind_vertex_buffers (Some (record_at opcode p rest)) (Some d) = Inr (norm_vertex_buffers c)"
proof -
  let ?n = "unat (bvb_binding_count c)"
  have facts: "length p = 528" "?n \<le> 16" "bind_vertex_buffers_ok opcode p" "get_u32 p 0 = bvb_first_binding c"
      "get_u32 p 4 = bvb_binding_count c" "get_u32 p 8 = bvb_has_sizes c" "get_u32 p 12 = bvb_has_strides c"
    and arrays: "get_each get_u64 8 p 16 16 = fill_to 16 0 (take ?n (bvb_buffer_ids c))"
      "get_each get_u64 8 p 144 16 = fill_to 16 0 (take ?n (bvb_offsets c))"
      "get_each get_u64 8 p 272 16 = fill_to 16 0 (if bvb_has_sizes c \<noteq> 0 then take ?n (bvb_sizes c) else replicate ?n 0)"
      "get_each get_u64 8 p 400 16 = fill_to 16 0 (if bvb_has_strides c \<noteq> 0 then take ?n (bvb_strides c) else replicate ?n 0)"
    using bind_vertex_buffers_payload_facts [OF _ _ _ _ assms(3)] assms(2) by blast+
  show "record_ok (opcode, p)"
    using assms(1) facts(1,3)
    by (auto simp: payload_length_is_valid_def expected_payload_size_def transfer_opcode_is_valid_def payload_ok_def)
  have first: "get_each get_u64 8 p 16 ?n = take ?n (bvb_buffer_ids c)" "get_each get_u64 8 p 144 ?n = take ?n (bvb_offsets c)"
      "get_each get_u64 8 p 272 ?n = (if bvb_has_sizes c \<noteq> 0 then take ?n (bvb_sizes c) else replicate ?n 0)"
      "get_each get_u64 8 p 400 ?n = (if bvb_has_strides c \<noteq> 0 then take ?n (bvb_strides c) else replicate ?n 0)"
    using assms(2) facts(2) by (simp_all add: get_each_take [OF facts(2)] arrays take_fill_to)
  show "decode_bind_vertex_buffers (Some (record_at opcode p rest)) (Some d) = Inr (norm_vertex_buffers c)"
    using assms(1) facts first by (auto simp: decode_bind_vertex_buffers_def norm_vertex_buffers_def Let_def wire_simps)
qed

interpretation bind_vertex_buffers_command: command_codec BVB_COMMAND_VULKAN_BIND_VERTEX_BUFFERS
    vertex_buffers_shape norm_vertex_buffers "bind_vertex_buffers_payload BVB_COMMAND_VULKAN_BIND_VERTEX_BUFFERS"
    decode_bind_vertex_buffers
  by (rule command_codecI) (rule bind_vertex_buffers_laws; simp | auto simp: decode_total_simps decode_bind_vertex_buffers_def bind_vertex_buffers_ok_def)+

interpretation bind_vertex_buffers_2_command: command_codec BVB_COMMAND_VULKAN_BIND_VERTEX_BUFFERS_2
    vertex_buffers_shape norm_vertex_buffers "bind_vertex_buffers_payload BVB_COMMAND_VULKAN_BIND_VERTEX_BUFFERS_2"
    decode_bind_vertex_buffers
  by (rule command_codecI) (rule bind_vertex_buffers_laws; simp | auto simp: decode_total_simps decode_bind_vertex_buffers_def bind_vertex_buffers_ok_def)+

end
