(* ===== verification/Command_Structures.thy ===== *)
theory Command_Structures
  imports Command_Contracts
begin

unbundle bit_operations_syntax

section \<open>The contract of renderings, transfers and barriers\<close>

text \<open>
  The commands whose payloads are made of structures: a rendering with its attachments, a transfer
  with its regions and a barrier with three arrays of variable length. The last part collects the
  contract of all commands of src/src/command_batch.c.
\<close>

subsection \<open>begin rendering\<close>

lemma reads_attachment_check: "reads 56 (\<lambda>b at. rendering_attachment_is_valid (decode_rendering_attachment b at) r)"
  using attachment_field.reads_get unfolding reads_def by metis

lemma attachment_entry:
  assumes "list_all (\<lambda>a. length (ra_clear_words a) = 4) xs" "\<And>x. x \<in> set xs \<Longrightarrow> rendering_attachment_is_valid x r"
    and "at + length xs * 56 \<le> length b" "i < length xs"
  shows "rendering_attachment_is_valid (decode_rendering_attachment (put_each encode_rendering_attachment 56 b at xs) (at + i * 56)) r"
  using assms
  by (intro attachment_field.each_check [OF reads_attachment_check])
    (auto simp: list_all_iff attachment_field.get_put)

text \<open>An attachment that is stored when its flag is set, in a region that was zero.\<close>

definition put_optional :: "bool \<Rightarrow> bytes \<Rightarrow> nat \<Rightarrow> rendering_attachment \<Rightarrow> bytes" where
  "put_optional present b at x = (if present then encode_rendering_attachment b at x else b)"

lemma put_optional_facts:
  assumes "length (ra_clear_words x) = 4" "at + 56 \<le> length b"
  shows "length (put_optional f b at x) = length b"
    and "j + 4 \<le> at \<or> at + 56 \<le> j \<Longrightarrow> j + 4 \<le> length b \<Longrightarrow> get_u32 (put_optional f b at x) j = get_u32 b j"
    and "j + 56 \<le> at \<or> at + 56 \<le> j \<Longrightarrow> j + 56 \<le> length b \<Longrightarrow>
      decode_rendering_attachment (put_optional f b at x) j = decode_rendering_attachment b j"
    and "j + n * 56 \<le> at \<Longrightarrow>
      get_each decode_rendering_attachment 56 (put_optional f b at x) j n = get_each decode_rendering_attachment 56 b j n"
    and "f \<Longrightarrow> decode_rendering_attachment (put_optional f b at x) at = x"
    and "k \<le> at \<or> at + 56 \<le> i \<or> \<not> f \<Longrightarrow> zeros (put_optional f b at x) i k = zeros b i k"
  using assms attachment_field.read_each_other_array [OF attachment_field.reads_get, of 56 "[x]" at b 56 j n]
  by (auto simp: put_optional_def attachment_field.put_length attachment_field.read_other [OF reads_u32]
      attachment_field.read_other [OF attachment_field.reads_get] attachment_field.get_put attachment_field.zeros_put)

abbreviation rendering_arrays :: "begin_rendering_command \<Rightarrow> bool" where
  "rendering_arrays c \<equiv> length (ber_color_attachments c) = 8 \<and>
     (\<forall>x \<in> set (ber_color_attachments c). length (ra_clear_words x) = 4) \<and>
     length (ra_clear_words (ber_depth_attachment c)) = 4 \<and> length (ra_clear_words (ber_stencil_attachment c)) = 4"

definition norm_begin_rendering :: "begin_rendering_command \<Rightarrow> begin_rendering_command" where
  "norm_begin_rendering c =
     c\<lparr>ber_color_attachments := fill_to 8 zero_attachment (take (unat (ber_color_attachment_count c)) (ber_color_attachments c)),
       ber_depth_attachment := if ber_has_depth_attachment c \<noteq> 0 then ber_depth_attachment c else zero_attachment,
       ber_stencil_attachment := if ber_has_stencil_attachment c \<noteq> 0 then ber_stencil_attachment c else zero_attachment\<rparr>"

definition begin_rendering_header :: "begin_rendering_command \<Rightarrow> bytes" where
  "begin_rendering_header c =
     put_u32 (put_u32 (put_u32 (put_u32 (put_u32 (put_u32 (put_u32 (put_u32 (put_u32 (put_u32 (replicate 600 0)
       0 (ber_flags c)) 4 (ber_render_offset_x c)) 8 (ber_render_offset_y c)) 12 (ber_width c)) 16 (ber_height c))
       20 (ber_layer_count c)) 24 (ber_view_mask c)) 28 (ber_color_attachment_count c))
       32 (ber_has_depth_attachment c)) 36 (ber_has_stencil_attachment c)"

lemma begin_rendering_header_facts:
  "length (begin_rendering_header c) = 600" "40 \<le> i \<Longrightarrow> j \<le> 600 \<Longrightarrow> zeros (begin_rendering_header c) i j"
  "get_u32 (begin_rendering_header c) 0 = ber_flags c" "get_u32 (begin_rendering_header c) 4 = ber_render_offset_x c"
  "get_u32 (begin_rendering_header c) 8 = ber_render_offset_y c" "get_u32 (begin_rendering_header c) 12 = ber_width c"
  "get_u32 (begin_rendering_header c) 16 = ber_height c" "get_u32 (begin_rendering_header c) 20 = ber_layer_count c"
  "get_u32 (begin_rendering_header c) 24 = ber_view_mask c" "get_u32 (begin_rendering_header c) 28 = ber_color_attachment_count c"
  "get_u32 (begin_rendering_header c) 32 = ber_has_depth_attachment c" "get_u32 (begin_rendering_header c) 36 = ber_has_stencil_attachment c"
  by (simp_all add: begin_rendering_header_def wire_simps)

lemma begin_rendering_payload_form:
  assumes "begin_rendering_payload c = Inr p"
  defines "xs \<equiv> take (unat (ber_color_attachment_count c)) (ber_color_attachments c)"
  shows "p = put_optional (ber_has_stencil_attachment c \<noteq> 0)
      (put_optional (ber_has_depth_attachment c \<noteq> 0)
        (put_each encode_rendering_attachment 56 (begin_rendering_header c) 40 xs) 488 (ber_depth_attachment c))
      544 (ber_stencil_attachment c)"
    and "ber_width c \<noteq> 0" "ber_height c \<noteq> 0" "ber_layer_count c \<noteq> 0" "ber_color_attachment_count c \<le> 8"
      "ber_has_depth_attachment c \<le> 1" "ber_has_stencil_attachment c \<le> 1"
      "ber_color_attachment_count c \<noteq> 0 \<or> ber_has_depth_attachment c \<noteq> 0 \<or> ber_has_stencil_attachment c \<noteq> 0"
    and "\<And>x. x \<in> set xs \<Longrightarrow> rendering_attachment_is_valid x False"
    and "ber_has_depth_attachment c \<noteq> 0 \<Longrightarrow> rendering_attachment_is_valid (ber_depth_attachment c) True"
    and "ber_has_stencil_attachment c \<noteq> 0 \<Longrightarrow> rendering_attachment_is_valid (ber_stencil_attachment c) True"
  using assms(1)
  by (auto simp: begin_rendering_payload_def Let_def put_optional_def begin_rendering_header_def xs_def list_all_iff
      split: if_splits)

lemma begin_rendering_payload_facts:
  assumes c: "rendering_arrays c" "begin_rendering_payload c = Inr p"
  defines "n \<equiv> unat (ber_color_attachment_count c)"
  defines "xs \<equiv> take n (ber_color_attachments c)"
  shows "length p = 600 \<and> n \<le> 8 \<and> (\<forall>j. j + 4 \<le> 40 \<longrightarrow> get_u32 p j = get_u32 (begin_rendering_header c) j) \<and>
    get_each decode_rendering_attachment 56 p 40 n = xs \<and>
    (ber_has_depth_attachment c \<noteq> 0 \<longrightarrow> decode_rendering_attachment p 488 = ber_depth_attachment c) \<and>
    (ber_has_stencil_attachment c \<noteq> 0 \<longrightarrow> decode_rendering_attachment p 544 = ber_stencil_attachment c) \<and>
    zeros p (40 + n * 56) 488 \<and> (ber_has_depth_attachment c = 0 \<longrightarrow> zeros p 488 544) \<and>
    (ber_has_stencil_attachment c = 0 \<longrightarrow> zeros p 544 600)"
proof -
  note form = begin_rendering_payload_form [OF c(2), folded n_def, folded xs_def]
  let ?h = "begin_rendering_header c"
  let ?a = "put_each encode_rendering_attachment 56 ?h 40 xs"
  have words: "list_all (\<lambda>x. length (ra_clear_words x) = 4) xs"
    using c(1) by (auto simp: xs_def list_all_iff dest: in_set_takeD)
  have len: "length xs = n" "n \<le> 8" using form(5) c(1) by (simp_all add: xs_def n_def word_le_nat_alt)
  then have fit: "40 + length xs * 56 \<le> length ?h" by (simp add: begin_rendering_header_facts)
  have a: "length ?a = 600" "j + 4 \<le> 40 \<Longrightarrow> get_u32 ?a j = get_u32 ?h j" "get_each decode_rendering_attachment 56 ?a 40 n = xs"
    "40 + n * 56 \<le> i \<Longrightarrow> k \<le> 600 \<Longrightarrow> zeros ?a i k" for i j k
    using words fit len
    by (simp_all add: attachment_field.put_each_length attachment_field.read_other_array [OF reads_u32]
        attachment_field.get_put_each [where xs = xs, simplified len] attachment_field.zeros_put_each begin_rendering_header_facts)
  show ?thesis using c(1) len a by (auto simp: form(1) put_optional_facts)
qed

lemma begin_rendering_laws:
  assumes c: "rendering_arrays c" "begin_rendering_payload c = Inr p"
  shows "record_ok (BVB_COMMAND_BEGIN_RENDERING, p)"
    and "decode_begin_rendering (Some (record_at BVB_COMMAND_BEGIN_RENDERING p rest)) (Some d) = Inr (norm_begin_rendering c)"
proof -
  let ?n = "unat (ber_color_attachment_count c)"
  note form = begin_rendering_payload_form(2-) [OF c(2)]
  have len: "length p = 600" "?n \<le> 8" and low: "\<And>j. j + 4 \<le> 40 \<Longrightarrow> get_u32 p j = get_u32 (begin_rendering_header c) j"
    and colors: "get_each decode_rendering_attachment 56 p 40 ?n = take ?n (ber_color_attachments c)"
    and depth: "ber_has_depth_attachment c \<noteq> 0 \<Longrightarrow> decode_rendering_attachment p 488 = ber_depth_attachment c"
      "ber_has_depth_attachment c = 0 \<Longrightarrow> zeros p 488 544"
    and stencil: "ber_has_stencil_attachment c \<noteq> 0 \<Longrightarrow> decode_rendering_attachment p 544 = ber_stencil_attachment c"
      "ber_has_stencil_attachment c = 0 \<Longrightarrow> zeros p 544 600"
    and zero: "zeros p (40 + ?n * 56) 488"
    using begin_rendering_payload_facts [OF c] by blast+
  note head = low begin_rendering_header_facts
  have entry: "rendering_attachment_is_valid (decode_rendering_attachment p (40 + i * 56)) False" if "i < ?n" for i
  proof -
    have "decode_rendering_attachment p (40 + i * 56) = get_each decode_rendering_attachment 56 p 40 ?n ! i"
      using that by (simp add: get_each_def)
    moreover have "\<dots> \<in> set (take ?n (ber_color_attachments c))"
      unfolding colors using that len c(1) by (intro nth_mem) simp
    ultimately show ?thesis using form(8) by simp
  qed
  have unused: "?n \<le> i \<Longrightarrow> i < 8 \<Longrightarrow> bytes_are_zero p (40 + i * 56) 56" for i
    using zero_checks(1) [OF zero] by auto
  have absent: "ber_has_depth_attachment c = 0 \<Longrightarrow> bytes_are_zero p 488 56"
      "ber_has_stencil_attachment c = 0 \<Longrightarrow> bytes_are_zero p 544 56"
    using zero_checks(1) [OF depth(2)] zero_checks(1) [OF stencil(2)] by auto
  have "begin_rendering_ok p"
    unfolding begin_rendering_ok_def Let_def
    using form entry len depth(1) stencil(1) unused absent by (auto simp: head list_all_iff not_le)
  then show "record_ok (BVB_COMMAND_BEGIN_RENDERING, p)" using len by (simp add: flat_command_simps word_le_nat_alt)
  show "decode_begin_rendering (Some (record_at BVB_COMMAND_BEGIN_RENDERING p rest)) (Some d) = Inr (norm_begin_rendering c)"
    using len colors depth(1) stencil(1)
    by (auto simp: decode_begin_rendering_def norm_begin_rendering_def Let_def wire_simps head)
qed

definition begin_rendering_shape :: "begin_rendering_command \<Rightarrow> bool" where
  "begin_rendering_shape = (\<lambda>c. rendering_arrays c)"

interpretation begin_rendering_command: command_codec BVB_COMMAND_BEGIN_RENDERING
    begin_rendering_shape norm_begin_rendering begin_rendering_payload decode_begin_rendering
  unfolding begin_rendering_shape_def
  by (rule command_codecI) (rule begin_rendering_laws; simp | auto simp: decode_total_simps decode_begin_rendering_def begin_rendering_ok_def fill_to_def get_each_def decode_rendering_attachment_def zero_attachment_def)+

subsection \<open>transfers\<close>

lemma reads_region_check: "reads 124 (\<lambda>b at. P (get_transfer_region b at))"
  using region_field.reads_get unfolding reads_def by metis

text \<open>The raw words a validator looks at are those of the region it would decode.\<close>

lemma region_words:
  "get_u64 b (at + 16) = tr_size (get_transfer_region b at)"
  "get_u32 b (at + 112) = ext_width (tr_extent (get_transfer_region b at))"
  "get_u32 b (at + 116) = ext_height (tr_extent (get_transfer_region b at))"
  "get_u32 b (at + 120) = ext_depth (tr_extent (get_transfer_region b at))"
  "get_u32 b (at + 32) = isl_aspect_mask (tr_source_layers (get_transfer_region b at))"
  "get_u32 b (at + 44) = isl_layer_count (tr_source_layers (get_transfer_region b at))"
  "get_u32 b (at + 48) = isl_aspect_mask (tr_destination_layers (get_transfer_region b at))"
  "get_u32 b (at + 60) = isl_layer_count (tr_destination_layers (get_transfer_region b at))"
  by (simp_all add: get_transfer_region_def decode_transfer_layers_def add.commute)

lemma transfer_payload_facts:
  assumes "length (tfc_regions c) = 16" "opcode \<noteq> BVB_COMMAND_VULKAN_BLIT_IMAGE_2 \<longrightarrow> tfc_filter c = 0"
    and "transfer_payload opcode c = Inr p"
  defines "n \<equiv> unat (tfc_region_count c)"
  shows "length p = 32 + n * 128 \<and> n \<le> 16 \<and> tfc_region_count c \<noteq> 0 \<and> tfc_region_count c \<le> 16 \<and> transfer_opcode_is_valid opcode \<and>
    transfer_ok opcode p \<and> get_u64 p 0 = tfc_source_id c \<and> get_u64 p 8 = tfc_destination_id c \<and>
    get_u32 p 16 = tfc_source_layout c \<and> get_u32 p 20 = tfc_destination_layout c \<and> get_u32 p 24 = tfc_filter c \<and>
    get_u32 p 28 = tfc_region_count c \<and> get_each get_transfer_region 128 p 32 n = take n (tfc_regions c)"
proof -
  define xs where "xs = take n (tfc_regions c)"
  define b where "b = put_u32 (put_u32 (put_u32 (put_u32 (put_u64 (put_u64 (replicate 2080 0 :: bytes) 0 (tfc_source_id c)) 8
    (tfc_destination_id c)) 16 (tfc_source_layout c)) 20 (tfc_destination_layout c)) 24 (tfc_filter c)) 28 (tfc_region_count c)"
  define q where "q = put_each put_transfer_region 128 b 32 xs"
  have k: "transfer_opcode_is_valid opcode" "tfc_region_count c \<noteq> 0" "tfc_region_count c \<le> 16"
      "handle_expect (tfc_source_id c) (if source_is_buffer opcode then BVB_OBJECT_BUFFER else BVB_OBJECT_IMAGE) = Inr ()"
      "handle_expect (tfc_destination_id c) (if destination_is_buffer opcode then BVB_OBJECT_BUFFER else BVB_OBJECT_IMAGE) = Inr ()"
      "source_is_buffer opcode \<or> tfc_source_layout c \<noteq> 0" "destination_is_buffer opcode \<or> tfc_destination_layout c \<noteq> 0"
      "opcode = BVB_COMMAND_VULKAN_BLIT_IMAGE_2 \<longrightarrow> tfc_filter c \<le> 1"
    and valid: "\<And>x. x \<in> set xs \<Longrightarrow> transfer_region_is_valid opcode x"
    and p': "p = take (unat (transfer_payload_size (tfc_region_count c))) q"
    using assms(3)
    by (auto simp: transfer_payload_def Let_def xs_def n_def b_def q_def list_all_iff split: if_splits)
  have len: "length xs = n" "n \<le> 16" "length b = 2080"
    using k(3) assms(1) by (simp_all add: xs_def b_def n_def word_le_nat_alt)
  then have fit: "32 + length xs * 128 \<le> length b" by simp
  have q_len: "length q = 2080" using fit len by (simp add: q_def region_field.put_each_length list_all_iff)
  have p: "p = take (32 + n * 128) q" using p' unat_transfer_payload_size [OF k(3)] by (simp add: n_def)
  have n1: "1 \<le> n" using k(2) by (simp add: n_def Suc_leI unat_gt_0)
  have header: "get_u64 p 0 = tfc_source_id c" "get_u64 p 8 = tfc_destination_id c" "get_u32 p 16 = tfc_source_layout c"
      "get_u32 p 20 = tfc_destination_layout c" "get_u32 p 24 = tfc_filter c" "get_u32 p 28 = tfc_region_count c"
    using fit len q_len
    by (simp_all add: p get_take) (simp_all add: q_def region_field.read_other_array [OF reads_u32]
        region_field.read_other_array [OF reads_u64] list_all_iff, simp_all add: b_def wire_simps)
  have below: "32 + i * 128 + 128 \<le> 32 + n * 128" if "i < n" for i using that by simp
  have "get_each get_transfer_region 128 (p @ drop (32 + n * 128) q) 32 n = get_each get_transfer_region 128 p 32 n"
    using q_len len by (intro array_left) (simp add: p)
  then have regions: "get_each get_transfer_region 128 p 32 n = xs"
    using region_field.get_put_each [OF _ _ fit] len by (simp add: p q_def list_all_iff)
  have region: "get_transfer_region p (32 + i * 128) = xs ! i" if "i < n" for i
    using regions get_each_nth [OF that, of get_transfer_region 128 p 32] by simp
  have gap: "get_u32 p (32 + i * 128 + 124) = 0" if "i < n" for i
  proof -
    have "put_each put_transfer_region 128 b 32 xs ! k = b ! k" if "32 + i * 128 + 124 \<le> k" "k < 32 + i * 128 + 128" for k
    proof (rule region_field.put_each_gap)
      show "k < 32 + l * 128 \<or> 32 + l * 128 + 124 \<le> k" for l using that by (cases "l \<le> i") auto
    qed (use fit in \<open>simp_all add: list_all_iff\<close>)
    then have "get_u32 q (32 + i * 128 + 124) = get_u32 b (32 + i * 128 + 124)"
      unfolding q_def by (intro get_u32_local) auto
    then show ?thesis using below [OF that] len q_len by (simp add: p get_take b_def wire_simps)
  qed
  have entry: "\<not> ((opcode = BVB_COMMAND_VULKAN_COPY_BUFFER_2 \<and> get_u64 p (32 + i * 128 + 16) = 0) \<or>
      (opcode \<noteq> BVB_COMMAND_VULKAN_COPY_BUFFER_2 \<and>
       (get_u32 p (32 + i * 128 + 112) = 0 \<or> get_u32 p (32 + i * 128 + 116) = 0 \<or> get_u32 p (32 + i * 128 + 120) = 0)) \<or>
      (\<not> source_is_buffer opcode \<and> (get_u32 p (32 + i * 128 + 32) = 0 \<or> get_u32 p (32 + i * 128 + 44) = 0)) \<or>
      (\<not> destination_is_buffer opcode \<and> (get_u32 p (32 + i * 128 + 48) = 0 \<or> get_u32 p (32 + i * 128 + 60) = 0)) \<or>
      get_u32 p (32 + i * 128 + 124) \<noteq> 0)" if "i < n" for i
    unfolding region_words region [OF that] gap [OF that]
    using valid [of "xs ! i"] that len by (auto simp: transfer_region_is_valid_def transfer_layers_are_valid_def Let_def)
  have "transfer_ok opcode p"
    unfolding transfer_ok_def Let_def header n_def [symmetric] list_all_range
    using k assms(2) entry by (intro conjI allI impI) (auto simp: not_less)
  then show ?thesis using header regions k len q_len by (simp add: p xs_def)
qed

abbreviation transfer_arrays :: "u16 \<Rightarrow> transfer_command \<Rightarrow> bool" where
  "transfer_arrays opcode c \<equiv> length (tfc_regions c) = 16 \<and> (opcode \<noteq> BVB_COMMAND_VULKAN_BLIT_IMAGE_2 \<longrightarrow> tfc_filter c = 0)"

lemma transfer_lengths:
  assumes "transfer_opcode_is_valid opcode" "length p = 32 + unat count * 128" "count \<noteq> 0" "count \<le> 16" "get_u32 p 28 = count"
  shows "payload_length_is_valid opcode p (word_of_nat (length p))"
    and "payload_length_is_valid opcode (p @ rest) (word_of_nat (length p))"
proof -
  have n: "unat count \<le> 16" using assms(4) by (simp add: word_le_nat_alt)
  then have w: "unat (word_of_nat (length p) :: u32) = length p" using assms(2) by (simp add: unat_of_nat del: of_nat_add of_nat_mult)
  have size: "word_of_nat (length p) = transfer_payload_size count"
    using w unat_transfer_payload_size [OF assms(4)] assms(2) by (simp add: word_unat_eq_iff)
  have op: "expected_payload_size opcode = Inr 2080" "opcode \<noteq> BVB_COMMAND_VULKAN_IMAGE_BARRIER_2"
      "opcode \<noteq> BVB_COMMAND_VULKAN_UPDATE_BUFFER"
    using transfer_opcodes [OF assms(1)] by (auto simp: expected_payload_size_def)
  have "p \<noteq> []" "\<not> transfer_payload_size count < 32"
    using assms(2) w size by (auto simp: word_less_nat_alt)
  then show valid: "payload_length_is_valid opcode p (word_of_nat (length p))"
    using assms(1,3-5) op unfolding payload_length_is_valid_def size by (simp add: Let_def)
  then show "payload_length_is_valid opcode (p @ rest) (word_of_nat (length p))"
    using payload_length_prefix [of p "word_of_nat (length p)"] w by simp
qed

definition transfer_shape :: "u16 \<Rightarrow> transfer_command \<Rightarrow> bool" where
  "transfer_shape = (\<lambda>opcode c. transfer_arrays opcode c)"

definition norm_transfer :: "transfer_command \<Rightarrow> transfer_command" where
  "norm_transfer c = c\<lparr>tfc_regions := fill_to 16 zero_region (take (unat (tfc_region_count c)) (tfc_regions c))\<rparr>"

lemma transfer_codec:
  assumes op: "transfer_opcode_is_valid opcode"
  shows "command_codec opcode (transfer_shape opcode) norm_transfer (transfer_payload opcode) decode_transfer"
  unfolding transfer_shape_def
proof (rule command_codecI)
  fix c p rest d
  assume c: "transfer_arrays opcode c" "transfer_payload opcode c = Inr p"
  let ?n = "unat (tfc_region_count c)"
  have facts: "length p = 32 + ?n * 128" "?n \<le> 16" "tfc_region_count c \<noteq> 0" "tfc_region_count c \<le> 16"
      "transfer_opcode_is_valid opcode" "transfer_ok opcode p" "get_u64 p 0 = tfc_source_id c"
      "get_u64 p 8 = tfc_destination_id c" "get_u32 p 16 = tfc_source_layout c" "get_u32 p 20 = tfc_destination_layout c"
      "get_u32 p 24 = tfc_filter c" "get_u32 p 28 = tfc_region_count c"
      "get_each get_transfer_region 128 p 32 ?n = take ?n (tfc_regions c)"
    using transfer_payload_facts [OF conjunct1 [OF c(1)] conjunct2 [OF c(1)] c(2)] by blast+
  note lengths = transfer_lengths [OF facts(5,1,3,4,12)]
  have "payload_ok opcode p = transfer_ok opcode p"
    using transfer_opcodes [OF facts(5)] by (auto simp: payload_ok_def)
  then show "record_ok (opcode, p)" using lengths(1) facts(1,2,6) by simp
  show "decode_transfer (Some (record_at opcode p rest)) (Some d) =
      Inr (norm_transfer c)"
    using facts lengths(2) [of rest] by (auto simp: decode_transfer_def norm_transfer_def Let_def wire_simps simp del: of_nat_add of_nat_mult)
next
  fix p rest d
  assume ok: "payload_ok opcode (p @ rest)"
    and valid: "payload_length_is_valid opcode (p @ rest) (word_of_nat (length p))"
  have "payload_ok opcode (p @ rest) = transfer_ok opcode (p @ rest)"
    using transfer_opcodes [OF op] by (auto simp: payload_ok_def)
  then have "get_u32 (p @ rest) 28 \<le> 16" "opcode \<noteq> BVB_COMMAND_VULKAN_BLIT_IMAGE_2 \<longrightarrow> get_u32 (p @ rest) 24 = 0"
    using ok by (auto simp: transfer_ok_def Let_def not_less)
  then show "\<exists>c. transfer_arrays opcode c \<and> decode_transfer (Some (record_at opcode p rest)) (Some d) = Inr c"
    using op valid by (simp add: decode_transfer_def Let_def word_le_nat_alt)
qed (simp_all add: decode_transfer_def)

interpretation copy_buffer_command: command_codec BVB_COMMAND_VULKAN_COPY_BUFFER_2 "transfer_shape BVB_COMMAND_VULKAN_COPY_BUFFER_2" norm_transfer
    "transfer_payload BVB_COMMAND_VULKAN_COPY_BUFFER_2" decode_transfer
  by (rule transfer_codec) (simp add: transfer_opcode_is_valid_def)

interpretation copy_buffer_to_image_command: command_codec BVB_COMMAND_VULKAN_COPY_BUFFER_TO_IMAGE_2 "transfer_shape BVB_COMMAND_VULKAN_COPY_BUFFER_TO_IMAGE_2" norm_transfer
    "transfer_payload BVB_COMMAND_VULKAN_COPY_BUFFER_TO_IMAGE_2" decode_transfer
  by (rule transfer_codec) (simp add: transfer_opcode_is_valid_def)

interpretation copy_image_to_buffer_command: command_codec BVB_COMMAND_VULKAN_COPY_IMAGE_TO_BUFFER_2 "transfer_shape BVB_COMMAND_VULKAN_COPY_IMAGE_TO_BUFFER_2" norm_transfer
    "transfer_payload BVB_COMMAND_VULKAN_COPY_IMAGE_TO_BUFFER_2" decode_transfer
  by (rule transfer_codec) (simp add: transfer_opcode_is_valid_def)

interpretation copy_image_command: command_codec BVB_COMMAND_VULKAN_COPY_IMAGE_2 "transfer_shape BVB_COMMAND_VULKAN_COPY_IMAGE_2" norm_transfer
    "transfer_payload BVB_COMMAND_VULKAN_COPY_IMAGE_2" decode_transfer
  by (rule transfer_codec) (simp add: transfer_opcode_is_valid_def)

interpretation blit_image_command: command_codec BVB_COMMAND_VULKAN_BLIT_IMAGE_2 "transfer_shape BVB_COMMAND_VULKAN_BLIT_IMAGE_2" norm_transfer
    "transfer_payload BVB_COMMAND_VULKAN_BLIT_IMAGE_2" decode_transfer
  by (rule transfer_codec) (simp add: transfer_opcode_is_valid_def)

interpretation resolve_image_command: command_codec BVB_COMMAND_VULKAN_RESOLVE_IMAGE_2 "transfer_shape BVB_COMMAND_VULKAN_RESOLVE_IMAGE_2" norm_transfer
    "transfer_payload BVB_COMMAND_VULKAN_RESOLVE_IMAGE_2" decode_transfer
  by (rule transfer_codec) (simp add: transfer_opcode_is_valid_def)

text \<open>
  A filter on a transfer that is not a blit: the append function stores it, and no receiver accepts
  the batch.
\<close>

lemma transfer_filter_refused:
  assumes "transfer_payload opcode c = Inr p" "length (tfc_regions c) = 16"
    and "opcode \<noteq> BVB_COMMAND_VULKAN_BLIT_IMAGE_2" "tfc_filter c \<noteq> 0"
  shows "\<not> payload_ok opcode p"
proof -
  have op: "transfer_opcode_is_valid opcode" and count: "tfc_region_count c \<le> 16"
    using assms(1) by (auto simp: transfer_payload_def split: if_splits)
  define b where "b = put_u64 (put_u64 (replicate 2080 0 :: bytes) 0 (tfc_source_id c)) 8 (tfc_destination_id c)"
  define xs where "xs = take (unat (tfc_region_count c)) (tfc_regions c)"
  have p: "p = take (32 + unat (tfc_region_count c) * 128) (put_each put_transfer_region 128
      (put_u32 (put_u32 (put_u32 (put_u32 b 16 (tfc_source_layout c)) 20 (tfc_destination_layout c)) 24 (tfc_filter c))
        28 (tfc_region_count c)) 32 xs)"
    using assms(1) unat_transfer_payload_size [OF count]
    by (auto simp: transfer_payload_def Let_def b_def xs_def split: if_splits)
  have len: "length xs = unat (tfc_region_count c)" "unat (tfc_region_count c) \<le> 16"
    using count assms(2) by (simp_all add: xs_def word_le_nat_alt)
  then have "get_u32 p 24 = tfc_filter c"
    by (simp add: p get_take b_def region_field.put_each_length list_all_iff region_field.read_other_array [OF reads_u32])
      (simp add: wire_simps)
  then have "\<not> transfer_ok opcode p" using assms(3,4) by (simp add: transfer_ok_def Let_def)
  moreover have "payload_ok opcode p = transfer_ok opcode p"
    using transfer_opcodes [OF op] by (auto simp: payload_ok_def)
  ultimately show ?thesis by simp
qed

subsection \<open>barriers\<close>

lemma reads_barrier_checks:
  "reads 64 (\<lambda>b at. P (get_u64 b (at + 40)) (get_u64 b (at + 56)))"
  "reads 80 (\<lambda>b at. Q (get_u64 b (at + 48)) \<and> validate_image_range_wire b (at + 56) = Inr ())"
  by (rule readsI, simp add: validate_image_range_wire_def agree_reads add.assoc)+

lemma buffer_barrier_entry:
  assumes "\<And>x. x \<in> set xs \<Longrightarrow> P (bb2_buffer_id x) (bb2_size x)" "at + length xs * 64 \<le> length b" "i < length xs"
  shows "P (get_u64 (put_each put_buffer_barrier 64 b at xs) (at + i * 64 + 40)) (get_u64 (put_each put_buffer_barrier 64 b at xs) (at + i * 64 + 56))"
  using assms
  by (intro buffer_barrier_field.each_check [OF reads_barrier_checks(1) [of P]])
    (auto simp: list_all_iff put_buffer_barrier_def Let_def wire_simps)

lemma image_barrier_entry:
  assumes "\<And>x. x \<in> set xs \<Longrightarrow> Q (ib2_image_id x) \<and> image_range_is_valid (ib2_range x)"
    and "at + length xs * 80 \<le> length b" "i < length xs"
  shows "Q (get_u64 (put_each put_image_barrier 80 b at xs) (at + i * 80 + 48)) \<and>
    validate_image_range_wire (put_each put_image_barrier 80 b at xs) (at + i * 80 + 56) = Inr ()"
  using assms
  by (intro image_barrier_field.each_check [OF reads_barrier_checks(2) [of Q]])
    (auto simp: list_all_iff put_image_barrier_def encode_image_range_def validate_image_range_wire_def
      image_range_is_valid_def Let_def wire_simps)

text \<open>The three arrays of a barrier command, one after the other.\<close>

definition put_barriers ::
  "bytes \<Rightarrow> memory_barrier_2 list \<Rightarrow> buffer_barrier_2 list \<Rightarrow> image_barrier_2 list \<Rightarrow> bytes" where
  "put_barriers b ms bs is =
     put_each put_image_barrier 80
       (put_each put_buffer_barrier 64 (put_each put_memory_barrier 32 b 16 ms) (16 + length ms * 32) bs)
       (16 + length ms * 32 + length bs * 64) is"

lemma put_barriers_facts:
  assumes fit: "16 + length ms * 32 + length bs * 64 + length is * 80 \<le> length b"
  shows "length (put_barriers b ms bs is) = length b"
    and "j + 4 \<le> 16 \<Longrightarrow> get_u32 (put_barriers b ms bs is) j = get_u32 b j"
    and "get_each get_memory_barrier 32 (put_barriers b ms bs is) 16 (length ms) = ms"
    and "get_each get_buffer_barrier 64 (put_barriers b ms bs is) (16 + length ms * 32) (length bs) = bs"
    and "get_each get_image_barrier 80 (put_barriers b ms bs is) (16 + length ms * 32 + length bs * 64) (length is) = is"
proof -
  let ?a = "put_each put_memory_barrier 32 b 16 ms"
  let ?c = "put_each put_buffer_barrier 64 ?a (16 + length ms * 32) bs"
  have a: "length ?a = length b" using fit by (intro memory_barrier_field.put_each_length) (auto simp: list_all_iff)
  have c: "length ?c = length b" using fit a by (subst buffer_barrier_field.put_each_length) (auto simp: list_all_iff)
  let ?d = "put_barriers b ms bs is"
  show "length ?d = length b"
    unfolding put_barriers_def using fit c by (subst image_barrier_field.put_each_length) (auto simp: list_all_iff)
  show "get_u32 ?d j = get_u32 b j" if "j + 4 \<le> 16"
    unfolding put_barriers_def using fit a c that
    by (simp add: image_barrier_field.read_other_array [OF reads_u32] buffer_barrier_field.read_other_array [OF reads_u32]
        memory_barrier_field.read_other_array [OF reads_u32] list_all_iff)
  show "get_each get_memory_barrier 32 ?d 16 (length ms) = ms"
    unfolding put_barriers_def using fit a c
    by (simp add: image_barrier_field.read_each_other_array [OF memory_barrier_field.reads_get]
        buffer_barrier_field.read_each_other_array [OF memory_barrier_field.reads_get]
        memory_barrier_field.get_put_each list_all_iff)
  show "get_each get_buffer_barrier 64 ?d (16 + length ms * 32) (length bs) = bs"
    unfolding put_barriers_def using fit a c
    by (simp add: image_barrier_field.read_each_other_array [OF buffer_barrier_field.reads_get]
        buffer_barrier_field.get_put_each list_all_iff)
  show "get_each get_image_barrier 80 ?d (16 + length ms * 32 + length bs * 64) (length is) = is"
    unfolding put_barriers_def using fit c by (simp add: image_barrier_field.get_put_each list_all_iff)
qed

lemma put_barriers_entries:
  assumes fit: "16 + length ms * 32 + length bs * 64 + length is * 80 \<le> length b"
  shows "(\<And>x. x \<in> set bs \<Longrightarrow> P (bb2_buffer_id x) (bb2_size x)) \<Longrightarrow> i < length bs \<Longrightarrow>
      P (get_u64 (put_barriers b ms bs is) (16 + length ms * 32 + i * 64 + 40))
        (get_u64 (put_barriers b ms bs is) (16 + length ms * 32 + i * 64 + 56))"
    and "(\<And>x. x \<in> set is \<Longrightarrow> Q (ib2_image_id x) \<and> image_range_is_valid (ib2_range x)) \<Longrightarrow> i < length is \<Longrightarrow>
      Q (get_u64 (put_barriers b ms bs is) (16 + length ms * 32 + length bs * 64 + i * 80 + 48)) \<and>
      validate_image_range_wire (put_barriers b ms bs is) (16 + length ms * 32 + length bs * 64 + i * 80 + 56) = Inr ()"
proof -
  let ?a = "put_each put_memory_barrier 32 b 16 ms"
  let ?c = "put_each put_buffer_barrier 64 ?a (16 + length ms * 32) bs"
  have a: "length ?a = length b" using fit by (intro memory_barrier_field.put_each_length) (auto simp: list_all_iff)
  have c: "length ?c = length b" using fit a by (subst buffer_barrier_field.put_each_length) (auto simp: list_all_iff)
  {
    assume bs: "\<And>x. x \<in> set bs \<Longrightarrow> P (bb2_buffer_id x) (bb2_size x)" and i: "i < length bs"
    have "(i + 1) * 64 \<le> length bs * 64" using i by (intro mult_le_mono1) simp
    then have low: "get_u64 (put_barriers b ms bs is) (16 + length ms * 32 + i * 64 + j) = get_u64 ?c (16 + length ms * 32 + i * 64 + j)"
      if "j + 8 \<le> 64" for j
      unfolding put_barriers_def using fit c that
      by (intro image_barrier_field.read_other_array [OF reads_u64]) (auto simp: list_all_iff)
    have "P (get_u64 ?c (16 + length ms * 32 + i * 64 + 40)) (get_u64 ?c (16 + length ms * 32 + i * 64 + 56))"
      by (rule buffer_barrier_entry [where P = P, OF bs _ i]) (use fit a in \<open>simp_all\<close>)
    then show "P (get_u64 (put_barriers b ms bs is) (16 + length ms * 32 + i * 64 + 40))
        (get_u64 (put_barriers b ms bs is) (16 + length ms * 32 + i * 64 + 56))"
      by (subst (1 2) low) simp_all
  }
  show "Q (get_u64 (put_barriers b ms bs is) (16 + length ms * 32 + length bs * 64 + i * 80 + 48)) \<and>
      validate_image_range_wire (put_barriers b ms bs is) (16 + length ms * 32 + length bs * 64 + i * 80 + 56) = Inr ()"
    if "\<And>x. x \<in> set is \<Longrightarrow> Q (ib2_image_id x) \<and> image_range_is_valid (ib2_range x)" "i < length is"
    unfolding put_barriers_def by (rule image_barrier_entry [where Q = Q, OF that(1) _ that(2)]) (use fit c in \<open>simp_all\<close>)
qed

abbreviation barrier_shape :: "image_barrier_2_command \<Rightarrow> bool" where
  "barrier_shape c \<equiv> length (ibc_memory c) = 64 \<and> length (ibc_buffers c) = 256 \<and> length (ibc_images c) = 2048"

definition norm_barrier :: "image_barrier_2_command \<Rightarrow> image_barrier_2_command" where
  "norm_barrier c =
     c\<lparr>ibc_memory := fill_to 64 zero_memory_barrier (take (unat (ibc_memory_count c)) (ibc_memory c)),
       ibc_buffers := fill_to 256 zero_buffer_barrier (take (unat (ibc_buffer_count c)) (ibc_buffers c)),
       ibc_images := fill_to 2048 zero_image_barrier (take (unat (ibc_image_count c)) (ibc_images c))\<rparr>"

definition barrier_header :: "image_barrier_2_command \<Rightarrow> bytes" where
  "barrier_header c = put_u32 (put_u32 (put_u32 (put_u32 (replicate 182288 0) 0 (ibc_dependency_flags c)) 4
     (ibc_memory_count c)) 8 (ibc_buffer_count c)) 12 (ibc_image_count c)"

lemma barrier_payload_form:
  assumes "barrier_shape c" "image_barrier_2_payload c = Inr p"
  defines "ms \<equiv> take (unat (ibc_memory_count c)) (ibc_memory c)" and "bs \<equiv> take (unat (ibc_buffer_count c)) (ibc_buffers c)"
    and "is \<equiv> take (unat (ibc_image_count c)) (ibc_images c)"
  shows "ibc_dependency_flags c AND NOT 0x6f = 0" "ibc_memory_count c \<le> 64" "ibc_buffer_count c \<le> 256" "ibc_image_count c \<le> 2048"
    and "length ms = unat (ibc_memory_count c)" "length bs = unat (ibc_buffer_count c)" "length is = unat (ibc_image_count c)"
    and "p = take (16 + length ms * 32 + length bs * 64 + length is * 80) (put_barriers (barrier_header c) ms bs is)"
    and "\<And>x. x \<in> set bs \<Longrightarrow> handle_expect (bb2_buffer_id x) BVB_OBJECT_BUFFER = Inr () \<and> bb2_size x \<noteq> 0"
    and "\<And>x. x \<in> set is \<Longrightarrow> handle_expect (ib2_image_id x) BVB_OBJECT_IMAGE = Inr () \<and> image_range_is_valid (ib2_range x)"
proof -
  show k: "ibc_dependency_flags c AND NOT 0x6f = 0" "ibc_memory_count c \<le> 64" "ibc_buffer_count c \<le> 256" "ibc_image_count c \<le> 2048"
    using assms(2) by (auto simp: image_barrier_2_payload_def Let_def split: if_splits)
  show len: "length ms = unat (ibc_memory_count c)" "length bs = unat (ibc_buffer_count c)" "length is = unat (ibc_image_count c)"
    using k assms(1) by (simp_all add: ms_def bs_def is_def word_le_nat_alt)
  have "p = take (unat (barrier_payload_size (ibc_memory_count c) (ibc_buffer_count c) (ibc_image_count c)))
      (put_barriers (barrier_header c) ms bs is)"
    using assms(2) len unfolding put_barriers_def barrier_header_def
    by (auto simp: image_barrier_2_payload_def Let_def ms_def bs_def is_def split: if_splits)
  then show "p = take (16 + length ms * 32 + length bs * 64 + length is * 80) (put_barriers (barrier_header c) ms bs is)"
    using unat_barrier_payload_size [OF k(2-4)] len by simp
  show "handle_expect (bb2_buffer_id x) BVB_OBJECT_BUFFER = Inr () \<and> bb2_size x \<noteq> 0" if "x \<in> set bs" for x
    using assms(2) that by (auto simp: image_barrier_2_payload_def Let_def bs_def list_all_iff split: if_splits)
  show "handle_expect (ib2_image_id x) BVB_OBJECT_IMAGE = Inr () \<and> image_range_is_valid (ib2_range x)" if "x \<in> set is" for x
    using assms(2) that by (auto simp: image_barrier_2_payload_def Let_def is_def list_all_iff split: if_splits)
qed

lemma barrier_header_facts:
  "length (barrier_header c) = 182288" "get_u32 (barrier_header c) 0 = ibc_dependency_flags c"
  "get_u32 (barrier_header c) 4 = ibc_memory_count c" "get_u32 (barrier_header c) 8 = ibc_buffer_count c"
  "get_u32 (barrier_header c) 12 = ibc_image_count c"
  by (simp_all add: barrier_header_def wire_simps)

lemma barrier_lengths:
  assumes "length p = 16 + unat m * 32 + unat n * 64 + unat k * 80" "m \<le> 64" "n \<le> 256" "k \<le> 2048"
    and "get_u32 p 4 = m" "get_u32 p 8 = n" "get_u32 p 12 = k"
  shows "payload_length_is_valid BVB_COMMAND_VULKAN_IMAGE_BARRIER_2 p (word_of_nat (length p))"
    and "payload_length_is_valid BVB_COMMAND_VULKAN_IMAGE_BARRIER_2 (p @ rest) (word_of_nat (length p))"
    and "unat (word_of_nat (length p) :: u32) = length p" "length p < 2 ^ 32"
proof -
  have le: "unat m \<le> 64" "unat n \<le> 256" "unat k \<le> 2048" using assms(2-4) by (simp_all add: word_le_nat_alt)
  then show "length p < 2 ^ 32" using assms(1) by simp
  then show w: "unat (word_of_nat (length p) :: u32) = length p" by (simp add: unat_of_nat del: of_nat_add of_nat_mult)
  have size: "word_of_nat (length p) = barrier_payload_size m n k"
    using w unat_barrier_payload_size [OF assms(2-4)] assms(1) by (simp add: word_unat_eq_iff)
  have "p \<noteq> []" "\<not> barrier_payload_size m n k < 16" using assms(1) w size by (auto simp: word_less_nat_alt)
  then show valid: "payload_length_is_valid BVB_COMMAND_VULKAN_IMAGE_BARRIER_2 p (word_of_nat (length p))"
    using assms(2-7) unfolding payload_length_is_valid_def size by (simp add: Let_def expected_payload_size_def)
  then show "payload_length_is_valid BVB_COMMAND_VULKAN_IMAGE_BARRIER_2 (p @ rest) (word_of_nat (length p))"
    using payload_length_prefix [of p "word_of_nat (length p)"] w by simp
qed

lemma image_barrier_2_laws:
  assumes c: "barrier_shape c" "image_barrier_2_payload c = Inr p"
  shows "record_ok (BVB_COMMAND_VULKAN_IMAGE_BARRIER_2, p)"
    and "decode_image_barrier_2 (Some (record_at BVB_COMMAND_VULKAN_IMAGE_BARRIER_2 p rest)) (Some d) = Inr (norm_barrier c)"
proof -
  define ms where "ms = take (unat (ibc_memory_count c)) (ibc_memory c)"
  define bs where "bs = take (unat (ibc_buffer_count c)) (ibc_buffers c)"
  define "is" where "is = take (unat (ibc_image_count c)) (ibc_images c)"
  define q where "q = put_barriers (barrier_header c) ms bs is"
  define N where "N = 16 + length ms * 32 + length bs * 64 + length is * 80"
  note form = barrier_payload_form [OF c, folded ms_def, folded bs_def, folded is_def, folded q_def, folded N_def]
  have le: "length ms \<le> 64" "length bs \<le> 256" "length is \<le> 2048" using form(2-7) by (simp_all add: word_le_nat_alt)
  then have fit: "N \<le> length (barrier_header c)" by (simp add: barrier_header_facts N_def)
  note q = put_barriers_facts [OF fit [unfolded N_def], folded q_def]
  have head: "get_u32 q 0 = ibc_dependency_flags c" "get_u32 q 4 = ibc_memory_count c" "get_u32 q 8 = ibc_buffer_count c"
      "get_u32 q 12 = ibc_image_count c"
    using q(2) by (simp_all add: barrier_header_facts)
  have len: "length p = N" using form(8) fit q(1) by simp
  then have low: "get_u32 p j = get_u32 q j" if "j + 4 \<le> 16" for j
    using that fit q(1) by (simp add: form(8) get_take N_def)
  have split: "p @ drop N q = q" using form(8) by simp
  have total: "length p = 16 + unat (ibc_memory_count c) * 32 + unat (ibc_buffer_count c) * 64 + unat (ibc_image_count c) * 80"
    using len by (simp add: N_def form(5-7))
  have counts: "get_u32 p 4 = ibc_memory_count c" "get_u32 p 8 = ibc_buffer_count c" "get_u32 p 12 = ibc_image_count c"
      "get_u32 p 0 = ibc_dependency_flags c"
    by (simp_all add: low head)
  note lengths = barrier_lengths [OF total form(2-4) counts(1-3)]
  note entries = put_barriers_entries [OF fit [unfolded N_def], folded q_def]
  have buffers: "handle_expect (get_u64 q (16 + length ms * 32 + i * 64 + 40)) BVB_OBJECT_BUFFER = Inr () \<and>
      get_u64 q (16 + length ms * 32 + i * 64 + 56) \<noteq> 0" if "i < length bs" for i
    by (rule entries(1) [where P = "\<lambda>h s. handle_expect h BVB_OBJECT_BUFFER = Inr () \<and> s \<noteq> 0", OF form(9) that])
  have images: "handle_expect (get_u64 q (16 + length ms * 32 + length bs * 64 + i * 80 + 48)) BVB_OBJECT_IMAGE = Inr () \<and>
      validate_image_range_wire q (16 + length ms * 32 + length bs * 64 + i * 80 + 56) = Inr ()" if "i < length is" for i
    by (rule entries(2) [where Q = "\<lambda>h. handle_expect h BVB_OBJECT_IMAGE = Inr ()", OF form(10) that])
  have "image_barrier_2_ok q"
    unfolding image_barrier_2_ok_def Let_def head form(5-7) [symmetric] list_all_range
    using form(1-4) buffers images by (intro conjI allI impI) (auto simp: not_less)
  then have "payload_ok BVB_COMMAND_VULKAN_IMAGE_BARRIER_2 p"
    using payload_ok_prefix [OF lengths(1) lengths(3) [symmetric], of "drop N q"] split by (simp add: payload_ok_def)
  then show "record_ok (BVB_COMMAND_VULKAN_IMAGE_BARRIER_2, p)" using lengths(1,4) by simp
  have arrays: "get_each get_memory_barrier 32 p 16 (length ms) = ms"
      "get_each get_buffer_barrier 64 p (16 + length ms * 32) (length bs) = bs"
      "get_each get_image_barrier 80 p (16 + length ms * 32 + length bs * 64) (length is) = is"
    using q(3-5) len array_left(5-7) [where a = p and c = "drop N q"] split by (simp_all add: N_def)
  then show "decode_image_barrier_2 (Some (record_at BVB_COMMAND_VULKAN_IMAGE_BARRIER_2 p rest)) (Some d) = Inr (norm_barrier c)"
    using lengths(2) [of rest] counts len form(5-7)
    by (auto simp: decode_image_barrier_2_def norm_barrier_def Let_def wire_simps N_def ms_def [symmetric] bs_def [symmetric]
        is_def [symmetric] simp del: of_nat_add of_nat_mult)
qed

interpretation image_barrier_2_command: command_codec BVB_COMMAND_VULKAN_IMAGE_BARRIER_2
    barrier_shape norm_barrier image_barrier_2_payload decode_image_barrier_2
  by (rule command_codecI) (rule image_barrier_2_laws; simp | auto simp: payload_ok_def decode_image_barrier_2_def image_barrier_2_ok_def Let_def not_less word_le_nat_alt)+

subsection \<open>The contract of every command\<close>


end
