(* ===== verification/Service_Activity.thy ===== *)
theory Service_Activity
  imports Lifecycle Proto_Batch Transport
begin

unbundle bit_operations_syntax

section \<open>The activity as the service sees it\<close>

text \<open>
  The activity side of src/src/bridge_service.c: the Android activity opens a connection for each
  event, sends one authenticated record and reads an acknowledgement. The service checks the token,
  applies the event to the status it keeps of the activity and answers.

  Calls to \<^verbatim>\<open>poll\<close> and \<^verbatim>\<open>recv\<close> are a sequence of events, as in the transport; a receive whose events run
  out is still waiting (None). The clock reading of \<^verbatim>\<open>monotonic_ns\<close> is an argument.
\<close>

subsection \<open>Definitions\<close>

datatype activity_recv =
    Poll_Timeout
  | Poll_Error int
  | Ready recv_event  \<comment> \<open>something to read, and what the read gives\<close>

fun receive_exact_timeout :: "activity_recv list \<Rightarrow> bytes \<Rightarrow> nat \<Rightarrow> bytes \<Rightarrow> (int \<times> bytes) option" where
  "receive_exact_timeout events stream 0 got = Some (0, got)"
| "receive_exact_timeout [] stream (Suc n) got = None"
| "receive_exact_timeout (Poll_Timeout # events) stream (Suc n) got = Some (neg ETIMEDOUT, got)"
| "receive_exact_timeout (Poll_Error e # events) stream (Suc n) got =
     (if e = errno_code EINTR then receive_exact_timeout events stream (Suc n) got else Some (- e, got))"
| "receive_exact_timeout (Ready (Deliver k) # events) stream (Suc n) got =
     (if stream = [] then Some (neg ECONNRESET, got)
      else
        let received = received_bytes k (Suc n) stream in
        receive_exact_timeout events (drop received stream) (Suc n - received) (got @ take received stream))"
| "receive_exact_timeout (Ready (Recv_Error e) # events) stream (Suc n) got =
     (if e = errno_code EINTR then receive_exact_timeout events stream (Suc n) got else Some (- e, got))"

definition token_matches :: "bytes \<Rightarrow> bytes \<Rightarrow> bool" where
  "token_matches left right \<longleftrightarrow>
     fold (\<lambda>index difference. difference OR (left ! index XOR right ! index)) [0..<BVB_LIFECYCLE_TOKEN_SIZE] 0 = 0"

abbreviation (input) ACTIVITY_CREATED :: u32 where "ACTIVITY_CREATED \<equiv> 1"
abbreviation (input) ACTIVITY_STARTED :: u32 where "ACTIVITY_STARTED \<equiv> 2"
abbreviation (input) ACTIVITY_RESUMED :: u32 where "ACTIVITY_RESUMED \<equiv> 4"
abbreviation (input) ACTIVITY_WINDOW_PRESENT :: u32 where "ACTIVITY_WINDOW_PRESENT \<equiv> 8"
abbreviation (input) ACTIVITY_RENDERER_READY :: u32 where "ACTIVITY_RENDERER_READY \<equiv> 16"
abbreviation (input) ACTIVITY_FOCUSED :: u32 where "ACTIVITY_FOCUSED \<equiv> 32"
abbreviation (input) ACTIVITY_DESTROYED :: u32 where "ACTIVITY_DESTROYED \<equiv> 64"

text \<open>The switch over the event; None is its default case.\<close>

definition lifecycle_effect :: "lifecycle_record \<Rightarrow> activity_status \<Rightarrow> activity_status option" where
  "lifecycle_effect record status =
     (let flags = as_state_flags status; event = lr_event record in
      if event = 1 then Some status
      else if event = 2 then Some (status\<lparr>as_state_flags := flags OR ACTIVITY_STARTED\<rparr>)
      else if event = 3 then Some (status\<lparr>as_state_flags := flags OR ACTIVITY_RESUMED\<rparr>)
      else if event = 4 then Some (status\<lparr>as_state_flags := flags AND NOT (ACTIVITY_RESUMED OR ACTIVITY_FOCUSED)\<rparr>)
      else if event = 5
      then Some (status\<lparr>as_state_flags := flags AND NOT (ACTIVITY_STARTED OR ACTIVITY_RESUMED OR ACTIVITY_FOCUSED)\<rparr>)
      else if event = 6 then Some (status\<lparr>as_state_flags := ACTIVITY_DESTROYED, as_width := 0, as_height := 0\<rparr>)
      else if event = 7
      then Some (status\<lparr>as_state_flags := flags OR ACTIVITY_WINDOW_PRESENT, as_width := lr_width record,
                        as_height := lr_height record\<rparr>)
      else if event = 8
      then Some (status\<lparr>as_state_flags := flags AND NOT (ACTIVITY_WINDOW_PRESENT OR ACTIVITY_RENDERER_READY),
                        as_width := 0, as_height := 0\<rparr>)
      else if event = 9 then Some (status\<lparr>as_state_flags := flags OR ACTIVITY_FOCUSED\<rparr>)
      else if event = 10 then Some (status\<lparr>as_state_flags := flags AND NOT ACTIVITY_FOCUSED\<rparr>)
      else if event = 11
      then Some (status\<lparr>as_state_flags := flags OR (ACTIVITY_WINDOW_PRESENT OR ACTIVITY_RENDERER_READY),
                        as_width := lr_width record, as_height := lr_height record\<rparr>)
      else if event = 12
      then Some (status\<lparr>as_state_flags := flags AND NOT ACTIVITY_RENDERER_READY OR ACTIVITY_WINDOW_PRESENT,
                        as_width := lr_width record, as_height := lr_height record\<rparr>)
      else if event = 13 then Some status
      else None)"

definition apply_lifecycle_event ::
  "u64 \<Rightarrow> activity_status \<Rightarrow> lifecycle_record \<Rightarrow> unit result \<times> activity_status" where
  "apply_lifecycle_event now status record =
     (if lr_event record = EVENT_CREATED \<and> lr_sequence record \<noteq> 1 then (Inl EPROTO, status)
      else if lr_event record \<noteq> EVENT_CREATED \<and>
        (as_authenticated_event_count status = 0 \<or> as_activity_pid status \<noteq> lr_activity_pid record \<or>
         lr_sequence record \<le> as_last_sequence status) then (Inl EPROTO, status)
      else
        let status = (if lr_event record = EVENT_CREATED
              then status\<lparr>as_state_flags := ACTIVITY_CREATED, as_width := 0, as_height := 0,
                          as_activity_pid := lr_activity_pid record\<rparr>
              else status) in
        case lifecycle_effect record status of
          None \<Rightarrow> (Inl EPROTO, status)
        | Some status \<Rightarrow>
            (Inr (), status\<lparr>as_authenticated_event_count := as_authenticated_event_count status + 1,
                            as_last_sequence := lr_sequence record, as_last_event := ucast (lr_event record),
                            as_last_event_monotonic_ns := lr_monotonic_ns record,
                            as_last_event_received_ns := now\<rparr>))"

text \<open>The service's own loop over \<^verbatim>\<open>send\<close>: a call may take no byte at all.\<close>

fun activity_send_exact :: "send_event list \<Rightarrow> bytes \<Rightarrow> bytes \<Rightarrow> (int \<times> bytes) option" where
  "activity_send_exact events [] sent = Some (0, sent)"
| "activity_send_exact [] (x # xs) sent = None"
| "activity_send_exact (Accept k # events) (x # xs) sent =
     (let n = min k (length (x # xs)) in
      activity_send_exact events (drop n (x # xs)) (sent @ take n (x # xs)))"
| "activity_send_exact (Send_Error e # events) (x # xs) sent =
     (if e = errno_code EINTR then activity_send_exact events (x # xs) sent else Some (- e, sent))"

text \<open>One connection: what happens on it, in which order, and the clock.\<close>

record activity_connection =
  ac_events :: "activity_recv list"
  ac_stream :: bytes
  ac_sends :: "send_event list"
  ac_now :: u64

text \<open>The local record before it is filled in; the decoder does not read it.\<close>

definition blank_record :: lifecycle_record where
  "blank_record = \<lparr>lr_event = 0, lr_sequence = 0, lr_width = 0, lr_height = 0, lr_activity_pid = 0,
     lr_monotonic_ns = 0, lr_token = replicate BVB_LIFECYCLE_TOKEN_SIZE 0\<rparr>"

text \<open>Decoding, the token and the event; the record is returned when it was applied.\<close>

definition accept_record ::
  "bytes \<Rightarrow> u64 \<Rightarrow> bytes \<Rightarrow> activity_status \<Rightarrow> int \<times> lifecycle_record option \<times> activity_status" where
  "accept_record token now wire status =
     (case lifecycle_decode_record (Some wire) (Some blank_record) of
        Inl e \<Rightarrow> (neg e, None, status)
      | Inr record \<Rightarrow>
          if \<not> token_matches (lr_token record) token then (neg EACCES, None, status)
          else case apply_lifecycle_event now status record of
            (Inl e, status) \<Rightarrow> (neg e, None, status)
          | (Inr _, status) \<Rightarrow> (0, Some record, status))"

text \<open>What the function returns, the record it applied, the status of the activity and the bytes it sent.\<close>

definition handle_activity_connection ::
  "bytes \<Rightarrow> activity_connection \<Rightarrow> activity_status \<Rightarrow> (int \<times> lifecycle_record option \<times> activity_status \<times> bytes) option" where
  "handle_activity_connection token connection status =
     (case receive_exact_timeout (ac_events connection) (ac_stream connection) BVB_LIFECYCLE_RECORD_SIZE [] of
        None \<Rightarrow> None
      | Some (result, wire) \<Rightarrow>
          if result \<noteq> 0
          then Some (result, None, status\<lparr>as_rejected_event_count := as_rejected_event_count status + 1\<rparr>, [])
          else
            let sequence = get_u32 wire 8;
                (result, accepted, status) = accept_record token (ac_now connection) wire status;
                status = (if result \<noteq> 0
                  then status\<lparr>as_rejected_event_count := as_rejected_event_count status + 1\<rparr> else status) in
            if sequence = 0 then Some (if result = 0 then neg EPROTO else result, accepted, status, [])
            else
              (case lifecycle_encode_ack (Some (replicate BVB_LIFECYCLE_ACK_SIZE 0))
                      (Some \<lparr>la_sequence = sequence, la_status = word_of_int result\<rparr>) of
                 Inl e \<Rightarrow> Some (neg e, accepted, status, [])
               | Inr ack_wire \<Rightarrow>
                   (case activity_send_exact (ac_sends connection) ack_wire [] of
                      None \<Rightarrow> None
                    | Some (ack_result, sent) \<Rightarrow>
                        Some (if ack_result \<noteq> 0 then ack_result else result, accepted, status, sent))))"

text \<open>The main loop's connections, one after the other, from a given status.\<close>

fun serve_activity ::
  "bytes \<Rightarrow> activity_connection list \<Rightarrow> activity_status \<Rightarrow> (lifecycle_record list \<times> activity_status) option" where
  "serve_activity token [] status = Some ([], status)"
| "serve_activity token (c # cs) status =
     (case handle_activity_connection token c status of
        None \<Rightarrow> None
      | Some (_, accepted, status, _) \<Rightarrow>
          (case serve_activity token cs status of
             None \<Rightarrow> None
           | Some (records, status) \<Rightarrow> Some (case accepted of None \<Rightarrow> records | Some r \<Rightarrow> r # records, status)))"

definition initial_status :: "bool \<Rightarrow> activity_status" where
  "initial_status activity_ingress =
     \<lparr>as_ingress_configured = (if activity_ingress then 1 else 0), as_authenticated_event_count = 0,
      as_rejected_event_count = 0, as_last_sequence = 0, as_last_event = 0, as_state_flags = 0, as_width = 0,
      as_height = 0, as_activity_pid = 0, as_last_event_monotonic_ns = 0, as_last_event_received_ns = 0\<rparr>"

subsection \<open>What an activity is\<close>

text \<open>The life of an activity, without words and bits: this is what the flags stand for.\<close>

record activity =
  is_created :: bool
  is_started :: bool
  is_resumed :: bool
  is_focused :: bool
  is_destroyed :: bool
  window :: "(u32 \<times> u32) option"
  is_ready :: bool

definition no_activity :: activity where
  "no_activity = \<lparr>is_created = False, is_started = False, is_resumed = False, is_focused = False, is_destroyed = False,
     window = None, is_ready = False\<rparr>"

definition live :: "lifecycle_record \<Rightarrow> activity \<Rightarrow> activity" where
  "live r a =
     (if lr_event r = 1 then no_activity\<lparr>is_created := True\<rparr>
      else if lr_event r = 2 then a\<lparr>is_started := True\<rparr>
      else if lr_event r = 3 then a\<lparr>is_resumed := True\<rparr>
      else if lr_event r = 4 then a\<lparr>is_resumed := False, is_focused := False\<rparr>
      else if lr_event r = 5 then a\<lparr>is_started := False, is_resumed := False, is_focused := False\<rparr>
      else if lr_event r = 6 then no_activity\<lparr>is_destroyed := True\<rparr>
      else if lr_event r = 7 then a\<lparr>window := Some (lr_width r, lr_height r)\<rparr>
      else if lr_event r = 8 then a\<lparr>window := None, is_ready := False\<rparr>
      else if lr_event r = 9 then a\<lparr>is_focused := True\<rparr>
      else if lr_event r = 10 then a\<lparr>is_focused := False\<rparr>
      else if lr_event r = 11 then a\<lparr>window := Some (lr_width r, lr_height r), is_ready := True\<rparr>
      else if lr_event r = 12 then a\<lparr>window := Some (lr_width r, lr_height r), is_ready := False\<rparr>
      else a)"

definition abs_activity :: "activity_status \<Rightarrow> activity" where
  "abs_activity s =
     (let flags = as_state_flags s in
      \<lparr>is_created = bit flags 0, is_started = bit flags 1, is_resumed = bit flags 2, is_focused = bit flags 5,
       is_destroyed = bit flags 6, window = (if bit flags 3 then Some (as_width s, as_height s) else None),
       is_ready = bit flags 4\<rparr>)"

text \<open>A window has a size, and without one the size is zero.\<close>

definition status_ok :: "activity_status \<Rightarrow> bool" where
  "status_ok s \<longleftrightarrow>
     (if bit (as_state_flags s) 3 then as_width s \<noteq> 0 \<and> as_height s \<noteq> 0 else as_width s = 0 \<and> as_height s = 0) \<and>
     (bit (as_state_flags s) 4 \<longrightarrow> bit (as_state_flags s) 3)"

lemma flag_bits:
  "bit (1 :: u32) n \<longleftrightarrow> n = 0" "bit (2 :: u32) n \<longleftrightarrow> n = 1" "bit (4 :: u32) n \<longleftrightarrow> n = 2" "bit (8 :: u32) n \<longleftrightarrow> n = 3"
  "bit (16 :: u32) n \<longleftrightarrow> n = 4" "bit (32 :: u32) n \<longleftrightarrow> n = 5" "bit (64 :: u32) n \<longleftrightarrow> n = 6"
proof -
  have "bit (2 ^ k :: u32) n \<longleftrightarrow> n = k" if "k < 32" for k using that by (auto simp: bit_simps)
  from this [of 0] this [of 1] this [of 2] this [of 3] this [of 4] this [of 5] this [of 6]
  show "bit (1 :: u32) n \<longleftrightarrow> n = 0" "bit (2 :: u32) n \<longleftrightarrow> n = 1" "bit (4 :: u32) n \<longleftrightarrow> n = 2" "bit (8 :: u32) n \<longleftrightarrow> n = 3"
    "bit (16 :: u32) n \<longleftrightarrow> n = 4" "bit (32 :: u32) n \<longleftrightarrow> n = 5" "bit (64 :: u32) n \<longleftrightarrow> n = 6" by simp_all
qed

lemma xor_zero: "(a :: u8) XOR b = 0 \<longleftrightarrow> a = b"
  by (auto simp: bit_eq_iff bit_simps)

lemma fold_or_zero:
  "fold (\<lambda>i d. d OR f i) is z = (0 :: u8) \<longleftrightarrow> z = 0 \<and> (\<forall>i \<in> set is. f i = 0)"
  by (induction "is" arbitrary: z) (auto simp: or_eq_0_iff)

lemma token_matches_iff:
  assumes "length left = 32" "length right = 32"
  shows "token_matches left right \<longleftrightarrow> left = right"
  using assms unfolding token_matches_def fold_or_zero by (auto simp: list_eq_iff_nth_eq xor_zero)

subsection \<open>One event\<close>

lemma lifecycle_effect_live:
  assumes "lifecycle_effect r s = Some s'" "lr_event r \<noteq> 1"
  shows "abs_activity s' = live r (abs_activity s)"
  using assms
  by (auto simp: lifecycle_effect_def live_def abs_activity_def no_activity_def Let_def bit_simps flag_bits split: if_splits)

lemma lifecycle_effect_ok:
  assumes "lifecycle_effect r s = Some s'" "status_ok s" "record_is_valid r"
  shows "status_ok s'"
  using assms
  by (auto simp: lifecycle_effect_def status_ok_def record_is_valid_def Let_def bit_simps flag_bits split: if_splits)

text \<open>What the service remembers of the last event it applied.\<close>

definition remembers :: "lifecycle_record option \<Rightarrow> activity_status \<Rightarrow> bool" where
  "remembers prev s \<longleftrightarrow>
     (case prev of None \<Rightarrow> as_authenticated_event_count s = 0
      | Some r \<Rightarrow> as_activity_pid s = lr_activity_pid r \<and> as_last_sequence s = lr_sequence r)"

text \<open>Which record may follow which: a creation starts anew, anything else continues the same activity.\<close>

definition follows :: "lifecycle_record option \<Rightarrow> lifecycle_record \<Rightarrow> bool" where
  "follows prev r \<longleftrightarrow>
     (if lr_event r = 1 then lr_sequence r = 1
      else (case prev of None \<Rightarrow> False
            | Some p \<Rightarrow> lr_activity_pid r = lr_activity_pid p \<and> lr_sequence p < lr_sequence r))"

lemma apply_lifecycle_event_ok:
  assumes "apply_lifecycle_event now s r = (Inr u, s')" "record_is_valid r" "status_ok s" "remembers prev s"
  shows "follows prev r \<and> abs_activity s' = live r (abs_activity s) \<and> status_ok s' \<and> remembers (Some r) s' \<and>
    as_authenticated_event_count s' = as_authenticated_event_count s + 1 \<and>
    as_rejected_event_count s' = as_rejected_event_count s \<and> as_ingress_configured s' = as_ingress_configured s \<and>
    as_last_event s' = ucast (lr_event r)"
proof (cases "lr_event r = 1")
  case True
  have seq: "lr_sequence r = 1" using assms(1) True by (simp add: apply_lifecycle_event_def split: if_splits)
  then have s': "s' = s\<lparr>as_state_flags := 1, as_width := 0, as_height := 0, as_activity_pid := lr_activity_pid r,
      as_authenticated_event_count := as_authenticated_event_count s + 1, as_last_sequence := lr_sequence r,
      as_last_event := ucast (lr_event r), as_last_event_monotonic_ns := lr_monotonic_ns r, as_last_event_received_ns := now\<rparr>"
    using assms(1) True by (simp add: apply_lifecycle_event_def lifecycle_effect_def)
  show ?thesis
    unfolding s' using True seq
    by (simp add: follows_def live_def abs_activity_def no_activity_def status_ok_def remembers_def flag_bits)
next
  case False
  let ?done = "\<lambda>s. s\<lparr>as_authenticated_event_count := as_authenticated_event_count s + 1,
    as_last_sequence := lr_sequence r, as_last_event := ucast (lr_event r),
    as_last_event_monotonic_ns := lr_monotonic_ns r, as_last_event_received_ns := now\<rparr>"
  obtain t where t: "lifecycle_effect r s = Some t" "s' = ?done t"
    and guard: "as_authenticated_event_count s \<noteq> 0" "as_activity_pid s = lr_activity_pid r" "as_last_sequence s < lr_sequence r"
    using assms(1) False by (auto simp: apply_lifecycle_event_def Let_def not_le split: if_splits option.splits)
  have "as_authenticated_event_count t = as_authenticated_event_count s" "as_rejected_event_count t = as_rejected_event_count s"
      "as_ingress_configured t = as_ingress_configured s" "as_activity_pid t = as_activity_pid s"
    using t(1) by (auto simp: lifecycle_effect_def Let_def split: if_splits)
  moreover have "abs_activity s' = abs_activity t" "status_ok s' = status_ok t"
    using t(2) by (simp_all add: abs_activity_def status_ok_def Let_def)
  ultimately show ?thesis
    using lifecycle_effect_live [OF t(1) False] lifecycle_effect_ok [OF t(1) assms(3,2)] t(2) guard assms(4) False
    by (auto simp: follows_def remembers_def split: option.splits)
qed

lemma lifecycle_effect_total:
  assumes "record_is_valid r"
  shows "\<exists>t. lifecycle_effect r s = Some t"
proof -
  have "1 \<le> unat (lr_event r)" "unat (lr_event r) \<le> 13"
    using assms by (auto simp: record_is_valid_def not_less word_le_nat_alt word_less_nat_alt)
  then have "lr_event r \<in> {1, 2, 3, 4, 5, 6, 7, 8, 9, 10, 11, 12, 13}"
    by (simp add: word_unat_eq_iff) arith
  then show ?thesis by (auto simp: lifecycle_effect_def Let_def)
qed

lemma apply_lifecycle_event_error:
  assumes "apply_lifecycle_event now s r = (Inl e, s')" "record_is_valid r"
  shows "e = EPROTO \<and> s' = s"
proof -
  have "lifecycle_effect r = (\<lambda>t. Some (the (lifecycle_effect r t)))"
    using lifecycle_effect_total [OF assms(2)] by (intro ext) (metis option.sel)
  then obtain f where "lifecycle_effect r = (\<lambda>t. Some (f t))" by metis
  then show ?thesis using assms(1) by (auto simp: apply_lifecycle_event_def Let_def split: if_splits)
qed

subsection \<open>One connection\<close>

text \<open>Error numbers are positive.\<close>

definition activity_errnos_ok :: "activity_recv list \<Rightarrow> bool" where
  "activity_errnos_ok events \<longleftrightarrow>
     list_all (\<lambda>ev. case ev of Poll_Error e \<Rightarrow> e > 0 | Ready (Recv_Error e) \<Rightarrow> e > 0 | _ \<Rightarrow> True) events"

lemma receive_exact_timeout_sound:
  "receive_exact_timeout events stream n got = Some (0, got') \<Longrightarrow> activity_errnos_ok events \<Longrightarrow>
     n \<le> length stream \<and> got' = got @ take n stream"
proof (induction events stream n got rule: receive_exact_timeout.induct)
  case (5 k events stream n got)
  let ?r = "received_bytes k (Suc n) stream"
  have ne: "stream \<noteq> []" using 5(2) by (simp add: neg_def split: if_splits)
  then have r: "?r \<le> Suc n" "?r \<le> length stream" by (cases stream; simp add: received_bytes_def)+
  have "Suc n - ?r \<le> length (drop ?r stream) \<and> got' = (got @ take ?r stream) @ take (Suc n - ?r) (drop ?r stream)"
    using 5 ne by (simp add: activity_errnos_ok_def Let_def)
  moreover from this have "Suc n \<le> length stream" using r by auto
  ultimately show ?case using r by (simp add: take_add [symmetric])
qed (auto simp: activity_errnos_ok_def neg_def errno_code_pos split: if_splits)

lemma accept_record_cases:
  assumes "accept_record token now wire s = (result, accepted, s')" "length token = 32" "length wire = 64"
    and "status_ok s" "remembers prev s"
  shows "case accepted of
      None \<Rightarrow> result < 0 \<and> s' = s
    | Some r \<Rightarrow> result = 0 \<and> record_is_valid r \<and> lr_token r = token \<and> follows prev r \<and>
        abs_activity s' = live r (abs_activity s) \<and> status_ok s' \<and> remembers (Some r) s' \<and>
        as_authenticated_event_count s' = as_authenticated_event_count s + 1 \<and>
        as_rejected_event_count s' = as_rejected_event_count s \<and> as_ingress_configured s' = as_ingress_configured s \<and>
        lr_sequence r = get_u32 wire 8"
proof (cases "lifecycle_decode_record (Some wire) (Some blank_record)")
  case (Inl e)
  then show ?thesis using assms(1) errno_code_pos [of e] by (auto simp: accept_record_def neg_def)
next
  case (Inr r)
  have valid: "record_is_valid r" and r: "length (lr_token r) = 32" "lr_sequence r = get_u32 wire 8"
    using Inr assms(3) by (auto simp: lifecycle_decode_record_def Let_def split: if_splits)
  show ?thesis
  proof (cases "token_matches (lr_token r) token")
    case False
    then show ?thesis using assms(1) Inr by (auto simp: accept_record_def neg_def)
  next
    case True
    then have token: "lr_token r = token" using token_matches_iff [OF r(1) assms(2)] by simp
    show ?thesis
    proof (cases "apply_lifecycle_event now s r")
      case (Pair st t)
      show ?thesis
      proof (cases st)
        case (Inl e)
        then show ?thesis
          using apply_lifecycle_event_error [OF _ valid, of now s e t] Pair assms(1) Inr True errno_code_pos [of e]
          by (auto simp: accept_record_def neg_def)
      next
        case (Inr u)
        then show ?thesis
          using apply_lifecycle_event_ok [OF _ valid assms(4,5), of now u t] Pair assms(1) \<open>lifecycle_decode_record _ _ = _\<close>
            True valid token r(2) by (auto simp: accept_record_def)
      qed
    qed
  qed
qed

lemma handle_activity_connection_cases:
  assumes "handle_activity_connection token c s = Some (result, accepted, s', sent)"
    and "length token = 32" "activity_errnos_ok (ac_events c)" "status_ok s" "remembers prev s"
  shows "case accepted of
      None \<Rightarrow> s' = s\<lparr>as_rejected_event_count := as_rejected_event_count s + 1\<rparr>
    | Some r \<Rightarrow> record_is_valid r \<and> lr_token r = token \<and> follows prev r \<and>
        abs_activity s' = live r (abs_activity s) \<and> status_ok s' \<and> remembers (Some r) s' \<and>
        as_authenticated_event_count s' = as_authenticated_event_count s + 1 \<and>
        as_rejected_event_count s' = as_rejected_event_count s \<and> as_ingress_configured s' = as_ingress_configured s"
proof -
  obtain status wire where rcv: "receive_exact_timeout (ac_events c) (ac_stream c) 64 [] = Some (status, wire)"
    using assms(1) by (auto simp: handle_activity_connection_def split: option.splits)
  show ?thesis
  proof (cases "status = 0")
    case False
    then show ?thesis using assms(1) rcv by (auto simp: handle_activity_connection_def)
  next
    case True
    then have len: "length wire = 64" using receive_exact_timeout_sound [OF _ assms(3)] rcv by fastforce
    obtain res acc t where acc: "accept_record token (ac_now c) wire s = (res, acc, t)" by (cases "accept_record token (ac_now c) wire s")
    then have "accepted = acc \<and> s' = (if res \<noteq> 0 then t\<lparr>as_rejected_event_count := as_rejected_event_count t + 1\<rparr> else t)"
      using assms(1) rcv True
      by (auto simp: handle_activity_connection_def Let_def split: if_splits sum.splits option.splits)
    then show ?thesis
      using accept_record_cases [OF acc assms(2) len assms(4,5)] by (auto split: option.splits)
  qed
qed

subsection \<open>The life of an activity\<close>

fun chain :: "lifecycle_record option \<Rightarrow> lifecycle_record list \<Rightarrow> bool" where
  "chain prev [] \<longleftrightarrow> True"
| "chain prev (r # rs) \<longleftrightarrow> follows prev r \<and> chain (Some r) rs"

lemma serve_activity_follows:
  assumes "serve_activity token cs s = Some (records, s')" "length token = 32"
    and "list_all (\<lambda>c. activity_errnos_ok (ac_events c)) cs" "status_ok s" "remembers prev s"
  shows "abs_activity s' = fold live records (abs_activity s) \<and> status_ok s' \<and> chain prev records \<and>
    list_all (\<lambda>r. record_is_valid r \<and> lr_token r = token) records \<and> length records \<le> length cs \<and>
    as_authenticated_event_count s' = as_authenticated_event_count s + word_of_nat (length records) \<and>
    as_rejected_event_count s' = as_rejected_event_count s + word_of_nat (length cs - length records)"
  using assms
proof (induction cs arbitrary: s prev records)
  case (Cons c cs)
  obtain result accepted t sent where one: "handle_activity_connection token c s = Some (result, accepted, t, sent)"
    using Cons.prems(1) by (cases "handle_activity_connection token c s") auto
  obtain rs where rest: "serve_activity token cs t = Some (rs, s')"
      "records = (case accepted of None \<Rightarrow> rs | Some r \<Rightarrow> r # rs)"
    using Cons.prems(1) one by (auto split: option.splits)
  note step = handle_activity_connection_cases [OF one Cons.prems(2) _ Cons.prems(4,5)]
  show ?case
  proof (cases accepted)
    case None
    then have t: "t = s\<lparr>as_rejected_event_count := as_rejected_event_count s + 1\<rparr>" using step Cons.prems(3) by simp
    then have "status_ok t" "remembers prev t" "abs_activity t = abs_activity s"
      using Cons.prems(4,5) by (auto simp: status_ok_def remembers_def abs_activity_def Let_def split: option.splits)
    then show ?thesis
      using Cons.IH [OF rest(1) Cons.prems(2), of prev] Cons.prems(3) rest(2) None t by (auto simp: Suc_diff_le)
  next
    case (Some r)
    then show ?thesis using step Cons.IH [OF rest(1) Cons.prems(2), of "Some r"] Cons.prems(3) rest(2) by auto
  qed
qed simp

subsection \<open>What the status shows\<close>

text \<open>
  C38: after any sequence of connections to the activity port, whatever arrives on them, the status of
  the activity is exactly what the accepted events, in order, make of an activity: its flags and its
  window follow the life of the activity event by event, with a window size exactly while there is a
  window. Only records with the session's token are accepted, the first is a creation, and each further
  one comes from the same activity with a higher sequence number or is a new creation; the rest is
  counted as rejected and changes nothing else.
\<close>

theorem activity_follows_events:
  assumes "length token = BVB_LIFECYCLE_TOKEN_SIZE" "list_all (\<lambda>c. activity_errnos_ok (ac_events c)) cs"
    and "serve_activity token cs (initial_status activity_ingress) = Some (records, s)"
  shows "abs_activity s = fold live records no_activity \<and> status_ok s \<and> chain None records \<and>
    list_all (\<lambda>r. record_is_valid r \<and> lr_token r = token) records \<and>
    as_authenticated_event_count s = word_of_nat (length records) \<and>
    as_rejected_event_count s = word_of_nat (length cs - length records)"
proof -
  let ?s = "initial_status activity_ingress"
  have "status_ok ?s" "remembers None ?s" "abs_activity ?s = no_activity" "as_authenticated_event_count ?s = 0"
      "as_rejected_event_count ?s = 0"
    by (simp_all add: initial_status_def status_ok_def remembers_def abs_activity_def no_activity_def)
  then show ?thesis using serve_activity_follows [OF assms(3,1,2), of None] by simp
qed

text \<open>
  A creation, a window of 1080 by 1920, and a connection that brings nothing: the activity is created
  and has its window, and one connection counts as rejected.
\<close>

definition sample_event :: "u16 \<Rightarrow> u32 \<Rightarrow> lifecycle_record" where
  "sample_event event sequence = \<lparr>lr_event = event, lr_sequence = sequence, lr_width = 1080, lr_height = 1920,
     lr_activity_pid = 4711, lr_monotonic_ns = 1000, lr_token = replicate 32 0xab\<rparr>"

definition sample_connection :: "lifecycle_record \<Rightarrow> activity_connection" where
  "sample_connection r =
     \<lparr>ac_events = [Poll_Error 4, Ready (Deliver 40), Ready (Deliver 24)],
      ac_stream = (case lifecycle_encode_record (Some (replicate 64 0)) (Some r) of Inr m \<Rightarrow> m | Inl _ \<Rightarrow> []),
      ac_sends = [Accept 16], ac_now = 5\<rparr>"

definition sample_connections :: "activity_connection list" where
  "sample_connections = [sample_connection (sample_event 1 1), sample_connection (sample_event 7 2),
     \<lparr>ac_events = [Poll_Timeout], ac_stream = [], ac_sends = [], ac_now = 9\<rparr>]"

lemma sample_run:
  "map_option fst (serve_activity (replicate 32 0xab) sample_connections (initial_status True)) =
     Some [sample_event 1 1, sample_event 7 2]"
  by code_simp

theorem activity_follows_events_witness:
  "\<exists>s. serve_activity (replicate 32 0xab) sample_connections (initial_status True) =
      Some ([sample_event 1 1, sample_event 7 2], s) \<and>
    abs_activity s = no_activity\<lparr>is_created := True, window := Some (1080, 1920)\<rparr> \<and> as_rejected_event_count s = 1"
proof -
  obtain s where s: "serve_activity (replicate 32 0xab) sample_connections (initial_status True) =
      Some ([sample_event 1 1, sample_event 7 2], s)"
    using sample_run by (cases "serve_activity (replicate 32 0xab) sample_connections (initial_status True)") auto
  moreover have "list_all (\<lambda>c. activity_errnos_ok (ac_events c)) sample_connections"
    by (simp add: sample_connections_def sample_connection_def activity_errnos_ok_def)
  ultimately have "abs_activity s = fold live [sample_event 1 1, sample_event 7 2] no_activity \<and>
      as_rejected_event_count s = word_of_nat (length sample_connections - 2)"
    using activity_follows_events [OF _ _ s] by (simp add: numeral_2_eq_2)
  moreover have "fold live [sample_event 1 1, sample_event 7 2] no_activity =
      no_activity\<lparr>is_created := True, window := Some (1080, 1920)\<rparr>"
    by (simp add: live_def sample_event_def no_activity_def)
  ultimately show ?thesis using s by (simp add: sample_connections_def)
qed

end
