(* ===== verification/Vulkan_Context.thy ===== *)
theory Vulkan_Context
  imports Handle Pipeline_Wire Proto_Sized Proto_Array Proto_Messages Wsi_Frame_Ring Proto_Variable "HOL-Library.Multiset"
begin

unbundle bit_operations_syntax

section \<open>The objects of the Vulkan context\<close>

text \<open>
  src/src/vulkan_global.c: the service's own record of the Vulkan objects. Every object the client knows is
  an entry of the handle table, with its parent and the driver's handle. This theory has the context, the
  calls into the driver and the invariant; the operations are in the theories that follow.

  The Vulkan driver is not part of the program. A driver is a record: which entry points
  it has, and what it answers to a call, given all the calls made before and their answers. A third function has the results of the
  system calls of a swapchain's teardown. The calls made
  are kept in the context as a list of events, so that the theorems can speak of what the driver was asked
  to create and destroy. Only the arguments that depend on the request are kept in an event, in the order
  of the source; constants, allocator callbacks and structure types are not. Pointers to the context, the
  request and the response are never null here, as every caller passes the addresses of its own variables;
  diagnostics written to \<^verbatim>\<open>error\<close> are left out. Some functions clear the description of an object
  before they tell the driver to destroy it and some after; the call cannot see the difference, and here the
  call comes first.
\<close>

subsection \<open>The driver\<close>

abbreviation (input) VK_SUCCESS :: i32 where "VK_SUCCESS \<equiv> 0"
abbreviation (input) VK_ERROR_INITIALIZATION_FAILED :: i32 where "VK_ERROR_INITIALIZATION_FAILED \<equiv> - 3"
abbreviation (input) VK_ERROR_MEMORY_MAP_FAILED :: i32 where "VK_ERROR_MEMORY_MAP_FAILED \<equiv> - 5"
abbreviation (input) VK_ERROR_LAYER_NOT_PRESENT :: i32 where "VK_ERROR_LAYER_NOT_PRESENT \<equiv> - 6"
abbreviation (input) VK_ERROR_EXTENSION_NOT_PRESENT :: i32 where "VK_ERROR_EXTENSION_NOT_PRESENT \<equiv> - 7"
abbreviation (input) VK_ERROR_FEATURE_NOT_PRESENT :: i32 where "VK_ERROR_FEATURE_NOT_PRESENT \<equiv> - 8"
abbreviation (input) VK_ERROR_TOO_MANY_OBJECTS :: i32 where "VK_ERROR_TOO_MANY_OBJECTS \<equiv> - 10"

abbreviation (input) OBJECT_INSTANCE :: object_type where "OBJECT_INSTANCE \<equiv> 1"
abbreviation (input) OBJECT_PHYSICAL_DEVICE :: object_type where "OBJECT_PHYSICAL_DEVICE \<equiv> 2"
abbreviation (input) OBJECT_DEVICE :: object_type where "OBJECT_DEVICE \<equiv> 3"
abbreviation (input) OBJECT_QUEUE :: object_type where "OBJECT_QUEUE \<equiv> 4"
abbreviation (input) OBJECT_SWAPCHAIN :: object_type where "OBJECT_SWAPCHAIN \<equiv> 6"
abbreviation (input) OBJECT_IMAGE :: object_type where "OBJECT_IMAGE \<equiv> 7"
abbreviation (input) OBJECT_IMAGE_VIEW :: object_type where "OBJECT_IMAGE_VIEW \<equiv> 8"
abbreviation (input) OBJECT_DEVICE_MEMORY :: object_type where "OBJECT_DEVICE_MEMORY \<equiv> 9"
abbreviation (input) OBJECT_COMMAND_POOL :: object_type where "OBJECT_COMMAND_POOL \<equiv> 10"
abbreviation (input) OBJECT_COMMAND_BUFFER :: object_type where "OBJECT_COMMAND_BUFFER \<equiv> 11"
abbreviation (input) OBJECT_PIPELINE_LAYOUT :: object_type where "OBJECT_PIPELINE_LAYOUT \<equiv> 15"
abbreviation (input) OBJECT_PIPELINE :: object_type where "OBJECT_PIPELINE \<equiv> 16"
abbreviation (input) OBJECT_SEMAPHORE :: object_type where "OBJECT_SEMAPHORE \<equiv> 17"
abbreviation (input) OBJECT_FENCE :: object_type where "OBJECT_FENCE \<equiv> 18"
abbreviation (input) OBJECT_BUFFER :: object_type where "OBJECT_BUFFER \<equiv> 19"
abbreviation (input) OBJECT_SET_LAYOUT :: object_type where "OBJECT_SET_LAYOUT \<equiv> 20"
abbreviation (input) OBJECT_DESCRIPTOR_POOL :: object_type where "OBJECT_DESCRIPTOR_POOL \<equiv> 21"
abbreviation (input) OBJECT_DESCRIPTOR_SET :: object_type where "OBJECT_DESCRIPTOR_SET \<equiv> 22"
abbreviation (input) OBJECT_SAMPLER :: object_type where "OBJECT_SAMPLER \<equiv> 23"
abbreviation (input) OBJECT_UPDATE_TEMPLATE :: object_type where "OBJECT_UPDATE_TEMPLATE \<equiv> 24"
abbreviation (input) OBJECT_QUERY_POOL :: object_type where "OBJECT_QUERY_POOL \<equiv> 25"

text \<open>
  An entry point of the driver: the function that creates or destroys objects of a type (such as
  \<^verbatim>\<open>vkCreateFence\<close>, \<^verbatim>\<open>vkFreeMemory\<close>), or another one by its name. An event is a call and its answer:
  the device it was made on, if any, its arguments, the result and what was stored through the pointers.
\<close>

datatype vk_function = Vk_Create object_type | Vk_Destroy object_type | Vk_Call string

record vk_event =
  ev_function :: vk_function
  ev_device :: "u64 option"
  ev_args :: "u64 list"
  ev_result :: i32
  ev_outputs :: "u64 list"

record vk_driver =
  drv_proc :: "u64 option \<Rightarrow> vk_function \<Rightarrow> bool"
  drv_answer :: "vk_event list \<Rightarrow> vk_function \<Rightarrow> u64 option \<Rightarrow> u64 list \<Rightarrow> i32 \<times> u64 list"
  drv_system :: "vk_event list \<Rightarrow> string \<Rightarrow> nat \<Rightarrow> syscall"

text \<open>What a call left in the variables it was given, which are zero before.\<close>

definition out_word :: "u64 list \<Rightarrow> nat \<Rightarrow> u64" where
  "out_word outputs i = (if i < length outputs then outputs ! i else 0)"

subsection \<open>The context\<close>

record device_metadata =
  dm_device_id :: u64
  dm_non_coherent_atom_size :: u64
  dm_queue_create_info_count :: u32
  dm_queue_create_infos :: "vulkan_device_queue_create_info list"

record memory_metadata =
  mm_memory_id :: u64
  mm_allocation_size :: u64
  mm_property_flags :: u32
  mm_opaque_fd_exportable :: bool

text \<open>Of a mirror, what the operations here look at: whose memory it maps.\<close>

record memory_mirror_metadata =
  mir_device_id :: u64
  mir_memory_id :: u64

record buffer_metadata =
  bm_buffer_id :: u64
  bm_device_id :: u64
  bm_bound_memory_id :: u64
  bm_usage :: u32
  bm_memory_bound :: bool

record semaphore_metadata =
  sm_semaphore_id :: u64
  sm_type :: u32

record query_pool_metadata =
  qm_query_pool_id :: u64
  qm_device_id :: u64
  qm_query_type :: u32
  qm_query_count :: u32

record image_metadata =
  im_image_id :: u64
  im_device_id :: u64
  im_bound_memory_id :: u64
  im_flags :: u32
  im_image_type :: u32
  im_format :: u32
  im_mip_levels :: u32
  im_array_layers :: u32

record descriptor_template_metadata =
  tm_template_id :: u64
  tm_device_id :: u64
  tm_entry_count :: u32
  tm_entries :: "vulkan_descriptor_update_template_entry list"

text \<open>
  Of a swapchain, what its teardown needs. The control page is shared memory: the record has its address,
  zero for none, and the context has the pages.
\<close>

record swapchain_metadata =
  sc_swapchain_id :: u64
  sc_device_id :: u64
  sc_device :: u64
  sc_image_count :: u32
  sc_image_ids :: "u64 list"
  sc_images :: "u64 list"
  sc_memories :: "u64 list"
  sc_producer_command_pool :: u64
  sc_present_completion :: u64
  sc_control_fd :: int
  sc_control :: nat

text \<open>The serial counters are one function of the object type.\<close>

record vk_context =
  vx_get_device_proc_addr :: bool
  vx_destroy_instance :: bool
  vx_exposed_extensions :: "string list"
  vx_objects :: handle_table
  vx_next_serial :: "object_type \<Rightarrow> u64"
  vx_device_metadata :: "device_metadata list"
  vx_memory_metadata :: "memory_metadata list"
  vx_memory_mirrors :: "memory_mirror_metadata list"
  vx_buffer_metadata :: "buffer_metadata list"
  vx_semaphore_metadata :: "semaphore_metadata list"
  vx_query_pool_metadata :: "query_pool_metadata list"
  vx_image_metadata :: "image_metadata list"
  vx_template_metadata :: "descriptor_template_metadata list"
  vx_swapchain_metadata :: "swapchain_metadata list"
  vx_control_pages :: "nat \<Rightarrow> wsi_frame_ring"
  vx_events :: "vk_event list"

text \<open>Calling the driver.\<close>

definition vk_call ::
  "vk_driver \<Rightarrow> vk_function \<Rightarrow> u64 option \<Rightarrow> u64 list \<Rightarrow> vk_context \<Rightarrow> i32 \<times> u64 list \<times> vk_context" where
  "vk_call drv f device args ctx =
     (case drv_answer drv (vx_events ctx) f device args of (result, outputs) \<Rightarrow>
      (result, outputs, ctx\<lparr>vx_events := vx_events ctx @ [\<lparr>ev_function = f, ev_device = device, ev_args = args,
         ev_result = result, ev_outputs = outputs\<rparr>]\<rparr>))"

subsection \<open>Looking objects up\<close>

definition lookup :: "vk_context \<Rightarrow> u64 \<Rightarrow> object_type \<Rightarrow> (u64 \<times> u64) result" where
  "lookup ctx wire_id type = handle_table_lookup (Some (vx_objects ctx)) wire_id type (Some 0)"

text \<open>The results: the parent's identifier, the native device and the native handle.\<close>

definition resolve_device_child :: "vk_context \<Rightarrow> u64 \<Rightarrow> object_type \<Rightarrow> (u64 \<times> u64 \<times> u64) result" where
  "resolve_device_child ctx object_id type =
     (case lookup ctx object_id type of Inl e \<Rightarrow> Inl e | Inr (device_id, native_bits) \<Rightarrow>
      case lookup ctx device_id OBJECT_DEVICE of Inl e \<Rightarrow> Inl e | Inr (_, device_bits) \<Rightarrow>
      Inr (device_id, device_bits, native_bits))"

definition resolve_command_pool :: "vk_context \<Rightarrow> u64 \<Rightarrow> (u64 \<times> u64 \<times> u64) result" where
  "resolve_command_pool ctx command_pool_id =
     (case lookup ctx command_pool_id OBJECT_COMMAND_POOL of Inl e \<Rightarrow> Inl e | Inr (device_id, pool_bits) \<Rightarrow>
      case lookup ctx device_id OBJECT_DEVICE of Inl e \<Rightarrow> Inl e | Inr (_, device_bits) \<Rightarrow>
      Inr (device_id, device_bits, pool_bits))"

definition resolve_command_buffer :: "vk_context \<Rightarrow> u64 \<Rightarrow> (u64 \<times> u64 \<times> u64 \<times> u64) result" where
  "resolve_command_buffer ctx command_buffer_id =
     (case lookup ctx command_buffer_id OBJECT_COMMAND_BUFFER of Inl e \<Rightarrow> Inl e
      | Inr (command_pool_id, command_buffer_bits) \<Rightarrow>
      case resolve_command_pool ctx command_pool_id of Inl e \<Rightarrow> Inl e
      | Inr (device_id, device, command_pool) \<Rightarrow> Inr (device_id, device, command_pool, command_buffer_bits))"

definition resolve_queue :: "vk_context \<Rightarrow> u64 \<Rightarrow> (u64 \<times> u64) result" where
  "resolve_queue ctx queue_id =
     (case lookup ctx queue_id OBJECT_QUEUE of Inl e \<Rightarrow> Inl e | Inr (device_id, queue_bits) \<Rightarrow>
      case lookup ctx device_id OBJECT_DEVICE of Inl e \<Rightarrow> Inl e | Inr (_, device_bits) \<Rightarrow>
      Inr (device_bits, queue_bits))"

definition resolve_physical_device :: "vk_context \<Rightarrow> u64 \<Rightarrow> (u64 \<times> u64) result" where
  "resolve_physical_device ctx physical_device_id =
     (case lookup ctx physical_device_id OBJECT_PHYSICAL_DEVICE of Inl e \<Rightarrow> Inl e | Inr (parent_id, physical_bits) \<Rightarrow>
      case lookup ctx parent_id OBJECT_INSTANCE of Inl e \<Rightarrow> Inl e | Inr (_, instance_bits) \<Rightarrow>
      Inr (instance_bits, physical_bits))"

subsection \<open>Metadata\<close>

text \<open>
  The entry of an array that describes an object, or the first empty one: the loop over the array, with the
  index of what is left of it and the first empty entry so far. Some of the functions compare with an
  identifier of zero and some do not; for zero both return the first empty entry.
\<close>

fun slot_scan :: "('m \<Rightarrow> u64) \<Rightarrow> 'm list \<Rightarrow> nat \<Rightarrow> u64 \<Rightarrow> nat option \<Rightarrow> nat option" where
  "slot_scan key [] index wanted first_empty = first_empty"
| "slot_scan key (m # ms) index wanted first_empty =
     (if key m = wanted then Some index
      else slot_scan key ms (index + 1) wanted (if key m = 0 \<and> first_empty = None then Some index else first_empty))"

fun slot_scan_nonzero :: "('m \<Rightarrow> u64) \<Rightarrow> 'm list \<Rightarrow> nat \<Rightarrow> u64 \<Rightarrow> nat option \<Rightarrow> nat option" where
  "slot_scan_nonzero key [] index wanted first_empty = first_empty"
| "slot_scan_nonzero key (m # ms) index wanted first_empty =
     (if key m = wanted \<and> wanted \<noteq> 0 then Some index
      else slot_scan_nonzero key ms (index + 1) wanted (if key m = 0 \<and> first_empty = None then Some index else first_empty))"

definition device_metadata_slot :: "vk_context \<Rightarrow> u64 \<Rightarrow> nat option" where
  "device_metadata_slot ctx device_id = slot_scan dm_device_id (vx_device_metadata ctx) 0 device_id None"

definition memory_metadata_slot :: "vk_context \<Rightarrow> u64 \<Rightarrow> nat option" where
  "memory_metadata_slot ctx memory_id = slot_scan mm_memory_id (vx_memory_metadata ctx) 0 memory_id None"

definition query_pool_metadata_slot :: "vk_context \<Rightarrow> u64 \<Rightarrow> nat option" where
  "query_pool_metadata_slot ctx query_pool_id = slot_scan qm_query_pool_id (vx_query_pool_metadata ctx) 0 query_pool_id None"

definition descriptor_template_slot :: "vk_context \<Rightarrow> u64 \<Rightarrow> nat option" where
  "descriptor_template_slot ctx template_id = slot_scan tm_template_id (vx_template_metadata ctx) 0 template_id None"

definition image_metadata_slot :: "vk_context \<Rightarrow> u64 \<Rightarrow> nat option" where
  "image_metadata_slot ctx image_id = slot_scan_nonzero im_image_id (vx_image_metadata ctx) 0 image_id None"

definition buffer_metadata_slot :: "vk_context \<Rightarrow> u64 \<Rightarrow> nat option" where
  "buffer_metadata_slot ctx buffer_id = slot_scan_nonzero bm_buffer_id (vx_buffer_metadata ctx) 0 buffer_id None"

definition semaphore_metadata_slot :: "vk_context \<Rightarrow> u64 \<Rightarrow> nat option" where
  "semaphore_metadata_slot ctx semaphore_id = slot_scan_nonzero sm_semaphore_id (vx_semaphore_metadata ctx) 0 semaphore_id None"

definition query_pool_metadata_find :: "vk_context \<Rightarrow> u64 \<Rightarrow> query_pool_metadata option" where
  "query_pool_metadata_find ctx query_pool_id = find (\<lambda>m. qm_query_pool_id m = query_pool_id) (vx_query_pool_metadata ctx)"

definition buffer_metadata_find :: "vk_context \<Rightarrow> u64 \<Rightarrow> buffer_metadata option" where
  "buffer_metadata_find ctx buffer_id =
     find (\<lambda>m. bm_buffer_id m = buffer_id \<and> buffer_id \<noteq> 0) (vx_buffer_metadata ctx)"

fun device_metadata_queue_count :: "vulkan_device_queue_create_info list \<Rightarrow> u32 \<Rightarrow> u32" where
  "device_metadata_queue_count [] queue_family_index = 0"
| "device_metadata_queue_count (info # infos) queue_family_index =
     (if qci_queue_family_index info = queue_family_index then qci_queue_count info
      else device_metadata_queue_count infos queue_family_index)"

subsection \<open>Creating and destroying one object\<close>

definition refused :: "i32 \<Rightarrow> vulkan_object_create_response" where
  "refused result = \<lparr>ocr_vulkan_result = result, ocr_object_id = 0\<rparr>"

text \<open>A new native object gets an identifier and an entry, or is destroyed again.\<close>

definition own_object ::
  "vk_driver \<Rightarrow> object_type \<Rightarrow> u64 \<Rightarrow> u64 \<Rightarrow> u64 \<Rightarrow> vk_context \<Rightarrow> vulkan_object_create_response \<times> vk_context" where
  "own_object drv type device parent_id native_bits ctx =
     (let wire_id = handle_id type (vx_next_serial ctx type);
          ctx = ctx\<lparr>vx_next_serial := (vx_next_serial ctx)(type := vx_next_serial ctx type + 1)\<rparr> in
      case handle_table_insert (Some (vx_objects ctx)) wire_id parent_id native_bits of
        Inl _ \<Rightarrow>
          (case vk_call drv (Vk_Destroy type) (Some device) [native_bits] ctx of (_, _, ctx) \<Rightarrow>
           (refused VK_ERROR_TOO_MANY_OBJECTS, ctx))
      | Inr objects \<Rightarrow> (\<lparr>ocr_vulkan_result = VK_SUCCESS, ocr_object_id = wire_id\<rparr>, ctx\<lparr>vx_objects := objects\<rparr>))"

text \<open>The part of a create function from the entry points on.\<close>

definition create_child ::
  "vk_driver \<Rightarrow> object_type \<Rightarrow> u64 \<Rightarrow> u64 \<Rightarrow> u64 list \<Rightarrow> vk_context \<Rightarrow>
   vulkan_object_create_response result \<times> vk_context" where
  "create_child drv type device parent_id args ctx =
     (if \<not> drv_proc drv (Some device) (Vk_Create type) \<or> \<not> drv_proc drv (Some device) (Vk_Destroy type) then (Inl ENOSYS, ctx)
      else case vk_call drv (Vk_Create type) (Some device) args ctx of (result, outputs, ctx) \<Rightarrow>
      if result \<noteq> VK_SUCCESS then (Inr (refused result), ctx)
      else case own_object drv type device parent_id (out_word outputs 0) ctx of (response, ctx) \<Rightarrow> (Inr response, ctx))"

text \<open>Destroying an object whose parent is a device and that owns no others.\<close>

definition destroy_child :: "vk_driver \<Rightarrow> object_type \<Rightarrow> u64 \<Rightarrow> vk_context \<Rightarrow> unit result \<times> vk_context" where
  "destroy_child drv type object_id ctx =
     (case resolve_device_child ctx object_id type of Inl e \<Rightarrow> (Inl e, ctx) | Inr (device_id, device, native_bits) \<Rightarrow>
      if \<not> drv_proc drv (Some device) (Vk_Destroy type) then (Inl ENOSYS, ctx)
      else case handle_table_remove (Some (vx_objects ctx)) object_id type of Inl e \<Rightarrow> (Inl e, ctx)
      | Inr (objects, _) \<Rightarrow>
          (case vk_call drv (Vk_Destroy type) (Some device) [native_bits] (ctx\<lparr>vx_objects := objects\<rparr>) of (_, _, ctx) \<Rightarrow>
           (Inr (), ctx)))"

text \<open>Asking the driver something about such an object.\<close>

definition child_call ::
  "vk_driver \<Rightarrow> object_type \<Rightarrow> u64 \<Rightarrow> string \<Rightarrow> u64 list \<Rightarrow> vk_context \<Rightarrow> (i32 \<times> u64 list) result \<times> vk_context" where
  "child_call drv type object_id name args ctx =
     (case resolve_device_child ctx object_id type of Inl e \<Rightarrow> (Inl e, ctx) | Inr (device_id, device, native_bits) \<Rightarrow>
      if \<not> drv_proc drv (Some device) (Vk_Call name) then (Inl ENOSYS, ctx)
      else case vk_call drv (Vk_Call name) (Some device) (native_bits # args) ctx of (result, outputs, ctx) \<Rightarrow>
      (Inr (result, outputs), ctx))"

subsection \<open>The invariant\<close>

text \<open>
  What is alive in the driver after a list of events: the native objects of a type that were created and
  not destroyed since, with multiplicities, as a driver may hand out one handle for two equal objects.
\<close>

definition live_step :: "object_type \<Rightarrow> u64 multiset \<Rightarrow> vk_event \<Rightarrow> u64 multiset" where
  "live_step type m e = (case ev_function e of
     Vk_Create t \<Rightarrow> if t = type \<and> ev_result e = VK_SUCCESS then add_mset (out_word (ev_outputs e) 0) m else m
   | Vk_Destroy t \<Rightarrow> if t = type then m - {#hd (ev_args e)#} else m
   | Vk_Call _ \<Rightarrow> m)"

definition live_objects :: "object_type \<Rightarrow> vk_event list \<Rightarrow> u64 multiset" where
  "live_objects type es = foldl (live_step type) {#} es"

text \<open>A call is made on a device that is alive, and destroys what is alive.\<close>

definition event_ok :: "vk_event list \<Rightarrow> vk_event \<Rightarrow> bool" where
  "event_ok es e \<longleftrightarrow> (case ev_device e of None \<Rightarrow> True | Some d \<Rightarrow> d \<in># live_objects OBJECT_DEVICE es) \<and>
     (case ev_function e of Vk_Destroy t \<Rightarrow> hd (ev_args e) \<in># live_objects t es | _ \<Rightarrow> True)"

definition events_ok :: "vk_event list \<Rightarrow> bool" where
  "events_ok es \<longleftrightarrow> (\<forall>i < length es. event_ok (take i es) (es ! i))"

text \<open>The native handles that the table has for a type, and the types whose objects the context destroys itself.\<close>

definition natives :: "object_type \<Rightarrow> (u64 \<rightharpoonup> u64 \<times> u64) \<Rightarrow> u64 multiset" where
  "natives type m = image_mset (\<lambda>w. snd (the (m w))) (mset_set {w \<in> dom m. handle_type w = type})"

definition owned :: "object_type \<Rightarrow> bool" where
  "owned type \<longleftrightarrow> type \<in> {OBJECT_INSTANCE, OBJECT_DEVICE, OBJECT_IMAGE, OBJECT_IMAGE_VIEW, OBJECT_DEVICE_MEMORY,
     OBJECT_COMMAND_POOL, OBJECT_PIPELINE_LAYOUT, OBJECT_PIPELINE, OBJECT_SEMAPHORE, OBJECT_FENCE, OBJECT_BUFFER,
     OBJECT_SET_LAYOUT, OBJECT_DESCRIPTOR_POOL, OBJECT_SAMPLER, OBJECT_UPDATE_TEMPLATE, OBJECT_QUERY_POOL}"

text \<open>Every object but an instance has a parent of the right type in the table.\<close>

definition parent_type :: "object_type \<Rightarrow> object_type" where
  "parent_type type =
     (if type = OBJECT_PHYSICAL_DEVICE then OBJECT_INSTANCE else if type = OBJECT_DEVICE then OBJECT_PHYSICAL_DEVICE
      else if type = OBJECT_COMMAND_BUFFER then OBJECT_COMMAND_POOL
      else if type = OBJECT_DESCRIPTOR_SET then OBJECT_DESCRIPTOR_POOL
      else if type = OBJECT_IMAGE_VIEW then OBJECT_IMAGE else OBJECT_DEVICE)"

definition registered :: "object_type \<Rightarrow> bool" where
  "registered type \<longleftrightarrow> owned type \<or> type \<in> {OBJECT_PHYSICAL_DEVICE, OBJECT_QUEUE, OBJECT_COMMAND_BUFFER, OBJECT_DESCRIPTOR_SET}"

definition parents_ok :: "(u64 \<rightharpoonup> u64 \<times> u64) \<Rightarrow> bool" where
  "parents_ok m \<longleftrightarrow> (\<forall>w p n. m w = Some (p, n) \<longrightarrow> registered (handle_type w) \<and>
     (if handle_type w = OBJECT_INSTANCE then p = 0 else p \<in> dom m \<and> handle_type p = parent_type (handle_type w)))"

definition clear_entries :: "handle_table \<Rightarrow> bool" where
  "clear_entries t \<longleftrightarrow> (\<forall>s < ht_capacity t. he_state (ht_entries t ! s) \<noteq> HANDLE_OCCUPIED \<longrightarrow> he_wire_id (ht_entries t ! s) = 0)"

abbreviation objects_map :: "vk_context \<Rightarrow> (u64 \<rightharpoonup> u64 \<times> u64)" where
  "objects_map ctx \<equiv> handle_map (vx_objects ctx)"

text \<open>
  The invariant, for a context without swapchains, and the state between the creation of a native object and its
  registration.
\<close>

definition pending_inv :: "object_type \<Rightarrow> u64 multiset \<Rightarrow> vk_context \<Rightarrow> bool" where
  "pending_inv type extra ctx \<longleftrightarrow>
     table_inv (vx_objects ctx) \<and> ht_capacity (vx_objects ctx) = 4096 \<and> clear_entries (vx_objects ctx) \<and>
     parents_ok (objects_map ctx) \<and> events_ok (vx_events ctx) \<and>
     list_all (\<lambda>s. sc_swapchain_id s = 0) (vx_swapchain_metadata ctx) \<and>
     (\<forall>t. owned t \<longrightarrow> live_objects t (vx_events ctx) = natives t (objects_map ctx) + (if t = type then extra else {#}))"

definition context_inv :: "vk_context \<Rightarrow> bool" where
  "context_inv ctx \<longleftrightarrow>
     table_inv (vx_objects ctx) \<and> ht_capacity (vx_objects ctx) = 4096 \<and> clear_entries (vx_objects ctx) \<and>
     parents_ok (objects_map ctx) \<and> events_ok (vx_events ctx) \<and>
     list_all (\<lambda>s. sc_swapchain_id s = 0) (vx_swapchain_metadata ctx) \<and>
     (\<forall>t. owned t \<longrightarrow> live_objects t (vx_events ctx) = natives t (objects_map ctx))"

lemma pending_none [simp]: "pending_inv type {#} ctx \<longleftrightarrow> context_inv ctx"
  by (simp add: pending_inv_def context_inv_def)

lemma live_append [simp]: "live_objects type (es @ [e]) = live_step type (live_objects type es) e"
  by (simp add: live_objects_def)

lemma events_ok_append [simp]: "events_ok (es @ [e]) \<longleftrightarrow> events_ok es \<and> event_ok es e"
  by (auto simp: events_ok_def nth_append less_Suc_eq)

lemma finite_objects [simp]: "finite (dom (handle_map t))"
  by (simp add: handle_map_def finite_dom_map_of)

lemma natives_insert:
  assumes "finite (dom m)" "w \<notin> dom m"
  shows "natives type (m(w \<mapsto> (p, n))) = (if handle_type w = type then add_mset n (natives type m) else natives type m)"
proof -
  have s: "{u \<in> dom (m(w \<mapsto> (p, n))). handle_type u = type} =
      (if handle_type w = type then insert w {u \<in> dom m. handle_type u = type} else {u \<in> dom m. handle_type u = type})"
    using assms(2) by auto
  have "image_mset (\<lambda>u. snd (the ((m(w \<mapsto> (p, n))) u))) (mset_set {u \<in> dom m. handle_type u = type}) = natives type m"
    unfolding natives_def using assms by (intro image_mset_cong) auto
  then show ?thesis
    unfolding natives_def [of type "m(w \<mapsto> (p, n))"] s using assms by auto
qed

lemma natives_remove:
  assumes "finite (dom m)" "m w = Some (p, n)"
  shows "natives type m = (if handle_type w = type then add_mset n (natives type (m(w := None))) else natives type (m(w := None)))"
  using natives_insert [of "m(w := None)" w type p n] assms by (auto simp: map_upd_triv)

lemma natives_member: "finite (dom m) \<Longrightarrow> m w = Some (p, n) \<Longrightarrow> n \<in># natives (handle_type w) m"
  using natives_remove [of m w p n "handle_type w"] by simp

subsection \<open>The table under the invariant\<close>

lemma nth_update_cases: "xs[i := x] ! j = (if j = i \<and> i < length xs then x else xs ! j)"
  by (cases "i < length xs") (auto simp: nth_list_update list_update_beyond)

lemma insert_facts:
  assumes "table_inv t" "handle_table_insert (Some t) w p n = Inr t'"
  shows "table_inv t'" "handle_map t' = (handle_map t)(w \<mapsto> (p, n))" "w \<notin> dom (handle_map t)"
    "ht_capacity t' = ht_capacity t" "clear_entries t \<Longrightarrow> clear_entries t'" "wire_id_ok w" "n \<noteq> 0"
proof -
  have ok: "insert_args_ok w p n" and room: "ht_count t \<noteq> ht_capacity t"
    using handle_table_insert_error(1,2) [OF assms(1), of w p n] assms(2) by (metis Inl_Inr_False)+
  have "ht_count t < ht_capacity t" using room assms(1) by (simp add: table_inv_def table_is_valid_def)
  moreover have fresh: "w \<notin> dom (handle_map t)"
    using handle_table_insert_error(3) [OF assms(1) ok calculation] assms(2) by (metis Inl_Inr_False)
  ultimately show "table_inv t'" "handle_map t' = (handle_map t)(w \<mapsto> (p, n))" "ht_capacity t' = ht_capacity t"
    using handle_table_insert_ok [OF assms(1) ok] assms(2) by auto
  show "w \<notin> dom (handle_map t)" by (fact fresh)
  show "wire_id_ok w" "n \<noteq> 0" using ok by (simp_all add: insert_args_ok_def)
  obtain slot where "t' = t\<lparr>ht_entries := (ht_entries t)[slot := \<lparr>he_wire_id = w, he_parent_id = p,
      he_native_bits = n, he_state = HANDLE_OCCUPIED\<rparr>], ht_count := ht_count t + 1\<rparr>"
    using assms(2) by (auto simp: handle_table_insert_def split: if_splits sum.splits)
  then show "clear_entries t \<Longrightarrow> clear_entries t'"
    by (simp add: clear_entries_def nth_update_cases)
qed

lemma remove_facts:
  assumes "table_inv t" "handle_table_remove (Some t) w type = Inr (t', n)"
  shows "table_inv t'" "handle_map t' = (handle_map t)(w := None)" "\<exists>p. handle_map t w = Some (p, n)"
    "ht_capacity t' = ht_capacity t" "clear_entries t \<Longrightarrow> clear_entries t'" "handle_type w = type"
proof -
  have e: "handle_expect w type = Inr ()"
    using handle_table_remove_spec(1) [OF assms(1), of w type] assms(2) by auto
  then obtain p n' where m: "handle_map t w = Some (p, n')"
    using handle_table_remove_spec(2) [OF assms(1) e] assms(2) by (cases "handle_map t w") auto
  from handle_table_remove_spec(3) [OF assms(1) e m] assms(2) m
  show "table_inv t'" "handle_map t' = (handle_map t)(w := None)" "\<exists>p. handle_map t w = Some (p, n)"
    "ht_capacity t' = ht_capacity t" by auto
  show "handle_type w = type" using e by (auto simp: handle_expect_def split: if_splits)
  obtain slot where "t' = t\<lparr>ht_entries := (ht_entries t)[slot := \<lparr>he_wire_id = 0, he_parent_id = 0,
      he_native_bits = 0, he_state = HANDLE_TOMBSTONE\<rparr>], ht_count := ht_count t - 1\<rparr>"
    using assms(2) by (auto simp: handle_table_remove_def split: if_splits option.splits)
  then show "clear_entries t \<Longrightarrow> clear_entries t'"
    by (simp add: clear_entries_def nth_update_cases)
qed

lemma lookup_iff:
  assumes "table_inv (vx_objects ctx)"
  shows "lookup ctx w type = Inr v \<longleftrightarrow> handle_expect w type = Inr () \<and> objects_map ctx w = Some v"
  using handle_table_lookup_spec [OF assms, of w type 0] by (auto simp: lookup_def split: option.splits)

lemma lookup_has_type: "table_inv (vx_objects ctx) \<Longrightarrow> lookup ctx w type = Inr v \<Longrightarrow> handle_type w = type"
  by (auto simp: lookup_iff handle_expect_def split: if_splits)

text \<open>Under the invariant an entry can be looked up with its own type.\<close>

lemma mapped_expect: "table_inv t \<Longrightarrow> handle_map t w = Some v \<Longrightarrow> handle_expect w (handle_type w) = Inr ()"
  using table.view_typed [of t w] by (auto simp: dom_def)

lemma lookup_mapped:
  "table_inv (vx_objects ctx) \<Longrightarrow> handle_type w = type \<Longrightarrow> lookup ctx w type = Inr v \<longleftrightarrow> objects_map ctx w = Some v"
  using mapped_expect [of "vx_objects ctx" w v] by (auto simp: lookup_iff)

lemma remove_mapped:
  assumes "table_inv t" "handle_map t w = Some (p, n)" "handle_type w = type"
  shows "\<exists>t'. handle_table_remove (Some t) w type = Inr (t', n)"
  using handle_table_remove_spec(3) [OF assms(1) _ assms(2)] mapped_expect [OF assms(1,2)] assms(3) by blast

subsection \<open>What the steps keep\<close>

lemma pending_device:
  assumes "pending_inv type extra ctx" "lookup ctx w OBJECT_DEVICE = Inr (p, d)"
  shows "d \<in># live_objects OBJECT_DEVICE (vx_events ctx)"
proof -
  have t: "table_inv (vx_objects ctx)" using assms(1) by (simp add: pending_inv_def)
  have "d \<in># natives OBJECT_DEVICE (objects_map ctx)"
    using natives_member [of "objects_map ctx" w p d] assms(2) lookup_has_type [OF t assms(2)] by (simp add: lookup_iff [OF t])
  moreover have "owned OBJECT_DEVICE" by (simp add: owned_def)
  ultimately show ?thesis using assms(1) by (auto simp: pending_inv_def)
qed

lemma device_alive: "context_inv ctx \<Longrightarrow> lookup ctx w OBJECT_DEVICE = Inr (p, d) \<Longrightarrow> d \<in># live_objects OBJECT_DEVICE (vx_events ctx)"
  using pending_device [of OBJECT_INSTANCE "{#}"] by simp

abbreviation alive :: "u64 option \<Rightarrow> vk_context \<Rightarrow> bool" where
  "alive device ctx \<equiv> (case device of None \<Rightarrow> True | Some d \<Rightarrow> d \<in># live_objects OBJECT_DEVICE (vx_events ctx))"

lemma call_fields:
  assumes "vk_call drv f device args ctx = (result, outputs, ctx')"
  shows "vx_objects ctx' = vx_objects ctx" "vx_next_serial ctx' = vx_next_serial ctx"
    "vx_swapchain_metadata ctx' = vx_swapchain_metadata ctx" "vx_memory_mirrors ctx' = vx_memory_mirrors ctx"
    "vx_events ctx' = vx_events ctx @ [\<lparr>ev_function = f, ev_device = device, ev_args = args, ev_result = result, ev_outputs = outputs\<rparr>]"
  using assms by (auto simp: vk_call_def split: prod.splits)

lemma call_other:
  assumes "vk_call drv (Vk_Call name) device args ctx = (result, outputs, ctx')" "pending_inv type extra ctx" "alive device ctx"
  shows "pending_inv type extra ctx'"
  using assms(2,3) by (simp add: pending_inv_def call_fields [OF assms(1)] live_step_def event_ok_def)

lemma call_create:
  assumes "vk_call drv (Vk_Create type) device args ctx = (result, outputs, ctx')" "context_inv ctx" "alive device ctx"
  shows "pending_inv type (if result = VK_SUCCESS then {#out_word outputs 0#} else {#}) ctx'"
  using assms(2,3) by (auto simp: pending_inv_def context_inv_def call_fields [OF assms(1)] live_step_def event_ok_def)

lemma call_destroy:
  assumes "vk_call drv (Vk_Destroy type) device [n] ctx = (result, outputs, ctx')" "pending_inv type {#n#} ctx" "alive device ctx"
    and "owned type"
  shows "context_inv ctx'"
  using assms(2-4)
  by (auto simp: pending_inv_def context_inv_def call_fields [OF assms(1)] live_step_def event_ok_def)

lemma serial_inv [simp]: "pending_inv type extra (ctx\<lparr>vx_next_serial := f\<rparr>) \<longleftrightarrow> pending_inv type extra ctx"
  by (simp add: pending_inv_def)

lemma type_of_id: "wire_id_ok (handle_id type serial) \<Longrightarrow> handle_type (handle_id type serial) = type"
  using handle_id_roundtrip [of type serial] by (auto simp: handle_id_def wire_id_ok_def handle_type_def object_type_is_valid_def split: if_splits)

lemma register_object:
  assumes "pending_inv type {#n#} ctx" "handle_table_insert (Some (vx_objects ctx)) (handle_id type serial) parent n = Inr objects"
    and "registered type" and "type = OBJECT_INSTANCE \<and> parent = 0 \<or>
      type \<noteq> OBJECT_INSTANCE \<and> parent \<in> dom (objects_map ctx) \<and> handle_type parent = parent_type type"
  shows "context_inv (ctx\<lparr>vx_objects := objects\<rparr>)"
proof -
  have t: "table_inv (vx_objects ctx)" using assms(1) by (simp add: pending_inv_def)
  note i = insert_facts [OF t assms(2)]
  have ty: "handle_type (handle_id type serial) = type" using i(6) by (rule type_of_id)
  have "parents_ok (handle_map objects)"
    using assms(1,3,4) i(3) ty unfolding pending_inv_def parents_ok_def i(2) by auto
  moreover have "live_objects u (vx_events ctx) = natives u (handle_map objects)" if "owned u" for u
    using assms(1) that by (auto simp: pending_inv_def i(2) natives_insert [OF _ i(3)] ty)
  ultimately show ?thesis
    using assms(1) i(1,4,5) by (simp add: context_inv_def pending_inv_def)
qed

definition childless :: "(u64 \<rightharpoonup> u64 \<times> u64) \<Rightarrow> u64 \<Rightarrow> bool" where
  "childless m w \<longleftrightarrow> (\<forall>u p n. m u = Some (p, n) \<longrightarrow> p \<noteq> w)"

lemma unregister_object:
  assumes "context_inv ctx" "handle_table_remove (Some (vx_objects ctx)) w type = Inr (objects, n)"
    and "childless (objects_map ctx) w"
  shows "pending_inv type (if owned type then {#n#} else {#}) (ctx\<lparr>vx_objects := objects\<rparr>)"
proof -
  have t: "table_inv (vx_objects ctx)" using assms(1) by (simp add: context_inv_def)
  note r = remove_facts [OF t assms(2)]
  obtain p where p: "objects_map ctx w = Some (p, n)" using r(3) by blast
  have "parents_ok (handle_map objects)"
    using assms(1,3) unfolding context_inv_def parents_ok_def childless_def r(2) by (auto simp: dom_def split: if_splits) blast
  moreover have "live_objects u (vx_events ctx) = natives u (handle_map objects) +
      (if u = type then if owned type then {#n#} else {#} else {#})" if "owned u" for u
    using assms(1) that natives_remove [of "objects_map ctx" w p n u] p r(6) by (auto simp: context_inv_def r(2))
  ultimately show ?thesis
    using assms(1) r(1,4,5) by (auto simp: context_inv_def pending_inv_def)
qed

lemma own_object_inv:
  assumes "own_object drv type device parent n ctx = (response, ctx')" "pending_inv type {#n#} ctx" "owned type"
    and "type \<noteq> OBJECT_INSTANCE" "parent \<in> dom (objects_map ctx)" "handle_type parent = parent_type type"
    and "alive (Some device) ctx"
  shows "context_inv ctx'"
proof -
  let ?c = "ctx\<lparr>vx_next_serial := (vx_next_serial ctx)(type := vx_next_serial ctx type + 1)\<rparr>"
  have c: "pending_inv type {#n#} ?c" "alive (Some device) ?c" using assms(2,7) by simp_all
  show ?thesis
  proof (cases "handle_table_insert (Some (vx_objects ?c)) (handle_id type (vx_next_serial ctx type)) parent n")
    case (Inl e)
    then obtain r outs where "vk_call drv (Vk_Destroy type) (Some device) [n] ?c = (r, outs, ctx')"
      using assms(1) by (auto simp: own_object_def Let_def split: prod.splits)
    then show ?thesis using call_destroy c assms(3) by blast
  next
    case (Inr objects)
    then show ?thesis using register_object [OF c(1) Inr] assms by (auto simp: own_object_def Let_def registered_def)
  qed
qed

lemma create_child_inv:
  assumes "create_child drv type device parent args ctx = (response, ctx')" "context_inv ctx" "owned type"
    and "type \<noteq> OBJECT_INSTANCE" "parent \<in> dom (objects_map ctx)" "handle_type parent = parent_type type"
    and "alive (Some device) ctx"
  shows "context_inv ctx'"
proof -
  obtain r outs c where c: "vk_call drv (Vk_Create type) (Some device) args ctx = (r, outs, c)" by (metis prod_cases3)
  note k = call_create [OF c assms(2,7)]
  have alive: "alive (Some device) c" if "r = VK_SUCCESS"
    using assms(7) by (auto simp: call_fields [OF c] live_step_def)
  show ?thesis
    using assms(1,2,3,5,6) assms(4) own_object_inv [OF _ _ assms(3,4), of drv device parent "out_word outs 0" c _ ctx'] k alive
    by (auto simp: create_child_def c call_fields [OF c] split: if_splits prod.splits)
qed

text \<open>Types that are nobody's parent.\<close>

definition leaf :: "object_type \<Rightarrow> bool" where
  "leaf type \<longleftrightarrow> type \<notin> {OBJECT_INSTANCE, OBJECT_PHYSICAL_DEVICE, OBJECT_DEVICE, OBJECT_COMMAND_POOL, OBJECT_DESCRIPTOR_POOL, OBJECT_IMAGE}"

lemma leaf_parents:
  assumes "parents_ok m" "m u = Some (p, n)" "handle_type w \<noteq> 0" "leaf (handle_type w)"
  shows "p \<noteq> w"
proof
  assume "p = w"
  then have "handle_type w = parent_type (handle_type u) \<or> w = 0"
    using assms(1,2) by (auto simp: parents_ok_def split: if_splits)
  then show False using assms(3,4) by (auto simp: leaf_def parent_type_def handle_type_def object_type_is_valid_def split: if_splits)
qed

lemma leaf_childless:
  assumes "context_inv ctx" "objects_map ctx w \<noteq> None" "leaf (handle_type w)"
  shows "childless (objects_map ctx) w"
proof -
  obtain v where "objects_map ctx w = Some v" using assms(2) by auto
  then have "handle_type w \<noteq> 0"
    using mapped_expect [of "vx_objects ctx" w v] assms(1)
    by (auto simp: context_inv_def handle_expect_def object_type_is_valid_def split: if_splits)
  then show ?thesis using leaf_parents [of "objects_map ctx" _ _ _ w] assms(1,3) by (auto simp: childless_def context_inv_def)
qed

text \<open>Removing an object without children and telling the driver.\<close>

lemma remove_and_destroy:
  assumes "context_inv ctx" "owned type" "lookup ctx w type = Inr (parent, n)" "alive device ctx"
    and "childless (objects_map ctx) w"
    and "handle_table_remove (Some (vx_objects ctx)) w type = Inr (objects, n')"
    and "vk_call drv (Vk_Destroy type) device [n] (ctx\<lparr>vx_objects := objects\<rparr>) = (a, b, ctx')"
  shows "context_inv ctx'" "objects_map ctx' = (objects_map ctx)(w := None)" "vx_objects ctx' = objects"
    "vx_memory_mirrors ctx' = vx_memory_mirrors ctx"
proof -
  have t: "table_inv (vx_objects ctx)" using assms(1) by (simp add: context_inv_def)
  note r = remove_facts [OF t assms(6)]
  have n: "n' = n" using assms(3) r(3) by (auto simp: lookup_iff [OF t])
  have "pending_inv type {#n#} (ctx\<lparr>vx_objects := objects\<rparr>)"
    using unregister_object [OF assms(1,6)] assms(2,5) n by auto
  then show "context_inv ctx'" using call_destroy [OF assms(7) _ _ assms(2)] assms(4) by (simp split: option.splits)
  show "objects_map ctx' = (objects_map ctx)(w := None)" "vx_objects ctx' = objects" "vx_memory_mirrors ctx' = vx_memory_mirrors ctx"
    using r(2) by (simp_all add: call_fields [OF assms(7)])
qed

text \<open>\<^const>\<open>destroy_child\<close> either changes nothing and fails, or removes the object.\<close>

lemma destroy_child_cases:
  assumes "destroy_child drv type w ctx = (response, ctx')" "context_inv ctx" "owned type"
    and "objects_map ctx w \<noteq> None \<Longrightarrow> handle_type w = type \<Longrightarrow> childless (objects_map ctx) w"
  obtains (failed) "response \<noteq> Inr ()" "ctx' = ctx"
    | (gone) objects n where "response = Inr ()" "handle_table_remove (Some (vx_objects ctx)) w type = Inr (objects, n)"
        "vx_objects ctx' = objects" "vx_memory_mirrors ctx' = vx_memory_mirrors ctx" "context_inv ctx'" "objects_map ctx' = (objects_map ctx)(w := None)"
proof -
  have t: "table_inv (vx_objects ctx)" using assms(2) by (simp add: context_inv_def)
  consider "response \<noteq> Inr ()" "ctx' = ctx"
    | device_id device n objects n' where "resolve_device_child ctx w type = Inr (device_id, device, n)"
        "handle_table_remove (Some (vx_objects ctx)) w type = Inr (objects, n')" "response = Inr ()"
        "ctx' = snd (snd (vk_call drv (Vk_Destroy type) (Some device) [n] (ctx\<lparr>vx_objects := objects\<rparr>)))"
    using assms(1) by (auto simp: destroy_child_def split: sum.splits prod.splits if_splits)
  then show ?thesis
  proof cases
    case 1
    then show ?thesis by (rule failed)
  next
    case 2
    obtain p where look: "lookup ctx w type = Inr (device_id, n)" "lookup ctx device_id OBJECT_DEVICE = Inr (p, device)"
      using 2(1) by (auto simp: resolve_device_child_def split: sum.splits)
    have childless: "childless (objects_map ctx) w"
      using assms(4) [OF _ lookup_has_type [OF t look(1)]] look(1) by (simp add: lookup_iff [OF t])
    obtain a b where c: "vk_call drv (Vk_Destroy type) (Some device) [n] (ctx\<lparr>vx_objects := objects\<rparr>) = (a, b, ctx')"
      using 2(4) by (metis prod.collapse)
    have "alive (Some device) ctx" using device_alive [OF assms(2) look(2)] by simp
    from remove_and_destroy [OF assms(2,3) look(1) this childless 2(2) c] show ?thesis
      using gone [OF 2(3,2)] by blast
  qed
qed

end
