(* ===== verification/Vulkan_Registry.thy ===== *)
theory Vulkan_Registry
  imports Vulkan_Context
begin

section \<open>Registering and removing Vulkan objects\<close>

text \<open>
  The parts that the operations of src/src/vulkan_global.c share: registering handles that the driver
  keeps, creating an object that an array describes, and going over the table to remove the children of
  an object. What they keep of the invariant is proved here once, for the operations.
\<close>

subsection \<open>Registering\<close>

text \<open>The identifier a native handle already has under a parent, zero if none.\<close>

definition existing_id :: "vk_context \<Rightarrow> object_type \<Rightarrow> u64 \<Rightarrow> u64 \<Rightarrow> u64" where
  "existing_id ctx type parent_id native_bits =
     (case find (\<lambda>e. handle_type (he_wire_id e) = type \<and> he_parent_id e = parent_id \<and> he_native_bits e = native_bits)
         (take 4096 (ht_entries (vx_objects ctx))) of None \<Rightarrow> 0 | Some e \<Rightarrow> he_wire_id e)"

text \<open>Registering a handle that the driver keeps: the identifier, or the error of the table.\<close>

definition adopt_object :: "object_type \<Rightarrow> u64 \<Rightarrow> u64 \<Rightarrow> vk_context \<Rightarrow> u64 result \<times> vk_context" where
  "adopt_object type parent_id native_bits ctx =
     (let wire_id = handle_id type (vx_next_serial ctx type);
          ctx = ctx\<lparr>vx_next_serial := (vx_next_serial ctx)(type := vx_next_serial ctx type + 1)\<rparr> in
      case handle_table_insert (Some (vx_objects ctx)) wire_id parent_id native_bits of
        Inl e \<Rightarrow> (Inl e, ctx)
      | Inr objects \<Rightarrow> (Inr wire_id, ctx\<lparr>vx_objects := objects\<rparr>))"

text \<open>Removing an entry of the table.\<close>

definition remove_object :: "object_type \<Rightarrow> u64 \<Rightarrow> vk_context \<Rightarrow> unit result \<times> vk_context" where
  "remove_object type wire_id ctx =
     (case handle_table_remove (Some (vx_objects ctx)) wire_id type of
       Inl e \<Rightarrow> (Inl e, ctx) | Inr (objects, _) \<Rightarrow> (Inr (), ctx\<lparr>vx_objects := objects\<rparr>))"

text \<open>
  Query pools and update templates are described in an array besides their entry in the table, and given
  up again when the array is full. \<open>slot\<close> finds the place for the identifier, \<open>store\<close> fills it.
\<close>

definition create_described ::
  "vk_driver \<Rightarrow> object_type \<Rightarrow> u64 \<Rightarrow> u64 \<Rightarrow> u64 list \<Rightarrow> (u64 \<Rightarrow> vk_context \<Rightarrow> nat option) \<Rightarrow>
   (nat \<Rightarrow> u64 \<Rightarrow> vk_context \<Rightarrow> vk_context) \<Rightarrow> vk_context \<Rightarrow> vulkan_object_create_response result \<times> vk_context" where
  "create_described drv type device parent_id args slot store ctx =
     (if \<not> drv_proc drv (Some device) (Vk_Create type) \<or> \<not> drv_proc drv (Some device) (Vk_Destroy type) then (Inl ENOSYS, ctx)
      else case vk_call drv (Vk_Create type) (Some device) args ctx of (result, outputs, ctx) \<Rightarrow>
      if result \<noteq> VK_SUCCESS then (Inr (refused result), ctx)
      else case adopt_object type parent_id (out_word outputs 0) ctx of
        (Inl _, ctx) \<Rightarrow>
          (case vk_call drv (Vk_Destroy type) (Some device) [out_word outputs 0] ctx of (_, _, ctx) \<Rightarrow>
           (Inr (refused VK_ERROR_TOO_MANY_OBJECTS), ctx))
      | (Inr wire_id, ctx) \<Rightarrow>
          (case slot wire_id ctx of
            None \<Rightarrow>
              (case vk_call drv (Vk_Destroy type) (Some device) [out_word outputs 0] (snd (remove_object type wire_id ctx)) of
                (_, _, ctx) \<Rightarrow> (Inr (refused VK_ERROR_TOO_MANY_OBJECTS), ctx))
          | Some i \<Rightarrow> (Inr \<lparr>ocr_vulkan_result = VK_SUCCESS, ocr_object_id = wire_id\<rparr>, store i wire_id ctx)))"

text \<open>
  Buffers, images and memory look for an empty entry of their array before the new object is registered:
  \<open>slot\<close> finds it in the context after the call, \<open>store\<close> fills it.
\<close>

definition create_slotted ::
  "vk_driver \<Rightarrow> object_type \<Rightarrow> u64 \<Rightarrow> u64 \<Rightarrow> u64 list \<Rightarrow> (vk_context \<Rightarrow> nat option) \<Rightarrow>
   (nat \<Rightarrow> u64 \<Rightarrow> vk_context \<Rightarrow> vk_context) \<Rightarrow> vk_context \<Rightarrow> vulkan_object_create_response result \<times> vk_context" where
  "create_slotted drv type device parent_id args slot store ctx =
     (if \<not> drv_proc drv (Some device) (Vk_Create type) \<or> \<not> drv_proc drv (Some device) (Vk_Destroy type) then (Inl ENOSYS, ctx)
      else case vk_call drv (Vk_Create type) (Some device) args ctx of (result, outputs, ctx) \<Rightarrow>
      if result \<noteq> VK_SUCCESS then (Inr (refused result), ctx)
      else case slot ctx of
        None \<Rightarrow>
          (case vk_call drv (Vk_Destroy type) (Some device) [out_word outputs 0] ctx of (_, _, ctx) \<Rightarrow>
           (Inr (refused VK_ERROR_TOO_MANY_OBJECTS), ctx))
      | Some i \<Rightarrow>
          (case own_object drv type device parent_id (out_word outputs 0) ctx of (response, ctx) \<Rightarrow>
           (Inr response, if ocr_vulkan_result response \<noteq> VK_SUCCESS then ctx else store i (ocr_object_id response) ctx)))"

subsection \<open>Going over the table\<close>

text \<open>Going over the entries of the table: \<open>n\<close> entries are left, from \<open>index\<close> on.\<close>

fun sweep ::
  "(vk_context \<Rightarrow> handle_entry \<Rightarrow> bool) \<Rightarrow> (u64 \<Rightarrow> vk_context \<Rightarrow> ('e + unit) \<times> vk_context) \<Rightarrow> nat \<Rightarrow> nat \<Rightarrow>
   vk_context \<Rightarrow> ('e + unit) \<times> vk_context" where
  "sweep wanted act 0 index ctx = (Inr (), ctx)"
| "sweep wanted act (Suc n) index ctx =
     (let entry = ht_entries (vx_objects ctx) ! index in
      if wanted ctx entry then
        case act (he_wire_id entry) ctx of
          (Inl e, ctx) \<Rightarrow> (Inl e, ctx)
        | (Inr _, ctx) \<Rightarrow> sweep wanted act n (index + 1) ctx
      else sweep wanted act n (index + 1) ctx)"

definition child_of :: "object_type \<Rightarrow> u64 \<Rightarrow> vk_context \<Rightarrow> handle_entry \<Rightarrow> bool" where
  "child_of type parent_id ctx entry \<longleftrightarrow> handle_type (he_wire_id entry) = type \<and> he_parent_id entry = parent_id"

text \<open>Destroying a pool: its children leave the table first, then the pool; the driver is told last.\<close>

definition destroy_with_children ::
  "vk_driver \<Rightarrow> object_type \<Rightarrow> object_type \<Rightarrow> u64 \<Rightarrow> u64 \<Rightarrow> u64 \<Rightarrow> vk_context \<Rightarrow> unit result \<times> vk_context" where
  "destroy_with_children drv type child_type device object_id native_bits ctx =
     (case sweep (child_of child_type object_id) (remove_object child_type) 4096 0 ctx of
        (Inl e, ctx) \<Rightarrow> (Inl e, ctx)
      | (Inr _, ctx) \<Rightarrow>
          (case remove_object type object_id ctx of
            (Inl e, ctx) \<Rightarrow> (Inl e, ctx)
          | (Inr _, ctx) \<Rightarrow>
              (case vk_call drv (Vk_Destroy type) (Some device) [native_bits] ctx of (_, _, ctx) \<Rightarrow> (Inr (), ctx))))"

subsection \<open>Entries and the map\<close>

lemma entry_mapped:
  assumes "table_inv t" "clear_entries t" "s < ht_capacity t" "he_wire_id (ht_entries t ! s) \<noteq> 0"
  shows "handle_map t (he_wire_id (ht_entries t ! s)) = Some (he_parent_id (ht_entries t ! s), he_native_bits (ht_entries t ! s))"
  using assms by (auto simp: handle_map_iff clear_entries_def holds_def occupied_def)

lemma mapped_entry:
  assumes "table_inv t" "handle_map t w = Some (p, n)"
  obtains s where "s < ht_capacity t" "he_wire_id (ht_entries t ! s) = w" "he_parent_id (ht_entries t ! s) = p"
    "he_native_bits (ht_entries t ! s) = n"
  using assms by (auto simp: handle_map_iff holds_def)

lemma mapped_nonzero: "table_inv t \<Longrightarrow> handle_map t w = Some v \<Longrightarrow> w \<noteq> 0 \<and> handle_type w \<noteq> 0"
  using mapped_expect [of t w v] by (auto simp: handle_expect_def handle_type_def object_type_is_valid_def split: if_splits)

lemma mapped_native: "table_inv t \<Longrightarrow> handle_map t w = Some (p, n) \<Longrightarrow> n \<noteq> 0"
  by (auto simp: handle_map_iff table_inv_def entry_ok_def holds_def occupied_slots_def occupied_def)

subsection \<open>What a removal may take away\<close>

text \<open>An object is below another when it is reached by going from parent to parent.\<close>

definition parent_step :: "(u64 \<rightharpoonup> u64 \<times> u64) \<Rightarrow> u64 \<Rightarrow> u64 \<Rightarrow> bool" where
  "parent_step m w p \<longleftrightarrow> (\<exists>n. m w = Some (p, n))"

definition below :: "(u64 \<rightharpoonup> u64 \<times> u64) \<Rightarrow> u64 \<Rightarrow> u64 \<Rightarrow> bool" where
  "below m root w \<longleftrightarrow> (parent_step m)\<^sup>*\<^sup>* w root"

text \<open>Entries are emptied and never filled; what is gone was below the root; mirrors of memory stay.\<close>

definition shrinks :: "handle_table \<Rightarrow> handle_table \<Rightarrow> bool" where
  "shrinks t t' \<longleftrightarrow> ht_capacity t' = ht_capacity t \<and>
     (\<forall>s < ht_capacity t. ht_entries t' ! s = ht_entries t ! s \<or> he_wire_id (ht_entries t' ! s) = 0)"

definition prunes :: "u64 \<Rightarrow> vk_context \<Rightarrow> vk_context \<Rightarrow> bool" where
  "prunes root ctx ctx' \<longleftrightarrow> shrinks (vx_objects ctx) (vx_objects ctx') \<and> objects_map ctx' \<subseteq>\<^sub>m objects_map ctx \<and>
     vx_memory_mirrors ctx' = vx_memory_mirrors ctx \<and>
     (\<forall>w \<in> dom (objects_map ctx) - dom (objects_map ctx'). below (objects_map ctx) root w)"

lemma below_refl [simp]: "below m w w"
  by (simp add: below_def)

lemma below_child: "m w = Some (p, n) \<Longrightarrow> below m root p \<Longrightarrow> below m root w"
  by (auto simp: below_def parent_step_def intro: converse_rtranclp_into_rtranclp)

lemma below_trans: "below m p w \<Longrightarrow> below m root p \<Longrightarrow> below m root w"
  by (auto simp: below_def)

lemma below_mono: "m \<subseteq>\<^sub>m m' \<Longrightarrow> below m root w \<Longrightarrow> below m' root w"
  unfolding below_def
  by (erule rtranclp_mono [THEN predicate2D, rotated]) (auto simp: parent_step_def map_le_def dom_def; metis)

text \<open>Parents are nearer to the instance than their children.\<close>

definition depth :: "object_type \<Rightarrow> nat" where
  "depth type = (if type = OBJECT_INSTANCE then 0 else if type = OBJECT_PHYSICAL_DEVICE then 1 else if type = OBJECT_DEVICE then 2
     else if type \<in> {OBJECT_COMMAND_BUFFER, OBJECT_DESCRIPTOR_SET, OBJECT_IMAGE_VIEW} then 4 else 3)"

lemma parent_depth:
  "parents_ok m \<Longrightarrow> m w = Some (p, n) \<Longrightarrow> m p \<noteq> None \<Longrightarrow> handle_type w \<noteq> OBJECT_INSTANCE \<Longrightarrow>
   depth (handle_type p) < depth (handle_type w)"
  unfolding parents_ok_def by (drule spec [of _ w]) (auto simp: depth_def parent_type_def split: if_splits)

lemma below_depth:
  assumes "parents_ok m" "below m root w" "m root \<noteq> None" "m 0 = None"
  shows "w = root \<or> depth (handle_type root) < depth (handle_type w)"
  using assms(2) unfolding below_def
proof (induction rule: converse_rtranclp_induct)
  case (step y z)
  obtain n where m: "m y = Some (z, n)" using step(1) by (auto simp: parent_step_def)
  have z: "m z \<noteq> None"
  proof (cases "z = root")
    case False
    then show ?thesis using step(2) assms(3) by (metis converse_rtranclpE option.distinct(1) parent_step_def)
  qed (use assms(3) in simp)
  have "handle_type y = OBJECT_INSTANCE \<Longrightarrow> z = 0" using assms(1) m unfolding parents_ok_def by (metis (no_types))
  then have "handle_type y \<noteq> OBJECT_INSTANCE" using assms(4) z by auto
  then show ?case using parent_depth [OF assms(1) m z] step(3) by auto
qed simp

lemma prunes_refl: "vx_objects ctx' = vx_objects ctx \<Longrightarrow> vx_memory_mirrors ctx' = vx_memory_mirrors ctx \<Longrightarrow> prunes root ctx ctx'"
  by (simp add: prunes_def shrinks_def)

lemma shrinks_trans: "shrinks a b \<Longrightarrow> shrinks b c \<Longrightarrow> shrinks a c"
  unfolding shrinks_def by metis

lemma prunes_trans:
  assumes "prunes root a b" "prunes root b c"
  shows "prunes root a c"
proof -
  have "below (objects_map a) root w" if "w \<in> dom (objects_map a)" "w \<notin> dom (objects_map c)" for w
  proof (cases "w \<in> dom (objects_map b)")
    case True
    then have "below (objects_map b) root w" using assms(2) that(2) by (simp add: prunes_def)
    then show ?thesis using assms(1) below_mono by (auto simp: prunes_def)
  qed (use assms(1) that(1) in \<open>simp add: prunes_def\<close>)
  then show ?thesis
    using assms by (auto simp: prunes_def intro: map_le_trans shrinks_trans)
qed

lemma prunes_up: "prunes w ctx ctx' \<Longrightarrow> below (objects_map ctx) root w \<Longrightarrow> prunes root ctx ctx'"
  by (auto simp: prunes_def intro: below_trans)

lemma remove_shrinks: "handle_table_remove (Some t) w type = Inr (t', n) \<Longrightarrow> shrinks t t'"
  by (auto simp: handle_table_remove_def shrinks_def nth_update_cases split: if_splits option.splits)

lemma remove_prunes:
  assumes "table_inv (vx_objects ctx)" "handle_table_remove (Some (vx_objects ctx)) w type = Inr (objects, n)"
  shows "prunes w ctx (ctx\<lparr>vx_objects := objects\<rparr>)"
  using remove_shrinks [OF assms(2)] remove_facts(2) [OF assms] by (auto simp: prunes_def map_le_def)

subsection \<open>Removing the children of an object\<close>

locale object_destroyer =
  fixes act :: "u64 \<Rightarrow> vk_context \<Rightarrow> ('e + unit) \<times> vk_context"
  assumes act_inv: "context_inv ctx \<Longrightarrow> act w ctx = (r, ctx') \<Longrightarrow> context_inv ctx'"
    and act_prunes: "context_inv ctx \<Longrightarrow> act w ctx = (r, ctx') \<Longrightarrow> prunes w ctx ctx'"
    and act_removes: "context_inv ctx \<Longrightarrow> act w ctx = (Inr (), ctx') \<Longrightarrow> objects_map ctx' w = None"

locale object_sweep = object_destroyer +
  fixes wanted :: "vk_context \<Rightarrow> handle_entry \<Rightarrow> bool" and root :: u64
  assumes wanted_nonzero: "wanted ctx e \<Longrightarrow> he_wire_id e \<noteq> 0"
    and wanted_before: "context_inv ctx \<Longrightarrow> context_inv ctx' \<Longrightarrow> objects_map ctx' \<subseteq>\<^sub>m objects_map ctx \<Longrightarrow>
      wanted ctx' e \<Longrightarrow> wanted ctx e"
    and wanted_below: "context_inv ctx \<Longrightarrow> wanted ctx e \<Longrightarrow>
      objects_map ctx (he_wire_id e) = Some (he_parent_id e, he_native_bits e) \<Longrightarrow> below (objects_map ctx) root (he_wire_id e)"
begin

lemma sweep_spec:
  assumes "context_inv ctx" "sweep wanted act n index ctx = (r, ctx')" "index + n \<le> 4096"
  shows "context_inv ctx'" "prunes root ctx ctx'"
    "r = Inr () \<Longrightarrow> index \<le> s \<Longrightarrow> s < index + n \<Longrightarrow> \<not> wanted ctx' (ht_entries (vx_objects ctx') ! s)"
proof -
  have "context_inv ctx' \<and> prunes root ctx ctx' \<and>
      (r = Inr () \<longrightarrow> (\<forall>s. index \<le> s \<and> s < index + n \<longrightarrow> \<not> wanted ctx' (ht_entries (vx_objects ctx') ! s)))"
    using assms
  proof (induction n arbitrary: index ctx)
    case 0
    then show ?case by (auto intro: prunes_refl)
  next
    case (Suc n)
    let ?e = "ht_entries (vx_objects ctx) ! index"
    have t: "table_inv (vx_objects ctx)" "clear_entries (vx_objects ctx)" "index < ht_capacity (vx_objects ctx)"
      using Suc.prems(1,3) by (simp_all add: context_inv_def)
    consider (failed) e where "wanted ctx ?e" "act (he_wire_id ?e) ctx = (Inl e, ctx')" "r = Inl e"
      | (rest) c where "c = ctx \<and> \<not> wanted ctx ?e \<or> wanted ctx ?e \<and> act (he_wire_id ?e) ctx = (Inr (), c)"
          "sweep wanted act n (index + 1) c = (r, ctx')"
      using Suc.prems(2) by (auto simp: Let_def split: if_splits sum.splits prod.splits)
    then show ?case
    proof cases
      case failed
      have "below (objects_map ctx) root (he_wire_id ?e)"
        using wanted_below [OF Suc.prems(1) failed(1)] entry_mapped [OF t] wanted_nonzero [OF failed(1)] by blast
      then show ?thesis
        using act_inv [OF Suc.prems(1) failed(2)] prunes_up [OF act_prunes [OF Suc.prems(1) failed(2)]] failed(3) by simp
    next
      case rest
      have step: "context_inv c \<and> prunes root ctx c \<and> \<not> wanted c (ht_entries (vx_objects c) ! index)"
      proof (cases "wanted ctx ?e")
        case True
        then have a: "act (he_wire_id ?e) ctx = (Inr (), c)" and z: "he_wire_id ?e \<noteq> 0"
          using rest(1) wanted_nonzero by blast+
        have b: "below (objects_map ctx) root (he_wire_id ?e)"
          using wanted_below [OF Suc.prems(1) True] entry_mapped [OF t z] by blast
        note i = act_inv [OF Suc.prems(1) a] and p = act_prunes [OF Suc.prems(1) a]
        have "he_wire_id (ht_entries (vx_objects c) ! index) = 0"
        proof (rule ccontr)
          assume nz: "he_wire_id (ht_entries (vx_objects c) ! index) \<noteq> 0"
          then have "ht_entries (vx_objects c) ! index = ?e" using p t(3) by (auto simp: prunes_def shrinks_def)
          moreover have "index < ht_capacity (vx_objects c)" using p t(3) by (simp add: prunes_def shrinks_def)
          ultimately show False
            using entry_mapped [of "vx_objects c" index] nz i act_removes [OF Suc.prems(1) a] by (auto simp: context_inv_def)
        qed
        then show ?thesis using i prunes_up [OF p b] wanted_nonzero by blast
      next
        case False
        then show ?thesis using rest(1) Suc.prems(1) by (auto intro: prunes_refl)
      qed
      have h: "context_inv ctx' \<and> prunes root c ctx' \<and>
          (r = Inr () \<longrightarrow> (\<forall>s. index + 1 \<le> s \<and> s < index + 1 + n \<longrightarrow> \<not> wanted ctx' (ht_entries (vx_objects ctx') ! s)))"
        using Suc.IH [OF _ rest(2)] step Suc.prems(3) by simp
      have "\<not> wanted ctx' (ht_entries (vx_objects ctx') ! index)"
      proof
        assume w: "wanted ctx' (ht_entries (vx_objects ctx') ! index)"
        moreover have "index < ht_capacity (vx_objects c)" using step t(3) by (simp add: prunes_def shrinks_def)
        ultimately have "ht_entries (vx_objects ctx') ! index = ht_entries (vx_objects c) ! index"
          using h wanted_nonzero [OF w] by (auto simp: prunes_def shrinks_def)
        then show False using w step h wanted_before [of c ctx'] by (auto simp: prunes_def)
      qed
      then show ?thesis using h step by (auto intro: prunes_trans) (metis Suc_leI le_eq_less_or_eq)
    qed
  qed
  then show "context_inv ctx'" "prunes root ctx ctx'"
    "r = Inr () \<Longrightarrow> index \<le> s \<Longrightarrow> s < index + n \<Longrightarrow> \<not> wanted ctx' (ht_entries (vx_objects ctx') ! s)" by auto
qed

lemma sweep_succeeds:
  assumes "context_inv ctx" "Q ctx" "index + n \<le> 4096"
    and ok: "\<And>c e. context_inv c \<Longrightarrow> Q c \<Longrightarrow> wanted c e \<Longrightarrow>
      objects_map c (he_wire_id e) = Some (he_parent_id e, he_native_bits e) \<Longrightarrow>
      fst (act (he_wire_id e) c) = Inr () \<and> Q (snd (act (he_wire_id e) c))"
  shows "fst (sweep wanted act n index ctx) = Inr () \<and> Q (snd (sweep wanted act n index ctx))"
  using assms(1-3)
proof (induction n arbitrary: index ctx)
  case (Suc n)
  let ?e = "ht_entries (vx_objects ctx) ! index"
  show ?case
  proof (cases "wanted ctx ?e")
    case True
    have "objects_map ctx (he_wire_id ?e) = Some (he_parent_id ?e, he_native_bits ?e)"
      using entry_mapped [of "vx_objects ctx" index] Suc.prems(1,3) wanted_nonzero [OF True] by (simp add: context_inv_def)
    then obtain c where a: "act (he_wire_id ?e) ctx = (Inr (), c)" "Q c"
      using ok [OF Suc.prems(1,2) True] by (metis prod.collapse)
    have "context_inv c" by (rule act_inv [OF Suc.prems(1) a(1)])
    then show ?thesis using Suc.IH [of c "index + 1"] a Suc.prems(3) True by (simp add: Let_def)
  next
    case False
    then show ?thesis using Suc.IH [of ctx "index + 1"] Suc.prems by (simp add: Let_def)
  qed
qed simp

end

subsection \<open>What the shared parts keep\<close>

named_theorems keeps \<open>that an operation keeps the invariant of the context\<close>

lemma inv_cong:
  assumes "vx_objects ctx' = vx_objects ctx" "vx_events ctx' = vx_events ctx"
    "vx_swapchain_metadata ctx' = vx_swapchain_metadata ctx"
  shows "context_inv ctx' \<longleftrightarrow> context_inv ctx"
  using assms by (simp add: context_inv_def)

lemma metadata_inv [simp]:
  "context_inv (ctx\<lparr>vx_device_metadata := dm\<rparr>) \<longleftrightarrow> context_inv ctx"
  "context_inv (ctx\<lparr>vx_memory_metadata := mm\<rparr>) \<longleftrightarrow> context_inv ctx"
  "context_inv (ctx\<lparr>vx_buffer_metadata := bm\<rparr>) \<longleftrightarrow> context_inv ctx"
  "context_inv (ctx\<lparr>vx_semaphore_metadata := sm\<rparr>) \<longleftrightarrow> context_inv ctx"
  "context_inv (ctx\<lparr>vx_query_pool_metadata := qm\<rparr>) \<longleftrightarrow> context_inv ctx"
  "context_inv (ctx\<lparr>vx_image_metadata := im\<rparr>) \<longleftrightarrow> context_inv ctx"
  "context_inv (ctx\<lparr>vx_template_metadata := tm\<rparr>) \<longleftrightarrow> context_inv ctx"
  "context_inv (ctx\<lparr>vx_destroy_instance := di\<rparr>) \<longleftrightarrow> context_inv ctx"
  "context_inv (ctx\<lparr>vx_get_device_proc_addr := gd\<rparr>) \<longleftrightarrow> context_inv ctx"
  "context_inv (ctx\<lparr>vx_next_serial := ns\<rparr>) \<longleftrightarrow> context_inv ctx"
  by (simp_all add: context_inv_def)

lemma inv_table: "context_inv ctx \<Longrightarrow> table_inv (vx_objects ctx)"
  by (simp add: context_inv_def)

lemma pending_unowned: "\<not> owned type \<Longrightarrow> pending_inv type extra ctx \<longleftrightarrow> context_inv ctx"
  by (auto simp: pending_inv_def context_inv_def)

lemma adopt_object_core:
  assumes "adopt_object type parent n ctx = (r, ctx')" "pending_inv type {#n#} ctx" "registered type"
    and "type = OBJECT_INSTANCE \<and> parent = 0 \<or>
      type \<noteq> OBJECT_INSTANCE \<and> parent \<in> dom (objects_map ctx) \<and> handle_type parent = parent_type type"
  shows "case r of
      Inl _ \<Rightarrow> pending_inv type {#n#} ctx' \<and> vx_objects ctx' = vx_objects ctx
    | Inr w \<Rightarrow> context_inv ctx' \<and> w \<notin> dom (objects_map ctx) \<and> objects_map ctx' = (objects_map ctx)(w \<mapsto> (parent, n)) \<and> handle_type w = type"
    and "vx_events ctx' = vx_events ctx"
proof -
  let ?c = "ctx\<lparr>vx_next_serial := (vx_next_serial ctx)(type := vx_next_serial ctx type + 1)\<rparr>"
  have c: "pending_inv type {#n#} ?c" using assms(2) by simp
  have t: "table_inv (vx_objects ctx)" using assms(2) by (simp add: pending_inv_def)
  show "case r of
      Inl _ \<Rightarrow> pending_inv type {#n#} ctx' \<and> vx_objects ctx' = vx_objects ctx
    | Inr w \<Rightarrow> context_inv ctx' \<and> w \<notin> dom (objects_map ctx) \<and> objects_map ctx' = (objects_map ctx)(w \<mapsto> (parent, n)) \<and> handle_type w = type"
  proof (cases "handle_table_insert (Some (vx_objects ctx)) (handle_id type (vx_next_serial ctx type)) parent n")
    case (Inl e)
    then have "r = Inl e" "ctx' = ?c" using assms(1) by (simp_all add: adopt_object_def Let_def)
    then show ?thesis using c by simp
  next
    case (Inr objects)
    then have r: "r = Inr (handle_id type (vx_next_serial ctx type))" "ctx' = ?c\<lparr>vx_objects := objects\<rparr>"
      using assms(1) by (simp_all add: adopt_object_def Let_def)
    note i = insert_facts [OF t Inr]
    have "context_inv (?c\<lparr>vx_objects := objects\<rparr>)" using register_object [OF c] Inr assms(3,4) by simp
    then show ?thesis using i(2,3) type_of_id [OF i(6)] by (simp add: r)
  qed
  show "vx_events ctx' = vx_events ctx" using assms(1) by (auto simp: adopt_object_def Let_def split: sum.splits)
qed

lemma adopt_object_spec:
  assumes "adopt_object type parent n ctx = (r, ctx')" "pending_inv type {#n#} ctx" "registered type"
    and "type \<noteq> OBJECT_INSTANCE" "parent \<in> dom (objects_map ctx)" "handle_type parent = parent_type type"
  shows "case r of
      Inl _ \<Rightarrow> pending_inv type {#n#} ctx' \<and> vx_objects ctx' = vx_objects ctx
    | Inr w \<Rightarrow> context_inv ctx' \<and> w \<notin> dom (objects_map ctx) \<and> objects_map ctx' = (objects_map ctx)(w \<mapsto> (parent, n)) \<and> handle_type w = type"
    and "vx_events ctx' = vx_events ctx"
  using adopt_object_core [OF assms(1-3)] assms(4-6) by blast+

text \<open>The premises of a registration, for a parent that was looked up.\<close>

definition may_own :: "vk_context \<Rightarrow> object_type \<Rightarrow> u64 \<Rightarrow> u64 \<Rightarrow> bool" where
  "may_own ctx type parent device \<longleftrightarrow> owned type \<and> type \<noteq> OBJECT_INSTANCE \<and> parent \<in> dom (objects_map ctx) \<and>
     handle_type parent = parent_type type \<and> alive (Some device) ctx"

lemma device_may_own:
  assumes "context_inv ctx" "lookup ctx device_id OBJECT_DEVICE = Inr (p, device)" "owned type" "parent_type type = OBJECT_DEVICE"
    "type \<noteq> OBJECT_INSTANCE"
  shows "may_own ctx type device_id device"
  using assms device_alive [OF assms(1,2)] lookup_has_type [OF inv_table [OF assms(1)] assms(2)]
  by (auto simp: may_own_def lookup_iff [OF inv_table [OF assms(1)]])

lemma create_child_keeps:
  "context_inv ctx \<Longrightarrow> may_own ctx type parent device \<Longrightarrow> context_inv (snd (create_child drv type device parent args ctx))"
  using create_child_inv [of drv type device parent args ctx] by (metis may_own_def prod.collapse)

lemma create_call:
  assumes "vk_call drv (Vk_Create type) (Some device) args ctx = (VK_SUCCESS, outputs, ctx')" "context_inv ctx" "may_own ctx type parent device"
  shows "pending_inv type {#out_word outputs 0#} ctx'" "alive (Some device) ctx'"
    "owned type" "registered type" "type \<noteq> OBJECT_INSTANCE" "parent \<in> dom (objects_map ctx')" "handle_type parent = parent_type type"
  using call_create [OF assms(1,2)] assms(3)
  by (auto simp: may_own_def registered_def call_fields [OF assms(1)] live_step_def)

lemma create_failed:
  assumes "vk_call drv (Vk_Create type) (Some device) args ctx = (result, outputs, ctx')" "context_inv ctx" "may_own ctx type parent device"
    "result \<noteq> VK_SUCCESS"
  shows "context_inv ctx'"
  using call_create [OF assms(1,2)] assms(3,4) by (simp add: may_own_def)

lemma create_slotted_keeps:
  assumes "context_inv ctx" "may_own ctx type parent device" "\<And>i w c. context_inv c \<Longrightarrow> context_inv (store i w c)"
  shows "context_inv (snd (create_slotted drv type device parent args slot store ctx))"
proof -
  obtain result outputs c where c: "vk_call drv (Vk_Create type) (Some device) args ctx = (result, outputs, c)" by (metis prod_cases3)
  show ?thesis
  proof (cases "result = VK_SUCCESS")
    case True
    note k = create_call [OF c [unfolded True] assms(1,2)]
    show ?thesis
      using assms(1) call_destroy [OF _ k(1,2,3)] own_object_inv [OF _ k(1,3,5,6,7,2)] assms(3)
      by (auto simp: create_slotted_def c True split: option.splits prod.splits)
  next
    case False
    then show ?thesis using create_failed [OF c assms(1,2)] assms(1) by (simp add: create_slotted_def c)
  qed
qed

lemma create_described_keeps:
  assumes "context_inv ctx" "may_own ctx type parent device" "leaf type" "\<And>i w c. context_inv c \<Longrightarrow> context_inv (store i w c)"
  shows "context_inv (snd (create_described drv type device parent args slot store ctx))"
proof -
  obtain result outputs c where c: "vk_call drv (Vk_Create type) (Some device) args ctx = (result, outputs, c)" by (metis prod_cases3)
  obtain r c' where a: "adopt_object type parent (out_word outputs 0) c = (r, c')" by fastforce
  show ?thesis
  proof (cases "result = VK_SUCCESS")
    case True
    note k = create_call [OF c [unfolded True] assms(1,2)]
    note ad = adopt_object_spec [OF a k(1,4-7)]
    have alive: "alive (Some device) c'" using k(2) ad(2) by simp
    show ?thesis
    proof (cases r)
      case (Inl e)
      then show ?thesis
        using assms(1) call_destroy [of drv type "Some device" "out_word outputs 0" c'] ad(1) alive k(3)
        by (auto simp: create_described_def c True a split: prod.splits)
    next
      case (Inr w)
      then have w: "context_inv c'" "objects_map c' w = Some (parent, out_word outputs 0)" "handle_type w = type" using ad(1) by auto
      obtain t' where rm: "handle_table_remove (Some (vx_objects c')) w type = Inr (t', out_word outputs 0)"
        using remove_mapped [OF inv_table [OF w(1)] w(2,3)] by blast
      have "pending_inv type {#out_word outputs 0#} (c'\<lparr>vx_objects := t'\<rparr>)"
        using unregister_object [OF w(1) rm] leaf_childless [OF w(1)] w(2,3) assms(3) k(3) by simp
      then show ?thesis
        using assms(1) w(1) call_destroy [of drv type "Some device" "out_word outputs 0" "c'\<lparr>vx_objects := t'\<rparr>"] alive k(3) assms(4)
        by (auto simp: create_described_def c True a Inr rm remove_object_def split: prod.splits option.splits)
    qed
  next
    case False
    then show ?thesis using create_failed [OF c assms(1,2)] assms(1) by (simp add: create_described_def c)
  qed
qed

text \<open>Calls that create and destroy nothing.\<close>

lemma call_keeps: "context_inv ctx \<Longrightarrow> alive device ctx \<Longrightarrow> context_inv (snd (snd (vk_call drv (Vk_Call name) device args ctx)))"
  using call_other [of drv name device args ctx _ _ _ OBJECT_INSTANCE "{#}"] by (metis pending_none prod.collapse)

lemma called:
  "vk_call drv (Vk_Call name) device args ctx = (result, outputs, c) \<Longrightarrow> context_inv ctx \<Longrightarrow> alive device ctx \<Longrightarrow> context_inv c"
  using call_keeps [of ctx device drv name args] by simp

lemma resolved_alive:
  assumes "context_inv ctx"
  shows "resolve_device_child ctx w type = Inr (d, device, n) \<Longrightarrow> device \<in># live_objects OBJECT_DEVICE (vx_events ctx)"
    "resolve_command_pool ctx w = Inr (d, device, n) \<Longrightarrow> device \<in># live_objects OBJECT_DEVICE (vx_events ctx)"
    "resolve_command_buffer ctx w = Inr (d, device, n, b) \<Longrightarrow> device \<in># live_objects OBJECT_DEVICE (vx_events ctx)"
    "resolve_queue ctx w = Inr (device, n) \<Longrightarrow> device \<in># live_objects OBJECT_DEVICE (vx_events ctx)"
  using device_alive [OF assms]
  by (auto simp: resolve_device_child_def resolve_command_pool_def resolve_command_buffer_def resolve_queue_def split: sum.splits)

lemma resolved_mapped:
  assumes "context_inv ctx" "resolve_device_child ctx w type = Inr (d, device, n)"
  shows "objects_map ctx w = Some (d, n)" "handle_type w = type" "\<exists>p. objects_map ctx d = Some (p, device)" "handle_type d = OBJECT_DEVICE"
  using assms(2) lookup_has_type [OF inv_table [OF assms(1)]]
  by (auto simp: resolve_device_child_def lookup_iff [OF inv_table [OF assms(1)]] split: sum.splits)

lemma child_call_keeps: "context_inv ctx \<Longrightarrow> context_inv (snd (child_call drv type w name args ctx))"
  using call_keeps [of ctx "Some _" drv name] resolved_alive(1) [of ctx w type]
  by (auto simp: child_call_def split: sum.splits prod.splits) (metis snd_conv)+

subsection \<open>The destroyers\<close>

lemma destroy_child_spec:
  assumes "destroy_child drv type w ctx = (r, ctx')" "context_inv ctx" "owned type"
    and "objects_map ctx w \<noteq> None \<Longrightarrow> handle_type w = type \<Longrightarrow> childless (objects_map ctx) w"
  shows "context_inv ctx'" "prunes w ctx ctx'" "r = Inr () \<Longrightarrow> objects_map ctx' = (objects_map ctx)(w := None)"
proof -
  have "context_inv ctx' \<and> prunes w ctx ctx' \<and> (r = Inr () \<longrightarrow> objects_map ctx' = (objects_map ctx)(w := None))"
  proof (rule destroy_child_cases [OF assms(1-3)])
    assume "r \<noteq> Inr ()" "ctx' = ctx"
    then show ?thesis using assms(2) by (simp add: prunes_refl)
  next
    fix objects n
    assume rm: "handle_table_remove (Some (vx_objects ctx)) w type = Inr (objects, n)"
      and c: "vx_objects ctx' = objects" "vx_memory_mirrors ctx' = vx_memory_mirrors ctx" "context_inv ctx'" "objects_map ctx' = (objects_map ctx)(w := None)"
    have "prunes w ctx (ctx\<lparr>vx_objects := objects\<rparr>)" by (rule remove_prunes [OF inv_table [OF assms(2)] rm])
    then have "prunes w ctx ctx'" using c(1,2) by (simp add: prunes_def)
    then show ?thesis using c by simp
  qed (use assms(4) in blast)
  then show "context_inv ctx'" "prunes w ctx ctx'" "r = Inr () \<Longrightarrow> objects_map ctx' = (objects_map ctx)(w := None)" by auto
qed

lemma destroy_child_destroyer:
  assumes "owned type" "leaf type"
  shows "object_destroyer (destroy_child drv type)"
  by unfold_locales
    (use destroy_child_spec [OF _ _ assms(1)] leaf_childless assms(2) in \<open>auto\<close>)

lemma remove_object_spec:
  assumes "context_inv ctx" "\<not> owned type" "remove_object type w ctx = (r, ctx')" 
    and "handle_type w = type \<Longrightarrow> objects_map ctx w \<noteq> None \<Longrightarrow> childless (objects_map ctx) w"
  shows "context_inv ctx'" "prunes w ctx ctx'" "r = Inr () \<Longrightarrow> objects_map ctx' = (objects_map ctx)(w := None)"
proof -
  note t = inv_table [OF assms(1)]
  have "context_inv ctx' \<and> prunes w ctx ctx' \<and> (r = Inr () \<longrightarrow> objects_map ctx' = (objects_map ctx)(w := None))"
  proof (cases "handle_table_remove (Some (vx_objects ctx)) w type")
    case (Inl e)
    then show ?thesis using assms(1,3) by (auto simp: remove_object_def intro: prunes_refl)
  next
    case (Inr tn)
    then obtain t' n where rm: "handle_table_remove (Some (vx_objects ctx)) w type = Inr (t', n)" by (cases tn) auto
    note f = remove_facts [OF t rm]
    have c: "ctx' = ctx\<lparr>vx_objects := t'\<rparr>" using assms(3) rm by (simp add: remove_object_def)
    have "pending_inv type {#} ctx'"
      using unregister_object [OF assms(1) rm] assms(2,4) f(3,6) c by auto
    then show ?thesis using remove_prunes [OF t rm] f(2) c by simp
  qed
  then show "context_inv ctx'" "prunes w ctx ctx'" "r = Inr () \<Longrightarrow> objects_map ctx' = (objects_map ctx)(w := None)" by auto
qed

lemma remove_object_destroyer:
  assumes "\<not> owned type" "leaf type"
  shows "object_destroyer (remove_object type)"
  by unfold_locales
    (use remove_object_spec [OF _ assms(1)] leaf_childless assms(2) in \<open>auto\<close>)

lemma destroyer_then:
  assumes "object_destroyer act" "\<And>w c. vx_objects (tidy w c) = vx_objects c \<and> vx_memory_mirrors (tidy w c) = vx_memory_mirrors c" "\<And>w c. context_inv c \<Longrightarrow> context_inv (tidy w c)"
    and "\<And>w ctx. act' w ctx = (case act w ctx of (Inl e, c) \<Rightarrow> (Inl e, c) | (Inr _, c) \<Rightarrow> (Inr (), tidy w c))"
  shows "object_destroyer act'"
proof -
  have p: "prunes w ctx (tidy w c)" if "prunes w ctx c" for w ctx c
    using that assms(2) by (simp add: prunes_def)
  show ?thesis
    by unfold_locales
      (use assms(2,3) object_destroyer.act_inv [OF assms(1)] object_destroyer.act_prunes [OF assms(1)]
         object_destroyer.act_removes [OF assms(1)] p in \<open>auto simp: assms(4) split: prod.splits sum.splits\<close>)
qed

lemma guarded_destroyer:
  assumes "object_destroyer act" "\<And>w ctx. act' w ctx = act w ctx \<or> (\<exists>e. act' w ctx = (Inl e, ctx))"
  shows "object_destroyer act'"
proof -
  have "context_inv ctx' \<and> prunes w ctx ctx' \<and> (r = Inr () \<longrightarrow> objects_map ctx' w = None)"
    if h: "context_inv ctx" "act' w ctx = (r, ctx')" for w ctx r ctx'
  proof -
    consider "act w ctx = (r, ctx')" | "r \<noteq> Inr ()" "ctx' = ctx" using assms(2) [of w ctx] h(2) by auto
    then show ?thesis
      by cases (use h(1) object_destroyer.act_inv [OF assms(1)] object_destroyer.act_prunes [OF assms(1)]
        object_destroyer.act_removes [OF assms(1)] in \<open>auto intro: prunes_refl\<close>)
  qed
  then show ?thesis by unfold_locales auto
qed

lemma child_sweep:
  assumes "object_destroyer act" "type \<noteq> 0"
  shows "object_sweep act (child_of type parent) parent"
  by (intro object_sweep.intro assms(1) object_sweep_axioms.intro)
    (use assms(2) in \<open>auto simp: child_of_def handle_type_def intro: below_child\<close>)

lemma swept_entry:
  assumes "context_inv ctx" "objects_map ctx w = Some (p, n)"
  obtains s where "s < 4096" "he_wire_id (ht_entries (vx_objects ctx) ! s) = w" "he_parent_id (ht_entries (vx_objects ctx) ! s) = p"
  using mapped_entry [OF inv_table [OF assms(1)] assms(2)] assms(1) by (metis context_inv_def)

lemma children_swept:
  assumes "object_destroyer act" "type \<noteq> 0" "context_inv ctx" "sweep (child_of type parent) act 4096 0 ctx = (r, ctx')"
  shows "context_inv ctx'" "prunes parent ctx ctx'"
    "r = Inr () \<Longrightarrow> objects_map ctx' w = Some (parent, n) \<Longrightarrow> handle_type w \<noteq> type"
proof -
  note sw = object_sweep.sweep_spec [OF child_sweep [OF assms(1,2)] assms(3,4)]
  show i: "context_inv ctx'" and "prunes parent ctx ctx'" using sw(1,2) by simp_all
  assume "r = Inr ()" and m: "objects_map ctx' w = Some (parent, n)"
  obtain s where "s < 4096" "he_wire_id (ht_entries (vx_objects ctx') ! s) = w" "he_parent_id (ht_entries (vx_objects ctx') ! s) = parent"
    using swept_entry [OF i m] .
  then show "handle_type w \<noteq> type" using sw(3) [of s] \<open>r = Inr ()\<close> by (auto simp: child_of_def)
qed

lemma prunes_mapped: "prunes root ctx ctx' \<Longrightarrow> objects_map ctx' w = Some v \<Longrightarrow> objects_map ctx w = Some v"
  by (force simp: prunes_def map_le_def dom_def)

lemma prunes_keeps:
  assumes "context_inv ctx" "prunes w ctx ctx'" "objects_map ctx w \<noteq> None" "objects_map ctx u = Some v" "u \<noteq> w"
    and "depth (handle_type u) \<le> depth (handle_type w)"
  shows "objects_map ctx' u = Some v"
proof -
  have z: "objects_map ctx 0 = None" using mapped_nonzero [OF inv_table [OF assms(1)], of 0] by (cases "objects_map ctx 0") auto
  have "parents_ok (objects_map ctx)" using assms(1) by (simp add: context_inv_def)
  then have "\<not> below (objects_map ctx) w u" using below_depth [of "objects_map ctx" w u] assms(3,5,6) z by auto
  then have "objects_map ctx' u \<noteq> None" using assms(2,4) by (auto simp: prunes_def)
  then show ?thesis using prunes_mapped [OF assms(2)] assms(4) by auto
qed

lemma only_children:
  assumes "context_inv ctx" "objects_map ctx u = Some (w, n)" "objects_map ctx w \<noteq> None"
  shows "registered (handle_type u) \<and> parent_type (handle_type u) = handle_type w \<and> handle_type u \<noteq> OBJECT_INSTANCE"
proof -
  have z: "w \<noteq> 0" using mapped_nonzero [OF inv_table [OF assms(1)], of w] assms(3) by auto
  have "parents_ok (objects_map ctx)" using assms(1) by (simp add: context_inv_def)
  then show ?thesis using assms(2) z unfolding parents_ok_def by (metis (no_types))
qed

lemma destroy_with_children_spec:
  assumes "context_inv ctx" "objects_map ctx w = Some (d, n)" "handle_type w = type" "alive (Some device) ctx"
    and "owned type" "\<not> owned child_type" "leaf child_type" "child_type \<noteq> 0" "depth type < depth child_type"
    and only: "\<And>t. registered t \<Longrightarrow> parent_type t = type \<Longrightarrow> t \<noteq> OBJECT_INSTANCE \<Longrightarrow> t = child_type"
    and "destroy_with_children drv type child_type device w n ctx = (r, ctx')"
  shows "context_inv ctx'" "prunes w ctx ctx'" "objects_map ctx' w = None" "r = Inr ()"
proof -
  note rm = remove_object_destroyer [OF assms(6,7)]
  note sw = child_sweep [OF rm assms(8), of w]
  let ?Q = "\<lambda>c. objects_map c w = Some (d, n) \<and> vx_events c = vx_events ctx"
  have ok: "fst (remove_object child_type (he_wire_id e) c) = Inr () \<and> ?Q (snd (remove_object child_type (he_wire_id e) c))"
    if h: "context_inv c" "?Q c" "child_of child_type w c e" "objects_map c (he_wire_id e) = Some (he_parent_id e, he_native_bits e)" for c e
  proof -
    have ty: "handle_type (he_wire_id e) = child_type" using h(3) by (simp add: child_of_def)
    obtain t' where t': "handle_table_remove (Some (vx_objects c)) (he_wire_id e) child_type = Inr (t', he_native_bits e)"
      using remove_mapped [OF inv_table [OF h(1)] h(4) ty] by blast
    have "he_wire_id e \<noteq> w" using ty assms(3,9) by auto
    then show ?thesis using h(2) t' remove_facts(2) [OF inv_table [OF h(1)] t'] by (simp add: remove_object_def)
  qed
  obtain r1 c1 where s: "sweep (child_of child_type w) (remove_object child_type) 4096 0 ctx = (r1, c1)" by fastforce
  have q: "r1 = Inr ()" "objects_map c1 w = Some (d, n)" "vx_events c1 = vx_events ctx"
    using object_sweep.sweep_succeeds [OF sw assms(1), of ?Q 0 4096] ok s assms(2) by auto
  note cs = children_swept [OF rm assms(8,1) s]
  have none: "childless (objects_map c1) w"
    unfolding childless_def
  proof (intro allI impI notI)
    fix u p m
    assume u: "objects_map c1 u = Some (p, m)" "p = w"
    then have "handle_type u = child_type" using only_children [OF cs(1), of u w m] only q(2) assms(3) by auto
    then show False using cs(3) [OF q(1)] u by blast
  qed
  obtain t' where t': "handle_table_remove (Some (vx_objects c1)) w type = Inr (t', n)"
    using remove_mapped [OF inv_table [OF cs(1)] q(2) assms(3)] by blast
  obtain a b c2 where c2: "vk_call drv (Vk_Destroy type) (Some device) [n] (c1\<lparr>vx_objects := t'\<rparr>) = (a, b, c2)"
    by (metis prod_cases3)
  have look: "lookup c1 w type = Inr (d, n)" using lookup_mapped [OF inv_table [OF cs(1)] assms(3)] q(2) by simp
  have live_objects: "alive (Some device) c1" using assms(4) q(3) by simp
  note f = remove_and_destroy [OF cs(1) assms(5) look live_objects none t' c2]
  have "prunes w c1 (c1\<lparr>vx_objects := t'\<rparr>)" by (rule remove_prunes [OF inv_table [OF cs(1)] t'])
  then have "prunes w c1 c2" using f(3,4) by (simp add: prunes_def)
  then have "prunes w ctx c2" by (rule prunes_trans [OF cs(2)])
  moreover have "ctx' = c2" "r = Inr ()"
    using assms(11) s q(1) t' c2 by (simp_all add: destroy_with_children_def remove_object_def)
  ultimately show "context_inv ctx'" "prunes w ctx ctx'" "objects_map ctx' w = None" "r = Inr ()" using f by simp_all
qed

lemma pool_destroyer:
  assumes found: "\<And>ctx w d device n. context_inv ctx \<Longrightarrow> resolve ctx w = Inr (d, device, n) \<Longrightarrow>
      objects_map ctx w = Some (d, n) \<and> handle_type w = type \<and> alive (Some device) ctx"
    and types: "owned type" "\<not> owned child_type" "leaf child_type" "child_type \<noteq> 0" "depth type < depth child_type"
    and only: "\<And>t. registered t \<Longrightarrow> parent_type t = type \<Longrightarrow> t \<noteq> OBJECT_INSTANCE \<Longrightarrow> t = child_type"
    and act: "\<And>w ctx. act w ctx = (case resolve ctx w of Inl e \<Rightarrow> (Inl e, ctx) | Inr (d, device, n) \<Rightarrow>
      if \<not> available device then (Inl ENOSYS, ctx) else destroy_with_children drv type child_type device w n ctx)"
  shows "object_destroyer act"
proof -
  have "context_inv ctx' \<and> prunes w ctx ctx' \<and> (r = Inr () \<longrightarrow> objects_map ctx' w = None)"
    if h: "context_inv ctx" "act w ctx = (r, ctx')" for ctx ctx' w r
  proof -
    consider "r \<noteq> Inr ()" "ctx' = ctx"
      | d device n where "resolve ctx w = Inr (d, device, n)" "destroy_with_children drv type child_type device w n ctx = (r, ctx')"
      using h(2) by (auto simp: act split: sum.splits if_splits)
    then show ?thesis
    proof cases
      case 2
      have m: "objects_map ctx w = Some (d, n)" "handle_type w = type" "alive (Some device) ctx"
        using found [OF h(1) 2(1)] by simp_all
      show ?thesis using destroy_with_children_spec [OF h(1) m types only 2(2)] by simp
    qed (use h(1) in \<open>simp add: prunes_refl\<close>)
  qed
  then show ?thesis by unfold_locales auto
qed

end
