(* ===== verification/Vulkan_Objects.thy ===== *)
theory Vulkan_Objects
  imports Vulkan_Registry
begin

unbundle bit_operations_syntax

section \<open>Creating, using and destroying Vulkan objects\<close>

text \<open>
  The operations of src/src/vulkan_global.c on the objects of a device, in the order of the file, and that
  each of them keeps the invariant of Vulkan_Context.
\<close>

abbreviation (input) wide :: "u32 \<Rightarrow> u64" where "wide \<equiv> ucast"

subsection \<open>Queues\<close>

definition existing_queue_id :: "vk_context \<Rightarrow> u64 \<Rightarrow> u64 \<Rightarrow> u64" where
  "existing_queue_id ctx device_id native_bits = existing_id ctx OBJECT_QUEUE device_id native_bits"

definition get_device_queue :: "vk_driver \<Rightarrow> vulkan_device_queue_request \<Rightarrow> vk_context \<Rightarrow> u64 result \<times> vk_context" where
  "get_device_queue drv request ctx =
     (case lookup ctx (dqr_device_id request) OBJECT_DEVICE of Inl e \<Rightarrow> (Inl e, ctx) | Inr (_, device) \<Rightarrow>
      case device_metadata_slot ctx (dqr_device_id request) of None \<Rightarrow> (Inl ENOENT, ctx) | Some slot \<Rightarrow>
      let metadata = vx_device_metadata ctx ! slot in
      if dm_device_id metadata \<noteq> dqr_device_id request then (Inl ENOENT, ctx)
      else
      let created_queue_count = device_metadata_queue_count
            (take (unat (dm_queue_create_info_count metadata)) (dm_queue_create_infos metadata)) (dqr_queue_family_index request) in
      if created_queue_count = 0 \<or> dqr_queue_index request \<ge> created_queue_count then (Inl ERANGE, ctx)
      else if \<not> drv_proc drv (Some device) (Vk_Call ''vkGetDeviceQueue'') then (Inl ENOSYS, ctx)
      else case vk_call drv (Vk_Call ''vkGetDeviceQueue'') (Some device)
          [wide (dqr_queue_family_index request), wide (dqr_queue_index request)] ctx of (_, outputs, ctx) \<Rightarrow>
      if out_word outputs 0 = 0 then (Inl EIO, ctx)
      else
      let wire_id = existing_queue_id ctx (dqr_device_id request) (out_word outputs 0) in
      if wire_id \<noteq> 0 then (Inr wire_id, ctx)
      else adopt_object OBJECT_QUEUE (dqr_device_id request) (out_word outputs 0) ctx)"

definition queue_call ::
  "vk_driver \<Rightarrow> u64 \<Rightarrow> string \<Rightarrow> u64 list \<Rightarrow> vk_context \<Rightarrow> i32 result \<times> vk_context" where
  "queue_call drv queue_id name args ctx =
     (case resolve_queue ctx queue_id of Inl e \<Rightarrow> (Inl e, ctx) | Inr (device, queue) \<Rightarrow>
      if \<not> drv_proc drv (Some device) (Vk_Call name) then (Inl ENOSYS, ctx)
      else case vk_call drv (Vk_Call name) (Some device) (queue # args) ctx of (result, _, ctx) \<Rightarrow> (Inr result, ctx))"

definition queue_submit_empty :: "vk_driver \<Rightarrow> u64 \<Rightarrow> vk_context \<Rightarrow> i32 result \<times> vk_context" where
  "queue_submit_empty drv queue_id ctx = queue_call drv queue_id ''vkQueueSubmit'' [0] ctx"

definition queue_wait_idle :: "vk_driver \<Rightarrow> u64 \<Rightarrow> vk_context \<Rightarrow> i32 result \<times> vk_context" where
  "queue_wait_idle drv queue_id ctx = queue_call drv queue_id ''vkQueueWaitIdle'' [] ctx"

definition device_wait_idle :: "vk_driver \<Rightarrow> u64 \<Rightarrow> vk_context \<Rightarrow> i32 result \<times> vk_context" where
  "device_wait_idle drv device_id ctx =
     (case lookup ctx device_id OBJECT_DEVICE of Inl e \<Rightarrow> (Inl e, ctx) | Inr (_, device) \<Rightarrow>
      if \<not> drv_proc drv (Some device) (Vk_Call ''vkDeviceWaitIdle'') then (Inl ENOSYS, ctx)
      else case vk_call drv (Vk_Call ''vkDeviceWaitIdle'') (Some device) [] ctx of (result, _, ctx) \<Rightarrow> (Inr result, ctx))"

subsection \<open>Command pools and command buffers\<close>

definition create_command_pool ::
  "vk_driver \<Rightarrow> vulkan_command_pool_create_request \<Rightarrow> vk_context \<Rightarrow> vulkan_command_pool_create_response result \<times> vk_context" where
  "create_command_pool drv request ctx =
     (let response = (\<lambda>r. \<lparr>copcr_vulkan_result = ocr_vulkan_result r, copcr_command_pool_id = ocr_object_id r\<rparr>) in
      if cpcr_flags request AND NOT 3 \<noteq> 0 then (Inr (response (refused VK_ERROR_FEATURE_NOT_PRESENT)), ctx)
      else case lookup ctx (cpcr_device_id request) OBJECT_DEVICE of Inl e \<Rightarrow> (Inl e, ctx) | Inr (_, device) \<Rightarrow>
      case device_metadata_slot ctx (cpcr_device_id request) of None \<Rightarrow> (Inl ENOENT, ctx) | Some slot \<Rightarrow>
      let metadata = vx_device_metadata ctx ! slot in
      if dm_device_id metadata \<noteq> cpcr_device_id request then (Inl ENOENT, ctx)
      else if device_metadata_queue_count
          (take (unat (dm_queue_create_info_count metadata)) (dm_queue_create_infos metadata))
          (cpcr_queue_family_index request) = 0
      then (Inr (response (refused VK_ERROR_INITIALIZATION_FAILED)), ctx)
      else case create_child drv OBJECT_COMMAND_POOL device (cpcr_device_id request)
          [wide (cpcr_flags request), wide (cpcr_queue_family_index request)] ctx of
        (r, ctx) \<Rightarrow> (map_sum id response r, ctx))"

definition destroy_command_pool :: "vk_driver \<Rightarrow> u64 \<Rightarrow> vk_context \<Rightarrow> unit result \<times> vk_context" where
  "destroy_command_pool drv command_pool_id ctx =
     (case resolve_command_pool ctx command_pool_id of Inl e \<Rightarrow> (Inl e, ctx) | Inr (device_id, device, command_pool) \<Rightarrow>
      if \<not> drv_proc drv (Some device) (Vk_Destroy OBJECT_COMMAND_POOL) then (Inl ENOSYS, ctx)
      else destroy_with_children drv OBJECT_COMMAND_POOL OBJECT_COMMAND_BUFFER device command_pool_id command_pool ctx)"

definition reset_command_pool ::
  "vk_driver \<Rightarrow> vulkan_command_pool_reset_request \<Rightarrow> vk_context \<Rightarrow> i32 result \<times> vk_context" where
  "reset_command_pool drv request ctx =
     (if cprr_flags request AND NOT 1 \<noteq> 0 then (Inl EINVAL, ctx)
      else case resolve_command_pool ctx (cprr_command_pool_id request) of Inl e \<Rightarrow> (Inl e, ctx)
      | Inr (device_id, device, command_pool) \<Rightarrow>
      if \<not> drv_proc drv (Some device) (Vk_Call ''vkResetCommandPool'') then (Inl ENOSYS, ctx)
      else case vk_call drv (Vk_Call ''vkResetCommandPool'') (Some device) [command_pool, wide (cprr_flags request)] ctx of
        (result, _, ctx) \<Rightarrow> (Inr result, ctx))"

definition allocate_command_buffer ::
  "vk_driver \<Rightarrow> vulkan_command_buffer_allocate_request \<Rightarrow> vk_context \<Rightarrow>
   vulkan_command_buffer_allocate_response result \<times> vk_context" where
  "allocate_command_buffer drv request ctx =
     (let response = (\<lambda>result wire_id. \<lparr>cobar_vulkan_result = result, cobar_command_buffer_id = wire_id\<rparr>) in
      if cbar_level request \<noteq> 0 \<or> cbar_count request \<noteq> 1 then (Inr (response VK_ERROR_FEATURE_NOT_PRESENT 0), ctx)
      else case resolve_command_pool ctx (cbar_command_pool_id request) of Inl e \<Rightarrow> (Inl e, ctx)
      | Inr (device_id, device, command_pool) \<Rightarrow>
      if \<not> drv_proc drv (Some device) (Vk_Call ''vkAllocateCommandBuffers'') \<or>
         \<not> drv_proc drv (Some device) (Vk_Call ''vkFreeCommandBuffers'') then (Inl ENOSYS, ctx)
      else case vk_call drv (Vk_Call ''vkAllocateCommandBuffers'') (Some device) [command_pool] ctx of (result, outputs, ctx) \<Rightarrow>
      if result \<noteq> VK_SUCCESS then (Inr (response result 0), ctx)
      else case adopt_object OBJECT_COMMAND_BUFFER (cbar_command_pool_id request) (out_word outputs 0) ctx of
        (Inr wire_id, ctx) \<Rightarrow> (Inr (response VK_SUCCESS wire_id), ctx)
      | (Inl _, ctx) \<Rightarrow>
          (case vk_call drv (Vk_Call ''vkFreeCommandBuffers'') (Some device) [command_pool, out_word outputs 0] ctx of (_, _, ctx) \<Rightarrow>
           (Inr (response VK_ERROR_TOO_MANY_OBJECTS 0), ctx)))"

definition free_command_buffer ::
  "vk_driver \<Rightarrow> vulkan_command_buffer_free_request \<Rightarrow> vk_context \<Rightarrow> unit result \<times> vk_context" where
  "free_command_buffer drv request ctx =
     (case lookup ctx (cbfr_command_buffer_id request) OBJECT_COMMAND_BUFFER of Inl e \<Rightarrow> (Inl e, ctx)
      | Inr (parent_pool_id, command_buffer) \<Rightarrow>
      if parent_pool_id \<noteq> cbfr_command_pool_id request then (Inl EPROTO, ctx)
      else case resolve_command_pool ctx (cbfr_command_pool_id request) of Inl e \<Rightarrow> (Inl e, ctx)
      | Inr (device_id, device, command_pool) \<Rightarrow>
      if \<not> drv_proc drv (Some device) (Vk_Call ''vkFreeCommandBuffers'') then (Inl ENOSYS, ctx)
      else case vk_call drv (Vk_Call ''vkFreeCommandBuffers'') (Some device) [command_pool, command_buffer] ctx of
        (_, _, ctx) \<Rightarrow> remove_object OBJECT_COMMAND_BUFFER (cbfr_command_buffer_id request) ctx)"

definition command_buffer_call ::
  "vk_driver \<Rightarrow> u64 \<Rightarrow> string \<Rightarrow> u64 list \<Rightarrow> vk_context \<Rightarrow> i32 result \<times> vk_context" where
  "command_buffer_call drv command_buffer_id name args ctx =
     (case resolve_command_buffer ctx command_buffer_id of Inl e \<Rightarrow> (Inl e, ctx)
      | Inr (device_id, device, command_pool, command_buffer) \<Rightarrow>
      if \<not> drv_proc drv (Some device) (Vk_Call name) then (Inl ENOSYS, ctx)
      else case vk_call drv (Vk_Call name) (Some device) (command_buffer # args) ctx of (result, _, ctx) \<Rightarrow> (Inr result, ctx))"

definition begin_command_buffer ::
  "vk_driver \<Rightarrow> vulkan_command_buffer_begin_request \<Rightarrow> vk_context \<Rightarrow> i32 result \<times> vk_context" where
  "begin_command_buffer drv request ctx =
     (if cbbr_flags request AND NOT 1 \<noteq> 0 then (Inl EINVAL, ctx)
      else command_buffer_call drv (cbbr_command_buffer_id request) ''vkBeginCommandBuffer'' [wide (cbbr_flags request)] ctx)"

definition end_command_buffer :: "vk_driver \<Rightarrow> u64 \<Rightarrow> vk_context \<Rightarrow> i32 result \<times> vk_context" where
  "end_command_buffer drv command_buffer_id ctx = command_buffer_call drv command_buffer_id ''vkEndCommandBuffer'' [] ctx"

definition command_buffer_is_live :: "vk_context \<Rightarrow> u64 \<Rightarrow> bool" where
  "command_buffer_is_live ctx command_buffer_id =
     (case resolve_command_buffer ctx command_buffer_id of Inl _ \<Rightarrow> False | Inr _ \<Rightarrow> True)"

subsection \<open>Query pools\<close>

definition no_query_pool :: query_pool_metadata where
  "no_query_pool = \<lparr>qm_query_pool_id = 0, qm_device_id = 0, qm_query_type = 0, qm_query_count = 0\<rparr>"

definition create_query_pool ::
  "vk_driver \<Rightarrow> vulkan_query_pool_create_request \<Rightarrow> vk_context \<Rightarrow> vulkan_object_create_response result \<times> vk_context" where
  "create_query_pool drv request ctx =
     (case lookup ctx (qpcr_device_id request) OBJECT_DEVICE of Inl e \<Rightarrow> (Inl e, ctx) | Inr (_, device) \<Rightarrow>
      create_described drv OBJECT_QUERY_POOL device (qpcr_device_id request)
        [wide (qpcr_flags request), wide (qpcr_query_type request), wide (qpcr_query_count request),
         wide (qpcr_pipeline_statistics request)]
        (\<lambda>wire_id ctx. query_pool_metadata_slot ctx wire_id)
        (\<lambda>slot wire_id ctx. ctx\<lparr>vx_query_pool_metadata := (vx_query_pool_metadata ctx)
           [slot := \<lparr>qm_query_pool_id = wire_id, qm_device_id = qpcr_device_id request,
                     qm_query_type = qpcr_query_type request, qm_query_count = qpcr_query_count request\<rparr>]\<rparr>) ctx)"

definition destroy_query_pool :: "vk_driver \<Rightarrow> u64 \<Rightarrow> vk_context \<Rightarrow> unit result \<times> vk_context" where
  "destroy_query_pool drv query_pool_id ctx =
     (case destroy_child drv OBJECT_QUERY_POOL query_pool_id ctx of
       (Inl e, ctx) \<Rightarrow> (Inl e, ctx)
     | (Inr _, ctx) \<Rightarrow>
         (Inr (), case query_pool_metadata_slot ctx query_pool_id of
            None \<Rightarrow> ctx
          | Some slot \<Rightarrow> if qm_query_pool_id (vx_query_pool_metadata ctx ! slot) = query_pool_id
              then ctx\<lparr>vx_query_pool_metadata := (vx_query_pool_metadata ctx)[slot := no_query_pool]\<rparr> else ctx))"

text \<open>The range of queries, checked against what the pool was created with; then the pool itself.\<close>

definition query_pool_range ::
  "vk_context \<Rightarrow> u64 \<Rightarrow> u32 \<Rightarrow> u32 \<Rightarrow> (u64 \<times> u64) result" where
  "query_pool_range ctx query_pool_id first_query query_count =
     (case query_pool_metadata_find ctx query_pool_id of None \<Rightarrow> Inl EPROTO | Some metadata \<Rightarrow>
      if first_query > qm_query_count metadata \<or> query_count > qm_query_count metadata - first_query then Inl EPROTO
      else case resolve_device_child ctx query_pool_id OBJECT_QUERY_POOL of Inl e \<Rightarrow> Inl e
      | Inr (device_id, device, pool) \<Rightarrow>
      if device_id \<noteq> qm_device_id metadata then Inl EPROTO else Inr (device, pool))"

text \<open>The words that the driver answers here are the bytes it stores.\<close>

definition get_query_pool_results ::
  "vk_driver \<Rightarrow> vulkan_query_pool_results_request \<Rightarrow> vk_context \<Rightarrow> vulkan_query_pool_results_response result \<times> vk_context" where
  "get_query_pool_results drv request ctx =
     (case query_pool_range ctx (qprr_query_pool_id request) (qprr_first_query request) (qprr_query_count request) of
       Inl e \<Rightarrow> (Inl e, ctx)
     | Inr (device, pool) \<Rightarrow>
      if \<not> drv_proc drv (Some device) (Vk_Call ''vkGetQueryPoolResults'') then (Inl ENOSYS, ctx)
      else case vk_call drv (Vk_Call ''vkGetQueryPoolResults'') (Some device)
          [pool, wide (qprr_first_query request), wide (qprr_query_count request),
           vulkan_query_pool_results_request.qprr_data_size request, qprr_stride request, wide (qprr_flags request)] ctx of
        (result, outputs, ctx) \<Rightarrow>
          (Inr \<lparr>qprr_vulkan_result = result, qprr_data_size = ucast (vulkan_query_pool_results_request.qprr_data_size request),
             qprr_data = fill_to QUERY_POOL_RESULTS_MAX_BYTES 0
               (map ucast (take (unat (vulkan_query_pool_results_request.qprr_data_size request)) outputs))\<rparr>, ctx))"

definition reset_query_pool ::
  "vk_driver \<Rightarrow> vulkan_query_pool_reset_request \<Rightarrow> vk_context \<Rightarrow> unit result \<times> vk_context" where
  "reset_query_pool drv request ctx =
     (case query_pool_range ctx (quprr_query_pool_id request) (quprr_first_query request) (quprr_query_count request) of
       Inl e \<Rightarrow> (Inl e, ctx)
     | Inr (device, pool) \<Rightarrow>
      if \<not> drv_proc drv (Some device) (Vk_Call ''vkResetQueryPool'') then (Inl ENOSYS, ctx)
      else case vk_call drv (Vk_Call ''vkResetQueryPool'') (Some device)
          [pool, wide (quprr_first_query request), wide (quprr_query_count request)] ctx of (_, _, ctx) \<Rightarrow> (Inr (), ctx))"

subsection \<open>Fences\<close>

definition create_fence ::
  "vk_driver \<Rightarrow> vulkan_fence_create_request \<Rightarrow> vk_context \<Rightarrow> vulkan_object_create_response result \<times> vk_context" where
  "create_fence drv request ctx =
     (if fcr_flags request AND NOT 1 \<noteq> 0 then (Inr (refused VK_ERROR_FEATURE_NOT_PRESENT), ctx)
      else case lookup ctx (fcr_device_id request) OBJECT_DEVICE of Inl e \<Rightarrow> (Inl e, ctx) | Inr (_, device) \<Rightarrow>
      create_child drv OBJECT_FENCE device (fcr_device_id request) [wide (fcr_flags request)] ctx)"

definition destroy_fence :: "vk_driver \<Rightarrow> u64 \<Rightarrow> vk_context \<Rightarrow> unit result \<times> vk_context" where
  "destroy_fence drv fence_id ctx = destroy_child drv OBJECT_FENCE fence_id ctx"

definition get_fence_status :: "vk_driver \<Rightarrow> u64 \<Rightarrow> vk_context \<Rightarrow> i32 result \<times> vk_context" where
  "get_fence_status drv fence_id ctx =
     (case child_call drv OBJECT_FENCE fence_id ''vkGetFenceStatus'' [] ctx of (r, ctx) \<Rightarrow> (map_sum id fst r, ctx))"

definition wait_fence :: "vk_driver \<Rightarrow> vulkan_fence_wait_request \<Rightarrow> vk_context \<Rightarrow> i32 result \<times> vk_context" where
  "wait_fence drv request ctx =
     (if fwr_wait_all request > 1 then (Inl EINVAL, ctx)
      else case child_call drv OBJECT_FENCE (fwr_fence_id request) ''vkWaitForFences''
          [if fwr_wait_all request \<noteq> 0 then 1 else 0, fwr_timeout request] ctx of
        (r, ctx) \<Rightarrow> (map_sum id fst r, ctx))"

definition reset_fence :: "vk_driver \<Rightarrow> u64 \<Rightarrow> vk_context \<Rightarrow> i32 result \<times> vk_context" where
  "reset_fence drv fence_id ctx =
     (case child_call drv OBJECT_FENCE fence_id ''vkResetFences'' [] ctx of (r, ctx) \<Rightarrow> (map_sum id fst r, ctx))"

subsection \<open>Semaphores\<close>

definition no_semaphore :: semaphore_metadata where
  "no_semaphore = \<lparr>sm_semaphore_id = 0, sm_type = 0\<rparr>"

definition create_semaphore ::
  "vk_driver \<Rightarrow> vulkan_semaphore_create_request \<Rightarrow> vk_context \<Rightarrow> vulkan_object_create_response result \<times> vk_context" where
  "create_semaphore drv request ctx =
     (let type = scr_semaphore_type request; device_id = vulkan_semaphore_create_request.scr_device_id request;
          flags = vulkan_semaphore_create_request.scr_flags request in
      if flags \<noteq> 0 \<or> (type \<noteq> 0 \<and> type \<noteq> 1) \<or> (type = 0 \<and> scr_initial_value request \<noteq> 0)
      then (Inr (refused VK_ERROR_FEATURE_NOT_PRESENT), ctx)
      else case semaphore_metadata_slot ctx 0 of None \<Rightarrow> (Inr (refused VK_ERROR_TOO_MANY_OBJECTS), ctx) | Some slot \<Rightarrow>
      case lookup ctx device_id OBJECT_DEVICE of Inl e \<Rightarrow> (Inl e, ctx) | Inr (_, device) \<Rightarrow>
      case create_child drv OBJECT_SEMAPHORE device device_id
          (wide flags # (if type = 1 then [wide type, scr_initial_value request] else [])) ctx of
        (Inr response, ctx) \<Rightarrow>
          (Inr response, if ocr_vulkan_result response \<noteq> VK_SUCCESS then ctx
           else ctx\<lparr>vx_semaphore_metadata := (vx_semaphore_metadata ctx)
             [slot := \<lparr>sm_semaphore_id = ocr_object_id response, sm_type = type\<rparr>]\<rparr>)
      | (Inl e, ctx) \<Rightarrow> (Inl e, ctx))"

definition destroy_semaphore :: "vk_driver \<Rightarrow> u64 \<Rightarrow> vk_context \<Rightarrow> unit result \<times> vk_context" where
  "destroy_semaphore drv semaphore_id ctx =
     (case destroy_child drv OBJECT_SEMAPHORE semaphore_id ctx of
       (Inl e, ctx) \<Rightarrow> (Inl e, ctx)
     | (Inr _, ctx) \<Rightarrow>
         (Inr (), case semaphore_metadata_slot ctx semaphore_id of
            None \<Rightarrow> ctx
          | Some slot \<Rightarrow> if sm_semaphore_id (vx_semaphore_metadata ctx ! slot) = semaphore_id
              then ctx\<lparr>vx_semaphore_metadata := (vx_semaphore_metadata ctx)[slot := no_semaphore]\<rparr> else ctx))"

definition get_semaphore_counter ::
  "vk_driver \<Rightarrow> u64 \<Rightarrow> vk_context \<Rightarrow> vulkan_semaphore_counter_response result \<times> vk_context" where
  "get_semaphore_counter drv semaphore_id ctx =
     (case child_call drv OBJECT_SEMAPHORE semaphore_id ''vkGetSemaphoreCounterValue'' [] ctx of
       (r, ctx) \<Rightarrow> (map_sum id (\<lambda>(result, outputs). \<lparr>secr_vulkan_result = result, secr_value = out_word outputs 0\<rparr>) r, ctx))"

text \<open>The semaphores of a wait, with their values; all of them have to be the device's.\<close>

fun resolve_semaphores :: "vk_context \<Rightarrow> u64 \<Rightarrow> vulkan_semaphore_wait_record list \<Rightarrow> u64 list result" where
  "resolve_semaphores ctx device_id [] = Inr []"
| "resolve_semaphores ctx device_id (s # ss) =
     (case lookup ctx (swr_semaphore_id s) OBJECT_SEMAPHORE of
       Inl _ \<Rightarrow> Inl EPROTO
     | Inr (parent_id, semaphore) \<Rightarrow>
         if parent_id \<noteq> device_id then Inl EPROTO
         else map_sum id (\<lambda>rest. semaphore # swr_value s # rest) (resolve_semaphores ctx device_id ss))"

definition wait_semaphores ::
  "vk_driver \<Rightarrow> vulkan_semaphore_wait_request \<Rightarrow> vk_context \<Rightarrow> i32 result \<times> vk_context" where
  "wait_semaphores drv request ctx =
     (if sewr_semaphore_count request = 0 \<or> sewr_semaphore_count request > 16 \<or> sewr_flags request AND NOT 1 \<noteq> 0
      then (Inl EINVAL, ctx)
      else case lookup ctx (sewr_device_id request) OBJECT_DEVICE of Inl e \<Rightarrow> (Inl e, ctx) | Inr (_, device) \<Rightarrow>
      case resolve_semaphores ctx (sewr_device_id request)
          (take (unat (sewr_semaphore_count request)) (sewr_semaphores request)) of Inl e \<Rightarrow> (Inl e, ctx) | Inr args \<Rightarrow>
      if \<not> drv_proc drv (Some device) (Vk_Call ''vkWaitSemaphores'') then (Inl ENOSYS, ctx)
      else case vk_call drv (Vk_Call ''vkWaitSemaphores'') (Some device)
          ([wide (sewr_flags request), wide (sewr_semaphore_count request)] @ args @ [sewr_timeout request]) ctx of
        (result, _, ctx) \<Rightarrow> (Inr result, ctx))"

definition signal_semaphore ::
  "vk_driver \<Rightarrow> vulkan_semaphore_signal_request \<Rightarrow> vk_context \<Rightarrow> i32 result \<times> vk_context" where
  "signal_semaphore drv request ctx =
     (case lookup ctx (ssr_semaphore_id request) OBJECT_SEMAPHORE of Inl _ \<Rightarrow> (Inl EPROTO, ctx)
      | Inr (parent_id, semaphore) \<Rightarrow>
      if parent_id \<noteq> ssr_device_id request then (Inl EPROTO, ctx)
      else case lookup ctx (ssr_device_id request) OBJECT_DEVICE of Inl e \<Rightarrow> (Inl e, ctx) | Inr (_, device) \<Rightarrow>
      if \<not> drv_proc drv (Some device) (Vk_Call ''vkSignalSemaphore'') then (Inl ENOSYS, ctx)
      else case vk_call drv (Vk_Call ''vkSignalSemaphore'') (Some device) [semaphore, ssr_value request] ctx of
        (result, _, ctx) \<Rightarrow> (Inr result, ctx))"

subsection \<open>The operations keep the invariant\<close>

lemma owned_types [simp]:
  "owned OBJECT_INSTANCE" "owned OBJECT_DEVICE" "owned OBJECT_IMAGE" "owned OBJECT_IMAGE_VIEW" "owned OBJECT_DEVICE_MEMORY"
  "owned OBJECT_COMMAND_POOL" "owned OBJECT_PIPELINE_LAYOUT" "owned OBJECT_PIPELINE" "owned OBJECT_SEMAPHORE" "owned OBJECT_FENCE"
  "owned OBJECT_BUFFER" "owned OBJECT_SET_LAYOUT" "owned OBJECT_DESCRIPTOR_POOL" "owned OBJECT_SAMPLER"
  "owned OBJECT_UPDATE_TEMPLATE" "owned OBJECT_QUERY_POOL"
  "\<not> owned OBJECT_PHYSICAL_DEVICE" "\<not> owned OBJECT_QUEUE" "\<not> owned OBJECT_COMMAND_BUFFER" "\<not> owned OBJECT_DESCRIPTOR_SET"
  by (simp_all add: owned_def)

lemma device_children [simp]:
  "parent_type OBJECT_IMAGE = OBJECT_DEVICE" "parent_type OBJECT_DEVICE_MEMORY = OBJECT_DEVICE"
  "parent_type OBJECT_COMMAND_POOL = OBJECT_DEVICE" "parent_type OBJECT_PIPELINE_LAYOUT = OBJECT_DEVICE"
  "parent_type OBJECT_PIPELINE = OBJECT_DEVICE" "parent_type OBJECT_SEMAPHORE = OBJECT_DEVICE" "parent_type OBJECT_FENCE = OBJECT_DEVICE"
  "parent_type OBJECT_BUFFER = OBJECT_DEVICE" "parent_type OBJECT_SET_LAYOUT = OBJECT_DEVICE"
  "parent_type OBJECT_DESCRIPTOR_POOL = OBJECT_DEVICE" "parent_type OBJECT_SAMPLER = OBJECT_DEVICE"
  "parent_type OBJECT_UPDATE_TEMPLATE = OBJECT_DEVICE" "parent_type OBJECT_QUERY_POOL = OBJECT_DEVICE" "parent_type OBJECT_QUEUE = OBJECT_DEVICE"
  by (simp_all add: parent_type_def)

lemma leaf_types [simp]:
  "leaf OBJECT_IMAGE_VIEW" "leaf OBJECT_DEVICE_MEMORY" "leaf OBJECT_PIPELINE_LAYOUT" "leaf OBJECT_PIPELINE" "leaf OBJECT_SEMAPHORE"
  "leaf OBJECT_FENCE" "leaf OBJECT_BUFFER" "leaf OBJECT_SET_LAYOUT" "leaf OBJECT_SAMPLER" "leaf OBJECT_UPDATE_TEMPLATE"
  "leaf OBJECT_QUERY_POOL" "leaf OBJECT_QUEUE" "leaf OBJECT_COMMAND_BUFFER" "leaf OBJECT_DESCRIPTOR_SET"
  by (simp_all add: leaf_def)

lemma call_tail [simp]: "snd (case x of (result, outputs, c) \<Rightarrow> (f result outputs, c)) = snd (snd x)"
  by (simp split: prod.splits)

lemma result_tail [simp]: "snd (case x of (r, c) \<Rightarrow> (g r, c)) = snd x"
  by (simp split: prod.splits)

lemma tidy_tail: "snd (case x of (Inl e, c) \<Rightarrow> (Inl e, c) | (Inr v, c) \<Rightarrow> (Inr (g v), h v c)) =
    (case fst x of Inl _ \<Rightarrow> snd x | Inr v \<Rightarrow> h v (snd x))"
  by (auto split: prod.splits sum.splits)

text \<open>Creating a child of a device that was looked up.\<close>

lemma device_creates:
  assumes "context_inv ctx" "lookup ctx device_id OBJECT_DEVICE = Inr (p, device)"
    and "owned type" "parent_type type = OBJECT_DEVICE" "type \<noteq> OBJECT_INSTANCE"
  shows "context_inv (snd (create_child drv type device device_id args ctx))"
    and "(\<And>i w c. context_inv c \<Longrightarrow> context_inv (store i w c)) \<Longrightarrow>
      context_inv (snd (create_slotted drv type device device_id args slot store ctx))"
    and "leaf type \<Longrightarrow> (\<And>i w c. context_inv c \<Longrightarrow> context_inv (store i w c)) \<Longrightarrow>
      context_inv (snd (create_described drv type device device_id args slot' store ctx))"
  by (rule create_child_keeps create_slotted_keeps create_described_keeps, rule assms(1), rule device_may_own [OF assms], assumption?)+

lemma get_device_queue_keeps [keeps]:
  assumes "context_inv ctx"
  shows "context_inv (snd (get_device_queue drv request ctx))"
proof (cases "lookup ctx (dqr_device_id request) OBJECT_DEVICE")
  case (Inr look)
  then obtain p device where l: "lookup ctx (dqr_device_id request) OBJECT_DEVICE = Inr (p, device)" by (cases look) auto
  obtain result outputs c where c: "vk_call drv (Vk_Call ''vkGetDeviceQueue'') (Some device)
      [wide (dqr_queue_family_index request), wide (dqr_queue_index request)] ctx = (result, outputs, c)" by (metis prod_cases3)
  have i: "context_inv c" using call_keeps [OF assms, of "Some device"] device_alive [OF assms l] c by (metis option.simps(5) snd_conv)
  obtain r c' where a: "adopt_object OBJECT_QUEUE (dqr_device_id request) (out_word outputs 0) c = (r, c')" by fastforce
  have parent: "dqr_device_id request \<in> dom (objects_map c)" "handle_type (dqr_device_id request) = OBJECT_DEVICE"
    using lookup_has_type [OF inv_table [OF assms] l] l by (auto simp: lookup_iff [OF inv_table [OF assms]] call_fields [OF c])
  have "context_inv c'"
    using adopt_object_spec(1) [OF a] i parent by (auto simp: pending_unowned registered_def split: sum.splits)
  then show ?thesis using assms i a by (simp add: get_device_queue_def l c Let_def split: option.splits)
qed (use assms in \<open>simp add: get_device_queue_def\<close>)

lemma queue_call_keeps: "context_inv ctx \<Longrightarrow> context_inv (snd (queue_call drv queue_id name args ctx))"
  by (auto simp: queue_call_def call_keeps resolved_alive(4) split: sum.splits)

lemma queue_keeps [keeps]:
  "context_inv ctx \<Longrightarrow> context_inv (snd (queue_submit_empty drv queue_id ctx))"
  "context_inv ctx \<Longrightarrow> context_inv (snd (queue_wait_idle drv queue_id ctx))"
  by (simp_all add: queue_submit_empty_def queue_wait_idle_def queue_call_keeps)

lemma device_wait_idle_keeps [keeps]: "context_inv ctx \<Longrightarrow> context_inv (snd (device_wait_idle drv device_id ctx))"
  by (auto simp: device_wait_idle_def call_keeps device_alive split: sum.splits)

lemma create_command_pool_keeps [keeps]: "context_inv ctx \<Longrightarrow> context_inv (snd (create_command_pool drv request ctx))"
  by (auto simp: create_command_pool_def Let_def device_creates split: sum.splits option.splits)

lemma reset_command_pool_keeps [keeps]: "context_inv ctx \<Longrightarrow> context_inv (snd (reset_command_pool drv request ctx))"
  by (auto simp: reset_command_pool_def call_keeps resolved_alive(2) split: sum.splits)

lemma command_pool_mapped:
  assumes "context_inv ctx" "resolve_command_pool ctx w = Inr (d, device, n)"
  shows "objects_map ctx w = Some (d, n)" "handle_type w = OBJECT_COMMAND_POOL"
  using assms(2) lookup_has_type [OF inv_table [OF assms(1)]]
  by (auto simp: resolve_command_pool_def lookup_iff [OF inv_table [OF assms(1)]] split: sum.splits)

lemma only_command_buffers:
  "registered t \<Longrightarrow> parent_type t = OBJECT_COMMAND_POOL \<Longrightarrow> t \<noteq> OBJECT_INSTANCE \<Longrightarrow> t = OBJECT_COMMAND_BUFFER"
  by (auto simp: parent_type_def split: if_splits)

lemma destroy_command_pool_destroyer: "object_destroyer (destroy_command_pool drv)"
  by (rule pool_destroyer [where resolve = resolve_command_pool and drv = drv, OF _ _ _ _ _ _ only_command_buffers destroy_command_pool_def])
    (simp_all add: command_pool_mapped(1,2) resolved_alive(2) depth_def)

interpretation pool_end: object_destroyer "destroy_command_pool drv" for drv
  by (rule destroy_command_pool_destroyer)

lemma destroyer_keeps: "object_destroyer act \<Longrightarrow> context_inv ctx \<Longrightarrow> context_inv (snd (act w ctx))"
  by (metis object_destroyer.act_inv prod.collapse)

lemma destroy_command_pool_keeps [keeps]: "context_inv ctx \<Longrightarrow> context_inv (snd (destroy_command_pool drv w ctx))"
  by (rule destroyer_keeps [OF destroy_command_pool_destroyer])

lemma allocate_command_buffer_keeps [keeps]:
  assumes "context_inv ctx"
  shows "context_inv (snd (allocate_command_buffer drv request ctx))"
proof (cases "resolve_command_pool ctx (cbar_command_pool_id request)")
  case (Inr triple)
  then obtain d device n where rs: "resolve_command_pool ctx (cbar_command_pool_id request) = Inr (d, device, n)" by (cases triple) auto
  obtain result outputs c where c: "vk_call drv (Vk_Call ''vkAllocateCommandBuffers'') (Some device) [n] ctx = (result, outputs, c)"
    by (metis prod_cases3)
  have i: "context_inv c" using call_keeps [OF assms, of "Some device"] resolved_alive(2) [OF assms rs] c by (metis option.simps(5) snd_conv)
  obtain r c' where a: "adopt_object OBJECT_COMMAND_BUFFER (cbar_command_pool_id request) (out_word outputs 0) c = (r, c')" by fastforce
  have parent: "cbar_command_pool_id request \<in> dom (objects_map c)"
      "handle_type (cbar_command_pool_id request) = parent_type OBJECT_COMMAND_BUFFER"
    using command_pool_mapped [OF assms rs] by (auto simp: call_fields [OF c] parent_type_def)
  note ad = adopt_object_spec [OF a _ _ _ parent]
  have "context_inv c'" using ad(1) i by (auto simp: pending_unowned registered_def split: sum.splits)
  moreover have "device \<in># live_objects OBJECT_DEVICE (vx_events c')"
    using resolved_alive(2) [OF assms rs] ad(2) i by (simp add: call_fields [OF c] live_step_def pending_unowned registered_def)
  ultimately show ?thesis
    using assms i a by (auto simp: allocate_command_buffer_def rs c Let_def call_keeps split: sum.splits)
qed (use assms in \<open>simp add: allocate_command_buffer_def\<close>)

lemma remove_object_keeps:
  "context_inv ctx \<Longrightarrow> \<not> owned type \<Longrightarrow> leaf type \<Longrightarrow> context_inv (snd (remove_object type w ctx))"
  by (rule destroyer_keeps [OF remove_object_destroyer])

lemma free_command_buffer_keeps [keeps]: "context_inv ctx \<Longrightarrow> context_inv (snd (free_command_buffer drv request ctx))"
proof -
  assume i: "context_inv ctx"
  have "context_inv (snd (case vk_call drv (Vk_Call name) (Some device) args ctx of (_, _, c) \<Rightarrow> remove_object OBJECT_COMMAND_BUFFER w c))"
    if "resolve_command_pool ctx v = Inr (d, device, n)" for name device args w v d n
    using call_keeps [OF i, of "Some device" drv name args] resolved_alive(2) [OF i that] remove_object_keeps
    by (auto split: prod.splits)
  then show ?thesis using i by (auto simp: free_command_buffer_def split: sum.splits)
qed

lemma command_buffer_call_keeps: "context_inv ctx \<Longrightarrow> context_inv (snd (command_buffer_call drv w name args ctx))"
  by (auto simp: command_buffer_call_def call_keeps resolved_alive(3) split: sum.splits)

lemma command_buffer_keeps [keeps]:
  "context_inv ctx \<Longrightarrow> context_inv (snd (begin_command_buffer drv begin_request ctx))"
  "context_inv ctx \<Longrightarrow> context_inv (snd (end_command_buffer drv w ctx))"
  by (simp_all add: begin_command_buffer_def end_command_buffer_def command_buffer_call_keeps)

lemma create_query_pool_keeps [keeps]: "context_inv ctx \<Longrightarrow> context_inv (snd (create_query_pool drv request ctx))"
  by (auto simp: create_query_pool_def device_creates(3) split: sum.splits)

lemma destroy_query_pool_destroyer: "object_destroyer (destroy_query_pool drv)"
  by (rule destroyer_then [OF destroy_child_destroyer [where type = OBJECT_QUERY_POOL and drv = drv] _ _ destroy_query_pool_def])
    (auto split: option.splits)

lemma query_range_alive:
  "context_inv ctx \<Longrightarrow> query_pool_range ctx w first n = Inr (device, pool) \<Longrightarrow> device \<in># live_objects OBJECT_DEVICE (vx_events ctx)"
  by (auto simp: query_pool_range_def resolved_alive(1) split: option.splits sum.splits if_splits)

lemma query_pool_keeps [keeps]:
  "context_inv ctx \<Longrightarrow> context_inv (snd (destroy_query_pool drv w ctx))"
  "context_inv ctx \<Longrightarrow> context_inv (snd (get_query_pool_results drv results_request ctx))"
  "context_inv ctx \<Longrightarrow> context_inv (snd (reset_query_pool drv reset_request ctx))"
    apply (rule destroyer_keeps [OF destroy_query_pool_destroyer], assumption)
   apply (auto simp: get_query_pool_results_def call_keeps query_range_alive split: sum.splits)[1]
  apply (auto simp: reset_query_pool_def call_keeps query_range_alive split: sum.splits)
  done

lemma destroy_fence_destroyer: "object_destroyer (destroy_fence drv)"
  using destroy_child_destroyer [of OBJECT_FENCE drv] by (simp add: destroy_fence_def [abs_def])

lemma fence_keeps [keeps]:
  assumes "context_inv ctx"
  shows "context_inv (snd (create_fence drv request ctx))" "context_inv (snd (destroy_fence drv w ctx))"
    "context_inv (snd (get_fence_status drv w ctx))" "context_inv (snd (wait_fence drv wait_request ctx))"
    "context_inv (snd (reset_fence drv w ctx))"
proof -
  show "context_inv (snd (create_fence drv request ctx))"
    using assms by (auto simp: create_fence_def device_creates(1) split: sum.splits)
  show "context_inv (snd (destroy_fence drv w ctx))" by (rule destroyer_keeps [OF destroy_fence_destroyer assms])
qed (use assms in \<open>simp_all add: get_fence_status_def wait_fence_def reset_fence_def child_call_keeps\<close>)

lemma create_semaphore_keeps [keeps]:
  assumes "context_inv ctx"
  shows "context_inv (snd (create_semaphore drv request ctx))"
proof -
  have "context_inv (snd (case create_child drv OBJECT_SEMAPHORE device d args ctx of
      (Inr response, c) \<Rightarrow> (Inr response, if ocr_vulkan_result response \<noteq> VK_SUCCESS then c
         else c\<lparr>vx_semaphore_metadata := f response (vx_semaphore_metadata c)\<rparr>)
    | (Inl e, c) \<Rightarrow> (Inl e, c)))"
    if "lookup ctx d OBJECT_DEVICE = Inr (p, device)" for device d p args f
    using device_creates(1) [OF assms that, of OBJECT_SEMAPHORE drv args] by (auto split: prod.splits sum.splits)
  then show ?thesis
    using assms by (auto simp: create_semaphore_def Let_def split: sum.splits option.splits)
qed

lemma destroy_semaphore_destroyer: "object_destroyer (destroy_semaphore drv)"
  by (rule destroyer_then [OF destroy_child_destroyer [where type = OBJECT_SEMAPHORE and drv = drv] _ _ destroy_semaphore_def])
    (auto split: option.splits)

lemma semaphore_keeps [keeps]:
  assumes "context_inv ctx"
  shows "context_inv (snd (destroy_semaphore drv w ctx))" "context_inv (snd (get_semaphore_counter drv w ctx))"
    "context_inv (snd (wait_semaphores drv wait_request ctx))" "context_inv (snd (signal_semaphore drv signal_request ctx))"
proof -
  show "context_inv (snd (destroy_semaphore drv w ctx))" by (rule destroyer_keeps [OF destroy_semaphore_destroyer assms])
  show "context_inv (snd (get_semaphore_counter drv w ctx))" using assms by (simp add: get_semaphore_counter_def child_call_keeps)
  show "context_inv (snd (wait_semaphores drv wait_request ctx))" "context_inv (snd (signal_semaphore drv signal_request ctx))"
    using assms by (auto simp: wait_semaphores_def signal_semaphore_def call_keeps device_alive split: sum.splits)
qed

end
