(* ===== verification/Vulkan_Descriptors.thy ===== *)
theory Vulkan_Descriptors
  imports Vulkan_Objects
begin

unbundle bit_operations_syntax

section \<open>Descriptors, samplers and pipeline layouts\<close>

text \<open>
  src/src/vulkan_global.c: descriptor set layouts, update templates, descriptor pools and their sets,
  samplers, pipeline layouts, and the destruction of pipelines.
\<close>

subsection \<open>Descriptor set layouts\<close>

definition core_descriptor_type_supported :: "u32 \<Rightarrow> bool" where
  "core_descriptor_type_supported descriptor_type \<longleftrightarrow> descriptor_type \<in> {0, 1, 2, 3, 4, 5, 6, 7, 8, 9, 10}"

definition layout_binding_supported :: "u32 \<Rightarrow> vulkan_descriptor_layout_binding \<Rightarrow> bool" where
  "layout_binding_supported has_binding_flags b \<longleftrightarrow>
     \<not> (\<not> core_descriptor_type_supported (dlb_descriptor_type b) \<or> dlb_descriptor_count b = 0 \<or>
        dlb_descriptor_count b > 0x100000 \<or> dlb_stage_flags b = 0 \<or> dlb_binding_flags b AND NOT 7 \<noteq> 0 \<or>
        (has_binding_flags = 0 \<and> dlb_binding_flags b \<noteq> 0))"

definition create_descriptor_set_layout ::
  "vk_driver \<Rightarrow> vulkan_descriptor_set_layout_create_request \<Rightarrow> vk_context \<Rightarrow>
   vulkan_object_create_response result \<times> vk_context" where
  "create_descriptor_set_layout drv request ctx =
     (let bindings = take (unat (dslc_binding_count request)) (dslc_bindings request) in
      if dslc_flags request AND NOT 2 \<noteq> 0 \<or> dslc_binding_count request > MAX_DESCRIPTOR_LAYOUT_BINDINGS \<or>
         dslc_has_binding_flags request > 1 then (Inr (refused VK_ERROR_FEATURE_NOT_PRESENT), ctx)
      else if \<not> list_all (layout_binding_supported (dslc_has_binding_flags request)) bindings
      then (Inr (refused VK_ERROR_FEATURE_NOT_PRESENT), ctx)
      else case lookup ctx (dslc_device_id request) OBJECT_DEVICE of Inl e \<Rightarrow> (Inl e, ctx) | Inr (_, device) \<Rightarrow>
      create_child drv OBJECT_SET_LAYOUT device (dslc_device_id request)
        ((if dslc_has_binding_flags request \<noteq> 0 then map (\<lambda>b. wide (dlb_binding_flags b)) bindings else []) @
         [wide (dslc_flags request), wide (dslc_binding_count request)] @
         concat (map (\<lambda>b. [wide (dlb_binding b), wide (dlb_descriptor_type b), wide (dlb_descriptor_count b),
           wide (dlb_stage_flags b)]) bindings)) ctx)"

definition destroy_descriptor_set_layout :: "vk_driver \<Rightarrow> u64 \<Rightarrow> vk_context \<Rightarrow> unit result \<times> vk_context" where
  "destroy_descriptor_set_layout drv layout_id ctx = destroy_child drv OBJECT_SET_LAYOUT layout_id ctx"

subsection \<open>Update templates\<close>

abbreviation (input) TEMPLATE_DATA_SIZE :: u64 where "TEMPLATE_DATA_SIZE \<equiv> 0x100000"

definition descriptor_template_data_size :: "u32 \<Rightarrow> u64" where
  "descriptor_template_data_size descriptor_type =
     (if descriptor_type \<in> {0, 1, 2, 3, 10} then 24
      else if descriptor_type \<in> {4, 5} then 8
      else if descriptor_type \<in> {6, 7, 8, 9} then 24 else 0)"

definition template_entry_supported :: "vulkan_descriptor_update_template_entry \<Rightarrow> bool" where
  "template_entry_supported wire \<longleftrightarrow>
     (let value_size = descriptor_template_data_size (dute_descriptor_type wire) in
      \<not> (\<not> core_descriptor_type_supported (dute_descriptor_type wire) \<or> value_size = 0 \<or> dute_descriptor_count wire = 0 \<or>
         dute_descriptor_count wire > 0x100000 \<or> dute_stride wire = 0 \<or> dute_offset wire \<ge> TEMPLATE_DATA_SIZE \<or>
         dute_offset wire > TEMPLATE_DATA_SIZE - value_size \<or> dute_stride wire > TEMPLATE_DATA_SIZE \<or>
         wide (dute_descriptor_count wire - 1) > (TEMPLATE_DATA_SIZE - value_size - dute_offset wire) div dute_stride wire))"

definition no_template :: descriptor_template_metadata where
  "no_template = \<lparr>tm_template_id = 0, tm_device_id = 0, tm_entry_count = 0,
     tm_entries = replicate MAX_DESCRIPTOR_UPDATE_TEMPLATE_ENTRIES no_template_entry\<rparr>"

definition create_descriptor_update_template ::
  "vk_driver \<Rightarrow> vulkan_descriptor_update_template_create_request \<Rightarrow> vk_context \<Rightarrow>
   vulkan_object_create_response result \<times> vk_context" where
  "create_descriptor_update_template drv request ctx =
     (let entries = take (unat (dutc_entry_count request)) (dutc_entries request) in
      if dutc_flags request \<noteq> 0 \<or> dutc_entry_count request = 0 \<or>
         dutc_entry_count request > MAX_DESCRIPTOR_UPDATE_TEMPLATE_ENTRIES \<or> dutc_template_type request \<noteq> 0 \<or>
         dutc_set request \<noteq> 0 \<or> dutc_pipeline_layout_id request \<noteq> 0 \<or> dutc_pipeline_bind_point request \<noteq> 0
      then (Inr (refused VK_ERROR_FEATURE_NOT_PRESENT), ctx)
      else case lookup ctx (dutc_device_id request) OBJECT_DEVICE of Inl e \<Rightarrow> (Inl e, ctx) | Inr (_, device) \<Rightarrow>
      case lookup ctx (dutc_descriptor_set_layout_id request) OBJECT_SET_LAYOUT of Inl e \<Rightarrow> (Inl e, ctx)
      | Inr (layout_device_id, layout) \<Rightarrow>
      if layout_device_id \<noteq> dutc_device_id request then (Inl EPROTO, ctx)
      else if \<not> list_all template_entry_supported entries then (Inr (refused VK_ERROR_FEATURE_NOT_PRESENT), ctx)
      else create_described drv OBJECT_UPDATE_TEMPLATE device (dutc_device_id request)
        ([wide (dutc_flags request), wide (dutc_entry_count request)] @
         concat (map (\<lambda>e. [wide (dute_dst_binding e), wide (dute_dst_array_element e), wide (dute_descriptor_count e),
           wide (dute_descriptor_type e), dute_offset e, dute_stride e]) entries) @
         [wide (dutc_template_type request), layout, wide (dutc_pipeline_bind_point request), wide (dutc_set request)])
        (\<lambda>wire_id ctx. descriptor_template_slot ctx 0)
        (\<lambda>slot wire_id ctx. ctx\<lparr>vx_template_metadata := (vx_template_metadata ctx)
           [slot := \<lparr>tm_template_id = wire_id, tm_device_id = dutc_device_id request, tm_entry_count = dutc_entry_count request,
              tm_entries = fill_to MAX_DESCRIPTOR_UPDATE_TEMPLATE_ENTRIES no_template_entry entries\<rparr>]\<rparr>) ctx)"

definition destroy_descriptor_update_template :: "vk_driver \<Rightarrow> u64 \<Rightarrow> vk_context \<Rightarrow> unit result \<times> vk_context" where
  "destroy_descriptor_update_template drv template_id ctx =
     (case destroy_child drv OBJECT_UPDATE_TEMPLATE template_id ctx of
       (Inl e, ctx) \<Rightarrow> (Inl e, ctx)
     | (Inr _, ctx) \<Rightarrow>
         (Inr (), case descriptor_template_slot ctx template_id of
            None \<Rightarrow> ctx
          | Some slot \<Rightarrow> if tm_template_id (vx_template_metadata ctx ! slot) = template_id
              then ctx\<lparr>vx_template_metadata := (vx_template_metadata ctx)[slot := no_template]\<rparr> else ctx))"

subsection \<open>Descriptor pools and sets\<close>

definition pool_size_supported :: "vulkan_descriptor_pool_size \<Rightarrow> bool" where
  "pool_size_supported s \<longleftrightarrow>
     \<not> (\<not> core_descriptor_type_supported (dps_descriptor_type s) \<or> dps_descriptor_count s = 0 \<or> dps_descriptor_count s > 0x100000)"

definition create_descriptor_pool ::
  "vk_driver \<Rightarrow> vulkan_descriptor_pool_create_request \<Rightarrow> vk_context \<Rightarrow> vulkan_object_create_response result \<times> vk_context" where
  "create_descriptor_pool drv request ctx =
     (let sizes = take (unat (dpc_pool_size_count request)) (dpc_pool_sizes request) in
      if dpc_flags request AND NOT 2 \<noteq> 0 \<or> dpc_max_sets request = 0 \<or> dpc_max_sets request > 0x100000 \<or>
         dpc_pool_size_count request = 0 \<or> dpc_pool_size_count request > MAX_DESCRIPTOR_POOL_SIZES
      then (Inr (refused VK_ERROR_FEATURE_NOT_PRESENT), ctx)
      else if \<not> list_all pool_size_supported sizes then (Inr (refused VK_ERROR_FEATURE_NOT_PRESENT), ctx)
      else case lookup ctx (dpc_device_id request) OBJECT_DEVICE of Inl e \<Rightarrow> (Inl e, ctx) | Inr (_, device) \<Rightarrow>
      create_child drv OBJECT_DESCRIPTOR_POOL device (dpc_device_id request)
        ([wide (dpc_flags request), wide (dpc_max_sets request), wide (dpc_pool_size_count request)] @
         concat (map (\<lambda>s. [wide (dps_descriptor_type s), wide (dps_descriptor_count s)]) sizes)) ctx)"

definition destroy_descriptor_pool :: "vk_driver \<Rightarrow> u64 \<Rightarrow> vk_context \<Rightarrow> unit result \<times> vk_context" where
  "destroy_descriptor_pool drv pool_id ctx =
     (case resolve_device_child ctx pool_id OBJECT_DESCRIPTOR_POOL of Inl e \<Rightarrow> (Inl e, ctx) | Inr (device_id, device, pool) \<Rightarrow>
      if \<not> drv_proc drv (Some device) (Vk_Destroy OBJECT_DESCRIPTOR_POOL) then (Inl ENOSYS, ctx)
      else destroy_with_children drv OBJECT_DESCRIPTOR_POOL OBJECT_DESCRIPTOR_SET device pool_id pool ctx)"

definition reset_descriptor_pool ::
  "vk_driver \<Rightarrow> vulkan_descriptor_pool_reset_request \<Rightarrow> vk_context \<Rightarrow> i32 result \<times> vk_context" where
  "reset_descriptor_pool drv request ctx =
     (if dpr_flags request \<noteq> 0 then (Inl EINVAL, ctx)
      else case resolve_device_child ctx (dpr_descriptor_pool_id request) OBJECT_DESCRIPTOR_POOL of Inl e \<Rightarrow> (Inl e, ctx)
      | Inr (device_id, device, pool) \<Rightarrow>
      if \<not> drv_proc drv (Some device) (Vk_Call ''vkResetDescriptorPool'') then (Inl ENOSYS, ctx)
      else case vk_call drv (Vk_Call ''vkResetDescriptorPool'') (Some device) [pool, wide (dpr_flags request)] ctx of
        (result, _, ctx) \<Rightarrow>
      if result \<noteq> VK_SUCCESS then (Inr result, ctx)
      else case sweep (child_of OBJECT_DESCRIPTOR_SET (dpr_descriptor_pool_id request))
          (remove_object OBJECT_DESCRIPTOR_SET) 4096 0 ctx of
        (Inl e, ctx) \<Rightarrow> (Inl e, ctx)
      | (Inr _, ctx) \<Rightarrow> (Inr VK_SUCCESS, ctx))"

text \<open>The native layouts of an allocation, all of them the device's.\<close>

fun resolve_layouts :: "vk_context \<Rightarrow> u64 \<Rightarrow> u64 list \<Rightarrow> u64 list result" where
  "resolve_layouts ctx device_id [] = Inr []"
| "resolve_layouts ctx device_id (l # ls) =
     (case lookup ctx l OBJECT_SET_LAYOUT of
       Inl e \<Rightarrow> Inl e
     | Inr (layout_device_id, layout) \<Rightarrow>
         if layout_device_id \<noteq> device_id then Inl EPROTO
         else map_sum id (\<lambda>rest. layout # rest) (resolve_layouts ctx device_id ls))"

text \<open>The loop that registers the sets: the identifiers, or nothing when an insertion fails.\<close>

fun adopt_sets :: "u64 \<Rightarrow> u64 list \<Rightarrow> vk_context \<Rightarrow> u64 list option \<times> vk_context" where
  "adopt_sets pool_id [] ctx = (Some [], ctx)"
| "adopt_sets pool_id (n # ns) ctx =
     (case adopt_object OBJECT_DESCRIPTOR_SET pool_id n ctx of
       (Inl _, ctx) \<Rightarrow> (None, ctx)
     | (Inr wire_id, ctx) \<Rightarrow>
         (case adopt_sets pool_id ns ctx of (ids, ctx) \<Rightarrow> (map_option (\<lambda>rest. wire_id # rest) ids, ctx)))"

definition allocate_response :: "i32 \<Rightarrow> u64 list \<Rightarrow> vulkan_descriptor_set_allocate_response" where
  "allocate_response result ids =
     \<lparr>dsar_vulkan_result = result, dsar_descriptor_set_count = word_of_nat (length ids),
      dsar_descriptor_set_ids = fill_to MAX_DESCRIPTOR_SETS_PER_ALLOCATE 0 ids\<rparr>"

definition allocate_descriptor_sets ::
  "vk_driver \<Rightarrow> vulkan_descriptor_set_allocate_request \<Rightarrow> vk_context \<Rightarrow>
   vulkan_descriptor_set_allocate_response result \<times> vk_context" where
  "allocate_descriptor_sets drv request ctx =
     (let n = dsa_descriptor_set_count request in
      if n = 0 \<or> n > MAX_DESCRIPTOR_SETS_PER_ALLOCATE \<or>
         unat n > ht_capacity (vx_objects ctx) - ht_count (vx_objects ctx)
      then (Inr (allocate_response VK_ERROR_TOO_MANY_OBJECTS []), ctx)
      else case resolve_device_child ctx (dsa_descriptor_pool_id request) OBJECT_DESCRIPTOR_POOL of Inl e \<Rightarrow> (Inl e, ctx)
      | Inr (device_id, device, pool) \<Rightarrow>
      case resolve_layouts ctx device_id (take (unat n) (dsa_set_layout_ids request)) of Inl e \<Rightarrow> (Inl e, ctx) | Inr layouts \<Rightarrow>
      if \<not> drv_proc drv (Some device) (Vk_Call ''vkAllocateDescriptorSets'') then (Inl ENOSYS, ctx)
      else case vk_call drv (Vk_Call ''vkAllocateDescriptorSets'') (Some device) ([pool, wide n] @ layouts) ctx of
        (result, outputs, ctx) \<Rightarrow>
      if result \<noteq> VK_SUCCESS then (Inr (allocate_response result []), ctx)
      else case adopt_sets (dsa_descriptor_pool_id request) (map (out_word outputs) [0..<unat n]) ctx of
        (None, ctx) \<Rightarrow> (Inr (allocate_response VK_ERROR_TOO_MANY_OBJECTS []), ctx)
      | (Some ids, ctx) \<Rightarrow> (Inr (allocate_response VK_SUCCESS ids), ctx))"

subsection \<open>Samplers, pipeline layouts and pipelines\<close>

definition create_sampler ::
  "vk_driver \<Rightarrow> vulkan_sampler_create_request \<Rightarrow> vk_context \<Rightarrow> vulkan_object_create_response result \<times> vk_context" where
  "create_sampler drv request ctx =
     (let device_id = vulkan_sampler_create_request.scr_device_id request;
          flags = vulkan_sampler_create_request.scr_flags request in
      if flags \<noteq> 0 \<or> scr_mag_filter request > 1 \<or> scr_min_filter request > 1 \<or> scr_mipmap_mode request > 1 \<or>
         scr_address_mode_u request > 4 \<or> scr_address_mode_v request > 4 \<or> scr_address_mode_w request > 4 \<or>
         scr_anisotropy_enable request > 1 \<or> scr_compare_enable request > 1 \<or> scr_compare_op request > 7 \<or>
         scr_border_color request > 5 \<or> scr_unnormalized_coordinates request > 1
      then (Inr (refused VK_ERROR_FEATURE_NOT_PRESENT), ctx)
      else case lookup ctx device_id OBJECT_DEVICE of Inl e \<Rightarrow> (Inl e, ctx) | Inr (_, device) \<Rightarrow>
      create_child drv OBJECT_SAMPLER device device_id
        (wide flags # map (\<lambda>field. wide (field request)) [scr_mag_filter, scr_min_filter, scr_mipmap_mode, scr_address_mode_u,
           scr_address_mode_v, scr_address_mode_w, scr_mip_lod_bias_bits, scr_anisotropy_enable, scr_max_anisotropy_bits,
           scr_compare_enable, scr_compare_op, scr_min_lod_bits, scr_max_lod_bits, scr_border_color,
           scr_unnormalized_coordinates]) ctx)"

definition destroy_sampler :: "vk_driver \<Rightarrow> u64 \<Rightarrow> vk_context \<Rightarrow> unit result \<times> vk_context" where
  "destroy_sampler drv sampler_id ctx = destroy_child drv OBJECT_SAMPLER sampler_id ctx"

text \<open>The set layouts of a pipeline layout: a missing one is only allowed with independent sets.\<close>

datatype layouts_outcome = Layouts "u64 list" | Layouts_Refused | Layouts_Error errno

fun pipeline_set_layouts :: "vk_context \<Rightarrow> u64 \<Rightarrow> u32 \<Rightarrow> u64 list \<Rightarrow> layouts_outcome" where
  "pipeline_set_layouts ctx device_id flags [] = Layouts []"
| "pipeline_set_layouts ctx device_id flags (l # ls) =
     (let rest = (\<lambda>layout. case pipeline_set_layouts ctx device_id flags ls of
            Layouts layouts \<Rightarrow> Layouts (layout # layouts) | other \<Rightarrow> other) in
      if l = 0 then (if flags AND 2 = 0 then Layouts_Refused else rest 0)
      else case lookup ctx l OBJECT_SET_LAYOUT of
        Inl e \<Rightarrow> Layouts_Error e
      | Inr (layout_device_id, layout) \<Rightarrow> if layout_device_id \<noteq> device_id then Layouts_Error EPROTO else rest layout)"

text \<open>The push constant ranges, with the stages used so far.\<close>

fun push_ranges_supported :: "u32 \<Rightarrow> vulkan_pipeline_push_constant_range list \<Rightarrow> bool" where
  "push_ranges_supported used_stages [] = True"
| "push_ranges_supported used_stages (r # rs) =
     (\<not> (pcr_stage_flags r = 0 \<or> pcr_stage_flags r AND NOT 0x3f \<noteq> 0 \<or> pcr_stage_flags r AND used_stages \<noteq> 0 \<or>
         pcr_size r = 0 \<or> pcr_offset r AND 3 \<noteq> 0 \<or> pcr_size r AND 3 \<noteq> 0 \<or> pcr_offset r > 256 \<or>
         pcr_size r > 256 - pcr_offset r) \<and>
      push_ranges_supported (used_stages OR pcr_stage_flags r) rs)"

definition create_pipeline_layout ::
  "vk_driver \<Rightarrow> vulkan_pipeline_layout_create_request \<Rightarrow> vk_context \<Rightarrow> vulkan_object_create_response result \<times> vk_context" where
  "create_pipeline_layout drv request ctx =
     (let ranges = take (unat (plc_push_constant_range_count request)) (plc_push_constant_ranges request) in
      if plc_flags request AND NOT 2 \<noteq> 0 \<or> plc_set_layout_count request > MAX_PIPELINE_SET_LAYOUTS \<or>
         plc_push_constant_range_count request > MAX_PIPELINE_PUSH_CONSTANT_RANGES
      then (Inr (refused VK_ERROR_FEATURE_NOT_PRESENT), ctx)
      else case lookup ctx (plc_device_id request) OBJECT_DEVICE of Inl e \<Rightarrow> (Inl e, ctx) | Inr (_, device) \<Rightarrow>
      case pipeline_set_layouts ctx (plc_device_id request) (plc_flags request)
          (take (unat (plc_set_layout_count request)) (plc_set_layout_ids request)) of
        Layouts_Error e \<Rightarrow> (Inl e, ctx)
      | Layouts_Refused \<Rightarrow> (Inr (refused VK_ERROR_FEATURE_NOT_PRESENT), ctx)
      | Layouts layouts \<Rightarrow>
      if \<not> push_ranges_supported 0 ranges then (Inr (refused VK_ERROR_FEATURE_NOT_PRESENT), ctx)
      else create_child drv OBJECT_PIPELINE_LAYOUT device (plc_device_id request)
        ([wide (plc_flags request), wide (plc_set_layout_count request)] @ layouts @
         [wide (plc_push_constant_range_count request)] @
         concat (map (\<lambda>r. [wide (pcr_stage_flags r), wide (pcr_offset r), wide (pcr_size r)]) ranges)) ctx)"

definition destroy_pipeline_layout :: "vk_driver \<Rightarrow> u64 \<Rightarrow> vk_context \<Rightarrow> unit result \<times> vk_context" where
  "destroy_pipeline_layout drv pipeline_layout_id ctx = destroy_child drv OBJECT_PIPELINE_LAYOUT pipeline_layout_id ctx"

text \<open>The one graphics pipeline that a request describes: a library with a fragment shader and these dynamic states.\<close>

definition graphics_dynamic_states_match_dxvk_null_fragment :: "vulkan_graphics_pipeline_create_request \<Rightarrow> bool" where
  "graphics_dynamic_states_match_dxvk_null_fragment request \<longleftrightarrow> gpc_dynamic_state_count request = 9 \<and>
     take 9 (gpc_dynamic_states request) = [1000267006, 1000267007, 1000267008, 6, 7, 8, 1000267010, 1000267010, 1000267011]"

definition create_graphics_pipeline ::
  "vk_driver \<Rightarrow> vulkan_graphics_pipeline_create_request \<Rightarrow> vk_context \<Rightarrow> vulkan_object_create_response result \<times> vk_context" where
  "create_graphics_pipeline drv request ctx =
     (if gpc_flags_2 request \<noteq> 0x800 \<or> gpc_library_flags request \<noteq> 4 \<or> gpc_shader_stage request \<noteq> 0x10 \<or>
         gpc_shader_word_count request < 5 \<or> gpc_shader_word_count request > MAX_GRAPHICS_PIPELINE_SHADER_WORDS \<or>
         gpc_shader_words request ! 0 \<noteq> 0x07230203 \<or> \<not> graphics_dynamic_states_match_dxvk_null_fragment request
      then (Inr (refused VK_ERROR_FEATURE_NOT_PRESENT), ctx)
      else case lookup ctx (gpc_device_id request) OBJECT_DEVICE of Inl e \<Rightarrow> (Inl e, ctx) | Inr (_, device) \<Rightarrow>
      case lookup ctx (gpc_pipeline_layout_id request) OBJECT_PIPELINE_LAYOUT of Inl e \<Rightarrow> (Inl e, ctx)
      | Inr (layout_device_id, layout) \<Rightarrow>
      if layout_device_id \<noteq> gpc_device_id request then (Inl EPROTO, ctx)
      else create_child drv OBJECT_PIPELINE device (gpc_device_id request)
        ([gpc_flags_2 request, wide (gpc_library_flags request), wide (gpc_shader_word_count request * 4)] @
         map wide (take (unat (gpc_shader_word_count request)) (gpc_shader_words request)) @
         [wide (gpc_shader_stage request), wide (gpc_dynamic_state_count request)] @
         map wide (take (unat (gpc_dynamic_state_count request)) (gpc_dynamic_states request)) @ [layout]) ctx)"

definition destroy_pipeline :: "vk_driver \<Rightarrow> u64 \<Rightarrow> vk_context \<Rightarrow> unit result \<times> vk_context" where
  "destroy_pipeline drv pipeline_id ctx = destroy_child drv OBJECT_PIPELINE pipeline_id ctx"

subsection \<open>The operations keep the invariant\<close>

lemma leaf_destroyers:
  "object_destroyer (destroy_descriptor_set_layout drv)" "object_destroyer (destroy_sampler drv)"
  "object_destroyer (destroy_pipeline_layout drv)" "object_destroyer (destroy_pipeline drv)"
  using destroy_child_destroyer [of _ drv]
  by (simp_all add: destroy_descriptor_set_layout_def [abs_def] destroy_sampler_def [abs_def]
      destroy_pipeline_layout_def [abs_def] destroy_pipeline_def [abs_def])

lemma destroy_descriptor_update_template_destroyer: "object_destroyer (destroy_descriptor_update_template drv)"
  by (rule destroyer_then [OF destroy_child_destroyer [where type = OBJECT_UPDATE_TEMPLATE and drv = drv] _ _
        destroy_descriptor_update_template_def])
    (auto split: option.splits)

lemma only_descriptor_sets:
  "registered t \<Longrightarrow> parent_type t = OBJECT_DESCRIPTOR_POOL \<Longrightarrow> t \<noteq> OBJECT_INSTANCE \<Longrightarrow> t = OBJECT_DESCRIPTOR_SET"
  by (auto simp: parent_type_def split: if_splits)

lemma destroy_descriptor_pool_destroyer: "object_destroyer (destroy_descriptor_pool drv)"
  by (rule pool_destroyer [where resolve = "\<lambda>ctx w. resolve_device_child ctx w OBJECT_DESCRIPTOR_POOL" and drv = drv,
        OF _ _ _ _ _ _ only_descriptor_sets destroy_descriptor_pool_def])
    (auto simp: resolved_alive(1) depth_def dest: resolved_mapped)

lemma set_removal: "object_destroyer (remove_object OBJECT_DESCRIPTOR_SET)"
  by (rule remove_object_destroyer) simp_all

text \<open>Registering the sets of an allocation.\<close>

lemma adopt_sets_spec:
  assumes "adopt_sets pool ns ctx = (ids, ctx')" "context_inv ctx" "pool \<in> dom (objects_map ctx)" "handle_type pool = OBJECT_DESCRIPTOR_POOL"
  shows "context_inv ctx'" "vx_events ctx' = vx_events ctx" "objects_map ctx \<subseteq>\<^sub>m objects_map ctx'"
    "ids = Some ws \<Longrightarrow> length ws = length ns \<and> distinct ws \<and> set ws \<inter> dom (objects_map ctx) = {} \<and>
       list_all2 (\<lambda>w n. handle_type w = OBJECT_DESCRIPTOR_SET \<and> objects_map ctx' w = Some (pool, n)) ws ns"
proof -
  have "context_inv ctx' \<and> vx_events ctx' = vx_events ctx \<and> objects_map ctx \<subseteq>\<^sub>m objects_map ctx' \<and>
      (\<forall>ws. ids = Some ws \<longrightarrow> length ws = length ns \<and> distinct ws \<and> set ws \<inter> dom (objects_map ctx) = {} \<and>
         list_all2 (\<lambda>w n. handle_type w = OBJECT_DESCRIPTOR_SET \<and> objects_map ctx' w = Some (pool, n)) ws ns)"
    using assms
  proof (induction ns arbitrary: ctx ids ctx')
    case (Cons n ns)
    obtain r c where a: "adopt_object OBJECT_DESCRIPTOR_SET pool n ctx = (r, c)" by fastforce
    note ad = adopt_object_spec [OF a _ _ _ Cons.prems(3)]
    have ad1: "case r of Inl _ \<Rightarrow> context_inv c \<and> vx_objects c = vx_objects ctx
        | Inr w \<Rightarrow> context_inv c \<and> w \<notin> dom (objects_map ctx) \<and> objects_map c = (objects_map ctx)(w \<mapsto> (pool, n)) \<and>
            handle_type w = OBJECT_DESCRIPTOR_SET" and ev: "vx_events c = vx_events ctx"
      using ad Cons.prems(2,4) by (simp_all add: pending_unowned registered_def parent_type_def cong: sum.case_cong)
    show ?case
    proof (cases r)
      case (Inl e)
      then show ?thesis using ad1 ev Cons.prems(1) a by simp
    next
      case (Inr w)
      obtain rest c' where s: "adopt_sets pool ns c = (rest, c')" by fastforce
      have c: "context_inv c" "w \<notin> dom (objects_map ctx)" "objects_map c = (objects_map ctx)(w \<mapsto> (pool, n))"
          "handle_type w = OBJECT_DESCRIPTOR_SET" using ad1 Inr by simp_all
      have d: "pool \<in> dom (objects_map c)" using c(3) Cons.prems(3) by auto
      have r: "ids = map_option ((#) w) rest" "ctx' = c'" using Cons.prems(1) a Inr s by simp_all
      note IH = Cons.IH [OF s c(1) d Cons.prems(4)]
      have le: "objects_map ctx \<subseteq>\<^sub>m objects_map c" using c(2,3) by (auto simp: map_le_def)
      have w: "objects_map c' w = Some (pool, n)" using IH c(3) by (auto simp: map_le_def dom_def)
      have le': "objects_map ctx \<subseteq>\<^sub>m objects_map c'" using IH map_le_trans [OF le] by blast
      have "length ws = length (n # ns) \<and> distinct ws \<and> set ws \<inter> dom (objects_map ctx) = {} \<and>
          list_all2 (\<lambda>w n. handle_type w = OBJECT_DESCRIPTOR_SET \<and> objects_map c' w = Some (pool, n)) ws (n # ns)"
        if some: "ids = Some ws" for ws
      proof -
        obtain vs where vs: "rest = Some vs" "ws = w # vs" using some r(1) by auto
        have "set vs \<inter> dom (objects_map c) = {}" "length vs = length ns" "distinct vs"
            "list_all2 (\<lambda>w n. handle_type w = OBJECT_DESCRIPTOR_SET \<and> objects_map c' w = Some (pool, n)) vs ns"
          using IH vs(1) by blast+
        moreover have "dom (objects_map c) = insert w (dom (objects_map ctx))" using c(3) by auto
        ultimately show ?thesis using vs(2) c(2,4) w by auto
      qed
      then show ?thesis using IH r(2) ev le' by simp
    qed
  qed simp
  then show "context_inv ctx'" "vx_events ctx' = vx_events ctx" "objects_map ctx \<subseteq>\<^sub>m objects_map ctx'"
    "ids = Some ws \<Longrightarrow> length ws = length ns \<and> distinct ws \<and> set ws \<inter> dom (objects_map ctx) = {} \<and>
       list_all2 (\<lambda>w n. handle_type w = OBJECT_DESCRIPTOR_SET \<and> objects_map ctx' w = Some (pool, n)) ws ns" by auto
qed

lemma allocate_descriptor_sets_keeps [keeps]:
  assumes "context_inv ctx"
  shows "context_inv (snd (allocate_descriptor_sets drv request ctx))"
proof (cases "resolve_device_child ctx (dsa_descriptor_pool_id request) OBJECT_DESCRIPTOR_POOL")
  case (Inr triple)
  then obtain d device n where rs: "resolve_device_child ctx (dsa_descriptor_pool_id request) OBJECT_DESCRIPTOR_POOL = Inr (d, device, n)"
    by (cases triple) auto
  have "context_inv (snd (case vk_call drv (Vk_Call name) (Some device) args ctx of (result, outputs, c) \<Rightarrow>
      if result \<noteq> VK_SUCCESS then (Inr (f result), c)
      else case adopt_sets (dsa_descriptor_pool_id request) (map (out_word outputs) is) c of
        (None, c) \<Rightarrow> (Inr x, c) | (Some ids, c) \<Rightarrow> (Inr (g ids), c)))" for name args "is" f g x
  proof -
    obtain result outputs c where c: "vk_call drv (Vk_Call name) (Some device) args ctx = (result, outputs, c)" by (metis prod_cases3)
    have i: "context_inv c" using call_keeps [OF assms, of "Some device" drv name args] resolved_alive(1) [OF assms rs] c by simp
    obtain ids c' where a: "adopt_sets (dsa_descriptor_pool_id request) (map (out_word outputs) is) c = (ids, c')" by fastforce
    have "dsa_descriptor_pool_id request \<in> dom (objects_map c)" "handle_type (dsa_descriptor_pool_id request) = OBJECT_DESCRIPTOR_POOL"
      using resolved_mapped [OF assms rs] by (auto simp: call_fields [OF c])
    then have "context_inv c'" using adopt_sets_spec(1) [OF a i] by simp
    then show ?thesis using i by (simp add: c a split: option.splits)
  qed
  then show ?thesis using assms by (auto simp: allocate_descriptor_sets_def Let_def rs split: sum.splits)
qed (use assms in \<open>simp add: allocate_descriptor_sets_def Let_def\<close>)

lemma reset_descriptor_pool_keeps [keeps]:
  assumes "context_inv ctx"
  shows "context_inv (snd (reset_descriptor_pool drv request ctx))"
proof -
  note sw = children_swept(1) [OF set_removal, of OBJECT_DESCRIPTOR_SET, simplified]
  have "context_inv (snd (case vk_call drv (Vk_Call name) (Some device) args ctx of (result, outputs, c) \<Rightarrow>
      if result \<noteq> VK_SUCCESS then (Inr result, c)
      else case sweep (child_of OBJECT_DESCRIPTOR_SET w) (remove_object OBJECT_DESCRIPTOR_SET) 4096 0 c of
        (Inl e, c) \<Rightarrow> (Inl e, c) | (Inr u, c) \<Rightarrow> (Inr VK_SUCCESS, c)))"
    if "device \<in># live_objects OBJECT_DEVICE (vx_events ctx)" for name device args w
    using call_keeps [OF assms, of "Some device" drv name args] that sw by (auto split: prod.splits sum.splits)
  then show ?thesis
    using assms resolved_alive(1) [OF assms] by (auto simp: reset_descriptor_pool_def split: sum.splits)
qed

lemma descriptor_keeps [keeps]:
  assumes "context_inv ctx"
  shows "context_inv (snd (create_descriptor_set_layout drv layout_request ctx))"
    "context_inv (snd (destroy_descriptor_set_layout drv w ctx))"
    "context_inv (snd (create_descriptor_update_template drv template_request ctx))"
    "context_inv (snd (destroy_descriptor_update_template drv w ctx))"
    "context_inv (snd (create_descriptor_pool drv pool_request ctx))"
    "context_inv (snd (destroy_descriptor_pool drv w ctx))"
    "context_inv (snd (create_sampler drv sampler_request ctx))" "context_inv (snd (destroy_sampler drv w ctx))"
    "context_inv (snd (create_pipeline_layout drv pipeline_request ctx))" "context_inv (snd (destroy_pipeline_layout drv w ctx))"
    "context_inv (snd (destroy_pipeline drv w ctx))"
proof -
  show "context_inv (snd (create_descriptor_set_layout drv layout_request ctx))" "context_inv (snd (create_descriptor_pool drv pool_request ctx))"
    "context_inv (snd (create_sampler drv sampler_request ctx))"
    using assms by (auto simp: create_descriptor_set_layout_def create_descriptor_pool_def create_sampler_def Let_def device_creates(1)
        split: sum.splits)
  show "context_inv (snd (create_pipeline_layout drv pipeline_request ctx))"
    using assms by (auto simp: create_pipeline_layout_def Let_def device_creates(1) split: sum.splits layouts_outcome.splits)
  show "context_inv (snd (create_descriptor_update_template drv template_request ctx))"
    using assms by (auto simp: create_descriptor_update_template_def Let_def device_creates(3) split: sum.splits)
qed (use destroyer_keeps [OF _ assms] leaf_destroyers destroy_descriptor_update_template_destroyer
       destroy_descriptor_pool_destroyer in blast)+


lemma create_graphics_pipeline_keeps [keeps]:
  "context_inv ctx \<Longrightarrow> context_inv (snd (create_graphics_pipeline drv request ctx))"
  by (auto simp: create_graphics_pipeline_def device_creates(1) split: sum.splits)

end
