(* ===== verification/Vulkan_Resources.thy ===== *)
theory Vulkan_Resources
  imports Vulkan_Descriptors
begin

unbundle bit_operations_syntax

section \<open>Buffers, images and memory\<close>

text \<open>
  src/src/vulkan_global.c: buffers, device memory, images and image views, with the arrays that remember
  what each was created with.
\<close>

definition passes :: "'a result \<Rightarrow> bool" where
  "passes r = (case r of Inl _ \<Rightarrow> False | Inr _ \<Rightarrow> True)"

subsection \<open>Buffers\<close>

abbreviation (input) EXPORT_OPAQUE_FD :: u32 where "EXPORT_OPAQUE_FD \<equiv> 0x80000000"

definition buffer_supported :: "vulkan_buffer_create_request \<Rightarrow> bool" where
  "buffer_supported request \<longleftrightarrow>
     (let usage = bcr_usage request; application_flags = bcr_flags request AND NOT EXPORT_OPAQUE_FD in
      \<not> (bcr_size request = 0 \<or> bcr_size request > BVB_VULKAN_MAX_MEMORY_ALLOCATION_SIZE \<or> application_flags \<noteq> 0 \<or>
         (usage \<noteq> 2 \<and> usage \<noteq> 1 \<and> (usage AND 0x20003 \<noteq> 0x20003 \<or> usage AND NOT 0x219ff \<noteq> 0))))"

definition no_buffer :: buffer_metadata where
  "no_buffer = \<lparr>bm_buffer_id = 0, bm_device_id = 0, bm_bound_memory_id = 0, bm_usage = 0, bm_memory_bound = False\<rparr>"

definition create_buffer ::
  "vk_driver \<Rightarrow> vulkan_buffer_create_request \<Rightarrow> vk_context \<Rightarrow> vulkan_object_create_response result \<times> vk_context" where
  "create_buffer drv request ctx =
     (let export_opaque_fd = bcr_flags request AND EXPORT_OPAQUE_FD \<noteq> 0 in
      if \<not> buffer_supported request then (Inr (refused VK_ERROR_FEATURE_NOT_PRESENT), ctx)
      else case lookup ctx (bcr_device_id request) OBJECT_DEVICE of Inl e \<Rightarrow> (Inl e, ctx) | Inr (_, device) \<Rightarrow>
      create_slotted drv OBJECT_BUFFER device (bcr_device_id request)
        ((if export_opaque_fd then [1] else []) @ [bcr_size request, wide (bcr_usage request)])
        (\<lambda>ctx. buffer_metadata_slot ctx 0)
        (\<lambda>slot wire_id ctx. ctx\<lparr>vx_buffer_metadata := (vx_buffer_metadata ctx)
           [slot := no_buffer\<lparr>bm_buffer_id := wire_id, bm_device_id := bcr_device_id request, bm_usage := bcr_usage request\<rparr>]\<rparr>) ctx)"

definition destroy_buffer :: "vk_driver \<Rightarrow> u64 \<Rightarrow> vk_context \<Rightarrow> unit result \<times> vk_context" where
  "destroy_buffer drv buffer_id ctx =
     (case destroy_child drv OBJECT_BUFFER buffer_id ctx of
       (Inl e, ctx) \<Rightarrow> (Inl e, ctx)
     | (Inr _, ctx) \<Rightarrow>
         (Inr (), case buffer_metadata_slot ctx buffer_id of
            None \<Rightarrow> ctx
          | Some slot \<Rightarrow> if bm_buffer_id (vx_buffer_metadata ctx ! slot) = buffer_id
              then ctx\<lparr>vx_buffer_metadata := (vx_buffer_metadata ctx)[slot := no_buffer]\<rparr> else ctx))"

text \<open>The requirements the driver answers: size, alignment, memory types, and the two dedicated flags.\<close>

definition requirements_ok :: "u64 list \<Rightarrow> bool" where
  "requirements_ok outputs \<longleftrightarrow> out_word outputs 0 \<noteq> 0 \<and> out_word outputs 1 \<noteq> 0 \<and> (ucast (out_word outputs 2) :: u32) \<noteq> 0"

definition get_buffer_requirements ::
  "vk_driver \<Rightarrow> u64 \<Rightarrow> vk_context \<Rightarrow> vulkan_buffer_requirements result \<times> vk_context" where
  "get_buffer_requirements drv buffer_id ctx =
     (case child_call drv OBJECT_BUFFER buffer_id ''vkGetBufferMemoryRequirements'' [] ctx of
       (Inl e, ctx) \<Rightarrow> (Inl e, ctx)
     | (Inr (_, outputs), ctx) \<Rightarrow>
         (if requirements_ok outputs
          then Inr \<lparr>br_size = out_word outputs 0, br_alignment = out_word outputs 1, br_memory_type_bits = ucast (out_word outputs 2)\<rparr>
          else Inl EPROTO, ctx))"

definition dedicated_word :: "bool \<Rightarrow> u64 list \<Rightarrow> nat \<Rightarrow> u32" where
  "dedicated_word dedicated outputs i = (if dedicated then ucast (out_word outputs i) else 0)"

definition get_buffer_requirements_2 ::
  "vk_driver \<Rightarrow> vulkan_buffer_requirements_2_request \<Rightarrow> vk_context \<Rightarrow> vulkan_buffer_requirements_2_response result \<times> vk_context" where
  "get_buffer_requirements_2 drv request ctx =
     (if \<not> passes (encode_vulkan_buffer_requirements_2_request
           (Some (replicate BVB_VULKAN_BUFFER_REQUIREMENTS_2_REQUEST_SIZE 0)) (Some request)) then (Inl EINVAL, ctx)
      else
      let dedicated = br2r_pnext_flags request AND 1 \<noteq> 0 in
      case child_call drv OBJECT_BUFFER (br2r_buffer_id request) ''vkGetBufferMemoryRequirements2''
          (if dedicated then [1] else []) ctx of
       (Inl e, ctx) \<Rightarrow> (Inl e, ctx)
     | (Inr (_, outputs), ctx) \<Rightarrow>
         (let prefers = dedicated_word dedicated outputs 3; requires = dedicated_word dedicated outputs 4 in
          if \<not> requirements_ok outputs \<or> prefers > 1 \<or> requires > 1 then Inl EPROTO
          else Inr \<lparr>bur2r_size = out_word outputs 0, bur2r_alignment = out_word outputs 1,
                 bur2r_memory_type_bits = ucast (out_word outputs 2), bur2r_pnext_flags = br2r_pnext_flags request,
                 bur2r_prefers_dedicated = prefers, bur2r_requires_dedicated = requires\<rparr>, ctx))"

definition get_device_buffer_requirements ::
  "vk_driver \<Rightarrow> vulkan_device_buffer_requirements_request \<Rightarrow> vk_context \<Rightarrow>
   vulkan_device_buffer_requirements_response result \<times> vk_context" where
  "get_device_buffer_requirements drv request ctx =
     (case lookup ctx (dbrr_device_id request) OBJECT_DEVICE of Inl e \<Rightarrow> (Inl e, ctx) | Inr (_, device) \<Rightarrow>
      if \<not> drv_proc drv (Some device) (Vk_Call ''vkGetDeviceBufferMemoryRequirements'') then (Inl ENOSYS, ctx)
      else case vk_call drv (Vk_Call ''vkGetDeviceBufferMemoryRequirements'') (Some device)
          ([wide (dbrr_flags request), dbrr_size request, wide (dbrr_usage request), wide (dbrr_sharing_mode request),
            wide (dbrr_queue_family_index_count request)] @
           map wide (take (unat (dbrr_queue_family_index_count request)) (dbrr_queue_family_indices request))) ctx of
        (_, outputs, ctx) \<Rightarrow>
      let prefers = ucast (out_word outputs 3) :: u32; requires = ucast (out_word outputs 4) :: u32 in
      (if requirements_ok outputs \<and> (prefers = 0 \<or> prefers = 1) \<and> (requires = 0 \<or> requires = 1)
       then Inr \<lparr>dbrs_memory = \<lparr>br_size = out_word outputs 0, br_alignment = out_word outputs 1,
                    br_memory_type_bits = ucast (out_word outputs 2)\<rparr>,
                  dbrs_prefers_dedicated_allocation = if prefers = 1 then 1 else 0,
                  dbrs_requires_dedicated_allocation = if requires = 1 then 1 else 0\<rparr>
       else Inl EPROTO, ctx))"

definition get_buffer_device_address ::
  "vk_driver \<Rightarrow> vulkan_buffer_device_address_request \<Rightarrow> vk_context \<Rightarrow> vulkan_buffer_device_address_response result \<times> vk_context" where
  "get_buffer_device_address drv request ctx =
     (if \<not> passes (encode_vulkan_buffer_device_address_request
           (Some (replicate BVB_VULKAN_BUFFER_DEVICE_ADDRESS_REQUEST_SIZE 0)) (Some request)) then (Inl EINVAL, ctx)
      else case resolve_device_child ctx (bdar_buffer_id request) OBJECT_BUFFER of Inl e \<Rightarrow> (Inl e, ctx)
      | Inr (device_id, device, buffer) \<Rightarrow>
      case buffer_metadata_find ctx (bdar_buffer_id request) of None \<Rightarrow> (Inl EINVAL, ctx) | Some metadata \<Rightarrow>
      if bm_device_id metadata \<noteq> device_id \<or> \<not> bm_memory_bound metadata \<or> bm_usage metadata AND 0x20000 = 0
      then (Inl EINVAL, ctx)
      else if \<not> drv_proc drv (Some device) (Vk_Call ''vkGetBufferDeviceAddress'') then (Inl ENOSYS, ctx)
      else case vk_call drv (Vk_Call ''vkGetBufferDeviceAddress'') (Some device) [buffer] ctx of (_, outputs, ctx) \<Rightarrow>
      (if out_word outputs 0 \<noteq> 0 then Inr \<lparr>budar_device_address = out_word outputs 0\<rparr> else Inl EPROTO, ctx))"

subsection \<open>Device memory\<close>

text \<open>The number of memory types and the properties of each.\<close>

definition get_memory_properties :: "vk_driver \<Rightarrow> u64 \<Rightarrow> vk_context \<Rightarrow> (u32 \<times> u32 list) result \<times> vk_context" where
  "get_memory_properties drv physical_device_id ctx =
     (case resolve_physical_device ctx physical_device_id of Inl e \<Rightarrow> (Inl e, ctx) | Inr (instance_bits, physical_device) \<Rightarrow>
      if \<not> drv_proc drv None (Vk_Call ''vkGetPhysicalDeviceMemoryProperties'') then (Inl ENOSYS, ctx)
      else case vk_call drv (Vk_Call ''vkGetPhysicalDeviceMemoryProperties'') None [physical_device] ctx of (_, outputs, ctx) \<Rightarrow>
      let type_count = ucast (out_word outputs 0) :: u32; heap_count = ucast (out_word outputs 1) :: u32 in
      if type_count > 32 \<or> heap_count > 16 then (Inl EPROTO, ctx)
      else (Inr (type_count, map (\<lambda>i. ucast (out_word outputs (i + 2))) [0..<32]), ctx))"

definition no_memory :: memory_metadata where
  "no_memory = \<lparr>mm_memory_id = 0, mm_allocation_size = 0, mm_property_flags = 0, mm_opaque_fd_exportable = False\<rparr>"

text \<open>The image a dedicated allocation is for, which has to be the device's.\<close>

definition dedicated_image :: "vk_context \<Rightarrow> vulkan_memory_allocate_extended_request \<Rightarrow> u64 \<Rightarrow> u64 list result" where
  "dedicated_image ctx request device =
     (if maer_pnext_flags request AND 1 = 0 then Inr []
      else case resolve_device_child ctx (maer_dedicated_image_id request) OBJECT_IMAGE of Inl e \<Rightarrow> Inl e
      | Inr (image_device_id, image_device, image_bits) \<Rightarrow>
      if image_device_id \<noteq> maer_device_id request \<or> image_device \<noteq> device then Inl EPROTO else Inr [image_bits])"

definition allocate_memory_extended ::
  "vk_driver \<Rightarrow> vulkan_memory_allocate_extended_request \<Rightarrow> vk_context \<Rightarrow> vulkan_object_create_response result \<times> vk_context" where
  "allocate_memory_extended drv request ctx =
     (if \<not> passes (encode_vulkan_memory_allocate_extended_request
           (Some (replicate BVB_VULKAN_MEMORY_ALLOCATE_EXTENDED_REQUEST_SIZE 0)) (Some request))
      then (Inr (refused VK_ERROR_FEATURE_NOT_PRESENT), ctx)
      else case lookup ctx (maer_device_id request) OBJECT_DEVICE of Inl e \<Rightarrow> (Inl e, ctx) | Inr (physical_id, device) \<Rightarrow>
      case get_memory_properties drv physical_id ctx of
        (Inl e, ctx) \<Rightarrow> (Inl e, ctx)
      | (Inr (type_count, types), ctx) \<Rightarrow>
      if maer_memory_type_index request \<ge> type_count then (Inr (refused VK_ERROR_FEATURE_NOT_PRESENT), ctx)
      else case dedicated_image ctx request device of Inl e \<Rightarrow> (Inl e, ctx) | Inr dedicated \<Rightarrow>
      let properties = types ! unat (maer_memory_type_index request); flags = maer_pnext_flags request;
          export_opaque_fd = flags AND 4 \<noteq> 0 \<and> flags AND 1 = 0 \<and> properties AND 6 = 6 in
      create_slotted drv OBJECT_DEVICE_MEMORY device (maer_device_id request)
        ((if export_opaque_fd then [1] else []) @
         (if flags AND 2 \<noteq> 0 then [wide (maer_allocation_flags request), wide (maer_device_mask request)] else []) @ dedicated @
         [maer_allocation_size request, wide (maer_memory_type_index request)])
        (\<lambda>ctx. memory_metadata_slot ctx 0)
        (\<lambda>slot wire_id ctx. ctx\<lparr>vx_memory_metadata := (vx_memory_metadata ctx)
           [slot := \<lparr>mm_memory_id = wire_id, mm_allocation_size = maer_allocation_size request,
                     mm_property_flags = properties, mm_opaque_fd_exportable = export_opaque_fd\<rparr>]\<rparr>) ctx)"

definition allocate_memory ::
  "vk_driver \<Rightarrow> vulkan_memory_allocate_request \<Rightarrow> vk_context \<Rightarrow> vulkan_object_create_response result \<times> vk_context" where
  "allocate_memory drv request ctx =
     allocate_memory_extended drv
       \<lparr>maer_device_id = mar_device_id request, maer_allocation_size = mar_allocation_size request, maer_dedicated_image_id = 0,
        maer_memory_type_index = mar_memory_type_index request, maer_pnext_flags = 0, maer_allocation_flags = 0,
        maer_device_mask = 0\<rparr> ctx"

definition memory_mirror_slot :: "vk_context \<Rightarrow> u64 \<Rightarrow> nat option" where
  "memory_mirror_slot ctx memory_id = slot_scan_nonzero mir_memory_id (vx_memory_mirrors ctx) 0 memory_id None"

definition memory_is_mirrored :: "vk_context \<Rightarrow> u64 \<Rightarrow> bool" where
  "memory_is_mirrored ctx memory_id =
     (case memory_mirror_slot ctx memory_id of None \<Rightarrow> False
      | Some slot \<Rightarrow> mir_memory_id (vx_memory_mirrors ctx ! slot) = memory_id)"

definition free_memory :: "vk_driver \<Rightarrow> u64 \<Rightarrow> vk_context \<Rightarrow> unit result \<times> vk_context" where
  "free_memory drv memory_id ctx =
     (case resolve_device_child ctx memory_id OBJECT_DEVICE_MEMORY of Inl e \<Rightarrow> (Inl e, ctx) | Inr _ \<Rightarrow>
      if memory_is_mirrored ctx memory_id then (Inl EBUSY, ctx)
      else case destroy_child drv OBJECT_DEVICE_MEMORY memory_id ctx of
       (Inl e, ctx) \<Rightarrow> (Inl e, ctx)
     | (Inr _, ctx) \<Rightarrow>
         (Inr (), case memory_metadata_slot ctx memory_id of
            None \<Rightarrow> ctx
          | Some slot \<Rightarrow> if mm_memory_id (vx_memory_metadata ctx ! slot) = memory_id
              then ctx\<lparr>vx_memory_metadata := (vx_memory_metadata ctx)[slot := no_memory]\<rparr> else ctx))"

definition bind_buffer_memory ::
  "vk_driver \<Rightarrow> vulkan_buffer_bind_request \<Rightarrow> vk_context \<Rightarrow> i32 result \<times> vk_context" where
  "bind_buffer_memory drv request ctx =
     (case resolve_device_child ctx (bbr_buffer_id request) OBJECT_BUFFER of Inl e \<Rightarrow> (Inl e, ctx)
      | Inr (buffer_device_id, buffer_device, buffer) \<Rightarrow>
      case resolve_device_child ctx (bbr_memory_id request) OBJECT_DEVICE_MEMORY of Inl e \<Rightarrow> (Inl e, ctx)
      | Inr (memory_device_id, memory_device, memory) \<Rightarrow>
      if buffer_device_id \<noteq> memory_device_id \<or> buffer_device \<noteq> memory_device then (Inl EPROTO, ctx)
      else case buffer_metadata_slot ctx (bbr_buffer_id request) of None \<Rightarrow> (Inl EPROTO, ctx) | Some slot \<Rightarrow>
      if bm_device_id (vx_buffer_metadata ctx ! slot) \<noteq> buffer_device_id then (Inl EPROTO, ctx)
      else if \<not> drv_proc drv (Some buffer_device) (Vk_Call ''vkBindBufferMemory'') then (Inl ENOSYS, ctx)
      else case vk_call drv (Vk_Call ''vkBindBufferMemory'') (Some buffer_device) [buffer, memory, bbr_offset request] ctx of
        (result, _, ctx) \<Rightarrow>
      (Inr result, if result \<noteq> VK_SUCCESS then ctx
       else ctx\<lparr>vx_buffer_metadata := (vx_buffer_metadata ctx)
         [slot := (vx_buffer_metadata ctx ! slot)\<lparr>bm_memory_bound := True, bm_bound_memory_id := bbr_memory_id request\<rparr>]\<rparr>))"

subsection \<open>Images and image views\<close>

definition no_image :: image_metadata where
  "no_image = \<lparr>im_image_id = 0, im_device_id = 0, im_bound_memory_id = 0, im_flags = 0, im_image_type = 0, im_format = 0,
     im_mip_levels = 0, im_array_layers = 0\<rparr>"

definition create_image ::
  "vk_driver \<Rightarrow> vulkan_image_create_request \<Rightarrow> vk_context \<Rightarrow> vulkan_object_create_response result \<times> vk_context" where
  "create_image drv request ctx =
     (let device_id = vulkan_image_create_request.icr_device_id request; flags = vulkan_image_create_request.icr_flags request in
      if \<not> passes (encode_vulkan_image_create_request (Some (replicate BVB_VULKAN_IMAGE_CREATE_REQUEST_SIZE 0)) (Some request))
      then (Inr (refused VK_ERROR_FEATURE_NOT_PRESENT), ctx)
      else case lookup ctx device_id OBJECT_DEVICE of Inl e \<Rightarrow> (Inl e, ctx) | Inr (_, device) \<Rightarrow>
      create_slotted drv OBJECT_IMAGE device device_id
        ((if icr_pnext_flags request AND 1 \<noteq> 0
          then wide (icr_view_format_count request) #
            map wide (take (unat (icr_view_format_count request)) (icr_view_formats request)) else []) @
         (if icr_pnext_flags request AND 2 \<noteq> 0 then [wide (icr_stencil_usage request)] else []) @
         wide flags # map (\<lambda>field. wide (field request)) [icr_image_type, icr_format, icr_extent_width, icr_extent_height,
           icr_extent_depth, icr_mip_levels, icr_array_layers, icr_samples, icr_tiling, icr_usage, icr_sharing_mode,
           icr_queue_family_index_count] @
         map wide (take (unat (icr_queue_family_index_count request)) (icr_queue_family_indices request)) @
         [wide (icr_initial_layout request)])
        (\<lambda>ctx. image_metadata_slot ctx 0)
        (\<lambda>slot wire_id ctx. ctx\<lparr>vx_image_metadata := (vx_image_metadata ctx)
           [slot := \<lparr>im_image_id = wire_id, im_device_id = device_id, im_bound_memory_id = 0, im_flags = flags,
                     im_image_type = icr_image_type request, im_format = icr_format request,
                     im_mip_levels = icr_mip_levels request, im_array_layers = icr_array_layers request\<rparr>]\<rparr>) ctx)"

definition image_has_view :: "vk_context \<Rightarrow> u64 \<Rightarrow> bool" where
  "image_has_view ctx image_id \<longleftrightarrow>
     list_ex (child_of OBJECT_IMAGE_VIEW image_id ctx) (take 4096 (ht_entries (vx_objects ctx)))"

definition destroy_image :: "vk_driver \<Rightarrow> u64 \<Rightarrow> vk_context \<Rightarrow> unit result \<times> vk_context" where
  "destroy_image drv image_id ctx =
     (case resolve_device_child ctx image_id OBJECT_IMAGE of Inl e \<Rightarrow> (Inl e, ctx) | Inr _ \<Rightarrow>
      if image_has_view ctx image_id then (Inl EBUSY, ctx)
      else case destroy_child drv OBJECT_IMAGE image_id ctx of
       (Inl e, ctx) \<Rightarrow> (Inl e, ctx)
     | (Inr _, ctx) \<Rightarrow>
         (Inr (), case image_metadata_slot ctx image_id of
            None \<Rightarrow> ctx
          | Some slot \<Rightarrow> if im_image_id (vx_image_metadata ctx ! slot) = image_id
              then ctx\<lparr>vx_image_metadata := (vx_image_metadata ctx)[slot := no_image]\<rparr> else ctx))"

definition get_image_requirements ::
  "vk_driver \<Rightarrow> u64 \<Rightarrow> vk_context \<Rightarrow> vulkan_image_requirements result \<times> vk_context" where
  "get_image_requirements drv image_id ctx =
     (case child_call drv OBJECT_IMAGE image_id ''vkGetImageMemoryRequirements'' [] ctx of
       (Inl e, ctx) \<Rightarrow> (Inl e, ctx)
     | (Inr (_, outputs), ctx) \<Rightarrow>
         (if requirements_ok outputs
          then Inr \<lparr>ir_size = out_word outputs 0, ir_alignment = out_word outputs 1, ir_memory_type_bits = ucast (out_word outputs 2)\<rparr>
          else Inl EPROTO, ctx))"

definition get_image_requirements_2 ::
  "vk_driver \<Rightarrow> vulkan_image_requirements_2_request \<Rightarrow> vk_context \<Rightarrow> vulkan_image_requirements_2_response result \<times> vk_context" where
  "get_image_requirements_2 drv request ctx =
     (if \<not> passes (encode_vulkan_image_requirements_2_request
           (Some (replicate BVB_VULKAN_IMAGE_REQUIREMENTS_2_REQUEST_SIZE 0)) (Some request)) then (Inl EINVAL, ctx)
      else
      let dedicated = ir2r_pnext_flags request AND 1 \<noteq> 0 in
      case child_call drv OBJECT_IMAGE (ir2r_image_id request) ''vkGetImageMemoryRequirements2''
          (if dedicated then [1] else []) ctx of
       (Inl e, ctx) \<Rightarrow> (Inl e, ctx)
     | (Inr (_, outputs), ctx) \<Rightarrow>
         (let prefers = dedicated_word dedicated outputs 3; requires = dedicated_word dedicated outputs 4 in
          if \<not> requirements_ok outputs \<or> prefers > 1 \<or> requires > 1 then Inl EPROTO
          else Inr \<lparr>imr2r_size = out_word outputs 0, imr2r_alignment = out_word outputs 1,
                 imr2r_memory_type_bits = ucast (out_word outputs 2), imr2r_pnext_flags = ir2r_pnext_flags request,
                 imr2r_prefers_dedicated = prefers, imr2r_requires_dedicated = requires\<rparr>, ctx))"

definition bind_image_memory ::
  "vk_driver \<Rightarrow> vulkan_image_bind_request \<Rightarrow> vk_context \<Rightarrow> i32 result \<times> vk_context" where
  "bind_image_memory drv request ctx =
     (case resolve_device_child ctx (ibr_image_id request) OBJECT_IMAGE of Inl e \<Rightarrow> (Inl e, ctx)
      | Inr (image_device_id, image_device, image_bits) \<Rightarrow>
      case resolve_device_child ctx (ibr_memory_id request) OBJECT_DEVICE_MEMORY of Inl e \<Rightarrow> (Inl e, ctx)
      | Inr (memory_device_id, memory_device, memory) \<Rightarrow>
      if image_device_id \<noteq> memory_device_id \<or> image_device \<noteq> memory_device then (Inl EPROTO, ctx)
      else case image_metadata_slot ctx (ibr_image_id request) of None \<Rightarrow> (Inl EPROTO, ctx) | Some slot \<Rightarrow>
      if im_device_id (vx_image_metadata ctx ! slot) \<noteq> image_device_id then (Inl EPROTO, ctx)
      else if memory_is_mirrored ctx (ibr_memory_id request) then (Inr VK_ERROR_MEMORY_MAP_FAILED, ctx)
      else if \<not> drv_proc drv (Some image_device) (Vk_Call ''vkBindImageMemory'') then (Inl ENOSYS, ctx)
      else case vk_call drv (Vk_Call ''vkBindImageMemory'') (Some image_device) [image_bits, memory, ibr_offset request] ctx of
        (result, _, ctx) \<Rightarrow>
      (Inr result, if result \<noteq> VK_SUCCESS then ctx
       else ctx\<lparr>vx_image_metadata := (vx_image_metadata ctx)
         [slot := (vx_image_metadata ctx ! slot)\<lparr>im_bound_memory_id := ibr_memory_id request\<rparr>]\<rparr>))"

definition image_view_range_supported :: "image_metadata \<Rightarrow> vulkan_image_view_create_request \<Rightarrow> bool" where
  "image_view_range_supported im request =
     (if ivcr_base_mip_level request \<ge> im_mip_levels im \<or>
         (ivcr_level_count request \<noteq> 0xffffffff \<and> ivcr_level_count request > im_mip_levels im - ivcr_base_mip_level request) \<or>
         ivcr_base_array_layer request \<ge> im_array_layers im \<or>
         (ivcr_layer_count request \<noteq> 0xffffffff \<and> ivcr_layer_count request > im_array_layers im - ivcr_base_array_layer request) \<or>
         (ivcr_format request \<noteq> im_format im \<and> im_flags im AND 8 = 0) then False
      else if im_image_type im = 0 then ivcr_view_type request = 0 \<or> ivcr_view_type request = 4
      else if im_image_type im = 1 then
        (if ivcr_view_type request = 1 \<or> ivcr_view_type request = 5 then True
         else if ivcr_view_type request = 3 \<or> ivcr_view_type request = 6 then im_flags im AND 0x10 \<noteq> 0
         else False)
      else ivcr_view_type request = 2 \<or>
        (im_flags im AND 0x20 \<noteq> 0 \<and> (ivcr_view_type request = 1 \<or> ivcr_view_type request = 5)))"

definition create_image_view ::
  "vk_driver \<Rightarrow> vulkan_image_view_create_request \<Rightarrow> vk_context \<Rightarrow> vulkan_object_create_response result \<times> vk_context" where
  "create_image_view drv request ctx =
     (if \<not> passes (encode_vulkan_image_view_create_request
           (Some (replicate BVB_VULKAN_IMAGE_VIEW_CREATE_REQUEST_SIZE 0)) (Some request))
      then (Inr (refused VK_ERROR_FEATURE_NOT_PRESENT), ctx)
      else case resolve_device_child ctx (ivcr_image_id request) OBJECT_IMAGE of Inl e \<Rightarrow> (Inl e, ctx)
      | Inr (image_device_id, device, image_bits) \<Rightarrow>
      if image_device_id \<noteq> ivcr_device_id request then (Inl EPROTO, ctx)
      else case image_metadata_slot ctx (ivcr_image_id request) of
        None \<Rightarrow> (Inr (refused VK_ERROR_FEATURE_NOT_PRESENT), ctx)
      | Some slot \<Rightarrow>
      let im = vx_image_metadata ctx ! slot in
      if im_image_id im \<noteq> ivcr_image_id request \<or> \<not> image_view_range_supported im request
      then (Inr (refused VK_ERROR_FEATURE_NOT_PRESENT), ctx)
      else create_child drv OBJECT_IMAGE_VIEW device (ivcr_image_id request)
        ((if ivcr_pnext_flags request AND 1 \<noteq> 0 then [wide (ivcr_usage request)] else []) @
         [wide (ivcr_flags request), image_bits] @
         map (\<lambda>field. wide (field request)) [ivcr_view_type, ivcr_format, ivcr_component_r, ivcr_component_g, ivcr_component_b,
           ivcr_component_a, ivcr_aspect_mask, ivcr_base_mip_level, ivcr_level_count, ivcr_base_array_layer, ivcr_layer_count]) ctx)"

definition destroy_image_view :: "vk_driver \<Rightarrow> u64 \<Rightarrow> vk_context \<Rightarrow> unit result \<times> vk_context" where
  "destroy_image_view drv image_view_id ctx =
     (case lookup ctx image_view_id OBJECT_IMAGE_VIEW of Inl e \<Rightarrow> (Inl e, ctx) | Inr (image_id, image_view) \<Rightarrow>
      case lookup ctx image_id OBJECT_IMAGE of Inl e \<Rightarrow> (Inl e, ctx) | Inr (device_id, _) \<Rightarrow>
      case lookup ctx device_id OBJECT_DEVICE of Inl e \<Rightarrow> (Inl e, ctx) | Inr (_, device) \<Rightarrow>
      if \<not> drv_proc drv (Some device) (Vk_Destroy OBJECT_IMAGE_VIEW) then (Inl ENOSYS, ctx)
      else case remove_object OBJECT_IMAGE_VIEW image_view_id ctx of
        (Inl e, ctx) \<Rightarrow> (Inl e, ctx)
      | (Inr _, ctx) \<Rightarrow>
          (case vk_call drv (Vk_Destroy OBJECT_IMAGE_VIEW) (Some device) [image_view] ctx of (_, _, ctx) \<Rightarrow> (Inr (), ctx)))"

subsection \<open>The operations keep the invariant\<close>

lemma destroy_buffer_destroyer: "object_destroyer (destroy_buffer drv)"
  by (rule destroyer_then [OF destroy_child_destroyer [where type = OBJECT_BUFFER and drv = drv] _ _ destroy_buffer_def])
    (auto split: option.splits)

lemma get_memory_properties_keeps:
  "context_inv ctx \<Longrightarrow> get_memory_properties drv p ctx = (r, c) \<Longrightarrow>
   context_inv c \<and> vx_objects c = vx_objects ctx"
  by (auto simp: get_memory_properties_def Let_def called call_fields split: sum.splits prod.splits if_splits)

lemma child_call_tail:
  "context_inv ctx \<Longrightarrow> context_inv (snd (case child_call drv type v name args ctx of
      (Inl e, c) \<Rightarrow> (Inl e, c) | (Inr (a, outputs), c) \<Rightarrow> (f a outputs, c)))"
  using child_call_keeps [of ctx drv type v name args] by (auto split: prod.splits sum.splits)

lemma buffer_keeps [keeps]:
  assumes "context_inv ctx"
  shows "context_inv (snd (create_buffer drv create_request ctx))" "context_inv (snd (destroy_buffer drv w ctx))"
    "context_inv (snd (get_buffer_requirements drv w ctx))" "context_inv (snd (get_buffer_requirements_2 drv requirements_request ctx))"
    "context_inv (snd (get_device_buffer_requirements drv device_request ctx))"
    "context_inv (snd (get_buffer_device_address drv address_request ctx))"
    "context_inv (snd (bind_buffer_memory drv bind_request ctx))"
proof -
  show "context_inv (snd (create_buffer drv create_request ctx))"
    using assms by (auto simp: create_buffer_def Let_def device_creates(2) split: sum.splits)
  show "context_inv (snd (destroy_buffer drv w ctx))" by (rule destroyer_keeps [OF destroy_buffer_destroyer assms])
  show "context_inv (snd (get_buffer_requirements drv w ctx))" "context_inv (snd (get_buffer_requirements_2 drv requirements_request ctx))"
    using assms child_call_tail by (auto simp: get_buffer_requirements_def get_buffer_requirements_2_def Let_def)
  show "context_inv (snd (get_device_buffer_requirements drv device_request ctx))"
    using assms by (auto simp: get_device_buffer_requirements_def Let_def call_keeps device_alive split: sum.splits)
  show "context_inv (snd (get_buffer_device_address drv address_request ctx))"
    using assms by (auto simp: get_buffer_device_address_def Let_def call_keeps resolved_alive(1) split: sum.splits option.splits)
  show "context_inv (snd (bind_buffer_memory drv bind_request ctx))"
    using assms resolved_alive(1) [OF assms]
    by (auto simp: bind_buffer_memory_def Let_def called split: sum.splits option.splits prod.splits)
qed

lemma allocate_memory_extended_keeps [keeps]:
  assumes "context_inv ctx"
  shows "context_inv (snd (allocate_memory_extended drv request ctx))"
proof (cases "lookup ctx (maer_device_id request) OBJECT_DEVICE")
  case (Inr pair)
  then obtain p device where look: "lookup ctx (maer_device_id request) OBJECT_DEVICE = Inr (p, device)" by (cases pair) auto
  obtain r c where g: "get_memory_properties drv p ctx = (r, c)" by fastforce
  note k = get_memory_properties_keeps [OF assms g]
  have "lookup c (maer_device_id request) OBJECT_DEVICE = Inr (p, device)" using look k by (simp add: lookup_def)
  then show ?thesis
    using k assms by (auto simp: allocate_memory_extended_def look g Let_def device_creates(2) split: sum.splits)
qed (use assms in \<open>simp add: allocate_memory_extended_def\<close>)

lemma free_memory_destroyer: "object_destroyer (free_memory drv)"
proof (rule guarded_destroyer)
  let ?act = "\<lambda>w ctx. case destroy_child drv OBJECT_DEVICE_MEMORY w ctx of (Inl e, ctx) \<Rightarrow> (Inl e, ctx)
     | (Inr _, ctx) \<Rightarrow>
         (Inr (), case memory_metadata_slot ctx w of
            None \<Rightarrow> ctx
          | Some slot \<Rightarrow> if mm_memory_id (vx_memory_metadata ctx ! slot) = w
              then ctx\<lparr>vx_memory_metadata := (vx_memory_metadata ctx)[slot := no_memory]\<rparr> else ctx)"
  show "object_destroyer ?act"
    by (rule destroyer_then [OF destroy_child_destroyer [where type = OBJECT_DEVICE_MEMORY and drv = drv] _ _ refl])
      (auto split: option.splits)
  show "free_memory drv w ctx = ?act w ctx \<or> (\<exists>e. free_memory drv w ctx = (Inl e, ctx))" for w ctx
    by (simp add: free_memory_def split: sum.split)
qed

lemma only_views: "registered t \<Longrightarrow> parent_type t = OBJECT_IMAGE \<Longrightarrow> t = OBJECT_IMAGE_VIEW"
  by (auto simp: parent_type_def split: if_splits)

lemma no_view_childless:
  assumes "context_inv ctx" "\<not> image_has_view ctx w" "objects_map ctx w \<noteq> None" "handle_type w = OBJECT_IMAGE"
  shows "childless (objects_map ctx) w"
  unfolding childless_def
proof (intro allI impI notI)
  fix u p n
  assume u: "objects_map ctx u = Some (p, n)" "p = w"
  then have v: "handle_type u = OBJECT_IMAGE_VIEW" using only_children [OF assms(1)] only_views assms(3,4) by metis
  obtain s where "s < 4096" "he_wire_id (ht_entries (vx_objects ctx) ! s) = u" "he_parent_id (ht_entries (vx_objects ctx) ! s) = p"
    using swept_entry [OF assms(1) u(1)] .
  moreover have "4096 \<le> length (ht_entries (vx_objects ctx))" using assms(1) by (auto simp: context_inv_def table_inv_def)
  ultimately have "image_has_view ctx w"
    using u(2) v unfolding image_has_view_def list_ex_iff
    by (intro bexI [of _ "ht_entries (vx_objects ctx) ! s"]) (auto simp: child_of_def in_set_conv_nth)
  then show False using assms(2) by simp
qed

lemma destroy_image_destroyer: "object_destroyer (destroy_image drv)"
proof (rule guarded_destroyer)
  let ?bare = "\<lambda>w ctx. if image_has_view ctx w then (Inl EBUSY, ctx) else destroy_child drv OBJECT_IMAGE w ctx"
  let ?act = "\<lambda>w ctx. case ?bare w ctx of (Inl e, ctx) \<Rightarrow> (Inl e, ctx)
     | (Inr _, ctx) \<Rightarrow>
         (Inr (), case image_metadata_slot ctx w of
            None \<Rightarrow> ctx
          | Some slot \<Rightarrow> if im_image_id (vx_image_metadata ctx ! slot) = w
              then ctx\<lparr>vx_image_metadata := (vx_image_metadata ctx)[slot := no_image]\<rparr> else ctx)"
  have "context_inv ctx' \<and> prunes w ctx ctx' \<and> (r = Inr () \<longrightarrow> objects_map ctx' w = None)"
    if "context_inv ctx" "?bare w ctx = (r, ctx')" for w ctx r ctx'
  proof (cases "image_has_view ctx w")
    case False
    then show ?thesis
      using destroy_child_spec [of drv OBJECT_IMAGE w ctx r ctx'] no_view_childless [OF that(1) False] that by auto
  qed (use that in \<open>auto intro: prunes_refl\<close>)
  then have "object_destroyer ?bare" by unfold_locales blast+
  then show "object_destroyer ?act"
    by (rule destroyer_then [OF _ _ _ refl]) (auto split: option.splits)
  show "destroy_image drv w ctx = ?act w ctx \<or> (\<exists>e. destroy_image drv w ctx = (Inl e, ctx))" for w ctx
    by (auto simp: destroy_image_def split: sum.split)
qed

lemma destroy_image_view_cases:
  assumes "context_inv ctx" "destroy_image_view drv w ctx = (r, ctx')"
  shows "context_inv ctx' \<and> prunes w ctx ctx' \<and> (r = Inr () \<longrightarrow> objects_map ctx' w = None)"
proof -
  note t = inv_table [OF assms(1)]
  show ?thesis
  proof (cases "r = Inr ()")
    case False
    then have "ctx' = ctx"
      using assms(2) by (auto simp: destroy_image_view_def remove_object_def split: sum.splits prod.splits if_splits)
    then show ?thesis using assms(1) False by (simp add: prunes_refl)
  next
    case True
    obtain image_id n where view: "lookup ctx w OBJECT_IMAGE_VIEW = Inr (image_id, n)"
      using assms(2) True by (auto simp: destroy_image_view_def split: sum.splits)
    obtain d m where im: "lookup ctx image_id OBJECT_IMAGE = Inr (d, m)"
      using assms(2) True by (auto simp: destroy_image_view_def view split: sum.splits)
    obtain p device where dev: "lookup ctx d OBJECT_DEVICE = Inr (p, device)"
      using assms(2) True by (auto simp: destroy_image_view_def view im split: sum.splits)
    obtain t' n' where rm: "handle_table_remove (Some (vx_objects ctx)) w OBJECT_IMAGE_VIEW = Inr (t', n')"
      using assms(2) True by (auto simp: destroy_image_view_def view im dev remove_object_def split: sum.splits if_splits)
    obtain a b c where c: "vk_call drv (Vk_Destroy OBJECT_IMAGE_VIEW) (Some device) [n] (ctx\<lparr>vx_objects := t'\<rparr>) = (a, b, c)"
      by (metis prod_cases3)
    have "ctx' = c" using assms(2) True by (simp add: destroy_image_view_def view im dev remove_object_def rm c split: if_splits)
    have none: "childless (objects_map ctx) w"
      using leaf_childless [OF assms(1)] lookup_has_type [OF t view] view by (simp add: lookup_iff [OF t])
    have "alive (Some device) ctx" using device_alive [OF assms(1) dev] by simp
    note f = remove_and_destroy [OF assms(1) _ view this none rm c, simplified]
    have "prunes w ctx (ctx\<lparr>vx_objects := t'\<rparr>)" by (rule remove_prunes [OF t rm])
    then have "prunes w ctx c" using f(3,4) by (simp add: prunes_def)
    then show ?thesis using f \<open>ctx' = c\<close> by simp
  qed
qed

lemma destroy_image_view_destroyer: "object_destroyer (destroy_image_view drv)"
  by unfold_locales (use destroy_image_view_cases in blast)+

lemma memory_keeps [keeps]:
  assumes "context_inv ctx"
  shows "context_inv (snd (allocate_memory drv request ctx))" "context_inv (snd (free_memory drv w ctx))"
  by (simp add: allocate_memory_def allocate_memory_extended_keeps [OF assms]) (rule destroyer_keeps [OF free_memory_destroyer assms])

lemma create_image_view_keeps [keeps]:
  assumes "context_inv ctx"
  shows "context_inv (snd (create_image_view drv request ctx))"
proof -
  have "may_own ctx OBJECT_IMAGE_VIEW w device" if "resolve_device_child ctx w OBJECT_IMAGE = Inr (d, device, n)" for w d device n
    using resolved_mapped [OF assms that] resolved_alive(1) [OF assms that] by (auto simp: may_own_def parent_type_def)
  then show ?thesis
    using assms by (auto simp: create_image_view_def Let_def create_child_keeps split: sum.splits option.splits)
qed

lemma image_keeps [keeps]:
  assumes "context_inv ctx"
  shows "context_inv (snd (create_image drv create_request ctx))" "context_inv (snd (destroy_image drv w ctx))"
    "context_inv (snd (get_image_requirements drv w ctx))" "context_inv (snd (get_image_requirements_2 drv requirements_request ctx))"
    "context_inv (snd (bind_image_memory drv bind_request ctx))" "context_inv (snd (destroy_image_view drv w ctx))"
proof -
  show "context_inv (snd (create_image drv create_request ctx))"
    using assms by (auto simp: create_image_def Let_def device_creates(2) split: sum.splits)
  show "context_inv (snd (destroy_image drv w ctx))" by (rule destroyer_keeps [OF destroy_image_destroyer assms])
  show "context_inv (snd (destroy_image_view drv w ctx))" by (rule destroyer_keeps [OF destroy_image_view_destroyer assms])
  show "context_inv (snd (get_image_requirements drv w ctx))" "context_inv (snd (get_image_requirements_2 drv requirements_request ctx))"
    using assms child_call_tail by (auto simp: get_image_requirements_def get_image_requirements_2_def Let_def)
  show "context_inv (snd (bind_image_memory drv bind_request ctx))"
    using assms resolved_alive(1) [OF assms]
    by (auto simp: bind_image_memory_def Let_def called split: sum.splits option.splits prod.splits)
qed

end
