(* ===== verification/Vulkan_Lifetime.thy ===== *)
theory Vulkan_Lifetime
  imports Vulkan_Resources
begin

unbundle bit_operations_syntax

section \<open>Instances, devices and their teardown\<close>

text \<open>
  src/src/vulkan_global.c: creating an instance, its physical devices, a device, and destroying devices
  and instances with everything below them, swapchains included.
\<close>

subsection \<open>Instances\<close>

abbreviation (input) EXPOSED_INSTANCE_EXTENSION_CAPACITY :: u32 where "EXPOSED_INSTANCE_EXTENSION_CAPACITY \<equiv> 3"

text \<open>
  The extension names are not among the arguments of the event, which are numbers. A parent of zero marks
  the instance.
\<close>

definition create_instance ::
  "vk_driver \<Rightarrow> vulkan_instance_create_request \<Rightarrow> string list option \<Rightarrow> vk_context \<Rightarrow>
   vulkan_instance_create_response result \<times> vk_context" where
  "create_instance drv request enabled_extensions ctx =
     (let response = (\<lambda>result wire_id. \<lparr>incr_vulkan_result = result, incr_instance_id = wire_id\<rparr>);
          n = icr_enabled_extension_count request in
      if vulkan_instance_create_request.icr_flags request \<noteq> 0 then (Inr (response VK_ERROR_INITIALIZATION_FAILED 0), ctx)
      else if icr_enabled_layer_count request \<noteq> 0 then (Inr (response VK_ERROR_LAYER_NOT_PRESENT 0), ctx)
      else if n > EXPOSED_INSTANCE_EXTENSION_CAPACITY \<or> (n \<noteq> 0 \<and> enabled_extensions = None)
      then (Inr (response VK_ERROR_EXTENSION_NOT_PRESENT 0), ctx)
      else if \<not> list_all (\<lambda>e. e \<in> set (vx_exposed_extensions ctx))
          (case enabled_extensions of None \<Rightarrow> [] | Some names \<Rightarrow> take (unat n) names)
      then (Inr (response VK_ERROR_EXTENSION_NOT_PRESENT 0), ctx)
      else if ht_count (vx_objects ctx) = ht_capacity (vx_objects ctx) then (Inr (response VK_ERROR_TOO_MANY_OBJECTS 0), ctx)
      else case vk_call drv (Vk_Create OBJECT_INSTANCE) None [wide (icr_api_version request), wide n] ctx of (result, outputs, ctx) \<Rightarrow>
      let native_bits = out_word outputs 0 in
      if result \<noteq> VK_SUCCESS then (Inl EIO, ctx)
      else if \<not> vx_destroy_instance ctx \<and> \<not> drv_proc drv None (Vk_Destroy OBJECT_INSTANCE)
      then (Inr (response VK_ERROR_INITIALIZATION_FAILED 0), ctx)
      else
      let ctx = ctx\<lparr>vx_destroy_instance := True\<rparr> in
      if \<not> vx_get_device_proc_addr ctx \<and> \<not> drv_proc drv None (Vk_Call ''vkGetDeviceProcAddr'') then
        (case vk_call drv (Vk_Destroy OBJECT_INSTANCE) None [native_bits] ctx of (_, _, ctx) \<Rightarrow>
         (Inr (response VK_ERROR_INITIALIZATION_FAILED 0), ctx))
      else
      let ctx = ctx\<lparr>vx_get_device_proc_addr := True\<rparr> in
      case adopt_object OBJECT_INSTANCE 0 native_bits ctx of
        (Inl _, ctx) \<Rightarrow>
          (case vk_call drv (Vk_Destroy OBJECT_INSTANCE) None [native_bits] ctx of (_, _, ctx) \<Rightarrow>
           (Inr (response VK_ERROR_TOO_MANY_OBJECTS 0), ctx))
      | (Inr wire_id, ctx) \<Rightarrow> (Inr (response VK_SUCCESS wire_id), ctx))"

subsection \<open>Physical devices\<close>

abbreviation (input) VK_INCOMPLETE :: i32 where "VK_INCOMPLETE \<equiv> 5"

definition existing_physical_device_id :: "vk_context \<Rightarrow> u64 \<Rightarrow> u64 \<Rightarrow> u64" where
  "existing_physical_device_id ctx instance_id native_bits = existing_id ctx OBJECT_PHYSICAL_DEVICE instance_id native_bits"

text \<open>The loop that registers the devices the driver lists, each once.\<close>

fun adopt_physical_devices :: "u64 \<Rightarrow> u64 list \<Rightarrow> vk_context \<Rightarrow> u64 list result \<times> vk_context" where
  "adopt_physical_devices instance_id [] ctx = (Inr [], ctx)"
| "adopt_physical_devices instance_id (n # ns) ctx =
     (let existing = existing_physical_device_id ctx instance_id n in
      case (if existing \<noteq> 0 then (Inr existing, ctx) else adopt_object OBJECT_PHYSICAL_DEVICE instance_id n ctx) of
        (Inl e, ctx) \<Rightarrow> (Inl e, ctx)
      | (Inr wire_id, ctx) \<Rightarrow>
          (case adopt_physical_devices instance_id ns ctx of (ids, ctx) \<Rightarrow> (map_sum id (\<lambda>rest. wire_id # rest) ids, ctx)))"

definition enumerate_physical_devices ::
  "vk_driver \<Rightarrow> u64 \<Rightarrow> vk_context \<Rightarrow> vulkan_physical_devices result \<times> vk_context" where
  "enumerate_physical_devices drv instance_id ctx =
     (case lookup ctx instance_id OBJECT_INSTANCE of Inl e \<Rightarrow> (Inl e, ctx) | Inr (_, instance_bits) \<Rightarrow>
      if \<not> drv_proc drv None (Vk_Call ''vkEnumeratePhysicalDevices'') then (Inl ENOSYS, ctx)
      else case vk_call drv (Vk_Call ''vkEnumeratePhysicalDevices'') None [instance_bits] ctx of (result, outputs, ctx) \<Rightarrow>
      let count = ucast (out_word outputs 0) :: u32 in
      if result \<noteq> VK_SUCCESS then (Inl EIO, ctx)
      else if count > MAX_PHYSICAL_DEVICES then (Inl EOVERFLOW, ctx)
      else case (if count \<noteq> 0 then vk_call drv (Vk_Call ''vkEnumeratePhysicalDevices'') None [instance_bits, wide count] ctx
                 else (result, outputs, ctx)) of (result, outputs, ctx) \<Rightarrow>
      let returned = if count \<noteq> 0 then ucast (out_word outputs 0) :: u32 else count in
      if count \<noteq> 0 \<and> result \<noteq> VK_SUCCESS \<and> result \<noteq> VK_INCOMPLETE
      then (Inr \<lparr>pd_vulkan_result = result, pd_count = 0, pd_ids = replicate MAX_PHYSICAL_DEVICES 0\<rparr>, ctx)
      else if returned > count then (Inl EPROTO, ctx)
      else case adopt_physical_devices instance_id (map (\<lambda>i. out_word outputs (i + 1)) [0..<unat returned]) ctx of
        (Inl e, ctx) \<Rightarrow> (Inl e, ctx)
      | (Inr ids, ctx) \<Rightarrow>
          (Inr \<lparr>pd_vulkan_result = result, pd_count = returned, pd_ids = fill_to MAX_PHYSICAL_DEVICES 0 ids\<rparr>, ctx))"

text \<open>
  Of the properties of a physical device, the answers are the size of a non-coherent atom and the bytes of
  the name; of its queue families, their number and how many queues each has.
\<close>

definition get_physical_device_properties :: "vk_driver \<Rightarrow> u64 \<Rightarrow> vk_context \<Rightarrow> u64 result \<times> vk_context" where
  "get_physical_device_properties drv physical_device_id ctx =
     (case resolve_physical_device ctx physical_device_id of Inl e \<Rightarrow> (Inl e, ctx) | Inr (instance_bits, physical_device) \<Rightarrow>
      if \<not> drv_proc drv None (Vk_Call ''vkGetPhysicalDeviceProperties'') then (Inl ENOSYS, ctx)
      else case vk_call drv (Vk_Call ''vkGetPhysicalDeviceProperties'') None [physical_device] ctx of (_, outputs, ctx) \<Rightarrow>
      (if \<not> list_ex (\<lambda>i. out_word outputs (i + 1) = 0) [0..<256] then Inl EPROTO else Inr (out_word outputs 0), ctx))"

abbreviation (input) MAX_QUEUE_FAMILIES :: u32 where "MAX_QUEUE_FAMILIES \<equiv> 64"

definition get_queue_family_properties :: "vk_driver \<Rightarrow> u64 \<Rightarrow> vk_context \<Rightarrow> (u32 \<times> u32 list) result \<times> vk_context" where
  "get_queue_family_properties drv physical_device_id ctx =
     (case resolve_physical_device ctx physical_device_id of Inl e \<Rightarrow> (Inl e, ctx) | Inr (instance_bits, physical_device) \<Rightarrow>
      if \<not> drv_proc drv None (Vk_Call ''vkGetPhysicalDeviceQueueFamilyProperties'') then (Inl ENOSYS, ctx)
      else case vk_call drv (Vk_Call ''vkGetPhysicalDeviceQueueFamilyProperties'') None [physical_device] ctx of (_, outputs, ctx) \<Rightarrow>
      let available = ucast (out_word outputs 0) :: u32 in
      if available > MAX_QUEUE_FAMILIES then (Inl EOVERFLOW, ctx)
      else if available = 0 then (Inr (0, replicate 64 0), ctx)
      else case vk_call drv (Vk_Call ''vkGetPhysicalDeviceQueueFamilyProperties'') None [physical_device, wide available] ctx of
        (_, outputs, ctx) \<Rightarrow>
      let returned = ucast (out_word outputs 0) :: u32 in
      if returned > available then (Inl EPROTO, ctx)
      else (Inr (returned, map (\<lambda>i. ucast (out_word outputs (i + 1))) [0..<64]), ctx))"

subsection \<open>Creating a device\<close>

text \<open>A priority between 0 and 1, from the bits of the float: minus zero is one too, not-a-number is not.\<close>

definition priority_ok :: "u32 \<Rightarrow> bool" where
  "priority_ok bits \<longleftrightarrow> bits \<le> 0x3f800000 \<or> bits = 0x80000000"

text \<open>The queue infos of a request, each for a family of its own that has enough queues.\<close>

fun queue_infos_supported ::
  "u32 \<Rightarrow> u32 list \<Rightarrow> u32 \<Rightarrow> u32 list \<Rightarrow> vulkan_device_queue_create_info list \<Rightarrow> bool" where
  "queue_infos_supported family_count queue_counts priority_count prior [] = True"
| "queue_infos_supported family_count queue_counts priority_count prior (info # infos) =
     (\<not> (qci_flags info \<noteq> 0 \<or> qci_queue_count info = 0 \<or> qci_queue_family_index info \<ge> family_count \<or>
         queue_counts ! unat (qci_queue_family_index info) < qci_queue_count info \<or>
         qci_first_priority info \<ge> priority_count \<or>
         qci_queue_count info > priority_count - qci_first_priority info) \<and>
      qci_queue_family_index info \<notin> set prior \<and>
      queue_infos_supported family_count queue_counts priority_count (prior @ [qci_queue_family_index info]) infos)"

text \<open>The chain of feature structures: those the request names, with the features of each.\<close>

definition feature_chain :: "u32 \<Rightarrow> vulkan_core_features \<Rightarrow> u64 list" where
  "feature_chain structs features = concat (map (\<lambda>(flag, fields). if structs AND flag = 0 then [] else wide flag # map (\<lambda>field. wide (field features)) fields)
     [(FEATURE_VULKAN_11, [cf_shader_draw_parameters]),
      (FEATURE_VULKAN_12, [cf_sampler_mirror_clamp_to_edge, cf_descriptor_indexing, cf_descriptor_binding_sampled_image_update_after_bind,
         cf_descriptor_binding_update_unused_while_pending, cf_descriptor_binding_partially_bound, cf_runtime_descriptor_array,
         cf_scalar_block_layout, cf_uniform_buffer_standard_layout, cf_host_query_reset, cf_timeline_semaphore,
         cf_buffer_device_address, cf_vulkan_memory_model]),
      (FEATURE_VULKAN_13, [cf_shader_demote_to_helper_invocation, cf_subgroup_size_control, cf_compute_full_subgroups,
         cf_synchronization2, cf_shader_zero_initialize_workgroup_memory, cf_dynamic_rendering, cf_maintenance4]),
      (FEATURE_DEPTH_CLIP_ENABLE, [cf_depth_clip_enable]),
      (FEATURE_ROBUSTNESS_2, [cf_robust_buffer_access2, cf_null_descriptor]),
      (FEATURE_MAINTENANCE_5, [cf_maintenance5]),
      (FEATURE_MAINTENANCE_6, [cf_maintenance6])])"

text \<open>The request is checked, the driver creates the device, and it is registered; or it is destroyed again.\<close>

definition device_request_ok :: "vulkan_device_create_packed_request \<Rightarrow> string list option \<Rightarrow> bool" where
  "device_request_ok request enabled_extensions \<longleftrightarrow>
     \<not> (dcp_flags request \<noteq> 0 \<or> dcp_queue_create_info_count request = 0 \<or>
        dcp_queue_create_info_count request > MAX_DEVICE_QUEUE_CREATE_INFOS \<or> dcp_queue_priority_count request = 0 \<or>
        dcp_queue_priority_count request > MAX_DEVICE_QUEUE_PRIORITIES \<or> dcp_enabled_layer_count request \<noteq> 0 \<or>
        (dcp_enabled_extension_count request \<noteq> 0 \<and> enabled_extensions = None) \<or>
        dcp_enabled_extension_count request > MAX_DEVICE_CREATE_EXTENSIONS \<or>
        dcp_enabled_feature_structs request AND NOT FEATURE_STRUCT_MASK \<noteq> 0) \<and>
     list_all priority_ok (take (unat (dcp_queue_priority_count request)) (dcp_queue_priority_bits request))"

definition register_device ::
  "vk_driver \<Rightarrow> vulkan_device_create_packed_request \<Rightarrow> u64 \<Rightarrow> u64 \<Rightarrow> vk_context \<Rightarrow>
   vulkan_device_create_response result \<times> vk_context" where
  "register_device drv request atom_size device ctx =
     (let response = (\<lambda>result wire_id. \<lparr>decr_vulkan_result = result, decr_device_id = wire_id\<rparr>) in
      if \<not> drv_proc drv (Some device) (Vk_Destroy OBJECT_DEVICE) then (Inr (response VK_ERROR_INITIALIZATION_FAILED 0), ctx)
      else
      let destroyed = (\<lambda>ctx. case vk_call drv (Vk_Destroy OBJECT_DEVICE) (Some device) [device] ctx of (_, _, ctx) \<Rightarrow>
             (Inr (response VK_ERROR_TOO_MANY_OBJECTS 0), ctx)) in
      case device_metadata_slot ctx 0 of
        None \<Rightarrow> destroyed (ctx\<lparr>vx_next_serial := (vx_next_serial ctx)(OBJECT_DEVICE := vx_next_serial ctx OBJECT_DEVICE + 1)\<rparr>)
      | Some slot \<Rightarrow>
          (case adopt_object OBJECT_DEVICE (dcp_physical_device_id request) device ctx of
            (Inl _, ctx) \<Rightarrow> destroyed ctx
          | (Inr wire_id, ctx) \<Rightarrow>
              (Inr (response VK_SUCCESS wire_id), ctx\<lparr>vx_device_metadata := (vx_device_metadata ctx)
                 [slot := \<lparr>dm_device_id = wire_id, dm_non_coherent_atom_size = atom_size,
                   dm_queue_create_info_count = dcp_queue_create_info_count request,
                   dm_queue_create_infos = fill_to MAX_DEVICE_QUEUE_CREATE_INFOS no_queue_info
                     (take (unat (dcp_queue_create_info_count request)) (dcp_queue_create_infos request))\<rparr>]\<rparr>)))"

definition create_device_packed ::
  "vk_driver \<Rightarrow> vulkan_device_create_packed_request \<Rightarrow> string list option \<Rightarrow> vk_context \<Rightarrow>
   vulkan_device_create_response result \<times> vk_context" where
  "create_device_packed drv request enabled_extensions ctx =
     (let response = (\<lambda>result. \<lparr>decr_vulkan_result = result, decr_device_id = 0\<rparr>);
          infos = take (unat (dcp_queue_create_info_count request)) (dcp_queue_create_infos request);
          priorities = take (unat (dcp_queue_priority_count request)) (dcp_queue_priority_bits request);
          physical_id = dcp_physical_device_id request in
      if \<not> device_request_ok request enabled_extensions then (Inr (response VK_ERROR_INITIALIZATION_FAILED), ctx)
      else if ht_count (vx_objects ctx) = ht_capacity (vx_objects ctx) then (Inr (response VK_ERROR_TOO_MANY_OBJECTS), ctx)
      else case resolve_physical_device ctx physical_id of Inl e \<Rightarrow> (Inl e, ctx) | Inr (instance_bits, physical_device) \<Rightarrow>
      case get_physical_device_properties drv physical_id ctx of (Inl e, ctx) \<Rightarrow> (Inl e, ctx) | (Inr atom_size, ctx) \<Rightarrow>
      if atom_size = 0 then (Inl EPROTO, ctx)
      else case get_queue_family_properties drv physical_id ctx of (Inl e, ctx) \<Rightarrow> (Inl e, ctx)
      | (Inr (family_count, queue_counts), ctx) \<Rightarrow>
      if \<not> queue_infos_supported family_count queue_counts (dcp_queue_priority_count request) [] infos
      then (Inr (response VK_ERROR_INITIALIZATION_FAILED), ctx)
      else if \<not> drv_proc drv None (Vk_Create OBJECT_DEVICE) then (Inl ENOSYS, ctx)
      else case vk_call drv (Vk_Create OBJECT_DEVICE) None
          (physical_device # feature_chain (dcp_enabled_feature_structs request) (dcp_enabled_features request) @
           [wide (dcp_queue_create_info_count request)] @
           concat (map (\<lambda>info. [wide (qci_flags info), wide (qci_queue_family_index info), wide (qci_queue_count info)] @
             map wide (take (unat (qci_queue_count info)) (drop (unat (qci_first_priority info)) priorities))) infos) @
           [wide (dcp_enabled_extension_count request)] @
           (if dcp_enabled_feature_structs request AND FEATURE_BASE = 0 then [] else map wide (dcp_enabled_base_features request))) ctx of
        (result, outputs, ctx) \<Rightarrow>
      if result \<noteq> VK_SUCCESS then (Inr (response result), ctx)
      else register_device drv request atom_size (out_word outputs 0) ctx)"

definition create_device ::
  "vk_driver \<Rightarrow> vulkan_device_create_request \<Rightarrow> string list option \<Rightarrow> vk_context \<Rightarrow>
   vulkan_device_create_response result \<times> vk_context" where
  "create_device drv request enabled_extensions ctx =
     create_device_packed drv
       \<lparr>dcp_physical_device_id = dcr_physical_device_id request, dcp_flags = dcr_flags request, dcp_queue_create_info_count = 1,
        dcp_queue_priority_count = 1, dcp_enabled_layer_count = dcr_enabled_layer_count request,
        dcp_enabled_extension_count = dcr_enabled_extension_count request, dcp_enabled_feature_structs = 0,
        dcp_enabled_features = no_core_features, dcp_enabled_base_features = replicate BASE_FEATURES 0,
        dcp_queue_create_infos = fill_to MAX_DEVICE_QUEUE_CREATE_INFOS no_queue_info
          [\<lparr>qci_flags = 0, qci_queue_family_index = dcr_queue_family_index request, qci_queue_count = dcr_queue_count request,
            qci_first_priority = 0\<rparr>],
        dcp_queue_priority_bits = fill_to MAX_DEVICE_QUEUE_PRIORITIES 0 [dcr_queue_priority_bits request],
        dcp_enabled_extensions = []\<rparr> enabled_extensions ctx"

subsection \<open>Destroying swapchains\<close>

text \<open>
  The first failure is the status. The pages of hardware buffers, which only Android builds have, are left
  out. \<open>index\<close> is the position of the swapchain in the context.
\<close>

definition first_failure :: "int \<Rightarrow> int \<Rightarrow> int" where
  "first_failure status failure = (if failure \<noteq> 0 \<and> status = 0 then failure else status)"

definition system_status :: "syscall \<Rightarrow> int" where
  "system_status result = (case result of None \<Rightarrow> 0 | Some e \<Rightarrow> - e)"

abbreviation (input) MAP_FAILED :: nat where "MAP_FAILED \<equiv> 0xffffffffffffffff"

definition no_swapchain :: swapchain_metadata where
  "no_swapchain = \<lparr>sc_swapchain_id = 0, sc_device_id = 0, sc_device = 0, sc_image_count = 0, sc_image_ids = replicate 4 0,
     sc_images = replicate 4 0, sc_memories = replicate 4 0, sc_producer_command_pool = 0, sc_present_completion = 0,
     sc_control_fd = - 1, sc_control = 0\<rparr>"

text \<open>The driver destroys an object when there is one and it has the function.\<close>

definition destroy_if :: "vk_driver \<Rightarrow> object_type \<Rightarrow> bool \<Rightarrow> u64 \<Rightarrow> u64 \<Rightarrow> vk_context \<Rightarrow> vk_context" where
  "destroy_if drv type available device native_bits ctx =
     (if native_bits \<noteq> 0 \<and> available then snd (snd (vk_call drv (Vk_Destroy type) (Some device) [native_bits] ctx)) else ctx)"

fun release_swapchain_images ::
  "vk_driver \<Rightarrow> bool \<Rightarrow> swapchain_metadata \<Rightarrow> nat list \<Rightarrow> int \<Rightarrow> vk_context \<Rightarrow> int \<times> vk_context" where
  "release_swapchain_images drv usable metadata [] status ctx = (status, ctx)"
| "release_swapchain_images drv usable metadata (i # is) status ctx =
     (let image_id = sc_image_ids metadata ! i; device = sc_device metadata;
          (status, ctx) =
            (if image_id = 0 then (status, ctx)
             else
             let ctx = (case image_metadata_slot ctx image_id of
                   None \<Rightarrow> ctx
                 | Some slot \<Rightarrow> if im_image_id (vx_image_metadata ctx ! slot) = image_id
                     then ctx\<lparr>vx_image_metadata := (vx_image_metadata ctx)[slot := no_image]\<rparr> else ctx) in
             case remove_object OBJECT_IMAGE image_id ctx of
               (Inl e, ctx) \<Rightarrow> (first_failure status (neg e), ctx) | (Inr _, ctx) \<Rightarrow> (status, ctx));
          ctx = destroy_if drv OBJECT_IMAGE (usable \<and> drv_proc drv (Some device) (Vk_Destroy OBJECT_IMAGE)) device
                  (sc_images metadata ! i) ctx;
          ctx = destroy_if drv OBJECT_DEVICE_MEMORY (usable \<and> drv_proc drv (Some device) (Vk_Destroy OBJECT_DEVICE_MEMORY)) device
                  (sc_memories metadata ! i) ctx in
      release_swapchain_images drv usable metadata is status ctx)"

definition destroy_swapchain_metadata :: "vk_driver \<Rightarrow> nat \<Rightarrow> vk_context \<Rightarrow> int \<times> vk_context" where
  "destroy_swapchain_metadata drv index ctx =
     (let metadata = vx_swapchain_metadata ctx ! index; device = sc_device metadata; control = sc_control metadata;
          usable = (device \<noteq> 0 \<and> vx_get_device_proc_addr ctx);
          mapped = (control \<noteq> 0 \<and> control \<noteq> MAP_FAILED);
          (status, ctx) =
            (if mapped then
               case wsi_frame_ring_fail_producer control (drv_system drv (vx_events ctx) ''wake producer'' control)
                   (drv_system drv (vx_events ctx) ''wake consumer'' control) (vx_control_pages ctx control) (- 32) of
                 (failed, ring) \<Rightarrow> (first_failure 0 failed, ctx\<lparr>vx_control_pages := (vx_control_pages ctx)(control := ring)\<rparr>)
             else (0, ctx));
          (status, ctx) =
            (if usable \<and> drv_proc drv (Some device) (Vk_Call ''vkDeviceWaitIdle'') then
               case vk_call drv (Vk_Call ''vkDeviceWaitIdle'') (Some device) [] ctx of (waited, _, ctx) \<Rightarrow>
               (if waited \<noteq> VK_SUCCESS then first_failure status (neg EIO) else status, ctx)
             else (status, ctx));
          ctx = destroy_if drv OBJECT_FENCE (usable \<and> drv_proc drv (Some device) (Vk_Destroy OBJECT_FENCE)) device
                  (sc_present_completion metadata) ctx;
          ctx = destroy_if drv OBJECT_COMMAND_POOL (usable \<and> drv_proc drv (Some device) (Vk_Destroy OBJECT_COMMAND_POOL)) device
                  (sc_producer_command_pool metadata) ctx;
          (status, ctx) = release_swapchain_images drv usable metadata [0..<unat (sc_image_count metadata)] status ctx;
          (status, ctx) =
            (if sc_swapchain_id metadata = 0 then (status, ctx)
             else case remove_object OBJECT_SWAPCHAIN (sc_swapchain_id metadata) ctx of
               (Inl e, ctx) \<Rightarrow> (first_failure status (neg e), ctx) | (Inr _, ctx) \<Rightarrow> (status, ctx));
          status = (if mapped then first_failure status (system_status (drv_system drv (vx_events ctx) ''munmap'' control)) else status);
          status = (if sc_control_fd metadata \<ge> 0
            then first_failure status (system_status (drv_system drv (vx_events ctx) ''close'' (nat (sc_control_fd metadata)))) else status) in
      (status, ctx\<lparr>vx_swapchain_metadata := (vx_swapchain_metadata ctx)[index := no_swapchain]\<rparr>))"

definition swapchain_metadata_slot :: "vk_context \<Rightarrow> u64 \<Rightarrow> nat option" where
  "swapchain_metadata_slot ctx swapchain_id = slot_scan_nonzero sc_swapchain_id (vx_swapchain_metadata ctx) 0 swapchain_id None"

definition destroy_swapchain :: "vk_driver \<Rightarrow> u64 \<Rightarrow> vk_context \<Rightarrow> int \<times> vk_context" where
  "destroy_swapchain drv swapchain_id ctx =
     (if handle_expect swapchain_id OBJECT_SWAPCHAIN \<noteq> Inr () then (neg EINVAL, ctx)
      else case swapchain_metadata_slot ctx swapchain_id of None \<Rightarrow> (neg ENOENT, ctx) | Some slot \<Rightarrow>
      if sc_swapchain_id (vx_swapchain_metadata ctx ! slot) \<noteq> swapchain_id then (neg ENOENT, ctx)
      else destroy_swapchain_metadata drv slot ctx)"

subsection \<open>Destroying devices and instances\<close>

fun destroy_swapchains :: "vk_driver \<Rightarrow> u64 \<Rightarrow> nat list \<Rightarrow> vk_context \<Rightarrow> int \<times> vk_context" where
  "destroy_swapchains drv device_id [] ctx = (0, ctx)"
| "destroy_swapchains drv device_id (i # is) ctx =
     (let swapchain = vx_swapchain_metadata ctx ! i in
      if sc_swapchain_id swapchain \<noteq> 0 \<and> sc_device_id swapchain = device_id then
        (case destroy_swapchain_metadata drv i ctx of (status, ctx) \<Rightarrow>
         if status \<noteq> 0 then (status, ctx) else destroy_swapchains drv device_id is ctx)
      else destroy_swapchains drv device_id is ctx)"

text \<open>One pass over the table after the other, until one fails.\<close>

fun sweeps ::
  "((vk_context \<Rightarrow> handle_entry \<Rightarrow> bool) \<times> (u64 \<Rightarrow> vk_context \<Rightarrow> unit result \<times> vk_context)) list \<Rightarrow>
   vk_context \<Rightarrow> unit result \<times> vk_context" where
  "sweeps [] ctx = (Inr (), ctx)"
| "sweeps ((wanted, act) # rest) ctx =
     (case sweep wanted act 4096 0 ctx of (Inl e, ctx) \<Rightarrow> (Inl e, ctx) | (Inr _, ctx) \<Rightarrow> sweeps rest ctx)"

text \<open>A view belongs to the device of its image.\<close>

definition view_of :: "u64 \<Rightarrow> vk_context \<Rightarrow> handle_entry \<Rightarrow> bool" where
  "view_of device_id ctx entry \<longleftrightarrow> handle_type (he_wire_id entry) = OBJECT_IMAGE_VIEW \<and>
     (case lookup ctx (he_parent_id entry) OBJECT_IMAGE of Inl _ \<Rightarrow> False | Inr (image_device_id, _) \<Rightarrow> image_device_id = device_id)"

definition teardown_before_images ::
  "vk_driver \<Rightarrow> u64 \<Rightarrow> ((vk_context \<Rightarrow> handle_entry \<Rightarrow> bool) \<times> (u64 \<Rightarrow> vk_context \<Rightarrow> unit result \<times> vk_context)) list" where
  "teardown_before_images drv device_id =
     [(child_of OBJECT_PIPELINE device_id, destroy_pipeline drv),
      (child_of OBJECT_PIPELINE_LAYOUT device_id, destroy_pipeline_layout drv),
      (child_of OBJECT_QUERY_POOL device_id, destroy_query_pool drv),
      (child_of OBJECT_DESCRIPTOR_POOL device_id, destroy_descriptor_pool drv),
      (child_of OBJECT_SAMPLER device_id, destroy_sampler drv),
      (child_of OBJECT_UPDATE_TEMPLATE device_id, destroy_descriptor_update_template drv),
      (child_of OBJECT_SET_LAYOUT device_id, destroy_descriptor_set_layout drv),
      (child_of OBJECT_COMMAND_POOL device_id, destroy_command_pool drv),
      (view_of device_id, destroy_image_view drv)]"

definition teardown_after_images ::
  "vk_driver \<Rightarrow> u64 \<Rightarrow> ((vk_context \<Rightarrow> handle_entry \<Rightarrow> bool) \<times> (u64 \<Rightarrow> vk_context \<Rightarrow> unit result \<times> vk_context)) list" where
  "teardown_after_images drv device_id =
     [(child_of OBJECT_BUFFER device_id, destroy_buffer drv),
      (child_of OBJECT_DEVICE_MEMORY device_id, free_memory drv),
      (child_of OBJECT_FENCE device_id, destroy_fence drv),
      (child_of OBJECT_SEMAPHORE device_id, destroy_semaphore drv),
      (child_of OBJECT_QUEUE device_id, remove_object OBJECT_QUEUE)]"

definition teardown_order ::
  "vk_driver \<Rightarrow> u64 \<Rightarrow> ((vk_context \<Rightarrow> handle_entry \<Rightarrow> bool) \<times> (u64 \<Rightarrow> vk_context \<Rightarrow> unit result \<times> vk_context)) list" where
  "teardown_order drv device_id =
     teardown_before_images drv device_id @ [(child_of OBJECT_IMAGE device_id, destroy_image drv)] @
     teardown_after_images drv device_id"

definition no_device :: device_metadata where
  "no_device = \<lparr>dm_device_id = 0, dm_non_coherent_atom_size = 0, dm_queue_create_info_count = 0,
     dm_queue_create_infos = replicate MAX_DEVICE_QUEUE_CREATE_INFOS no_queue_info\<rparr>"

definition clear_device :: "u64 \<Rightarrow> vk_context \<Rightarrow> vk_context" where
  "clear_device w c = (case device_metadata_slot c w of None \<Rightarrow> c
     | Some slot \<Rightarrow> if dm_device_id (vx_device_metadata c ! slot) = w
         then c\<lparr>vx_device_metadata := (vx_device_metadata c)[slot := no_device]\<rparr> else c)"

text \<open>A status of a swapchain's teardown may come from the system: the left side is any negative status.\<close>

definition destroy_device :: "vk_driver \<Rightarrow> u64 \<Rightarrow> vk_context \<Rightarrow> (int + unit) \<times> vk_context" where
  "destroy_device drv device_id ctx =
     (if \<not> vx_get_device_proc_addr ctx then (Inl (neg EINVAL), ctx)
      else case lookup ctx device_id OBJECT_DEVICE of Inl e \<Rightarrow> (Inl (neg e), ctx) | Inr (_, device) \<Rightarrow>
      if \<not> drv_proc drv (Some device) (Vk_Destroy OBJECT_DEVICE) then (Inl (neg ENOSYS), ctx)
      else if list_ex (\<lambda>m. mir_memory_id m \<noteq> 0 \<and> mir_device_id m = device_id) (vx_memory_mirrors ctx) then (Inl (neg EBUSY), ctx)
      else case destroy_swapchains drv device_id [0..<length (vx_swapchain_metadata ctx)] ctx of (status, ctx) \<Rightarrow>
      if status \<noteq> 0 then (Inl status, ctx)
      else case sweeps (teardown_order drv device_id) ctx of
        (Inl e, ctx) \<Rightarrow> (Inl (neg e), ctx)
      | (Inr _, ctx) \<Rightarrow>
          (case remove_object OBJECT_DEVICE device_id ctx of
            (Inl e, ctx) \<Rightarrow> (Inl (neg e), ctx)
          | (Inr _, ctx) \<Rightarrow>
              (case vk_call drv (Vk_Destroy OBJECT_DEVICE) (Some device) [device] (clear_device device_id ctx) of (_, _, ctx) \<Rightarrow>
               (Inr (), ctx))))"

definition device_of :: "u64 \<Rightarrow> vk_context \<Rightarrow> handle_entry \<Rightarrow> bool" where
  "device_of instance_id ctx entry \<longleftrightarrow> handle_type (he_wire_id entry) = OBJECT_DEVICE \<and>
     (case lookup ctx (he_parent_id entry) OBJECT_PHYSICAL_DEVICE of Inl _ \<Rightarrow> False
      | Inr (physical_parent, _) \<Rightarrow> physical_parent = instance_id)"

definition destroy_instance :: "vk_driver \<Rightarrow> u64 \<Rightarrow> vk_context \<Rightarrow> (int + unit) \<times> vk_context" where
  "destroy_instance drv instance_id ctx =
     (if \<not> vx_destroy_instance ctx then (Inl (neg EINVAL), ctx)
      else case lookup ctx instance_id OBJECT_INSTANCE of Inl e \<Rightarrow> (Inl (neg e), ctx) | Inr (_, native_bits) \<Rightarrow>
      case sweep (device_of instance_id) (destroy_device drv) 4096 0 ctx of
        (Inl status, ctx) \<Rightarrow> (Inl status, ctx)
      | (Inr _, ctx) \<Rightarrow>
      case sweep (child_of OBJECT_PHYSICAL_DEVICE instance_id) (remove_object OBJECT_PHYSICAL_DEVICE) 4096 0 ctx of
        (Inl e, ctx) \<Rightarrow> (Inl (neg e), ctx)
      | (Inr _, ctx) \<Rightarrow>
      case remove_object OBJECT_INSTANCE instance_id ctx of
        (Inl e, ctx) \<Rightarrow> (Inl (neg e), ctx)
      | (Inr _, ctx) \<Rightarrow>
          (case vk_call drv (Vk_Destroy OBJECT_INSTANCE) None [native_bits] ctx of (_, _, ctx) \<Rightarrow> (Inr (), ctx)))"

end
