(* ===== verification/Vulkan_Teardown.thy ===== *)
theory Vulkan_Teardown
  imports Vulkan_Lifetime
begin

section \<open>The teardown of devices and instances\<close>

text \<open>
  Destroying a device or an instance removes the object and everything below it from the table and from the
  driver, and nothing else; it succeeds when the driver has the functions and no memory is mirrored.
\<close>

subsection \<open>What a teardown leaves\<close>

lemma below_present:
  assumes "parents_ok m'" "m' \<subseteq>\<^sub>m m" "below m root w" "w \<in> dom m'"
  shows "root \<in> dom m' \<or> root = 0 \<or> m 0 \<noteq> None"
  using assms(3,4) unfolding below_def
proof (induction rule: converse_rtranclp_induct)
  case (step y z)
  obtain n where m: "m y = Some (z, n)" using step(1) by (auto simp: parent_step_def)
  have m': "m' y = Some (z, n)" using assms(2) step(4) m by (auto simp: map_le_def dom_def)
  show ?case
  proof (cases "handle_type y = OBJECT_INSTANCE")
    case True
    then have z: "z = 0" using assms(1) m' unfolding parents_ok_def by (metis (no_types))
    show ?thesis
    proof (cases "root = 0")
      case False
      then show ?thesis using step(2) z by (metis converse_rtranclpE option.distinct(1) parent_step_def)
    qed simp
  next
    case False
    then have "z \<in> dom m'" using assms(1) m' unfolding parents_ok_def by (metis (no_types))
    then show ?thesis by (rule step(3))
  qed
qed simp

text \<open>A destroyer that succeeds removes the object and what is below it, and nothing else.\<close>

lemma destroyer_exact:
  assumes "object_destroyer act" "context_inv ctx" "act w ctx = (Inr (), ctx')" "objects_map ctx w \<noteq> None"
  shows "objects_map ctx' = objects_map ctx |` {u. \<not> below (objects_map ctx) w u}"
proof
  fix u
  note i = object_destroyer.act_inv [OF assms(1-3)] and p = object_destroyer.act_prunes [OF assms(1-3)]
    and gone = object_destroyer.act_removes [OF assms(1-3)]
  have z: "objects_map ctx 0 = None" using mapped_nonzero [OF inv_table [OF assms(2)], of 0] by (cases "objects_map ctx 0") auto
  have le: "objects_map ctx' \<subseteq>\<^sub>m objects_map ctx" using p by (simp add: prunes_def)
  show "objects_map ctx' u = (objects_map ctx |` {u. \<not> below (objects_map ctx) w u}) u"
  proof (cases "below (objects_map ctx) w u")
    case True
    have "w \<noteq> 0" using assms(4) z by auto
    then have "u \<notin> dom (objects_map ctx')"
      using below_present [OF _ le True] i gone z by (auto simp: context_inv_def)
    then show ?thesis using True by auto
  next
    case False
    then have "u \<in> dom (objects_map ctx) \<Longrightarrow> u \<in> dom (objects_map ctx')" using p by (auto simp: prunes_def)
    then show ?thesis using False le by (cases "objects_map ctx u"; cases "objects_map ctx' u") (auto simp: map_le_def dom_def)
  qed
qed

subsection \<open>Passes one after the other\<close>

lemma sweeps_spec:
  assumes "context_inv ctx" "sweeps xs ctx = (r, ctx')" "\<forall>(wanted, act) \<in> set xs. object_sweep act wanted root"
  shows "context_inv ctx'" "prunes root ctx ctx'"
    "r = Inr () \<Longrightarrow> (wanted, act) \<in> set xs \<Longrightarrow> s < 4096 \<Longrightarrow> \<not> wanted ctx' (ht_entries (vx_objects ctx') ! s)"
proof -
  have "context_inv ctx' \<and> prunes root ctx ctx' \<and>
      (r = Inr () \<longrightarrow> (\<forall>(wanted, act) \<in> set xs. \<forall>s < 4096. \<not> wanted ctx' (ht_entries (vx_objects ctx') ! s)))"
    using assms
  proof (induction xs arbitrary: ctx)
    case (Cons x xs)
    obtain w a where x: "x = (w, a)" by (cases x)
    have sw: "object_sweep a w root" using Cons.prems(3) x by simp
    obtain r1 c where s: "sweep w a 4096 0 ctx = (r1, c)" by fastforce
    note sp = object_sweep.sweep_spec [OF sw Cons.prems(1) s]
    show ?case
    proof (cases r1)
      case (Inl e)
      then show ?thesis using Cons.prems(2) s x sp by auto
    next
      case (Inr u)
      then have rest: "sweeps xs c = (r, ctx')" using Cons.prems(2) s x by simp
      have c: "context_inv c" "prunes root ctx c" using sp by simp_all
      have "\<forall>(wanted, act) \<in> set xs. object_sweep act wanted root" using Cons.prems(3) by simp
      note IH = Cons.IH [OF c(1) rest this]
      have "\<not> w ctx' (ht_entries (vx_objects ctx') ! k)" if "r = Inr ()" "k < 4096" for k
      proof
        assume on: "w ctx' (ht_entries (vx_objects ctx') ! k)"
        have "k < ht_capacity (vx_objects c)" using c(1) that(2) by (simp add: context_inv_def)
        then have "ht_entries (vx_objects ctx') ! k = ht_entries (vx_objects c) ! k"
          using IH object_sweep.wanted_nonzero [OF sw on] by (auto simp: prunes_def shrinks_def)
        moreover have "objects_map ctx' \<subseteq>\<^sub>m objects_map c" using IH by (auto simp: prunes_def)
        ultimately have "w c (ht_entries (vx_objects c) ! k)"
          using object_sweep.wanted_before [OF sw c(1)] IH on by auto
        then show False using sp(3) [of k] Inr that(2) by simp
      qed
      then show ?thesis using IH x prunes_trans [OF c(2)] by auto
    qed
  qed (auto intro: prunes_refl)
  then show "context_inv ctx'" "prunes root ctx ctx'"
    "r = Inr () \<Longrightarrow> (wanted, act) \<in> set xs \<Longrightarrow> s < 4096 \<Longrightarrow> \<not> wanted ctx' (ht_entries (vx_objects ctx') ! s)" by auto
qed

lemma sweeps_succeed:
  assumes "context_inv ctx" "Q ctx" "\<forall>(wanted, act) \<in> set xs. object_sweep act wanted root"
    and "\<And>wanted act c e. (wanted, act) \<in> set xs \<Longrightarrow> context_inv c \<Longrightarrow> Q c \<Longrightarrow> wanted c e \<Longrightarrow>
      objects_map c (he_wire_id e) = Some (he_parent_id e, he_native_bits e) \<Longrightarrow>
      fst (act (he_wire_id e) c) = Inr () \<and> Q (snd (act (he_wire_id e) c))"
  shows "fst (sweeps xs ctx) = Inr () \<and> Q (snd (sweeps xs ctx))"
  using assms
proof (induction xs arbitrary: ctx)
  case (Cons x xs)
  obtain w a where x: "x = (w, a)" by (cases x)
  have sw: "object_sweep a w root" using Cons.prems(3) x by simp
  obtain r1 c where s: "sweep w a 4096 0 ctx = (r1, c)" by fastforce
  have "r1 = Inr () \<and> Q c"
    using object_sweep.sweep_succeeds [where Q = Q and index = 0 and n = 4096, OF sw Cons.prems(1,2)] Cons.prems(4) x s by auto
  moreover have c: "context_inv c" using object_sweep.sweep_spec(1) [OF sw Cons.prems(1) s] by simp
  moreover have "fst (sweeps xs c) = Inr () \<and> Q (snd (sweeps xs c))"
  proof (rule Cons.IH)
    show "fst (act (he_wire_id e) c) = Inr () \<and> Q (snd (act (he_wire_id e) c))"
      if "(wanted, act) \<in> set xs" "context_inv c" "Q c" "wanted c e"
        "objects_map c (he_wire_id e) = Some (he_parent_id e, he_native_bits e)" for wanted act c e
      using that Cons.prems(4) [of wanted act c e] by simp
  qed (use calculation Cons.prems(3) in auto)
  ultimately show ?case using x s by simp
qed simp

lemma sweeps_append:
  "sweeps (xs @ ys) ctx = (case sweeps xs ctx of (Inl e, c) \<Rightarrow> (Inl e, c) | (Inr _, c) \<Rightarrow> sweeps ys c)"
  by (induction xs arbitrary: ctx) (auto split: prod.splits sum.splits)

subsection \<open>The passes of a device\<close>

lemma lookup_before:
  assumes "context_inv ctx" "context_inv ctx'" "objects_map ctx' \<subseteq>\<^sub>m objects_map ctx" "lookup ctx' w type = Inr v"
  shows "lookup ctx w type = Inr v"
  using assms(3,4) by (auto simp: lookup_iff [OF inv_table [OF assms(1)]] lookup_iff [OF inv_table [OF assms(2)]] map_le_def dom_def)

lemma view_sweep: "object_sweep (destroy_image_view drv) (view_of device_id) device_id"
proof (intro object_sweep.intro destroy_image_view_destroyer object_sweep_axioms.intro)
  show "he_wire_id e \<noteq> 0" if "view_of device_id ctx e" for ctx e
    using that by (auto simp: view_of_def handle_type_def)
  show "view_of device_id ctx e"
    if "context_inv ctx" "context_inv ctx'" "objects_map ctx' \<subseteq>\<^sub>m objects_map ctx" "view_of device_id ctx' e" for ctx ctx' e
    using that(4) lookup_before [OF that(1-3)] by (auto simp: view_of_def split: sum.splits)
  show "below (objects_map ctx) device_id (he_wire_id e)"
    if "context_inv ctx" "view_of device_id ctx e" "objects_map ctx (he_wire_id e) = Some (he_parent_id e, he_native_bits e)" for ctx e
    using that(2,3) below_child [of "objects_map ctx" "he_parent_id e" device_id _ device_id]
    by (auto simp: view_of_def lookup_iff [OF inv_table [OF that(1)]] split: sum.splits intro: below_child)
qed

lemma teardown_sweeps: "\<forall>(wanted, act) \<in> set (teardown_order drv device_id). object_sweep act wanted device_id"
  using child_sweep [OF leaf_destroyers(1), of _ drv device_id] child_sweep [OF leaf_destroyers(2), of _ drv device_id]
    child_sweep [OF leaf_destroyers(3), of _ drv device_id] child_sweep [OF leaf_destroyers(4), of _ drv device_id]
    child_sweep [OF destroy_query_pool_destroyer, of _ drv device_id] child_sweep [OF destroy_descriptor_pool_destroyer, of _ drv device_id]
    child_sweep [OF destroy_descriptor_update_template_destroyer, of _ drv device_id]
    child_sweep [OF destroy_command_pool_destroyer, of _ drv device_id] view_sweep [of drv device_id]
    child_sweep [OF destroy_image_destroyer, of _ drv device_id] child_sweep [OF destroy_buffer_destroyer, of _ drv device_id]
    child_sweep [OF free_memory_destroyer, of _ drv device_id] child_sweep [OF destroy_fence_destroyer, of _ drv device_id]
    child_sweep [OF destroy_semaphore_destroyer, of _ drv device_id]
    child_sweep [OF remove_object_destroyer [of OBJECT_QUEUE], of _ device_id]
  by (auto simp: teardown_order_def teardown_before_images_def teardown_after_images_def)

text \<open>After the passes a device has no children.\<close>

lemma device_child_types:
  "registered t \<Longrightarrow> parent_type t = OBJECT_DEVICE \<Longrightarrow> t \<noteq> OBJECT_INSTANCE \<Longrightarrow>
   t \<in> {OBJECT_PIPELINE, OBJECT_PIPELINE_LAYOUT, OBJECT_QUERY_POOL, OBJECT_DESCRIPTOR_POOL, OBJECT_SAMPLER, OBJECT_UPDATE_TEMPLATE,
     OBJECT_SET_LAYOUT, OBJECT_COMMAND_POOL, OBJECT_IMAGE, OBJECT_BUFFER, OBJECT_DEVICE_MEMORY, OBJECT_FENCE, OBJECT_SEMAPHORE, OBJECT_QUEUE}"
  by (auto simp: registered_def owned_def parent_type_def)

lemma torn_down_childless:
  assumes "context_inv ctx" "sweeps (teardown_order drv w) ctx = (Inr (), ctx')" "objects_map ctx' w \<noteq> None" "handle_type w = OBJECT_DEVICE"
  shows "childless (objects_map ctx') w"
  unfolding childless_def
proof (intro allI impI notI)
  fix u p n
  assume u: "objects_map ctx' u = Some (p, n)" "p = w"
  note sp = sweeps_spec [OF assms(1,2) teardown_sweeps [of drv w]]
  note t = only_children [OF sp(1), of u w n]
  obtain s where s: "s < 4096" "he_wire_id (ht_entries (vx_objects ctx') ! s) = u" "he_parent_id (ht_entries (vx_objects ctx') ! s) = w"
    using swept_entry [OF sp(1) u(1)] u(2) by blast
  have no: "\<not> child_of type w ctx' (ht_entries (vx_objects ctx') ! s)"
    if "(child_of type w, act) \<in> set (teardown_order drv w)" for type act
    using sp(3) [OF _ that s(1)] by simp
  have "handle_type u \<noteq> type" if "(child_of type w, act) \<in> set (teardown_order drv w)" for type act
    using no [OF that] s(2,3) by (simp add: child_of_def)
  then show False
    using device_child_types [of "handle_type u"] t u assms(3,4)
    by (auto simp: teardown_order_def teardown_before_images_def teardown_after_images_def)
qed

lemma no_swapchains:
  "context_inv ctx \<Longrightarrow> set is \<subseteq> {..<length (vx_swapchain_metadata ctx)} \<Longrightarrow> destroy_swapchains drv device_id is ctx = (0, ctx)"
  by (induction "is") (auto simp: context_inv_def list_all_length Let_def)

lemma clear_device_objects: "\<exists>m. clear_device w (c\<lparr>vx_objects := t\<rparr>) = (c\<lparr>vx_device_metadata := m\<rparr>)\<lparr>vx_objects := t\<rparr>"
  by (intro exI [of _ "vx_device_metadata (clear_device w c)"]) (simp add: clear_device_def device_metadata_slot_def split: option.splits)

lemma destroy_device_cases:
  assumes "context_inv ctx" "destroy_device drv w ctx = (r, ctx')"
  shows "context_inv ctx' \<and> prunes w ctx ctx' \<and> (r = Inr () \<longrightarrow> objects_map ctx' w = None)"
proof -
  note t = inv_table [OF assms(1)]
  have none: "destroy_swapchains drv w [0..<length (vx_swapchain_metadata ctx)] ctx = (0, ctx)"
    by (rule no_swapchains [OF assms(1)]) auto
  obtain r1 c where sw: "sweeps (teardown_order drv w) ctx = (r1, c)" by fastforce
  note sp = sweeps_spec [OF assms(1) sw teardown_sweeps]
  consider "r \<noteq> Inr ()" "ctx' = ctx" | "r \<noteq> Inr ()" "ctx' = c"
    | p device t' n where "lookup ctx w OBJECT_DEVICE = Inr (p, device)" "r1 = Inr ()"
        "handle_table_remove (Some (vx_objects c)) w OBJECT_DEVICE = Inr (t', n)"
        "ctx' = snd (snd (vk_call drv (Vk_Destroy OBJECT_DEVICE) (Some device) [device] (clear_device w (c\<lparr>vx_objects := t'\<rparr>))))"
    using assms(2) by (auto simp: destroy_device_def none sw remove_object_def 
        split: sum.splits if_splits prod.splits)
  then show ?thesis
  proof cases
    case 3
    obtain m where m: "clear_device w (c\<lparr>vx_objects := t'\<rparr>) = (c\<lparr>vx_device_metadata := m\<rparr>)\<lparr>vx_objects := t'\<rparr>"
      using clear_device_objects by blast
    let ?c = "c\<lparr>vx_device_metadata := m\<rparr>"
    have c: "context_inv ?c" using sp(1) by simp
    have rm: "handle_table_remove (Some (vx_objects ?c)) w OBJECT_DEVICE = Inr (t', n)" using 3(3) by simp
    note f = remove_facts [OF inv_table [OF c] rm]
    obtain q where q: "objects_map c w = Some (q, n)" using f(3) by auto
    have "objects_map ctx w = Some (q, n)" by (rule prunes_mapped [OF sp(2) q])
    then have n: "n = device" "q = p" using 3(1) by (simp_all add: lookup_iff [OF t])
    have look: "lookup ?c w OBJECT_DEVICE = Inr (p, device)" using lookup_mapped [OF inv_table [OF c] f(6)] q n by simp
    have none: "childless (objects_map ?c) w"
      using torn_down_childless [OF assms(1) sw [unfolded 3(2)]] q f(6) by simp
    have live_objects: "alive (Some device) ?c" using device_alive [OF c look] by simp
    obtain a b where "vk_call drv (Vk_Destroy OBJECT_DEVICE) (Some device) [device] (?c\<lparr>vx_objects := t'\<rparr>) = (a, b, ctx')"
      using 3(4) m by (metis prod.collapse)
    note g = remove_and_destroy [OF c _ look live_objects none rm this, simplified]
    have "prunes w c (c\<lparr>vx_objects := t'\<rparr>)" by (rule remove_prunes [OF inv_table [OF sp(1)] 3(3)])
    then have "prunes w c ctx'" using g(3,4) by (simp add: prunes_def)
    then show ?thesis using prunes_trans [OF sp(2)] g by simp
  qed (use assms(1) sp in \<open>auto intro: prunes_refl\<close>)
qed

lemma destroy_device_destroyer: "object_destroyer (destroy_device drv)"
  by unfold_locales (use destroy_device_cases in blast)+

interpretation device_end: object_destroyer "destroy_device drv" for drv
  by (rule destroy_device_destroyer)

subsection \<open>Instances\<close>

lemma device_sweep: "object_sweep (destroy_device drv) (device_of instance_id) instance_id"
proof (intro object_sweep.intro destroy_device_destroyer object_sweep_axioms.intro)
  show "he_wire_id e \<noteq> 0" if "device_of instance_id ctx e" for ctx e
    using that by (auto simp: device_of_def handle_type_def)
  show "device_of instance_id ctx e"
    if "context_inv ctx" "context_inv ctx'" "objects_map ctx' \<subseteq>\<^sub>m objects_map ctx" "device_of instance_id ctx' e" for ctx ctx' e
    using that(4) lookup_before [OF that(1-3)] by (auto simp: device_of_def split: sum.splits)
  show "below (objects_map ctx) instance_id (he_wire_id e)"
    if "context_inv ctx" "device_of instance_id ctx e" "objects_map ctx (he_wire_id e) = Some (he_parent_id e, he_native_bits e)" for ctx e
    using that(2,3) below_child [of "objects_map ctx" "he_parent_id e" instance_id _ instance_id]
    by (auto simp: device_of_def lookup_iff [OF inv_table [OF that(1)]] split: sum.splits intro: below_child)
qed

interpretation device_pass: object_sweep "destroy_device drv" "device_of instance_id" instance_id for drv instance_id
  by (rule device_sweep)

lemma sweep_cong:
  assumes "\<And>c e. J c \<Longrightarrow> context_inv c \<Longrightarrow> wanted c e \<Longrightarrow> objects_map c (he_wire_id e) = Some (he_parent_id e, he_native_bits e) \<Longrightarrow>
      act (he_wire_id e) c = act' (he_wire_id e) c \<and> J (snd (act' (he_wire_id e) c))"
    and sw: "object_sweep act' wanted root" and "J ctx" "context_inv ctx" "index + n \<le> 4096"
  shows "sweep wanted act n index ctx = sweep wanted act' n index ctx"
  using assms(3-5)
proof (induction n arbitrary: index ctx)
  case (Suc n)
  let ?e = "ht_entries (vx_objects ctx) ! index"
  show ?case
  proof (cases "wanted ctx ?e")
    case True
    have "objects_map ctx (he_wire_id ?e) = Some (he_parent_id ?e, he_native_bits ?e)"
      using entry_mapped [of "vx_objects ctx" index] Suc.prems(2,3) object_sweep.wanted_nonzero [OF sw True] by (simp add: context_inv_def)
    note a = assms(1) [OF Suc.prems(1,2) True this]
    obtain r c where c: "act' (he_wire_id ?e) ctx = (r, c)" by fastforce
    have "context_inv c" using object_destroyer.act_inv [OF object_sweep.axioms(1) [OF sw] Suc.prems(2) c] .
    then show ?thesis using Suc.IH [of c "index + 1"] a c Suc.prems(3) True by (simp add: Let_def split: sum.splits)
  next
    case False
    then show ?thesis using Suc.IH [of ctx "index + 1"] Suc.prems by (simp add: Let_def)
  qed
qed simp

text \<open>Physical devices are removed when they have no devices any more.\<close>

definition deviceless :: "u64 \<Rightarrow> vk_context \<Rightarrow> bool" where
  "deviceless instance_id ctx \<longleftrightarrow> (\<forall>u p n m. objects_map ctx u = Some (p, n) \<longrightarrow> handle_type u = OBJECT_DEVICE \<longrightarrow>
     objects_map ctx p \<noteq> Some (instance_id, m))"

lemma deviceless_childless:
  assumes "deviceless instance_id ctx" "context_inv ctx" "objects_map ctx w = Some (instance_id, n)" "handle_type w = OBJECT_PHYSICAL_DEVICE"
  shows "childless (objects_map ctx) w"
  unfolding childless_def
proof (intro allI impI notI)
  fix u p m
  assume u: "objects_map ctx u = Some (p, m)" "p = w"
  then have "handle_type u = OBJECT_DEVICE"
    using only_children [OF assms(2), of u w m] assms(3,4) by (auto simp: parent_type_def split: if_splits)
  then show False using assms(1,3) u unfolding deviceless_def by blast
qed

definition remove_childless :: "object_type \<Rightarrow> u64 \<Rightarrow> vk_context \<Rightarrow> unit result \<times> vk_context" where
  "remove_childless type w ctx = (if childless (objects_map ctx) w then remove_object type w ctx else (Inl EINVAL, ctx))"

lemma remove_childless_destroyer: "\<not> owned type \<Longrightarrow> object_destroyer (remove_childless type)"
  by unfold_locales
    (auto simp: remove_childless_def prunes_refl split: if_splits dest: remove_object_spec)

lemma physical_devices_swept:
  assumes "context_inv ctx" "deviceless instance_id ctx"
    and "sweep (child_of OBJECT_PHYSICAL_DEVICE instance_id) (remove_object OBJECT_PHYSICAL_DEVICE) 4096 0 ctx = (r, ctx')"
  shows "context_inv ctx'" "prunes instance_id ctx ctx'"
    "r = Inr () \<Longrightarrow> objects_map ctx' w = Some (instance_id, n) \<Longrightarrow> handle_type w \<noteq> OBJECT_PHYSICAL_DEVICE"
proof -
  have rm: "object_destroyer (remove_childless OBJECT_PHYSICAL_DEVICE)" by (rule remove_childless_destroyer) simp
  have keep: "deviceless instance_id c'" if "prunes w c c'" "deviceless instance_id c" for w c c'
    using that prunes_mapped [OF that(1)] unfolding deviceless_def by blast
  have "sweep (child_of OBJECT_PHYSICAL_DEVICE instance_id) (remove_object OBJECT_PHYSICAL_DEVICE) 4096 0 ctx =
      sweep (child_of OBJECT_PHYSICAL_DEVICE instance_id) (remove_childless OBJECT_PHYSICAL_DEVICE) 4096 0 ctx"
  proof (rule sweep_cong [where J = "deviceless instance_id"])
    fix c e
    assume c: "deviceless instance_id c" "context_inv c" "child_of OBJECT_PHYSICAL_DEVICE instance_id c e"
      "objects_map c (he_wire_id e) = Some (he_parent_id e, he_native_bits e)"
    have "childless (objects_map c) (he_wire_id e)"
      using deviceless_childless [OF c(1,2), of "he_wire_id e"] c(3,4) by (simp add: child_of_def)
    moreover have "deviceless instance_id (snd (remove_childless OBJECT_PHYSICAL_DEVICE (he_wire_id e) c))"
      using keep [OF _ c(1)] object_destroyer.act_prunes [OF rm c(2)] by (metis prod.collapse)
    ultimately show "remove_object OBJECT_PHYSICAL_DEVICE (he_wire_id e) c = remove_childless OBJECT_PHYSICAL_DEVICE (he_wire_id e) c \<and>
        deviceless instance_id (snd (remove_childless OBJECT_PHYSICAL_DEVICE (he_wire_id e) c))" by (simp add: remove_childless_def)
  qed (use assms child_sweep [OF rm, of OBJECT_PHYSICAL_DEVICE instance_id] in auto)
  then have s: "sweep (child_of OBJECT_PHYSICAL_DEVICE instance_id) (remove_childless OBJECT_PHYSICAL_DEVICE) 4096 0 ctx = (r, ctx')"
    using assms(3) by simp
  note cs = children_swept [OF rm _ assms(1) s, simplified]
  show "context_inv ctx'" "prunes instance_id ctx ctx'"
    "r = Inr () \<Longrightarrow> objects_map ctx' w = Some (instance_id, n) \<Longrightarrow> handle_type w \<noteq> OBJECT_PHYSICAL_DEVICE"
    using cs by auto
qed

lemma swept_deviceless:
  assumes "context_inv ctx" "sweep (device_of instance_id) (destroy_device drv) 4096 0 ctx = (Inr (), ctx')"
  shows "deviceless instance_id ctx'"
  unfolding deviceless_def
proof (intro allI impI notI)
  fix u p n m
  assume u: "objects_map ctx' u = Some (p, n)" "handle_type u = OBJECT_DEVICE" "objects_map ctx' p = Some (instance_id, m)"
  note sp = device_pass.sweep_spec [OF assms]
  have i: "context_inv ctx'" using sp(1) by simp
  have "handle_type p = OBJECT_PHYSICAL_DEVICE" using only_children [OF i u(1)] u(2,3) by (simp add: parent_type_def)
  then have look: "lookup ctx' p OBJECT_PHYSICAL_DEVICE = Inr (instance_id, m)" using lookup_mapped [OF inv_table [OF i]] u(3) by simp
  obtain s where "s < 4096" "he_wire_id (ht_entries (vx_objects ctx') ! s) = u" "he_parent_id (ht_entries (vx_objects ctx') ! s) = p"
    using swept_entry [OF i u(1)] .
  then show False using sp(3) [of s] look u(2) by (simp add: device_of_def)
qed

lemma destroy_instance_cases:
  assumes "context_inv ctx" "destroy_instance drv w ctx = (r, ctx')"
  shows "context_inv ctx' \<and> prunes w ctx ctx' \<and> (r = Inr () \<longrightarrow> objects_map ctx' w = None)"
proof -
  note t = inv_table [OF assms(1)]
  obtain r1 c1 where s1: "sweep (device_of w) (destroy_device drv) 4096 0 ctx = (r1, c1)" by fastforce
  obtain r2 c2 where s2: "sweep (child_of OBJECT_PHYSICAL_DEVICE w) (remove_object OBJECT_PHYSICAL_DEVICE) 4096 0 c1 = (r2, c2)" by fastforce
  have i1: "context_inv c1" "prunes w ctx c1" using device_pass.sweep_spec [OF assms(1) s1] by simp_all
  show ?thesis
  proof (cases "r1 = Inr ()")
    case False
    then show ?thesis
      using assms i1 by (auto simp: destroy_instance_def s1 intro: prunes_refl split: sum.splits if_splits)
  next
    case True
    note ps = physical_devices_swept [OF i1(1) swept_deviceless [OF assms(1) s1 [unfolded True]] s2]
    have p2: "prunes w ctx c2" by (rule prunes_trans [OF i1(2) ps(2)])
    consider "r \<noteq> Inr ()" "ctx' = ctx" | "r \<noteq> Inr ()" "ctx' = c2"
      | q n t' n' where "lookup ctx w OBJECT_INSTANCE = Inr (q, n)" "r2 = Inr ()"
          "handle_table_remove (Some (vx_objects c2)) w OBJECT_INSTANCE = Inr (t', n')"
          "ctx' = snd (snd (vk_call drv (Vk_Destroy OBJECT_INSTANCE) None [n] (c2\<lparr>vx_objects := t'\<rparr>)))"
      using assms(2) by (auto simp: destroy_instance_def s1 True s2 remove_object_def split: sum.splits if_splits prod.splits)
    then show ?thesis
    proof cases
      case 3
      note f = remove_facts [OF inv_table [OF ps(1)] 3(3)]
      obtain q' where q': "objects_map c2 w = Some (q', n')" using f(3) by auto
      have "objects_map ctx w = Some (q', n')" by (rule prunes_mapped [OF p2 q'])
      then have n: "n' = n" using 3(1) by (simp add: lookup_iff [OF t])
      have look: "lookup c2 w OBJECT_INSTANCE = Inr (q', n)" using lookup_mapped [OF inv_table [OF ps(1)] f(6)] q' n by simp
      have none: "childless (objects_map c2) w"
        unfolding childless_def
      proof (intro allI impI notI)
        fix u p m
        assume u: "objects_map c2 u = Some (p, m)" "p = w"
        then have "handle_type u = OBJECT_PHYSICAL_DEVICE"
          using only_children [OF ps(1), of u w m] q' f(6) by (auto simp: parent_type_def split: if_splits)
        then show False using ps(3) [OF 3(2)] u by blast
      qed
      obtain a b where "vk_call drv (Vk_Destroy OBJECT_INSTANCE) None [n] (c2\<lparr>vx_objects := t'\<rparr>) = (a, b, ctx')"
        using 3(4) by (metis prod.collapse)
      note g = remove_and_destroy [OF ps(1) _ look _ none 3(3) this, simplified]
      have "prunes w c2 (c2\<lparr>vx_objects := t'\<rparr>)" by (rule remove_prunes [OF inv_table [OF ps(1)] 3(3)])
      then have "prunes w c2 ctx'" using g(3,4) by (simp add: prunes_def)
      then show ?thesis using prunes_trans [OF p2] g by simp
    qed (use assms(1) ps(1) p2 in \<open>auto intro: prunes_refl\<close>)
  qed
qed

lemma destroy_instance_destroyer: "object_destroyer (destroy_instance drv)"
  by unfold_locales (use destroy_instance_cases in blast)+

interpretation instance_end: object_destroyer "destroy_instance drv" for drv
  by (rule destroy_instance_destroyer)

end
