(* ===== verification/Vulkan_Runs.thy ===== *)
theory Vulkan_Runs
  imports Vulkan_Teardown
begin

section \<open>Runs of the Vulkan context\<close>

text \<open>
  What holds after any sequence of requests: the invariant, and with it that the driver's objects are those
  of the table. The teardown operations succeed when the driver has the functions they need.
\<close>

subsection \<open>Creating instances and devices keeps the invariant\<close>

text \<open>
  Every Vulkan implementation has the functions that destroy instances and devices. Without them a created
  instance or device would be left alive and unknown.
\<close>

definition has_destroyers :: "vk_driver \<Rightarrow> bool" where
  "has_destroyers drv \<longleftrightarrow> drv_proc drv None (Vk_Destroy OBJECT_INSTANCE) \<and> (\<forall>d. drv_proc drv (Some d) (Vk_Destroy OBJECT_DEVICE))"

lemma pending_flags [simp]:
  "pending_inv type extra (ctx\<lparr>vx_destroy_instance := di\<rparr>) \<longleftrightarrow> pending_inv type extra ctx"
  "pending_inv type extra (ctx\<lparr>vx_get_device_proc_addr := gd\<rparr>) \<longleftrightarrow> pending_inv type extra ctx"
  by (simp_all add: pending_inv_def)

lemma create_instance_keeps:
  assumes "has_destroyers drv" "context_inv ctx"
  shows "context_inv (snd (create_instance drv request enabled ctx))"
proof -
  obtain result outputs c where c: "vk_call drv (Vk_Create OBJECT_INSTANCE) None
      [wide (icr_api_version request), wide (icr_enabled_extension_count request)] ctx = (result, outputs, c)" by (metis prod_cases3)
  note k = call_create [OF c assms(2), simplified]
  let ?c = "c\<lparr>vx_destroy_instance := True\<rparr>" and ?c' = "c\<lparr>vx_destroy_instance := True, vx_get_device_proc_addr := True\<rparr>"
  have d: "context_inv (snd (snd (vk_call drv (Vk_Destroy OBJECT_INSTANCE) None [out_word outputs 0] c1)))"
    if "pending_inv OBJECT_INSTANCE {#out_word outputs 0#} c1" for c1
    using call_destroy [of drv OBJECT_INSTANCE None "out_word outputs 0" c1] that by (metis option.simps(4) owned_types(1) prod.collapse)
  obtain r c2 where a: "adopt_object OBJECT_INSTANCE 0 (out_word outputs 0) ?c' = (r, c2)" by fastforce
  have "case r of Inl _ \<Rightarrow> pending_inv OBJECT_INSTANCE {#out_word outputs 0#} c2 | Inr _ \<Rightarrow> context_inv c2" if "result = VK_SUCCESS"
    using adopt_object_core(1) [OF a] k that by (auto simp: registered_def split: sum.splits)
  then show ?thesis
    using assms k d a by (auto simp: create_instance_def Let_def c has_destroyers_def split: sum.splits prod.splits if_splits)
qed

lemma adopt_physical_devices_keeps:
  assumes "context_inv ctx" "instance_id \<in> dom (objects_map ctx)" "handle_type instance_id = OBJECT_INSTANCE"
  shows "context_inv (snd (adopt_physical_devices instance_id ns ctx))"
  using assms(1,2)
proof (induction ns arbitrary: ctx)
  case (Cons n ns)
  obtain r c where a: "adopt_object OBJECT_PHYSICAL_DEVICE instance_id n ctx = (r, c)" by fastforce
  note ad = adopt_object_spec(1) [OF a _ _ _ Cons.prems(2)]
  have c: "context_inv c \<and> instance_id \<in> dom (objects_map c)"
    using ad Cons.prems assms(3) by (auto simp: pending_unowned registered_def parent_type_def split: sum.splits)
  show ?case
    using Cons.IH [OF Cons.prems] Cons.IH [of c] c a Cons.prems(1) by (auto simp: Let_def split: sum.splits)
qed simp

lemma enumerate_physical_devices_keeps [keeps]:
  assumes "context_inv ctx"
  shows "context_inv (snd (enumerate_physical_devices drv instance_id ctx))"
proof (cases "lookup ctx instance_id OBJECT_INSTANCE")
  case (Inr pair)
  then obtain p n where look: "lookup ctx instance_id OBJECT_INSTANCE = Inr (p, n)" by (cases pair) auto
  let ?name = "Vk_Call ''vkEnumeratePhysicalDevices''"
  have inst: "instance_id \<in> dom (objects_map ctx)" "handle_type instance_id = OBJECT_INSTANCE"
    using look lookup_has_type [OF inv_table [OF assms] look] by (auto simp: lookup_iff [OF inv_table [OF assms]])
  obtain r1 o1 c1 where c1: "vk_call drv ?name None [n] ctx = (r1, o1, c1)" by (metis prod_cases3)
  have i1: "context_inv c1" using called [OF c1 assms] by simp
  obtain r2 o2 c2 where c2: "vk_call drv ?name None [n, wide (ucast (out_word o1 0) :: u32)] c1 = (r2, o2, c2)" by (metis prod_cases3)
  have i2: "context_inv c2" using called [OF c2 i1] by simp
  have "context_inv (snd (adopt_physical_devices instance_id ns c))" if "c = c1 \<or> c = c2" for ns c
  proof (rule adopt_physical_devices_keeps)
    show "instance_id \<in> dom (objects_map c)" using that inst(1) by (auto simp: call_fields(1) [OF c1] call_fields(1) [OF c2])
  qed (use that i1 i2 inst(2) in auto)
  then have "context_inv (snd (case adopt_physical_devices instance_id ns c of (Inl e, c) \<Rightarrow> (Inl e, c) | (Inr ids, c) \<Rightarrow> (Inr (f ids), c)))"
    if "c = c1 \<or> c = c2" for ns c and f :: "u64 list \<Rightarrow> vulkan_physical_devices"
    using that by (auto split: prod.splits sum.splits) (metis snd_conv)+
  then show ?thesis
    using assms i1 i2 by (simp add: enumerate_physical_devices_def look c1 c2 Let_def)
qed (use assms in \<open>simp add: enumerate_physical_devices_def\<close>)

lemma physical_queries_keep:
  assumes "context_inv ctx"
  shows "get_physical_device_properties drv w ctx = (r, c) \<Longrightarrow> context_inv c \<and> vx_objects c = vx_objects ctx"
    "get_queue_family_properties drv w ctx = (r', c) \<Longrightarrow> context_inv c \<and> vx_objects c = vx_objects ctx"
proof -
  have step: "context_inv c2 \<and> vx_objects c2 = vx_objects c1"
    if "vk_call drv (Vk_Call name) None args c1 = (a, b, c2)" "context_inv c1" for name args a b c1 c2
    using called [OF that] call_fields(1) [OF that(1)] by simp
  show "get_physical_device_properties drv w ctx = (r, c) \<Longrightarrow> context_inv c \<and> vx_objects c = vx_objects ctx"
    using assms step by (auto simp: get_physical_device_properties_def split: sum.splits prod.splits if_splits)
  show "get_queue_family_properties drv w ctx = (r', c) \<Longrightarrow> context_inv c \<and> vx_objects c = vx_objects ctx"
    using assms step by (auto simp: get_queue_family_properties_def Let_def split: sum.splits prod.splits if_splits)
qed

lemma register_device_keeps:
  assumes "has_destroyers drv" "pending_inv OBJECT_DEVICE {#device#} ctx"
    and "dcp_physical_device_id request \<in> dom (objects_map ctx)" "handle_type (dcp_physical_device_id request) = OBJECT_PHYSICAL_DEVICE"
  shows "context_inv (snd (register_device drv request atom_size device ctx))"
proof -
  have live_objects: "device \<in># live_objects OBJECT_DEVICE (vx_events ctx)" using assms(2) by (auto simp: pending_inv_def)
  have d: "context_inv (snd (snd (vk_call drv (Vk_Destroy OBJECT_DEVICE) (Some device) [device] c1)))"
    if "pending_inv OBJECT_DEVICE {#device#} c1" "vx_events c1 = vx_events ctx" for c1
    using call_destroy [of drv OBJECT_DEVICE "Some device" device c1] that live_objects by (metis option.simps(5) owned_types(2) prod.collapse)
  obtain r c2 where a: "adopt_object OBJECT_DEVICE (dcp_physical_device_id request) device ctx = (r, c2)" by fastforce
  note ad = adopt_object_spec [OF a assms(2) _ _ assms(3)]
  have "(case r of Inl _ \<Rightarrow> pending_inv OBJECT_DEVICE {#device#} c2 | Inr _ \<Rightarrow> context_inv c2) \<and> vx_events c2 = vx_events ctx"
    using ad assms(4) by (auto simp: registered_def parent_type_def split: sum.splits)
  then show ?thesis
    using assms(1,2) d a by (auto simp: register_device_def Let_def has_destroyers_def split: sum.splits option.splits)
qed

lemma create_device_packed_keeps:
  assumes "has_destroyers drv" "context_inv ctx"
  shows "context_inv (snd (create_device_packed drv request enabled ctx))"
proof (cases "resolve_physical_device ctx (dcp_physical_device_id request)")
  case (Inr pair)
  let ?w = "dcp_physical_device_id request"
  obtain inst phys where rs: "resolve_physical_device ctx ?w = Inr (inst, phys)" using Inr by (cases pair) auto
  have w: "?w \<in> dom (objects_map ctx)" "handle_type ?w = OBJECT_PHYSICAL_DEVICE"
    using rs lookup_has_type [OF inv_table [OF assms(2)]]
    by (auto simp: resolve_physical_device_def lookup_iff [OF inv_table [OF assms(2)]] split: sum.splits)
  obtain r1 c1 where q1: "get_physical_device_properties drv ?w ctx = (r1, c1)" by fastforce
  note i1 = physical_queries_keep(1) [OF assms(2) q1]
  obtain r2 c2 where q2: "get_queue_family_properties drv ?w c1 = (r2, c2)" by fastforce
  have i2: "context_inv c2" "vx_objects c2 = vx_objects ctx" using physical_queries_keep(2) [OF _ q2] i1 by simp_all
  have "context_inv (snd (case vk_call drv (Vk_Create OBJECT_DEVICE) None args c2 of (result, outputs, c) \<Rightarrow>
      if result \<noteq> VK_SUCCESS then (Inr (f result), c) else register_device drv request atom_size (out_word outputs 0) c))"
    for args f atom_size
  proof -
    obtain result outputs c where c: "vk_call drv (Vk_Create OBJECT_DEVICE) None args c2 = (result, outputs, c)" by (metis prod_cases3)
    note k = call_create [OF c i2(1), simplified]
    show ?thesis
      using k register_device_keeps [OF assms(1), of "out_word outputs 0" c request atom_size] w i2(2)
      by (auto simp: c call_fields(1) [OF c])
  qed
  then show ?thesis
    using assms(2) i1 i2 by (auto simp: create_device_packed_def Let_def rs q1 q2 split: sum.splits prod.splits)
qed (use assms(2) in \<open>simp add: create_device_packed_def Let_def\<close>)

lemma teardown_keeps [keeps]:
  assumes "context_inv ctx"
  shows "context_inv (snd (destroy_device drv w ctx))" "context_inv (snd (destroy_instance drv w ctx))"
  by (rule destroyer_keeps [OF destroy_device_destroyer assms]) (rule destroyer_keeps [OF destroy_instance_destroyer assms])

subsection \<open>When a teardown succeeds\<close>

text \<open>The driver can destroy what it creates on a device, and no memory is mirrored.\<close>

definition can_destroy :: "vk_driver \<Rightarrow> u64 \<Rightarrow> bool" where
  "can_destroy drv device \<longleftrightarrow> (\<forall>t. owned t \<longrightarrow> drv_proc drv (Some device) (Vk_Destroy t))"

definition ready :: "u64 \<Rightarrow> u64 \<Rightarrow> u64 \<Rightarrow> vk_context \<Rightarrow> bool" where
  "ready device_id p device c \<longleftrightarrow> objects_map c device_id = Some (p, device) \<and> handle_type device_id = OBJECT_DEVICE \<and>
     list_all (\<lambda>m. mir_memory_id m = 0) (vx_memory_mirrors c)"

lemma ready_resolves:
  assumes "context_inv c" "ready device_id p device c" "objects_map c w = Some (device_id, n)" "handle_type w = type"
  shows "resolve_device_child c w type = Inr (device_id, device, n)"
    "type = OBJECT_COMMAND_POOL \<Longrightarrow> resolve_command_pool c w = Inr (device_id, device, n)"
proof -
  have l: "lookup c w type = Inr (device_id, n)" using lookup_mapped [OF inv_table [OF assms(1)] assms(4)] assms(3) by simp
  have d: "lookup c device_id OBJECT_DEVICE = Inr (p, device)"
    using lookup_mapped [OF inv_table [OF assms(1)], of device_id OBJECT_DEVICE] assms(2) by (simp add: ready_def)
  show "resolve_device_child c w type = Inr (device_id, device, n)" using l d by (simp add: resolve_device_child_def)
  show "type = OBJECT_COMMAND_POOL \<Longrightarrow> resolve_command_pool c w = Inr (device_id, device, n)"
    using l d by (simp add: resolve_command_pool_def)
qed

lemma ready_kept:
  assumes "object_destroyer act" "context_inv c" "ready device_id p device c" "objects_map c w \<noteq> None" "2 < depth (handle_type w)"
  shows "ready device_id p device (snd (act w c))"
proof -
  obtain r c' where a: "act w c = (r, c')" by fastforce
  note pr = object_destroyer.act_prunes [OF assms(1,2) a]
  have ty: "handle_type device_id = OBJECT_DEVICE" "objects_map c device_id = Some (p, device)" using assms(3) by (simp_all add: ready_def)
  have "depth (handle_type device_id) = 2" using ty(1) by (simp add: depth_def)
  then have "objects_map c' device_id = Some (p, device)"
    using prunes_keeps [OF assms(2) pr assms(4) ty(2)] assms(5) by fastforce
  then show ?thesis using assms(3) pr a by (simp add: ready_def prunes_def)
qed

lemma destroy_child_succeeds:
  assumes "context_inv c" "ready device_id p device c" "objects_map c w = Some (device_id, n)" "handle_type w = type"
    and "can_destroy drv device" "owned type"
  shows "\<exists>c'. destroy_child drv type w c = (Inr (), c')"
  using ready_resolves(1) [OF assms(1-4)] remove_mapped [OF inv_table [OF assms(1)] assms(3,4)] assms(5,6)
  by (auto simp: destroy_child_def can_destroy_def split: prod.splits)

lemma scan_nonzero_in:
  "slot_scan_nonzero key ms index wanted first_empty = Some i \<Longrightarrow> first_empty = Some i \<or> index \<le> i \<and> i < index + length ms"
proof (induction ms arbitrary: index first_empty)
  case (Cons m ms)
  show ?case
  proof (cases "key m = wanted \<and> wanted \<noteq> 0")
    case False
    have "slot_scan_nonzero key ms (index + 1) wanted (if key m = 0 \<and> first_empty = None then Some index else first_empty) = Some i"
      using Cons.prems unfolding slot_scan_nonzero.simps if_not_P [OF False] .
    from Cons.IH [OF this] show ?thesis by (auto split: if_splits)
  qed (use Cons.prems in auto)
qed simp

lemma not_mirrored: "list_all (\<lambda>m. mir_memory_id m = 0) (vx_memory_mirrors c) \<Longrightarrow> w \<noteq> 0 \<Longrightarrow> \<not> memory_is_mirrored c w"
  using scan_nonzero_in [of mir_memory_id "vx_memory_mirrors c" 0 w None]
  by (auto simp: memory_is_mirrored_def memory_mirror_slot_def list_all_length split: option.splits)

lemma pool_succeeds:
  assumes "context_inv c" "ready device_id p device c" "objects_map c w = Some (device_id, n)" "can_destroy drv device"
  shows "handle_type w = OBJECT_COMMAND_POOL \<Longrightarrow> fst (destroy_command_pool drv w c) = Inr ()"
    "handle_type w = OBJECT_DESCRIPTOR_POOL \<Longrightarrow> fst (destroy_descriptor_pool drv w c) = Inr ()"
proof -
  note rs = ready_resolves [OF assms(1-3)]
  have proc: "drv_proc drv (Some device) (Vk_Destroy OBJECT_COMMAND_POOL)" "drv_proc drv (Some device) (Vk_Destroy OBJECT_DESCRIPTOR_POOL)"
    using assms(4) by (simp_all add: can_destroy_def)
  have d: "alive (Some device) c" if "handle_type w = type" for type using resolved_alive(1) [OF assms(1) rs(1) [OF that]] by simp
  show "fst (destroy_command_pool drv w c) = Inr ()" if t: "handle_type w = OBJECT_COMMAND_POOL"
  proof -
    obtain r c' where dw: "destroy_with_children drv OBJECT_COMMAND_POOL OBJECT_COMMAND_BUFFER device w n c = (r, c')" by fastforce
    have "r = Inr ()"
      by (rule destroy_with_children_spec(4) [OF assms(1,3) t d [OF t] _ _ _ _ _ only_command_buffers dw]) (simp_all add: depth_def)
    then show ?thesis using rs(2) [OF t refl] proc dw by (simp add: destroy_command_pool_def)
  qed
  show "fst (destroy_descriptor_pool drv w c) = Inr ()" if t: "handle_type w = OBJECT_DESCRIPTOR_POOL"
  proof -
    obtain r c' where dw: "destroy_with_children drv OBJECT_DESCRIPTOR_POOL OBJECT_DESCRIPTOR_SET device w n c = (r, c')" by fastforce
    have "r = Inr ()"
      by (rule destroy_with_children_spec(4) [OF assms(1,3) t d [OF t] _ _ _ _ _ only_descriptor_sets dw]) (simp_all add: depth_def)
    then show ?thesis using rs(1) [OF t] proc dw by (simp add: destroy_descriptor_pool_def)
  qed
qed

lemma children_succeed:
  assumes "context_inv c" "ready device_id p device c" "objects_map c w = Some (device_id, n)" "can_destroy drv device"
  shows "handle_type w = OBJECT_PIPELINE \<Longrightarrow> fst (destroy_pipeline drv w c) = Inr ()"
    "handle_type w = OBJECT_PIPELINE_LAYOUT \<Longrightarrow> fst (destroy_pipeline_layout drv w c) = Inr ()"
    "handle_type w = OBJECT_QUERY_POOL \<Longrightarrow> fst (destroy_query_pool drv w c) = Inr ()"
    "handle_type w = OBJECT_SAMPLER \<Longrightarrow> fst (destroy_sampler drv w c) = Inr ()"
    "handle_type w = OBJECT_UPDATE_TEMPLATE \<Longrightarrow> fst (destroy_descriptor_update_template drv w c) = Inr ()"
    "handle_type w = OBJECT_SET_LAYOUT \<Longrightarrow> fst (destroy_descriptor_set_layout drv w c) = Inr ()"
    "handle_type w = OBJECT_BUFFER \<Longrightarrow> fst (destroy_buffer drv w c) = Inr ()"
    "handle_type w = OBJECT_DEVICE_MEMORY \<Longrightarrow> fst (free_memory drv w c) = Inr ()"
    "handle_type w = OBJECT_FENCE \<Longrightarrow> fst (destroy_fence drv w c) = Inr ()"
    "handle_type w = OBJECT_SEMAPHORE \<Longrightarrow> fst (destroy_semaphore drv w c) = Inr ()"
    "handle_type w = OBJECT_QUEUE \<Longrightarrow> fst (remove_object OBJECT_QUEUE w c) = Inr ()"
    "handle_type w = OBJECT_IMAGE \<Longrightarrow> \<not> image_has_view c w \<Longrightarrow> fst (destroy_image drv w c) = Inr ()"
proof -
  have one: "\<exists>c'. destroy_child drv type w c = (Inr (), c')" if "handle_type w = type" "owned type" for type
    by (rule destroy_child_succeeds [OF assms(1-3) that(1) assms(4) that(2)])
  have rs: "resolve_device_child c w type = Inr (device_id, device, n)" if "handle_type w = type" for type
    by (rule ready_resolves(1) [OF assms(1-3) that])
  have w: "w \<noteq> 0" using mapped_nonzero [OF inv_table [OF assms(1)] assms(3)] by simp
  show "handle_type w = OBJECT_PIPELINE \<Longrightarrow> fst (destroy_pipeline drv w c) = Inr ()"
    "handle_type w = OBJECT_PIPELINE_LAYOUT \<Longrightarrow> fst (destroy_pipeline_layout drv w c) = Inr ()"
    "handle_type w = OBJECT_SAMPLER \<Longrightarrow> fst (destroy_sampler drv w c) = Inr ()"
    "handle_type w = OBJECT_SET_LAYOUT \<Longrightarrow> fst (destroy_descriptor_set_layout drv w c) = Inr ()"
    "handle_type w = OBJECT_FENCE \<Longrightarrow> fst (destroy_fence drv w c) = Inr ()"
    using one by (force simp: destroy_pipeline_def destroy_pipeline_layout_def destroy_sampler_def destroy_descriptor_set_layout_def
        destroy_fence_def)+
  show "handle_type w = OBJECT_QUERY_POOL \<Longrightarrow> fst (destroy_query_pool drv w c) = Inr ()"
    "handle_type w = OBJECT_UPDATE_TEMPLATE \<Longrightarrow> fst (destroy_descriptor_update_template drv w c) = Inr ()"
    "handle_type w = OBJECT_BUFFER \<Longrightarrow> fst (destroy_buffer drv w c) = Inr ()"
    "handle_type w = OBJECT_SEMAPHORE \<Longrightarrow> fst (destroy_semaphore drv w c) = Inr ()"
    using one by (force simp: destroy_query_pool_def destroy_descriptor_update_template_def destroy_buffer_def destroy_semaphore_def)+
  show "handle_type w = OBJECT_DEVICE_MEMORY \<Longrightarrow> fst (free_memory drv w c) = Inr ()"
    using one [of OBJECT_DEVICE_MEMORY] rs [of OBJECT_DEVICE_MEMORY] not_mirrored [of c w] w assms(2) by (force simp: free_memory_def ready_def)
  show "handle_type w = OBJECT_IMAGE \<Longrightarrow> \<not> image_has_view c w \<Longrightarrow> fst (destroy_image drv w c) = Inr ()"
    using one [of OBJECT_IMAGE] rs [of OBJECT_IMAGE] by (force simp: destroy_image_def)
  show "handle_type w = OBJECT_QUEUE \<Longrightarrow> fst (remove_object OBJECT_QUEUE w c) = Inr ()"
    using remove_mapped [OF inv_table [OF assms(1)] assms(3)] by (force simp: remove_object_def)
qed

text \<open>The passes of a device, those that views have to precede and those that follow.\<close>

lemma view_succeeds:
  assumes "context_inv c" "ready device_id p device c" "view_of device_id c e" "can_destroy drv device"
    and "objects_map c (he_wire_id e) = Some (he_parent_id e, he_native_bits e)"
  shows "fst (destroy_image_view drv (he_wire_id e) c) = Inr ()"
proof -
  note t = inv_table [OF assms(1)]
  obtain m where im: "lookup c (he_parent_id e) OBJECT_IMAGE = Inr (device_id, m)" and ty: "handle_type (he_wire_id e) = OBJECT_IMAGE_VIEW"
    using assms(3) by (auto simp: view_of_def split: sum.splits)
  have d: "lookup c device_id OBJECT_DEVICE = Inr (p, device)"
    using lookup_mapped [OF t, of device_id OBJECT_DEVICE] assms(2) by (simp add: ready_def)
  have v: "lookup c (he_wire_id e) OBJECT_IMAGE_VIEW = Inr (he_parent_id e, he_native_bits e)"
    using lookup_mapped [OF t ty] assms(5) by simp
  obtain t' where "handle_table_remove (Some (vx_objects c)) (he_wire_id e) OBJECT_IMAGE_VIEW = Inr (t', he_native_bits e)"
    using remove_mapped [OF t assms(5) ty] by blast
  then show ?thesis
    using assms(4) by (simp add: destroy_image_view_def v im d remove_object_def can_destroy_def split: prod.splits)
qed

definition viewless :: "u64 \<Rightarrow> vk_context \<Rightarrow> bool" where
  "viewless device_id c \<longleftrightarrow> (\<forall>v w n m. objects_map c v = Some (w, n) \<longrightarrow> handle_type v = OBJECT_IMAGE_VIEW \<longrightarrow>
     objects_map c w \<noteq> Some (device_id, m))"

lemma viewless_no_view:
  assumes "context_inv c" "viewless device_id c" "objects_map c w = Some (device_id, n)"
  shows "\<not> image_has_view c w"
proof
  assume "image_has_view c w"
  then obtain s where s: "s < 4096" "s < length (ht_entries (vx_objects c))"
      "handle_type (he_wire_id (ht_entries (vx_objects c) ! s)) = OBJECT_IMAGE_VIEW" "he_parent_id (ht_entries (vx_objects c) ! s) = w"
    by (auto simp: image_has_view_def list_ex_iff child_of_def in_set_conv_nth)
  have "he_wire_id (ht_entries (vx_objects c) ! s) \<noteq> 0" using s(3) by (auto simp: handle_type_def)
  then show False
    using entry_mapped [of "vx_objects c" s] s assms unfolding viewless_def context_inv_def by (metis option.inject)
qed

lemma child_passes:
  assumes "object_destroyer act" "2 < depth type"
    and "\<And>c w n. context_inv c \<Longrightarrow> ready device_id p device c \<Longrightarrow> objects_map c w = Some (device_id, n) \<Longrightarrow> handle_type w = type \<Longrightarrow>
      fst (act w c) = Inr ()"
    and "context_inv c" "ready device_id p device c" "child_of type device_id c e"
    and "objects_map c (he_wire_id e) = Some (he_parent_id e, he_native_bits e)"
  shows "fst (act (he_wire_id e) c) = Inr () \<and> ready device_id p device (snd (act (he_wire_id e) c))"
  using assms(3) [OF assms(4,5)] ready_kept [OF assms(1,4,5)] assms(2,6,7) by (auto simp: child_of_def)

lemma before_images_succeed:
  assumes "can_destroy drv device" "(wanted, act) \<in> set (teardown_before_images drv device_id)"
    and "context_inv c" "ready device_id p device c" "wanted c e" "objects_map c (he_wire_id e) = Some (he_parent_id e, he_native_bits e)"
  shows "fst (act (he_wire_id e) c) = Inr () \<and> ready device_id p device (snd (act (he_wire_id e) c))"
proof -
  note pass = child_passes [where device_id = device_id and p = p and device = device and e = e and c = c, OF _ _ _ assms(3,4) _ assms(6)]
  note ok = children_succeed [OF _ _ _ assms(1)] and pools = pool_succeeds [OF _ _ _ assms(1)]
  have view: "fst (destroy_image_view drv (he_wire_id e) c) = Inr () \<and> ready device_id p device (snd (destroy_image_view drv (he_wire_id e) c))"
    if "view_of device_id c e"
    using view_succeeds [OF assms(3,4) that assms(1,6)] ready_kept [OF destroy_image_view_destroyer assms(3,4), of "he_wire_id e"] assms(6) that
    by (auto simp: view_of_def depth_def)
  have three [simp]: "2 < depth OBJECT_PIPELINE" "2 < depth OBJECT_PIPELINE_LAYOUT" "2 < depth OBJECT_QUERY_POOL"
    "2 < depth OBJECT_DESCRIPTOR_POOL" "2 < depth OBJECT_SAMPLER" "2 < depth OBJECT_UPDATE_TEMPLATE" "2 < depth OBJECT_SET_LAYOUT"
    "2 < depth OBJECT_COMMAND_POOL" by (simp_all add: depth_def)
  consider "wanted = child_of OBJECT_PIPELINE device_id" "act = destroy_pipeline drv"
    | "wanted = child_of OBJECT_PIPELINE_LAYOUT device_id" "act = destroy_pipeline_layout drv"
    | "wanted = child_of OBJECT_QUERY_POOL device_id" "act = destroy_query_pool drv"
    | "wanted = child_of OBJECT_DESCRIPTOR_POOL device_id" "act = destroy_descriptor_pool drv"
    | "wanted = child_of OBJECT_SAMPLER device_id" "act = destroy_sampler drv"
    | "wanted = child_of OBJECT_UPDATE_TEMPLATE device_id" "act = destroy_descriptor_update_template drv"
    | "wanted = child_of OBJECT_SET_LAYOUT device_id" "act = destroy_descriptor_set_layout drv"
    | "wanted = child_of OBJECT_COMMAND_POOL device_id" "act = destroy_command_pool drv"
    | "wanted = view_of device_id" "act = destroy_image_view drv"
    using assms(2) by (auto simp: teardown_before_images_def)
  then show ?thesis
  proof cases
    case 1 then show ?thesis using pass [OF leaf_destroyers(4) three(1)] ok(1) assms(5) by blast
  next
    case 2 then show ?thesis using pass [OF leaf_destroyers(3) three(2)] ok(2) assms(5) by blast
  next
    case 3 then show ?thesis using pass [OF destroy_query_pool_destroyer three(3)] ok(3) assms(5) by blast
  next
    case 4 then show ?thesis using pass [OF destroy_descriptor_pool_destroyer three(4)] pools(2) assms(5) by blast
  next
    case 5 then show ?thesis using pass [OF leaf_destroyers(2) three(5)] ok(4) assms(5) by blast
  next
    case 6 then show ?thesis using pass [OF destroy_descriptor_update_template_destroyer three(6)] ok(5) assms(5) by blast
  next
    case 7 then show ?thesis using pass [OF leaf_destroyers(1) three(7)] ok(6) assms(5) by blast
  next
    case 8 then show ?thesis using pass [OF destroy_command_pool_destroyer three(8)] pools(1) assms(5) by blast
  next
    case 9 then show ?thesis using view assms(5) by blast
  qed
qed

lemma after_images_succeed:
  assumes "can_destroy drv device" "(wanted, act) \<in> set (teardown_after_images drv device_id)"
    and "context_inv c" "ready device_id p device c" "wanted c e" "objects_map c (he_wire_id e) = Some (he_parent_id e, he_native_bits e)"
  shows "fst (act (he_wire_id e) c) = Inr () \<and> ready device_id p device (snd (act (he_wire_id e) c))"
proof -
  note pass = child_passes [where device_id = device_id and p = p and device = device and e = e and c = c, OF _ _ _ assms(3,4) _ assms(6)]
  note ok = children_succeed [OF _ _ _ assms(1)]
  have three: "2 < depth OBJECT_BUFFER" "2 < depth OBJECT_DEVICE_MEMORY" "2 < depth OBJECT_FENCE" "2 < depth OBJECT_SEMAPHORE"
    "2 < depth OBJECT_QUEUE" by (simp_all add: depth_def)
  have queue: "object_destroyer (remove_object OBJECT_QUEUE)" by (rule remove_object_destroyer) simp_all
  consider "wanted = child_of OBJECT_BUFFER device_id" "act = destroy_buffer drv"
    | "wanted = child_of OBJECT_DEVICE_MEMORY device_id" "act = free_memory drv"
    | "wanted = child_of OBJECT_FENCE device_id" "act = destroy_fence drv"
    | "wanted = child_of OBJECT_SEMAPHORE device_id" "act = destroy_semaphore drv"
    | "wanted = child_of OBJECT_QUEUE device_id" "act = remove_object OBJECT_QUEUE"
    using assms(2) by (auto simp: teardown_after_images_def)
  then show ?thesis
  proof cases
    case 1 then show ?thesis using pass [OF destroy_buffer_destroyer three(1)] ok(7) assms(5) by blast
  next
    case 2 then show ?thesis using pass [OF free_memory_destroyer three(2)] ok(8) assms(5) by blast
  next
    case 3 then show ?thesis using pass [OF destroy_fence_destroyer three(3)] ok(9) assms(5) by blast
  next
    case 4 then show ?thesis using pass [OF destroy_semaphore_destroyer three(4)] ok(10) assms(5) by blast
  next
    case 5 then show ?thesis using pass [OF queue three(5)] ok(11) assms(5) by blast
  qed
qed

lemma views_gone:
  assumes "context_inv ctx" "sweeps (teardown_before_images drv device_id) ctx = (Inr (), c)"
  shows "viewless device_id c"
  unfolding viewless_def
proof (intro allI impI notI)
  fix v w n m
  assume v: "objects_map c v = Some (w, n)" "handle_type v = OBJECT_IMAGE_VIEW" "objects_map c w = Some (device_id, m)"
  have "\<forall>(wanted, act) \<in> set (teardown_before_images drv device_id). object_sweep act wanted device_id"
    using teardown_sweeps [of drv device_id] by (auto simp: teardown_order_def)
  note sp = sweeps_spec [OF assms this]
  have "handle_type w = OBJECT_IMAGE" using only_children [OF sp(1) v(1)] v(2,3) by (simp add: parent_type_def)
  then have look: "lookup c w OBJECT_IMAGE = Inr (device_id, m)" using lookup_mapped [OF inv_table [OF sp(1)]] v(3) by simp
  obtain s where s: "s < 4096" "he_wire_id (ht_entries (vx_objects c) ! s) = v" "he_parent_id (ht_entries (vx_objects c) ! s) = w"
    using swept_entry [OF sp(1) v(1)] .
  have "(view_of device_id, destroy_image_view drv) \<in> set (teardown_before_images drv device_id)" by (simp add: teardown_before_images_def)
  from sp(3) [OF refl this s(1)] show False using look s v(2) by (simp add: view_of_def)
qed

lemma teardown_succeeds:
  assumes "context_inv ctx" "ready device_id p device ctx" "can_destroy drv device"
  shows "\<exists>c. sweeps (teardown_order drv device_id) ctx = (Inr (), c) \<and> ready device_id p device c"
proof -
  have sw: "\<forall>(wanted, act) \<in> set xs. object_sweep act wanted device_id" if "set xs \<subseteq> set (teardown_order drv device_id)" for xs
    using that teardown_sweeps [of drv device_id] by blast
  obtain r1 c1 where s1: "sweeps (teardown_before_images drv device_id) ctx = (r1, c1)" by fastforce
  have sw1: "\<forall>(wanted, act) \<in> set (teardown_before_images drv device_id). object_sweep act wanted device_id"
    by (rule sw) (auto simp: teardown_order_def)
  have "fst (sweeps (teardown_before_images drv device_id) ctx) = Inr () \<and>
      ready device_id p device (snd (sweeps (teardown_before_images drv device_id) ctx))"
    by (rule sweeps_succeed [where Q = "ready device_id p device", OF assms(1,2) sw1]) (rule before_images_succeed [OF assms(3)])
  then have q1: "r1 = Inr ()" "ready device_id p device c1" using s1 by simp_all
  have i1: "context_inv c1" by (rule sweeps_spec(1) [OF assms(1) s1 sw1])
  have v1: "viewless device_id c1" by (rule views_gone [OF assms(1) s1 [unfolded q1(1)]])
  let ?image = "[(child_of OBJECT_IMAGE device_id, destroy_image drv)]"
  obtain r2 c2 where s2: "sweeps ?image c1 = (r2, c2)" by fastforce
  have sw2: "\<forall>(wanted, act) \<in> set ?image. object_sweep act wanted device_id" by (rule sw) (auto simp: teardown_order_def)
  have "fst (sweeps ?image c1) = Inr () \<and> (ready device_id p device (snd (sweeps ?image c1)) \<and> viewless device_id (snd (sweeps ?image c1)))"
  proof (rule sweeps_succeed [where Q = "\<lambda>c. ready device_id p device c \<and> viewless device_id c", OF i1 _ sw2])
    fix wanted act c e
    assume h: "(wanted, act) \<in> set ?image" "context_inv c" "ready device_id p device c \<and> viewless device_id c" "wanted c e"
      "objects_map c (he_wire_id e) = Some (he_parent_id e, he_native_bits e)"
    have e: "act = destroy_image drv" "handle_type (he_wire_id e) = OBJECT_IMAGE" "he_parent_id e = device_id"
      using h(1,4) by (auto simp: child_of_def)
    have m: "objects_map c (he_wire_id e) = Some (device_id, he_native_bits e)" using h(5) e(3) by simp
    have "fst (destroy_image drv (he_wire_id e) c) = Inr ()"
      using children_succeed(12) [OF h(2) _ m assms(3) e(2)] viewless_no_view [OF h(2) _ m] h(3) by blast
    moreover have "ready device_id p device (snd (destroy_image drv (he_wire_id e) c))"
      using ready_kept [OF destroy_image_destroyer h(2)] h(3) m e(2) by (simp add: depth_def)
    moreover have "viewless device_id (snd (destroy_image drv (he_wire_id e) c))"
      using h(3) prunes_mapped [OF object_destroyer.act_prunes [OF destroy_image_destroyer h(2) prod.collapse [symmetric]]]
      unfolding viewless_def by blast
    ultimately show "fst (act (he_wire_id e) c) = Inr () \<and>
        (ready device_id p device (snd (act (he_wire_id e) c)) \<and> viewless device_id (snd (act (he_wire_id e) c)))"
      using e(1) by simp
  qed (use q1(2) v1 in simp)
  then have q2: "r2 = Inr ()" "ready device_id p device c2" using s2 by simp_all
  have i2: "context_inv c2" by (rule sweeps_spec(1) [OF i1 s2 sw2])
  obtain r3 c3 where s3: "sweeps (teardown_after_images drv device_id) c2 = (r3, c3)" by fastforce
  have sw3: "\<forall>(wanted, act) \<in> set (teardown_after_images drv device_id). object_sweep act wanted device_id"
    by (rule sw) (auto simp: teardown_order_def)
  have "fst (sweeps (teardown_after_images drv device_id) c2) = Inr () \<and>
      ready device_id p device (snd (sweeps (teardown_after_images drv device_id) c2))"
    by (rule sweeps_succeed [where Q = "ready device_id p device", OF i2 q2(2) sw3]) (rule after_images_succeed [OF assms(3)])
  then have "r3 = Inr ()" "ready device_id p device c3" using s3 by simp_all
  then show ?thesis
    using s1 q1(1) s2 q2(1) s3 unfolding teardown_order_def sweeps_append by simp
qed

lemma destroy_device_succeeds:
  assumes "context_inv ctx" "lookup ctx device_id OBJECT_DEVICE = Inr (p, device)" "can_destroy drv device" "vx_get_device_proc_addr ctx"
    and "list_all (\<lambda>m. mir_memory_id m = 0) (vx_memory_mirrors ctx)"
  shows "fst (destroy_device drv device_id ctx) = Inr ()"
proof -
  note t = inv_table [OF assms(1)]
  have rd: "ready device_id p device ctx"
    using assms(2,5) lookup_has_type [OF t assms(2)] by (simp add: ready_def lookup_iff [OF t])
  obtain c where sw: "sweeps (teardown_order drv device_id) ctx = (Inr (), c)" and rc: "ready device_id p device c"
    using teardown_succeeds [OF assms(1) rd assms(3)] by blast
  have i: "context_inv c" by (rule sweeps_spec(1) [OF assms(1) sw teardown_sweeps])
  obtain t' where rm: "handle_table_remove (Some (vx_objects c)) device_id OBJECT_DEVICE = Inr (t', device)"
    using remove_mapped [OF inv_table [OF i]] rc unfolding ready_def by blast
  have none: "destroy_swapchains drv device_id [0..<length (vx_swapchain_metadata ctx)] ctx = (0, ctx)"
    by (rule no_swapchains [OF assms(1)]) auto
  have "\<not> list_ex (\<lambda>m. mir_memory_id m \<noteq> 0 \<and> mir_device_id m = device_id) (vx_memory_mirrors ctx)"
    using assms(5) by (auto simp: list_ex_iff list_all_iff)
  then show ?thesis
    using assms(3,4) by (simp add: destroy_device_def assms(2) none sw remove_object_def rm can_destroy_def split: prod.splits)
qed

subsection \<open>Runs\<close>

text \<open>A context as it is created: an empty table, cleared arrays, serials from one.\<close>

definition no_mirror :: memory_mirror_metadata where
  "no_mirror = \<lparr>mir_device_id = 0, mir_memory_id = 0\<rparr>"

definition new_context :: "bool \<Rightarrow> string list \<Rightarrow> (nat \<Rightarrow> wsi_frame_ring) \<Rightarrow> vk_context result" where
  "new_context get_device_proc_addr exposed pages =
     (case handle_table_init (Some \<lparr>ht_entries = [], ht_capacity = 0, ht_count = 0\<rparr>) (replicate 4096 zero_entry) 4096 of
       Inl e \<Rightarrow> Inl e
     | Inr objects \<Rightarrow> Inr
         \<lparr>vx_get_device_proc_addr = get_device_proc_addr, vx_destroy_instance = False, vx_exposed_extensions = exposed,
          vx_objects = objects, vx_next_serial = (\<lambda>_. 1), vx_device_metadata = replicate 4096 no_device,
          vx_memory_metadata = replicate 4096 no_memory, vx_memory_mirrors = replicate 64 no_mirror,
          vx_buffer_metadata = replicate 4096 no_buffer, vx_semaphore_metadata = replicate 4096 no_semaphore,
          vx_query_pool_metadata = replicate 4096 no_query_pool, vx_image_metadata = replicate 4096 no_image,
          vx_template_metadata = replicate 256 no_template,
          vx_swapchain_metadata = replicate 4 (no_swapchain\<lparr>sc_control_fd := 0\<rparr>),
          vx_control_pages = pages, vx_events = []\<rparr>)"

lemma new_context_inv: "new_context g exposed pages = Inr ctx \<Longrightarrow> context_inv ctx \<and> objects_map ctx = Map.empty"
proof -
  assume n: "new_context g exposed pages = Inr ctx"
  then obtain t where t: "handle_table_init (Some \<lparr>ht_entries = [], ht_capacity = 0, ht_count = 0\<rparr>) (replicate 4096 zero_entry) 4096 = Inr t"
      "vx_objects ctx = t" "vx_events ctx = []" "vx_swapchain_metadata ctx = replicate 4 (no_swapchain\<lparr>sc_control_fd := 0\<rparr>)"
    by (auto simp: new_context_def split: sum.splits)
  have "clear_entries t"
    using t(1) by (auto simp: handle_table_init_def nonnull1_def clear_entries_def nth_append zero_entry_def split: if_splits)
  then show ?thesis
    using handle_table_init_inv [OF t(1)] t
    by (auto simp: context_inv_def parents_ok_def events_ok_def live_objects_def natives_def no_swapchain_def list_all_iff)
qed

lemma new_context_exists: "\<exists>ctx. new_context g exposed pages = Inr ctx"
proof -
  have "(4096 :: nat) AND mask 12 = take_bit 12 4096" "mask 12 = (4095 :: nat)"
    by (simp_all only: take_bit_eq_mask mask_eq_exp_minus_1) simp
  then have "(4096 :: nat) AND (4096 - 1) = 0" by (simp add: take_bit_eq_mod)
  moreover have "replicate 4096 zero_entry \<noteq> []" by simp
  ultimately show ?thesis unfolding new_context_def handle_table_init_def nonnull1_def by simp
qed

text \<open>A step is one request, with any arguments; the answer may be an error.\<close>

inductive vk_step :: "vk_driver \<Rightarrow> vk_context \<Rightarrow> vk_context \<Rightarrow> bool" for drv where
  create_instance_step: "vk_step drv ctx (snd (create_instance drv request enabled ctx))"
| create_device_step: "vk_step drv ctx (snd (create_device drv request enabled ctx))"
| create_packed: "vk_step drv ctx (snd (create_device_packed drv request enabled ctx))"
| queue: "vk_step drv ctx (snd (get_device_queue drv request ctx))"
| submit_empty: "vk_step drv ctx (snd (queue_submit_empty drv w ctx))"
| queue_idle: "vk_step drv ctx (snd (queue_wait_idle drv w ctx))"
| device_idle: "vk_step drv ctx (snd (device_wait_idle drv w ctx))"
| create_pool: "vk_step drv ctx (snd (create_command_pool drv request ctx))"
| destroy_pool: "vk_step drv ctx (snd (destroy_command_pool drv w ctx))"
| reset_pool: "vk_step drv ctx (snd (reset_command_pool drv request ctx))"
| allocate_buffer: "vk_step drv ctx (snd (allocate_command_buffer drv request ctx))"
| free_buffer: "vk_step drv ctx (snd (free_command_buffer drv request ctx))"
| begin_buffer: "vk_step drv ctx (snd (begin_command_buffer drv request ctx))"
| end_buffer: "vk_step drv ctx (snd (end_command_buffer drv w ctx))"
| create_query: "vk_step drv ctx (snd (create_query_pool drv request ctx))"
| destroy_query: "vk_step drv ctx (snd (destroy_query_pool drv w ctx))"
| query_results: "vk_step drv ctx (snd (get_query_pool_results drv request ctx))"
| reset_query: "vk_step drv ctx (snd (reset_query_pool drv request ctx))"
| create_fence_step: "vk_step drv ctx (snd (create_fence drv request ctx))"
| destroy_fence_step: "vk_step drv ctx (snd (destroy_fence drv w ctx))"
| fence_status: "vk_step drv ctx (snd (get_fence_status drv w ctx))"
| wait_fence_step: "vk_step drv ctx (snd (wait_fence drv request ctx))"
| reset_fence_step: "vk_step drv ctx (snd (reset_fence drv w ctx))"
| create_semaphore_step: "vk_step drv ctx (snd (create_semaphore drv request ctx))"
| destroy_semaphore_step: "vk_step drv ctx (snd (destroy_semaphore drv w ctx))"
| semaphore_counter: "vk_step drv ctx (snd (get_semaphore_counter drv w ctx))"
| wait_semaphores_step: "vk_step drv ctx (snd (wait_semaphores drv request ctx))"
| signal_semaphore_step: "vk_step drv ctx (snd (signal_semaphore drv request ctx))"
| create_layout: "vk_step drv ctx (snd (create_descriptor_set_layout drv request ctx))"
| destroy_layout: "vk_step drv ctx (snd (destroy_descriptor_set_layout drv w ctx))"
| create_template: "vk_step drv ctx (snd (create_descriptor_update_template drv request ctx))"
| destroy_template: "vk_step drv ctx (snd (destroy_descriptor_update_template drv w ctx))"
| create_descriptors: "vk_step drv ctx (snd (create_descriptor_pool drv request ctx))"
| destroy_descriptors: "vk_step drv ctx (snd (destroy_descriptor_pool drv w ctx))"
| reset_descriptors: "vk_step drv ctx (snd (reset_descriptor_pool drv request ctx))"
| allocate_sets: "vk_step drv ctx (snd (allocate_descriptor_sets drv request ctx))"
| create_sampler_step: "vk_step drv ctx (snd (create_sampler drv request ctx))"
| destroy_sampler_step: "vk_step drv ctx (snd (destroy_sampler drv w ctx))"
| create_pipeline_layout_step: "vk_step drv ctx (snd (create_pipeline_layout drv request ctx))"
| create_graphics_pipeline_step: "vk_step drv ctx (snd (create_graphics_pipeline drv request ctx))"
| destroy_pipeline_layout_step: "vk_step drv ctx (snd (destroy_pipeline_layout drv w ctx))"
| destroy_pipeline_step: "vk_step drv ctx (snd (destroy_pipeline drv w ctx))"
| create_buffer_step: "vk_step drv ctx (snd (create_buffer drv request ctx))"
| destroy_buffer_step: "vk_step drv ctx (snd (destroy_buffer drv w ctx))"
| buffer_requirements: "vk_step drv ctx (snd (get_buffer_requirements drv w ctx))"
| buffer_requirements_2: "vk_step drv ctx (snd (get_buffer_requirements_2 drv request ctx))"
| device_buffer_requirements: "vk_step drv ctx (snd (get_device_buffer_requirements drv request ctx))"
| buffer_address: "vk_step drv ctx (snd (get_buffer_device_address drv request ctx))"
| bind_buffer: "vk_step drv ctx (snd (bind_buffer_memory drv request ctx))"
| allocate_memory_step: "vk_step drv ctx (snd (allocate_memory drv request ctx))"
| allocate_extended: "vk_step drv ctx (snd (allocate_memory_extended drv request ctx))"
| free_memory_step: "vk_step drv ctx (snd (free_memory drv w ctx))"
| create_image_step: "vk_step drv ctx (snd (create_image drv request ctx))"
| destroy_image_step: "vk_step drv ctx (snd (destroy_image drv w ctx))"
| image_requirements: "vk_step drv ctx (snd (get_image_requirements drv w ctx))"
| image_requirements_2: "vk_step drv ctx (snd (get_image_requirements_2 drv request ctx))"
| bind_image: "vk_step drv ctx (snd (bind_image_memory drv request ctx))"
| create_view: "vk_step drv ctx (snd (create_image_view drv request ctx))"
| destroy_view: "vk_step drv ctx (snd (destroy_image_view drv w ctx))"
| enumerate: "vk_step drv ctx (snd (enumerate_physical_devices drv w ctx))"
| destroy_device_step: "vk_step drv ctx (snd (destroy_device drv w ctx))"
| destroy_instance_step: "vk_step drv ctx (snd (destroy_instance drv w ctx))"

inductive vk_reachable :: "vk_driver \<Rightarrow> vk_context \<Rightarrow> bool" for drv where
  start: "new_context g exposed pages = Inr ctx \<Longrightarrow> vk_reachable drv ctx"
| step: "vk_reachable drv ctx \<Longrightarrow> vk_step drv ctx ctx' \<Longrightarrow> vk_reachable drv ctx'"

lemma create_device_keeps:
  "has_destroyers drv \<Longrightarrow> context_inv ctx \<Longrightarrow> context_inv (snd (create_device drv request enabled ctx))"
  by (simp add: create_device_def create_device_packed_keeps)

lemma step_keeps: "vk_step drv ctx ctx' \<Longrightarrow> has_destroyers drv \<Longrightarrow> context_inv ctx \<Longrightarrow> context_inv ctx'"
  by (induction rule: vk_step.induct) (simp_all add: keeps create_instance_keeps create_device_keeps create_device_packed_keeps)

lemma reachable_inv: "vk_reachable drv ctx \<Longrightarrow> has_destroyers drv \<Longrightarrow> context_inv ctx"
  by (induction rule: vk_reachable.induct) (auto simp: step_keeps dest: new_context_inv)

subsection \<open>A run\<close>

text \<open>
  A driver that answers every call with success and the words 1 and 1: one instance, one physical device
  with one queue family, one device.
\<close>

definition sample_driver :: vk_driver where
  "sample_driver = \<lparr>drv_proc = (\<lambda>_ _. True), drv_answer = (\<lambda>_ _ _ _. (0, [1, 1])), drv_system = (\<lambda>_ _ _. None)\<rparr>"

definition sample_instance_request :: vulkan_instance_create_request where
  "sample_instance_request = \<lparr>icr_api_version = 0, icr_flags = 0, icr_enabled_layer_count = 0, icr_enabled_extension_count = 0\<rparr>"

definition sample_device_request :: "u64 \<Rightarrow> vulkan_device_create_request" where
  "sample_device_request physical_device_id = \<lparr>dcr_physical_device_id = physical_device_id, dcr_flags = 0, dcr_queue_family_index = 0,
     dcr_queue_count = 1, dcr_queue_priority_bits = 0, dcr_enabled_layer_count = 0, dcr_enabled_extension_count = 0\<rparr>"

lemma sample_call [simp]:
  "vk_call sample_driver f device args ctx = (0, [1, 1], ctx\<lparr>vx_events := vx_events ctx @
     [\<lparr>ev_function = f, ev_device = device, ev_args = args, ev_result = 0, ev_outputs = [1, 1]\<rparr>]\<rparr>)"
  by (simp add: vk_call_def sample_driver_def)

lemma sample_proc [simp]: "drv_proc sample_driver device f"
  by (simp add: sample_driver_def)

lemma sample_outputs [simp]: "out_word [1, 1] 0 = 1" "out_word [1, 1] (Suc 0) = 1"
  by (simp_all add: out_word_def)

lemma sample_destroyers: "has_destroyers sample_driver" "can_destroy sample_driver device"
  by (simp_all add: has_destroyers_def can_destroy_def)

lemma adopt_fresh:
  assumes "table_inv (vx_objects ctx)" "ht_capacity (vx_objects ctx) = 4096" "card (dom (objects_map ctx)) < 4096"
    and "insert_args_ok (handle_id type (vx_next_serial ctx type)) parent n"
    and "handle_id type (vx_next_serial ctx type) \<notin> dom (objects_map ctx)"
  obtains t where "adopt_object type parent n ctx = (Inr (handle_id type (vx_next_serial ctx type)),
      ctx\<lparr>vx_next_serial := (vx_next_serial ctx)(type := vx_next_serial ctx type + 1), vx_objects := t\<rparr>)"
    "handle_map t = (objects_map ctx)(handle_id type (vx_next_serial ctx type) \<mapsto> (parent, n))"
proof -
  have "ht_count (vx_objects ctx) < ht_capacity (vx_objects ctx)" using handle_map_card [OF assms(1)] assms(2,3) by simp
  then show thesis
    using handle_table_insert_ok [OF assms(1,4) _ assms(5)] that by (auto simp: adopt_object_def Let_def)
qed

lemma sample_ids:
  "insert_args_ok (handle_id OBJECT_INSTANCE 1) 0 1"
  "insert_args_ok (handle_id OBJECT_PHYSICAL_DEVICE 1) (handle_id OBJECT_INSTANCE 1) 1"
  "insert_args_ok (handle_id OBJECT_DEVICE 1) (handle_id OBJECT_PHYSICAL_DEVICE 1) 1"
  "handle_id OBJECT_INSTANCE 1 \<noteq> handle_id OBJECT_PHYSICAL_DEVICE 1" "handle_id OBJECT_INSTANCE 1 \<noteq> handle_id OBJECT_DEVICE 1"
  "handle_id OBJECT_PHYSICAL_DEVICE 1 \<noteq> handle_id OBJECT_DEVICE 1"
  "handle_type (handle_id OBJECT_INSTANCE 1) = OBJECT_INSTANCE"
  "handle_type (handle_id OBJECT_PHYSICAL_DEVICE 1) = OBJECT_PHYSICAL_DEVICE"
  "handle_type (handle_id OBJECT_DEVICE 1) = OBJECT_DEVICE"
  by code_simp+

abbreviation (input) sample_instance :: u64 where "sample_instance \<equiv> handle_id OBJECT_INSTANCE 1"
abbreviation (input) sample_physical :: u64 where "sample_physical \<equiv> handle_id OBJECT_PHYSICAL_DEVICE 1"
abbreviation (input) sample_device :: u64 where "sample_device \<equiv> handle_id OBJECT_DEVICE 1"

text \<open>What the next request of the run depends on.\<close>

definition sample_state :: "vk_context \<Rightarrow> (u64 \<rightharpoonup> u64 \<times> u64) \<Rightarrow> bool" where
  "sample_state ctx m \<longleftrightarrow> vk_reachable sample_driver ctx \<and> objects_map ctx = m \<and> vx_get_device_proc_addr ctx \<and>
     (\<forall>t. (\<forall>w \<in> dom m. handle_type w \<noteq> t) \<longrightarrow> vx_next_serial ctx t = 1) \<and>
     device_metadata_slot ctx 0 \<noteq> None \<and> list_all (\<lambda>m. mir_memory_id m = 0) (vx_memory_mirrors ctx)"

lemma sample_start: "\<exists>ctx. sample_state ctx Map.empty"
proof -
  obtain ctx where c: "new_context True [] pages = Inr ctx" using new_context_exists by blast
  have "vx_device_metadata ctx = replicate 4096 no_device" "vx_memory_mirrors ctx = replicate 64 no_mirror" "vx_get_device_proc_addr ctx"
      "vx_next_serial ctx = (\<lambda>_. 1)"
    using c by (auto simp: new_context_def split: sum.splits)
  moreover have "slot_scan dm_device_id (no_device # ms) 0 0 None = Some 0" for ms by (simp add: no_device_def)
  moreover have "replicate 4096 no_device = no_device # replicate 4095 no_device" by (simp flip: replicate_Suc)
  ultimately show ?thesis
    using new_context_inv [OF c] vk_reachable.start [OF c]
    by (auto simp: sample_state_def device_metadata_slot_def no_mirror_def list_all_iff intro!: exI [of _ ctx])
qed

lemma sample_facts:
  assumes "sample_state ctx m"
  shows "vk_reachable sample_driver ctx" "context_inv ctx" "objects_map ctx = m" "vx_get_device_proc_addr ctx" "table_inv (vx_objects ctx)"
    "ht_capacity (vx_objects ctx) = 4096" "device_metadata_slot ctx 0 \<noteq> None" "list_all (\<lambda>m. mir_memory_id m = 0) (vx_memory_mirrors ctx)"
    "\<forall>w \<in> dom m. handle_type w \<noteq> t \<Longrightarrow> vx_next_serial ctx t = 1"
  using assms reachable_inv [OF _ sample_destroyers(1)] by (auto simp: sample_state_def context_inv_def)

lemma sample_instance_step: "\<exists>ctx. sample_state ctx [sample_instance \<mapsto> (0, 1)]"
proof -
  obtain ctx where c: "sample_state ctx Map.empty" using sample_start by blast
  note f = sample_facts [OF c]
  let ?e = "\<lparr>ev_function = Vk_Create OBJECT_INSTANCE, ev_device = None, ev_args = [0, 0], ev_result = 0, ev_outputs = [1, 1]\<rparr>"
  let ?c = "ctx\<lparr>vx_events := vx_events ctx @ [?e], vx_destroy_instance := True, vx_get_device_proc_addr := True\<rparr>"
  have serial: "vx_next_serial ctx OBJECT_INSTANCE = 1" by (rule f(9)) simp
  obtain t where a: "adopt_object OBJECT_INSTANCE 0 1 ?c = (Inr sample_instance,
      ?c\<lparr>vx_next_serial := (vx_next_serial ctx)(OBJECT_INSTANCE := 2), vx_objects := t\<rparr>)" "handle_map t = [sample_instance \<mapsto> (0, 1)]"
    using adopt_fresh [of ?c OBJECT_INSTANCE 0 1] f(3,5,6) serial sample_ids(1) by auto
  have room: "ht_count (vx_objects ctx) \<noteq> ht_capacity (vx_objects ctx)" using handle_map_card [OF f(5)] f(3,6) by simp
  let ?n = "?c\<lparr>vx_next_serial := (vx_next_serial ctx)(OBJECT_INSTANCE := 2), vx_objects := t\<rparr>"
  have "snd (create_instance sample_driver sample_instance_request None ctx) = ?n"
    using room a(1) by (simp add: create_instance_def sample_instance_request_def Let_def)
  then have "vk_reachable sample_driver ?n" using vk_reachable.step [OF f(1) create_instance_step] by metis
  then have "sample_state ?n [sample_instance \<mapsto> (0, 1)]"
    using f(7,8) f(9) a(2) sample_ids(7) by (auto simp: sample_state_def device_metadata_slot_def)
  then show ?thesis by blast
qed

lemma no_existing:
  assumes "context_inv ctx" "type \<noteq> 0" "\<And>w v. objects_map ctx w = Some v \<Longrightarrow> handle_type w \<noteq> type"
  shows "existing_id ctx type parent n = 0"
proof -
  have "find (\<lambda>e. handle_type (he_wire_id e) = type \<and> he_parent_id e = parent \<and> he_native_bits e = n)
      (take 4096 (ht_entries (vx_objects ctx))) = None"
    unfolding find_None_iff
  proof
    assume "\<exists>e. e \<in> set (take 4096 (ht_entries (vx_objects ctx))) \<and>
      handle_type (he_wire_id e) = type \<and> he_parent_id e = parent \<and> he_native_bits e = n"
    then obtain s where s: "s < 4096" "handle_type (he_wire_id (ht_entries (vx_objects ctx) ! s)) = type"
      by (auto simp: in_set_conv_nth)
    have "he_wire_id (ht_entries (vx_objects ctx) ! s) \<noteq> 0" using s(2) assms(2) by (auto simp: handle_type_def)
    then show False using entry_mapped [of "vx_objects ctx" s] s assms(1,3) by (auto simp: context_inv_def)
  qed
  then show ?thesis by (simp add: existing_id_def)
qed

lemma sample_physical_step:
  "\<exists>ctx. sample_state ctx [sample_instance \<mapsto> (0, 1), sample_physical \<mapsto> (sample_instance, 1)]"
proof -
  let ?m = "[sample_instance \<mapsto> (0 :: u64, 1 :: u64)]"
  obtain ctx where c: "sample_state ctx ?m" using sample_instance_step by blast
  note f = sample_facts [OF c]
  let ?f = "Vk_Call ''vkEnumeratePhysicalDevices''"
  let ?c = "ctx\<lparr>vx_events := vx_events ctx @
     [\<lparr>ev_function = ?f, ev_device = None, ev_args = [1], ev_result = 0, ev_outputs = [1, 1]\<rparr>,
      \<lparr>ev_function = ?f, ev_device = None, ev_args = [1, 1], ev_result = 0, ev_outputs = [1, 1]\<rparr>]\<rparr>"
  have look: "lookup ctx sample_instance OBJECT_INSTANCE = Inr (0, 1)" using lookup_mapped [OF f(5) sample_ids(7)] f(3) by simp
  have serial: "vx_next_serial ctx OBJECT_PHYSICAL_DEVICE = 1" by (rule f(9)) (simp add: sample_ids)
  obtain t where a: "adopt_object OBJECT_PHYSICAL_DEVICE sample_instance 1 ?c = (Inr sample_physical,
      ?c\<lparr>vx_next_serial := (vx_next_serial ctx)(OBJECT_PHYSICAL_DEVICE := 2), vx_objects := t\<rparr>)"
      "handle_map t = ?m(sample_physical \<mapsto> (sample_instance, 1))"
    using adopt_fresh [of ?c OBJECT_PHYSICAL_DEVICE sample_instance 1] f(3,5,6) serial sample_ids by auto
  have "existing_id ctx OBJECT_PHYSICAL_DEVICE sample_instance 1 = 0"
    by (rule no_existing [OF f(2)]) (auto simp: f(3) sample_ids split: if_splits)
  then have ex: "existing_id ?c OBJECT_PHYSICAL_DEVICE sample_instance 1 = 0" by (simp add: existing_id_def)
  let ?n = "?c\<lparr>vx_next_serial := (vx_next_serial ctx)(OBJECT_PHYSICAL_DEVICE := 2), vx_objects := t\<rparr>"
  have "snd (enumerate_physical_devices sample_driver sample_instance ctx) = ?n"
    using a(1) ex by (simp add: enumerate_physical_devices_def look Let_def existing_physical_device_id_def)
  then have "vk_reachable sample_driver ?n" using vk_reachable.step [OF f(1) vk_step.enumerate] by metis
  then have "sample_state ?n (?m(sample_physical \<mapsto> (sample_instance, 1)))"
    using f(4,7,8) f(9) a(2) sample_ids by (auto simp: sample_state_def device_metadata_slot_def)
  then show ?thesis by blast
qed

lemma events_resolve [simp]: "resolve_physical_device (ctx\<lparr>vx_events := es\<rparr>) w = resolve_physical_device ctx w"
  by (simp add: resolve_physical_device_def lookup_def split: sum.splits)

text \<open>The run that creates a device.\<close>

lemma vk_sample_run:
  "\<exists>ctx. vk_reachable sample_driver ctx \<and> vx_get_device_proc_addr ctx \<and> list_all (\<lambda>m. mir_memory_id m = 0) (vx_memory_mirrors ctx) \<and>
     objects_map ctx = [sample_instance \<mapsto> (0, 1), sample_physical \<mapsto> (sample_instance, 1), sample_device \<mapsto> (sample_physical, 1)]"
proof -
  let ?m = "[sample_instance \<mapsto> (0 :: u64, 1 :: u64), sample_physical \<mapsto> (sample_instance, 1)]"
  obtain ctx where c: "sample_state ctx ?m" using sample_physical_step by blast
  note f = sample_facts [OF c]
  have rs: "resolve_physical_device ctx sample_physical = Inr (1, 1)"
    using lookup_mapped [OF f(5) sample_ids(8), of "(sample_instance, 1)"] lookup_mapped [OF f(5) sample_ids(7), of "(0, 1)"] f(3) sample_ids
    by (simp add: resolve_physical_device_def)
  have room: "ht_count (vx_objects ctx) \<noteq> ht_capacity (vx_objects ctx)"
    using handle_map_card [OF f(5)] f(3,6) sample_ids(4) by simp
  let ?r = "\<lparr>dcp_physical_device_id = sample_physical, dcp_flags = 0, dcp_queue_create_info_count = 1, dcp_queue_priority_count = 1,
     dcp_enabled_layer_count = 0, dcp_enabled_extension_count = 0, dcp_enabled_feature_structs = 0, dcp_enabled_features = no_core_features,
     dcp_enabled_base_features = replicate BASE_FEATURES 0,
     dcp_queue_create_infos = fill_to MAX_DEVICE_QUEUE_CREATE_INFOS no_queue_info
       [\<lparr>qci_flags = 0, qci_queue_family_index = 0, qci_queue_count = 1, qci_first_priority = 0\<rparr>],
     dcp_queue_priority_bits = fill_to MAX_DEVICE_QUEUE_PRIORITIES 0 [0], dcp_enabled_extensions = []\<rparr>"
  have ok: "device_request_ok ?r None" by (simp add: device_request_ok_def fill_to_def priority_ok_def)
  have q1: "\<exists>es. get_physical_device_properties sample_driver sample_physical ctx = (Inr 1, ctx\<lparr>vx_events := es\<rparr>)"
  proof -
    have "list_ex (\<lambda>i. out_word [1, 1] (i + 1) = 0) [0..<256]" unfolding list_ex_iff by (intro bexI [of _ 9]) (auto simp: out_word_def)
    then show ?thesis by (auto simp: get_physical_device_properties_def rs)
  qed
  have q2: "\<exists>es' counts. get_queue_family_properties sample_driver sample_physical (ctx\<lparr>vx_events := es\<rparr>) =
      (Inr (1, counts), ctx\<lparr>vx_events := es'\<rparr>) \<and> counts ! 0 = 1" for es
    by (simp add: get_queue_family_properties_def events_resolve rs Let_def del: upt_Suc) blast
  obtain es1 where q1: "get_physical_device_properties sample_driver sample_physical ctx = (Inr 1, ctx\<lparr>vx_events := es1\<rparr>)" using q1 by blast
  obtain es2 counts where q2: "get_queue_family_properties sample_driver sample_physical (ctx\<lparr>vx_events := es1\<rparr>) =
      (Inr (1, counts), ctx\<lparr>vx_events := es2\<rparr>)" "counts ! 0 = 1" using q2 by blast
  have "\<exists>es. create_device_packed sample_driver ?r None ctx = register_device sample_driver ?r 1 1 (ctx\<lparr>vx_events := es\<rparr>)"
    using ok room rs q1 q2 by (simp add: create_device_packed_def Let_def fill_to_def) blast
  then obtain es where es: "create_device_packed sample_driver ?r None ctx = register_device sample_driver ?r 1 1 (ctx\<lparr>vx_events := es\<rparr>)" ..
  let ?c = "ctx\<lparr>vx_events := es\<rparr>"
  have serial: "vx_next_serial ctx OBJECT_DEVICE = 1" by (rule f(9)) (simp add: sample_ids)
  obtain t where a: "adopt_object OBJECT_DEVICE sample_physical 1 ?c = (Inr sample_device,
      ?c\<lparr>vx_next_serial := (vx_next_serial ctx)(OBJECT_DEVICE := 2), vx_objects := t\<rparr>)"
      "handle_map t = ?m(sample_device \<mapsto> (sample_physical, 1))"
    using adopt_fresh [of ?c OBJECT_DEVICE sample_physical 1] f(3,5,6) serial sample_ids by auto
  obtain slot where slot: "device_metadata_slot ctx 0 = Some slot" using f(7) by auto
  have slot': "device_metadata_slot ?c 0 = Some slot" using slot by (simp add: device_metadata_slot_def)
  have packed: "create_device sample_driver (sample_device_request sample_physical) None ctx = create_device_packed sample_driver ?r None ctx"
    by (simp add: create_device_def sample_device_request_def)
  obtain n where n: "snd (create_device sample_driver (sample_device_request sample_physical) None ctx) = n"
      "vx_objects n = t" "vx_get_device_proc_addr n = vx_get_device_proc_addr ctx" "vx_memory_mirrors n = vx_memory_mirrors ctx"
    unfolding packed es using a(1) slot' by (simp add: register_device_def Let_def)
  have "vk_reachable sample_driver n" using vk_reachable.step [OF f(1) create_device_step] n(1) by metis
  then show ?thesis using n f(4,8) a(2) by auto
qed

text \<open>The last call of a device's teardown.\<close>

lemma destroyed_last:
  assumes "destroy_device drv w ctx = (Inr (), ctx')" "lookup ctx w OBJECT_DEVICE = Inr (p, device)"
  shows "\<exists>es result outputs. vx_events ctx' = es @ [\<lparr>ev_function = Vk_Destroy OBJECT_DEVICE, ev_device = Some device, ev_args = [device],
     ev_result = result, ev_outputs = outputs\<rparr>] \<and>
     (result, outputs) = drv_answer drv es (Vk_Destroy OBJECT_DEVICE) (Some device) [device]"
  using assms by (auto simp: destroy_device_def vk_call_def split: sum.splits prod.splits if_splits)

lemma sample_answer [simp]: "drv_answer sample_driver es f d args = (0, [1, 1])"
  by (simp add: sample_driver_def)

subsection \<open>What holds after any requests\<close>









end
