(* ===== verification/Spec2Isabelle.thy ===== *)
theory Spec2Isabelle
  imports Proto_Header Proto_Messages Proto_Array Proto_Sized Pipeline_Wire Service_Journal Handle Lifecycle Frame_Sync Wsi_Frame_Ring Descriptor_Ring
    Transport Transport_Setup Command_Batch Command_Generations Command_Structures
    Service_Activity Vulkan_Runs
begin

text \<open>
  \<^bold>\<open>bionic-vulkan-bridge: a verification development\<close>

  The program lets a Vulkan application in one process drive a Vulkan driver in another. A client
  library (src/src/global_dispatch.c, src/src/bridge_client.c) turns Vulkan calls into requests, a
  service (src/src/bridge_service.c over src/src/vulkan_global.c) runs them and answers. Requests and
  answers are packets of a 24-byte header and a fixed-layout payload (src/src/protocol.c); objects
  travel as typed 64-bit identifiers that the service keeps in a hash table (src/src/handle.c). What
  is too frequent for packets goes through shared memory: a pair of sequence words for frames
  (src/src/frame_sync.c), a ring of swapchain images (src/src/wsi_frame_ring.c), and a ring of
  descriptor transactions with banks of pre-allocated descriptor sets
  (src/src/descriptor_transaction_ring.c). An Android activity reports its life to the service in
  authenticated records (src/src/lifecycle.c).

  \<^bold>\<open>Theories and the code they model\<close>

  \<^item> Bvb_Prelude, Bvb_Wire: machine types, error numbers, null-pointer checks; byte buffers with the
    little-endian readers and writers of protocol.c (and their copies in lifecycle.c), and the laws
    that let a read see through a sequence of writes. \<open>wire_field\<close> is the interface of a field of
    fixed width, interpreted for 32-bit and 64-bit words and for swapchain image records.
  \<^item> Wire_Codec: the contract of a message codec as locales (\<open>wire_codec\<close>, \<open>agreed_codec\<close>,
    \<open>array_codec\<close>, \<open>shaped_codec\<close>) and as the predicate \<open>codec_contract\<close>.
  \<^item> Proto_Base, Proto_Header and Proto_Session, Proto_Instance, Proto_Device, Proto_Command,
    Proto_Resource, Proto_Submit, Proto_Memory_Io, Proto_Batch, Proto_Array: the header and the
    fixed-size messages, a record and an encoder/decoder pair for each, in the order of protocol.c;
    \<open>encode_x\<close> and \<open>decode_x\<close> are \<^verbatim>\<open>bvb_protocol_encode_x\<close> and \<^verbatim>\<open>bvb_protocol_decode_x\<close>. Each pair is an
    interpretation of one of the codec locales; Proto_Messages states the contract for all of them.
  \<^item> Proto_Variable, Proto_Submission, Proto_Names, Proto_Caps, Proto_Packed: the messages whose length
    depends on their contents, as interpretations of \<open>sized_codec\<close>; Proto_Sized states their contract.
    The encoders clear the message and write into it at computed offsets, so most proofs see the buffer as
    the part written and the rest.
  \<^item> Wire_Canonical, Descriptor_Wire, Descriptor_Update, Pipeline_Wire: vulkan_descriptor_wire.c and
    vulkan_pipeline_wire.c, whose decoders encode what they read once more to check it. The locale
    \<open>rechecked\<close> derives the contract, and that a message is the only encoding of its object, from the laws
    of the loops and guards; \<open>covers\<close> follows the encoder over the bytes that arrived.
  \<^item> Handle: handle.c. \<open>handle_map\<close> abstracts a table to a finite map; \<open>handle_registry\<close> is the
    interface the service relies on.
  \<^item> Lifecycle: lifecycle.c, with the token parser.
  \<^item> Futex: the waiting helpers the shared-memory components have in common. Clock readings and
    results of the \<^verbatim>\<open>futex\<close> call are arguments; a waiting loop runs against a sequence of views, one
    per iteration, so the peer may do anything between two of them.
  \<^item> Frame_Sync, Wsi_Frame_Ring, Descriptor_Ring: the three shared-memory components. Frame_Sync and
    Wsi_Frame_Ring also have a step relation (\<open>fs_step\<close>, \<open>wsi_step\<close>) whose steps are the single atomic
    accesses of the code, so that invariants hold in every interleaving; \<open>frame_queue\<close> is the
    interface of the swapchain ring.
  \<^item> Transport, Transport_Setup: transport.c. Packets and descriptors over a stream socket, against
    any sequence of short reads and writes, interruptions and errors (a call whose events run out is
    still blocked: None); the set-up of the sockets, against any answers of the system calls, with the
    calls made as a trace.
  \<^item> Command_Check, Command_Batch, Command_Generations, Command_Fields, Command_Codec,
    Command_Arrays, Command_Contracts, Command_Structures: command_batch.c.
    Vulkan commands are recorded into batches, a header and a sequence of records, that the service
    validates as a whole before it runs any of them: the checks, one definition per case of the switch;
    the builder, the validator and the iterator; the table of sequence numbers that keeps a batch from
    running twice; the structures inside payloads, as instances of \<open>wire_field\<close>; the append and decode
    functions of the commands, first those made of scalars and then those with arrays, as instances of
    \<open>command_codec\<close>, whose proofs for the arrays are in the last two theories.
  \<^item> Service_Journal: the descriptor journal, client (global_dispatch.c) and service (bridge_service.c),
    with the exchange between them; \<open>journal_inv\<close> says where every accepted update is.
  \<^item> Service_Activity: the part of bridge_service.c that listens to the Android activity, refined to
    the life of an activity without words and bits (\<open>live\<close>).
  \<^item> Vulkan_Context, Vulkan_Registry, Vulkan_Objects, Vulkan_Descriptors, Vulkan_Resources, Vulkan_Lifetime:
    the objects of vulkan_global.c, the context with its table and arrays and the operations that create,
    use and destroy objects; each is the \<^verbatim>\<open>bvb_vulkan_global_context_\<close> function of its name. The driver is a
    parameter: the entry points it has and any answers to the calls, which the context keeps as a list of
    events. Vulkan_Teardown and Vulkan_Runs prove what \<open>context_inv\<close> says of any run (\<open>vk_step\<close>,
    \<open>vk_reachable\<close>). \<open>object_destroyer\<close> is what the loops over the table ask of an operation that destroys
    an object, \<open>object_sweep\<close> derives what such a loop does.

  \<^bold>\<open>How code becomes definitions\<close>

  A C function that returns 0 or a negative error number is a function into \<open>errno + 'a\<close>, or into
  an integer status paired with the changed state where the code changes state on an error path
  too. A pointer argument that may be null is an option. \<^verbatim>\<open>uint32_t\<close> and its relatives are words, so
  arithmetic wraps as in C. A structure is a record; an array in it a list of the array's length,
  which the lemmas assume as the object's shape. A decoder returns the object it would store
  through its result pointer; what a failing decoder may already have stored there is not
  modelled, as no caller reads it. A shared mapping is a record, and the functions that change it return it.

  \<^bold>\<open>Loops and fuel\<close>

  Bounded loops are structural recursions over the iterations left, started with exactly the bound
  of the code (the table's capacity for a probe, the slot count for a scan, 64 banks for a claim).
  The waiting loops, which only the clock bounds, are \<open>poll_loop\<close>, a \<open>partial_function (option)\<close>: not
  returning is None, and that they do return once the clock reaches the deadline is proved.

  \<^bold>\<open>What is shown\<close>

  Codecs: what a sender may send is read back unchanged, what it may not send is refused before a
  byte is written, what a receiver accepts passes the same check; where the two sides of a message
  disagree, the disagreement is stated exactly. Handles: the table refines a bounded finite map
  under any sequence of operations. Shared memory: invariants over all interleavings, first-in
  first-out delivery, no lost or doubled lease, transactions end to end, waits that return, failures
  that stick. Transport: packets arrive as sent however the kernel cuts them, descriptors are neither
  lost nor leaked. Command batches: the validator accepts exactly the byte strings that are batches,
  what was appended is what the other side iterates over and decodes, no batch runs twice. Activity:
  the reported status is what the accepted events make of it, whatever else arrives. Vulkan objects: after any
  requests the table and the driver agree on what is alive, no call names an object that is gone, no object
  outlives its parent, and destroying a device removes what is below it and nothing else.

  \<^bold>\<open>Not modelled\<close>

  Of vulkan_global.c: finding the loader, pipeline creation, the replay of commands, the contents of
  descriptors and of mirrored memory, submissions of command buffers, and making and presenting swapchains;
  the teardown of swapchains is modelled, but the runs have none. The client's entry points (global_dispatch.c, triangle_dispatch.c) marshal
  structures of Vulkan headers that are not in the repository; the clients, relays, probes and the Android host are
  input and output. Memory is sequentially consistent in the step relations; the orderings the
  code requests are at least acquire and release.
\<close>

end
